(* ===== verification/GoBase.thy ===== *)
theory GoBase
  imports Main "HOL-Library.Word"
begin

text \<open>
  The prelude of the development: the part of Go the sources under \<open>src/\<close> use.

  \<^item> Machine integers are words (\<open>uint8\<close> is \<open>8 word\<close>, and so on), so additions wrap and
    conversions truncate exactly where Go's do. An \<open>int\<close> that counts bytes is a \<open>nat\<close>: the
    sources only add to such values or subtract after a comparison.
  \<^item> A \<open>[]byte\<close> is a \<open>byte list\<close>; a \<open>string\<close> is Isabelle's \<open>string\<close> (one character per byte).
    The difference between a nil and an empty slice is not kept.
  \<^item> A call that can fail returns \<open>failure + 'a\<close>: \<open>Inl (Error e)\<close> is an error value the Go
    function returns, \<open>Inl (Panic p)\<close> a run-time panic. Reads and writes go through
    \<open>byte_at\<close>, \<open>slice\<close>, \<open>write_at\<close> and \<open>copy_at\<close>, which panic out of range, so a missing
    length check of the source is a \<open>Panic\<close> of the model and not an unspecified value.
    A slice expression is checked against the length: the buffers of the program are made with
    equal length and capacity. The few functions that slice beyond the length of a part of a
    larger buffer take the bytes behind that part as an argument.
\<close>

unbundle bit_operations_syntax

section \<open>Integers, bytes and errors\<close>

type_synonym byte = "8 word"
type_synonym u16 = "16 word"
type_synonym u32 = "32 word"
type_synonym u64 = "64 word"
type_synonym bytes = "byte list"

text \<open>The error values of the packages, each prefixed with the package that declares it.\<close>

datatype go_error =
    IoErrUnexpectedEOF
  | IEErrTooShortToParse
  | IEErrTooShortToMarshal
  | IEErrInvalidLength
  | IEErrInvalidType
  | IEErrIENotFound
  | IEErrIEValueNotFound
  | IEErrMalformed
  | IEInvalidTypeError byte
  | MsgErrInvalidLength
  | MsgErrTooShortToParse
  | MsgErrTooShortToMarshal
  | MsgErrInvalidMessageType
  | GtpErrInvalidVersion
  | GtpErrTooShortToParse
  | HexInvalidByteError
  | HexErrLength
  | V2ErrTEIDNotFound
  | V2ErrTimeout
  | V2RequiredParameterMissing
  | V2UnexpectedType
  | V2InvalidVersion nat
  | V2InvalidSequence u32
  | V2InvalidTEID u32
  | V2UnknownIMSI string
  | V2InvalidSession string
  | V2BearerNotFound string
  | V2HandlerNotFound byte
  | V2RequiredIEMissing byte
  | V2CauseNotOK byte
  | V2UnexpectedIE byte
  | V1HandlerNotFound byte
  | V1ErrUnexpectedType
  | V1ErrInvalidConnection
  | V1ErrConnNotOpened
  | V1KernelGTPInUse
  | V1KernelGTPNotInUse
  | NetError
  | UserError nat

datatype go_panic =
    IndexOutOfRange
  | SliceBoundsOutOfRange
  | MakeSliceLenOutOfRange
  | NilDereference
  | CloseOfClosedChannel
  | FailedTypeAssertion

datatype failure = Error go_error | Panic go_panic

type_synonym 'a result = "failure + 'a"

text \<open>Sequencing: the early \<open>return err\<close> of the sources, and the propagation of a panic.\<close>

definition andThen :: "'a result \<Rightarrow> ('a \<Rightarrow> 'b result) \<Rightarrow> 'b result" where
  "andThen r f = (case r of Inl e \<Rightarrow> Inl e | Inr x \<Rightarrow> f x)"

definition no_panic :: "'a result \<Rightarrow> bool" where
  "no_panic r = (case r of Inl (Panic p) \<Rightarrow> False | _ \<Rightarrow> True)"

definition is_ok :: "'a result \<Rightarrow> bool" where
  "is_ok r = (case r of Inl e \<Rightarrow> False | Inr x \<Rightarrow> True)"

named_theorems go_simps \<open>the byte primitives on arguments that are in range\<close>
named_theorems roundtrip_simps \<open>decoding what an encoder wrote\<close>

lemma andThen_Inl [simp]: "andThen (Inl e) f = Inl e"
  and andThen_Inr [simp]: "andThen (Inr x) f = f x"
  by (simp_all add: andThen_def)

lemma andThen_cong [fundef_cong]:
  "r = r' \<Longrightarrow> (\<And>x. r' = Inr x \<Longrightarrow> f x = g x) \<Longrightarrow> andThen r f = andThen r' g"
  by (cases r') (auto simp: andThen_def)

lemma andThen_eq_Inr: "andThen r f = Inr y \<longleftrightarrow> (\<exists>x. r = Inr x \<and> f x = Inr y)"
  by (cases r) auto

lemma andThen_eq_Inl:
  "andThen r f = Inl e \<longleftrightarrow> r = Inl e \<or> (\<exists>x. r = Inr x \<and> f x = Inl e)"
  by (cases r) auto

lemma andThen_if: "andThen (if c then r else s) f = (if c then andThen r f else andThen s f)"
  by simp

lemma no_panic_simps [simp]:
  "no_panic (Inr x)" "no_panic (Inl (Error e))" "\<not> no_panic (Inl (Panic p))"
  by (simp_all add: no_panic_def)

lemma no_panic_Inl [simp]: "no_panic (Inl e) \<longleftrightarrow> (\<forall>p. e \<noteq> Panic p)"
  by (cases e) simp_all

lemma no_panic_andThen:
  "no_panic r \<Longrightarrow> (\<And>x. r = Inr x \<Longrightarrow> no_panic (f x)) \<Longrightarrow> no_panic (andThen r f)"
  by (cases r) (auto simp: no_panic_def)

lemma is_ok_simps [simp]: "is_ok (Inr x)" "\<not> is_ok (Inl e)"
  by (simp_all add: is_ok_def)

lemma is_ok_iff: "is_ok r \<longleftrightarrow> (\<exists>x. r = Inr x)"
  by (cases r) auto

abbreviation eof :: "'a result" where
  "eof \<equiv> Inl (Error IoErrUnexpectedEOF)"

section \<open>Reading and writing byte slices\<close>

text \<open>\<open>b[i]\<close>, \<open>b[i:j]\<close> and \<open>b[i:]\<close>.\<close>

definition byte_at :: "bytes \<Rightarrow> nat \<Rightarrow> byte result" where
  "byte_at b i = (if i < length b then Inr (b ! i) else Inl (Panic IndexOutOfRange))"

definition slice :: "bytes \<Rightarrow> nat \<Rightarrow> nat \<Rightarrow> bytes result" where
  "slice b i j = (if i \<le> j \<and> j \<le> length b then Inr (take (j - i) (drop i b))
                  else Inl (Panic SliceBoundsOutOfRange))"

definition slice_from :: "bytes \<Rightarrow> nat \<Rightarrow> bytes result" where
  "slice_from b i = slice b i (length b)"

text \<open>
  \<open>write_at b i xs\<close> stores all of \<open>xs\<close> from index \<open>i\<close> on (\<open>b[i] = x\<close>, or a \<open>PutUintN\<close> into
  \<open>b[i:i+N]\<close>). \<open>copy_at b i j xs\<close> is \<open>copy(b[i:j], xs)\<close>, which copies as much as fits.
\<close>

definition write_at :: "bytes \<Rightarrow> nat \<Rightarrow> bytes \<Rightarrow> bytes result" where
  "write_at b i xs = (if i + length xs \<le> length b then Inr (take i b @ xs @ drop (i + length xs) b)
                      else Inl (Panic IndexOutOfRange))"

definition copy_at :: "bytes \<Rightarrow> nat \<Rightarrow> nat \<Rightarrow> bytes \<Rightarrow> bytes result" where
  "copy_at b i j xs =
     (if i \<le> j \<and> j \<le> length b
      then Inr (take i b @ take (j - i) xs @ drop (i + min (j - i) (length xs)) b)
      else Inl (Panic SliceBoundsOutOfRange))"

text \<open>\<open>within b i j f\<close> lets \<open>f\<close>, a function that fills a slice, work on \<open>b[i:j]\<close>.\<close>

definition within :: "bytes \<Rightarrow> nat \<Rightarrow> nat \<Rightarrow> (bytes \<Rightarrow> bytes result) \<Rightarrow> bytes result" where
  "within b i j f =
     andThen (slice b i j) (\<lambda>s. andThen (f s) (\<lambda>s'. Inr (take i b @ s' @ drop j b)))"

lemma byte_at_ok [go_simps]: "i < length b \<Longrightarrow> byte_at b i = Inr (b ! i)"
  by (simp add: byte_at_def)

lemma slice_ok [go_simps]: "i \<le> j \<Longrightarrow> j \<le> length b \<Longrightarrow> slice b i j = Inr (take (j - i) (drop i b))"
  by (simp add: slice_def)

lemma slice_from_ok [go_simps]: "i \<le> length b \<Longrightarrow> slice_from b i = Inr (drop i b)"
  by (simp add: slice_from_def slice_def)

lemma slice_from_append [go_simps]: "slice_from (xs @ ys) (length xs) = Inr ys"
  by (simp add: slice_from_ok)

lemma slice_from_panics: "length b < i \<Longrightarrow> slice_from b i = Inl (Panic SliceBoundsOutOfRange)"
  by (simp add: slice_from_def slice_def)

lemma write_at_ok [go_simps]:
  "i + length xs \<le> length b \<Longrightarrow> write_at b i xs = Inr (take i b @ xs @ drop (i + length xs) b)"
  by (simp add: write_at_def)

lemma write_at_length: "write_at b i xs = Inr b' \<Longrightarrow> length b' = length b"
  by (auto simp: write_at_def split: if_splits)

lemma write_at_append [go_simps]:
  "length old = length xs \<Longrightarrow> write_at (pre @ old @ post) (length pre) xs = Inr (pre @ xs @ post)"
  by (simp add: write_at_def)

lemma copy_at_length: "copy_at b i j xs = Inr b' \<Longrightarrow> length b' = length b"
  by (auto simp: copy_at_def min_def split: if_splits)

lemma copy_at_all [go_simps]:
  "i + length xs = j \<Longrightarrow> j \<le> length b \<Longrightarrow> copy_at b i j xs = Inr (take i b @ xs @ drop j b)"
  by (simp add: copy_at_def)

lemma within_append:
  "i = length pre \<Longrightarrow> j = length pre + length mid \<Longrightarrow> f mid = Inr mid' \<Longrightarrow>
     within (pre @ mid @ post) i j f = Inr (pre @ mid' @ post)"
  by (simp add: within_def slice_def)

section \<open>Big-endian integers\<close>

definition be16 :: "u16 \<Rightarrow> bytes" where
  "be16 v = [ucast (drop_bit 8 v), ucast v]"

definition be32 :: "u32 \<Rightarrow> bytes" where
  "be32 v = [ucast (drop_bit 24 v), ucast (drop_bit 16 v), ucast (drop_bit 8 v), ucast v]"

definition be64 :: "u64 \<Rightarrow> bytes" where
  "be64 v = [ucast (drop_bit 56 v), ucast (drop_bit 48 v), ucast (drop_bit 40 v),
             ucast (drop_bit 32 v), ucast (drop_bit 24 v), ucast (drop_bit 16 v),
             ucast (drop_bit 8 v), ucast v]"

definition join16 :: "byte \<Rightarrow> byte \<Rightarrow> u16" where
  "join16 a b = push_bit 8 (ucast a) OR ucast b"

definition join32 :: "byte \<Rightarrow> byte \<Rightarrow> byte \<Rightarrow> byte \<Rightarrow> u32" where
  "join32 a b c d =
     push_bit 24 (ucast a) OR push_bit 16 (ucast b) OR push_bit 8 (ucast c) OR ucast d"

text \<open>\<open>binary.BigEndian.Uint16(b[i:i+2])\<close> and \<open>binary.BigEndian.Uint32(b[i:i+4])\<close>.\<close>

definition get16 :: "bytes \<Rightarrow> nat \<Rightarrow> u16 result" where
  "get16 b i = (if i + 2 \<le> length b then Inr (join16 (b ! i) (b ! (i + 1)))
                else Inl (Panic SliceBoundsOutOfRange))"

definition get32 :: "bytes \<Rightarrow> nat \<Rightarrow> u32 result" where
  "get32 b i = (if i + 4 \<le> length b
                then Inr (join32 (b ! i) (b ! (i + 1)) (b ! (i + 2)) (b ! (i + 3)))
                else Inl (Panic SliceBoundsOutOfRange))"

lemma get16_ok [go_simps]: "i + 2 \<le> length b \<Longrightarrow> get16 b i = Inr (join16 (b ! i) (b ! (i + 1)))"
  by (simp add: get16_def)

lemma get32_ok [go_simps]:
  "i + 4 \<le> length b \<Longrightarrow>
     get32 b i = Inr (join32 (b ! i) (b ! (i + 1)) (b ! (i + 2)) (b ! (i + 3)))"
  by (simp add: get32_def)

lemma be_lengths [simp]: "length (be16 v) = 2" "length (be32 w) = 4" "length (be64 x) = 8"
  by (simp_all add: be16_def be32_def be64_def)

lemma byte_bit_high: "8 \<le> n \<Longrightarrow> \<not> bit (b :: byte) n"
  using bit_imp_le_length [of b n] by auto

lemma byte_bit_less: "bit (b :: byte) n \<Longrightarrow> n < 8"
  using byte_bit_high [of n b] by (auto simp: not_le [symmetric])

lemma join16_be16 [simp]: "join16 (ucast (drop_bit 8 v)) (ucast v) = v"
  unfolding join16_def by (rule bit_word_eqI) (auto simp: bit_simps)

lemma be16_join16 [simp]: "be16 (join16 a b) = [a, b]"
  by (auto simp: be16_def join16_def intro!: bit_word_eqI)
     (auto simp: bit_simps byte_bit_high)

lemma join32_be32 [simp]:
  "join32 (ucast (drop_bit 24 v)) (ucast (drop_bit 16 v)) (ucast (drop_bit 8 v)) (ucast v) = v"
  unfolding join32_def by (rule bit_word_eqI) (auto simp: bit_simps split: nat_diff_split)

lemma be32_join32 [simp]: "be32 (join32 a b c d) = [a, b, c, d]"
  by (auto simp: be32_def join32_def intro!: bit_word_eqI)
     (auto simp: bit_simps byte_bit_high)

text \<open>
  Two bytes are equal when their eight bits are: the goals this rule leaves have a concrete bit
  index, so the simplifier evaluates every mask and shift of a flag octet.
\<close>

lemma byte_eqI:
  assumes "bit x 0 = bit y 0" "bit x 1 = bit y 1" "bit x 2 = bit y 2" "bit x 3 = bit y 3"
    and "bit x 4 = bit y 4" "bit x 5 = bit y 5" "bit x 6 = bit y 6" "bit x 7 = bit y 7"
  shows "x = (y :: byte)"
proof (rule bit_word_eqI)
  fix n :: nat
  assume "n < LENGTH(8)"
  then have "n \<in> {0, 1, 2, 3, 4, 5, 6, 7}" by auto
  then show "bit x n = bit y n" using assms by auto
qed

lemma byte_bits_disjoint:
  assumes "\<not> (bit x 0 \<and> bit y 0)" "\<not> (bit x 1 \<and> bit y 1)" "\<not> (bit x 2 \<and> bit y 2)"
    and "\<not> (bit x 3 \<and> bit y 3)" "\<not> (bit x 4 \<and> bit y 4)" "\<not> (bit x 5 \<and> bit y 5)"
    and "\<not> (bit x 6 \<and> bit y 6)" "\<not> (bit x 7 \<and> bit (y :: byte) 7)"
  shows "\<not> bit x n \<or> \<not> bit y n"
proof (cases "n < 8")
  case True
  then have "n \<in> {0, 1, 2, 3, 4, 5, 6, 7}" by auto
  then show ?thesis using assms by auto
next
  case False
  then show ?thesis by (simp add: byte_bit_high)
qed

text \<open>A length that fits its field survives the conversion to the field and back.\<close>

lemma unat_of_nat_u16 [simp]: "n < 65536 \<Longrightarrow> unat (of_nat n :: u16) = n"
  by (simp add: unat_of_nat)

lemma unat_u16_less: "unat (x :: u16) < 65536"
  using unsigned_less [of x] by simp

lemma of_nat_unat_u16: "of_nat (unat (x :: u16)) = x"
  by simp

section \<open>Lists\<close>

lemma take_drop_split: "n \<le> length b \<Longrightarrow> \<exists>xs ys. b = xs @ ys \<and> length xs = n"
  by (rule exI [of _ "take n b"], rule exI [of _ "drop n b"]) simp

lemma drop_numeral_add: "drop (numeral k + n) xs = drop n (drop (numeral k) xs)"
  by (simp add: ac_simps)

lemma take_rest [simp]: "\<exists>r. b = take n b @ r"
  by (metis append_take_drop_id)

lemma two_cases:
  assumes "2 \<le> length b" obtains x0 x1 r where "b = x0 # x1 # r"
  using assms that by (auto simp: numeral_eq_Suc Suc_le_length_iff)

lemma four_cases:
  assumes "4 \<le> length b" obtains x0 x1 x2 x3 r where "b = x0 # x1 # x2 # x3 # r"
  using assms that by (auto simp: numeral_eq_Suc Suc_le_length_iff)

lemma eight_cases:
  assumes "8 \<le> length b"
  obtains x0 x1 x2 x3 x4 x5 x6 x7 r where "b = x0 # x1 # x2 # x3 # x4 # x5 # x6 # x7 # r"
  using assms that by (auto simp: numeral_eq_Suc Suc_le_length_iff)

lemma twelve_cases:
  assumes "12 \<le> length b"
  obtains x0 x1 x2 x3 x4 x5 x6 x7 x8 x9 xa xb r
    where "b = x0 # x1 # x2 # x3 # x4 # x5 # x6 # x7 # x8 # x9 # xa # xb # r"
  using assms that by (auto simp: numeral_eq_Suc Suc_le_length_iff)

end
