(* ===== verification/GtpUtils.thy ===== *)
theory GtpUtils
  imports GoBase
begin

text \<open>
  The package \<open>utils\<close> (\<open>src/utils/utils.go\<close>): swapped-nibble (TBCD) strings, 24-bit and 40-bit
  integers, the PLMN code and the E-UTRAN cell identity. \<open>encoding/hex\<close> of the standard library
  is modelled as its documentation describes it. The lemmas are the round trips of each pair of
  functions, over the digit strings the protocol uses.
\<close>

section \<open>Hexadecimal strings\<close>

definition char_code :: "char \<Rightarrow> nat" where
  "char_code c = of_char c"

definition hex_val :: "char \<Rightarrow> byte option" where
  "hex_val c =
     (let n = char_code c in
      if 48 \<le> n \<and> n \<le> 57 then Some (of_nat (n - 48))
      else if 97 \<le> n \<and> n \<le> 102 then Some (of_nat (n - 87))
      else if 65 \<le> n \<and> n \<le> 70 then Some (of_nat (n - 55))
      else None)"

definition hex_char :: "byte \<Rightarrow> char" where
  "hex_char v = ''0123456789abcdef'' ! unat (v AND 15)"

definition pack :: "byte \<Rightarrow> byte \<Rightarrow> byte" where
  "pack hi lo = push_bit 4 hi OR lo"

text \<open>\<open>hex.DecodeString\<close> and \<open>hex.EncodeToString\<close>.\<close>

fun hex_DecodeString :: "string \<Rightarrow> bytes result" where
  "hex_DecodeString [] = Inr []"
| "hex_DecodeString [c] =
     (case hex_val c of None \<Rightarrow> Inl (Error HexInvalidByteError) | Some _ \<Rightarrow> Inl (Error HexErrLength))"
| "hex_DecodeString (c # d # s) =
     (case hex_val c of None \<Rightarrow> Inl (Error HexInvalidByteError)
      | Some hi \<Rightarrow> (case hex_val d of None \<Rightarrow> Inl (Error HexInvalidByteError)
      | Some lo \<Rightarrow> andThen (hex_DecodeString s) (\<lambda>bs. Inr (pack hi lo # bs))))"

definition hex_pair :: "byte \<Rightarrow> string" where
  "hex_pair b = [hex_char (drop_bit 4 b), hex_char b]"

definition hex_EncodeToString :: "bytes \<Rightarrow> string" where
  "hex_EncodeToString b = concat (map hex_pair b)"

section \<open>The functions of utils.go\<close>

definition swap_byte :: "byte \<Rightarrow> byte" where
  "swap_byte x = (drop_bit 4 x AND 0xf) + (push_bit 4 x AND 0xf0)"

definition swap :: "bytes \<Rightarrow> bytes" where
  "swap raw = map swap_byte raw"

definition StrToSwappedBytes :: "string \<Rightarrow> string \<Rightarrow> bytes result" where
  "StrToSwappedBytes s filler =
     andThen (if length s mod 2 = 0 then hex_DecodeString s else hex_DecodeString (s @ filler))
       (\<lambda>raw. Inr (swap raw))"

definition SwappedBytesToStr :: "bytes \<Rightarrow> bool \<Rightarrow> string" where
  "SwappedBytesToStr raw cutLastDigit =
     (if length raw = 0 then []
      else let s = hex_EncodeToString (swap raw)
           in if cutLastDigit then take (length s - 1) s else s)"

definition Uint24To32 :: "bytes \<Rightarrow> u32" where
  "Uint24To32 b =
     (if length b \<noteq> 3 then 0
      else push_bit 16 (ucast (b ! 0)) OR push_bit 8 (ucast (b ! 1)) OR ucast (b ! 2))"

definition Uint32To24 :: "u32 \<Rightarrow> bytes" where
  "Uint32To24 n = [ucast (drop_bit 16 n), ucast (drop_bit 8 n), ucast n]"

definition Uint40To64 :: "bytes \<Rightarrow> u64" where
  "Uint40To64 b =
     (if length b \<noteq> 5 then 0
      else push_bit 32 (ucast (b ! 0)) OR push_bit 24 (ucast (b ! 1)) OR
           push_bit 16 (ucast (b ! 2)) OR push_bit 8 (ucast (b ! 3)) OR ucast (b ! 4))"

definition Uint64To40 :: "u64 \<Rightarrow> bytes" where
  "Uint64To40 n =
     [ucast (drop_bit 32 n), ucast (drop_bit 24 n), ucast (drop_bit 16 n),
      ucast (drop_bit 8 n), ucast n]"

definition EncodePLMN :: "string \<Rightarrow> string \<Rightarrow> bytes result" where
  "EncodePLMN mcc mnc =
     andThen (StrToSwappedBytes mcc ''f'') (\<lambda>c.
     andThen (StrToSwappedBytes mnc ''f'') (\<lambda>n.
     if length mnc = 2 then Inr (c @ n)
     else
       andThen (byte_at c 0) (\<lambda>c0.
       andThen (byte_at c 1) (\<lambda>c1.
       andThen (byte_at n 1) (\<lambda>n1.
       andThen (byte_at n 0) (\<lambda>n0.
         Inr [c0, (c1 AND 0x0f) OR (push_bit 4 n1 AND 0xf0), n0]))))))"

definition str_at :: "string \<Rightarrow> nat \<Rightarrow> char result" where
  "str_at s i = (if i < length s then Inr (s ! i) else Inl (Panic IndexOutOfRange))"

definition DecodeMNC :: "bytes \<Rightarrow> string result" where
  "DecodeMNC b =
     (let raw = hex_EncodeToString b in
      andThen (str_at raw 0) (\<lambda>r0.
      andThen (str_at raw 3) (\<lambda>r3.
      andThen (str_at raw 2) (\<lambda>r2.
        if r0 = CHR ''f'' then Inr [r3, r2] else Inr [r3, r2, r0]))))"

definition DecodeMCC :: "bytes \<Rightarrow> string result" where
  "DecodeMCC b =
     (let raw = hex_EncodeToString b in
      andThen (str_at raw 1) (\<lambda>r1.
      andThen (str_at raw 0) (\<lambda>r0.
      andThen (str_at raw 3) (\<lambda>r3. Inr [r1, r0, r3]))))"

definition DecodePLMN :: "bytes \<Rightarrow> (string \<times> string) result" where
  "DecodePLMN b =
     andThen (andThen (slice b 0 2) DecodeMCC) (\<lambda>mcc.
     andThen (andThen (slice b 1 3) DecodeMNC) (\<lambda>mnc. Inr (mcc, mnc)))"

definition ParseECI :: "u32 \<Rightarrow> u32 \<times> byte" where
  "ParseECI eci =
     (let buf = be32 eci
      in (join32 0 (buf ! 0) (buf ! 1) (buf ! 2), buf ! 3))"

section \<open>24-bit and 40-bit integers\<close>

lemma Uint32To24_length [simp]: "length (Uint32To24 n) = 3"
  by (simp add: Uint32To24_def)

lemma Uint64To40_length [simp]: "length (Uint64To40 n) = 5"
  by (simp add: Uint64To40_def)

lemma Uint24To32_Uint32To24 [roundtrip_simps]: "Uint24To32 (Uint32To24 n) = take_bit 24 n"
  unfolding Uint24To32_def Uint32To24_def
  by (rule bit_word_eqI) (auto simp: bit_simps split: nat_diff_split)

lemma Uint32To24_Uint24To32 [roundtrip_simps]:
  "Uint32To24 (Uint24To32 [a, b, c]) = [a, b, c]"
  by (auto simp: Uint24To32_def Uint32To24_def intro!: bit_word_eqI)
     (auto simp: bit_simps byte_bit_high)

lemma Uint24To32_bound: "unat (Uint24To32 b) < 2 ^ 24"
proof -
  have "Uint24To32 b = take_bit 24 (Uint24To32 b)"
    unfolding Uint24To32_def
    by (rule bit_word_eqI)
       (auto simp: bit_simps not_less [symmetric] dest: byte_bit_less split: nat_diff_split)
  then have "unat (Uint24To32 b) = take_bit 24 (unat (Uint24To32 b))"
    by (metis unsigned_take_bit_eq)
  then show ?thesis by (metis take_bit_nat_less_exp)
qed

lemma Uint40To64_Uint64To40 [roundtrip_simps]: "Uint40To64 (Uint64To40 n) = take_bit 40 n"
  unfolding Uint40To64_def Uint64To40_def
  by (rule bit_word_eqI) (auto simp: bit_simps split: nat_diff_split)

lemma Uint64To40_Uint40To64 [roundtrip_simps]:
  "Uint64To40 (Uint40To64 [a, b, c, d, e]) = [a, b, c, d, e]"
  by (auto simp: Uint40To64_def Uint64To40_def intro!: bit_word_eqI)
     (auto simp: bit_simps byte_bit_high)

lemma ParseECI_join:
  "ParseECI eci = (enb, cell) \<Longrightarrow> eci = push_bit 8 enb OR ucast cell \<and> enb = take_bit 24 enb"
  unfolding ParseECI_def be32_def join32_def Let_def
  by (auto intro!: bit_word_eqI) (auto simp: bit_simps split: nat_diff_split)

section \<open>Nibbles and hexadecimal digits\<close>

lemma swap_byte_eq: "swap_byte x = drop_bit 4 x OR push_bit 4 x"
proof -
  have "swap_byte x = (drop_bit 4 x AND 0xf) OR (push_bit 4 x AND 0xf0)"
    unfolding swap_byte_def
    by (rule disjunctive_add, rule byte_bits_disjoint) (simp_all add: bit_simps)
  also have "\<dots> = drop_bit 4 x OR push_bit 4 x"
    by (rule byte_eqI) (simp_all add: bit_simps byte_bit_high)
  finally show ?thesis .
qed

lemma swap_byte_swap_byte [simp]: "swap_byte (swap_byte x) = x"
  unfolding swap_byte_eq by (rule byte_eqI) (simp_all add: bit_simps byte_bit_high)

lemma swap_swap [simp]: "swap (swap b) = b"
  by (simp add: swap_def comp_def)

lemma swap_length [simp]: "length (swap b) = length b"
  by (simp add: swap_def)

text \<open>
  \<open>hex_digit\<close> holds of the digits \<open>hex.EncodeToString\<close> writes (lower case), \<open>dec_digit\<close> of the
  decimal digits of IMSI, MSISDN, MCC and MNC.
\<close>

definition hex_digit :: "char \<Rightarrow> bool" where
  "hex_digit c = (c \<in> set ''0123456789abcdef'')"

definition dec_digit :: "char \<Rightarrow> bool" where
  "dec_digit c = (c \<in> set ''0123456789'')"

definition nibble :: "char \<Rightarrow> byte" where
  "nibble c = (case hex_val c of Some v \<Rightarrow> v | None \<Rightarrow> 0)"

lemma dec_digit_hex: "dec_digit c \<Longrightarrow> hex_digit c"
  by (auto simp: dec_digit_def hex_digit_def)

lemma hex_val_digit: "hex_digit c \<Longrightarrow> hex_val c = Some (nibble c)"
  by (auto simp: hex_digit_def nibble_def hex_val_def char_code_def)

lemma hex_char_nibble: "hex_digit c \<Longrightarrow> hex_char (nibble c) = c"
  by (auto simp: hex_digit_def nibble_def hex_val_def char_code_def hex_char_def)

lemma nibble_high: "hex_digit c \<Longrightarrow> 4 \<le> n \<Longrightarrow> \<not> bit (nibble c) n"
proof -
  assume c: "hex_digit c" and n: "4 \<le> n"
  have "nibble c = take_bit 4 (nibble c)"
    using c by (auto simp: hex_digit_def nibble_def hex_val_def char_code_def)
  then show ?thesis using n by (metis bit_take_bit_iff not_le)
qed

lemma hex_val_f [simp]: "hex_val (CHR ''f'') = Some 15" "hex_digit (CHR ''f'')"
  by (simp_all add: hex_val_def char_code_def hex_digit_def)

lemma hex_char_mask: "hex_char (v AND 15) = hex_char v"
  by (simp add: hex_char_def and.assoc)

lemma hex_char_eqI: "v AND 15 = w AND 15 \<Longrightarrow> hex_char v = hex_char w"
  by (metis hex_char_mask)

lemma hex_pair_swap_pack:
  assumes "hex_digit c" "hex_digit d"
  shows "hex_pair (pack (nibble c) (nibble d)) = [c, d]"
    and "hex_pair (swap_byte (pack (nibble c) (nibble d))) = [d, c]"
proof -
  note high = nibble_high [OF assms(1)] nibble_high [OF assms(2)]
  have "drop_bit 4 (pack (nibble c) (nibble d)) AND 15 = nibble c AND 15"
    and lo: "pack (nibble c) (nibble d) AND 15 = nibble d AND 15"
    by (rule byte_eqI; simp add: pack_def bit_simps high byte_bit_high)+
  then have "hex_char (drop_bit 4 (pack (nibble c) (nibble d))) = c"
      and "hex_char (pack (nibble c) (nibble d)) = d"
    using assms by (metis hex_char_eqI hex_char_nibble)+
  then show "hex_pair (pack (nibble c) (nibble d)) = [c, d]" by (simp add: hex_pair_def)
  have "drop_bit 4 (swap_byte (pack (nibble c) (nibble d))) AND 15 = nibble d AND 15"
    and "swap_byte (pack (nibble c) (nibble d)) AND 15 = nibble c AND 15"
    by (rule byte_eqI; simp add: swap_byte_eq pack_def bit_simps high byte_bit_high)+
  then have "hex_char (drop_bit 4 (swap_byte (pack (nibble c) (nibble d)))) = d"
      and "hex_char (swap_byte (pack (nibble c) (nibble d))) = c"
    using assms by (metis hex_char_eqI hex_char_nibble)+
  then show "hex_pair (swap_byte (pack (nibble c) (nibble d))) = [d, c]"
    by (simp add: hex_pair_def)
qed

lemma hex_decode_encode:
  "list_all hex_digit s \<Longrightarrow> even (length s) \<Longrightarrow>
     \<exists>b. hex_DecodeString s = Inr b \<and> hex_EncodeToString b = s \<and> 2 * length b = length s"
proof (induction s rule: hex_DecodeString.induct)
  case (3 c d s)
  then obtain b where "hex_DecodeString s = Inr b" "hex_EncodeToString b = s"
    "2 * length b = length s" by (auto simp: hex_val_digit)
  with "3.prems" show ?case
    by (auto simp: hex_val_digit hex_EncodeToString_def hex_pair_swap_pack)
qed (auto simp: hex_EncodeToString_def)

lemma hex_DecodeString_error:
  "\<not> list_all (\<lambda>c. hex_val c \<noteq> None) s \<Longrightarrow> hex_DecodeString s = Inl (Error HexInvalidByteError)"
  by (induction s rule: hex_DecodeString.induct) (auto split: option.splits)

lemma hex_DecodeString_no_panic: "no_panic (hex_DecodeString s)"
  by (induction s rule: hex_DecodeString.induct)
     (auto split: option.splits intro!: no_panic_andThen)

lemma StrToSwappedBytes_no_panic: "no_panic (StrToSwappedBytes s f)"
  by (auto simp: StrToSwappedBytes_def hex_DecodeString_no_panic intro!: no_panic_andThen)

section \<open>Round trips of the swapped strings\<close>

lemma StrToSwappedBytes_even:
  assumes "list_all hex_digit s" "even (length s)"
  obtains b where "StrToSwappedBytes s f = Inr b" "SwappedBytesToStr b False = s"
    "2 * length b = length s"
proof -
  obtain b where b: "hex_DecodeString s = Inr b" "hex_EncodeToString b = s" "2 * length b = length s"
    using hex_decode_encode [OF assms] by blast
  then have "StrToSwappedBytes s f = Inr (swap b)"
    using assms(2) by (simp add: StrToSwappedBytes_def even_iff_mod_2_eq_zero)
  moreover have "SwappedBytesToStr (swap b) False = s"
    using b by (auto simp: SwappedBytesToStr_def)
  ultimately show thesis using that b(3) by simp
qed

lemma StrToSwappedBytes_odd:
  assumes "list_all hex_digit s" "odd (length s)"
  obtains b where "StrToSwappedBytes s ''f'' = Inr b" "SwappedBytesToStr b True = s"
    "SwappedBytesToStr b False = s @ ''f''" "2 * length b = length s + 1"
proof -
  have "list_all hex_digit (s @ ''f'')" "even (length (s @ ''f''))" using assms by auto
  then obtain b where b: "hex_DecodeString (s @ ''f'') = Inr b"
      "hex_EncodeToString b = s @ ''f''" "2 * length b = length (s @ ''f'')"
    using hex_decode_encode by blast
  then have "StrToSwappedBytes s ''f'' = Inr (swap b)"
    using assms(2) by (simp add: StrToSwappedBytes_def odd_iff_mod_2_eq_one)
  moreover have "SwappedBytesToStr (swap b) False = s @ ''f''" "SwappedBytesToStr (swap b) True = s"
    using b by (auto simp: SwappedBytesToStr_def)
  ultimately show thesis using that b(3) by simp
qed

section \<open>The PLMN code\<close>

lemma StrToSwappedBytes_3:
  assumes "list_all hex_digit [a, b, c]"
  shows "StrToSwappedBytes [a, b, c] ''f'' =
           Inr [swap_byte (pack (nibble a) (nibble b)), swap_byte (pack (nibble c) (nibble (CHR ''f'')))]"
  using assms
  by (simp add: StrToSwappedBytes_def swap_def hex_val_digit)
     (simp add: nibble_def)

lemma StrToSwappedBytes_2:
  assumes "list_all hex_digit [a, b]"
  shows "StrToSwappedBytes [a, b] f = Inr [swap_byte (pack (nibble a) (nibble b))]"
  using assms by (simp add: StrToSwappedBytes_def swap_def hex_val_digit)

lemma hex_EncodeToString_2 [simp]:
  "hex_EncodeToString [x, y] =
     [hex_char (drop_bit 4 x), hex_char x, hex_char (drop_bit 4 y), hex_char y]"
  by (simp add: hex_EncodeToString_def hex_pair_def)

lemma plmn_byte1:
  assumes "hex_digit c" "hex_digit f" "hex_digit d"
  defines "x \<equiv> (swap_byte (pack (nibble c) (nibble f)) AND 0x0f) OR
                (push_bit 4 (swap_byte (pack (nibble d) (nibble f))) AND 0xf0)"
  shows "hex_char (drop_bit 4 x) = d" and "hex_char x = c"
proof -
  note high = nibble_high [OF assms(1)] nibble_high [OF assms(2)] nibble_high [OF assms(3)]
  have "drop_bit 4 x AND 15 = nibble d AND 15" "x AND 15 = nibble c AND 15"
    unfolding x_def by (rule byte_eqI; simp add: swap_byte_eq pack_def bit_simps high byte_bit_high)+
  then show "hex_char (drop_bit 4 x) = d" "hex_char x = c"
    using assms by (metis hex_char_eqI hex_char_nibble)+
qed

text \<open>\<open>plmn_ok\<close>: the MCC has three decimal digits and the MNC two or three.\<close>

definition plmn_ok :: "string \<Rightarrow> string \<Rightarrow> bool" where
  "plmn_ok mcc mnc = (list_all dec_digit mcc \<and> list_all dec_digit mnc \<and>
     length mcc = 3 \<and> (length mnc = 2 \<or> length mnc = 3))"

lemma swapped_pair_chars:
  assumes "hex_digit c" "hex_digit d"
  shows "hex_char (drop_bit 4 (swap_byte (pack (nibble c) (nibble d)))) = d"
    and "hex_char (swap_byte (pack (nibble c) (nibble d))) = c"
  using hex_pair_swap_pack [OF assms] by (simp_all add: hex_pair_def)

lemma dec_digit_not_f: "dec_digit c \<Longrightarrow> c \<noteq> CHR ''f''"
  by (auto simp: dec_digit_def)

lemma EncodePLMN_2:
  assumes "list_all hex_digit [a, b, c]" "list_all hex_digit [d, e]"
  shows "EncodePLMN [a, b, c] [d, e] =
     Inr [swap_byte (pack (nibble a) (nibble b)), swap_byte (pack (nibble c) (nibble (CHR ''f''))),
          swap_byte (pack (nibble d) (nibble e))]"
  using StrToSwappedBytes_3 [OF assms(1)] StrToSwappedBytes_2 [OF assms(2)]
  by (simp add: EncodePLMN_def)

lemma EncodePLMN_3:
  assumes "list_all hex_digit [a, b, c]" "list_all hex_digit [d, e, g]"
  shows "\<exists>y. EncodePLMN [a, b, c] [d, e, g] =
        Inr [swap_byte (pack (nibble a) (nibble b)), y, swap_byte (pack (nibble d) (nibble e))]
      \<and> hex_char (drop_bit 4 y) = g \<and> hex_char y = c"
proof -
  let ?y = "(swap_byte (pack (nibble c) (nibble (CHR ''f''))) AND 0x0f) OR
            (push_bit 4 (swap_byte (pack (nibble g) (nibble (CHR ''f'')))) AND 0xf0)"
  have "EncodePLMN [a, b, c] [d, e, g] =
      Inr [swap_byte (pack (nibble a) (nibble b)), ?y, swap_byte (pack (nibble d) (nibble e))]"
    using StrToSwappedBytes_3 [OF assms(1)] StrToSwappedBytes_3 [OF assms(2)]
    by (simp add: EncodePLMN_def byte_at_def)
  moreover have "hex_char (drop_bit 4 ?y) = g" "hex_char ?y = c"
    using plmn_byte1 [of c "CHR ''f''" g] assms by simp_all
  ultimately show ?thesis by blast
qed

lemma DecodePLMN_3bytes:
  "DecodePLMN [x, y, z] =
     Inr ([hex_char x, hex_char (drop_bit 4 x), hex_char y],
          if hex_char (drop_bit 4 y) = CHR ''f'' then [hex_char z, hex_char (drop_bit 4 z)]
          else [hex_char z, hex_char (drop_bit 4 z), hex_char (drop_bit 4 y)])"
  by (simp add: DecodePLMN_def DecodeMCC_def DecodeMNC_def slice_def str_at_def Let_def)

lemma DecodePLMN_long: "DecodePLMN (x # y # z # r) = DecodePLMN [x, y, z]"
  by (simp add: DecodePLMN_def slice_def)

lemma DecodePLMN_panics_iff: "no_panic (DecodePLMN b) \<longleftrightarrow> 3 \<le> length b"
proof (cases "3 \<le> length b")
  case True
  then obtain x y z r where "b = x # y # z # r" by (auto simp: numeral_eq_Suc Suc_le_length_iff)
  then show ?thesis by (simp only: DecodePLMN_long [of x y z r] DecodePLMN_3bytes) simp
next
  case False
  then consider "b = []" | x where "b = [x]" | x y where "b = [x, y]"
    by (cases b; cases "tl b"; cases "tl (tl b)") auto
  then show ?thesis
    by cases (simp_all add: DecodePLMN_def slice_def DecodeMCC_def str_at_def Let_def)
qed

lemma PLMN_roundtrip_aux:
  assumes "plmn_ok mcc mnc"
  shows "\<exists>b. EncodePLMN mcc mnc = Inr b \<and> length b = 3 \<and> DecodePLMN b = Inr (mcc, mnc)"
proof -
  from assms obtain a b c where mcc: "mcc = [a, b, c]"
    by (auto simp: plmn_ok_def numeral_eq_Suc length_Suc_conv)
  have hex: "list_all hex_digit mcc" "list_all hex_digit mnc" "list_all dec_digit mnc"
    using assms by (auto simp: plmn_ok_def list_all_iff dec_digit_hex)
  from assms consider d e where "mnc = [d, e]" | d e g where "mnc = [d, e, g]"
    by (auto simp: plmn_ok_def numeral_eq_Suc length_Suc_conv)
  then show ?thesis
  proof cases
    case 1
    with hex mcc show ?thesis
      by (simp add: EncodePLMN_2 DecodePLMN_3bytes swapped_pair_chars)
  next
    case 2
    with hex mcc obtain y where y: "EncodePLMN mcc mnc =
        Inr [swap_byte (pack (nibble a) (nibble b)), y, swap_byte (pack (nibble d) (nibble e))]"
        "hex_char (drop_bit 4 y) = g" "hex_char y = c"
      using EncodePLMN_3 [of a b c d e g] by auto
    with 2 hex mcc show ?thesis
      by (simp add: DecodePLMN_3bytes swapped_pair_chars dec_digit_not_f)
  qed
qed

section \<open>Properties\<close>

text \<open>
  C7. Every PLMN code is encoded in three bytes and decoded to the same MCC and MNC: for an MCC of
  three and an MNC of two or three decimal digits \<open>EncodePLMN\<close> succeeds and \<open>DecodePLMN\<close> inverts it.
\<close>

theorem PLMN_roundtrip:
  assumes "plmn_ok mcc mnc"
  shows "\<exists>b. EncodePLMN mcc mnc = Inr b \<and> length b = 3 \<and> DecodePLMN b = Inr (mcc, mnc)"
  using assms by (rule PLMN_roundtrip_aux)

theorem PLMN_roundtrip_witness:
  "\<exists>b. EncodePLMN ''440'' ''10'' = Inr b \<and> length b = 3 \<and> DecodePLMN b = Inr (''440'', ''10'')"
  by (rule PLMN_roundtrip) (simp add: plmn_ok_def dec_digit_def)

text \<open>
  Swapped digit strings: a string of hexadecimal digits is packed two digits to a byte and
  read back unchanged; when its length is odd it is padded with the filler, which is read back as
  the last digit unless the reader cuts it off.
\<close>

lemma swapped_string_roundtrip:
  assumes "list_all hex_digit s"
  shows "\<exists>b. StrToSwappedBytes s ''f'' = Inr b \<and> length b = (length s + 1) div 2 \<and>
     SwappedBytesToStr b (odd (length s)) = s \<and>
     SwappedBytesToStr b False = (if odd (length s) then s @ ''f'' else s)"
proof (cases "odd (length s)")
  case True
  from StrToSwappedBytes_odd [OF assms True] obtain b
    where "StrToSwappedBytes s ''f'' = Inr b" "SwappedBytesToStr b True = s"
      "SwappedBytesToStr b False = s @ ''f''" "2 * length b = length s + 1" by blast
  with True show ?thesis by auto
next
  case False
  then have "even (length s)" by simp
  from StrToSwappedBytes_even [OF assms this] obtain b
    where "StrToSwappedBytes s ''f'' = Inr b" "SwappedBytesToStr b False = s"
      "2 * length b = length s" by blast
  with False show ?thesis by auto
qed

lemma swapped_string_roundtrip_witness:
  "\<exists>b. StrToSwappedBytes ''819012345678901'' ''f'' = Inr b \<and> length b = 8 \<and>
     SwappedBytesToStr b True = ''819012345678901'' \<and>
     SwappedBytesToStr b False = ''819012345678901f''"
proof -
  let ?s = "''819012345678901''"
  have "list_all hex_digit ?s" by (simp add: hex_digit_def)
  moreover have "odd (length ?s) = True" "(length ?s + 1) div 2 = 8" by simp_all
  ultimately show ?thesis
    using swapped_string_roundtrip [of ?s] by (simp only: if_True append.simps)
qed

end
