(* ===== verification/V2Header.thy ===== *)
theory V2Header
  imports GtpUtils
begin

text \<open>
  The common header of GTPv2 (\<open>src/gtpv2/message/header.go\<close>). \<open>header_wire\<close> specifies the bytes
  of a header and \<open>v2_header_ok\<close> the headers whose length field is right. The lemmas show that
  \<open>MarshalTo\<close> writes \<open>header_wire\<close>, that \<open>ParseHeader\<close> inverts it, also when more bytes follow,
  that \<open>ParseHeader\<close> never panics, and exactly which inputs it refuses.
\<close>

record v2_header =
  h_Flags :: byte
  h_Type :: byte
  h_Length :: u16
  h_TEID :: u32
  h_SequenceNumber :: u32
  h_Spare :: byte
  h_Payload :: bytes

definition HasTEID :: "v2_header \<Rightarrow> bool" where
  "HasTEID h = (drop_bit 3 (h_Flags h) AND 0x01 = 1)"

definition h_MarshalLen :: "v2_header \<Rightarrow> nat" where
  "h_MarshalLen h = (let l = 8 + length (h_Payload h) in if HasTEID h then l + 4 else l)"

definition h_SetLength :: "v2_header \<Rightarrow> v2_header" where
  "h_SetLength h =
     (let h1 = h\<lparr>h_Length := of_nat (4 + length (h_Payload h))\<rparr>
      in if HasTEID h1 then h1\<lparr>h_Length := h_Length h1 + 4\<rparr> else h1)"

definition NewHeader :: "byte \<Rightarrow> byte \<Rightarrow> u32 \<Rightarrow> u32 \<Rightarrow> bytes \<Rightarrow> v2_header" where
  "NewHeader flags mtype teid seqnum data =
     h_SetLength \<lparr>h_Flags = flags, h_Type = mtype, h_Length = 0, h_TEID = teid,
       h_SequenceNumber = seqnum, h_Spare = 0, h_Payload = data\<rparr>"

definition NewHeaderFlags :: "int \<Rightarrow> int \<Rightarrow> int \<Rightarrow> byte" where
  "NewHeaderFlags v p t =
     word_of_int (push_bit 5 (v AND 0x7) OR push_bit 4 (p AND 0x1) OR push_bit 3 (t AND 0x1))"

definition h_MarshalTo :: "v2_header \<Rightarrow> bytes \<Rightarrow> bytes result" where
  "h_MarshalTo h b =
     andThen (write_at b 0 [h_Flags h]) (\<lambda>b.
     andThen (write_at b 1 [h_Type h]) (\<lambda>b.
     andThen (write_at b 2 (be16 (h_Length h))) (\<lambda>b.
     andThen (if HasTEID h then write_at b 4 (be32 (h_TEID h)) else Inr b) (\<lambda>b.
     let offset = (if HasTEID h then 8 else 4) in
     andThen (copy_at b offset (offset + 3) (Uint32To24 (h_SequenceNumber h))) (\<lambda>b.
     andThen (write_at b (offset + 3) [h_Spare h]) (\<lambda>b.
       copy_at b (offset + 4) (h_MarshalLen h) (h_Payload h)))))))"

definition h_Marshal :: "v2_header \<Rightarrow> bytes result" where
  "h_Marshal h = h_MarshalTo h (replicate (h_MarshalLen h) 0)"

text \<open>The 16-bit addition \<open>fixedHeaderSize + h.Length\<close> wraps, as it does in the source.\<close>

definition h_UnmarshalBinary :: "bytes \<Rightarrow> v2_header result" where
  "h_UnmarshalBinary b =
     (let l = length b in
      if l < 12 then Inl (Error MsgErrTooShortToParse)
      else
        andThen (byte_at b 0) (\<lambda>flags.
        andThen (byte_at b 1) (\<lambda>typ.
        andThen (get16 b 2) (\<lambda>len.
        let h = \<lparr>h_Flags = flags, h_Type = typ, h_Length = len, h_TEID = 0,
                 h_SequenceNumber = 0, h_Spare = 0, h_Payload = []\<rparr> in
        if len < 4 then Inl (Error MsgErrTooShortToParse)
        else if HasTEID h then
          (if len < 8 then Inl (Error MsgErrTooShortToParse)
           else
             andThen (get32 b 4) (\<lambda>teid.
             andThen (slice b 8 11) (\<lambda>s.
             andThen (byte_at b 11) (\<lambda>spare.
             let h = h\<lparr>h_TEID := teid, h_SequenceNumber := Uint24To32 s, h_Spare := spare\<rparr> in
             if unat len + 4 > l
             then andThen (slice_from b 12) (\<lambda>p. Inr (h\<lparr>h_Payload := p\<rparr>))
             else if 4 + len \<ge> 12
             then andThen (slice b 12 (unat (4 + len))) (\<lambda>p. Inr (h\<lparr>h_Payload := p\<rparr>))
             else Inl (Error MsgErrInvalidLength)))))
        else
          andThen (slice b 4 7) (\<lambda>s.
          andThen (byte_at b 7) (\<lambda>spare.
          let h = h\<lparr>h_SequenceNumber := Uint24To32 s, h_Spare := spare\<rparr> in
          if unat len + 4 > l
          then andThen (slice_from b 8) (\<lambda>p. Inr (h\<lparr>h_Payload := p\<rparr>))
          else if 4 + len \<ge> 8
          then andThen (slice b 8 (unat (4 + len))) (\<lambda>p. Inr (h\<lparr>h_Payload := p\<rparr>))
          else Inl (Error MsgErrInvalidLength)))))))"

definition h_ParseHeader :: "bytes \<Rightarrow> v2_header result" where
  "h_ParseHeader b = h_UnmarshalBinary b"

section \<open>Accessors of the header\<close>

definition IsPiggybacking :: "v2_header \<Rightarrow> bool" where
  "IsPiggybacking h = (drop_bit 4 (h_Flags h) AND 0x01 = 1)"

definition SetPiggybacking :: "byte \<Rightarrow> v2_header \<Rightarrow> v2_header" where
  "SetPiggybacking val h = h\<lparr>h_Flags := (h_Flags h AND 0xef) OR push_bit 4 (val AND 0x01)\<rparr>"

definition h_teid :: "v2_header \<Rightarrow> u32" where
  "h_teid h = (if \<not> HasTEID h then 0 else h_TEID h)"

definition SetTEID :: "u32 \<Rightarrow> v2_header \<Rightarrow> v2_header" where
  "SetTEID teid h = h\<lparr>h_Flags := h_Flags h OR push_bit 3 1, h_TEID := teid\<rparr>"

definition Sequence :: "v2_header \<Rightarrow> u32" where
  "Sequence h = h_SequenceNumber h"

definition SetSequenceNumber :: "u32 \<Rightarrow> v2_header \<Rightarrow> v2_header" where
  "SetSequenceNumber seq h = h\<lparr>h_SequenceNumber := seq\<rparr>"

definition HasMessagePriority :: "v2_header \<Rightarrow> bool" where
  "HasMessagePriority h = (drop_bit 2 (h_Flags h) AND 0x01 = 1)"

definition SetMessagePriority :: "byte \<Rightarrow> v2_header \<Rightarrow> v2_header" where
  "SetMessagePriority mp h = h\<lparr>h_Flags := h_Flags h OR push_bit 2 1, h_Spare := mp AND 0xf0\<rparr>"

definition MessagePriority :: "v2_header \<Rightarrow> byte" where
  "MessagePriority h = h_Spare h AND 0xf0"

definition h_MessageType :: "v2_header \<Rightarrow> byte" where
  "h_MessageType h = h_Type h"

section \<open>The encoder\<close>

definition header_wire :: "v2_header \<Rightarrow> bytes" where
  "header_wire h =
     [h_Flags h, h_Type h] @ be16 (h_Length h) @ (if HasTEID h then be32 (h_TEID h) else []) @
     Uint32To24 (h_SequenceNumber h) @ [h_Spare h] @ h_Payload h"

lemma header_wire_length [simp]: "length (header_wire h) = h_MarshalLen h"
  by (simp add: header_wire_def h_MarshalLen_def Let_def)

lemma h_MarshalTo_wire:
  assumes "h_MarshalLen h \<le> length b"
  shows "h_MarshalTo h b = Inr (header_wire h @ drop (h_MarshalLen h) b)"
proof (cases "HasTEID h")
  case True
  then have "12 \<le> length b" using assms by (simp add: h_MarshalLen_def)
  then obtain x0 x1 x2 x3 x4 x5 x6 x7 x8 x9 xa xb r
    where b: "b = x0 # x1 # x2 # x3 # x4 # x5 # x6 # x7 # x8 # x9 # xa # xb # r"
    by (rule twelve_cases)
  from True assms show ?thesis
    by (simp add: h_MarshalTo_def header_wire_def h_MarshalLen_def Let_def b write_at_def copy_at_def
        be16_def be32_def Uint32To24_def drop_numeral_add del: drop_drop)
next
  case False
  then have "8 \<le> length b" using assms by (simp add: h_MarshalLen_def)
  then obtain x0 x1 x2 x3 x4 x5 x6 x7 r
    where b: "b = x0 # x1 # x2 # x3 # x4 # x5 # x6 # x7 # r"
    by (rule eight_cases)
  from False assms show ?thesis
    by (simp add: h_MarshalTo_def header_wire_def h_MarshalLen_def Let_def b write_at_def copy_at_def
        be16_def Uint32To24_def drop_numeral_add del: drop_drop)
qed

lemma h_Marshal_wire: "h_Marshal h = Inr (header_wire h)"
  by (simp add: h_Marshal_def h_MarshalTo_wire)

section \<open>The decoder\<close>

text \<open>
  A header is right when its length field counts the bytes after the first four, its sequence
  number fits in 24 bits and it carries no TEID value that the flags do not announce.
\<close>

definition v2_header_ok :: "v2_header \<Rightarrow> bool" where
  "v2_header_ok h =
     (h_MarshalLen h < 65540 \<and> h_Length h = of_nat (h_MarshalLen h - 4) \<and>
      h_SequenceNumber h < 0x1000000 \<and> (HasTEID h \<or> h_TEID h = 0))"

lemma Uint24To32_small: "n < 0x1000000 \<Longrightarrow> Uint24To32 (Uint32To24 n) = n"
proof -
  assume "n < 0x1000000"
  then have "unat (take_bit 24 n) = unat n"
    by (simp add: word_less_nat_alt unsigned_take_bit_eq take_bit_nat_eq_self)
  then have "take_bit 24 n = n" by (rule unsigned_word_eqI)
  then show ?thesis by (simp add: Uint24To32_Uint32To24)
qed

text \<open>
  The decoder on an input split into the fields, without and with a TEID. A length field that
  points past the end of the input is not an error: the payload is what is there. The last test
  of the code is only reached when the 16-bit sum wraps.
\<close>

lemma u16_add4: "unat (4 + len :: u16) = (if unat len < 65532 then 4 + unat len else unat len - 65532)"
proof (cases "unat len < 65532")
  case False
  then have "(4 + unat len) mod 65536 = 4 + unat len - 65536"
    using unat_u16_less [of len] by (simp add: le_mod_geq)
  then show ?thesis using False by (simp add: unat_word_ariths)
qed (simp add: unat_word_ariths)

lemma h_UnmarshalBinary_TEID:
  assumes "drop_bit 3 flags AND 0x01 = (1 :: byte)"
  shows "h_UnmarshalBinary (flags # mt # be16 len @ be32 teid @ Uint32To24 seq @ spare # r) =
    (if unat len < 8 then Inl (Error MsgErrTooShortToParse)
     else if unat len > length r + 8
     then Inr \<lparr>h_Flags = flags, h_Type = mt, h_Length = len, h_TEID = teid,
                h_SequenceNumber = take_bit 24 seq, h_Spare = spare, h_Payload = r\<rparr>
     else if unat len \<ge> 65532 then Inl (Error MsgErrInvalidLength)
     else Inr \<lparr>h_Flags = flags, h_Type = mt, h_Length = len, h_TEID = teid,
                h_SequenceNumber = take_bit 24 seq, h_Spare = spare,
                h_Payload = take (unat len - 8) r\<rparr>)"
proof -
  have [simp]: "Uint24To32 [ucast (drop_bit 16 seq), ucast (drop_bit 8 seq), ucast seq] = take_bit 24 seq"
    using Uint24To32_Uint32To24 [of seq] by (simp only: Uint32To24_def)
  show ?thesis
    using assms unat_u16_less [of len]
    by (auto simp: h_UnmarshalBinary_def Let_def HasTEID_def byte_at_def get16_def get32_def
        slice_def slice_from_def be16_def be32_def Uint32To24_def
        word_less_nat_alt word_le_nat_alt u16_add4)
qed

lemma h_UnmarshalBinary_noTEID:
  assumes "drop_bit 3 flags AND 0x01 \<noteq> (1 :: byte)" "4 \<le> length r"
  shows "h_UnmarshalBinary (flags # mt # be16 len @ Uint32To24 seq @ spare # r) =
    (if unat len < 4 then Inl (Error MsgErrTooShortToParse)
     else if unat len > length r + 4
     then Inr \<lparr>h_Flags = flags, h_Type = mt, h_Length = len, h_TEID = 0,
                h_SequenceNumber = take_bit 24 seq, h_Spare = spare, h_Payload = r\<rparr>
     else if unat len \<ge> 65532 then Inl (Error MsgErrInvalidLength)
     else Inr \<lparr>h_Flags = flags, h_Type = mt, h_Length = len, h_TEID = 0,
                h_SequenceNumber = take_bit 24 seq, h_Spare = spare,
                h_Payload = take (unat len - 4) r\<rparr>)"
proof -
  have [simp]: "Uint24To32 [ucast (drop_bit 16 seq), ucast (drop_bit 8 seq), ucast seq] = take_bit 24 seq"
    using Uint24To32_Uint32To24 [of seq] by (simp only: Uint32To24_def)
  show ?thesis
    using assms unat_u16_less [of len]
    by (auto simp: h_UnmarshalBinary_def Let_def HasTEID_def byte_at_def get16_def get32_def
        slice_def slice_from_def be16_def Uint32To24_def
        word_less_nat_alt word_le_nat_alt u16_add4)
qed

lemma h_UnmarshalBinary_short: "length b < 12 \<Longrightarrow> h_UnmarshalBinary b = Inl (Error MsgErrTooShortToParse)"
  by (simp add: h_UnmarshalBinary_def)

lemma v2_header_split:
  assumes "12 \<le> length b"
  obtains flags mt len teid seq spare r
    where "b = flags # mt # be16 len @ be32 teid @ Uint32To24 seq @ spare # r"
proof -
  from assms obtain x0 x1 x2 x3 x4 x5 x6 x7 x8 x9 xa xb r
    where b: "b = x0 # x1 # x2 # x3 # x4 # x5 # x6 # x7 # x8 # x9 # xa # xb # r"
    by (rule twelve_cases)
  then have "b = x0 # x1 # be16 (join16 x2 x3) @ be32 (join32 x4 x5 x6 x7) @
      Uint32To24 (Uint24To32 [x8, x9, xa]) @ xb # r"
    by (simp add: Uint32To24_Uint24To32)
  then show thesis by (rule that)
qed

lemma v2_header_split_noTEID:
  assumes "12 \<le> length b"
  obtains flags mt len seq spare r
    where "b = flags # mt # be16 len @ Uint32To24 seq @ spare # r" "4 \<le> length r"
proof -
  from assms obtain x0 x1 x2 x3 x4 x5 x6 x7 x8 x9 xa xb r
    where b: "b = x0 # x1 # x2 # x3 # x4 # x5 # x6 # x7 # x8 # x9 # xa # xb # r"
    by (rule twelve_cases)
  then have "b = x0 # x1 # be16 (join16 x2 x3) @ Uint32To24 (Uint24To32 [x4, x5, x6]) @
      x7 # (x8 # x9 # xa # xb # r)"
    by (simp add: Uint32To24_Uint24To32)
  then show thesis by (rule that) simp
qed

lemma h_UnmarshalBinary_no_panic: "no_panic (h_UnmarshalBinary b)"
proof (cases "12 \<le> length b")
  case False
  then show ?thesis by (simp add: h_UnmarshalBinary_short)
next
  case True
  then have ne: "b \<noteq> []" by auto
  show ?thesis
  proof (cases "drop_bit 3 (b ! 0) AND 0x01 = (1 :: byte)")
    case True
    obtain flags mt len teid seq spare r
      where b: "b = flags # mt # be16 len @ be32 teid @ Uint32To24 seq @ spare # r"
      using \<open>12 \<le> length b\<close> by (rule v2_header_split)
    with True have "drop_bit 3 flags AND 0x01 = (1 :: byte)" by simp
    from h_UnmarshalBinary_TEID [OF this] show ?thesis unfolding b by simp
  next
    case False
    obtain flags mt len seq spare r
      where b: "b = flags # mt # be16 len @ Uint32To24 seq @ spare # r" and r: "4 \<le> length r"
      using \<open>12 \<le> length b\<close> by (rule v2_header_split_noTEID)
    with False have "drop_bit 3 flags AND 0x01 \<noteq> (1 :: byte)" by simp
    from h_UnmarshalBinary_noTEID [OF this r] show ?thesis unfolding b by simp
  qed
qed

text \<open>The round trip, also when further bytes follow the message (a piggybacked message).\<close>

lemma v2_header_ok_seq: "v2_header_ok h \<Longrightarrow> take_bit 24 (h_SequenceNumber h) = h_SequenceNumber h"
  using Uint24To32_small [of "h_SequenceNumber h"] Uint24To32_Uint32To24 [of "h_SequenceNumber h"]
  by (simp add: v2_header_ok_def)

lemma v2_header_ok_Length:
  assumes "v2_header_ok h"
  shows "unat (h_Length h) = h_MarshalLen h - 4"
proof -
  have "h_MarshalLen h - 4 < 65536" and "h_Length h = of_nat (h_MarshalLen h - 4)"
    using assms by (auto simp: v2_header_ok_def)
  then show ?thesis by (simp only: unat_of_nat_u16)
qed

lemma h_UnmarshalBinary_wire:
  assumes ok: "v2_header_ok h" and len: "12 \<le> length (header_wire h @ rest)"
    and small: "h_MarshalLen h < 65536"
  shows "h_UnmarshalBinary (header_wire h @ rest) = Inr h"
proof (cases "HasTEID h")
  case True
  then have flags: "drop_bit 3 (h_Flags h) AND 0x01 = (1 :: byte)" by (simp add: HasTEID_def)
  have l: "unat (h_Length h) = 8 + length (h_Payload h)"
    using v2_header_ok_Length [OF ok] True by (simp add: h_MarshalLen_def)
  have wire: "header_wire h @ rest = h_Flags h # h_Type h # be16 (h_Length h) @ be32 (h_TEID h) @
      Uint32To24 (h_SequenceNumber h) @ h_Spare h # (h_Payload h @ rest)"
    using True by (simp add: header_wire_def)
  show ?thesis
    unfolding wire h_UnmarshalBinary_TEID [OF flags]
    using l small True v2_header_ok_seq [OF ok] by (simp add: h_MarshalLen_def)
next
  case False
  then have flags: "drop_bit 3 (h_Flags h) AND 0x01 \<noteq> (1 :: byte)" by (simp add: HasTEID_def)
  have l: "unat (h_Length h) = 4 + length (h_Payload h)"
    using v2_header_ok_Length [OF ok] False by (simp add: h_MarshalLen_def)
  have wire: "header_wire h @ rest = h_Flags h # h_Type h # be16 (h_Length h) @
      Uint32To24 (h_SequenceNumber h) @ h_Spare h # (h_Payload h @ rest)"
    using False by (simp add: header_wire_def)
  have r: "4 \<le> length (h_Payload h @ rest)"
    using len False by (simp add: h_MarshalLen_def)
  have teid: "h_TEID h = 0" using ok False by (simp add: v2_header_ok_def)
  show ?thesis
    unfolding wire h_UnmarshalBinary_noTEID [OF flags r]
    using l small False v2_header_ok_seq [OF ok] teid by (simp add: h_MarshalLen_def)
qed

text \<open>
  A header that was built by the constructor is right when its payload and sequence number fit.
\<close>

lemma h_SetLength_length:
  "h_Length (h_SetLength h) = of_nat (h_MarshalLen h - 4)"
  by (simp add: h_SetLength_def h_MarshalLen_def HasTEID_def Let_def)

lemma h_SetLength_simps [simp]:
  "h_Flags (h_SetLength h) = h_Flags h" "h_Type (h_SetLength h) = h_Type h"
  "h_TEID (h_SetLength h) = h_TEID h" "h_SequenceNumber (h_SetLength h) = h_SequenceNumber h"
  "h_Spare (h_SetLength h) = h_Spare h" "h_Payload (h_SetLength h) = h_Payload h"
  "HasTEID (h_SetLength h) = HasTEID h" "h_MarshalLen (h_SetLength h) = h_MarshalLen h"
  by (simp_all add: h_SetLength_def h_MarshalLen_def HasTEID_def Let_def)

lemma v2_header_ok_SetLength:
  "h_MarshalLen h < 65540 \<Longrightarrow> h_SequenceNumber h < 0x1000000 \<Longrightarrow> HasTEID h \<or> h_TEID h = 0 \<Longrightarrow>
     v2_header_ok (h_SetLength h)"
  by (simp add: v2_header_ok_def h_SetLength_length)

section \<open>Properties\<close>

definition length_field :: "bytes \<Rightarrow> nat" where
  "length_field b = unat (join16 (b ! 2) (b ! 3))"

definition accepts_header :: "bytes \<Rightarrow> bool" where
  "accepts_header b =
     (12 \<le> length b \<and> (if drop_bit 3 (b ! 0) AND 1 = 1 then 8 else 4) \<le> length_field b \<and>
      (length b < length_field b + 4 \<or> length_field b < 65532))"

text \<open>
  C4. Exactly which datagrams have a header: \<open>ParseHeader\<close> accepts those of at least twelve bytes
  whose length field counts the rest of the header (eight bytes with a TEID, four without) and,
  when it does not point past the end of the input, does not wrap when four is added to it.
  Everything else is refused with an error; no input makes it panic.
\<close>

theorem ParseHeader_accepts:
  "is_ok (h_ParseHeader b) = accepts_header b \<and>
   (h_ParseHeader b \<in> range Inr \<union> {Inl (Error MsgErrTooShortToParse), Inl (Error MsgErrInvalidLength)})"
proof (cases "12 \<le> length b")
  case False
  then show ?thesis by (simp add: h_ParseHeader_def h_UnmarshalBinary_short accepts_header_def)
next
  case True
  show ?thesis
  proof (cases "drop_bit 3 (b ! 0) AND 0x01 = (1 :: byte)")
    case flag: True
    obtain flags mt len teid seq spare r
      where b: "b = flags # mt # be16 len @ be32 teid @ Uint32To24 seq @ spare # r"
      using \<open>12 \<le> length b\<close> by (rule v2_header_split)
    with flag have f: "drop_bit 3 flags AND 0x01 = (1 :: byte)" by simp
    show ?thesis
      using f unfolding b h_ParseHeader_def h_UnmarshalBinary_TEID [OF f] accepts_header_def length_field_def
      by (auto simp: numeral_2_eq_2 numeral_3_eq_3 be16_def)
  next
    case noflag: False
    obtain flags mt len seq spare r
      where b: "b = flags # mt # be16 len @ Uint32To24 seq @ spare # r" and r: "4 \<le> length r"
      using \<open>12 \<le> length b\<close> by (rule v2_header_split_noTEID)
    with noflag have f: "drop_bit 3 flags AND 0x01 \<noteq> (1 :: byte)" by simp
    show ?thesis
      using f r unfolding b h_ParseHeader_def h_UnmarshalBinary_noTEID [OF f r] accepts_header_def length_field_def
      by (auto simp: numeral_2_eq_2 numeral_3_eq_3 be16_def)
  qed
qed

text \<open>
  A header whose length field is right and whose sequence number fits in 24 bits survives
  \<open>Marshal\<close> and \<open>ParseHeader\<close>, TEID flag, spare byte and payload included, also when more bytes
  follow it, provided there are at least twelve bytes to read.
\<close>

lemma header_roundtrip:
  assumes "v2_header_ok h" "h_MarshalLen h < 65536" "12 \<le> h_MarshalLen h + length rest"
  shows "\<exists>w. h_Marshal h = Inr w \<and> length w = h_MarshalLen h \<and> h_ParseHeader (w @ rest) = Inr h"
  using assms h_UnmarshalBinary_wire [of h rest] by (simp add: h_Marshal_wire h_ParseHeader_def)

lemma header_roundtrip_witness:
  "\<exists>w. h_Marshal (NewHeader 0x48 32 0x11223344 0x000001 [1, 2, 3]) = Inr w \<and> length w = 15 \<and>
     h_ParseHeader (w @ [9]) = Inr (NewHeader 0x48 32 0x11223344 0x000001 [1, 2, 3])"
  using header_roundtrip [of "NewHeader 0x48 32 0x11223344 0x000001 [1, 2, 3]" "[9]"]
  by (simp add: NewHeader_def v2_header_ok_def h_SetLength_def h_MarshalLen_def HasTEID_def)

text \<open>
  The eight-byte form does not round trip: a header without TEID and payload is marshalled to
  eight bytes that \<open>ParseHeader\<close> refuses as too short, although nothing is missing from them.
\<close>

lemma header_without_TEID_refused:
  assumes "\<not> HasTEID h" "h_Payload h = []"
  shows "\<exists>w. h_Marshal h = Inr w \<and> length w = 8 \<and> h_ParseHeader w = Inl (Error MsgErrTooShortToParse)"
  using assms by (simp add: h_Marshal_wire h_ParseHeader_def h_UnmarshalBinary_short h_MarshalLen_def)

lemma header_without_TEID_refused_witness:
  "\<exists>w. h_Marshal (NewHeader 0x40 1 0 7 []) = Inr w \<and> length w = 8 \<and>
     h_ParseHeader w = Inl (Error MsgErrTooShortToParse)"
  by (rule header_without_TEID_refused)
     (simp_all add: NewHeader_def h_SetLength_def HasTEID_def)

end
