(* ===== verification/IEStream.thy ===== *)
theory IEStream
  imports GoBase
begin

text \<open>
  The interface between a message and the information elements in its payload. All three
  protocol versions decode a payload with the same loop: parse one element at the front, cut off
  as many bytes as the element says it occupies, repeat until nothing is left
  (\<open>ParseMultiIEs\<close> of \<open>gtpv0/ie\<close>, \<open>gtpv1/ie\<close> and \<open>gtpv2/ie\<close>). What the loop relies on is
  stated here once and interpreted by the theory of each version.

  \<open>ie_encoder\<close> is the contract of an encodable element, \<open>ie_decoder\<close> adds what a successful
  parse tells about the bytes that were read.
\<close>

locale ie_encoder =
  fixes parse :: "bytes \<Rightarrow> 'e result"
    and mlen :: "'e \<Rightarrow> nat"
    and enc :: "'e \<Rightarrow> bytes"
    and wf :: "'e \<Rightarrow> bool"
    and multi :: "bytes \<Rightarrow> 'e list result"
  assumes parse_enc: "wf x \<Longrightarrow> parse (enc x @ rest) = Inr x"
    and mlen_enc: "wf x \<Longrightarrow> mlen x = length (enc x)"
    and enc_nonempty: "enc x \<noteq> []"
    and multi_unfold: "multi b = (if b = [] then Inr []
          else andThen (parse b) (\<lambda>i. andThen (slice_from b (mlen i)) (\<lambda>r.
               andThen (multi r) (\<lambda>es. Inr (i # es)))))"
begin

lemma multi_Nil [simp]: "multi [] = Inr []"
  by (subst multi_unfold) simp

lemma multi_Cons:
  assumes "wf x"
  shows "multi (enc x @ rest) = andThen (multi rest) (\<lambda>es. Inr (x # es))"
  by (subst multi_unfold) (simp add: parse_enc mlen_enc assms enc_nonempty slice_from_append)

lemma multi_enc: "\<forall>x \<in> set xs. wf x \<Longrightarrow> multi (concat (map enc xs)) = Inr xs"
  by (induction xs) (simp_all add: multi_Cons)

lemma multi_enc_append:
  "\<forall>x \<in> set xs. wf x \<Longrightarrow>
     multi (concat (map enc xs) @ rest) = andThen (multi rest) (\<lambda>es. Inr (xs @ es))"
proof (induction xs)
  case Nil
  show ?case by (cases "multi rest") simp_all
next
  case (Cons x xs)
  then show ?case by (cases "multi rest") (simp_all add: multi_Cons)
qed

text \<open>The encoding of a sequence determines the sequence.\<close>

lemma enc_inject:
  assumes "\<forall>x \<in> set xs. wf x" "\<forall>y \<in> set ys. wf y"
    and "concat (map enc xs) = concat (map enc ys)"
  shows "xs = ys"
proof -
  have "Inr xs = multi (concat (map enc xs))" using multi_enc [OF assms(1)] by (rule sym)
  also have "\<dots> = multi (concat (map enc ys))" by (simp only: assms(3))
  also have "\<dots> = Inr ys" by (rule multi_enc [OF assms(2)])
  finally show ?thesis by (simp only: sum.inject)
qed

end

locale ie_decoder = ie_encoder +
  assumes parse_sound: "parse b = Inr x \<Longrightarrow> \<exists>rest. b = enc x @ rest \<and> mlen x = length (enc x)"
    and parse_no_panic: "no_panic (parse b)"
begin

lemma parsed_fits: "parse b = Inr x \<Longrightarrow> mlen x \<le> length b"
  using parse_sound by fastforce

lemma multi_sound: "multi b = Inr xs \<Longrightarrow> concat (map enc xs) = b"
proof (induction "length b" arbitrary: b xs rule: less_induct)
  case less
  show ?case
  proof (cases "b = []")
    case True
    with less.prems show ?thesis by simp
  next
    case False
    with less.prems obtain i r es where i: "parse b = Inr i" and r: "slice_from b (mlen i) = Inr r"
      and es: "multi r = Inr es" and xs: "xs = i # es"
      by (subst (asm) multi_unfold) (auto simp: andThen_eq_Inr)
    from parse_sound [OF i] obtain rest where b: "b = enc i @ rest" and l: "mlen i = length (enc i)"
      by blast
    from r b l have rest: "r = rest" by (simp add: slice_from_append)
    have "length r < length b" using enc_nonempty [of i] by (simp add: b rest)
    from less.hyps [OF this es] show ?thesis by (simp add: xs b rest)
  qed
qed

lemma multi_no_panic: "no_panic (multi b)"
proof (induction "length b" arbitrary: b rule: less_induct)
  case less
  show ?case
  proof (cases "b = []")
    case False
    have "no_panic (andThen (slice_from b (mlen i)) (\<lambda>r. andThen (multi r) (\<lambda>es. Inr (i # es))))"
      if i: "parse b = Inr i" for i
    proof -
      from parse_sound [OF i] obtain rest where b: "b = enc i @ rest" and l: "mlen i = length (enc i)"
        by blast
      have "length rest < length b" using enc_nonempty [of i] by (simp add: b)
      then have "no_panic (multi rest)" by (rule less)
      then show ?thesis by (simp add: b l slice_from_append no_panic_andThen)
    qed
    then show ?thesis
      by (subst multi_unfold) (simp add: False no_panic_andThen parse_no_panic)
  qed simp
qed

text \<open>Every element found accounts for its own bytes: the sizes add up to the input.\<close>

lemma multi_length: "multi b = Inr xs \<Longrightarrow> length b = (\<Sum>x \<leftarrow> xs. length (enc x))"
  using multi_sound [of b xs] by (auto simp: length_concat comp_def)

end

end
