(* ===== verification/V2IE.thy ===== *)
theory V2IE
  imports IEStream
begin

text \<open>
  The core of \<open>src/gtpv2/ie/ie.go\<close>: the information element of GTPv2, its encoder
  (\<open>MarshalTo\<close>, with the loop over the children of a grouped element), its decoder
  (\<open>UnmarshalBinary\<close> and \<open>ParseMultiIEs\<close>, which call each other), the constructors, and the
  operations on grouped elements (\<open>Add\<close>, \<open>Remove\<close>, \<open>FindByType\<close>).

  \<open>ie_wire\<close> is the specification of the encoding and \<open>wf_ie\<close> the invariant that the length
  field and the payload agree with the contents; the lemmas show that the encoder computes
  \<open>ie_wire\<close>, that the decoder inverts it and returns well-formed elements only, and that every
  operation keeps \<open>wf_ie\<close>. The theory ends with the interpretation of the contract of \<open>IEStream\<close>.
\<close>

section \<open>The element\<close>

datatype ie = IE
  (ie_Type: byte) (ie_Length: u16) (ie_instance: byte) (ie_Payload: bytes) (ie_ChildIEs: "ie list")

definition grouped_types :: "byte list" where
  "grouped_types = [93, 109, 180, 181, 191, 195, 208, 209]"

definition grouped :: "byte \<Rightarrow> bool" where
  "grouped t = list_ex (\<lambda>itype. t = itype) grouped_types"

definition IsGrouped :: "ie \<Rightarrow> bool" where
  "IsGrouped i = grouped (ie_Type i)"

fun ie_MarshalLen :: "ie \<Rightarrow> nat" where
  "ie_MarshalLen (IE t l n p cs) =
     (if grouped t then 4 + sum_list (map ie_MarshalLen cs) else 4 + length p)"

definition ie_SetLength :: "ie \<Rightarrow> ie" where
  "ie_SetLength i =
     (let i1 = (if IsGrouped i
                then IE (ie_Type i) (of_nat (sum_list (map ie_MarshalLen (ie_ChildIEs i))))
                        (ie_instance i) (ie_Payload i) (ie_ChildIEs i)
                else i)
      in IE (ie_Type i1) (of_nat (length (ie_Payload i1))) (ie_instance i1) (ie_Payload i1)
            (ie_ChildIEs i1))"

definition ie_New :: "byte \<Rightarrow> byte \<Rightarrow> bytes \<Rightarrow> ie" where
  "ie_New itype ins data = ie_SetLength (IE itype 0 (ins AND 0x0f) data [])"

definition SetInstance :: "byte \<Rightarrow> ie \<Rightarrow> ie" where
  "SetInstance ins i =
     IE (ie_Type i) (ie_Length i) (ins AND 0x0f) (ie_Payload i) (ie_ChildIEs i)"

definition WithInstance :: "byte \<Rightarrow> ie \<Rightarrow> ie" where
  "WithInstance ins i =
     IE (ie_Type i) (ie_Length i) (ins AND 0x0f) (ie_Payload i) (ie_ChildIEs i)"

definition Instance :: "ie \<Rightarrow> byte" where
  "Instance i = ie_instance i AND 0x0f"

section \<open>Encoding\<close>

fun ie_MarshalTo :: "ie \<Rightarrow> bytes \<Rightarrow> bytes result"
  and ie_MarshalChildren :: "ie list \<Rightarrow> nat \<Rightarrow> bytes \<Rightarrow> bytes result" where
  "ie_MarshalTo (IE t l n p cs) b =
     (if length b < 4 then Inl (Error IoErrUnexpectedEOF)
      else
        andThen (write_at b 0 [t]) (\<lambda>b.
        andThen (write_at b 1 (be16 l)) (\<lambda>b.
        andThen (write_at b 3 [n]) (\<lambda>b.
        if grouped t then ie_MarshalChildren cs 4 b
        else if length b < 4 + length p then Inl (Error IoErrUnexpectedEOF)
        else copy_at b 4 (4 + length p) p))))"
| "ie_MarshalChildren [] off b = Inr b"
| "ie_MarshalChildren (c # cs) off b =
     (if length b < off + ie_MarshalLen c then Inr b
      else
        andThen (slice b off (off + ie_MarshalLen c)) (\<lambda>s.
        andThen (ie_MarshalTo c s) (\<lambda>s'.
        andThen (write_at b off s') (\<lambda>b.
        ie_MarshalChildren cs (off + ie_MarshalLen c) b))))"

definition ie_Marshal :: "ie \<Rightarrow> bytes result" where
  "ie_Marshal i = ie_MarshalTo i (replicate (ie_MarshalLen i) 0)"

text \<open>The wire format: type, big-endian length, instance, then the children or the payload.\<close>

fun ie_wire :: "ie \<Rightarrow> bytes" where
  "ie_wire (IE t l n p cs) =
     t # be16 l @ n # (if grouped t then concat (map ie_wire cs) else p)"

lemma ie_MarshalLen_ge: "4 \<le> ie_MarshalLen i"
  by (cases i) simp

lemma ie_wire_length [simp]: "length (ie_wire i) = ie_MarshalLen i"
proof (induction i)
  case (IE t l n p cs)
  then have "sum_list (map (length \<circ> ie_wire) cs) = sum_list (map ie_MarshalLen cs)"
    by (intro arg_cong [where f = sum_list]) simp
  then show ?case by (simp add: length_concat)
qed

lemma ie_wire_nonempty [simp]: "ie_wire i \<noteq> []"
  by (cases i) simp

lemma ie_header_writes:
  assumes "4 \<le> length b"
  shows "andThen (write_at b 0 [t]) (\<lambda>b. andThen (write_at b (Suc 0) (be16 l)) (\<lambda>b.
         andThen (write_at b 3 [n]) f)) = f (t # be16 l @ n # drop 4 b)"
proof -
  from assms obtain x0 x1 x2 x3 r where b: "b = x0 # x1 # x2 # x3 # r" by (rule four_cases)
  show ?thesis by (simp add: b write_at_def be16_def)
qed

lemma ie_MarshalChildren_wire_if:
  assumes "\<And>c b. c \<in> set cs \<Longrightarrow> ie_MarshalLen c \<le> length b \<Longrightarrow>
      ie_MarshalTo c b = Inr (ie_wire c @ drop (ie_MarshalLen c) b)"
    and "off + sum_list (map ie_MarshalLen cs) \<le> length b"
  shows "ie_MarshalChildren cs off b =
     Inr (take off b @ concat (map ie_wire cs) @ drop (off + sum_list (map ie_MarshalLen cs)) b)"
  using assms
proof (induction cs arbitrary: off b)
  case Nil
  then show ?case by simp
next
  case (Cons c cs)
  let ?m = "ie_MarshalLen c"
  define b2 where "b2 = take off b @ ie_wire c @ drop (off + ?m) b"
  have fits: "off + ?m \<le> length b" "off \<le> length b" using Cons.prems(2) by simp_all
  have len: "length b2 = length b"
    and b2: "take (off + ?m) b2 = take off b @ ie_wire c" "drop (off + ?m + k) b2 = drop (off + ?m + k) b" for k
    using fits ie_MarshalLen_ge [of c] by (simp_all add: b2_def min_def ac_simps)
  have "ie_MarshalTo c (take ?m (drop off b)) = Inr (ie_wire c)"
    using Cons.prems(1) [of c "take ?m (drop off b)"] fits by simp
  then have "ie_MarshalChildren (c # cs) off b = ie_MarshalChildren cs (off + ?m) b2"
    using fits by (simp add: slice_ok write_at_ok b2_def)
  also have "\<dots> = Inr (take (off + ?m) b2 @ concat (map ie_wire cs) @
      drop (off + ?m + sum_list (map ie_MarshalLen cs)) b2)"
    using Cons.prems by (intro Cons.IH) (simp_all add: len add.assoc)
  finally show ?case
    using b2(1) b2(2) [of "sum_list (map ie_MarshalLen cs)"] by (simp add: add.assoc)
qed

text \<open>The encoder writes \<open>ie_wire\<close> and leaves the rest of the buffer as it was.\<close>

lemma ie_MarshalTo_wire:
  "ie_MarshalLen i \<le> length b \<Longrightarrow>
     ie_MarshalTo i b = Inr (ie_wire i @ drop (ie_MarshalLen i) b)"
proof (induction i arbitrary: b)
  case (IE t l n p cs)
  define b' where "b' = t # be16 l @ n # drop 4 b"
  have len: "4 \<le> length b" using IE.prems ie_MarshalLen_ge order_trans by blast
  have b': "length b' = length b" "take 4 b' = t # be16 l @ [n]" "drop (4 + k) b' = drop (4 + k) b" for k
    using len by (simp_all add: b'_def be16_def drop_Cons' add.commute)
  have step: "ie_MarshalTo (IE t l n p cs) b =
      (if grouped t then ie_MarshalChildren cs 4 b'
       else if length b' < 4 + length p then Inl (Error IoErrUnexpectedEOF)
       else copy_at b' 4 (4 + length p) p)"
    using len by (simp add: ie_header_writes b'_def not_less)
  show ?case
  proof (cases "grouped t")
    case True
    have "ie_MarshalChildren cs 4 b' =
        Inr (take 4 b' @ concat (map ie_wire cs) @ drop (4 + sum_list (map ie_MarshalLen cs)) b')"
      using IE True by (intro ie_MarshalChildren_wire_if) (auto simp: b')
    then show ?thesis unfolding step using True by (simp add: b')
  next
    case False
    with IE.prems show ?thesis unfolding step by (simp add: b' copy_at_all)
  qed
qed

lemma ie_Marshal_wire: "ie_Marshal i = Inr (ie_wire i)"
  by (simp add: ie_Marshal_def ie_MarshalTo_wire)

text \<open>A buffer that is too short for the element is reported, and nothing panics.\<close>

lemma ie_MarshalTo_short:
  assumes "length b < 4" shows "ie_MarshalTo i b = Inl (Error IoErrUnexpectedEOF)"
  using assms by (cases i) simp

lemma ie_MarshalTo_payload_short:
  assumes "\<not> IsGrouped i" "length b < ie_MarshalLen i"
  shows "ie_MarshalTo i b = Inl (Error IoErrUnexpectedEOF)"
proof (cases "length b < 4")
  case True
  then show ?thesis by (rule ie_MarshalTo_short)
next
  case False
  with assms show ?thesis
    by (cases i) (auto simp: IsGrouped_def ie_header_writes not_less)
qed

section \<open>Decoding\<close>

lemma slice_from_shorter: "slice_from b n = Inr r \<Longrightarrow> 0 < n \<Longrightarrow> b \<noteq> [] \<Longrightarrow> length r < length b"
  by (auto simp: slice_from_def slice_def split: if_splits)

text \<open>
  \<open>UnmarshalBinary\<close> decodes the children of a grouped element with \<open>ParseMultiIEs\<close>, which calls
  \<open>Parse\<close> and hence \<open>UnmarshalBinary\<close> for each of them. The payload is shorter than the input and
  each element occupies at least four bytes, so the pair terminates.
\<close>

function (sequential) ie_UnmarshalBinary :: "bytes \<Rightarrow> ie result"
  and ie_ParseMultiIEs :: "bytes \<Rightarrow> ie list result" where
  "ie_UnmarshalBinary b =
     (let l = length b in
      if l < 4 then Inl (Error IoErrUnexpectedEOF)
      else
        andThen (byte_at b 0) (\<lambda>typ.
        andThen (get16 b 1) (\<lambda>len.
        if unat len > l - 4 then Inl (Error IEErrInvalidLength)
        else
          andThen (byte_at b 3) (\<lambda>ins.
          if grouped typ
          then andThen (ie_ParseMultiIEs (take (unat len) (drop 4 b))) (\<lambda>children.
               Inr (IE typ len ins (take (unat len) (drop 4 b)) children))
          else Inr (IE typ len ins (take (unat len) (drop 4 b)) [])))))"
| "ie_ParseMultiIEs b =
     (if b = [] then Inr []
      else
        andThen (ie_UnmarshalBinary b) (\<lambda>i.
        andThen (slice_from b (ie_MarshalLen i)) (\<lambda>r.
        andThen (ie_ParseMultiIEs r) (\<lambda>ies. Inr (i # ies)))))"
  by pat_completeness auto

termination
  by (relation "measure (\<lambda>x. case x of Inl b \<Rightarrow> 2 * length b | Inr b \<Rightarrow> 2 * length b + 1)")
     (auto simp: not_less dest!: slice_from_shorter
       intro: less_le_trans [OF _ ie_MarshalLen_ge])

definition ie_Parse :: "bytes \<Rightarrow> ie result" where
  "ie_Parse b = ie_UnmarshalBinary b"

declare ie_UnmarshalBinary.simps [simp del] ie_ParseMultiIEs.simps [simp del]

text \<open>
  \<open>wf_ie\<close>: the length field holds the length of the payload; a grouped element's payload is the
  encoding of its children, which are well-formed; any other element has no children.
\<close>

fun wf_ie :: "ie \<Rightarrow> bool" where
  "wf_ie (IE t l n p cs) =
     (unat l = length p \<and>
      (if grouped t then p = concat (map ie_wire cs) \<and> (\<forall>c \<in> set cs. wf_ie c) else cs = []))"

lemma wf_ie_wire:
  "wf_ie i \<Longrightarrow> ie_wire i = ie_Type i # be16 (ie_Length i) @ ie_instance i # ie_Payload i"
  by (cases i) (simp split: if_splits)

lemma wf_ie_MarshalLen: "wf_ie i \<Longrightarrow> ie_MarshalLen i = 4 + length (ie_Payload i)"
  using ie_wire_length [of i] by (simp add: wf_ie_wire del: ie_wire_length)

lemma be16_nth: "be16 l = [be16 l ! 0, be16 l ! 1]"
  by (simp add: be16_def)

lemma join16_nth [simp]: "join16 (be16 l ! 0) (be16 l ! 1) = l"
  by (simp add: be16_def)

lemma ie_UnmarshalBinary_header:
  "ie_UnmarshalBinary (t # be16 l @ n # r) =
     (if unat l > length r then Inl (Error IEErrInvalidLength)
      else if grouped t
      then andThen (ie_ParseMultiIEs (take (unat l) r)) (\<lambda>cs. Inr (IE t l n (take (unat l) r) cs))
      else Inr (IE t l n (take (unat l) r) []))"
  by (subst ie_UnmarshalBinary.simps) (simp add: be16_def byte_at_def get16_def Let_def)

lemma ie_header_exists:
  assumes "4 \<le> length b"
  obtains t l n r where "b = t # be16 l @ n # r"
proof -
  from assms obtain x0 x1 x2 x3 r where "b = x0 # x1 # x2 # x3 # r" by (rule four_cases)
  then have "b = x0 # be16 (join16 x1 x2) @ x3 # r" by simp
  then show thesis by (rule that)
qed

lemma ie_UnmarshalBinary_short:
  "length b < 4 \<Longrightarrow> ie_UnmarshalBinary b = Inl (Error IoErrUnexpectedEOF)"
  by (subst ie_UnmarshalBinary.simps) simp

section \<open>The decoder inverts the encoder\<close>

lemma ie_UnmarshalBinary_wire:
  "wf_ie i \<Longrightarrow> ie_UnmarshalBinary (ie_wire i @ rest) = Inr i"
proof (induction i arbitrary: rest)
  case (IE t l n p cs)
  have multi: "ie_ParseMultiIEs (concat (map ie_wire ds)) = Inr ds"
    if "set ds \<subseteq> set cs" "\<forall>d \<in> set ds. wf_ie d" for ds
    using that
  proof (induction ds)
    case Nil
    show ?case by (subst ie_ParseMultiIEs.simps) simp
  next
    case (Cons d ds)
    then have "ie_UnmarshalBinary (ie_wire d @ concat (map ie_wire ds)) = Inr d"
      using IE.IH by simp
    with Cons show ?case
      by (subst ie_ParseMultiIEs.simps) (simp add: slice_from_ok)
  qed
  show ?case
  proof (cases "grouped t")
    case True
    with IE.prems multi [of cs] show ?thesis
      by (simp add: ie_UnmarshalBinary_header)
  next
    case False
    with IE.prems show ?thesis by (simp add: ie_UnmarshalBinary_header)
  qed
qed

text \<open>What the decoder accepts is the encoding of a well-formed element.\<close>

definition ie_errors :: "failure set" where
  "ie_errors = {Error IoErrUnexpectedEOF, Error IEErrInvalidLength}"

definition decoded_ok :: "bytes \<Rightarrow> bool" where
  "decoded_ok b = ((\<forall>e. ie_UnmarshalBinary b = Inl e \<longrightarrow> e \<in> ie_errors) \<and>
     (\<forall>i. ie_UnmarshalBinary b = Inr i \<longrightarrow> wf_ie i \<and> (\<exists>r. b = ie_wire i @ r)))"

definition decoded_multi_ok :: "bytes \<Rightarrow> bool" where
  "decoded_multi_ok b = ((\<forall>e. ie_ParseMultiIEs b = Inl e \<longrightarrow> e \<in> ie_errors) \<and>
     (\<forall>xs. ie_ParseMultiIEs b = Inr xs \<longrightarrow>
        (\<forall>i \<in> set xs. wf_ie i) \<and> b = concat (map ie_wire xs)))"

lemma decoded_ok_step:
  assumes "\<And>p. length p < length b \<Longrightarrow> decoded_multi_ok p"
  shows "decoded_ok b"
proof (cases "4 \<le> length b")
  case False
  then show ?thesis by (simp add: decoded_ok_def ie_errors_def ie_UnmarshalBinary_short)
next
  case True
  then obtain t l n r where b: "b = t # be16 l @ n # r" by (rule ie_header_exists)
  have ok: "decoded_multi_ok (take (unat l) r)" by (rule assms) (simp add: b)
  show ?thesis
  proof (cases "ie_ParseMultiIEs (take (unat l) r)")
    case (Inl e)
    with ok show ?thesis
      by (auto simp: decoded_ok_def decoded_multi_ok_def ie_errors_def b ie_UnmarshalBinary_header)
  next
    case (Inr cs)
    with ok have cs: "\<forall>i \<in> set cs. wf_ie i" "take (unat l) r = concat (map ie_wire cs)"
      by (auto simp: decoded_multi_ok_def)
    show ?thesis
    proof (cases "unat l \<le> length r")
      case True
      then have "unat l = length (concat (map ie_wire cs))"
        by (simp only: cs(2) [symmetric] length_take min_absorb2)
      moreover have "\<exists>r'. r = concat (map ie_wire cs) @ r'"
        by (simp only: cs(2) [symmetric] take_rest)
      ultimately show ?thesis using True Inr cs
        by (auto simp: decoded_ok_def ie_errors_def b ie_UnmarshalBinary_header)
    qed (simp add: decoded_ok_def ie_errors_def b ie_UnmarshalBinary_header)
  qed
qed

lemma decoded_multi_ok_step:
  assumes "decoded_ok b" "\<And>p. length p < length b \<Longrightarrow> decoded_multi_ok p"
  shows "decoded_multi_ok b"
proof (cases "b = []")
  case True
  then show ?thesis
    by (simp add: decoded_multi_ok_def ie_ParseMultiIEs.simps [of "[]"])
next
  case False
  show ?thesis
  proof (cases "ie_UnmarshalBinary b")
    case (Inl e)
    with assms(1) False show ?thesis
      by (simp add: decoded_multi_ok_def decoded_ok_def ie_ParseMultiIEs.simps [of b])
  next
    case (Inr i)
    with assms(1) obtain r where i: "wf_ie i" and b: "b = ie_wire i @ r"
      by (auto simp: decoded_ok_def)
    have "length r < length b" using ie_MarshalLen_ge [of i] by (simp add: b)
    then have "decoded_multi_ok r" by (rule assms(2))
    moreover have "ie_ParseMultiIEs b = andThen (ie_ParseMultiIEs r) (\<lambda>ies. Inr (i # ies))"
      using Inr False by (simp add: ie_ParseMultiIEs.simps [of b]) (simp add: b slice_from_ok)
    ultimately show ?thesis
      using i by (cases "ie_ParseMultiIEs r") (auto simp: decoded_multi_ok_def b)
  qed
qed

lemma decoded_multi_ok: "decoded_multi_ok b"
proof (induction "length b" arbitrary: b rule: less_induct)
  case less
  then show ?case by (blast intro: decoded_multi_ok_step decoded_ok_step)
qed

lemma decoded_ok: "decoded_ok b"
  by (blast intro: decoded_ok_step decoded_multi_ok)

text \<open>What the decoder accepts is the encoding of a well-formed element; it never panics.\<close>

lemma ie_UnmarshalBinary_sound:
  assumes "ie_UnmarshalBinary b = Inr i"
  shows "wf_ie i" and "\<exists>r. b = ie_wire i @ r"
  using decoded_ok [of b] assms by (auto simp: decoded_ok_def)

text \<open>The only errors are those of an element cut short.\<close>

lemma ie_UnmarshalBinary_errors: "ie_UnmarshalBinary b = Inl e \<Longrightarrow> e \<in> ie_errors"
  using decoded_ok [of b] by (simp add: decoded_ok_def)

lemma ie_ParseMultiIEs_errors: "ie_ParseMultiIEs b = Inl e \<Longrightarrow> e \<in> ie_errors"
  using decoded_multi_ok [of b] by (simp add: decoded_multi_ok_def)

lemma ie_UnmarshalBinary_no_panic: "no_panic (ie_UnmarshalBinary b)"
  by (cases "ie_UnmarshalBinary b") (auto simp: ie_errors_def dest: ie_UnmarshalBinary_errors)

lemma ie_ParseMultiIEs_wf: "ie_ParseMultiIEs b = Inr xs \<Longrightarrow> i \<in> set xs \<Longrightarrow> wf_ie i"
  using decoded_multi_ok [of b] by (simp add: decoded_multi_ok_def)

interpretation v2ies: ie_decoder ie_Parse ie_MarshalLen ie_wire wf_ie ie_ParseMultiIEs
proof unfold_locales
  show "wf_ie x \<Longrightarrow> ie_Parse (ie_wire x @ rest) = Inr x" for x rest
    by (simp add: ie_Parse_def ie_UnmarshalBinary_wire)
  show "ie_ParseMultiIEs b = (if b = [] then Inr []
      else andThen (ie_Parse b) (\<lambda>i. andThen (slice_from b (ie_MarshalLen i)) (\<lambda>r.
           andThen (ie_ParseMultiIEs r) (\<lambda>es. Inr (i # es)))))" for b
    by (subst ie_ParseMultiIEs.simps) (simp add: ie_Parse_def)
  show "\<exists>rest. b = ie_wire x @ rest \<and> ie_MarshalLen x = length (ie_wire x)"
    if "ie_Parse b = Inr x" for b x
    using that ie_UnmarshalBinary_sound(2) by (simp add: ie_Parse_def)
qed (simp_all add: ie_Parse_def ie_UnmarshalBinary_no_panic)

section \<open>Constructors and operations on grouped elements\<close>

text \<open>
  Several operations rebuild the payload by marshalling the children one after the other.
  \<open>append_or_skip\<close> is the loop of \<open>Add\<close> and \<open>Remove\<close>, which skips a child that fails to marshal;
  \<open>append_or_fail\<close> is the one of \<open>newGroupedIE\<close>, which gives up.
\<close>

fun append_or_skip :: "bytes \<Rightarrow> ie list \<Rightarrow> bytes result" where
  "append_or_skip acc [] = Inr acc"
| "append_or_skip acc (c # cs) =
     (case ie_Marshal c of
        Inl (Error e) \<Rightarrow> append_or_skip acc cs
      | Inl (Panic p) \<Rightarrow> Inl (Panic p)
      | Inr serialized \<Rightarrow> append_or_skip (acc @ serialized) cs)"

fun append_or_fail :: "bytes \<Rightarrow> ie list \<Rightarrow> bytes result" where
  "append_or_fail acc [] = Inr acc"
| "append_or_fail acc (c # cs) =
     andThen (ie_Marshal c) (\<lambda>serialized. append_or_fail (acc @ serialized) cs)"

definition Add :: "ie \<Rightarrow> ie list \<Rightarrow> ie result" where
  "Add i ies =
     (if \<not> IsGrouped i then Inr i
      else
        let children = ie_ChildIEs i @ ies
        in andThen (append_or_skip [] children) (\<lambda>payload.
             Inr (ie_SetLength (IE (ie_Type i) (ie_Length i) (ie_instance i) payload children))))"

definition Remove :: "byte \<Rightarrow> byte \<Rightarrow> ie \<Rightarrow> ie result" where
  "Remove typ ins i =
     (if \<not> IsGrouped i then Inr i
      else
        let newChildren = filter (\<lambda>c. \<not> (ie_Type c = typ \<and> Instance c = ins)) (ie_ChildIEs i)
        in andThen (append_or_skip [] newChildren) (\<lambda>payload.
             Inr (ie_SetLength (IE (ie_Type i) (ie_Length i) (ie_instance i) payload newChildren))))"

definition FindByType :: "byte \<Rightarrow> byte \<Rightarrow> ie \<Rightarrow> ie result" where
  "FindByType typ ins i =
     (if \<not> IsGrouped i then Inl (Error IEErrInvalidType)
      else case find (\<lambda>c. ie_Type c = typ \<and> Instance c = ins) (ie_ChildIEs i) of
             Some c \<Rightarrow> Inr c
           | None \<Rightarrow> Inl (Error IEErrIENotFound))"

definition newUint8ValIE :: "byte \<Rightarrow> byte \<Rightarrow> ie" where
  "newUint8ValIE t v = ie_New t 0x00 [v]"

definition newUint16ValIE :: "byte \<Rightarrow> u16 \<Rightarrow> ie" where
  "newUint16ValIE t v = ie_New t 0x00 (be16 v)"

definition newUint32ValIE :: "byte \<Rightarrow> u32 \<Rightarrow> ie" where
  "newUint32ValIE t v = ie_New t 0x00 (be32 v)"

definition string_bytes :: "string \<Rightarrow> bytes" where
  "string_bytes s = map of_char s"

definition newStringIE :: "byte \<Rightarrow> string \<Rightarrow> ie" where
  "newStringIE t v = ie_New t 0x00 (string_bytes v)"

text \<open>\<open>newGroupedIE\<close> returns a nil element when a child cannot be marshalled.\<close>

definition newGroupedIE :: "byte \<Rightarrow> ie list \<Rightarrow> ie option result" where
  "newGroupedIE itype ies =
     (let i = ie_New itype 0x00 []
      in case append_or_fail [] ies of
           Inl (Error e) \<Rightarrow> Inr None
         | Inl (Panic p) \<Rightarrow> Inl (Panic p)
         | Inr payload \<Rightarrow>
             Inr (Some (ie_SetLength (IE (ie_Type i) (ie_Length i) (ie_instance i) payload ies))))"

lemma append_or_skip_wire: "append_or_skip acc cs = Inr (acc @ concat (map ie_wire cs))"
  by (induction cs arbitrary: acc) (simp_all add: ie_Marshal_wire)

lemma append_or_fail_wire: "append_or_fail acc cs = Inr (acc @ concat (map ie_wire cs))"
  by (induction cs arbitrary: acc) (simp_all add: ie_Marshal_wire)

lemma ie_SetLength_eq:
  "ie_SetLength i = IE (ie_Type i) (of_nat (length (ie_Payload i))) (ie_instance i) (ie_Payload i)
     (ie_ChildIEs i)"
  by (simp add: ie_SetLength_def Let_def)

lemma ie_New_eq: "ie_New t ins data = IE t (of_nat (length data)) (ins AND 0x0f) data []"
  by (simp add: ie_New_def ie_SetLength_eq)

lemma ie_New_sel [simp]:
  "ie_Type (ie_New t ins data) = t" "ie_Payload (ie_New t ins data) = data"
  "ie_ChildIEs (ie_New t ins data) = []" "ie_instance (ie_New t ins data) = ins AND 0x0f"
  by (simp_all add: ie_New_eq)

lemma wf_ie_New: "\<not> grouped t \<Longrightarrow> length data < 65536 \<Longrightarrow> wf_ie (ie_New t ins data)"
  by (simp add: ie_New_eq)

lemma Add_grouped:
  "IsGrouped i \<Longrightarrow> Add i ies =
     Inr (IE (ie_Type i) (of_nat (length (concat (map ie_wire (ie_ChildIEs i @ ies)))))
             (ie_instance i) (concat (map ie_wire (ie_ChildIEs i @ ies))) (ie_ChildIEs i @ ies))"
  by (simp add: Add_def append_or_skip_wire ie_SetLength_eq Let_def)

lemma Remove_grouped:
  "IsGrouped i \<Longrightarrow> Remove typ ins i =
     (let cs = filter (\<lambda>c. \<not> (ie_Type c = typ \<and> Instance c = ins)) (ie_ChildIEs i)
      in Inr (IE (ie_Type i) (of_nat (length (concat (map ie_wire cs)))) (ie_instance i)
                 (concat (map ie_wire cs)) cs))"
  by (simp add: Remove_def append_or_skip_wire ie_SetLength_eq Let_def)

lemma newGroupedIE_eq:
  "newGroupedIE t cs =
     Inr (Some (IE t (of_nat (length (concat (map ie_wire cs)))) 0 (concat (map ie_wire cs)) cs))"
  by (simp add: newGroupedIE_def append_or_fail_wire ie_SetLength_eq ie_New_eq Let_def)

lemma wf_ie_grouped:
  assumes "grouped t" "\<forall>c \<in> set cs. wf_ie c" "length (concat (map ie_wire cs)) < 65536"
  shows "wf_ie (IE t (of_nat (length (concat (map ie_wire cs)))) n (concat (map ie_wire cs)) cs)"
  using assms(1,2) unat_of_nat_u16 [OF assms(3)] by simp

lemma wf_ie_Add:
  assumes "wf_ie i" "\<forall>c \<in> set ies. wf_ie c" "Add i ies = Inr i'"
    and "length (concat (map ie_wire (ie_ChildIEs i @ ies))) < 65536"
  shows "wf_ie i'"
proof (cases "IsGrouped i")
  case True
  then have "\<forall>c \<in> set (ie_ChildIEs i @ ies). wf_ie c"
    using assms(1,2) by (cases i) (auto simp: IsGrouped_def)
  with True assms(3,4) show ?thesis
    using wf_ie_grouped [of "ie_Type i" "ie_ChildIEs i @ ies"]
    by (auto simp: Add_grouped IsGrouped_def)
next
  case False
  with assms(1,3) show ?thesis by (simp add: Add_def)
qed

lemma filter_concat_length: "length (concat (map f (filter P xs))) \<le> length (concat (map f xs))"
  by (induction xs) auto

lemma wf_ie_Remove:
  assumes "wf_ie i" "Remove typ ins i = Inr i'"
  shows "wf_ie i'"
proof (cases "IsGrouped i")
  case True
  let ?cs = "filter (\<lambda>c. \<not> (ie_Type c = typ \<and> Instance c = ins)) (ie_ChildIEs i)"
  from True assms(1) have wf: "\<forall>c \<in> set ?cs. wf_ie c"
    and l: "length (concat (map ie_wire (ie_ChildIEs i))) = unat (ie_Length i)"
    by (cases i; auto simp: IsGrouped_def)+
  have "length (concat (map ie_wire ?cs)) \<le> length (concat (map ie_wire (ie_ChildIEs i)))"
    by (rule filter_concat_length)
  also have "\<dots> < 65536" using unat_u16_less by (simp only: l)
  finally have "length (concat (map ie_wire ?cs)) < 65536" .
  moreover have "i' = IE (ie_Type i) (of_nat (length (concat (map ie_wire ?cs)))) (ie_instance i)
                   (concat (map ie_wire ?cs)) ?cs"
    using assms(2) unfolding Remove_grouped [OF True] Let_def by simp
  moreover have "grouped (ie_Type i)" using True by (simp only: IsGrouped_def)
  ultimately show ?thesis using wf_ie_grouped [OF _ wf] by simp
next
  case False
  with assms show ?thesis by (simp add: Remove_def)
qed

lemma FindByType_Remove:
  assumes "IsGrouped i" "Remove typ ins i = Inr i'"
  shows "FindByType typ ins i' = Inl (Error IEErrIENotFound)"
proof -
  let ?P = "\<lambda>c. ie_Type c = typ \<and> Instance c = ins"
  have "find ?P (filter (\<lambda>c. \<not> ?P c) cs) = None" for cs by (induction cs) simp_all
  moreover from assms(2) have "ie_ChildIEs i' = filter (\<lambda>c. \<not> ?P c) (ie_ChildIEs i)"
      and "IsGrouped i'"
    using assms(1) unfolding Remove_grouped [OF assms(1)] Let_def by (auto simp: IsGrouped_def)
  ultimately show ?thesis by (simp add: FindByType_def)
qed

lemma FindByType_Remove_other:
  assumes "Remove typ ins i = Inr i'" "(typ', ins') \<noteq> (typ, ins)"
  shows "FindByType typ' ins' i' = FindByType typ' ins' i"
proof -
  have "find (\<lambda>c. ie_Type c = typ' \<and> Instance c = ins')
          (filter (\<lambda>c. \<not> (ie_Type c = typ \<and> Instance c = ins)) cs) =
        find (\<lambda>c. ie_Type c = typ' \<and> Instance c = ins') cs" for cs
    using assms(2) by (induction cs) auto
  then show ?thesis
  proof (cases "IsGrouped i")
    case True
    with assms(1) have "ie_ChildIEs i' = filter (\<lambda>c. \<not> (ie_Type c = typ \<and> Instance c = ins)) (ie_ChildIEs i)"
        and "IsGrouped i'"
      unfolding Remove_grouped [OF True] Let_def by (auto simp: IsGrouped_def)
    with True show ?thesis
      using \<open>\<And>cs. find _ (filter _ cs) = _\<close> by (simp add: FindByType_def)
  qed (use assms(1) in \<open>simp add: Remove_def\<close>)
qed

lemma FindByType_Add:
  assumes "IsGrouped i" "FindByType (ie_Type c) (Instance c) i = Inl (Error IEErrIENotFound)"
    "Add i [c] = Inr i'"
  shows "FindByType (ie_Type c) (Instance c) i' = Inr c"
proof -
  have "find (\<lambda>c'. ie_Type c' = ie_Type c \<and> Instance c' = Instance c) cs = None \<Longrightarrow>
        find (\<lambda>c'. ie_Type c' = ie_Type c \<and> Instance c' = Instance c) (cs @ [c]) = Some c" for cs
    by (induction cs) (auto split: if_splits)
  then show ?thesis
    using assms by (auto simp: FindByType_def Add_grouped IsGrouped_def split: option.splits)
qed

section \<open>Properties\<close>

text \<open>
  C2. Parsing a sequence of elements is the exact inverse of writing them one after the other:
  \<open>ParseMultiIEs\<close> returns a list precisely when the input is the concatenation of the encodings
  of that list and all of its elements are well-formed. In particular nothing is skipped, nothing
  is read twice, and no two lists share an encoding.
\<close>

theorem ParseMultiIEs_iff:
  "ie_ParseMultiIEs b = Inr is \<longleftrightarrow> list_all wf_ie is \<and> b = concat (map ie_wire is)"
  using v2ies.multi_enc [of "is"] v2ies.multi_sound [of b "is"] ie_ParseMultiIEs_wf [of b "is"]
  by (auto simp: list_all_iff)

text \<open>
  The decoder is total on arbitrary bytes: for any input it returns well-formed elements or
  one of the two errors of an element that is cut short, and it never panics.
\<close>

lemma ie_Parse_total:
  "(\<exists>i. ie_Parse b = Inr i \<and> wf_ie i) \<or>
   ie_Parse b \<in> {Inl (Error IoErrUnexpectedEOF), Inl (Error IEErrInvalidLength)}"
  using ie_UnmarshalBinary_sound(1) [of b] ie_UnmarshalBinary_errors [of b]
  by (cases "ie_Parse b") (auto simp: ie_Parse_def ie_errors_def)

text \<open>
  C5. Marshalling an element succeeds whatever it holds, fills exactly \<open>MarshalLen\<close> bytes, and for
  a well-formed element \<open>Parse\<close> reads it back, whatever bytes follow it.
\<close>

theorem ie_Marshal_Parse:
  assumes "wf_ie i"
  shows "\<exists>w. ie_Marshal i = Inr w \<and> length w = ie_MarshalLen i \<and> ie_Parse (w @ rest) = Inr i"
  using assms by (simp add: ie_Marshal_wire ie_Parse_def ie_UnmarshalBinary_wire)

definition sample_bearer :: ie where
  "sample_bearer =
     IE 93 14 0 [73, 0, 1, 0, 5, 94, 0, 5, 1, 80, 1, 2, 3, 4]
       [IE 73 1 0 [5] [], IE 94 5 1 [80, 1, 2, 3, 4] []]"

lemma sample_bearer_wf: "wf_ie sample_bearer"
  by (simp add: sample_bearer_def grouped_def grouped_types_def be16_def)

theorem ie_Marshal_Parse_witness:
  "\<exists>w. ie_Marshal sample_bearer = Inr w \<and> length w = 18 \<and> ie_Parse (w @ [1, 2]) = Inr sample_bearer"
  using ie_Marshal_Parse [OF sample_bearer_wf, of "[1, 2]"]
  by (simp add: sample_bearer_def grouped_def grouped_types_def)

text \<open>
  C6. \<open>Remove\<close> deletes exactly the children of the given type and instance: type and instance of
  the element itself stay, its children are the other ones in their order, its payload is what the
  decoder reads as these children, its length field counts that payload. So no child of that type
  and instance is found any more, and every other lookup finds what it found.
\<close>

theorem Remove_correct:
  assumes "wf_ie i" "IsGrouped i"
  shows "\<exists>i'. Remove t n i = Inr i' \<and> wf_ie i' \<and>
     ie_Type i' = ie_Type i \<and> ie_instance i' = ie_instance i \<and>
     ie_ChildIEs i' = filter (\<lambda>c. \<not> (ie_Type c = t \<and> Instance c = n)) (ie_ChildIEs i) \<and>
     ie_ParseMultiIEs (ie_Payload i') = Inr (ie_ChildIEs i') \<and>
     unat (ie_Length i') = length (ie_Payload i') \<and>
     (\<forall>t' n'. FindByType t' n' i' =
        (if t' = t \<and> n' = n then Inl (Error IEErrIENotFound) else FindByType t' n' i))"
proof -
  let ?cs = "filter (\<lambda>c. \<not> (ie_Type c = t \<and> Instance c = n)) (ie_ChildIEs i)"
  obtain i' where i': "Remove t n i = Inr i'"
    using assms(2) by (auto simp: Remove_grouped Let_def)
  then have eq: "ie_Type i' = ie_Type i" "ie_instance i' = ie_instance i" "ie_ChildIEs i' = ?cs"
    by (auto simp: Remove_grouped [OF assms(2)] Let_def)
  have wf: "wf_ie i'" by (rule wf_ie_Remove [OF assms(1) i'])
  with assms(2) eq(1) have kids: "\<forall>c \<in> set (ie_ChildIEs i'). wf_ie c"
    "ie_Payload i' = concat (map ie_wire (ie_ChildIEs i'))" "unat (ie_Length i') = length (ie_Payload i')"
    by (cases i'; simp add: IsGrouped_def)+
  have "ie_ParseMultiIEs (ie_Payload i') = Inr (ie_ChildIEs i')"
    unfolding kids(2) by (rule v2ies.multi_enc [OF kids(1)])
  moreover have "FindByType t' n' i' = FindByType t' n' i" if "\<not> (t' = t \<and> n' = n)" for t' n'
    using FindByType_Remove_other [OF i', of t' n'] that by simp
  ultimately show ?thesis
    using i' wf kids(3) eq FindByType_Remove [OF assms(2) i'] by auto
qed

theorem Remove_correct_witness:
  "\<exists>i'. Remove 94 1 sample_bearer = Inr i' \<and> wf_ie i' \<and>
     ie_ChildIEs i' = [IE 73 1 0 [5] []] \<and> ie_ParseMultiIEs (ie_Payload i') = Inr [IE 73 1 0 [5] []] \<and>
     FindByType 94 1 i' = Inl (Error IEErrIENotFound)"
proof -
  have grouped: "IsGrouped sample_bearer"
    and kept: "filter (\<lambda>c. \<not> (ie_Type c = 94 \<and> Instance c = 1)) (ie_ChildIEs sample_bearer) = [IE 73 1 0 [5] []]"
    by (simp_all add: sample_bearer_def Instance_def IsGrouped_def grouped_def grouped_types_def)
  show ?thesis using Remove_correct [OF sample_bearer_wf grouped, of 94 1] unfolding kept by fastforce
qed

end
