(* ===== verification/V2Message.thy ===== *)
theory V2Message
  imports V2Header V2IE
begin

text \<open>
  What the message types of \<open>src/gtpv2/message\<close> share. Each of them is a struct of a header, a
  number of fields of type \<open>*ie.IE\<close> and a slice \<open>AdditionalIEs\<close>, with the same methods written
  out for its own fields: \<open>New\<close> and \<open>UnmarshalBinary\<close> put each element into a field by a switch on
  its type and instance, \<open>MarshalTo\<close> and \<open>MarshalLen\<close> visit the fields in a fixed order.

  A message type is modelled by its field names (a datatype \<open>'s\<close>), its switch (a \<open>'s dispatch\<close>
  for every type and instance) and the two orders; the definitions below are the methods over
  such a description. The locale \<open>message_layout\<close> states when the four parts fit together and
  proves the round trip once; the theories of the message types interpret it.
\<close>

section \<open>Messages and the switch\<close>

text \<open>
  What a switch does with an element: store it in a field, append it to \<open>AdditionalIEs\<close>, or, when
  a \<open>switch i.Instance()\<close> has no default clause, drop it.
\<close>

datatype 's dispatch = Slot 's | Additional | Dropped

record 's v2_msg =
  m_Header :: v2_header
  m_field :: "'s \<Rightarrow> ie option"
  m_AdditionalIEs :: "ie list"

type_synonym 's switch = "byte \<Rightarrow> byte \<Rightarrow> 's dispatch"

definition empty_msg :: "v2_header \<Rightarrow> 's v2_msg" where
  "empty_msg h = \<lparr>m_Header = h, m_field = (\<lambda>_. None), m_AdditionalIEs = []\<rparr>"

definition store_ie :: "'s switch \<Rightarrow> ie \<Rightarrow> 's v2_msg \<Rightarrow> 's v2_msg" where
  "store_ie D i m =
     (case D (ie_Type i) (Instance i) of
        Slot s \<Rightarrow> m\<lparr>m_field := (m_field m)(s := Some i)\<rparr>
      | Additional \<Rightarrow> m\<lparr>m_AdditionalIEs := m_AdditionalIEs m @ [i]\<rparr>
      | Dropped \<Rightarrow> m)"

text \<open>The elements of a message in the order of its fields, then the additional ones.\<close>

definition present :: "'s list \<Rightarrow> 's v2_msg \<Rightarrow> ie list" where
  "present order m = List.map_filter (m_field m) order @ m_AdditionalIEs m"

definition msg_MarshalLen :: "'s list \<Rightarrow> 's v2_msg \<Rightarrow> nat" where
  "msg_MarshalLen order m =
     h_MarshalLen (m_Header m) - length (h_Payload (m_Header m)) +
     sum_list (map ie_MarshalLen (present order m))"

definition msg_SetLength :: "'s list \<Rightarrow> 's v2_msg \<Rightarrow> 's v2_msg" where
  "msg_SetLength order m =
     m\<lparr>m_Header := (m_Header m)\<lparr>h_Length := of_nat (msg_MarshalLen order m - 4)\<rparr>\<rparr>"

text \<open>The constructor skips nil elements, \<open>None\<close> in the model.\<close>

fun store_ies :: "'s switch \<Rightarrow> ie option list \<Rightarrow> 's v2_msg \<Rightarrow> 's v2_msg" where
  "store_ies D [] m = m"
| "store_ies D (None # ies) m = store_ies D ies m"
| "store_ies D (Some i # ies) m = store_ies D ies (store_ie D i m)"

definition msg_New ::
  "'s switch \<Rightarrow> 's list \<Rightarrow> byte \<Rightarrow> byte \<Rightarrow> u32 \<Rightarrow> u32 \<Rightarrow> ie option list \<Rightarrow> 's v2_msg" where
  "msg_New D order flags mtype teid seq ies =
     msg_SetLength order (store_ies D ies (empty_msg (NewHeader flags mtype teid seq [])))"

text \<open>
  \<open>MarshalTo\<close> rebuilds the payload of the header, element by element, sets the length field and
  writes the header. It mutates the header, so the model returns the message as well.
\<close>

fun marshal_ies :: "ie list \<Rightarrow> nat \<Rightarrow> bytes \<Rightarrow> bytes result" where
  "marshal_ies [] offset payload = Inr payload"
| "marshal_ies (i # ies) offset payload =
     andThen (slice_from payload offset) (\<lambda>s.
     andThen (ie_MarshalTo i s) (\<lambda>s'.
       marshal_ies ies (offset + ie_MarshalLen i) (take offset payload @ s')))"

definition msg_MarshalTo ::
  "'s list \<Rightarrow> 's list \<Rightarrow> 's v2_msg \<Rightarrow> bytes \<Rightarrow> (bytes \<times> 's v2_msg) result" where
  "msg_MarshalTo order lens m b =
     (let h0 = (m_Header m)\<lparr>h_Payload := []\<rparr>;
          n = msg_MarshalLen lens (m\<lparr>m_Header := h0\<rparr>) - h_MarshalLen h0
      in andThen (marshal_ies (present order m) 0 (replicate n 0)) (\<lambda>payload.
         let h = h_SetLength (h0\<lparr>h_Payload := payload\<rparr>)
         in andThen (h_MarshalTo h b) (\<lambda>b'. Inr (b', m\<lparr>m_Header := h\<rparr>))))"

definition msg_Marshal ::
  "'s list \<Rightarrow> 's list \<Rightarrow> 's v2_msg \<Rightarrow> (bytes \<times> 's v2_msg) result" where
  "msg_Marshal order lens m =
     msg_MarshalTo order lens m (replicate (msg_MarshalLen lens m) 0)"

text \<open>
  One message type departs from this, \<open>CreateSessionRequest\<close>: the offset is not advanced behind the
  last field, so \<open>AdditionalIEs\<close> are written over it. The payload is as long as all elements
  together, its end stays zero.
\<close>

definition msg_MarshalTo_over ::
  "'s list \<Rightarrow> 's list \<Rightarrow> 's v2_msg \<Rightarrow> bytes \<Rightarrow> (bytes \<times> 's v2_msg) result" where
  "msg_MarshalTo_over order lens m b =
     (let h0 = (m_Header m)\<lparr>h_Payload := []\<rparr>;
          n = msg_MarshalLen lens (m\<lparr>m_Header := h0\<rparr>) - h_MarshalLen h0;
          offset = sum_list (map ie_MarshalLen (List.map_filter (m_field m) (butlast order)))
      in andThen (marshal_ies (List.map_filter (m_field m) order) 0 (replicate n 0)) (\<lambda>payload.
         andThen (marshal_ies (m_AdditionalIEs m) offset payload) (\<lambda>payload.
         let h = h_SetLength (h0\<lparr>h_Payload := payload\<rparr>)
         in andThen (h_MarshalTo h b) (\<lambda>b'. Inr (b', m\<lparr>m_Header := h\<rparr>)))))"

definition msg_Marshal_over ::
  "'s list \<Rightarrow> 's list \<Rightarrow> 's v2_msg \<Rightarrow> (bytes \<times> 's v2_msg) result" where
  "msg_Marshal_over order lens m =
     msg_MarshalTo_over order lens m (replicate (msg_MarshalLen lens m) 0)"

text \<open>\<open>UnmarshalBinary\<close> does not look at a payload of fewer than two bytes.\<close>

definition msg_UnmarshalBinary :: "'s switch \<Rightarrow> bytes \<Rightarrow> 's v2_msg result" where
  "msg_UnmarshalBinary D b =
     andThen (h_ParseHeader b) (\<lambda>h.
     if length (h_Payload h) < 2 then Inr (empty_msg h)
     else
       andThen (ie_ParseMultiIEs (h_Payload h)) (\<lambda>decodedIEs.
         Inr (fold (store_ie D) decodedIEs (empty_msg h))))"

definition msg_TEID :: "'s v2_msg \<Rightarrow> u32" where
  "msg_TEID m = h_teid (m_Header m)"

section \<open>The switch, element by element\<close>

lemma store_ie_header [simp]: "m_Header (store_ie D i m) = m_Header m"
  by (simp add: store_ie_def split: dispatch.splits)

lemma fold_store_header [simp]: "m_Header (fold (store_ie D) ies m) = m_Header m"
  by (induction ies arbitrary: m) simp_all

lemma store_ies_fold: "store_ies D ies m = fold (store_ie D) (List.map_filter id ies) m"
  by (induction D ies m rule: store_ies.induct) (simp_all add: map_filter_simps)

lemma store_ies_header [simp]: "m_Header (store_ies D ies m) = m_Header m"
  by (simp add: store_ies_fold)

lemma fold_store_additional:
  "\<forall>i \<in> set ies. D (ie_Type i) (Instance i) = Additional \<Longrightarrow>
     fold (store_ie D) ies m = m\<lparr>m_AdditionalIEs := m_AdditionalIEs m @ ies\<rparr>"
  by (induction ies arbitrary: m) (simp_all add: store_ie_def)

lemma fold_store_fields:
  "distinct order \<Longrightarrow> \<forall>s i. f s = Some i \<longrightarrow> D (ie_Type i) (Instance i) = Slot s \<Longrightarrow>
     fold (store_ie D) (List.map_filter f order) m =
       m\<lparr>m_field := (\<lambda>s. if s \<in> set order \<and> f s \<noteq> None then f s else m_field m s)\<rparr>"
proof (induction order arbitrary: m)
  case Nil
  then show ?case by (simp add: map_filter_simps)
next
  case (Cons s order)
  show ?case
  proof (cases "f s")
    case None
    with Cons show ?thesis
      by (auto simp: map_filter_simps fun_eq_iff intro!: v2_msg.equality)
  next
    case (Some i)
    with Cons.prems have "D (ie_Type i) (Instance i) = Slot s" by blast
    with Cons Some show ?thesis
      by (auto simp: map_filter_simps store_ie_def fun_eq_iff intro!: v2_msg.equality)
  qed
qed

section \<open>Encoding the payload\<close>

lemma marshal_ies_wire:
  "offset + sum_list (map ie_MarshalLen ies) \<le> length payload \<Longrightarrow>
     marshal_ies ies offset payload =
       Inr (take offset payload @ concat (map ie_wire ies) @
            drop (offset + sum_list (map ie_MarshalLen ies)) payload)"
proof (induction ies arbitrary: offset payload)
  case Nil
  then show ?case by simp
next
  case (Cons i ies)
  let ?p = "take offset payload @ ie_wire i @ drop (ie_MarshalLen i) (drop offset payload)"
  have fits: "offset + ie_MarshalLen i \<le> length payload" "offset \<le> length payload"
    using Cons.prems by simp_all
  then have "ie_MarshalTo i (drop offset payload) =
      Inr (ie_wire i @ drop (ie_MarshalLen i) (drop offset payload))"
    by (intro ie_MarshalTo_wire) simp
  then have "marshal_ies (i # ies) offset payload = marshal_ies ies (offset + ie_MarshalLen i) ?p"
    using fits by (simp add: slice_from_ok)
  also have "\<dots> = Inr (take (offset + ie_MarshalLen i) ?p @ concat (map ie_wire ies) @
      drop (offset + ie_MarshalLen i + sum_list (map ie_MarshalLen ies)) ?p)"
    using Cons.prems fits by (intro Cons.IH) simp
  also have "take (offset + ie_MarshalLen i) ?p = take offset payload @ ie_wire i"
    using fits by (simp add: min_def)
  finally show ?case using fits by (simp add: ac_simps min_def)
qed

lemma sum_wire: "length (concat (map ie_wire ies)) = sum_list (map ie_MarshalLen ies)"
  by (simp add: length_concat comp_def)

lemma sum_map_filter:
  "distinct xs \<Longrightarrow> sum_list (map g (List.map_filter f xs)) =
     (\<Sum>x \<in> set xs. case f x of None \<Rightarrow> 0 | Some y \<Rightarrow> (g y :: nat))"
  by (induction xs) (simp_all add: map_filter_simps split: option.splits)

text \<open>The message \<open>MarshalTo\<close> leaves behind, and the bytes it writes.\<close>

definition msg_marshalled :: "'s list \<Rightarrow> 's v2_msg \<Rightarrow> 's v2_msg" where
  "msg_marshalled order m =
     m\<lparr>m_Header := h_SetLength ((m_Header m)\<lparr>h_Payload := concat (map ie_wire (present order m))\<rparr>)\<rparr>"

definition msg_wire :: "'s list \<Rightarrow> 's v2_msg \<Rightarrow> bytes" where
  "msg_wire order m = header_wire (m_Header (msg_marshalled order m))"

lemma msg_MarshalLen_base:
  "msg_MarshalLen order m =
     (if HasTEID (m_Header m) then 12 else 8) + sum_list (map ie_MarshalLen (present order m))"
  by (simp add: msg_MarshalLen_def h_MarshalLen_def Let_def)

lemma present_header [simp]: "present order (m\<lparr>m_Header := h\<rparr>) = present order m"
  by (simp add: present_def)

lemma msg_wire_length: "length (msg_wire order m) = msg_MarshalLen order m"
  by (simp add: msg_wire_def msg_marshalled_def msg_MarshalLen_base h_MarshalLen_def Let_def
      length_concat comp_def HasTEID_def)

text \<open>The same for the type whose additional elements are written over the last field.\<close>

definition msg_over_payload :: "'s list \<Rightarrow> 's v2_msg \<Rightarrow> bytes" where
  "msg_over_payload order m =
     (let additional = concat (map ie_wire (m_AdditionalIEs m)) in
      concat (map ie_wire (List.map_filter (m_field m) (butlast order))) @ additional @
      drop (length additional)
        (concat (map ie_wire (List.map_filter (m_field m) [last order])) @ replicate (length additional) 0))"

definition msg_marshalled_over :: "'s list \<Rightarrow> 's v2_msg \<Rightarrow> 's v2_msg" where
  "msg_marshalled_over order m =
     m\<lparr>m_Header := h_SetLength ((m_Header m)\<lparr>h_Payload := msg_over_payload order m\<rparr>)\<rparr>"

text \<open>Whether that loses anything: both the last field and \<open>AdditionalIEs\<close> are there.\<close>

definition msg_overlaps :: "'s list \<Rightarrow> 's v2_msg \<Rightarrow> bool" where
  "msg_overlaps order m \<longleftrightarrow> m_field m (last order) \<noteq> None \<and> m_AdditionalIEs m \<noteq> []"

lemma map_filter_butlast:
  "order \<noteq> [] \<Longrightarrow>
     List.map_filter f order = List.map_filter f (butlast order) @ List.map_filter f [last order]"
  using append_butlast_last_id [of order] by (metis List.map_filter_def filter_append map_append)

lemma msg_over_payload_length:
  "order \<noteq> [] \<Longrightarrow> length (msg_over_payload order m) = sum_list (map ie_MarshalLen (present order m))"
  by (simp add: msg_over_payload_def present_def map_filter_butlast Let_def length_concat comp_def)

lemma msg_over_payload_regular:
  "order \<noteq> [] \<Longrightarrow> \<not> msg_overlaps order m \<Longrightarrow>
     msg_over_payload order m = concat (map ie_wire (present order m))"
  by (auto simp: msg_over_payload_def msg_overlaps_def present_def map_filter_butlast Let_def
      map_filter_simps)

text \<open>
  A message is well-formed for a switch when every field holds an element the switch sends there
  and every additional element is one it sends to \<open>AdditionalIEs\<close>.
\<close>

definition msg_ok :: "'s switch \<Rightarrow> 's v2_msg \<Rightarrow> bool" where
  "msg_ok D m \<longleftrightarrow>
     (\<forall>s i. m_field m s = Some i \<longrightarrow> wf_ie i \<and> D (ie_Type i) (Instance i) = Slot s) \<and>
     (\<forall>i \<in> set (m_AdditionalIEs m). wf_ie i \<and> D (ie_Type i) (Instance i) = Additional)"

lemma msg_ok_store: "msg_ok D m \<Longrightarrow> wf_ie i \<Longrightarrow> msg_ok D (store_ie D i m)"
  by (auto simp: msg_ok_def store_ie_def split: dispatch.splits)

lemma msg_ok_fold: "msg_ok D m \<Longrightarrow> \<forall>i \<in> set ies. wf_ie i \<Longrightarrow> msg_ok D (fold (store_ie D) ies m)"
  by (induction ies arbitrary: m) (simp_all add: msg_ok_store)

lemma msg_ok_empty [simp]: "msg_ok D (empty_msg h)"
  by (simp add: msg_ok_def empty_msg_def)

lemma msg_ok_header [simp]: "msg_ok D (m\<lparr>m_Header := h\<rparr>) = msg_ok D m"
  by (simp add: msg_ok_def)

lemma msg_ok_New:
  assumes "\<And>i. Some i \<in> set ies \<Longrightarrow> wf_ie i"
  shows "msg_ok D (msg_New D order flags mtype teid seq ies)"
proof -
  have "\<forall>i \<in> set (List.map_filter id ies). wf_ie i"
    using assms by (induction ies) (auto simp: map_filter_simps split: option.splits)
  then show ?thesis by (simp add: msg_New_def msg_SetLength_def store_ies_fold msg_ok_fold)
qed

lemma msg_ok_Unmarshal: "msg_UnmarshalBinary D b = Inr m \<Longrightarrow> msg_ok D m"
  by (auto simp: msg_UnmarshalBinary_def andThen_eq_Inr intro!: msg_ok_fold
      dest: ie_ParseMultiIEs_wf split: if_splits)

lemma msg_Unmarshal_no_panic: "no_panic (msg_UnmarshalBinary D b)"
  unfolding msg_UnmarshalBinary_def h_ParseHeader_def
  by (intro no_panic_andThen h_UnmarshalBinary_no_panic)
     (auto intro!: no_panic_andThen v2ies.multi_no_panic)

text \<open>The header of a message that can be sent: the sequence number fits, and so does the length.\<close>

definition sendable :: "'s list \<Rightarrow> 's v2_msg \<Rightarrow> bool" where
  "sendable order m \<longleftrightarrow>
     h_SequenceNumber (m_Header m) < 0x1000000 \<and>
     (HasTEID (m_Header m) \<or> h_TEID (m_Header m) = 0) \<and> msg_MarshalLen order m < 65536"

section \<open>The contract of a message type\<close>

text \<open>
  The parts of a message type fit together when \<open>MarshalTo\<close> and \<open>MarshalLen\<close> visit the same
  fields, each exactly once, and every field the switch of \<open>UnmarshalBinary\<close> fills is among them.
\<close>

locale message_layout =
  fixes D :: "'s switch"
    and order :: "'s list"
    and lens :: "'s list"
  assumes order_distinct: "distinct order"
    and lens_distinct: "distinct lens"
    and order_lens: "set order = set lens"
    and order_all: "D t n = Slot s \<Longrightarrow> s \<in> set order"
begin

lemma present_lens:
  "sum_list (map ie_MarshalLen (present lens m)) = sum_list (map ie_MarshalLen (present order m))"
  by (simp add: present_def sum_map_filter order_distinct lens_distinct order_lens)

lemma MarshalLen_lens: "msg_MarshalLen lens m = msg_MarshalLen order m"
  by (simp add: msg_MarshalLen_def present_lens)

lemma MarshalTo_wire:
  assumes "msg_MarshalLen lens m \<le> length b"
  shows "msg_MarshalTo order lens m b =
           Inr (msg_wire order m @ drop (msg_MarshalLen lens m) b, msg_marshalled order m)"
proof -
  let ?hempty = "(m_Header m)\<lparr>h_Payload := []\<rparr>"
  let ?h = "m_Header (msg_marshalled order m)"
  have n: "msg_MarshalLen lens (m\<lparr>m_Header := ?hempty\<rparr>) - h_MarshalLen ?hempty =
      sum_list (map ie_MarshalLen (present order m))"
    by (simp add: msg_MarshalLen_def present_lens)
  have len: "h_MarshalLen ?h = msg_MarshalLen lens m"
    using msg_wire_length [of order m] by (simp add: msg_wire_def MarshalLen_lens)
  have "h_MarshalTo ?h b = Inr (msg_wire order m @ drop (msg_MarshalLen lens m) b)"
    using h_MarshalTo_wire [of ?h b] assms by (simp add: len msg_wire_def)
  then show ?thesis
    by (simp add: msg_MarshalTo_def n marshal_ies_wire msg_marshalled_def Let_def)
qed

text \<open>Marshalling never fails, whatever the elements are.\<close>

lemma Marshal_wire: "msg_Marshal order lens m = Inr (msg_wire order m, msg_marshalled order m)"
  by (simp add: msg_Marshal_def MarshalTo_wire msg_wire_length MarshalLen_lens)

lemma Marshal_over_wire:
  assumes "order \<noteq> []"
  shows "msg_Marshal_over order lens m =
    Inr (header_wire (m_Header (msg_marshalled_over order m)), msg_marshalled_over order m)"
proof -
  let ?hempty = "(m_Header m)\<lparr>h_Payload := []\<rparr>"
  let ?h = "m_Header (msg_marshalled_over order m)"
  let ?n = "sum_list (map ie_MarshalLen (present order m))"
  let ?F = "List.map_filter (m_field m) (butlast order)" and ?P = "List.map_filter (m_field m) [last order]"
  let ?w = "\<lambda>ies. concat (map ie_wire ies)"
  have n: "msg_MarshalLen lens (m\<lparr>m_Header := ?hempty\<rparr>) - h_MarshalLen ?hempty = ?n"
    by (simp add: msg_MarshalLen_def present_lens)
  have sum: "?n = length (?w ?F) + length (?w ?P) + length (?w (m_AdditionalIEs m))"
    using assms by (simp add: present_def map_filter_butlast sum_wire)
  have "marshal_ies (List.map_filter (m_field m) order) 0 (replicate ?n 0) =
      Inr (?w ?F @ ?w ?P @ replicate (length (?w (m_AdditionalIEs m))) 0)"
    using marshal_ies_wire [of 0 "List.map_filter (m_field m) order" "replicate ?n 0"]
    by (simp add: sum map_filter_butlast [OF assms] sum_wire)
  moreover have "marshal_ies (m_AdditionalIEs m) (length (?w ?F))
      (?w ?F @ ?w ?P @ replicate (length (?w (m_AdditionalIEs m))) 0) = Inr (msg_over_payload order m)"
    by (subst marshal_ies_wire) (simp_all add: sum_wire [symmetric] msg_over_payload_def Let_def)
  moreover have len: "h_MarshalLen ?h = msg_MarshalLen lens m"
    by (simp add: msg_marshalled_over_def h_MarshalLen_def Let_def present_lens msg_MarshalLen_base
        msg_over_payload_length [OF assms] HasTEID_def)
  moreover have "h_MarshalTo ?h (replicate (msg_MarshalLen lens m) 0) = Inr (header_wire ?h)"
    using h_MarshalTo_wire [of ?h "replicate (msg_MarshalLen lens m) 0"] by (simp add: len)
  ultimately show ?thesis
    by (simp add: msg_Marshal_over_def msg_MarshalTo_over_def n sum_wire [symmetric] Let_def)
       (simp add: msg_marshalled_over_def)
qed

lemma Marshal_over_length:
  assumes "order \<noteq> []"
  shows "length (header_wire (m_Header (msg_marshalled_over order m))) = msg_MarshalLen lens m"
  by (simp add: msg_marshalled_over_def h_MarshalLen_def Let_def present_lens msg_MarshalLen_base
      msg_over_payload_length [OF assms] HasTEID_def)

lemma Marshal_over_succeeds:
  "order \<noteq> [] \<Longrightarrow>
     \<exists>w m'. msg_Marshal_over order lens m = Inr (w, m') \<and> length w = msg_MarshalLen lens m"
  using Marshal_over_wire [of m] Marshal_over_length [of m] by blast

text \<open>Without an overlap it is the regular encoder.\<close>

lemma Marshal_over_regular:
  "order \<noteq> [] \<Longrightarrow> \<not> msg_overlaps order m \<Longrightarrow> msg_Marshal_over order lens m = msg_Marshal order lens m"
  by (simp add: Marshal_over_wire Marshal_wire msg_wire_def msg_marshalled_over_def msg_marshalled_def
      msg_over_payload_regular)

lemma store_present:
  assumes "msg_ok D m"
  shows "fold (store_ie D) (present order m) (empty_msg h) = m\<lparr>m_Header := h\<rparr>"
proof -
  have D: "\<forall>s i. m_field m s = Some i \<longrightarrow> D (ie_Type i) (Instance i) = Slot s"
    and "\<forall>i \<in> set (m_AdditionalIEs m). D (ie_Type i) (Instance i) = Additional"
    using assms by (auto simp: msg_ok_def)
  moreover have "m_field m s = None" if "s \<notin> set order" for s
  proof (cases "m_field m s")
    case (Some i)
    with D have "D (ie_Type i) (Instance i) = Slot s" by blast
    with that show ?thesis using order_all by blast
  qed
  ultimately show ?thesis
    by (simp add: present_def fold_store_fields [OF order_distinct] fold_store_additional)
       (auto simp: empty_msg_def fun_eq_iff intro!: v2_msg.equality split: option.splits)
qed

text \<open>What a well-formed message is marshalled to is decoded to that message.\<close>

lemma Unmarshal_wire:
  assumes ok: "msg_ok D m" and send: "sendable order m"
    and len: "12 \<le> msg_MarshalLen order m + length rest"
  shows "msg_UnmarshalBinary D (msg_wire order m @ rest) = Inr (msg_marshalled order m)"
proof -
  let ?h = "m_Header (msg_marshalled order m)"
  let ?p = "concat (map ie_wire (present order m))"
  have mlen: "h_MarshalLen ?h = msg_MarshalLen order m"
    using msg_wire_length [of order m] by (simp add: msg_wire_def)
  have "v2_header_ok ?h"
    using send mlen unfolding msg_marshalled_def sendable_def
    by (simp add: v2_header_ok_SetLength HasTEID_def)
  then have hdr: "h_ParseHeader (msg_wire order m @ rest) = Inr ?h"
    using send len unfolding h_ParseHeader_def msg_wire_def sendable_def
    by (intro h_UnmarshalBinary_wire) (simp_all add: mlen)
  have pay: "h_Payload ?h = ?p" by (simp add: msg_marshalled_def)
  have wf: "\<forall>i \<in> set (present order m). wf_ie i"
    using ok by (auto simp: present_def msg_ok_def List.map_filter_def)
  have multi: "ie_ParseMultiIEs ?p = Inr (present order m)"
    using v2ies.multi_enc [OF wf] .
  have store: "fold (store_ie D) (present order m) (empty_msg ?h) = msg_marshalled order m"
    by (simp add: store_present [OF ok]) (simp add: msg_marshalled_def)
  show ?thesis
  proof (cases "length ?p < 2")
    case True
    have "present order m = []"
    proof (rule ccontr)
      assume "present order m \<noteq> []"
      then obtain i ies where "present order m = i # ies" by (cases "present order m") auto
      with True ie_MarshalLen_ge [of i] show False by simp
    qed
    with store have "msg_marshalled order m = empty_msg ?h" by simp
    with True show ?thesis by (simp add: msg_UnmarshalBinary_def hdr pay)
  next
    case False
    then show ?thesis by (simp add: msg_UnmarshalBinary_def hdr pay multi store)
  qed
qed

lemma roundtrip:
  assumes "msg_ok D m" "sendable order m" "12 \<le> msg_MarshalLen order m + length rest"
  obtains w m' where "msg_Marshal order lens m = Inr (w, m')"
    "msg_UnmarshalBinary D (w @ rest) = Inr m'"
    "m_field m' = m_field m" "m_AdditionalIEs m' = m_AdditionalIEs m"
proof (rule that)
  show "msg_Marshal order lens m = Inr (msg_wire order m, msg_marshalled order m)"
    by (rule Marshal_wire)
  show "msg_UnmarshalBinary D (msg_wire order m @ rest) = Inr (msg_marshalled order m)"
    using assms by (rule Unmarshal_wire)
qed (simp_all add: msg_marshalled_def)

text \<open>
  The same with the byte that \<open>Parse\<close> selects the message type by, as \<open>V2Parse\<close> uses it.
\<close>

lemma marshalled_parse:
  assumes "msg_ok D m" "sendable order m" and w: "msg_Marshal order lens m = Inr (w, m')"
    and len: "12 \<le> length w + length rest"
  shows "msg_UnmarshalBinary D (w @ rest) = Inr m'" "byte_at (w @ rest) 1 = Inr (h_Type (m_Header m))"
proof -
  have eq: "w = msg_wire order m" "m' = msg_marshalled order m"
    using w by (simp_all add: Marshal_wire)
  show "msg_UnmarshalBinary D (w @ rest) = Inr m'"
    using assms by (simp add: eq Unmarshal_wire msg_wire_length)
  show "byte_at (w @ rest) 1 = Inr (h_Type (m_Header m))"
    by (simp add: eq msg_wire_def header_wire_def msg_marshalled_def byte_at_def)
qed

lemma Marshal_succeeds: "\<exists>w m'. msg_Marshal order lens m = Inr (w, m') \<and> length w = msg_MarshalLen lens m"
  by (simp add: Marshal_wire msg_wire_length MarshalLen_lens)

end

end
