(* ===== verification/V2Generic.thy ===== *)
theory V2Generic
  imports V2Message
begin

text \<open>
  The two message types without named fields: \<open>Generic\<close> (\<open>src/gtpv2/message/generic.go\<close>), the
  type of a message whose type byte has no Go type of its own, and
  \<open>VersionNotSupportedIndication\<close> (\<open>version-not-supported.go\<close>).

  A \<open>Generic\<close> keeps the elements it was given, nil ones included: \<open>MarshalTo\<close> and \<open>MarshalLen\<close>
  skip them, \<open>SetLength\<close> does not and panics. The lemmas reduce a \<open>Generic\<close> to a message with
  additional elements only.
\<close>

section \<open>Generic\<close>

record v2_generic =
  g_Header :: v2_header
  g_IEs :: "ie option list"

definition g_MarshalLen :: "v2_generic \<Rightarrow> nat" where
  "g_MarshalLen g =
     h_MarshalLen (g_Header g) - length (h_Payload (g_Header g)) +
     sum_list (map ie_MarshalLen (List.map_filter id (g_IEs g)))"

text \<open>A method called on a nil element dereferences it.\<close>

fun generic_lens :: "ie option list \<Rightarrow> nat result" where
  "generic_lens [] = Inr 0"
| "generic_lens (None # ies) = Inl (Panic NilDereference)"
| "generic_lens (Some i # ies) = andThen (generic_lens ies) (\<lambda>n. Inr (ie_MarshalLen i + n))"

definition g_SetLength :: "v2_generic \<Rightarrow> v2_generic result" where
  "g_SetLength g =
     andThen (generic_lens (g_IEs g)) (\<lambda>n.
     Inr (g\<lparr>g_Header := (g_Header g)\<lparr>h_Length :=
       of_nat (h_MarshalLen (g_Header g) - length (h_Payload (g_Header g)) - 4 + n)\<rparr>\<rparr>))"

definition NewGeneric :: "byte \<Rightarrow> u32 \<Rightarrow> u32 \<Rightarrow> ie option list \<Rightarrow> v2_generic result" where
  "NewGeneric msgType teid seq ies =
     g_SetLength \<lparr>g_Header = NewHeader (NewHeaderFlags 2 0 1) msgType teid seq [], g_IEs = ies\<rparr>"

definition NewGenericWithoutTEID :: "byte \<Rightarrow> u32 \<Rightarrow> u32 \<Rightarrow> ie option list \<Rightarrow> v2_generic" where
  "NewGenericWithoutTEID msgType teid seq ies =
     \<lparr>g_Header = NewHeader (NewHeaderFlags 2 0 0) msgType teid seq [], g_IEs = ies\<rparr>"

definition AddIE :: "ie option list \<Rightarrow> v2_generic \<Rightarrow> v2_generic result" where
  "AddIE ies g = g_SetLength (g\<lparr>g_IEs := g_IEs g @ ies\<rparr>)"

definition g_MarshalTo :: "v2_generic \<Rightarrow> bytes \<Rightarrow> (bytes \<times> v2_generic) result" where
  "g_MarshalTo g b =
     (let h0 = (g_Header g)\<lparr>h_Payload := []\<rparr>;
          n = g_MarshalLen (g\<lparr>g_Header := h0\<rparr>) - h_MarshalLen h0
      in andThen (marshal_ies (List.map_filter id (g_IEs g)) 0 (replicate n 0)) (\<lambda>payload.
         let h = h_SetLength (h0\<lparr>h_Payload := payload\<rparr>)
         in andThen (h_MarshalTo h b) (\<lambda>b'. Inr (b', g\<lparr>g_Header := h\<rparr>))))"

definition g_Marshal :: "v2_generic \<Rightarrow> (bytes \<times> v2_generic) result" where
  "g_Marshal g = g_MarshalTo g (replicate (g_MarshalLen g) 0)"

definition g_UnmarshalBinary :: "bytes \<Rightarrow> v2_generic result" where
  "g_UnmarshalBinary b =
     andThen (h_ParseHeader b) (\<lambda>h.
     if length (h_Payload h) < 2 then Inr \<lparr>g_Header = h, g_IEs = []\<rparr>
     else
       andThen (ie_ParseMultiIEs (h_Payload h)) (\<lambda>ies.
         Inr \<lparr>g_Header = h, g_IEs = map Some ies\<rparr>))"

definition g_TEID :: "v2_generic \<Rightarrow> u32" where
  "g_TEID g = h_teid (g_Header g)"

section \<open>VersionNotSupportedIndication\<close>

text \<open>
  All its elements are additional ones. The source tests the error of \<open>ParseMultiIEs\<close> for
  \<open>message.ErrTooShortToParse\<close>, which the element parser never returns, and ignores it.
\<close>

abbreviation MsgTypeVersionNotSupportedIndication :: byte where
  "MsgTypeVersionNotSupportedIndication \<equiv> 3"

definition VersionNotSupportedIndication_switch :: "unit switch" where
  "VersionNotSupportedIndication_switch t n = Additional"

definition VersionNotSupportedIndication_order :: "unit list" where
  "VersionNotSupportedIndication_order = []"

definition NewVersionNotSupportedIndication :: "u32 \<Rightarrow> u32 \<Rightarrow> ie option list \<Rightarrow> unit v2_msg" where
  "NewVersionNotSupportedIndication teid seq ies =
     msg_New VersionNotSupportedIndication_switch VersionNotSupportedIndication_order
       (NewHeaderFlags 2 0 1) MsgTypeVersionNotSupportedIndication teid seq ies"

definition VersionNotSupportedIndication_MarshalLen :: "unit v2_msg \<Rightarrow> nat" where
  "VersionNotSupportedIndication_MarshalLen m = msg_MarshalLen VersionNotSupportedIndication_order m"

definition VersionNotSupportedIndication_MarshalTo ::
  "unit v2_msg \<Rightarrow> bytes \<Rightarrow> (bytes \<times> unit v2_msg) result" where
  "VersionNotSupportedIndication_MarshalTo m b =
     msg_MarshalTo VersionNotSupportedIndication_order VersionNotSupportedIndication_order m b"

definition VersionNotSupportedIndication_Marshal :: "unit v2_msg \<Rightarrow> (bytes \<times> unit v2_msg) result" where
  "VersionNotSupportedIndication_Marshal m =
     VersionNotSupportedIndication_MarshalTo m
       (replicate (VersionNotSupportedIndication_MarshalLen m) 0)"

definition VersionNotSupportedIndication_UnmarshalBinary :: "bytes \<Rightarrow> unit v2_msg result" where
  "VersionNotSupportedIndication_UnmarshalBinary b =
     andThen (h_ParseHeader b) (\<lambda>h.
     if length (h_Payload h) < 2 then Inr (empty_msg h)
     else
       (case ie_ParseMultiIEs (h_Payload h) of
          Inl e \<Rightarrow> if e = Error MsgErrTooShortToParse then Inr (empty_msg h) else Inl e
        | Inr decodedIEs \<Rightarrow> Inr ((empty_msg h)\<lparr>m_AdditionalIEs := decodedIEs\<rparr>)))"

interpretation versionNotSupportedIndication: message_layout
  VersionNotSupportedIndication_switch VersionNotSupportedIndication_order
  VersionNotSupportedIndication_order
  by unfold_locales
     (simp_all add: VersionNotSupportedIndication_order_def VersionNotSupportedIndication_switch_def)

lemma VersionNotSupportedIndication_Marshal_eq:
  "VersionNotSupportedIndication_Marshal m =
     msg_Marshal VersionNotSupportedIndication_order VersionNotSupportedIndication_order m"
  by (simp add: VersionNotSupportedIndication_Marshal_def VersionNotSupportedIndication_MarshalTo_def
      VersionNotSupportedIndication_MarshalLen_def msg_Marshal_def)

text \<open>The error the decoder looks for does not occur.\<close>

lemma ie_errors_not_message:
  "ie_ParseMultiIEs b \<noteq> Inl (Error MsgErrTooShortToParse)"
  by (auto simp: ie_errors_def dest: ie_ParseMultiIEs_errors)

lemma VersionNotSupportedIndication_Unmarshal_eq:
  "VersionNotSupportedIndication_UnmarshalBinary b =
     msg_UnmarshalBinary VersionNotSupportedIndication_switch b"
  using ie_errors_not_message
  by (auto simp: VersionNotSupportedIndication_UnmarshalBinary_def msg_UnmarshalBinary_def
      andThen_def fold_store_additional VersionNotSupportedIndication_switch_def empty_msg_def
      split: sum.splits)

section \<open>A generic message as a message with additional elements\<close>

definition generic_msg :: "v2_generic \<Rightarrow> unit v2_msg" where
  "generic_msg g =
     \<lparr>m_Header = g_Header g, m_field = (\<lambda>_. None), m_AdditionalIEs = List.map_filter id (g_IEs g)\<rparr>"

definition generic_parsed :: "v2_generic \<Rightarrow> v2_generic" where
  "generic_parsed g = g\<lparr>g_IEs := filter (\<lambda>i. i \<noteq> None) (g_IEs g)\<rparr>"

definition generic_ok :: "v2_generic \<Rightarrow> bool" where
  "generic_ok g \<longleftrightarrow>
     msg_ok VersionNotSupportedIndication_switch (generic_msg g) \<and>
     sendable VersionNotSupportedIndication_order (generic_msg g)"

lemma g_MarshalLen_eq: "g_MarshalLen g = msg_MarshalLen VersionNotSupportedIndication_order (generic_msg g)"
  by (simp add: g_MarshalLen_def msg_MarshalLen_def generic_msg_def present_def
      VersionNotSupportedIndication_order_def map_filter_simps)

lemma g_MarshalTo_eq:
  "andThen (g_MarshalTo g b) (\<lambda>(w, g'). Inr (w, generic_msg g')) =
     VersionNotSupportedIndication_MarshalTo (generic_msg g) b"
  "g_MarshalTo g b = Inr (w, g') \<Longrightarrow> g_IEs g' = g_IEs g"
  by (auto simp: g_MarshalTo_def VersionNotSupportedIndication_MarshalTo_def msg_MarshalTo_def
      g_MarshalLen_eq generic_msg_def present_def VersionNotSupportedIndication_order_def
      map_filter_simps Let_def andThen_def split: sum.splits)

lemma g_Marshal_eq:
  "andThen (g_Marshal g) (\<lambda>(w, g'). Inr (w, generic_msg g')) =
     VersionNotSupportedIndication_Marshal (generic_msg g)"
  by (simp add: g_Marshal_def VersionNotSupportedIndication_Marshal_def g_MarshalTo_eq
      VersionNotSupportedIndication_MarshalLen_def g_MarshalLen_eq)

lemma g_UnmarshalBinary_eq:
  "g_UnmarshalBinary b =
     andThen (msg_UnmarshalBinary VersionNotSupportedIndication_switch b) (\<lambda>m.
       Inr \<lparr>g_Header = m_Header m, g_IEs = map Some (m_AdditionalIEs m)\<rparr>)"
  by (auto simp: g_UnmarshalBinary_def msg_UnmarshalBinary_def andThen_def fold_store_additional
      VersionNotSupportedIndication_switch_def empty_msg_def split: sum.splits)

lemma generic_Unmarshal_no_panic: "no_panic (g_UnmarshalBinary b)"
  unfolding g_UnmarshalBinary_eq by (rule no_panic_andThen) (simp_all add: msg_Unmarshal_no_panic)

lemma map_Some_filter: "map Some (List.map_filter id xs) = filter (\<lambda>i. i \<noteq> None) xs"
  by (induction xs) (auto simp: map_filter_simps split: option.splits)

lemma generic_Marshal_succeeds: "\<exists>w g'. g_Marshal g = Inr (w, g') \<and> length w = g_MarshalLen g"
  using g_Marshal_eq [of g] VersionNotSupportedIndication_Marshal_eq [of "generic_msg g"]
    versionNotSupportedIndication.Marshal_succeeds [of "generic_msg g"]
  by (auto simp: andThen_eq_Inr g_MarshalLen_eq)

lemma generic_marshalled_parse:
  assumes "generic_ok g" and w: "g_Marshal g = Inr (w, g')" and len: "12 \<le> length w + length rest"
  shows "g_UnmarshalBinary (w @ rest) = Inr (generic_parsed g')"
    and "byte_at (w @ rest) 1 = Inr (h_Type (g_Header g))"
proof -
  have ok: "msg_ok VersionNotSupportedIndication_switch (generic_msg g)"
    "sendable VersionNotSupportedIndication_order (generic_msg g)"
    using assms(1) by (simp_all add: generic_ok_def)
  have m: "msg_Marshal VersionNotSupportedIndication_order VersionNotSupportedIndication_order
      (generic_msg g) = Inr (w, generic_msg g')"
    using g_Marshal_eq [of g] w by (simp add: VersionNotSupportedIndication_Marshal_eq)
  note rt = versionNotSupportedIndication.marshalled_parse [OF ok m len]
  from rt(1) show "g_UnmarshalBinary (w @ rest) = Inr (generic_parsed g')"
    by (simp add: g_UnmarshalBinary_eq generic_msg_def generic_parsed_def map_Some_filter)
  from rt(2) show "byte_at (w @ rest) 1 = Inr (h_Type (g_Header g))"
    by (simp add: generic_msg_def)
qed

end
