(* ===== verification/V2IETypes.thy ===== *)
theory V2IETypes
  imports V2IE
begin

text \<open>
  The type numbers of the GTPv2 elements and the table of their names
  (\<open>src/gtpv2/ie/ie.go\<close>). The constants are abbreviations, so that the models of the typed
  elements read like the sources; \<open>ie_type_codes\<close> is the whole constant block and
  \<open>ieTypeNameMap\<close> the table \<open>Name\<close> looks up.
\<close>

abbreviation IE_IMSI :: byte where
  "IE_IMSI \<equiv> 1"

abbreviation IE_Cause :: byte where
  "IE_Cause \<equiv> 2"

abbreviation IE_Recovery :: byte where
  "IE_Recovery \<equiv> 3"

abbreviation IE_STNSR :: byte where
  "IE_STNSR \<equiv> 51"

abbreviation IE_AccessPointName :: byte where
  "IE_AccessPointName \<equiv> 71"

abbreviation IE_AggregateMaximumBitRate :: byte where
  "IE_AggregateMaximumBitRate \<equiv> 72"

abbreviation IE_EPSBearerID :: byte where
  "IE_EPSBearerID \<equiv> 73"

abbreviation IE_IPAddress :: byte where
  "IE_IPAddress \<equiv> 74"

abbreviation IE_MobileEquipmentIdentity :: byte where
  "IE_MobileEquipmentIdentity \<equiv> 75"

abbreviation IE_MSISDN :: byte where
  "IE_MSISDN \<equiv> 76"

abbreviation IE_Indication :: byte where
  "IE_Indication \<equiv> 77"

abbreviation IE_ProtocolConfigurationOptions :: byte where
  "IE_ProtocolConfigurationOptions \<equiv> 78"

abbreviation IE_PDNAddressAllocation :: byte where
  "IE_PDNAddressAllocation \<equiv> 79"

abbreviation IE_BearerQoS :: byte where
  "IE_BearerQoS \<equiv> 80"

abbreviation IE_FlowQoS :: byte where
  "IE_FlowQoS \<equiv> 81"

abbreviation IE_RATType :: byte where
  "IE_RATType \<equiv> 82"

abbreviation IE_ServingNetwork :: byte where
  "IE_ServingNetwork \<equiv> 83"

abbreviation IE_BearerTFT :: byte where
  "IE_BearerTFT \<equiv> 84"

abbreviation IE_TrafficAggregateDescription :: byte where
  "IE_TrafficAggregateDescription \<equiv> 85"

abbreviation IE_UserLocationInformation :: byte where
  "IE_UserLocationInformation \<equiv> 86"

abbreviation IE_FullyQualifiedTEID :: byte where
  "IE_FullyQualifiedTEID \<equiv> 87"

abbreviation IE_TMSI :: byte where
  "IE_TMSI \<equiv> 88"

abbreviation IE_GlobalCNID :: byte where
  "IE_GlobalCNID \<equiv> 89"

abbreviation IE_S103PDNDataForwardingInfo :: byte where
  "IE_S103PDNDataForwardingInfo \<equiv> 90"

abbreviation IE_S1UDataForwarding :: byte where
  "IE_S1UDataForwarding \<equiv> 91"

abbreviation IE_DelayValue :: byte where
  "IE_DelayValue \<equiv> 92"

abbreviation IE_BearerContext :: byte where
  "IE_BearerContext \<equiv> 93"

abbreviation IE_ChargingID :: byte where
  "IE_ChargingID \<equiv> 94"

abbreviation IE_ChargingCharacteristics :: byte where
  "IE_ChargingCharacteristics \<equiv> 95"

abbreviation IE_TraceInformation :: byte where
  "IE_TraceInformation \<equiv> 96"

abbreviation IE_BearerFlags :: byte where
  "IE_BearerFlags \<equiv> 97"

abbreviation IE_PDNType :: byte where
  "IE_PDNType \<equiv> 99"

abbreviation IE_ProcedureTransactionID :: byte where
  "IE_ProcedureTransactionID \<equiv> 100"

abbreviation IE_MMContextGSMKeyAndTriplets :: byte where
  "IE_MMContextGSMKeyAndTriplets \<equiv> 103"

abbreviation IE_MMContextUMTSKeyUsedCipherAndQuintuplets :: byte where
  "IE_MMContextUMTSKeyUsedCipherAndQuintuplets \<equiv> 104"

abbreviation IE_MMContextGSMKeyUsedCipherAndQuintuplets :: byte where
  "IE_MMContextGSMKeyUsedCipherAndQuintuplets \<equiv> 105"

abbreviation IE_MMContextUMTSKeyAndQuintuplets :: byte where
  "IE_MMContextUMTSKeyAndQuintuplets \<equiv> 106"

abbreviation IE_MMContextEPSSecurityContextQuadrupletsAndQuintuplets :: byte where
  "IE_MMContextEPSSecurityContextQuadrupletsAndQuintuplets \<equiv> 107"

abbreviation IE_MMContextUMTSKeyQuadrupletsAndQuintuplets :: byte where
  "IE_MMContextUMTSKeyQuadrupletsAndQuintuplets \<equiv> 108"

abbreviation IE_PDNConnection :: byte where
  "IE_PDNConnection \<equiv> 109"

abbreviation IE_PDUNumbers :: byte where
  "IE_PDUNumbers \<equiv> 110"

abbreviation IE_PacketTMSI :: byte where
  "IE_PacketTMSI \<equiv> 111"

abbreviation IE_PTMSISignature :: byte where
  "IE_PTMSISignature \<equiv> 112"

abbreviation IE_HopCounter :: byte where
  "IE_HopCounter \<equiv> 113"

abbreviation IE_UETimeZone :: byte where
  "IE_UETimeZone \<equiv> 114"

abbreviation IE_TraceReference :: byte where
  "IE_TraceReference \<equiv> 115"

abbreviation IE_CompleteRequestMessage :: byte where
  "IE_CompleteRequestMessage \<equiv> 116"

abbreviation IE_GUTI :: byte where
  "IE_GUTI \<equiv> 117"

abbreviation IE_FContainer :: byte where
  "IE_FContainer \<equiv> 118"

abbreviation IE_FCause :: byte where
  "IE_FCause \<equiv> 119"

abbreviation IE_PLMNID :: byte where
  "IE_PLMNID \<equiv> 120"

abbreviation IE_TargetIdentification :: byte where
  "IE_TargetIdentification \<equiv> 121"

abbreviation IE_PacketFlowID :: byte where
  "IE_PacketFlowID \<equiv> 123"

abbreviation IE_RABContext :: byte where
  "IE_RABContext \<equiv> 124"

abbreviation IE_SourceRNCPDCPContextInfo :: byte where
  "IE_SourceRNCPDCPContextInfo \<equiv> 125"

abbreviation IE_PortNumber :: byte where
  "IE_PortNumber \<equiv> 126"

abbreviation IE_APNRestriction :: byte where
  "IE_APNRestriction \<equiv> 127"

abbreviation IE_SelectionMode :: byte where
  "IE_SelectionMode \<equiv> 128"

abbreviation IE_SourceIdentification :: byte where
  "IE_SourceIdentification \<equiv> 129"

abbreviation IE_ChangeReportingAction :: byte where
  "IE_ChangeReportingAction \<equiv> 131"

abbreviation IE_FullyQualifiedCSID :: byte where
  "IE_FullyQualifiedCSID \<equiv> 132"

abbreviation IE_ChannelNeeded :: byte where
  "IE_ChannelNeeded \<equiv> 133"

abbreviation IE_EMLPPPriority :: byte where
  "IE_EMLPPPriority \<equiv> 134"

abbreviation IE_NodeType :: byte where
  "IE_NodeType \<equiv> 135"

abbreviation IE_FullyQualifiedDomainName :: byte where
  "IE_FullyQualifiedDomainName \<equiv> 136"

abbreviation IE_TI :: byte where
  "IE_TI \<equiv> 137"

abbreviation IE_MBMSSessionDuration :: byte where
  "IE_MBMSSessionDuration \<equiv> 138"

abbreviation IE_MBMSServiceArea :: byte where
  "IE_MBMSServiceArea \<equiv> 139"

abbreviation IE_MBMSSessionIdentifier :: byte where
  "IE_MBMSSessionIdentifier \<equiv> 140"

abbreviation IE_MBMSFlowIdentifier :: byte where
  "IE_MBMSFlowIdentifier \<equiv> 141"

abbreviation IE_MBMSIPMulticastDistribution :: byte where
  "IE_MBMSIPMulticastDistribution \<equiv> 142"

abbreviation IE_MBMSDistributionAcknowledge :: byte where
  "IE_MBMSDistributionAcknowledge \<equiv> 143"

abbreviation IE_RFSPIndex :: byte where
  "IE_RFSPIndex \<equiv> 144"

abbreviation IE_UserCSGInformation :: byte where
  "IE_UserCSGInformation \<equiv> 145"

abbreviation IE_CSGInformationReportingAction :: byte where
  "IE_CSGInformationReportingAction \<equiv> 146"

abbreviation IE_CSGID :: byte where
  "IE_CSGID \<equiv> 147"

abbreviation IE_CSGMembershipIndication :: byte where
  "IE_CSGMembershipIndication \<equiv> 148"

abbreviation IE_ServiceIndicator :: byte where
  "IE_ServiceIndicator \<equiv> 149"

abbreviation IE_DetachType :: byte where
  "IE_DetachType \<equiv> 150"

abbreviation IE_LocalDistinguishedName :: byte where
  "IE_LocalDistinguishedName \<equiv> 151"

abbreviation IE_NodeFeatures :: byte where
  "IE_NodeFeatures \<equiv> 152"

abbreviation IE_MBMSTimeToDataTransfer :: byte where
  "IE_MBMSTimeToDataTransfer \<equiv> 153"

abbreviation IE_Throttling :: byte where
  "IE_Throttling \<equiv> 154"

abbreviation IE_AllocationRetensionPriority :: byte where
  "IE_AllocationRetensionPriority \<equiv> 155"

abbreviation IE_EPCTimer :: byte where
  "IE_EPCTimer \<equiv> 156"

abbreviation IE_SignallingPriorityIndication :: byte where
  "IE_SignallingPriorityIndication \<equiv> 157"

abbreviation IE_TMGI :: byte where
  "IE_TMGI \<equiv> 158"

abbreviation IE_AdditionalMMContextForSRVCC :: byte where
  "IE_AdditionalMMContextForSRVCC \<equiv> 159"

abbreviation IE_AdditionalFlagsForSRVCC :: byte where
  "IE_AdditionalFlagsForSRVCC \<equiv> 160"

abbreviation IE_MDTConfiguration :: byte where
  "IE_MDTConfiguration \<equiv> 162"

abbreviation IE_AdditionalProtocolConfigurationOptions :: byte where
  "IE_AdditionalProtocolConfigurationOptions \<equiv> 163"

abbreviation IE_AbsoluteTimeofMBMSDataTransfer :: byte where
  "IE_AbsoluteTimeofMBMSDataTransfer \<equiv> 164"

abbreviation IE_HeNBInformationReporting :: byte where
  "IE_HeNBInformationReporting \<equiv> 165"

abbreviation IE_IPv4ConfigurationParameters :: byte where
  "IE_IPv4ConfigurationParameters \<equiv> 166"

abbreviation IE_ChangeToReportFlags :: byte where
  "IE_ChangeToReportFlags \<equiv> 167"

abbreviation IE_ActionIndication :: byte where
  "IE_ActionIndication \<equiv> 168"

abbreviation IE_TWANIdentifier :: byte where
  "IE_TWANIdentifier \<equiv> 169"

abbreviation IE_ULITimestamp :: byte where
  "IE_ULITimestamp \<equiv> 170"

abbreviation IE_MBMSFlags :: byte where
  "IE_MBMSFlags \<equiv> 171"

abbreviation IE_RANNASCause :: byte where
  "IE_RANNASCause \<equiv> 172"

abbreviation IE_CNOperatorSelectionEntity :: byte where
  "IE_CNOperatorSelectionEntity \<equiv> 173"

abbreviation IE_TrustedWLANModeIndication :: byte where
  "IE_TrustedWLANModeIndication \<equiv> 174"

abbreviation IE_NodeNumber :: byte where
  "IE_NodeNumber \<equiv> 175"

abbreviation IE_NodeIdentifier :: byte where
  "IE_NodeIdentifier \<equiv> 176"

abbreviation IE_PresenceReportingAreaAction :: byte where
  "IE_PresenceReportingAreaAction \<equiv> 177"

abbreviation IE_PresenceReportingAreaInformation :: byte where
  "IE_PresenceReportingAreaInformation \<equiv> 178"

abbreviation IE_TWANIdentifierTimestamp :: byte where
  "IE_TWANIdentifierTimestamp \<equiv> 179"

abbreviation IE_OverloadControlInformation :: byte where
  "IE_OverloadControlInformation \<equiv> 180"

abbreviation IE_LoadControlInformation :: byte where
  "IE_LoadControlInformation \<equiv> 181"

abbreviation IE_Metric :: byte where
  "IE_Metric \<equiv> 182"

abbreviation IE_SequenceNumber :: byte where
  "IE_SequenceNumber \<equiv> 183"

abbreviation IE_APNAndRelativeCapacity :: byte where
  "IE_APNAndRelativeCapacity \<equiv> 184"

abbreviation IE_WLANOffloadabilityIndication :: byte where
  "IE_WLANOffloadabilityIndication \<equiv> 185"

abbreviation IE_PagingAndServiceInformation :: byte where
  "IE_PagingAndServiceInformation \<equiv> 186"

abbreviation IE_IntegerNumber :: byte where
  "IE_IntegerNumber \<equiv> 187"

abbreviation IE_MillisecondTimeStamp :: byte where
  "IE_MillisecondTimeStamp \<equiv> 188"

abbreviation IE_MonitoringEventInformation :: byte where
  "IE_MonitoringEventInformation \<equiv> 189"

abbreviation IE_ECGIList :: byte where
  "IE_ECGIList \<equiv> 190"

abbreviation IE_RemoteUEContext :: byte where
  "IE_RemoteUEContext \<equiv> 191"

abbreviation IE_RemoteUserID :: byte where
  "IE_RemoteUserID \<equiv> 192"

abbreviation IE_RemoteUEIPinformation :: byte where
  "IE_RemoteUEIPinformation \<equiv> 193"

abbreviation IE_CIoTOptimizationsSupportIndication :: byte where
  "IE_CIoTOptimizationsSupportIndication \<equiv> 194"

abbreviation IE_SCEFPDNConnection :: byte where
  "IE_SCEFPDNConnection \<equiv> 195"

abbreviation IE_HeaderCompressionConfiguration :: byte where
  "IE_HeaderCompressionConfiguration \<equiv> 196"

abbreviation IE_ExtendedProtocolConfigurationOptions :: byte where
  "IE_ExtendedProtocolConfigurationOptions \<equiv> 197"

abbreviation IE_ServingPLMNRateControl :: byte where
  "IE_ServingPLMNRateControl \<equiv> 198"

abbreviation IE_Counter :: byte where
  "IE_Counter \<equiv> 199"

abbreviation IE_MappedUEUsageType :: byte where
  "IE_MappedUEUsageType \<equiv> 200"

abbreviation IE_SecondaryRATUsageDataReport :: byte where
  "IE_SecondaryRATUsageDataReport \<equiv> 201"

abbreviation IE_UPFunctionSelectionIndicationFlags :: byte where
  "IE_UPFunctionSelectionIndicationFlags \<equiv> 202"

abbreviation IE_MaximumPacketLossRate :: byte where
  "IE_MaximumPacketLossRate \<equiv> 203"

abbreviation IE_APNRateControlStatus :: byte where
  "IE_APNRateControlStatus \<equiv> 204"

abbreviation IE_ExtendedTraceInformation :: byte where
  "IE_ExtendedTraceInformation \<equiv> 205"

abbreviation IE_MonitoringEventExtensionInformation :: byte where
  "IE_MonitoringEventExtensionInformation \<equiv> 206"

abbreviation IE_AdditionalRRMPolicyIndex :: byte where
  "IE_AdditionalRRMPolicyIndex \<equiv> 207"

abbreviation IE_V2XContext :: byte where
  "IE_V2XContext \<equiv> 208"

abbreviation IE_PC5QoSParameters :: byte where
  "IE_PC5QoSParameters \<equiv> 209"

abbreviation IE_ServicesAuthorized :: byte where
  "IE_ServicesAuthorized \<equiv> 210"

abbreviation IE_BitRate :: byte where
  "IE_BitRate \<equiv> 211"

abbreviation IE_PC5QoSFlow :: byte where
  "IE_PC5QoSFlow \<equiv> 212"

abbreviation IE_SGiPtPTunnelAddress :: byte where
  "IE_SGiPtPTunnelAddress \<equiv> 213"

abbreviation IE_SpecialIETypeForIETypeExtension :: byte where
  "IE_SpecialIETypeForIETypeExtension \<equiv> 254"

abbreviation IE_PrivateExtension :: byte where
  "IE_PrivateExtension \<equiv> 255"

definition ie_type_codes :: "(string \<times> byte) list" where
  "ie_type_codes = [
    (''IMSI'', 1), (''Cause'', 2), (''Recovery'', 3), (''STNSR'', 51),
    (''AccessPointName'', 71), (''AggregateMaximumBitRate'', 72), (''EPSBearerID'', 73),
    (''IPAddress'', 74), (''MobileEquipmentIdentity'', 75), (''MSISDN'', 76),
    (''Indication'', 77), (''ProtocolConfigurationOptions'', 78),
    (''PDNAddressAllocation'', 79), (''BearerQoS'', 80), (''FlowQoS'', 81), (''RATType'', 82),
    (''ServingNetwork'', 83), (''BearerTFT'', 84), (''TrafficAggregateDescription'', 85),
    (''UserLocationInformation'', 86), (''FullyQualifiedTEID'', 87), (''TMSI'', 88),
    (''GlobalCNID'', 89), (''S103PDNDataForwardingInfo'', 90), (''S1UDataForwarding'', 91),
    (''DelayValue'', 92), (''BearerContext'', 93), (''ChargingID'', 94),
    (''ChargingCharacteristics'', 95), (''TraceInformation'', 96), (''BearerFlags'', 97),
    (''PDNType'', 99), (''ProcedureTransactionID'', 100),
    (''MMContextGSMKeyAndTriplets'', 103), (''MMContextUMTSKeyUsedCipherAndQuintuplets'', 104),
    (''MMContextGSMKeyUsedCipherAndQuintuplets'', 105),
    (''MMContextUMTSKeyAndQuintuplets'', 106),
    (''MMContextEPSSecurityContextQuadrupletsAndQuintuplets'', 107),
    (''MMContextUMTSKeyQuadrupletsAndQuintuplets'', 108), (''PDNConnection'', 109),
    (''PDUNumbers'', 110), (''PacketTMSI'', 111), (''PTMSISignature'', 112),
    (''HopCounter'', 113), (''UETimeZone'', 114), (''TraceReference'', 115),
    (''CompleteRequestMessage'', 116), (''GUTI'', 117), (''FContainer'', 118),
    (''FCause'', 119), (''PLMNID'', 120), (''TargetIdentification'', 121),
    (''PacketFlowID'', 123), (''RABContext'', 124), (''SourceRNCPDCPContextInfo'', 125),
    (''PortNumber'', 126), (''APNRestriction'', 127), (''SelectionMode'', 128),
    (''SourceIdentification'', 129), (''ChangeReportingAction'', 131),
    (''FullyQualifiedCSID'', 132), (''ChannelNeeded'', 133), (''EMLPPPriority'', 134),
    (''NodeType'', 135), (''FullyQualifiedDomainName'', 136), (''TI'', 137),
    (''MBMSSessionDuration'', 138), (''MBMSServiceArea'', 139),
    (''MBMSSessionIdentifier'', 140), (''MBMSFlowIdentifier'', 141),
    (''MBMSIPMulticastDistribution'', 142), (''MBMSDistributionAcknowledge'', 143),
    (''RFSPIndex'', 144), (''UserCSGInformation'', 145),
    (''CSGInformationReportingAction'', 146), (''CSGID'', 147),
    (''CSGMembershipIndication'', 148), (''ServiceIndicator'', 149), (''DetachType'', 150),
    (''LocalDistinguishedName'', 151), (''NodeFeatures'', 152),
    (''MBMSTimeToDataTransfer'', 153), (''Throttling'', 154),
    (''AllocationRetensionPriority'', 155), (''EPCTimer'', 156),
    (''SignallingPriorityIndication'', 157), (''TMGI'', 158),
    (''AdditionalMMContextForSRVCC'', 159), (''AdditionalFlagsForSRVCC'', 160),
    (''MDTConfiguration'', 162), (''AdditionalProtocolConfigurationOptions'', 163),
    (''AbsoluteTimeofMBMSDataTransfer'', 164), (''HeNBInformationReporting'', 165),
    (''IPv4ConfigurationParameters'', 166), (''ChangeToReportFlags'', 167),
    (''ActionIndication'', 168), (''TWANIdentifier'', 169), (''ULITimestamp'', 170),
    (''MBMSFlags'', 171), (''RANNASCause'', 172), (''CNOperatorSelectionEntity'', 173),
    (''TrustedWLANModeIndication'', 174), (''NodeNumber'', 175), (''NodeIdentifier'', 176),
    (''PresenceReportingAreaAction'', 177), (''PresenceReportingAreaInformation'', 178),
    (''TWANIdentifierTimestamp'', 179), (''OverloadControlInformation'', 180),
    (''LoadControlInformation'', 181), (''Metric'', 182), (''SequenceNumber'', 183),
    (''APNAndRelativeCapacity'', 184), (''WLANOffloadabilityIndication'', 185),
    (''PagingAndServiceInformation'', 186), (''IntegerNumber'', 187),
    (''MillisecondTimeStamp'', 188), (''MonitoringEventInformation'', 189),
    (''ECGIList'', 190), (''RemoteUEContext'', 191), (''RemoteUserID'', 192),
    (''RemoteUEIPinformation'', 193), (''CIoTOptimizationsSupportIndication'', 194),
    (''SCEFPDNConnection'', 195), (''HeaderCompressionConfiguration'', 196),
    (''ExtendedProtocolConfigurationOptions'', 197), (''ServingPLMNRateControl'', 198),
    (''Counter'', 199), (''MappedUEUsageType'', 200), (''SecondaryRATUsageDataReport'', 201),
    (''UPFunctionSelectionIndicationFlags'', 202), (''MaximumPacketLossRate'', 203),
    (''APNRateControlStatus'', 204), (''ExtendedTraceInformation'', 205),
    (''MonitoringEventExtensionInformation'', 206), (''AdditionalRRMPolicyIndex'', 207),
    (''V2XContext'', 208), (''PC5QoSParameters'', 209), (''ServicesAuthorized'', 210),
    (''BitRate'', 211), (''PC5QoSFlow'', 212), (''SGiPtPTunnelAddress'', 213),
    (''SpecialIETypeForIETypeExtension'', 254), (''PrivateExtension'', 255)]"

definition ieTypeNameMap :: "(byte \<times> string) list" where
  "ieTypeNameMap = [
    (1, ''IMSI''), (2, ''Cause''), (3, ''Recovery''), (51, ''STNSR''),
    (71, ''AccessPointName''), (72, ''AggregateMaximumBitRate''), (73, ''EPSBearerID''),
    (74, ''IPAddress''), (75, ''MobileEquipmentIdentity''), (76, ''MSISDN''),
    (77, ''Indication''), (78, ''ProtocolConfigurationOptions''),
    (79, ''PDNAddressAllocation''), (80, ''BearerQoS''), (81, ''FlowQoS''), (82, ''RATType''),
    (83, ''ServingNetwork''), (84, ''BearerTFT''), (85, ''TrafficAggregateDescription''),
    (86, ''UserLocationInformation''), (87, ''FullyQualifiedTEID''), (88, ''TMSI''),
    (89, ''GlobalCNID''), (90, ''S103PDNDataForwardingInfo''), (91, ''S1UDataForwarding''),
    (92, ''DelayValue''), (93, ''BearerContext''), (94, ''ChargingID''),
    (95, ''ChargingCharacteristics''), (96, ''TraceInformation''), (97, ''BearerFlags''),
    (99, ''PDNType''), (100, ''ProcedureTransactionID''),
    (103, ''MMContextGSMKeyAndTriplets''), (104, ''MMContextUMTSKeyUsedCipherAndQuintuplets''),
    (105, ''MMContextGSMKeyUsedCipherAndQuintuplets''),
    (106, ''MMContextUMTSKeyAndQuintuplets''),
    (107, ''MMContextEPSSecurityContextQuadrupletsAndQuintuplets''),
    (108, ''MMContextUMTSKeyQuadrupletsAndQuintuplets''), (109, ''PDNConnection''),
    (110, ''PDUNumbers''), (111, ''PacketTMSI''), (112, ''PTMSISignature''),
    (113, ''HopCounter''), (114, ''UETimeZone''), (115, ''TraceReference''),
    (116, ''CompleteRequestMessage''), (117, ''GUTI''), (118, ''FContainer''),
    (119, ''FCause''), (121, ''PLMNID''), (122, ''TargetIdentification''),
    (123, ''PacketFlowID''), (124, ''RABContext''), (125, ''SourceRNCPDCPContextInfo''),
    (126, ''PortNumber''), (127, ''APNRestriction''), (128, ''SelectionMode''),
    (129, ''SourceIdentification''), (130, ''Reserved''), (131, ''ChangeReportingAction''),
    (132, ''FullyQualifiedCSID''), (133, ''ChannelNeeded''), (134, ''EMLPPPriority''),
    (135, ''NodeType''), (136, ''FullyQualifiedDomainName''), (137, ''TI''),
    (138, ''MBMSSessionDuration''), (139, ''MBMSServiceArea''),
    (140, ''MBMSSessionIdentifier''), (141, ''MBMSFlowIdentifier''),
    (142, ''MBMSIPMulticastDistribution''), (143, ''MBMSDistributionAcknowledge''),
    (144, ''RFSPIndex''), (145, ''UserCSGInformation''),
    (146, ''CSGInformationReportingAction''), (147, ''CSGID''),
    (148, ''CSGMembershipIndication''), (149, ''ServiceIndicator''), (150, ''DetachType''),
    (151, ''LocalDistinguishedName''), (152, ''NodeFeatures''),
    (153, ''MBMSTimeToDataTransfer''), (154, ''Throttling''),
    (155, ''AllocationRetensionPriority''), (156, ''EPCTimer''),
    (157, ''SignallingPriorityIndication''), (158, ''TMGI''),
    (159, ''AdditionalMMContextForSRVCC''), (160, ''AdditionalFlagsForSRVCC''),
    (162, ''MDTConfiguration''), (163, ''AdditionalProtocolConfigurationOptions''),
    (164, ''AbsoluteTimeofMBMSDataTransfer''), (165, ''HeNBInformationReporting''),
    (166, ''IPv4ConfigurationParameters''), (167, ''ChangeToReportFlags''),
    (168, ''ActionIndication''), (169, ''TWANIdentifier''), (170, ''ULITimestamp''),
    (171, ''MBMSFlags''), (172, ''RANNASCause''), (173, ''CNOperatorSelectionEntity''),
    (174, ''TrustedWLANModeIndication''), (175, ''NodeNumber''), (176, ''NodeIdentifier''),
    (177, ''PresenceReportingAreaAction''), (178, ''PresenceReportingAreaInformation''),
    (179, ''TWANIdentifierTimestamp''), (180, ''OverloadControlInformation''),
    (181, ''LoadControlInformation''), (182, ''Metric''), (183, ''SequenceNumber''),
    (184, ''APNAndRelativeCapacity''), (185, ''WLANOffloadabilityIndication''),
    (186, ''PagingAndServiceInformation''), (187, ''IntegerNumber''),
    (188, ''MillisecondTimeStamp''), (189, ''MonitoringEventInformation''),
    (190, ''ECGIList''), (191, ''RemoteUEContext''), (192, ''RemoteUserID''),
    (193, ''RemoteUEIPinformation''), (194, ''CIoTOptimizationsSupportIndication''),
    (195, ''SCEFPDNConnection''), (196, ''HeaderCompressionConfiguration''),
    (197, ''ExtendedProtocolConfigurationOptions''), (198, ''ServingPLMNRateControl''),
    (199, ''Counter''), (200, ''MappedUEUsageType''), (201, ''SecondaryRATUsageDataReport''),
    (202, ''UPFunctionSelectionIndicationFlags''), (203, ''MaximumPacketLossRate''),
    (204, ''APNRateControlStatus''), (205, ''ExtendedTraceInformation''),
    (206, ''MonitoringEventExtensionInformation''), (207, ''AdditionalRRMPolicyIndex''),
    (208, ''V2XContext''), (209, ''PC5QoSParameters''), (210, ''ServicesAuthorized''),
    (211, ''BitRate''), (212, ''PC5QoSFlow''), (213, ''SGiPtPTunnelAddress''),
    (254, ''SpecialIETypeForIETypeExtension''), (255, ''PrivateExtension'')]"

definition Name :: "ie \<Rightarrow> string" where
  "Name i = (case map_of ieTypeNameMap (ie_Type i) of Some n \<Rightarrow> n | None \<Rightarrow> ''Undefined'')"

text \<open>
  Every constant has its own name in the table, with the exceptions listed: the rows of the table
  for \<open>PLMNID\<close> and \<open>TargetIdentification\<close> are one number too high.
\<close>

lemma ie_names_table:
  "map (\<lambda>(c, n). (n, c)) (filter (\<lambda>(c, n). c \<notin> {121, 122, 130}) ieTypeNameMap) =
     filter (\<lambda>(n, c). c \<notin> {120, 121}) ie_type_codes"
  by code_simp

lemma ie_names_wrong:
  "map_of ieTypeNameMap IE_PLMNID = None" "map_of ieTypeNameMap 121 = Some ''PLMNID''"
  "map_of ie_type_codes ''TargetIdentification'' = Some 121"
  by code_simp+

end
