(* ===== verification/V2MsgPath.thy ===== *)
theory V2MsgPath
  imports V2Message V2IETypes
begin

text \<open>
  The GTPv2 message types of the path management messages: \<open>EchoRequest\<close>
  (\<open>echo-req.go\<close>), \<open>EchoResponse\<close> (\<open>echo-res.go\<close>). For each
  of them: its fields, the switch of its decoder (and of its constructor where the two differ),
  the orders in which MarshalTo and MarshalLen visit the fields, the methods built from them, and
  the interpretation of the contract of \<open>V2Message\<close>.
\<close>

abbreviation MsgTypeEchoRequest :: byte where
  "MsgTypeEchoRequest \<equiv> 1"

abbreviation MsgTypeEchoResponse :: byte where
  "MsgTypeEchoResponse \<equiv> 2"

section \<open>EchoRequest\<close>

datatype EchoRequest_field =
    EchoRequest_Recovery | EchoRequest_SendingNodeFeatures | EchoRequest_PrivateExtension

definition EchoRequest_switch :: "EchoRequest_field switch" where
  "EchoRequest_switch t n = (
     if t = IE_Recovery then Slot EchoRequest_Recovery
     else if t = IE_NodeFeatures then Slot EchoRequest_SendingNodeFeatures
     else if t = IE_PrivateExtension then Slot EchoRequest_PrivateExtension
     else Additional)"

definition EchoRequest_order :: "EchoRequest_field list" where
  "EchoRequest_order = [
    EchoRequest_Recovery, EchoRequest_SendingNodeFeatures, EchoRequest_PrivateExtension]"

definition EchoRequest_lens :: "EchoRequest_field list" where
  "EchoRequest_lens = [
    EchoRequest_Recovery, EchoRequest_SendingNodeFeatures, EchoRequest_PrivateExtension]"

definition NewEchoRequest :: "u32 \<Rightarrow> ie option list \<Rightarrow> EchoRequest_field v2_msg" where
  "NewEchoRequest seq ies =
     msg_New EchoRequest_switch EchoRequest_lens (NewHeaderFlags 2 0 0) MsgTypeEchoRequest 0 seq ies"

definition EchoRequest_MarshalLen :: "EchoRequest_field v2_msg \<Rightarrow> nat" where
  "EchoRequest_MarshalLen m = msg_MarshalLen EchoRequest_lens m"

definition EchoRequest_MarshalTo :: "EchoRequest_field v2_msg \<Rightarrow> bytes \<Rightarrow> (bytes \<times> EchoRequest_field v2_msg) result" where
  "EchoRequest_MarshalTo m b = msg_MarshalTo EchoRequest_order EchoRequest_lens m b"

definition EchoRequest_Marshal :: "EchoRequest_field v2_msg \<Rightarrow> (bytes \<times> EchoRequest_field v2_msg) result" where
  "EchoRequest_Marshal m = EchoRequest_MarshalTo m (replicate (EchoRequest_MarshalLen m) 0)"

definition EchoRequest_UnmarshalBinary :: "bytes \<Rightarrow> EchoRequest_field v2_msg result" where
  "EchoRequest_UnmarshalBinary b = msg_UnmarshalBinary EchoRequest_switch b"

lemma EchoRequest_all_fields: "s \<in> set EchoRequest_order" "s \<in> set EchoRequest_lens"
  by (cases s; simp add: EchoRequest_order_def EchoRequest_lens_def)+

interpretation echoRequest: message_layout EchoRequest_switch EchoRequest_order EchoRequest_lens
  by unfold_locales
     (simp_all add: EchoRequest_all_fields set_eq_iff, simp_all add: EchoRequest_order_def EchoRequest_lens_def)

lemma EchoRequest_Marshal_eq: "EchoRequest_Marshal m = msg_Marshal EchoRequest_order EchoRequest_lens m"
  by (simp add: EchoRequest_Marshal_def EchoRequest_MarshalTo_def EchoRequest_MarshalLen_def msg_Marshal_def)

section \<open>EchoResponse\<close>

datatype EchoResponse_field =
    EchoResponse_Recovery | EchoResponse_SendingNodeFeatures | EchoResponse_PrivateExtension

definition EchoResponse_switch :: "EchoResponse_field switch" where
  "EchoResponse_switch t n = (
     if t = IE_Recovery then Slot EchoResponse_Recovery
     else if t = IE_NodeFeatures then Slot EchoResponse_SendingNodeFeatures
     else if t = IE_PrivateExtension then Slot EchoResponse_PrivateExtension
     else Additional)"

definition EchoResponse_order :: "EchoResponse_field list" where
  "EchoResponse_order = [
    EchoResponse_Recovery, EchoResponse_SendingNodeFeatures, EchoResponse_PrivateExtension]"

definition EchoResponse_lens :: "EchoResponse_field list" where
  "EchoResponse_lens = [
    EchoResponse_Recovery, EchoResponse_SendingNodeFeatures, EchoResponse_PrivateExtension]"

definition NewEchoResponse :: "u32 \<Rightarrow> ie option list \<Rightarrow> EchoResponse_field v2_msg" where
  "NewEchoResponse seq ies =
     msg_New EchoResponse_switch EchoResponse_lens (NewHeaderFlags 2 0 0) MsgTypeEchoResponse 0 seq ies"

definition EchoResponse_MarshalLen :: "EchoResponse_field v2_msg \<Rightarrow> nat" where
  "EchoResponse_MarshalLen m = msg_MarshalLen EchoResponse_lens m"

definition EchoResponse_MarshalTo :: "EchoResponse_field v2_msg \<Rightarrow> bytes \<Rightarrow> (bytes \<times> EchoResponse_field v2_msg) result" where
  "EchoResponse_MarshalTo m b = msg_MarshalTo EchoResponse_order EchoResponse_lens m b"

definition EchoResponse_Marshal :: "EchoResponse_field v2_msg \<Rightarrow> (bytes \<times> EchoResponse_field v2_msg) result" where
  "EchoResponse_Marshal m = EchoResponse_MarshalTo m (replicate (EchoResponse_MarshalLen m) 0)"

definition EchoResponse_UnmarshalBinary :: "bytes \<Rightarrow> EchoResponse_field v2_msg result" where
  "EchoResponse_UnmarshalBinary b = msg_UnmarshalBinary EchoResponse_switch b"

lemma EchoResponse_all_fields: "s \<in> set EchoResponse_order" "s \<in> set EchoResponse_lens"
  by (cases s; simp add: EchoResponse_order_def EchoResponse_lens_def)+

interpretation echoResponse: message_layout EchoResponse_switch EchoResponse_order EchoResponse_lens
  by unfold_locales
     (simp_all add: EchoResponse_all_fields set_eq_iff, simp_all add: EchoResponse_order_def EchoResponse_lens_def)

lemma EchoResponse_Marshal_eq: "EchoResponse_Marshal m = msg_Marshal EchoResponse_order EchoResponse_lens m"
  by (simp add: EchoResponse_Marshal_def EchoResponse_MarshalTo_def EchoResponse_MarshalLen_def msg_Marshal_def)

end
