(* ===== verification/V2MsgSession.thy ===== *)
theory V2MsgSession
  imports V2Message V2IETypes
begin

text \<open>
  The GTPv2 message types of the session messages: \<open>CreateSessionRequest\<close>
  (\<open>create-session-req.go\<close>), \<open>CreateSessionResponse\<close>
  (\<open>create-session-res.go\<close>), \<open>DeleteSessionRequest\<close>
  (\<open>delete-session-req.go\<close>), \<open>DeleteSessionResponse\<close>
  (\<open>delete-session-res.go\<close>). For each of them: its fields, the switch of its decoder
  (and of its constructor where the two differ), the orders in which MarshalTo and MarshalLen
  visit the fields, the methods built from them, and the interpretation of the contract of
  \<open>V2Message\<close>.
\<close>

abbreviation MsgTypeCreateSessionRequest :: byte where
  "MsgTypeCreateSessionRequest \<equiv> 32"

abbreviation MsgTypeCreateSessionResponse :: byte where
  "MsgTypeCreateSessionResponse \<equiv> 33"

abbreviation MsgTypeDeleteSessionRequest :: byte where
  "MsgTypeDeleteSessionRequest \<equiv> 36"

abbreviation MsgTypeDeleteSessionResponse :: byte where
  "MsgTypeDeleteSessionResponse \<equiv> 37"

section \<open>CreateSessionRequest\<close>

datatype CreateSessionRequest_field =
    CreateSessionRequest_IMSI | CreateSessionRequest_MSISDN | CreateSessionRequest_MEI
    | CreateSessionRequest_ULI | CreateSessionRequest_ServingNetwork
    | CreateSessionRequest_RATType | CreateSessionRequest_IndicationFlags
    | CreateSessionRequest_SenderFTEIDC | CreateSessionRequest_PGWS5S8FTEIDC
    | CreateSessionRequest_APN | CreateSessionRequest_SelectionMode
    | CreateSessionRequest_PDNType | CreateSessionRequest_PAA
    | CreateSessionRequest_APNRestriction | CreateSessionRequest_AMBR
    | CreateSessionRequest_LinkedEBI | CreateSessionRequest_TWMI | CreateSessionRequest_PCO
    | CreateSessionRequest_BearerContextsToBeCreated
    | CreateSessionRequest_BearerContextsToBeRemoved | CreateSessionRequest_TraceInformation
    | CreateSessionRequest_Recovery | CreateSessionRequest_MMEFQCSID
    | CreateSessionRequest_SGWFQCSID | CreateSessionRequest_EPDGFQCSID
    | CreateSessionRequest_TWANFQCSID | CreateSessionRequest_UETimeZone
    | CreateSessionRequest_UCI | CreateSessionRequest_ChargingCharacteristics
    | CreateSessionRequest_MMESGSNLDN | CreateSessionRequest_SGWLDN
    | CreateSessionRequest_EPDGLDN | CreateSessionRequest_TWANLDN
    | CreateSessionRequest_SignallingPriorityIndication | CreateSessionRequest_UELocalIPAddress
    | CreateSessionRequest_UEUDPPort | CreateSessionRequest_APCO
    | CreateSessionRequest_HeNBLocalIPAddress | CreateSessionRequest_HeNBUDPPort
    | CreateSessionRequest_MMESGSNIdentifier | CreateSessionRequest_TWANIdentifier
    | CreateSessionRequest_EPDGIPAddress | CreateSessionRequest_CNOperatorSelectionEntity
    | CreateSessionRequest_PresenceReportingAreaInformation
    | CreateSessionRequest_MMESGSNOverloadControlInformation
    | CreateSessionRequest_SGWOverloadControlInformation
    | CreateSessionRequest_TWANePDGOverloadControlInformation
    | CreateSessionRequest_OriginationTimeStamp | CreateSessionRequest_MaximumWaitTime
    | CreateSessionRequest_WLANLocationInformation | CreateSessionRequest_WLANLocationTimeStamp
    | CreateSessionRequest_NBIFOMContainer | CreateSessionRequest_RemoteUEContextConnected
    | CreateSessionRequest_TGPPAAAServerIdentifier | CreateSessionRequest_EPCO
    | CreateSessionRequest_ServingPLMNRateControl | CreateSessionRequest_MOExceptionDataCounter
    | CreateSessionRequest_UETCPPort | CreateSessionRequest_MappedUEUsageType
    | CreateSessionRequest_ULIForSGW | CreateSessionRequest_SGWUNodeName
    | CreateSessionRequest_SecondaryRATUsageDataReport
    | CreateSessionRequest_UPFunctionSelectionIndicationFlags
    | CreateSessionRequest_APNRateControlStatus | CreateSessionRequest_PrivateExtension

text \<open>The constructor and the decoder of this message do not have the same switch.\<close>

definition CreateSessionRequest_new_switch :: "CreateSessionRequest_field switch" where
  "CreateSessionRequest_new_switch t n = (
     if t = IE_IMSI then Slot CreateSessionRequest_IMSI
     else if t = IE_MSISDN then Slot CreateSessionRequest_MSISDN
     else if t = IE_MobileEquipmentIdentity then Slot CreateSessionRequest_MEI
     else if t = IE_UserLocationInformation then 
         (if n = 0 then Slot CreateSessionRequest_ULI
          else if n = 1 then Slot CreateSessionRequest_ULIForSGW
          else Additional)
     else if t = IE_ServingNetwork then Slot CreateSessionRequest_ServingNetwork
     else if t = IE_RATType then Slot CreateSessionRequest_RATType
     else if t = IE_Indication then Slot CreateSessionRequest_IndicationFlags
     else if t = IE_FullyQualifiedTEID then 
         (if n = 0 then Slot CreateSessionRequest_SenderFTEIDC
          else if n = 1 then Slot CreateSessionRequest_PGWS5S8FTEIDC
          else Additional)
     else if t = IE_AccessPointName then Slot CreateSessionRequest_APN
     else if t = IE_SelectionMode then Slot CreateSessionRequest_SelectionMode
     else if t = IE_PDNType then Slot CreateSessionRequest_PDNType
     else if t = IE_PDNAddressAllocation then Slot CreateSessionRequest_PAA
     else if t = IE_APNRestriction then Slot CreateSessionRequest_APNRestriction
     else if t = IE_AggregateMaximumBitRate then Slot CreateSessionRequest_AMBR
     else if t = IE_EPSBearerID then Slot CreateSessionRequest_LinkedEBI
     else if t = IE_TrustedWLANModeIndication then Slot CreateSessionRequest_TWMI
     else if t = IE_ProtocolConfigurationOptions then Slot CreateSessionRequest_PCO
     else if t = IE_BearerContext then 
         (if n = 0 then Slot CreateSessionRequest_BearerContextsToBeCreated
          else if n = 1 then Slot CreateSessionRequest_BearerContextsToBeRemoved
          else Additional)
     else if t = IE_FullyQualifiedCSID then 
         (if n = 0 then Slot CreateSessionRequest_MMEFQCSID
          else if n = 1 then Slot CreateSessionRequest_SGWFQCSID
          else if n = 2 then Slot CreateSessionRequest_EPDGFQCSID
          else if n = 3 then Slot CreateSessionRequest_TWANFQCSID
          else Additional)
     else if t = IE_TraceInformation then Slot CreateSessionRequest_TraceInformation
     else if t = IE_Recovery then Slot CreateSessionRequest_Recovery
     else if t = IE_UETimeZone then Slot CreateSessionRequest_UETimeZone
     else if t = IE_UserCSGInformation then Slot CreateSessionRequest_UCI
     else if t = IE_ChargingCharacteristics then Slot CreateSessionRequest_ChargingCharacteristics
     else if t = IE_LocalDistinguishedName then 
         (if n = 0 then Slot CreateSessionRequest_MMESGSNLDN
          else if n = 1 then Slot CreateSessionRequest_SGWLDN
          else if n = 2 then Slot CreateSessionRequest_EPDGLDN
          else if n = 3 then Slot CreateSessionRequest_TWANLDN
          else Additional)
     else if t = IE_SignallingPriorityIndication then Slot CreateSessionRequest_SignallingPriorityIndication
     else if t = IE_IPAddress then 
         (if n = 0 then Slot CreateSessionRequest_UELocalIPAddress
          else if n = 1 then Slot CreateSessionRequest_HeNBLocalIPAddress
          else if n = 2 then Slot CreateSessionRequest_MMESGSNIdentifier
          else if n = 3 then Slot CreateSessionRequest_EPDGIPAddress
          else Additional)
     else if t = IE_PortNumber then 
         (if n = 0 then Slot CreateSessionRequest_UEUDPPort
          else if n = 1 then Slot CreateSessionRequest_HeNBUDPPort
          else if n = 2 then Slot CreateSessionRequest_UETCPPort
          else Additional)
     else if t = IE_AdditionalProtocolConfigurationOptions then Slot CreateSessionRequest_APCO
     else if t = IE_TWANIdentifier then 
         (if n = 0 then Slot CreateSessionRequest_TWANIdentifier
          else if n = 1 then Slot CreateSessionRequest_WLANLocationInformation
          else Dropped)
     else if t = IE_CNOperatorSelectionEntity then Slot CreateSessionRequest_CNOperatorSelectionEntity
     else if t = IE_PresenceReportingAreaInformation then Slot CreateSessionRequest_PresenceReportingAreaInformation
     else if t = IE_OverloadControlInformation then 
         (if n = 0 then Slot CreateSessionRequest_MMESGSNOverloadControlInformation
          else if n = 1 then Slot CreateSessionRequest_SGWOverloadControlInformation
          else if n = 2 then Slot CreateSessionRequest_TWANePDGOverloadControlInformation
          else Additional)
     else if t = IE_MillisecondTimeStamp then Slot CreateSessionRequest_OriginationTimeStamp
     else if t = IE_IntegerNumber then Slot CreateSessionRequest_MaximumWaitTime
     else if t = IE_TWANIdentifierTimestamp then Slot CreateSessionRequest_WLANLocationTimeStamp
     else if t = IE_FContainer then Slot CreateSessionRequest_NBIFOMContainer
     else if t = IE_RemoteUEContext then Slot CreateSessionRequest_RemoteUEContextConnected
     else if t = IE_NodeIdentifier then Slot CreateSessionRequest_TGPPAAAServerIdentifier
     else if t = IE_ExtendedProtocolConfigurationOptions then Slot CreateSessionRequest_EPCO
     else if t = IE_ServingPLMNRateControl then Slot CreateSessionRequest_ServingPLMNRateControl
     else if t = IE_Counter then Slot CreateSessionRequest_MOExceptionDataCounter
     else if t = IE_MappedUEUsageType then Slot CreateSessionRequest_MappedUEUsageType
     else if t = IE_FullyQualifiedDomainName then Slot CreateSessionRequest_SGWUNodeName
     else if t = IE_SecondaryRATUsageDataReport then Slot CreateSessionRequest_SecondaryRATUsageDataReport
     else if t = IE_UPFunctionSelectionIndicationFlags then Slot CreateSessionRequest_UPFunctionSelectionIndicationFlags
     else if t = IE_APNRateControlStatus then Slot CreateSessionRequest_APNRateControlStatus
     else if t = IE_PrivateExtension then Slot CreateSessionRequest_PrivateExtension
     else Additional)"

definition CreateSessionRequest_switch :: "CreateSessionRequest_field switch" where
  "CreateSessionRequest_switch t n = (
     if t = IE_IMSI then Slot CreateSessionRequest_IMSI
     else if t = IE_MSISDN then Slot CreateSessionRequest_MSISDN
     else if t = IE_MobileEquipmentIdentity then Slot CreateSessionRequest_MEI
     else if t = IE_UserLocationInformation then 
         (if n = 0 then Slot CreateSessionRequest_ULI
          else if n = 1 then Slot CreateSessionRequest_ULIForSGW
          else Additional)
     else if t = IE_ServingNetwork then Slot CreateSessionRequest_ServingNetwork
     else if t = IE_RATType then Slot CreateSessionRequest_RATType
     else if t = IE_Indication then Slot CreateSessionRequest_IndicationFlags
     else if t = IE_FullyQualifiedTEID then 
         (if n = 0 then Slot CreateSessionRequest_SenderFTEIDC
          else if n = 1 then Slot CreateSessionRequest_PGWS5S8FTEIDC
          else Additional)
     else if t = IE_AccessPointName then Slot CreateSessionRequest_APN
     else if t = IE_SelectionMode then Slot CreateSessionRequest_SelectionMode
     else if t = IE_PDNType then Slot CreateSessionRequest_PDNType
     else if t = IE_PDNAddressAllocation then Slot CreateSessionRequest_PAA
     else if t = IE_APNRestriction then Slot CreateSessionRequest_APNRestriction
     else if t = IE_AggregateMaximumBitRate then Slot CreateSessionRequest_AMBR
     else if t = IE_EPSBearerID then Slot CreateSessionRequest_LinkedEBI
     else if t = IE_TrustedWLANModeIndication then Slot CreateSessionRequest_TWMI
     else if t = IE_ProtocolConfigurationOptions then Slot CreateSessionRequest_PCO
     else if t = IE_BearerContext then 
         (if n = 0 then Slot CreateSessionRequest_BearerContextsToBeCreated
          else if n = 1 then Slot CreateSessionRequest_BearerContextsToBeRemoved
          else Additional)
     else if t = IE_FullyQualifiedCSID then 
         (if n = 0 then Slot CreateSessionRequest_MMEFQCSID
          else if n = 1 then Slot CreateSessionRequest_SGWFQCSID
          else if n = 2 then Slot CreateSessionRequest_EPDGFQCSID
          else if n = 3 then Slot CreateSessionRequest_TWANFQCSID
          else Additional)
     else if t = IE_TraceInformation then Slot CreateSessionRequest_TraceInformation
     else if t = IE_Recovery then Slot CreateSessionRequest_Recovery
     else if t = IE_UETimeZone then Slot CreateSessionRequest_UETimeZone
     else if t = IE_UserCSGInformation then Slot CreateSessionRequest_UCI
     else if t = IE_ChargingCharacteristics then Slot CreateSessionRequest_ChargingCharacteristics
     else if t = IE_LocalDistinguishedName then 
         (if n = 0 then Slot CreateSessionRequest_MMESGSNLDN
          else if n = 1 then Slot CreateSessionRequest_SGWLDN
          else if n = 2 then Slot CreateSessionRequest_EPDGLDN
          else if n = 3 then Slot CreateSessionRequest_TWANLDN
          else Additional)
     else if t = IE_SignallingPriorityIndication then Slot CreateSessionRequest_SignallingPriorityIndication
     else if t = IE_IPAddress then 
         (if n = 0 then Slot CreateSessionRequest_UELocalIPAddress
          else if n = 1 then Slot CreateSessionRequest_HeNBLocalIPAddress
          else if n = 2 then Slot CreateSessionRequest_MMESGSNIdentifier
          else if n = 3 then Slot CreateSessionRequest_EPDGIPAddress
          else Additional)
     else if t = IE_PortNumber then 
         (if n = 0 then Slot CreateSessionRequest_UEUDPPort
          else if n = 1 then Slot CreateSessionRequest_HeNBUDPPort
          else if n = 2 then Slot CreateSessionRequest_UETCPPort
          else Additional)
     else if t = IE_AdditionalProtocolConfigurationOptions then Slot CreateSessionRequest_APCO
     else if t = IE_TWANIdentifier then 
         (if n = 0 then Slot CreateSessionRequest_TWANIdentifier
          else if n = 1 then Slot CreateSessionRequest_WLANLocationInformation
          else Additional)
     else if t = IE_CNOperatorSelectionEntity then Slot CreateSessionRequest_CNOperatorSelectionEntity
     else if t = IE_PresenceReportingAreaInformation then Slot CreateSessionRequest_PresenceReportingAreaInformation
     else if t = IE_OverloadControlInformation then 
         (if n = 0 then Slot CreateSessionRequest_MMESGSNOverloadControlInformation
          else if n = 1 then Slot CreateSessionRequest_SGWOverloadControlInformation
          else if n = 2 then Slot CreateSessionRequest_TWANePDGOverloadControlInformation
          else Additional)
     else if t = IE_MillisecondTimeStamp then Slot CreateSessionRequest_OriginationTimeStamp
     else if t = IE_IntegerNumber then Slot CreateSessionRequest_MaximumWaitTime
     else if t = IE_TWANIdentifierTimestamp then Slot CreateSessionRequest_WLANLocationTimeStamp
     else if t = IE_FContainer then Slot CreateSessionRequest_NBIFOMContainer
     else if t = IE_RemoteUEContext then Slot CreateSessionRequest_RemoteUEContextConnected
     else if t = IE_NodeIdentifier then Slot CreateSessionRequest_TGPPAAAServerIdentifier
     else if t = IE_ExtendedProtocolConfigurationOptions then Slot CreateSessionRequest_EPCO
     else if t = IE_ServingPLMNRateControl then Slot CreateSessionRequest_ServingPLMNRateControl
     else if t = IE_Counter then Slot CreateSessionRequest_MOExceptionDataCounter
     else if t = IE_MappedUEUsageType then Slot CreateSessionRequest_MappedUEUsageType
     else if t = IE_FullyQualifiedDomainName then Slot CreateSessionRequest_SGWUNodeName
     else if t = IE_SecondaryRATUsageDataReport then Slot CreateSessionRequest_SecondaryRATUsageDataReport
     else if t = IE_UPFunctionSelectionIndicationFlags then Slot CreateSessionRequest_UPFunctionSelectionIndicationFlags
     else if t = IE_APNRateControlStatus then Slot CreateSessionRequest_APNRateControlStatus
     else if t = IE_PrivateExtension then Slot CreateSessionRequest_PrivateExtension
     else Additional)"

definition CreateSessionRequest_order :: "CreateSessionRequest_field list" where
  "CreateSessionRequest_order = [
    CreateSessionRequest_IMSI, CreateSessionRequest_MSISDN, CreateSessionRequest_MEI,
    CreateSessionRequest_ULI, CreateSessionRequest_ServingNetwork,
    CreateSessionRequest_RATType, CreateSessionRequest_IndicationFlags,
    CreateSessionRequest_SenderFTEIDC, CreateSessionRequest_PGWS5S8FTEIDC,
    CreateSessionRequest_APN, CreateSessionRequest_SelectionMode, CreateSessionRequest_PDNType,
    CreateSessionRequest_PAA, CreateSessionRequest_APNRestriction, CreateSessionRequest_AMBR,
    CreateSessionRequest_LinkedEBI, CreateSessionRequest_TWMI, CreateSessionRequest_PCO,
    CreateSessionRequest_BearerContextsToBeCreated,
    CreateSessionRequest_BearerContextsToBeRemoved, CreateSessionRequest_TraceInformation,
    CreateSessionRequest_Recovery, CreateSessionRequest_MMEFQCSID,
    CreateSessionRequest_SGWFQCSID, CreateSessionRequest_EPDGFQCSID,
    CreateSessionRequest_TWANFQCSID, CreateSessionRequest_UETimeZone, CreateSessionRequest_UCI,
    CreateSessionRequest_ChargingCharacteristics, CreateSessionRequest_MMESGSNLDN,
    CreateSessionRequest_SGWLDN, CreateSessionRequest_EPDGLDN, CreateSessionRequest_TWANLDN,
    CreateSessionRequest_SignallingPriorityIndication, CreateSessionRequest_UELocalIPAddress,
    CreateSessionRequest_UEUDPPort, CreateSessionRequest_APCO,
    CreateSessionRequest_HeNBLocalIPAddress, CreateSessionRequest_HeNBUDPPort,
    CreateSessionRequest_MMESGSNIdentifier, CreateSessionRequest_TWANIdentifier,
    CreateSessionRequest_EPDGIPAddress, CreateSessionRequest_CNOperatorSelectionEntity,
    CreateSessionRequest_PresenceReportingAreaInformation,
    CreateSessionRequest_MMESGSNOverloadControlInformation,
    CreateSessionRequest_SGWOverloadControlInformation,
    CreateSessionRequest_TWANePDGOverloadControlInformation,
    CreateSessionRequest_OriginationTimeStamp, CreateSessionRequest_MaximumWaitTime,
    CreateSessionRequest_WLANLocationInformation, CreateSessionRequest_WLANLocationTimeStamp,
    CreateSessionRequest_NBIFOMContainer, CreateSessionRequest_RemoteUEContextConnected,
    CreateSessionRequest_TGPPAAAServerIdentifier, CreateSessionRequest_EPCO,
    CreateSessionRequest_ServingPLMNRateControl, CreateSessionRequest_MOExceptionDataCounter,
    CreateSessionRequest_UETCPPort, CreateSessionRequest_MappedUEUsageType,
    CreateSessionRequest_ULIForSGW, CreateSessionRequest_SGWUNodeName,
    CreateSessionRequest_SecondaryRATUsageDataReport,
    CreateSessionRequest_UPFunctionSelectionIndicationFlags,
    CreateSessionRequest_APNRateControlStatus, CreateSessionRequest_PrivateExtension]"

definition CreateSessionRequest_lens :: "CreateSessionRequest_field list" where
  "CreateSessionRequest_lens = [
    CreateSessionRequest_IMSI, CreateSessionRequest_MSISDN, CreateSessionRequest_MEI,
    CreateSessionRequest_ULI, CreateSessionRequest_ServingNetwork,
    CreateSessionRequest_RATType, CreateSessionRequest_IndicationFlags,
    CreateSessionRequest_SenderFTEIDC, CreateSessionRequest_PGWS5S8FTEIDC,
    CreateSessionRequest_APN, CreateSessionRequest_SelectionMode, CreateSessionRequest_PDNType,
    CreateSessionRequest_PAA, CreateSessionRequest_APNRestriction, CreateSessionRequest_AMBR,
    CreateSessionRequest_LinkedEBI, CreateSessionRequest_TWMI, CreateSessionRequest_PCO,
    CreateSessionRequest_BearerContextsToBeCreated,
    CreateSessionRequest_BearerContextsToBeRemoved, CreateSessionRequest_TraceInformation,
    CreateSessionRequest_Recovery, CreateSessionRequest_MMEFQCSID,
    CreateSessionRequest_SGWFQCSID, CreateSessionRequest_EPDGFQCSID,
    CreateSessionRequest_TWANFQCSID, CreateSessionRequest_UETimeZone, CreateSessionRequest_UCI,
    CreateSessionRequest_ChargingCharacteristics, CreateSessionRequest_MMESGSNLDN,
    CreateSessionRequest_SGWLDN, CreateSessionRequest_EPDGLDN, CreateSessionRequest_TWANLDN,
    CreateSessionRequest_SignallingPriorityIndication, CreateSessionRequest_UELocalIPAddress,
    CreateSessionRequest_UEUDPPort, CreateSessionRequest_APCO,
    CreateSessionRequest_HeNBLocalIPAddress, CreateSessionRequest_HeNBUDPPort,
    CreateSessionRequest_MMESGSNIdentifier, CreateSessionRequest_TWANIdentifier,
    CreateSessionRequest_EPDGIPAddress, CreateSessionRequest_CNOperatorSelectionEntity,
    CreateSessionRequest_PresenceReportingAreaInformation,
    CreateSessionRequest_MMESGSNOverloadControlInformation,
    CreateSessionRequest_SGWOverloadControlInformation,
    CreateSessionRequest_TWANePDGOverloadControlInformation,
    CreateSessionRequest_OriginationTimeStamp, CreateSessionRequest_MaximumWaitTime,
    CreateSessionRequest_WLANLocationInformation, CreateSessionRequest_WLANLocationTimeStamp,
    CreateSessionRequest_NBIFOMContainer, CreateSessionRequest_RemoteUEContextConnected,
    CreateSessionRequest_TGPPAAAServerIdentifier, CreateSessionRequest_EPCO,
    CreateSessionRequest_ServingPLMNRateControl, CreateSessionRequest_MOExceptionDataCounter,
    CreateSessionRequest_UETCPPort, CreateSessionRequest_MappedUEUsageType,
    CreateSessionRequest_ULIForSGW, CreateSessionRequest_SGWUNodeName,
    CreateSessionRequest_SecondaryRATUsageDataReport,
    CreateSessionRequest_UPFunctionSelectionIndicationFlags,
    CreateSessionRequest_APNRateControlStatus, CreateSessionRequest_PrivateExtension]"

definition NewCreateSessionRequest :: "u32 \<Rightarrow> u32 \<Rightarrow> ie option list \<Rightarrow> CreateSessionRequest_field v2_msg" where
  "NewCreateSessionRequest teid seq ies =
     msg_New CreateSessionRequest_new_switch CreateSessionRequest_lens (NewHeaderFlags 2 0 1) MsgTypeCreateSessionRequest teid seq ies"

definition CreateSessionRequest_MarshalLen :: "CreateSessionRequest_field v2_msg \<Rightarrow> nat" where
  "CreateSessionRequest_MarshalLen m = msg_MarshalLen CreateSessionRequest_lens m"

definition CreateSessionRequest_MarshalTo :: "CreateSessionRequest_field v2_msg \<Rightarrow> bytes \<Rightarrow> (bytes \<times> CreateSessionRequest_field v2_msg) result" where
  "CreateSessionRequest_MarshalTo m b = msg_MarshalTo_over CreateSessionRequest_order CreateSessionRequest_lens m b"

definition CreateSessionRequest_Marshal :: "CreateSessionRequest_field v2_msg \<Rightarrow> (bytes \<times> CreateSessionRequest_field v2_msg) result" where
  "CreateSessionRequest_Marshal m = CreateSessionRequest_MarshalTo m (replicate (CreateSessionRequest_MarshalLen m) 0)"

definition CreateSessionRequest_UnmarshalBinary :: "bytes \<Rightarrow> CreateSessionRequest_field v2_msg result" where
  "CreateSessionRequest_UnmarshalBinary b = msg_UnmarshalBinary CreateSessionRequest_switch b"

lemma CreateSessionRequest_all_fields: "s \<in> set CreateSessionRequest_order" "s \<in> set CreateSessionRequest_lens"
  by (cases s; simp add: CreateSessionRequest_order_def CreateSessionRequest_lens_def)+

interpretation createSessionRequest: message_layout CreateSessionRequest_switch CreateSessionRequest_order CreateSessionRequest_lens
  by unfold_locales
     (simp_all add: CreateSessionRequest_all_fields set_eq_iff, simp_all add: CreateSessionRequest_order_def CreateSessionRequest_lens_def)

lemma CreateSessionRequest_Marshal_eq: "CreateSessionRequest_Marshal m = msg_Marshal_over CreateSessionRequest_order CreateSessionRequest_lens m"
  by (simp add: CreateSessionRequest_Marshal_def CreateSessionRequest_MarshalTo_def CreateSessionRequest_MarshalLen_def msg_Marshal_over_def)

text \<open>
  A request with both a Private Extension and additional elements loses the extension: the
  additional elements are written over it.
\<close>

lemma CreateSessionRequest_order_last [simp]:
  "CreateSessionRequest_order \<noteq> []" "last CreateSessionRequest_order = CreateSessionRequest_PrivateExtension"
  by (simp_all add: CreateSessionRequest_order_def)

lemma CreateSessionRequest_overlaps:
  "msg_overlaps CreateSessionRequest_order m \<longleftrightarrow>
     m_field m CreateSessionRequest_PrivateExtension \<noteq> None \<and> m_AdditionalIEs m \<noteq> []"
  by (simp add: msg_overlaps_def)

lemmas CreateSessionRequest_Marshal_regular =
  createSessionRequest.Marshal_over_regular [OF CreateSessionRequest_order_last(1)]

lemma CreateSessionRequest_Marshal_payload:
  "CreateSessionRequest_Marshal m = Inr (w, m') \<Longrightarrow>
     h_Payload (m_Header m') = msg_over_payload CreateSessionRequest_order m"
  by (auto simp: CreateSessionRequest_Marshal_eq createSessionRequest.Marshal_over_wire msg_marshalled_over_def)

section \<open>CreateSessionResponse\<close>

datatype CreateSessionResponse_field =
    CreateSessionResponse_Cause | CreateSessionResponse_ChangeReportingAction
    | CreateSessionResponse_CSGInformationReportingAction
    | CreateSessionResponse_HeNBInformationReporting | CreateSessionResponse_SenderFTEIDC
    | CreateSessionResponse_PGWS5S8FTEIDC | CreateSessionResponse_PAA
    | CreateSessionResponse_APNRestriction | CreateSessionResponse_AMBR
    | CreateSessionResponse_EBI | CreateSessionResponse_PCO
    | CreateSessionResponse_BearerContextsCreated
    | CreateSessionResponse_BearerContextMarkedForRemoval | CreateSessionResponse_Recovery
    | CreateSessionResponse_ChargingGatewayName | CreateSessionResponse_ChargingGatewayAddress
    | CreateSessionResponse_PGWFQCSID | CreateSessionResponse_SGWFQCSID
    | CreateSessionResponse_SGWLDN | CreateSessionResponse_PGWLDN
    | CreateSessionResponse_PGWBackOffTime | CreateSessionResponse_APCO
    | CreateSessionResponse_TrustedTWANIPv4Parameters | CreateSessionResponse_IndicationFlags
    | CreateSessionResponse_PresenceReportingAreaAction
    | CreateSessionResponse_PGWNodeLoadControlInformation
    | CreateSessionResponse_PGWAPNLoadControlInformation
    | CreateSessionResponse_SGWNodeLoadControlInformation
    | CreateSessionResponse_PGWOverloadControlInformation
    | CreateSessionResponse_SGWOverloadControlInformation
    | CreateSessionResponse_NBIFOMContainer | CreateSessionResponse_PDNConnectionChargingID
    | CreateSessionResponse_EPCO | CreateSessionResponse_PrivateExtension

definition CreateSessionResponse_switch :: "CreateSessionResponse_field switch" where
  "CreateSessionResponse_switch t n = (
     if t = IE_Cause then Slot CreateSessionResponse_Cause
     else if t = IE_ChangeReportingAction then Slot CreateSessionResponse_ChangeReportingAction
     else if t = IE_CSGInformationReportingAction then Slot CreateSessionResponse_CSGInformationReportingAction
     else if t = IE_HeNBInformationReporting then Slot CreateSessionResponse_HeNBInformationReporting
     else if t = IE_FullyQualifiedTEID then 
         (if n = 0 then Slot CreateSessionResponse_SenderFTEIDC
          else if n = 1 then Slot CreateSessionResponse_PGWS5S8FTEIDC
          else Additional)
     else if t = IE_PDNAddressAllocation then Slot CreateSessionResponse_PAA
     else if t = IE_APNRestriction then Slot CreateSessionResponse_APNRestriction
     else if t = IE_AggregateMaximumBitRate then Slot CreateSessionResponse_AMBR
     else if t = IE_EPSBearerID then Slot CreateSessionResponse_EBI
     else if t = IE_ProtocolConfigurationOptions then Slot CreateSessionResponse_PCO
     else if t = IE_BearerContext then 
         (if n = 0 then Slot CreateSessionResponse_BearerContextsCreated
          else if n = 1 then Slot CreateSessionResponse_BearerContextMarkedForRemoval
          else Additional)
     else if t = IE_Recovery then Slot CreateSessionResponse_Recovery
     else if t = IE_FullyQualifiedDomainName then Slot CreateSessionResponse_ChargingGatewayName
     else if t = IE_IPAddress then Slot CreateSessionResponse_ChargingGatewayAddress
     else if t = IE_FullyQualifiedCSID then 
         (if n = 0 then Slot CreateSessionResponse_PGWFQCSID
          else if n = 1 then Slot CreateSessionResponse_SGWFQCSID
          else Additional)
     else if t = IE_LocalDistinguishedName then 
         (if n = 0 then Slot CreateSessionResponse_PGWLDN
          else if n = 1 then Slot CreateSessionResponse_SGWLDN
          else Additional)
     else if t = IE_EPCTimer then Slot CreateSessionResponse_PGWBackOffTime
     else if t = IE_AdditionalProtocolConfigurationOptions then Slot CreateSessionResponse_APCO
     else if t = IE_IPv4ConfigurationParameters then Slot CreateSessionResponse_TrustedTWANIPv4Parameters
     else if t = IE_Indication then Slot CreateSessionResponse_IndicationFlags
     else if t = IE_PresenceReportingAreaAction then Slot CreateSessionResponse_PresenceReportingAreaAction
     else if t = IE_LoadControlInformation then 
         (if n = 0 then Slot CreateSessionResponse_PGWNodeLoadControlInformation
          else if n = 1 then Slot CreateSessionResponse_PGWAPNLoadControlInformation
          else if n = 2 then Slot CreateSessionResponse_SGWNodeLoadControlInformation
          else Additional)
     else if t = IE_OverloadControlInformation then 
         (if n = 0 then Slot CreateSessionResponse_PGWOverloadControlInformation
          else if n = 1 then Slot CreateSessionResponse_SGWOverloadControlInformation
          else Additional)
     else if t = IE_FContainer then Slot CreateSessionResponse_NBIFOMContainer
     else if t = IE_ChargingID then Slot CreateSessionResponse_PDNConnectionChargingID
     else if t = IE_ExtendedProtocolConfigurationOptions then Slot CreateSessionResponse_EPCO
     else if t = IE_PrivateExtension then Slot CreateSessionResponse_PrivateExtension
     else Additional)"

definition CreateSessionResponse_order :: "CreateSessionResponse_field list" where
  "CreateSessionResponse_order = [
    CreateSessionResponse_Cause, CreateSessionResponse_ChangeReportingAction,
    CreateSessionResponse_CSGInformationReportingAction,
    CreateSessionResponse_HeNBInformationReporting, CreateSessionResponse_SenderFTEIDC,
    CreateSessionResponse_PGWS5S8FTEIDC, CreateSessionResponse_PAA,
    CreateSessionResponse_APNRestriction, CreateSessionResponse_AMBR,
    CreateSessionResponse_EBI, CreateSessionResponse_PCO,
    CreateSessionResponse_BearerContextsCreated,
    CreateSessionResponse_BearerContextMarkedForRemoval, CreateSessionResponse_Recovery,
    CreateSessionResponse_ChargingGatewayName, CreateSessionResponse_ChargingGatewayAddress,
    CreateSessionResponse_PGWFQCSID, CreateSessionResponse_SGWFQCSID,
    CreateSessionResponse_PGWLDN, CreateSessionResponse_SGWLDN,
    CreateSessionResponse_PGWBackOffTime, CreateSessionResponse_APCO,
    CreateSessionResponse_TrustedTWANIPv4Parameters, CreateSessionResponse_IndicationFlags,
    CreateSessionResponse_PresenceReportingAreaAction,
    CreateSessionResponse_PGWNodeLoadControlInformation,
    CreateSessionResponse_PGWAPNLoadControlInformation,
    CreateSessionResponse_SGWNodeLoadControlInformation,
    CreateSessionResponse_PGWOverloadControlInformation,
    CreateSessionResponse_SGWOverloadControlInformation, CreateSessionResponse_NBIFOMContainer,
    CreateSessionResponse_PDNConnectionChargingID, CreateSessionResponse_EPCO,
    CreateSessionResponse_PrivateExtension]"

definition CreateSessionResponse_lens :: "CreateSessionResponse_field list" where
  "CreateSessionResponse_lens = [
    CreateSessionResponse_Cause, CreateSessionResponse_ChangeReportingAction,
    CreateSessionResponse_CSGInformationReportingAction,
    CreateSessionResponse_HeNBInformationReporting, CreateSessionResponse_SenderFTEIDC,
    CreateSessionResponse_PGWS5S8FTEIDC, CreateSessionResponse_PAA,
    CreateSessionResponse_APNRestriction, CreateSessionResponse_AMBR,
    CreateSessionResponse_EBI, CreateSessionResponse_PCO,
    CreateSessionResponse_BearerContextsCreated,
    CreateSessionResponse_BearerContextMarkedForRemoval, CreateSessionResponse_Recovery,
    CreateSessionResponse_ChargingGatewayName, CreateSessionResponse_ChargingGatewayAddress,
    CreateSessionResponse_PGWFQCSID, CreateSessionResponse_SGWFQCSID,
    CreateSessionResponse_PGWLDN, CreateSessionResponse_SGWLDN,
    CreateSessionResponse_PGWBackOffTime, CreateSessionResponse_APCO,
    CreateSessionResponse_TrustedTWANIPv4Parameters, CreateSessionResponse_IndicationFlags,
    CreateSessionResponse_PresenceReportingAreaAction,
    CreateSessionResponse_PGWNodeLoadControlInformation,
    CreateSessionResponse_PGWAPNLoadControlInformation,
    CreateSessionResponse_SGWNodeLoadControlInformation,
    CreateSessionResponse_PGWOverloadControlInformation,
    CreateSessionResponse_SGWOverloadControlInformation, CreateSessionResponse_NBIFOMContainer,
    CreateSessionResponse_PDNConnectionChargingID, CreateSessionResponse_EPCO,
    CreateSessionResponse_PrivateExtension]"

definition NewCreateSessionResponse :: "u32 \<Rightarrow> u32 \<Rightarrow> ie option list \<Rightarrow> CreateSessionResponse_field v2_msg" where
  "NewCreateSessionResponse teid seq ies =
     msg_New CreateSessionResponse_switch CreateSessionResponse_lens (NewHeaderFlags 2 0 1) MsgTypeCreateSessionResponse teid seq ies"

definition CreateSessionResponse_MarshalLen :: "CreateSessionResponse_field v2_msg \<Rightarrow> nat" where
  "CreateSessionResponse_MarshalLen m = msg_MarshalLen CreateSessionResponse_lens m"

definition CreateSessionResponse_MarshalTo :: "CreateSessionResponse_field v2_msg \<Rightarrow> bytes \<Rightarrow> (bytes \<times> CreateSessionResponse_field v2_msg) result" where
  "CreateSessionResponse_MarshalTo m b = msg_MarshalTo CreateSessionResponse_order CreateSessionResponse_lens m b"

definition CreateSessionResponse_Marshal :: "CreateSessionResponse_field v2_msg \<Rightarrow> (bytes \<times> CreateSessionResponse_field v2_msg) result" where
  "CreateSessionResponse_Marshal m = CreateSessionResponse_MarshalTo m (replicate (CreateSessionResponse_MarshalLen m) 0)"

definition CreateSessionResponse_UnmarshalBinary :: "bytes \<Rightarrow> CreateSessionResponse_field v2_msg result" where
  "CreateSessionResponse_UnmarshalBinary b = msg_UnmarshalBinary CreateSessionResponse_switch b"

lemma CreateSessionResponse_all_fields: "s \<in> set CreateSessionResponse_order" "s \<in> set CreateSessionResponse_lens"
  by (cases s; simp add: CreateSessionResponse_order_def CreateSessionResponse_lens_def)+

interpretation createSessionResponse: message_layout CreateSessionResponse_switch CreateSessionResponse_order CreateSessionResponse_lens
  by unfold_locales
     (simp_all add: CreateSessionResponse_all_fields set_eq_iff, simp_all add: CreateSessionResponse_order_def CreateSessionResponse_lens_def)

lemma CreateSessionResponse_Marshal_eq: "CreateSessionResponse_Marshal m = msg_Marshal CreateSessionResponse_order CreateSessionResponse_lens m"
  by (simp add: CreateSessionResponse_Marshal_def CreateSessionResponse_MarshalTo_def CreateSessionResponse_MarshalLen_def msg_Marshal_def)

section \<open>DeleteSessionRequest\<close>

datatype DeleteSessionRequest_field =
    DeleteSessionRequest_Cause | DeleteSessionRequest_LinkedEBI | DeleteSessionRequest_ULI
    | DeleteSessionRequest_IndicationFlags | DeleteSessionRequest_PCO
    | DeleteSessionRequest_OriginatingNode | DeleteSessionRequest_SenderFTEIDC
    | DeleteSessionRequest_UETimeZone | DeleteSessionRequest_ULITimestamp
    | DeleteSessionRequest_RANNASReleaseCause | DeleteSessionRequest_TWANIdentifier
    | DeleteSessionRequest_TWANIdentifierTimestamp
    | DeleteSessionRequest_MMESGSNOverloadControlInformation
    | DeleteSessionRequest_SGWOverloadControlInformaion
    | DeleteSessionRequest_TWANePDGOverloadControlInformaion
    | DeleteSessionRequest_WLANLocationInformation | DeleteSessionRequest_WLANLocationTimeStamp
    | DeleteSessionRequest_UELocalIPAddress | DeleteSessionRequest_UEUDPPort
    | DeleteSessionRequest_EPCO | DeleteSessionRequest_UETCPPort
    | DeleteSessionRequest_SecondaryRATUsageDataReport | DeleteSessionRequest_PrivateExtension

definition DeleteSessionRequest_switch :: "DeleteSessionRequest_field switch" where
  "DeleteSessionRequest_switch t n = (
     if t = IE_Cause then Slot DeleteSessionRequest_Cause
     else if t = IE_EPSBearerID then Slot DeleteSessionRequest_LinkedEBI
     else if t = IE_UserLocationInformation then Slot DeleteSessionRequest_ULI
     else if t = IE_Indication then Slot DeleteSessionRequest_IndicationFlags
     else if t = IE_ProtocolConfigurationOptions then Slot DeleteSessionRequest_PCO
     else if t = IE_NodeType then Slot DeleteSessionRequest_OriginatingNode
     else if t = IE_FullyQualifiedTEID then Slot DeleteSessionRequest_SenderFTEIDC
     else if t = IE_UETimeZone then Slot DeleteSessionRequest_UETimeZone
     else if t = IE_ULITimestamp then Slot DeleteSessionRequest_ULITimestamp
     else if t = IE_RANNASCause then Slot DeleteSessionRequest_RANNASReleaseCause
     else if t = IE_TWANIdentifier then 
         (if n = 0 then Slot DeleteSessionRequest_TWANIdentifier
          else if n = 1 then Slot DeleteSessionRequest_WLANLocationInformation
          else Additional)
     else if t = IE_TWANIdentifierTimestamp then 
         (if n = 0 then Slot DeleteSessionRequest_TWANIdentifierTimestamp
          else if n = 1 then Slot DeleteSessionRequest_WLANLocationTimeStamp
          else Additional)
     else if t = IE_OverloadControlInformation then 
         (if n = 0 then Slot DeleteSessionRequest_MMESGSNOverloadControlInformation
          else if n = 1 then Slot DeleteSessionRequest_SGWOverloadControlInformaion
          else if n = 2 then Slot DeleteSessionRequest_TWANePDGOverloadControlInformaion
          else Additional)
     else if t = IE_IPAddress then Slot DeleteSessionRequest_UELocalIPAddress
     else if t = IE_PortNumber then 
         (if n = 0 then Slot DeleteSessionRequest_UEUDPPort
          else if n = 1 then Slot DeleteSessionRequest_UETCPPort
          else Additional)
     else if t = IE_ExtendedProtocolConfigurationOptions then Slot DeleteSessionRequest_EPCO
     else if t = IE_SecondaryRATUsageDataReport then Slot DeleteSessionRequest_SecondaryRATUsageDataReport
     else if t = IE_PrivateExtension then Slot DeleteSessionRequest_PrivateExtension
     else Additional)"

definition DeleteSessionRequest_order :: "DeleteSessionRequest_field list" where
  "DeleteSessionRequest_order = [
    DeleteSessionRequest_Cause, DeleteSessionRequest_LinkedEBI, DeleteSessionRequest_ULI,
    DeleteSessionRequest_IndicationFlags, DeleteSessionRequest_PCO,
    DeleteSessionRequest_OriginatingNode, DeleteSessionRequest_SenderFTEIDC,
    DeleteSessionRequest_UETimeZone, DeleteSessionRequest_ULITimestamp,
    DeleteSessionRequest_RANNASReleaseCause, DeleteSessionRequest_TWANIdentifier,
    DeleteSessionRequest_TWANIdentifierTimestamp,
    DeleteSessionRequest_MMESGSNOverloadControlInformation,
    DeleteSessionRequest_SGWOverloadControlInformaion,
    DeleteSessionRequest_TWANePDGOverloadControlInformaion,
    DeleteSessionRequest_WLANLocationInformation, DeleteSessionRequest_WLANLocationTimeStamp,
    DeleteSessionRequest_UELocalIPAddress, DeleteSessionRequest_UEUDPPort,
    DeleteSessionRequest_EPCO, DeleteSessionRequest_UETCPPort,
    DeleteSessionRequest_SecondaryRATUsageDataReport, DeleteSessionRequest_PrivateExtension]"

definition DeleteSessionRequest_lens :: "DeleteSessionRequest_field list" where
  "DeleteSessionRequest_lens = [
    DeleteSessionRequest_Cause, DeleteSessionRequest_LinkedEBI, DeleteSessionRequest_ULI,
    DeleteSessionRequest_IndicationFlags, DeleteSessionRequest_PCO,
    DeleteSessionRequest_OriginatingNode, DeleteSessionRequest_SenderFTEIDC,
    DeleteSessionRequest_UETimeZone, DeleteSessionRequest_ULITimestamp,
    DeleteSessionRequest_RANNASReleaseCause, DeleteSessionRequest_TWANIdentifier,
    DeleteSessionRequest_TWANIdentifierTimestamp,
    DeleteSessionRequest_MMESGSNOverloadControlInformation,
    DeleteSessionRequest_SGWOverloadControlInformaion,
    DeleteSessionRequest_TWANePDGOverloadControlInformaion,
    DeleteSessionRequest_WLANLocationInformation, DeleteSessionRequest_WLANLocationTimeStamp,
    DeleteSessionRequest_UELocalIPAddress, DeleteSessionRequest_UEUDPPort,
    DeleteSessionRequest_EPCO, DeleteSessionRequest_UETCPPort,
    DeleteSessionRequest_SecondaryRATUsageDataReport, DeleteSessionRequest_PrivateExtension]"

definition NewDeleteSessionRequest :: "u32 \<Rightarrow> u32 \<Rightarrow> ie option list \<Rightarrow> DeleteSessionRequest_field v2_msg" where
  "NewDeleteSessionRequest teid seq ies =
     msg_New DeleteSessionRequest_switch DeleteSessionRequest_lens (NewHeaderFlags 2 0 1) MsgTypeDeleteSessionRequest teid seq ies"

definition DeleteSessionRequest_MarshalLen :: "DeleteSessionRequest_field v2_msg \<Rightarrow> nat" where
  "DeleteSessionRequest_MarshalLen m = msg_MarshalLen DeleteSessionRequest_lens m"

definition DeleteSessionRequest_MarshalTo :: "DeleteSessionRequest_field v2_msg \<Rightarrow> bytes \<Rightarrow> (bytes \<times> DeleteSessionRequest_field v2_msg) result" where
  "DeleteSessionRequest_MarshalTo m b = msg_MarshalTo DeleteSessionRequest_order DeleteSessionRequest_lens m b"

definition DeleteSessionRequest_Marshal :: "DeleteSessionRequest_field v2_msg \<Rightarrow> (bytes \<times> DeleteSessionRequest_field v2_msg) result" where
  "DeleteSessionRequest_Marshal m = DeleteSessionRequest_MarshalTo m (replicate (DeleteSessionRequest_MarshalLen m) 0)"

definition DeleteSessionRequest_UnmarshalBinary :: "bytes \<Rightarrow> DeleteSessionRequest_field v2_msg result" where
  "DeleteSessionRequest_UnmarshalBinary b = msg_UnmarshalBinary DeleteSessionRequest_switch b"

lemma DeleteSessionRequest_all_fields: "s \<in> set DeleteSessionRequest_order" "s \<in> set DeleteSessionRequest_lens"
  by (cases s; simp add: DeleteSessionRequest_order_def DeleteSessionRequest_lens_def)+

interpretation deleteSessionRequest: message_layout DeleteSessionRequest_switch DeleteSessionRequest_order DeleteSessionRequest_lens
  by unfold_locales
     (simp_all add: DeleteSessionRequest_all_fields set_eq_iff, simp_all add: DeleteSessionRequest_order_def DeleteSessionRequest_lens_def)

lemma DeleteSessionRequest_Marshal_eq: "DeleteSessionRequest_Marshal m = msg_Marshal DeleteSessionRequest_order DeleteSessionRequest_lens m"
  by (simp add: DeleteSessionRequest_Marshal_def DeleteSessionRequest_MarshalTo_def DeleteSessionRequest_MarshalLen_def msg_Marshal_def)

section \<open>DeleteSessionResponse\<close>

datatype DeleteSessionResponse_field =
    DeleteSessionResponse_Cause | DeleteSessionResponse_Recovery | DeleteSessionResponse_PCO
    | DeleteSessionResponse_IndicationFlags
    | DeleteSessionResponse_PGWNodeLoadControlInformation
    | DeleteSessionResponse_PGWAPNLoadControlInformation
    | DeleteSessionResponse_SGWNodeLoadControlInformation
    | DeleteSessionResponse_PGWOverloadControlInformation
    | DeleteSessionResponse_SGWOverloadControlInformation | DeleteSessionResponse_EPCO
    | DeleteSessionResponse_APNRateControlStatus | DeleteSessionResponse_PrivateExtension

definition DeleteSessionResponse_switch :: "DeleteSessionResponse_field switch" where
  "DeleteSessionResponse_switch t n = (
     if t = IE_Cause then Slot DeleteSessionResponse_Cause
     else if t = IE_Recovery then Slot DeleteSessionResponse_Recovery
     else if t = IE_ProtocolConfigurationOptions then Slot DeleteSessionResponse_PCO
     else if t = IE_Indication then Slot DeleteSessionResponse_IndicationFlags
     else if t = IE_LoadControlInformation then 
         (if n = 1 then Slot DeleteSessionResponse_PGWNodeLoadControlInformation
          else if n = 2 then Slot DeleteSessionResponse_PGWAPNLoadControlInformation
          else if n = 3 then Slot DeleteSessionResponse_SGWNodeLoadControlInformation
          else Additional)
     else if t = IE_OverloadControlInformation then 
         (if n = 1 then Slot DeleteSessionResponse_PGWOverloadControlInformation
          else if n = 2 then Slot DeleteSessionResponse_SGWOverloadControlInformation
          else Additional)
     else if t = IE_ExtendedProtocolConfigurationOptions then Slot DeleteSessionResponse_EPCO
     else if t = IE_APNRateControlStatus then Slot DeleteSessionResponse_APNRateControlStatus
     else if t = IE_PrivateExtension then Slot DeleteSessionResponse_PrivateExtension
     else Additional)"

definition DeleteSessionResponse_order :: "DeleteSessionResponse_field list" where
  "DeleteSessionResponse_order = [
    DeleteSessionResponse_Cause, DeleteSessionResponse_Recovery, DeleteSessionResponse_PCO,
    DeleteSessionResponse_IndicationFlags, DeleteSessionResponse_PGWNodeLoadControlInformation,
    DeleteSessionResponse_PGWAPNLoadControlInformation,
    DeleteSessionResponse_SGWNodeLoadControlInformation,
    DeleteSessionResponse_PGWOverloadControlInformation,
    DeleteSessionResponse_SGWOverloadControlInformation, DeleteSessionResponse_EPCO,
    DeleteSessionResponse_APNRateControlStatus, DeleteSessionResponse_PrivateExtension]"

definition DeleteSessionResponse_lens :: "DeleteSessionResponse_field list" where
  "DeleteSessionResponse_lens = [
    DeleteSessionResponse_Cause, DeleteSessionResponse_Recovery, DeleteSessionResponse_PCO,
    DeleteSessionResponse_IndicationFlags, DeleteSessionResponse_PGWNodeLoadControlInformation,
    DeleteSessionResponse_PGWAPNLoadControlInformation,
    DeleteSessionResponse_SGWNodeLoadControlInformation,
    DeleteSessionResponse_PGWOverloadControlInformation,
    DeleteSessionResponse_SGWOverloadControlInformation, DeleteSessionResponse_EPCO,
    DeleteSessionResponse_APNRateControlStatus, DeleteSessionResponse_PrivateExtension]"

definition NewDeleteSessionResponse :: "u32 \<Rightarrow> u32 \<Rightarrow> ie option list \<Rightarrow> DeleteSessionResponse_field v2_msg" where
  "NewDeleteSessionResponse teid seq ies =
     msg_New DeleteSessionResponse_switch DeleteSessionResponse_lens (NewHeaderFlags 2 0 1) MsgTypeDeleteSessionResponse teid seq ies"

definition DeleteSessionResponse_MarshalLen :: "DeleteSessionResponse_field v2_msg \<Rightarrow> nat" where
  "DeleteSessionResponse_MarshalLen m = msg_MarshalLen DeleteSessionResponse_lens m"

definition DeleteSessionResponse_MarshalTo :: "DeleteSessionResponse_field v2_msg \<Rightarrow> bytes \<Rightarrow> (bytes \<times> DeleteSessionResponse_field v2_msg) result" where
  "DeleteSessionResponse_MarshalTo m b = msg_MarshalTo DeleteSessionResponse_order DeleteSessionResponse_lens m b"

definition DeleteSessionResponse_Marshal :: "DeleteSessionResponse_field v2_msg \<Rightarrow> (bytes \<times> DeleteSessionResponse_field v2_msg) result" where
  "DeleteSessionResponse_Marshal m = DeleteSessionResponse_MarshalTo m (replicate (DeleteSessionResponse_MarshalLen m) 0)"

definition DeleteSessionResponse_UnmarshalBinary :: "bytes \<Rightarrow> DeleteSessionResponse_field v2_msg result" where
  "DeleteSessionResponse_UnmarshalBinary b = msg_UnmarshalBinary DeleteSessionResponse_switch b"

lemma DeleteSessionResponse_all_fields: "s \<in> set DeleteSessionResponse_order" "s \<in> set DeleteSessionResponse_lens"
  by (cases s; simp add: DeleteSessionResponse_order_def DeleteSessionResponse_lens_def)+

interpretation deleteSessionResponse: message_layout DeleteSessionResponse_switch DeleteSessionResponse_order DeleteSessionResponse_lens
  by unfold_locales
     (simp_all add: DeleteSessionResponse_all_fields set_eq_iff, simp_all add: DeleteSessionResponse_order_def DeleteSessionResponse_lens_def)

lemma DeleteSessionResponse_Marshal_eq: "DeleteSessionResponse_Marshal m = msg_Marshal DeleteSessionResponse_order DeleteSessionResponse_lens m"
  by (simp add: DeleteSessionResponse_Marshal_def DeleteSessionResponse_MarshalTo_def DeleteSessionResponse_MarshalLen_def msg_Marshal_def)

end
