(* ===== verification/V2MsgBearer.thy ===== *)
theory V2MsgBearer
  imports V2Message V2IETypes
begin

text \<open>
  The GTPv2 message types of the messages that create, modify, update and delete bearers:
  \<open>ModifyBearerRequest\<close> (\<open>modify-bearer-req.go\<close>),
  \<open>ModifyBearerResponse\<close> (\<open>modify-bearer-res.go\<close>),
  \<open>CreateBearerRequest\<close> (\<open>create-bearer-req.go\<close>),
  \<open>CreateBearerResponse\<close> (\<open>create-bearer-res.go\<close>),
  \<open>UpdateBearerRequest\<close> (\<open>update-bearer-req.go\<close>),
  \<open>UpdateBearerResponse\<close> (\<open>update-bearer-res.go\<close>),
  \<open>DeleteBearerRequest\<close> (\<open>delete-bearer-req.go\<close>),
  \<open>DeleteBearerResponse\<close> (\<open>delete-bearer-res.go\<close>). For each of them: its
  fields, the switch of its decoder (and of its constructor where the two differ), the orders in
  which MarshalTo and MarshalLen visit the fields, the methods built from them, and the
  interpretation of the contract of \<open>V2Message\<close>.
\<close>

abbreviation MsgTypeModifyBearerRequest :: byte where
  "MsgTypeModifyBearerRequest \<equiv> 34"

abbreviation MsgTypeModifyBearerResponse :: byte where
  "MsgTypeModifyBearerResponse \<equiv> 35"

abbreviation MsgTypeCreateBearerRequest :: byte where
  "MsgTypeCreateBearerRequest \<equiv> 95"

abbreviation MsgTypeCreateBearerResponse :: byte where
  "MsgTypeCreateBearerResponse \<equiv> 96"

abbreviation MsgTypeUpdateBearerRequest :: byte where
  "MsgTypeUpdateBearerRequest \<equiv> 97"

abbreviation MsgTypeUpdateBearerResponse :: byte where
  "MsgTypeUpdateBearerResponse \<equiv> 98"

abbreviation MsgTypeDeleteBearerRequest :: byte where
  "MsgTypeDeleteBearerRequest \<equiv> 99"

abbreviation MsgTypeDeleteBearerResponse :: byte where
  "MsgTypeDeleteBearerResponse \<equiv> 100"

section \<open>ModifyBearerRequest\<close>

datatype ModifyBearerRequest_field =
    ModifyBearerRequest_MEI | ModifyBearerRequest_ULI | ModifyBearerRequest_ServingNetwork
    | ModifyBearerRequest_RATType | ModifyBearerRequest_IndicationFlags
    | ModifyBearerRequest_SenderFTEIDC | ModifyBearerRequest_AMBR
    | ModifyBearerRequest_DelayDownlinkPacketNotificationRequest
    | ModifyBearerRequest_BearerContextsToBeModified
    | ModifyBearerRequest_BearerContextsToBeRemoved | ModifyBearerRequest_Recovery
    | ModifyBearerRequest_UETimeZone | ModifyBearerRequest_MMEFQCSID
    | ModifyBearerRequest_SGWFQCSID | ModifyBearerRequest_UCI
    | ModifyBearerRequest_UELocalIPAddress | ModifyBearerRequest_UEUDPPort
    | ModifyBearerRequest_MMESGSNLDN | ModifyBearerRequest_SGWLDN
    | ModifyBearerRequest_HeNBLocalIPAddress | ModifyBearerRequest_HeNBUDPPort
    | ModifyBearerRequest_MMESGSNIdentifier | ModifyBearerRequest_CNOperatorSelectionEntity
    | ModifyBearerRequest_PresenceReportingAreaInformation
    | ModifyBearerRequest_MMESGSNOverloadControlInformation
    | ModifyBearerRequest_SGWOverloadControlInformation
    | ModifyBearerRequest_EPDGOverloadControlInformation
    | ModifyBearerRequest_ServingPLMNRateControl | ModifyBearerRequest_MOExceptionDataCounter
    | ModifyBearerRequest_IMSI | ModifyBearerRequest_ULIForSGW
    | ModifyBearerRequest_WLANLocationInformation | ModifyBearerRequest_WLANLocationTimeStamp
    | ModifyBearerRequest_SecondaryRATUsageDataReport | ModifyBearerRequest_PrivateExtension

definition ModifyBearerRequest_switch :: "ModifyBearerRequest_field switch" where
  "ModifyBearerRequest_switch t n = (
     if t = IE_MobileEquipmentIdentity then Slot ModifyBearerRequest_MEI
     else if t = IE_UserLocationInformation then 
         (if n = 0 then Slot ModifyBearerRequest_ULI
          else if n = 1 then Slot ModifyBearerRequest_ULIForSGW
          else Additional)
     else if t = IE_ServingNetwork then Slot ModifyBearerRequest_ServingNetwork
     else if t = IE_RATType then Slot ModifyBearerRequest_RATType
     else if t = IE_Indication then Slot ModifyBearerRequest_IndicationFlags
     else if t = IE_FullyQualifiedTEID then Slot ModifyBearerRequest_SenderFTEIDC
     else if t = IE_AggregateMaximumBitRate then Slot ModifyBearerRequest_AMBR
     else if t = IE_DelayValue then Slot ModifyBearerRequest_DelayDownlinkPacketNotificationRequest
     else if t = IE_BearerContext then 
         (if n = 0 then Slot ModifyBearerRequest_BearerContextsToBeModified
          else if n = 1 then Slot ModifyBearerRequest_BearerContextsToBeRemoved
          else Additional)
     else if t = IE_Recovery then Slot ModifyBearerRequest_Recovery
     else if t = IE_UETimeZone then Slot ModifyBearerRequest_UETimeZone
     else if t = IE_FullyQualifiedCSID then 
         (if n = 0 then Slot ModifyBearerRequest_MMEFQCSID
          else if n = 1 then Slot ModifyBearerRequest_SGWFQCSID
          else Additional)
     else if t = IE_UserCSGInformation then Slot ModifyBearerRequest_UCI
     else if t = IE_IPAddress then 
         (if n = 0 then Slot ModifyBearerRequest_UELocalIPAddress
          else if n = 1 then Slot ModifyBearerRequest_HeNBLocalIPAddress
          else Additional)
     else if t = IE_PortNumber then 
         (if n = 0 then Slot ModifyBearerRequest_UEUDPPort
          else if n = 1 then Slot ModifyBearerRequest_HeNBUDPPort
          else if n = 2 then Slot ModifyBearerRequest_MMESGSNIdentifier
          else Additional)
     else if t = IE_LocalDistinguishedName then 
         (if n = 0 then Slot ModifyBearerRequest_MMESGSNLDN
          else if n = 1 then Slot ModifyBearerRequest_SGWLDN
          else Additional)
     else if t = IE_CNOperatorSelectionEntity then Slot ModifyBearerRequest_CNOperatorSelectionEntity
     else if t = IE_PresenceReportingAreaInformation then Slot ModifyBearerRequest_PresenceReportingAreaInformation
     else if t = IE_OverloadControlInformation then 
         (if n = 0 then Slot ModifyBearerRequest_MMESGSNOverloadControlInformation
          else if n = 1 then Slot ModifyBearerRequest_SGWOverloadControlInformation
          else if n = 2 then Slot ModifyBearerRequest_EPDGOverloadControlInformation
          else Additional)
     else if t = IE_ServingPLMNRateControl then Slot ModifyBearerRequest_ServingPLMNRateControl
     else if t = IE_Counter then Slot ModifyBearerRequest_MOExceptionDataCounter
     else if t = IE_IMSI then Slot ModifyBearerRequest_IMSI
     else if t = IE_TWANIdentifier then Slot ModifyBearerRequest_WLANLocationInformation
     else if t = IE_TWANIdentifierTimestamp then Slot ModifyBearerRequest_WLANLocationTimeStamp
     else if t = IE_SecondaryRATUsageDataReport then Slot ModifyBearerRequest_SecondaryRATUsageDataReport
     else if t = IE_PrivateExtension then Slot ModifyBearerRequest_PrivateExtension
     else Additional)"

definition ModifyBearerRequest_order :: "ModifyBearerRequest_field list" where
  "ModifyBearerRequest_order = [
    ModifyBearerRequest_MEI, ModifyBearerRequest_ULI, ModifyBearerRequest_ServingNetwork,
    ModifyBearerRequest_RATType, ModifyBearerRequest_IndicationFlags,
    ModifyBearerRequest_SenderFTEIDC, ModifyBearerRequest_AMBR,
    ModifyBearerRequest_DelayDownlinkPacketNotificationRequest,
    ModifyBearerRequest_BearerContextsToBeModified,
    ModifyBearerRequest_BearerContextsToBeRemoved, ModifyBearerRequest_Recovery,
    ModifyBearerRequest_UETimeZone, ModifyBearerRequest_MMEFQCSID,
    ModifyBearerRequest_SGWFQCSID, ModifyBearerRequest_UCI,
    ModifyBearerRequest_UELocalIPAddress, ModifyBearerRequest_UEUDPPort,
    ModifyBearerRequest_MMESGSNLDN, ModifyBearerRequest_SGWLDN,
    ModifyBearerRequest_HeNBLocalIPAddress, ModifyBearerRequest_HeNBUDPPort,
    ModifyBearerRequest_MMESGSNIdentifier, ModifyBearerRequest_CNOperatorSelectionEntity,
    ModifyBearerRequest_PresenceReportingAreaInformation,
    ModifyBearerRequest_MMESGSNOverloadControlInformation,
    ModifyBearerRequest_SGWOverloadControlInformation,
    ModifyBearerRequest_EPDGOverloadControlInformation,
    ModifyBearerRequest_ServingPLMNRateControl, ModifyBearerRequest_MOExceptionDataCounter,
    ModifyBearerRequest_IMSI, ModifyBearerRequest_ULIForSGW,
    ModifyBearerRequest_WLANLocationInformation, ModifyBearerRequest_WLANLocationTimeStamp,
    ModifyBearerRequest_SecondaryRATUsageDataReport, ModifyBearerRequest_PrivateExtension]"

definition ModifyBearerRequest_lens :: "ModifyBearerRequest_field list" where
  "ModifyBearerRequest_lens = [
    ModifyBearerRequest_MEI, ModifyBearerRequest_ULI, ModifyBearerRequest_ServingNetwork,
    ModifyBearerRequest_RATType, ModifyBearerRequest_IndicationFlags,
    ModifyBearerRequest_SenderFTEIDC, ModifyBearerRequest_AMBR,
    ModifyBearerRequest_DelayDownlinkPacketNotificationRequest,
    ModifyBearerRequest_BearerContextsToBeModified,
    ModifyBearerRequest_BearerContextsToBeRemoved, ModifyBearerRequest_Recovery,
    ModifyBearerRequest_UETimeZone, ModifyBearerRequest_MMEFQCSID,
    ModifyBearerRequest_SGWFQCSID, ModifyBearerRequest_UCI,
    ModifyBearerRequest_UELocalIPAddress, ModifyBearerRequest_UEUDPPort,
    ModifyBearerRequest_MMESGSNLDN, ModifyBearerRequest_SGWLDN,
    ModifyBearerRequest_HeNBLocalIPAddress, ModifyBearerRequest_HeNBUDPPort,
    ModifyBearerRequest_MMESGSNIdentifier, ModifyBearerRequest_CNOperatorSelectionEntity,
    ModifyBearerRequest_PresenceReportingAreaInformation,
    ModifyBearerRequest_MMESGSNOverloadControlInformation,
    ModifyBearerRequest_SGWOverloadControlInformation,
    ModifyBearerRequest_EPDGOverloadControlInformation,
    ModifyBearerRequest_ServingPLMNRateControl, ModifyBearerRequest_MOExceptionDataCounter,
    ModifyBearerRequest_IMSI, ModifyBearerRequest_ULIForSGW,
    ModifyBearerRequest_WLANLocationInformation, ModifyBearerRequest_WLANLocationTimeStamp,
    ModifyBearerRequest_SecondaryRATUsageDataReport, ModifyBearerRequest_PrivateExtension]"

definition NewModifyBearerRequest :: "u32 \<Rightarrow> u32 \<Rightarrow> ie option list \<Rightarrow> ModifyBearerRequest_field v2_msg" where
  "NewModifyBearerRequest teid seq ies =
     msg_New ModifyBearerRequest_switch ModifyBearerRequest_lens (NewHeaderFlags 2 0 1) MsgTypeModifyBearerRequest teid seq ies"

definition ModifyBearerRequest_MarshalLen :: "ModifyBearerRequest_field v2_msg \<Rightarrow> nat" where
  "ModifyBearerRequest_MarshalLen m = msg_MarshalLen ModifyBearerRequest_lens m"

definition ModifyBearerRequest_MarshalTo :: "ModifyBearerRequest_field v2_msg \<Rightarrow> bytes \<Rightarrow> (bytes \<times> ModifyBearerRequest_field v2_msg) result" where
  "ModifyBearerRequest_MarshalTo m b = msg_MarshalTo ModifyBearerRequest_order ModifyBearerRequest_lens m b"

definition ModifyBearerRequest_Marshal :: "ModifyBearerRequest_field v2_msg \<Rightarrow> (bytes \<times> ModifyBearerRequest_field v2_msg) result" where
  "ModifyBearerRequest_Marshal m = ModifyBearerRequest_MarshalTo m (replicate (ModifyBearerRequest_MarshalLen m) 0)"

definition ModifyBearerRequest_UnmarshalBinary :: "bytes \<Rightarrow> ModifyBearerRequest_field v2_msg result" where
  "ModifyBearerRequest_UnmarshalBinary b = msg_UnmarshalBinary ModifyBearerRequest_switch b"

lemma ModifyBearerRequest_all_fields: "s \<in> set ModifyBearerRequest_order" "s \<in> set ModifyBearerRequest_lens"
  by (cases s; simp add: ModifyBearerRequest_order_def ModifyBearerRequest_lens_def)+

interpretation modifyBearerRequest: message_layout ModifyBearerRequest_switch ModifyBearerRequest_order ModifyBearerRequest_lens
  by unfold_locales
     (simp_all add: ModifyBearerRequest_all_fields set_eq_iff, simp_all add: ModifyBearerRequest_order_def ModifyBearerRequest_lens_def)

lemma ModifyBearerRequest_Marshal_eq: "ModifyBearerRequest_Marshal m = msg_Marshal ModifyBearerRequest_order ModifyBearerRequest_lens m"
  by (simp add: ModifyBearerRequest_Marshal_def ModifyBearerRequest_MarshalTo_def ModifyBearerRequest_MarshalLen_def msg_Marshal_def)

section \<open>ModifyBearerResponse\<close>

datatype ModifyBearerResponse_field =
    ModifyBearerResponse_Cause | ModifyBearerResponse_MSISDN | ModifyBearerResponse_LinkedEBI
    | ModifyBearerResponse_APNRestriction | ModifyBearerResponse_PCO
    | ModifyBearerResponse_BearerContextsModified
    | ModifyBearerResponse_BearerContextsMarkedForRemoval
    | ModifyBearerResponse_ChangeReportingAction
    | ModifyBearerResponse_CSGInformationReportingAction
    | ModifyBearerResponse_HeNBInformationReporting | ModifyBearerResponse_ChargingGatewayName
    | ModifyBearerResponse_ChargingGatewayAddress | ModifyBearerResponse_PGWFQCSID
    | ModifyBearerResponse_SGWFQCSID | ModifyBearerResponse_Recovery
    | ModifyBearerResponse_SGWLDN | ModifyBearerResponse_PGWLDN
    | ModifyBearerResponse_IndicationFlags | ModifyBearerResponse_PresenceReportingAreaAction
    | ModifyBearerResponse_PGWNodeLoadControlInformation
    | ModifyBearerResponse_PGWAPNLoadControlInformation
    | ModifyBearerResponse_SGWNodeLoadControlInformation
    | ModifyBearerResponse_PGWOverloadControlInformation
    | ModifyBearerResponse_SGWOverloadControlInformation
    | ModifyBearerResponse_PDNConnectionChargingID | ModifyBearerResponse_PrivateExtension

definition ModifyBearerResponse_switch :: "ModifyBearerResponse_field switch" where
  "ModifyBearerResponse_switch t n = (
     if t = IE_Cause then Slot ModifyBearerResponse_Cause
     else if t = IE_MSISDN then Slot ModifyBearerResponse_MSISDN
     else if t = IE_EPSBearerID then Slot ModifyBearerResponse_LinkedEBI
     else if t = IE_APNRestriction then Slot ModifyBearerResponse_APNRestriction
     else if t = IE_ProtocolConfigurationOptions then Slot ModifyBearerResponse_PCO
     else if t = IE_BearerContext then 
         (if n = 0 then Slot ModifyBearerResponse_BearerContextsModified
          else if n = 1 then Slot ModifyBearerResponse_BearerContextsMarkedForRemoval
          else Additional)
     else if t = IE_ChangeReportingAction then Slot ModifyBearerResponse_ChangeReportingAction
     else if t = IE_CSGInformationReportingAction then Slot ModifyBearerResponse_CSGInformationReportingAction
     else if t = IE_HeNBInformationReporting then Slot ModifyBearerResponse_HeNBInformationReporting
     else if t = IE_FullyQualifiedDomainName then Slot ModifyBearerResponse_ChargingGatewayName
     else if t = IE_IPAddress then Slot ModifyBearerResponse_ChargingGatewayAddress
     else if t = IE_FullyQualifiedCSID then 
         (if n = 0 then Slot ModifyBearerResponse_PGWFQCSID
          else if n = 1 then Slot ModifyBearerResponse_SGWFQCSID
          else Additional)
     else if t = IE_Recovery then Slot ModifyBearerResponse_Recovery
     else if t = IE_LocalDistinguishedName then 
         (if n = 0 then Slot ModifyBearerResponse_SGWLDN
          else if n = 1 then Slot ModifyBearerResponse_PGWLDN
          else Additional)
     else if t = IE_Indication then Slot ModifyBearerResponse_IndicationFlags
     else if t = IE_PresenceReportingAreaAction then Slot ModifyBearerResponse_PresenceReportingAreaAction
     else if t = IE_LoadControlInformation then 
         (if n = 0 then Slot ModifyBearerResponse_PGWNodeLoadControlInformation
          else if n = 1 then Slot ModifyBearerResponse_PGWAPNLoadControlInformation
          else Additional)
     else if t = IE_OverloadControlInformation then 
         (if n = 0 then Slot ModifyBearerResponse_SGWNodeLoadControlInformation
          else if n = 1 then Slot ModifyBearerResponse_PGWOverloadControlInformation
          else if n = 2 then Slot ModifyBearerResponse_SGWOverloadControlInformation
          else Additional)
     else if t = IE_ChargingID then Slot ModifyBearerResponse_PDNConnectionChargingID
     else if t = IE_PrivateExtension then Slot ModifyBearerResponse_PrivateExtension
     else Additional)"

definition ModifyBearerResponse_order :: "ModifyBearerResponse_field list" where
  "ModifyBearerResponse_order = [
    ModifyBearerResponse_Cause, ModifyBearerResponse_MSISDN, ModifyBearerResponse_LinkedEBI,
    ModifyBearerResponse_APNRestriction, ModifyBearerResponse_PCO,
    ModifyBearerResponse_BearerContextsModified,
    ModifyBearerResponse_BearerContextsMarkedForRemoval,
    ModifyBearerResponse_ChangeReportingAction,
    ModifyBearerResponse_CSGInformationReportingAction,
    ModifyBearerResponse_HeNBInformationReporting, ModifyBearerResponse_ChargingGatewayName,
    ModifyBearerResponse_ChargingGatewayAddress, ModifyBearerResponse_PGWFQCSID,
    ModifyBearerResponse_SGWFQCSID, ModifyBearerResponse_Recovery, ModifyBearerResponse_SGWLDN,
    ModifyBearerResponse_PGWLDN, ModifyBearerResponse_IndicationFlags,
    ModifyBearerResponse_PresenceReportingAreaAction,
    ModifyBearerResponse_PGWNodeLoadControlInformation,
    ModifyBearerResponse_PGWAPNLoadControlInformation,
    ModifyBearerResponse_SGWNodeLoadControlInformation,
    ModifyBearerResponse_PGWOverloadControlInformation,
    ModifyBearerResponse_SGWOverloadControlInformation,
    ModifyBearerResponse_PDNConnectionChargingID, ModifyBearerResponse_PrivateExtension]"

definition ModifyBearerResponse_lens :: "ModifyBearerResponse_field list" where
  "ModifyBearerResponse_lens = [
    ModifyBearerResponse_Cause, ModifyBearerResponse_MSISDN, ModifyBearerResponse_LinkedEBI,
    ModifyBearerResponse_APNRestriction, ModifyBearerResponse_PCO,
    ModifyBearerResponse_BearerContextsModified,
    ModifyBearerResponse_BearerContextsMarkedForRemoval,
    ModifyBearerResponse_ChangeReportingAction,
    ModifyBearerResponse_CSGInformationReportingAction,
    ModifyBearerResponse_HeNBInformationReporting, ModifyBearerResponse_ChargingGatewayName,
    ModifyBearerResponse_ChargingGatewayAddress, ModifyBearerResponse_PGWFQCSID,
    ModifyBearerResponse_SGWFQCSID, ModifyBearerResponse_Recovery, ModifyBearerResponse_SGWLDN,
    ModifyBearerResponse_PGWLDN, ModifyBearerResponse_IndicationFlags,
    ModifyBearerResponse_PresenceReportingAreaAction,
    ModifyBearerResponse_PGWNodeLoadControlInformation,
    ModifyBearerResponse_PGWAPNLoadControlInformation,
    ModifyBearerResponse_SGWNodeLoadControlInformation,
    ModifyBearerResponse_PGWOverloadControlInformation,
    ModifyBearerResponse_SGWOverloadControlInformation,
    ModifyBearerResponse_PDNConnectionChargingID, ModifyBearerResponse_PrivateExtension]"

definition NewModifyBearerResponse :: "u32 \<Rightarrow> u32 \<Rightarrow> ie option list \<Rightarrow> ModifyBearerResponse_field v2_msg" where
  "NewModifyBearerResponse teid seq ies =
     msg_New ModifyBearerResponse_switch ModifyBearerResponse_lens (NewHeaderFlags 2 0 1) MsgTypeModifyBearerResponse teid seq ies"

definition ModifyBearerResponse_MarshalLen :: "ModifyBearerResponse_field v2_msg \<Rightarrow> nat" where
  "ModifyBearerResponse_MarshalLen m = msg_MarshalLen ModifyBearerResponse_lens m"

definition ModifyBearerResponse_MarshalTo :: "ModifyBearerResponse_field v2_msg \<Rightarrow> bytes \<Rightarrow> (bytes \<times> ModifyBearerResponse_field v2_msg) result" where
  "ModifyBearerResponse_MarshalTo m b = msg_MarshalTo ModifyBearerResponse_order ModifyBearerResponse_lens m b"

definition ModifyBearerResponse_Marshal :: "ModifyBearerResponse_field v2_msg \<Rightarrow> (bytes \<times> ModifyBearerResponse_field v2_msg) result" where
  "ModifyBearerResponse_Marshal m = ModifyBearerResponse_MarshalTo m (replicate (ModifyBearerResponse_MarshalLen m) 0)"

definition ModifyBearerResponse_UnmarshalBinary :: "bytes \<Rightarrow> ModifyBearerResponse_field v2_msg result" where
  "ModifyBearerResponse_UnmarshalBinary b = msg_UnmarshalBinary ModifyBearerResponse_switch b"

lemma ModifyBearerResponse_all_fields: "s \<in> set ModifyBearerResponse_order" "s \<in> set ModifyBearerResponse_lens"
  by (cases s; simp add: ModifyBearerResponse_order_def ModifyBearerResponse_lens_def)+

interpretation modifyBearerResponse: message_layout ModifyBearerResponse_switch ModifyBearerResponse_order ModifyBearerResponse_lens
  by unfold_locales
     (simp_all add: ModifyBearerResponse_all_fields set_eq_iff, simp_all add: ModifyBearerResponse_order_def ModifyBearerResponse_lens_def)

lemma ModifyBearerResponse_Marshal_eq: "ModifyBearerResponse_Marshal m = msg_Marshal ModifyBearerResponse_order ModifyBearerResponse_lens m"
  by (simp add: ModifyBearerResponse_Marshal_def ModifyBearerResponse_MarshalTo_def ModifyBearerResponse_MarshalLen_def msg_Marshal_def)

section \<open>CreateBearerRequest\<close>

datatype CreateBearerRequest_field =
    CreateBearerRequest_PTI | CreateBearerRequest_LinkedEBI | CreateBearerRequest_PCO
    | CreateBearerRequest_BearerContexts | CreateBearerRequest_PGWFQCSID
    | CreateBearerRequest_SGWFQCSID | CreateBearerRequest_ChangeReportingAction
    | CreateBearerRequest_CSGInformationReportingAction
    | CreateBearerRequest_HeNBInformationReporting
    | CreateBearerRequest_PresenceReportingAreaAction | CreateBearerRequest_IndicationFlags
    | CreateBearerRequest_PGWNodeLoadControlInformation
    | CreateBearerRequest_PGWAPNLoadControlInformation
    | CreateBearerRequest_SGWNodeLoadControlInformation
    | CreateBearerRequest_PGWOverloadControlInformation
    | CreateBearerRequest_SGWOverloadControlInformation | CreateBearerRequest_NBIFOMContainer
    | CreateBearerRequest_PrivateExtension

definition CreateBearerRequest_switch :: "CreateBearerRequest_field switch" where
  "CreateBearerRequest_switch t n = (
     if t = IE_ProcedureTransactionID then Slot CreateBearerRequest_PTI
     else if t = IE_EPSBearerID then Slot CreateBearerRequest_LinkedEBI
     else if t = IE_ProtocolConfigurationOptions then Slot CreateBearerRequest_PCO
     else if t = IE_BearerContext then Slot CreateBearerRequest_BearerContexts
     else if t = IE_FullyQualifiedCSID then 
         (if n = 0 then Slot CreateBearerRequest_PGWFQCSID
          else if n = 1 then Slot CreateBearerRequest_SGWFQCSID
          else Additional)
     else if t = IE_ChangeReportingAction then Slot CreateBearerRequest_ChangeReportingAction
     else if t = IE_CSGInformationReportingAction then Slot CreateBearerRequest_CSGInformationReportingAction
     else if t = IE_HeNBInformationReporting then Slot CreateBearerRequest_HeNBInformationReporting
     else if t = IE_PresenceReportingAreaAction then Slot CreateBearerRequest_PresenceReportingAreaAction
     else if t = IE_Indication then Slot CreateBearerRequest_IndicationFlags
     else if t = IE_LoadControlInformation then 
         (if n = 0 then Slot CreateBearerRequest_PGWNodeLoadControlInformation
          else if n = 1 then Slot CreateBearerRequest_PGWAPNLoadControlInformation
          else if n = 2 then Slot CreateBearerRequest_SGWNodeLoadControlInformation
          else Additional)
     else if t = IE_OverloadControlInformation then 
         (if n = 0 then Slot CreateBearerRequest_PGWOverloadControlInformation
          else if n = 1 then Slot CreateBearerRequest_SGWOverloadControlInformation
          else Additional)
     else if t = IE_FContainer then Slot CreateBearerRequest_NBIFOMContainer
     else if t = IE_PrivateExtension then Slot CreateBearerRequest_PrivateExtension
     else Additional)"

definition CreateBearerRequest_order :: "CreateBearerRequest_field list" where
  "CreateBearerRequest_order = [
    CreateBearerRequest_PTI, CreateBearerRequest_LinkedEBI, CreateBearerRequest_PCO,
    CreateBearerRequest_BearerContexts, CreateBearerRequest_PGWFQCSID,
    CreateBearerRequest_SGWFQCSID, CreateBearerRequest_ChangeReportingAction,
    CreateBearerRequest_CSGInformationReportingAction,
    CreateBearerRequest_HeNBInformationReporting,
    CreateBearerRequest_PresenceReportingAreaAction, CreateBearerRequest_IndicationFlags,
    CreateBearerRequest_PGWNodeLoadControlInformation,
    CreateBearerRequest_PGWAPNLoadControlInformation,
    CreateBearerRequest_SGWNodeLoadControlInformation,
    CreateBearerRequest_PGWOverloadControlInformation,
    CreateBearerRequest_SGWOverloadControlInformation, CreateBearerRequest_NBIFOMContainer,
    CreateBearerRequest_PrivateExtension]"

definition CreateBearerRequest_lens :: "CreateBearerRequest_field list" where
  "CreateBearerRequest_lens = [
    CreateBearerRequest_PTI, CreateBearerRequest_LinkedEBI, CreateBearerRequest_PCO,
    CreateBearerRequest_BearerContexts, CreateBearerRequest_PGWFQCSID,
    CreateBearerRequest_SGWFQCSID, CreateBearerRequest_ChangeReportingAction,
    CreateBearerRequest_CSGInformationReportingAction,
    CreateBearerRequest_HeNBInformationReporting,
    CreateBearerRequest_PresenceReportingAreaAction, CreateBearerRequest_IndicationFlags,
    CreateBearerRequest_PGWNodeLoadControlInformation,
    CreateBearerRequest_PGWAPNLoadControlInformation,
    CreateBearerRequest_SGWNodeLoadControlInformation,
    CreateBearerRequest_PGWOverloadControlInformation,
    CreateBearerRequest_SGWOverloadControlInformation, CreateBearerRequest_NBIFOMContainer,
    CreateBearerRequest_PrivateExtension]"

definition NewCreateBearerRequest :: "u32 \<Rightarrow> u32 \<Rightarrow> ie option list \<Rightarrow> CreateBearerRequest_field v2_msg" where
  "NewCreateBearerRequest teid seq ies =
     msg_New CreateBearerRequest_switch CreateBearerRequest_lens (NewHeaderFlags 2 0 1) MsgTypeCreateBearerRequest teid seq ies"

definition CreateBearerRequest_MarshalLen :: "CreateBearerRequest_field v2_msg \<Rightarrow> nat" where
  "CreateBearerRequest_MarshalLen m = msg_MarshalLen CreateBearerRequest_lens m"

definition CreateBearerRequest_MarshalTo :: "CreateBearerRequest_field v2_msg \<Rightarrow> bytes \<Rightarrow> (bytes \<times> CreateBearerRequest_field v2_msg) result" where
  "CreateBearerRequest_MarshalTo m b = msg_MarshalTo CreateBearerRequest_order CreateBearerRequest_lens m b"

definition CreateBearerRequest_Marshal :: "CreateBearerRequest_field v2_msg \<Rightarrow> (bytes \<times> CreateBearerRequest_field v2_msg) result" where
  "CreateBearerRequest_Marshal m = CreateBearerRequest_MarshalTo m (replicate (CreateBearerRequest_MarshalLen m) 0)"

definition CreateBearerRequest_UnmarshalBinary :: "bytes \<Rightarrow> CreateBearerRequest_field v2_msg result" where
  "CreateBearerRequest_UnmarshalBinary b = msg_UnmarshalBinary CreateBearerRequest_switch b"

lemma CreateBearerRequest_all_fields: "s \<in> set CreateBearerRequest_order" "s \<in> set CreateBearerRequest_lens"
  by (cases s; simp add: CreateBearerRequest_order_def CreateBearerRequest_lens_def)+

interpretation createBearerRequest: message_layout CreateBearerRequest_switch CreateBearerRequest_order CreateBearerRequest_lens
  by unfold_locales
     (simp_all add: CreateBearerRequest_all_fields set_eq_iff, simp_all add: CreateBearerRequest_order_def CreateBearerRequest_lens_def)

lemma CreateBearerRequest_Marshal_eq: "CreateBearerRequest_Marshal m = msg_Marshal CreateBearerRequest_order CreateBearerRequest_lens m"
  by (simp add: CreateBearerRequest_Marshal_def CreateBearerRequest_MarshalTo_def CreateBearerRequest_MarshalLen_def msg_Marshal_def)

section \<open>CreateBearerResponse\<close>

datatype CreateBearerResponse_field =
    CreateBearerResponse_Cause | CreateBearerResponse_BearerContexts
    | CreateBearerResponse_Recovery | CreateBearerResponse_MMEFQCSID
    | CreateBearerResponse_SGWFQCSID | CreateBearerResponse_EPDGFQCSID
    | CreateBearerResponse_TWANFQCSID | CreateBearerResponse_PCO
    | CreateBearerResponse_UETimeZone | CreateBearerResponse_ULI
    | CreateBearerResponse_TWANIdentifier | CreateBearerResponse_MMEOverloadControlInformation
    | CreateBearerResponse_SGWOverloadControlInformation
    | CreateBearerResponse_PresenceReportingAction | CreateBearerResponse_MMESGSNIdentifier
    | CreateBearerResponse_TWANePDGOverloadControlInformation
    | CreateBearerResponse_WLANLocationInformation | CreateBearerResponse_WLANLocationTimestamp
    | CreateBearerResponse_UELocalIPAddress | CreateBearerResponse_UEUDPPort
    | CreateBearerResponse_NBIFOMContainer | CreateBearerResponse_UETCPPort
    | CreateBearerResponse_PrivateExtension

text \<open>The constructor and the decoder of this message do not have the same switch.\<close>

definition CreateBearerResponse_new_switch :: "CreateBearerResponse_field switch" where
  "CreateBearerResponse_new_switch t n = (
     if t = IE_Cause then Slot CreateBearerResponse_Cause
     else if t = IE_BearerContext then Slot CreateBearerResponse_BearerContexts
     else if t = IE_Recovery then Slot CreateBearerResponse_Recovery
     else if t = IE_FullyQualifiedCSID then 
         (if n = 0 then Slot CreateBearerResponse_MMEFQCSID
          else if n = 1 then Slot CreateBearerResponse_SGWFQCSID
          else if n = 2 then Slot CreateBearerResponse_EPDGFQCSID
          else if n = 3 then Slot CreateBearerResponse_TWANFQCSID
          else Additional)
     else if t = IE_ProtocolConfigurationOptions then Slot CreateBearerResponse_PCO
     else if t = IE_UETimeZone then Slot CreateBearerResponse_UETimeZone
     else if t = IE_UserLocationInformation then Slot CreateBearerResponse_ULI
     else if t = IE_TWANIdentifier then 
         (if n = 0 then Slot CreateBearerResponse_TWANIdentifier
          else if n = 1 then Slot CreateBearerResponse_WLANLocationInformation
          else Additional)
     else if t = IE_TWANIdentifierTimestamp then 
         (if n = 1 then Slot CreateBearerResponse_WLANLocationTimestamp
          else Additional)
     else if t = IE_OverloadControlInformation then 
         (if n = 0 then Slot CreateBearerResponse_MMEOverloadControlInformation
          else if n = 1 then Slot CreateBearerResponse_SGWOverloadControlInformation
          else if n = 2 then Slot CreateBearerResponse_TWANePDGOverloadControlInformation
          else Additional)
     else if t = IE_PresenceReportingAreaAction then Slot CreateBearerResponse_PresenceReportingAction
     else if t = IE_IPAddress then 
         (if n = 0 then Slot CreateBearerResponse_MMESGSNIdentifier
          else if n = 1 then Slot CreateBearerResponse_UELocalIPAddress
          else Dropped)
     else if t = IE_PortNumber then 
         (if n = 0 then Slot CreateBearerResponse_UEUDPPort
          else if n = 1 then Slot CreateBearerResponse_UETCPPort
          else Additional)
     else if t = IE_FContainer then Slot CreateBearerResponse_NBIFOMContainer
     else if t = IE_PrivateExtension then Slot CreateBearerResponse_PrivateExtension
     else Additional)"

definition CreateBearerResponse_switch :: "CreateBearerResponse_field switch" where
  "CreateBearerResponse_switch t n = (
     if t = IE_Cause then Slot CreateBearerResponse_Cause
     else if t = IE_BearerContext then Slot CreateBearerResponse_BearerContexts
     else if t = IE_Recovery then Slot CreateBearerResponse_Recovery
     else if t = IE_FullyQualifiedCSID then 
         (if n = 0 then Slot CreateBearerResponse_MMEFQCSID
          else if n = 1 then Slot CreateBearerResponse_SGWFQCSID
          else if n = 2 then Slot CreateBearerResponse_EPDGFQCSID
          else if n = 3 then Slot CreateBearerResponse_TWANFQCSID
          else Dropped)
     else if t = IE_ProtocolConfigurationOptions then Slot CreateBearerResponse_PCO
     else if t = IE_UETimeZone then Slot CreateBearerResponse_UETimeZone
     else if t = IE_UserLocationInformation then Slot CreateBearerResponse_ULI
     else if t = IE_TWANIdentifier then 
         (if n = 0 then Slot CreateBearerResponse_TWANIdentifier
          else if n = 1 then Slot CreateBearerResponse_WLANLocationInformation
          else Dropped)
     else if t = IE_TWANIdentifierTimestamp then 
         (if n = 1 then Slot CreateBearerResponse_WLANLocationTimestamp
          else Dropped)
     else if t = IE_OverloadControlInformation then 
         (if n = 0 then Slot CreateBearerResponse_MMEOverloadControlInformation
          else if n = 1 then Slot CreateBearerResponse_SGWOverloadControlInformation
          else if n = 2 then Slot CreateBearerResponse_TWANePDGOverloadControlInformation
          else Dropped)
     else if t = IE_PresenceReportingAreaAction then Slot CreateBearerResponse_PresenceReportingAction
     else if t = IE_IPAddress then 
         (if n = 0 then Slot CreateBearerResponse_MMESGSNIdentifier
          else if n = 1 then Slot CreateBearerResponse_UELocalIPAddress
          else Dropped)
     else if t = IE_PortNumber then 
         (if n = 0 then Slot CreateBearerResponse_UEUDPPort
          else if n = 1 then Slot CreateBearerResponse_UETCPPort
          else Dropped)
     else if t = IE_FContainer then Slot CreateBearerResponse_NBIFOMContainer
     else if t = IE_PrivateExtension then Slot CreateBearerResponse_PrivateExtension
     else Additional)"

definition CreateBearerResponse_order :: "CreateBearerResponse_field list" where
  "CreateBearerResponse_order = [
    CreateBearerResponse_Cause, CreateBearerResponse_BearerContexts,
    CreateBearerResponse_Recovery, CreateBearerResponse_MMEFQCSID,
    CreateBearerResponse_SGWFQCSID, CreateBearerResponse_EPDGFQCSID,
    CreateBearerResponse_TWANFQCSID, CreateBearerResponse_PCO, CreateBearerResponse_UETimeZone,
    CreateBearerResponse_ULI, CreateBearerResponse_TWANIdentifier,
    CreateBearerResponse_MMEOverloadControlInformation,
    CreateBearerResponse_SGWOverloadControlInformation,
    CreateBearerResponse_PresenceReportingAction, CreateBearerResponse_MMESGSNIdentifier,
    CreateBearerResponse_TWANePDGOverloadControlInformation,
    CreateBearerResponse_WLANLocationInformation, CreateBearerResponse_WLANLocationTimestamp,
    CreateBearerResponse_UELocalIPAddress, CreateBearerResponse_UEUDPPort,
    CreateBearerResponse_NBIFOMContainer, CreateBearerResponse_UETCPPort,
    CreateBearerResponse_PrivateExtension]"

definition CreateBearerResponse_lens :: "CreateBearerResponse_field list" where
  "CreateBearerResponse_lens = [
    CreateBearerResponse_Cause, CreateBearerResponse_BearerContexts,
    CreateBearerResponse_Recovery, CreateBearerResponse_MMEFQCSID,
    CreateBearerResponse_SGWFQCSID, CreateBearerResponse_EPDGFQCSID,
    CreateBearerResponse_TWANFQCSID, CreateBearerResponse_PCO, CreateBearerResponse_UETimeZone,
    CreateBearerResponse_ULI, CreateBearerResponse_TWANIdentifier,
    CreateBearerResponse_MMEOverloadControlInformation,
    CreateBearerResponse_SGWOverloadControlInformation,
    CreateBearerResponse_PresenceReportingAction, CreateBearerResponse_MMESGSNIdentifier,
    CreateBearerResponse_TWANePDGOverloadControlInformation,
    CreateBearerResponse_WLANLocationInformation, CreateBearerResponse_WLANLocationTimestamp,
    CreateBearerResponse_UELocalIPAddress, CreateBearerResponse_UEUDPPort,
    CreateBearerResponse_NBIFOMContainer, CreateBearerResponse_UETCPPort,
    CreateBearerResponse_PrivateExtension]"

definition NewCreateBearerResponse :: "u32 \<Rightarrow> u32 \<Rightarrow> ie option list \<Rightarrow> CreateBearerResponse_field v2_msg" where
  "NewCreateBearerResponse teid seq ies =
     msg_New CreateBearerResponse_new_switch CreateBearerResponse_lens (NewHeaderFlags 2 0 1) MsgTypeCreateBearerResponse teid seq ies"

definition CreateBearerResponse_MarshalLen :: "CreateBearerResponse_field v2_msg \<Rightarrow> nat" where
  "CreateBearerResponse_MarshalLen m = msg_MarshalLen CreateBearerResponse_lens m"

definition CreateBearerResponse_MarshalTo :: "CreateBearerResponse_field v2_msg \<Rightarrow> bytes \<Rightarrow> (bytes \<times> CreateBearerResponse_field v2_msg) result" where
  "CreateBearerResponse_MarshalTo m b = msg_MarshalTo CreateBearerResponse_order CreateBearerResponse_lens m b"

definition CreateBearerResponse_Marshal :: "CreateBearerResponse_field v2_msg \<Rightarrow> (bytes \<times> CreateBearerResponse_field v2_msg) result" where
  "CreateBearerResponse_Marshal m = CreateBearerResponse_MarshalTo m (replicate (CreateBearerResponse_MarshalLen m) 0)"

definition CreateBearerResponse_UnmarshalBinary :: "bytes \<Rightarrow> CreateBearerResponse_field v2_msg result" where
  "CreateBearerResponse_UnmarshalBinary b = msg_UnmarshalBinary CreateBearerResponse_switch b"

lemma CreateBearerResponse_all_fields: "s \<in> set CreateBearerResponse_order" "s \<in> set CreateBearerResponse_lens"
  by (cases s; simp add: CreateBearerResponse_order_def CreateBearerResponse_lens_def)+

interpretation createBearerResponse: message_layout CreateBearerResponse_switch CreateBearerResponse_order CreateBearerResponse_lens
  by unfold_locales
     (simp_all add: CreateBearerResponse_all_fields set_eq_iff, simp_all add: CreateBearerResponse_order_def CreateBearerResponse_lens_def)

lemma CreateBearerResponse_Marshal_eq: "CreateBearerResponse_Marshal m = msg_Marshal CreateBearerResponse_order CreateBearerResponse_lens m"
  by (simp add: CreateBearerResponse_Marshal_def CreateBearerResponse_MarshalTo_def CreateBearerResponse_MarshalLen_def msg_Marshal_def)

section \<open>UpdateBearerRequest\<close>

datatype UpdateBearerRequest_field =
    UpdateBearerRequest_BearerContexts | UpdateBearerRequest_PTI | UpdateBearerRequest_PCO
    | UpdateBearerRequest_APNAMBR | UpdateBearerRequest_ChangeReportingAction
    | UpdateBearerRequest_CSGInformationReportingAction
    | UpdateBearerRequest_HeNBInformationReporting | UpdateBearerRequest_IndicationFlags
    | UpdateBearerRequest_PGWFQCSID | UpdateBearerRequest_SGWFQCSID
    | UpdateBearerRequest_PresenceReportingAction
    | UpdateBearerRequest_PGWNodeLoadControlInformation
    | UpdateBearerRequest_PGWAPNLoadControlInformation
    | UpdateBearerRequest_SGWNodeLoadControlInformation
    | UpdateBearerRequest_PGWOverloadControlInformation
    | UpdateBearerRequest_SGWOverloadControlInformation | UpdateBearerRequest_NBIFOMContainer
    | UpdateBearerRequest_PrivateExtension

definition UpdateBearerRequest_switch :: "UpdateBearerRequest_field switch" where
  "UpdateBearerRequest_switch t n = (
     if t = IE_BearerContext then Slot UpdateBearerRequest_BearerContexts
     else if t = IE_ProcedureTransactionID then Slot UpdateBearerRequest_PTI
     else if t = IE_ProtocolConfigurationOptions then Slot UpdateBearerRequest_PCO
     else if t = IE_AggregateMaximumBitRate then Slot UpdateBearerRequest_APNAMBR
     else if t = IE_ChangeReportingAction then Slot UpdateBearerRequest_ChangeReportingAction
     else if t = IE_CSGInformationReportingAction then Slot UpdateBearerRequest_CSGInformationReportingAction
     else if t = IE_HeNBInformationReporting then Slot UpdateBearerRequest_HeNBInformationReporting
     else if t = IE_Indication then Slot UpdateBearerRequest_IndicationFlags
     else if t = IE_FullyQualifiedCSID then 
         (if n = 0 then Slot UpdateBearerRequest_PGWFQCSID
          else if n = 1 then Slot UpdateBearerRequest_SGWFQCSID
          else Additional)
     else if t = IE_PresenceReportingAreaAction then Slot UpdateBearerRequest_PresenceReportingAction
     else if t = IE_LoadControlInformation then 
         (if n = 0 then Slot UpdateBearerRequest_PGWNodeLoadControlInformation
          else if n = 1 then Slot UpdateBearerRequest_PGWAPNLoadControlInformation
          else if n = 2 then Slot UpdateBearerRequest_SGWNodeLoadControlInformation
          else Additional)
     else if t = IE_OverloadControlInformation then 
         (if n = 0 then Slot UpdateBearerRequest_PGWOverloadControlInformation
          else if n = 1 then Slot UpdateBearerRequest_SGWOverloadControlInformation
          else Additional)
     else if t = IE_FContainer then Slot UpdateBearerRequest_NBIFOMContainer
     else if t = IE_PrivateExtension then Slot UpdateBearerRequest_PrivateExtension
     else Additional)"

definition UpdateBearerRequest_order :: "UpdateBearerRequest_field list" where
  "UpdateBearerRequest_order = [
    UpdateBearerRequest_BearerContexts, UpdateBearerRequest_PTI, UpdateBearerRequest_PCO,
    UpdateBearerRequest_APNAMBR, UpdateBearerRequest_ChangeReportingAction,
    UpdateBearerRequest_CSGInformationReportingAction,
    UpdateBearerRequest_HeNBInformationReporting, UpdateBearerRequest_IndicationFlags,
    UpdateBearerRequest_PGWFQCSID, UpdateBearerRequest_SGWFQCSID,
    UpdateBearerRequest_PresenceReportingAction,
    UpdateBearerRequest_PGWNodeLoadControlInformation,
    UpdateBearerRequest_PGWAPNLoadControlInformation,
    UpdateBearerRequest_SGWNodeLoadControlInformation,
    UpdateBearerRequest_PGWOverloadControlInformation,
    UpdateBearerRequest_SGWOverloadControlInformation, UpdateBearerRequest_NBIFOMContainer,
    UpdateBearerRequest_PrivateExtension]"

definition UpdateBearerRequest_lens :: "UpdateBearerRequest_field list" where
  "UpdateBearerRequest_lens = [
    UpdateBearerRequest_BearerContexts, UpdateBearerRequest_PTI, UpdateBearerRequest_PCO,
    UpdateBearerRequest_APNAMBR, UpdateBearerRequest_ChangeReportingAction,
    UpdateBearerRequest_CSGInformationReportingAction,
    UpdateBearerRequest_HeNBInformationReporting, UpdateBearerRequest_IndicationFlags,
    UpdateBearerRequest_PGWFQCSID, UpdateBearerRequest_SGWFQCSID,
    UpdateBearerRequest_PresenceReportingAction,
    UpdateBearerRequest_PGWNodeLoadControlInformation,
    UpdateBearerRequest_PGWAPNLoadControlInformation,
    UpdateBearerRequest_SGWNodeLoadControlInformation,
    UpdateBearerRequest_PGWOverloadControlInformation,
    UpdateBearerRequest_SGWOverloadControlInformation, UpdateBearerRequest_NBIFOMContainer,
    UpdateBearerRequest_PrivateExtension]"

definition NewUpdateBearerRequest :: "u32 \<Rightarrow> u32 \<Rightarrow> ie option list \<Rightarrow> UpdateBearerRequest_field v2_msg" where
  "NewUpdateBearerRequest teid seq ies =
     msg_New UpdateBearerRequest_switch UpdateBearerRequest_lens (NewHeaderFlags 2 0 1) MsgTypeUpdateBearerRequest teid seq ies"

definition UpdateBearerRequest_MarshalLen :: "UpdateBearerRequest_field v2_msg \<Rightarrow> nat" where
  "UpdateBearerRequest_MarshalLen m = msg_MarshalLen UpdateBearerRequest_lens m"

definition UpdateBearerRequest_MarshalTo :: "UpdateBearerRequest_field v2_msg \<Rightarrow> bytes \<Rightarrow> (bytes \<times> UpdateBearerRequest_field v2_msg) result" where
  "UpdateBearerRequest_MarshalTo m b = msg_MarshalTo UpdateBearerRequest_order UpdateBearerRequest_lens m b"

definition UpdateBearerRequest_Marshal :: "UpdateBearerRequest_field v2_msg \<Rightarrow> (bytes \<times> UpdateBearerRequest_field v2_msg) result" where
  "UpdateBearerRequest_Marshal m = UpdateBearerRequest_MarshalTo m (replicate (UpdateBearerRequest_MarshalLen m) 0)"

definition UpdateBearerRequest_UnmarshalBinary :: "bytes \<Rightarrow> UpdateBearerRequest_field v2_msg result" where
  "UpdateBearerRequest_UnmarshalBinary b = msg_UnmarshalBinary UpdateBearerRequest_switch b"

lemma UpdateBearerRequest_all_fields: "s \<in> set UpdateBearerRequest_order" "s \<in> set UpdateBearerRequest_lens"
  by (cases s; simp add: UpdateBearerRequest_order_def UpdateBearerRequest_lens_def)+

interpretation updateBearerRequest: message_layout UpdateBearerRequest_switch UpdateBearerRequest_order UpdateBearerRequest_lens
  by unfold_locales
     (simp_all add: UpdateBearerRequest_all_fields set_eq_iff, simp_all add: UpdateBearerRequest_order_def UpdateBearerRequest_lens_def)

lemma UpdateBearerRequest_Marshal_eq: "UpdateBearerRequest_Marshal m = msg_Marshal UpdateBearerRequest_order UpdateBearerRequest_lens m"
  by (simp add: UpdateBearerRequest_Marshal_def UpdateBearerRequest_MarshalTo_def UpdateBearerRequest_MarshalLen_def msg_Marshal_def)

section \<open>UpdateBearerResponse\<close>

datatype UpdateBearerResponse_field =
    UpdateBearerResponse_Cause | UpdateBearerResponse_BearerContexts | UpdateBearerResponse_PCO
    | UpdateBearerResponse_Recovery | UpdateBearerResponse_MMEFQCSID
    | UpdateBearerResponse_SGWFQCSID | UpdateBearerResponse_EPDGFQCSID
    | UpdateBearerResponse_TWANFQCSID | UpdateBearerResponse_IndicationFlags
    | UpdateBearerResponse_UETimeZone | UpdateBearerResponse_ULI
    | UpdateBearerResponse_TWANIdentifier
    | UpdateBearerResponse_MMESGSNOverloadControlInformation
    | UpdateBearerResponse_SGWOverloadControlInformation
    | UpdateBearerResponse_PresenceReportingAreaAction | UpdateBearerResponse_MMESGSNIdentifier
    | UpdateBearerResponse_TWANePDGOverloadControlInformation
    | UpdateBearerResponse_WLANLocationInformation | UpdateBearerResponse_WLANLocationTimeStamp
    | UpdateBearerResponse_UELocalIPAddress | UpdateBearerResponse_UEUDPPort
    | UpdateBearerResponse_NBIFOMContainer | UpdateBearerResponse_UETCPPort
    | UpdateBearerResponse_PrivateExtension

definition UpdateBearerResponse_switch :: "UpdateBearerResponse_field switch" where
  "UpdateBearerResponse_switch t n = (
     if t = IE_Cause then Slot UpdateBearerResponse_Cause
     else if t = IE_BearerContext then Slot UpdateBearerResponse_BearerContexts
     else if t = IE_ProtocolConfigurationOptions then Slot UpdateBearerResponse_PCO
     else if t = IE_Recovery then Slot UpdateBearerResponse_Recovery
     else if t = IE_FullyQualifiedCSID then 
         (if n = 0 then Slot UpdateBearerResponse_MMEFQCSID
          else if n = 1 then Slot UpdateBearerResponse_SGWFQCSID
          else if n = 2 then Slot UpdateBearerResponse_EPDGFQCSID
          else if n = 3 then Slot UpdateBearerResponse_TWANFQCSID
          else Additional)
     else if t = IE_Indication then Slot UpdateBearerResponse_IndicationFlags
     else if t = IE_UETimeZone then Slot UpdateBearerResponse_UETimeZone
     else if t = IE_UserLocationInformation then Slot UpdateBearerResponse_ULI
     else if t = IE_TWANIdentifier then 
         (if n = 0 then Slot UpdateBearerResponse_TWANIdentifier
          else if n = 1 then Slot UpdateBearerResponse_WLANLocationInformation
          else Additional)
     else if t = IE_OverloadControlInformation then 
         (if n = 0 then Slot UpdateBearerResponse_MMESGSNOverloadControlInformation
          else if n = 1 then Slot UpdateBearerResponse_SGWOverloadControlInformation
          else if n = 2 then Slot UpdateBearerResponse_TWANePDGOverloadControlInformation
          else Additional)
     else if t = IE_PresenceReportingAreaAction then Slot UpdateBearerResponse_PresenceReportingAreaAction
     else if t = IE_IPAddress then 
         (if n = 0 then Slot UpdateBearerResponse_MMESGSNIdentifier
          else if n = 1 then Slot UpdateBearerResponse_UELocalIPAddress
          else Dropped)
     else if t = IE_TWANIdentifierTimestamp then 
         (if n = 1 then Slot UpdateBearerResponse_WLANLocationTimeStamp
          else Additional)
     else if t = IE_PortNumber then 
         (if n = 0 then Slot UpdateBearerResponse_UEUDPPort
          else if n = 1 then Slot UpdateBearerResponse_UETCPPort
          else Additional)
     else if t = IE_FContainer then Slot UpdateBearerResponse_NBIFOMContainer
     else if t = IE_PrivateExtension then Slot UpdateBearerResponse_PrivateExtension
     else Additional)"

definition UpdateBearerResponse_order :: "UpdateBearerResponse_field list" where
  "UpdateBearerResponse_order = [
    UpdateBearerResponse_Cause, UpdateBearerResponse_BearerContexts, UpdateBearerResponse_PCO,
    UpdateBearerResponse_Recovery, UpdateBearerResponse_MMEFQCSID,
    UpdateBearerResponse_SGWFQCSID, UpdateBearerResponse_EPDGFQCSID,
    UpdateBearerResponse_TWANFQCSID, UpdateBearerResponse_IndicationFlags,
    UpdateBearerResponse_UETimeZone, UpdateBearerResponse_ULI,
    UpdateBearerResponse_TWANIdentifier,
    UpdateBearerResponse_MMESGSNOverloadControlInformation,
    UpdateBearerResponse_SGWOverloadControlInformation,
    UpdateBearerResponse_PresenceReportingAreaAction, UpdateBearerResponse_MMESGSNIdentifier,
    UpdateBearerResponse_TWANePDGOverloadControlInformation,
    UpdateBearerResponse_WLANLocationInformation, UpdateBearerResponse_WLANLocationTimeStamp,
    UpdateBearerResponse_UELocalIPAddress, UpdateBearerResponse_UEUDPPort,
    UpdateBearerResponse_NBIFOMContainer, UpdateBearerResponse_UETCPPort,
    UpdateBearerResponse_PrivateExtension]"

definition UpdateBearerResponse_lens :: "UpdateBearerResponse_field list" where
  "UpdateBearerResponse_lens = [
    UpdateBearerResponse_Cause, UpdateBearerResponse_BearerContexts, UpdateBearerResponse_PCO,
    UpdateBearerResponse_Recovery, UpdateBearerResponse_MMEFQCSID,
    UpdateBearerResponse_SGWFQCSID, UpdateBearerResponse_EPDGFQCSID,
    UpdateBearerResponse_TWANFQCSID, UpdateBearerResponse_IndicationFlags,
    UpdateBearerResponse_UETimeZone, UpdateBearerResponse_ULI,
    UpdateBearerResponse_TWANIdentifier,
    UpdateBearerResponse_MMESGSNOverloadControlInformation,
    UpdateBearerResponse_SGWOverloadControlInformation,
    UpdateBearerResponse_PresenceReportingAreaAction, UpdateBearerResponse_MMESGSNIdentifier,
    UpdateBearerResponse_TWANePDGOverloadControlInformation,
    UpdateBearerResponse_WLANLocationInformation, UpdateBearerResponse_WLANLocationTimeStamp,
    UpdateBearerResponse_UELocalIPAddress, UpdateBearerResponse_UEUDPPort,
    UpdateBearerResponse_NBIFOMContainer, UpdateBearerResponse_UETCPPort,
    UpdateBearerResponse_PrivateExtension]"

definition NewUpdateBearerResponse :: "u32 \<Rightarrow> u32 \<Rightarrow> ie option list \<Rightarrow> UpdateBearerResponse_field v2_msg" where
  "NewUpdateBearerResponse teid seq ies =
     msg_New UpdateBearerResponse_switch UpdateBearerResponse_lens (NewHeaderFlags 2 0 1) MsgTypeUpdateBearerResponse teid seq ies"

definition UpdateBearerResponse_MarshalLen :: "UpdateBearerResponse_field v2_msg \<Rightarrow> nat" where
  "UpdateBearerResponse_MarshalLen m = msg_MarshalLen UpdateBearerResponse_lens m"

definition UpdateBearerResponse_MarshalTo :: "UpdateBearerResponse_field v2_msg \<Rightarrow> bytes \<Rightarrow> (bytes \<times> UpdateBearerResponse_field v2_msg) result" where
  "UpdateBearerResponse_MarshalTo m b = msg_MarshalTo UpdateBearerResponse_order UpdateBearerResponse_lens m b"

definition UpdateBearerResponse_Marshal :: "UpdateBearerResponse_field v2_msg \<Rightarrow> (bytes \<times> UpdateBearerResponse_field v2_msg) result" where
  "UpdateBearerResponse_Marshal m = UpdateBearerResponse_MarshalTo m (replicate (UpdateBearerResponse_MarshalLen m) 0)"

definition UpdateBearerResponse_UnmarshalBinary :: "bytes \<Rightarrow> UpdateBearerResponse_field v2_msg result" where
  "UpdateBearerResponse_UnmarshalBinary b = msg_UnmarshalBinary UpdateBearerResponse_switch b"

lemma UpdateBearerResponse_all_fields: "s \<in> set UpdateBearerResponse_order" "s \<in> set UpdateBearerResponse_lens"
  by (cases s; simp add: UpdateBearerResponse_order_def UpdateBearerResponse_lens_def)+

interpretation updateBearerResponse: message_layout UpdateBearerResponse_switch UpdateBearerResponse_order UpdateBearerResponse_lens
  by unfold_locales
     (simp_all add: UpdateBearerResponse_all_fields set_eq_iff, simp_all add: UpdateBearerResponse_order_def UpdateBearerResponse_lens_def)

lemma UpdateBearerResponse_Marshal_eq: "UpdateBearerResponse_Marshal m = msg_Marshal UpdateBearerResponse_order UpdateBearerResponse_lens m"
  by (simp add: UpdateBearerResponse_Marshal_def UpdateBearerResponse_MarshalTo_def UpdateBearerResponse_MarshalLen_def msg_Marshal_def)

section \<open>DeleteBearerRequest\<close>

datatype DeleteBearerRequest_field =
    DeleteBearerRequest_LinkedEBI | DeleteBearerRequest_EBI
    | DeleteBearerRequest_FailedBearerContext | DeleteBearerRequest_PTI
    | DeleteBearerRequest_PCO | DeleteBearerRequest_PGWFQCSID | DeleteBearerRequest_SGWFQCSID
    | DeleteBearerRequest_Cause | DeleteBearerRequest_IndicationFlags
    | DeleteBearerRequest_PGWNodeLoadControlInformation
    | DeleteBearerRequest_PGWAPNLoadControlInformation
    | DeleteBearerRequest_SGWNodeLoadControlInformation
    | DeleteBearerRequest_PGWOverloadControlInformation
    | DeleteBearerRequest_SGWOverloadControlInformation | DeleteBearerRequest_NBIFOMContainer
    | DeleteBearerRequest_APNRateControlStatus | DeleteBearerRequest_EPCO
    | DeleteBearerRequest_PrivateExtension

definition DeleteBearerRequest_switch :: "DeleteBearerRequest_field switch" where
  "DeleteBearerRequest_switch t n = (
     if t = IE_EPSBearerID then 
         (if n = 0 then Slot DeleteBearerRequest_LinkedEBI
          else if n = 1 then Slot DeleteBearerRequest_EBI
          else Additional)
     else if t = IE_BearerContext then Slot DeleteBearerRequest_FailedBearerContext
     else if t = IE_ProcedureTransactionID then Slot DeleteBearerRequest_PTI
     else if t = IE_ProtocolConfigurationOptions then Slot DeleteBearerRequest_PCO
     else if t = IE_FullyQualifiedCSID then 
         (if n = 0 then Slot DeleteBearerRequest_PGWFQCSID
          else if n = 1 then Slot DeleteBearerRequest_SGWFQCSID
          else Additional)
     else if t = IE_Cause then Slot DeleteBearerRequest_Cause
     else if t = IE_Indication then Slot DeleteBearerRequest_IndicationFlags
     else if t = IE_LoadControlInformation then 
         (if n = 0 then Slot DeleteBearerRequest_PGWNodeLoadControlInformation
          else if n = 1 then Slot DeleteBearerRequest_PGWAPNLoadControlInformation
          else if n = 2 then Slot DeleteBearerRequest_SGWNodeLoadControlInformation
          else Additional)
     else if t = IE_OverloadControlInformation then 
         (if n = 0 then Slot DeleteBearerRequest_PGWOverloadControlInformation
          else if n = 1 then Slot DeleteBearerRequest_SGWOverloadControlInformation
          else Additional)
     else if t = IE_FContainer then Slot DeleteBearerRequest_NBIFOMContainer
     else if t = IE_APNRateControlStatus then Slot DeleteBearerRequest_APNRateControlStatus
     else if t = IE_ExtendedProtocolConfigurationOptions then Slot DeleteBearerRequest_EPCO
     else if t = IE_PrivateExtension then Slot DeleteBearerRequest_PrivateExtension
     else Additional)"

definition DeleteBearerRequest_order :: "DeleteBearerRequest_field list" where
  "DeleteBearerRequest_order = [
    DeleteBearerRequest_LinkedEBI, DeleteBearerRequest_EBI,
    DeleteBearerRequest_FailedBearerContext, DeleteBearerRequest_PTI, DeleteBearerRequest_PCO,
    DeleteBearerRequest_PGWFQCSID, DeleteBearerRequest_SGWFQCSID, DeleteBearerRequest_Cause,
    DeleteBearerRequest_IndicationFlags, DeleteBearerRequest_PGWNodeLoadControlInformation,
    DeleteBearerRequest_PGWAPNLoadControlInformation,
    DeleteBearerRequest_SGWNodeLoadControlInformation,
    DeleteBearerRequest_PGWOverloadControlInformation,
    DeleteBearerRequest_SGWOverloadControlInformation, DeleteBearerRequest_NBIFOMContainer,
    DeleteBearerRequest_APNRateControlStatus, DeleteBearerRequest_EPCO,
    DeleteBearerRequest_PrivateExtension]"

definition DeleteBearerRequest_lens :: "DeleteBearerRequest_field list" where
  "DeleteBearerRequest_lens = [
    DeleteBearerRequest_LinkedEBI, DeleteBearerRequest_EBI,
    DeleteBearerRequest_FailedBearerContext, DeleteBearerRequest_PTI, DeleteBearerRequest_PCO,
    DeleteBearerRequest_PGWFQCSID, DeleteBearerRequest_SGWFQCSID, DeleteBearerRequest_Cause,
    DeleteBearerRequest_IndicationFlags, DeleteBearerRequest_PGWNodeLoadControlInformation,
    DeleteBearerRequest_PGWAPNLoadControlInformation,
    DeleteBearerRequest_SGWNodeLoadControlInformation,
    DeleteBearerRequest_PGWOverloadControlInformation,
    DeleteBearerRequest_SGWOverloadControlInformation, DeleteBearerRequest_NBIFOMContainer,
    DeleteBearerRequest_APNRateControlStatus, DeleteBearerRequest_EPCO,
    DeleteBearerRequest_PrivateExtension]"

definition NewDeleteBearerRequest :: "u32 \<Rightarrow> u32 \<Rightarrow> ie option list \<Rightarrow> DeleteBearerRequest_field v2_msg" where
  "NewDeleteBearerRequest teid seq ies =
     msg_New DeleteBearerRequest_switch DeleteBearerRequest_lens (NewHeaderFlags 2 0 1) MsgTypeDeleteBearerRequest teid seq ies"

definition DeleteBearerRequest_MarshalLen :: "DeleteBearerRequest_field v2_msg \<Rightarrow> nat" where
  "DeleteBearerRequest_MarshalLen m = msg_MarshalLen DeleteBearerRequest_lens m"

definition DeleteBearerRequest_MarshalTo :: "DeleteBearerRequest_field v2_msg \<Rightarrow> bytes \<Rightarrow> (bytes \<times> DeleteBearerRequest_field v2_msg) result" where
  "DeleteBearerRequest_MarshalTo m b = msg_MarshalTo DeleteBearerRequest_order DeleteBearerRequest_lens m b"

definition DeleteBearerRequest_Marshal :: "DeleteBearerRequest_field v2_msg \<Rightarrow> (bytes \<times> DeleteBearerRequest_field v2_msg) result" where
  "DeleteBearerRequest_Marshal m = DeleteBearerRequest_MarshalTo m (replicate (DeleteBearerRequest_MarshalLen m) 0)"

definition DeleteBearerRequest_UnmarshalBinary :: "bytes \<Rightarrow> DeleteBearerRequest_field v2_msg result" where
  "DeleteBearerRequest_UnmarshalBinary b = msg_UnmarshalBinary DeleteBearerRequest_switch b"

lemma DeleteBearerRequest_all_fields: "s \<in> set DeleteBearerRequest_order" "s \<in> set DeleteBearerRequest_lens"
  by (cases s; simp add: DeleteBearerRequest_order_def DeleteBearerRequest_lens_def)+

interpretation deleteBearerRequest: message_layout DeleteBearerRequest_switch DeleteBearerRequest_order DeleteBearerRequest_lens
  by unfold_locales
     (simp_all add: DeleteBearerRequest_all_fields set_eq_iff, simp_all add: DeleteBearerRequest_order_def DeleteBearerRequest_lens_def)

lemma DeleteBearerRequest_Marshal_eq: "DeleteBearerRequest_Marshal m = msg_Marshal DeleteBearerRequest_order DeleteBearerRequest_lens m"
  by (simp add: DeleteBearerRequest_Marshal_def DeleteBearerRequest_MarshalTo_def DeleteBearerRequest_MarshalLen_def msg_Marshal_def)

section \<open>DeleteBearerResponse\<close>

datatype DeleteBearerResponse_field =
    DeleteBearerResponse_Cause | DeleteBearerResponse_LinkedEBI
    | DeleteBearerResponse_BearerContexts | DeleteBearerResponse_Recovery
    | DeleteBearerResponse_MMEFQCSID | DeleteBearerResponse_SGWFQCSID
    | DeleteBearerResponse_EPDGFQCSID | DeleteBearerResponse_TWANFQCSID
    | DeleteBearerResponse_PCO | DeleteBearerResponse_UETimeZone | DeleteBearerResponse_ULI
    | DeleteBearerResponse_ULITimestamp | DeleteBearerResponse_TWANIdentifier
    | DeleteBearerResponse_TWANIdentifierTimestamp
    | DeleteBearerResponse_MMEOverloadControlInformation
    | DeleteBearerResponse_SGWOverloadControlInformation
    | DeleteBearerResponse_MMESGSNIdentifier
    | DeleteBearerResponse_TWANePDGOverloadControlInformation
    | DeleteBearerResponse_WLANLocationInformation | DeleteBearerResponse_WLANLocationTimestamp
    | DeleteBearerResponse_UELocalIPAddress | DeleteBearerResponse_UEUDPPort
    | DeleteBearerResponse_NBIFOMContainer | DeleteBearerResponse_UETCPPort
    | DeleteBearerResponse_SecondaryRATUsageDataReport | DeleteBearerResponse_PrivateExtension

definition DeleteBearerResponse_switch :: "DeleteBearerResponse_field switch" where
  "DeleteBearerResponse_switch t n = (
     if t = IE_Cause then Slot DeleteBearerResponse_Cause
     else if t = IE_EPSBearerID then Slot DeleteBearerResponse_LinkedEBI
     else if t = IE_BearerContext then Slot DeleteBearerResponse_BearerContexts
     else if t = IE_Recovery then Slot DeleteBearerResponse_Recovery
     else if t = IE_FullyQualifiedCSID then 
         (if n = 0 then Slot DeleteBearerResponse_MMEFQCSID
          else if n = 1 then Slot DeleteBearerResponse_SGWFQCSID
          else if n = 2 then Slot DeleteBearerResponse_EPDGFQCSID
          else if n = 3 then Slot DeleteBearerResponse_TWANFQCSID
          else Additional)
     else if t = IE_ProtocolConfigurationOptions then Slot DeleteBearerResponse_PCO
     else if t = IE_UETimeZone then Slot DeleteBearerResponse_UETimeZone
     else if t = IE_UserLocationInformation then Slot DeleteBearerResponse_ULI
     else if t = IE_ULITimestamp then Slot DeleteBearerResponse_ULITimestamp
     else if t = IE_TWANIdentifier then 
         (if n = 0 then Slot DeleteBearerResponse_TWANIdentifier
          else if n = 1 then Slot DeleteBearerResponse_WLANLocationInformation
          else Additional)
     else if t = IE_TWANIdentifierTimestamp then 
         (if n = 0 then Slot DeleteBearerResponse_TWANIdentifierTimestamp
          else if n = 1 then Slot DeleteBearerResponse_WLANLocationTimestamp
          else Additional)
     else if t = IE_OverloadControlInformation then 
         (if n = 0 then Slot DeleteBearerResponse_MMEOverloadControlInformation
          else if n = 1 then Slot DeleteBearerResponse_SGWOverloadControlInformation
          else if n = 2 then Slot DeleteBearerResponse_TWANePDGOverloadControlInformation
          else Additional)
     else if t = IE_IPAddress then 
         (if n = 0 then Slot DeleteBearerResponse_MMESGSNIdentifier
          else if n = 1 then Slot DeleteBearerResponse_UELocalIPAddress
          else Additional)
     else if t = IE_PortNumber then 
         (if n = 0 then Slot DeleteBearerResponse_UEUDPPort
          else if n = 1 then Slot DeleteBearerResponse_UETCPPort
          else Additional)
     else if t = IE_FContainer then Slot DeleteBearerResponse_NBIFOMContainer
     else if t = IE_SecondaryRATUsageDataReport then Slot DeleteBearerResponse_SecondaryRATUsageDataReport
     else if t = IE_PrivateExtension then Slot DeleteBearerResponse_PrivateExtension
     else Additional)"

definition DeleteBearerResponse_order :: "DeleteBearerResponse_field list" where
  "DeleteBearerResponse_order = [
    DeleteBearerResponse_Cause, DeleteBearerResponse_LinkedEBI,
    DeleteBearerResponse_BearerContexts, DeleteBearerResponse_Recovery,
    DeleteBearerResponse_MMEFQCSID, DeleteBearerResponse_SGWFQCSID,
    DeleteBearerResponse_EPDGFQCSID, DeleteBearerResponse_TWANFQCSID, DeleteBearerResponse_PCO,
    DeleteBearerResponse_UETimeZone, DeleteBearerResponse_ULI,
    DeleteBearerResponse_ULITimestamp, DeleteBearerResponse_TWANIdentifier,
    DeleteBearerResponse_TWANIdentifierTimestamp,
    DeleteBearerResponse_MMEOverloadControlInformation,
    DeleteBearerResponse_SGWOverloadControlInformation, DeleteBearerResponse_MMESGSNIdentifier,
    DeleteBearerResponse_TWANePDGOverloadControlInformation,
    DeleteBearerResponse_WLANLocationInformation, DeleteBearerResponse_WLANLocationTimestamp,
    DeleteBearerResponse_UELocalIPAddress, DeleteBearerResponse_UEUDPPort,
    DeleteBearerResponse_NBIFOMContainer, DeleteBearerResponse_UETCPPort,
    DeleteBearerResponse_SecondaryRATUsageDataReport, DeleteBearerResponse_PrivateExtension]"

definition DeleteBearerResponse_lens :: "DeleteBearerResponse_field list" where
  "DeleteBearerResponse_lens = [
    DeleteBearerResponse_Cause, DeleteBearerResponse_LinkedEBI,
    DeleteBearerResponse_BearerContexts, DeleteBearerResponse_Recovery,
    DeleteBearerResponse_MMEFQCSID, DeleteBearerResponse_SGWFQCSID,
    DeleteBearerResponse_EPDGFQCSID, DeleteBearerResponse_TWANFQCSID, DeleteBearerResponse_PCO,
    DeleteBearerResponse_UETimeZone, DeleteBearerResponse_ULI,
    DeleteBearerResponse_ULITimestamp, DeleteBearerResponse_TWANIdentifier,
    DeleteBearerResponse_TWANIdentifierTimestamp,
    DeleteBearerResponse_MMEOverloadControlInformation,
    DeleteBearerResponse_SGWOverloadControlInformation, DeleteBearerResponse_MMESGSNIdentifier,
    DeleteBearerResponse_TWANePDGOverloadControlInformation,
    DeleteBearerResponse_WLANLocationInformation, DeleteBearerResponse_WLANLocationTimestamp,
    DeleteBearerResponse_UELocalIPAddress, DeleteBearerResponse_UEUDPPort,
    DeleteBearerResponse_NBIFOMContainer, DeleteBearerResponse_UETCPPort,
    DeleteBearerResponse_SecondaryRATUsageDataReport, DeleteBearerResponse_PrivateExtension]"

definition NewDeleteBearerResponse :: "u32 \<Rightarrow> u32 \<Rightarrow> ie option list \<Rightarrow> DeleteBearerResponse_field v2_msg" where
  "NewDeleteBearerResponse teid seq ies =
     msg_New DeleteBearerResponse_switch DeleteBearerResponse_lens (NewHeaderFlags 2 0 1) MsgTypeDeleteBearerResponse teid seq ies"

definition DeleteBearerResponse_MarshalLen :: "DeleteBearerResponse_field v2_msg \<Rightarrow> nat" where
  "DeleteBearerResponse_MarshalLen m = msg_MarshalLen DeleteBearerResponse_lens m"

definition DeleteBearerResponse_MarshalTo :: "DeleteBearerResponse_field v2_msg \<Rightarrow> bytes \<Rightarrow> (bytes \<times> DeleteBearerResponse_field v2_msg) result" where
  "DeleteBearerResponse_MarshalTo m b = msg_MarshalTo DeleteBearerResponse_order DeleteBearerResponse_lens m b"

definition DeleteBearerResponse_Marshal :: "DeleteBearerResponse_field v2_msg \<Rightarrow> (bytes \<times> DeleteBearerResponse_field v2_msg) result" where
  "DeleteBearerResponse_Marshal m = DeleteBearerResponse_MarshalTo m (replicate (DeleteBearerResponse_MarshalLen m) 0)"

definition DeleteBearerResponse_UnmarshalBinary :: "bytes \<Rightarrow> DeleteBearerResponse_field v2_msg result" where
  "DeleteBearerResponse_UnmarshalBinary b = msg_UnmarshalBinary DeleteBearerResponse_switch b"

lemma DeleteBearerResponse_all_fields: "s \<in> set DeleteBearerResponse_order" "s \<in> set DeleteBearerResponse_lens"
  by (cases s; simp add: DeleteBearerResponse_order_def DeleteBearerResponse_lens_def)+

interpretation deleteBearerResponse: message_layout DeleteBearerResponse_switch DeleteBearerResponse_order DeleteBearerResponse_lens
  by unfold_locales
     (simp_all add: DeleteBearerResponse_all_fields set_eq_iff, simp_all add: DeleteBearerResponse_order_def DeleteBearerResponse_lens_def)

lemma DeleteBearerResponse_Marshal_eq: "DeleteBearerResponse_Marshal m = msg_Marshal DeleteBearerResponse_order DeleteBearerResponse_lens m"
  by (simp add: DeleteBearerResponse_Marshal_def DeleteBearerResponse_MarshalTo_def DeleteBearerResponse_MarshalLen_def msg_Marshal_def)

end
