(* ===== verification/V2MsgCommand.thy ===== *)
theory V2MsgCommand
  imports V2Message V2IETypes
begin

text \<open>
  The GTPv2 message types of the bearer commands and their failure indications:
  \<open>ModifyBearerCommand\<close> (\<open>modify-bearer-command.go\<close>),
  \<open>ModifyBearerFailureIndication\<close>
  (\<open>modify-bearer-failure-indication.go\<close>), \<open>DeleteBearerCommand\<close>
  (\<open>delete-bearer-command.go\<close>), \<open>DeleteBearerFailureIndication\<close>
  (\<open>delete-bearer-failure-indication.go\<close>). For each of them: its fields, the switch
  of its decoder (and of its constructor where the two differ), the orders in which MarshalTo and
  MarshalLen visit the fields, the methods built from them, and the interpretation of the contract
  of \<open>V2Message\<close>.
\<close>

abbreviation MsgTypeModifyBearerCommand :: byte where
  "MsgTypeModifyBearerCommand \<equiv> 64"

abbreviation MsgTypeModifyBearerFailureIndication :: byte where
  "MsgTypeModifyBearerFailureIndication \<equiv> 65"

abbreviation MsgTypeDeleteBearerCommand :: byte where
  "MsgTypeDeleteBearerCommand \<equiv> 66"

abbreviation MsgTypeDeleteBearerFailureIndication :: byte where
  "MsgTypeDeleteBearerFailureIndication \<equiv> 67"

section \<open>ModifyBearerCommand\<close>

datatype ModifyBearerCommand_field =
    ModifyBearerCommand_APNAMBR | ModifyBearerCommand_BearerContext
    | ModifyBearerCommand_MMESGSNOverloadControlInformation
    | ModifyBearerCommand_SGWOverloadControlInformation
    | ModifyBearerCommand_TWANePDGOverloadControlInformation | ModifyBearerCommand_SenderFTEIDC
    | ModifyBearerCommand_PrivateExtension

definition ModifyBearerCommand_switch :: "ModifyBearerCommand_field switch" where
  "ModifyBearerCommand_switch t n = (
     if t = IE_AggregateMaximumBitRate then Slot ModifyBearerCommand_APNAMBR
     else if t = IE_BearerContext then Slot ModifyBearerCommand_BearerContext
     else if t = IE_OverloadControlInformation then 
         (if n = 0 then Slot ModifyBearerCommand_MMESGSNOverloadControlInformation
          else if n = 1 then Slot ModifyBearerCommand_SGWOverloadControlInformation
          else if n = 2 then Slot ModifyBearerCommand_TWANePDGOverloadControlInformation
          else Dropped)
     else if t = IE_FullyQualifiedTEID then Slot ModifyBearerCommand_SenderFTEIDC
     else if t = IE_PrivateExtension then Slot ModifyBearerCommand_PrivateExtension
     else Additional)"

definition ModifyBearerCommand_order :: "ModifyBearerCommand_field list" where
  "ModifyBearerCommand_order = [
    ModifyBearerCommand_APNAMBR, ModifyBearerCommand_BearerContext,
    ModifyBearerCommand_MMESGSNOverloadControlInformation,
    ModifyBearerCommand_SGWOverloadControlInformation,
    ModifyBearerCommand_TWANePDGOverloadControlInformation, ModifyBearerCommand_SenderFTEIDC,
    ModifyBearerCommand_PrivateExtension]"

definition ModifyBearerCommand_lens :: "ModifyBearerCommand_field list" where
  "ModifyBearerCommand_lens = [
    ModifyBearerCommand_APNAMBR, ModifyBearerCommand_BearerContext,
    ModifyBearerCommand_MMESGSNOverloadControlInformation,
    ModifyBearerCommand_SGWOverloadControlInformation,
    ModifyBearerCommand_TWANePDGOverloadControlInformation, ModifyBearerCommand_SenderFTEIDC,
    ModifyBearerCommand_PrivateExtension]"

definition NewModifyBearerCommand :: "u32 \<Rightarrow> u32 \<Rightarrow> ie option list \<Rightarrow> ModifyBearerCommand_field v2_msg" where
  "NewModifyBearerCommand teid seq ies =
     msg_New ModifyBearerCommand_switch ModifyBearerCommand_lens (NewHeaderFlags 2 0 1) MsgTypeModifyBearerCommand teid seq ies"

definition ModifyBearerCommand_MarshalLen :: "ModifyBearerCommand_field v2_msg \<Rightarrow> nat" where
  "ModifyBearerCommand_MarshalLen m = msg_MarshalLen ModifyBearerCommand_lens m"

definition ModifyBearerCommand_MarshalTo :: "ModifyBearerCommand_field v2_msg \<Rightarrow> bytes \<Rightarrow> (bytes \<times> ModifyBearerCommand_field v2_msg) result" where
  "ModifyBearerCommand_MarshalTo m b = msg_MarshalTo ModifyBearerCommand_order ModifyBearerCommand_lens m b"

definition ModifyBearerCommand_Marshal :: "ModifyBearerCommand_field v2_msg \<Rightarrow> (bytes \<times> ModifyBearerCommand_field v2_msg) result" where
  "ModifyBearerCommand_Marshal m = ModifyBearerCommand_MarshalTo m (replicate (ModifyBearerCommand_MarshalLen m) 0)"

definition ModifyBearerCommand_UnmarshalBinary :: "bytes \<Rightarrow> ModifyBearerCommand_field v2_msg result" where
  "ModifyBearerCommand_UnmarshalBinary b = msg_UnmarshalBinary ModifyBearerCommand_switch b"

lemma ModifyBearerCommand_all_fields: "s \<in> set ModifyBearerCommand_order" "s \<in> set ModifyBearerCommand_lens"
  by (cases s; simp add: ModifyBearerCommand_order_def ModifyBearerCommand_lens_def)+

interpretation modifyBearerCommand: message_layout ModifyBearerCommand_switch ModifyBearerCommand_order ModifyBearerCommand_lens
  by unfold_locales
     (simp_all add: ModifyBearerCommand_all_fields set_eq_iff, simp_all add: ModifyBearerCommand_order_def ModifyBearerCommand_lens_def)

lemma ModifyBearerCommand_Marshal_eq: "ModifyBearerCommand_Marshal m = msg_Marshal ModifyBearerCommand_order ModifyBearerCommand_lens m"
  by (simp add: ModifyBearerCommand_Marshal_def ModifyBearerCommand_MarshalTo_def ModifyBearerCommand_MarshalLen_def msg_Marshal_def)

section \<open>ModifyBearerFailureIndication\<close>

datatype ModifyBearerFailureIndication_field =
    ModifyBearerFailureIndication_Cause | ModifyBearerFailureIndication_Recovery
    | ModifyBearerFailureIndication_IndicationFlags
    | ModifyBearerFailureIndication_PGWOverloadControlInformation
    | ModifyBearerFailureIndication_SGWOverloadControlInformation
    | ModifyBearerFailureIndication_PrivateExtension

definition ModifyBearerFailureIndication_switch :: "ModifyBearerFailureIndication_field switch" where
  "ModifyBearerFailureIndication_switch t n = (
     if t = IE_Cause then Slot ModifyBearerFailureIndication_Cause
     else if t = IE_Recovery then Slot ModifyBearerFailureIndication_Recovery
     else if t = IE_Indication then Slot ModifyBearerFailureIndication_IndicationFlags
     else if t = IE_OverloadControlInformation then 
         (if n = 0 then Slot ModifyBearerFailureIndication_PGWOverloadControlInformation
          else if n = 1 then Slot ModifyBearerFailureIndication_SGWOverloadControlInformation
          else Dropped)
     else if t = IE_PrivateExtension then Slot ModifyBearerFailureIndication_PrivateExtension
     else Additional)"

definition ModifyBearerFailureIndication_order :: "ModifyBearerFailureIndication_field list" where
  "ModifyBearerFailureIndication_order = [
    ModifyBearerFailureIndication_Cause, ModifyBearerFailureIndication_Recovery,
    ModifyBearerFailureIndication_IndicationFlags,
    ModifyBearerFailureIndication_PGWOverloadControlInformation,
    ModifyBearerFailureIndication_SGWOverloadControlInformation,
    ModifyBearerFailureIndication_PrivateExtension]"

definition ModifyBearerFailureIndication_lens :: "ModifyBearerFailureIndication_field list" where
  "ModifyBearerFailureIndication_lens = [
    ModifyBearerFailureIndication_Cause, ModifyBearerFailureIndication_Recovery,
    ModifyBearerFailureIndication_IndicationFlags,
    ModifyBearerFailureIndication_PGWOverloadControlInformation,
    ModifyBearerFailureIndication_SGWOverloadControlInformation,
    ModifyBearerFailureIndication_PrivateExtension]"

definition NewModifyBearerFailureIndication :: "u32 \<Rightarrow> u32 \<Rightarrow> ie option list \<Rightarrow> ModifyBearerFailureIndication_field v2_msg" where
  "NewModifyBearerFailureIndication teid seq ies =
     msg_New ModifyBearerFailureIndication_switch ModifyBearerFailureIndication_lens (NewHeaderFlags 2 0 1) MsgTypeModifyBearerFailureIndication teid seq ies"

definition ModifyBearerFailureIndication_MarshalLen :: "ModifyBearerFailureIndication_field v2_msg \<Rightarrow> nat" where
  "ModifyBearerFailureIndication_MarshalLen m = msg_MarshalLen ModifyBearerFailureIndication_lens m"

definition ModifyBearerFailureIndication_MarshalTo :: "ModifyBearerFailureIndication_field v2_msg \<Rightarrow> bytes \<Rightarrow> (bytes \<times> ModifyBearerFailureIndication_field v2_msg) result" where
  "ModifyBearerFailureIndication_MarshalTo m b = msg_MarshalTo ModifyBearerFailureIndication_order ModifyBearerFailureIndication_lens m b"

definition ModifyBearerFailureIndication_Marshal :: "ModifyBearerFailureIndication_field v2_msg \<Rightarrow> (bytes \<times> ModifyBearerFailureIndication_field v2_msg) result" where
  "ModifyBearerFailureIndication_Marshal m = ModifyBearerFailureIndication_MarshalTo m (replicate (ModifyBearerFailureIndication_MarshalLen m) 0)"

definition ModifyBearerFailureIndication_UnmarshalBinary :: "bytes \<Rightarrow> ModifyBearerFailureIndication_field v2_msg result" where
  "ModifyBearerFailureIndication_UnmarshalBinary b = msg_UnmarshalBinary ModifyBearerFailureIndication_switch b"

lemma ModifyBearerFailureIndication_all_fields: "s \<in> set ModifyBearerFailureIndication_order" "s \<in> set ModifyBearerFailureIndication_lens"
  by (cases s; simp add: ModifyBearerFailureIndication_order_def ModifyBearerFailureIndication_lens_def)+

interpretation modifyBearerFailureIndication: message_layout ModifyBearerFailureIndication_switch ModifyBearerFailureIndication_order ModifyBearerFailureIndication_lens
  by unfold_locales
     (simp_all add: ModifyBearerFailureIndication_all_fields set_eq_iff, simp_all add: ModifyBearerFailureIndication_order_def ModifyBearerFailureIndication_lens_def)

lemma ModifyBearerFailureIndication_Marshal_eq: "ModifyBearerFailureIndication_Marshal m = msg_Marshal ModifyBearerFailureIndication_order ModifyBearerFailureIndication_lens m"
  by (simp add: ModifyBearerFailureIndication_Marshal_def ModifyBearerFailureIndication_MarshalTo_def ModifyBearerFailureIndication_MarshalLen_def msg_Marshal_def)

section \<open>DeleteBearerCommand\<close>

datatype DeleteBearerCommand_field =
    DeleteBearerCommand_BearerContexts | DeleteBearerCommand_ULI
    | DeleteBearerCommand_ULITimestamp | DeleteBearerCommand_UETimeZone
    | DeleteBearerCommand_MMESGSNOverloadControlInformation
    | DeleteBearerCommand_SGWOverloadControlInformation | DeleteBearerCommand_SenderFTEIDC
    | DeleteBearerCommand_SecondaryRATDataUsageReport | DeleteBearerCommand_PrivateExtension

definition DeleteBearerCommand_switch :: "DeleteBearerCommand_field switch" where
  "DeleteBearerCommand_switch t n = (
     if t = IE_BearerContext then Slot DeleteBearerCommand_BearerContexts
     else if t = IE_UserLocationInformation then Slot DeleteBearerCommand_ULI
     else if t = IE_ULITimestamp then Slot DeleteBearerCommand_ULITimestamp
     else if t = IE_UETimeZone then Slot DeleteBearerCommand_UETimeZone
     else if t = IE_OverloadControlInformation then 
         (if n = 0 then Slot DeleteBearerCommand_MMESGSNOverloadControlInformation
          else if n = 1 then Slot DeleteBearerCommand_SGWOverloadControlInformation
          else Dropped)
     else if t = IE_FullyQualifiedTEID then Slot DeleteBearerCommand_SenderFTEIDC
     else if t = IE_SecondaryRATUsageDataReport then Slot DeleteBearerCommand_SecondaryRATDataUsageReport
     else if t = IE_PrivateExtension then Slot DeleteBearerCommand_PrivateExtension
     else Additional)"

definition DeleteBearerCommand_order :: "DeleteBearerCommand_field list" where
  "DeleteBearerCommand_order = [
    DeleteBearerCommand_BearerContexts, DeleteBearerCommand_ULI,
    DeleteBearerCommand_ULITimestamp, DeleteBearerCommand_UETimeZone,
    DeleteBearerCommand_MMESGSNOverloadControlInformation,
    DeleteBearerCommand_SGWOverloadControlInformation, DeleteBearerCommand_SenderFTEIDC,
    DeleteBearerCommand_SecondaryRATDataUsageReport, DeleteBearerCommand_PrivateExtension]"

definition DeleteBearerCommand_lens :: "DeleteBearerCommand_field list" where
  "DeleteBearerCommand_lens = [
    DeleteBearerCommand_BearerContexts, DeleteBearerCommand_ULI,
    DeleteBearerCommand_ULITimestamp, DeleteBearerCommand_UETimeZone,
    DeleteBearerCommand_MMESGSNOverloadControlInformation,
    DeleteBearerCommand_SGWOverloadControlInformation, DeleteBearerCommand_SenderFTEIDC,
    DeleteBearerCommand_SecondaryRATDataUsageReport, DeleteBearerCommand_PrivateExtension]"

definition NewDeleteBearerCommand :: "u32 \<Rightarrow> u32 \<Rightarrow> ie option list \<Rightarrow> DeleteBearerCommand_field v2_msg" where
  "NewDeleteBearerCommand teid seq ies =
     msg_New DeleteBearerCommand_switch DeleteBearerCommand_lens (NewHeaderFlags 2 0 1) MsgTypeDeleteBearerCommand teid seq ies"

definition DeleteBearerCommand_MarshalLen :: "DeleteBearerCommand_field v2_msg \<Rightarrow> nat" where
  "DeleteBearerCommand_MarshalLen m = msg_MarshalLen DeleteBearerCommand_lens m"

definition DeleteBearerCommand_MarshalTo :: "DeleteBearerCommand_field v2_msg \<Rightarrow> bytes \<Rightarrow> (bytes \<times> DeleteBearerCommand_field v2_msg) result" where
  "DeleteBearerCommand_MarshalTo m b = msg_MarshalTo DeleteBearerCommand_order DeleteBearerCommand_lens m b"

definition DeleteBearerCommand_Marshal :: "DeleteBearerCommand_field v2_msg \<Rightarrow> (bytes \<times> DeleteBearerCommand_field v2_msg) result" where
  "DeleteBearerCommand_Marshal m = DeleteBearerCommand_MarshalTo m (replicate (DeleteBearerCommand_MarshalLen m) 0)"

definition DeleteBearerCommand_UnmarshalBinary :: "bytes \<Rightarrow> DeleteBearerCommand_field v2_msg result" where
  "DeleteBearerCommand_UnmarshalBinary b = msg_UnmarshalBinary DeleteBearerCommand_switch b"

lemma DeleteBearerCommand_all_fields: "s \<in> set DeleteBearerCommand_order" "s \<in> set DeleteBearerCommand_lens"
  by (cases s; simp add: DeleteBearerCommand_order_def DeleteBearerCommand_lens_def)+

interpretation deleteBearerCommand: message_layout DeleteBearerCommand_switch DeleteBearerCommand_order DeleteBearerCommand_lens
  by unfold_locales
     (simp_all add: DeleteBearerCommand_all_fields set_eq_iff, simp_all add: DeleteBearerCommand_order_def DeleteBearerCommand_lens_def)

lemma DeleteBearerCommand_Marshal_eq: "DeleteBearerCommand_Marshal m = msg_Marshal DeleteBearerCommand_order DeleteBearerCommand_lens m"
  by (simp add: DeleteBearerCommand_Marshal_def DeleteBearerCommand_MarshalTo_def DeleteBearerCommand_MarshalLen_def msg_Marshal_def)

section \<open>DeleteBearerFailureIndication\<close>

datatype DeleteBearerFailureIndication_field =
    DeleteBearerFailureIndication_Cause | DeleteBearerFailureIndication_BearerContexts
    | DeleteBearerFailureIndication_Recovery | DeleteBearerFailureIndication_IndicationFlags
    | DeleteBearerFailureIndication_PGWOverloadControlInformation
    | DeleteBearerFailureIndication_SGWOverloadControlInformation
    | DeleteBearerFailureIndication_PrivateExtension

definition DeleteBearerFailureIndication_switch :: "DeleteBearerFailureIndication_field switch" where
  "DeleteBearerFailureIndication_switch t n = (
     if t = IE_Cause then Slot DeleteBearerFailureIndication_Cause
     else if t = IE_BearerContext then Slot DeleteBearerFailureIndication_BearerContexts
     else if t = IE_Recovery then Slot DeleteBearerFailureIndication_Recovery
     else if t = IE_Indication then Slot DeleteBearerFailureIndication_IndicationFlags
     else if t = IE_OverloadControlInformation then 
         (if n = 0 then Slot DeleteBearerFailureIndication_PGWOverloadControlInformation
          else if n = 1 then Slot DeleteBearerFailureIndication_SGWOverloadControlInformation
          else Dropped)
     else if t = IE_PrivateExtension then Slot DeleteBearerFailureIndication_PrivateExtension
     else Additional)"

definition DeleteBearerFailureIndication_order :: "DeleteBearerFailureIndication_field list" where
  "DeleteBearerFailureIndication_order = [
    DeleteBearerFailureIndication_Cause, DeleteBearerFailureIndication_BearerContexts,
    DeleteBearerFailureIndication_Recovery, DeleteBearerFailureIndication_IndicationFlags,
    DeleteBearerFailureIndication_PGWOverloadControlInformation,
    DeleteBearerFailureIndication_SGWOverloadControlInformation,
    DeleteBearerFailureIndication_PrivateExtension]"

definition DeleteBearerFailureIndication_lens :: "DeleteBearerFailureIndication_field list" where
  "DeleteBearerFailureIndication_lens = [
    DeleteBearerFailureIndication_Cause, DeleteBearerFailureIndication_BearerContexts,
    DeleteBearerFailureIndication_Recovery, DeleteBearerFailureIndication_IndicationFlags,
    DeleteBearerFailureIndication_PGWOverloadControlInformation,
    DeleteBearerFailureIndication_SGWOverloadControlInformation,
    DeleteBearerFailureIndication_PrivateExtension]"

definition NewDeleteBearerFailureIndication :: "u32 \<Rightarrow> u32 \<Rightarrow> ie option list \<Rightarrow> DeleteBearerFailureIndication_field v2_msg" where
  "NewDeleteBearerFailureIndication teid seq ies =
     msg_New DeleteBearerFailureIndication_switch DeleteBearerFailureIndication_lens (NewHeaderFlags 2 0 1) MsgTypeDeleteBearerFailureIndication teid seq ies"

definition DeleteBearerFailureIndication_MarshalLen :: "DeleteBearerFailureIndication_field v2_msg \<Rightarrow> nat" where
  "DeleteBearerFailureIndication_MarshalLen m = msg_MarshalLen DeleteBearerFailureIndication_lens m"

definition DeleteBearerFailureIndication_MarshalTo :: "DeleteBearerFailureIndication_field v2_msg \<Rightarrow> bytes \<Rightarrow> (bytes \<times> DeleteBearerFailureIndication_field v2_msg) result" where
  "DeleteBearerFailureIndication_MarshalTo m b = msg_MarshalTo DeleteBearerFailureIndication_order DeleteBearerFailureIndication_lens m b"

definition DeleteBearerFailureIndication_Marshal :: "DeleteBearerFailureIndication_field v2_msg \<Rightarrow> (bytes \<times> DeleteBearerFailureIndication_field v2_msg) result" where
  "DeleteBearerFailureIndication_Marshal m = DeleteBearerFailureIndication_MarshalTo m (replicate (DeleteBearerFailureIndication_MarshalLen m) 0)"

definition DeleteBearerFailureIndication_UnmarshalBinary :: "bytes \<Rightarrow> DeleteBearerFailureIndication_field v2_msg result" where
  "DeleteBearerFailureIndication_UnmarshalBinary b = msg_UnmarshalBinary DeleteBearerFailureIndication_switch b"

lemma DeleteBearerFailureIndication_all_fields: "s \<in> set DeleteBearerFailureIndication_order" "s \<in> set DeleteBearerFailureIndication_lens"
  by (cases s; simp add: DeleteBearerFailureIndication_order_def DeleteBearerFailureIndication_lens_def)+

interpretation deleteBearerFailureIndication: message_layout DeleteBearerFailureIndication_switch DeleteBearerFailureIndication_order DeleteBearerFailureIndication_lens
  by unfold_locales
     (simp_all add: DeleteBearerFailureIndication_all_fields set_eq_iff, simp_all add: DeleteBearerFailureIndication_order_def DeleteBearerFailureIndication_lens_def)

lemma DeleteBearerFailureIndication_Marshal_eq: "DeleteBearerFailureIndication_Marshal m = msg_Marshal DeleteBearerFailureIndication_order DeleteBearerFailureIndication_lens m"
  by (simp add: DeleteBearerFailureIndication_Marshal_def DeleteBearerFailureIndication_MarshalTo_def DeleteBearerFailureIndication_MarshalLen_def msg_Marshal_def)

end
