(* ===== verification/V2MsgAccess.thy ===== *)
theory V2MsgAccess
  imports V2Message V2IETypes
begin

text \<open>
  The GTPv2 message types of the access bearer, paging, detach and downlink data messages:
  \<open>ReleaseAccessBearersRequest\<close> (\<open>release-access-bearers-req.go\<close>),
  \<open>ReleaseAccessBearersResponse\<close> (\<open>release-access-bearers-res.go\<close>),
  \<open>ModifyAccessBearersRequest\<close> (\<open>modify-access-bearers-req.go\<close>),
  \<open>ModifyAccessBearersResponse\<close> (\<open>modify-access-bearers-res.go\<close>),
  \<open>StopPagingIndication\<close> (\<open>stop-paging-indication.go\<close>),
  \<open>DetachNotification\<close> (\<open>detach-notification.go\<close>),
  \<open>DetachAcknowledge\<close> (\<open>detach-acknowledge.go\<close>),
  \<open>DownlinkDataNotification\<close> (\<open>downlink-data-notification.go\<close>),
  \<open>DownlinkDataNotificationAcknowledge\<close>
  (\<open>downlink-data-notification-ack.go\<close>),
  \<open>DownlinkDataNotificationFailureIndication\<close>
  (\<open>downlink-data-notification-failure-indication.go\<close>). For each of them: its fields,
  the switch of its decoder (and of its constructor where the two differ), the orders in which
  MarshalTo and MarshalLen visit the fields, the methods built from them, and the interpretation
  of the contract of \<open>V2Message\<close>.
\<close>

abbreviation MsgTypeDownlinkDataNotificationFailureIndication :: byte where
  "MsgTypeDownlinkDataNotificationFailureIndication \<equiv> 70"

abbreviation MsgTypeStopPagingIndication :: byte where
  "MsgTypeStopPagingIndication \<equiv> 73"

abbreviation MsgTypeDetachNotification :: byte where
  "MsgTypeDetachNotification \<equiv> 149"

abbreviation MsgTypeDetachAcknowledge :: byte where
  "MsgTypeDetachAcknowledge \<equiv> 150"

abbreviation MsgTypeReleaseAccessBearersRequest :: byte where
  "MsgTypeReleaseAccessBearersRequest \<equiv> 170"

abbreviation MsgTypeReleaseAccessBearersResponse :: byte where
  "MsgTypeReleaseAccessBearersResponse \<equiv> 171"

abbreviation MsgTypeDownlinkDataNotification :: byte where
  "MsgTypeDownlinkDataNotification \<equiv> 176"

abbreviation MsgTypeDownlinkDataNotificationAcknowledge :: byte where
  "MsgTypeDownlinkDataNotificationAcknowledge \<equiv> 177"

abbreviation MsgTypeModifyAccessBearersRequest :: byte where
  "MsgTypeModifyAccessBearersRequest \<equiv> 211"

abbreviation MsgTypeModifyAccessBearersResponse :: byte where
  "MsgTypeModifyAccessBearersResponse \<equiv> 212"

section \<open>ReleaseAccessBearersRequest\<close>

datatype ReleaseAccessBearersRequest_field =
    ReleaseAccessBearersRequest_ListOfRABs | ReleaseAccessBearersRequest_OriginatingNode
    | ReleaseAccessBearersRequest_IndicationFlags
    | ReleaseAccessBearersRequest_SecondaryRATUsageDataReport
    | ReleaseAccessBearersRequest_PrivateExtension

definition ReleaseAccessBearersRequest_switch :: "ReleaseAccessBearersRequest_field switch" where
  "ReleaseAccessBearersRequest_switch t n = (
     if t = IE_EPSBearerID then Slot ReleaseAccessBearersRequest_ListOfRABs
     else if t = IE_NodeType then Slot ReleaseAccessBearersRequest_OriginatingNode
     else if t = IE_Indication then Slot ReleaseAccessBearersRequest_IndicationFlags
     else if t = IE_SecondaryRATUsageDataReport then Slot ReleaseAccessBearersRequest_SecondaryRATUsageDataReport
     else if t = IE_PrivateExtension then Slot ReleaseAccessBearersRequest_PrivateExtension
     else Additional)"

definition ReleaseAccessBearersRequest_order :: "ReleaseAccessBearersRequest_field list" where
  "ReleaseAccessBearersRequest_order = [
    ReleaseAccessBearersRequest_ListOfRABs, ReleaseAccessBearersRequest_OriginatingNode,
    ReleaseAccessBearersRequest_IndicationFlags,
    ReleaseAccessBearersRequest_SecondaryRATUsageDataReport,
    ReleaseAccessBearersRequest_PrivateExtension]"

definition ReleaseAccessBearersRequest_lens :: "ReleaseAccessBearersRequest_field list" where
  "ReleaseAccessBearersRequest_lens = [
    ReleaseAccessBearersRequest_ListOfRABs, ReleaseAccessBearersRequest_OriginatingNode,
    ReleaseAccessBearersRequest_IndicationFlags,
    ReleaseAccessBearersRequest_SecondaryRATUsageDataReport,
    ReleaseAccessBearersRequest_PrivateExtension]"

definition NewReleaseAccessBearersRequest :: "u32 \<Rightarrow> u32 \<Rightarrow> ie option list \<Rightarrow> ReleaseAccessBearersRequest_field v2_msg" where
  "NewReleaseAccessBearersRequest teid seq ies =
     msg_New ReleaseAccessBearersRequest_switch ReleaseAccessBearersRequest_lens (NewHeaderFlags 2 0 1) MsgTypeReleaseAccessBearersRequest teid seq ies"

definition ReleaseAccessBearersRequest_MarshalLen :: "ReleaseAccessBearersRequest_field v2_msg \<Rightarrow> nat" where
  "ReleaseAccessBearersRequest_MarshalLen m = msg_MarshalLen ReleaseAccessBearersRequest_lens m"

definition ReleaseAccessBearersRequest_MarshalTo :: "ReleaseAccessBearersRequest_field v2_msg \<Rightarrow> bytes \<Rightarrow> (bytes \<times> ReleaseAccessBearersRequest_field v2_msg) result" where
  "ReleaseAccessBearersRequest_MarshalTo m b = msg_MarshalTo ReleaseAccessBearersRequest_order ReleaseAccessBearersRequest_lens m b"

definition ReleaseAccessBearersRequest_Marshal :: "ReleaseAccessBearersRequest_field v2_msg \<Rightarrow> (bytes \<times> ReleaseAccessBearersRequest_field v2_msg) result" where
  "ReleaseAccessBearersRequest_Marshal m = ReleaseAccessBearersRequest_MarshalTo m (replicate (ReleaseAccessBearersRequest_MarshalLen m) 0)"

definition ReleaseAccessBearersRequest_UnmarshalBinary :: "bytes \<Rightarrow> ReleaseAccessBearersRequest_field v2_msg result" where
  "ReleaseAccessBearersRequest_UnmarshalBinary b = msg_UnmarshalBinary ReleaseAccessBearersRequest_switch b"

lemma ReleaseAccessBearersRequest_all_fields: "s \<in> set ReleaseAccessBearersRequest_order" "s \<in> set ReleaseAccessBearersRequest_lens"
  by (cases s; simp add: ReleaseAccessBearersRequest_order_def ReleaseAccessBearersRequest_lens_def)+

interpretation releaseAccessBearersRequest: message_layout ReleaseAccessBearersRequest_switch ReleaseAccessBearersRequest_order ReleaseAccessBearersRequest_lens
  by unfold_locales
     (simp_all add: ReleaseAccessBearersRequest_all_fields set_eq_iff, simp_all add: ReleaseAccessBearersRequest_order_def ReleaseAccessBearersRequest_lens_def)

lemma ReleaseAccessBearersRequest_Marshal_eq: "ReleaseAccessBearersRequest_Marshal m = msg_Marshal ReleaseAccessBearersRequest_order ReleaseAccessBearersRequest_lens m"
  by (simp add: ReleaseAccessBearersRequest_Marshal_def ReleaseAccessBearersRequest_MarshalTo_def ReleaseAccessBearersRequest_MarshalLen_def msg_Marshal_def)

section \<open>ReleaseAccessBearersResponse\<close>

datatype ReleaseAccessBearersResponse_field =
    ReleaseAccessBearersResponse_Cause | ReleaseAccessBearersResponse_Recovery
    | ReleaseAccessBearersResponse_IndicationFlags
    | ReleaseAccessBearersResponse_SGWNodeLoadControlInformation
    | ReleaseAccessBearersResponse_SGWOverloadControlInformation
    | ReleaseAccessBearersResponse_PrivateExtension

definition ReleaseAccessBearersResponse_switch :: "ReleaseAccessBearersResponse_field switch" where
  "ReleaseAccessBearersResponse_switch t n = (
     if t = IE_Cause then Slot ReleaseAccessBearersResponse_Cause
     else if t = IE_Recovery then Slot ReleaseAccessBearersResponse_Recovery
     else if t = IE_Indication then Slot ReleaseAccessBearersResponse_IndicationFlags
     else if t = IE_LoadControlInformation then Slot ReleaseAccessBearersResponse_SGWNodeLoadControlInformation
     else if t = IE_OverloadControlInformation then Slot ReleaseAccessBearersResponse_SGWOverloadControlInformation
     else if t = IE_PrivateExtension then Slot ReleaseAccessBearersResponse_PrivateExtension
     else Additional)"

definition ReleaseAccessBearersResponse_order :: "ReleaseAccessBearersResponse_field list" where
  "ReleaseAccessBearersResponse_order = [
    ReleaseAccessBearersResponse_Cause, ReleaseAccessBearersResponse_Recovery,
    ReleaseAccessBearersResponse_IndicationFlags,
    ReleaseAccessBearersResponse_SGWNodeLoadControlInformation,
    ReleaseAccessBearersResponse_SGWOverloadControlInformation,
    ReleaseAccessBearersResponse_PrivateExtension]"

definition ReleaseAccessBearersResponse_lens :: "ReleaseAccessBearersResponse_field list" where
  "ReleaseAccessBearersResponse_lens = [
    ReleaseAccessBearersResponse_Cause, ReleaseAccessBearersResponse_Recovery,
    ReleaseAccessBearersResponse_IndicationFlags,
    ReleaseAccessBearersResponse_SGWNodeLoadControlInformation,
    ReleaseAccessBearersResponse_SGWOverloadControlInformation,
    ReleaseAccessBearersResponse_PrivateExtension]"

definition NewReleaseAccessBearersResponse :: "u32 \<Rightarrow> u32 \<Rightarrow> ie option list \<Rightarrow> ReleaseAccessBearersResponse_field v2_msg" where
  "NewReleaseAccessBearersResponse teid seq ies =
     msg_New ReleaseAccessBearersResponse_switch ReleaseAccessBearersResponse_lens (NewHeaderFlags 2 0 1) MsgTypeReleaseAccessBearersResponse teid seq ies"

definition ReleaseAccessBearersResponse_MarshalLen :: "ReleaseAccessBearersResponse_field v2_msg \<Rightarrow> nat" where
  "ReleaseAccessBearersResponse_MarshalLen m = msg_MarshalLen ReleaseAccessBearersResponse_lens m"

definition ReleaseAccessBearersResponse_MarshalTo :: "ReleaseAccessBearersResponse_field v2_msg \<Rightarrow> bytes \<Rightarrow> (bytes \<times> ReleaseAccessBearersResponse_field v2_msg) result" where
  "ReleaseAccessBearersResponse_MarshalTo m b = msg_MarshalTo ReleaseAccessBearersResponse_order ReleaseAccessBearersResponse_lens m b"

definition ReleaseAccessBearersResponse_Marshal :: "ReleaseAccessBearersResponse_field v2_msg \<Rightarrow> (bytes \<times> ReleaseAccessBearersResponse_field v2_msg) result" where
  "ReleaseAccessBearersResponse_Marshal m = ReleaseAccessBearersResponse_MarshalTo m (replicate (ReleaseAccessBearersResponse_MarshalLen m) 0)"

definition ReleaseAccessBearersResponse_UnmarshalBinary :: "bytes \<Rightarrow> ReleaseAccessBearersResponse_field v2_msg result" where
  "ReleaseAccessBearersResponse_UnmarshalBinary b = msg_UnmarshalBinary ReleaseAccessBearersResponse_switch b"

lemma ReleaseAccessBearersResponse_all_fields: "s \<in> set ReleaseAccessBearersResponse_order" "s \<in> set ReleaseAccessBearersResponse_lens"
  by (cases s; simp add: ReleaseAccessBearersResponse_order_def ReleaseAccessBearersResponse_lens_def)+

interpretation releaseAccessBearersResponse: message_layout ReleaseAccessBearersResponse_switch ReleaseAccessBearersResponse_order ReleaseAccessBearersResponse_lens
  by unfold_locales
     (simp_all add: ReleaseAccessBearersResponse_all_fields set_eq_iff, simp_all add: ReleaseAccessBearersResponse_order_def ReleaseAccessBearersResponse_lens_def)

lemma ReleaseAccessBearersResponse_Marshal_eq: "ReleaseAccessBearersResponse_Marshal m = msg_Marshal ReleaseAccessBearersResponse_order ReleaseAccessBearersResponse_lens m"
  by (simp add: ReleaseAccessBearersResponse_Marshal_def ReleaseAccessBearersResponse_MarshalTo_def ReleaseAccessBearersResponse_MarshalLen_def msg_Marshal_def)

section \<open>ModifyAccessBearersRequest\<close>

datatype ModifyAccessBearersRequest_field =
    ModifyAccessBearersRequest_IndicationFlags | ModifyAccessBearersRequest_SenderFTEIDC
    | ModifyAccessBearersRequest_DelayDownlinkPacketNotificationRequest
    | ModifyAccessBearersRequest_BearerContextsToBeModified
    | ModifyAccessBearersRequest_BearerContextsToBeRemoved
    | ModifyAccessBearersRequest_Recovery
    | ModifyAccessBearersRequest_SecondaryRATUsageDataReport
    | ModifyAccessBearersRequest_PrivateExtension

definition ModifyAccessBearersRequest_switch :: "ModifyAccessBearersRequest_field switch" where
  "ModifyAccessBearersRequest_switch t n = (
     if t = IE_Indication then Slot ModifyAccessBearersRequest_IndicationFlags
     else if t = IE_NodeType then Slot ModifyAccessBearersRequest_SenderFTEIDC
     else if t = IE_DelayValue then Slot ModifyAccessBearersRequest_DelayDownlinkPacketNotificationRequest
     else if t = IE_BearerContext then 
         (if n = 0 then Slot ModifyAccessBearersRequest_BearerContextsToBeModified
          else if n = 1 then Slot ModifyAccessBearersRequest_BearerContextsToBeRemoved
          else Dropped)
     else if t = IE_Recovery then Slot ModifyAccessBearersRequest_Recovery
     else if t = IE_SecondaryRATUsageDataReport then Slot ModifyAccessBearersRequest_SecondaryRATUsageDataReport
     else if t = IE_PrivateExtension then Slot ModifyAccessBearersRequest_PrivateExtension
     else Additional)"

definition ModifyAccessBearersRequest_order :: "ModifyAccessBearersRequest_field list" where
  "ModifyAccessBearersRequest_order = [
    ModifyAccessBearersRequest_IndicationFlags, ModifyAccessBearersRequest_SenderFTEIDC,
    ModifyAccessBearersRequest_DelayDownlinkPacketNotificationRequest,
    ModifyAccessBearersRequest_BearerContextsToBeModified,
    ModifyAccessBearersRequest_BearerContextsToBeRemoved, ModifyAccessBearersRequest_Recovery,
    ModifyAccessBearersRequest_SecondaryRATUsageDataReport,
    ModifyAccessBearersRequest_PrivateExtension]"

definition ModifyAccessBearersRequest_lens :: "ModifyAccessBearersRequest_field list" where
  "ModifyAccessBearersRequest_lens = [
    ModifyAccessBearersRequest_IndicationFlags, ModifyAccessBearersRequest_SenderFTEIDC,
    ModifyAccessBearersRequest_DelayDownlinkPacketNotificationRequest,
    ModifyAccessBearersRequest_BearerContextsToBeModified,
    ModifyAccessBearersRequest_BearerContextsToBeRemoved, ModifyAccessBearersRequest_Recovery,
    ModifyAccessBearersRequest_SecondaryRATUsageDataReport,
    ModifyAccessBearersRequest_PrivateExtension]"

definition NewModifyAccessBearersRequest :: "u32 \<Rightarrow> u32 \<Rightarrow> ie option list \<Rightarrow> ModifyAccessBearersRequest_field v2_msg" where
  "NewModifyAccessBearersRequest teid seq ies =
     msg_New ModifyAccessBearersRequest_switch ModifyAccessBearersRequest_lens (NewHeaderFlags 2 0 1) MsgTypeModifyAccessBearersRequest teid seq ies"

definition ModifyAccessBearersRequest_MarshalLen :: "ModifyAccessBearersRequest_field v2_msg \<Rightarrow> nat" where
  "ModifyAccessBearersRequest_MarshalLen m = msg_MarshalLen ModifyAccessBearersRequest_lens m"

definition ModifyAccessBearersRequest_MarshalTo :: "ModifyAccessBearersRequest_field v2_msg \<Rightarrow> bytes \<Rightarrow> (bytes \<times> ModifyAccessBearersRequest_field v2_msg) result" where
  "ModifyAccessBearersRequest_MarshalTo m b = msg_MarshalTo ModifyAccessBearersRequest_order ModifyAccessBearersRequest_lens m b"

definition ModifyAccessBearersRequest_Marshal :: "ModifyAccessBearersRequest_field v2_msg \<Rightarrow> (bytes \<times> ModifyAccessBearersRequest_field v2_msg) result" where
  "ModifyAccessBearersRequest_Marshal m = ModifyAccessBearersRequest_MarshalTo m (replicate (ModifyAccessBearersRequest_MarshalLen m) 0)"

definition ModifyAccessBearersRequest_UnmarshalBinary :: "bytes \<Rightarrow> ModifyAccessBearersRequest_field v2_msg result" where
  "ModifyAccessBearersRequest_UnmarshalBinary b = msg_UnmarshalBinary ModifyAccessBearersRequest_switch b"

lemma ModifyAccessBearersRequest_all_fields: "s \<in> set ModifyAccessBearersRequest_order" "s \<in> set ModifyAccessBearersRequest_lens"
  by (cases s; simp add: ModifyAccessBearersRequest_order_def ModifyAccessBearersRequest_lens_def)+

interpretation modifyAccessBearersRequest: message_layout ModifyAccessBearersRequest_switch ModifyAccessBearersRequest_order ModifyAccessBearersRequest_lens
  by unfold_locales
     (simp_all add: ModifyAccessBearersRequest_all_fields set_eq_iff, simp_all add: ModifyAccessBearersRequest_order_def ModifyAccessBearersRequest_lens_def)

lemma ModifyAccessBearersRequest_Marshal_eq: "ModifyAccessBearersRequest_Marshal m = msg_Marshal ModifyAccessBearersRequest_order ModifyAccessBearersRequest_lens m"
  by (simp add: ModifyAccessBearersRequest_Marshal_def ModifyAccessBearersRequest_MarshalTo_def ModifyAccessBearersRequest_MarshalLen_def msg_Marshal_def)

section \<open>ModifyAccessBearersResponse\<close>

datatype ModifyAccessBearersResponse_field =
    ModifyAccessBearersResponse_Cause | ModifyAccessBearersResponse_BearerContextsModified
    | ModifyAccessBearersResponse_BearerContextsMarkedForRemoval
    | ModifyAccessBearersResponse_Recovery | ModifyAccessBearersResponse_IndicationFlags
    | ModifyAccessBearersResponse_SGWNodeLoadControlInformation
    | ModifyAccessBearersResponse_SGWOverloadControlInformation
    | ModifyAccessBearersResponse_PrivateExtension

definition ModifyAccessBearersResponse_switch :: "ModifyAccessBearersResponse_field switch" where
  "ModifyAccessBearersResponse_switch t n = (
     if t = IE_Cause then Slot ModifyAccessBearersResponse_Cause
     else if t = IE_BearerContext then 
         (if n = 0 then Slot ModifyAccessBearersResponse_BearerContextsModified
          else if n = 1 then Slot ModifyAccessBearersResponse_BearerContextsMarkedForRemoval
          else Dropped)
     else if t = IE_Recovery then Slot ModifyAccessBearersResponse_Recovery
     else if t = IE_Indication then Slot ModifyAccessBearersResponse_IndicationFlags
     else if t = IE_LoadControlInformation then Slot ModifyAccessBearersResponse_SGWNodeLoadControlInformation
     else if t = IE_OverloadControlInformation then Slot ModifyAccessBearersResponse_SGWOverloadControlInformation
     else if t = IE_PrivateExtension then Slot ModifyAccessBearersResponse_PrivateExtension
     else Additional)"

definition ModifyAccessBearersResponse_order :: "ModifyAccessBearersResponse_field list" where
  "ModifyAccessBearersResponse_order = [
    ModifyAccessBearersResponse_Cause, ModifyAccessBearersResponse_BearerContextsModified,
    ModifyAccessBearersResponse_BearerContextsMarkedForRemoval,
    ModifyAccessBearersResponse_Recovery, ModifyAccessBearersResponse_IndicationFlags,
    ModifyAccessBearersResponse_SGWNodeLoadControlInformation,
    ModifyAccessBearersResponse_SGWOverloadControlInformation,
    ModifyAccessBearersResponse_PrivateExtension]"

definition ModifyAccessBearersResponse_lens :: "ModifyAccessBearersResponse_field list" where
  "ModifyAccessBearersResponse_lens = [
    ModifyAccessBearersResponse_Cause, ModifyAccessBearersResponse_BearerContextsModified,
    ModifyAccessBearersResponse_BearerContextsMarkedForRemoval,
    ModifyAccessBearersResponse_Recovery, ModifyAccessBearersResponse_IndicationFlags,
    ModifyAccessBearersResponse_SGWNodeLoadControlInformation,
    ModifyAccessBearersResponse_SGWOverloadControlInformation,
    ModifyAccessBearersResponse_PrivateExtension]"

definition NewModifyAccessBearersResponse :: "u32 \<Rightarrow> u32 \<Rightarrow> ie option list \<Rightarrow> ModifyAccessBearersResponse_field v2_msg" where
  "NewModifyAccessBearersResponse teid seq ies =
     msg_New ModifyAccessBearersResponse_switch ModifyAccessBearersResponse_lens (NewHeaderFlags 2 0 1) MsgTypeModifyAccessBearersResponse teid seq ies"

definition ModifyAccessBearersResponse_MarshalLen :: "ModifyAccessBearersResponse_field v2_msg \<Rightarrow> nat" where
  "ModifyAccessBearersResponse_MarshalLen m = msg_MarshalLen ModifyAccessBearersResponse_lens m"

definition ModifyAccessBearersResponse_MarshalTo :: "ModifyAccessBearersResponse_field v2_msg \<Rightarrow> bytes \<Rightarrow> (bytes \<times> ModifyAccessBearersResponse_field v2_msg) result" where
  "ModifyAccessBearersResponse_MarshalTo m b = msg_MarshalTo ModifyAccessBearersResponse_order ModifyAccessBearersResponse_lens m b"

definition ModifyAccessBearersResponse_Marshal :: "ModifyAccessBearersResponse_field v2_msg \<Rightarrow> (bytes \<times> ModifyAccessBearersResponse_field v2_msg) result" where
  "ModifyAccessBearersResponse_Marshal m = ModifyAccessBearersResponse_MarshalTo m (replicate (ModifyAccessBearersResponse_MarshalLen m) 0)"

definition ModifyAccessBearersResponse_UnmarshalBinary :: "bytes \<Rightarrow> ModifyAccessBearersResponse_field v2_msg result" where
  "ModifyAccessBearersResponse_UnmarshalBinary b = msg_UnmarshalBinary ModifyAccessBearersResponse_switch b"

lemma ModifyAccessBearersResponse_all_fields: "s \<in> set ModifyAccessBearersResponse_order" "s \<in> set ModifyAccessBearersResponse_lens"
  by (cases s; simp add: ModifyAccessBearersResponse_order_def ModifyAccessBearersResponse_lens_def)+

interpretation modifyAccessBearersResponse: message_layout ModifyAccessBearersResponse_switch ModifyAccessBearersResponse_order ModifyAccessBearersResponse_lens
  by unfold_locales
     (simp_all add: ModifyAccessBearersResponse_all_fields set_eq_iff, simp_all add: ModifyAccessBearersResponse_order_def ModifyAccessBearersResponse_lens_def)

lemma ModifyAccessBearersResponse_Marshal_eq: "ModifyAccessBearersResponse_Marshal m = msg_Marshal ModifyAccessBearersResponse_order ModifyAccessBearersResponse_lens m"
  by (simp add: ModifyAccessBearersResponse_Marshal_def ModifyAccessBearersResponse_MarshalTo_def ModifyAccessBearersResponse_MarshalLen_def msg_Marshal_def)

section \<open>StopPagingIndication\<close>

datatype StopPagingIndication_field =
    StopPagingIndication_IMSI | StopPagingIndication_PrivateExtension

definition StopPagingIndication_switch :: "StopPagingIndication_field switch" where
  "StopPagingIndication_switch t n = (
     if t = IE_IMSI then Slot StopPagingIndication_IMSI
     else if t = IE_PrivateExtension then Slot StopPagingIndication_PrivateExtension
     else Additional)"

definition StopPagingIndication_order :: "StopPagingIndication_field list" where
  "StopPagingIndication_order = [
    StopPagingIndication_IMSI, StopPagingIndication_PrivateExtension]"

definition StopPagingIndication_lens :: "StopPagingIndication_field list" where
  "StopPagingIndication_lens = [
    StopPagingIndication_IMSI, StopPagingIndication_PrivateExtension]"

definition NewStopPagingIndication :: "u32 \<Rightarrow> u32 \<Rightarrow> ie option list \<Rightarrow> StopPagingIndication_field v2_msg" where
  "NewStopPagingIndication teid seq ies =
     msg_New StopPagingIndication_switch StopPagingIndication_lens (NewHeaderFlags 2 0 1) MsgTypeStopPagingIndication teid seq ies"

definition StopPagingIndication_MarshalLen :: "StopPagingIndication_field v2_msg \<Rightarrow> nat" where
  "StopPagingIndication_MarshalLen m = msg_MarshalLen StopPagingIndication_lens m"

definition StopPagingIndication_MarshalTo :: "StopPagingIndication_field v2_msg \<Rightarrow> bytes \<Rightarrow> (bytes \<times> StopPagingIndication_field v2_msg) result" where
  "StopPagingIndication_MarshalTo m b = msg_MarshalTo StopPagingIndication_order StopPagingIndication_lens m b"

definition StopPagingIndication_Marshal :: "StopPagingIndication_field v2_msg \<Rightarrow> (bytes \<times> StopPagingIndication_field v2_msg) result" where
  "StopPagingIndication_Marshal m = StopPagingIndication_MarshalTo m (replicate (StopPagingIndication_MarshalLen m) 0)"

definition StopPagingIndication_UnmarshalBinary :: "bytes \<Rightarrow> StopPagingIndication_field v2_msg result" where
  "StopPagingIndication_UnmarshalBinary b = msg_UnmarshalBinary StopPagingIndication_switch b"

lemma StopPagingIndication_all_fields: "s \<in> set StopPagingIndication_order" "s \<in> set StopPagingIndication_lens"
  by (cases s; simp add: StopPagingIndication_order_def StopPagingIndication_lens_def)+

interpretation stopPagingIndication: message_layout StopPagingIndication_switch StopPagingIndication_order StopPagingIndication_lens
  by unfold_locales
     (simp_all add: StopPagingIndication_all_fields set_eq_iff, simp_all add: StopPagingIndication_order_def StopPagingIndication_lens_def)

lemma StopPagingIndication_Marshal_eq: "StopPagingIndication_Marshal m = msg_Marshal StopPagingIndication_order StopPagingIndication_lens m"
  by (simp add: StopPagingIndication_Marshal_def StopPagingIndication_MarshalTo_def StopPagingIndication_MarshalLen_def msg_Marshal_def)

section \<open>DetachNotification\<close>

datatype DetachNotification_field =
    DetachNotification_Cause | DetachNotification_DetachType
    | DetachNotification_PrivateExtension

definition DetachNotification_switch :: "DetachNotification_field switch" where
  "DetachNotification_switch t n = (
     if t = IE_Cause then Slot DetachNotification_Cause
     else if t = IE_DetachType then Slot DetachNotification_DetachType
     else if t = IE_PrivateExtension then Slot DetachNotification_PrivateExtension
     else Additional)"

definition DetachNotification_order :: "DetachNotification_field list" where
  "DetachNotification_order = [
    DetachNotification_Cause, DetachNotification_DetachType, DetachNotification_PrivateExtension]"

definition DetachNotification_lens :: "DetachNotification_field list" where
  "DetachNotification_lens = [
    DetachNotification_Cause, DetachNotification_DetachType, DetachNotification_PrivateExtension]"

definition NewDetachNotification :: "u32 \<Rightarrow> u32 \<Rightarrow> ie option list \<Rightarrow> DetachNotification_field v2_msg" where
  "NewDetachNotification teid seq ies =
     msg_New DetachNotification_switch DetachNotification_lens (NewHeaderFlags 2 0 1) MsgTypeDetachNotification teid seq ies"

definition DetachNotification_MarshalLen :: "DetachNotification_field v2_msg \<Rightarrow> nat" where
  "DetachNotification_MarshalLen m = msg_MarshalLen DetachNotification_lens m"

definition DetachNotification_MarshalTo :: "DetachNotification_field v2_msg \<Rightarrow> bytes \<Rightarrow> (bytes \<times> DetachNotification_field v2_msg) result" where
  "DetachNotification_MarshalTo m b = msg_MarshalTo DetachNotification_order DetachNotification_lens m b"

definition DetachNotification_Marshal :: "DetachNotification_field v2_msg \<Rightarrow> (bytes \<times> DetachNotification_field v2_msg) result" where
  "DetachNotification_Marshal m = DetachNotification_MarshalTo m (replicate (DetachNotification_MarshalLen m) 0)"

definition DetachNotification_UnmarshalBinary :: "bytes \<Rightarrow> DetachNotification_field v2_msg result" where
  "DetachNotification_UnmarshalBinary b = msg_UnmarshalBinary DetachNotification_switch b"

lemma DetachNotification_all_fields: "s \<in> set DetachNotification_order" "s \<in> set DetachNotification_lens"
  by (cases s; simp add: DetachNotification_order_def DetachNotification_lens_def)+

interpretation detachNotification: message_layout DetachNotification_switch DetachNotification_order DetachNotification_lens
  by unfold_locales
     (simp_all add: DetachNotification_all_fields set_eq_iff, simp_all add: DetachNotification_order_def DetachNotification_lens_def)

lemma DetachNotification_Marshal_eq: "DetachNotification_Marshal m = msg_Marshal DetachNotification_order DetachNotification_lens m"
  by (simp add: DetachNotification_Marshal_def DetachNotification_MarshalTo_def DetachNotification_MarshalLen_def msg_Marshal_def)

section \<open>DetachAcknowledge\<close>

datatype DetachAcknowledge_field =
    DetachAcknowledge_Cause | DetachAcknowledge_Recovery | DetachAcknowledge_PrivateExtension

definition DetachAcknowledge_switch :: "DetachAcknowledge_field switch" where
  "DetachAcknowledge_switch t n = (
     if t = IE_Cause then Slot DetachAcknowledge_Cause
     else if t = IE_Recovery then Slot DetachAcknowledge_Recovery
     else if t = IE_PrivateExtension then Slot DetachAcknowledge_PrivateExtension
     else Additional)"

definition DetachAcknowledge_order :: "DetachAcknowledge_field list" where
  "DetachAcknowledge_order = [
    DetachAcknowledge_Cause, DetachAcknowledge_Recovery, DetachAcknowledge_PrivateExtension]"

definition DetachAcknowledge_lens :: "DetachAcknowledge_field list" where
  "DetachAcknowledge_lens = [
    DetachAcknowledge_Cause, DetachAcknowledge_Recovery, DetachAcknowledge_PrivateExtension]"

definition NewDetachAcknowledge :: "u32 \<Rightarrow> u32 \<Rightarrow> ie option list \<Rightarrow> DetachAcknowledge_field v2_msg" where
  "NewDetachAcknowledge teid seq ies =
     msg_New DetachAcknowledge_switch DetachAcknowledge_lens (NewHeaderFlags 2 0 1) MsgTypeDetachAcknowledge teid seq ies"

definition DetachAcknowledge_MarshalLen :: "DetachAcknowledge_field v2_msg \<Rightarrow> nat" where
  "DetachAcknowledge_MarshalLen m = msg_MarshalLen DetachAcknowledge_lens m"

definition DetachAcknowledge_MarshalTo :: "DetachAcknowledge_field v2_msg \<Rightarrow> bytes \<Rightarrow> (bytes \<times> DetachAcknowledge_field v2_msg) result" where
  "DetachAcknowledge_MarshalTo m b = msg_MarshalTo DetachAcknowledge_order DetachAcknowledge_lens m b"

definition DetachAcknowledge_Marshal :: "DetachAcknowledge_field v2_msg \<Rightarrow> (bytes \<times> DetachAcknowledge_field v2_msg) result" where
  "DetachAcknowledge_Marshal m = DetachAcknowledge_MarshalTo m (replicate (DetachAcknowledge_MarshalLen m) 0)"

definition DetachAcknowledge_UnmarshalBinary :: "bytes \<Rightarrow> DetachAcknowledge_field v2_msg result" where
  "DetachAcknowledge_UnmarshalBinary b = msg_UnmarshalBinary DetachAcknowledge_switch b"

lemma DetachAcknowledge_all_fields: "s \<in> set DetachAcknowledge_order" "s \<in> set DetachAcknowledge_lens"
  by (cases s; simp add: DetachAcknowledge_order_def DetachAcknowledge_lens_def)+

interpretation detachAcknowledge: message_layout DetachAcknowledge_switch DetachAcknowledge_order DetachAcknowledge_lens
  by unfold_locales
     (simp_all add: DetachAcknowledge_all_fields set_eq_iff, simp_all add: DetachAcknowledge_order_def DetachAcknowledge_lens_def)

lemma DetachAcknowledge_Marshal_eq: "DetachAcknowledge_Marshal m = msg_Marshal DetachAcknowledge_order DetachAcknowledge_lens m"
  by (simp add: DetachAcknowledge_Marshal_def DetachAcknowledge_MarshalTo_def DetachAcknowledge_MarshalLen_def msg_Marshal_def)

section \<open>DownlinkDataNotification\<close>

datatype DownlinkDataNotification_field =
    DownlinkDataNotification_Cause | DownlinkDataNotification_EPSBearerID
    | DownlinkDataNotification_AllocationRetensionPriority | DownlinkDataNotification_IMSI
    | DownlinkDataNotification_SenderFTEIDC | DownlinkDataNotification_IndicationFlags
    | DownlinkDataNotification_SGWNodeLoadControlInformation
    | DownlinkDataNotification_SGWOverloadControlInformation
    | DownlinkDataNotification_PagingAndServiceInformation
    | DownlinkDataNotification_DLDataPacketsSize | DownlinkDataNotification_PrivateExtension

definition DownlinkDataNotification_switch :: "DownlinkDataNotification_field switch" where
  "DownlinkDataNotification_switch t n = (
     if t = IE_Cause then Slot DownlinkDataNotification_Cause
     else if t = IE_EPSBearerID then Slot DownlinkDataNotification_EPSBearerID
     else if t = IE_AllocationRetensionPriority then Slot DownlinkDataNotification_AllocationRetensionPriority
     else if t = IE_IMSI then Slot DownlinkDataNotification_IMSI
     else if t = IE_FullyQualifiedTEID then Slot DownlinkDataNotification_SenderFTEIDC
     else if t = IE_Indication then Slot DownlinkDataNotification_IndicationFlags
     else if t = IE_LoadControlInformation then Slot DownlinkDataNotification_SGWNodeLoadControlInformation
     else if t = IE_OverloadControlInformation then Slot DownlinkDataNotification_SGWOverloadControlInformation
     else if t = IE_PagingAndServiceInformation then Slot DownlinkDataNotification_PagingAndServiceInformation
     else if t = IE_IntegerNumber then Slot DownlinkDataNotification_DLDataPacketsSize
     else if t = IE_PrivateExtension then Slot DownlinkDataNotification_PrivateExtension
     else Additional)"

definition DownlinkDataNotification_order :: "DownlinkDataNotification_field list" where
  "DownlinkDataNotification_order = [
    DownlinkDataNotification_Cause, DownlinkDataNotification_EPSBearerID,
    DownlinkDataNotification_AllocationRetensionPriority, DownlinkDataNotification_IMSI,
    DownlinkDataNotification_SenderFTEIDC, DownlinkDataNotification_IndicationFlags,
    DownlinkDataNotification_SGWNodeLoadControlInformation,
    DownlinkDataNotification_SGWOverloadControlInformation,
    DownlinkDataNotification_PagingAndServiceInformation,
    DownlinkDataNotification_DLDataPacketsSize, DownlinkDataNotification_PrivateExtension]"

definition DownlinkDataNotification_lens :: "DownlinkDataNotification_field list" where
  "DownlinkDataNotification_lens = [
    DownlinkDataNotification_Cause, DownlinkDataNotification_EPSBearerID,
    DownlinkDataNotification_AllocationRetensionPriority, DownlinkDataNotification_IMSI,
    DownlinkDataNotification_SenderFTEIDC, DownlinkDataNotification_IndicationFlags,
    DownlinkDataNotification_SGWNodeLoadControlInformation,
    DownlinkDataNotification_SGWOverloadControlInformation,
    DownlinkDataNotification_PagingAndServiceInformation,
    DownlinkDataNotification_DLDataPacketsSize, DownlinkDataNotification_PrivateExtension]"

definition NewDownlinkDataNotification :: "u32 \<Rightarrow> u32 \<Rightarrow> ie option list \<Rightarrow> DownlinkDataNotification_field v2_msg" where
  "NewDownlinkDataNotification teid seq ies =
     msg_New DownlinkDataNotification_switch DownlinkDataNotification_lens (NewHeaderFlags 2 0 1) MsgTypeDownlinkDataNotification teid seq ies"

definition DownlinkDataNotification_MarshalLen :: "DownlinkDataNotification_field v2_msg \<Rightarrow> nat" where
  "DownlinkDataNotification_MarshalLen m = msg_MarshalLen DownlinkDataNotification_lens m"

definition DownlinkDataNotification_MarshalTo :: "DownlinkDataNotification_field v2_msg \<Rightarrow> bytes \<Rightarrow> (bytes \<times> DownlinkDataNotification_field v2_msg) result" where
  "DownlinkDataNotification_MarshalTo m b = msg_MarshalTo DownlinkDataNotification_order DownlinkDataNotification_lens m b"

definition DownlinkDataNotification_Marshal :: "DownlinkDataNotification_field v2_msg \<Rightarrow> (bytes \<times> DownlinkDataNotification_field v2_msg) result" where
  "DownlinkDataNotification_Marshal m = DownlinkDataNotification_MarshalTo m (replicate (DownlinkDataNotification_MarshalLen m) 0)"

definition DownlinkDataNotification_UnmarshalBinary :: "bytes \<Rightarrow> DownlinkDataNotification_field v2_msg result" where
  "DownlinkDataNotification_UnmarshalBinary b = msg_UnmarshalBinary DownlinkDataNotification_switch b"

lemma DownlinkDataNotification_all_fields: "s \<in> set DownlinkDataNotification_order" "s \<in> set DownlinkDataNotification_lens"
  by (cases s; simp add: DownlinkDataNotification_order_def DownlinkDataNotification_lens_def)+

interpretation downlinkDataNotification: message_layout DownlinkDataNotification_switch DownlinkDataNotification_order DownlinkDataNotification_lens
  by unfold_locales
     (simp_all add: DownlinkDataNotification_all_fields set_eq_iff, simp_all add: DownlinkDataNotification_order_def DownlinkDataNotification_lens_def)

lemma DownlinkDataNotification_Marshal_eq: "DownlinkDataNotification_Marshal m = msg_Marshal DownlinkDataNotification_order DownlinkDataNotification_lens m"
  by (simp add: DownlinkDataNotification_Marshal_def DownlinkDataNotification_MarshalTo_def DownlinkDataNotification_MarshalLen_def msg_Marshal_def)

section \<open>DownlinkDataNotificationAcknowledge\<close>

datatype DownlinkDataNotificationAcknowledge_field =
    DownlinkDataNotificationAcknowledge_Cause
    | DownlinkDataNotificationAcknowledge_DataNotificationDelay
    | DownlinkDataNotificationAcknowledge_Recovery
    | DownlinkDataNotificationAcknowledge_DLLowPriorityTrafficThrottling
    | DownlinkDataNotificationAcknowledge_IMSI
    | DownlinkDataNotificationAcknowledge_DLBufferingDuration
    | DownlinkDataNotificationAcknowledge_DLBufferingSuggestedPacketCount
    | DownlinkDataNotificationAcknowledge_PrivateExtension

definition DownlinkDataNotificationAcknowledge_switch :: "DownlinkDataNotificationAcknowledge_field switch" where
  "DownlinkDataNotificationAcknowledge_switch t n = (
     if t = IE_Cause then Slot DownlinkDataNotificationAcknowledge_Cause
     else if t = IE_DelayValue then Slot DownlinkDataNotificationAcknowledge_DataNotificationDelay
     else if t = IE_Recovery then Slot DownlinkDataNotificationAcknowledge_Recovery
     else if t = IE_Throttling then Slot DownlinkDataNotificationAcknowledge_DLLowPriorityTrafficThrottling
     else if t = IE_IMSI then Slot DownlinkDataNotificationAcknowledge_IMSI
     else if t = IE_EPCTimer then Slot DownlinkDataNotificationAcknowledge_DLBufferingDuration
     else if t = IE_IntegerNumber then Slot DownlinkDataNotificationAcknowledge_DLBufferingSuggestedPacketCount
     else if t = IE_PrivateExtension then Slot DownlinkDataNotificationAcknowledge_PrivateExtension
     else Additional)"

definition DownlinkDataNotificationAcknowledge_order :: "DownlinkDataNotificationAcknowledge_field list" where
  "DownlinkDataNotificationAcknowledge_order = [
    DownlinkDataNotificationAcknowledge_Cause,
    DownlinkDataNotificationAcknowledge_DataNotificationDelay,
    DownlinkDataNotificationAcknowledge_Recovery,
    DownlinkDataNotificationAcknowledge_DLLowPriorityTrafficThrottling,
    DownlinkDataNotificationAcknowledge_IMSI,
    DownlinkDataNotificationAcknowledge_DLBufferingDuration,
    DownlinkDataNotificationAcknowledge_DLBufferingSuggestedPacketCount,
    DownlinkDataNotificationAcknowledge_PrivateExtension]"

definition DownlinkDataNotificationAcknowledge_lens :: "DownlinkDataNotificationAcknowledge_field list" where
  "DownlinkDataNotificationAcknowledge_lens = [
    DownlinkDataNotificationAcknowledge_Cause,
    DownlinkDataNotificationAcknowledge_DataNotificationDelay,
    DownlinkDataNotificationAcknowledge_Recovery,
    DownlinkDataNotificationAcknowledge_DLLowPriorityTrafficThrottling,
    DownlinkDataNotificationAcknowledge_IMSI,
    DownlinkDataNotificationAcknowledge_DLBufferingDuration,
    DownlinkDataNotificationAcknowledge_DLBufferingSuggestedPacketCount,
    DownlinkDataNotificationAcknowledge_PrivateExtension]"

definition NewDownlinkDataNotificationAcknowledge :: "u32 \<Rightarrow> u32 \<Rightarrow> ie option list \<Rightarrow> DownlinkDataNotificationAcknowledge_field v2_msg" where
  "NewDownlinkDataNotificationAcknowledge teid seq ies =
     msg_New DownlinkDataNotificationAcknowledge_switch DownlinkDataNotificationAcknowledge_lens (NewHeaderFlags 2 0 1) MsgTypeDownlinkDataNotificationAcknowledge teid seq ies"

definition DownlinkDataNotificationAcknowledge_MarshalLen :: "DownlinkDataNotificationAcknowledge_field v2_msg \<Rightarrow> nat" where
  "DownlinkDataNotificationAcknowledge_MarshalLen m = msg_MarshalLen DownlinkDataNotificationAcknowledge_lens m"

definition DownlinkDataNotificationAcknowledge_MarshalTo :: "DownlinkDataNotificationAcknowledge_field v2_msg \<Rightarrow> bytes \<Rightarrow> (bytes \<times> DownlinkDataNotificationAcknowledge_field v2_msg) result" where
  "DownlinkDataNotificationAcknowledge_MarshalTo m b = msg_MarshalTo DownlinkDataNotificationAcknowledge_order DownlinkDataNotificationAcknowledge_lens m b"

definition DownlinkDataNotificationAcknowledge_Marshal :: "DownlinkDataNotificationAcknowledge_field v2_msg \<Rightarrow> (bytes \<times> DownlinkDataNotificationAcknowledge_field v2_msg) result" where
  "DownlinkDataNotificationAcknowledge_Marshal m = DownlinkDataNotificationAcknowledge_MarshalTo m (replicate (DownlinkDataNotificationAcknowledge_MarshalLen m) 0)"

definition DownlinkDataNotificationAcknowledge_UnmarshalBinary :: "bytes \<Rightarrow> DownlinkDataNotificationAcknowledge_field v2_msg result" where
  "DownlinkDataNotificationAcknowledge_UnmarshalBinary b = msg_UnmarshalBinary DownlinkDataNotificationAcknowledge_switch b"

lemma DownlinkDataNotificationAcknowledge_all_fields: "s \<in> set DownlinkDataNotificationAcknowledge_order" "s \<in> set DownlinkDataNotificationAcknowledge_lens"
  by (cases s; simp add: DownlinkDataNotificationAcknowledge_order_def DownlinkDataNotificationAcknowledge_lens_def)+

interpretation downlinkDataNotificationAcknowledge: message_layout DownlinkDataNotificationAcknowledge_switch DownlinkDataNotificationAcknowledge_order DownlinkDataNotificationAcknowledge_lens
  by unfold_locales
     (simp_all add: DownlinkDataNotificationAcknowledge_all_fields set_eq_iff, simp_all add: DownlinkDataNotificationAcknowledge_order_def DownlinkDataNotificationAcknowledge_lens_def)

lemma DownlinkDataNotificationAcknowledge_Marshal_eq: "DownlinkDataNotificationAcknowledge_Marshal m = msg_Marshal DownlinkDataNotificationAcknowledge_order DownlinkDataNotificationAcknowledge_lens m"
  by (simp add: DownlinkDataNotificationAcknowledge_Marshal_def DownlinkDataNotificationAcknowledge_MarshalTo_def DownlinkDataNotificationAcknowledge_MarshalLen_def msg_Marshal_def)

section \<open>DownlinkDataNotificationFailureIndication\<close>

datatype DownlinkDataNotificationFailureIndication_field =
    DownlinkDataNotificationFailureIndication_Cause
    | DownlinkDataNotificationFailureIndication_OriginatingNode
    | DownlinkDataNotificationFailureIndication_IMSI
    | DownlinkDataNotificationFailureIndication_PrivateExtension

definition DownlinkDataNotificationFailureIndication_switch :: "DownlinkDataNotificationFailureIndication_field switch" where
  "DownlinkDataNotificationFailureIndication_switch t n = (
     if t = IE_Cause then Slot DownlinkDataNotificationFailureIndication_Cause
     else if t = IE_NodeType then Slot DownlinkDataNotificationFailureIndication_OriginatingNode
     else if t = IE_IMSI then Slot DownlinkDataNotificationFailureIndication_IMSI
     else if t = IE_PrivateExtension then Slot DownlinkDataNotificationFailureIndication_PrivateExtension
     else Additional)"

definition DownlinkDataNotificationFailureIndication_order :: "DownlinkDataNotificationFailureIndication_field list" where
  "DownlinkDataNotificationFailureIndication_order = [
    DownlinkDataNotificationFailureIndication_Cause,
    DownlinkDataNotificationFailureIndication_OriginatingNode,
    DownlinkDataNotificationFailureIndication_IMSI,
    DownlinkDataNotificationFailureIndication_PrivateExtension]"

definition DownlinkDataNotificationFailureIndication_lens :: "DownlinkDataNotificationFailureIndication_field list" where
  "DownlinkDataNotificationFailureIndication_lens = [
    DownlinkDataNotificationFailureIndication_Cause,
    DownlinkDataNotificationFailureIndication_OriginatingNode,
    DownlinkDataNotificationFailureIndication_IMSI,
    DownlinkDataNotificationFailureIndication_PrivateExtension]"

definition NewDownlinkDataNotificationFailureIndication :: "u32 \<Rightarrow> u32 \<Rightarrow> ie option list \<Rightarrow> DownlinkDataNotificationFailureIndication_field v2_msg" where
  "NewDownlinkDataNotificationFailureIndication teid seq ies =
     msg_New DownlinkDataNotificationFailureIndication_switch DownlinkDataNotificationFailureIndication_lens (NewHeaderFlags 2 0 1) MsgTypeDownlinkDataNotificationFailureIndication teid seq ies"

definition DownlinkDataNotificationFailureIndication_MarshalLen :: "DownlinkDataNotificationFailureIndication_field v2_msg \<Rightarrow> nat" where
  "DownlinkDataNotificationFailureIndication_MarshalLen m = msg_MarshalLen DownlinkDataNotificationFailureIndication_lens m"

definition DownlinkDataNotificationFailureIndication_MarshalTo :: "DownlinkDataNotificationFailureIndication_field v2_msg \<Rightarrow> bytes \<Rightarrow> (bytes \<times> DownlinkDataNotificationFailureIndication_field v2_msg) result" where
  "DownlinkDataNotificationFailureIndication_MarshalTo m b = msg_MarshalTo DownlinkDataNotificationFailureIndication_order DownlinkDataNotificationFailureIndication_lens m b"

definition DownlinkDataNotificationFailureIndication_Marshal :: "DownlinkDataNotificationFailureIndication_field v2_msg \<Rightarrow> (bytes \<times> DownlinkDataNotificationFailureIndication_field v2_msg) result" where
  "DownlinkDataNotificationFailureIndication_Marshal m = DownlinkDataNotificationFailureIndication_MarshalTo m (replicate (DownlinkDataNotificationFailureIndication_MarshalLen m) 0)"

definition DownlinkDataNotificationFailureIndication_UnmarshalBinary :: "bytes \<Rightarrow> DownlinkDataNotificationFailureIndication_field v2_msg result" where
  "DownlinkDataNotificationFailureIndication_UnmarshalBinary b = msg_UnmarshalBinary DownlinkDataNotificationFailureIndication_switch b"

lemma DownlinkDataNotificationFailureIndication_all_fields: "s \<in> set DownlinkDataNotificationFailureIndication_order" "s \<in> set DownlinkDataNotificationFailureIndication_lens"
  by (cases s; simp add: DownlinkDataNotificationFailureIndication_order_def DownlinkDataNotificationFailureIndication_lens_def)+

interpretation downlinkDataNotificationFailureIndication: message_layout DownlinkDataNotificationFailureIndication_switch DownlinkDataNotificationFailureIndication_order DownlinkDataNotificationFailureIndication_lens
  by unfold_locales
     (simp_all add: DownlinkDataNotificationFailureIndication_all_fields set_eq_iff, simp_all add: DownlinkDataNotificationFailureIndication_order_def DownlinkDataNotificationFailureIndication_lens_def)

lemma DownlinkDataNotificationFailureIndication_Marshal_eq: "DownlinkDataNotificationFailureIndication_Marshal m = msg_Marshal DownlinkDataNotificationFailureIndication_order DownlinkDataNotificationFailureIndication_lens m"
  by (simp add: DownlinkDataNotificationFailureIndication_Marshal_def DownlinkDataNotificationFailureIndication_MarshalTo_def DownlinkDataNotificationFailureIndication_MarshalLen_def msg_Marshal_def)

end
