(* ===== verification/V2MsgPdn.thy ===== *)
theory V2MsgPdn
  imports V2Message V2IETypes
begin

text \<open>
  The GTPv2 message types of the messages about sets of PDN connections, the restart notifications
  and the context transfer messages of the mobility procedures:
  \<open>DeletePDNConnectionSetRequest\<close> (\<open>delete-pdn-connection-set-req.go\<close>),
  \<open>DeletePDNConnectionSetResponse\<close> (\<open>delete-pdn-connection-set-res.go\<close>),
  \<open>UpdatePDNConnectionSetRequest\<close> (\<open>update-pdn-connection-set-req.go\<close>),
  \<open>UpdatePDNConnectionSetResponse\<close> (\<open>update-pdn-connection-set-res.go\<close>),
  \<open>PGWRestartNotification\<close> (\<open>pgw-restart-notification.go\<close>),
  \<open>PGWRestartNotificationAcknowledge\<close>
  (\<open>pgw-restart-notification-acknowledge.go\<close>), \<open>ContextRequest\<close>
  (\<open>context-req.go\<close>), \<open>ContextAcknowledge\<close>
  (\<open>context-ack.go\<close>). For each of them: its fields, the switch of its decoder (and of
  its constructor where the two differ), the orders in which MarshalTo and MarshalLen visit the
  fields, the methods built from them, and the interpretation of the contract of
  \<open>V2Message\<close>.
\<close>

abbreviation MsgTypeDeletePDNConnectionSetRequest :: byte where
  "MsgTypeDeletePDNConnectionSetRequest \<equiv> 101"

abbreviation MsgTypeDeletePDNConnectionSetResponse :: byte where
  "MsgTypeDeletePDNConnectionSetResponse \<equiv> 102"

abbreviation MsgTypeContextRequest :: byte where
  "MsgTypeContextRequest \<equiv> 130"

abbreviation MsgTypeContextAcknowledge :: byte where
  "MsgTypeContextAcknowledge \<equiv> 132"

abbreviation MsgTypePGWRestartNotification :: byte where
  "MsgTypePGWRestartNotification \<equiv> 179"

abbreviation MsgTypePGWRestartNotificationAcknowledge :: byte where
  "MsgTypePGWRestartNotificationAcknowledge \<equiv> 180"

abbreviation MsgTypeUpdatePDNConnectionSetRequest :: byte where
  "MsgTypeUpdatePDNConnectionSetRequest \<equiv> 200"

abbreviation MsgTypeUpdatePDNConnectionSetResponse :: byte where
  "MsgTypeUpdatePDNConnectionSetResponse \<equiv> 201"

section \<open>DeletePDNConnectionSetRequest\<close>

datatype DeletePDNConnectionSetRequest_field =
    DeletePDNConnectionSetRequest_MMEFQCSID | DeletePDNConnectionSetRequest_SGWFQCSID
    | DeletePDNConnectionSetRequest_PGWFQCSID | DeletePDNConnectionSetRequest_EPDGFQCSID
    | DeletePDNConnectionSetRequest_TWANFQCSID | DeletePDNConnectionSetRequest_PrivateExtension

definition DeletePDNConnectionSetRequest_switch :: "DeletePDNConnectionSetRequest_field switch" where
  "DeletePDNConnectionSetRequest_switch t n = (
     if t = IE_FullyQualifiedCSID then 
         (if n = 0 then Slot DeletePDNConnectionSetRequest_MMEFQCSID
          else if n = 1 then Slot DeletePDNConnectionSetRequest_SGWFQCSID
          else if n = 2 then Slot DeletePDNConnectionSetRequest_PGWFQCSID
          else if n = 3 then Slot DeletePDNConnectionSetRequest_EPDGFQCSID
          else if n = 4 then Slot DeletePDNConnectionSetRequest_TWANFQCSID
          else Additional)
     else if t = IE_PrivateExtension then Slot DeletePDNConnectionSetRequest_PrivateExtension
     else Additional)"

definition DeletePDNConnectionSetRequest_order :: "DeletePDNConnectionSetRequest_field list" where
  "DeletePDNConnectionSetRequest_order = [
    DeletePDNConnectionSetRequest_MMEFQCSID, DeletePDNConnectionSetRequest_SGWFQCSID,
    DeletePDNConnectionSetRequest_PGWFQCSID, DeletePDNConnectionSetRequest_EPDGFQCSID,
    DeletePDNConnectionSetRequest_TWANFQCSID, DeletePDNConnectionSetRequest_PrivateExtension]"

definition DeletePDNConnectionSetRequest_lens :: "DeletePDNConnectionSetRequest_field list" where
  "DeletePDNConnectionSetRequest_lens = [
    DeletePDNConnectionSetRequest_MMEFQCSID, DeletePDNConnectionSetRequest_SGWFQCSID,
    DeletePDNConnectionSetRequest_PGWFQCSID, DeletePDNConnectionSetRequest_EPDGFQCSID,
    DeletePDNConnectionSetRequest_TWANFQCSID, DeletePDNConnectionSetRequest_PrivateExtension]"

definition NewDeletePDNConnectionSetRequest :: "u32 \<Rightarrow> u32 \<Rightarrow> ie option list \<Rightarrow> DeletePDNConnectionSetRequest_field v2_msg" where
  "NewDeletePDNConnectionSetRequest teid seq ies =
     msg_New DeletePDNConnectionSetRequest_switch DeletePDNConnectionSetRequest_lens (NewHeaderFlags 2 0 1) MsgTypeDeletePDNConnectionSetRequest teid seq ies"

definition DeletePDNConnectionSetRequest_MarshalLen :: "DeletePDNConnectionSetRequest_field v2_msg \<Rightarrow> nat" where
  "DeletePDNConnectionSetRequest_MarshalLen m = msg_MarshalLen DeletePDNConnectionSetRequest_lens m"

definition DeletePDNConnectionSetRequest_MarshalTo :: "DeletePDNConnectionSetRequest_field v2_msg \<Rightarrow> bytes \<Rightarrow> (bytes \<times> DeletePDNConnectionSetRequest_field v2_msg) result" where
  "DeletePDNConnectionSetRequest_MarshalTo m b = msg_MarshalTo DeletePDNConnectionSetRequest_order DeletePDNConnectionSetRequest_lens m b"

definition DeletePDNConnectionSetRequest_Marshal :: "DeletePDNConnectionSetRequest_field v2_msg \<Rightarrow> (bytes \<times> DeletePDNConnectionSetRequest_field v2_msg) result" where
  "DeletePDNConnectionSetRequest_Marshal m = DeletePDNConnectionSetRequest_MarshalTo m (replicate (DeletePDNConnectionSetRequest_MarshalLen m) 0)"

definition DeletePDNConnectionSetRequest_UnmarshalBinary :: "bytes \<Rightarrow> DeletePDNConnectionSetRequest_field v2_msg result" where
  "DeletePDNConnectionSetRequest_UnmarshalBinary b = msg_UnmarshalBinary DeletePDNConnectionSetRequest_switch b"

lemma DeletePDNConnectionSetRequest_all_fields: "s \<in> set DeletePDNConnectionSetRequest_order" "s \<in> set DeletePDNConnectionSetRequest_lens"
  by (cases s; simp add: DeletePDNConnectionSetRequest_order_def DeletePDNConnectionSetRequest_lens_def)+

interpretation deletePDNConnectionSetRequest: message_layout DeletePDNConnectionSetRequest_switch DeletePDNConnectionSetRequest_order DeletePDNConnectionSetRequest_lens
  by unfold_locales
     (simp_all add: DeletePDNConnectionSetRequest_all_fields set_eq_iff, simp_all add: DeletePDNConnectionSetRequest_order_def DeletePDNConnectionSetRequest_lens_def)

lemma DeletePDNConnectionSetRequest_Marshal_eq: "DeletePDNConnectionSetRequest_Marshal m = msg_Marshal DeletePDNConnectionSetRequest_order DeletePDNConnectionSetRequest_lens m"
  by (simp add: DeletePDNConnectionSetRequest_Marshal_def DeletePDNConnectionSetRequest_MarshalTo_def DeletePDNConnectionSetRequest_MarshalLen_def msg_Marshal_def)

section \<open>DeletePDNConnectionSetResponse\<close>

datatype DeletePDNConnectionSetResponse_field =
    DeletePDNConnectionSetResponse_Cause | DeletePDNConnectionSetResponse_Recovery
    | DeletePDNConnectionSetResponse_PrivateExtension

definition DeletePDNConnectionSetResponse_switch :: "DeletePDNConnectionSetResponse_field switch" where
  "DeletePDNConnectionSetResponse_switch t n = (
     if t = IE_Cause then Slot DeletePDNConnectionSetResponse_Cause
     else if t = IE_Recovery then Slot DeletePDNConnectionSetResponse_Recovery
     else if t = IE_PrivateExtension then Slot DeletePDNConnectionSetResponse_PrivateExtension
     else Additional)"

definition DeletePDNConnectionSetResponse_order :: "DeletePDNConnectionSetResponse_field list" where
  "DeletePDNConnectionSetResponse_order = [
    DeletePDNConnectionSetResponse_Cause, DeletePDNConnectionSetResponse_Recovery,
    DeletePDNConnectionSetResponse_PrivateExtension]"

definition DeletePDNConnectionSetResponse_lens :: "DeletePDNConnectionSetResponse_field list" where
  "DeletePDNConnectionSetResponse_lens = [
    DeletePDNConnectionSetResponse_Cause, DeletePDNConnectionSetResponse_Recovery,
    DeletePDNConnectionSetResponse_PrivateExtension]"

definition NewDeletePDNConnectionSetResponse :: "u32 \<Rightarrow> u32 \<Rightarrow> ie option list \<Rightarrow> DeletePDNConnectionSetResponse_field v2_msg" where
  "NewDeletePDNConnectionSetResponse teid seq ies =
     msg_New DeletePDNConnectionSetResponse_switch DeletePDNConnectionSetResponse_lens (NewHeaderFlags 2 0 1) MsgTypeDeletePDNConnectionSetResponse teid seq ies"

definition DeletePDNConnectionSetResponse_MarshalLen :: "DeletePDNConnectionSetResponse_field v2_msg \<Rightarrow> nat" where
  "DeletePDNConnectionSetResponse_MarshalLen m = msg_MarshalLen DeletePDNConnectionSetResponse_lens m"

definition DeletePDNConnectionSetResponse_MarshalTo :: "DeletePDNConnectionSetResponse_field v2_msg \<Rightarrow> bytes \<Rightarrow> (bytes \<times> DeletePDNConnectionSetResponse_field v2_msg) result" where
  "DeletePDNConnectionSetResponse_MarshalTo m b = msg_MarshalTo DeletePDNConnectionSetResponse_order DeletePDNConnectionSetResponse_lens m b"

definition DeletePDNConnectionSetResponse_Marshal :: "DeletePDNConnectionSetResponse_field v2_msg \<Rightarrow> (bytes \<times> DeletePDNConnectionSetResponse_field v2_msg) result" where
  "DeletePDNConnectionSetResponse_Marshal m = DeletePDNConnectionSetResponse_MarshalTo m (replicate (DeletePDNConnectionSetResponse_MarshalLen m) 0)"

definition DeletePDNConnectionSetResponse_UnmarshalBinary :: "bytes \<Rightarrow> DeletePDNConnectionSetResponse_field v2_msg result" where
  "DeletePDNConnectionSetResponse_UnmarshalBinary b = msg_UnmarshalBinary DeletePDNConnectionSetResponse_switch b"

lemma DeletePDNConnectionSetResponse_all_fields: "s \<in> set DeletePDNConnectionSetResponse_order" "s \<in> set DeletePDNConnectionSetResponse_lens"
  by (cases s; simp add: DeletePDNConnectionSetResponse_order_def DeletePDNConnectionSetResponse_lens_def)+

interpretation deletePDNConnectionSetResponse: message_layout DeletePDNConnectionSetResponse_switch DeletePDNConnectionSetResponse_order DeletePDNConnectionSetResponse_lens
  by unfold_locales
     (simp_all add: DeletePDNConnectionSetResponse_all_fields set_eq_iff, simp_all add: DeletePDNConnectionSetResponse_order_def DeletePDNConnectionSetResponse_lens_def)

lemma DeletePDNConnectionSetResponse_Marshal_eq: "DeletePDNConnectionSetResponse_Marshal m = msg_Marshal DeletePDNConnectionSetResponse_order DeletePDNConnectionSetResponse_lens m"
  by (simp add: DeletePDNConnectionSetResponse_Marshal_def DeletePDNConnectionSetResponse_MarshalTo_def DeletePDNConnectionSetResponse_MarshalLen_def msg_Marshal_def)

section \<open>UpdatePDNConnectionSetRequest\<close>

datatype UpdatePDNConnectionSetRequest_field =
    UpdatePDNConnectionSetRequest_MMEFQCSID | UpdatePDNConnectionSetRequest_SGWFQCSID
    | UpdatePDNConnectionSetRequest_PrivateExtension

definition UpdatePDNConnectionSetRequest_switch :: "UpdatePDNConnectionSetRequest_field switch" where
  "UpdatePDNConnectionSetRequest_switch t n = (
     if t = IE_FullyQualifiedCSID then 
         (if n = 0 then Slot UpdatePDNConnectionSetRequest_MMEFQCSID
          else if n = 1 then Slot UpdatePDNConnectionSetRequest_SGWFQCSID
          else Additional)
     else if t = IE_PrivateExtension then Slot UpdatePDNConnectionSetRequest_PrivateExtension
     else Additional)"

definition UpdatePDNConnectionSetRequest_order :: "UpdatePDNConnectionSetRequest_field list" where
  "UpdatePDNConnectionSetRequest_order = [
    UpdatePDNConnectionSetRequest_MMEFQCSID, UpdatePDNConnectionSetRequest_SGWFQCSID,
    UpdatePDNConnectionSetRequest_PrivateExtension]"

definition UpdatePDNConnectionSetRequest_lens :: "UpdatePDNConnectionSetRequest_field list" where
  "UpdatePDNConnectionSetRequest_lens = [
    UpdatePDNConnectionSetRequest_MMEFQCSID, UpdatePDNConnectionSetRequest_SGWFQCSID,
    UpdatePDNConnectionSetRequest_PrivateExtension]"

definition NewUpdatePDNConnectionSetRequest :: "u32 \<Rightarrow> u32 \<Rightarrow> ie option list \<Rightarrow> UpdatePDNConnectionSetRequest_field v2_msg" where
  "NewUpdatePDNConnectionSetRequest teid seq ies =
     msg_New UpdatePDNConnectionSetRequest_switch UpdatePDNConnectionSetRequest_lens (NewHeaderFlags 2 0 1) MsgTypeUpdatePDNConnectionSetRequest teid seq ies"

definition UpdatePDNConnectionSetRequest_MarshalLen :: "UpdatePDNConnectionSetRequest_field v2_msg \<Rightarrow> nat" where
  "UpdatePDNConnectionSetRequest_MarshalLen m = msg_MarshalLen UpdatePDNConnectionSetRequest_lens m"

definition UpdatePDNConnectionSetRequest_MarshalTo :: "UpdatePDNConnectionSetRequest_field v2_msg \<Rightarrow> bytes \<Rightarrow> (bytes \<times> UpdatePDNConnectionSetRequest_field v2_msg) result" where
  "UpdatePDNConnectionSetRequest_MarshalTo m b = msg_MarshalTo UpdatePDNConnectionSetRequest_order UpdatePDNConnectionSetRequest_lens m b"

definition UpdatePDNConnectionSetRequest_Marshal :: "UpdatePDNConnectionSetRequest_field v2_msg \<Rightarrow> (bytes \<times> UpdatePDNConnectionSetRequest_field v2_msg) result" where
  "UpdatePDNConnectionSetRequest_Marshal m = UpdatePDNConnectionSetRequest_MarshalTo m (replicate (UpdatePDNConnectionSetRequest_MarshalLen m) 0)"

definition UpdatePDNConnectionSetRequest_UnmarshalBinary :: "bytes \<Rightarrow> UpdatePDNConnectionSetRequest_field v2_msg result" where
  "UpdatePDNConnectionSetRequest_UnmarshalBinary b = msg_UnmarshalBinary UpdatePDNConnectionSetRequest_switch b"

lemma UpdatePDNConnectionSetRequest_all_fields: "s \<in> set UpdatePDNConnectionSetRequest_order" "s \<in> set UpdatePDNConnectionSetRequest_lens"
  by (cases s; simp add: UpdatePDNConnectionSetRequest_order_def UpdatePDNConnectionSetRequest_lens_def)+

interpretation updatePDNConnectionSetRequest: message_layout UpdatePDNConnectionSetRequest_switch UpdatePDNConnectionSetRequest_order UpdatePDNConnectionSetRequest_lens
  by unfold_locales
     (simp_all add: UpdatePDNConnectionSetRequest_all_fields set_eq_iff, simp_all add: UpdatePDNConnectionSetRequest_order_def UpdatePDNConnectionSetRequest_lens_def)

lemma UpdatePDNConnectionSetRequest_Marshal_eq: "UpdatePDNConnectionSetRequest_Marshal m = msg_Marshal UpdatePDNConnectionSetRequest_order UpdatePDNConnectionSetRequest_lens m"
  by (simp add: UpdatePDNConnectionSetRequest_Marshal_def UpdatePDNConnectionSetRequest_MarshalTo_def UpdatePDNConnectionSetRequest_MarshalLen_def msg_Marshal_def)

section \<open>UpdatePDNConnectionSetResponse\<close>

datatype UpdatePDNConnectionSetResponse_field =
    UpdatePDNConnectionSetResponse_Cause | UpdatePDNConnectionSetResponse_PGWFQCSID
    | UpdatePDNConnectionSetResponse_Recovery | UpdatePDNConnectionSetResponse_PrivateExtension

definition UpdatePDNConnectionSetResponse_switch :: "UpdatePDNConnectionSetResponse_field switch" where
  "UpdatePDNConnectionSetResponse_switch t n = (
     if t = IE_Cause then Slot UpdatePDNConnectionSetResponse_Cause
     else if t = IE_FullyQualifiedCSID then Slot UpdatePDNConnectionSetResponse_PGWFQCSID
     else if t = IE_Recovery then Slot UpdatePDNConnectionSetResponse_Recovery
     else if t = IE_PrivateExtension then Slot UpdatePDNConnectionSetResponse_PrivateExtension
     else Additional)"

definition UpdatePDNConnectionSetResponse_order :: "UpdatePDNConnectionSetResponse_field list" where
  "UpdatePDNConnectionSetResponse_order = [
    UpdatePDNConnectionSetResponse_Cause, UpdatePDNConnectionSetResponse_PGWFQCSID,
    UpdatePDNConnectionSetResponse_Recovery, UpdatePDNConnectionSetResponse_PrivateExtension]"

definition UpdatePDNConnectionSetResponse_lens :: "UpdatePDNConnectionSetResponse_field list" where
  "UpdatePDNConnectionSetResponse_lens = [
    UpdatePDNConnectionSetResponse_Cause, UpdatePDNConnectionSetResponse_PGWFQCSID,
    UpdatePDNConnectionSetResponse_Recovery, UpdatePDNConnectionSetResponse_PrivateExtension]"

definition NewUpdatePDNConnectionSetResponse :: "u32 \<Rightarrow> u32 \<Rightarrow> ie option list \<Rightarrow> UpdatePDNConnectionSetResponse_field v2_msg" where
  "NewUpdatePDNConnectionSetResponse teid seq ies =
     msg_New UpdatePDNConnectionSetResponse_switch UpdatePDNConnectionSetResponse_lens (NewHeaderFlags 2 0 1) MsgTypeUpdatePDNConnectionSetResponse teid seq ies"

definition UpdatePDNConnectionSetResponse_MarshalLen :: "UpdatePDNConnectionSetResponse_field v2_msg \<Rightarrow> nat" where
  "UpdatePDNConnectionSetResponse_MarshalLen m = msg_MarshalLen UpdatePDNConnectionSetResponse_lens m"

definition UpdatePDNConnectionSetResponse_MarshalTo :: "UpdatePDNConnectionSetResponse_field v2_msg \<Rightarrow> bytes \<Rightarrow> (bytes \<times> UpdatePDNConnectionSetResponse_field v2_msg) result" where
  "UpdatePDNConnectionSetResponse_MarshalTo m b = msg_MarshalTo UpdatePDNConnectionSetResponse_order UpdatePDNConnectionSetResponse_lens m b"

definition UpdatePDNConnectionSetResponse_Marshal :: "UpdatePDNConnectionSetResponse_field v2_msg \<Rightarrow> (bytes \<times> UpdatePDNConnectionSetResponse_field v2_msg) result" where
  "UpdatePDNConnectionSetResponse_Marshal m = UpdatePDNConnectionSetResponse_MarshalTo m (replicate (UpdatePDNConnectionSetResponse_MarshalLen m) 0)"

definition UpdatePDNConnectionSetResponse_UnmarshalBinary :: "bytes \<Rightarrow> UpdatePDNConnectionSetResponse_field v2_msg result" where
  "UpdatePDNConnectionSetResponse_UnmarshalBinary b = msg_UnmarshalBinary UpdatePDNConnectionSetResponse_switch b"

lemma UpdatePDNConnectionSetResponse_all_fields: "s \<in> set UpdatePDNConnectionSetResponse_order" "s \<in> set UpdatePDNConnectionSetResponse_lens"
  by (cases s; simp add: UpdatePDNConnectionSetResponse_order_def UpdatePDNConnectionSetResponse_lens_def)+

interpretation updatePDNConnectionSetResponse: message_layout UpdatePDNConnectionSetResponse_switch UpdatePDNConnectionSetResponse_order UpdatePDNConnectionSetResponse_lens
  by unfold_locales
     (simp_all add: UpdatePDNConnectionSetResponse_all_fields set_eq_iff, simp_all add: UpdatePDNConnectionSetResponse_order_def UpdatePDNConnectionSetResponse_lens_def)

lemma UpdatePDNConnectionSetResponse_Marshal_eq: "UpdatePDNConnectionSetResponse_Marshal m = msg_Marshal UpdatePDNConnectionSetResponse_order UpdatePDNConnectionSetResponse_lens m"
  by (simp add: UpdatePDNConnectionSetResponse_Marshal_def UpdatePDNConnectionSetResponse_MarshalTo_def UpdatePDNConnectionSetResponse_MarshalLen_def msg_Marshal_def)

section \<open>PGWRestartNotification\<close>

datatype PGWRestartNotification_field =
    PGWRestartNotification_PGWS5S8IPAddressForControlPlaneOrPMIP
    | PGWRestartNotification_SGWS11S4IPAddressForControlPlane | PGWRestartNotification_Cause
    | PGWRestartNotification_PrivateExtension

definition PGWRestartNotification_switch :: "PGWRestartNotification_field switch" where
  "PGWRestartNotification_switch t n = (
     if t = IE_IPAddress then 
         (if n = 0 then Slot PGWRestartNotification_PGWS5S8IPAddressForControlPlaneOrPMIP
          else if n = 1 then Slot PGWRestartNotification_SGWS11S4IPAddressForControlPlane
          else Additional)
     else if t = IE_Cause then Slot PGWRestartNotification_Cause
     else if t = IE_PrivateExtension then Slot PGWRestartNotification_PrivateExtension
     else Additional)"

definition PGWRestartNotification_order :: "PGWRestartNotification_field list" where
  "PGWRestartNotification_order = [
    PGWRestartNotification_PGWS5S8IPAddressForControlPlaneOrPMIP,
    PGWRestartNotification_SGWS11S4IPAddressForControlPlane, PGWRestartNotification_Cause,
    PGWRestartNotification_PrivateExtension]"

definition PGWRestartNotification_lens :: "PGWRestartNotification_field list" where
  "PGWRestartNotification_lens = [
    PGWRestartNotification_PGWS5S8IPAddressForControlPlaneOrPMIP,
    PGWRestartNotification_SGWS11S4IPAddressForControlPlane, PGWRestartNotification_Cause,
    PGWRestartNotification_PrivateExtension]"

definition NewPGWRestartNotification :: "u32 \<Rightarrow> u32 \<Rightarrow> ie option list \<Rightarrow> PGWRestartNotification_field v2_msg" where
  "NewPGWRestartNotification teid seq ies =
     msg_New PGWRestartNotification_switch PGWRestartNotification_lens (NewHeaderFlags 2 0 1) MsgTypePGWRestartNotification teid seq ies"

definition PGWRestartNotification_MarshalLen :: "PGWRestartNotification_field v2_msg \<Rightarrow> nat" where
  "PGWRestartNotification_MarshalLen m = msg_MarshalLen PGWRestartNotification_lens m"

definition PGWRestartNotification_MarshalTo :: "PGWRestartNotification_field v2_msg \<Rightarrow> bytes \<Rightarrow> (bytes \<times> PGWRestartNotification_field v2_msg) result" where
  "PGWRestartNotification_MarshalTo m b = msg_MarshalTo PGWRestartNotification_order PGWRestartNotification_lens m b"

definition PGWRestartNotification_Marshal :: "PGWRestartNotification_field v2_msg \<Rightarrow> (bytes \<times> PGWRestartNotification_field v2_msg) result" where
  "PGWRestartNotification_Marshal m = PGWRestartNotification_MarshalTo m (replicate (PGWRestartNotification_MarshalLen m) 0)"

definition PGWRestartNotification_UnmarshalBinary :: "bytes \<Rightarrow> PGWRestartNotification_field v2_msg result" where
  "PGWRestartNotification_UnmarshalBinary b = msg_UnmarshalBinary PGWRestartNotification_switch b"

lemma PGWRestartNotification_all_fields: "s \<in> set PGWRestartNotification_order" "s \<in> set PGWRestartNotification_lens"
  by (cases s; simp add: PGWRestartNotification_order_def PGWRestartNotification_lens_def)+

interpretation pGWRestartNotification: message_layout PGWRestartNotification_switch PGWRestartNotification_order PGWRestartNotification_lens
  by unfold_locales
     (simp_all add: PGWRestartNotification_all_fields set_eq_iff, simp_all add: PGWRestartNotification_order_def PGWRestartNotification_lens_def)

lemma PGWRestartNotification_Marshal_eq: "PGWRestartNotification_Marshal m = msg_Marshal PGWRestartNotification_order PGWRestartNotification_lens m"
  by (simp add: PGWRestartNotification_Marshal_def PGWRestartNotification_MarshalTo_def PGWRestartNotification_MarshalLen_def msg_Marshal_def)

section \<open>PGWRestartNotificationAcknowledge\<close>

datatype PGWRestartNotificationAcknowledge_field =
    PGWRestartNotificationAcknowledge_Cause
    | PGWRestartNotificationAcknowledge_PrivateExtension

definition PGWRestartNotificationAcknowledge_switch :: "PGWRestartNotificationAcknowledge_field switch" where
  "PGWRestartNotificationAcknowledge_switch t n = (
     if t = IE_Cause then Slot PGWRestartNotificationAcknowledge_Cause
     else if t = IE_PrivateExtension then Slot PGWRestartNotificationAcknowledge_PrivateExtension
     else Additional)"

definition PGWRestartNotificationAcknowledge_order :: "PGWRestartNotificationAcknowledge_field list" where
  "PGWRestartNotificationAcknowledge_order = [
    PGWRestartNotificationAcknowledge_Cause, PGWRestartNotificationAcknowledge_PrivateExtension]"

definition PGWRestartNotificationAcknowledge_lens :: "PGWRestartNotificationAcknowledge_field list" where
  "PGWRestartNotificationAcknowledge_lens = [
    PGWRestartNotificationAcknowledge_Cause, PGWRestartNotificationAcknowledge_PrivateExtension]"

definition NewPGWRestartNotificationAcknowledge :: "u32 \<Rightarrow> u32 \<Rightarrow> ie option list \<Rightarrow> PGWRestartNotificationAcknowledge_field v2_msg" where
  "NewPGWRestartNotificationAcknowledge teid seq ies =
     msg_New PGWRestartNotificationAcknowledge_switch PGWRestartNotificationAcknowledge_lens (NewHeaderFlags 2 0 1) MsgTypePGWRestartNotificationAcknowledge teid seq ies"

definition PGWRestartNotificationAcknowledge_MarshalLen :: "PGWRestartNotificationAcknowledge_field v2_msg \<Rightarrow> nat" where
  "PGWRestartNotificationAcknowledge_MarshalLen m = msg_MarshalLen PGWRestartNotificationAcknowledge_lens m"

definition PGWRestartNotificationAcknowledge_MarshalTo :: "PGWRestartNotificationAcknowledge_field v2_msg \<Rightarrow> bytes \<Rightarrow> (bytes \<times> PGWRestartNotificationAcknowledge_field v2_msg) result" where
  "PGWRestartNotificationAcknowledge_MarshalTo m b = msg_MarshalTo PGWRestartNotificationAcknowledge_order PGWRestartNotificationAcknowledge_lens m b"

definition PGWRestartNotificationAcknowledge_Marshal :: "PGWRestartNotificationAcknowledge_field v2_msg \<Rightarrow> (bytes \<times> PGWRestartNotificationAcknowledge_field v2_msg) result" where
  "PGWRestartNotificationAcknowledge_Marshal m = PGWRestartNotificationAcknowledge_MarshalTo m (replicate (PGWRestartNotificationAcknowledge_MarshalLen m) 0)"

definition PGWRestartNotificationAcknowledge_UnmarshalBinary :: "bytes \<Rightarrow> PGWRestartNotificationAcknowledge_field v2_msg result" where
  "PGWRestartNotificationAcknowledge_UnmarshalBinary b = msg_UnmarshalBinary PGWRestartNotificationAcknowledge_switch b"

lemma PGWRestartNotificationAcknowledge_all_fields: "s \<in> set PGWRestartNotificationAcknowledge_order" "s \<in> set PGWRestartNotificationAcknowledge_lens"
  by (cases s; simp add: PGWRestartNotificationAcknowledge_order_def PGWRestartNotificationAcknowledge_lens_def)+

interpretation pGWRestartNotificationAcknowledge: message_layout PGWRestartNotificationAcknowledge_switch PGWRestartNotificationAcknowledge_order PGWRestartNotificationAcknowledge_lens
  by unfold_locales
     (simp_all add: PGWRestartNotificationAcknowledge_all_fields set_eq_iff, simp_all add: PGWRestartNotificationAcknowledge_order_def PGWRestartNotificationAcknowledge_lens_def)

lemma PGWRestartNotificationAcknowledge_Marshal_eq: "PGWRestartNotificationAcknowledge_Marshal m = msg_Marshal PGWRestartNotificationAcknowledge_order PGWRestartNotificationAcknowledge_lens m"
  by (simp add: PGWRestartNotificationAcknowledge_Marshal_def PGWRestartNotificationAcknowledge_MarshalTo_def PGWRestartNotificationAcknowledge_MarshalLen_def msg_Marshal_def)

section \<open>ContextRequest\<close>

datatype ContextRequest_field =
    ContextRequest_IMSI | ContextRequest_GUTI | ContextRequest_RAI | ContextRequest_PTMSI
    | ContextRequest_PTMSISignature | ContextRequest_CompleteTAURequestMessage
    | ContextRequest_AddressAndTEIDForCPlane | ContextRequest_UDPSourcePortNumber
    | ContextRequest_RATType | ContextRequest_Indication | ContextRequest_HopCounter
    | ContextRequest_TargetPLMNID | ContextRequest_MMESGSNLDN | ContextRequest_SGSNNodeName
    | ContextRequest_MMENodeName | ContextRequest_SGSNNumber | ContextRequest_SGSNIdentifier
    | ContextRequest_MMEIdentifier | ContextRequest_CIoTOptimizationsSupportIndication
    | ContextRequest_PrivateExtension

definition ContextRequest_switch :: "ContextRequest_field switch" where
  "ContextRequest_switch t n = (
     if t = IE_IMSI then Slot ContextRequest_IMSI
     else if t = IE_GUTI then Slot ContextRequest_GUTI
     else if t = IE_UserLocationInformation then Slot ContextRequest_RAI
     else if t = IE_PacketTMSI then Slot ContextRequest_PTMSI
     else if t = IE_PTMSISignature then Slot ContextRequest_PTMSISignature
     else if t = IE_CompleteRequestMessage then Slot ContextRequest_CompleteTAURequestMessage
     else if t = IE_FullyQualifiedTEID then Slot ContextRequest_AddressAndTEIDForCPlane
     else if t = IE_PortNumber then Slot ContextRequest_UDPSourcePortNumber
     else if t = IE_RATType then Slot ContextRequest_RATType
     else if t = IE_Indication then Slot ContextRequest_Indication
     else if t = IE_HopCounter then Slot ContextRequest_HopCounter
     else if t = IE_ServingNetwork then Slot ContextRequest_TargetPLMNID
     else if t = IE_LocalDistinguishedName then Slot ContextRequest_MMESGSNLDN
     else if t = IE_FullyQualifiedDomainName then 
         (if n = 0 then Slot ContextRequest_SGSNNodeName
          else if n = 1 then Slot ContextRequest_MMENodeName
          else Additional)
     else if t = IE_NodeNumber then Slot ContextRequest_SGSNNumber
     else if t = IE_NodeIdentifier then 
         (if n = 0 then Slot ContextRequest_SGSNIdentifier
          else if n = 1 then Slot ContextRequest_MMEIdentifier
          else Additional)
     else if t = IE_CIoTOptimizationsSupportIndication then Slot ContextRequest_CIoTOptimizationsSupportIndication
     else if t = IE_PrivateExtension then Slot ContextRequest_PrivateExtension
     else Additional)"

definition ContextRequest_order :: "ContextRequest_field list" where
  "ContextRequest_order = [
    ContextRequest_IMSI, ContextRequest_GUTI, ContextRequest_RAI, ContextRequest_PTMSI,
    ContextRequest_PTMSISignature, ContextRequest_CompleteTAURequestMessage,
    ContextRequest_AddressAndTEIDForCPlane, ContextRequest_UDPSourcePortNumber,
    ContextRequest_RATType, ContextRequest_Indication, ContextRequest_HopCounter,
    ContextRequest_TargetPLMNID, ContextRequest_MMESGSNLDN, ContextRequest_SGSNNodeName,
    ContextRequest_MMENodeName, ContextRequest_SGSNNumber, ContextRequest_SGSNIdentifier,
    ContextRequest_MMEIdentifier, ContextRequest_CIoTOptimizationsSupportIndication,
    ContextRequest_PrivateExtension]"

definition ContextRequest_lens :: "ContextRequest_field list" where
  "ContextRequest_lens = [
    ContextRequest_IMSI, ContextRequest_GUTI, ContextRequest_RAI, ContextRequest_PTMSI,
    ContextRequest_PTMSISignature, ContextRequest_CompleteTAURequestMessage,
    ContextRequest_AddressAndTEIDForCPlane, ContextRequest_UDPSourcePortNumber,
    ContextRequest_RATType, ContextRequest_Indication, ContextRequest_HopCounter,
    ContextRequest_TargetPLMNID, ContextRequest_MMESGSNLDN, ContextRequest_SGSNNodeName,
    ContextRequest_MMENodeName, ContextRequest_SGSNNumber, ContextRequest_SGSNIdentifier,
    ContextRequest_MMEIdentifier, ContextRequest_CIoTOptimizationsSupportIndication,
    ContextRequest_PrivateExtension]"

definition NewContextRequest :: "u32 \<Rightarrow> u32 \<Rightarrow> ie option list \<Rightarrow> ContextRequest_field v2_msg" where
  "NewContextRequest teid seq ies =
     msg_New ContextRequest_switch ContextRequest_lens (NewHeaderFlags 2 0 1) MsgTypeContextRequest teid seq ies"

definition ContextRequest_MarshalLen :: "ContextRequest_field v2_msg \<Rightarrow> nat" where
  "ContextRequest_MarshalLen m = msg_MarshalLen ContextRequest_lens m"

definition ContextRequest_MarshalTo :: "ContextRequest_field v2_msg \<Rightarrow> bytes \<Rightarrow> (bytes \<times> ContextRequest_field v2_msg) result" where
  "ContextRequest_MarshalTo m b = msg_MarshalTo ContextRequest_order ContextRequest_lens m b"

definition ContextRequest_Marshal :: "ContextRequest_field v2_msg \<Rightarrow> (bytes \<times> ContextRequest_field v2_msg) result" where
  "ContextRequest_Marshal m = ContextRequest_MarshalTo m (replicate (ContextRequest_MarshalLen m) 0)"

definition ContextRequest_UnmarshalBinary :: "bytes \<Rightarrow> ContextRequest_field v2_msg result" where
  "ContextRequest_UnmarshalBinary b = msg_UnmarshalBinary ContextRequest_switch b"

lemma ContextRequest_all_fields: "s \<in> set ContextRequest_order" "s \<in> set ContextRequest_lens"
  by (cases s; simp add: ContextRequest_order_def ContextRequest_lens_def)+

interpretation contextRequest: message_layout ContextRequest_switch ContextRequest_order ContextRequest_lens
  by unfold_locales
     (simp_all add: ContextRequest_all_fields set_eq_iff, simp_all add: ContextRequest_order_def ContextRequest_lens_def)

lemma ContextRequest_Marshal_eq: "ContextRequest_Marshal m = msg_Marshal ContextRequest_order ContextRequest_lens m"
  by (simp add: ContextRequest_Marshal_def ContextRequest_MarshalTo_def ContextRequest_MarshalLen_def msg_Marshal_def)

section \<open>ContextAcknowledge\<close>

datatype ContextAcknowledge_field =
    ContextAcknowledge_Cause | ContextAcknowledge_IndicationFlags
    | ContextAcknowledge_ForwardingFTEID | ContextAcknowledge_BearerContexts
    | ContextAcknowledge_SGSNNumber | ContextAcknowledge_MMENumberForMTSMS
    | ContextAcknowledge_SGSNIdentifierForMTSMS | ContextAcknowledge_MMEIdentifierForMTSMS
    | ContextAcknowledge_PrivateExtension

definition ContextAcknowledge_switch :: "ContextAcknowledge_field switch" where
  "ContextAcknowledge_switch t n = (
     if t = IE_Cause then Slot ContextAcknowledge_Cause
     else if t = IE_Indication then Slot ContextAcknowledge_IndicationFlags
     else if t = IE_FullyQualifiedTEID then Slot ContextAcknowledge_ForwardingFTEID
     else if t = IE_BearerContext then Slot ContextAcknowledge_BearerContexts
     else if t = IE_NodeNumber then 
         (if n = 0 then Slot ContextAcknowledge_SGSNNumber
          else if n = 1 then Slot ContextAcknowledge_MMENumberForMTSMS
          else Additional)
     else if t = IE_NodeIdentifier then 
         (if n = 0 then Slot ContextAcknowledge_SGSNIdentifierForMTSMS
          else if n = 1 then Slot ContextAcknowledge_MMEIdentifierForMTSMS
          else Additional)
     else if t = IE_PrivateExtension then Slot ContextAcknowledge_PrivateExtension
     else Additional)"

definition ContextAcknowledge_order :: "ContextAcknowledge_field list" where
  "ContextAcknowledge_order = [
    ContextAcknowledge_Cause, ContextAcknowledge_IndicationFlags,
    ContextAcknowledge_ForwardingFTEID, ContextAcknowledge_BearerContexts,
    ContextAcknowledge_SGSNNumber, ContextAcknowledge_MMENumberForMTSMS,
    ContextAcknowledge_SGSNIdentifierForMTSMS, ContextAcknowledge_MMEIdentifierForMTSMS,
    ContextAcknowledge_PrivateExtension]"

definition ContextAcknowledge_lens :: "ContextAcknowledge_field list" where
  "ContextAcknowledge_lens = [
    ContextAcknowledge_Cause, ContextAcknowledge_IndicationFlags,
    ContextAcknowledge_ForwardingFTEID, ContextAcknowledge_BearerContexts,
    ContextAcknowledge_SGSNNumber, ContextAcknowledge_MMENumberForMTSMS,
    ContextAcknowledge_SGSNIdentifierForMTSMS, ContextAcknowledge_MMEIdentifierForMTSMS,
    ContextAcknowledge_PrivateExtension]"

definition NewContextAcknowledge :: "u32 \<Rightarrow> u32 \<Rightarrow> ie option list \<Rightarrow> ContextAcknowledge_field v2_msg" where
  "NewContextAcknowledge teid seq ies =
     msg_New ContextAcknowledge_switch ContextAcknowledge_lens (NewHeaderFlags 2 0 1) MsgTypeContextAcknowledge teid seq ies"

definition ContextAcknowledge_MarshalLen :: "ContextAcknowledge_field v2_msg \<Rightarrow> nat" where
  "ContextAcknowledge_MarshalLen m = msg_MarshalLen ContextAcknowledge_lens m"

definition ContextAcknowledge_MarshalTo :: "ContextAcknowledge_field v2_msg \<Rightarrow> bytes \<Rightarrow> (bytes \<times> ContextAcknowledge_field v2_msg) result" where
  "ContextAcknowledge_MarshalTo m b = msg_MarshalTo ContextAcknowledge_order ContextAcknowledge_lens m b"

definition ContextAcknowledge_Marshal :: "ContextAcknowledge_field v2_msg \<Rightarrow> (bytes \<times> ContextAcknowledge_field v2_msg) result" where
  "ContextAcknowledge_Marshal m = ContextAcknowledge_MarshalTo m (replicate (ContextAcknowledge_MarshalLen m) 0)"

definition ContextAcknowledge_UnmarshalBinary :: "bytes \<Rightarrow> ContextAcknowledge_field v2_msg result" where
  "ContextAcknowledge_UnmarshalBinary b = msg_UnmarshalBinary ContextAcknowledge_switch b"

lemma ContextAcknowledge_all_fields: "s \<in> set ContextAcknowledge_order" "s \<in> set ContextAcknowledge_lens"
  by (cases s; simp add: ContextAcknowledge_order_def ContextAcknowledge_lens_def)+

interpretation contextAcknowledge: message_layout ContextAcknowledge_switch ContextAcknowledge_order ContextAcknowledge_lens
  by unfold_locales
     (simp_all add: ContextAcknowledge_all_fields set_eq_iff, simp_all add: ContextAcknowledge_order_def ContextAcknowledge_lens_def)

lemma ContextAcknowledge_Marshal_eq: "ContextAcknowledge_Marshal m = msg_Marshal ContextAcknowledge_order ContextAcknowledge_lens m"
  by (simp add: ContextAcknowledge_Marshal_def ContextAcknowledge_MarshalTo_def ContextAcknowledge_MarshalLen_def msg_Marshal_def)

end
