(* ===== verification/V2MsgContextRes.thy ===== *)
theory V2MsgContextRes
  imports V2Message V2IETypes
begin

text \<open>
  \<open>ContextResponse\<close> (\<open>context-res.go\<close>), the one GTPv2 message whose switch looks at the message
  built so far: an MM Context element goes to the field \<open>UEMMContext\<close> only if that field is already
  set. The lemmas show what follows from that test, that the field stays empty, and hence which
  plain switch the decoder computes. They also show that three fields the constructor fills are
  visited by neither \<open>MarshalTo\<close> nor \<open>MarshalLen\<close>.
\<close>

abbreviation MsgTypeContextResponse :: byte where
  "MsgTypeContextResponse \<equiv> 131"

datatype ContextResponse_field =
    ContextResponse_Cause | ContextResponse_IMSI | ContextResponse_UEMMContext
    | ContextResponse_UEPDNConnections | ContextResponse_SenderFTEID
    | ContextResponse_SGWS11S4FTEID | ContextResponse_SGWNodeName
    | ContextResponse_IndicationFlags | ContextResponse_TraceInformation
    | ContextResponse_S101IPAddress | ContextResponse_S102IPAddress
    | ContextResponse_SubscribedRFSPIndex | ContextResponse_RFSPIndexInUse
    | ContextResponse_UETimeZone | ContextResponse_MMESGSNLDN
    | ContextResponse_MDTConfiguration | ContextResponse_SGSNNodeName
    | ContextResponse_MMENodeName | ContextResponse_UCI
    | ContextResponse_MonitoringEventInformation
    | ContextResponse_MonitoringEventExtensionInformation | ContextResponse_UEUsageType
    | ContextResponse_SCEFPDNConnection | ContextResponse_RATType
    | ContextResponse_ServingPLMNRateControl | ContextResponse_MOExceptionDataCounter
    | ContextResponse_RemainingRunningServiceGapTimer
    | ContextResponse_ExtendedTraceInformation
    | ContextResponse_SubscribedAdditionalRRMPolicyIndex
    | ContextResponse_AdditionalRRMPolicyIndexInUse | ContextResponse_PrivateExtension

definition ContextResponse_new_switch :: "ContextResponse_field switch" where
  "ContextResponse_new_switch t n = (
     if t = IE_Cause then Slot ContextResponse_Cause
     else if t = IE_IMSI then Slot ContextResponse_IMSI
     else if t = IE_PDNConnection then Slot ContextResponse_UEPDNConnections
     else if t = IE_FullyQualifiedTEID then 
         (if n = 0 then Slot ContextResponse_SenderFTEID
          else if n = 1 then Slot ContextResponse_SGWS11S4FTEID
          else Additional)
     else if t = IE_FullyQualifiedDomainName then 
         (if n = 0 then Slot ContextResponse_SGWNodeName
          else if n = 1 then Slot ContextResponse_SGSNNodeName
          else if n = 2 then Slot ContextResponse_MMENodeName
          else Additional)
     else if t = IE_Indication then Slot ContextResponse_IndicationFlags
     else if t = IE_TraceInformation then Slot ContextResponse_TraceInformation
     else if t = IE_IPAddress then 
         (if n = 0 then Slot ContextResponse_S101IPAddress
          else if n = 1 then Slot ContextResponse_S102IPAddress
          else Additional)
     else if t = IE_RFSPIndex then 
         (if n = 0 then Slot ContextResponse_SubscribedRFSPIndex
          else if n = 1 then Slot ContextResponse_RFSPIndexInUse
          else Additional)
     else if t = IE_UETimeZone then Slot ContextResponse_UETimeZone
     else if t = IE_LocalDistinguishedName then Slot ContextResponse_MMESGSNLDN
     else if t = IE_MDTConfiguration then Slot ContextResponse_MDTConfiguration
     else if t = IE_UserCSGInformation then Slot ContextResponse_UCI
     else if t = IE_MonitoringEventInformation then Slot ContextResponse_MonitoringEventInformation
     else if t = IE_MonitoringEventExtensionInformation then Slot ContextResponse_MonitoringEventExtensionInformation
     else if t = IE_IntegerNumber then 
         (if n = 0 then Slot ContextResponse_UEUsageType
          else if n = 1 then Slot ContextResponse_RemainingRunningServiceGapTimer
          else Additional)
     else if t = IE_SCEFPDNConnection then Slot ContextResponse_SCEFPDNConnection
     else if t = IE_RATType then Slot ContextResponse_RATType
     else if t = IE_ServingPLMNRateControl then Slot ContextResponse_ServingPLMNRateControl
     else if t = IE_Counter then Slot ContextResponse_MOExceptionDataCounter
     else if t = IE_ExtendedTraceInformation then Slot ContextResponse_ExtendedTraceInformation
     else if t = IE_AdditionalRRMPolicyIndex then 
         (if n = 0 then Slot ContextResponse_SubscribedAdditionalRRMPolicyIndex
          else if n = 1 then Slot ContextResponse_AdditionalRRMPolicyIndexInUse
          else Additional)
     else if t = IE_PrivateExtension then Slot ContextResponse_PrivateExtension
     else Additional)"

definition ContextResponse_switch :: "ContextResponse_field switch" where
  "ContextResponse_switch t n = (
     if t = IE_Cause then Slot ContextResponse_Cause
     else if t = IE_IMSI then Slot ContextResponse_IMSI
     else if t = IE_PDNConnection then Slot ContextResponse_UEPDNConnections
     else if t = IE_FullyQualifiedTEID then 
         (if n = 0 then Slot ContextResponse_SenderFTEID
          else if n = 1 then Slot ContextResponse_SGWS11S4FTEID
          else Additional)
     else if t = IE_FullyQualifiedDomainName then 
         (if n = 0 then Slot ContextResponse_SGWNodeName
          else if n = 1 then Slot ContextResponse_SGSNNodeName
          else if n = 2 then Slot ContextResponse_MMENodeName
          else Additional)
     else if t = IE_Indication then Slot ContextResponse_IndicationFlags
     else if t = IE_TraceInformation then Slot ContextResponse_TraceInformation
     else if t = IE_IPAddress then 
         (if n = 0 then Slot ContextResponse_S101IPAddress
          else if n = 1 then Slot ContextResponse_S102IPAddress
          else Additional)
     else if t = IE_RFSPIndex then 
         (if n = 0 then Slot ContextResponse_SubscribedRFSPIndex
          else if n = 1 then Slot ContextResponse_RFSPIndexInUse
          else Additional)
     else if t = IE_UETimeZone then Slot ContextResponse_UETimeZone
     else if t = IE_LocalDistinguishedName then Slot ContextResponse_MMESGSNLDN
     else if t = IE_MDTConfiguration then Slot ContextResponse_MDTConfiguration
     else if t = IE_UserCSGInformation then Slot ContextResponse_UCI
     else if t = IE_MonitoringEventInformation then Slot ContextResponse_MonitoringEventInformation
     else if t = IE_IntegerNumber then 
         (if n = 0 then Slot ContextResponse_UEUsageType
          else if n = 1 then Slot ContextResponse_RemainingRunningServiceGapTimer
          else Additional)
     else if t = IE_SCEFPDNConnection then Slot ContextResponse_SCEFPDNConnection
     else if t = IE_RATType then Slot ContextResponse_RATType
     else if t = IE_ServingPLMNRateControl then Slot ContextResponse_ServingPLMNRateControl
     else if t = IE_Counter then Slot ContextResponse_MOExceptionDataCounter
     else if t = IE_ExtendedTraceInformation then Slot ContextResponse_ExtendedTraceInformation
     else if t = IE_PrivateExtension then Slot ContextResponse_PrivateExtension
     else Additional)"

definition ContextResponse_order :: "ContextResponse_field list" where
  "ContextResponse_order = [
    ContextResponse_Cause, ContextResponse_IMSI, ContextResponse_UEMMContext,
    ContextResponse_UEPDNConnections, ContextResponse_SenderFTEID,
    ContextResponse_SGWS11S4FTEID, ContextResponse_SGWNodeName,
    ContextResponse_IndicationFlags, ContextResponse_TraceInformation,
    ContextResponse_S101IPAddress, ContextResponse_S102IPAddress,
    ContextResponse_SubscribedRFSPIndex, ContextResponse_RFSPIndexInUse,
    ContextResponse_UETimeZone, ContextResponse_MMESGSNLDN, ContextResponse_MDTConfiguration,
    ContextResponse_SGSNNodeName, ContextResponse_MMENodeName, ContextResponse_UCI,
    ContextResponse_MonitoringEventInformation, ContextResponse_UEUsageType,
    ContextResponse_SCEFPDNConnection, ContextResponse_RATType,
    ContextResponse_ServingPLMNRateControl, ContextResponse_MOExceptionDataCounter,
    ContextResponse_RemainingRunningServiceGapTimer, ContextResponse_ExtendedTraceInformation,
    ContextResponse_PrivateExtension]"

definition ContextResponse_lens :: "ContextResponse_field list" where
  "ContextResponse_lens = [
    ContextResponse_Cause, ContextResponse_IMSI, ContextResponse_UEMMContext,
    ContextResponse_UEPDNConnections, ContextResponse_SenderFTEID,
    ContextResponse_SGWS11S4FTEID, ContextResponse_SGWNodeName,
    ContextResponse_IndicationFlags, ContextResponse_TraceInformation,
    ContextResponse_S101IPAddress, ContextResponse_S102IPAddress,
    ContextResponse_SubscribedRFSPIndex, ContextResponse_RFSPIndexInUse,
    ContextResponse_UETimeZone, ContextResponse_MMESGSNLDN, ContextResponse_MDTConfiguration,
    ContextResponse_SGSNNodeName, ContextResponse_MMENodeName, ContextResponse_UCI,
    ContextResponse_MonitoringEventInformation, ContextResponse_UEUsageType,
    ContextResponse_SCEFPDNConnection, ContextResponse_RATType,
    ContextResponse_ServingPLMNRateControl, ContextResponse_MOExceptionDataCounter,
    ContextResponse_RemainingRunningServiceGapTimer, ContextResponse_ExtendedTraceInformation,
    ContextResponse_PrivateExtension]"

definition MMContext_types :: "byte list" where
  "MMContext_types = [
    IE_MMContextEPSSecurityContextQuadrupletsAndQuintuplets, IE_MMContextGSMKeyAndTriplets,
    IE_MMContextGSMKeyUsedCipherAndQuintuplets, IE_MMContextUMTSKeyAndQuintuplets,
    IE_MMContextUMTSKeyQuadrupletsAndQuintuplets, IE_MMContextUMTSKeyUsedCipherAndQuintuplets]"

definition ContextResponse_store ::
  "ContextResponse_field switch \<Rightarrow> ie \<Rightarrow> ContextResponse_field v2_msg \<Rightarrow> ContextResponse_field v2_msg" where
  "ContextResponse_store D i m =
     (if ie_Type i \<in> set MMContext_types then
        (if m_field m ContextResponse_UEMMContext \<noteq> None
         then m\<lparr>m_field := (m_field m)(ContextResponse_UEMMContext := Some i)\<rparr>
         else m\<lparr>m_AdditionalIEs := m_AdditionalIEs m @ [i]\<rparr>)
      else store_ie D i m)"

definition NewContextResponse :: "u32 \<Rightarrow> u32 \<Rightarrow> ie option list \<Rightarrow> ContextResponse_field v2_msg" where
  "NewContextResponse teid seq ies =
     msg_SetLength ContextResponse_lens
       (fold (ContextResponse_store ContextResponse_new_switch) (List.map_filter id ies)
         (empty_msg (NewHeader (NewHeaderFlags 2 0 1) MsgTypeContextResponse teid seq [])))"

definition ContextResponse_MarshalLen :: "ContextResponse_field v2_msg \<Rightarrow> nat" where
  "ContextResponse_MarshalLen m = msg_MarshalLen ContextResponse_lens m"

definition ContextResponse_MarshalTo ::
  "ContextResponse_field v2_msg \<Rightarrow> bytes \<Rightarrow> (bytes \<times> ContextResponse_field v2_msg) result" where
  "ContextResponse_MarshalTo m b = msg_MarshalTo ContextResponse_order ContextResponse_lens m b"

definition ContextResponse_Marshal ::
  "ContextResponse_field v2_msg \<Rightarrow> (bytes \<times> ContextResponse_field v2_msg) result" where
  "ContextResponse_Marshal m = ContextResponse_MarshalTo m (replicate (ContextResponse_MarshalLen m) 0)"

definition ContextResponse_UnmarshalBinary :: "bytes \<Rightarrow> ContextResponse_field v2_msg result" where
  "ContextResponse_UnmarshalBinary b =
     andThen (h_ParseHeader b) (\<lambda>h.
     if length (h_Payload h) < 2 then Inr (empty_msg h)
     else
       andThen (ie_ParseMultiIEs (h_Payload h)) (\<lambda>decodedIEs.
         Inr (fold (ContextResponse_store ContextResponse_switch) decodedIEs (empty_msg h))))"

text \<open>The switch the code computes: the test of the MM Context clause never succeeds.\<close>

definition ContextResponse_effective :: "ContextResponse_field switch \<Rightarrow> ContextResponse_field switch" where
  "ContextResponse_effective D t n = (if t \<in> set MMContext_types then Additional else D t n)"

lemma ContextResponse_switches_avoid:
  "ContextResponse_switch t n \<noteq> Slot ContextResponse_UEMMContext"
  "ContextResponse_new_switch t n \<noteq> Slot ContextResponse_UEMMContext"
  by (simp_all add: ContextResponse_switch_def ContextResponse_new_switch_def)

lemma ContextResponse_store_effective:
  assumes "m_field m ContextResponse_UEMMContext = None"
    and "\<And>t n. D t n \<noteq> Slot ContextResponse_UEMMContext"
  shows "ContextResponse_store D i m = store_ie (ContextResponse_effective D) i m"
    and "m_field (ContextResponse_store D i m) ContextResponse_UEMMContext = None"
  using assms
  by (auto simp: ContextResponse_store_def ContextResponse_effective_def store_ie_def
      split: dispatch.splits)

lemma ContextResponse_fold_effective:
  assumes "\<And>t n. D t n \<noteq> Slot ContextResponse_UEMMContext"
  shows "m_field m ContextResponse_UEMMContext = None \<Longrightarrow>
      fold (ContextResponse_store D) ies m = fold (store_ie (ContextResponse_effective D)) ies m"
    and "m_field m ContextResponse_UEMMContext = None \<Longrightarrow>
      m_field (fold (ContextResponse_store D) ies m) ContextResponse_UEMMContext = None"
proof (induction ies arbitrary: m)
  case (Cons i ies)
  case 1
  have none: "m_field (ContextResponse_store D i m) ContextResponse_UEMMContext = None"
    using 1 assms by (rule ContextResponse_store_effective)
  have eq: "ContextResponse_store D i m = store_ie (ContextResponse_effective D) i m"
    using 1 assms by (rule ContextResponse_store_effective)
  show ?case using Cons.IH(1) [OF none] by (simp only: fold_simps eq)
next
  case (Cons i ies)
  case 2
  have none: "m_field (ContextResponse_store D i m) ContextResponse_UEMMContext = None"
    using 2 assms by (rule ContextResponse_store_effective)
  show ?case using Cons.IH(2) [OF none] by (simp only: fold_simps)
qed simp_all

lemma empty_msg_field [simp]: "m_field (empty_msg h) s = None"
  by (simp add: empty_msg_def)

lemma ContextResponse_fold_empty:
  "fold (ContextResponse_store ContextResponse_switch) ies (empty_msg h) =
     fold (store_ie (ContextResponse_effective ContextResponse_switch)) ies (empty_msg h)"
  by (rule ContextResponse_fold_effective) (simp_all add: ContextResponse_switches_avoid)

lemma ContextResponse_fold_UEMMContext:
  "m_field (fold (ContextResponse_store ContextResponse_switch) ies (empty_msg h))
     ContextResponse_UEMMContext = None"
  "m_field (fold (ContextResponse_store ContextResponse_new_switch) ies (empty_msg h))
     ContextResponse_UEMMContext = None"
  by (rule ContextResponse_fold_effective; simp add: ContextResponse_switches_avoid)+

lemma ContextResponse_Unmarshal_effective:
  "ContextResponse_UnmarshalBinary b =
     msg_UnmarshalBinary (ContextResponse_effective ContextResponse_switch) b"
  unfolding ContextResponse_UnmarshalBinary_def msg_UnmarshalBinary_def
    ContextResponse_fold_empty ..

lemma ContextResponse_no_UEMMContext:
  "ContextResponse_UnmarshalBinary b = Inr m \<Longrightarrow> m_field m ContextResponse_UEMMContext = None"
  "m_field (NewContextResponse teid seq ies) ContextResponse_UEMMContext = None"
  using ContextResponse_fold_UEMMContext
  by (fastforce simp: ContextResponse_UnmarshalBinary_def andThen_eq_Inr split: if_splits)
     (simp add: NewContextResponse_def msg_SetLength_def ContextResponse_fold_UEMMContext)

lemma ContextResponse_order_all:
  "ContextResponse_switch t n = Slot s \<Longrightarrow> s \<in> set ContextResponse_order"
  by (auto simp: ContextResponse_switch_def ContextResponse_order_def split: if_splits)

interpretation contextResponse: message_layout
  "ContextResponse_effective ContextResponse_switch" ContextResponse_order ContextResponse_lens
  by unfold_locales
     (auto simp: ContextResponse_effective_def dest: ContextResponse_order_all split: if_splits,
      simp_all add: ContextResponse_order_def ContextResponse_lens_def)

lemma ContextResponse_Marshal_eq:
  "ContextResponse_Marshal m = msg_Marshal ContextResponse_order ContextResponse_lens m"
  by (simp add: ContextResponse_Marshal_def ContextResponse_MarshalTo_def ContextResponse_MarshalLen_def
      msg_Marshal_def)

lemma ContextResponse_lost_fields:
  "s \<in> {ContextResponse_MonitoringEventExtensionInformation,
        ContextResponse_SubscribedAdditionalRRMPolicyIndex,
        ContextResponse_AdditionalRRMPolicyIndexInUse} \<Longrightarrow> s \<notin> set ContextResponse_order"
  by (auto simp: ContextResponse_order_def)

end
