(* ===== verification/V2Parse.thy ===== *)
theory V2Parse
  imports V2Generic V2MsgPath V2MsgSession V2MsgBearer V2MsgCommand V2MsgAccess V2MsgPdn V2MsgContextRes
begin

text \<open>
  The interface \<open>Message\<close> of \<open>src/gtpv2/message/message.go\<close>: a value of it is one of the message
  types, the datatype \<open>v2_message\<close>, with the methods by case distinction; \<open>v2_Parse\<close> decodes a
  datagram into the type its second byte selects. The wrapping of an error of the decoder by
  \<open>fmt.Errorf\<close> with the verb for wrapping keeps the error, and so does the model.

  The lemmas show that \<open>Marshal\<close> succeeds for every message, that \<open>Parse\<close> inverts it for the
  well-formed messages of every type, and that \<open>Parse\<close> panics exactly on fewer than two bytes.
\<close>

datatype v2_message =
    Msg_EchoRequest "EchoRequest_field v2_msg"
  | Msg_EchoResponse "EchoResponse_field v2_msg"
  | Msg_VersionNotSupportedIndication "unit v2_msg"
  | Msg_CreateSessionRequest "CreateSessionRequest_field v2_msg"
  | Msg_CreateSessionResponse "CreateSessionResponse_field v2_msg"
  | Msg_DeleteSessionRequest "DeleteSessionRequest_field v2_msg"
  | Msg_DeleteSessionResponse "DeleteSessionResponse_field v2_msg"
  | Msg_ModifyBearerCommand "ModifyBearerCommand_field v2_msg"
  | Msg_ModifyBearerFailureIndication "ModifyBearerFailureIndication_field v2_msg"
  | Msg_DeleteBearerCommand "DeleteBearerCommand_field v2_msg"
  | Msg_DeleteBearerFailureIndication "DeleteBearerFailureIndication_field v2_msg"
  | Msg_DeleteBearerRequest "DeleteBearerRequest_field v2_msg"
  | Msg_CreateBearerRequest "CreateBearerRequest_field v2_msg"
  | Msg_CreateBearerResponse "CreateBearerResponse_field v2_msg"
  | Msg_DeleteBearerResponse "DeleteBearerResponse_field v2_msg"
  | Msg_ModifyBearerRequest "ModifyBearerRequest_field v2_msg"
  | Msg_ModifyBearerResponse "ModifyBearerResponse_field v2_msg"
  | Msg_UpdateBearerRequest "UpdateBearerRequest_field v2_msg"
  | Msg_UpdateBearerResponse "UpdateBearerResponse_field v2_msg"
  | Msg_ContextRequest "ContextRequest_field v2_msg"
  | Msg_ContextResponse "ContextResponse_field v2_msg"
  | Msg_ContextAcknowledge "ContextAcknowledge_field v2_msg"
  | Msg_ReleaseAccessBearersRequest "ReleaseAccessBearersRequest_field v2_msg"
  | Msg_ReleaseAccessBearersResponse "ReleaseAccessBearersResponse_field v2_msg"
  | Msg_StopPagingIndication "StopPagingIndication_field v2_msg"
  | Msg_ModifyAccessBearersRequest "ModifyAccessBearersRequest_field v2_msg"
  | Msg_ModifyAccessBearersResponse "ModifyAccessBearersResponse_field v2_msg"
  | Msg_DeletePDNConnectionSetRequest "DeletePDNConnectionSetRequest_field v2_msg"
  | Msg_DeletePDNConnectionSetResponse "DeletePDNConnectionSetResponse_field v2_msg"
  | Msg_UpdatePDNConnectionSetRequest "UpdatePDNConnectionSetRequest_field v2_msg"
  | Msg_UpdatePDNConnectionSetResponse "UpdatePDNConnectionSetResponse_field v2_msg"
  | Msg_PGWRestartNotification "PGWRestartNotification_field v2_msg"
  | Msg_PGWRestartNotificationAcknowledge "PGWRestartNotificationAcknowledge_field v2_msg"
  | Msg_DetachNotification "DetachNotification_field v2_msg"
  | Msg_DetachAcknowledge "DetachAcknowledge_field v2_msg"
  | Msg_DownlinkDataNotification "DownlinkDataNotification_field v2_msg"
  | Msg_DownlinkDataNotificationAcknowledge "DownlinkDataNotificationAcknowledge_field v2_msg"
  | Msg_DownlinkDataNotificationFailureIndication "DownlinkDataNotificationFailureIndication_field v2_msg"
  | Msg_Generic v2_generic

section \<open>The methods of the interface\<close>

primrec v2_MarshalLen :: "v2_message \<Rightarrow> nat" where
    "v2_MarshalLen (Msg_EchoRequest m) = EchoRequest_MarshalLen m"
  | "v2_MarshalLen (Msg_EchoResponse m) = EchoResponse_MarshalLen m"
  | "v2_MarshalLen (Msg_VersionNotSupportedIndication m) = VersionNotSupportedIndication_MarshalLen m"
  | "v2_MarshalLen (Msg_CreateSessionRequest m) = CreateSessionRequest_MarshalLen m"
  | "v2_MarshalLen (Msg_CreateSessionResponse m) = CreateSessionResponse_MarshalLen m"
  | "v2_MarshalLen (Msg_DeleteSessionRequest m) = DeleteSessionRequest_MarshalLen m"
  | "v2_MarshalLen (Msg_DeleteSessionResponse m) = DeleteSessionResponse_MarshalLen m"
  | "v2_MarshalLen (Msg_ModifyBearerCommand m) = ModifyBearerCommand_MarshalLen m"
  | "v2_MarshalLen (Msg_ModifyBearerFailureIndication m) = ModifyBearerFailureIndication_MarshalLen m"
  | "v2_MarshalLen (Msg_DeleteBearerCommand m) = DeleteBearerCommand_MarshalLen m"
  | "v2_MarshalLen (Msg_DeleteBearerFailureIndication m) = DeleteBearerFailureIndication_MarshalLen m"
  | "v2_MarshalLen (Msg_DeleteBearerRequest m) = DeleteBearerRequest_MarshalLen m"
  | "v2_MarshalLen (Msg_CreateBearerRequest m) = CreateBearerRequest_MarshalLen m"
  | "v2_MarshalLen (Msg_CreateBearerResponse m) = CreateBearerResponse_MarshalLen m"
  | "v2_MarshalLen (Msg_DeleteBearerResponse m) = DeleteBearerResponse_MarshalLen m"
  | "v2_MarshalLen (Msg_ModifyBearerRequest m) = ModifyBearerRequest_MarshalLen m"
  | "v2_MarshalLen (Msg_ModifyBearerResponse m) = ModifyBearerResponse_MarshalLen m"
  | "v2_MarshalLen (Msg_UpdateBearerRequest m) = UpdateBearerRequest_MarshalLen m"
  | "v2_MarshalLen (Msg_UpdateBearerResponse m) = UpdateBearerResponse_MarshalLen m"
  | "v2_MarshalLen (Msg_ContextRequest m) = ContextRequest_MarshalLen m"
  | "v2_MarshalLen (Msg_ContextResponse m) = ContextResponse_MarshalLen m"
  | "v2_MarshalLen (Msg_ContextAcknowledge m) = ContextAcknowledge_MarshalLen m"
  | "v2_MarshalLen (Msg_ReleaseAccessBearersRequest m) = ReleaseAccessBearersRequest_MarshalLen m"
  | "v2_MarshalLen (Msg_ReleaseAccessBearersResponse m) = ReleaseAccessBearersResponse_MarshalLen m"
  | "v2_MarshalLen (Msg_StopPagingIndication m) = StopPagingIndication_MarshalLen m"
  | "v2_MarshalLen (Msg_ModifyAccessBearersRequest m) = ModifyAccessBearersRequest_MarshalLen m"
  | "v2_MarshalLen (Msg_ModifyAccessBearersResponse m) = ModifyAccessBearersResponse_MarshalLen m"
  | "v2_MarshalLen (Msg_DeletePDNConnectionSetRequest m) = DeletePDNConnectionSetRequest_MarshalLen m"
  | "v2_MarshalLen (Msg_DeletePDNConnectionSetResponse m) = DeletePDNConnectionSetResponse_MarshalLen m"
  | "v2_MarshalLen (Msg_UpdatePDNConnectionSetRequest m) = UpdatePDNConnectionSetRequest_MarshalLen m"
  | "v2_MarshalLen (Msg_UpdatePDNConnectionSetResponse m) = UpdatePDNConnectionSetResponse_MarshalLen m"
  | "v2_MarshalLen (Msg_PGWRestartNotification m) = PGWRestartNotification_MarshalLen m"
  | "v2_MarshalLen (Msg_PGWRestartNotificationAcknowledge m) = PGWRestartNotificationAcknowledge_MarshalLen m"
  | "v2_MarshalLen (Msg_DetachNotification m) = DetachNotification_MarshalLen m"
  | "v2_MarshalLen (Msg_DetachAcknowledge m) = DetachAcknowledge_MarshalLen m"
  | "v2_MarshalLen (Msg_DownlinkDataNotification m) = DownlinkDataNotification_MarshalLen m"
  | "v2_MarshalLen (Msg_DownlinkDataNotificationAcknowledge m) = DownlinkDataNotificationAcknowledge_MarshalLen m"
  | "v2_MarshalLen (Msg_DownlinkDataNotificationFailureIndication m) = DownlinkDataNotificationFailureIndication_MarshalLen m"
  | "v2_MarshalLen (Msg_Generic g) = g_MarshalLen g"

definition lift_message :: "('m \<Rightarrow> v2_message) \<Rightarrow> (bytes \<times> 'm) result \<Rightarrow> (bytes \<times> v2_message) result" where
  "lift_message C r = andThen r (\<lambda>(b, m). Inr (b, C m))"

primrec v2_MarshalTo :: "v2_message \<Rightarrow> bytes \<Rightarrow> (bytes \<times> v2_message) result" where
    "v2_MarshalTo (Msg_EchoRequest m) = (\<lambda>b. lift_message Msg_EchoRequest (EchoRequest_MarshalTo m b))"
  | "v2_MarshalTo (Msg_EchoResponse m) = (\<lambda>b. lift_message Msg_EchoResponse (EchoResponse_MarshalTo m b))"
  | "v2_MarshalTo (Msg_VersionNotSupportedIndication m) = (\<lambda>b. lift_message Msg_VersionNotSupportedIndication (VersionNotSupportedIndication_MarshalTo m b))"
  | "v2_MarshalTo (Msg_CreateSessionRequest m) = (\<lambda>b. lift_message Msg_CreateSessionRequest (CreateSessionRequest_MarshalTo m b))"
  | "v2_MarshalTo (Msg_CreateSessionResponse m) = (\<lambda>b. lift_message Msg_CreateSessionResponse (CreateSessionResponse_MarshalTo m b))"
  | "v2_MarshalTo (Msg_DeleteSessionRequest m) = (\<lambda>b. lift_message Msg_DeleteSessionRequest (DeleteSessionRequest_MarshalTo m b))"
  | "v2_MarshalTo (Msg_DeleteSessionResponse m) = (\<lambda>b. lift_message Msg_DeleteSessionResponse (DeleteSessionResponse_MarshalTo m b))"
  | "v2_MarshalTo (Msg_ModifyBearerCommand m) = (\<lambda>b. lift_message Msg_ModifyBearerCommand (ModifyBearerCommand_MarshalTo m b))"
  | "v2_MarshalTo (Msg_ModifyBearerFailureIndication m) = (\<lambda>b. lift_message Msg_ModifyBearerFailureIndication (ModifyBearerFailureIndication_MarshalTo m b))"
  | "v2_MarshalTo (Msg_DeleteBearerCommand m) = (\<lambda>b. lift_message Msg_DeleteBearerCommand (DeleteBearerCommand_MarshalTo m b))"
  | "v2_MarshalTo (Msg_DeleteBearerFailureIndication m) = (\<lambda>b. lift_message Msg_DeleteBearerFailureIndication (DeleteBearerFailureIndication_MarshalTo m b))"
  | "v2_MarshalTo (Msg_DeleteBearerRequest m) = (\<lambda>b. lift_message Msg_DeleteBearerRequest (DeleteBearerRequest_MarshalTo m b))"
  | "v2_MarshalTo (Msg_CreateBearerRequest m) = (\<lambda>b. lift_message Msg_CreateBearerRequest (CreateBearerRequest_MarshalTo m b))"
  | "v2_MarshalTo (Msg_CreateBearerResponse m) = (\<lambda>b. lift_message Msg_CreateBearerResponse (CreateBearerResponse_MarshalTo m b))"
  | "v2_MarshalTo (Msg_DeleteBearerResponse m) = (\<lambda>b. lift_message Msg_DeleteBearerResponse (DeleteBearerResponse_MarshalTo m b))"
  | "v2_MarshalTo (Msg_ModifyBearerRequest m) = (\<lambda>b. lift_message Msg_ModifyBearerRequest (ModifyBearerRequest_MarshalTo m b))"
  | "v2_MarshalTo (Msg_ModifyBearerResponse m) = (\<lambda>b. lift_message Msg_ModifyBearerResponse (ModifyBearerResponse_MarshalTo m b))"
  | "v2_MarshalTo (Msg_UpdateBearerRequest m) = (\<lambda>b. lift_message Msg_UpdateBearerRequest (UpdateBearerRequest_MarshalTo m b))"
  | "v2_MarshalTo (Msg_UpdateBearerResponse m) = (\<lambda>b. lift_message Msg_UpdateBearerResponse (UpdateBearerResponse_MarshalTo m b))"
  | "v2_MarshalTo (Msg_ContextRequest m) = (\<lambda>b. lift_message Msg_ContextRequest (ContextRequest_MarshalTo m b))"
  | "v2_MarshalTo (Msg_ContextResponse m) = (\<lambda>b. lift_message Msg_ContextResponse (ContextResponse_MarshalTo m b))"
  | "v2_MarshalTo (Msg_ContextAcknowledge m) = (\<lambda>b. lift_message Msg_ContextAcknowledge (ContextAcknowledge_MarshalTo m b))"
  | "v2_MarshalTo (Msg_ReleaseAccessBearersRequest m) = (\<lambda>b. lift_message Msg_ReleaseAccessBearersRequest (ReleaseAccessBearersRequest_MarshalTo m b))"
  | "v2_MarshalTo (Msg_ReleaseAccessBearersResponse m) = (\<lambda>b. lift_message Msg_ReleaseAccessBearersResponse (ReleaseAccessBearersResponse_MarshalTo m b))"
  | "v2_MarshalTo (Msg_StopPagingIndication m) = (\<lambda>b. lift_message Msg_StopPagingIndication (StopPagingIndication_MarshalTo m b))"
  | "v2_MarshalTo (Msg_ModifyAccessBearersRequest m) = (\<lambda>b. lift_message Msg_ModifyAccessBearersRequest (ModifyAccessBearersRequest_MarshalTo m b))"
  | "v2_MarshalTo (Msg_ModifyAccessBearersResponse m) = (\<lambda>b. lift_message Msg_ModifyAccessBearersResponse (ModifyAccessBearersResponse_MarshalTo m b))"
  | "v2_MarshalTo (Msg_DeletePDNConnectionSetRequest m) = (\<lambda>b. lift_message Msg_DeletePDNConnectionSetRequest (DeletePDNConnectionSetRequest_MarshalTo m b))"
  | "v2_MarshalTo (Msg_DeletePDNConnectionSetResponse m) = (\<lambda>b. lift_message Msg_DeletePDNConnectionSetResponse (DeletePDNConnectionSetResponse_MarshalTo m b))"
  | "v2_MarshalTo (Msg_UpdatePDNConnectionSetRequest m) = (\<lambda>b. lift_message Msg_UpdatePDNConnectionSetRequest (UpdatePDNConnectionSetRequest_MarshalTo m b))"
  | "v2_MarshalTo (Msg_UpdatePDNConnectionSetResponse m) = (\<lambda>b. lift_message Msg_UpdatePDNConnectionSetResponse (UpdatePDNConnectionSetResponse_MarshalTo m b))"
  | "v2_MarshalTo (Msg_PGWRestartNotification m) = (\<lambda>b. lift_message Msg_PGWRestartNotification (PGWRestartNotification_MarshalTo m b))"
  | "v2_MarshalTo (Msg_PGWRestartNotificationAcknowledge m) = (\<lambda>b. lift_message Msg_PGWRestartNotificationAcknowledge (PGWRestartNotificationAcknowledge_MarshalTo m b))"
  | "v2_MarshalTo (Msg_DetachNotification m) = (\<lambda>b. lift_message Msg_DetachNotification (DetachNotification_MarshalTo m b))"
  | "v2_MarshalTo (Msg_DetachAcknowledge m) = (\<lambda>b. lift_message Msg_DetachAcknowledge (DetachAcknowledge_MarshalTo m b))"
  | "v2_MarshalTo (Msg_DownlinkDataNotification m) = (\<lambda>b. lift_message Msg_DownlinkDataNotification (DownlinkDataNotification_MarshalTo m b))"
  | "v2_MarshalTo (Msg_DownlinkDataNotificationAcknowledge m) = (\<lambda>b. lift_message Msg_DownlinkDataNotificationAcknowledge (DownlinkDataNotificationAcknowledge_MarshalTo m b))"
  | "v2_MarshalTo (Msg_DownlinkDataNotificationFailureIndication m) = (\<lambda>b. lift_message Msg_DownlinkDataNotificationFailureIndication (DownlinkDataNotificationFailureIndication_MarshalTo m b))"
  | "v2_MarshalTo (Msg_Generic g) = (\<lambda>b. lift_message Msg_Generic (g_MarshalTo g b))"

text \<open>The methods a message type has from the header it embeds.\<close>

primrec v2_msg_header :: "v2_message \<Rightarrow> v2_header" where
    "v2_msg_header (Msg_EchoRequest m) = m_Header m"
  | "v2_msg_header (Msg_EchoResponse m) = m_Header m"
  | "v2_msg_header (Msg_VersionNotSupportedIndication m) = m_Header m"
  | "v2_msg_header (Msg_CreateSessionRequest m) = m_Header m"
  | "v2_msg_header (Msg_CreateSessionResponse m) = m_Header m"
  | "v2_msg_header (Msg_DeleteSessionRequest m) = m_Header m"
  | "v2_msg_header (Msg_DeleteSessionResponse m) = m_Header m"
  | "v2_msg_header (Msg_ModifyBearerCommand m) = m_Header m"
  | "v2_msg_header (Msg_ModifyBearerFailureIndication m) = m_Header m"
  | "v2_msg_header (Msg_DeleteBearerCommand m) = m_Header m"
  | "v2_msg_header (Msg_DeleteBearerFailureIndication m) = m_Header m"
  | "v2_msg_header (Msg_DeleteBearerRequest m) = m_Header m"
  | "v2_msg_header (Msg_CreateBearerRequest m) = m_Header m"
  | "v2_msg_header (Msg_CreateBearerResponse m) = m_Header m"
  | "v2_msg_header (Msg_DeleteBearerResponse m) = m_Header m"
  | "v2_msg_header (Msg_ModifyBearerRequest m) = m_Header m"
  | "v2_msg_header (Msg_ModifyBearerResponse m) = m_Header m"
  | "v2_msg_header (Msg_UpdateBearerRequest m) = m_Header m"
  | "v2_msg_header (Msg_UpdateBearerResponse m) = m_Header m"
  | "v2_msg_header (Msg_ContextRequest m) = m_Header m"
  | "v2_msg_header (Msg_ContextResponse m) = m_Header m"
  | "v2_msg_header (Msg_ContextAcknowledge m) = m_Header m"
  | "v2_msg_header (Msg_ReleaseAccessBearersRequest m) = m_Header m"
  | "v2_msg_header (Msg_ReleaseAccessBearersResponse m) = m_Header m"
  | "v2_msg_header (Msg_StopPagingIndication m) = m_Header m"
  | "v2_msg_header (Msg_ModifyAccessBearersRequest m) = m_Header m"
  | "v2_msg_header (Msg_ModifyAccessBearersResponse m) = m_Header m"
  | "v2_msg_header (Msg_DeletePDNConnectionSetRequest m) = m_Header m"
  | "v2_msg_header (Msg_DeletePDNConnectionSetResponse m) = m_Header m"
  | "v2_msg_header (Msg_UpdatePDNConnectionSetRequest m) = m_Header m"
  | "v2_msg_header (Msg_UpdatePDNConnectionSetResponse m) = m_Header m"
  | "v2_msg_header (Msg_PGWRestartNotification m) = m_Header m"
  | "v2_msg_header (Msg_PGWRestartNotificationAcknowledge m) = m_Header m"
  | "v2_msg_header (Msg_DetachNotification m) = m_Header m"
  | "v2_msg_header (Msg_DetachAcknowledge m) = m_Header m"
  | "v2_msg_header (Msg_DownlinkDataNotification m) = m_Header m"
  | "v2_msg_header (Msg_DownlinkDataNotificationAcknowledge m) = m_Header m"
  | "v2_msg_header (Msg_DownlinkDataNotificationFailureIndication m) = m_Header m"
  | "v2_msg_header (Msg_Generic g) = g_Header g"

primrec v2_map_header :: "v2_message \<Rightarrow> (v2_header \<Rightarrow> v2_header) \<Rightarrow> v2_message" where
    "v2_map_header (Msg_EchoRequest m) = (\<lambda>f. Msg_EchoRequest (m\<lparr>m_Header := f (m_Header m)\<rparr>))"
  | "v2_map_header (Msg_EchoResponse m) = (\<lambda>f. Msg_EchoResponse (m\<lparr>m_Header := f (m_Header m)\<rparr>))"
  | "v2_map_header (Msg_VersionNotSupportedIndication m) = (\<lambda>f. Msg_VersionNotSupportedIndication (m\<lparr>m_Header := f (m_Header m)\<rparr>))"
  | "v2_map_header (Msg_CreateSessionRequest m) = (\<lambda>f. Msg_CreateSessionRequest (m\<lparr>m_Header := f (m_Header m)\<rparr>))"
  | "v2_map_header (Msg_CreateSessionResponse m) = (\<lambda>f. Msg_CreateSessionResponse (m\<lparr>m_Header := f (m_Header m)\<rparr>))"
  | "v2_map_header (Msg_DeleteSessionRequest m) = (\<lambda>f. Msg_DeleteSessionRequest (m\<lparr>m_Header := f (m_Header m)\<rparr>))"
  | "v2_map_header (Msg_DeleteSessionResponse m) = (\<lambda>f. Msg_DeleteSessionResponse (m\<lparr>m_Header := f (m_Header m)\<rparr>))"
  | "v2_map_header (Msg_ModifyBearerCommand m) = (\<lambda>f. Msg_ModifyBearerCommand (m\<lparr>m_Header := f (m_Header m)\<rparr>))"
  | "v2_map_header (Msg_ModifyBearerFailureIndication m) = (\<lambda>f. Msg_ModifyBearerFailureIndication (m\<lparr>m_Header := f (m_Header m)\<rparr>))"
  | "v2_map_header (Msg_DeleteBearerCommand m) = (\<lambda>f. Msg_DeleteBearerCommand (m\<lparr>m_Header := f (m_Header m)\<rparr>))"
  | "v2_map_header (Msg_DeleteBearerFailureIndication m) = (\<lambda>f. Msg_DeleteBearerFailureIndication (m\<lparr>m_Header := f (m_Header m)\<rparr>))"
  | "v2_map_header (Msg_DeleteBearerRequest m) = (\<lambda>f. Msg_DeleteBearerRequest (m\<lparr>m_Header := f (m_Header m)\<rparr>))"
  | "v2_map_header (Msg_CreateBearerRequest m) = (\<lambda>f. Msg_CreateBearerRequest (m\<lparr>m_Header := f (m_Header m)\<rparr>))"
  | "v2_map_header (Msg_CreateBearerResponse m) = (\<lambda>f. Msg_CreateBearerResponse (m\<lparr>m_Header := f (m_Header m)\<rparr>))"
  | "v2_map_header (Msg_DeleteBearerResponse m) = (\<lambda>f. Msg_DeleteBearerResponse (m\<lparr>m_Header := f (m_Header m)\<rparr>))"
  | "v2_map_header (Msg_ModifyBearerRequest m) = (\<lambda>f. Msg_ModifyBearerRequest (m\<lparr>m_Header := f (m_Header m)\<rparr>))"
  | "v2_map_header (Msg_ModifyBearerResponse m) = (\<lambda>f. Msg_ModifyBearerResponse (m\<lparr>m_Header := f (m_Header m)\<rparr>))"
  | "v2_map_header (Msg_UpdateBearerRequest m) = (\<lambda>f. Msg_UpdateBearerRequest (m\<lparr>m_Header := f (m_Header m)\<rparr>))"
  | "v2_map_header (Msg_UpdateBearerResponse m) = (\<lambda>f. Msg_UpdateBearerResponse (m\<lparr>m_Header := f (m_Header m)\<rparr>))"
  | "v2_map_header (Msg_ContextRequest m) = (\<lambda>f. Msg_ContextRequest (m\<lparr>m_Header := f (m_Header m)\<rparr>))"
  | "v2_map_header (Msg_ContextResponse m) = (\<lambda>f. Msg_ContextResponse (m\<lparr>m_Header := f (m_Header m)\<rparr>))"
  | "v2_map_header (Msg_ContextAcknowledge m) = (\<lambda>f. Msg_ContextAcknowledge (m\<lparr>m_Header := f (m_Header m)\<rparr>))"
  | "v2_map_header (Msg_ReleaseAccessBearersRequest m) = (\<lambda>f. Msg_ReleaseAccessBearersRequest (m\<lparr>m_Header := f (m_Header m)\<rparr>))"
  | "v2_map_header (Msg_ReleaseAccessBearersResponse m) = (\<lambda>f. Msg_ReleaseAccessBearersResponse (m\<lparr>m_Header := f (m_Header m)\<rparr>))"
  | "v2_map_header (Msg_StopPagingIndication m) = (\<lambda>f. Msg_StopPagingIndication (m\<lparr>m_Header := f (m_Header m)\<rparr>))"
  | "v2_map_header (Msg_ModifyAccessBearersRequest m) = (\<lambda>f. Msg_ModifyAccessBearersRequest (m\<lparr>m_Header := f (m_Header m)\<rparr>))"
  | "v2_map_header (Msg_ModifyAccessBearersResponse m) = (\<lambda>f. Msg_ModifyAccessBearersResponse (m\<lparr>m_Header := f (m_Header m)\<rparr>))"
  | "v2_map_header (Msg_DeletePDNConnectionSetRequest m) = (\<lambda>f. Msg_DeletePDNConnectionSetRequest (m\<lparr>m_Header := f (m_Header m)\<rparr>))"
  | "v2_map_header (Msg_DeletePDNConnectionSetResponse m) = (\<lambda>f. Msg_DeletePDNConnectionSetResponse (m\<lparr>m_Header := f (m_Header m)\<rparr>))"
  | "v2_map_header (Msg_UpdatePDNConnectionSetRequest m) = (\<lambda>f. Msg_UpdatePDNConnectionSetRequest (m\<lparr>m_Header := f (m_Header m)\<rparr>))"
  | "v2_map_header (Msg_UpdatePDNConnectionSetResponse m) = (\<lambda>f. Msg_UpdatePDNConnectionSetResponse (m\<lparr>m_Header := f (m_Header m)\<rparr>))"
  | "v2_map_header (Msg_PGWRestartNotification m) = (\<lambda>f. Msg_PGWRestartNotification (m\<lparr>m_Header := f (m_Header m)\<rparr>))"
  | "v2_map_header (Msg_PGWRestartNotificationAcknowledge m) = (\<lambda>f. Msg_PGWRestartNotificationAcknowledge (m\<lparr>m_Header := f (m_Header m)\<rparr>))"
  | "v2_map_header (Msg_DetachNotification m) = (\<lambda>f. Msg_DetachNotification (m\<lparr>m_Header := f (m_Header m)\<rparr>))"
  | "v2_map_header (Msg_DetachAcknowledge m) = (\<lambda>f. Msg_DetachAcknowledge (m\<lparr>m_Header := f (m_Header m)\<rparr>))"
  | "v2_map_header (Msg_DownlinkDataNotification m) = (\<lambda>f. Msg_DownlinkDataNotification (m\<lparr>m_Header := f (m_Header m)\<rparr>))"
  | "v2_map_header (Msg_DownlinkDataNotificationAcknowledge m) = (\<lambda>f. Msg_DownlinkDataNotificationAcknowledge (m\<lparr>m_Header := f (m_Header m)\<rparr>))"
  | "v2_map_header (Msg_DownlinkDataNotificationFailureIndication m) = (\<lambda>f. Msg_DownlinkDataNotificationFailureIndication (m\<lparr>m_Header := f (m_Header m)\<rparr>))"
  | "v2_map_header (Msg_Generic g) = (\<lambda>f. Msg_Generic (g\<lparr>g_Header := f (g_Header g)\<rparr>))"

definition v2_MessageType :: "v2_message \<Rightarrow> byte" where
  "v2_MessageType M = h_MessageType (v2_msg_header M)"

definition v2_TEID :: "v2_message \<Rightarrow> u32" where
  "v2_TEID M = h_teid (v2_msg_header M)"

definition v2_SetTEID :: "u32 \<Rightarrow> v2_message \<Rightarrow> v2_message" where
  "v2_SetTEID teid M = v2_map_header M (SetTEID teid)"

definition v2_Sequence :: "v2_message \<Rightarrow> u32" where
  "v2_Sequence M = Sequence (v2_msg_header M)"

definition v2_SetSequenceNumber :: "u32 \<Rightarrow> v2_message \<Rightarrow> v2_message" where
  "v2_SetSequenceNumber seq M = v2_map_header M (SetSequenceNumber seq)"

section \<open>Marshal and Parse\<close>

definition v2_Marshal :: "v2_message \<Rightarrow> (bytes \<times> v2_message) result" where
  "v2_Marshal M = v2_MarshalTo M (replicate (v2_MarshalLen M) 0)"

definition lift_parse :: "('m \<Rightarrow> v2_message) \<Rightarrow> 'm result \<Rightarrow> v2_message result" where
  "lift_parse C r = andThen r (\<lambda>m. Inr (C m))"

definition v2_Parse :: "bytes \<Rightarrow> v2_message result" where
  "v2_Parse b = andThen (byte_at b 1) (\<lambda>t.
     if t = MsgTypeEchoRequest then lift_parse Msg_EchoRequest (EchoRequest_UnmarshalBinary b)
     else if t = MsgTypeEchoResponse then lift_parse Msg_EchoResponse (EchoResponse_UnmarshalBinary b)
     else if t = MsgTypeVersionNotSupportedIndication then lift_parse Msg_VersionNotSupportedIndication (VersionNotSupportedIndication_UnmarshalBinary b)
     else if t = MsgTypeCreateSessionRequest then lift_parse Msg_CreateSessionRequest (CreateSessionRequest_UnmarshalBinary b)
     else if t = MsgTypeCreateSessionResponse then lift_parse Msg_CreateSessionResponse (CreateSessionResponse_UnmarshalBinary b)
     else if t = MsgTypeDeleteSessionRequest then lift_parse Msg_DeleteSessionRequest (DeleteSessionRequest_UnmarshalBinary b)
     else if t = MsgTypeDeleteSessionResponse then lift_parse Msg_DeleteSessionResponse (DeleteSessionResponse_UnmarshalBinary b)
     else if t = MsgTypeModifyBearerCommand then lift_parse Msg_ModifyBearerCommand (ModifyBearerCommand_UnmarshalBinary b)
     else if t = MsgTypeModifyBearerFailureIndication then lift_parse Msg_ModifyBearerFailureIndication (ModifyBearerFailureIndication_UnmarshalBinary b)
     else if t = MsgTypeDeleteBearerCommand then lift_parse Msg_DeleteBearerCommand (DeleteBearerCommand_UnmarshalBinary b)
     else if t = MsgTypeDeleteBearerFailureIndication then lift_parse Msg_DeleteBearerFailureIndication (DeleteBearerFailureIndication_UnmarshalBinary b)
     else if t = MsgTypeDeleteBearerRequest then lift_parse Msg_DeleteBearerRequest (DeleteBearerRequest_UnmarshalBinary b)
     else if t = MsgTypeCreateBearerRequest then lift_parse Msg_CreateBearerRequest (CreateBearerRequest_UnmarshalBinary b)
     else if t = MsgTypeCreateBearerResponse then lift_parse Msg_CreateBearerResponse (CreateBearerResponse_UnmarshalBinary b)
     else if t = MsgTypeDeleteBearerResponse then lift_parse Msg_DeleteBearerResponse (DeleteBearerResponse_UnmarshalBinary b)
     else if t = MsgTypeModifyBearerRequest then lift_parse Msg_ModifyBearerRequest (ModifyBearerRequest_UnmarshalBinary b)
     else if t = MsgTypeModifyBearerResponse then lift_parse Msg_ModifyBearerResponse (ModifyBearerResponse_UnmarshalBinary b)
     else if t = MsgTypeUpdateBearerRequest then lift_parse Msg_UpdateBearerRequest (UpdateBearerRequest_UnmarshalBinary b)
     else if t = MsgTypeUpdateBearerResponse then lift_parse Msg_UpdateBearerResponse (UpdateBearerResponse_UnmarshalBinary b)
     else if t = MsgTypeContextRequest then lift_parse Msg_ContextRequest (ContextRequest_UnmarshalBinary b)
     else if t = MsgTypeContextResponse then lift_parse Msg_ContextResponse (ContextResponse_UnmarshalBinary b)
     else if t = MsgTypeContextAcknowledge then lift_parse Msg_ContextAcknowledge (ContextAcknowledge_UnmarshalBinary b)
     else if t = MsgTypeReleaseAccessBearersRequest then lift_parse Msg_ReleaseAccessBearersRequest (ReleaseAccessBearersRequest_UnmarshalBinary b)
     else if t = MsgTypeReleaseAccessBearersResponse then lift_parse Msg_ReleaseAccessBearersResponse (ReleaseAccessBearersResponse_UnmarshalBinary b)
     else if t = MsgTypeStopPagingIndication then lift_parse Msg_StopPagingIndication (StopPagingIndication_UnmarshalBinary b)
     else if t = MsgTypeModifyAccessBearersRequest then lift_parse Msg_ModifyAccessBearersRequest (ModifyAccessBearersRequest_UnmarshalBinary b)
     else if t = MsgTypeModifyAccessBearersResponse then lift_parse Msg_ModifyAccessBearersResponse (ModifyAccessBearersResponse_UnmarshalBinary b)
     else if t = MsgTypeDeletePDNConnectionSetRequest then lift_parse Msg_DeletePDNConnectionSetRequest (DeletePDNConnectionSetRequest_UnmarshalBinary b)
     else if t = MsgTypeDeletePDNConnectionSetResponse then lift_parse Msg_DeletePDNConnectionSetResponse (DeletePDNConnectionSetResponse_UnmarshalBinary b)
     else if t = MsgTypeUpdatePDNConnectionSetRequest then lift_parse Msg_UpdatePDNConnectionSetRequest (UpdatePDNConnectionSetRequest_UnmarshalBinary b)
     else if t = MsgTypeUpdatePDNConnectionSetResponse then lift_parse Msg_UpdatePDNConnectionSetResponse (UpdatePDNConnectionSetResponse_UnmarshalBinary b)
     else if t = MsgTypePGWRestartNotification then lift_parse Msg_PGWRestartNotification (PGWRestartNotification_UnmarshalBinary b)
     else if t = MsgTypePGWRestartNotificationAcknowledge then lift_parse Msg_PGWRestartNotificationAcknowledge (PGWRestartNotificationAcknowledge_UnmarshalBinary b)
     else if t = MsgTypeDetachNotification then lift_parse Msg_DetachNotification (DetachNotification_UnmarshalBinary b)
     else if t = MsgTypeDetachAcknowledge then lift_parse Msg_DetachAcknowledge (DetachAcknowledge_UnmarshalBinary b)
     else if t = MsgTypeDownlinkDataNotification then lift_parse Msg_DownlinkDataNotification (DownlinkDataNotification_UnmarshalBinary b)
     else if t = MsgTypeDownlinkDataNotificationAcknowledge then lift_parse Msg_DownlinkDataNotificationAcknowledge (DownlinkDataNotificationAcknowledge_UnmarshalBinary b)
     else if t = MsgTypeDownlinkDataNotificationFailureIndication then lift_parse Msg_DownlinkDataNotificationFailureIndication (DownlinkDataNotificationFailureIndication_UnmarshalBinary b)
     else lift_parse Msg_Generic (g_UnmarshalBinary b))"

section \<open>The messages of every type\<close>

text \<open>
  A message is well-formed when its elements are, each stands in a field the decoder fills with
  it, the type in its header is that of its Go type, and its lengths fit the header.
\<close>

definition typed_msg_ok :: "'s switch \<Rightarrow> 's list \<Rightarrow> byte \<Rightarrow> 's v2_msg \<Rightarrow> bool" where
  "typed_msg_ok D order t m \<longleftrightarrow> msg_ok D m \<and> sendable order m \<and> h_Type (m_Header m) = t"

definition specific_types :: "byte list" where
  "specific_types = [MsgTypeEchoRequest, MsgTypeEchoResponse, MsgTypeVersionNotSupportedIndication,
    MsgTypeCreateSessionRequest, MsgTypeCreateSessionResponse, MsgTypeDeleteSessionRequest,
    MsgTypeDeleteSessionResponse, MsgTypeModifyBearerCommand,
    MsgTypeModifyBearerFailureIndication, MsgTypeDeleteBearerCommand,
    MsgTypeDeleteBearerFailureIndication, MsgTypeDeleteBearerRequest,
    MsgTypeCreateBearerRequest, MsgTypeCreateBearerResponse, MsgTypeDeleteBearerResponse,
    MsgTypeModifyBearerRequest, MsgTypeModifyBearerResponse, MsgTypeUpdateBearerRequest,
    MsgTypeUpdateBearerResponse, MsgTypeContextRequest, MsgTypeContextResponse,
    MsgTypeContextAcknowledge, MsgTypeReleaseAccessBearersRequest,
    MsgTypeReleaseAccessBearersResponse, MsgTypeStopPagingIndication,
    MsgTypeModifyAccessBearersRequest, MsgTypeModifyAccessBearersResponse,
    MsgTypeDeletePDNConnectionSetRequest, MsgTypeDeletePDNConnectionSetResponse,
    MsgTypeUpdatePDNConnectionSetRequest, MsgTypeUpdatePDNConnectionSetResponse,
    MsgTypePGWRestartNotification, MsgTypePGWRestartNotificationAcknowledge,
    MsgTypeDetachNotification, MsgTypeDetachAcknowledge, MsgTypeDownlinkDataNotification,
    MsgTypeDownlinkDataNotificationAcknowledge,
    MsgTypeDownlinkDataNotificationFailureIndication]"

primrec v2_message_ok :: "v2_message \<Rightarrow> bool" where
    "v2_message_ok (Msg_EchoRequest m) = typed_msg_ok EchoRequest_switch EchoRequest_order MsgTypeEchoRequest m"
  | "v2_message_ok (Msg_EchoResponse m) = typed_msg_ok EchoResponse_switch EchoResponse_order MsgTypeEchoResponse m"
  | "v2_message_ok (Msg_VersionNotSupportedIndication m) = typed_msg_ok VersionNotSupportedIndication_switch VersionNotSupportedIndication_order MsgTypeVersionNotSupportedIndication m"
  | "v2_message_ok (Msg_CreateSessionRequest m) = typed_msg_ok CreateSessionRequest_switch CreateSessionRequest_order MsgTypeCreateSessionRequest m"
  | "v2_message_ok (Msg_CreateSessionResponse m) = typed_msg_ok CreateSessionResponse_switch CreateSessionResponse_order MsgTypeCreateSessionResponse m"
  | "v2_message_ok (Msg_DeleteSessionRequest m) = typed_msg_ok DeleteSessionRequest_switch DeleteSessionRequest_order MsgTypeDeleteSessionRequest m"
  | "v2_message_ok (Msg_DeleteSessionResponse m) = typed_msg_ok DeleteSessionResponse_switch DeleteSessionResponse_order MsgTypeDeleteSessionResponse m"
  | "v2_message_ok (Msg_ModifyBearerCommand m) = typed_msg_ok ModifyBearerCommand_switch ModifyBearerCommand_order MsgTypeModifyBearerCommand m"
  | "v2_message_ok (Msg_ModifyBearerFailureIndication m) = typed_msg_ok ModifyBearerFailureIndication_switch ModifyBearerFailureIndication_order MsgTypeModifyBearerFailureIndication m"
  | "v2_message_ok (Msg_DeleteBearerCommand m) = typed_msg_ok DeleteBearerCommand_switch DeleteBearerCommand_order MsgTypeDeleteBearerCommand m"
  | "v2_message_ok (Msg_DeleteBearerFailureIndication m) = typed_msg_ok DeleteBearerFailureIndication_switch DeleteBearerFailureIndication_order MsgTypeDeleteBearerFailureIndication m"
  | "v2_message_ok (Msg_DeleteBearerRequest m) = typed_msg_ok DeleteBearerRequest_switch DeleteBearerRequest_order MsgTypeDeleteBearerRequest m"
  | "v2_message_ok (Msg_CreateBearerRequest m) = typed_msg_ok CreateBearerRequest_switch CreateBearerRequest_order MsgTypeCreateBearerRequest m"
  | "v2_message_ok (Msg_CreateBearerResponse m) = typed_msg_ok CreateBearerResponse_switch CreateBearerResponse_order MsgTypeCreateBearerResponse m"
  | "v2_message_ok (Msg_DeleteBearerResponse m) = typed_msg_ok DeleteBearerResponse_switch DeleteBearerResponse_order MsgTypeDeleteBearerResponse m"
  | "v2_message_ok (Msg_ModifyBearerRequest m) = typed_msg_ok ModifyBearerRequest_switch ModifyBearerRequest_order MsgTypeModifyBearerRequest m"
  | "v2_message_ok (Msg_ModifyBearerResponse m) = typed_msg_ok ModifyBearerResponse_switch ModifyBearerResponse_order MsgTypeModifyBearerResponse m"
  | "v2_message_ok (Msg_UpdateBearerRequest m) = typed_msg_ok UpdateBearerRequest_switch UpdateBearerRequest_order MsgTypeUpdateBearerRequest m"
  | "v2_message_ok (Msg_UpdateBearerResponse m) = typed_msg_ok UpdateBearerResponse_switch UpdateBearerResponse_order MsgTypeUpdateBearerResponse m"
  | "v2_message_ok (Msg_ContextRequest m) = typed_msg_ok ContextRequest_switch ContextRequest_order MsgTypeContextRequest m"
  | "v2_message_ok (Msg_ContextResponse m) = typed_msg_ok (ContextResponse_effective ContextResponse_switch) ContextResponse_order MsgTypeContextResponse m"
  | "v2_message_ok (Msg_ContextAcknowledge m) = typed_msg_ok ContextAcknowledge_switch ContextAcknowledge_order MsgTypeContextAcknowledge m"
  | "v2_message_ok (Msg_ReleaseAccessBearersRequest m) = typed_msg_ok ReleaseAccessBearersRequest_switch ReleaseAccessBearersRequest_order MsgTypeReleaseAccessBearersRequest m"
  | "v2_message_ok (Msg_ReleaseAccessBearersResponse m) = typed_msg_ok ReleaseAccessBearersResponse_switch ReleaseAccessBearersResponse_order MsgTypeReleaseAccessBearersResponse m"
  | "v2_message_ok (Msg_StopPagingIndication m) = typed_msg_ok StopPagingIndication_switch StopPagingIndication_order MsgTypeStopPagingIndication m"
  | "v2_message_ok (Msg_ModifyAccessBearersRequest m) = typed_msg_ok ModifyAccessBearersRequest_switch ModifyAccessBearersRequest_order MsgTypeModifyAccessBearersRequest m"
  | "v2_message_ok (Msg_ModifyAccessBearersResponse m) = typed_msg_ok ModifyAccessBearersResponse_switch ModifyAccessBearersResponse_order MsgTypeModifyAccessBearersResponse m"
  | "v2_message_ok (Msg_DeletePDNConnectionSetRequest m) = typed_msg_ok DeletePDNConnectionSetRequest_switch DeletePDNConnectionSetRequest_order MsgTypeDeletePDNConnectionSetRequest m"
  | "v2_message_ok (Msg_DeletePDNConnectionSetResponse m) = typed_msg_ok DeletePDNConnectionSetResponse_switch DeletePDNConnectionSetResponse_order MsgTypeDeletePDNConnectionSetResponse m"
  | "v2_message_ok (Msg_UpdatePDNConnectionSetRequest m) = typed_msg_ok UpdatePDNConnectionSetRequest_switch UpdatePDNConnectionSetRequest_order MsgTypeUpdatePDNConnectionSetRequest m"
  | "v2_message_ok (Msg_UpdatePDNConnectionSetResponse m) = typed_msg_ok UpdatePDNConnectionSetResponse_switch UpdatePDNConnectionSetResponse_order MsgTypeUpdatePDNConnectionSetResponse m"
  | "v2_message_ok (Msg_PGWRestartNotification m) = typed_msg_ok PGWRestartNotification_switch PGWRestartNotification_order MsgTypePGWRestartNotification m"
  | "v2_message_ok (Msg_PGWRestartNotificationAcknowledge m) = typed_msg_ok PGWRestartNotificationAcknowledge_switch PGWRestartNotificationAcknowledge_order MsgTypePGWRestartNotificationAcknowledge m"
  | "v2_message_ok (Msg_DetachNotification m) = typed_msg_ok DetachNotification_switch DetachNotification_order MsgTypeDetachNotification m"
  | "v2_message_ok (Msg_DetachAcknowledge m) = typed_msg_ok DetachAcknowledge_switch DetachAcknowledge_order MsgTypeDetachAcknowledge m"
  | "v2_message_ok (Msg_DownlinkDataNotification m) = typed_msg_ok DownlinkDataNotification_switch DownlinkDataNotification_order MsgTypeDownlinkDataNotification m"
  | "v2_message_ok (Msg_DownlinkDataNotificationAcknowledge m) = typed_msg_ok DownlinkDataNotificationAcknowledge_switch DownlinkDataNotificationAcknowledge_order MsgTypeDownlinkDataNotificationAcknowledge m"
  | "v2_message_ok (Msg_DownlinkDataNotificationFailureIndication m) = typed_msg_ok DownlinkDataNotificationFailureIndication_switch DownlinkDataNotificationFailureIndication_order MsgTypeDownlinkDataNotificationFailureIndication m"
  | "v2_message_ok (Msg_Generic g) = (generic_ok g \<and> h_Type (g_Header g) \<notin> set specific_types)"

lemma lift_parse_Inr: "r = Inr m \<Longrightarrow> lift_parse C r = Inr (C m)"
  by (simp add: lift_parse_def)

lemma lift_parse_no_panic: "no_panic r \<Longrightarrow> no_panic (lift_parse C r)"
  by (auto simp: lift_parse_def intro: no_panic_andThen)

lemma lift_message_Inr: "lift_message C r = Inr (w, M) \<longleftrightarrow> (\<exists>m. r = Inr (w, m) \<and> M = C m)"
  by (auto simp: lift_message_def andThen_eq_Inr)

text \<open>The methods of the message types, as instances of those of \<open>V2Message\<close>.\<close>

lemmas v2_UnmarshalBinary_eqs =
  EchoRequest_UnmarshalBinary_def
  EchoResponse_UnmarshalBinary_def
  VersionNotSupportedIndication_Unmarshal_eq
  CreateSessionRequest_UnmarshalBinary_def
  CreateSessionResponse_UnmarshalBinary_def
  DeleteSessionRequest_UnmarshalBinary_def
  DeleteSessionResponse_UnmarshalBinary_def
  ModifyBearerCommand_UnmarshalBinary_def
  ModifyBearerFailureIndication_UnmarshalBinary_def
  DeleteBearerCommand_UnmarshalBinary_def
  DeleteBearerFailureIndication_UnmarshalBinary_def
  DeleteBearerRequest_UnmarshalBinary_def
  CreateBearerRequest_UnmarshalBinary_def
  CreateBearerResponse_UnmarshalBinary_def
  DeleteBearerResponse_UnmarshalBinary_def
  ModifyBearerRequest_UnmarshalBinary_def
  ModifyBearerResponse_UnmarshalBinary_def
  UpdateBearerRequest_UnmarshalBinary_def
  UpdateBearerResponse_UnmarshalBinary_def
  ContextRequest_UnmarshalBinary_def
  ContextResponse_Unmarshal_effective
  ContextAcknowledge_UnmarshalBinary_def
  ReleaseAccessBearersRequest_UnmarshalBinary_def
  ReleaseAccessBearersResponse_UnmarshalBinary_def
  StopPagingIndication_UnmarshalBinary_def
  ModifyAccessBearersRequest_UnmarshalBinary_def
  ModifyAccessBearersResponse_UnmarshalBinary_def
  DeletePDNConnectionSetRequest_UnmarshalBinary_def
  DeletePDNConnectionSetResponse_UnmarshalBinary_def
  UpdatePDNConnectionSetRequest_UnmarshalBinary_def
  UpdatePDNConnectionSetResponse_UnmarshalBinary_def
  PGWRestartNotification_UnmarshalBinary_def
  PGWRestartNotificationAcknowledge_UnmarshalBinary_def
  DetachNotification_UnmarshalBinary_def
  DetachAcknowledge_UnmarshalBinary_def
  DownlinkDataNotification_UnmarshalBinary_def
  DownlinkDataNotificationAcknowledge_UnmarshalBinary_def
  DownlinkDataNotificationFailureIndication_UnmarshalBinary_def

lemmas v2_Marshal_eqs =
  EchoRequest_Marshal_eq
  EchoResponse_Marshal_eq
  VersionNotSupportedIndication_Marshal_eq
  CreateSessionRequest_Marshal_eq
  CreateSessionResponse_Marshal_eq
  DeleteSessionRequest_Marshal_eq
  DeleteSessionResponse_Marshal_eq
  ModifyBearerCommand_Marshal_eq
  ModifyBearerFailureIndication_Marshal_eq
  DeleteBearerCommand_Marshal_eq
  DeleteBearerFailureIndication_Marshal_eq
  DeleteBearerRequest_Marshal_eq
  CreateBearerRequest_Marshal_eq
  CreateBearerResponse_Marshal_eq
  DeleteBearerResponse_Marshal_eq
  ModifyBearerRequest_Marshal_eq
  ModifyBearerResponse_Marshal_eq
  UpdateBearerRequest_Marshal_eq
  UpdateBearerResponse_Marshal_eq
  ContextRequest_Marshal_eq
  ContextResponse_Marshal_eq
  ContextAcknowledge_Marshal_eq
  ReleaseAccessBearersRequest_Marshal_eq
  ReleaseAccessBearersResponse_Marshal_eq
  StopPagingIndication_Marshal_eq
  ModifyAccessBearersRequest_Marshal_eq
  ModifyAccessBearersResponse_Marshal_eq
  DeletePDNConnectionSetRequest_Marshal_eq
  DeletePDNConnectionSetResponse_Marshal_eq
  UpdatePDNConnectionSetRequest_Marshal_eq
  UpdatePDNConnectionSetResponse_Marshal_eq
  PGWRestartNotification_Marshal_eq
  PGWRestartNotificationAcknowledge_Marshal_eq
  DetachNotification_Marshal_eq
  DetachAcknowledge_Marshal_eq
  DownlinkDataNotification_Marshal_eq
  DownlinkDataNotificationAcknowledge_Marshal_eq
  DownlinkDataNotificationFailureIndication_Marshal_eq

lemmas v2_Marshal_defs =
  EchoRequest_Marshal_def [symmetric]
  EchoResponse_Marshal_def [symmetric]
  VersionNotSupportedIndication_Marshal_def [symmetric]
  CreateSessionRequest_Marshal_def [symmetric]
  CreateSessionResponse_Marshal_def [symmetric]
  DeleteSessionRequest_Marshal_def [symmetric]
  DeleteSessionResponse_Marshal_def [symmetric]
  ModifyBearerCommand_Marshal_def [symmetric]
  ModifyBearerFailureIndication_Marshal_def [symmetric]
  DeleteBearerCommand_Marshal_def [symmetric]
  DeleteBearerFailureIndication_Marshal_def [symmetric]
  DeleteBearerRequest_Marshal_def [symmetric]
  CreateBearerRequest_Marshal_def [symmetric]
  CreateBearerResponse_Marshal_def [symmetric]
  DeleteBearerResponse_Marshal_def [symmetric]
  ModifyBearerRequest_Marshal_def [symmetric]
  ModifyBearerResponse_Marshal_def [symmetric]
  UpdateBearerRequest_Marshal_def [symmetric]
  UpdateBearerResponse_Marshal_def [symmetric]
  ContextRequest_Marshal_def [symmetric]
  ContextResponse_Marshal_def [symmetric]
  ContextAcknowledge_Marshal_def [symmetric]
  ReleaseAccessBearersRequest_Marshal_def [symmetric]
  ReleaseAccessBearersResponse_Marshal_def [symmetric]
  StopPagingIndication_Marshal_def [symmetric]
  ModifyAccessBearersRequest_Marshal_def [symmetric]
  ModifyAccessBearersResponse_Marshal_def [symmetric]
  DeletePDNConnectionSetRequest_Marshal_def [symmetric]
  DeletePDNConnectionSetResponse_Marshal_def [symmetric]
  UpdatePDNConnectionSetRequest_Marshal_def [symmetric]
  UpdatePDNConnectionSetResponse_Marshal_def [symmetric]
  PGWRestartNotification_Marshal_def [symmetric]
  PGWRestartNotificationAcknowledge_Marshal_def [symmetric]
  DetachNotification_Marshal_def [symmetric]
  DetachAcknowledge_Marshal_def [symmetric]
  DownlinkDataNotification_Marshal_def [symmetric]
  DownlinkDataNotificationAcknowledge_Marshal_def [symmetric]
  DownlinkDataNotificationFailureIndication_Marshal_def [symmetric]

lemma v2_Marshal_simps:
  "v2_Marshal (Msg_EchoRequest m0) = lift_message Msg_EchoRequest (EchoRequest_Marshal m0)"
  "v2_Marshal (Msg_EchoResponse m1) = lift_message Msg_EchoResponse (EchoResponse_Marshal m1)"
  "v2_Marshal (Msg_VersionNotSupportedIndication m2) = lift_message Msg_VersionNotSupportedIndication (VersionNotSupportedIndication_Marshal m2)"
  "v2_Marshal (Msg_CreateSessionRequest m3) = lift_message Msg_CreateSessionRequest (CreateSessionRequest_Marshal m3)"
  "v2_Marshal (Msg_CreateSessionResponse m4) = lift_message Msg_CreateSessionResponse (CreateSessionResponse_Marshal m4)"
  "v2_Marshal (Msg_DeleteSessionRequest m5) = lift_message Msg_DeleteSessionRequest (DeleteSessionRequest_Marshal m5)"
  "v2_Marshal (Msg_DeleteSessionResponse m6) = lift_message Msg_DeleteSessionResponse (DeleteSessionResponse_Marshal m6)"
  "v2_Marshal (Msg_ModifyBearerCommand m7) = lift_message Msg_ModifyBearerCommand (ModifyBearerCommand_Marshal m7)"
  "v2_Marshal (Msg_ModifyBearerFailureIndication m8) = lift_message Msg_ModifyBearerFailureIndication (ModifyBearerFailureIndication_Marshal m8)"
  "v2_Marshal (Msg_DeleteBearerCommand m9) = lift_message Msg_DeleteBearerCommand (DeleteBearerCommand_Marshal m9)"
  "v2_Marshal (Msg_DeleteBearerFailureIndication m10) = lift_message Msg_DeleteBearerFailureIndication (DeleteBearerFailureIndication_Marshal m10)"
  "v2_Marshal (Msg_DeleteBearerRequest m11) = lift_message Msg_DeleteBearerRequest (DeleteBearerRequest_Marshal m11)"
  "v2_Marshal (Msg_CreateBearerRequest m12) = lift_message Msg_CreateBearerRequest (CreateBearerRequest_Marshal m12)"
  "v2_Marshal (Msg_CreateBearerResponse m13) = lift_message Msg_CreateBearerResponse (CreateBearerResponse_Marshal m13)"
  "v2_Marshal (Msg_DeleteBearerResponse m14) = lift_message Msg_DeleteBearerResponse (DeleteBearerResponse_Marshal m14)"
  "v2_Marshal (Msg_ModifyBearerRequest m15) = lift_message Msg_ModifyBearerRequest (ModifyBearerRequest_Marshal m15)"
  "v2_Marshal (Msg_ModifyBearerResponse m16) = lift_message Msg_ModifyBearerResponse (ModifyBearerResponse_Marshal m16)"
  "v2_Marshal (Msg_UpdateBearerRequest m17) = lift_message Msg_UpdateBearerRequest (UpdateBearerRequest_Marshal m17)"
  "v2_Marshal (Msg_UpdateBearerResponse m18) = lift_message Msg_UpdateBearerResponse (UpdateBearerResponse_Marshal m18)"
  "v2_Marshal (Msg_ContextRequest m19) = lift_message Msg_ContextRequest (ContextRequest_Marshal m19)"
  "v2_Marshal (Msg_ContextResponse m20) = lift_message Msg_ContextResponse (ContextResponse_Marshal m20)"
  "v2_Marshal (Msg_ContextAcknowledge m21) = lift_message Msg_ContextAcknowledge (ContextAcknowledge_Marshal m21)"
  "v2_Marshal (Msg_ReleaseAccessBearersRequest m22) = lift_message Msg_ReleaseAccessBearersRequest (ReleaseAccessBearersRequest_Marshal m22)"
  "v2_Marshal (Msg_ReleaseAccessBearersResponse m23) = lift_message Msg_ReleaseAccessBearersResponse (ReleaseAccessBearersResponse_Marshal m23)"
  "v2_Marshal (Msg_StopPagingIndication m24) = lift_message Msg_StopPagingIndication (StopPagingIndication_Marshal m24)"
  "v2_Marshal (Msg_ModifyAccessBearersRequest m25) = lift_message Msg_ModifyAccessBearersRequest (ModifyAccessBearersRequest_Marshal m25)"
  "v2_Marshal (Msg_ModifyAccessBearersResponse m26) = lift_message Msg_ModifyAccessBearersResponse (ModifyAccessBearersResponse_Marshal m26)"
  "v2_Marshal (Msg_DeletePDNConnectionSetRequest m27) = lift_message Msg_DeletePDNConnectionSetRequest (DeletePDNConnectionSetRequest_Marshal m27)"
  "v2_Marshal (Msg_DeletePDNConnectionSetResponse m28) = lift_message Msg_DeletePDNConnectionSetResponse (DeletePDNConnectionSetResponse_Marshal m28)"
  "v2_Marshal (Msg_UpdatePDNConnectionSetRequest m29) = lift_message Msg_UpdatePDNConnectionSetRequest (UpdatePDNConnectionSetRequest_Marshal m29)"
  "v2_Marshal (Msg_UpdatePDNConnectionSetResponse m30) = lift_message Msg_UpdatePDNConnectionSetResponse (UpdatePDNConnectionSetResponse_Marshal m30)"
  "v2_Marshal (Msg_PGWRestartNotification m31) = lift_message Msg_PGWRestartNotification (PGWRestartNotification_Marshal m31)"
  "v2_Marshal (Msg_PGWRestartNotificationAcknowledge m32) = lift_message Msg_PGWRestartNotificationAcknowledge (PGWRestartNotificationAcknowledge_Marshal m32)"
  "v2_Marshal (Msg_DetachNotification m33) = lift_message Msg_DetachNotification (DetachNotification_Marshal m33)"
  "v2_Marshal (Msg_DetachAcknowledge m34) = lift_message Msg_DetachAcknowledge (DetachAcknowledge_Marshal m34)"
  "v2_Marshal (Msg_DownlinkDataNotification m35) = lift_message Msg_DownlinkDataNotification (DownlinkDataNotification_Marshal m35)"
  "v2_Marshal (Msg_DownlinkDataNotificationAcknowledge m36) = lift_message Msg_DownlinkDataNotificationAcknowledge (DownlinkDataNotificationAcknowledge_Marshal m36)"
  "v2_Marshal (Msg_DownlinkDataNotificationFailureIndication m37) = lift_message Msg_DownlinkDataNotificationFailureIndication (DownlinkDataNotificationFailureIndication_Marshal m37)"
  "v2_Marshal (Msg_Generic g) = lift_message Msg_Generic (g_Marshal g)"
  by (simp_all add: v2_Marshal_def v2_Marshal_defs g_Marshal_def)

lemma v2_Parse_EchoRequest:
  assumes "v2_message_ok (Msg_EchoRequest m)" "EchoRequest_Marshal m = Inr (w, m')" "12 \<le> length w + length rest"
  shows "v2_Parse (w @ rest) = Inr (Msg_EchoRequest m')"
  using assms echoRequest.marshalled_parse [of m w m' rest]
  by (simp add: typed_msg_ok_def EchoRequest_Marshal_eq EchoRequest_UnmarshalBinary_def v2_Parse_def lift_parse_Inr)

lemma v2_Parse_EchoResponse:
  assumes "v2_message_ok (Msg_EchoResponse m)" "EchoResponse_Marshal m = Inr (w, m')" "12 \<le> length w + length rest"
  shows "v2_Parse (w @ rest) = Inr (Msg_EchoResponse m')"
  using assms echoResponse.marshalled_parse [of m w m' rest]
  by (simp add: typed_msg_ok_def EchoResponse_Marshal_eq EchoResponse_UnmarshalBinary_def v2_Parse_def lift_parse_Inr)

lemma v2_Parse_VersionNotSupportedIndication:
  assumes "v2_message_ok (Msg_VersionNotSupportedIndication m)" "VersionNotSupportedIndication_Marshal m = Inr (w, m')" "12 \<le> length w + length rest"
  shows "v2_Parse (w @ rest) = Inr (Msg_VersionNotSupportedIndication m')"
  using assms versionNotSupportedIndication.marshalled_parse [of m w m' rest]
  by (simp add: typed_msg_ok_def VersionNotSupportedIndication_Marshal_eq VersionNotSupportedIndication_Unmarshal_eq v2_Parse_def lift_parse_Inr)

lemma v2_Parse_CreateSessionRequest:
  assumes "v2_message_ok (Msg_CreateSessionRequest m)" "CreateSessionRequest_Marshal m = Inr (w, m')" "12 \<le> length w + length rest"
    and "\<not> msg_overlaps CreateSessionRequest_order m"
  shows "v2_Parse (w @ rest) = Inr (Msg_CreateSessionRequest m')"
  using assms createSessionRequest.marshalled_parse [of m w m' rest]
  by (simp add: typed_msg_ok_def CreateSessionRequest_Marshal_eq CreateSessionRequest_Marshal_regular
      CreateSessionRequest_UnmarshalBinary_def v2_Parse_def lift_parse_Inr)

lemma v2_Parse_CreateSessionResponse:
  assumes "v2_message_ok (Msg_CreateSessionResponse m)" "CreateSessionResponse_Marshal m = Inr (w, m')" "12 \<le> length w + length rest"
  shows "v2_Parse (w @ rest) = Inr (Msg_CreateSessionResponse m')"
  using assms createSessionResponse.marshalled_parse [of m w m' rest]
  by (simp add: typed_msg_ok_def CreateSessionResponse_Marshal_eq CreateSessionResponse_UnmarshalBinary_def v2_Parse_def lift_parse_Inr)

lemma v2_Parse_DeleteSessionRequest:
  assumes "v2_message_ok (Msg_DeleteSessionRequest m)" "DeleteSessionRequest_Marshal m = Inr (w, m')" "12 \<le> length w + length rest"
  shows "v2_Parse (w @ rest) = Inr (Msg_DeleteSessionRequest m')"
  using assms deleteSessionRequest.marshalled_parse [of m w m' rest]
  by (simp add: typed_msg_ok_def DeleteSessionRequest_Marshal_eq DeleteSessionRequest_UnmarshalBinary_def v2_Parse_def lift_parse_Inr)

lemma v2_Parse_DeleteSessionResponse:
  assumes "v2_message_ok (Msg_DeleteSessionResponse m)" "DeleteSessionResponse_Marshal m = Inr (w, m')" "12 \<le> length w + length rest"
  shows "v2_Parse (w @ rest) = Inr (Msg_DeleteSessionResponse m')"
  using assms deleteSessionResponse.marshalled_parse [of m w m' rest]
  by (simp add: typed_msg_ok_def DeleteSessionResponse_Marshal_eq DeleteSessionResponse_UnmarshalBinary_def v2_Parse_def lift_parse_Inr)

lemma v2_Parse_ModifyBearerCommand:
  assumes "v2_message_ok (Msg_ModifyBearerCommand m)" "ModifyBearerCommand_Marshal m = Inr (w, m')" "12 \<le> length w + length rest"
  shows "v2_Parse (w @ rest) = Inr (Msg_ModifyBearerCommand m')"
  using assms modifyBearerCommand.marshalled_parse [of m w m' rest]
  by (simp add: typed_msg_ok_def ModifyBearerCommand_Marshal_eq ModifyBearerCommand_UnmarshalBinary_def v2_Parse_def lift_parse_Inr)

lemma v2_Parse_ModifyBearerFailureIndication:
  assumes "v2_message_ok (Msg_ModifyBearerFailureIndication m)" "ModifyBearerFailureIndication_Marshal m = Inr (w, m')" "12 \<le> length w + length rest"
  shows "v2_Parse (w @ rest) = Inr (Msg_ModifyBearerFailureIndication m')"
  using assms modifyBearerFailureIndication.marshalled_parse [of m w m' rest]
  by (simp add: typed_msg_ok_def ModifyBearerFailureIndication_Marshal_eq ModifyBearerFailureIndication_UnmarshalBinary_def v2_Parse_def lift_parse_Inr)

lemma v2_Parse_DeleteBearerCommand:
  assumes "v2_message_ok (Msg_DeleteBearerCommand m)" "DeleteBearerCommand_Marshal m = Inr (w, m')" "12 \<le> length w + length rest"
  shows "v2_Parse (w @ rest) = Inr (Msg_DeleteBearerCommand m')"
  using assms deleteBearerCommand.marshalled_parse [of m w m' rest]
  by (simp add: typed_msg_ok_def DeleteBearerCommand_Marshal_eq DeleteBearerCommand_UnmarshalBinary_def v2_Parse_def lift_parse_Inr)

lemma v2_Parse_DeleteBearerFailureIndication:
  assumes "v2_message_ok (Msg_DeleteBearerFailureIndication m)" "DeleteBearerFailureIndication_Marshal m = Inr (w, m')" "12 \<le> length w + length rest"
  shows "v2_Parse (w @ rest) = Inr (Msg_DeleteBearerFailureIndication m')"
  using assms deleteBearerFailureIndication.marshalled_parse [of m w m' rest]
  by (simp add: typed_msg_ok_def DeleteBearerFailureIndication_Marshal_eq DeleteBearerFailureIndication_UnmarshalBinary_def v2_Parse_def lift_parse_Inr)

lemma v2_Parse_DeleteBearerRequest:
  assumes "v2_message_ok (Msg_DeleteBearerRequest m)" "DeleteBearerRequest_Marshal m = Inr (w, m')" "12 \<le> length w + length rest"
  shows "v2_Parse (w @ rest) = Inr (Msg_DeleteBearerRequest m')"
  using assms deleteBearerRequest.marshalled_parse [of m w m' rest]
  by (simp add: typed_msg_ok_def DeleteBearerRequest_Marshal_eq DeleteBearerRequest_UnmarshalBinary_def v2_Parse_def lift_parse_Inr)

lemma v2_Parse_CreateBearerRequest:
  assumes "v2_message_ok (Msg_CreateBearerRequest m)" "CreateBearerRequest_Marshal m = Inr (w, m')" "12 \<le> length w + length rest"
  shows "v2_Parse (w @ rest) = Inr (Msg_CreateBearerRequest m')"
  using assms createBearerRequest.marshalled_parse [of m w m' rest]
  by (simp add: typed_msg_ok_def CreateBearerRequest_Marshal_eq CreateBearerRequest_UnmarshalBinary_def v2_Parse_def lift_parse_Inr)

lemma v2_Parse_CreateBearerResponse:
  assumes "v2_message_ok (Msg_CreateBearerResponse m)" "CreateBearerResponse_Marshal m = Inr (w, m')" "12 \<le> length w + length rest"
  shows "v2_Parse (w @ rest) = Inr (Msg_CreateBearerResponse m')"
  using assms createBearerResponse.marshalled_parse [of m w m' rest]
  by (simp add: typed_msg_ok_def CreateBearerResponse_Marshal_eq CreateBearerResponse_UnmarshalBinary_def v2_Parse_def lift_parse_Inr)

lemma v2_Parse_DeleteBearerResponse:
  assumes "v2_message_ok (Msg_DeleteBearerResponse m)" "DeleteBearerResponse_Marshal m = Inr (w, m')" "12 \<le> length w + length rest"
  shows "v2_Parse (w @ rest) = Inr (Msg_DeleteBearerResponse m')"
  using assms deleteBearerResponse.marshalled_parse [of m w m' rest]
  by (simp add: typed_msg_ok_def DeleteBearerResponse_Marshal_eq DeleteBearerResponse_UnmarshalBinary_def v2_Parse_def lift_parse_Inr)

lemma v2_Parse_ModifyBearerRequest:
  assumes "v2_message_ok (Msg_ModifyBearerRequest m)" "ModifyBearerRequest_Marshal m = Inr (w, m')" "12 \<le> length w + length rest"
  shows "v2_Parse (w @ rest) = Inr (Msg_ModifyBearerRequest m')"
  using assms modifyBearerRequest.marshalled_parse [of m w m' rest]
  by (simp add: typed_msg_ok_def ModifyBearerRequest_Marshal_eq ModifyBearerRequest_UnmarshalBinary_def v2_Parse_def lift_parse_Inr)

lemma v2_Parse_ModifyBearerResponse:
  assumes "v2_message_ok (Msg_ModifyBearerResponse m)" "ModifyBearerResponse_Marshal m = Inr (w, m')" "12 \<le> length w + length rest"
  shows "v2_Parse (w @ rest) = Inr (Msg_ModifyBearerResponse m')"
  using assms modifyBearerResponse.marshalled_parse [of m w m' rest]
  by (simp add: typed_msg_ok_def ModifyBearerResponse_Marshal_eq ModifyBearerResponse_UnmarshalBinary_def v2_Parse_def lift_parse_Inr)

lemma v2_Parse_UpdateBearerRequest:
  assumes "v2_message_ok (Msg_UpdateBearerRequest m)" "UpdateBearerRequest_Marshal m = Inr (w, m')" "12 \<le> length w + length rest"
  shows "v2_Parse (w @ rest) = Inr (Msg_UpdateBearerRequest m')"
  using assms updateBearerRequest.marshalled_parse [of m w m' rest]
  by (simp add: typed_msg_ok_def UpdateBearerRequest_Marshal_eq UpdateBearerRequest_UnmarshalBinary_def v2_Parse_def lift_parse_Inr)

lemma v2_Parse_UpdateBearerResponse:
  assumes "v2_message_ok (Msg_UpdateBearerResponse m)" "UpdateBearerResponse_Marshal m = Inr (w, m')" "12 \<le> length w + length rest"
  shows "v2_Parse (w @ rest) = Inr (Msg_UpdateBearerResponse m')"
  using assms updateBearerResponse.marshalled_parse [of m w m' rest]
  by (simp add: typed_msg_ok_def UpdateBearerResponse_Marshal_eq UpdateBearerResponse_UnmarshalBinary_def v2_Parse_def lift_parse_Inr)

lemma v2_Parse_ContextRequest:
  assumes "v2_message_ok (Msg_ContextRequest m)" "ContextRequest_Marshal m = Inr (w, m')" "12 \<le> length w + length rest"
  shows "v2_Parse (w @ rest) = Inr (Msg_ContextRequest m')"
  using assms contextRequest.marshalled_parse [of m w m' rest]
  by (simp add: typed_msg_ok_def ContextRequest_Marshal_eq ContextRequest_UnmarshalBinary_def v2_Parse_def lift_parse_Inr)

lemma v2_Parse_ContextResponse:
  assumes "v2_message_ok (Msg_ContextResponse m)" "ContextResponse_Marshal m = Inr (w, m')" "12 \<le> length w + length rest"
  shows "v2_Parse (w @ rest) = Inr (Msg_ContextResponse m')"
  using assms contextResponse.marshalled_parse [of m w m' rest]
  by (simp add: typed_msg_ok_def ContextResponse_Marshal_eq ContextResponse_Unmarshal_effective v2_Parse_def lift_parse_Inr)

lemma v2_Parse_ContextAcknowledge:
  assumes "v2_message_ok (Msg_ContextAcknowledge m)" "ContextAcknowledge_Marshal m = Inr (w, m')" "12 \<le> length w + length rest"
  shows "v2_Parse (w @ rest) = Inr (Msg_ContextAcknowledge m')"
  using assms contextAcknowledge.marshalled_parse [of m w m' rest]
  by (simp add: typed_msg_ok_def ContextAcknowledge_Marshal_eq ContextAcknowledge_UnmarshalBinary_def v2_Parse_def lift_parse_Inr)

lemma v2_Parse_ReleaseAccessBearersRequest:
  assumes "v2_message_ok (Msg_ReleaseAccessBearersRequest m)" "ReleaseAccessBearersRequest_Marshal m = Inr (w, m')" "12 \<le> length w + length rest"
  shows "v2_Parse (w @ rest) = Inr (Msg_ReleaseAccessBearersRequest m')"
  using assms releaseAccessBearersRequest.marshalled_parse [of m w m' rest]
  by (simp add: typed_msg_ok_def ReleaseAccessBearersRequest_Marshal_eq ReleaseAccessBearersRequest_UnmarshalBinary_def v2_Parse_def lift_parse_Inr)

lemma v2_Parse_ReleaseAccessBearersResponse:
  assumes "v2_message_ok (Msg_ReleaseAccessBearersResponse m)" "ReleaseAccessBearersResponse_Marshal m = Inr (w, m')" "12 \<le> length w + length rest"
  shows "v2_Parse (w @ rest) = Inr (Msg_ReleaseAccessBearersResponse m')"
  using assms releaseAccessBearersResponse.marshalled_parse [of m w m' rest]
  by (simp add: typed_msg_ok_def ReleaseAccessBearersResponse_Marshal_eq ReleaseAccessBearersResponse_UnmarshalBinary_def v2_Parse_def lift_parse_Inr)

lemma v2_Parse_StopPagingIndication:
  assumes "v2_message_ok (Msg_StopPagingIndication m)" "StopPagingIndication_Marshal m = Inr (w, m')" "12 \<le> length w + length rest"
  shows "v2_Parse (w @ rest) = Inr (Msg_StopPagingIndication m')"
  using assms stopPagingIndication.marshalled_parse [of m w m' rest]
  by (simp add: typed_msg_ok_def StopPagingIndication_Marshal_eq StopPagingIndication_UnmarshalBinary_def v2_Parse_def lift_parse_Inr)

lemma v2_Parse_ModifyAccessBearersRequest:
  assumes "v2_message_ok (Msg_ModifyAccessBearersRequest m)" "ModifyAccessBearersRequest_Marshal m = Inr (w, m')" "12 \<le> length w + length rest"
  shows "v2_Parse (w @ rest) = Inr (Msg_ModifyAccessBearersRequest m')"
  using assms modifyAccessBearersRequest.marshalled_parse [of m w m' rest]
  by (simp add: typed_msg_ok_def ModifyAccessBearersRequest_Marshal_eq ModifyAccessBearersRequest_UnmarshalBinary_def v2_Parse_def lift_parse_Inr)

lemma v2_Parse_ModifyAccessBearersResponse:
  assumes "v2_message_ok (Msg_ModifyAccessBearersResponse m)" "ModifyAccessBearersResponse_Marshal m = Inr (w, m')" "12 \<le> length w + length rest"
  shows "v2_Parse (w @ rest) = Inr (Msg_ModifyAccessBearersResponse m')"
  using assms modifyAccessBearersResponse.marshalled_parse [of m w m' rest]
  by (simp add: typed_msg_ok_def ModifyAccessBearersResponse_Marshal_eq ModifyAccessBearersResponse_UnmarshalBinary_def v2_Parse_def lift_parse_Inr)

lemma v2_Parse_DeletePDNConnectionSetRequest:
  assumes "v2_message_ok (Msg_DeletePDNConnectionSetRequest m)" "DeletePDNConnectionSetRequest_Marshal m = Inr (w, m')" "12 \<le> length w + length rest"
  shows "v2_Parse (w @ rest) = Inr (Msg_DeletePDNConnectionSetRequest m')"
  using assms deletePDNConnectionSetRequest.marshalled_parse [of m w m' rest]
  by (simp add: typed_msg_ok_def DeletePDNConnectionSetRequest_Marshal_eq DeletePDNConnectionSetRequest_UnmarshalBinary_def v2_Parse_def lift_parse_Inr)

lemma v2_Parse_DeletePDNConnectionSetResponse:
  assumes "v2_message_ok (Msg_DeletePDNConnectionSetResponse m)" "DeletePDNConnectionSetResponse_Marshal m = Inr (w, m')" "12 \<le> length w + length rest"
  shows "v2_Parse (w @ rest) = Inr (Msg_DeletePDNConnectionSetResponse m')"
  using assms deletePDNConnectionSetResponse.marshalled_parse [of m w m' rest]
  by (simp add: typed_msg_ok_def DeletePDNConnectionSetResponse_Marshal_eq DeletePDNConnectionSetResponse_UnmarshalBinary_def v2_Parse_def lift_parse_Inr)

lemma v2_Parse_UpdatePDNConnectionSetRequest:
  assumes "v2_message_ok (Msg_UpdatePDNConnectionSetRequest m)" "UpdatePDNConnectionSetRequest_Marshal m = Inr (w, m')" "12 \<le> length w + length rest"
  shows "v2_Parse (w @ rest) = Inr (Msg_UpdatePDNConnectionSetRequest m')"
  using assms updatePDNConnectionSetRequest.marshalled_parse [of m w m' rest]
  by (simp add: typed_msg_ok_def UpdatePDNConnectionSetRequest_Marshal_eq UpdatePDNConnectionSetRequest_UnmarshalBinary_def v2_Parse_def lift_parse_Inr)

lemma v2_Parse_UpdatePDNConnectionSetResponse:
  assumes "v2_message_ok (Msg_UpdatePDNConnectionSetResponse m)" "UpdatePDNConnectionSetResponse_Marshal m = Inr (w, m')" "12 \<le> length w + length rest"
  shows "v2_Parse (w @ rest) = Inr (Msg_UpdatePDNConnectionSetResponse m')"
  using assms updatePDNConnectionSetResponse.marshalled_parse [of m w m' rest]
  by (simp add: typed_msg_ok_def UpdatePDNConnectionSetResponse_Marshal_eq UpdatePDNConnectionSetResponse_UnmarshalBinary_def v2_Parse_def lift_parse_Inr)

lemma v2_Parse_PGWRestartNotification:
  assumes "v2_message_ok (Msg_PGWRestartNotification m)" "PGWRestartNotification_Marshal m = Inr (w, m')" "12 \<le> length w + length rest"
  shows "v2_Parse (w @ rest) = Inr (Msg_PGWRestartNotification m')"
  using assms pGWRestartNotification.marshalled_parse [of m w m' rest]
  by (simp add: typed_msg_ok_def PGWRestartNotification_Marshal_eq PGWRestartNotification_UnmarshalBinary_def v2_Parse_def lift_parse_Inr)

lemma v2_Parse_PGWRestartNotificationAcknowledge:
  assumes "v2_message_ok (Msg_PGWRestartNotificationAcknowledge m)" "PGWRestartNotificationAcknowledge_Marshal m = Inr (w, m')" "12 \<le> length w + length rest"
  shows "v2_Parse (w @ rest) = Inr (Msg_PGWRestartNotificationAcknowledge m')"
  using assms pGWRestartNotificationAcknowledge.marshalled_parse [of m w m' rest]
  by (simp add: typed_msg_ok_def PGWRestartNotificationAcknowledge_Marshal_eq PGWRestartNotificationAcknowledge_UnmarshalBinary_def v2_Parse_def lift_parse_Inr)

lemma v2_Parse_DetachNotification:
  assumes "v2_message_ok (Msg_DetachNotification m)" "DetachNotification_Marshal m = Inr (w, m')" "12 \<le> length w + length rest"
  shows "v2_Parse (w @ rest) = Inr (Msg_DetachNotification m')"
  using assms detachNotification.marshalled_parse [of m w m' rest]
  by (simp add: typed_msg_ok_def DetachNotification_Marshal_eq DetachNotification_UnmarshalBinary_def v2_Parse_def lift_parse_Inr)

lemma v2_Parse_DetachAcknowledge:
  assumes "v2_message_ok (Msg_DetachAcknowledge m)" "DetachAcknowledge_Marshal m = Inr (w, m')" "12 \<le> length w + length rest"
  shows "v2_Parse (w @ rest) = Inr (Msg_DetachAcknowledge m')"
  using assms detachAcknowledge.marshalled_parse [of m w m' rest]
  by (simp add: typed_msg_ok_def DetachAcknowledge_Marshal_eq DetachAcknowledge_UnmarshalBinary_def v2_Parse_def lift_parse_Inr)

lemma v2_Parse_DownlinkDataNotification:
  assumes "v2_message_ok (Msg_DownlinkDataNotification m)" "DownlinkDataNotification_Marshal m = Inr (w, m')" "12 \<le> length w + length rest"
  shows "v2_Parse (w @ rest) = Inr (Msg_DownlinkDataNotification m')"
  using assms downlinkDataNotification.marshalled_parse [of m w m' rest]
  by (simp add: typed_msg_ok_def DownlinkDataNotification_Marshal_eq DownlinkDataNotification_UnmarshalBinary_def v2_Parse_def lift_parse_Inr)

lemma v2_Parse_DownlinkDataNotificationAcknowledge:
  assumes "v2_message_ok (Msg_DownlinkDataNotificationAcknowledge m)" "DownlinkDataNotificationAcknowledge_Marshal m = Inr (w, m')" "12 \<le> length w + length rest"
  shows "v2_Parse (w @ rest) = Inr (Msg_DownlinkDataNotificationAcknowledge m')"
  using assms downlinkDataNotificationAcknowledge.marshalled_parse [of m w m' rest]
  by (simp add: typed_msg_ok_def DownlinkDataNotificationAcknowledge_Marshal_eq DownlinkDataNotificationAcknowledge_UnmarshalBinary_def v2_Parse_def lift_parse_Inr)

lemma v2_Parse_DownlinkDataNotificationFailureIndication:
  assumes "v2_message_ok (Msg_DownlinkDataNotificationFailureIndication m)" "DownlinkDataNotificationFailureIndication_Marshal m = Inr (w, m')" "12 \<le> length w + length rest"
  shows "v2_Parse (w @ rest) = Inr (Msg_DownlinkDataNotificationFailureIndication m')"
  using assms downlinkDataNotificationFailureIndication.marshalled_parse [of m w m' rest]
  by (simp add: typed_msg_ok_def DownlinkDataNotificationFailureIndication_Marshal_eq DownlinkDataNotificationFailureIndication_UnmarshalBinary_def v2_Parse_def lift_parse_Inr)

lemma v2_Parse_Generic:
  assumes "v2_message_ok (Msg_Generic g)" "g_Marshal g = Inr (w, g')" "12 \<le> length w + length rest"
  shows "v2_Parse (w @ rest) = Inr (Msg_Generic (generic_parsed g'))"
  using assms generic_marshalled_parse [of g w g' rest]
  by (simp add: specific_types_def v2_Parse_def lift_parse_Inr)

lemmas v2_Parse_messages =
  v2_Parse_EchoRequest
  v2_Parse_EchoResponse
  v2_Parse_VersionNotSupportedIndication
  v2_Parse_CreateSessionRequest
  v2_Parse_CreateSessionResponse
  v2_Parse_DeleteSessionRequest
  v2_Parse_DeleteSessionResponse
  v2_Parse_ModifyBearerCommand
  v2_Parse_ModifyBearerFailureIndication
  v2_Parse_DeleteBearerCommand
  v2_Parse_DeleteBearerFailureIndication
  v2_Parse_DeleteBearerRequest
  v2_Parse_CreateBearerRequest
  v2_Parse_CreateBearerResponse
  v2_Parse_DeleteBearerResponse
  v2_Parse_ModifyBearerRequest
  v2_Parse_ModifyBearerResponse
  v2_Parse_UpdateBearerRequest
  v2_Parse_UpdateBearerResponse
  v2_Parse_ContextRequest
  v2_Parse_ContextResponse
  v2_Parse_ContextAcknowledge
  v2_Parse_ReleaseAccessBearersRequest
  v2_Parse_ReleaseAccessBearersResponse
  v2_Parse_StopPagingIndication
  v2_Parse_ModifyAccessBearersRequest
  v2_Parse_ModifyAccessBearersResponse
  v2_Parse_DeletePDNConnectionSetRequest
  v2_Parse_DeletePDNConnectionSetResponse
  v2_Parse_UpdatePDNConnectionSetRequest
  v2_Parse_UpdatePDNConnectionSetResponse
  v2_Parse_PGWRestartNotification
  v2_Parse_PGWRestartNotificationAcknowledge
  v2_Parse_DetachNotification
  v2_Parse_DetachAcknowledge
  v2_Parse_DownlinkDataNotification
  v2_Parse_DownlinkDataNotificationAcknowledge
  v2_Parse_DownlinkDataNotificationFailureIndication

text \<open>What a round trip gives back: a generic message comes back without its nil elements.\<close>

definition v2_parsed :: "v2_message \<Rightarrow> v2_message" where
  "v2_parsed M = (case M of Msg_Generic g \<Rightarrow> Msg_Generic (generic_parsed g) | _ \<Rightarrow> M)"

text \<open>
  The messages that \<open>Marshal\<close> does not write in full: a \<open>CreateSessionRequest\<close> with a Private
  Extension and additional elements, which are written over it.
\<close>

definition v2_overlaps :: "v2_message \<Rightarrow> bool" where
  "v2_overlaps M =
     (case M of Msg_CreateSessionRequest m \<Rightarrow> msg_overlaps CreateSessionRequest_order m | _ \<Rightarrow> False)"

lemma v2_Parse_Marshal:
  assumes ok: "v2_message_ok M" and full: "\<not> v2_overlaps M" and w: "v2_Marshal M = Inr (w, M')" and len: "12 \<le> length w + length rest"
  shows "v2_Parse (w @ rest) = Inr (v2_parsed M')"
proof (cases M)
  case (Msg_EchoRequest m)
  with w obtain m' where m': "EchoRequest_Marshal m = Inr (w, m')" "M' = Msg_EchoRequest m'"
    by (auto simp: v2_Marshal_simps lift_message_Inr)
  with v2_Parse_EchoRequest [OF _ m'(1) len] ok Msg_EchoRequest show ?thesis by (simp add: v2_parsed_def)
next
  case (Msg_EchoResponse m)
  with w obtain m' where m': "EchoResponse_Marshal m = Inr (w, m')" "M' = Msg_EchoResponse m'"
    by (auto simp: v2_Marshal_simps lift_message_Inr)
  with v2_Parse_EchoResponse [OF _ m'(1) len] ok Msg_EchoResponse show ?thesis by (simp add: v2_parsed_def)
next
  case (Msg_VersionNotSupportedIndication m)
  with w obtain m' where m': "VersionNotSupportedIndication_Marshal m = Inr (w, m')" "M' = Msg_VersionNotSupportedIndication m'"
    by (auto simp: v2_Marshal_simps lift_message_Inr)
  with v2_Parse_VersionNotSupportedIndication [OF _ m'(1) len] ok Msg_VersionNotSupportedIndication show ?thesis by (simp add: v2_parsed_def)
next
  case (Msg_CreateSessionRequest m)
  with w obtain m' where m': "CreateSessionRequest_Marshal m = Inr (w, m')" "M' = Msg_CreateSessionRequest m'"
    by (auto simp: v2_Marshal_simps lift_message_Inr)
  with v2_Parse_CreateSessionRequest [OF _ m'(1) len] ok full Msg_CreateSessionRequest show ?thesis
    by (simp add: v2_parsed_def v2_overlaps_def)
next
  case (Msg_CreateSessionResponse m)
  with w obtain m' where m': "CreateSessionResponse_Marshal m = Inr (w, m')" "M' = Msg_CreateSessionResponse m'"
    by (auto simp: v2_Marshal_simps lift_message_Inr)
  with v2_Parse_CreateSessionResponse [OF _ m'(1) len] ok Msg_CreateSessionResponse show ?thesis by (simp add: v2_parsed_def)
next
  case (Msg_DeleteSessionRequest m)
  with w obtain m' where m': "DeleteSessionRequest_Marshal m = Inr (w, m')" "M' = Msg_DeleteSessionRequest m'"
    by (auto simp: v2_Marshal_simps lift_message_Inr)
  with v2_Parse_DeleteSessionRequest [OF _ m'(1) len] ok Msg_DeleteSessionRequest show ?thesis by (simp add: v2_parsed_def)
next
  case (Msg_DeleteSessionResponse m)
  with w obtain m' where m': "DeleteSessionResponse_Marshal m = Inr (w, m')" "M' = Msg_DeleteSessionResponse m'"
    by (auto simp: v2_Marshal_simps lift_message_Inr)
  with v2_Parse_DeleteSessionResponse [OF _ m'(1) len] ok Msg_DeleteSessionResponse show ?thesis by (simp add: v2_parsed_def)
next
  case (Msg_ModifyBearerCommand m)
  with w obtain m' where m': "ModifyBearerCommand_Marshal m = Inr (w, m')" "M' = Msg_ModifyBearerCommand m'"
    by (auto simp: v2_Marshal_simps lift_message_Inr)
  with v2_Parse_ModifyBearerCommand [OF _ m'(1) len] ok Msg_ModifyBearerCommand show ?thesis by (simp add: v2_parsed_def)
next
  case (Msg_ModifyBearerFailureIndication m)
  with w obtain m' where m': "ModifyBearerFailureIndication_Marshal m = Inr (w, m')" "M' = Msg_ModifyBearerFailureIndication m'"
    by (auto simp: v2_Marshal_simps lift_message_Inr)
  with v2_Parse_ModifyBearerFailureIndication [OF _ m'(1) len] ok Msg_ModifyBearerFailureIndication show ?thesis by (simp add: v2_parsed_def)
next
  case (Msg_DeleteBearerCommand m)
  with w obtain m' where m': "DeleteBearerCommand_Marshal m = Inr (w, m')" "M' = Msg_DeleteBearerCommand m'"
    by (auto simp: v2_Marshal_simps lift_message_Inr)
  with v2_Parse_DeleteBearerCommand [OF _ m'(1) len] ok Msg_DeleteBearerCommand show ?thesis by (simp add: v2_parsed_def)
next
  case (Msg_DeleteBearerFailureIndication m)
  with w obtain m' where m': "DeleteBearerFailureIndication_Marshal m = Inr (w, m')" "M' = Msg_DeleteBearerFailureIndication m'"
    by (auto simp: v2_Marshal_simps lift_message_Inr)
  with v2_Parse_DeleteBearerFailureIndication [OF _ m'(1) len] ok Msg_DeleteBearerFailureIndication show ?thesis by (simp add: v2_parsed_def)
next
  case (Msg_DeleteBearerRequest m)
  with w obtain m' where m': "DeleteBearerRequest_Marshal m = Inr (w, m')" "M' = Msg_DeleteBearerRequest m'"
    by (auto simp: v2_Marshal_simps lift_message_Inr)
  with v2_Parse_DeleteBearerRequest [OF _ m'(1) len] ok Msg_DeleteBearerRequest show ?thesis by (simp add: v2_parsed_def)
next
  case (Msg_CreateBearerRequest m)
  with w obtain m' where m': "CreateBearerRequest_Marshal m = Inr (w, m')" "M' = Msg_CreateBearerRequest m'"
    by (auto simp: v2_Marshal_simps lift_message_Inr)
  with v2_Parse_CreateBearerRequest [OF _ m'(1) len] ok Msg_CreateBearerRequest show ?thesis by (simp add: v2_parsed_def)
next
  case (Msg_CreateBearerResponse m)
  with w obtain m' where m': "CreateBearerResponse_Marshal m = Inr (w, m')" "M' = Msg_CreateBearerResponse m'"
    by (auto simp: v2_Marshal_simps lift_message_Inr)
  with v2_Parse_CreateBearerResponse [OF _ m'(1) len] ok Msg_CreateBearerResponse show ?thesis by (simp add: v2_parsed_def)
next
  case (Msg_DeleteBearerResponse m)
  with w obtain m' where m': "DeleteBearerResponse_Marshal m = Inr (w, m')" "M' = Msg_DeleteBearerResponse m'"
    by (auto simp: v2_Marshal_simps lift_message_Inr)
  with v2_Parse_DeleteBearerResponse [OF _ m'(1) len] ok Msg_DeleteBearerResponse show ?thesis by (simp add: v2_parsed_def)
next
  case (Msg_ModifyBearerRequest m)
  with w obtain m' where m': "ModifyBearerRequest_Marshal m = Inr (w, m')" "M' = Msg_ModifyBearerRequest m'"
    by (auto simp: v2_Marshal_simps lift_message_Inr)
  with v2_Parse_ModifyBearerRequest [OF _ m'(1) len] ok Msg_ModifyBearerRequest show ?thesis by (simp add: v2_parsed_def)
next
  case (Msg_ModifyBearerResponse m)
  with w obtain m' where m': "ModifyBearerResponse_Marshal m = Inr (w, m')" "M' = Msg_ModifyBearerResponse m'"
    by (auto simp: v2_Marshal_simps lift_message_Inr)
  with v2_Parse_ModifyBearerResponse [OF _ m'(1) len] ok Msg_ModifyBearerResponse show ?thesis by (simp add: v2_parsed_def)
next
  case (Msg_UpdateBearerRequest m)
  with w obtain m' where m': "UpdateBearerRequest_Marshal m = Inr (w, m')" "M' = Msg_UpdateBearerRequest m'"
    by (auto simp: v2_Marshal_simps lift_message_Inr)
  with v2_Parse_UpdateBearerRequest [OF _ m'(1) len] ok Msg_UpdateBearerRequest show ?thesis by (simp add: v2_parsed_def)
next
  case (Msg_UpdateBearerResponse m)
  with w obtain m' where m': "UpdateBearerResponse_Marshal m = Inr (w, m')" "M' = Msg_UpdateBearerResponse m'"
    by (auto simp: v2_Marshal_simps lift_message_Inr)
  with v2_Parse_UpdateBearerResponse [OF _ m'(1) len] ok Msg_UpdateBearerResponse show ?thesis by (simp add: v2_parsed_def)
next
  case (Msg_ContextRequest m)
  with w obtain m' where m': "ContextRequest_Marshal m = Inr (w, m')" "M' = Msg_ContextRequest m'"
    by (auto simp: v2_Marshal_simps lift_message_Inr)
  with v2_Parse_ContextRequest [OF _ m'(1) len] ok Msg_ContextRequest show ?thesis by (simp add: v2_parsed_def)
next
  case (Msg_ContextResponse m)
  with w obtain m' where m': "ContextResponse_Marshal m = Inr (w, m')" "M' = Msg_ContextResponse m'"
    by (auto simp: v2_Marshal_simps lift_message_Inr)
  with v2_Parse_ContextResponse [OF _ m'(1) len] ok Msg_ContextResponse show ?thesis by (simp add: v2_parsed_def)
next
  case (Msg_ContextAcknowledge m)
  with w obtain m' where m': "ContextAcknowledge_Marshal m = Inr (w, m')" "M' = Msg_ContextAcknowledge m'"
    by (auto simp: v2_Marshal_simps lift_message_Inr)
  with v2_Parse_ContextAcknowledge [OF _ m'(1) len] ok Msg_ContextAcknowledge show ?thesis by (simp add: v2_parsed_def)
next
  case (Msg_ReleaseAccessBearersRequest m)
  with w obtain m' where m': "ReleaseAccessBearersRequest_Marshal m = Inr (w, m')" "M' = Msg_ReleaseAccessBearersRequest m'"
    by (auto simp: v2_Marshal_simps lift_message_Inr)
  with v2_Parse_ReleaseAccessBearersRequest [OF _ m'(1) len] ok Msg_ReleaseAccessBearersRequest show ?thesis by (simp add: v2_parsed_def)
next
  case (Msg_ReleaseAccessBearersResponse m)
  with w obtain m' where m': "ReleaseAccessBearersResponse_Marshal m = Inr (w, m')" "M' = Msg_ReleaseAccessBearersResponse m'"
    by (auto simp: v2_Marshal_simps lift_message_Inr)
  with v2_Parse_ReleaseAccessBearersResponse [OF _ m'(1) len] ok Msg_ReleaseAccessBearersResponse show ?thesis by (simp add: v2_parsed_def)
next
  case (Msg_StopPagingIndication m)
  with w obtain m' where m': "StopPagingIndication_Marshal m = Inr (w, m')" "M' = Msg_StopPagingIndication m'"
    by (auto simp: v2_Marshal_simps lift_message_Inr)
  with v2_Parse_StopPagingIndication [OF _ m'(1) len] ok Msg_StopPagingIndication show ?thesis by (simp add: v2_parsed_def)
next
  case (Msg_ModifyAccessBearersRequest m)
  with w obtain m' where m': "ModifyAccessBearersRequest_Marshal m = Inr (w, m')" "M' = Msg_ModifyAccessBearersRequest m'"
    by (auto simp: v2_Marshal_simps lift_message_Inr)
  with v2_Parse_ModifyAccessBearersRequest [OF _ m'(1) len] ok Msg_ModifyAccessBearersRequest show ?thesis by (simp add: v2_parsed_def)
next
  case (Msg_ModifyAccessBearersResponse m)
  with w obtain m' where m': "ModifyAccessBearersResponse_Marshal m = Inr (w, m')" "M' = Msg_ModifyAccessBearersResponse m'"
    by (auto simp: v2_Marshal_simps lift_message_Inr)
  with v2_Parse_ModifyAccessBearersResponse [OF _ m'(1) len] ok Msg_ModifyAccessBearersResponse show ?thesis by (simp add: v2_parsed_def)
next
  case (Msg_DeletePDNConnectionSetRequest m)
  with w obtain m' where m': "DeletePDNConnectionSetRequest_Marshal m = Inr (w, m')" "M' = Msg_DeletePDNConnectionSetRequest m'"
    by (auto simp: v2_Marshal_simps lift_message_Inr)
  with v2_Parse_DeletePDNConnectionSetRequest [OF _ m'(1) len] ok Msg_DeletePDNConnectionSetRequest show ?thesis by (simp add: v2_parsed_def)
next
  case (Msg_DeletePDNConnectionSetResponse m)
  with w obtain m' where m': "DeletePDNConnectionSetResponse_Marshal m = Inr (w, m')" "M' = Msg_DeletePDNConnectionSetResponse m'"
    by (auto simp: v2_Marshal_simps lift_message_Inr)
  with v2_Parse_DeletePDNConnectionSetResponse [OF _ m'(1) len] ok Msg_DeletePDNConnectionSetResponse show ?thesis by (simp add: v2_parsed_def)
next
  case (Msg_UpdatePDNConnectionSetRequest m)
  with w obtain m' where m': "UpdatePDNConnectionSetRequest_Marshal m = Inr (w, m')" "M' = Msg_UpdatePDNConnectionSetRequest m'"
    by (auto simp: v2_Marshal_simps lift_message_Inr)
  with v2_Parse_UpdatePDNConnectionSetRequest [OF _ m'(1) len] ok Msg_UpdatePDNConnectionSetRequest show ?thesis by (simp add: v2_parsed_def)
next
  case (Msg_UpdatePDNConnectionSetResponse m)
  with w obtain m' where m': "UpdatePDNConnectionSetResponse_Marshal m = Inr (w, m')" "M' = Msg_UpdatePDNConnectionSetResponse m'"
    by (auto simp: v2_Marshal_simps lift_message_Inr)
  with v2_Parse_UpdatePDNConnectionSetResponse [OF _ m'(1) len] ok Msg_UpdatePDNConnectionSetResponse show ?thesis by (simp add: v2_parsed_def)
next
  case (Msg_PGWRestartNotification m)
  with w obtain m' where m': "PGWRestartNotification_Marshal m = Inr (w, m')" "M' = Msg_PGWRestartNotification m'"
    by (auto simp: v2_Marshal_simps lift_message_Inr)
  with v2_Parse_PGWRestartNotification [OF _ m'(1) len] ok Msg_PGWRestartNotification show ?thesis by (simp add: v2_parsed_def)
next
  case (Msg_PGWRestartNotificationAcknowledge m)
  with w obtain m' where m': "PGWRestartNotificationAcknowledge_Marshal m = Inr (w, m')" "M' = Msg_PGWRestartNotificationAcknowledge m'"
    by (auto simp: v2_Marshal_simps lift_message_Inr)
  with v2_Parse_PGWRestartNotificationAcknowledge [OF _ m'(1) len] ok Msg_PGWRestartNotificationAcknowledge show ?thesis by (simp add: v2_parsed_def)
next
  case (Msg_DetachNotification m)
  with w obtain m' where m': "DetachNotification_Marshal m = Inr (w, m')" "M' = Msg_DetachNotification m'"
    by (auto simp: v2_Marshal_simps lift_message_Inr)
  with v2_Parse_DetachNotification [OF _ m'(1) len] ok Msg_DetachNotification show ?thesis by (simp add: v2_parsed_def)
next
  case (Msg_DetachAcknowledge m)
  with w obtain m' where m': "DetachAcknowledge_Marshal m = Inr (w, m')" "M' = Msg_DetachAcknowledge m'"
    by (auto simp: v2_Marshal_simps lift_message_Inr)
  with v2_Parse_DetachAcknowledge [OF _ m'(1) len] ok Msg_DetachAcknowledge show ?thesis by (simp add: v2_parsed_def)
next
  case (Msg_DownlinkDataNotification m)
  with w obtain m' where m': "DownlinkDataNotification_Marshal m = Inr (w, m')" "M' = Msg_DownlinkDataNotification m'"
    by (auto simp: v2_Marshal_simps lift_message_Inr)
  with v2_Parse_DownlinkDataNotification [OF _ m'(1) len] ok Msg_DownlinkDataNotification show ?thesis by (simp add: v2_parsed_def)
next
  case (Msg_DownlinkDataNotificationAcknowledge m)
  with w obtain m' where m': "DownlinkDataNotificationAcknowledge_Marshal m = Inr (w, m')" "M' = Msg_DownlinkDataNotificationAcknowledge m'"
    by (auto simp: v2_Marshal_simps lift_message_Inr)
  with v2_Parse_DownlinkDataNotificationAcknowledge [OF _ m'(1) len] ok Msg_DownlinkDataNotificationAcknowledge show ?thesis by (simp add: v2_parsed_def)
next
  case (Msg_DownlinkDataNotificationFailureIndication m)
  with w obtain m' where m': "DownlinkDataNotificationFailureIndication_Marshal m = Inr (w, m')" "M' = Msg_DownlinkDataNotificationFailureIndication m'"
    by (auto simp: v2_Marshal_simps lift_message_Inr)
  with v2_Parse_DownlinkDataNotificationFailureIndication [OF _ m'(1) len] ok Msg_DownlinkDataNotificationFailureIndication show ?thesis by (simp add: v2_parsed_def)
next
  case (Msg_Generic g)
  with w obtain g' where g': "g_Marshal g = Inr (w, g')" "M' = Msg_Generic g'"
    by (auto simp: v2_Marshal_simps lift_message_Inr)
  with v2_Parse_Generic [OF _ g'(1) len] ok Msg_Generic show ?thesis by (simp add: v2_parsed_def)
qed

lemma lift_message_total:
  "\<exists>w m. r = Inr (w, m) \<and> length w = n \<Longrightarrow> \<exists>w M. lift_message C r = Inr (w, M) \<and> length w = n"
  by (auto simp: lift_message_def)

lemma lift_parse_Inr_iff: "lift_parse C r = Inr M \<longleftrightarrow> (\<exists>m. r = Inr m \<and> M = C m)"
  by (auto simp: lift_parse_def andThen_eq_Inr)

lemma if_eq_disj: "(if c then a else b) = z \<longleftrightarrow> c \<and> a = z \<or> \<not> c \<and> b = z"
  by simp

lemma v2_Parse_inv:
  "v2_Parse b = Inr (Msg_EchoRequest m0) \<Longrightarrow> byte_at b 1 = Inr MsgTypeEchoRequest \<and> EchoRequest_UnmarshalBinary b = Inr m0"
  "v2_Parse b = Inr (Msg_EchoResponse m1) \<Longrightarrow> byte_at b 1 = Inr MsgTypeEchoResponse \<and> EchoResponse_UnmarshalBinary b = Inr m1"
  "v2_Parse b = Inr (Msg_VersionNotSupportedIndication m2) \<Longrightarrow> byte_at b 1 = Inr MsgTypeVersionNotSupportedIndication \<and> VersionNotSupportedIndication_UnmarshalBinary b = Inr m2"
  "v2_Parse b = Inr (Msg_CreateSessionRequest m3) \<Longrightarrow> byte_at b 1 = Inr MsgTypeCreateSessionRequest \<and> CreateSessionRequest_UnmarshalBinary b = Inr m3"
  "v2_Parse b = Inr (Msg_CreateSessionResponse m4) \<Longrightarrow> byte_at b 1 = Inr MsgTypeCreateSessionResponse \<and> CreateSessionResponse_UnmarshalBinary b = Inr m4"
  "v2_Parse b = Inr (Msg_DeleteSessionRequest m5) \<Longrightarrow> byte_at b 1 = Inr MsgTypeDeleteSessionRequest \<and> DeleteSessionRequest_UnmarshalBinary b = Inr m5"
  "v2_Parse b = Inr (Msg_DeleteSessionResponse m6) \<Longrightarrow> byte_at b 1 = Inr MsgTypeDeleteSessionResponse \<and> DeleteSessionResponse_UnmarshalBinary b = Inr m6"
  "v2_Parse b = Inr (Msg_ModifyBearerCommand m7) \<Longrightarrow> byte_at b 1 = Inr MsgTypeModifyBearerCommand \<and> ModifyBearerCommand_UnmarshalBinary b = Inr m7"
  "v2_Parse b = Inr (Msg_ModifyBearerFailureIndication m8) \<Longrightarrow> byte_at b 1 = Inr MsgTypeModifyBearerFailureIndication \<and> ModifyBearerFailureIndication_UnmarshalBinary b = Inr m8"
  "v2_Parse b = Inr (Msg_DeleteBearerCommand m9) \<Longrightarrow> byte_at b 1 = Inr MsgTypeDeleteBearerCommand \<and> DeleteBearerCommand_UnmarshalBinary b = Inr m9"
  "v2_Parse b = Inr (Msg_DeleteBearerFailureIndication m10) \<Longrightarrow> byte_at b 1 = Inr MsgTypeDeleteBearerFailureIndication \<and> DeleteBearerFailureIndication_UnmarshalBinary b = Inr m10"
  "v2_Parse b = Inr (Msg_DeleteBearerRequest m11) \<Longrightarrow> byte_at b 1 = Inr MsgTypeDeleteBearerRequest \<and> DeleteBearerRequest_UnmarshalBinary b = Inr m11"
  "v2_Parse b = Inr (Msg_CreateBearerRequest m12) \<Longrightarrow> byte_at b 1 = Inr MsgTypeCreateBearerRequest \<and> CreateBearerRequest_UnmarshalBinary b = Inr m12"
  "v2_Parse b = Inr (Msg_CreateBearerResponse m13) \<Longrightarrow> byte_at b 1 = Inr MsgTypeCreateBearerResponse \<and> CreateBearerResponse_UnmarshalBinary b = Inr m13"
  "v2_Parse b = Inr (Msg_DeleteBearerResponse m14) \<Longrightarrow> byte_at b 1 = Inr MsgTypeDeleteBearerResponse \<and> DeleteBearerResponse_UnmarshalBinary b = Inr m14"
  "v2_Parse b = Inr (Msg_ModifyBearerRequest m15) \<Longrightarrow> byte_at b 1 = Inr MsgTypeModifyBearerRequest \<and> ModifyBearerRequest_UnmarshalBinary b = Inr m15"
  "v2_Parse b = Inr (Msg_ModifyBearerResponse m16) \<Longrightarrow> byte_at b 1 = Inr MsgTypeModifyBearerResponse \<and> ModifyBearerResponse_UnmarshalBinary b = Inr m16"
  "v2_Parse b = Inr (Msg_UpdateBearerRequest m17) \<Longrightarrow> byte_at b 1 = Inr MsgTypeUpdateBearerRequest \<and> UpdateBearerRequest_UnmarshalBinary b = Inr m17"
  "v2_Parse b = Inr (Msg_UpdateBearerResponse m18) \<Longrightarrow> byte_at b 1 = Inr MsgTypeUpdateBearerResponse \<and> UpdateBearerResponse_UnmarshalBinary b = Inr m18"
  "v2_Parse b = Inr (Msg_ContextRequest m19) \<Longrightarrow> byte_at b 1 = Inr MsgTypeContextRequest \<and> ContextRequest_UnmarshalBinary b = Inr m19"
  "v2_Parse b = Inr (Msg_ContextResponse m20) \<Longrightarrow> byte_at b 1 = Inr MsgTypeContextResponse \<and> ContextResponse_UnmarshalBinary b = Inr m20"
  "v2_Parse b = Inr (Msg_ContextAcknowledge m21) \<Longrightarrow> byte_at b 1 = Inr MsgTypeContextAcknowledge \<and> ContextAcknowledge_UnmarshalBinary b = Inr m21"
  "v2_Parse b = Inr (Msg_ReleaseAccessBearersRequest m22) \<Longrightarrow> byte_at b 1 = Inr MsgTypeReleaseAccessBearersRequest \<and> ReleaseAccessBearersRequest_UnmarshalBinary b = Inr m22"
  "v2_Parse b = Inr (Msg_ReleaseAccessBearersResponse m23) \<Longrightarrow> byte_at b 1 = Inr MsgTypeReleaseAccessBearersResponse \<and> ReleaseAccessBearersResponse_UnmarshalBinary b = Inr m23"
  "v2_Parse b = Inr (Msg_StopPagingIndication m24) \<Longrightarrow> byte_at b 1 = Inr MsgTypeStopPagingIndication \<and> StopPagingIndication_UnmarshalBinary b = Inr m24"
  "v2_Parse b = Inr (Msg_ModifyAccessBearersRequest m25) \<Longrightarrow> byte_at b 1 = Inr MsgTypeModifyAccessBearersRequest \<and> ModifyAccessBearersRequest_UnmarshalBinary b = Inr m25"
  "v2_Parse b = Inr (Msg_ModifyAccessBearersResponse m26) \<Longrightarrow> byte_at b 1 = Inr MsgTypeModifyAccessBearersResponse \<and> ModifyAccessBearersResponse_UnmarshalBinary b = Inr m26"
  "v2_Parse b = Inr (Msg_DeletePDNConnectionSetRequest m27) \<Longrightarrow> byte_at b 1 = Inr MsgTypeDeletePDNConnectionSetRequest \<and> DeletePDNConnectionSetRequest_UnmarshalBinary b = Inr m27"
  "v2_Parse b = Inr (Msg_DeletePDNConnectionSetResponse m28) \<Longrightarrow> byte_at b 1 = Inr MsgTypeDeletePDNConnectionSetResponse \<and> DeletePDNConnectionSetResponse_UnmarshalBinary b = Inr m28"
  "v2_Parse b = Inr (Msg_UpdatePDNConnectionSetRequest m29) \<Longrightarrow> byte_at b 1 = Inr MsgTypeUpdatePDNConnectionSetRequest \<and> UpdatePDNConnectionSetRequest_UnmarshalBinary b = Inr m29"
  "v2_Parse b = Inr (Msg_UpdatePDNConnectionSetResponse m30) \<Longrightarrow> byte_at b 1 = Inr MsgTypeUpdatePDNConnectionSetResponse \<and> UpdatePDNConnectionSetResponse_UnmarshalBinary b = Inr m30"
  "v2_Parse b = Inr (Msg_PGWRestartNotification m31) \<Longrightarrow> byte_at b 1 = Inr MsgTypePGWRestartNotification \<and> PGWRestartNotification_UnmarshalBinary b = Inr m31"
  "v2_Parse b = Inr (Msg_PGWRestartNotificationAcknowledge m32) \<Longrightarrow> byte_at b 1 = Inr MsgTypePGWRestartNotificationAcknowledge \<and> PGWRestartNotificationAcknowledge_UnmarshalBinary b = Inr m32"
  "v2_Parse b = Inr (Msg_DetachNotification m33) \<Longrightarrow> byte_at b 1 = Inr MsgTypeDetachNotification \<and> DetachNotification_UnmarshalBinary b = Inr m33"
  "v2_Parse b = Inr (Msg_DetachAcknowledge m34) \<Longrightarrow> byte_at b 1 = Inr MsgTypeDetachAcknowledge \<and> DetachAcknowledge_UnmarshalBinary b = Inr m34"
  "v2_Parse b = Inr (Msg_DownlinkDataNotification m35) \<Longrightarrow> byte_at b 1 = Inr MsgTypeDownlinkDataNotification \<and> DownlinkDataNotification_UnmarshalBinary b = Inr m35"
  "v2_Parse b = Inr (Msg_DownlinkDataNotificationAcknowledge m36) \<Longrightarrow> byte_at b 1 = Inr MsgTypeDownlinkDataNotificationAcknowledge \<and> DownlinkDataNotificationAcknowledge_UnmarshalBinary b = Inr m36"
  "v2_Parse b = Inr (Msg_DownlinkDataNotificationFailureIndication m37) \<Longrightarrow> byte_at b 1 = Inr MsgTypeDownlinkDataNotificationFailureIndication \<and> DownlinkDataNotificationFailureIndication_UnmarshalBinary b = Inr m37"
  "v2_Parse b = Inr (Msg_Generic g) \<Longrightarrow>
     (\<exists>t. byte_at b 1 = Inr t \<and> t \<notin> set specific_types) \<and> g_UnmarshalBinary b = Inr g"
  by (simp_all only: v2_Parse_def andThen_eq_Inr if_eq_disj lift_parse_Inr_iff v2_message.distinct
      v2_message.inject simp_thms ex_simps)
     (fastforce simp: specific_types_def)+

lemmas v2_MarshalLen_defs =
  EchoRequest_MarshalLen_def
  EchoResponse_MarshalLen_def
  VersionNotSupportedIndication_MarshalLen_def
  CreateSessionRequest_MarshalLen_def
  CreateSessionResponse_MarshalLen_def
  DeleteSessionRequest_MarshalLen_def
  DeleteSessionResponse_MarshalLen_def
  ModifyBearerCommand_MarshalLen_def
  ModifyBearerFailureIndication_MarshalLen_def
  DeleteBearerCommand_MarshalLen_def
  DeleteBearerFailureIndication_MarshalLen_def
  DeleteBearerRequest_MarshalLen_def
  CreateBearerRequest_MarshalLen_def
  CreateBearerResponse_MarshalLen_def
  DeleteBearerResponse_MarshalLen_def
  ModifyBearerRequest_MarshalLen_def
  ModifyBearerResponse_MarshalLen_def
  UpdateBearerRequest_MarshalLen_def
  UpdateBearerResponse_MarshalLen_def
  ContextRequest_MarshalLen_def
  ContextResponse_MarshalLen_def
  ContextAcknowledge_MarshalLen_def
  ReleaseAccessBearersRequest_MarshalLen_def
  ReleaseAccessBearersResponse_MarshalLen_def
  StopPagingIndication_MarshalLen_def
  ModifyAccessBearersRequest_MarshalLen_def
  ModifyAccessBearersResponse_MarshalLen_def
  DeletePDNConnectionSetRequest_MarshalLen_def
  DeletePDNConnectionSetResponse_MarshalLen_def
  UpdatePDNConnectionSetRequest_MarshalLen_def
  UpdatePDNConnectionSetResponse_MarshalLen_def
  PGWRestartNotification_MarshalLen_def
  PGWRestartNotificationAcknowledge_MarshalLen_def
  DetachNotification_MarshalLen_def
  DetachAcknowledge_MarshalLen_def
  DownlinkDataNotification_MarshalLen_def
  DownlinkDataNotificationAcknowledge_MarshalLen_def
  DownlinkDataNotificationFailureIndication_MarshalLen_def

lemmas v2_succeeds =
  echoRequest.Marshal_succeeds
  echoResponse.Marshal_succeeds
  versionNotSupportedIndication.Marshal_succeeds
  createSessionRequest.Marshal_over_succeeds [OF CreateSessionRequest_order_last(1)]
  createSessionResponse.Marshal_succeeds
  deleteSessionRequest.Marshal_succeeds
  deleteSessionResponse.Marshal_succeeds
  modifyBearerCommand.Marshal_succeeds
  modifyBearerFailureIndication.Marshal_succeeds
  deleteBearerCommand.Marshal_succeeds
  deleteBearerFailureIndication.Marshal_succeeds
  deleteBearerRequest.Marshal_succeeds
  createBearerRequest.Marshal_succeeds
  createBearerResponse.Marshal_succeeds
  deleteBearerResponse.Marshal_succeeds
  modifyBearerRequest.Marshal_succeeds
  modifyBearerResponse.Marshal_succeeds
  updateBearerRequest.Marshal_succeeds
  updateBearerResponse.Marshal_succeeds
  contextRequest.Marshal_succeeds
  contextResponse.Marshal_succeeds
  contextAcknowledge.Marshal_succeeds
  releaseAccessBearersRequest.Marshal_succeeds
  releaseAccessBearersResponse.Marshal_succeeds
  stopPagingIndication.Marshal_succeeds
  modifyAccessBearersRequest.Marshal_succeeds
  modifyAccessBearersResponse.Marshal_succeeds
  deletePDNConnectionSetRequest.Marshal_succeeds
  deletePDNConnectionSetResponse.Marshal_succeeds
  updatePDNConnectionSetRequest.Marshal_succeeds
  updatePDNConnectionSetResponse.Marshal_succeeds
  pGWRestartNotification.Marshal_succeeds
  pGWRestartNotificationAcknowledge.Marshal_succeeds
  detachNotification.Marshal_succeeds
  detachAcknowledge.Marshal_succeeds
  downlinkDataNotification.Marshal_succeeds
  downlinkDataNotificationAcknowledge.Marshal_succeeds
  downlinkDataNotificationFailureIndication.Marshal_succeeds

lemmas v2_MarshalLen_lens =
  echoRequest.MarshalLen_lens
  echoResponse.MarshalLen_lens
  createSessionRequest.MarshalLen_lens
  createSessionResponse.MarshalLen_lens
  deleteSessionRequest.MarshalLen_lens
  deleteSessionResponse.MarshalLen_lens
  modifyBearerCommand.MarshalLen_lens
  modifyBearerFailureIndication.MarshalLen_lens
  deleteBearerCommand.MarshalLen_lens
  deleteBearerFailureIndication.MarshalLen_lens
  deleteBearerRequest.MarshalLen_lens
  createBearerRequest.MarshalLen_lens
  createBearerResponse.MarshalLen_lens
  deleteBearerResponse.MarshalLen_lens
  modifyBearerRequest.MarshalLen_lens
  modifyBearerResponse.MarshalLen_lens
  updateBearerRequest.MarshalLen_lens
  updateBearerResponse.MarshalLen_lens
  contextRequest.MarshalLen_lens
  contextResponse.MarshalLen_lens
  contextAcknowledge.MarshalLen_lens
  releaseAccessBearersRequest.MarshalLen_lens
  releaseAccessBearersResponse.MarshalLen_lens
  stopPagingIndication.MarshalLen_lens
  modifyAccessBearersRequest.MarshalLen_lens
  modifyAccessBearersResponse.MarshalLen_lens
  deletePDNConnectionSetRequest.MarshalLen_lens
  deletePDNConnectionSetResponse.MarshalLen_lens
  updatePDNConnectionSetRequest.MarshalLen_lens
  updatePDNConnectionSetResponse.MarshalLen_lens
  pGWRestartNotification.MarshalLen_lens
  pGWRestartNotificationAcknowledge.MarshalLen_lens
  detachNotification.MarshalLen_lens
  detachAcknowledge.MarshalLen_lens
  downlinkDataNotification.MarshalLen_lens
  downlinkDataNotificationAcknowledge.MarshalLen_lens
  downlinkDataNotificationFailureIndication.MarshalLen_lens

lemma v2_Marshal_total: "\<exists>w M'. v2_Marshal M = Inr (w, M') \<and> length w = v2_MarshalLen M"
  by (cases M)
     (simp_all only: v2_Marshal_simps v2_MarshalLen.simps v2_MarshalLen_defs v2_Marshal_eqs,
      (intro lift_message_total v2_succeeds generic_Marshal_succeeds)+)

lemma v2_Parse_no_panic:
  assumes "2 \<le> length b"
  shows "no_panic (v2_Parse b)"
proof -
  from assms obtain t where "byte_at b 1 = Inr t" by (auto simp: byte_at_def)
  then show ?thesis
    by (auto simp: v2_Parse_def v2_UnmarshalBinary_eqs
        intro!: lift_parse_no_panic msg_Unmarshal_no_panic generic_Unmarshal_no_panic)
qed

lemma v2_Parse_short: "length b < 2 \<Longrightarrow> v2_Parse b = Inl (Panic IndexOutOfRange)"
  by (simp add: v2_Parse_def byte_at_def)

text \<open>What a parsed message has in common with the datagram.\<close>

lemma h_Parse_fields:
  assumes "h_ParseHeader b = Inr h"
  shows "byte_at b 1 = Inr (h_Type h)" "h_SequenceNumber h < 0x1000000"
    "HasTEID h \<or> h_TEID h = 0"
proof -
  have seq: "Uint24To32 s < 0x1000000" for s
    using Uint24To32_bound [of s] by (simp add: word_less_nat_alt)
  show "byte_at b 1 = Inr (h_Type h)" "h_SequenceNumber h < 0x1000000" "HasTEID h \<or> h_TEID h = 0"
    using assms seq
    by (auto simp: h_ParseHeader_def h_UnmarshalBinary_def Let_def andThen_eq_Inr HasTEID_def
        split: if_splits)
qed

lemma msg_Unmarshal_header:
  "msg_UnmarshalBinary D b = Inr m \<Longrightarrow> h_ParseHeader b = Inr (m_Header m)"
  by (auto simp: msg_UnmarshalBinary_def andThen_eq_Inr empty_msg_def split: if_splits)

lemma g_Unmarshal_header: "g_UnmarshalBinary b = Inr g \<Longrightarrow> h_ParseHeader b = Inr (g_Header g)"
  by (auto simp: g_UnmarshalBinary_def andThen_eq_Inr split: if_splits)

lemma v2_Parse_header: "v2_Parse b = Inr M \<Longrightarrow> h_ParseHeader b = Inr (v2_msg_header M)"
  by (cases M)
     (auto dest!: v2_Parse_inv simp: v2_UnmarshalBinary_eqs
      intro: msg_Unmarshal_header g_Unmarshal_header)

lemma v2_Marshal_map_header: "v2_Marshal M = Inr (w, M') \<Longrightarrow> \<exists>h. M' = v2_map_header M (\<lambda>_. h)"
  by (cases M)
     (auto simp: v2_Marshal_simps lift_message_Inr v2_Marshal_eqs msg_Marshal_def msg_MarshalTo_def
      msg_Marshal_over_def msg_MarshalTo_over_def g_Marshal_def g_MarshalTo_def Let_def andThen_eq_Inr)

lemma typed_ok_Unmarshal:
  assumes "msg_UnmarshalBinary D b = Inr m" "byte_at b 1 = Inr t" "msg_MarshalLen order m < 65536"
  shows "typed_msg_ok D order t m"
  using assms h_Parse_fields [OF msg_Unmarshal_header [OF assms(1)]]
  by (simp add: typed_msg_ok_def msg_ok_Unmarshal sendable_def)

lemma generic_ok_Unmarshal:
  assumes g: "g_UnmarshalBinary b = Inr g" and len: "g_MarshalLen g < 65536"
  shows "generic_ok g" "generic_parsed g = g"
proof -
  from g obtain m where m: "msg_UnmarshalBinary VersionNotSupportedIndication_switch b = Inr m"
    and eq: "g = \<lparr>g_Header = m_Header m, g_IEs = map Some (m_AdditionalIEs m)\<rparr>"
    by (auto simp: g_UnmarshalBinary_eq andThen_eq_Inr)
  have "List.map_filter id (map Some xs) = (xs :: ie list)" for xs
    by (induction xs) (simp_all add: map_filter_simps)
  moreover have "m_field m = (\<lambda>_. None)"
    using msg_ok_Unmarshal [OF m]
    by (auto simp: msg_ok_def VersionNotSupportedIndication_switch_def fun_eq_iff)
  ultimately have "generic_msg g = m" by (simp add: generic_msg_def eq)
  then show "generic_ok g"
    using len h_Parse_fields [OF msg_Unmarshal_header [OF m]] msg_ok_Unmarshal [OF m]
    by (simp add: generic_ok_def sendable_def g_MarshalLen_eq)
  show "generic_parsed g = g" by (simp add: generic_parsed_def eq filter_map comp_def)
qed

lemma v2_Parse_message_ok:
  "v2_Parse b = Inr M \<Longrightarrow> v2_MarshalLen M < 65536 \<Longrightarrow> v2_message_ok M"
  by (cases M; hypsubst; drule v2_Parse_inv;
      simp only: v2_message_ok.simps v2_UnmarshalBinary_eqs v2_MarshalLen.simps
        v2_MarshalLen_defs v2_MarshalLen_lens;
      elim conjE exE;
      (rule typed_ok_Unmarshal; assumption)?)
     (auto intro: generic_ok_Unmarshal(1) dest: h_Parse_fields(1) [OF g_Unmarshal_header])

lemma generic_parsed_idem: "generic_parsed g = g \<Longrightarrow> generic_parsed (g\<lparr>g_Header := h\<rparr>) = g\<lparr>g_Header := h\<rparr>"
  by (cases g) (simp add: generic_parsed_def)

lemma v2_Parse_parsed: "v2_Parse b = Inr M \<Longrightarrow> v2_MarshalLen M < 65536 \<Longrightarrow> v2_parsed M = M"
  by (cases M) (auto simp: v2_parsed_def generic_ok_Unmarshal(2) dest!: v2_Parse_inv)

section \<open>Properties\<close>

text \<open>
  C1. The round trip of every message type: for a well-formed message of any of the 38 Go types,
  or a generic one, \<open>Marshal\<close> succeeds and \<open>Parse\<close> on the bytes, whatever follows them, gives the
  message back as \<open>Marshal\<close> left it (a generic one without its nil elements), provided there are
  at least twelve bytes to read. Not so for a Create Session Request that has both a Private
  Extension and additional elements, which \<open>MarshalTo\<close> writes over the extension.
\<close>

theorem message_roundtrip:
  assumes "v2_message_ok M" "\<not> v2_overlaps M" "12 \<le> v2_MarshalLen M + length rest"
  shows "\<exists>w M'. v2_Marshal M = Inr (w, M') \<and> length w = v2_MarshalLen M \<and>
     v2_Parse (w @ rest) = Inr (v2_parsed M')"
proof -
  obtain w M' where "v2_Marshal M = Inr (w, M')" "length w = v2_MarshalLen M"
    using v2_Marshal_total by blast
  with assms v2_Parse_Marshal [of M w M' rest] show ?thesis by simp
qed

definition sample_echo :: v2_message where
  "sample_echo = Msg_EchoRequest (NewEchoRequest 7 [Some (ie_New IE_Recovery 0 [5]), None])"

lemma typed_msg_ok_New:
  assumes "\<And>i. Some i \<in> set ies \<Longrightarrow> wf_ie i" "seq < 0x1000000"
    "msg_MarshalLen order (msg_New D lens flags t teid seq ies) < 65536"
    "drop_bit 3 flags AND 1 = (1 :: byte) \<or> teid = 0"
  shows "typed_msg_ok D order t (msg_New D lens flags t teid seq ies)"
  using assms msg_ok_New [of ies D lens flags t teid seq]
  by (simp add: typed_msg_ok_def sendable_def msg_New_def msg_SetLength_def empty_msg_def
      NewHeader_def HasTEID_def)

lemma sample_echo_ok: "v2_message_ok sample_echo" "v2_MarshalLen sample_echo = 13"
proof -
  let ?ies = "[Some (ie_New IE_Recovery 0 [5]), None]"
  have "wf_ie (ie_New IE_Recovery 0 [5])"
    by (rule wf_ie_New) (simp_all add: grouped_def grouped_types_def)
  then have wf: "wf_ie i" if "Some i \<in> set ?ies" for i using that by simp
  have len: "msg_MarshalLen EchoRequest_order (NewEchoRequest 7 ?ies) = 13" by code_simp
  show "v2_message_ok sample_echo"
    unfolding sample_echo_def v2_message_ok.simps NewEchoRequest_def
    by (rule typed_msg_ok_New) (use wf len in \<open>simp_all only: NewEchoRequest_def\<close>, simp_all)
  show "v2_MarshalLen sample_echo = 13" by code_simp
qed

lemma sample_echo_full: "\<not> v2_overlaps sample_echo"
  by (simp add: v2_overlaps_def sample_echo_def)

theorem message_roundtrip_witness:
  "\<exists>w M'. v2_Marshal sample_echo = Inr (w, M') \<and> length w = 13 \<and>
     v2_Parse (w @ [1]) = Inr (v2_parsed M')"
  using message_roundtrip [OF sample_echo_ok(1) sample_echo_full, of "[1]"]
  by (simp add: sample_echo_ok(2))

text \<open>
  What happens to the others, on an example: a well-formed request with a Private Extension of
  four bytes and one additional element of four comes back with that element and one that nobody
  put there, made of the zeros at the end, and without its extension.
\<close>

definition sample_overlap :: "CreateSessionRequest_field v2_msg" where
  "sample_overlap =
     \<lparr>m_Header = NewHeader 0x48 MsgTypeCreateSessionRequest 1 2 [],
      m_field = (\<lambda>_. None)(CreateSessionRequest_PrivateExtension := Some (ie_New IE_PrivateExtension 0 [])),
      m_AdditionalIEs = [ie_New 250 0 []]\<rparr>"

lemma CreateSessionRequest_overlap_loses:
  "v2_message_ok (Msg_CreateSessionRequest sample_overlap)" (is ?ok)
  "\<exists>w M' m. v2_Marshal (Msg_CreateSessionRequest sample_overlap) = Inr (w, M') \<and>
     v2_Parse w = Inr (Msg_CreateSessionRequest m) \<and>
     m_field sample_overlap CreateSessionRequest_PrivateExtension \<noteq> None \<and>
     m_field m CreateSessionRequest_PrivateExtension = None \<and>
     m_AdditionalIEs sample_overlap = [ie_New 250 0 []] \<and>
     m_AdditionalIEs m = [ie_New 250 0 [], ie_New 0 0 []]" (is ?loses)
proof -
  have len: "msg_MarshalLen CreateSessionRequest_order sample_overlap = 20" by code_simp
  have wf: "wf_ie (ie_New IE_PrivateExtension 0 [])" "wf_ie (ie_New 250 0 [])"
    by (simp_all add: wf_ie_New grouped_def grouped_types_def)
  have sw: "CreateSessionRequest_switch 255 0 = Slot CreateSessionRequest_PrivateExtension"
    "CreateSessionRequest_switch 250 0 = Additional" by code_simp+
  show ?ok
    using len wf sw
    by (simp add: typed_msg_ok_def sendable_def)
       (simp add: sample_overlap_def msg_ok_def NewHeader_def HasTEID_def Instance_def)
  have "(case v2_Marshal (Msg_CreateSessionRequest sample_overlap) of Inl e \<Rightarrow> False
     | Inr (w, M') \<Rightarrow> (case v2_Parse w of Inr (Msg_CreateSessionRequest m) \<Rightarrow>
         m_field sample_overlap CreateSessionRequest_PrivateExtension \<noteq> None \<and>
         m_field m CreateSessionRequest_PrivateExtension = None \<and>
         m_AdditionalIEs sample_overlap = [ie_New 250 0 []] \<and>
         m_AdditionalIEs m = [ie_New 250 0 [], ie_New 0 0 []]
       | _ \<Rightarrow> False))"
    by code_simp
  then show ?loses by (auto split: sum.splits prod.splits v2_message.splits)
qed

text \<open>
  \<open>Parse\<close> panics exactly on a datagram of fewer than two bytes (it reads the type byte before
  any length check); on everything else it returns a message or an error.
\<close>

lemma Parse_panics_iff: "no_panic (v2_Parse b) \<longleftrightarrow> 2 \<le> length b"
  using v2_Parse_no_panic [of b] v2_Parse_short [of b] by (cases "2 \<le> length b") auto

text \<open>
  C3. What \<open>Parse\<close> returns is of the type of the datagram's second byte, carries the header that
  \<open>ParseHeader\<close> finds there, and is well-formed. It can be sent again: \<open>Marshal\<close> succeeds on it,
  and parsing the result gives the same message, up to the header fields \<open>Marshal\<close> rewrites, unless
  it is a Create Session Request with a Private Extension and additional elements.
\<close>

theorem Parse_stable:
  assumes "v2_Parse b = Inr M" "v2_MarshalLen M < 65536" "12 \<le> v2_MarshalLen M"
  shows "v2_message_ok M \<and> h_ParseHeader b = Inr (v2_msg_header M) \<and> v2_MessageType M = b ! 1 \<and>
    (\<exists>w M'. v2_Marshal M = Inr (w, M') \<and> length w = v2_MarshalLen M \<and>
       (v2_Parse w = Inr M' \<or> v2_overlaps M) \<and> (\<exists>h. M' = v2_map_header M (\<lambda>_. h)))"
proof -
  have ok: "v2_message_ok M" using assms(1,2) by (rule v2_Parse_message_ok)
  have hdr: "h_ParseHeader b = Inr (v2_msg_header M)" using assms(1) by (rule v2_Parse_header)
  obtain w M' where w: "v2_Marshal M = Inr (w, M')" "length w = v2_MarshalLen M"
    using v2_Marshal_total by blast
  have h: "\<exists>h. M' = v2_map_header M (\<lambda>_. h)" using w(1) by (rule v2_Marshal_map_header)
  have "v2_parsed M' = M'"
    using h v2_Parse_parsed [OF assms(1,2)]
    by (cases M) (auto simp: v2_parsed_def generic_parsed_idem)
  with v2_Parse_Marshal [OF ok _ w(1), of "[]"] assms(3) w(2) have "v2_Parse w = Inr M' \<or> v2_overlaps M"
    by auto
  moreover have "v2_MessageType M = b ! 1"
    using h_Parse_fields(1) [OF hdr]
    by (auto simp: v2_MessageType_def h_MessageType_def byte_at_def split: if_splits)
  ultimately show ?thesis using ok hdr w h by blast
qed

theorem Parse_stable_witness:
  "\<exists>M. v2_Parse [0x40, 1, 0, 9, 0, 0, 7, 0, 3, 0, 1, 0, 5] = Inr M \<and> v2_message_ok M \<and>
     (\<exists>w M'. v2_Marshal M = Inr (w, M') \<and> v2_Parse w = Inr M')"
proof -
  let ?b = "[0x40, 1, 0, 9, 0, 0, 7, 0, 3, 0, 1, 0, 5] :: bytes"
  have "(case v2_Parse ?b of Inr M \<Rightarrow> v2_MarshalLen M = 13 | Inl e \<Rightarrow> False)" by code_simp
  then obtain M where M: "v2_Parse ?b = Inr M" "v2_MarshalLen M = 13"
    by (auto split: sum.splits)
  moreover have "\<not> v2_overlaps M"
  proof -
    have "(case v2_Parse ?b of Inr M \<Rightarrow> \<not> v2_overlaps M | Inl e \<Rightarrow> False)" by code_simp
    with M(1) show ?thesis by simp
  qed
  ultimately show ?thesis using Parse_stable [OF M(1)] by auto
qed

end
