(* ===== verification/GoNet.thy ===== *)
theory GoNet
  imports GtpUtils
begin

text \<open>
  What the sources use of the packages \<open>net\<close> and \<open>strings\<close> of the standard library. A \<open>net.IP\<close>
  is the list of its bytes, the empty list standing for nil; \<open>ParseIP\<close> reads the dotted decimal
  and the colon-separated hexadecimal notation, with one ellipsis and an embedded IPv4 address at
  the end, and refuses an IPv4 field with a leading zero, as it does since Go 1.17. A \<open>net.Addr\<close>
  is represented by its \<open>String()\<close>.
\<close>

type_synonym ip = bytes
type_synonym addr = string

section \<open>net.IP\<close>

definition v4InV6Prefix :: bytes where
  "v4InV6Prefix = [0, 0, 0, 0, 0, 0, 0, 0, 0, 0, 0xff, 0xff]"

definition To4 :: "ip \<Rightarrow> ip" where
  "To4 a = (if length a = 4 then a
            else if length a = 16 \<and> take 12 a = v4InV6Prefix then drop 12 a
            else [])"

definition To16 :: "ip \<Rightarrow> ip" where
  "To16 a = (if length a = 4 then v4InV6Prefix @ a
             else if length a = 16 then a
             else [])"

lemma To4_length: "To4 a = [] \<or> length (To4 a) = 4"
  by (auto simp: To4_def)

lemma To16_length: "To16 a = [] \<or> length (To16 a) = 16"
  by (auto simp: To16_def v4InV6Prefix_def)

lemma To4_To4 [simp]: "To4 (To4 a) = To4 a"
  by (auto simp: To4_def)

lemma To16_To16 [simp]: "To16 (To16 a) = To16 a"
  by (auto simp: To16_def v4InV6Prefix_def)

lemma To4_Nil [simp]: "To4 [] = []" and To16_Nil [simp]: "To16 [] = []"
  by (simp_all add: To4_def To16_def)

lemma To4_4: "length a = 4 \<Longrightarrow> To4 a = a" and To16_16: "length a = 16 \<Longrightarrow> To16 a = a"
  by (simp_all add: To4_def To16_def)

text \<open>\<open>net.IPNet\<close>, and \<open>net.CIDRMask\<close>: the mask of \<open>bits\<close> bits with \<open>ones\<close> leading ones, or nil.\<close>

record ip_net =
  net_IP :: ip
  net_Mask :: bytes

definition CIDRMask :: "nat \<Rightarrow> nat \<Rightarrow> bytes" where
  "CIDRMask ones bits =
     (if bits \<noteq> 32 \<and> bits \<noteq> 128 \<or> bits < ones then []
      else map (\<lambda>i. if 8 * (i + 1) \<le> ones then 0xff else NOT (drop_bit (ones - 8 * i) 0xff))
             [0..<bits div 8])"

section \<open>net.ParseIP\<close>

definition digits_value :: "int \<Rightarrow> string \<Rightarrow> int" where
  "digits_value base s = foldl (\<lambda>n c. base * n + uint (nibble c)) 0 s"

text \<open>The longest prefix of digits, its value, and the rest; \<open>None\<close> when there is no digit.\<close>

definition dtoi :: "string \<Rightarrow> (int \<times> string \<times> string) option" where
  "dtoi s = (let ds = takeWhile dec_digit s in
     if ds = [] then None else Some (digits_value 10 ds, ds, dropWhile dec_digit s))"

definition xtoi :: "string \<Rightarrow> (int \<times> string) option" where
  "xtoi s = (let ds = takeWhile (\<lambda>c. hex_val c \<noteq> None) s in
     if ds = [] then None else Some (digits_value 16 ds, dropWhile (\<lambda>c. hex_val c \<noteq> None) s))"

fun parse_octets :: "nat \<Rightarrow> string \<Rightarrow> bytes option" where
  "parse_octets 0 s = (if s = [] then Some [] else None)"
| "parse_octets (Suc k) s =
     (case dtoi s of None \<Rightarrow> None
      | Some (n, ds, rest) \<Rightarrow>
          if n > 0xff \<or> (1 < length ds \<and> hd ds = CHR ''0'') then None
          else if k = 0 then (if rest = [] then Some [of_int n] else None)
          else case rest of
                 [] \<Rightarrow> None
               | c # r \<Rightarrow>
                   if c \<noteq> CHR ''.'' then None
                   else map_option (\<lambda>bs. of_int n # bs) (parse_octets k r))"

definition parseIPv4 :: "string \<Rightarrow> bytes option" where
  "parseIPv4 s = parse_octets 4 s"

text \<open>
  The groups of an IPv6 address: the bytes read so far and the place of the ellipsis. Each round
  reads one group of two bytes, so eight rounds are enough.
\<close>

fun parse_groups :: "nat \<Rightarrow> string \<Rightarrow> bytes \<Rightarrow> nat option \<Rightarrow> (string \<times> bytes \<times> nat option) option" where
  "parse_groups 0 s acc ell = Some (s, acc, ell)"
| "parse_groups (Suc k) s acc ell =
     (case xtoi s of None \<Rightarrow> None
      | Some (n, rest) \<Rightarrow>
          if n > 0xffff then None
          else if rest \<noteq> [] \<and> hd rest = CHR ''.'' then
            (if (ell = None \<and> length acc \<noteq> 12) \<or> length acc + 4 > 16 then None
             else map_option (\<lambda>v4. ([], acc @ v4, ell)) (parseIPv4 s))
          else
            let acc' = acc @ be16 (of_int n) in
            case rest of
              [] \<Rightarrow> Some ([], acc', ell)
            | c # r \<Rightarrow>
                if c \<noteq> CHR '':'' \<or> r = [] then None
                else if hd r = CHR '':'' then
                  (if ell \<noteq> None then None
                   else if tl r = [] then Some ([], acc', Some (length acc'))
                   else parse_groups k (tl r) acc' (Some (length acc')))
                else parse_groups k r acc' ell)"

definition parseIPv6 :: "string \<Rightarrow> bytes option" where
  "parseIPv6 s =
     (let start = take 2 s = ''::'';
          s' = (if start then drop 2 s else s) in
      if start \<and> s' = [] then Some (replicate 16 0)
      else case parse_groups 8 s' [] (if start then Some 0 else None) of
             None \<Rightarrow> None
           | Some (rest, acc, ell) \<Rightarrow>
               if rest \<noteq> [] then None
               else if length acc < 16 then
                 (case ell of None \<Rightarrow> None
                  | Some p \<Rightarrow> Some (take p acc @ replicate (16 - length acc) 0 @ drop p acc))
               else if ell \<noteq> None then None
               else Some acc)"

definition ParseIP :: "string \<Rightarrow> ip" where
  "ParseIP s =
     (case find (\<lambda>c. c = CHR ''.'' \<or> c = CHR '':'') s of
        None \<Rightarrow> []
      | Some c \<Rightarrow>
          if c = CHR ''.''
          then (case parseIPv4 s of None \<Rightarrow> [] | Some v4 \<Rightarrow> v4InV6Prefix @ v4)
          else (case parseIPv6 s of None \<Rightarrow> [] | Some v6 \<Rightarrow> v6))"

lemma ParseIP_examples:
  "To4 (ParseIP ''127.0.0.1'') = [127, 0, 0, 1]" "ParseIP ''1.2.3'' = []" "ParseIP ''1.2.3.256'' = []"
  "ParseIP ''2001::1'' = [0x20, 0x01, 0, 0, 0, 0, 0, 0, 0, 0, 0, 0, 0, 0, 0, 1]"
  "ParseIP ''::'' = replicate 16 0" "ParseIP ''1::2::3'' = []" "ParseIP '''' = []"
  by code_simp+

section \<open>strings.Split, strings.Join and strings.TrimSuffix\<close>

fun Split :: "char \<Rightarrow> string \<Rightarrow> string list" where
  "Split c [] = [[]]"
| "Split c (x # xs) =
     (if x = c then [] # Split c xs
      else case Split c xs of [] \<Rightarrow> [[x]] | w # ws \<Rightarrow> (x # w) # ws)"

fun Join :: "char \<Rightarrow> string list \<Rightarrow> string" where
  "Join c [] = []"
| "Join c [w] = w"
| "Join c (w # ws) = w @ c # Join c ws"

definition TrimSuffix :: "char \<Rightarrow> string \<Rightarrow> string" where
  "TrimSuffix c s = (if s \<noteq> [] \<and> last s = c then butlast s else s)"

lemma Split_nonempty [simp]: "Split c s \<noteq> []"
  by (induction s) (auto split: list.splits)

lemma Join_Split [simp]: "Join c (Split c s) = s"
proof (induction s)
  case (Cons x s)
  then show ?case by (cases "Split c s"; cases "tl (Split c s)") auto
qed simp

lemma Split_length: "sum_list (map (\<lambda>w. length w + 1) (Split c s)) = length s + 1"
  by (induction s) (auto split: list.splits)

lemma Split_part_length: "w \<in> set (Split c s) \<Longrightarrow> length w \<le> length s"
proof -
  assume "w \<in> set (Split c s)"
  then have "length w + 1 \<le> sum_list (map (\<lambda>w. length w + 1) (Split c s))"
    by (intro member_le_sum_list) auto
  then show ?thesis by (simp only: Split_length)
qed

text \<open>A generic lemma on \<open>find\<close>, which the library states as an equivalence with indices.\<close>

lemma find_SomeD: "find P xs = Some x \<Longrightarrow> P x \<and> x \<in> set xs"
  by (induction xs) (auto split: if_splits)

section \<open>Host and port\<close>

primrec IndexByte :: "string \<Rightarrow> char \<Rightarrow> nat option" where
  "IndexByte [] c = None"
| "IndexByte (x # xs) c = (if x = c then Some 0 else map_option Suc (IndexByte xs c))"

definition LastIndexByte :: "string \<Rightarrow> char \<Rightarrow> nat option" where
  "LastIndexByte s c = map_option (\<lambda>i. length s - 1 - i) (IndexByte (rev s) c)"

text \<open>\<open>net.SplitHostPort\<close>: \<open>None\<close> is an \<open>AddrError\<close>.\<close>

definition SplitHostPort :: "string \<Rightarrow> (string \<times> string) option" where
  "SplitHostPort hostport =
     (case LastIndexByte hostport CHR '':'' of
        None \<Rightarrow> None
      | Some i \<Rightarrow>
          (case (if hostport ! 0 = CHR ''[''
                 then (case IndexByte hostport CHR '']'' of
                         None \<Rightarrow> None
                       | Some k \<Rightarrow> if k + 1 \<noteq> i then None
                                   else Some (take (k - 1) (drop 1 hostport), 1, k + 1))
                 else if IndexByte (take i hostport) CHR '':'' \<noteq> None then None
                 else Some (take i hostport, 0, 0)) of
             None \<Rightarrow> None
           | Some (host, j, k) \<Rightarrow>
               if IndexByte (drop j hostport) CHR ''['' \<noteq> None then None
               else if IndexByte (drop k hostport) CHR '']'' \<noteq> None then None
               else Some (host, drop (i + 1) hostport)))"

lemma SplitHostPort_examples:
  "SplitHostPort ''127.0.0.1:2152'' = Some (''127.0.0.1'', ''2152'')"
  "SplitHostPort ''[::1]:2152'' = Some (''::1'', ''2152'')"
  "SplitHostPort ''::1:2152'' = None"
  "SplitHostPort ''127.0.0.1'' = None"
  by (simp_all add: SplitHostPort_def LastIndexByte_def)

end
