(* ===== verification/V2IEValues.thy ===== *)
theory V2IEValues
  imports V2IE V2IETypes GoNet
begin

text \<open>
  The element types of GTPv2 that the session management reads: identities, PLMN, APN, single
  octets, Cause, ARP, Bearer QoS and Flow QoS, F-TEID (the files of \<open>src/gtpv2/ie\<close> named after
  them). Each has a constructor and accessors that check the type and the length of the payload.
  An element the constructor could not encode is nil, \<open>None\<close> here. The theorems are the round
  trips, and the places where a constructor and an accessor disagree.
\<close>

section \<open>Bits of an octet (utils.go)\<close>

definition has8thBit :: "byte \<Rightarrow> bool" where "has8thBit f = (drop_bit 7 (f AND 0x80) = 1)"
definition has7thBit :: "byte \<Rightarrow> bool" where "has7thBit f = (drop_bit 6 (f AND 0x40) = 1)"
definition has6thBit :: "byte \<Rightarrow> bool" where "has6thBit f = (drop_bit 5 (f AND 0x20) = 1)"
definition has5thBit :: "byte \<Rightarrow> bool" where "has5thBit f = (drop_bit 4 (f AND 0x10) = 1)"
definition has4thBit :: "byte \<Rightarrow> bool" where "has4thBit f = (drop_bit 3 (f AND 0x08) = 1)"
definition has3rdBit :: "byte \<Rightarrow> bool" where "has3rdBit f = (drop_bit 2 (f AND 0x04) = 1)"
definition has2ndBit :: "byte \<Rightarrow> bool" where "has2ndBit f = (drop_bit 1 (f AND 0x02) = 1)"
definition has1stBit :: "byte \<Rightarrow> bool" where "has1stBit f = (f AND 0x01 = 1)"

lemma bit_tests [simp]:
  "has8thBit f = bit f 7" "has7thBit f = bit f 6" "has6thBit f = bit f 5" "has5thBit f = bit f 4"
  "has4thBit f = bit f 3" "has3rdBit f = bit f 2"
  "has2ndBit f = bit f 1" "has1stBit f = bit f 0"
proof -
  have one: "(x = 1) = bit x 0" if "\<forall>n \<in> {1..<8}. \<not> bit x n" for x :: byte
    using that by (auto intro!: byte_eqI simp: bit_1_iff)
  show "has8thBit f = bit f 7" unfolding has8thBit_def
    by (subst one) (auto simp: bit_simps byte_bit_high)
  show "has7thBit f = bit f 6" unfolding has7thBit_def
    by (subst one) (auto simp: bit_simps byte_bit_high)
  show "has6thBit f = bit f 5" unfolding has6thBit_def
    by (subst one) (auto simp: bit_simps byte_bit_high)
  show "has5thBit f = bit f 4" unfolding has5thBit_def
    by (subst one) (auto simp: bit_simps byte_bit_high)
  show "has4thBit f = bit f 3" unfolding has4thBit_def
    by (subst one) (auto simp: bit_simps byte_bit_high)
  show "has3rdBit f = bit f 2" unfolding has3rdBit_def
    by (subst one) (auto simp: bit_simps byte_bit_high)
  show "has2ndBit f = bit f 1" unfolding has2ndBit_def
    by (subst one) (auto simp: bit_simps byte_bit_high)
  show "has1stBit f = bit f 0" unfolding has1stBit_def
    by (subst one) (auto simp: bit_simps byte_bit_high)
qed

section \<open>Helpers of the accessors\<close>

text \<open>The result of a constructor whose encoder may fail: nil on an error.\<close>

definition or_nil :: "(bytes \<Rightarrow> ie) \<Rightarrow> bytes result \<Rightarrow> ie option result" where
  "or_nil mk r = (case r of
     Inr b \<Rightarrow> Inr (Some (mk b))
   | Inl (Error e) \<Rightarrow> Inr None
   | Inl (Panic p) \<Rightarrow> Inl (Panic p))"

abbreviation wrong_type :: "ie \<Rightarrow> 'a result" where
  "wrong_type i \<equiv> Inl (Error (IEInvalidTypeError (ie_Type i)))"

definition octet_of :: "ie \<Rightarrow> byte result" where
  "octet_of i = (if length (ie_Payload i) < 1 then Inl (Error IoErrUnexpectedEOF)
                 else byte_at (ie_Payload i) 0)"

definition bytes_string :: "bytes \<Rightarrow> string" where
  "bytes_string b = map (\<lambda>x. char_of (unat x)) b"

lemma unat_of_char: "unat (of_char c :: byte) = of_char c"
proof -
  have "(of_char c :: byte) = of_nat (of_char c)" by (rule of_nat_of_char [symmetric])
  then have "unat (of_char c :: byte) = of_char c mod 256" by (simp only: unat_of_nat) simp
  then show ?thesis by simp
qed

lemma bytes_string_inverse [simp]: "bytes_string (string_bytes s) = s"
  by (simp add: bytes_string_def string_bytes_def comp_def unat_of_char)

lemma string_bytes_length [simp]: "length (string_bytes s) = length s"
  by (simp add: string_bytes_def)

section \<open>Identities (imsi.go, msisdn.go, mei.go)\<close>

definition NewIMSI :: "string \<Rightarrow> ie option result" where
  "NewIMSI imsi = or_nil (ie_New IE_IMSI 0x00) (StrToSwappedBytes imsi ''f'')"

definition ie_IMSI :: "ie \<Rightarrow> string result" where
  "ie_IMSI i =
     (if ie_Type i \<noteq> IE_IMSI then wrong_type i
      else if length (ie_Payload i) < 1 then Inl (Error IoErrUnexpectedEOF)
      else Inr (SwappedBytesToStr (ie_Payload i) True))"

definition NewMSISDN :: "string \<Rightarrow> ie option result" where
  "NewMSISDN msisdn = or_nil (ie_New IE_MSISDN 0x00) (StrToSwappedBytes msisdn ''f'')"

definition ie_MSISDN :: "ie \<Rightarrow> string result" where
  "ie_MSISDN i =
     (if ie_Type i \<noteq> IE_MSISDN then wrong_type i
      else if length (ie_Payload i) < 1 then Inl (Error IoErrUnexpectedEOF)
      else Inr (TrimSuffix (CHR ''f'') (SwappedBytesToStr (ie_Payload i) False)))"

definition NewMobileEquipmentIdentity :: "string \<Rightarrow> ie option result" where
  "NewMobileEquipmentIdentity mei =
     or_nil (ie_New IE_MobileEquipmentIdentity 0x00) (StrToSwappedBytes mei ''f'')"

definition ie_MobileEquipmentIdentity :: "ie \<Rightarrow> string result" where
  "ie_MobileEquipmentIdentity i =
     (if ie_Type i \<noteq> IE_MobileEquipmentIdentity then wrong_type i
      else if length (ie_Payload i) < 1 then Inl (Error IoErrUnexpectedEOF)
      else Inr (TrimSuffix (CHR ''f'') (SwappedBytesToStr (ie_Payload i) False)))"

section \<open>PLMN (serving-nw.go)\<close>

definition NewServingNetwork :: "string \<Rightarrow> string \<Rightarrow> ie option result" where
  "NewServingNetwork mcc mnc = or_nil (ie_New IE_ServingNetwork 0x00) (EncodePLMN mcc mnc)"

definition ie_ServingNetwork :: "ie \<Rightarrow> string result" where
  "ie_ServingNetwork i =
     (if ie_Type i \<noteq> IE_ServingNetwork then wrong_type i
      else if length (ie_Payload i) < 3 then Inl (Error IoErrUnexpectedEOF)
      else andThen (DecodePLMN (ie_Payload i)) (\<lambda>(mcc, mnc). Inr (mcc @ mnc)))"

definition plmn_of :: "ie \<Rightarrow> (string \<times> string) result" where
  "plmn_of i =
     (if length (ie_Payload i) < 3 then Inl (Error IoErrUnexpectedEOF)
      else if ie_Type i \<in> {IE_ServingNetwork, IE_PLMNID} then DecodePLMN (ie_Payload i)
      else if ie_Type i \<in> {IE_GlobalCNID, IE_TraceReference, IE_GUTI, IE_UserCSGInformation}
      then andThen (slice (ie_Payload i) 0 3) DecodePLMN
      else wrong_type i)"

definition ie_MCC :: "ie \<Rightarrow> string result" where
  "ie_MCC i = andThen (plmn_of i) (\<lambda>(mcc, _). Inr mcc)"

definition ie_MNC :: "ie \<Rightarrow> string result" where
  "ie_MNC i = andThen (plmn_of i) (\<lambda>(_, mnc). Inr mnc)"

section \<open>Access Point Name (apn.go)\<close>

fun put_labels :: "bytes \<Rightarrow> nat \<Rightarrow> string list \<Rightarrow> bytes result" where
  "put_labels p offset [] = Inr p"
| "put_labels p offset (label # labels) =
     (let l = length label in
      andThen (write_at p offset [of_nat l]) (\<lambda>p.
      andThen (copy_at p (offset + 1) (length p) (string_bytes label)) (\<lambda>p.
        put_labels p (offset + (l + 1)) labels)))"

definition NewAccessPointName :: "string \<Rightarrow> ie result" where
  "NewAccessPointName apn =
     (let i = ie_New IE_AccessPointName 0x00 (replicate (length apn + 1) 0) in
      andThen (put_labels (ie_Payload i) 0 (Split (CHR ''.'') apn)) (\<lambda>p.
        Inr (IE (ie_Type i) (ie_Length i) (ie_instance i) p (ie_ChildIEs i))))"

fun get_labels :: "bytes \<Rightarrow> string list" where
  "get_labels [] = []"
| "get_labels (l # r) =
     (if unat l > length r then []
      else bytes_string (take (unat l) r) # get_labels (drop (unat l) r))"

definition ie_AccessPointName :: "ie \<Rightarrow> string result" where
  "ie_AccessPointName i =
     (if ie_Type i \<noteq> IE_AccessPointName then wrong_type i
      else Inr (Join (CHR ''.'') (get_labels (ie_Payload i))))"

section \<open>Single octets (rat-type.go, recovery.go, ebi.go)\<close>

definition NewRATType :: "byte \<Rightarrow> ie" where
  "NewRATType rat = newUint8ValIE IE_RATType rat"

definition ie_RATType :: "ie \<Rightarrow> byte result" where
  "ie_RATType i =
     (if length (ie_Payload i) < 1 then Inl (Error IoErrUnexpectedEOF)
      else if ie_Type i = IE_RATType then byte_at (ie_Payload i) 0
      else wrong_type i)"

definition NewRecovery :: "byte \<Rightarrow> ie" where
  "NewRecovery recovery = newUint8ValIE IE_Recovery recovery"

definition ie_Recovery :: "ie \<Rightarrow> byte result" where
  "ie_Recovery i = (if ie_Type i \<noteq> IE_Recovery then wrong_type i else octet_of i)"

section \<open>Bearer Context (bearer-context.go)\<close>

definition NewBearerContext :: "ie option list \<Rightarrow> ie option result" where
  "NewBearerContext ies = newGroupedIE IE_BearerContext (List.map_filter id ies)"

definition ie_BearerContext :: "ie \<Rightarrow> ie list result" where
  "ie_BearerContext i =
     (if ie_Type i \<noteq> IE_BearerContext then wrong_type i
      else if length (ie_Payload i) < 1 then Inl (Error IoErrUnexpectedEOF)
      else ie_ParseMultiIEs (ie_Payload i))"

text \<open>
  Accessors that look into a Bearer Context take the first child of their type and apply
  themselves to it; on that child they take their first branch, \<open>own\<close>.
\<close>

definition in_bearer_context :: "byte \<Rightarrow> (ie \<Rightarrow> 'a result) \<Rightarrow> ie \<Rightarrow> 'a result" where
  "in_bearer_context t own i =
     (if ie_Type i = t then own i
      else if ie_Type i = IE_BearerContext then
        andThen (ie_BearerContext i) (\<lambda>ies.
          case find (\<lambda>child. ie_Type child = t) ies of
            Some child \<Rightarrow> own child
          | None \<Rightarrow> Inl (Error IEErrIENotFound))
      else wrong_type i)"

definition NewEPSBearerID :: "byte \<Rightarrow> ie" where
  "NewEPSBearerID ebi = newUint8ValIE IE_EPSBearerID (ebi AND 0x0f)"

definition ie_EPSBearerID :: "ie \<Rightarrow> byte result" where
  "ie_EPSBearerID i = in_bearer_context IE_EPSBearerID octet_of i"

section \<open>Cause (cause.go)\<close>

definition NewCause :: "byte \<Rightarrow> byte \<Rightarrow> byte \<Rightarrow> byte \<Rightarrow> ie option \<Rightarrow> ie" where
  "NewCause cause pce bce cs offendingIE =
     (let i = ie_New IE_Cause 0x00
            [cause, (push_bit 2 pce AND 0x04) OR (push_bit 1 bce AND 0x02) OR (cs AND 0x01)]
      in case offendingIE of None \<Rightarrow> i
         | Some o' \<Rightarrow> ie_SetLength (IE (ie_Type i) (ie_Length i) (ie_instance i)
                        (ie_Payload i @ [ie_Type o', 0x00, 0x00, 0x00]) (ie_ChildIEs i)))"

definition ie_Cause :: "ie \<Rightarrow> byte result" where
  "ie_Cause i = in_bearer_context IE_Cause octet_of i"

text \<open>In a Bearer Context \<open>CauseFlags\<close> calls \<open>Cause\<close> on the child.\<close>

definition ie_CauseFlags :: "ie \<Rightarrow> byte result" where
  "ie_CauseFlags i =
     (if ie_Type i = IE_Cause then
        (if length (ie_Payload i) < 1 then Inl (Error IoErrUnexpectedEOF)
         else byte_at (ie_Payload i) 1)
      else if ie_Type i = IE_BearerContext then ie_Cause i
      else wrong_type i)"

definition ie_flag :: "(ie \<Rightarrow> byte result) \<Rightarrow> (byte \<Rightarrow> bool) \<Rightarrow> ie \<Rightarrow> bool result" where
  "ie_flag get test i = (case get i of
     Inr v \<Rightarrow> Inr (test v) | Inl (Error e) \<Rightarrow> Inr False | Inl (Panic p) \<Rightarrow> Inl (Panic p))"

definition HasCS :: "ie \<Rightarrow> bool result" where "HasCS = ie_flag ie_CauseFlags has2ndBit"
definition HasBCE :: "ie \<Rightarrow> bool result" where "HasBCE = ie_flag ie_CauseFlags has1stBit"
definition HasPCE :: "ie \<Rightarrow> bool result" where "HasPCE = ie_flag ie_CauseFlags has3rdBit"

definition OffendingIE :: "ie \<Rightarrow> ie result" where
  "OffendingIE i =
     (if ie_Type i \<noteq> IE_Cause then wrong_type i
      else if length (ie_Payload i) < 6 then Inl (Error IoErrUnexpectedEOF)
      else andThen (slice (ie_Payload i) 2 6) ie_Parse)"

section \<open>Allocation/retention priority, Bearer QoS and Flow QoS (arp.go, bearer-qos.go, flow-qos.go)\<close>

definition arp_octet :: "byte \<Rightarrow> byte \<Rightarrow> byte \<Rightarrow> byte" where
  "arp_octet pci pl pvi =
     (push_bit 6 pci AND 0x40) OR (push_bit 2 pl AND 0x3c) OR (pvi AND 0x01)"

definition NewAllocationRetensionPriority :: "byte \<Rightarrow> byte \<Rightarrow> byte \<Rightarrow> ie" where
  "NewAllocationRetensionPriority pci pl pvi =
     ie_New IE_AllocationRetensionPriority 0x00 [arp_octet pci pl pvi]"

definition ie_AllocationRetensionPriority :: "ie \<Rightarrow> byte result" where
  "ie_AllocationRetensionPriority i =
     (if ie_Type i \<noteq> IE_AllocationRetensionPriority then wrong_type i else octet_of i)"

definition HasPVI :: "ie \<Rightarrow> bool result" where
  "HasPVI = ie_flag ie_AllocationRetensionPriority has1stBit"

definition HasPCI :: "ie \<Rightarrow> bool result" where
  "HasPCI = ie_flag ie_AllocationRetensionPriority has7thBit"

record qos_fields =
  q_ARP :: byte
  q_QCI :: byte
  q_MBRUL :: u64
  q_MBRDL :: u64
  q_GBRUL :: u64
  q_GBRDL :: u64

definition NewBearerQoSFields ::
  "byte \<Rightarrow> byte \<Rightarrow> byte \<Rightarrow> byte \<Rightarrow> u64 \<Rightarrow> u64 \<Rightarrow> u64 \<Rightarrow> u64 \<Rightarrow> qos_fields" where
  "NewBearerQoSFields pci pl pvi qci umbr dmbr ugbr dgbr =
     \<lparr>q_ARP = arp_octet pci pl pvi, q_QCI = qci,
      q_MBRUL = umbr, q_MBRDL = dmbr, q_GBRUL = ugbr, q_GBRDL = dgbr\<rparr>"

definition put_rates :: "nat \<Rightarrow> qos_fields \<Rightarrow> bytes \<Rightarrow> bytes result" where
  "put_rates n f b =
     andThen (copy_at b n (n + 5) (Uint64To40 (q_MBRUL f))) (\<lambda>b.
     andThen (copy_at b (n + 5) (n + 10) (Uint64To40 (q_MBRDL f))) (\<lambda>b.
     andThen (copy_at b (n + 10) (n + 15) (Uint64To40 (q_GBRUL f))) (\<lambda>b.
       copy_at b (n + 15) (n + 20) (Uint64To40 (q_GBRDL f)))))"

definition rate_at :: "bytes \<Rightarrow> nat \<Rightarrow> nat \<Rightarrow> u64 result" where
  "rate_at b i j = andThen (slice b i j) (\<lambda>s. Inr (Uint40To64 s))"

definition BearerQoSFields_MarshalTo :: "qos_fields \<Rightarrow> bytes \<Rightarrow> bytes result" where
  "BearerQoSFields_MarshalTo f b =
     (if length b < 22 then Inl (Error IoErrUnexpectedEOF)
      else
        andThen (write_at b 0 [q_ARP f]) (\<lambda>b.
        andThen (write_at b 1 [q_QCI f]) (\<lambda>b. put_rates 2 f b)))"

definition BearerQoSFields_UnmarshalBinary :: "bytes \<Rightarrow> qos_fields result" where
  "BearerQoSFields_UnmarshalBinary b =
     (if length b < 22 then Inl (Error IoErrUnexpectedEOF)
      else
        andThen (byte_at b 0) (\<lambda>arp.
        andThen (byte_at b 1) (\<lambda>qci.
        andThen (rate_at b 2 7) (\<lambda>ul.
        andThen (rate_at b 7 12) (\<lambda>dl.
        andThen (rate_at b 12 17) (\<lambda>gul.
        andThen (rate_at b 17 22) (\<lambda>gdl.
          Inr \<lparr>q_ARP = arp, q_QCI = qci, q_MBRUL = ul, q_MBRDL = dl, q_GBRUL = gul, q_GBRDL = gdl\<rparr>)))))))"

definition NewBearerQoS ::
  "byte \<Rightarrow> byte \<Rightarrow> byte \<Rightarrow> byte \<Rightarrow> u64 \<Rightarrow> u64 \<Rightarrow> u64 \<Rightarrow> u64 \<Rightarrow> ie option result" where
  "NewBearerQoS pci pl pvi qci umbr dmbr ugbr dgbr =
     or_nil (ie_New IE_BearerQoS 0x00)
       (BearerQoSFields_MarshalTo (NewBearerQoSFields pci pl pvi qci umbr dmbr ugbr dgbr)
          (replicate 22 0))"

definition ie_BearerQoS :: "ie \<Rightarrow> qos_fields result" where
  "ie_BearerQoS i =
     in_bearer_context IE_BearerQoS (\<lambda>c. BearerQoSFields_UnmarshalBinary (ie_Payload c)) i"

text \<open>\<open>NewFlowQoSFields\<close> sets no ARP; its encoding is the same without that octet.\<close>

definition FlowQoSFields_MarshalTo :: "qos_fields \<Rightarrow> bytes \<Rightarrow> bytes result" where
  "FlowQoSFields_MarshalTo f b =
     (if length b < 21 then Inl (Error IoErrUnexpectedEOF)
      else andThen (write_at b 0 [q_QCI f]) (\<lambda>b. put_rates 1 f b))"

definition FlowQoSFields_UnmarshalBinary :: "bytes \<Rightarrow> qos_fields result" where
  "FlowQoSFields_UnmarshalBinary b =
     (if length b < 21 then Inl (Error IoErrUnexpectedEOF)
      else
        andThen (byte_at b 0) (\<lambda>qci.
        andThen (rate_at b 1 6) (\<lambda>ul.
        andThen (rate_at b 6 11) (\<lambda>dl.
        andThen (rate_at b 11 16) (\<lambda>gul.
        andThen (rate_at b 16 21) (\<lambda>gdl.
          Inr \<lparr>q_ARP = 0, q_QCI = qci, q_MBRUL = ul, q_MBRDL = dl, q_GBRUL = gul, q_GBRDL = gdl\<rparr>))))))"

definition NewFlowQoS :: "byte \<Rightarrow> u64 \<Rightarrow> u64 \<Rightarrow> u64 \<Rightarrow> u64 \<Rightarrow> ie option result" where
  "NewFlowQoS qci umbr dmbr ugbr dgbr =
     or_nil (ie_New IE_FlowQoS 0x00)
       (FlowQoSFields_MarshalTo \<lparr>q_ARP = 0, q_QCI = qci, q_MBRUL = umbr, q_MBRDL = dmbr,
          q_GBRUL = ugbr, q_GBRDL = dgbr\<rparr> (replicate 21 0))"

definition ie_FlowQoS :: "ie \<Rightarrow> qos_fields result" where
  "ie_FlowQoS i = (if ie_Type i = IE_FlowQoS then FlowQoSFields_UnmarshalBinary (ie_Payload i)
                   else wrong_type i)"

definition ie_PriorityLevel :: "ie \<Rightarrow> byte result" where
  "ie_PriorityLevel i =
     (if ie_Type i = IE_AllocationRetensionPriority then
        andThen (ie_AllocationRetensionPriority i) (\<lambda>v. Inr (drop_bit 2 (v AND 0x3c)))
      else if ie_Type i = IE_BearerQoS then
        andThen (ie_BearerQoS i) (\<lambda>f. Inr (drop_bit 2 (q_ARP f AND 0x3c)))
      else wrong_type i)"

definition ie_QCILabel :: "ie \<Rightarrow> byte result" where
  "ie_QCILabel i =
     (if ie_Type i = IE_BearerQoS then
        (if length (ie_Payload i) < 2 then Inl (Error IoErrUnexpectedEOF)
         else byte_at (ie_Payload i) 1)
      else if ie_Type i = IE_FlowQoS then octet_of i
      else wrong_type i)"

text \<open>
  The four bit rates: for each element type the length that is asked for and the slice that is
  read. \<open>MBRForUplink\<close> reads four bytes of a Flow QoS.
\<close>

definition bit_rate :: "nat \<Rightarrow> nat \<Rightarrow> nat \<Rightarrow> nat \<Rightarrow> nat \<Rightarrow> nat \<Rightarrow> ie \<Rightarrow> u64 result" where
  "bit_rate min1 i1 j1 min2 i2 j2 i =
     (if ie_Type i = IE_BearerQoS then
        (if length (ie_Payload i) < min1 then Inl (Error IoErrUnexpectedEOF)
         else rate_at (ie_Payload i) i1 j1)
      else if ie_Type i = IE_FlowQoS then
        (if length (ie_Payload i) < min2 then Inl (Error IoErrUnexpectedEOF)
         else rate_at (ie_Payload i) i2 j2)
      else Inl (Error IoErrUnexpectedEOF))"

definition ie_MBRForUplink :: "ie \<Rightarrow> u64 result" where
  "ie_MBRForUplink = bit_rate 7 2 7 6 2 6"

definition ie_MBRForDownlink :: "ie \<Rightarrow> u64 result" where
  "ie_MBRForDownlink = bit_rate 12 7 12 11 6 11"

definition ie_GBRForUplink :: "ie \<Rightarrow> u64 result" where
  "ie_GBRForUplink = bit_rate 17 12 17 16 11 16"

definition ie_GBRForDownlink :: "ie \<Rightarrow> u64 result" where
  "ie_GBRForDownlink = bit_rate 22 17 22 21 16 21"

section \<open>Fully Qualified TEID (f-teid.go)\<close>

record fteid_fields =
  ft_Flags :: byte
  ft_InterfaceType :: byte
  ft_TEIDGREKey :: u32
  ft_IPv4Address :: ip
  ft_IPv6Address :: ip

definition NewFullyQualifiedTEIDFields :: "byte \<Rightarrow> u32 \<Rightarrow> ip \<Rightarrow> ip \<Rightarrow> fteid_fields" where
  "NewFullyQualifiedTEIDFields ifType teid v4 v6 =
     (let f = \<lparr>ft_Flags = 0, ft_InterfaceType = ifType, ft_TEIDGREKey = teid,
               ft_IPv4Address = [], ft_IPv6Address = []\<rparr>;
          f = (if To4 v4 \<noteq> [] then f\<lparr>ft_Flags := ft_Flags f OR 0x80, ft_IPv4Address := To4 v4\<rparr> else f)
      in if To16 v6 \<noteq> [] then f\<lparr>ft_Flags := ft_Flags f OR 0x40, ft_IPv6Address := To16 v6\<rparr> else f)"

definition fteid_MarshalLen :: "fteid_fields \<Rightarrow> nat" where
  "fteid_MarshalLen f =
     5 + (if has8thBit (ft_Flags f) then 4 else 0) + (if has7thBit (ft_Flags f) then 16 else 0)"

definition or_at0 :: "byte \<Rightarrow> bytes \<Rightarrow> bytes result" where
  "or_at0 m b = andThen (byte_at b 0) (\<lambda>x. write_at b 0 [x OR m])"

definition fteid_MarshalTo :: "fteid_fields \<Rightarrow> bytes \<Rightarrow> bytes result" where
  "fteid_MarshalTo f b =
     (let l = length b in
      if l < 5 then Inl (Error IoErrUnexpectedEOF)
      else
        andThen (write_at b 0 [ft_InterfaceType f]) (\<lambda>b.
        andThen (write_at b 1 (be32 (ft_TEIDGREKey f))) (\<lambda>b.
        andThen
          (if ft_IPv4Address f = [] then Inr (5, b)
           else if l < 5 + 4 then Inl (Error IoErrUnexpectedEOF)
           else if To4 (ft_IPv4Address f) \<noteq> [] then
             andThen (or_at0 0x80 b) (\<lambda>b.
             andThen (copy_at b 5 (5 + 4) (To4 (ft_IPv4Address f))) (\<lambda>b. Inr (5 + 4, b)))
           else Inr (5, b)) (\<lambda>(offset, b).
        if ft_IPv6Address f = [] then Inr b
        else if l < offset + 16 then Inl (Error IoErrUnexpectedEOF)
        else if To16 (ft_IPv6Address f) \<noteq> [] then
          andThen (or_at0 0x40 b) (\<lambda>b. copy_at b offset (offset + 16) (To16 (ft_IPv6Address f)))
        else Inr b))))"

definition fteid_Marshal :: "fteid_fields \<Rightarrow> bytes result" where
  "fteid_Marshal f = fteid_MarshalTo f (replicate (fteid_MarshalLen f) 0)"

definition fteid_UnmarshalBinary :: "bytes \<Rightarrow> fteid_fields result" where
  "fteid_UnmarshalBinary b =
     (let l = length b in
      if l < 5 then Inl (Error IoErrUnexpectedEOF)
      else
        andThen (byte_at b 0) (\<lambda>b0.
        andThen (get32 b 1) (\<lambda>teid.
        let f = \<lparr>ft_Flags = b0 AND 0xc0, ft_InterfaceType = b0 AND 0x3f, ft_TEIDGREKey = teid,
                 ft_IPv4Address = [], ft_IPv6Address = []\<rparr> in
        andThen
          (if \<not> has8thBit (ft_Flags f) then Inr (5, f)
           else if l < 5 + 4 then Inl (Error IoErrUnexpectedEOF)
           else andThen (slice b 5 (5 + 4)) (\<lambda>v.
             if To4 v \<noteq> [] then Inr (5 + 4, f\<lparr>ft_IPv4Address := To4 v\<rparr>) else Inr (5, f))) (\<lambda>(offset, f).
        if \<not> has7thBit (ft_Flags f) then Inr f
        else if l < offset + 16 then Inl (Error IoErrUnexpectedEOF)
        else andThen (slice b offset (offset + 16)) (\<lambda>v.
          if To16 v \<noteq> [] then Inr (f\<lparr>ft_IPv6Address := To16 v\<rparr>) else Inr f)))))"

definition NewFullyQualifiedTEIDNetIP :: "byte \<Rightarrow> u32 \<Rightarrow> ip \<Rightarrow> ip \<Rightarrow> ie option result" where
  "NewFullyQualifiedTEIDNetIP ifType teid v4 v6 =
     or_nil (ie_New IE_FullyQualifiedTEID 0x00)
       (fteid_Marshal (NewFullyQualifiedTEIDFields ifType teid v4 v6))"

definition NewFullyQualifiedTEID :: "byte \<Rightarrow> u32 \<Rightarrow> string \<Rightarrow> string \<Rightarrow> ie option result" where
  "NewFullyQualifiedTEID ifType teid v4 v6 =
     or_nil (ie_New IE_FullyQualifiedTEID 0x00)
       (fteid_Marshal (NewFullyQualifiedTEIDFields ifType teid (ParseIP v4) (ParseIP v6)))"

definition ie_FullyQualifiedTEID :: "ie \<Rightarrow> fteid_fields result" where
  "ie_FullyQualifiedTEID i =
     (if ie_Type i = IE_FullyQualifiedTEID then fteid_UnmarshalBinary (ie_Payload i)
      else wrong_type i)"

definition HasIPv4 :: "ie \<Rightarrow> bool" where
  "HasIPv4 i = (ie_Type i = IE_FullyQualifiedTEID \<and> \<not> length (ie_Payload i) < 1 \<and>
     has8thBit (ie_Payload i ! 0))"

definition HasIPv6 :: "ie \<Rightarrow> bool" where
  "HasIPv6 i = (ie_Type i = IE_FullyQualifiedTEID \<and> \<not> length (ie_Payload i) < 1 \<and>
     has7thBit (ie_Payload i ! 0))"

definition ie_InterfaceType :: "ie \<Rightarrow> byte result" where
  "ie_InterfaceType i =
     (if ie_Type i \<noteq> IE_FullyQualifiedTEID then wrong_type i
      else if length (ie_Payload i) < 1 then Inl (Error IoErrUnexpectedEOF)
      else andThen (byte_at (ie_Payload i) 0) (\<lambda>x. Inr (x AND 0x3f)))"

text \<open>\<open>GREKey\<close> and \<open>TEID\<close> differ in the second type they know and in the length they ask for.\<close>

definition key_in :: "byte \<Rightarrow> nat \<Rightarrow> ie \<Rightarrow> u32 result" where
  "key_in other shortest i =
     (let p = ie_Payload i in
      if length p < shortest then Inl (Error IoErrUnexpectedEOF)
      else if ie_Type i = IE_FullyQualifiedTEID then get32 p 1
      else if ie_Type i = other then
        andThen (byte_at p 0) (\<lambda>n.
          if n = 4 then (if length p < 9 then Inl (Error IoErrUnexpectedEOF) else get32 p 5)
          else if n = 16 then (if length p < 21 then Inl (Error IoErrUnexpectedEOF) else get32 p 17)
          else Inl (Error IEErrMalformed))
      else wrong_type i)"

definition ie_GREKey :: "ie \<Rightarrow> u32 result" where
  "ie_GREKey = key_in IE_S103PDNDataForwardingInfo 6"

definition ie_TEID :: "ie \<Rightarrow> u32 result" where
  "ie_TEID = key_in IE_S1UDataForwarding 5"

section \<open>What the constructors write and the accessors read\<close>

lemma or_nil_Inr [simp]: "or_nil mk (Inr b) = Inr (Some (mk b))"
  by (simp add: or_nil_def)

lemma swapped_digits:
  assumes "list_all hex_digit s"
  obtains b where "StrToSwappedBytes s ''f'' = Inr b" "2 * length b = length s + length s mod 2"
    "SwappedBytesToStr b False = (if odd (length s) then s @ ''f'' else s)"
    "SwappedBytesToStr b True = (if odd (length s) then s else butlast s)"
proof (cases "odd (length s)")
  case True
  from StrToSwappedBytes_odd [OF assms True] obtain b
    where "StrToSwappedBytes s ''f'' = Inr b" "SwappedBytesToStr b True = s"
      "SwappedBytesToStr b False = s @ ''f''" "2 * length b = length s + 1" by blast
  with True that [of b] show ?thesis by (simp add: odd_iff_mod_2_eq_one)
next
  case False
  then have "even (length s)" by simp
  from StrToSwappedBytes_even [OF assms this] obtain b
    where b: "StrToSwappedBytes s ''f'' = Inr b" "SwappedBytesToStr b False = s"
      "2 * length b = length s" by blast
  then have "SwappedBytesToStr b True = butlast s"
    by (auto simp: SwappedBytesToStr_def Let_def butlast_conv_take)
  with False b that [of b] show ?thesis by simp
qed

lemma TrimSuffix_digits:
  "list_all dec_digit s \<Longrightarrow> TrimSuffix (CHR ''f'') (if odd n then s @ ''f'' else s) = s"
proof -
  assume s: "list_all dec_digit s"
  have "last s \<noteq> CHR ''f''" if "s \<noteq> []"
    using s that dec_digit_not_f by (auto simp: list_all_iff)
  then show ?thesis by (auto simp: TrimSuffix_def)
qed

definition label_wire :: "string \<Rightarrow> bytes" where
  "label_wire l = of_nat (length l) # string_bytes l"

lemma label_wire_length [simp]: "length (label_wire l) = length l + 1"
  by (simp add: label_wire_def)

lemma put_labels_wire:
  "length p = offset + sum_list (map (\<lambda>w. length w + 1) ls) \<Longrightarrow>
     put_labels p offset ls = Inr (take offset p @ concat (map label_wire ls))"
proof (induction ls arbitrary: p offset)
  case (Cons l ls)
  let ?q = "take offset p @ label_wire l @ drop (offset + (length l + 1)) p"
  have "put_labels p offset (l # ls) = put_labels ?q (offset + (length l + 1)) ls"
    using Cons.prems
    by (simp add: Let_def write_at_def copy_at_def label_wire_def min_def Suc_diff_le add.commute)
  also have "\<dots> = Inr (take (offset + (length l + 1)) ?q @ concat (map label_wire ls))"
    using Cons.prems by (intro Cons.IH) (simp add: min_def)
  also have "take (offset + (length l + 1)) ?q = take offset p @ label_wire l"
    using Cons.prems by (simp add: min_def)
  finally show ?case by simp
qed simp

lemma get_labels_wire:
  "list_all (\<lambda>l. length l < 256) ls \<Longrightarrow> get_labels (concat (map label_wire ls)) = ls"
proof (induction ls)
  case (Cons l ls)
  then have "unat (of_nat (length l) :: byte) = length l" by (simp add: unat_of_nat)
  with Cons show ?case by (simp add: label_wire_def)
qed simp

lemma NewAccessPointName_wire:
  "NewAccessPointName apn = Inr (ie_New IE_AccessPointName 0 (concat (map label_wire (Split (CHR ''.'') apn))))"
proof -
  let ?ls = "Split (CHR ''.'') apn"
  have len: "length (concat (map label_wire ?ls)) = length apn + 1"
    using Split_length [of "CHR ''.''" apn] by (simp add: length_concat comp_def)
  have "put_labels (replicate (length apn + 1) 0) 0 ?ls = Inr (concat (map label_wire ?ls))"
    using put_labels_wire [of "replicate (length apn + 1) 0" 0 ?ls] Split_length [of "CHR ''.''" apn]
    by simp
  then show ?thesis using len by (simp add: NewAccessPointName_def ie_New_eq Let_def)
qed

lemma NewBearerQoS_wire:
  "NewBearerQoS pci pl pvi qci umbr dmbr ugbr dgbr =
     Inr (Some (ie_New IE_BearerQoS 0 ([arp_octet pci pl pvi, qci] @ Uint64To40 umbr @
       Uint64To40 dmbr @ Uint64To40 ugbr @ Uint64To40 dgbr)))"
  by (simp add: NewBearerQoS_def BearerQoSFields_MarshalTo_def NewBearerQoSFields_def put_rates_def
      write_at_def copy_at_def Uint64To40_def numeral_eq_Suc)

lemma NewFlowQoS_wire:
  "NewFlowQoS qci umbr dmbr ugbr dgbr =
     Inr (Some (ie_New IE_FlowQoS 0 ([qci] @ Uint64To40 umbr @
       Uint64To40 dmbr @ Uint64To40 ugbr @ Uint64To40 dgbr)))"
  by (simp add: NewFlowQoS_def FlowQoSFields_MarshalTo_def put_rates_def
      write_at_def copy_at_def Uint64To40_def numeral_eq_Suc)


definition fteid_wire :: "byte \<Rightarrow> u32 \<Rightarrow> ip \<Rightarrow> ip \<Rightarrow> bytes" where
  "fteid_wire ifType teid v4 v6 =
     (ifType OR (if v4 = [] then 0 else 0x80) OR (if v6 = [] then 0 else 0x40)) # be32 teid @ v4 @ v6"

lemma fteid_Marshal_wire:
  "fteid_Marshal (NewFullyQualifiedTEIDFields ifType teid v4 v6) =
     Inr (fteid_wire ifType teid (To4 v4) (To16 v6))"
proof -
  have l: "To4 v4 = [] \<or> length (To4 v4) = 4" "To16 v6 = [] \<or> length (To16 v6) = 16"
    by (rule To4_length To16_length)+
  show ?thesis
    using l
    by (auto simp: fteid_Marshal_def fteid_MarshalTo_def fteid_MarshalLen_def NewFullyQualifiedTEIDFields_def
      fteid_wire_def Let_def bit_simps write_at_def copy_at_def or_at0_def byte_at_def be32_def or.assoc numeral_eq_Suc)
qed

lemma fteid_flags:
  fixes ifType :: byte and a b :: bool
  assumes "ifType AND 0xc0 = 0"
  defines "x \<equiv> ifType OR (if a then 0 else 0x80) OR (if b then 0 else 0x40)"
  shows "bit x 7 = (\<not> a)" "bit x 6 = (\<not> b)" "x AND 0x3f = ifType"
    "x AND 0xc0 = (if a then 0 else 0x80) OR (if b then 0 else 0x40)"
proof -
  have "\<not> bit (ifType AND 0xc0) 7" "\<not> bit (ifType AND 0xc0) 6" by (simp_all add: assms(1))
  then have high: "\<not> bit ifType 7" "\<not> bit ifType 6" by (simp_all add: bit_simps)
  show "bit x 7 = (\<not> a)" "bit x 6 = (\<not> b)" by (auto simp: x_def bit_simps high)
  show "x AND 0x3f = ifType"
    by (rule byte_eqI) (simp_all add: x_def bit_simps high)
  show "x AND 0xc0 = (if a then 0 else 0x80) OR (if b then 0 else 0x40)"
    by (rule byte_eqI) (simp_all add: x_def bit_simps high)
qed

lemma slice_third:
  "length a = n \<Longrightarrow> slice (a @ b @ c) (n + length b) (n + length b + length c) = Inr c"
  by (auto simp: slice_def)

lemma fteid_UnmarshalBinary_wire:
  assumes "ifType AND 0xc0 = 0" "v4 = [] \<or> length v4 = 4" "v6 = [] \<or> length v6 = 16"
  shows "fteid_UnmarshalBinary (fteid_wire ifType teid v4 v6) =
    Inr \<lparr>ft_Flags = (if v4 = [] then 0 else 0x80) OR (if v6 = [] then 0 else 0x40),
         ft_InterfaceType = ifType, ft_TEIDGREKey = teid, ft_IPv4Address = v4, ft_IPv6Address = v6\<rparr>"
proof -
  let ?x = "ifType OR (if v4 = [] then 0 else 0x80) OR (if v6 = [] then 0 else 0x40)"
  let ?f = "(if v4 = [] then 0 else 0x80) OR (if v6 = [] then 0 else 0x40) :: byte"
  note x = fteid_flags [OF assms(1), of "v4 = []" "v6 = []"]
  have f: "bit ?f 7 = (v4 \<noteq> [])" "bit ?f 6 = (v6 \<noteq> [])"
    by (auto simp: bit_simps)
  have b: "fteid_wire ifType teid v4 v6 = (?x # be32 teid) @ v4 @ v6"
    by (simp add: fteid_wire_def)
  have teid: "get32 ((?x # be32 teid) @ v4 @ v6) 1 = Inr teid"
    by (simp add: get32_def be32_def)
  have v4: "slice ((?x # be32 teid) @ v4 @ v6) 5 9 = Inr v4" if "v4 \<noteq> []"
    using that assms(2) by (auto simp: slice_def be32_def numeral_eq_Suc)
  have v6: "slice ((?x # be32 teid) @ v4 @ v6) (5 + length v4) (5 + length v4 + 16) = Inr v6" if "v6 \<noteq> []"
    using that assms(3) slice_third [of "?x # be32 teid" 5 v4 v6] by auto
  show ?thesis
  proof (cases "v4 = []"; cases "v6 = []")
    assume "v4 = []" "v6 = []"
    then show ?thesis unfolding b using assms(2,3) f x(3,4) teid
      by (simp add: fteid_UnmarshalBinary_def Let_def byte_at_def)
  next
    assume "v4 = []" "v6 \<noteq> []"
    then show ?thesis unfolding b using assms(2,3) f x(3,4) teid v6
      by (simp add: fteid_UnmarshalBinary_def Let_def byte_at_def To16_16)
  next
    assume "v4 \<noteq> []" "v6 = []"
    then show ?thesis unfolding b using assms(2,3) f x(3,4) teid v4
      by (simp add: fteid_UnmarshalBinary_def Let_def byte_at_def To4_4)
  next
    assume "v4 \<noteq> []" "v6 \<noteq> []"
    then show ?thesis unfolding b using assms(2,3) f x(3,4) teid v4 v6
      by (simp add: fteid_UnmarshalBinary_def Let_def byte_at_def To4_4 To16_16)
  qed
qed

lemma NewBearerQoS_read:
  "\<exists>i. NewBearerQoS pci pl pvi qci umbr dmbr ugbr dgbr = Inr (Some i) \<and> ie_Type i = IE_BearerQoS \<and>
     ie_QCILabel i = Inr qci \<and> ie_PriorityLevel i = Inr (take_bit 4 pl) \<and>
     ie_MBRForUplink i = Inr (take_bit 40 umbr) \<and> ie_MBRForDownlink i = Inr (take_bit 40 dmbr) \<and>
     ie_GBRForUplink i = Inr (take_bit 40 ugbr) \<and> ie_GBRForDownlink i = Inr (take_bit 40 dgbr) \<and>
     HasPCI i = Inr False \<and> HasPVI i = Inr False"
proof -
  have pl: "drop_bit 2 (arp_octet pci pl pvi AND 0x3c) = take_bit 4 pl"
    by (rule byte_eqI) (simp_all add: arp_octet_def bit_simps)
  have rates: "rate_at ([a, q] @ Uint64To40 umbr @ Uint64To40 dmbr @ Uint64To40 ugbr @ Uint64To40 dgbr) i j =
      Inr (take_bit 40 v)"
    if "(i, j, v) \<in> {(2, 7, umbr), (7, 12, dmbr), (12, 17, ugbr), (17, 22, dgbr)}" for a q i j v
    using that Uint40To64_Uint64To40 [of v]
    by (auto simp: rate_at_def slice_def Uint64To40_def numeral_eq_Suc)
  show ?thesis
    unfolding NewBearerQoS_wire
    using pl rates
    by (simp add: ie_QCILabel_def ie_PriorityLevel_def ie_MBRForUplink_def ie_MBRForDownlink_def
        ie_GBRForUplink_def ie_GBRForDownlink_def bit_rate_def HasPCI_def HasPVI_def ie_flag_def
        ie_AllocationRetensionPriority_def ie_BearerQoS_def in_bearer_context_def
        BearerQoSFields_UnmarshalBinary_def byte_at_def)
qed

section \<open>Properties\<close>

text \<open>
  Subscriber identities, made of decimal digits: MSISDN and equipment identity are read back
  as they were given. The IMSI accessor always cuts the last digit read, which is the filler only
  when the number of digits is odd: an IMSI of even length comes back one digit short.
\<close>

lemma identity_roundtrip:
  assumes "list_all dec_digit s" "s \<noteq> []"
  shows "\<exists>imsi msisdn mei. NewIMSI s = Inr (Some imsi) \<and> NewMSISDN s = Inr (Some msisdn) \<and>
     NewMobileEquipmentIdentity s = Inr (Some mei) \<and>
     ie_IMSI imsi = Inr (if odd (length s) then s else butlast s) \<and>
     ie_MSISDN msisdn = Inr s \<and> ie_MobileEquipmentIdentity mei = Inr s"
proof -
  have "list_all hex_digit s" using assms(1) by (auto simp: list_all_iff dec_digit_hex)
  then obtain b where b: "StrToSwappedBytes s ''f'' = Inr b" "2 * length b = length s + length s mod 2"
    "SwappedBytesToStr b False = (if odd (length s) then s @ ''f'' else s)"
    "SwappedBytesToStr b True = (if odd (length s) then s else butlast s)"
    by (rule swapped_digits)
  have "\<not> length b < 1" using assms(2) b(2) by (cases s) auto
  then show ?thesis
    using b TrimSuffix_digits [OF assms(1), of "length s"]
    by (simp add: NewIMSI_def NewMSISDN_def NewMobileEquipmentIdentity_def ie_IMSI_def ie_MSISDN_def
        ie_MobileEquipmentIdentity_def)
qed

lemma identity_roundtrip_witness:
  "\<exists>imsi. NewIMSI ''12345678901234'' = Inr (Some imsi) \<and> ie_IMSI imsi = Inr ''1234567890123''"
  using identity_roundtrip [of "''12345678901234''"] by (auto simp: dec_digit_def)

text \<open>
  Serving Network: a PLMN is encoded and its MCC and MNC are read back.
\<close>

lemma serving_network_roundtrip:
  assumes "plmn_ok mcc mnc"
  shows "\<exists>i. NewServingNetwork mcc mnc = Inr (Some i) \<and> wf_ie i \<and>
     ie_MCC i = Inr mcc \<and> ie_MNC i = Inr mnc \<and> ie_ServingNetwork i = Inr (mcc @ mnc)"
proof -
  obtain b where b: "EncodePLMN mcc mnc = Inr b" "length b = 3" "DecodePLMN b = Inr (mcc, mnc)"
    using PLMN_roundtrip_aux [OF assms] by blast
  then show ?thesis
    by (simp add: NewServingNetwork_def ie_MCC_def ie_MNC_def ie_ServingNetwork_def plmn_of_def
        wf_ie_New grouped_def grouped_types_def)
qed

lemma serving_network_roundtrip_witness:
  "\<exists>i. NewServingNetwork ''123'' ''456'' = Inr (Some i) \<and> ie_MNC i = Inr ''456''"
  using serving_network_roundtrip [of "''123''" "''456''"] by (auto simp: plmn_ok_def dec_digit_def)

text \<open>
  Access Point Name: the constructor never panics and fills its payload exactly, and a name
  whose labels have fewer than 256 characters is read back.
\<close>

lemma apn_roundtrip:
  assumes "list_all (\<lambda>l. length l < 256) (Split (CHR ''.'') apn)"
  shows "\<exists>i. NewAccessPointName apn = Inr i \<and> length (ie_Payload i) = length apn + 1 \<and>
     ie_AccessPointName i = Inr apn"
  using get_labels_wire [OF assms] Split_length [of "CHR ''.''" apn]
  by (simp add: NewAccessPointName_wire ie_AccessPointName_def length_concat comp_def)

lemma apn_roundtrip_witness:
  "\<exists>i. NewAccessPointName ''some.apn.example'' = Inr i \<and> ie_AccessPointName i = Inr ''some.apn.example''"
  using apn_roundtrip [of "''some.apn.example''"] by auto

text \<open>
  Bearer QoS: the four bit rates keep their low 40 bits, the QCI is kept, the priority level
  its low four bits. The accessors for pre-emption capability and vulnerability do not know this
  element type and answer no, whatever the element says.
\<close>

lemma bearer_qos_accessors:
  "\<exists>i. NewBearerQoS pci pl pvi qci umbr dmbr ugbr dgbr = Inr (Some i) \<and>
     ie_QCILabel i = Inr qci \<and> ie_PriorityLevel i = Inr (take_bit 4 pl) \<and>
     ie_MBRForUplink i = Inr (take_bit 40 umbr) \<and> ie_MBRForDownlink i = Inr (take_bit 40 dmbr) \<and>
     ie_GBRForUplink i = Inr (take_bit 40 ugbr) \<and> ie_GBRForDownlink i = Inr (take_bit 40 dgbr) \<and>
     HasPCI i = Inr False \<and> HasPVI i = Inr False"
  using NewBearerQoS_read [of pci pl pvi qci umbr dmbr ugbr dgbr] by blast

text \<open>
  Flow QoS: the accessor of the uplink maximum bit rate reads four bytes where the rate has
  five and the conversion of anything but five bytes is zero, so it answers zero for every Flow
  QoS of six bytes or more.
\<close>

lemma flow_qos_uplink_zero:
  assumes "ie_Type i = IE_FlowQoS" "6 \<le> length (ie_Payload i)"
  shows "ie_MBRForUplink i = Inr 0"
  using assms by (simp add: ie_MBRForUplink_def bit_rate_def rate_at_def slice_def Uint40To64_def)

lemma flow_qos_uplink_zero_witness:
  "\<exists>i. NewFlowQoS 5 111 222 333 444 = Inr (Some i) \<and> ie_MBRForUplink i = Inr 0"
proof -
  let ?p = "[5] @ Uint64To40 111 @ Uint64To40 222 @ Uint64To40 333 @ Uint64To40 444"
  have "ie_MBRForUplink (ie_New IE_FlowQoS 0 ?p) = Inr 0"
    by (rule flow_qos_uplink_zero) simp_all
  then show ?thesis by (simp add: NewFlowQoS_wire)
qed

text \<open>
  Fully Qualified TEID: for an interface type of six bits the element is read back with the
  interface type, the TEID and exactly the addresses that were given (in their 4-byte and 16-byte
  form), for every combination of the two addresses.
\<close>

lemma fteid_roundtrip:
  assumes "ifType AND 0xc0 = 0"
  shows "\<exists>i f. NewFullyQualifiedTEIDNetIP ifType teid v4 v6 = Inr (Some i) \<and>
     ie_InterfaceType i = Inr ifType \<and> ie_TEID i = Inr teid \<and>
     ie_FullyQualifiedTEID i = Inr f \<and> ft_InterfaceType f = ifType \<and> ft_TEIDGREKey f = teid \<and>
     ft_IPv4Address f = To4 v4 \<and> ft_IPv6Address f = To16 v6 \<and>
     HasIPv4 i = (To4 v4 \<noteq> []) \<and> HasIPv6 i = (To16 v6 \<noteq> [])"
proof -
  let ?w = "fteid_wire ifType teid (To4 v4) (To16 v6)"
  note x = fteid_flags [OF assms, of "To4 v4 = []" "To16 v6 = []"]
  have hd: "?w ! 0 AND 0x3f = ifType"
    "bit (?w ! 0) 7 = (To4 v4 \<noteq> [])" "bit (?w ! 0) 6 = (To16 v6 \<noteq> [])"
    using x by (simp_all add: fteid_wire_def)
  have len: "5 \<le> length ?w" by (simp add: fteid_wire_def)
  then have "\<not> length ?w < 5" "\<not> length ?w < 1" "0 < length ?w" by linarith+
  moreover have "get32 ?w 1 = Inr teid" by (simp add: get32_def fteid_wire_def be32_def)
  ultimately show ?thesis
    using hd fteid_UnmarshalBinary_wire [OF assms To4_length To16_length, of teid v4 v6]
    by (simp add: NewFullyQualifiedTEIDNetIP_def fteid_Marshal_wire ie_InterfaceType_def ie_TEID_def
        key_in_def ie_FullyQualifiedTEID_def HasIPv4_def HasIPv6_def byte_at_def Let_def)
qed

lemma fteid_roundtrip_witness:
  "\<exists>i. NewFullyQualifiedTEIDNetIP 10 0xffffffff [127, 0, 0, 1] [] = Inr (Some i) \<and>
     ie_InterfaceType i = Inr 10 \<and> ie_TEID i = Inr 0xffffffff \<and> HasIPv4 i \<and> \<not> HasIPv6 i"
  using fteid_roundtrip [of 10 "0xffffffff" "[127, 0, 0, 1]" "[]"] by (auto simp: To4_def)

text \<open>
  Cause: the value and the PCE flag are read back, but the accessors of the BCE and CS flags
  are exchanged with respect to the constructor.
\<close>

lemma cause_flags:
  "ie_Cause (NewCause cause pce bce cs off) = Inr cause \<and>
   HasPCE (NewCause cause pce bce cs off) = Inr (bit pce 0) \<and>
   HasCS (NewCause cause pce bce cs off) = Inr (bit bce 0) \<and>
   HasBCE (NewCause cause pce bce cs off) = Inr (bit cs 0)"
proof -
  let ?f = "(push_bit 2 pce AND 0x04) OR (push_bit 1 bce AND 0x02) OR (cs AND 0x01)"
  have "bit ?f 2 = bit pce 0" "bit ?f 1 = bit bce 0" "bit ?f 0 = bit cs 0"
    by (simp_all only: bit_or_iff bit_and_iff bit_push_bit_iff) (simp_all add: bit_simps)
  then show ?thesis
    by (cases off)
       (simp_all add: NewCause_def ie_Cause_def in_bearer_context_def octet_of_def ie_SetLength_eq
        ie_CauseFlags_def HasPCE_def HasCS_def HasBCE_def ie_flag_def byte_at_def Let_def)
qed

text \<open>
  \<open>CauseFlags\<close> checks for one byte of payload and reads the second: on a Cause element with a
  payload of exactly one byte it panics, and on no other element.
\<close>

lemma cause_flags_panics_iff:
  "no_panic (ie_CauseFlags i) \<longleftrightarrow> \<not> (ie_Type i = IE_Cause \<and> length (ie_Payload i) = 1)"
proof -
  have own: "no_panic (octet_of c)" for c by (simp add: octet_of_def byte_at_def)
  have "no_panic (ie_BearerContext c)" for c
    by (simp add: ie_BearerContext_def v2ies.multi_no_panic)
  then have "no_panic (ie_Cause i)"
    by (auto simp: ie_Cause_def in_bearer_context_def own intro!: no_panic_andThen split: option.splits)
  then show ?thesis
    by (cases "length (ie_Payload i)") (auto simp: ie_CauseFlags_def byte_at_def)
qed

end
