(* ===== verification/GoMap.thy ===== *)
theory GoMap
  imports GoNet
begin

text \<open>
  The interface of the maps the connections keep. Sessions, bearers, TEIDs, handlers and relay
  peers are held in maps (\<open>sync.Map\<close> behind a typed wrapper, or a plain Go map), used through
  \<open>store\<close>, \<open>load\<close> and \<open>delete\<close> only; the locale states what these promise and proves once how a
  property of all entries is kept. \<open>Range\<close> visits the entries in an order Go leaves open: the
  operations that use it take the order as an argument, a list that \<open>range_order\<close> holds of.
\<close>

locale go_map =
  fixes load :: "'m \<Rightarrow> 'k \<Rightarrow> 'v option"
    and store :: "'m \<Rightarrow> 'k \<Rightarrow> 'v \<Rightarrow> 'm"
    and delete :: "'m \<Rightarrow> 'k \<Rightarrow> 'm"
  assumes load_store: "load (store m k v) k' = (if k' = k then Some v else load m k')"
    and load_delete: "load (delete m k) k' = (if k' = k then None else load m k')"
begin

definition every :: "('k \<Rightarrow> 'v \<Rightarrow> bool) \<Rightarrow> 'm \<Rightarrow> bool" where
  "every P m \<longleftrightarrow> (\<forall>k v. load m k = Some v \<longrightarrow> P k v)"

lemma everyD: "every P m \<Longrightarrow> load m k = Some v \<Longrightarrow> P k v"
  by (simp add: every_def)

lemma every_store: "every P m \<Longrightarrow> P k v \<Longrightarrow> every P (store m k v)"
  by (auto simp: every_def load_store)

lemma every_delete: "every P m \<Longrightarrow> every P (delete m k)"
  by (auto simp: every_def load_delete split: if_splits)

lemma every_mono: "every P m \<Longrightarrow> (\<And>k v. P k v \<Longrightarrow> Q k v) \<Longrightarrow> every Q m"
  by (auto simp: every_def)

lemma store_store: "load (store (store m k v) k v') = load (store m k v')"
  by (auto simp: fun_eq_iff load_store)

lemma delete_store: "load (delete (store m k v) k) = load (delete m k)"
  by (auto simp: fun_eq_iff load_store load_delete)

end

section \<open>Maps as functions\<close>

definition map_load :: "('k \<rightharpoonup> 'v) \<Rightarrow> 'k \<Rightarrow> 'v option" where
  "map_load m k = m k"

definition map_store :: "('k \<rightharpoonup> 'v) \<Rightarrow> 'k \<Rightarrow> 'v \<Rightarrow> ('k \<rightharpoonup> 'v)" where
  "map_store m k v = m(k \<mapsto> v)"

definition map_delete :: "('k \<rightharpoonup> 'v) \<Rightarrow> 'k \<Rightarrow> ('k \<rightharpoonup> 'v)" where
  "map_delete m k = m(k := None)"

interpretation gomap: go_map map_load map_store map_delete
  by unfold_locales (simp_all add: map_load_def map_store_def map_delete_def)

section \<open>Range\<close>

definition range_order :: "'k list \<Rightarrow> ('k \<rightharpoonup> 'v) \<Rightarrow> bool" where
  "range_order order m \<longleftrightarrow> distinct order \<and> set order = dom m"

definition range_map :: "'k list \<Rightarrow> ('k \<rightharpoonup> 'v) \<Rightarrow> ('k \<times> 'v) list" where
  "range_map order m = List.map_filter (\<lambda>k. map_option (Pair k) (m k)) order"

lemma range_map_set: "set order = dom m \<Longrightarrow> (k, v) \<in> set (range_map order m) \<longleftrightarrow> m k = Some v"
  by (auto simp: range_map_def List.map_filter_def image_iff intro!: bexI [of _ k])

lemma range_map_length: "range_order order m \<Longrightarrow> length (range_map order m) = card (dom m)"
proof -
  assume r: "range_order order m"
  then have "filter (\<lambda>k. map_option (Pair k) (m k) \<noteq> None) order = order"
    by (intro filter_True) (auto simp: range_order_def)
  moreover have "card (dom m) = length order"
    using r distinct_card [of order] by (simp add: range_order_def)
  ultimately show ?thesis by (simp add: range_map_def List.map_filter_def comp_def)
qed

lemma find_range:
  assumes "set order = dom m"
  shows "find P (range_map order m) = None \<longleftrightarrow> (\<forall>k v. m k = Some v \<longrightarrow> \<not> P (k, v))"
    and "find P (range_map order m) = Some (k, v) \<Longrightarrow> m k = Some v \<and> P (k, v)"
proof -
  show "find P (range_map order m) = None \<longleftrightarrow> (\<forall>k v. m k = Some v \<longrightarrow> \<not> P (k, v))"
    using range_map_set [OF assms] by (auto simp: find_None_iff)
  show "m k = Some v \<and> P (k, v)" if "find P (range_map order m) = Some (k, v)"
    using that range_map_set [OF assms, of k v] by (auto simp: find_Some_iff in_set_conv_nth)
qed

section \<open>Drawing a free key\<close>

text \<open>
  Both kinds of connection reserve a TEID by drawing random numbers until one is neither zero nor a
  key of the table.
\<close>

fun first_free :: "nat \<Rightarrow> nat \<Rightarrow> (nat \<Rightarrow> u32) \<Rightarrow> (u32 \<rightharpoonup> 'v) \<Rightarrow> u32 option" where
  "first_free 0 try rnd m = None"
| "first_free (Suc n) try rnd m =
     (let t = rnd try in
      if t = 0 \<or> map_load m t \<noteq> None then first_free n (try + 1) rnd m else Some t)"

lemma first_free_cases:
  "first_free n n0 rnd m = Some t \<Longrightarrow>
     t \<noteq> 0 \<and> m t = None \<and> (\<exists>k < n. t = rnd (n0 + k) \<and> (\<forall>j < k. rnd (n0 + j) = 0 \<or> m (rnd (n0 + j)) \<noteq> None))"
  "first_free n n0 rnd m = None \<Longrightarrow> k < n \<Longrightarrow> rnd (n0 + k) = 0 \<or> m (rnd (n0 + k)) \<noteq> None"
proof (induction n arbitrary: n0 k)
  note map_load_def [simp]
  case (Suc n)
  {
    case 1
    show ?case
    proof (cases "rnd n0 = 0 \<or> m (rnd n0) \<noteq> None")
      case True
      with 1 Suc.IH(1) [of "n0 + 1"] obtain k where k: "k < n" "t \<noteq> 0" "m t = None" "t = rnd (n0 + 1 + k)"
        "\<forall>j < k. rnd (n0 + 1 + j) = 0 \<or> m (rnd (n0 + 1 + j)) \<noteq> None" by auto
      have "\<forall>j < Suc k. rnd (n0 + j) = 0 \<or> m (rnd (n0 + j)) \<noteq> None"
        using True k(5) by (auto simp: less_Suc_eq_0_disj)
      with k show ?thesis by (auto intro!: exI [of _ "Suc k"])
    next
      case False
      with 1 show ?thesis by (auto intro!: exI [of _ 0])
    qed
  next
    case 2
    show ?case
    proof (cases k)
      case 0
      with 2 show ?thesis by (auto simp: Let_def split: if_splits)
    next
      case (Suc j)
      have "first_free n (n0 + 1) rnd m = None" using 2 by (auto simp: Let_def split: if_splits)
      with 2 Suc Suc.IH(2) [of "n0 + 1" j] show ?thesis by simp
    qed
  }
qed simp_all

end
