(* ===== verification/V2Session.thy ===== *)
theory V2Session
  imports V2Parse V2IEValues GoMap
begin

text \<open>
  Sessions and bearers of GTPv2 (\<open>src/gtpv2/session.go\<close>, \<open>src/gtpv2/bearer.go\<close>). A session is a
  record with the fields of the Go struct; its mutex is left out, every method runs to its end. A
  bearer is held by value under its name: two names of one session hold different bearers, as
  they do when each is created by \<open>NewBearer\<close>. Methods that go through the bearer map with
  \<open>Range\<close> take the order of the names as an argument.
\<close>

section \<open>The data\<close>

record location =
  loc_MCC :: string
  loc_MNC :: string
  loc_RATType :: byte
  loc_LAC :: u16
  loc_CI :: u16
  loc_SAI :: u16
  loc_RAI :: u16
  loc_TAI :: u16
  loc_ECI :: u32
  loc_MeNBI :: u32
  loc_EMeNBI :: u32

record subscriber =
  sub_IMSI :: string
  sub_MSISDN :: string
  sub_IMEI :: string
  sub_Location :: location

record qos_profile =
  qp_PCI :: bool
  qp_PVI :: bool
  qp_PL :: byte
  qp_QCI :: byte
  qp_MBRUL :: u64
  qp_MBRDL :: u64
  qp_GBRUL :: u64
  qp_GBRDL :: u64

record bearer =
  br_raddr :: "addr option"
  br_teidIn :: u32
  br_teidOut :: u32
  br_EBI :: byte
  br_SubscriberIP :: string
  br_APN :: string
  br_ChargingID :: u32
  br_QoSProfile :: qos_profile

record session =
  s_isActive :: bool
  s_teidMap :: "byte \<rightharpoonup> u32"
  s_bearerMap :: "string \<rightharpoonup> bearer"
  s_msgQueue :: "v2_message list"
  s_peerAddr :: addr
  s_peerAddrString :: string
  s_Subscriber :: subscriber

definition no_location :: location where
  "no_location = \<lparr>loc_MCC = [], loc_MNC = [], loc_RATType = 0, loc_LAC = 0, loc_CI = 0, loc_SAI = 0,
     loc_RAI = 0, loc_TAI = 0, loc_ECI = 0, loc_MeNBI = 0, loc_EMeNBI = 0\<rparr>"

definition no_subscriber :: subscriber where
  "no_subscriber = \<lparr>sub_IMSI = [], sub_MSISDN = [], sub_IMEI = [], sub_Location = no_location\<rparr>"

definition no_qos :: qos_profile where
  "no_qos = \<lparr>qp_PCI = False, qp_PVI = False, qp_PL = 0, qp_QCI = 0, qp_MBRUL = 0, qp_MBRDL = 0,
     qp_GBRUL = 0, qp_GBRDL = 0\<rparr>"

section \<open>Bearers (bearer.go)\<close>

definition NewBearer :: "byte \<Rightarrow> string \<Rightarrow> qos_profile \<Rightarrow> bearer" where
  "NewBearer ebi apn qos = \<lparr>br_raddr = None, br_teidIn = 0, br_teidOut = 0, br_EBI = ebi,
     br_SubscriberIP = [], br_APN = apn, br_ChargingID = 0, br_QoSProfile = qos\<rparr>"

definition RemoteAddress :: "bearer \<Rightarrow> addr option" where
  "RemoteAddress b = br_raddr b"

definition SetRemoteAddress :: "addr \<Rightarrow> bearer \<Rightarrow> bearer" where
  "SetRemoteAddress raddr b = b\<lparr>br_raddr := Some raddr\<rparr>"

definition IncomingTEID :: "bearer \<Rightarrow> u32" where
  "IncomingTEID b = br_teidIn b"

definition SetIncomingTEID :: "u32 \<Rightarrow> bearer \<Rightarrow> bearer" where
  "SetIncomingTEID teid b = b\<lparr>br_teidIn := teid\<rparr>"

definition OutgoingTEID :: "bearer \<Rightarrow> u32" where
  "OutgoingTEID b = br_teidOut b"

definition SetOutgoingTEID :: "u32 \<Rightarrow> bearer \<Rightarrow> bearer" where
  "SetOutgoingTEID teid b = b\<lparr>br_teidOut := teid\<rparr>"

section \<open>Sessions (session.go)\<close>

definition NewSession :: "addr \<Rightarrow> subscriber \<Rightarrow> session" where
  "NewSession peerAddr sub = \<lparr>s_isActive = False, s_teidMap = Map.empty,
     s_bearerMap = map_store Map.empty ''default'' (NewBearer 0 [] no_qos), s_msgQueue = [],
     s_peerAddr = peerAddr, s_peerAddrString = peerAddr, s_Subscriber = sub\<rparr>"

abbreviation s_IMSI :: "session \<Rightarrow> string" where
  "s_IMSI s \<equiv> sub_IMSI (s_Subscriber s)"

definition Activate :: "session \<Rightarrow> session result" where
  "Activate s = (if s_IMSI s = [] then Inl (Error V2RequiredParameterMissing)
                 else Inr (s\<lparr>s_isActive := True\<rparr>))"

definition Deactivate :: "session \<Rightarrow> session result" where
  "Deactivate s = Inr (s\<lparr>s_isActive := False\<rparr>)"

definition IsActive :: "session \<Rightarrow> bool" where
  "IsActive s = s_isActive s"

definition PeerAddr :: "session \<Rightarrow> addr" where
  "PeerAddr s = s_peerAddr s"

definition UpdatePeerAddr :: "addr \<Rightarrow> session \<Rightarrow> session" where
  "UpdatePeerAddr peer s = s\<lparr>s_peerAddr := peer, s_peerAddrString := peer\<rparr>"

definition AddTEID :: "byte \<Rightarrow> u32 \<Rightarrow> session \<Rightarrow> session" where
  "AddTEID ifType teid s = s\<lparr>s_teidMap := map_store (s_teidMap s) ifType teid\<rparr>"

definition GetTEID :: "byte \<Rightarrow> session \<Rightarrow> u32 result" where
  "GetTEID ifType s = (case map_load (s_teidMap s) ifType of
     Some teid \<Rightarrow> Inr teid | None \<Rightarrow> Inl (Error V2ErrTEIDNotFound))"

text \<open>
  The message queue holds 1000 messages. When it is full, or empty, the call waits for another
  session until the timeout; without one it ends with the timeout.
\<close>

definition msgQueue_size :: nat where "msgQueue_size = 1000"

definition PassMessageTo :: "v2_message \<Rightarrow> session \<Rightarrow> session result" where
  "PassMessageTo msg s = (if length (s_msgQueue s) < msgQueue_size
     then Inr (s\<lparr>s_msgQueue := s_msgQueue s @ [msg]\<rparr>)
     else Inl (Error V2ErrTimeout))"

text \<open>\<open>WaitMessage\<close> takes the message off the queue also when its sequence number is wrong.\<close>

definition WaitMessage :: "u32 \<Rightarrow> session \<Rightarrow> v2_message result \<times> session" where
  "WaitMessage seq s = (case s_msgQueue s of
     [] \<Rightarrow> (Inl (Error V2ErrTimeout), s)
   | msg # rest \<Rightarrow>
       (if v2_Sequence msg \<noteq> seq then Inl (Error (V2InvalidSequence (v2_Sequence msg))) else Inr msg,
        s\<lparr>s_msgQueue := rest\<rparr>))"

definition AddBearer :: "string \<Rightarrow> bearer \<Rightarrow> session \<Rightarrow> session" where
  "AddBearer name br s = s\<lparr>s_bearerMap := map_store (s_bearerMap s) name br\<rparr>"

definition RemoveBearer :: "string \<Rightarrow> session \<Rightarrow> session" where
  "RemoveBearer name s = s\<lparr>s_bearerMap := map_delete (s_bearerMap s) name\<rparr>"

definition GetDefaultBearer :: "session \<Rightarrow> bearer option" where
  "GetDefaultBearer s = map_load (s_bearerMap s) ''default''"

definition SetDefaultBearer :: "bearer \<Rightarrow> session \<Rightarrow> session" where
  "SetDefaultBearer br s = s\<lparr>s_bearerMap := map_store (s_bearerMap s) ''default'' br\<rparr>"

definition LookupBearerByName :: "string \<Rightarrow> session \<Rightarrow> bearer result" where
  "LookupBearerByName name s = (case map_load (s_bearerMap s) name of
     Some br \<Rightarrow> Inr br | None \<Rightarrow> Inl (Error (V2BearerNotFound (s_IMSI s))))"

definition LookupBearerByEBI :: "string list \<Rightarrow> byte \<Rightarrow> session \<Rightarrow> bearer result" where
  "LookupBearerByEBI order ebi s =
     (case find (\<lambda>(name, b). ebi = br_EBI b) (range_map order (s_bearerMap s)) of
        Some (name, b) \<Rightarrow> Inr b
      | None \<Rightarrow> Inl (Error (V2BearerNotFound (s_IMSI s))))"

text \<open>An empty name counts as not found.\<close>

definition LookupBearerNameByEBI :: "string list \<Rightarrow> byte \<Rightarrow> session \<Rightarrow> string result" where
  "LookupBearerNameByEBI order ebi s =
     (let name = (case find (\<lambda>(name, b). ebi = br_EBI b) (range_map order (s_bearerMap s)) of
                    Some (name, b) \<Rightarrow> name | None \<Rightarrow> [])
      in if name = [] then Inl (Error (V2BearerNotFound (s_IMSI s))) else Inr name)"

definition RemoveBearerByEBI :: "string list \<Rightarrow> byte \<Rightarrow> session \<Rightarrow> session" where
  "RemoveBearerByEBI order ebi s = (case LookupBearerNameByEBI order ebi s of
     Inl e \<Rightarrow> s | Inr name \<Rightarrow> RemoveBearer name s)"

definition LookupEBIByName :: "string \<Rightarrow> session \<Rightarrow> byte" where
  "LookupEBIByName name s = (case map_load (s_bearerMap s) name of Some br \<Rightarrow> br_EBI br | None \<Rightarrow> 0)"

definition LookupEBIByTEID :: "string list \<Rightarrow> u32 \<Rightarrow> session \<Rightarrow> byte" where
  "LookupEBIByTEID order teid s =
     (case find (\<lambda>(name, br). teid = br_teidIn br \<or> teid = br_teidOut br)
             (range_map order (s_bearerMap s)) of
        Some (name, br) \<Rightarrow> br_EBI br
      | None \<Rightarrow> 0)"

definition Bearers :: "string list \<Rightarrow> session \<Rightarrow> bearer list" where
  "Bearers order s = map snd (range_map order (s_bearerMap s))"

definition s_BearerCount :: "string list \<Rightarrow> session \<Rightarrow> nat" where
  "s_BearerCount order s = length (range_map order (s_bearerMap s))"

section \<open>Lookups\<close>

lemma LookupBearerByEBI_iff:
  assumes "range_order order (s_bearerMap s)"
  shows "(\<exists>b. LookupBearerByEBI order ebi s = Inr b) \<longleftrightarrow> (\<exists>n b. s_bearerMap s n = Some b \<and> br_EBI b = ebi)"
    and "LookupBearerByEBI order ebi s = Inr b \<Longrightarrow> \<exists>n. s_bearerMap s n = Some b \<and> br_EBI b = ebi"
proof -
  have dom: "set order = dom (s_bearerMap s)" using assms by (simp add: range_order_def)
  show "(\<exists>b. LookupBearerByEBI order ebi s = Inr b) \<longleftrightarrow> (\<exists>n b. s_bearerMap s n = Some b \<and> br_EBI b = ebi)"
    using find_range(1) [OF dom, of "\<lambda>(name, b). ebi = br_EBI b"]
    by (cases "find (\<lambda>(name, b). ebi = br_EBI b) (range_map order (s_bearerMap s))")
       (auto simp: LookupBearerByEBI_def)
  show "\<exists>n. s_bearerMap s n = Some b \<and> br_EBI b = ebi" if "LookupBearerByEBI order ebi s = Inr b"
    using that find_range(2) [OF dom, of "\<lambda>(name, b). ebi = br_EBI b"]
    by (auto simp: LookupBearerByEBI_def split: option.splits)
qed

lemma LookupBearerNameByEBI_sound:
  assumes "range_order order (s_bearerMap s)" "LookupBearerNameByEBI order ebi s = Inr n"
  shows "\<exists>b. s_bearerMap s n = Some b \<and> br_EBI b = ebi"
proof -
  have dom: "set order = dom (s_bearerMap s)" using assms by (simp add: range_order_def)
  show ?thesis
    using assms(2) find_range(2) [OF dom, of "\<lambda>(name, b). ebi = br_EBI b"]
    by (auto simp: LookupBearerNameByEBI_def Let_def split: option.splits if_splits)
qed

end
