(* ===== verification/V2Conn.thy ===== *)
theory V2Conn
  imports V2Session
begin

text \<open>
  The GTPv2-C connection (\<open>src/gtpv2/conn.go\<close>, \<open>src/gtpv2/handlers.go\<close>): sequence numbers, the
  tables of sessions by IMSI and by incoming TEID, the dispatch of incoming messages to handlers
  and the requests a connection sends.

  Both tables hold pointers to sessions, which the program goes on changing, so a connection
  carries a store: \<open>c_heap\<close> holds every session created, a reference is its index. The table of
  incoming TEIDs may hold a nil pointer, put there by \<open>NewSenderFTEID\<close> to reserve a TEID; \<open>None\<close>
  inside the table. An operation maps a connection to a result and the connection afterwards;
  the mutexes are left out, each operation runs to its end.

  What the connection cannot know comes with \<open>env\<close>: whether the n-th write to the socket
  succeeds, and what the handlers registered by the user do. The datagrams written are kept in
  \<open>c_sent\<close>. Log output is left out.
\<close>

section \<open>The state\<close>

datatype handler =
    DefaultEchoRequest | DefaultEchoResponse | DefaultVersionNotSupportedIndication | User nat

record conn =
  c_laddr :: addr
  c_imsiSessionMap :: "string \<rightharpoonup> nat"
  c_iteiSessionMap :: "u32 \<rightharpoonup> nat option"
  c_localIfType :: byte
  c_validationEnabled :: bool
  c_closed :: bool
  c_msgHandlerMap :: "byte \<rightharpoonup> handler"
  c_sequence :: u32
  c_RestartCounter :: byte
  c_heap :: "session list"
  c_writes :: nat
  c_sent :: "(bytes \<times> addr) list"

type_synonym 'a op = "conn \<Rightarrow> 'a result \<times> conn"

record env =
  env_write :: "nat \<Rightarrow> bool"
  env_user :: "nat \<Rightarrow> addr \<Rightarrow> v2_message \<Rightarrow> unit op"

definition ret_op :: "'a \<Rightarrow> 'a op" where
  "ret_op x c = (Inr x, c)"

definition fail_op :: "go_error \<Rightarrow> 'a op" where
  "fail_op e c = (Inl (Error e), c)"

definition bind_op :: "'a op \<Rightarrow> ('a \<Rightarrow> 'b op) \<Rightarrow> 'b op" where
  "bind_op m f c = (case m c of (Inl e, c') \<Rightarrow> (Inl e, c') | (Inr x, c') \<Rightarrow> f x c')"

fun run_ops :: "('a \<Rightarrow> unit op) \<Rightarrow> 'a list \<Rightarrow> unit op" where
  "run_ops f [] = ret_op ()"
| "run_ops f (x # xs) = bind_op (f x) (\<lambda>_. run_ops f xs)"

definition upd_session :: "nat \<Rightarrow> (session \<Rightarrow> session) \<Rightarrow> conn \<Rightarrow> conn" where
  "upd_session r f c = c\<lparr>c_heap := (c_heap c)[r := f (c_heap c ! r)]\<rparr>"

abbreviation session_at :: "conn \<Rightarrow> nat \<Rightarrow> session" where
  "session_at c r \<equiv> c_heap c ! r"

definition newDefaultMsgHandlerMap :: "byte \<rightharpoonup> handler" where
  "newDefaultMsgHandlerMap =
     [MsgTypeEchoRequest \<mapsto> DefaultEchoRequest, MsgTypeEchoResponse \<mapsto> DefaultEchoResponse,
      MsgTypeVersionNotSupportedIndication \<mapsto> DefaultVersionNotSupportedIndication]"

definition NewConn :: "addr \<Rightarrow> byte \<Rightarrow> byte \<Rightarrow> conn" where
  "NewConn laddr localIfType counter = \<lparr>c_laddr = laddr, c_imsiSessionMap = Map.empty,
     c_iteiSessionMap = Map.empty, c_localIfType = localIfType, c_validationEnabled = True,
     c_closed = False, c_msgHandlerMap = newDefaultMsgHandlerMap, c_sequence = 0,
     c_RestartCounter = counter, c_heap = [], c_writes = 0, c_sent = []\<rparr>"

text \<open>Closing the channel \<open>closeCh\<close>, which ends \<open>Serve\<close>. The argument of the second call is a closed channel.\<close>

definition c_Close :: "conn \<Rightarrow> unit result \<times> conn" where
  "c_Close c =
     (if c_closed c then (Inl (Panic CloseOfClosedChannel), c) else (Inr (), c\<lparr>c_closed := True\<rparr>))"

definition AddHandler :: "byte \<Rightarrow> handler \<Rightarrow> conn \<Rightarrow> conn" where
  "AddHandler msgType fn c = c\<lparr>c_msgHandlerMap := map_store (c_msgHandlerMap c) msgType fn\<rparr>"

definition AddHandlers :: "(byte \<times> handler) list \<Rightarrow> conn \<Rightarrow> conn" where
  "AddHandlers funcs c = fold (\<lambda>(msgType, fn). AddHandler msgType fn) funcs c"

definition EnableValidation :: "conn \<Rightarrow> conn" where
  "EnableValidation c = c\<lparr>c_validationEnabled := True\<rparr>"

definition DisableValidation :: "conn \<Rightarrow> conn" where
  "DisableValidation c = c\<lparr>c_validationEnabled := False\<rparr>"

section \<open>Sequence numbers and sending\<close>

definition IncSequence :: "conn \<Rightarrow> u32 \<times> conn" where
  "IncSequence c =
     (let s = c_sequence c + 1; s = (if s > 0xffffff then 0 else s)
      in (s, c\<lparr>c_sequence := s\<rparr>))"

definition DecSequence :: "conn \<Rightarrow> u32 \<times> conn" where
  "DecSequence c = (let s = c_sequence c - 1 in (s, c\<lparr>c_sequence := s\<rparr>))"

definition SequenceNumber :: "conn \<Rightarrow> u32" where
  "SequenceNumber c = c_sequence c"

definition WriteTo :: "env \<Rightarrow> bytes \<Rightarrow> addr \<Rightarrow> unit op" where
  "WriteTo env payload addr c =
     (if env_write env (c_writes c)
      then (Inr (), c\<lparr>c_writes := c_writes c + 1, c_sent := c_sent c @ [(payload, addr)]\<rparr>)
      else (Inl (Error NetError), c\<lparr>c_writes := c_writes c + 1\<rparr>))"

definition SendMessageTo :: "env \<Rightarrow> v2_message \<Rightarrow> addr \<Rightarrow> u32 op" where
  "SendMessageTo env msg addr c =
     (let (seq, c) = IncSequence c; msg = v2_SetSequenceNumber seq msg in
      case v2_Marshal msg of
        Inl e \<Rightarrow> (Inl e, snd (DecSequence c))
      | Inr (payload, _) \<Rightarrow>
          (case WriteTo env payload addr c of
             (Inl e, c) \<Rightarrow> (Inl e, snd (DecSequence c))
           | (Inr _, c) \<Rightarrow> (Inr seq, c)))"

definition RespondTo :: "env \<Rightarrow> addr \<Rightarrow> v2_message \<Rightarrow> v2_message \<Rightarrow> unit op" where
  "RespondTo env raddr received toBeSent c =
     (let toBeSent = v2_SetSequenceNumber (v2_Sequence received) toBeSent in
      case v2_MarshalTo toBeSent (replicate (v2_MarshalLen toBeSent) 0) of
        Inl e \<Rightarrow> (Inl e, c)
      | Inr (b, _) \<Rightarrow> WriteTo env b raddr c)"

definition new_EchoResponse :: "conn \<Rightarrow> v2_message" where
  "new_EchoResponse c = Msg_EchoResponse (NewEchoResponse 0 [Some (NewRecovery (c_RestartCounter c))])"

definition EchoRequest :: "env \<Rightarrow> addr \<Rightarrow> u32 op" where
  "EchoRequest env raddr c =
     SendMessageTo env (Msg_EchoRequest (NewEchoRequest 0 [Some (NewRecovery (c_RestartCounter c))])) raddr c"

definition EchoResponse :: "env \<Rightarrow> addr \<Rightarrow> v2_message \<Rightarrow> unit op" where
  "EchoResponse env raddr req c = RespondTo env raddr req (new_EchoResponse c) c"

definition VersionNotSupportedIndication :: "env \<Rightarrow> addr \<Rightarrow> v2_message \<Rightarrow> unit op" where
  "VersionNotSupportedIndication env raddr req c =
     RespondTo env raddr req
       (Msg_VersionNotSupportedIndication (NewVersionNotSupportedIndication 0 (v2_Sequence req) [])) c"

section \<open>The tables of sessions\<close>

text \<open>
  A nil pointer found in the table is dereferenced when the peer address is compared.
\<close>

definition GetSessionByTEID :: "u32 \<Rightarrow> addr \<Rightarrow> conn \<Rightarrow> nat result" where
  "GetSessionByTEID teid peer c =
     (case map_load (c_iteiSessionMap c) teid of
        None \<Rightarrow> Inl (Error (V2InvalidTEID teid))
      | Some None \<Rightarrow> Inl (Panic NilDereference)
      | Some (Some r) \<Rightarrow>
          if peer \<noteq> s_peerAddrString (session_at c r) then Inl (Error (V2InvalidTEID teid)) else Inr r)"

definition GetSessionByIMSI :: "string \<Rightarrow> conn \<Rightarrow> nat result" where
  "GetSessionByIMSI imsi c =
     (case map_load (c_imsiSessionMap c) imsi of
        Some r \<Rightarrow> Inr r | None \<Rightarrow> Inl (Error (V2UnknownIMSI imsi)))"

definition GetIMSIByTEID :: "u32 \<Rightarrow> addr \<Rightarrow> conn \<Rightarrow> string result" where
  "GetIMSIByTEID teid peer c =
     andThen (GetSessionByTEID teid peer c) (\<lambda>r. Inr (s_IMSI (session_at c r)))"

definition RegisterSession :: "u32 \<Rightarrow> nat \<Rightarrow> conn \<Rightarrow> conn" where
  "RegisterSession itei r c =
     upd_session r (AddTEID (c_localIfType c) itei)
       (c\<lparr>c_iteiSessionMap := map_store (c_iteiSessionMap c) itei (Some r),
          c_imsiSessionMap := map_store (c_imsiSessionMap c) (s_IMSI (session_at c r)) r\<rparr>)"

text \<open>
  When the session does not know its incoming TEID, the table is searched for sessions with its
  IMSI, in the order \<open>Range\<close> visits it; a reserved TEID on the way is a nil dereference.
\<close>

fun remove_by_imsi :: "string \<Rightarrow> (u32 \<times> nat option) list \<Rightarrow> unit op" where
  "remove_by_imsi imsi [] c = (Inr (), c)"
| "remove_by_imsi imsi ((k, None) # rest) c = (Inl (Panic NilDereference), c)"
| "remove_by_imsi imsi ((k, Some r) # rest) c =
     remove_by_imsi imsi rest
       (if s_IMSI (session_at c r) = imsi
        then c\<lparr>c_iteiSessionMap := map_delete (c_iteiSessionMap c) k\<rparr> else c)"

definition RemoveSession :: "u32 list \<Rightarrow> nat \<Rightarrow> unit op" where
  "RemoveSession order r c =
     (let imsi = s_IMSI (session_at c r);
          c = c\<lparr>c_imsiSessionMap := map_delete (c_imsiSessionMap c) imsi\<rparr> in
      case GetTEID (c_localIfType c) (session_at c r) of
        Inl e \<Rightarrow> remove_by_imsi imsi (range_map order (c_iteiSessionMap c)) c
      | Inr itei \<Rightarrow> (Inr (), c\<lparr>c_iteiSessionMap := map_delete (c_iteiSessionMap c) itei\<rparr>))"

definition RemoveSessionByIMSI :: "u32 list \<Rightarrow> string \<Rightarrow> unit op" where
  "RemoveSessionByIMSI order imsi c =
     (case map_load (c_imsiSessionMap c) imsi of
        None \<Rightarrow> (Inr (), c)
      | Some r \<Rightarrow> RemoveSession order r c)"

text \<open>
  \<open>NewSenderFTEID\<close> draws random numbers, at most 65535 of them, until one is neither zero (which
  also stands for a failure of the generator) nor in the table; \<open>rnd\<close> is the sequence of draws,
  \<open>first_free\<close> the loop.
\<close>

definition NewSenderFTEID :: "(nat \<Rightarrow> u32) \<Rightarrow> string \<Rightarrow> string \<Rightarrow> ie option op" where
  "NewSenderFTEID rnd v4 v6 c =
     (case first_free 0xffff 0 rnd (c_iteiSessionMap c) of
        None \<Rightarrow> (Inr None, c)
      | Some teid \<Rightarrow>
          (NewFullyQualifiedTEID (c_localIfType c) teid v4 v6,
           c\<lparr>c_iteiSessionMap := map_store (c_iteiSessionMap c) teid None\<rparr>))"

definition Sessions :: "string list \<Rightarrow> conn \<Rightarrow> nat list" where
  "Sessions order c = map snd (range_map order (c_imsiSessionMap c))"

definition SessionCount :: "string list \<Rightarrow> conn \<Rightarrow> nat" where
  "SessionCount order c = length (filter (\<lambda>r. IsActive (session_at c r)) (Sessions order c))"

definition c_BearerCount :: "string list \<Rightarrow> (nat \<Rightarrow> string list) \<Rightarrow> conn \<Rightarrow> nat" where
  "c_BearerCount order names c =
     sum_list (map (\<lambda>r. s_BearerCount (names r) (session_at c r))
       (filter (\<lambda>r. IsActive (session_at c r)) (Sessions order c)))"

section \<open>Incoming messages\<close>

text \<open>\<open>Header.Version\<close> is the constant 2, for every message.\<close>

definition v2_Version :: "v2_message \<Rightarrow> nat" where
  "v2_Version M = 2"

definition validate :: "env \<Rightarrow> addr \<Rightarrow> v2_message \<Rightarrow> unit op" where
  "validate env senderAddr msg c =
     (if v2_Version msg \<noteq> 2 then
        bind_op (VersionNotSupportedIndication env senderAddr msg)
          (\<lambda>_. fail_op (V2InvalidVersion (v2_Version msg))) c
      else
        let teid = v2_TEID msg in
        if teid \<noteq> 0 then
          (case GetSessionByTEID teid senderAddr c of
             Inl (Panic p) \<Rightarrow> (Inl (Panic p), c)
           | Inl (Error _) \<Rightarrow> (Inl (Error (V2InvalidTEID teid)), c)
           | Inr _ \<Rightarrow> (Inr (), c))
        else (Inr (), c))"

definition handleEchoRequest :: "env \<Rightarrow> addr \<Rightarrow> v2_message \<Rightarrow> unit op" where
  "handleEchoRequest env senderAddr msg c =
     (case msg of
        Msg_EchoRequest _ \<Rightarrow> RespondTo env senderAddr msg (new_EchoResponse c) c
      | _ \<Rightarrow> (Inl (Error V2UnexpectedType), c))"

definition handleEchoResponse :: "env \<Rightarrow> addr \<Rightarrow> v2_message \<Rightarrow> unit op" where
  "handleEchoResponse env senderAddr msg c =
     (case msg of
        Msg_EchoResponse _ \<Rightarrow> (Inr (), c)
      | _ \<Rightarrow> (Inl (Error V2UnexpectedType), c))"

definition handleVersionNotSupportedIndication :: "env \<Rightarrow> addr \<Rightarrow> v2_message \<Rightarrow> unit op" where
  "handleVersionNotSupportedIndication env senderAddr msg c =
     (case msg of
        Msg_VersionNotSupportedIndication _ \<Rightarrow> (Inl (Error (V2InvalidVersion (v2_Version msg))), c)
      | _ \<Rightarrow> (Inl (Error V2UnexpectedType), c))"

fun call_handler :: "env \<Rightarrow> handler \<Rightarrow> addr \<Rightarrow> v2_message \<Rightarrow> unit op" where
  "call_handler env DefaultEchoRequest = handleEchoRequest env"
| "call_handler env DefaultEchoResponse = handleEchoResponse env"
| "call_handler env DefaultVersionNotSupportedIndication = handleVersionNotSupportedIndication env"
| "call_handler env (User n) = env_user env n"

definition handleMessage :: "env \<Rightarrow> addr \<Rightarrow> v2_message \<Rightarrow> unit op" where
  "handleMessage env senderAddr msg =
     bind_op (\<lambda>c. if c_validationEnabled c then validate env senderAddr msg c else (Inr (), c)) (\<lambda>_ c.
       case map_load (c_msgHandlerMap c) (v2_MessageType msg) of
         None \<Rightarrow> (Inl (Error (V2HandlerNotFound (v2_MessageType msg))), c)
       | Some handle \<Rightarrow> call_handler env handle senderAddr msg c)"

text \<open>
  One round of \<open>Serve\<close>: parse the datagram and handle the message. Errors are logged, a panic
  ends the process.
\<close>

definition serve_packet :: "env \<Rightarrow> addr \<Rightarrow> bytes \<Rightarrow> unit op" where
  "serve_packet env raddr raw c =
     (case v2_Parse raw of
        Inl (Panic p) \<Rightarrow> (Inl (Panic p), c)
      | Inl (Error e) \<Rightarrow> (Inr (), c)
      | Inr msg \<Rightarrow>
          (case handleMessage env raddr msg c of
             (Inl (Panic p), c') \<Rightarrow> (Inl (Panic p), c')
           | (_, c') \<Rightarrow> (Inr (), c')))"

end
