(* ===== verification/V2CreateSession.thy ===== *)
theory V2CreateSession
  imports V2Conn
begin

text \<open>
  The requests of a connection about sessions (\<open>ParseCreateSession\<close>, \<open>CreateSession\<close>,
  \<open>DeleteSession\<close>, \<open>ModifyBearer\<close>, \<open>DeleteBearer\<close> and \<open>Dial\<close> of \<open>src/gtpv2/conn.go\<close>).
  \<open>ParseCreateSession\<close> fills a new session from the elements of a request, one after the other;
  an element that cannot be read ends it with an error, after the zero value has been stored. The
  session may be registered by then, it stays registered.
\<close>

section \<open>Filling a session from elements\<close>

text \<open>\<open>x.f, err = get(i)\<close> followed by a return on an error.\<close>

definition assign_op :: "nat \<Rightarrow> ('a \<Rightarrow> session \<Rightarrow> session) \<Rightarrow> 'a \<Rightarrow> 'a result \<Rightarrow> unit op" where
  "assign_op r put zero res c =
     (case res of
        Inr v \<Rightarrow> (Inr (), upd_session r (put v) c)
      | Inl e \<Rightarrow> (Inl e, upd_session r (put zero) c))"

definition upd_subscriber :: "(subscriber \<Rightarrow> subscriber) \<Rightarrow> session \<Rightarrow> session" where
  "upd_subscriber f s = s\<lparr>s_Subscriber := f (s_Subscriber s)\<rparr>"

definition upd_location :: "(location \<Rightarrow> location) \<Rightarrow> session \<Rightarrow> session" where
  "upd_location f = upd_subscriber (\<lambda>u. u\<lparr>sub_Location := f (sub_Location u)\<rparr>)"

definition upd_default :: "(bearer \<Rightarrow> bearer) \<Rightarrow> session \<Rightarrow> session" where
  "upd_default f s = (case GetDefaultBearer s of None \<Rightarrow> s | Some br \<Rightarrow> SetDefaultBearer (f br) s)"

definition upd_qos :: "(qos_profile \<Rightarrow> qos_profile) \<Rightarrow> session \<Rightarrow> session" where
  "upd_qos f = upd_default (\<lambda>br. br\<lparr>br_QoSProfile := f (br_QoSProfile br)\<rparr>)"

definition set_IMSI :: "string \<Rightarrow> session \<Rightarrow> session" where
  "set_IMSI v = upd_subscriber (\<lambda>u. u\<lparr>sub_IMSI := v\<rparr>)"

definition set_MSISDN :: "string \<Rightarrow> session \<Rightarrow> session" where
  "set_MSISDN v = upd_subscriber (\<lambda>u. u\<lparr>sub_MSISDN := v\<rparr>)"

definition set_IMEI :: "string \<Rightarrow> session \<Rightarrow> session" where
  "set_IMEI v = upd_subscriber (\<lambda>u. u\<lparr>sub_IMEI := v\<rparr>)"

text \<open>
  The F-TEID of a bearer context is only added to the session; one at the top level with the
  local interface type also registers the session.
\<close>

definition read_fteid :: "ie \<Rightarrow> (byte \<times> u32) result" where
  "read_fteid i = andThen (ie_InterfaceType i) (\<lambda>it. andThen (ie_TEID i) (\<lambda>teid. Inr (it, teid)))"

definition session_fteid :: "nat \<Rightarrow> ie \<Rightarrow> unit op" where
  "session_fteid r i c =
     (case read_fteid i of
        Inl e \<Rightarrow> (Inl e, c)
      | Inr (it, teid) \<Rightarrow>
          let c = upd_session r (AddTEID it teid) c in
          (Inr (), if it = c_localIfType c then RegisterSession teid r c else c))"

definition bearer_fteid :: "nat \<Rightarrow> ie \<Rightarrow> unit op" where
  "bearer_fteid r child c =
     (case read_fteid child of
        Inl e \<Rightarrow> (Inl e, c)
      | Inr (it, teid) \<Rightarrow> (Inr (), upd_session r (AddTEID it teid) c))"

text \<open>The downlink guaranteed rate is read with the accessor of the uplink one.\<close>

definition bearer_qos :: "nat \<Rightarrow> ie \<Rightarrow> unit op" where
  "bearer_qos r child = run_ops id
     [assign_op r (\<lambda>v. upd_qos (\<lambda>q. q\<lparr>qp_PL := v\<rparr>)) 0 (ie_PriorityLevel child),
      assign_op r (\<lambda>v. upd_qos (\<lambda>q. q\<lparr>qp_QCI := v\<rparr>)) 0 (ie_QCILabel child),
      assign_op r (\<lambda>v. upd_qos (\<lambda>q. q\<lparr>qp_PCI := v\<rparr>)) False (HasPCI child),
      assign_op r (\<lambda>v. upd_qos (\<lambda>q. q\<lparr>qp_PVI := v\<rparr>)) False (HasPVI child),
      assign_op r (\<lambda>v. upd_qos (\<lambda>q. q\<lparr>qp_MBRUL := v\<rparr>)) 0 (ie_MBRForUplink child),
      assign_op r (\<lambda>v. upd_qos (\<lambda>q. q\<lparr>qp_MBRDL := v\<rparr>)) 0 (ie_MBRForDownlink child),
      assign_op r (\<lambda>v. upd_qos (\<lambda>q. q\<lparr>qp_GBRUL := v\<rparr>)) 0 (ie_GBRForUplink child),
      assign_op r (\<lambda>v. upd_qos (\<lambda>q. q\<lparr>qp_GBRDL := v\<rparr>)) 0 (ie_GBRForUplink child)]"

definition create_child :: "nat \<Rightarrow> ie \<Rightarrow> unit op" where
  "create_child r child =
     (if ie_Type child = IE_EPSBearerID then
        assign_op r (\<lambda>v. upd_default (\<lambda>br. br\<lparr>br_EBI := v\<rparr>)) 0 (ie_EPSBearerID child)
      else if ie_Type child = IE_BearerQoS then bearer_qos r child
      else if ie_Type child = IE_FullyQualifiedTEID then bearer_fteid r child
      else ret_op ())"

definition create_ie :: "nat \<Rightarrow> ie \<Rightarrow> unit op" where
  "create_ie r i =
     (if ie_Type i = IE_IMSI then assign_op r set_IMSI [] (ie_IMSI i)
      else if ie_Type i = IE_MSISDN then assign_op r set_MSISDN [] (ie_MSISDN i)
      else if ie_Type i = IE_MobileEquipmentIdentity then
        assign_op r set_IMEI [] (ie_MobileEquipmentIdentity i)
      else if ie_Type i = IE_ServingNetwork then
        bind_op (assign_op r (\<lambda>v. upd_location (\<lambda>l. l\<lparr>loc_MCC := v\<rparr>)) [] (ie_MCC i)) (\<lambda>_.
          assign_op r (\<lambda>v. upd_location (\<lambda>l. l\<lparr>loc_MNC := v\<rparr>)) [] (ie_MNC i))
      else if ie_Type i = IE_AccessPointName then
        assign_op r (\<lambda>v. upd_default (\<lambda>br. br\<lparr>br_APN := v\<rparr>)) [] (ie_AccessPointName i)
      else if ie_Type i = IE_RATType then
        assign_op r (\<lambda>v. upd_location (\<lambda>l. l\<lparr>loc_RATType := v\<rparr>)) 0 (ie_RATType i)
      else if ie_Type i = IE_FullyQualifiedTEID then session_fteid r i
      else if ie_Type i = IE_BearerContext then
        (if Instance i = 0 then run_ops (create_child r) (ie_ChildIEs i) else ret_op ())
      else ret_op ())"

definition new_session :: "addr \<Rightarrow> nat op" where
  "new_session raddr c =
     (Inr (length (c_heap c)), c\<lparr>c_heap := c_heap c @ [NewSession raddr no_subscriber]\<rparr>)"

definition ParseCreateSession :: "addr \<Rightarrow> ie option list \<Rightarrow> nat op" where
  "ParseCreateSession raddr ies =
     bind_op (new_session raddr) (\<lambda>r.
     bind_op (run_ops (create_ie r) (List.map_filter id ies)) (\<lambda>_. ret_op r))"

section \<open>Requests\<close>

definition CreateSession :: "env \<Rightarrow> addr \<Rightarrow> ie option list \<Rightarrow> (nat \<times> u32) op" where
  "CreateSession env raddr ies =
     bind_op (ParseCreateSession raddr ies) (\<lambda>sess.
     bind_op (SendMessageTo env (Msg_CreateSessionRequest (NewCreateSessionRequest 0 0 ies)) raddr) (\<lambda>seq.
       ret_op (sess, seq)))"

definition DeleteSession :: "env \<Rightarrow> u32 \<Rightarrow> nat \<Rightarrow> ie option list \<Rightarrow> u32 op" where
  "DeleteSession env teid sess ies c =
     SendMessageTo env (Msg_DeleteSessionRequest (NewDeleteSessionRequest teid 0 ies))
       (s_peerAddr (session_at c sess)) c"

definition ModifyBearer :: "env \<Rightarrow> u32 \<Rightarrow> nat \<Rightarrow> ie option list \<Rightarrow> u32 op" where
  "ModifyBearer env teid sess ies c =
     SendMessageTo env (Msg_ModifyBearerRequest (NewModifyBearerRequest teid 0 ies))
       (s_peerAddr (session_at c sess)) c"

definition DeleteBearer :: "env \<Rightarrow> u32 \<Rightarrow> nat \<Rightarrow> ie option list \<Rightarrow> u32 op" where
  "DeleteBearer env teid sess ies c =
     SendMessageTo env (Msg_DeleteBearerRequest (NewDeleteBearerRequest teid 0 ies))
       (s_peerAddr (session_at c sess)) c"

text \<open>
  \<open>Dial\<close> sends an Echo Request and has the first datagram that comes back handled; \<open>reply\<close> is that
  datagram and its sender, or nothing when the socket reports an error or the deadline.
\<close>

definition Dial :: "env \<Rightarrow> addr \<Rightarrow> addr \<Rightarrow> byte \<Rightarrow> byte \<Rightarrow> (bytes \<times> addr) option \<Rightarrow> unit result \<times> conn" where
  "Dial env laddr raddr localIfType counter reply =
     bind_op (EchoRequest env raddr) (\<lambda>_ c.
       case reply of
         None \<Rightarrow> (Inl (Error NetError), c)
       | Some (buf, from) \<Rightarrow>
           (case v2_Parse buf of
              Inl e \<Rightarrow> (Inl e, c)
            | Inr msg \<Rightarrow> handleMessage env from msg c))
       (NewConn laddr localIfType counter)"

end
