(* ===== verification/V2ConnTable.thy ===== *)
theory V2ConnTable
  imports V2CreateSession
begin

text \<open>
  What the tables of a connection promise. \<open>session_table\<close> is the abstract view: the session found
  for a TEID and a peer. Registering and removing a session act on it as the insertion and the
  deletion of a row, and \<open>NewSenderFTEID\<close> returns a TEID that no row has.
\<close>

section \<open>The abstract table\<close>

definition session_table :: "conn \<Rightarrow> u32 \<Rightarrow> addr \<Rightarrow> nat option" where
  "session_table c teid peer = (case GetSessionByTEID teid peer c of Inr r \<Rightarrow> Some r | Inl _ \<Rightarrow> None)"

definition insert_row :: "u32 \<Rightarrow> addr \<Rightarrow> nat \<Rightarrow> (u32 \<Rightarrow> addr \<Rightarrow> nat option) \<Rightarrow> u32 \<Rightarrow> addr \<Rightarrow> nat option" where
  "insert_row teid peer r T = T(teid := (\<lambda>p. if p = peer then Some r else None))"

definition delete_row :: "u32 \<Rightarrow> (u32 \<Rightarrow> addr \<Rightarrow> nat option) \<Rightarrow> u32 \<Rightarrow> addr \<Rightarrow> nat option" where
  "delete_row teid T = T(teid := (\<lambda>_. None))"

lemma map_ops [simp]:
  "map_load m k = m k" "map_store m k v = m(k \<mapsto> v)" "map_delete m k = m(k := None)"
  by (simp_all add: map_load_def map_store_def map_delete_def)

lemma upd_session_sel [simp]:
  "c_iteiSessionMap (upd_session r f c) = c_iteiSessionMap c"
  "c_imsiSessionMap (upd_session r f c) = c_imsiSessionMap c"
  "c_localIfType (upd_session r f c) = c_localIfType c"
  "c_sequence (upd_session r f c) = c_sequence c"
  "c_msgHandlerMap (upd_session r f c) = c_msgHandlerMap c"
  "length (c_heap (upd_session r f c)) = length (c_heap c)"
  by (simp_all add: upd_session_def)

lemma session_at_upd:
  "r < length (c_heap c) \<Longrightarrow> session_at (upd_session r f c) r' = (if r' = r then f (session_at c r) else session_at c r')"
  by (simp add: upd_session_def)

lemma AddTEID_sel [simp]:
  "s_peerAddrString (AddTEID t v s) = s_peerAddrString s" "s_Subscriber (AddTEID t v s) = s_Subscriber s"
  "s_bearerMap (AddTEID t v s) = s_bearerMap s" "s_teidMap (AddTEID t v s) = (s_teidMap s)(t \<mapsto> v)"
  "s_peerAddr (AddTEID t v s) = s_peerAddr s"
  by (simp_all add: AddTEID_def)

lemma Register_sel [simp]:
  "c_localIfType (RegisterSession itei r c) = c_localIfType c"
  "c_iteiSessionMap (RegisterSession itei r c) = (c_iteiSessionMap c)(itei \<mapsto> Some r)"
  "c_imsiSessionMap (RegisterSession itei r c) = (c_imsiSessionMap c)(s_IMSI (session_at c r) \<mapsto> r)"
  "length (c_heap (RegisterSession itei r c)) = length (c_heap c)"
  "c_sequence (RegisterSession itei r c) = c_sequence c"
  by (simp_all add: RegisterSession_def)

lemma session_at_Register:
  "r < length (c_heap c) \<Longrightarrow> session_at (RegisterSession itei r c) r' =
     (if r' = r then AddTEID (c_localIfType c) itei (session_at c r) else session_at c r')"
  by (simp add: RegisterSession_def session_at_upd)

lemma session_table_alt:
  "session_table c teid peer =
     (case c_iteiSessionMap c teid of
        Some (Some r) \<Rightarrow> if peer = s_peerAddrString (session_at c r) then Some r else None
      | _ \<Rightarrow> None)"
  by (simp add: session_table_def GetSessionByTEID_def split: option.splits)

lemma remove_known:
  assumes "GetTEID (c_localIfType c) (session_at c r) = Inr itei"
  shows "RemoveSession order r c =
    (Inr (), c\<lparr>c_imsiSessionMap := (c_imsiSessionMap c)(s_IMSI (session_at c r) := None),
               c_iteiSessionMap := (c_iteiSessionMap c)(itei := None)\<rparr>)"
  using assms by (simp add: RemoveSession_def Let_def)

section \<open>Properties\<close>

text \<open>
  C10. The tables implement an abstract table from TEID and peer to session: registering a session
  replaces the row of its incoming TEID, for the session's peer only, leaves every other row as
  it was, and makes the session known under its IMSI; removing it afterwards deletes exactly that
  row and that IMSI.
\<close>

theorem register_remove_refine:
  fixes itei :: u32
  assumes "r < length (c_heap c)"
  defines "c1 \<equiv> RegisterSession itei r c"
  shows "session_table c1 = insert_row itei (s_peerAddrString (session_at c r)) r (session_table c) \<and>
     GetSessionByIMSI (s_IMSI (session_at c r)) c1 = Inr r \<and>
     GetTEID (c_localIfType c) (session_at c1 r) = Inr itei \<and>
     (\<exists>c2. RemoveSession order r c1 = (Inr (), c2) \<and>
        session_table c2 = delete_row itei (session_table c) \<and>
        c_imsiSessionMap c2 = (c_imsiSessionMap c)(s_IMSI (session_at c r) := None))"
proof -
  have at: "session_at c1 r' = (if r' = r then AddTEID (c_localIfType c) itei (session_at c r) else session_at c r')" for r'
    using assms(1) by (simp add: c1_def session_at_Register)
  then have peer: "s_peerAddrString (session_at c1 r') = s_peerAddrString (session_at c r')" for r' by simp
  have itei: "c_iteiSessionMap c1 = (c_iteiSessionMap c)(itei \<mapsto> Some r)" by (simp add: c1_def)
  have tab: "session_table c1 = insert_row itei (s_peerAddrString (session_at c r)) r (session_table c)"
    by (intro ext) (simp add: session_table_alt insert_row_def itei peer split: option.splits)
  have teid: "GetTEID (c_localIfType c) (session_at c1 r) = Inr itei"
    by (simp add: at GetTEID_def)
  then have teid1: "GetTEID (c_localIfType c1) (session_at c1 r) = Inr itei" by (simp add: c1_def)
  have imsi: "GetSessionByIMSI (s_IMSI (session_at c r)) c1 = Inr r"
    by (simp add: c1_def GetSessionByIMSI_def)
  obtain c2 where rm: "RemoveSession order r c1 = (Inr (), c2)"
    and c2: "c2 = c1\<lparr>c_imsiSessionMap := (c_imsiSessionMap c1)(s_IMSI (session_at c1 r) := None),
                     c_iteiSessionMap := (c_iteiSessionMap c1)(itei := None)\<rparr>"
    using remove_known [OF teid1] by blast
  have heap: "c_heap c2 = c_heap c1" and itei2: "c_iteiSessionMap c2 = (c_iteiSessionMap c)(itei := None)"
    by (simp_all add: c2 itei)
  have "session_table c2 = delete_row itei (session_table c)"
    by (intro ext) (simp add: session_table_alt delete_row_def heap peer itei2 split: option.splits)
  moreover have "c_imsiSessionMap c2 = (c_imsiSessionMap c)(s_IMSI (session_at c r) := None)"
    by (simp add: c2 at) (simp add: c1_def)
  ultimately show ?thesis using tab teid imsi rm by blast
qed

definition sample_conn :: conn where
  "sample_conn = snd (new_session ''10.0.0.1:2123'' (NewConn ''10.0.0.2:2123'' 11 3))"

lemma sample_conn_heap: "c_heap sample_conn = [NewSession ''10.0.0.1:2123'' no_subscriber]"
  by (simp add: sample_conn_def new_session_def NewConn_def)

theorem register_remove_refine_witness:
  "session_table (RegisterSession 7 0 sample_conn) 7 ''10.0.0.1:2123'' = Some 0 \<and>
   session_table (RegisterSession 7 0 sample_conn) 7 ''10.0.0.9:2123'' = None \<and>
   (\<exists>c2. RemoveSession [7] 0 (RegisterSession 7 0 sample_conn) = (Inr (), c2) \<and>
      session_table c2 7 ''10.0.0.1:2123'' = None)"
proof -
  have "0 < length (c_heap sample_conn)" by (simp add: sample_conn_heap)
  from register_remove_refine [OF this, of 7 "[7]"] show ?thesis
    by (auto simp: insert_row_def delete_row_def sample_conn_heap NewSession_def)
qed

text \<open>
  C21. \<open>NewSenderFTEID\<close>: with at most 65535 draws it either returns an F-TEID whose TEID is the
  first draw that is neither zero nor in the table, and reserves it there so that the next call
  returns another one, or every draw was zero or taken, it returns nil and changes nothing.
\<close>

theorem NewSenderFTEID_unique:
  "(\<exists>i teid k. NewSenderFTEID rnd v4 v6 c =
        (Inr (Some i), c\<lparr>c_iteiSessionMap := (c_iteiSessionMap c)(teid \<mapsto> None)\<rparr>) \<and>
      ie_TEID i = Inr teid \<and> teid = rnd k \<and> k < 65535 \<and> teid \<noteq> 0 \<and> c_iteiSessionMap c teid = None) \<or>
   (NewSenderFTEID rnd v4 v6 c = (Inr None, c) \<and>
      rnd ` {..<65535} \<subseteq> insert 0 (dom (c_iteiSessionMap c)))"
proof (cases "first_free 65535 0 rnd (c_iteiSessionMap c)")
  case None
  then show ?thesis
    using first_free_cases(2) [OF None] by (auto simp: NewSenderFTEID_def dom_def)
next
  case (Some t)
  let ?w = "fteid_wire (c_localIfType c) t (To4 (ParseIP v4)) (To16 (ParseIP v6))"
  have i: "NewFullyQualifiedTEID (c_localIfType c) t v4 v6 = Inr (Some (ie_New IE_FullyQualifiedTEID 0 ?w))"
    by (simp add: NewFullyQualifiedTEID_def fteid_Marshal_wire)
  have "length ?w \<ge> 5" "get32 ?w 1 = Inr t" by (simp_all add: fteid_wire_def get32_def be32_def)
  then have "ie_TEID (ie_New IE_FullyQualifiedTEID 0 ?w) = Inr t"
    by (simp add: ie_TEID_def key_in_def Let_def)
  moreover have "NewSenderFTEID rnd v4 v6 c =
      (Inr (Some (ie_New IE_FullyQualifiedTEID 0 ?w)), c\<lparr>c_iteiSessionMap := (c_iteiSessionMap c)(t \<mapsto> None)\<rparr>)"
    by (simp add: NewSenderFTEID_def Some i)
  ultimately show ?thesis using first_free_cases(1) [OF Some] by fastforce
qed

end
