(* ===== verification/V2ConnDispatch.thy ===== *)
theory V2ConnDispatch
  imports V2ConnTable
begin

text \<open>
  Sending and receiving on a connection: sequence numbers of consecutive requests, the answer to
  an Echo Request, what the validation lets through, exactly when a datagram ends the process,
  and the invariant of the states a connection can reach.
\<close>

section \<open>Messages with another sequence number\<close>

lemma v2_msg_header_map [simp]: "v2_msg_header (v2_map_header M f) = f (v2_msg_header M)"
  by (cases M) simp_all

lemma typed_ok_header:
  "typed_msg_ok D order t m \<Longrightarrow> h_Flags h = h_Flags (m_Header m) \<Longrightarrow> h_TEID h = h_TEID (m_Header m) \<Longrightarrow>
     h_Type h = h_Type (m_Header m) \<Longrightarrow> h_SequenceNumber h < 0x1000000 \<Longrightarrow>
     typed_msg_ok D order t (m\<lparr>m_Header := h\<rparr>)"
  by (simp add: typed_msg_ok_def sendable_def msg_MarshalLen_base HasTEID_def)

lemma generic_ok_header:
  "generic_ok g \<Longrightarrow> h_Flags h = h_Flags (g_Header g) \<Longrightarrow> h_TEID h = h_TEID (g_Header g) \<Longrightarrow>
     h_Type h = h_Type (g_Header g) \<Longrightarrow> h_SequenceNumber h < 0x1000000 \<Longrightarrow>
     generic_ok (g\<lparr>g_Header := h\<rparr>)"
  by (simp add: generic_ok_def generic_msg_def sendable_def msg_MarshalLen_base HasTEID_def
      msg_ok_def present_def)

lemma v2_message_ok_seq:
  "v2_message_ok M \<Longrightarrow> seq < 0x1000000 \<Longrightarrow> v2_message_ok (v2_SetSequenceNumber seq M)"
  by (cases M)
     (simp_all add: v2_SetSequenceNumber_def SetSequenceNumber_def typed_ok_header generic_ok_header)

lemma v2_MarshalLen_map_header:
  "h_Flags (f (v2_msg_header M)) = h_Flags (v2_msg_header M) \<Longrightarrow>
     v2_MarshalLen (v2_map_header M f) = v2_MarshalLen M"
  by (cases M)
     (simp_all add: v2_MarshalLen_defs msg_MarshalLen_base HasTEID_def g_MarshalLen_eq generic_msg_def
      present_def)

lemma v2_MarshalLen_seq [simp]: "v2_MarshalLen (v2_SetSequenceNumber seq M) = v2_MarshalLen M"
  by (simp add: v2_SetSequenceNumber_def SetSequenceNumber_def v2_MarshalLen_map_header)

lemma v2_Sequence_seq [simp]: "v2_Sequence (v2_SetSequenceNumber seq M) = seq"
  by (simp add: v2_SetSequenceNumber_def v2_Sequence_def SetSequenceNumber_def Sequence_def)

text \<open>What \<open>Marshal\<close> leaves of the header, and what a round trip leaves of it.\<close>

lemma msg_Marshal_header:
  "msg_Marshal order lens m = Inr (w, m') \<Longrightarrow>
     h_Type (m_Header m') = h_Type (m_Header m) \<and> h_Flags (m_Header m') = h_Flags (m_Header m) \<and>
     h_TEID (m_Header m') = h_TEID (m_Header m) \<and>
     h_SequenceNumber (m_Header m') = h_SequenceNumber (m_Header m)"
  by (auto simp: msg_Marshal_def msg_MarshalTo_def Let_def andThen_eq_Inr)

lemma v2_Marshal_header:
  "v2_Marshal M = Inr (w, M') \<Longrightarrow>
     h_Type (v2_msg_header M') = h_Type (v2_msg_header M) \<and>
     h_Flags (v2_msg_header M') = h_Flags (v2_msg_header M) \<and>
     h_TEID (v2_msg_header M') = h_TEID (v2_msg_header M) \<and>
     h_SequenceNumber (v2_msg_header M') = h_SequenceNumber (v2_msg_header M)"
  by (cases M)
     (auto simp: v2_Marshal_simps lift_message_Inr v2_Marshal_eqs g_Marshal_def g_MarshalTo_def
      msg_Marshal_over_def msg_MarshalTo_over_def Let_def andThen_eq_Inr dest: msg_Marshal_header)

lemma v2_parsed_header: "v2_msg_header (v2_parsed M) = v2_msg_header M"
  by (cases M) (simp_all add: v2_parsed_def generic_parsed_def)

lemma v2_overlaps_seq [simp]: "v2_overlaps (v2_SetSequenceNumber seq M) = v2_overlaps M"
  by (cases M) (simp_all add: v2_overlaps_def v2_SetSequenceNumber_def msg_overlaps_def)

lemma v2_map_header_map: "v2_map_header (v2_map_header M f) g = v2_map_header M (\<lambda>h. g (f h))"
  by (cases M) simp_all

lemma v2_parsed_map: "v2_parsed (v2_map_header M f) = v2_map_header (v2_parsed M) f"
  by (cases M) (simp_all add: v2_parsed_def generic_parsed_def)

section \<open>Sending\<close>

lemma IncSequence_next:
  "IncSequence c = (if c_sequence c + 1 > 0xffffff then 0 else c_sequence c + 1,
                    c\<lparr>c_sequence := if c_sequence c + 1 > 0xffffff then 0 else c_sequence c + 1\<rparr>)"
  by (simp add: IncSequence_def Let_def)

definition next_sequence :: "u32 \<Rightarrow> u32" where
  "next_sequence s = (if s + 1 > 0xffffff then 0 else s + 1)"

lemma next_sequence_bound: "next_sequence s \<le> 0xffffff"
  by (simp add: next_sequence_def not_less)

lemma next_sequence_small: "s < 0xffffff \<Longrightarrow> next_sequence s = s + 1"
proof -
  assume "s < 0xffffff"
  then have "unat s < 0xffffff" by (simp add: word_less_nat_alt)
  then have "unat (s + 1) \<le> 0xffffff" by (simp add: unat_word_ariths)
  then show ?thesis by (simp add: next_sequence_def word_less_nat_alt)
qed

lemma mod_shift_inj: "(a + i) mod m = (a + j) mod m \<Longrightarrow> i < m \<Longrightarrow> j < m \<Longrightarrow> i = (j :: nat)"
proof (induction i j rule: linorder_wlog)
  case (le i j)
  then have "m dvd (a + j) - (a + i)" by (metis add_le_cancel_left mod_eq_dvd_iff_nat)
  then have "m dvd j - i" by simp
  moreover have "j - i < m" using le by simp
  ultimately show ?case using le by (auto dest: dvd_imp_le)
qed simp

lemma next_sequence_unat:
  assumes "s \<le> 0xffffff"
  shows "unat (next_sequence s) = (unat s + 1) mod 0x1000000"
proof (cases "s = 0xffffff")
  case False
  then have "s < 0xffffff" using assms by simp
  then have "unat s < 0xffffff" by (simp add: word_less_nat_alt)
  then have "unat (s + 1) = unat s + 1" by (simp add: unat_word_ariths)
  with \<open>unat s < 0xffffff\<close> show ?thesis
    by (simp add: next_sequence_def word_less_nat_alt)
qed (simp add: next_sequence_def)

lemma SendMessageTo_cases:
  obtains w M' where
    "v2_Marshal (v2_SetSequenceNumber (next_sequence (c_sequence c)) M) = Inr (w, M')"
    "length w = v2_MarshalLen M"
    "SendMessageTo env M a c =
      (if env_write env (c_writes c)
       then (Inr (next_sequence (c_sequence c)),
             c\<lparr>c_sequence := next_sequence (c_sequence c), c_writes := c_writes c + 1,
               c_sent := c_sent c @ [(w, a)]\<rparr>)
       else (Inl (Error NetError),
             c\<lparr>c_sequence := next_sequence (c_sequence c) - 1, c_writes := c_writes c + 1\<rparr>))"
proof -
  obtain w M' where w: "v2_Marshal (v2_SetSequenceNumber (next_sequence (c_sequence c)) M) = Inr (w, M')"
    "length w = v2_MarshalLen M"
    using v2_Marshal_total [of "v2_SetSequenceNumber (next_sequence (c_sequence c)) M"] by auto
  show thesis
    by (rule that [OF w])
       (simp add: SendMessageTo_def IncSequence_next next_sequence_def [symmetric] w(1) WriteTo_def
        DecSequence_def Let_def)
qed

text \<open>What the peer reads when the message is well-formed and written in full.\<close>

lemma SendMessageTo_read:
  assumes "v2_message_ok M" "\<not> v2_overlaps M" "12 \<le> v2_MarshalLen M"
  obtains w M' where
    "SendMessageTo env M a c =
      (if env_write env (c_writes c)
       then (Inr (next_sequence (c_sequence c)),
             c\<lparr>c_sequence := next_sequence (c_sequence c), c_writes := c_writes c + 1,
               c_sent := c_sent c @ [(w, a)]\<rparr>)
       else (Inl (Error NetError),
             c\<lparr>c_sequence := next_sequence (c_sequence c) - 1, c_writes := c_writes c + 1\<rparr>))"
    "v2_Parse w = Inr M'" "v2_Sequence M' = next_sequence (c_sequence c)"
    "v2_MessageType M' = v2_MessageType M" "v2_TEID M' = v2_TEID M"
    "\<exists>h. M' = v2_map_header (v2_parsed M) (\<lambda>_. h)"
proof -
  let ?seq = "next_sequence (c_sequence c)"
  have seq: "?seq < 0x1000000"
    using next_sequence_bound [of "c_sequence c"] by (simp add: word_le_nat_alt word_less_nat_alt)
  obtain w N where w: "v2_Marshal (v2_SetSequenceNumber ?seq M) = Inr (w, N)" "length w = v2_MarshalLen M"
    and send: "SendMessageTo env M a c =
      (if env_write env (c_writes c)
       then (Inr ?seq, c\<lparr>c_sequence := ?seq, c_writes := c_writes c + 1, c_sent := c_sent c @ [(w, a)]\<rparr>)
       else (Inl (Error NetError), c\<lparr>c_sequence := ?seq - 1, c_writes := c_writes c + 1\<rparr>))"
    by (rule SendMessageTo_cases)
  have parse: "v2_Parse w = Inr (v2_parsed N)"
    using v2_Parse_Marshal [OF v2_message_ok_seq [OF assms(1) seq] _ w(1), of "[]"] assms(2,3) w(2) by simp
  obtain h where "N = v2_map_header (v2_SetSequenceNumber ?seq M) (\<lambda>_. h)"
    using v2_Marshal_map_header [OF w(1)] by blast
  then have same: "\<exists>h. v2_parsed N = v2_map_header (v2_parsed M) (\<lambda>_. h)"
    by (auto simp: v2_SetSequenceNumber_def v2_map_header_map v2_parsed_map)
  show thesis
    by (rule that [OF send parse _ _ _ same])
       (use v2_Marshal_header [OF w(1)] in \<open>simp_all add: v2_parsed_header v2_Sequence_def Sequence_def
         v2_MessageType_def h_MessageType_def v2_TEID_def h_teid_def HasTEID_def
         v2_SetSequenceNumber_def SetSequenceNumber_def\<close>)
qed

lemma RespondTo_cases:
  obtains w M' where
    "v2_Marshal (v2_SetSequenceNumber (v2_Sequence req) M) = Inr (w, M')"
    "length w = v2_MarshalLen M"
    "RespondTo env a req M c =
      (if env_write env (c_writes c)
       then (Inr (), c\<lparr>c_writes := c_writes c + 1, c_sent := c_sent c @ [(w, a)]\<rparr>)
       else (Inl (Error NetError), c\<lparr>c_writes := c_writes c + 1\<rparr>))"
proof -
  obtain w M' where w: "v2_Marshal (v2_SetSequenceNumber (v2_Sequence req) M) = Inr (w, M')"
    "length w = v2_MarshalLen M"
    using v2_Marshal_total [of "v2_SetSequenceNumber (v2_Sequence req) M"] by auto
  show thesis
    by (rule that [OF w]) (use w(1) in \<open>simp add: RespondTo_def WriteTo_def v2_Marshal_def Let_def\<close>)
qed

text \<open>A sequence of requests, as a client sends them one after the other.\<close>

fun send_all :: "env \<Rightarrow> (v2_message \<times> addr) list \<Rightarrow> u32 list op" where
  "send_all env [] = ret_op []"
| "send_all env ((M, a) # reqs) =
     bind_op (SendMessageTo env M a) (\<lambda>seq.
     bind_op (send_all env reqs) (\<lambda>seqs. ret_op (seq # seqs)))"

text \<open>The number the peer reads in a datagram.\<close>

definition read_sequence :: "bytes \<Rightarrow> u32 option" where
  "read_sequence w = (case v2_Parse w of Inr M \<Rightarrow> Some (v2_Sequence M) | Inl _ \<Rightarrow> None)"

definition deliverable :: "v2_message \<Rightarrow> bool" where
  "deliverable M \<longleftrightarrow> v2_message_ok M \<and> \<not> v2_overlaps M \<and> 12 \<le> v2_MarshalLen M"

lemma send_all_sequences:
  assumes "\<And>n. env_write env n"
  shows "c_sequence c \<le> 0xffffff \<Longrightarrow> \<forall>(M, a) \<in> set reqs. deliverable M \<Longrightarrow>
     \<exists>seqs sent c'. send_all env reqs c = (Inr seqs, c') \<and> c_sent c' = c_sent c @ sent \<and>
       map snd sent = map snd reqs \<and> map (read_sequence \<circ> fst) sent = map Some seqs \<and>
       map unat seqs = map (\<lambda>k. (unat (c_sequence c) + 1 + k) mod 0x1000000) [0..<length reqs]"
proof (induction reqs arbitrary: c)
  case Nil
  then show ?case by (simp add: ret_op_def)
next
  case (Cons req reqs)
  obtain M a where req: "req = (M, a)" by (cases req)
  let ?seq = "next_sequence (c_sequence c)"
  have "v2_message_ok M" "\<not> v2_overlaps M" "12 \<le> v2_MarshalLen M"
    using Cons.prems(2) by (simp_all add: req deliverable_def)
  then obtain w M' where send: "SendMessageTo env M a c =
      (Inr ?seq, c\<lparr>c_sequence := ?seq, c_writes := c_writes c + 1, c_sent := c_sent c @ [(w, a)]\<rparr>)"
    and "v2_Parse w = Inr M'" "v2_Sequence M' = ?seq"
    using SendMessageTo_read [of M env a c] assms by metis
  then have read: "read_sequence w = Some ?seq" by (simp add: read_sequence_def)
  let ?c = "c\<lparr>c_sequence := ?seq, c_writes := c_writes c + 1, c_sent := c_sent c @ [(w, a)]\<rparr>"
  have "\<forall>(M, a) \<in> set reqs. deliverable M" "c_sequence ?c \<le> 0xffffff"
    using Cons.prems(2) next_sequence_bound by simp_all
  then obtain seqs sent c' where IH: "send_all env reqs ?c = (Inr seqs, c')"
    "c_sent c' = c_sent ?c @ sent" "map snd sent = map snd reqs"
    "map (read_sequence \<circ> fst) sent = map Some seqs"
    "map unat seqs = map (\<lambda>k. (unat (c_sequence ?c) + 1 + k) mod 0x1000000) [0..<length reqs]"
    using Cons.IH [of ?c] by blast
  have "(unat ?seq + 1 + k) mod 0x1000000 = (unat (c_sequence c) + 1 + Suc k) mod 0x1000000" for k
    unfolding next_sequence_unat [OF Cons.prems(1)] add.assoc mod_add_left_eq by simp
  then have "map unat seqs = map (\<lambda>k. (unat (c_sequence c) + 1 + Suc k) mod 0x1000000) [0..<length reqs]"
    using IH(5) by simp
  then have "map unat (?seq # seqs) =
      map (\<lambda>k. (unat (c_sequence c) + 1 + k) mod 0x1000000) [0..<length (req # reqs)]"
    using next_sequence_unat [OF Cons.prems(1)]
    by (simp add: upt_conv_Cons map_Suc_upt [symmetric] comp_def del: upt_Suc)
  moreover have "send_all env (req # reqs) c = (Inr (?seq # seqs), c')"
    by (simp only: req send_all.simps bind_op_def send IH(1) prod.case sum.case ret_op_def)
  moreover have "c_sent c' = c_sent c @ ((w, a) # sent)" "map snd ((w, a) # sent) = map snd (req # reqs)"
    "map (read_sequence \<circ> fst) ((w, a) # sent) = map Some (?seq # seqs)"
    using IH(2-4) read by (simp_all add: req)
  ultimately show ?case by blast
qed

section \<open>Receiving\<close>

lemma call_default_no_panic:
  assumes "\<And>n a M c. no_panic (fst (env_user env n a M c))"
  shows "no_panic (fst (call_handler env h a M c))"
proof (cases h)
  case DefaultEchoRequest
  obtain m c' where "RespondTo env a M (new_EchoResponse c) c = (m, c')" "no_panic m"
    by (rule RespondTo_cases [of M "new_EchoResponse c" env a c]) (auto split: if_splits)
  then show ?thesis
    by (auto simp: DefaultEchoRequest handleEchoRequest_def split: v2_message.split)
next
  case DefaultEchoResponse
  then show ?thesis by (simp add: handleEchoResponse_def split: v2_message.split)
next
  case DefaultVersionNotSupportedIndication
  then show ?thesis by (simp add: handleVersionNotSupportedIndication_def split: v2_message.split)
qed (simp add: assms)

lemma validate_simps:
  "v2_TEID M = 0 \<Longrightarrow> validate env a M c = (Inr (), c)"
  "v2_TEID M \<noteq> 0 \<Longrightarrow> validate env a M c =
     (case GetSessionByTEID (v2_TEID M) a c of
        Inl (Panic p) \<Rightarrow> (Inl (Panic p), c)
      | Inl (Error _) \<Rightarrow> (Inl (Error (V2InvalidTEID (v2_TEID M))), c)
      | Inr _ \<Rightarrow> (Inr (), c))"
  by (simp_all add: validate_def v2_Version_def Let_def)

lemma handleMessage_eq:
  "handleMessage env a M c =
     (case (if c_validationEnabled c then validate env a M c else (Inr (), c)) of
        (Inl e, c') \<Rightarrow> (Inl e, c')
      | (Inr _, c') \<Rightarrow>
          (case c_msgHandlerMap c' (v2_MessageType M) of
             None \<Rightarrow> (Inl (Error (V2HandlerNotFound (v2_MessageType M))), c')
           | Some handle \<Rightarrow> call_handler env handle a M c'))"
  by (simp add: handleMessage_def bind_op_def split: prod.split sum.split)

definition reserved :: "u32 \<Rightarrow> conn \<Rightarrow> bool" where
  "reserved teid c \<longleftrightarrow> c_iteiSessionMap c teid = Some None"

lemma validate_cases:
  "validate env a M c =
    (if v2_TEID M = 0 then (Inr (), c)
     else if reserved (v2_TEID M) c then (Inl (Panic NilDereference), c)
     else if session_table c (v2_TEID M) a = None then (Inl (Error (V2InvalidTEID (v2_TEID M))), c)
     else (Inr (), c))"
  by (auto simp: validate_simps reserved_def session_table_def GetSessionByTEID_def split: option.splits)

lemma handleMessage_no_panic:
  assumes "\<And>n a M c. no_panic (fst (env_user env n a M c))"
  shows "no_panic (fst (handleMessage env a M c)) \<longleftrightarrow>
    \<not> (c_validationEnabled c \<and> v2_TEID M \<noteq> 0 \<and> reserved (v2_TEID M) c)"
  by (auto simp: handleMessage_eq validate_cases call_default_no_panic [OF assms] split: option.splits)

section \<open>Properties\<close>

text \<open>
  C12. Consecutive requests of a connection carry distinct sequence numbers: as long as every write
  succeeds, one datagram is sent per request, to its address and in order; the number the peer
  reads in each of them is the one that was returned for it, and no two are equal, up to 2^24
  requests in a row, wherever the counter stands and across its wrap at 24 bits.
\<close>

theorem requests_distinct:
  assumes "\<And>n. env_write env n" "c_sequence c \<le> 0xffffff" "length reqs \<le> 0x1000000"
    and "\<forall>(M, a) \<in> set reqs. deliverable M"
  shows "\<exists>seqs sent c'. send_all env reqs c = (Inr seqs, c') \<and> c_sent c' = c_sent c @ sent \<and>
     map snd sent = map snd reqs \<and> map (read_sequence \<circ> fst) sent = map Some seqs \<and> distinct seqs"
proof -
  obtain seqs sent c' where s: "send_all env reqs c = (Inr seqs, c')" "c_sent c' = c_sent c @ sent"
    "map snd sent = map snd reqs" "map (read_sequence \<circ> fst) sent = map Some seqs"
    "map unat seqs = map (\<lambda>k. (unat (c_sequence c) + 1 + k) mod 0x1000000) [0..<length reqs]"
    using send_all_sequences [OF assms(1,2,4)] by blast
  have inj: "inj_on (\<lambda>k. (unat (c_sequence c) + 1 + k) mod 0x1000000) {0..<length reqs}"
    by (intro inj_onI, rule mod_shift_inj [where a = "unat (c_sequence c) + 1" and m = "0x1000000"])
       (use assms(3) in auto)
  have "distinct (map unat seqs)" unfolding s(5) using inj by (simp add: distinct_map)
  then have "distinct seqs" by (simp add: distinct_map)
  with s(1-4) show ?thesis by blast
qed

definition sample_env :: env where
  "sample_env = \<lparr>env_write = (\<lambda>_. True), env_user = (\<lambda>_ _ _. ret_op ())\<rparr>"

lemma sample_echo_deliverable: "deliverable sample_echo"
  by (simp add: deliverable_def sample_echo_ok sample_echo_full)

theorem requests_distinct_witness:
  "\<exists>seqs sent c'. send_all sample_env [(sample_echo, ''a''), (sample_echo, ''b'')]
       (sample_conn\<lparr>c_sequence := 0xffffff\<rparr>) = (Inr seqs, c') \<and> c_sent c' = sent \<and>
     map snd sent = [''a'', ''b''] \<and> map (read_sequence \<circ> fst) sent = map Some seqs \<and> distinct seqs"
proof -
  let ?reqs = "[(sample_echo, ''a''), (sample_echo, ''b'')]"
  let ?c = "sample_conn\<lparr>c_sequence := 0xffffff\<rparr>"
  have "\<And>n. env_write sample_env n" "c_sequence ?c \<le> 0xffffff" "length ?reqs \<le> 0x1000000"
    "\<forall>(M, a) \<in> set ?reqs. deliverable M" "c_sent ?c = []"
    by (simp_all add: sample_env_def sample_echo_deliverable sample_conn_def new_session_def NewConn_def)
  then show ?thesis using requests_distinct [of sample_env ?c ?reqs] by auto
qed

text \<open>
  C14. One request: it is sent with the next sequence number, which is returned and kept, and the
  peer that parses the datagram gets the message with that number (all its elements, and its type
  and TEID). When the write fails nothing is sent and the counter goes back to where it was, except
  that it goes to 0xffffffff after a failure at the wrap. The message is one that is written in
  full: not a Create Session Request with both a Private Extension and additional elements.
\<close>

theorem SendMessageTo_delivers:
  assumes "v2_message_ok M" "\<not> v2_overlaps M" "12 \<le> v2_MarshalLen M" "c_sequence c \<le> 0xffffff"
  shows "case SendMessageTo env M a c of
     (Inr seq, c') \<Rightarrow> seq = next_sequence (c_sequence c) \<and> c_sequence c' = seq \<and>
        (\<exists>w M'. c_sent c' = c_sent c @ [(w, a)] \<and> v2_Parse w = Inr M' \<and>
           v2_Sequence M' = seq \<and> v2_MessageType M' = v2_MessageType M \<and> v2_TEID M' = v2_TEID M \<and>
           (\<exists>h. M' = v2_map_header (v2_parsed M) (\<lambda>_. h)))
   | (Inl e, c') \<Rightarrow> e = Error NetError \<and> c_sent c' = c_sent c \<and>
        c_sequence c' = (if c_sequence c = 0xffffff then 0xffffffff else c_sequence c)"
proof -
  let ?seq = "next_sequence (c_sequence c)"
  have undone: "?seq - 1 = (if c_sequence c = 0xffffff then 0xffffffff else c_sequence c)"
  proof (cases "c_sequence c = 0xffffff")
    case False
    with assms(4) show ?thesis by (simp add: next_sequence_small)
  qed (simp add: next_sequence_def)
  obtain w M' where "SendMessageTo env M a c =
      (if env_write env (c_writes c)
       then (Inr ?seq, c\<lparr>c_sequence := ?seq, c_writes := c_writes c + 1, c_sent := c_sent c @ [(w, a)]\<rparr>)
       else (Inl (Error NetError), c\<lparr>c_sequence := ?seq - 1, c_writes := c_writes c + 1\<rparr>))"
    "v2_Parse w = Inr M'" "v2_Sequence M' = ?seq" "v2_MessageType M' = v2_MessageType M" "v2_TEID M' = v2_TEID M"
    "\<exists>h. M' = v2_map_header (v2_parsed M) (\<lambda>_. h)"
    by (rule SendMessageTo_read [OF assms(1-3), of env a c])
  then show ?thesis by (auto simp: undone)
qed

theorem SendMessageTo_delivers_witness:
  "\<exists>c' w M'. SendMessageTo sample_env sample_echo ''a'' sample_conn = (Inr 1, c') \<and>
     c_sent c' = [(w, ''a'')] \<and> v2_Parse w = Inr M' \<and> v2_Sequence M' = 1"
proof -
  have c: "c_sequence sample_conn = 0" "c_sent sample_conn = []"
    by (simp_all add: sample_conn_def new_session_def NewConn_def)
  have "next_sequence 0 = 1" by (simp add: next_sequence_def)
  moreover obtain w M' where "SendMessageTo sample_env sample_echo ''a'' sample_conn =
      (if env_write sample_env (c_writes sample_conn)
       then (Inr (next_sequence (c_sequence sample_conn)),
             sample_conn\<lparr>c_sequence := next_sequence (c_sequence sample_conn),
               c_writes := c_writes sample_conn + 1, c_sent := c_sent sample_conn @ [(w, ''a'')]\<rparr>)
       else (Inl (Error NetError),
             sample_conn\<lparr>c_sequence := next_sequence (c_sequence sample_conn) - 1,
               c_writes := c_writes sample_conn + 1\<rparr>))"
    by (rule SendMessageTo_cases)
  ultimately have "SendMessageTo sample_env sample_echo ''a'' sample_conn =
      (Inr 1, sample_conn\<lparr>c_sequence := 1, c_writes := c_writes sample_conn + 1, c_sent := [(w, ''a'')]\<rparr>)"
    by (simp add: c sample_env_def)
  then show ?thesis
    using SendMessageTo_delivers [OF sample_echo_ok(1) sample_echo_full, where c = sample_conn and env = sample_env
        and a = "''a''"]
    by (auto simp: sample_echo_ok(2) c)
qed

text \<open>
  C15. The validation: while it is enabled, a message with a TEID that is not registered for its
  sender reaches no handler. The error names the TEID and the connection is as it was: nothing is
  sent, no session changes.
\<close>

theorem unknown_TEID_discarded:
  assumes "c_validationEnabled c" "v2_TEID M \<noteq> 0" "session_table c (v2_TEID M) a = None"
    "\<not> reserved (v2_TEID M) c"
  shows "handleMessage env a M c = (Inl (Error (V2InvalidTEID (v2_TEID M))), c)"
  using assms by (simp add: handleMessage_eq validate_cases)

definition sample_delete :: v2_message where
  "sample_delete = Msg_DeleteSessionRequest (NewDeleteSessionRequest 0x55 1 [])"

lemma sample_delete_TEID: "v2_TEID sample_delete = 0x55"
  by code_simp

theorem unknown_TEID_discarded_witness:
  "handleMessage sample_env ''a'' sample_delete sample_conn =
     (Inl (Error (V2InvalidTEID 0x55)), sample_conn)"
  using unknown_TEID_discarded [of sample_conn sample_delete "''a''" sample_env]
  by (simp add: sample_delete_TEID session_table_alt reserved_def sample_conn_def new_session_def NewConn_def)

text \<open>
  C8. Exactly which datagrams end the process, given that the user's handlers do not panic: those of
  fewer than two bytes, and, while the validation is enabled, those that parse to a message whose
  TEID has been reserved by \<open>NewSenderFTEID\<close> and not registered yet.
\<close>

theorem serve_panics_iff:
  assumes "\<And>n a M c. no_panic (fst (env_user env n a M c))"
  shows "no_panic (fst (serve_packet env a raw c)) \<longleftrightarrow>
    2 \<le> length raw \<and>
    \<not> (\<exists>M. v2_Parse raw = Inr M \<and> c_validationEnabled c \<and> v2_TEID M \<noteq> 0 \<and> reserved (v2_TEID M) c)"
proof (cases "2 \<le> length raw")
  case False
  then show ?thesis by (simp add: serve_packet_def v2_Parse_short)
next
  case True
  show ?thesis
  proof (cases "v2_Parse raw")
    case (Inl e)
    then show ?thesis
      using True v2_Parse_no_panic [OF True] by (cases e) (simp_all add: serve_packet_def)
  next
    case (Inr M)
    have "no_panic (fst (serve_packet env a raw c)) = no_panic (fst (handleMessage env a M c))"
      by (auto simp: serve_packet_def Inr no_panic_def split: prod.split sum.split failure.split)
    then show ?thesis using True Inr handleMessage_no_panic [OF assms, of a M c] by simp
  qed
qed

theorem serve_panics_iff_witness:
  "\<not> no_panic (fst (serve_packet sample_env ''a'' [0x48, 36, 0, 8, 0, 0, 0, 5, 0, 0, 1, 0]
       (snd (NewSenderFTEID (\<lambda>_. 5) [] [] sample_conn))))"
proof -
  let ?raw = "[0x48, 36, 0, 8, 0, 0, 0, 5, 0, 0, 1, 0] :: bytes"
  let ?c = "snd (NewSenderFTEID (\<lambda>_. 5) [] [] sample_conn)"
  have "(case v2_Parse ?raw of Inr M \<Rightarrow> v2_TEID M = 5 | Inl e \<Rightarrow> False)" by code_simp
  then obtain M where M: "v2_Parse ?raw = Inr M" "v2_TEID M = 5" by (auto split: sum.splits)
  have "first_free 65535 0 (\<lambda>_. 5) (Map.empty :: u32 \<rightharpoonup> nat option) = Some 5"
  proof -
    have "first_free (Suc 65534) 0 (\<lambda>_. 5) (Map.empty :: u32 \<rightharpoonup> nat option) = Some 5"
      by (simp only: first_free.simps Let_def map_ops) simp
    then show ?thesis by simp
  qed
  then have "reserved 5 ?c" "c_validationEnabled ?c"
    by (simp_all add: reserved_def NewSenderFTEID_def sample_conn_def new_session_def NewConn_def)
  then show ?thesis
    using serve_panics_iff [of sample_env "''a''" ?raw ?c] M
    by (auto simp: sample_env_def ret_op_def)
qed

end
