(* ===== verification/V2ConnRun.thy ===== *)
theory V2ConnRun
  imports V2ConnDispatch
begin

text \<open>
  The runs of a connection: its operations as steps of a transition relation, the states that can
  be reached from a new connection, and their invariant: every reference in the two tables points
  to a session of the store, and the sequence number fits in 24 bits (or is the value a failed
  write leaves at the wrap). The answer to an Echo Request is here as well.
\<close>

section \<open>The invariant\<close>

definition conn_ok :: "conn \<Rightarrow> bool" where
  "conn_ok c \<longleftrightarrow>
     gomap.every (\<lambda>_ r. r < length (c_heap c)) (c_imsiSessionMap c) \<and>
     gomap.every (\<lambda>_ v. v \<noteq> None \<longrightarrow> the v < length (c_heap c)) (c_iteiSessionMap c) \<and>
     (c_sequence c \<le> 0xffffff \<or> c_sequence c = 0xffffffff)"

lemma conn_ok_frame:
  "conn_ok c \<Longrightarrow> c_imsiSessionMap c' = c_imsiSessionMap c \<Longrightarrow> c_iteiSessionMap c' = c_iteiSessionMap c \<Longrightarrow>
     c_sequence c' = c_sequence c \<Longrightarrow> length (c_heap c) \<le> length (c_heap c') \<Longrightarrow> conn_ok c'"
  by (auto simp: conn_ok_def elim!: gomap.every_mono)

lemma conn_ok_NewConn: "conn_ok (NewConn laddr ifType counter)"
  by (simp add: conn_ok_def NewConn_def gomap.every_def)

lemma conn_ok_upd: "conn_ok c \<Longrightarrow> conn_ok (upd_session r f c)"
  by (erule conn_ok_frame) simp_all

lemma conn_ok_Register:
  assumes "conn_ok c" "r < length (c_heap c)"
  shows "conn_ok (RegisterSession itei r c)"
  using assms gomap.every_store [where m = "c_imsiSessionMap c" and v = r and P = "\<lambda>_ r. r < length (c_heap c)"]
    gomap.every_store [where m = "c_iteiSessionMap c" and v = "Some r"
      and P = "\<lambda>_ v. v \<noteq> None \<longrightarrow> the v < length (c_heap c)"]
  by (simp add: conn_ok_def RegisterSession_def)

lemma conn_ok_delete_itei:
  "conn_ok c \<Longrightarrow> conn_ok (c\<lparr>c_iteiSessionMap := (c_iteiSessionMap c)(k := None)\<rparr>)"
  using gomap.every_delete [where m = "c_iteiSessionMap c" and k = k] by (simp add: conn_ok_def map_delete_def)

lemma conn_ok_delete_imsi:
  "conn_ok c \<Longrightarrow> conn_ok (c\<lparr>c_imsiSessionMap := (c_imsiSessionMap c)(k := None)\<rparr>)"
  using gomap.every_delete [where m = "c_imsiSessionMap c" and k = k] by (simp add: conn_ok_def map_delete_def)

lemma conn_ok_remove_by_imsi: "conn_ok c \<Longrightarrow> conn_ok (snd (remove_by_imsi imsi es c))"
  by (induction imsi es c rule: remove_by_imsi.induct) (simp_all add: conn_ok_delete_itei)

lemma conn_ok_Remove: "conn_ok c \<Longrightarrow> conn_ok (snd (RemoveSession order r c))"
  by (simp add: RemoveSession_def Let_def conn_ok_remove_by_imsi conn_ok_delete_imsi
      split: sum.split)
     (use conn_ok_delete_imsi conn_ok_delete_itei in fastforce)

lemma conn_ok_reserve: "conn_ok c \<Longrightarrow> conn_ok (snd (NewSenderFTEID rnd v4 v6 c))"
  using gomap.every_store [where m = "c_iteiSessionMap c" and v = None
      and P = "\<lambda>_ v. v \<noteq> None \<longrightarrow> the v < length (c_heap c)"]
  by (auto simp: NewSenderFTEID_def conn_ok_def split: option.splits)

lemma sequence_back:
  assumes "s \<le> 0xffffff \<or> s = 0xffffffff"
  shows "next_sequence s - 1 \<le> 0xffffff \<or> next_sequence s - 1 = 0xffffffff"
proof -
  consider "s < 0xffffff" | "s = 0xffffff" | "s = 0xffffffff" using assms by fastforce
  then show ?thesis
    by cases (simp_all add: next_sequence_small order.strict_implies_order, simp_all add: next_sequence_def)
qed

lemma conn_ok_sequence:
  "conn_ok c \<Longrightarrow> s \<le> 0xffffff \<or> s = 0xffffffff \<Longrightarrow>
     conn_ok (c\<lparr>c_sequence := s, c_writes := n, c_sent := l\<rparr>)"
  "conn_ok c \<Longrightarrow> s \<le> 0xffffff \<or> s = 0xffffffff \<Longrightarrow> conn_ok (c\<lparr>c_sequence := s, c_writes := n\<rparr>)"
  by (simp_all add: conn_ok_def)

lemma conn_ok_Send:
  assumes "conn_ok c"
  shows "conn_ok (snd (SendMessageTo env M a c))"
proof -
  have step_back: "next_sequence (c_sequence c) - 1 \<le> 0xffffff \<or> next_sequence (c_sequence c) - 1 = 0xffffffff"
    using assms by (intro sequence_back) (simp add: conn_ok_def)
  show ?thesis
    by (rule SendMessageTo_cases [of c M env a])
       (use assms step_back next_sequence_bound in \<open>auto intro!: conn_ok_sequence split: if_splits\<close>)
qed

lemma conn_ok_written:
  "conn_ok (c\<lparr>c_writes := n, c_sent := l\<rparr>) = conn_ok c" "conn_ok (c\<lparr>c_writes := n\<rparr>) = conn_ok c"
  by (simp_all add: conn_ok_def)

lemma conn_ok_Respond: "conn_ok c \<Longrightarrow> conn_ok (snd (RespondTo env a req M c))"
  by (rule RespondTo_cases [of req M env a c]) (auto simp: conn_ok_written split: if_splits)

text \<open>The handlers of the user work on the connection through its operations only.\<close>

definition env_ok :: "env \<Rightarrow> bool" where
  "env_ok env \<longleftrightarrow> (\<forall>n a M c. conn_ok c \<longrightarrow> conn_ok (snd (env_user env n a M c)))"

lemma conn_ok_call:
  assumes "env_ok env" "conn_ok c"
  shows "conn_ok (snd (call_handler env h a M c))"
proof (cases h)
  case (User n)
  with assms show ?thesis by (simp add: env_ok_def)
next
  case DefaultEchoRequest
  have "conn_ok (snd (RespondTo env a M (new_EchoResponse c) c))" using assms(2) by (rule conn_ok_Respond)
  with assms(2) show ?thesis
    by (cases M) (simp_all add: DefaultEchoRequest handleEchoRequest_def)
next
  case DefaultEchoResponse
  with assms(2) show ?thesis by (cases M) (simp_all add: handleEchoResponse_def)
next
  case DefaultVersionNotSupportedIndication
  with assms(2) show ?thesis by (cases M) (simp_all add: handleVersionNotSupportedIndication_def)
qed

lemma conn_ok_handle:
  assumes "env_ok env" "conn_ok c"
  shows "conn_ok (snd (handleMessage env a M c))"
  using assms by (simp add: handleMessage_eq validate_cases conn_ok_call split: option.split)

lemma conn_ok_serve:
  assumes "env_ok env" "conn_ok c"
  shows "conn_ok (snd (serve_packet env a raw c))"
  using conn_ok_handle [OF assms, of a] assms(2)
  by (auto simp: serve_packet_def split: sum.split failure.split prod.split) (metis snd_conv)+

section \<open>Operations that keep a session at hand\<close>

definition holds_session :: "nat \<Rightarrow> conn \<Rightarrow> bool" where
  "holds_session r c \<longleftrightarrow> conn_ok c \<and> r < length (c_heap c)"

definition keeps :: "(conn \<Rightarrow> bool) \<Rightarrow> 'a op \<Rightarrow> bool" where
  "keeps P m \<longleftrightarrow> (\<forall>c. P c \<longrightarrow> P (snd (m c)))"

lemma keeps_bind: "keeps P m \<Longrightarrow> (\<And>x. keeps P (f x)) \<Longrightarrow> keeps P (bind_op m f)"
  by (fastforce simp: keeps_def bind_op_def split: prod.split sum.split)

lemma keeps_ret: "keeps P (ret_op x)"
  by (simp add: keeps_def ret_op_def)

lemma keeps_run: "(\<And>x. x \<in> set xs \<Longrightarrow> keeps P (f x)) \<Longrightarrow> keeps P (run_ops f xs)"
  by (induction xs) (simp_all add: keeps_ret keeps_bind)

text \<open>
  The elements of a request other than the IMSI and the F-TEID change the session through updates
  that leave its subscriber's IMSI and its peer alone. A predicate on connections that such
  updates keep is kept by every one of those elements; this is the contract of \<open>filling\<close>.
\<close>

definition quiet :: "(session \<Rightarrow> session) \<Rightarrow> bool" where
  "quiet f \<longleftrightarrow> (\<forall>s. s_IMSI (f s) = s_IMSI s \<and> s_peerAddr (f s) = s_peerAddr s \<and>
     s_peerAddrString (f s) = s_peerAddrString s)"

lemma quiet_updates [simp]:
  "quiet (set_MSISDN v)" "quiet (set_IMEI v)" "quiet (upd_location g)" "quiet (upd_default h)"
  "quiet (upd_qos q)" "quiet (AddTEID it t)"
  by (auto simp: quiet_def set_MSISDN_def set_IMEI_def upd_location_def upd_subscriber_def
      upd_default_def upd_qos_def SetDefaultBearer_def AddTEID_def split: option.split)

locale filling =
  fixes r :: nat and P :: "conn \<Rightarrow> bool"
  assumes quiet_keeps: "quiet f \<Longrightarrow> P c \<Longrightarrow> P (upd_session r f c)"
begin

lemma keeps_assign: "(\<And>v. quiet (put v)) \<Longrightarrow> keeps P (assign_op r put zero res)"
  by (simp add: keeps_def assign_op_def quiet_keeps split: sum.split)

lemma keeps_bearer_fteid: "keeps P (bearer_fteid r i)"
  by (auto simp: keeps_def bearer_fteid_def quiet_keeps split: sum.split)

lemma keeps_bearer_qos: "keeps P (bearer_qos r i)"
  unfolding bearer_qos_def by (rule keeps_run) (auto simp: keeps_assign)

lemma keeps_create_child: "keeps P (create_child r i)"
  by (simp add: create_child_def keeps_assign keeps_bearer_qos keeps_bearer_fteid keeps_ret)

lemma keeps_create_ie:
  "ie_Type i \<noteq> IE_IMSI \<Longrightarrow> ie_Type i \<noteq> IE_FullyQualifiedTEID \<Longrightarrow> keeps P (create_ie r i)"
  by (simp add: create_ie_def keeps_assign keeps_bind keeps_run keeps_create_child keeps_ret)

lemma keeps_create_ies:
  "(\<And>i. i \<in> set ies \<Longrightarrow> ie_Type i \<noteq> IE_IMSI \<and> ie_Type i \<noteq> IE_FullyQualifiedTEID) \<Longrightarrow>
     keeps P (run_ops (create_ie r) ies)"
  by (intro keeps_run keeps_create_ie) auto

end

lemma holds_upd: "holds_session r c \<Longrightarrow> holds_session r (upd_session r' f c)"
  by (simp add: holds_session_def conn_ok_upd)

interpretation holds: filling r "holds_session r" for r
  by unfold_locales (rule holds_upd)

lemma keeps_session_fteid: "keeps (holds_session r) (session_fteid r i)"
  by (auto simp: keeps_def session_fteid_def holds_session_def conn_ok_upd conn_ok_Register Let_def
      split: sum.split)

lemma keeps_set_IMSI: "keeps (holds_session r) (assign_op r set_IMSI zero res)"
  by (simp add: keeps_def assign_op_def holds_upd split: sum.split)

lemma holds_create_ie: "keeps (holds_session r) (create_ie r i)"
proof (cases "ie_Type i = IE_IMSI \<or> ie_Type i = IE_FullyQualifiedTEID")
  case True
  then show ?thesis
    by (elim disjE) (simp_all add: create_ie_def keeps_set_IMSI keeps_session_fteid)
qed (simp add: holds.keeps_create_ie)

lemma conn_ok_ParseCreateSession:
  assumes "conn_ok c"
  shows "holds_session (length (c_heap c)) (snd (ParseCreateSession raddr ies c))"
proof -
  let ?r = "length (c_heap c)"
  have "holds_session ?r (c\<lparr>c_heap := c_heap c @ [NewSession raddr no_subscriber]\<rparr>)"
    using assms by (auto simp: holds_session_def intro: conn_ok_frame)
  moreover have "keeps (holds_session ?r)
      (bind_op (run_ops (create_ie ?r) (List.map_filter id ies)) (\<lambda>_. ret_op ?r))"
    by (intro keeps_bind keeps_run holds_create_ie keeps_ret)
  ultimately show ?thesis
    by (simp add: ParseCreateSession_def bind_op_def [of "new_session raddr"] new_session_def keeps_def)
qed

section \<open>Reachable states\<close>

inductive conn_step :: "env \<Rightarrow> conn \<Rightarrow> conn \<Rightarrow> bool" for env where
  serve: "serve_packet env a raw c = (Inr (), c') \<Longrightarrow> conn_step env c c'"
| send: "SendMessageTo env M a c = (res, c') \<Longrightarrow> conn_step env c c'"
| respond: "RespondTo env a req M c = (res, c') \<Longrightarrow> conn_step env c c'"
| create: "ParseCreateSession raddr ies c = (res, c') \<Longrightarrow> conn_step env c c'"
| register: "r < length (c_heap c) \<Longrightarrow> conn_step env c (RegisterSession itei r c)"
| remove: "RemoveSession order r c = (Inr (), c') \<Longrightarrow> conn_step env c c'"
| reserve: "NewSenderFTEID rnd v4 v6 c = (res, c') \<Longrightarrow> conn_step env c c'"
| session: "r < length (c_heap c) \<Longrightarrow> conn_step env c (upd_session r f c)"
| handler: "conn_step env c (AddHandler t h c)"
| validation: "conn_step env c (EnableValidation c)"
| no_validation: "conn_step env c (DisableValidation c)"
| closing: "c_Close c = (res, c') \<Longrightarrow> conn_step env c c'"

inductive reachable :: "env \<Rightarrow> conn \<Rightarrow> bool" for env where
  start: "reachable env (NewConn laddr ifType counter)"
| step: "reachable env c \<Longrightarrow> conn_step env c c' \<Longrightarrow> reachable env c'"

lemma conn_step_ok:
  assumes "env_ok env"
  shows "conn_step env c c' \<Longrightarrow> conn_ok c \<Longrightarrow> conn_ok c'"
proof (induction rule: conn_step.induct)
  case (serve a raw c c')
  then show ?case using conn_ok_serve [OF assms, of c a raw] by simp
next
  case (send M a c res c')
  then show ?case using conn_ok_Send [of c env M a] by simp
next
  case (respond a req M c res c')
  then show ?case using conn_ok_Respond [of c env a req M] by simp
next
  case (create raddr ies c res c')
  then show ?case using conn_ok_ParseCreateSession [of c raddr ies] by (simp add: holds_session_def)
next
  case (remove order r c c')
  then show ?case using conn_ok_Remove [of c order r] by simp
next
  case (reserve rnd v4 v6 c res c')
  then show ?case using conn_ok_reserve [of c rnd v4 v6] by simp
next
  case (closing c res c')
  then show ?case by (auto simp: c_Close_def conn_ok_def split: if_splits)
qed (simp_all add: conn_ok_Register conn_ok_upd,
     simp_all add: conn_ok_def AddHandler_def EnableValidation_def DisableValidation_def)

lemma reachable_ok: "reachable env c \<Longrightarrow> env_ok env \<Longrightarrow> conn_ok c"
  by (induction rule: reachable.induct) (auto simp: conn_ok_NewConn conn_step_ok)

section \<open>The answer to an Echo Request\<close>

lemma NewRecovery_eq: "NewRecovery v = IE IE_Recovery 1 0 [v] []"
  by (simp add: NewRecovery_def newUint8ValIE_def ie_New_eq)

lemma echo_response_wire: "\<exists>M'. v2_Marshal (v2_SetSequenceNumber seq (new_EchoResponse c)) =
   Inr ([0x40, 2, 0, 9] @ Uint32To24 seq @ [0, 3, 0, 1, 0, c_RestartCounter c], M')"
proof -
  let ?m = "NewEchoResponse 0 [Some (NewRecovery (c_RestartCounter c))]"
  have "msg_wire EchoResponse_order (?m\<lparr>m_Header := SetSequenceNumber seq (m_Header ?m)\<rparr>) =
      [0x40, 2, 0, 9] @ Uint32To24 seq @ [0, 3, 0, 1, 0, c_RestartCounter c]"
    by (simp add: NewEchoResponse_def msg_New_def NewHeaderFlags_def NewHeader_def empty_msg_def
      store_ie_def NewRecovery_eq EchoResponse_switch_def EchoResponse_lens_def EchoResponse_order_def
      msg_wire_def msg_marshalled_def msg_SetLength_def SetSequenceNumber_def present_def
      header_wire_def HasTEID_def h_SetLength_def h_MarshalLen_def be16_def Let_def map_filter_simps grouped_def
      grouped_types_def)
  then show ?thesis
    by (simp add: new_EchoResponse_def v2_SetSequenceNumber_def v2_Marshal_simps
        EchoResponse_Marshal_eq echoResponse.Marshal_wire lift_message_def)
qed

lemma echo_type: "v2_Parse raw = Inr (Msg_EchoRequest m) \<Longrightarrow> v2_MessageType (Msg_EchoRequest m) = MsgTypeEchoRequest"
  using v2_Parse_header [of raw "Msg_EchoRequest m"] 
  by (auto dest!: v2_Parse_inv dest: h_Parse_fields(1) simp: v2_MessageType_def h_MessageType_def)

section \<open>Properties\<close>

text \<open>
  In every state a connection can reach, by messages served, requests sent, sessions created,
  registered, changed and removed and TEIDs reserved, in any order: what a lookup finds is a
  session of the store, by TEID one of the peer asked for, and the next sequence number fits in
  24 bits.
\<close>

lemma reachable_lookups:
  assumes "reachable env c" "env_ok env"
  shows "(\<forall>teid a r. GetSessionByTEID teid a c = Inr r \<longrightarrow>
            r < length (c_heap c) \<and> s_peerAddrString (session_at c r) = a) \<and>
         (\<forall>imsi r. GetSessionByIMSI imsi c = Inr r \<longrightarrow> r < length (c_heap c)) \<and>
         fst (IncSequence c) \<le> 0xffffff"
proof -
  have ok: "conn_ok c" using assms by (rule reachable_ok)
  have "fst (IncSequence c) \<le> 0xffffff"
    using next_sequence_bound [of "c_sequence c"] by (simp add: IncSequence_next next_sequence_def)
  with ok show ?thesis
    by (auto simp: conn_ok_def GetSessionByTEID_def GetSessionByIMSI_def
        dest: gomap.everyD split: option.splits if_splits)
qed

definition sample_run :: conn where
  "sample_run = RegisterSession 5 0 (snd (ParseCreateSession ''a'' [] (NewConn ''b'' 11 3)))"

lemma sample_env_ok: "env_ok sample_env"
  by (simp add: env_ok_def sample_env_def ret_op_def)

lemma sample_run_eq:
  "sample_run = RegisterSession 5 0 (NewConn ''b'' 11 3\<lparr>c_heap := [NewSession ''a'' no_subscriber]\<rparr>)"
  by (simp add: sample_run_def ParseCreateSession_def bind_op_def new_session_def ret_op_def
      map_filter_simps NewConn_def)

lemma reachable_lookups_witness:
  "reachable sample_env sample_run \<and> GetSessionByTEID 5 ''a'' sample_run = Inr 0 \<and>
     0 < length (c_heap sample_run) \<and> s_peerAddrString (session_at sample_run 0) = ''a''"
proof -
  let ?c = "snd (ParseCreateSession ''a'' [] (NewConn ''b'' 11 3))"
  have "reachable sample_env ?c"
    by (rule reachable.step [OF reachable.start conn_step.create]) (rule surjective_pairing)
  moreover have "0 < length (c_heap ?c)"
    using conn_ok_ParseCreateSession [OF conn_ok_NewConn, of "''b''" 11 3 "''a''" "[]"]
    by (auto simp: holds_session_def)
  ultimately have run: "reachable sample_env sample_run"
    unfolding sample_run_def by (blast intro: reachable.step conn_step.register)
  have "GetSessionByTEID 5 ''a'' sample_run = Inr 0"
    by (simp add: sample_run_eq GetSessionByTEID_def RegisterSession_def upd_session_def
        NewConn_def AddTEID_def NewSession_def map_load_def map_store_def)
  then show ?thesis using reachable_lookups [OF run sample_env_ok] run by blast
qed

text \<open>
  C11. An Echo Request is answered: served by the default handler, it makes the connection write
  exactly one datagram, the Echo Response with the sequence number of the request and the restart
  counter of the connection, byte for byte, to the sender, and nothing else of the connection
  changes.
\<close>

theorem echo_answered:
  assumes "v2_Parse raw = Inr (Msg_EchoRequest m)" "v2_TEID (Msg_EchoRequest m) = 0"
    "c_msgHandlerMap c MsgTypeEchoRequest = Some DefaultEchoRequest" "env_write env (c_writes c)"
  shows "serve_packet env a raw c = (Inr (), c\<lparr>c_writes := c_writes c + 1,
       c_sent := c_sent c @ [([0x40, 2, 0, 9] @ Uint32To24 (v2_Sequence (Msg_EchoRequest m)) @
         [0, 3, 0, 1, 0, c_RestartCounter c], a)]\<rparr>)"
proof -
  have "RespondTo env a (Msg_EchoRequest m) (new_EchoResponse c) c =
     (Inr (), c\<lparr>c_writes := c_writes c + 1,
       c_sent := c_sent c @ [([0x40, 2, 0, 9] @ Uint32To24 (v2_Sequence (Msg_EchoRequest m)) @
         [0, 3, 0, 1, 0, c_RestartCounter c], a)]\<rparr>)"
    using echo_response_wire [of "v2_Sequence (Msg_EchoRequest m)" c] assms(4)
    by - (rule RespondTo_cases [of "Msg_EchoRequest m" "new_EchoResponse c" env a c], auto)
  then show ?thesis
    using assms(1-3) echo_type [OF assms(1)]
    by (simp add: serve_packet_def handleMessage_eq validate_cases handleEchoRequest_def)
qed

theorem echo_answered_witness:
  "c_sent (snd (serve_packet sample_env ''a'' [0x40, 1, 0, 9, 0, 0, 7, 0, 3, 0, 1, 0, 5] sample_conn)) =
     [([0x40, 2, 0, 9, 0, 0, 7, 0, 3, 0, 1, 0, 3], ''a'')]"
proof -
  let ?raw = "[0x40, 1, 0, 9, 0, 0, 7, 0, 3, 0, 1, 0, 5] :: bytes"
  have "(case v2_Parse ?raw of Inr (Msg_EchoRequest m) \<Rightarrow>
      v2_TEID (Msg_EchoRequest m) = 0 \<and> Uint32To24 (v2_Sequence (Msg_EchoRequest m)) = [0, 0, 7] | _ \<Rightarrow> False)"
    by code_simp
  then obtain m where "v2_Parse ?raw = Inr (Msg_EchoRequest m)" "v2_TEID (Msg_EchoRequest m) = 0"
    "Uint32To24 (v2_Sequence (Msg_EchoRequest m)) = [0, 0, 7]"
    by (auto split: sum.splits v2_message.splits)
  moreover have "c_msgHandlerMap sample_conn MsgTypeEchoRequest = Some DefaultEchoRequest"
    "env_write sample_env n" "c_sent sample_conn = []" "c_RestartCounter sample_conn = 3" for n
    by (simp_all add: sample_conn_def new_session_def NewConn_def newDefaultMsgHandlerMap_def sample_env_def)
  ultimately show ?thesis
    using echo_answered [of ?raw m sample_conn sample_env "''a''"] by simp
qed

end
