(* ===== verification/V2CreateRun.thy ===== *)
theory V2CreateRun
  imports V2ConnRun
begin

text \<open>
  What \<open>ParseCreateSession\<close> does to a connection: it creates one session and changes no other,
  whatever the elements are, and a request that names the subscriber before its local F-TEID
  registers the session under both. The predicates below describe the connection while the
  session is being filled; each is kept by the elements that may follow (the contract \<open>filling\<close>).
\<close>

section \<open>The session being filled\<close>

definition fresh :: "addr \<Rightarrow> conn \<Rightarrow> conn \<Rightarrow> bool" where
  "fresh raddr c0 c \<longleftrightarrow> length (c_heap c) = Suc (length (c_heap c0)) \<and>
     take (length (c_heap c0)) (c_heap c) = c_heap c0 \<and>
     s_peerAddrString (session_at c (length (c_heap c0))) = raddr \<and>
     c_localIfType c = c_localIfType c0 \<and> c_sequence c = c_sequence c0 \<and>
     c_writes c = c_writes c0 \<and> c_sent c = c_sent c0 \<and> c_msgHandlerMap c = c_msgHandlerMap c0"

definition named :: "addr \<Rightarrow> conn \<Rightarrow> string \<Rightarrow> conn \<Rightarrow> bool" where
  "named raddr c0 imsi c \<longleftrightarrow> fresh raddr c0 c \<and> s_IMSI (session_at c (length (c_heap c0))) = imsi"

definition registered :: "addr \<Rightarrow> conn \<Rightarrow> string \<Rightarrow> u32 \<Rightarrow> conn \<Rightarrow> bool" where
  "registered raddr c0 imsi teid c \<longleftrightarrow> named raddr c0 imsi c \<and>
     c_imsiSessionMap c imsi = Some (length (c_heap c0)) \<and>
     c_iteiSessionMap c teid = Some (Some (length (c_heap c0)))"

lemma upd_session_same:
  "r < length (c_heap c) \<Longrightarrow> session_at (upd_session r f c) r = f (session_at c r)"
  by (simp add: upd_session_def)

lemma fresh_upd:
  "fresh raddr c0 c \<Longrightarrow> (\<And>s. s_peerAddrString (f s) = s_peerAddrString s) \<Longrightarrow>
     fresh raddr c0 (upd_session (length (c_heap c0)) f c)"
  by (auto simp: fresh_def upd_session_def)

lemma fresh_Register: "fresh raddr c0 c \<Longrightarrow> fresh raddr c0 (RegisterSession teid (length (c_heap c0)) c)"
  by (auto simp: fresh_def upd_session_def RegisterSession_def AddTEID_def)

interpretation fresh: filling "length (c_heap c0)" "fresh raddr c0" for raddr c0
  by unfold_locales (rule fresh_upd; simp add: quiet_def)

interpretation named: filling "length (c_heap c0)" "named raddr c0 imsi" for raddr c0 imsi
proof
  show "named raddr c0 imsi (upd_session (length (c_heap c0)) f c)"
    if "quiet f" "named raddr c0 imsi c" for f c
    using that fresh_upd [of raddr c0 c f] by (auto simp: named_def quiet_def fresh_def upd_session_def)
qed

interpretation registered: filling "length (c_heap c0)" "registered raddr c0 imsi teid"
  for raddr c0 imsi teid
proof
  show "registered raddr c0 imsi teid (upd_session (length (c_heap c0)) f c)"
    if "quiet f" "registered raddr c0 imsi teid c" for f c
    using that named.quiet_keeps [of f raddr c0 imsi c] by (simp add: registered_def upd_session_def)
qed

lemma keeps_fresh: "keeps (fresh raddr c0) (create_ie (length (c_heap c0)) i)"
proof (cases "ie_Type i = IE_IMSI \<or> ie_Type i = IE_FullyQualifiedTEID")
  case True
  then show ?thesis
    by (elim disjE)
       (auto simp: create_ie_def keeps_def assign_op_def session_fteid_def Let_def fresh_upd
        fresh_Register set_IMSI_def upd_subscriber_def AddTEID_def split: sum.split)
qed (simp add: fresh.keeps_create_ie)

lemma keeps_named:
  assumes "ie_Type i \<noteq> IE_IMSI"
  shows "keeps (named raddr c0 imsi) (create_ie (length (c_heap c0)) i)"
proof (cases "ie_Type i = IE_FullyQualifiedTEID")
  case True
  have "named raddr c0 imsi (RegisterSession t (length (c_heap c0)) c)" if "named raddr c0 imsi c" for t c
    using that fresh_Register [of raddr c0 c t]
    by (auto simp: named_def RegisterSession_def upd_session_def fresh_def AddTEID_def)
  with True show ?thesis
    by (auto simp: create_ie_def keeps_def session_fteid_def Let_def named.quiet_keeps split: sum.split)
qed (simp add: named.keeps_create_ie assms)

section \<open>The elements in order\<close>

lemma run_ops_append:
  "run_ops f (xs @ ys) = bind_op (run_ops f xs) (\<lambda>_. run_ops f ys)"
  by (induction xs) (auto simp: bind_op_def ret_op_def fun_eq_iff split: sum.split prod.split)

lemma bind_Inr:
  "bind_op m f c = (Inr y, c') \<Longrightarrow> \<exists>x c1. m c = (Inr x, c1) \<and> f x c1 = (Inr y, c')"
  by (auto simp: bind_op_def split: sum.splits prod.splits)

lemma keepsD: "keeps P m \<Longrightarrow> m c = (res, c') \<Longrightarrow> P c \<Longrightarrow> P c'"
  by (auto simp: keeps_def)

lemma ParseCreateSession_run:
  "ParseCreateSession raddr ies c =
     (case run_ops (create_ie (length (c_heap c))) (List.map_filter id ies)
             (c\<lparr>c_heap := c_heap c @ [NewSession raddr no_subscriber]\<rparr>) of
        (Inl e, c') \<Rightarrow> (Inl e, c') | (Inr _, c') \<Rightarrow> (Inr (length (c_heap c)), c'))"
  by (simp add: ParseCreateSession_def bind_op_def new_session_def ret_op_def split: prod.split sum.split)

lemma fresh_start: "fresh raddr c (c\<lparr>c_heap := c_heap c @ [NewSession raddr no_subscriber]\<rparr>)"
  by (simp add: fresh_def NewSession_def)

lemma IMSI_step:
  "fresh raddr c0 c \<Longrightarrow> ie_Type i = IE_IMSI \<Longrightarrow> ie_IMSI i = Inr imsi \<Longrightarrow>
     create_ie (length (c_heap c0)) i c = (res, c') \<Longrightarrow> named raddr c0 imsi c'"
  by (auto simp: create_ie_def assign_op_def named_def fresh_upd set_IMSI_def upd_subscriber_def
      upd_session_def fresh_def)

lemma FTEID_step:
  "named raddr c0 imsi c \<Longrightarrow> ie_Type i = IE_FullyQualifiedTEID \<Longrightarrow>
     read_fteid i = Inr (c_localIfType c0, teid) \<Longrightarrow>
     create_ie (length (c_heap c0)) i c = (res, c') \<Longrightarrow> registered raddr c0 imsi teid c'"
  by (auto simp: create_ie_def session_fteid_def Let_def registered_def named_def fresh_def
      RegisterSession_def upd_session_def AddTEID_def map_store_def)

section \<open>The quality of service of the default bearer\<close>

definition read_qos :: "byte \<Rightarrow> byte \<Rightarrow> u64 \<Rightarrow> u64 \<Rightarrow> u64 \<Rightarrow> qos_profile" where
  "read_qos pl qci umbr dmbr ugbr = \<lparr>qp_PCI = False, qp_PVI = False, qp_PL = take_bit 4 pl, qp_QCI = qci,
     qp_MBRUL = take_bit 40 umbr, qp_MBRDL = take_bit 40 dmbr, qp_GBRUL = take_bit 40 ugbr,
     qp_GBRDL = take_bit 40 ugbr\<rparr>"

lemma upd_qos_default:
  "GetDefaultBearer (upd_qos f s) = map_option (\<lambda>br. br\<lparr>br_QoSProfile := f (br_QoSProfile br)\<rparr>) (GetDefaultBearer s)"
  by (simp add: upd_qos_def upd_default_def GetDefaultBearer_def SetDefaultBearer_def map_load_def
      map_store_def split: option.split)

section \<open>Properties\<close>

text \<open>
  \<open>ParseCreateSession\<close>, whatever the elements are and whether it succeeds or fails: exactly one
  session is added to those the connection has created, it belongs to the sender of the request,
  and no other session, no handler, no sequence number changes and nothing is sent.
\<close>

lemma create_session_frame:
  "case ParseCreateSession raddr ies c of (res, c') \<Rightarrow>
     length (c_heap c') = Suc (length (c_heap c)) \<and>
     take (length (c_heap c)) (c_heap c') = c_heap c \<and>
     s_peerAddrString (session_at c' (length (c_heap c))) = raddr \<and>
     c_sequence c' = c_sequence c \<and> c_sent c' = c_sent c \<and> c_msgHandlerMap c' = c_msgHandlerMap c \<and>
     (res = Inr (length (c_heap c)) \<or> (\<exists>e. res = Inl e))"
proof -
  have "keeps (fresh raddr c) (run_ops (create_ie (length (c_heap c))) (List.map_filter id ies))"
    by (intro keeps_run keeps_fresh)
  then have "fresh raddr c (snd (ParseCreateSession raddr ies c))"
    using fresh_start [of raddr c]
    by (auto simp: ParseCreateSession_run keeps_def split: prod.split sum.split)
  moreover have "fst (ParseCreateSession raddr ies c) = Inr (length (c_heap c)) \<or>
      (\<exists>e. fst (ParseCreateSession raddr ies c) = Inl e)"
    by (auto simp: ParseCreateSession_run split: prod.splits sum.splits)
  ultimately show ?thesis by (auto simp: fresh_def split: prod.split)
qed

text \<open>
  C13. A request whose IMSI comes before its last F-TEID, that F-TEID being one of the local
  interface type: when \<open>ParseCreateSession\<close> returns the session, it is found under the IMSI and,
  for the sender, under the TEID. Any other elements may stand in between, before and after, as
  long as the IMSI is the last one of its kind.
\<close>

theorem create_session_registers:
  assumes "List.map_filter id ies = before @ imsi_ie # between @ fteid_ie # after"
    "ie_Type imsi_ie = IE_IMSI" "ie_IMSI imsi_ie = Inr imsi"
    "ie_Type fteid_ie = IE_FullyQualifiedTEID" "read_fteid fteid_ie = Inr (c_localIfType c, teid)"
    "\<And>i. i \<in> set between \<union> set after \<Longrightarrow> ie_Type i \<noteq> IE_IMSI"
    "\<And>i. i \<in> set after \<Longrightarrow> ie_Type i \<noteq> IE_FullyQualifiedTEID"
    "ParseCreateSession raddr ies c = (Inr r, c')"
  shows "GetSessionByIMSI imsi c' = Inr r \<and> GetSessionByTEID teid raddr c' = Inr r"
proof -
  let ?r = "length (c_heap c)"
  let ?run = "run_ops (create_ie ?r)"
  let ?c = "c\<lparr>c_heap := c_heap c @ [NewSession raddr no_subscriber]\<rparr>"
  have r: "r = ?r" and "?run (before @ imsi_ie # between @ fteid_ie # after) ?c = (Inr (), c')"
    using assms(8) by (auto simp: ParseCreateSession_run assms(1) split: prod.splits sum.splits)
  then obtain c1 c2 c3 c4 where
    s: "?run before ?c = (Inr (), c1)" "create_ie ?r imsi_ie c1 = (Inr (), c2)"
       "?run between c2 = (Inr (), c3)" "create_ie ?r fteid_ie c3 = (Inr (), c4)"
       "?run after c4 = (Inr (), c')"
    unfolding run_ops_append run_ops.simps by (auto dest!: bind_Inr)
  have "fresh raddr c c1"
    by (rule keepsD [where P = "fresh raddr c" and m = "?run before" and c = ?c, OF _ s(1) fresh_start [of raddr c]]) (intro keeps_run keeps_fresh)
  then have "named raddr c imsi c2" using assms(2,3) s(2) by (rule IMSI_step)
  then have "named raddr c imsi c3"
    by (rule keepsD [where P = "named raddr c imsi" and m = "?run between" and c = c2, OF _ s(3), rotated]) (use assms(6) in \<open>auto intro!: keeps_run keeps_named\<close>)
  then have "registered raddr c imsi teid c4" using assms(4,5) s(4) by (rule FTEID_step)
  then have "registered raddr c imsi teid c'"
    by (rule keepsD [where P = "registered raddr c imsi teid" and m = "?run after" and c = c4, OF _ s(5), rotated])
       (use assms(6,7) in \<open>auto intro!: registered.keeps_create_ies\<close>)
  then show ?thesis
    by (simp add: r registered_def named_def fresh_def GetSessionByIMSI_def GetSessionByTEID_def map_load_def)
qed

definition sample_request :: "ie option list" where
  "sample_request = [Some (IE IE_IMSI 2 0 [0x21, 0xf3] []), None, Some (IE IE_RATType 1 0 [6] []),
     Some (IE IE_FullyQualifiedTEID 9 0 [0x8b, 0, 0, 0, 7, 10, 0, 0, 1] [])]"

theorem create_session_registers_witness:
  "\<exists>c'. ParseCreateSession ''mme'' sample_request (NewConn ''sgw'' 11 3) = (Inr 0, c') \<and>
     GetSessionByIMSI ''123'' c' = Inr 0 \<and> GetSessionByTEID 7 ''mme'' c' = Inr 0"
proof -
  let ?c = "NewConn ''sgw'' 11 3"
  let ?imsi = "IE IE_IMSI 2 0 [0x21, 0xf3] []" and ?rat = "IE IE_RATType 1 0 [6] []"
    and ?fteid = "IE IE_FullyQualifiedTEID 9 0 [0x8b, 0, 0, 0, 7, 10, 0, 0, 1] []"
  have list: "List.map_filter id sample_request = [] @ ?imsi # [?rat] @ ?fteid # []"
    by (simp add: sample_request_def map_filter_simps)
  have imsi: "ie_IMSI ?imsi = Inr ''123''" by code_simp
  have rat: "ie_RATType ?rat = Inr 6" by code_simp
  have "read_fteid ?fteid = Inr (11, 7)" by code_simp
  then have fteid: "read_fteid ?fteid = Inr (c_localIfType ?c, 7)" by (simp add: NewConn_def)
  have "fst (ParseCreateSession ''mme'' sample_request ?c) = Inr 0"
    by (simp add: ParseCreateSession_run list create_ie_def imsi rat fteid assign_op_def bind_op_def
        ret_op_def session_fteid_def Let_def NewConn_def split: prod.split)
  then obtain c' where "ParseCreateSession ''mme'' sample_request ?c = (Inr 0, c')"
    by (metis prod.collapse)
  then show ?thesis
    using create_session_registers [OF list _ imsi _ fteid, of "''mme''" 0 c'] by simp
qed

text \<open>
  The quality of service \<open>ParseCreateSession\<close> stores for a Bearer QoS element: the priority
  level, the QCI and three rates are those of the element; the guaranteed downlink rate is the
  uplink one; the pre-emption flags are always off.
\<close>

lemma create_bearer_qos:
  assumes "r < length (c_heap c)" "GetDefaultBearer (session_at c r) = Some br"
  shows "\<exists>i c'. NewBearerQoS pci pl pvi qci umbr dmbr ugbr dgbr = Inr (Some i) \<and>
    create_child r i c = (Inr (), c') \<and>
    GetDefaultBearer (session_at c' r) = Some (br\<lparr>br_QoSProfile := read_qos pl qci umbr dmbr ugbr\<rparr>)"
proof -
  obtain i where i: "NewBearerQoS pci pl pvi qci umbr dmbr ugbr dgbr = Inr (Some i)"
    "ie_Type i = IE_BearerQoS" "ie_QCILabel i = Inr qci" "ie_PriorityLevel i = Inr (take_bit 4 pl)"
    "ie_MBRForUplink i = Inr (take_bit 40 umbr)" "ie_MBRForDownlink i = Inr (take_bit 40 dmbr)"
    "ie_GBRForUplink i = Inr (take_bit 40 ugbr)" "HasPCI i = Inr False" "HasPVI i = Inr False"
    using NewBearerQoS_read [of pci pl pvi qci umbr dmbr ugbr dgbr] by blast
  let ?c = "snd (create_child r i c)"
  have "create_child r i c = (Inr (), ?c)"
    by (simp add: create_child_def i bearer_qos_def assign_op_def bind_op_def ret_op_def)
  moreover have "GetDefaultBearer (session_at ?c r) =
      Some (br\<lparr>br_QoSProfile := read_qos pl qci umbr dmbr ugbr\<rparr>)"
    using assms
    by (simp add: create_child_def i bearer_qos_def assign_op_def bind_op_def ret_op_def
        upd_session_def upd_qos_default read_qos_def)
  ultimately show ?thesis using i(1) by blast
qed

lemma create_bearer_qos_witness:
  "\<exists>i c' br. NewBearerQoS 1 2 1 9 100 200 300 400 = Inr (Some i) \<and>
    create_child 0 i sample_conn = (Inr (), c') \<and>
    GetDefaultBearer (session_at c' 0) = Some br \<and> qp_GBRUL (br_QoSProfile br) = 300 \<and>
    qp_GBRDL (br_QoSProfile br) = 300"
proof -
  have "c_heap sample_conn = [NewSession ''10.0.0.1:2123'' no_subscriber]"
    by (simp add: sample_conn_def new_session_def NewConn_def)
  then have "0 < length (c_heap sample_conn)"
    "GetDefaultBearer (session_at sample_conn 0) = Some (NewBearer 0 [] no_qos)"
    by (simp_all add: GetDefaultBearer_def NewSession_def map_load_def map_store_def)
  from create_bearer_qos [OF this, of 1 2 1 9 100 200 300 400] show ?thesis
    by (fastforce simp: read_qos_def)
qed

end
