(* ===== verification/TVElement.thy ===== *)
theory TVElement
  imports IEStream
begin

text \<open>
  The information elements of GTPv0 and GTPv1 (\<open>src/gtpv0/ie/ie.go\<close>, \<open>src/gtpv1/ie/ie.go\<close>). The two
  files have the same code and differ in one table, \<open>tvLengthMap\<close>: an element with a type below
  128 is a type octet and a value (TV) whose length the table gives, the others carry a length
  field (TLV). The operations are defined here over the table \<open>tv\<close>; \<open>V0IE\<close> and \<open>V1IE\<close> give each
  version its own.

  \<open>tv_wire\<close> specifies the encoding, a TV value being cut or padded with zeros to the length of
  the table; \<open>tv_wf\<close> are the elements whose payload has the right length. An element of a TV type
  the table does not know is one type octet when it is decoded, whatever follows.
\<close>

section \<open>The element\<close>

record tv_ie =
  tv_Type :: byte
  tv_Length :: u16
  tv_Payload :: bytes

type_synonym tv_table = "byte \<Rightarrow> nat option"

definition IsTV :: "tv_ie \<Rightarrow> bool" where
  "IsTV i = (tv_Type i < 0x80)"

definition tv_MarshalLen :: "tv_table \<Rightarrow> tv_ie \<Rightarrow> nat" where
  "tv_MarshalLen tv i =
     (case tv (tv_Type i) of
        Some l \<Rightarrow> l + 1
      | None \<Rightarrow> if tv_Type i < 128 then 1 + length (tv_Payload i) else 3 + length (tv_Payload i))"

definition tv_SetLength :: "tv_table \<Rightarrow> tv_ie \<Rightarrow> tv_ie" where
  "tv_SetLength tv i =
     (case tv (tv_Type i) of
        Some _ \<Rightarrow> i\<lparr>tv_Length := 0\<rparr>
      | None \<Rightarrow> i\<lparr>tv_Length := of_nat (length (tv_Payload i))\<rparr>)"

definition tv_New :: "tv_table \<Rightarrow> byte \<Rightarrow> bytes \<Rightarrow> tv_ie" where
  "tv_New tv t p = tv_SetLength tv \<lparr>tv_Type = t, tv_Length = 0, tv_Payload = p\<rparr>"

definition tv_MarshalTo :: "tv_table \<Rightarrow> tv_ie \<Rightarrow> bytes \<Rightarrow> bytes result" where
  "tv_MarshalTo tv i b =
     (if length b < tv_MarshalLen tv i then Inl (Error IEErrTooShortToMarshal)
      else
        andThen (write_at b 0 [tv_Type i]) (\<lambda>b.
        if \<not> IsTV i
        then andThen (write_at b 1 (be16 (tv_Length i))) (\<lambda>b.
             copy_at b 3 (tv_MarshalLen tv i) (tv_Payload i))
        else copy_at b 1 (tv_MarshalLen tv i) (tv_Payload i)))"

definition tv_Marshal :: "tv_table \<Rightarrow> tv_ie \<Rightarrow> bytes result" where
  "tv_Marshal tv i = tv_MarshalTo tv i (replicate (tv_MarshalLen tv i) 0)"

section \<open>Decoding\<close>

text \<open>The payload of the element being decoded is empty when its \<open>MarshalLen\<close> is asked for.\<close>

definition decodeTV :: "tv_table \<Rightarrow> tv_ie \<Rightarrow> bytes \<Rightarrow> tv_ie result" where
  "decodeTV tv i b =
     (if length b < 2 then Inl (Error IEErrTooShortToParse)
      else if tv_MarshalLen tv i > length b then Inl (Error IEErrInvalidLength)
      else andThen (slice b 1 (tv_MarshalLen tv i)) (\<lambda>p. Inr (i\<lparr>tv_Length := 0, tv_Payload := p\<rparr>)))"

definition decodeTLV :: "tv_ie \<Rightarrow> bytes \<Rightarrow> tv_ie result" where
  "decodeTLV i b =
     (if length b < 3 then Inl (Error IEErrTooShortToParse)
      else
        andThen (get16 b 1) (\<lambda>l.
        if unat l + 3 > length b then Inl (Error IEErrInvalidLength)
        else andThen (slice b 3 (3 + unat l)) (\<lambda>p. Inr (i\<lparr>tv_Length := l, tv_Payload := p\<rparr>))))"

definition tv_UnmarshalBinary :: "tv_table \<Rightarrow> bytes \<Rightarrow> tv_ie result" where
  "tv_UnmarshalBinary tv b =
     (if length b < 2 then Inl (Error IEErrTooShortToParse)
      else
        andThen (byte_at b 0) (\<lambda>t.
        let i = \<lparr>tv_Type = t, tv_Length = 0, tv_Payload = []\<rparr> in
        if IsTV i then decodeTV tv i b else decodeTLV i b))"

definition tv_Parse :: "tv_table \<Rightarrow> bytes \<Rightarrow> tv_ie result" where
  "tv_Parse tv b = tv_UnmarshalBinary tv b"

lemma tv_MarshalLen_pos: "0 < tv_MarshalLen tv i"
  by (simp add: tv_MarshalLen_def split: option.split)

lemma slice_from_less: "slice_from b n = Inr r \<Longrightarrow> 0 < n \<Longrightarrow> b \<noteq> [] \<Longrightarrow> length r < length b"
  by (auto simp: slice_from_def slice_def split: if_splits)

text \<open>Every element occupies at least one byte, so the loop ends.\<close>

function tv_ParseMultiIEs :: "tv_table \<Rightarrow> bytes \<Rightarrow> tv_ie list result" where
  "tv_ParseMultiIEs tv b =
     (if b = [] then Inr []
      else
        andThen (tv_Parse tv b) (\<lambda>i.
        andThen (slice_from b (tv_MarshalLen tv i)) (\<lambda>r.
        andThen (tv_ParseMultiIEs tv r) (\<lambda>ies. Inr (i # ies)))))"
  by pat_completeness auto

termination
  by (relation "measure (length \<circ> snd)") (auto dest: slice_from_less [OF _ tv_MarshalLen_pos])

declare tv_ParseMultiIEs.simps [simp del]

section \<open>The encoding\<close>

definition tv_table_ok :: "tv_table \<Rightarrow> bool" where
  "tv_table_ok tv \<longleftrightarrow> (\<forall>t n. tv t = Some n \<longrightarrow> t < 128)"

definition tv_body :: "tv_table \<Rightarrow> tv_ie \<Rightarrow> bytes" where
  "tv_body tv i =
     (case tv (tv_Type i) of
        Some n \<Rightarrow> take n (tv_Payload i @ replicate n 0)
      | None \<Rightarrow> if tv_Type i < 128 then tv_Payload i else be16 (tv_Length i) @ tv_Payload i)"

definition tv_wire :: "tv_table \<Rightarrow> tv_ie \<Rightarrow> bytes" where
  "tv_wire tv i = tv_Type i # tv_body tv i"

definition tv_wf :: "tv_table \<Rightarrow> tv_ie \<Rightarrow> bool" where
  "tv_wf tv i =
     (case tv (tv_Type i) of
        Some n \<Rightarrow> 0 < n \<and> length (tv_Payload i) = n \<and> tv_Length i = 0
      | None \<Rightarrow> \<not> tv_Type i < 128 \<and> unat (tv_Length i) = length (tv_Payload i))"

lemma tv_wire_length [simp]: "length (tv_wire tv i) = tv_MarshalLen tv i"
  by (auto simp: tv_wire_def tv_body_def tv_MarshalLen_def min_def split: option.split)

lemma tv_wire_nonempty [simp]: "tv_wire tv i \<noteq> []"
  by (simp add: tv_wire_def)

text \<open>What \<open>MarshalTo\<close> writes into a buffer that starts with zeros.\<close>

lemma tv_MarshalTo_wire:
  assumes "tv_table_ok tv" "tv_MarshalLen tv i \<le> n"
  shows "tv_MarshalTo tv i (replicate n 0) = Inr (tv_wire tv i @ replicate (n - tv_MarshalLen tv i) 0)"
proof -
  from assms(2) tv_MarshalLen_pos [of tv i] obtain k where n: "n = Suc k" by (cases n) auto
  show ?thesis
  proof (cases "tv (tv_Type i)")
    case (Some l)
    with assms(1) have "tv_Type i < 128" by (auto simp: tv_table_ok_def)
    then show ?thesis
      using assms(2) Some
      by (simp add: n tv_MarshalTo_def tv_MarshalLen_def tv_wire_def tv_body_def IsTV_def
          write_at_def copy_at_def min_def replicate_add [symmetric] del: replicate_add)
  next
    case None
    show ?thesis
    proof (cases "tv_Type i < 128")
      case True
      then show ?thesis
        using assms(2) None
        by (simp add: n tv_MarshalTo_def tv_MarshalLen_def tv_wire_def tv_body_def IsTV_def
            write_at_def copy_at_def)
    next
      case False
      with assms(2) None have "3 \<le> n" by (simp add: tv_MarshalLen_def)
      then obtain m where m: "n = Suc (Suc (Suc m))" by (auto simp: numeral_eq_Suc Suc_le_eq dest!: less_imp_Suc_add)
      show ?thesis
        using assms(2) None False
        by (simp add: m tv_MarshalTo_def tv_MarshalLen_def tv_wire_def tv_body_def IsTV_def
            write_at_def copy_at_def be16_def drop_numeral_add del: drop_drop)
    qed
  qed
qed

lemma tv_Marshal_wire: "tv_table_ok tv \<Longrightarrow> tv_Marshal tv i = Inr (tv_wire tv i)"
  by (simp add: tv_Marshal_def tv_MarshalTo_wire)

lemma tv_Parse_wire:
  assumes "tv_table_ok tv" "tv_wf tv i"
  shows "tv_Parse tv (tv_wire tv i @ rest) = Inr i"
proof (cases "tv (tv_Type i)")
  case (Some n)
  with assms(1) have "tv_Type i < 128" by (auto simp: tv_table_ok_def)
  with Some assms(2) show ?thesis
    by (cases i)
       (auto simp: tv_Parse_def tv_UnmarshalBinary_def decodeTV_def tv_wire_def tv_body_def tv_wf_def
        IsTV_def tv_MarshalLen_def byte_at_def slice_def Let_def)
next
  case None
  with assms(2) show ?thesis
    by (cases i)
       (auto simp: tv_Parse_def tv_UnmarshalBinary_def decodeTLV_def tv_wire_def tv_body_def tv_wf_def
        IsTV_def byte_at_def get16_def slice_def Let_def be16_def)
qed

lemma tv_Parse_sound:
  assumes "tv_table_ok tv" "tv_Parse tv b = Inr i"
  shows "\<exists>rest. b = tv_wire tv i @ rest"
proof -
  from assms(2) have "2 \<le> length b" by (auto simp: tv_Parse_def tv_UnmarshalBinary_def split: if_splits)
  then obtain t x r where b: "b = t # x # r" by (rule two_cases)
  show ?thesis
  proof (cases "t < 128")
    case True
    with assms(2) have "b = tv_wire tv i @ drop (tv_MarshalLen tv i) b"
      by (auto simp: b tv_Parse_def tv_UnmarshalBinary_def decodeTV_def IsTV_def byte_at_def
          slice_def tv_wire_def tv_body_def tv_MarshalLen_def Let_def split: if_splits option.splits)
    then show ?thesis by blast
  next
    case False
    with assms have "tv t = None" by (cases "tv t") (auto simp: tv_table_ok_def)
    from assms(2) False have "3 \<le> length b"
      by (auto simp: b tv_Parse_def tv_UnmarshalBinary_def decodeTLV_def IsTV_def byte_at_def Let_def
          Suc_le_eq split: if_splits)
    then obtain y s where r: "r = y # s" by (cases r) (auto simp: b)
    from assms(2) False have "b = tv_wire tv i @ drop (tv_MarshalLen tv i) b"
      by (auto simp: b r tv_Parse_def tv_UnmarshalBinary_def decodeTLV_def IsTV_def byte_at_def
          get16_def slice_def tv_wire_def tv_body_def tv_MarshalLen_def Let_def \<open>tv t = None\<close>
          drop_numeral_add andThen_eq_Inr simp del: drop_drop split: if_splits)
    then show ?thesis by blast
  qed
qed

lemma tv_Parse_no_panic: "no_panic (tv_Parse tv b)"
proof (cases "2 \<le> length b")
  case True
  then obtain t x r where b: "b = t # x # r" by (rule two_cases)
  show ?thesis
    using tv_MarshalLen_pos [of tv "\<lparr>tv_Type = t, tv_Length = 0, tv_Payload = []\<rparr>"]
    by (auto simp: b tv_Parse_def tv_UnmarshalBinary_def decodeTV_def decodeTLV_def byte_at_def
        get16_def slice_def Let_def Suc_le_eq intro!: no_panic_andThen)
qed (simp add: tv_Parse_def tv_UnmarshalBinary_def)

lemma tv_Parse_errors:
  "tv_Parse tv b = Inl e \<Longrightarrow> no_panic (tv_Parse tv b) \<Longrightarrow>
     e \<in> {Error IEErrTooShortToParse, Error IEErrInvalidLength}"
  by (auto simp: tv_Parse_def tv_UnmarshalBinary_def decodeTV_def decodeTLV_def Let_def byte_at_def
      get16_def slice_def andThen_eq_Inl split: if_splits)

text \<open>The contract of \<open>IEStream\<close>, for every table; the versions interpret it with theirs.\<close>

lemma tv_decoder:
  assumes "tv_table_ok tv"
  shows "ie_decoder (tv_Parse tv) (tv_MarshalLen tv) (tv_wire tv) (tv_wf tv) (tv_ParseMultiIEs tv)"
proof unfold_locales
  show "tv_ParseMultiIEs tv b = (if b = [] then Inr []
      else andThen (tv_Parse tv b) (\<lambda>i. andThen (slice_from b (tv_MarshalLen tv i)) (\<lambda>r.
           andThen (tv_ParseMultiIEs tv r) (\<lambda>es. Inr (i # es)))))" for b
    by (subst tv_ParseMultiIEs.simps) simp
  show "\<exists>rest. b = tv_wire tv x @ rest \<and> tv_MarshalLen tv x = length (tv_wire tv x)"
    if "tv_Parse tv b = Inr x" for b x
    using tv_Parse_sound [OF assms that] by simp
qed (simp_all add: tv_Parse_wire assms tv_Parse_no_panic)

end
