(* ===== verification/V0IE.thy ===== *)
theory V0IE
  imports TVElement
begin

text \<open>
  The information elements of GTPv0 (\<open>src/gtpv0/ie/ie.go\<close>): the type numbers, the table of the TV
  lengths, the table of names, and the operations of \<open>TVElement\<close> with that table. The theory
  interprets the contract of \<open>IEStream\<close>.
\<close>

section \<open>Types\<close>

abbreviation v0_IE_Cause :: byte where "v0_IE_Cause \<equiv> 1"
abbreviation v0_IE_IMSI :: byte where "v0_IE_IMSI \<equiv> 2"
abbreviation v0_IE_RouteingAreaIdentity :: byte where "v0_IE_RouteingAreaIdentity \<equiv> 3"
abbreviation v0_IE_TemporaryLogicalLinkIdentity :: byte where "v0_IE_TemporaryLogicalLinkIdentity \<equiv> 4"
abbreviation v0_IE_PacketTMSI :: byte where "v0_IE_PacketTMSI \<equiv> 5"
abbreviation v0_IE_QualityOfServiceProfile :: byte where "v0_IE_QualityOfServiceProfile \<equiv> 6"
abbreviation v0_IE_ReorderingRequired :: byte where "v0_IE_ReorderingRequired \<equiv> 8"
abbreviation v0_IE_AuthenticationTriplet :: byte where "v0_IE_AuthenticationTriplet \<equiv> 9"
abbreviation v0_IE_MAPCause :: byte where "v0_IE_MAPCause \<equiv> 11"
abbreviation v0_IE_PTMSISignature :: byte where "v0_IE_PTMSISignature \<equiv> 12"
abbreviation v0_IE_MSValidated :: byte where "v0_IE_MSValidated \<equiv> 13"
abbreviation v0_IE_Recovery :: byte where "v0_IE_Recovery \<equiv> 14"
abbreviation v0_IE_SelectionMode :: byte where "v0_IE_SelectionMode \<equiv> 15"
abbreviation v0_IE_FlowLabelDataI :: byte where "v0_IE_FlowLabelDataI \<equiv> 16"
abbreviation v0_IE_FlowLabelSignalling :: byte where "v0_IE_FlowLabelSignalling \<equiv> 17"
abbreviation v0_IE_FlowLabelDataII :: byte where "v0_IE_FlowLabelDataII \<equiv> 18"
abbreviation v0_IE_MSNotReachableReason :: byte where "v0_IE_MSNotReachableReason \<equiv> 19"
abbreviation v0_IE_ChargingID :: byte where "v0_IE_ChargingID \<equiv> 127"
abbreviation v0_IE_EndUserAddress :: byte where "v0_IE_EndUserAddress \<equiv> 128"
abbreviation v0_IE_MMContext :: byte where "v0_IE_MMContext \<equiv> 129"
abbreviation v0_IE_PDPContext :: byte where "v0_IE_PDPContext \<equiv> 130"
abbreviation v0_IE_AccessPointName :: byte where "v0_IE_AccessPointName \<equiv> 131"
abbreviation v0_IE_ProtocolConfigurationOptions :: byte where "v0_IE_ProtocolConfigurationOptions \<equiv> 132"
abbreviation v0_IE_GSNAddress :: byte where "v0_IE_GSNAddress \<equiv> 133"
abbreviation v0_IE_MSISDN :: byte where "v0_IE_MSISDN \<equiv> 134"
abbreviation v0_IE_ChargingGatewayAddress :: byte where "v0_IE_ChargingGatewayAddress \<equiv> 251"
abbreviation v0_IE_PrivateExtension :: byte where "v0_IE_PrivateExtension \<equiv> 255"

definition v0_tvLengthMap :: "(byte \<times> nat) list" where
  "v0_tvLengthMap = [
     (0, 0), (1, 1), (2, 8), (3, 6), (4, 4), (5, 4), (6, 3), (8, 1), (9, 28), (11, 1), (12, 3),
     (13, 1), (14, 1), (15, 1), (16, 2), (17, 2), (18, 3), (19, 1), (127, 4)]"

abbreviation v0_tv :: tv_table where
  "v0_tv \<equiv> map_of v0_tvLengthMap"

definition v0_ieTypeNameMap :: "(byte \<times> string) list" where
  "v0_ieTypeNameMap = [
     (1, ''Cause''), (2, ''IMSI''), (3, ''RouteingAreaIdentity''),
     (4, ''TemporaryLogicalLinkIdentity''), (5, ''PacketTMSI''),
     (6, ''QualityOfServiceProfile''), (8, ''ReorderingRequired''),
     (9, ''AuthenticationTriplet''), (11, ''MAPCause''), (12, ''PTMSISignature''),
     (13, ''MSValidated''), (14, ''Recovery''), (15, ''SelectionMode''),
     (16, ''FlowLabelDataI''), (17, ''FlowLabelSignalling''), (18, ''FlowLabelDataII''),
     (19, ''MSNotReachableReason''), (127, ''ChargingID''), (128, ''EndUserAddress''),
     (129, ''MMContext''), (130, ''PDPContext''), (131, ''AccessPointName''),
     (132, ''ProtocolConfigurationOptions''), (133, ''GSNAddress''), (134, ''MSISDN''),
     (251, ''ChargingGatewayAddress''), (255, ''PrivateExtension'')]"

definition v0_Name :: "tv_ie \<Rightarrow> string" where
  "v0_Name i = (case map_of v0_ieTypeNameMap (tv_Type i) of Some n \<Rightarrow> n | None \<Rightarrow> ''Undefined'')"

section \<open>Operations\<close>

definition v0_New :: "byte \<Rightarrow> bytes \<Rightarrow> tv_ie" where
  "v0_New = tv_New v0_tv"

definition v0_newUint8ValIE :: "byte \<Rightarrow> byte \<Rightarrow> tv_ie" where
  "v0_newUint8ValIE t v = v0_New t [v]"

definition v0_newUint16ValIE :: "byte \<Rightarrow> u16 \<Rightarrow> tv_ie" where
  "v0_newUint16ValIE t v = v0_New t (be16 v)"

definition v0_newUint32ValIE :: "byte \<Rightarrow> u32 \<Rightarrow> tv_ie" where
  "v0_newUint32ValIE t v = v0_New t (be32 v)"

definition v0_ie_MarshalLen :: "tv_ie \<Rightarrow> nat" where
  "v0_ie_MarshalLen = tv_MarshalLen v0_tv"

definition v0_ie_SetLength :: "tv_ie \<Rightarrow> tv_ie" where
  "v0_ie_SetLength = tv_SetLength v0_tv"

definition v0_ie_MarshalTo :: "tv_ie \<Rightarrow> bytes \<Rightarrow> bytes result" where
  "v0_ie_MarshalTo = tv_MarshalTo v0_tv"

definition v0_ie_Marshal :: "tv_ie \<Rightarrow> bytes result" where
  "v0_ie_Marshal = tv_Marshal v0_tv"

definition v0_ie_UnmarshalBinary :: "bytes \<Rightarrow> tv_ie result" where
  "v0_ie_UnmarshalBinary = tv_UnmarshalBinary v0_tv"

definition v0_ie_Parse :: "bytes \<Rightarrow> tv_ie result" where
  "v0_ie_Parse = tv_Parse v0_tv"

definition v0_ie_ParseMultiIEs :: "bytes \<Rightarrow> tv_ie list result" where
  "v0_ie_ParseMultiIEs = tv_ParseMultiIEs v0_tv"

lemma v0_table_ok: "tv_table_ok v0_tv"
  by (auto simp: tv_table_ok_def v0_tvLengthMap_def split: if_splits)

interpretation v0ies: ie_decoder v0_ie_Parse v0_ie_MarshalLen "tv_wire v0_tv" "tv_wf v0_tv" v0_ie_ParseMultiIEs
  unfolding v0_ie_Parse_def v0_ie_MarshalLen_def v0_ie_ParseMultiIEs_def
  by (rule tv_decoder [OF v0_table_ok])

lemma v0_New_sel [simp]: "tv_Type (v0_New t p) = t" "tv_Payload (v0_New t p) = p"
  by (simp_all add: v0_New_def tv_New_def tv_SetLength_def split: option.split)

end
