(* ===== verification/TVMessage.thy ===== *)
theory TVMessage
  imports TVElement
begin

text \<open>
  What the message types of \<open>src/gtpv0/message\<close> and \<open>src/gtpv1/message\<close> share. As in version 2 a
  message is a struct of a header, fields of type \<open>*ie.IE\<close> and \<open>AdditionalIEs\<close>, with the same
  methods written out for each type; here the switch looks at the type only, and where a type may
  stand for several fields the element goes to the first of them that is still nil.

  The operations are defined over a \<open>codec\<close>, the part of a header they use together with the
  table of the elements. \<open>tv_codec\<close> is the contract a header has to meet, \<open>tv_layout\<close> the one of a
  message type; the round trip is proved once from the two.
\<close>

section \<open>Messages and the switch\<close>

text \<open>
  \<open>Place ss final\<close>: the first field of \<open>ss\<close> that is nil; when there is none, what \<open>final\<close> says: a
  field is overwritten (\<open>Into s\<close>), the element is appended to \<open>AdditionalIEs\<close> (\<open>Appended\<close>), or, where
  the chain of conditionals has no last branch, dropped (\<open>Lost\<close>).
\<close>

datatype 's overflow = Into 's | Appended | Lost

datatype 's place = Place "'s list" "'s overflow"

abbreviation Slot1 :: "'s \<Rightarrow> 's place" where
  "Slot1 s \<equiv> Place [] (Into s)"

abbreviation Rest :: "'s place" where
  "Rest \<equiv> Place [] Appended"

type_synonym 's tv_switch = "byte \<Rightarrow> 's place"

record ('h, 's) tv_msg =
  t_Header :: 'h
  t_field :: "'s \<Rightarrow> tv_ie option"
  t_AdditionalIEs :: "tv_ie list"

record 'h codec =
  cd_table :: tv_table
  cd_fixed :: nat
  cd_MarshalLen :: "'h \<Rightarrow> nat"
  cd_Payload :: "'h \<Rightarrow> bytes"
  cd_SetPayload :: "bytes \<Rightarrow> 'h \<Rightarrow> 'h"
  cd_SetLength :: "'h \<Rightarrow> 'h"
  cd_PutLength :: "u16 \<Rightarrow> 'h \<Rightarrow> 'h"
  cd_MarshalTo :: "'h \<Rightarrow> bytes \<Rightarrow> bytes result"
  cd_Parse :: "bytes \<Rightarrow> 'h result"

definition tvm_empty :: "'h \<Rightarrow> ('h, 's) tv_msg" where
  "tvm_empty h = \<lparr>t_Header = h, t_field = (\<lambda>_. None), t_AdditionalIEs = []\<rparr>"

definition tvm_store :: "'s tv_switch \<Rightarrow> tv_ie \<Rightarrow> ('h, 's) tv_msg \<Rightarrow> ('h, 's) tv_msg" where
  "tvm_store D i m =
     (case D (tv_Type i) of Place ss final \<Rightarrow>
        (case find (\<lambda>s. t_field m s = None) ss of
           Some s \<Rightarrow> m\<lparr>t_field := (t_field m)(s := Some i)\<rparr>
         | None \<Rightarrow>
             (case final of
                Into s \<Rightarrow> m\<lparr>t_field := (t_field m)(s := Some i)\<rparr>
              | Appended \<Rightarrow> m\<lparr>t_AdditionalIEs := t_AdditionalIEs m @ [i]\<rparr>
              | Lost \<Rightarrow> m)))"

definition tvm_present :: "'s list \<Rightarrow> ('h, 's) tv_msg \<Rightarrow> tv_ie list" where
  "tvm_present order m = List.map_filter (t_field m) order @ t_AdditionalIEs m"

definition tvm_MarshalLen :: "'h codec \<Rightarrow> 's list \<Rightarrow> ('h, 's) tv_msg \<Rightarrow> nat" where
  "tvm_MarshalLen cd order m =
     cd_MarshalLen cd (t_Header m) - length (cd_Payload cd (t_Header m)) +
     sum_list (map (tv_MarshalLen (cd_table cd)) (tvm_present order m))"

definition tvm_SetLength :: "'h codec \<Rightarrow> 's list \<Rightarrow> ('h, 's) tv_msg \<Rightarrow> ('h, 's) tv_msg" where
  "tvm_SetLength cd order m =
     m\<lparr>t_Header := cd_PutLength cd (of_nat (tvm_MarshalLen cd order m - cd_fixed cd)) (t_Header m)\<rparr>"

text \<open>The constructor skips nil elements, \<open>None\<close> in the model.\<close>

definition tvm_New ::
  "'h codec \<Rightarrow> 's tv_switch \<Rightarrow> 's list \<Rightarrow> 'h \<Rightarrow> tv_ie option list \<Rightarrow> ('h, 's) tv_msg" where
  "tvm_New cd D order h ies =
     tvm_SetLength cd order (fold (tvm_store D) (List.map_filter id ies) (tvm_empty h))"

fun tvm_write :: "tv_table \<Rightarrow> tv_ie list \<Rightarrow> nat \<Rightarrow> bytes \<Rightarrow> bytes result" where
  "tvm_write tv [] offset payload = Inr payload"
| "tvm_write tv (i # ies) offset payload =
     andThen (slice_from payload offset) (\<lambda>s.
     andThen (tv_MarshalTo tv i s) (\<lambda>s'.
       tvm_write tv ies (offset + tv_MarshalLen tv i) (take offset payload @ s')))"

text \<open>
  \<open>MarshalTo\<close> makes the payload of the header anew, so the message is returned as well. Some of the
  message types compare the length of the buffer first (\<open>checked\<close>), the others leave it to the
  header. Most set the payload of the header to nil before they ask for its length (\<open>clears\<close>); on
  the others the payload that is still there is subtracted from what the elements need: \<open>make\<close>
  panics on a negative length, and otherwise the new payload is too short for the elements.
\<close>

definition tvm_MarshalTo ::
  "'h codec \<Rightarrow> bool \<Rightarrow> bool \<Rightarrow> 's list \<Rightarrow> 's list \<Rightarrow> ('h, 's) tv_msg \<Rightarrow> bytes \<Rightarrow>
     (bytes \<times> ('h, 's) tv_msg) result" where
  "tvm_MarshalTo cd checked clears order lens m b =
     (if checked \<and> length b < tvm_MarshalLen cd lens m then Inl (Error MsgErrTooShortToMarshal)
      else
        let h0 = (if clears then cd_SetPayload cd [] (t_Header m) else t_Header m);
            len = tvm_MarshalLen cd lens (m\<lparr>t_Header := h0\<rparr>)
        in if len < cd_MarshalLen cd h0 then Inl (Panic MakeSliceLenOutOfRange)
        else andThen (tvm_write (cd_table cd) (tvm_present order m) 0 (replicate (len - cd_MarshalLen cd h0) 0)) (\<lambda>payload.
           let h = cd_SetLength cd (cd_SetPayload cd payload h0)
           in andThen (cd_MarshalTo cd h b) (\<lambda>b'. Inr (b', m\<lparr>t_Header := h\<rparr>))))"

definition tvm_Marshal ::
  "'h codec \<Rightarrow> bool \<Rightarrow> bool \<Rightarrow> 's list \<Rightarrow> 's list \<Rightarrow> ('h, 's) tv_msg \<Rightarrow> (bytes \<times> ('h, 's) tv_msg) result" where
  "tvm_Marshal cd checked clears order lens m =
     tvm_MarshalTo cd checked clears order lens m (replicate (tvm_MarshalLen cd lens m) 0)"

text \<open>
  Most \<open>UnmarshalBinary\<close> (\<open>lenient\<close>) do not look at a payload of fewer than two bytes.
\<close>

definition tvm_UnmarshalBinary ::
  "'h codec \<Rightarrow> bool \<Rightarrow> 's tv_switch \<Rightarrow> bytes \<Rightarrow> ('h, 's) tv_msg result" where
  "tvm_UnmarshalBinary cd lenient D b =
     andThen (cd_Parse cd b) (\<lambda>h.
     if lenient \<and> length (cd_Payload cd h) < 2 then Inr (tvm_empty h)
     else
       andThen (tv_ParseMultiIEs (cd_table cd) (cd_Payload cd h)) (\<lambda>ies.
         Inr (fold (tvm_store D) ies (tvm_empty h))))"

section \<open>Writing the elements\<close>

lemma tvm_write_wire:
  assumes "tv_table_ok tv"
  shows "offset = length pre \<Longrightarrow> sum_list (map (tv_MarshalLen tv) ies) \<le> n \<Longrightarrow>
     tvm_write tv ies offset (pre @ replicate n 0) =
       Inr (pre @ concat (map (tv_wire tv) ies) @ replicate (n - sum_list (map (tv_MarshalLen tv) ies)) 0)"
proof (induction ies arbitrary: offset pre n)
  case Nil
  then show ?case by simp
next
  case (Cons i ies)
  let ?n = "n - tv_MarshalLen tv i"
  have "tv_MarshalTo tv i (replicate n 0) = Inr (tv_wire tv i @ replicate ?n 0)"
    using Cons.prems by (intro tv_MarshalTo_wire [OF assms]) simp
  then have "tvm_write tv (i # ies) offset (pre @ replicate n 0) =
      tvm_write tv ies (offset + tv_MarshalLen tv i) ((pre @ tv_wire tv i) @ replicate ?n 0)"
    using Cons.prems(1) by (simp add: slice_from_append)
  also have "\<dots> = Inr ((pre @ tv_wire tv i) @ concat (map (tv_wire tv) ies) @
      replicate (?n - sum_list (map (tv_MarshalLen tv) ies)) 0)"
    using Cons.prems by (intro Cons.IH) simp_all
  finally show ?case by simp
qed

text \<open>A payload that is too short for the elements makes one of them fail.\<close>

lemma tvm_write_short:
  assumes "tv_table_ok tv"
  shows "offset = length pre \<Longrightarrow> n < sum_list (map (tv_MarshalLen tv) ies) \<Longrightarrow>
     tvm_write tv ies offset (pre @ replicate n 0) = Inl (Error IEErrTooShortToMarshal)"
proof (induction ies arbitrary: offset pre n)
  case Nil
  then show ?case by simp
next
  case (Cons i ies)
  show ?case
  proof (cases "n < tv_MarshalLen tv i")
    case True
    then show ?thesis using Cons.prems(1) by (simp add: slice_from_append tv_MarshalTo_def)
  next
    case False
    then have "tv_MarshalTo tv i (replicate n 0) = Inr (tv_wire tv i @ replicate (n - tv_MarshalLen tv i) 0)"
      by (intro tv_MarshalTo_wire [OF assms]) simp
    then have "tvm_write tv (i # ies) offset (pre @ replicate n 0) =
        tvm_write tv ies (offset + tv_MarshalLen tv i) ((pre @ tv_wire tv i) @ replicate (n - tv_MarshalLen tv i) 0)"
      using Cons.prems(1) by (simp add: slice_from_append)
    also have "\<dots> = Inl (Error IEErrTooShortToMarshal)"
      using Cons.prems False by (intro Cons.IH) simp_all
    finally show ?thesis .
  qed
qed

lemma tv_sum_wire: "length (concat (map (tv_wire tv) ies)) = sum_list (map (tv_MarshalLen tv) ies)"
  by (simp add: length_concat comp_def)

lemma tv_sum_map_filter:
  "distinct xs \<Longrightarrow> sum_list (map g (List.map_filter f xs)) =
     (\<Sum>x \<in> set xs. case f x of None \<Rightarrow> 0 | Some y \<Rightarrow> (g y :: nat))"
  by (induction xs) (simp_all add: map_filter_simps split: option.splits)

lemma tvm_present_header [simp]: "tvm_present order (m\<lparr>t_Header := h\<rparr>) = tvm_present order m"
  by (simp add: tvm_present_def)

lemma tvm_store_header [simp]: "t_Header (tvm_store D i m) = t_Header m"
  by (simp add: tvm_store_def split: place.split option.split overflow.split)

lemma tvm_fold_header [simp]: "t_Header (fold (tvm_store D) ies m) = t_Header m"
  by (induction ies arbitrary: m) simp_all

section \<open>Well-formed messages\<close>

text \<open>
  Every field holds an element the switch can send there, the fields tried before it are taken,
  and an additional element is one that finds all its fields taken.
\<close>

definition filled_before :: "('s \<Rightarrow> tv_ie option) \<Rightarrow> 's list \<Rightarrow> 's \<Rightarrow> bool" where
  "filled_before f ss s \<longleftrightarrow> (\<forall>r \<in> set (takeWhile (\<lambda>x. x \<noteq> s) ss). f r \<noteq> None)"

definition tvm_ok :: "tv_table \<Rightarrow> 's tv_switch \<Rightarrow> ('h, 's) tv_msg \<Rightarrow> bool" where
  "tvm_ok tv D m \<longleftrightarrow>
     (\<forall>s i. t_field m s = Some i \<longrightarrow> tv_wf tv i \<and>
        (case D (tv_Type i) of Place ss final \<Rightarrow>
           (s \<in> set ss \<or> final = Into s) \<and> filled_before (t_field m) ss s)) \<and>
     (\<forall>i \<in> set (t_AdditionalIEs m). tv_wf tv i \<and>
        (case D (tv_Type i) of Place ss final \<Rightarrow> final = Appended \<and> (\<forall>s \<in> set ss. t_field m s \<noteq> None)))"

text \<open>
  The order of \<open>MarshalTo\<close> agrees with a switch when it has all the fields, each once, those of
  one element type in the order in which the switch fills them.
\<close>

definition place_ok :: "'s list \<Rightarrow> 's place \<Rightarrow> bool" where
  "place_ok order p =
     (case p of Place ss final \<Rightarrow>
        (let all = ss @ (case final of Into s \<Rightarrow> [s] | _ \<Rightarrow> []) in
         distinct all \<and> set all \<subseteq> set order \<and>
         sorted_wrt (\<lambda>a b. a \<in> set (takeWhile (\<lambda>x. x \<noteq> b) order)) all))"

lemma place_ok_Slot1 [simp]: "place_ok order (Slot1 s) = (s \<in> set order)"
  by (simp add: place_ok_def)

lemma place_ok_Rest [simp]: "place_ok order Rest"
  by (simp add: place_ok_def)

locale tv_layout =
  fixes D :: "'s tv_switch" and order :: "'s list" and lens :: "'s list"
  assumes order_distinct: "distinct order"
    and lens_distinct: "distinct lens"
    and order_lens: "set order = set lens"
    and placed: "place_ok order (D t)"
begin

lemma present_lens:
  "sum_list (map g (tvm_present lens m)) = (sum_list (map g (tvm_present order m)) :: nat)"
  by (simp add: tvm_present_def tv_sum_map_filter order_distinct lens_distinct order_lens)

lemma MarshalLen_lens: "tvm_MarshalLen cd lens m = tvm_MarshalLen cd order m"
  by (simp add: tvm_MarshalLen_def present_lens)

text \<open>Storing the elements of a well-formed message in the order of \<open>MarshalTo\<close> gives it back.\<close>

definition stored :: "'h \<Rightarrow> ('s \<Rightarrow> tv_ie option) \<Rightarrow> 's list \<Rightarrow> ('h, 's) tv_msg" where
  "stored h f p = \<lparr>t_Header = h, t_field = (\<lambda>s. if s \<in> set p then f s else None), t_AdditionalIEs = []\<rparr>"

lemma takeWhile_before:
  "s \<notin> set us \<Longrightarrow> takeWhile (\<lambda>x. x \<noteq> s) (us @ s # vs) = us"
  "s \<notin> set us \<Longrightarrow> takeWhile (\<lambda>x. x \<noteq> s) us = us"
  by (induction us) auto

lemma okD:
  "tvm_ok tv D m \<Longrightarrow> t_field m s = Some i \<Longrightarrow> D (tv_Type i) = Place ss fin \<Longrightarrow>
     (s \<in> set ss \<or> fin = Into s) \<and> filled_before (t_field m) ss s"
  "tvm_ok tv D m \<Longrightarrow> j \<in> set (t_AdditionalIEs m) \<Longrightarrow> D (tv_Type j) = Place ss fin \<Longrightarrow>
     fin = Appended \<and> (\<forall>r \<in> set ss. t_field m r \<noteq> None)"
  unfolding tvm_ok_def by fastforce+

lemma find_first_free:
  "\<forall>r \<in> set us. g r \<noteq> None \<Longrightarrow> g s = None \<Longrightarrow> find (\<lambda>x. g x = None) (us @ s # vs) = Some s"
  "\<forall>r \<in> set us. g r \<noteq> None \<Longrightarrow> find (\<lambda>x. g x = None) us = None"
  by (induction us) auto

lemma store_step:
  assumes ok: "tvm_ok tv D m" and order: "order = p @ s # q" and s: "t_field m s = Some i"
  shows "tvm_store D i (stored h (t_field m) p) = stored h (t_field m) (p @ [s])"
proof -
  let ?f = "t_field m" and ?g = "t_field (stored h (t_field m) p)"
  obtain ss fin where D: "D (tv_Type i) = Place ss fin" by (cases "D (tv_Type i)")
  have sp: "s \<notin> set p" using order_distinct by (simp add: order)
  then have before: "takeWhile (\<lambda>x. x \<noteq> s) order = p"
    unfolding order by (rule takeWhile_before)
  have mem: "s \<in> set ss \<or> fin = Into s" and fill: "filled_before ?f ss s"
    using okD(1) [OF ok s D] by simp_all
  have sorted: "sorted_wrt (\<lambda>a b. a \<in> set (takeWhile (\<lambda>x. x \<noteq> b) order))
      (ss @ (case fin of Into s \<Rightarrow> [s] | _ \<Rightarrow> []))"
    using placed [of "tv_Type i"] by (simp add: D place_ok_def Let_def)
  have g: "?g r = (if r \<in> set p then ?f r else None)" for r by (simp add: stored_def)
  show ?thesis
  proof (cases "s \<in> set ss")
    case True
    then obtain us vs where ss: "ss = us @ s # vs" "s \<notin> set us" by (meson split_list_first)
    then have "takeWhile (\<lambda>x. x \<noteq> s) ss = us" by (simp add: takeWhile_before)
    with fill have "\<forall>r \<in> set us. ?f r \<noteq> None" by (simp add: filled_before_def)
    moreover have "set us \<subseteq> set p"
      using sorted unfolding ss by (auto simp: sorted_wrt_append before)
    ultimately have "find (\<lambda>x. ?g x = None) ss = Some s"
      unfolding ss by (intro find_first_free) (use sp g in auto)
    then show ?thesis using s by (auto simp: tvm_store_def D) (auto simp: stored_def fun_eq_iff)
  next
    case False
    with mem have fin: "fin = Into s" by simp
    have "takeWhile (\<lambda>x. x \<noteq> s) ss = ss" using False by (rule takeWhile_before)
    with fill have "\<forall>r \<in> set ss. ?f r \<noteq> None" by (simp add: filled_before_def)
    moreover have "set ss \<subseteq> set p"
      using sorted by (auto simp: fin sorted_wrt_append before)
    ultimately have "find (\<lambda>x. ?g x = None) ss = None"
      by (intro find_first_free) (use g in auto)
    then show ?thesis using s fin by (auto simp: tvm_store_def D) (auto simp: stored_def fun_eq_iff)
  qed
qed

lemma store_fields:
  assumes "tvm_ok tv D m"
  shows "order = p @ q \<Longrightarrow> fold (tvm_store D) (List.map_filter (t_field m) q) (stored h (t_field m) p) =
     stored h (t_field m) (p @ q)"
proof (induction q arbitrary: p)
  case Nil
  then show ?case by (simp add: map_filter_simps)
next
  case (Cons s q)
  have IH: "fold (tvm_store D) (List.map_filter (t_field m) q) (stored h (t_field m) (p @ [s])) =
      stored h (t_field m) (p @ s # q)"
    using Cons.IH [of "p @ [s]"] Cons.prems by simp
  show ?case
  proof (cases "t_field m s")
    case None
    then have "stored h (t_field m) (p @ [s]) = stored h (t_field m) p"
      by (auto simp: stored_def fun_eq_iff)
    with IH None show ?thesis by (simp add: map_filter_simps)
  next
    case (Some i)
    with IH store_step [OF assms Cons.prems Some, of h] show ?thesis by (simp add: map_filter_simps)
  qed
qed

lemma store_additional:
  "(\<And>i ss fin. i \<in> set ies \<Longrightarrow> D (tv_Type i) = Place ss fin \<Longrightarrow>
       fin = Appended \<and> (\<forall>s \<in> set ss. t_field m s \<noteq> None)) \<Longrightarrow>
     fold (tvm_store D) ies m = m\<lparr>t_AdditionalIEs := t_AdditionalIEs m @ ies\<rparr>"
proof (induction ies arbitrary: m)
  case (Cons i ies)
  let ?m = "m\<lparr>t_AdditionalIEs := t_AdditionalIEs m @ [i]\<rparr>"
  obtain ss fin where "D (tv_Type i) = Place ss fin" by (cases "D (tv_Type i)")
  with Cons.prems [of i ss fin] have D: "D (tv_Type i) = Place ss Appended" "\<forall>s \<in> set ss. t_field m s \<noteq> None"
    by simp_all
  have "tvm_store D i m = m\<lparr>t_AdditionalIEs := t_AdditionalIEs m @ [i]\<rparr>"
    by (simp add: tvm_store_def D find_first_free(2))
  moreover have "fold (tvm_store D) ies ?m = ?m\<lparr>t_AdditionalIEs := t_AdditionalIEs ?m @ ies\<rparr>"
  proof (rule Cons.IH)
    fix j ss fin assume "j \<in> set ies" "D (tv_Type j) = Place ss fin"
    then show "fin = Appended \<and> (\<forall>s \<in> set ss. t_field ?m s \<noteq> None)" using Cons.prems [of j ss fin] by simp
  qed
  ultimately show ?case by simp
qed simp

lemma field_order: "tvm_ok tv D m \<Longrightarrow> t_field m s \<noteq> None \<Longrightarrow> s \<in> set order"
proof -
  assume ok: "tvm_ok tv D m" and "t_field m s \<noteq> None"
  then obtain i where i: "t_field m s = Some i" by auto
  obtain ss fin where D: "D (tv_Type i) = Place ss fin" by (cases "D (tv_Type i)")
  have "s \<in> set ss \<or> fin = Into s" using okD(1) [OF ok i D] by simp
  with D placed [of "tv_Type i"] show ?thesis by (auto simp: place_ok_def Let_def)
qed

lemma store_present:
  assumes "tvm_ok tv D m"
  shows "fold (tvm_store D) (tvm_present order m) (tvm_empty h) = m\<lparr>t_Header := h\<rparr>"
proof -
  have "stored h (t_field m) [] = tvm_empty h" by (simp add: stored_def tvm_empty_def)
  then have "fold (tvm_store D) (List.map_filter (t_field m) order) (tvm_empty h) = stored h (t_field m) order"
    using store_fields [OF assms, of "[]" order h] by simp
  moreover have "t_field (stored h (t_field m) order) = t_field m"
    using field_order [OF assms] by (force simp: stored_def fun_eq_iff)
  moreover have "fold (tvm_store D) (t_AdditionalIEs m) (stored h (t_field m) order) =
      (stored h (t_field m) order)\<lparr>t_AdditionalIEs := t_AdditionalIEs m\<rparr>"
    using okD(2) [OF assms] calculation(2)
    by (subst store_additional) (auto simp: stored_def)
  ultimately show ?thesis
    by (simp add: tvm_present_def) (auto simp: stored_def intro!: tv_msg.equality)
qed

end

text \<open>Wrapping what the methods of one type return into a value of the type of all messages.\<close>

definition parsed_as :: "('a \<Rightarrow> 'm) \<Rightarrow> 'a result \<Rightarrow> 'm result" where
  "parsed_as c r = andThen r (\<lambda>m. Inr (c m))"

definition written_as :: "('a \<Rightarrow> 'm) \<Rightarrow> (bytes \<times> 'a) result \<Rightarrow> (bytes \<times> 'm) result" where
  "written_as c r = andThen r (\<lambda>(b, m). Inr (b, c m))"

lemma as_simps [simp]:
  "parsed_as c (Inr m) = Inr (c m)" "parsed_as c (Inl e) = Inl e"
  "written_as c (Inr (b, m)) = Inr (b, c m)" "written_as c (Inl e) = Inl e"
  by (simp_all add: parsed_as_def written_as_def)

lemma written_as_total:
  "\<exists>w m'. r = Inr (w, m') \<and> length w = n \<Longrightarrow> \<exists>w M'. written_as C r = Inr (w, M') \<and> length w = n"
  by auto

lemma no_panic_parsed_as [simp]: "no_panic (parsed_as c r) = no_panic r"
  by (cases r) simp_all

section \<open>Generic messages\<close>

text \<open>
  \<open>Generic\<close> of both versions holds any elements, nil ones among them, and has no fields of its own.
\<close>

record 'h tv_generic =
  tg_Header :: 'h
  tg_IEs :: "tv_ie option list"

definition tvg_MarshalLen :: "'h codec \<Rightarrow> 'h tv_generic \<Rightarrow> nat" where
  "tvg_MarshalLen cd g =
     cd_MarshalLen cd (tg_Header g) - length (cd_Payload cd (tg_Header g)) +
     sum_list (map (tv_MarshalLen (cd_table cd)) (List.map_filter id (tg_IEs g)))"

definition tvg_SetLength :: "'h codec \<Rightarrow> 'h tv_generic \<Rightarrow> 'h tv_generic" where
  "tvg_SetLength cd g =
     g\<lparr>tg_Header := cd_PutLength cd (of_nat (tvg_MarshalLen cd g - cd_fixed cd)) (tg_Header g)\<rparr>"

definition tvg_AddIE :: "'h codec \<Rightarrow> tv_ie option list \<Rightarrow> 'h tv_generic \<Rightarrow> 'h tv_generic" where
  "tvg_AddIE cd ies g = tvg_SetLength cd (g\<lparr>tg_IEs := tg_IEs g @ ies\<rparr>)"

definition tvg_MarshalTo :: "'h codec \<Rightarrow> 'h tv_generic \<Rightarrow> bytes \<Rightarrow> (bytes \<times> 'h tv_generic) result" where
  "tvg_MarshalTo cd g b =
     (let h0 = cd_SetPayload cd [] (tg_Header g);
          n = tvg_MarshalLen cd (g\<lparr>tg_Header := h0\<rparr>) - cd_MarshalLen cd h0
      in andThen (tvm_write (cd_table cd) (List.map_filter id (tg_IEs g)) 0 (replicate n 0)) (\<lambda>payload.
         let h = cd_SetLength cd (cd_SetPayload cd payload h0)
         in andThen (cd_MarshalTo cd h b) (\<lambda>b'. Inr (b', g\<lparr>tg_Header := h\<rparr>))))"

definition tvg_Marshal :: "'h codec \<Rightarrow> 'h tv_generic \<Rightarrow> (bytes \<times> 'h tv_generic) result" where
  "tvg_Marshal cd g = tvg_MarshalTo cd g (replicate (tvg_MarshalLen cd g) 0)"

definition tvg_UnmarshalBinary :: "'h codec \<Rightarrow> bytes \<Rightarrow> 'h tv_generic result" where
  "tvg_UnmarshalBinary cd b =
     andThen (cd_Parse cd b) (\<lambda>h.
     if length (cd_Payload cd h) < 2 then Inr \<lparr>tg_Header = h, tg_IEs = []\<rparr>
     else
       andThen (tv_ParseMultiIEs (cd_table cd) (cd_Payload cd h)) (\<lambda>ies.
         Inr \<lparr>tg_Header = h, tg_IEs = map Some ies\<rparr>))"

text \<open>A generic message behaves as a message whose switch keeps every element.\<close>

definition rest_switch :: "unit tv_switch" where
  "rest_switch t = Rest"

definition as_msg :: "'h tv_generic \<Rightarrow> ('h, unit) tv_msg" where
  "as_msg g = \<lparr>t_Header = tg_Header g, t_field = (\<lambda>_. None), t_AdditionalIEs = List.map_filter id (tg_IEs g)\<rparr>"

definition of_msg :: "('h, unit) tv_msg \<Rightarrow> 'h tv_generic" where
  "of_msg m = \<lparr>tg_Header = t_Header m, tg_IEs = map Some (t_AdditionalIEs m)\<rparr>"

interpretation rest: tv_layout rest_switch "[]" "[]"
  by unfold_locales (simp_all add: rest_switch_def)

lemma map_filter_Some [simp]: "List.map_filter id (map Some xs) = xs"
  by (induction xs) (simp_all add: map_filter_simps)

lemma tvg_MarshalLen_msg: "tvg_MarshalLen cd g = tvm_MarshalLen cd [] (as_msg g)"
  by (simp add: tvg_MarshalLen_def tvm_MarshalLen_def as_msg_def tvm_present_def map_filter_simps)

lemma tvg_Marshal_msg:
  "tvm_Marshal cd False True [] [] (as_msg g) = Inr (w, m') \<Longrightarrow>
     tvg_Marshal cd g = Inr (w, g\<lparr>tg_Header := t_Header m'\<rparr>)"
  by (auto simp: tvg_Marshal_def tvm_Marshal_def tvg_MarshalTo_def tvm_MarshalTo_def Let_def
      tvg_MarshalLen_msg andThen_eq_Inr as_msg_def tvm_present_def map_filter_simps split: if_splits)

lemma fold_rest:
  "fold (tvm_store rest_switch) ies m = m\<lparr>t_AdditionalIEs := t_AdditionalIEs m @ ies\<rparr>"
  by (induction ies arbitrary: m) (simp_all add: tvm_store_def rest_switch_def)

lemma tvg_Unmarshal_msg:
  "tvg_UnmarshalBinary cd b = andThen (tvm_UnmarshalBinary cd True rest_switch b) (\<lambda>m. Inr (of_msg m))"
proof (cases "cd_Parse cd b")
  case (Inr h)
  show ?thesis
    by (cases "tv_ParseMultiIEs (cd_table cd) (cd_Payload cd h)")
       (simp_all add: tvg_UnmarshalBinary_def tvm_UnmarshalBinary_def Inr of_msg_def tvm_empty_def fold_rest)
qed (simp add: tvg_UnmarshalBinary_def tvm_UnmarshalBinary_def)

section \<open>The contract of a header\<close>

text \<open>
  \<open>wire\<close> are the bytes of a header, \<open>sound h\<close> holds of those whose fields fit, \<open>seen h\<close> is what the
  decoder makes of it, given bytes \<open>rest\<close> after it that it accepts.
\<close>

locale tv_codec =
  fixes cd :: "'h codec" and wire :: "'h \<Rightarrow> bytes" and sound :: "'h \<Rightarrow> bool"
    and seen :: "'h \<Rightarrow> 'h" and accepts :: "bytes \<Rightarrow> bytes \<Rightarrow> bool" and base :: "'h \<Rightarrow> nat"
  assumes table: "tv_table_ok (cd_table cd)"
    and mlen: "cd_MarshalLen cd h = base h + length (cd_Payload cd h)"
    and base_keep: "base (cd_SetLength cd h) = base h" "base (cd_SetPayload cd p h) = base h"
    and payload: "cd_Payload cd (cd_SetLength cd h) = cd_Payload cd h" "cd_Payload cd (cd_SetPayload cd p h) = p"
      "cd_Payload cd (seen h) = cd_Payload cd h"
    and set_set: "cd_SetPayload cd p (cd_SetPayload cd p' h) = cd_SetPayload cd p h"
    and marshal: "cd_MarshalTo cd h (replicate (cd_MarshalLen cd h) 0) = Inr (wire h)"
    and wire_length: "length (wire h) = cd_MarshalLen cd h"
    and parse: "sound h \<Longrightarrow> accepts (wire h) rest \<Longrightarrow> cd_Parse cd (wire h @ rest) = Inr (seen h)"
begin

definition marshalled :: "'s list \<Rightarrow> ('h, 's) tv_msg \<Rightarrow> ('h, 's) tv_msg" where
  "marshalled order m = m\<lparr>t_Header := cd_SetLength cd (cd_SetPayload cd
     (concat (map (tv_wire (cd_table cd)) (tvm_present order m))) (t_Header m))\<rparr>"

definition parsed :: "('h, 's) tv_msg \<Rightarrow> ('h, 's) tv_msg" where
  "parsed m = m\<lparr>t_Header := seen (t_Header m)\<rparr>"

lemma MarshalLen_base:
  "tvm_MarshalLen cd order m =
     base (t_Header m) + sum_list (map (tv_MarshalLen (cd_table cd)) (tvm_present order m))"
  by (simp add: tvm_MarshalLen_def mlen)

lemma marshalled_length: "cd_MarshalLen cd (t_Header (marshalled order m)) = tvm_MarshalLen cd order m"
  by (simp add: marshalled_def mlen base_keep payload MarshalLen_base tv_sum_wire)

text \<open>
  Marshalling fails exactly when the payload that is there is not cleared, whatever the elements are.
\<close>

lemma Marshal_wire:
  assumes "tv_layout D order lens" "clears \<or> cd_Payload cd (t_Header m) = []"
  shows "tvm_Marshal cd checked clears order lens m =
    Inr (wire (t_Header (marshalled order m)), marshalled order m)"
proof -
  note lens = tv_layout.MarshalLen_lens [OF assms(1), of cd]
  let ?h0 = "if clears then cd_SetPayload cd [] (t_Header m) else t_Header m"
  let ?sum = "sum_list (map (tv_MarshalLen (cd_table cd)) (tvm_present order m))"
  have "cd_MarshalLen cd ?h0 = base (t_Header m)" using assms(2) by (auto simp: mlen base_keep payload)
  then have n: "tvm_MarshalLen cd lens (m\<lparr>t_Header := ?h0\<rparr>) = cd_MarshalLen cd ?h0 + ?sum"
    unfolding lens by (simp add: MarshalLen_base base_keep)
  have "tvm_write (cd_table cd) (tvm_present order m) 0 (replicate ?sum 0) =
      Inr (concat (map (tv_wire (cd_table cd)) (tvm_present order m)))"
    using tvm_write_wire [OF table, of 0 "[]" "tvm_present order m" ?sum] by simp
  moreover have "cd_MarshalTo cd (t_Header (marshalled order m)) (replicate (tvm_MarshalLen cd order m) 0) =
      Inr (wire (t_Header (marshalled order m)))"
    using marshal [of "t_Header (marshalled order m)"] by (simp add: marshalled_length)
  moreover have "cd_SetLength cd (cd_SetPayload cd p ?h0) = cd_SetLength cd (cd_SetPayload cd p (t_Header m))" for p
    by (simp add: set_set)
  ultimately show ?thesis
    unfolding tvm_Marshal_def tvm_MarshalTo_def Let_def n by (simp add: lens marshalled_def)
qed

lemma Marshal_fails:
  assumes "tv_layout D order lens" "cd_Payload cd (t_Header m) \<noteq> []"
  shows "tvm_Marshal cd checked False order lens m =
    (if sum_list (map (tv_MarshalLen (cd_table cd)) (tvm_present order m)) < length (cd_Payload cd (t_Header m))
     then Inl (Panic MakeSliceLenOutOfRange) else Inl (Error IEErrTooShortToMarshal))"
proof -
  note lens = tv_layout.MarshalLen_lens [OF assms(1), of cd]
  let ?sum = "sum_list (map (tv_MarshalLen (cd_table cd)) (tvm_present order m))"
  let ?p = "length (cd_Payload cd (t_Header m))"
  have n: "tvm_MarshalLen cd lens m = base (t_Header m) + ?sum" "cd_MarshalLen cd (t_Header m) = base (t_Header m) + ?p"
    by (simp_all add: MarshalLen_base mlen tv_layout.present_lens [OF assms(1)])
  show ?thesis
  proof (cases "?sum < ?p")
    case True
    then show ?thesis by (simp add: tvm_Marshal_def tvm_MarshalTo_def n)
  next
    case False
    moreover have "0 < ?p" using assms(2) by simp
    ultimately have "?sum - ?p < ?sum" by linarith
    then have "tvm_write (cd_table cd) (tvm_present order m) 0 (replicate (?sum - ?p) 0) =
        Inl (Error IEErrTooShortToMarshal)"
      using tvm_write_short [OF table, of 0 "[]"] by simp
    with False show ?thesis by (simp add: tvm_Marshal_def tvm_MarshalTo_def n)
  qed
qed

lemma Unmarshal_wire:
  assumes layout: "tv_layout D order lens" and ok: "tvm_ok (cd_table cd) D m"
    and sound: "sound (t_Header (marshalled order m))"
    and accepts: "accepts (wire (t_Header (marshalled order m))) rest"
  shows "tvm_UnmarshalBinary cd lenient D (wire (t_Header (marshalled order m)) @ rest) =
    Inr (parsed (marshalled order m))"
proof -
  let ?tv = "cd_table cd"
  let ?h = "t_Header (marshalled order m)"
  let ?p = "concat (map (tv_wire ?tv) (tvm_present order m))"
  have pay: "cd_Payload cd (seen ?h) = ?p" by (simp add: marshalled_def payload)
  have wf: "\<forall>i \<in> set (tvm_present order m). tv_wf ?tv i"
    using ok by (auto simp: tvm_present_def tvm_ok_def List.map_filter_def)
  have multi: "tv_ParseMultiIEs ?tv ?p = Inr (tvm_present order m)"
    using ie_encoder.multi_enc [OF ie_decoder.axioms(1) [OF tv_decoder [OF table]] wf] .
  have store: "fold (tvm_store D) (tvm_present order m) (tvm_empty (seen ?h)) = parsed (marshalled order m)"
    by (simp add: tv_layout.store_present [OF layout ok]) (simp add: marshalled_def parsed_def)
  have len: "2 \<le> length (tv_wire ?tv i)" if "tv_wf ?tv i" for i
    using that by (auto simp: tv_MarshalLen_def tv_wf_def split: option.splits)
  show ?thesis
  proof (cases "length ?p < 2")
    case True
    have none: "tvm_present order m = []"
      using True wf len by (cases "tvm_present order m") fastforce+
    with store have "parsed (marshalled order m) = tvm_empty (seen ?h)" by simp
    with multi none show ?thesis
      by (simp add: tvm_UnmarshalBinary_def parse [OF sound accepts] pay)
  next
    case False
    then show ?thesis by (simp add: tvm_UnmarshalBinary_def parse [OF sound accepts] pay multi store)
  qed
qed

lemma roundtrip:
  assumes "tv_layout D order lens" "tvm_ok (cd_table cd) D m" "tvm_Marshal cd checked clears order lens m = Inr (w, m')"
    "sound (t_Header m')" "accepts w rest"
  shows "tvm_UnmarshalBinary cd lenient D (w @ rest) = Inr (parsed m')"
proof -
  have "clears \<or> cd_Payload cd (t_Header m) = []"
    using assms(3) Marshal_fails [OF assms(1), of m checked]
    by (cases clears; cases "cd_Payload cd (t_Header m) = []") (simp_all split: if_splits)
  with assms Unmarshal_wire [OF assms(1,2), of rest] show ?thesis
    by (simp add: Marshal_wire [OF assms(1)]) blast
qed

text \<open>The same for a generic message: its nil elements are left out.\<close>

definition generic_parsed :: "'h tv_generic \<Rightarrow> 'h tv_generic" where
  "generic_parsed g =
     \<lparr>tg_Header = seen (tg_Header g), tg_IEs = filter (\<lambda>i. i \<noteq> None) (tg_IEs g)\<rparr>"

lemma generic_ok: "tvm_ok tv rest_switch (as_msg g) \<longleftrightarrow> (\<forall>i. Some i \<in> set (tg_IEs g) \<longrightarrow> tv_wf tv i)"
  by (force simp: tvm_ok_def as_msg_def rest_switch_def List.map_filter_def)

lemma present_elements: "map Some (List.map_filter id xs) = filter (\<lambda>i. i \<noteq> None) xs"
  by (induction xs) (auto simp: map_filter_simps split: option.splits)

lemma generic_Marshal:
  obtains w h where "tvg_Marshal cd g = Inr (w, g\<lparr>tg_Header := h\<rparr>)" "length w = tvg_MarshalLen cd g"
    "tvm_Marshal cd False True [] [] (as_msg g) = Inr (w, (as_msg g)\<lparr>t_Header := h\<rparr>)"
proof -
  have m: "tvm_Marshal cd False True [] [] (as_msg g) =
      Inr (wire (t_Header (marshalled [] (as_msg g))), marshalled [] (as_msg g))"
    by (rule Marshal_wire [OF rest.tv_layout_axioms]) simp
  have "length (wire (t_Header (marshalled [] (as_msg g)))) = tvg_MarshalLen cd g"
    by (simp add: wire_length marshalled_length tvg_MarshalLen_msg)
  moreover have "marshalled [] (as_msg g) = (as_msg g)\<lparr>t_Header := t_Header (marshalled [] (as_msg g))\<rparr>"
    by (simp add: marshalled_def)
  ultimately show thesis using that [OF tvg_Marshal_msg [OF m]] m by metis
qed

lemma generic_roundtrip:
  assumes "\<And>i. Some i \<in> set (tg_IEs g) \<Longrightarrow> tv_wf (cd_table cd) i"
    and "tvg_Marshal cd g = Inr (w, g')" "sound (tg_Header g')" "accepts w rest"
  shows "tvg_UnmarshalBinary cd (w @ rest) = Inr (generic_parsed g')"
proof -
  obtain w' h where h: "tvg_Marshal cd g = Inr (w', g\<lparr>tg_Header := h\<rparr>)"
    "tvm_Marshal cd False True [] [] (as_msg g) = Inr (w', (as_msg g)\<lparr>t_Header := h\<rparr>)"
    by (rule generic_Marshal)
  have eq: "w' = w" "g' = g\<lparr>tg_Header := h\<rparr>" using h(1) assms(2) by auto
  have "tvm_UnmarshalBinary cd True rest_switch (w @ rest) = Inr (parsed ((as_msg g)\<lparr>t_Header := h\<rparr>))"
    by (rule roundtrip [OF rest.tv_layout_axioms _ h(2) [unfolded eq(1)]])
       (use assms eq in \<open>simp_all add: generic_ok\<close>)
  then show ?thesis
    by (simp add: tvg_Unmarshal_msg of_msg_def parsed_def generic_parsed_def eq as_msg_def present_elements)
qed

lemma Marshal_succeeds:
  "tv_layout D order lens \<Longrightarrow> clears \<or> cd_Payload cd (t_Header m) = [] \<Longrightarrow>
     \<exists>w m'. tvm_Marshal cd checked clears order lens m = Inr (w, m') \<and> length w = tvm_MarshalLen cd lens m"
  by (simp add: Marshal_wire wire_length marshalled_length tv_layout.MarshalLen_lens)

text \<open>Decoding a message panics exactly when decoding its header does.\<close>

lemma Unmarshal_panics_iff:
  "no_panic (tvm_UnmarshalBinary cd lenient D b) = no_panic (cd_Parse cd b)"
proof (cases "cd_Parse cd b")
  case (Inr h)
  have "no_panic (tv_ParseMultiIEs (cd_table cd) (cd_Payload cd h))"
    by (rule ie_decoder.multi_no_panic [OF tv_decoder [OF table]])
  then show ?thesis
    by (cases "tv_ParseMultiIEs (cd_table cd) (cd_Payload cd h)")
       (simp_all add: tvm_UnmarshalBinary_def Inr)
qed (simp add: tvm_UnmarshalBinary_def)

lemma generic_panics_iff: "no_panic (tvg_UnmarshalBinary cd b) = no_panic (cd_Parse cd b)"
  using Unmarshal_panics_iff [of True rest_switch b]
  by (cases "tvm_UnmarshalBinary cd True rest_switch b") (simp_all add: tvg_Unmarshal_msg)

end

end
