(* ===== verification/V0Header.thy ===== *)
theory V0Header
  imports GtpUtils V0IE TVMessage
begin

text \<open>
  The header of GTPv0 (\<open>src/gtpv0/message/header.go\<close>), twenty bytes: encoder, decoder, accessors,
  and the interpretation of the contract of \<open>TVMessage\<close>. The decoder takes the SNDCP number from
  the octet behind the one the encoder writes it to, where the encoder writes 0xff, so \<open>v0_seen\<close>
  loses it; and it uses the length field only when it accounts for the whole input.
\<close>

record v0_header =
  h0_Flags :: byte
  h0_Type :: byte
  h0_Length :: u16
  h0_SequenceNumber :: u16
  h0_SndcpNumber :: byte
  h0_FlowLabel :: u16
  h0_TID :: u64
  h0_Payload :: bytes

definition h0_MarshalLen :: "v0_header \<Rightarrow> nat" where
  "h0_MarshalLen h = 20 + length (h0_Payload h)"

definition h0_SetLength :: "v0_header \<Rightarrow> v0_header" where
  "h0_SetLength h = h\<lparr>h0_Length := of_nat (length (h0_Payload h))\<rparr>"

definition v0_NewHeader :: "byte \<Rightarrow> byte \<Rightarrow> u16 \<Rightarrow> u16 \<Rightarrow> u64 \<Rightarrow> bytes \<Rightarrow> v0_header" where
  "v0_NewHeader flags mtype seq label tid payload =
     h0_SetLength \<lparr>h0_Flags = flags, h0_Type = mtype, h0_Length = 0, h0_SequenceNumber = seq,
       h0_SndcpNumber = 0xff, h0_FlowLabel = label, h0_TID = tid, h0_Payload = payload\<rparr>"

definition v0_HeaderFlags :: "int \<Rightarrow> int \<Rightarrow> int \<Rightarrow> byte" where
  "v0_HeaderFlags v p s =
     word_of_int (push_bit 5 (v AND 0x7) OR push_bit 4 (p AND 0x1) OR (s AND 0x1) OR 0x0e)"

definition h0_MarshalTo :: "v0_header \<Rightarrow> bytes \<Rightarrow> bytes result" where
  "h0_MarshalTo h b =
     (if length b < h0_MarshalLen h then Inl (Error MsgErrTooShortToMarshal)
      else
        andThen (write_at b 0 [h0_Flags h]) (\<lambda>b.
        andThen (write_at b 1 [h0_Type h]) (\<lambda>b.
        andThen (write_at b 2 (be16 (h0_Length h))) (\<lambda>b.
        andThen (write_at b 4 (be16 (h0_SequenceNumber h))) (\<lambda>b.
        andThen (write_at b 6 (be16 (h0_FlowLabel h))) (\<lambda>b.
        andThen (write_at b 8 (be32 (push_bit 24 (ucast (h0_SndcpNumber h)) OR 0xffffff))) (\<lambda>b.
        andThen (write_at b 12 (be64 (h0_TID h))) (\<lambda>b.
          copy_at b 20 (h0_MarshalLen h) (h0_Payload h)))))))))"

definition h0_Marshal :: "v0_header \<Rightarrow> bytes result" where
  "h0_Marshal h = h0_MarshalTo h (replicate (h0_MarshalLen h) 0)"

definition join64 :: "bytes \<Rightarrow> u64" where
  "join64 bs = foldl (\<lambda>a x. push_bit 8 a OR ucast x) 0 bs"

definition get64 :: "bytes \<Rightarrow> nat \<Rightarrow> u64 result" where
  "get64 b i = andThen (slice b i (i + 8)) (\<lambda>s. Inr (join64 s))"

text \<open>The 16-bit addition \<open>20+h.Length\<close> wraps, as it does in the source.\<close>

definition h0_UnmarshalBinary :: "bytes \<Rightarrow> v0_header result" where
  "h0_UnmarshalBinary b =
     (let l = length b in
      if l < 11 then Inl (Error MsgErrTooShortToParse)
      else
        andThen (byte_at b 0) (\<lambda>flags.
        andThen (byte_at b 1) (\<lambda>typ.
        andThen (get16 b 2) (\<lambda>len.
        andThen (get16 b 4) (\<lambda>seq.
        andThen (get16 b 6) (\<lambda>label.
        andThen (byte_at b 9) (\<lambda>sndcp.
        andThen (get64 b 12) (\<lambda>tid.
        let h = \<lparr>h0_Flags = flags, h0_Type = typ, h0_Length = len, h0_SequenceNumber = seq,
                 h0_SndcpNumber = sndcp, h0_FlowLabel = label, h0_TID = tid, h0_Payload = []\<rparr> in
        if unat len + 20 \<noteq> l
        then andThen (slice_from b 20) (\<lambda>p. Inr (h\<lparr>h0_Payload := p\<rparr>))
        else andThen (slice b 20 (unat (20 + len))) (\<lambda>p. Inr (h\<lparr>h0_Payload := p\<rparr>))))))))))"

definition v0_ParseHeader :: "bytes \<Rightarrow> v0_header result" where
  "v0_ParseHeader b = h0_UnmarshalBinary b"

definition h0_tid :: "v0_header \<Rightarrow> string" where
  "h0_tid h = SwappedBytesToStr (be64 (h0_TID h)) False"

definition h0_Version :: "v0_header \<Rightarrow> nat" where
  "h0_Version h = 0"

definition h0_MessageType :: "v0_header \<Rightarrow> byte" where
  "h0_MessageType h = h0_Type h"

section \<open>The encoding\<close>

definition v0_header_wire :: "v0_header \<Rightarrow> bytes" where
  "v0_header_wire h =
     [h0_Flags h, h0_Type h] @ be16 (h0_Length h) @ be16 (h0_SequenceNumber h) @ be16 (h0_FlowLabel h) @
     [h0_SndcpNumber h, 0xff, 0xff, 0xff] @ be64 (h0_TID h) @ h0_Payload h"

lemma v0_header_wire_length [simp]: "length (v0_header_wire h) = h0_MarshalLen h"
  by (simp add: v0_header_wire_def h0_MarshalLen_def)

lemma be32_sndcp: "be32 (push_bit 24 (ucast n) OR 0xffffff) = [n, 0xff, 0xff, 0xff :: byte]"
proof -
  have "push_bit 24 (ucast n) OR 0xffffff = join32 n 0xff 0xff 0xff"
    by (simp add: join32_def or.assoc)
  then show ?thesis by simp
qed

lemma join64_be64 [simp]: "join64 (be64 v) = v"
  unfolding join64_def be64_def foldl.simps by (rule bit_word_eqI) (auto simp: bit_simps split: nat_diff_split)

lemma h0_Marshal_wire: "h0_MarshalTo h (replicate (h0_MarshalLen h) 0) = Inr (v0_header_wire h)"
  unfolding h0_MarshalTo_def v0_header_wire_def h0_MarshalLen_def be32_sndcp
  by (simp add: write_at_def copy_at_def be16_def be64_def numeral_eq_Suc)

section \<open>The decoder\<close>

definition v0_header_ok :: "v0_header \<Rightarrow> bool" where
  "v0_header_ok h \<longleftrightarrow> h0_MarshalLen h < 65536 \<and> h0_Length h = of_nat (length (h0_Payload h))"

definition v0_seen :: "v0_header \<Rightarrow> v0_header" where
  "v0_seen h = h\<lparr>h0_SndcpNumber := 0xff\<rparr>"

lemma h0_fields:
  assumes "20 \<le> length b"
  shows "h0_UnmarshalBinary b =
    (let len = join16 (b ! 2) (b ! 3);
         h = \<lparr>h0_Flags = b ! 0, h0_Type = b ! 1, h0_Length = len, h0_SequenceNumber = join16 (b ! 4) (b ! 5),
              h0_SndcpNumber = b ! 9, h0_FlowLabel = join16 (b ! 6) (b ! 7),
              h0_TID = join64 (take 8 (drop 12 b)), h0_Payload = []\<rparr> in
     if unat len + 20 \<noteq> length b then Inr (h\<lparr>h0_Payload := drop 20 b\<rparr>)
     else andThen (slice b 20 (unat (20 + len))) (\<lambda>p. Inr (h\<lparr>h0_Payload := p\<rparr>)))"
proof -
  have "\<not> length b < 11" using assms by simp
  moreover have "byte_at b 0 = Inr (b ! 0)" "byte_at b 1 = Inr (b ! 1)" "get16 b 2 = Inr (join16 (b ! 2) (b ! 3))"
    "get16 b 4 = Inr (join16 (b ! 4) (b ! 5))" "get16 b 6 = Inr (join16 (b ! 6) (b ! 7))"
    "byte_at b 9 = Inr (b ! 9)" "get64 b 12 = Inr (join64 (take 8 (drop 12 b)))"
    "slice_from b 20 = Inr (drop 20 b)"
    using assms by (auto simp: byte_at_def get16_def get64_def slice_def slice_from_def)
  ultimately show ?thesis
    by (simp only: h0_UnmarshalBinary_def Let_def if_False andThen_Inr v0_header.simps)
qed

lemma u16_add20: "unat len < 65516 \<Longrightarrow> unat (20 + len :: u16) = 20 + unat len"
  by (simp add: unat_word_ariths)

lemma v0_ParseHeader_wire:
  assumes "v0_header_ok h"
  shows "v0_ParseHeader (v0_header_wire h) = Inr (v0_seen h)"
proof -
  have len: "unat (h0_Length h) = length (h0_Payload h)" "unat (h0_Length h) < 65516"
    using assms by (simp_all add: v0_header_ok_def h0_MarshalLen_def)
  have b: "v0_header_wire h ! 0 = h0_Flags h" "v0_header_wire h ! 1 = h0_Type h"
    "join16 (v0_header_wire h ! 2) (v0_header_wire h ! 3) = h0_Length h"
    "join16 (v0_header_wire h ! 4) (v0_header_wire h ! 5) = h0_SequenceNumber h"
    "join16 (v0_header_wire h ! 6) (v0_header_wire h ! 7) = h0_FlowLabel h"
    "v0_header_wire h ! 9 = 0xff" "take 8 (drop 12 (v0_header_wire h)) = be64 (h0_TID h)"
    "slice (v0_header_wire h) 20 (20 + length (h0_Payload h)) = Inr (h0_Payload h)"
    by (simp_all add: v0_header_wire_def be16_def be64_def slice_def)
  have sum: "unat (20 + h0_Length h) = 20 + length (h0_Payload h)"
    using u16_add20 [OF len(2)] len(1) by simp
  have n: "length (v0_header_wire h) = 20 + length (h0_Payload h)" by (simp add: h0_MarshalLen_def)
  show ?thesis
    unfolding v0_ParseHeader_def
    by (subst h0_fields) (simp_all add: b b(2) [simplified] n sum Let_def len(1) v0_seen_def del: v0_header_wire_length)
qed

lemma v0_ParseHeader_panics:
  "no_panic (v0_ParseHeader b) \<longleftrightarrow>
     \<not> (11 \<le> length b \<and> length b < 20) \<and>
     \<not> (65536 \<le> length b \<and> unat (join16 (b ! 2) (b ! 3)) + 20 = length b)"
proof (cases "20 \<le> length b")
  case True
  let ?len = "join16 (b ! 2) (b ! 3)"
  have "unat (20 + ?len) = (if unat ?len < 65516 then 20 + unat ?len else unat ?len - 65516)"
    using unat_u16_less [of ?len] by (auto simp: unat_word_ariths mod_if)
  then show ?thesis
    unfolding v0_ParseHeader_def h0_fields [OF True] using True unat_u16_less [of ?len]
    by (auto simp: Let_def slice_def)
next
  case False
  have "\<not> no_panic (h0_UnmarshalBinary b)" if "11 \<le> length b"
  proof -
    have "\<not> length b < 11" using that by simp
    moreover have "byte_at b 0 = Inr (b ! 0)" "byte_at b 1 = Inr (b ! 1)" "get16 b 2 = Inr (join16 (b ! 2) (b ! 3))"
      "get16 b 4 = Inr (join16 (b ! 4) (b ! 5))" "get16 b 6 = Inr (join16 (b ! 6) (b ! 7))"
      "byte_at b 9 = Inr (b ! 9)" "get64 b 12 = Inl (Panic SliceBoundsOutOfRange)"
      using that False by (auto simp: byte_at_def get16_def get64_def slice_def)
    ultimately show ?thesis by (simp add: h0_UnmarshalBinary_def)
  qed
  moreover have "no_panic (h0_UnmarshalBinary b)" if "length b < 11"
    using that by (simp add: h0_UnmarshalBinary_def)
  ultimately show ?thesis using False by (cases "length b < 11") (auto simp: v0_ParseHeader_def)
qed

section \<open>The contract of \<open>TVMessage\<close>\<close>

definition v0_codec :: "v0_header codec" where
  "v0_codec = \<lparr>cd_table = v0_tv, cd_fixed = 20, cd_MarshalLen = h0_MarshalLen, cd_Payload = h0_Payload,
     cd_SetPayload = (\<lambda>p h. h\<lparr>h0_Payload := p\<rparr>), cd_SetLength = h0_SetLength,
     cd_PutLength = (\<lambda>n h. h\<lparr>h0_Length := n\<rparr>), cd_MarshalTo = h0_MarshalTo, cd_Parse = v0_ParseHeader\<rparr>"

definition v0_base :: "v0_header \<Rightarrow> nat" where
  "v0_base h = 20"

definition v0_accepts :: "bytes \<Rightarrow> bytes \<Rightarrow> bool" where
  "v0_accepts w rest \<longleftrightarrow> rest = []"

interpretation v0cd: tv_codec v0_codec v0_header_wire v0_header_ok v0_seen v0_accepts v0_base
proof unfold_locales
  show "cd_MarshalTo v0_codec h (replicate (cd_MarshalLen v0_codec h) 0) = Inr (v0_header_wire h)" for h
    by (simp add: v0_codec_def h0_Marshal_wire)
qed (simp_all add: v0_codec_def v0_table_ok h0_MarshalLen_def v0_base_def h0_SetLength_def v0_seen_def
      v0_ParseHeader_wire v0_accepts_def)

section \<open>Properties\<close>

text \<open>
  A right GTPv0 header is marshalled and parsed back, except for the SNDCP number, which comes
  back as 0xff.
\<close>

lemma v0_header_roundtrip:
  assumes "v0_header_ok h"
  shows "\<exists>w. h0_Marshal h = Inr w \<and> length w = h0_MarshalLen h \<and>
     v0_ParseHeader w = Inr (h\<lparr>h0_SndcpNumber := 0xff\<rparr>)"
  using v0_ParseHeader_wire [OF assms] by (simp add: h0_Marshal_def h0_Marshal_wire v0_seen_def)

lemma v0_header_roundtrip_witness:
  "\<exists>w. h0_Marshal ((v0_NewHeader 0x1e 16 7 9 11 [1, 2])\<lparr>h0_SndcpNumber := 3\<rparr>) = Inr w \<and>
     v0_ParseHeader w = Inr (v0_NewHeader 0x1e 16 7 9 11 [1, 2])"
proof -
  let ?h = "(v0_NewHeader 0x1e 16 7 9 11 [1, 2])\<lparr>h0_SndcpNumber := 3\<rparr>"
  have "v0_header_ok ?h" "?h\<lparr>h0_SndcpNumber := 0xff\<rparr> = v0_NewHeader 0x1e 16 7 9 11 [1, 2]"
    by (simp_all add: v0_header_ok_def v0_NewHeader_def h0_SetLength_def h0_MarshalLen_def)
  with v0_header_roundtrip [of ?h] show ?thesis by auto
qed

text \<open>
  Exactly which bytes make \<open>ParseHeader\<close> of GTPv0 panic: eleven to nineteen of them, which pass
  the length check and end before the TID does, and more than 65535 of them when the length field
  accounts for them all, where the end of the payload is computed in 16 bits.
\<close>

lemma v0_ParseHeader_panics_iff:
  "no_panic (v0_ParseHeader b) =
     (\<not> (11 \<le> length b \<and> length b < 20) \<and>
      \<not> (65536 \<le> length b \<and> unat (join16 (b ! 2) (b ! 3)) + 20 = length b))"
  using v0_ParseHeader_panics [of b] by blast

end
