(* ===== verification/V0Messages.thy ===== *)
theory V0Messages
  imports V0Header
begin

text \<open>
  The GTPv0 message types of \<open>src/gtpv0/message\<close>: \<open>EchoRequest\<close>
  (\<open>echo-req.go\<close>), \<open>EchoResponse\<close> (\<open>echo-res.go\<close>),
  \<open>CreatePDPContextRequest\<close> (\<open>create-pdp-context-req.go\<close>),
  \<open>CreatePDPContextResponse\<close> (\<open>create-pdp-context-res.go\<close>),
  \<open>UpdatePDPContextRequest\<close> (\<open>update-pdp-context-req.go\<close>),
  \<open>UpdatePDPContextResponse\<close> (\<open>update-pdp-context-res.go\<close>),
  \<open>DeletePDPContextRequest\<close> (\<open>delete-pdp-context-req.go\<close>),
  \<open>DeletePDPContextResponse\<close> (\<open>delete-pdp-context-res.go\<close>). For each of
  them: its fields, the switch of its constructor and its decoder (they are the same), the orders
  in which MarshalTo and MarshalLen visit the fields, the methods, and the interpretation of the
  contract of \<open>TVMessage\<close>.
\<close>

abbreviation v0_MsgTypeEchoRequest :: byte where "v0_MsgTypeEchoRequest \<equiv> 1"
abbreviation v0_MsgTypeEchoResponse :: byte where "v0_MsgTypeEchoResponse \<equiv> 2"
abbreviation v0_MsgTypeCreatePDPContextRequest :: byte where "v0_MsgTypeCreatePDPContextRequest \<equiv> 16"
abbreviation v0_MsgTypeCreatePDPContextResponse :: byte where "v0_MsgTypeCreatePDPContextResponse \<equiv> 17"
abbreviation v0_MsgTypeUpdatePDPContextRequest :: byte where "v0_MsgTypeUpdatePDPContextRequest \<equiv> 18"
abbreviation v0_MsgTypeUpdatePDPContextResponse :: byte where "v0_MsgTypeUpdatePDPContextResponse \<equiv> 19"
abbreviation v0_MsgTypeDeletePDPContextRequest :: byte where "v0_MsgTypeDeletePDPContextRequest \<equiv> 20"
abbreviation v0_MsgTypeDeletePDPContextResponse :: byte where "v0_MsgTypeDeletePDPContextResponse \<equiv> 21"
abbreviation v0_MsgTypeTPDU :: byte where "v0_MsgTypeTPDU \<equiv> 255"

section \<open>EchoRequest\<close>

datatype v0_EchoRequest_field =
    v0_EchoRequest_PrivateExtension

definition v0_EchoRequest_switch :: "v0_EchoRequest_field tv_switch" where
  "v0_EchoRequest_switch t = (
     if t = v0_IE_PrivateExtension then Slot1 v0_EchoRequest_PrivateExtension
     else Rest)"

definition v0_EchoRequest_order :: "v0_EchoRequest_field list" where
  "v0_EchoRequest_order = [
    v0_EchoRequest_PrivateExtension]"

definition v0_EchoRequest_lens :: "v0_EchoRequest_field list" where
  "v0_EchoRequest_lens = [
    v0_EchoRequest_PrivateExtension]"

definition v0_NewEchoRequest :: "u16 \<Rightarrow> u16 \<Rightarrow> u64 \<Rightarrow> tv_ie option list \<Rightarrow> (v0_header, v0_EchoRequest_field) tv_msg" where
  "v0_NewEchoRequest seq label tid ies =
     tvm_New v0_codec v0_EchoRequest_switch v0_EchoRequest_lens (v0_NewHeader 0x1e v0_MsgTypeEchoRequest seq label tid []) ies"

definition v0_EchoRequest_MarshalLen :: "(v0_header, v0_EchoRequest_field) tv_msg \<Rightarrow> nat" where
  "v0_EchoRequest_MarshalLen m = tvm_MarshalLen v0_codec v0_EchoRequest_lens m"

definition v0_EchoRequest_SetLength :: "(v0_header, v0_EchoRequest_field) tv_msg \<Rightarrow> (v0_header, v0_EchoRequest_field) tv_msg" where
  "v0_EchoRequest_SetLength m = tvm_SetLength v0_codec v0_EchoRequest_lens m"

definition v0_EchoRequest_MarshalTo :: "(v0_header, v0_EchoRequest_field) tv_msg \<Rightarrow> bytes \<Rightarrow> (bytes \<times> (v0_header, v0_EchoRequest_field) tv_msg) result" where
  "v0_EchoRequest_MarshalTo m b = tvm_MarshalTo v0_codec False True v0_EchoRequest_order v0_EchoRequest_lens m b"

definition v0_EchoRequest_Marshal :: "(v0_header, v0_EchoRequest_field) tv_msg \<Rightarrow> (bytes \<times> (v0_header, v0_EchoRequest_field) tv_msg) result" where
  "v0_EchoRequest_Marshal m = v0_EchoRequest_MarshalTo m (replicate (v0_EchoRequest_MarshalLen m) 0)"

definition v0_EchoRequest_UnmarshalBinary :: "bytes \<Rightarrow> (v0_header, v0_EchoRequest_field) tv_msg result" where
  "v0_EchoRequest_UnmarshalBinary b = tvm_UnmarshalBinary v0_codec True v0_EchoRequest_switch b"

lemma v0_EchoRequest_all_fields: "s \<in> set v0_EchoRequest_order" "s \<in> set v0_EchoRequest_lens"
  by (cases s; simp add: v0_EchoRequest_order_def v0_EchoRequest_lens_def)+

interpretation v0EchoRequest: tv_layout v0_EchoRequest_switch v0_EchoRequest_order v0_EchoRequest_lens
proof unfold_locales
  show "distinct v0_EchoRequest_order" "distinct v0_EchoRequest_lens" by (simp_all add: v0_EchoRequest_order_def v0_EchoRequest_lens_def)
  show "set v0_EchoRequest_order = set v0_EchoRequest_lens" by (simp add: v0_EchoRequest_all_fields set_eq_iff)
  show "place_ok v0_EchoRequest_order (v0_EchoRequest_switch t)" for t
    unfolding v0_EchoRequest_switch_def
    by (simp add: v0_EchoRequest_all_fields)
qed

lemma v0_EchoRequest_Marshal_eq: "v0_EchoRequest_Marshal m = tvm_Marshal v0_codec False True v0_EchoRequest_order v0_EchoRequest_lens m"
  by (simp add: v0_EchoRequest_Marshal_def v0_EchoRequest_MarshalTo_def v0_EchoRequest_MarshalLen_def tvm_Marshal_def)

section \<open>EchoResponse\<close>

datatype v0_EchoResponse_field =
    v0_EchoResponse_Recovery | v0_EchoResponse_PrivateExtension

definition v0_EchoResponse_switch :: "v0_EchoResponse_field tv_switch" where
  "v0_EchoResponse_switch t = (
     if t = v0_IE_Recovery then Slot1 v0_EchoResponse_Recovery
     else if t = v0_IE_PrivateExtension then Slot1 v0_EchoResponse_PrivateExtension
     else Rest)"

definition v0_EchoResponse_order :: "v0_EchoResponse_field list" where
  "v0_EchoResponse_order = [
    v0_EchoResponse_Recovery, v0_EchoResponse_PrivateExtension]"

definition v0_EchoResponse_lens :: "v0_EchoResponse_field list" where
  "v0_EchoResponse_lens = [
    v0_EchoResponse_Recovery, v0_EchoResponse_PrivateExtension]"

definition v0_NewEchoResponse :: "u16 \<Rightarrow> u16 \<Rightarrow> u64 \<Rightarrow> tv_ie option list \<Rightarrow> (v0_header, v0_EchoResponse_field) tv_msg" where
  "v0_NewEchoResponse seq label tid ies =
     tvm_New v0_codec v0_EchoResponse_switch v0_EchoResponse_lens (v0_NewHeader 0x1e v0_MsgTypeEchoResponse seq label tid []) ies"

definition v0_EchoResponse_MarshalLen :: "(v0_header, v0_EchoResponse_field) tv_msg \<Rightarrow> nat" where
  "v0_EchoResponse_MarshalLen m = tvm_MarshalLen v0_codec v0_EchoResponse_lens m"

definition v0_EchoResponse_SetLength :: "(v0_header, v0_EchoResponse_field) tv_msg \<Rightarrow> (v0_header, v0_EchoResponse_field) tv_msg" where
  "v0_EchoResponse_SetLength m = tvm_SetLength v0_codec v0_EchoResponse_lens m"

definition v0_EchoResponse_MarshalTo :: "(v0_header, v0_EchoResponse_field) tv_msg \<Rightarrow> bytes \<Rightarrow> (bytes \<times> (v0_header, v0_EchoResponse_field) tv_msg) result" where
  "v0_EchoResponse_MarshalTo m b = tvm_MarshalTo v0_codec False True v0_EchoResponse_order v0_EchoResponse_lens m b"

definition v0_EchoResponse_Marshal :: "(v0_header, v0_EchoResponse_field) tv_msg \<Rightarrow> (bytes \<times> (v0_header, v0_EchoResponse_field) tv_msg) result" where
  "v0_EchoResponse_Marshal m = v0_EchoResponse_MarshalTo m (replicate (v0_EchoResponse_MarshalLen m) 0)"

definition v0_EchoResponse_UnmarshalBinary :: "bytes \<Rightarrow> (v0_header, v0_EchoResponse_field) tv_msg result" where
  "v0_EchoResponse_UnmarshalBinary b = tvm_UnmarshalBinary v0_codec True v0_EchoResponse_switch b"

lemma v0_EchoResponse_all_fields: "s \<in> set v0_EchoResponse_order" "s \<in> set v0_EchoResponse_lens"
  by (cases s; simp add: v0_EchoResponse_order_def v0_EchoResponse_lens_def)+

interpretation v0EchoResponse: tv_layout v0_EchoResponse_switch v0_EchoResponse_order v0_EchoResponse_lens
proof unfold_locales
  show "distinct v0_EchoResponse_order" "distinct v0_EchoResponse_lens" by (simp_all add: v0_EchoResponse_order_def v0_EchoResponse_lens_def)
  show "set v0_EchoResponse_order = set v0_EchoResponse_lens" by (simp add: v0_EchoResponse_all_fields set_eq_iff)
  show "place_ok v0_EchoResponse_order (v0_EchoResponse_switch t)" for t
    unfolding v0_EchoResponse_switch_def
    by (simp add: v0_EchoResponse_all_fields)
qed

lemma v0_EchoResponse_Marshal_eq: "v0_EchoResponse_Marshal m = tvm_Marshal v0_codec False True v0_EchoResponse_order v0_EchoResponse_lens m"
  by (simp add: v0_EchoResponse_Marshal_def v0_EchoResponse_MarshalTo_def v0_EchoResponse_MarshalLen_def tvm_Marshal_def)

section \<open>CreatePDPContextRequest\<close>

datatype v0_CreatePDPContextRequest_field =
    v0_CreatePDPContextRequest_RAI | v0_CreatePDPContextRequest_QoSProfile
    | v0_CreatePDPContextRequest_Recovery | v0_CreatePDPContextRequest_SelectionMode
    | v0_CreatePDPContextRequest_FlowLabelDataI
    | v0_CreatePDPContextRequest_FlowLabelSignalling
    | v0_CreatePDPContextRequest_EndUserAddress | v0_CreatePDPContextRequest_APN
    | v0_CreatePDPContextRequest_PCO | v0_CreatePDPContextRequest_SGSNAddressForSignalling
    | v0_CreatePDPContextRequest_SGSNAddressForUserTraffic | v0_CreatePDPContextRequest_MSISDN
    | v0_CreatePDPContextRequest_PrivateExtension

definition v0_CreatePDPContextRequest_switch :: "v0_CreatePDPContextRequest_field tv_switch" where
  "v0_CreatePDPContextRequest_switch t = (
     if t = v0_IE_RouteingAreaIdentity then Slot1 v0_CreatePDPContextRequest_RAI
     else if t = v0_IE_QualityOfServiceProfile then Slot1 v0_CreatePDPContextRequest_QoSProfile
     else if t = v0_IE_Recovery then Slot1 v0_CreatePDPContextRequest_Recovery
     else if t = v0_IE_SelectionMode then Slot1 v0_CreatePDPContextRequest_SelectionMode
     else if t = v0_IE_FlowLabelDataI then Slot1 v0_CreatePDPContextRequest_FlowLabelDataI
     else if t = v0_IE_FlowLabelSignalling then Slot1 v0_CreatePDPContextRequest_FlowLabelSignalling
     else if t = v0_IE_EndUserAddress then Slot1 v0_CreatePDPContextRequest_EndUserAddress
     else if t = v0_IE_AccessPointName then Slot1 v0_CreatePDPContextRequest_APN
     else if t = v0_IE_ProtocolConfigurationOptions then Slot1 v0_CreatePDPContextRequest_PCO
     else if t = v0_IE_GSNAddress then Place [v0_CreatePDPContextRequest_SGSNAddressForSignalling] (Into v0_CreatePDPContextRequest_SGSNAddressForUserTraffic)
     else if t = v0_IE_MSISDN then Slot1 v0_CreatePDPContextRequest_MSISDN
     else if t = v0_IE_PrivateExtension then Slot1 v0_CreatePDPContextRequest_PrivateExtension
     else Rest)"

definition v0_CreatePDPContextRequest_order :: "v0_CreatePDPContextRequest_field list" where
  "v0_CreatePDPContextRequest_order = [
    v0_CreatePDPContextRequest_RAI, v0_CreatePDPContextRequest_QoSProfile,
    v0_CreatePDPContextRequest_Recovery, v0_CreatePDPContextRequest_SelectionMode,
    v0_CreatePDPContextRequest_FlowLabelDataI, v0_CreatePDPContextRequest_FlowLabelSignalling,
    v0_CreatePDPContextRequest_EndUserAddress, v0_CreatePDPContextRequest_APN,
    v0_CreatePDPContextRequest_PCO, v0_CreatePDPContextRequest_SGSNAddressForSignalling,
    v0_CreatePDPContextRequest_SGSNAddressForUserTraffic, v0_CreatePDPContextRequest_MSISDN,
    v0_CreatePDPContextRequest_PrivateExtension]"

definition v0_CreatePDPContextRequest_lens :: "v0_CreatePDPContextRequest_field list" where
  "v0_CreatePDPContextRequest_lens = [
    v0_CreatePDPContextRequest_RAI, v0_CreatePDPContextRequest_QoSProfile,
    v0_CreatePDPContextRequest_Recovery, v0_CreatePDPContextRequest_SelectionMode,
    v0_CreatePDPContextRequest_FlowLabelDataI, v0_CreatePDPContextRequest_FlowLabelSignalling,
    v0_CreatePDPContextRequest_EndUserAddress, v0_CreatePDPContextRequest_APN,
    v0_CreatePDPContextRequest_PCO, v0_CreatePDPContextRequest_SGSNAddressForSignalling,
    v0_CreatePDPContextRequest_SGSNAddressForUserTraffic, v0_CreatePDPContextRequest_MSISDN,
    v0_CreatePDPContextRequest_PrivateExtension]"

definition v0_NewCreatePDPContextRequest :: "u16 \<Rightarrow> u16 \<Rightarrow> u64 \<Rightarrow> tv_ie option list \<Rightarrow> (v0_header, v0_CreatePDPContextRequest_field) tv_msg" where
  "v0_NewCreatePDPContextRequest seq label tid ies =
     tvm_New v0_codec v0_CreatePDPContextRequest_switch v0_CreatePDPContextRequest_lens (v0_NewHeader 0x1e v0_MsgTypeCreatePDPContextRequest seq label tid []) ies"

definition v0_CreatePDPContextRequest_MarshalLen :: "(v0_header, v0_CreatePDPContextRequest_field) tv_msg \<Rightarrow> nat" where
  "v0_CreatePDPContextRequest_MarshalLen m = tvm_MarshalLen v0_codec v0_CreatePDPContextRequest_lens m"

definition v0_CreatePDPContextRequest_SetLength :: "(v0_header, v0_CreatePDPContextRequest_field) tv_msg \<Rightarrow> (v0_header, v0_CreatePDPContextRequest_field) tv_msg" where
  "v0_CreatePDPContextRequest_SetLength m = tvm_SetLength v0_codec v0_CreatePDPContextRequest_lens m"

definition v0_CreatePDPContextRequest_MarshalTo :: "(v0_header, v0_CreatePDPContextRequest_field) tv_msg \<Rightarrow> bytes \<Rightarrow> (bytes \<times> (v0_header, v0_CreatePDPContextRequest_field) tv_msg) result" where
  "v0_CreatePDPContextRequest_MarshalTo m b = tvm_MarshalTo v0_codec False True v0_CreatePDPContextRequest_order v0_CreatePDPContextRequest_lens m b"

definition v0_CreatePDPContextRequest_Marshal :: "(v0_header, v0_CreatePDPContextRequest_field) tv_msg \<Rightarrow> (bytes \<times> (v0_header, v0_CreatePDPContextRequest_field) tv_msg) result" where
  "v0_CreatePDPContextRequest_Marshal m = v0_CreatePDPContextRequest_MarshalTo m (replicate (v0_CreatePDPContextRequest_MarshalLen m) 0)"

definition v0_CreatePDPContextRequest_UnmarshalBinary :: "bytes \<Rightarrow> (v0_header, v0_CreatePDPContextRequest_field) tv_msg result" where
  "v0_CreatePDPContextRequest_UnmarshalBinary b = tvm_UnmarshalBinary v0_codec True v0_CreatePDPContextRequest_switch b"

lemma v0_CreatePDPContextRequest_all_fields: "s \<in> set v0_CreatePDPContextRequest_order" "s \<in> set v0_CreatePDPContextRequest_lens"
  by (cases s; simp add: v0_CreatePDPContextRequest_order_def v0_CreatePDPContextRequest_lens_def)+

interpretation v0CreatePDPContextRequest: tv_layout v0_CreatePDPContextRequest_switch v0_CreatePDPContextRequest_order v0_CreatePDPContextRequest_lens
proof unfold_locales
  show "distinct v0_CreatePDPContextRequest_order" "distinct v0_CreatePDPContextRequest_lens" by (simp_all add: v0_CreatePDPContextRequest_order_def v0_CreatePDPContextRequest_lens_def)
  show "set v0_CreatePDPContextRequest_order = set v0_CreatePDPContextRequest_lens" by (simp add: v0_CreatePDPContextRequest_all_fields set_eq_iff)
  show "place_ok v0_CreatePDPContextRequest_order (v0_CreatePDPContextRequest_switch t)" for t
    unfolding v0_CreatePDPContextRequest_switch_def
    by (simp add: v0_CreatePDPContextRequest_all_fields) (simp add: place_ok_def v0_CreatePDPContextRequest_order_def)
qed

lemma v0_CreatePDPContextRequest_Marshal_eq: "v0_CreatePDPContextRequest_Marshal m = tvm_Marshal v0_codec False True v0_CreatePDPContextRequest_order v0_CreatePDPContextRequest_lens m"
  by (simp add: v0_CreatePDPContextRequest_Marshal_def v0_CreatePDPContextRequest_MarshalTo_def v0_CreatePDPContextRequest_MarshalLen_def tvm_Marshal_def)

section \<open>CreatePDPContextResponse\<close>

datatype v0_CreatePDPContextResponse_field =
    v0_CreatePDPContextResponse_Cause | v0_CreatePDPContextResponse_QoSProfile
    | v0_CreatePDPContextResponse_ReorderingRequired | v0_CreatePDPContextResponse_Recovery
    | v0_CreatePDPContextResponse_FlowLabelDataI
    | v0_CreatePDPContextResponse_FlowLabelSignalling | v0_CreatePDPContextResponse_ChargingID
    | v0_CreatePDPContextResponse_EndUserAddress | v0_CreatePDPContextResponse_PCO
    | v0_CreatePDPContextResponse_GGSNAddressForSignalling
    | v0_CreatePDPContextResponse_GGSNAddressForUserTraffic
    | v0_CreatePDPContextResponse_ChargingGatewayAddress
    | v0_CreatePDPContextResponse_PrivateExtension

definition v0_CreatePDPContextResponse_switch :: "v0_CreatePDPContextResponse_field tv_switch" where
  "v0_CreatePDPContextResponse_switch t = (
     if t = v0_IE_Cause then Slot1 v0_CreatePDPContextResponse_Cause
     else if t = v0_IE_QualityOfServiceProfile then Slot1 v0_CreatePDPContextResponse_QoSProfile
     else if t = v0_IE_ReorderingRequired then Slot1 v0_CreatePDPContextResponse_ReorderingRequired
     else if t = v0_IE_Recovery then Slot1 v0_CreatePDPContextResponse_Recovery
     else if t = v0_IE_FlowLabelDataI then Slot1 v0_CreatePDPContextResponse_FlowLabelDataI
     else if t = v0_IE_FlowLabelSignalling then Slot1 v0_CreatePDPContextResponse_FlowLabelSignalling
     else if t = v0_IE_ChargingID then Slot1 v0_CreatePDPContextResponse_ChargingID
     else if t = v0_IE_EndUserAddress then Slot1 v0_CreatePDPContextResponse_EndUserAddress
     else if t = v0_IE_ProtocolConfigurationOptions then Slot1 v0_CreatePDPContextResponse_PCO
     else if t = v0_IE_GSNAddress then Place [v0_CreatePDPContextResponse_GGSNAddressForSignalling] (Into v0_CreatePDPContextResponse_GGSNAddressForUserTraffic)
     else if t = v0_IE_ChargingGatewayAddress then Slot1 v0_CreatePDPContextResponse_ChargingGatewayAddress
     else if t = v0_IE_PrivateExtension then Slot1 v0_CreatePDPContextResponse_PrivateExtension
     else Rest)"

definition v0_CreatePDPContextResponse_order :: "v0_CreatePDPContextResponse_field list" where
  "v0_CreatePDPContextResponse_order = [
    v0_CreatePDPContextResponse_Cause, v0_CreatePDPContextResponse_QoSProfile,
    v0_CreatePDPContextResponse_ReorderingRequired, v0_CreatePDPContextResponse_Recovery,
    v0_CreatePDPContextResponse_FlowLabelDataI,
    v0_CreatePDPContextResponse_FlowLabelSignalling, v0_CreatePDPContextResponse_ChargingID,
    v0_CreatePDPContextResponse_EndUserAddress, v0_CreatePDPContextResponse_PCO,
    v0_CreatePDPContextResponse_GGSNAddressForSignalling,
    v0_CreatePDPContextResponse_GGSNAddressForUserTraffic,
    v0_CreatePDPContextResponse_ChargingGatewayAddress,
    v0_CreatePDPContextResponse_PrivateExtension]"

definition v0_CreatePDPContextResponse_lens :: "v0_CreatePDPContextResponse_field list" where
  "v0_CreatePDPContextResponse_lens = [
    v0_CreatePDPContextResponse_Cause, v0_CreatePDPContextResponse_QoSProfile,
    v0_CreatePDPContextResponse_ReorderingRequired, v0_CreatePDPContextResponse_Recovery,
    v0_CreatePDPContextResponse_FlowLabelDataI,
    v0_CreatePDPContextResponse_FlowLabelSignalling, v0_CreatePDPContextResponse_ChargingID,
    v0_CreatePDPContextResponse_EndUserAddress, v0_CreatePDPContextResponse_PCO,
    v0_CreatePDPContextResponse_GGSNAddressForSignalling,
    v0_CreatePDPContextResponse_GGSNAddressForUserTraffic,
    v0_CreatePDPContextResponse_ChargingGatewayAddress,
    v0_CreatePDPContextResponse_PrivateExtension]"

definition v0_NewCreatePDPContextResponse :: "u16 \<Rightarrow> u16 \<Rightarrow> u64 \<Rightarrow> tv_ie option list \<Rightarrow> (v0_header, v0_CreatePDPContextResponse_field) tv_msg" where
  "v0_NewCreatePDPContextResponse seq label tid ies =
     tvm_New v0_codec v0_CreatePDPContextResponse_switch v0_CreatePDPContextResponse_lens (v0_NewHeader 0x1e v0_MsgTypeCreatePDPContextResponse seq label tid []) ies"

definition v0_CreatePDPContextResponse_MarshalLen :: "(v0_header, v0_CreatePDPContextResponse_field) tv_msg \<Rightarrow> nat" where
  "v0_CreatePDPContextResponse_MarshalLen m = tvm_MarshalLen v0_codec v0_CreatePDPContextResponse_lens m"

definition v0_CreatePDPContextResponse_SetLength :: "(v0_header, v0_CreatePDPContextResponse_field) tv_msg \<Rightarrow> (v0_header, v0_CreatePDPContextResponse_field) tv_msg" where
  "v0_CreatePDPContextResponse_SetLength m = tvm_SetLength v0_codec v0_CreatePDPContextResponse_lens m"

definition v0_CreatePDPContextResponse_MarshalTo :: "(v0_header, v0_CreatePDPContextResponse_field) tv_msg \<Rightarrow> bytes \<Rightarrow> (bytes \<times> (v0_header, v0_CreatePDPContextResponse_field) tv_msg) result" where
  "v0_CreatePDPContextResponse_MarshalTo m b = tvm_MarshalTo v0_codec False True v0_CreatePDPContextResponse_order v0_CreatePDPContextResponse_lens m b"

definition v0_CreatePDPContextResponse_Marshal :: "(v0_header, v0_CreatePDPContextResponse_field) tv_msg \<Rightarrow> (bytes \<times> (v0_header, v0_CreatePDPContextResponse_field) tv_msg) result" where
  "v0_CreatePDPContextResponse_Marshal m = v0_CreatePDPContextResponse_MarshalTo m (replicate (v0_CreatePDPContextResponse_MarshalLen m) 0)"

definition v0_CreatePDPContextResponse_UnmarshalBinary :: "bytes \<Rightarrow> (v0_header, v0_CreatePDPContextResponse_field) tv_msg result" where
  "v0_CreatePDPContextResponse_UnmarshalBinary b = tvm_UnmarshalBinary v0_codec True v0_CreatePDPContextResponse_switch b"

lemma v0_CreatePDPContextResponse_all_fields: "s \<in> set v0_CreatePDPContextResponse_order" "s \<in> set v0_CreatePDPContextResponse_lens"
  by (cases s; simp add: v0_CreatePDPContextResponse_order_def v0_CreatePDPContextResponse_lens_def)+

interpretation v0CreatePDPContextResponse: tv_layout v0_CreatePDPContextResponse_switch v0_CreatePDPContextResponse_order v0_CreatePDPContextResponse_lens
proof unfold_locales
  show "distinct v0_CreatePDPContextResponse_order" "distinct v0_CreatePDPContextResponse_lens" by (simp_all add: v0_CreatePDPContextResponse_order_def v0_CreatePDPContextResponse_lens_def)
  show "set v0_CreatePDPContextResponse_order = set v0_CreatePDPContextResponse_lens" by (simp add: v0_CreatePDPContextResponse_all_fields set_eq_iff)
  show "place_ok v0_CreatePDPContextResponse_order (v0_CreatePDPContextResponse_switch t)" for t
    unfolding v0_CreatePDPContextResponse_switch_def
    by (simp add: v0_CreatePDPContextResponse_all_fields) (simp add: place_ok_def v0_CreatePDPContextResponse_order_def)
qed

lemma v0_CreatePDPContextResponse_Marshal_eq: "v0_CreatePDPContextResponse_Marshal m = tvm_Marshal v0_codec False True v0_CreatePDPContextResponse_order v0_CreatePDPContextResponse_lens m"
  by (simp add: v0_CreatePDPContextResponse_Marshal_def v0_CreatePDPContextResponse_MarshalTo_def v0_CreatePDPContextResponse_MarshalLen_def tvm_Marshal_def)

section \<open>UpdatePDPContextRequest\<close>

datatype v0_UpdatePDPContextRequest_field =
    v0_UpdatePDPContextRequest_RAI | v0_UpdatePDPContextRequest_QoSProfile
    | v0_UpdatePDPContextRequest_Recovery | v0_UpdatePDPContextRequest_FlowLabelDataI
    | v0_UpdatePDPContextRequest_FlowLabelSignalling
    | v0_UpdatePDPContextRequest_EndUserAddress
    | v0_UpdatePDPContextRequest_SGSNAddressForSignalling
    | v0_UpdatePDPContextRequest_SGSNAddressForUserTraffic
    | v0_UpdatePDPContextRequest_PrivateExtension

definition v0_UpdatePDPContextRequest_switch :: "v0_UpdatePDPContextRequest_field tv_switch" where
  "v0_UpdatePDPContextRequest_switch t = (
     if t = v0_IE_RouteingAreaIdentity then Slot1 v0_UpdatePDPContextRequest_RAI
     else if t = v0_IE_QualityOfServiceProfile then Slot1 v0_UpdatePDPContextRequest_QoSProfile
     else if t = v0_IE_Recovery then Slot1 v0_UpdatePDPContextRequest_Recovery
     else if t = v0_IE_FlowLabelDataI then Slot1 v0_UpdatePDPContextRequest_FlowLabelDataI
     else if t = v0_IE_FlowLabelSignalling then Slot1 v0_UpdatePDPContextRequest_FlowLabelSignalling
     else if t = v0_IE_EndUserAddress then Slot1 v0_UpdatePDPContextRequest_EndUserAddress
     else if t = v0_IE_GSNAddress then Place [v0_UpdatePDPContextRequest_SGSNAddressForSignalling] (Into v0_UpdatePDPContextRequest_SGSNAddressForUserTraffic)
     else if t = v0_IE_PrivateExtension then Slot1 v0_UpdatePDPContextRequest_PrivateExtension
     else Rest)"

definition v0_UpdatePDPContextRequest_order :: "v0_UpdatePDPContextRequest_field list" where
  "v0_UpdatePDPContextRequest_order = [
    v0_UpdatePDPContextRequest_RAI, v0_UpdatePDPContextRequest_QoSProfile,
    v0_UpdatePDPContextRequest_Recovery, v0_UpdatePDPContextRequest_FlowLabelDataI,
    v0_UpdatePDPContextRequest_FlowLabelSignalling, v0_UpdatePDPContextRequest_EndUserAddress,
    v0_UpdatePDPContextRequest_SGSNAddressForSignalling,
    v0_UpdatePDPContextRequest_SGSNAddressForUserTraffic,
    v0_UpdatePDPContextRequest_PrivateExtension]"

definition v0_UpdatePDPContextRequest_lens :: "v0_UpdatePDPContextRequest_field list" where
  "v0_UpdatePDPContextRequest_lens = [
    v0_UpdatePDPContextRequest_RAI, v0_UpdatePDPContextRequest_QoSProfile,
    v0_UpdatePDPContextRequest_Recovery, v0_UpdatePDPContextRequest_FlowLabelDataI,
    v0_UpdatePDPContextRequest_FlowLabelSignalling, v0_UpdatePDPContextRequest_EndUserAddress,
    v0_UpdatePDPContextRequest_SGSNAddressForSignalling,
    v0_UpdatePDPContextRequest_SGSNAddressForUserTraffic,
    v0_UpdatePDPContextRequest_PrivateExtension]"

definition v0_NewUpdatePDPContextRequest :: "u16 \<Rightarrow> u16 \<Rightarrow> u64 \<Rightarrow> tv_ie option list \<Rightarrow> (v0_header, v0_UpdatePDPContextRequest_field) tv_msg" where
  "v0_NewUpdatePDPContextRequest seq label tid ies =
     tvm_New v0_codec v0_UpdatePDPContextRequest_switch v0_UpdatePDPContextRequest_lens (v0_NewHeader 0x1e v0_MsgTypeUpdatePDPContextRequest seq label tid []) ies"

definition v0_UpdatePDPContextRequest_MarshalLen :: "(v0_header, v0_UpdatePDPContextRequest_field) tv_msg \<Rightarrow> nat" where
  "v0_UpdatePDPContextRequest_MarshalLen m = tvm_MarshalLen v0_codec v0_UpdatePDPContextRequest_lens m"

definition v0_UpdatePDPContextRequest_SetLength :: "(v0_header, v0_UpdatePDPContextRequest_field) tv_msg \<Rightarrow> (v0_header, v0_UpdatePDPContextRequest_field) tv_msg" where
  "v0_UpdatePDPContextRequest_SetLength m = tvm_SetLength v0_codec v0_UpdatePDPContextRequest_lens m"

definition v0_UpdatePDPContextRequest_MarshalTo :: "(v0_header, v0_UpdatePDPContextRequest_field) tv_msg \<Rightarrow> bytes \<Rightarrow> (bytes \<times> (v0_header, v0_UpdatePDPContextRequest_field) tv_msg) result" where
  "v0_UpdatePDPContextRequest_MarshalTo m b = tvm_MarshalTo v0_codec False True v0_UpdatePDPContextRequest_order v0_UpdatePDPContextRequest_lens m b"

definition v0_UpdatePDPContextRequest_Marshal :: "(v0_header, v0_UpdatePDPContextRequest_field) tv_msg \<Rightarrow> (bytes \<times> (v0_header, v0_UpdatePDPContextRequest_field) tv_msg) result" where
  "v0_UpdatePDPContextRequest_Marshal m = v0_UpdatePDPContextRequest_MarshalTo m (replicate (v0_UpdatePDPContextRequest_MarshalLen m) 0)"

definition v0_UpdatePDPContextRequest_UnmarshalBinary :: "bytes \<Rightarrow> (v0_header, v0_UpdatePDPContextRequest_field) tv_msg result" where
  "v0_UpdatePDPContextRequest_UnmarshalBinary b = tvm_UnmarshalBinary v0_codec True v0_UpdatePDPContextRequest_switch b"

lemma v0_UpdatePDPContextRequest_all_fields: "s \<in> set v0_UpdatePDPContextRequest_order" "s \<in> set v0_UpdatePDPContextRequest_lens"
  by (cases s; simp add: v0_UpdatePDPContextRequest_order_def v0_UpdatePDPContextRequest_lens_def)+

interpretation v0UpdatePDPContextRequest: tv_layout v0_UpdatePDPContextRequest_switch v0_UpdatePDPContextRequest_order v0_UpdatePDPContextRequest_lens
proof unfold_locales
  show "distinct v0_UpdatePDPContextRequest_order" "distinct v0_UpdatePDPContextRequest_lens" by (simp_all add: v0_UpdatePDPContextRequest_order_def v0_UpdatePDPContextRequest_lens_def)
  show "set v0_UpdatePDPContextRequest_order = set v0_UpdatePDPContextRequest_lens" by (simp add: v0_UpdatePDPContextRequest_all_fields set_eq_iff)
  show "place_ok v0_UpdatePDPContextRequest_order (v0_UpdatePDPContextRequest_switch t)" for t
    unfolding v0_UpdatePDPContextRequest_switch_def
    by (simp add: v0_UpdatePDPContextRequest_all_fields) (simp add: place_ok_def v0_UpdatePDPContextRequest_order_def)
qed

lemma v0_UpdatePDPContextRequest_Marshal_eq: "v0_UpdatePDPContextRequest_Marshal m = tvm_Marshal v0_codec False True v0_UpdatePDPContextRequest_order v0_UpdatePDPContextRequest_lens m"
  by (simp add: v0_UpdatePDPContextRequest_Marshal_def v0_UpdatePDPContextRequest_MarshalTo_def v0_UpdatePDPContextRequest_MarshalLen_def tvm_Marshal_def)

section \<open>UpdatePDPContextResponse\<close>

datatype v0_UpdatePDPContextResponse_field =
    v0_UpdatePDPContextResponse_Cause | v0_UpdatePDPContextResponse_QoSProfile
    | v0_UpdatePDPContextResponse_Recovery | v0_UpdatePDPContextResponse_FlowLabelDataI
    | v0_UpdatePDPContextResponse_FlowLabelSignalling | v0_UpdatePDPContextResponse_ChargingID
    | v0_UpdatePDPContextResponse_EndUserAddress
    | v0_UpdatePDPContextResponse_GGSNAddressForSignalling
    | v0_UpdatePDPContextResponse_GGSNAddressForUserTraffic
    | v0_UpdatePDPContextResponse_ChargingGatewayAddress
    | v0_UpdatePDPContextResponse_PrivateExtension

definition v0_UpdatePDPContextResponse_switch :: "v0_UpdatePDPContextResponse_field tv_switch" where
  "v0_UpdatePDPContextResponse_switch t = (
     if t = v0_IE_Cause then Slot1 v0_UpdatePDPContextResponse_Cause
     else if t = v0_IE_QualityOfServiceProfile then Slot1 v0_UpdatePDPContextResponse_QoSProfile
     else if t = v0_IE_Recovery then Slot1 v0_UpdatePDPContextResponse_Recovery
     else if t = v0_IE_FlowLabelDataI then Slot1 v0_UpdatePDPContextResponse_FlowLabelDataI
     else if t = v0_IE_FlowLabelSignalling then Slot1 v0_UpdatePDPContextResponse_FlowLabelSignalling
     else if t = v0_IE_ChargingID then Slot1 v0_UpdatePDPContextResponse_ChargingID
     else if t = v0_IE_EndUserAddress then Slot1 v0_UpdatePDPContextResponse_EndUserAddress
     else if t = v0_IE_GSNAddress then Place [v0_UpdatePDPContextResponse_GGSNAddressForSignalling] (Into v0_UpdatePDPContextResponse_GGSNAddressForUserTraffic)
     else if t = v0_IE_ChargingGatewayAddress then Slot1 v0_UpdatePDPContextResponse_ChargingGatewayAddress
     else if t = v0_IE_PrivateExtension then Slot1 v0_UpdatePDPContextResponse_PrivateExtension
     else Rest)"

definition v0_UpdatePDPContextResponse_order :: "v0_UpdatePDPContextResponse_field list" where
  "v0_UpdatePDPContextResponse_order = [
    v0_UpdatePDPContextResponse_Cause, v0_UpdatePDPContextResponse_QoSProfile,
    v0_UpdatePDPContextResponse_Recovery, v0_UpdatePDPContextResponse_FlowLabelDataI,
    v0_UpdatePDPContextResponse_FlowLabelSignalling, v0_UpdatePDPContextResponse_ChargingID,
    v0_UpdatePDPContextResponse_EndUserAddress,
    v0_UpdatePDPContextResponse_GGSNAddressForSignalling,
    v0_UpdatePDPContextResponse_GGSNAddressForUserTraffic,
    v0_UpdatePDPContextResponse_ChargingGatewayAddress,
    v0_UpdatePDPContextResponse_PrivateExtension]"

definition v0_UpdatePDPContextResponse_lens :: "v0_UpdatePDPContextResponse_field list" where
  "v0_UpdatePDPContextResponse_lens = [
    v0_UpdatePDPContextResponse_Cause, v0_UpdatePDPContextResponse_QoSProfile,
    v0_UpdatePDPContextResponse_Recovery, v0_UpdatePDPContextResponse_FlowLabelDataI,
    v0_UpdatePDPContextResponse_FlowLabelSignalling, v0_UpdatePDPContextResponse_ChargingID,
    v0_UpdatePDPContextResponse_EndUserAddress,
    v0_UpdatePDPContextResponse_GGSNAddressForSignalling,
    v0_UpdatePDPContextResponse_GGSNAddressForUserTraffic,
    v0_UpdatePDPContextResponse_ChargingGatewayAddress,
    v0_UpdatePDPContextResponse_PrivateExtension]"

definition v0_NewUpdatePDPContextResponse :: "u16 \<Rightarrow> u16 \<Rightarrow> u64 \<Rightarrow> tv_ie option list \<Rightarrow> (v0_header, v0_UpdatePDPContextResponse_field) tv_msg" where
  "v0_NewUpdatePDPContextResponse seq label tid ies =
     tvm_New v0_codec v0_UpdatePDPContextResponse_switch v0_UpdatePDPContextResponse_lens (v0_NewHeader 0x1e v0_MsgTypeUpdatePDPContextResponse seq label tid []) ies"

definition v0_UpdatePDPContextResponse_MarshalLen :: "(v0_header, v0_UpdatePDPContextResponse_field) tv_msg \<Rightarrow> nat" where
  "v0_UpdatePDPContextResponse_MarshalLen m = tvm_MarshalLen v0_codec v0_UpdatePDPContextResponse_lens m"

definition v0_UpdatePDPContextResponse_SetLength :: "(v0_header, v0_UpdatePDPContextResponse_field) tv_msg \<Rightarrow> (v0_header, v0_UpdatePDPContextResponse_field) tv_msg" where
  "v0_UpdatePDPContextResponse_SetLength m = tvm_SetLength v0_codec v0_UpdatePDPContextResponse_lens m"

definition v0_UpdatePDPContextResponse_MarshalTo :: "(v0_header, v0_UpdatePDPContextResponse_field) tv_msg \<Rightarrow> bytes \<Rightarrow> (bytes \<times> (v0_header, v0_UpdatePDPContextResponse_field) tv_msg) result" where
  "v0_UpdatePDPContextResponse_MarshalTo m b = tvm_MarshalTo v0_codec False True v0_UpdatePDPContextResponse_order v0_UpdatePDPContextResponse_lens m b"

definition v0_UpdatePDPContextResponse_Marshal :: "(v0_header, v0_UpdatePDPContextResponse_field) tv_msg \<Rightarrow> (bytes \<times> (v0_header, v0_UpdatePDPContextResponse_field) tv_msg) result" where
  "v0_UpdatePDPContextResponse_Marshal m = v0_UpdatePDPContextResponse_MarshalTo m (replicate (v0_UpdatePDPContextResponse_MarshalLen m) 0)"

definition v0_UpdatePDPContextResponse_UnmarshalBinary :: "bytes \<Rightarrow> (v0_header, v0_UpdatePDPContextResponse_field) tv_msg result" where
  "v0_UpdatePDPContextResponse_UnmarshalBinary b = tvm_UnmarshalBinary v0_codec True v0_UpdatePDPContextResponse_switch b"

lemma v0_UpdatePDPContextResponse_all_fields: "s \<in> set v0_UpdatePDPContextResponse_order" "s \<in> set v0_UpdatePDPContextResponse_lens"
  by (cases s; simp add: v0_UpdatePDPContextResponse_order_def v0_UpdatePDPContextResponse_lens_def)+

interpretation v0UpdatePDPContextResponse: tv_layout v0_UpdatePDPContextResponse_switch v0_UpdatePDPContextResponse_order v0_UpdatePDPContextResponse_lens
proof unfold_locales
  show "distinct v0_UpdatePDPContextResponse_order" "distinct v0_UpdatePDPContextResponse_lens" by (simp_all add: v0_UpdatePDPContextResponse_order_def v0_UpdatePDPContextResponse_lens_def)
  show "set v0_UpdatePDPContextResponse_order = set v0_UpdatePDPContextResponse_lens" by (simp add: v0_UpdatePDPContextResponse_all_fields set_eq_iff)
  show "place_ok v0_UpdatePDPContextResponse_order (v0_UpdatePDPContextResponse_switch t)" for t
    unfolding v0_UpdatePDPContextResponse_switch_def
    by (simp add: v0_UpdatePDPContextResponse_all_fields) (simp add: place_ok_def v0_UpdatePDPContextResponse_order_def)
qed

lemma v0_UpdatePDPContextResponse_Marshal_eq: "v0_UpdatePDPContextResponse_Marshal m = tvm_Marshal v0_codec False True v0_UpdatePDPContextResponse_order v0_UpdatePDPContextResponse_lens m"
  by (simp add: v0_UpdatePDPContextResponse_Marshal_def v0_UpdatePDPContextResponse_MarshalTo_def v0_UpdatePDPContextResponse_MarshalLen_def tvm_Marshal_def)

section \<open>DeletePDPContextRequest\<close>

datatype v0_DeletePDPContextRequest_field =
    v0_DeletePDPContextRequest_PrivateExtension

definition v0_DeletePDPContextRequest_switch :: "v0_DeletePDPContextRequest_field tv_switch" where
  "v0_DeletePDPContextRequest_switch t = (
     if t = v0_IE_PrivateExtension then Slot1 v0_DeletePDPContextRequest_PrivateExtension
     else Rest)"

definition v0_DeletePDPContextRequest_order :: "v0_DeletePDPContextRequest_field list" where
  "v0_DeletePDPContextRequest_order = [
    v0_DeletePDPContextRequest_PrivateExtension]"

definition v0_DeletePDPContextRequest_lens :: "v0_DeletePDPContextRequest_field list" where
  "v0_DeletePDPContextRequest_lens = [
    v0_DeletePDPContextRequest_PrivateExtension]"

definition v0_NewDeletePDPContextRequest :: "u16 \<Rightarrow> u16 \<Rightarrow> u64 \<Rightarrow> tv_ie option list \<Rightarrow> (v0_header, v0_DeletePDPContextRequest_field) tv_msg" where
  "v0_NewDeletePDPContextRequest seq label tid ies =
     tvm_New v0_codec v0_DeletePDPContextRequest_switch v0_DeletePDPContextRequest_lens (v0_NewHeader 0x1e v0_MsgTypeDeletePDPContextRequest seq label tid []) ies"

definition v0_DeletePDPContextRequest_MarshalLen :: "(v0_header, v0_DeletePDPContextRequest_field) tv_msg \<Rightarrow> nat" where
  "v0_DeletePDPContextRequest_MarshalLen m = tvm_MarshalLen v0_codec v0_DeletePDPContextRequest_lens m"

definition v0_DeletePDPContextRequest_SetLength :: "(v0_header, v0_DeletePDPContextRequest_field) tv_msg \<Rightarrow> (v0_header, v0_DeletePDPContextRequest_field) tv_msg" where
  "v0_DeletePDPContextRequest_SetLength m = tvm_SetLength v0_codec v0_DeletePDPContextRequest_lens m"

definition v0_DeletePDPContextRequest_MarshalTo :: "(v0_header, v0_DeletePDPContextRequest_field) tv_msg \<Rightarrow> bytes \<Rightarrow> (bytes \<times> (v0_header, v0_DeletePDPContextRequest_field) tv_msg) result" where
  "v0_DeletePDPContextRequest_MarshalTo m b = tvm_MarshalTo v0_codec False True v0_DeletePDPContextRequest_order v0_DeletePDPContextRequest_lens m b"

definition v0_DeletePDPContextRequest_Marshal :: "(v0_header, v0_DeletePDPContextRequest_field) tv_msg \<Rightarrow> (bytes \<times> (v0_header, v0_DeletePDPContextRequest_field) tv_msg) result" where
  "v0_DeletePDPContextRequest_Marshal m = v0_DeletePDPContextRequest_MarshalTo m (replicate (v0_DeletePDPContextRequest_MarshalLen m) 0)"

definition v0_DeletePDPContextRequest_UnmarshalBinary :: "bytes \<Rightarrow> (v0_header, v0_DeletePDPContextRequest_field) tv_msg result" where
  "v0_DeletePDPContextRequest_UnmarshalBinary b = tvm_UnmarshalBinary v0_codec True v0_DeletePDPContextRequest_switch b"

lemma v0_DeletePDPContextRequest_all_fields: "s \<in> set v0_DeletePDPContextRequest_order" "s \<in> set v0_DeletePDPContextRequest_lens"
  by (cases s; simp add: v0_DeletePDPContextRequest_order_def v0_DeletePDPContextRequest_lens_def)+

interpretation v0DeletePDPContextRequest: tv_layout v0_DeletePDPContextRequest_switch v0_DeletePDPContextRequest_order v0_DeletePDPContextRequest_lens
proof unfold_locales
  show "distinct v0_DeletePDPContextRequest_order" "distinct v0_DeletePDPContextRequest_lens" by (simp_all add: v0_DeletePDPContextRequest_order_def v0_DeletePDPContextRequest_lens_def)
  show "set v0_DeletePDPContextRequest_order = set v0_DeletePDPContextRequest_lens" by (simp add: v0_DeletePDPContextRequest_all_fields set_eq_iff)
  show "place_ok v0_DeletePDPContextRequest_order (v0_DeletePDPContextRequest_switch t)" for t
    unfolding v0_DeletePDPContextRequest_switch_def
    by (simp add: v0_DeletePDPContextRequest_all_fields)
qed

lemma v0_DeletePDPContextRequest_Marshal_eq: "v0_DeletePDPContextRequest_Marshal m = tvm_Marshal v0_codec False True v0_DeletePDPContextRequest_order v0_DeletePDPContextRequest_lens m"
  by (simp add: v0_DeletePDPContextRequest_Marshal_def v0_DeletePDPContextRequest_MarshalTo_def v0_DeletePDPContextRequest_MarshalLen_def tvm_Marshal_def)

section \<open>DeletePDPContextResponse\<close>

datatype v0_DeletePDPContextResponse_field =
    v0_DeletePDPContextResponse_Cause | v0_DeletePDPContextResponse_PrivateExtension

definition v0_DeletePDPContextResponse_switch :: "v0_DeletePDPContextResponse_field tv_switch" where
  "v0_DeletePDPContextResponse_switch t = (
     if t = v0_IE_Cause then Slot1 v0_DeletePDPContextResponse_Cause
     else if t = v0_IE_PrivateExtension then Slot1 v0_DeletePDPContextResponse_PrivateExtension
     else Rest)"

definition v0_DeletePDPContextResponse_order :: "v0_DeletePDPContextResponse_field list" where
  "v0_DeletePDPContextResponse_order = [
    v0_DeletePDPContextResponse_Cause, v0_DeletePDPContextResponse_PrivateExtension]"

definition v0_DeletePDPContextResponse_lens :: "v0_DeletePDPContextResponse_field list" where
  "v0_DeletePDPContextResponse_lens = [
    v0_DeletePDPContextResponse_Cause, v0_DeletePDPContextResponse_PrivateExtension]"

definition v0_NewDeletePDPContextResponse :: "u16 \<Rightarrow> u16 \<Rightarrow> u64 \<Rightarrow> tv_ie option list \<Rightarrow> (v0_header, v0_DeletePDPContextResponse_field) tv_msg" where
  "v0_NewDeletePDPContextResponse seq label tid ies =
     tvm_New v0_codec v0_DeletePDPContextResponse_switch v0_DeletePDPContextResponse_lens (v0_NewHeader 0x1e v0_MsgTypeDeletePDPContextResponse seq label tid []) ies"

definition v0_DeletePDPContextResponse_MarshalLen :: "(v0_header, v0_DeletePDPContextResponse_field) tv_msg \<Rightarrow> nat" where
  "v0_DeletePDPContextResponse_MarshalLen m = tvm_MarshalLen v0_codec v0_DeletePDPContextResponse_lens m"

definition v0_DeletePDPContextResponse_SetLength :: "(v0_header, v0_DeletePDPContextResponse_field) tv_msg \<Rightarrow> (v0_header, v0_DeletePDPContextResponse_field) tv_msg" where
  "v0_DeletePDPContextResponse_SetLength m = tvm_SetLength v0_codec v0_DeletePDPContextResponse_lens m"

definition v0_DeletePDPContextResponse_MarshalTo :: "(v0_header, v0_DeletePDPContextResponse_field) tv_msg \<Rightarrow> bytes \<Rightarrow> (bytes \<times> (v0_header, v0_DeletePDPContextResponse_field) tv_msg) result" where
  "v0_DeletePDPContextResponse_MarshalTo m b = tvm_MarshalTo v0_codec False False v0_DeletePDPContextResponse_order v0_DeletePDPContextResponse_lens m b"

definition v0_DeletePDPContextResponse_Marshal :: "(v0_header, v0_DeletePDPContextResponse_field) tv_msg \<Rightarrow> (bytes \<times> (v0_header, v0_DeletePDPContextResponse_field) tv_msg) result" where
  "v0_DeletePDPContextResponse_Marshal m = v0_DeletePDPContextResponse_MarshalTo m (replicate (v0_DeletePDPContextResponse_MarshalLen m) 0)"

definition v0_DeletePDPContextResponse_UnmarshalBinary :: "bytes \<Rightarrow> (v0_header, v0_DeletePDPContextResponse_field) tv_msg result" where
  "v0_DeletePDPContextResponse_UnmarshalBinary b = tvm_UnmarshalBinary v0_codec True v0_DeletePDPContextResponse_switch b"

lemma v0_DeletePDPContextResponse_all_fields: "s \<in> set v0_DeletePDPContextResponse_order" "s \<in> set v0_DeletePDPContextResponse_lens"
  by (cases s; simp add: v0_DeletePDPContextResponse_order_def v0_DeletePDPContextResponse_lens_def)+

interpretation v0DeletePDPContextResponse: tv_layout v0_DeletePDPContextResponse_switch v0_DeletePDPContextResponse_order v0_DeletePDPContextResponse_lens
proof unfold_locales
  show "distinct v0_DeletePDPContextResponse_order" "distinct v0_DeletePDPContextResponse_lens" by (simp_all add: v0_DeletePDPContextResponse_order_def v0_DeletePDPContextResponse_lens_def)
  show "set v0_DeletePDPContextResponse_order = set v0_DeletePDPContextResponse_lens" by (simp add: v0_DeletePDPContextResponse_all_fields set_eq_iff)
  show "place_ok v0_DeletePDPContextResponse_order (v0_DeletePDPContextResponse_switch t)" for t
    unfolding v0_DeletePDPContextResponse_switch_def
    by (simp add: v0_DeletePDPContextResponse_all_fields)
qed

lemma v0_DeletePDPContextResponse_Marshal_eq: "v0_DeletePDPContextResponse_Marshal m = tvm_Marshal v0_codec False False v0_DeletePDPContextResponse_order v0_DeletePDPContextResponse_lens m"
  by (simp add: v0_DeletePDPContextResponse_Marshal_def v0_DeletePDPContextResponse_MarshalTo_def v0_DeletePDPContextResponse_MarshalLen_def tvm_Marshal_def)

end
