(* ===== verification/V0Parse.thy ===== *)
theory V0Parse
  imports V0Messages
begin

text \<open>
  T-PDUs and generic messages of GTPv0 (\<open>t-pdu.go\<close>, \<open>generic.go\<close>), and \<open>Marshal\<close> and \<open>Parse\<close> of
  \<open>message.go\<close> over all message types.
\<close>

section \<open>T-PDU\<close>

text \<open>A T-PDU is its header; the payload is the user's packet.\<close>

definition v0_NewTPDU :: "u16 \<Rightarrow> u16 \<Rightarrow> u64 \<Rightarrow> bytes \<Rightarrow> v0_header" where
  "v0_NewTPDU seq label tid payload =
     h0_SetLength (v0_NewHeader 0x1e v0_MsgTypeTPDU seq label tid payload)"

definition v0_TPDU_MarshalLen :: "v0_header \<Rightarrow> nat" where
  "v0_TPDU_MarshalLen t = h0_MarshalLen t - length (h0_Payload t) + length (h0_Payload t)"

definition v0_TPDU_MarshalTo :: "v0_header \<Rightarrow> bytes \<Rightarrow> (bytes \<times> v0_header) result" where
  "v0_TPDU_MarshalTo t b =
     (if length b < v0_TPDU_MarshalLen t then Inl (Error MsgErrTooShortToMarshal)
      else let t = h0_SetLength t in andThen (h0_MarshalTo t b) (\<lambda>b. Inr (b, t)))"

definition v0_TPDU_UnmarshalBinary :: "bytes \<Rightarrow> v0_header result" where
  "v0_TPDU_UnmarshalBinary b = v0_ParseHeader b"

text \<open>\<open>Decapsulate\<close> of \<open>message.go\<close> returns the payload of a T-PDU, and nothing of another message.\<close>

definition v0_Decapsulate :: "bytes \<Rightarrow> bytes result" where
  "v0_Decapsulate b = andThen (v0_ParseHeader b) (\<lambda>h.
     if h0_Type h \<noteq> v0_MsgTypeTPDU then Inr [] else Inr (h0_Payload h))"

section \<open>Generic messages\<close>

definition v0_NewGeneric :: "byte \<Rightarrow> u16 \<Rightarrow> u16 \<Rightarrow> u64 \<Rightarrow> tv_ie option list \<Rightarrow> v0_header tv_generic" where
  "v0_NewGeneric msgType seq label tid ies =
     tvg_SetLength v0_codec \<lparr>tg_Header = v0_NewHeader 0x1e msgType seq label tid [],
       tg_IEs = filter (\<lambda>i. i \<noteq> None) ies\<rparr>"

definition v0_Generic_MarshalLen :: "v0_header tv_generic \<Rightarrow> nat" where
  "v0_Generic_MarshalLen = tvg_MarshalLen v0_codec"

definition v0_Generic_SetLength :: "v0_header tv_generic \<Rightarrow> v0_header tv_generic" where
  "v0_Generic_SetLength = tvg_SetLength v0_codec"

definition v0_Generic_AddIE :: "tv_ie option list \<Rightarrow> v0_header tv_generic \<Rightarrow> v0_header tv_generic" where
  "v0_Generic_AddIE = tvg_AddIE v0_codec"

definition v0_Generic_MarshalTo :: "v0_header tv_generic \<Rightarrow> bytes \<Rightarrow> (bytes \<times> v0_header tv_generic) result" where
  "v0_Generic_MarshalTo = tvg_MarshalTo v0_codec"

definition v0_Generic_UnmarshalBinary :: "bytes \<Rightarrow> v0_header tv_generic result" where
  "v0_Generic_UnmarshalBinary = tvg_UnmarshalBinary v0_codec"

section \<open>All messages\<close>

datatype v0_message =
    Msg0_EchoRequest "(v0_header, v0_EchoRequest_field) tv_msg"
  | Msg0_EchoResponse "(v0_header, v0_EchoResponse_field) tv_msg"
  | Msg0_CreatePDPContextRequest "(v0_header, v0_CreatePDPContextRequest_field) tv_msg"
  | Msg0_CreatePDPContextResponse "(v0_header, v0_CreatePDPContextResponse_field) tv_msg"
  | Msg0_UpdatePDPContextRequest "(v0_header, v0_UpdatePDPContextRequest_field) tv_msg"
  | Msg0_UpdatePDPContextResponse "(v0_header, v0_UpdatePDPContextResponse_field) tv_msg"
  | Msg0_DeletePDPContextRequest "(v0_header, v0_DeletePDPContextRequest_field) tv_msg"
  | Msg0_DeletePDPContextResponse "(v0_header, v0_DeletePDPContextResponse_field) tv_msg"
  | Msg0_TPDU v0_header
  | Msg0_Generic "v0_header tv_generic"

primrec v0_MarshalLen :: "v0_message \<Rightarrow> nat" where
  "v0_MarshalLen (Msg0_EchoRequest m) = v0_EchoRequest_MarshalLen m"
| "v0_MarshalLen (Msg0_EchoResponse m) = v0_EchoResponse_MarshalLen m"
| "v0_MarshalLen (Msg0_CreatePDPContextRequest m) = v0_CreatePDPContextRequest_MarshalLen m"
| "v0_MarshalLen (Msg0_CreatePDPContextResponse m) = v0_CreatePDPContextResponse_MarshalLen m"
| "v0_MarshalLen (Msg0_UpdatePDPContextRequest m) = v0_UpdatePDPContextRequest_MarshalLen m"
| "v0_MarshalLen (Msg0_UpdatePDPContextResponse m) = v0_UpdatePDPContextResponse_MarshalLen m"
| "v0_MarshalLen (Msg0_DeletePDPContextRequest m) = v0_DeletePDPContextRequest_MarshalLen m"
| "v0_MarshalLen (Msg0_DeletePDPContextResponse m) = v0_DeletePDPContextResponse_MarshalLen m"
| "v0_MarshalLen (Msg0_TPDU t) = v0_TPDU_MarshalLen t"
| "v0_MarshalLen (Msg0_Generic g) = v0_Generic_MarshalLen g"

primrec v0_MarshalTo :: "v0_message \<Rightarrow> bytes \<Rightarrow> (bytes \<times> v0_message) result" where
  "v0_MarshalTo (Msg0_EchoRequest m) = (\<lambda>b. written_as Msg0_EchoRequest (v0_EchoRequest_MarshalTo m b))"
| "v0_MarshalTo (Msg0_EchoResponse m) = (\<lambda>b. written_as Msg0_EchoResponse (v0_EchoResponse_MarshalTo m b))"
| "v0_MarshalTo (Msg0_CreatePDPContextRequest m) = (\<lambda>b. written_as Msg0_CreatePDPContextRequest (v0_CreatePDPContextRequest_MarshalTo m b))"
| "v0_MarshalTo (Msg0_CreatePDPContextResponse m) = (\<lambda>b. written_as Msg0_CreatePDPContextResponse (v0_CreatePDPContextResponse_MarshalTo m b))"
| "v0_MarshalTo (Msg0_UpdatePDPContextRequest m) = (\<lambda>b. written_as Msg0_UpdatePDPContextRequest (v0_UpdatePDPContextRequest_MarshalTo m b))"
| "v0_MarshalTo (Msg0_UpdatePDPContextResponse m) = (\<lambda>b. written_as Msg0_UpdatePDPContextResponse (v0_UpdatePDPContextResponse_MarshalTo m b))"
| "v0_MarshalTo (Msg0_DeletePDPContextRequest m) = (\<lambda>b. written_as Msg0_DeletePDPContextRequest (v0_DeletePDPContextRequest_MarshalTo m b))"
| "v0_MarshalTo (Msg0_DeletePDPContextResponse m) = (\<lambda>b. written_as Msg0_DeletePDPContextResponse (v0_DeletePDPContextResponse_MarshalTo m b))"
| "v0_MarshalTo (Msg0_TPDU t) = (\<lambda>b. written_as Msg0_TPDU (v0_TPDU_MarshalTo t b))"
| "v0_MarshalTo (Msg0_Generic g) = (\<lambda>b. written_as Msg0_Generic (v0_Generic_MarshalTo g b))"

text \<open>The header a message embeds, and the methods it has from it.\<close>

primrec v0_msg_header :: "v0_message \<Rightarrow> v0_header" where
  "v0_msg_header (Msg0_EchoRequest m) = t_Header m"
| "v0_msg_header (Msg0_EchoResponse m) = t_Header m"
| "v0_msg_header (Msg0_CreatePDPContextRequest m) = t_Header m"
| "v0_msg_header (Msg0_CreatePDPContextResponse m) = t_Header m"
| "v0_msg_header (Msg0_UpdatePDPContextRequest m) = t_Header m"
| "v0_msg_header (Msg0_UpdatePDPContextResponse m) = t_Header m"
| "v0_msg_header (Msg0_DeletePDPContextRequest m) = t_Header m"
| "v0_msg_header (Msg0_DeletePDPContextResponse m) = t_Header m"
| "v0_msg_header (Msg0_TPDU t) = t"
| "v0_msg_header (Msg0_Generic g) = tg_Header g"

definition v0_MessageType :: "v0_message \<Rightarrow> byte" where
  "v0_MessageType M = h0_MessageType (v0_msg_header M)"

definition v0_TID :: "v0_message \<Rightarrow> string" where
  "v0_TID M = h0_tid (v0_msg_header M)"

definition v0_Marshal :: "v0_message \<Rightarrow> (bytes \<times> v0_message) result" where
  "v0_Marshal M = v0_MarshalTo M (replicate (v0_MarshalLen M) 0)"

definition v0_Parse :: "bytes \<Rightarrow> v0_message result" where
  "v0_Parse b =
     andThen (byte_at b 1) (\<lambda>t.
     if t = v0_MsgTypeEchoRequest then parsed_as Msg0_EchoRequest (v0_EchoRequest_UnmarshalBinary b)
     else if t = v0_MsgTypeEchoResponse then parsed_as Msg0_EchoResponse (v0_EchoResponse_UnmarshalBinary b)
     else if t = v0_MsgTypeCreatePDPContextRequest then parsed_as Msg0_CreatePDPContextRequest (v0_CreatePDPContextRequest_UnmarshalBinary b)
     else if t = v0_MsgTypeCreatePDPContextResponse then parsed_as Msg0_CreatePDPContextResponse (v0_CreatePDPContextResponse_UnmarshalBinary b)
     else if t = v0_MsgTypeUpdatePDPContextRequest then parsed_as Msg0_UpdatePDPContextRequest (v0_UpdatePDPContextRequest_UnmarshalBinary b)
     else if t = v0_MsgTypeUpdatePDPContextResponse then parsed_as Msg0_UpdatePDPContextResponse (v0_UpdatePDPContextResponse_UnmarshalBinary b)
     else if t = v0_MsgTypeDeletePDPContextRequest then parsed_as Msg0_DeletePDPContextRequest (v0_DeletePDPContextRequest_UnmarshalBinary b)
     else if t = v0_MsgTypeDeletePDPContextResponse then parsed_as Msg0_DeletePDPContextResponse (v0_DeletePDPContextResponse_UnmarshalBinary b)
     else if t = v0_MsgTypeTPDU then parsed_as Msg0_TPDU (v0_TPDU_UnmarshalBinary b)
     else parsed_as Msg0_Generic (v0_Generic_UnmarshalBinary b))"

section \<open>Well-formed messages\<close>

definition v0_typed_ok :: "'s tv_switch \<Rightarrow> 's list \<Rightarrow> byte \<Rightarrow> (v0_header, 's) tv_msg \<Rightarrow> bool" where
  "v0_typed_ok D order t m \<longleftrightarrow>
     tvm_ok v0_tv D m \<and> h0_Type (t_Header m) = t \<and> tvm_MarshalLen v0_codec order m < 65536"



text \<open>
  The messages that cannot be marshalled: \<open>MarshalTo\<close> of one of the types, \<open>DeletePDPContextResponse\<close>, does not clear
  the payload of the header before it computes the length of the new one.
\<close>

primrec v0_stale :: "v0_message \<Rightarrow> bool" where
  "v0_stale (Msg0_EchoRequest m) = False"
| "v0_stale (Msg0_EchoResponse m) = False"
| "v0_stale (Msg0_CreatePDPContextRequest m) = False"
| "v0_stale (Msg0_CreatePDPContextResponse m) = False"
| "v0_stale (Msg0_UpdatePDPContextRequest m) = False"
| "v0_stale (Msg0_UpdatePDPContextResponse m) = False"
| "v0_stale (Msg0_DeletePDPContextRequest m) = False"
| "v0_stale (Msg0_DeletePDPContextResponse m) = (h0_Payload (t_Header m) \<noteq> [])"
| "v0_stale (Msg0_TPDU t) = False"
| "v0_stale (Msg0_Generic g) = False"


lemma v0_sound_SetLength: "v0_header_ok (h0_SetLength h) \<longleftrightarrow> h0_MarshalLen h < 65536"
  by (simp add: v0_header_ok_def h0_SetLength_def h0_MarshalLen_def)

lemma v0_len_SetLength: "h0_MarshalLen (h0_SetLength h) = h0_MarshalLen h"
  by (simp add: h0_SetLength_def h0_MarshalLen_def)

lemma v0_step:
  assumes layout: "tv_layout D order lens" and ok: "v0_typed_ok D order t m"
    and fresh: "clears \<or> h0_Payload (t_Header m) = []"
  shows "\<exists>w m'. tvm_Marshal v0_codec checked clears order lens m = Inr (w, m') \<and>
     length w = tvm_MarshalLen v0_codec lens m \<and>
     tvm_UnmarshalBinary v0_codec lenient D w = Inr (m'\<lparr>t_Header := v0_seen (t_Header m')\<rparr>) \<and>
     byte_at w 1 = Inr t \<and> byte_at w 0 = Inr (h0_Flags (t_Header m))"
proof -
  let ?m = "v0cd.marshalled order m"
  let ?w = "v0_header_wire (t_Header ?m)"
  have n: "h0_MarshalLen (t_Header ?m) = tvm_MarshalLen v0_codec order m"
    using v0cd.marshalled_length [of order m] by (simp add: v0_codec_def)
  have tab: "cd_table v0_codec = v0_tv" "cd_SetLength v0_codec = h0_SetLength" by (simp_all add: v0_codec_def)
  have "tvm_Marshal v0_codec checked clears order lens m = Inr (?w, ?m)"
    using fresh by (intro v0cd.Marshal_wire [OF layout]) (simp add: v0_codec_def)
  moreover have "length ?w = tvm_MarshalLen v0_codec lens m"
    by (simp add: n tv_layout.MarshalLen_lens [OF layout])
  moreover have "v0_header_ok (t_Header ?m)"
  proof -
    have eq: "t_Header ?m = h0_SetLength (cd_SetPayload v0_codec
        (concat (map (tv_wire v0_tv) (tvm_present order m))) (t_Header m))"
      by (simp add: v0cd.marshalled_def tab)
    show ?thesis
      using ok n unfolding eq by (simp add: v0_sound_SetLength v0_len_SetLength v0_typed_ok_def)
  qed
  then have "tvm_UnmarshalBinary v0_codec lenient D ?w = Inr (v0cd.parsed ?m)"
    using v0cd.Unmarshal_wire [OF layout, of m "[]" lenient] ok n
    by (simp add: v0_typed_ok_def tab v0_accepts_def)
  moreover have "byte_at ?w 1 = Inr t \<and> byte_at ?w 0 = Inr (h0_Flags (t_Header m))"
    using ok by (simp add: v0_header_wire_def byte_at_def v0cd.marshalled_def v0_typed_ok_def tab(2) h0_SetLength_def)
      (simp add: v0_codec_def)
  ultimately show ?thesis by (auto simp: v0cd.parsed_def)
qed

lemma v0_EchoRequest_step:
  assumes "v0_typed_ok v0_EchoRequest_switch v0_EchoRequest_order t m"
  shows "\<exists>w m'. v0_EchoRequest_MarshalTo m (replicate (v0_EchoRequest_MarshalLen m) 0) = Inr (w, m') \<and>
     length w = v0_EchoRequest_MarshalLen m \<and>
     v0_EchoRequest_UnmarshalBinary w = Inr (m'\<lparr>t_Header := v0_seen (t_Header m')\<rparr>) \<and>
     byte_at w 1 = Inr t \<and> byte_at w 0 = Inr (h0_Flags (t_Header m))"
  using v0_step [OF v0EchoRequest.tv_layout_axioms assms(1), where checked = False and clears = True and lenient = True] assms
  by (simp add: v0_EchoRequest_MarshalTo_def v0_EchoRequest_MarshalLen_def v0_EchoRequest_UnmarshalBinary_def tvm_Marshal_def)

lemma v0_EchoResponse_step:
  assumes "v0_typed_ok v0_EchoResponse_switch v0_EchoResponse_order t m"
  shows "\<exists>w m'. v0_EchoResponse_MarshalTo m (replicate (v0_EchoResponse_MarshalLen m) 0) = Inr (w, m') \<and>
     length w = v0_EchoResponse_MarshalLen m \<and>
     v0_EchoResponse_UnmarshalBinary w = Inr (m'\<lparr>t_Header := v0_seen (t_Header m')\<rparr>) \<and>
     byte_at w 1 = Inr t \<and> byte_at w 0 = Inr (h0_Flags (t_Header m))"
  using v0_step [OF v0EchoResponse.tv_layout_axioms assms(1), where checked = False and clears = True and lenient = True] assms
  by (simp add: v0_EchoResponse_MarshalTo_def v0_EchoResponse_MarshalLen_def v0_EchoResponse_UnmarshalBinary_def tvm_Marshal_def)

lemma v0_CreatePDPContextRequest_step:
  assumes "v0_typed_ok v0_CreatePDPContextRequest_switch v0_CreatePDPContextRequest_order t m"
  shows "\<exists>w m'. v0_CreatePDPContextRequest_MarshalTo m (replicate (v0_CreatePDPContextRequest_MarshalLen m) 0) = Inr (w, m') \<and>
     length w = v0_CreatePDPContextRequest_MarshalLen m \<and>
     v0_CreatePDPContextRequest_UnmarshalBinary w = Inr (m'\<lparr>t_Header := v0_seen (t_Header m')\<rparr>) \<and>
     byte_at w 1 = Inr t \<and> byte_at w 0 = Inr (h0_Flags (t_Header m))"
  using v0_step [OF v0CreatePDPContextRequest.tv_layout_axioms assms(1), where checked = False and clears = True and lenient = True] assms
  by (simp add: v0_CreatePDPContextRequest_MarshalTo_def v0_CreatePDPContextRequest_MarshalLen_def v0_CreatePDPContextRequest_UnmarshalBinary_def tvm_Marshal_def)

lemma v0_CreatePDPContextResponse_step:
  assumes "v0_typed_ok v0_CreatePDPContextResponse_switch v0_CreatePDPContextResponse_order t m"
  shows "\<exists>w m'. v0_CreatePDPContextResponse_MarshalTo m (replicate (v0_CreatePDPContextResponse_MarshalLen m) 0) = Inr (w, m') \<and>
     length w = v0_CreatePDPContextResponse_MarshalLen m \<and>
     v0_CreatePDPContextResponse_UnmarshalBinary w = Inr (m'\<lparr>t_Header := v0_seen (t_Header m')\<rparr>) \<and>
     byte_at w 1 = Inr t \<and> byte_at w 0 = Inr (h0_Flags (t_Header m))"
  using v0_step [OF v0CreatePDPContextResponse.tv_layout_axioms assms(1), where checked = False and clears = True and lenient = True] assms
  by (simp add: v0_CreatePDPContextResponse_MarshalTo_def v0_CreatePDPContextResponse_MarshalLen_def v0_CreatePDPContextResponse_UnmarshalBinary_def tvm_Marshal_def)

lemma v0_UpdatePDPContextRequest_step:
  assumes "v0_typed_ok v0_UpdatePDPContextRequest_switch v0_UpdatePDPContextRequest_order t m"
  shows "\<exists>w m'. v0_UpdatePDPContextRequest_MarshalTo m (replicate (v0_UpdatePDPContextRequest_MarshalLen m) 0) = Inr (w, m') \<and>
     length w = v0_UpdatePDPContextRequest_MarshalLen m \<and>
     v0_UpdatePDPContextRequest_UnmarshalBinary w = Inr (m'\<lparr>t_Header := v0_seen (t_Header m')\<rparr>) \<and>
     byte_at w 1 = Inr t \<and> byte_at w 0 = Inr (h0_Flags (t_Header m))"
  using v0_step [OF v0UpdatePDPContextRequest.tv_layout_axioms assms(1), where checked = False and clears = True and lenient = True] assms
  by (simp add: v0_UpdatePDPContextRequest_MarshalTo_def v0_UpdatePDPContextRequest_MarshalLen_def v0_UpdatePDPContextRequest_UnmarshalBinary_def tvm_Marshal_def)

lemma v0_UpdatePDPContextResponse_step:
  assumes "v0_typed_ok v0_UpdatePDPContextResponse_switch v0_UpdatePDPContextResponse_order t m"
  shows "\<exists>w m'. v0_UpdatePDPContextResponse_MarshalTo m (replicate (v0_UpdatePDPContextResponse_MarshalLen m) 0) = Inr (w, m') \<and>
     length w = v0_UpdatePDPContextResponse_MarshalLen m \<and>
     v0_UpdatePDPContextResponse_UnmarshalBinary w = Inr (m'\<lparr>t_Header := v0_seen (t_Header m')\<rparr>) \<and>
     byte_at w 1 = Inr t \<and> byte_at w 0 = Inr (h0_Flags (t_Header m))"
  using v0_step [OF v0UpdatePDPContextResponse.tv_layout_axioms assms(1), where checked = False and clears = True and lenient = True] assms
  by (simp add: v0_UpdatePDPContextResponse_MarshalTo_def v0_UpdatePDPContextResponse_MarshalLen_def v0_UpdatePDPContextResponse_UnmarshalBinary_def tvm_Marshal_def)

lemma v0_DeletePDPContextRequest_step:
  assumes "v0_typed_ok v0_DeletePDPContextRequest_switch v0_DeletePDPContextRequest_order t m"
  shows "\<exists>w m'. v0_DeletePDPContextRequest_MarshalTo m (replicate (v0_DeletePDPContextRequest_MarshalLen m) 0) = Inr (w, m') \<and>
     length w = v0_DeletePDPContextRequest_MarshalLen m \<and>
     v0_DeletePDPContextRequest_UnmarshalBinary w = Inr (m'\<lparr>t_Header := v0_seen (t_Header m')\<rparr>) \<and>
     byte_at w 1 = Inr t \<and> byte_at w 0 = Inr (h0_Flags (t_Header m))"
  using v0_step [OF v0DeletePDPContextRequest.tv_layout_axioms assms(1), where checked = False and clears = True and lenient = True] assms
  by (simp add: v0_DeletePDPContextRequest_MarshalTo_def v0_DeletePDPContextRequest_MarshalLen_def v0_DeletePDPContextRequest_UnmarshalBinary_def tvm_Marshal_def)

lemma v0_DeletePDPContextResponse_step:
  assumes "v0_typed_ok v0_DeletePDPContextResponse_switch v0_DeletePDPContextResponse_order t m"
    and "h0_Payload (t_Header m) = []"
  shows "\<exists>w m'. v0_DeletePDPContextResponse_MarshalTo m (replicate (v0_DeletePDPContextResponse_MarshalLen m) 0) = Inr (w, m') \<and>
     length w = v0_DeletePDPContextResponse_MarshalLen m \<and>
     v0_DeletePDPContextResponse_UnmarshalBinary w = Inr (m'\<lparr>t_Header := v0_seen (t_Header m')\<rparr>) \<and>
     byte_at w 1 = Inr t \<and> byte_at w 0 = Inr (h0_Flags (t_Header m))"
  using v0_step [OF v0DeletePDPContextResponse.tv_layout_axioms assms(1), where checked = False and clears = False and lenient = True] assms
  by (simp add: v0_DeletePDPContextResponse_MarshalTo_def v0_DeletePDPContextResponse_MarshalLen_def v0_DeletePDPContextResponse_UnmarshalBinary_def tvm_Marshal_def)

lemmas v0_steps =
  v0_EchoRequest_step
  v0_EchoResponse_step
  v0_CreatePDPContextRequest_step
  v0_CreatePDPContextResponse_step
  v0_UpdatePDPContextRequest_step
  v0_UpdatePDPContextResponse_step
  v0_DeletePDPContextRequest_step
  v0_DeletePDPContextResponse_step




lemma v0_Marshal_simps:
  "v0_Marshal (Msg0_EchoRequest m0) = written_as Msg0_EchoRequest (v0_EchoRequest_MarshalTo m0 (replicate (v0_EchoRequest_MarshalLen m0) 0))"
  "v0_Marshal (Msg0_EchoResponse m1) = written_as Msg0_EchoResponse (v0_EchoResponse_MarshalTo m1 (replicate (v0_EchoResponse_MarshalLen m1) 0))"
  "v0_Marshal (Msg0_CreatePDPContextRequest m2) = written_as Msg0_CreatePDPContextRequest (v0_CreatePDPContextRequest_MarshalTo m2 (replicate (v0_CreatePDPContextRequest_MarshalLen m2) 0))"
  "v0_Marshal (Msg0_CreatePDPContextResponse m3) = written_as Msg0_CreatePDPContextResponse (v0_CreatePDPContextResponse_MarshalTo m3 (replicate (v0_CreatePDPContextResponse_MarshalLen m3) 0))"
  "v0_Marshal (Msg0_UpdatePDPContextRequest m4) = written_as Msg0_UpdatePDPContextRequest (v0_UpdatePDPContextRequest_MarshalTo m4 (replicate (v0_UpdatePDPContextRequest_MarshalLen m4) 0))"
  "v0_Marshal (Msg0_UpdatePDPContextResponse m5) = written_as Msg0_UpdatePDPContextResponse (v0_UpdatePDPContextResponse_MarshalTo m5 (replicate (v0_UpdatePDPContextResponse_MarshalLen m5) 0))"
  "v0_Marshal (Msg0_DeletePDPContextRequest m6) = written_as Msg0_DeletePDPContextRequest (v0_DeletePDPContextRequest_MarshalTo m6 (replicate (v0_DeletePDPContextRequest_MarshalLen m6) 0))"
  "v0_Marshal (Msg0_DeletePDPContextResponse m7) = written_as Msg0_DeletePDPContextResponse (v0_DeletePDPContextResponse_MarshalTo m7 (replicate (v0_DeletePDPContextResponse_MarshalLen m7) 0))"
  "v0_Marshal (Msg0_TPDU t) = written_as Msg0_TPDU (v0_TPDU_MarshalTo t (replicate (v0_TPDU_MarshalLen t) 0))"
  "v0_Marshal (Msg0_Generic g) =
     written_as Msg0_Generic (v0_Generic_MarshalTo g (replicate (v0_Generic_MarshalLen g) 0))"
  by (simp_all add: v0_Marshal_def)


lemma v0_Parse_panics:
  "no_panic (v0_Parse b) \<longleftrightarrow> 2 \<le> length b \<and> no_panic (v0_ParseHeader b)"
proof (cases "2 \<le> length b")
  case True
  then obtain t where "byte_at b 1 = Inr t" by (auto simp: byte_at_def)
  moreover have "cd_Parse v0_codec = v0_ParseHeader" by (simp add: v0_codec_def)
  ultimately show ?thesis
    using True
    by (simp add: v0_Parse_def v0cd.Unmarshal_panics_iff v0cd.generic_panics_iff
        v0_TPDU_UnmarshalBinary_def v0_Generic_UnmarshalBinary_def
        v0_EchoRequest_UnmarshalBinary_def v0_EchoResponse_UnmarshalBinary_def
        v0_CreatePDPContextRequest_UnmarshalBinary_def
        v0_CreatePDPContextResponse_UnmarshalBinary_def
        v0_UpdatePDPContextRequest_UnmarshalBinary_def
        v0_UpdatePDPContextResponse_UnmarshalBinary_def
        v0_DeletePDPContextRequest_UnmarshalBinary_def
        v0_DeletePDPContextResponse_UnmarshalBinary_def)
next
  case False
  then show ?thesis by (simp add: v0_Parse_def byte_at_def)
qed

section \<open>Which messages can be marshalled\<close>

lemma v0_payload: "cd_Payload v0_codec = h0_Payload"
  by (simp add: v0_codec_def)

lemmas v0_succeeds =
  v0cd.Marshal_succeeds [OF v0EchoRequest.tv_layout_axioms, unfolded tvm_Marshal_def v0_payload]
  v0cd.Marshal_succeeds [OF v0EchoResponse.tv_layout_axioms, unfolded tvm_Marshal_def v0_payload]
  v0cd.Marshal_succeeds [OF v0CreatePDPContextRequest.tv_layout_axioms, unfolded tvm_Marshal_def v0_payload]
  v0cd.Marshal_succeeds [OF v0CreatePDPContextResponse.tv_layout_axioms, unfolded tvm_Marshal_def v0_payload]
  v0cd.Marshal_succeeds [OF v0UpdatePDPContextRequest.tv_layout_axioms, unfolded tvm_Marshal_def v0_payload]
  v0cd.Marshal_succeeds [OF v0UpdatePDPContextResponse.tv_layout_axioms, unfolded tvm_Marshal_def v0_payload]
  v0cd.Marshal_succeeds [OF v0DeletePDPContextRequest.tv_layout_axioms, unfolded tvm_Marshal_def v0_payload]
  v0cd.Marshal_succeeds [OF v0DeletePDPContextResponse.tv_layout_axioms, unfolded tvm_Marshal_def v0_payload]

lemmas v0_fails =
  v0cd.Marshal_fails [OF v0DeletePDPContextResponse.tv_layout_axioms, unfolded tvm_Marshal_def v0_payload]

lemma v0_generic_total:
  "\<exists>w g'. tvg_MarshalTo v0_codec g (replicate (tvg_MarshalLen v0_codec g) 0) = Inr (w, g') \<and>
     length w = tvg_MarshalLen v0_codec g"
  by (rule v0cd.generic_Marshal [of g]) (auto simp: tvg_Marshal_def)

lemma v0_tpdu_total:
  "\<exists>w t'. v0_TPDU_MarshalTo t (replicate (v0_TPDU_MarshalLen t) 0) = Inr (w, t') \<and> length w = v0_TPDU_MarshalLen t"
proof -
  have "v0_TPDU_MarshalLen t = h0_MarshalLen t" by (simp add: v0_TPDU_MarshalLen_def h0_MarshalLen_def)
  then show ?thesis
    using h0_Marshal_wire [of "h0_SetLength t"] by (simp add: v0_TPDU_MarshalTo_def v0_len_SetLength Let_def)
qed

lemmas v0_marshal_defs =
  v0_Generic_MarshalTo_def v0_Generic_MarshalLen_def v0_EchoRequest_MarshalTo_def
  v0_EchoRequest_MarshalLen_def v0_EchoResponse_MarshalTo_def v0_EchoResponse_MarshalLen_def
  v0_CreatePDPContextRequest_MarshalTo_def v0_CreatePDPContextRequest_MarshalLen_def
  v0_CreatePDPContextResponse_MarshalTo_def v0_CreatePDPContextResponse_MarshalLen_def
  v0_UpdatePDPContextRequest_MarshalTo_def v0_UpdatePDPContextRequest_MarshalLen_def
  v0_UpdatePDPContextResponse_MarshalTo_def v0_UpdatePDPContextResponse_MarshalLen_def
  v0_DeletePDPContextRequest_MarshalTo_def v0_DeletePDPContextRequest_MarshalLen_def
  v0_DeletePDPContextResponse_MarshalTo_def v0_DeletePDPContextResponse_MarshalLen_def

lemma v0_Marshal_total: "\<not> v0_stale M \<Longrightarrow> \<exists>w M'. v0_Marshal M = Inr (w, M') \<and> length w = v0_MarshalLen M"
  by (cases M)
     (simp_all only: v0_Marshal_simps v0_MarshalLen.simps v0_marshal_defs v0_stale.simps not_False_eq_True not_not,
      (intro written_as_total v0_succeeds v0_generic_total v0_tpdu_total; simp)+)

text \<open>
  The others fail on whatever elements they hold, as after \<open>Parse\<close>: \<open>make\<close> panics when the elements
  need less than the payload that is there, and otherwise an element finds too little room.
\<close>

lemma v0_Marshal_stale:
  "v0_stale M \<Longrightarrow>
     v0_Marshal M \<in> {Inl (Panic MakeSliceLenOutOfRange), Inl (Error IEErrTooShortToMarshal)}"
  by (cases M) (auto simp: v0_Marshal_simps v0_marshal_defs v0_fails)

lemma v0_Marshal_succeeds_iff: "(\<exists>w M'. v0_Marshal M = Inr (w, M')) \<longleftrightarrow> \<not> v0_stale M"
  using v0_Marshal_total [of M] v0_Marshal_stale [of M] by (cases "v0_stale M") auto

section \<open>Properties\<close>





end
