(* ===== verification/V1IE.thy ===== *)
theory V1IE
  imports TVElement
begin

text \<open>
  The information elements of GTPv1 (\<open>src/gtpv1/ie/ie.go\<close>): the type numbers, the table of the TV
  lengths, the table of names, and the operations of \<open>TVElement\<close> with that table. The theory
  interprets the contract of \<open>IEStream\<close>.
\<close>

section \<open>Types\<close>

abbreviation v1_IE_Cause :: byte where "v1_IE_Cause \<equiv> 1"
abbreviation v1_IE_IMSI :: byte where "v1_IE_IMSI \<equiv> 2"
abbreviation v1_IE_RouteingAreaIdentity :: byte where "v1_IE_RouteingAreaIdentity \<equiv> 3"
abbreviation v1_IE_TemporaryLogicalLinkIdentity :: byte where "v1_IE_TemporaryLogicalLinkIdentity \<equiv> 4"
abbreviation v1_IE_PacketTMSI :: byte where "v1_IE_PacketTMSI \<equiv> 5"
abbreviation v1_IE_ReorderingRequired :: byte where "v1_IE_ReorderingRequired \<equiv> 8"
abbreviation v1_IE_AuthenticationTriplet :: byte where "v1_IE_AuthenticationTriplet \<equiv> 9"
abbreviation v1_IE_MAPCause :: byte where "v1_IE_MAPCause \<equiv> 11"
abbreviation v1_IE_PTMSISignature :: byte where "v1_IE_PTMSISignature \<equiv> 12"
abbreviation v1_IE_MSValidated :: byte where "v1_IE_MSValidated \<equiv> 13"
abbreviation v1_IE_Recovery :: byte where "v1_IE_Recovery \<equiv> 14"
abbreviation v1_IE_SelectionMode :: byte where "v1_IE_SelectionMode \<equiv> 15"
abbreviation v1_IE_TEIDDataI :: byte where "v1_IE_TEIDDataI \<equiv> 16"
abbreviation v1_IE_TEIDCPlane :: byte where "v1_IE_TEIDCPlane \<equiv> 17"
abbreviation v1_IE_TEIDDataII :: byte where "v1_IE_TEIDDataII \<equiv> 18"
abbreviation v1_IE_TeardownInd :: byte where "v1_IE_TeardownInd \<equiv> 19"
abbreviation v1_IE_NSAPI :: byte where "v1_IE_NSAPI \<equiv> 20"
abbreviation v1_IE_RANAPCause :: byte where "v1_IE_RANAPCause \<equiv> 21"
abbreviation v1_IE_RABContext :: byte where "v1_IE_RABContext \<equiv> 22"
abbreviation v1_IE_RadioPrioritySMS :: byte where "v1_IE_RadioPrioritySMS \<equiv> 23"
abbreviation v1_IE_RadioPriority :: byte where "v1_IE_RadioPriority \<equiv> 24"
abbreviation v1_IE_PacketFlowID :: byte where "v1_IE_PacketFlowID \<equiv> 25"
abbreviation v1_IE_ChargingCharacteristics :: byte where "v1_IE_ChargingCharacteristics \<equiv> 26"
abbreviation v1_IE_TraceReference :: byte where "v1_IE_TraceReference \<equiv> 27"
abbreviation v1_IE_TraceType :: byte where "v1_IE_TraceType \<equiv> 28"
abbreviation v1_IE_MSNotReachableReason :: byte where "v1_IE_MSNotReachableReason \<equiv> 29"
abbreviation v1_IE_ChargingID :: byte where "v1_IE_ChargingID \<equiv> 127"
abbreviation v1_IE_EndUserAddress :: byte where "v1_IE_EndUserAddress \<equiv> 128"
abbreviation v1_IE_MMContext :: byte where "v1_IE_MMContext \<equiv> 129"
abbreviation v1_IE_PDPContext :: byte where "v1_IE_PDPContext \<equiv> 130"
abbreviation v1_IE_AccessPointName :: byte where "v1_IE_AccessPointName \<equiv> 131"
abbreviation v1_IE_ProtocolConfigurationOptions :: byte where "v1_IE_ProtocolConfigurationOptions \<equiv> 132"
abbreviation v1_IE_GSNAddress :: byte where "v1_IE_GSNAddress \<equiv> 133"
abbreviation v1_IE_MSISDN :: byte where "v1_IE_MSISDN \<equiv> 134"
abbreviation v1_IE_QoSProfile :: byte where "v1_IE_QoSProfile \<equiv> 135"
abbreviation v1_IE_AuthenticationQuintuplet :: byte where "v1_IE_AuthenticationQuintuplet \<equiv> 136"
abbreviation v1_IE_TrafficFlowTemplate :: byte where "v1_IE_TrafficFlowTemplate \<equiv> 137"
abbreviation v1_IE_TargetIdentification :: byte where "v1_IE_TargetIdentification \<equiv> 138"
abbreviation v1_IE_UTRANTransparentContainer :: byte where "v1_IE_UTRANTransparentContainer \<equiv> 139"
abbreviation v1_IE_RABSetupInformation :: byte where "v1_IE_RABSetupInformation \<equiv> 140"
abbreviation v1_IE_ExtensionHeaderTypeList :: byte where "v1_IE_ExtensionHeaderTypeList \<equiv> 141"
abbreviation v1_IE_TriggerID :: byte where "v1_IE_TriggerID \<equiv> 142"
abbreviation v1_IE_OMCIdentity :: byte where "v1_IE_OMCIdentity \<equiv> 143"
abbreviation v1_IE_RANTransparentContainer :: byte where "v1_IE_RANTransparentContainer \<equiv> 144"
abbreviation v1_IE_PDPContextPrioritization :: byte where "v1_IE_PDPContextPrioritization \<equiv> 145"
abbreviation v1_IE_AdditionalRABSetupInformation :: byte where "v1_IE_AdditionalRABSetupInformation \<equiv> 146"
abbreviation v1_IE_SGSNNumber :: byte where "v1_IE_SGSNNumber \<equiv> 147"
abbreviation v1_IE_CommonFlags :: byte where "v1_IE_CommonFlags \<equiv> 148"
abbreviation v1_IE_APNRestriction :: byte where "v1_IE_APNRestriction \<equiv> 149"
abbreviation v1_IE_RadioPriorityLCS :: byte where "v1_IE_RadioPriorityLCS \<equiv> 150"
abbreviation v1_IE_RATType :: byte where "v1_IE_RATType \<equiv> 151"
abbreviation v1_IE_UserLocationInformation :: byte where "v1_IE_UserLocationInformation \<equiv> 152"
abbreviation v1_IE_MSTimeZone :: byte where "v1_IE_MSTimeZone \<equiv> 153"
abbreviation v1_IE_IMEISV :: byte where "v1_IE_IMEISV \<equiv> 154"
abbreviation v1_IE_CAMELChargingInformationContainer :: byte where "v1_IE_CAMELChargingInformationContainer \<equiv> 155"
abbreviation v1_IE_MBMSUEContext :: byte where "v1_IE_MBMSUEContext \<equiv> 156"
abbreviation v1_IE_TemporaryMobileGroupIdentity :: byte where "v1_IE_TemporaryMobileGroupIdentity \<equiv> 157"
abbreviation v1_IE_RIMRoutingAddress :: byte where "v1_IE_RIMRoutingAddress \<equiv> 158"
abbreviation v1_IE_MBMSProtocolConfigurationOptions :: byte where "v1_IE_MBMSProtocolConfigurationOptions \<equiv> 159"
abbreviation v1_IE_MBMSServiceArea :: byte where "v1_IE_MBMSServiceArea \<equiv> 160"
abbreviation v1_IE_SourceRNCPDCPContextInfo :: byte where "v1_IE_SourceRNCPDCPContextInfo \<equiv> 161"
abbreviation v1_IE_AdditionalTraceInfo :: byte where "v1_IE_AdditionalTraceInfo \<equiv> 162"
abbreviation v1_IE_HopCounter :: byte where "v1_IE_HopCounter \<equiv> 163"
abbreviation v1_IE_SelectedPLMNID :: byte where "v1_IE_SelectedPLMNID \<equiv> 164"
abbreviation v1_IE_MBMSSessionIdentifier :: byte where "v1_IE_MBMSSessionIdentifier \<equiv> 165"
abbreviation v1_IE_MBMS2G3GIndicator :: byte where "v1_IE_MBMS2G3GIndicator \<equiv> 166"
abbreviation v1_IE_EnhancedNSAPI :: byte where "v1_IE_EnhancedNSAPI \<equiv> 167"
abbreviation v1_IE_MBMSSessionDuration :: byte where "v1_IE_MBMSSessionDuration \<equiv> 168"
abbreviation v1_IE_AdditionalMBMSTraceInfo :: byte where "v1_IE_AdditionalMBMSTraceInfo \<equiv> 169"
abbreviation v1_IE_MBMSSessionRepetitionNumber :: byte where "v1_IE_MBMSSessionRepetitionNumber \<equiv> 170"
abbreviation v1_IE_MBMSTimeToDataTransfer :: byte where "v1_IE_MBMSTimeToDataTransfer \<equiv> 171"
abbreviation v1_IE_BSSContainer :: byte where "v1_IE_BSSContainer \<equiv> 173"
abbreviation v1_IE_CellIdentification :: byte where "v1_IE_CellIdentification \<equiv> 174"
abbreviation v1_IE_PDUNumbers :: byte where "v1_IE_PDUNumbers \<equiv> 175"
abbreviation v1_IE_BSSGPCause :: byte where "v1_IE_BSSGPCause \<equiv> 176"
abbreviation v1_IE_RequiredMBMSBearerCapabilities :: byte where "v1_IE_RequiredMBMSBearerCapabilities \<equiv> 177"
abbreviation v1_IE_RIMRoutingAddressDiscriminator :: byte where "v1_IE_RIMRoutingAddressDiscriminator \<equiv> 178"
abbreviation v1_IE_ListOfSetupPFCs :: byte where "v1_IE_ListOfSetupPFCs \<equiv> 179"
abbreviation v1_IE_PSHandoverXIDParameters :: byte where "v1_IE_PSHandoverXIDParameters \<equiv> 180"
abbreviation v1_IE_MSInfoChangeReportingAction :: byte where "v1_IE_MSInfoChangeReportingAction \<equiv> 181"
abbreviation v1_IE_DirectTunnelFlags :: byte where "v1_IE_DirectTunnelFlags \<equiv> 182"
abbreviation v1_IE_CorrelationID :: byte where "v1_IE_CorrelationID \<equiv> 183"
abbreviation v1_IE_BearerControlMode :: byte where "v1_IE_BearerControlMode \<equiv> 184"
abbreviation v1_IE_MBMSFlowIdentifier :: byte where "v1_IE_MBMSFlowIdentifier \<equiv> 185"
abbreviation v1_IE_MBMSIPMulticastDistribution :: byte where "v1_IE_MBMSIPMulticastDistribution \<equiv> 186"
abbreviation v1_IE_MBMSDistributionAcknowledgement :: byte where "v1_IE_MBMSDistributionAcknowledgement \<equiv> 187"
abbreviation v1_IE_ReliableInterRATHandoverInfo :: byte where "v1_IE_ReliableInterRATHandoverInfo \<equiv> 188"
abbreviation v1_IE_RFSPIndex :: byte where "v1_IE_RFSPIndex \<equiv> 189"
abbreviation v1_IE_FullyQualifiedDomainName :: byte where "v1_IE_FullyQualifiedDomainName \<equiv> 190"
abbreviation v1_IE_EvolvedAllocationRetentionPriorityI :: byte where "v1_IE_EvolvedAllocationRetentionPriorityI \<equiv> 191"
abbreviation v1_IE_EvolvedAllocationRetentionPriorityII :: byte where "v1_IE_EvolvedAllocationRetentionPriorityII \<equiv> 192"
abbreviation v1_IE_ExtendedCommonFlags :: byte where "v1_IE_ExtendedCommonFlags \<equiv> 193"
abbreviation v1_IE_UserCSGInformation :: byte where "v1_IE_UserCSGInformation \<equiv> 194"
abbreviation v1_IE_CSGInformationReportingAction :: byte where "v1_IE_CSGInformationReportingAction \<equiv> 195"
abbreviation v1_IE_CSGID :: byte where "v1_IE_CSGID \<equiv> 196"
abbreviation v1_IE_CSGMembershipIndication :: byte where "v1_IE_CSGMembershipIndication \<equiv> 197"
abbreviation v1_IE_AggregateMaximumBitRate :: byte where "v1_IE_AggregateMaximumBitRate \<equiv> 198"
abbreviation v1_IE_UENetworkCapability :: byte where "v1_IE_UENetworkCapability \<equiv> 199"
abbreviation v1_IE_UEAMBR :: byte where "v1_IE_UEAMBR \<equiv> 200"
abbreviation v1_IE_APNAMBRWithNSAPI :: byte where "v1_IE_APNAMBRWithNSAPI \<equiv> 201"
abbreviation v1_IE_GGSNBackOffTime :: byte where "v1_IE_GGSNBackOffTime \<equiv> 202"
abbreviation v1_IE_SignallingPriorityIndication :: byte where "v1_IE_SignallingPriorityIndication \<equiv> 203"
abbreviation v1_IE_SignallingPriorityIndicationWithNSAPI :: byte where "v1_IE_SignallingPriorityIndicationWithNSAPI \<equiv> 204"
abbreviation v1_IE_HigherBitratesThan16MbpsFlag :: byte where "v1_IE_HigherBitratesThan16MbpsFlag \<equiv> 205"
abbreviation v1_IE_AdditionalMMContextForSRVCC :: byte where "v1_IE_AdditionalMMContextForSRVCC \<equiv> 207"
abbreviation v1_IE_AdditionalFlagsForSRVCC :: byte where "v1_IE_AdditionalFlagsForSRVCC \<equiv> 208"
abbreviation v1_IE_STNSR :: byte where "v1_IE_STNSR \<equiv> 209"
abbreviation v1_IE_CMSISDN :: byte where "v1_IE_CMSISDN \<equiv> 210"
abbreviation v1_IE_ExtendedRANAPCause :: byte where "v1_IE_ExtendedRANAPCause \<equiv> 211"
abbreviation v1_IE_ENodeBID :: byte where "v1_IE_ENodeBID \<equiv> 212"
abbreviation v1_IE_SelectionModeWithNSAPI :: byte where "v1_IE_SelectionModeWithNSAPI \<equiv> 213"
abbreviation v1_IE_ULITimestamp :: byte where "v1_IE_ULITimestamp \<equiv> 214"
abbreviation v1_IE_LHNIDWithNSAPI :: byte where "v1_IE_LHNIDWithNSAPI \<equiv> 215"
abbreviation v1_IE_CNOperatorSelectionEntity :: byte where "v1_IE_CNOperatorSelectionEntity \<equiv> 216"
abbreviation v1_IE_UEUsageType :: byte where "v1_IE_UEUsageType \<equiv> 217"
abbreviation v1_IE_ExtendedCommonFlagsII :: byte where "v1_IE_ExtendedCommonFlagsII \<equiv> 218"
abbreviation v1_IE_NodeIdentifier :: byte where "v1_IE_NodeIdentifier \<equiv> 219"
abbreviation v1_IE_CIoTOptimizationsSupportIndication :: byte where "v1_IE_CIoTOptimizationsSupportIndication \<equiv> 220"
abbreviation v1_IE_SCEFPDNConnection :: byte where "v1_IE_SCEFPDNConnection \<equiv> 221"
abbreviation v1_IE_IOVUpdatesCounter :: byte where "v1_IE_IOVUpdatesCounter \<equiv> 222"
abbreviation v1_IE_MappedUEUsageType :: byte where "v1_IE_MappedUEUsageType \<equiv> 223"
abbreviation v1_IE_UPFunctionSelectionIndicationFlags :: byte where "v1_IE_UPFunctionSelectionIndicationFlags \<equiv> 224"
abbreviation v1_IE_SpecialIETypeForIETypeExtension :: byte where "v1_IE_SpecialIETypeForIETypeExtension \<equiv> 238"
abbreviation v1_IE_ChargingGatewayAddress :: byte where "v1_IE_ChargingGatewayAddress \<equiv> 251"
abbreviation v1_IE_PrivateExtension :: byte where "v1_IE_PrivateExtension \<equiv> 255"

definition v1_tvLengthMap :: "(byte \<times> nat) list" where
  "v1_tvLengthMap = [
     (0, 0), (1, 1), (2, 8), (3, 6), (4, 4), (5, 4), (8, 1), (9, 28), (11, 1), (12, 3), (13, 1),
     (14, 1), (15, 1), (16, 4), (17, 4), (18, 4), (19, 1), (20, 1), (21, 1), (22, 9), (23, 1),
     (24, 1), (25, 2), (26, 2), (27, 2), (28, 2), (29, 1), (127, 4)]"

abbreviation v1_tv :: tv_table where
  "v1_tv \<equiv> map_of v1_tvLengthMap"

definition v1_ieTypeNameMap :: "(byte \<times> string) list" where
  "v1_ieTypeNameMap = [
     (128, ''EndUserAddress''), (129, ''MMContext''), (130, ''PDPContext''),
     (131, ''AccessPointName''), (132, ''ProtocolConfigurationOptions''), (133, ''GSNAddress''),
     (134, ''MSISDN''), (135, ''QoSProfile''), (136, ''AuthenticationQuintuplet''),
     (137, ''TrafficFlowTemplate''), (138, ''TargetIdentification''),
     (139, ''UTRANTransparentContainer''), (140, ''RABSetupInformation''),
     (141, ''ExtensionHeaderTypeList''), (142, ''TriggerID''), (143, ''OMCIdentity''),
     (144, ''RANTransparentContainer''), (145, ''PDPContextPrioritization''),
     (146, ''AdditionalRABSetupInformation''), (147, ''SGSNNumber''), (148, ''CommonFlags''),
     (149, ''APNRestriction''), (150, ''RadioPriorityLCS''), (151, ''RATType''),
     (152, ''UserLocationInformation''), (153, ''MSTimeZone''), (154, ''IMEISV''),
     (155, ''CAMELChargingInformationContainer''), (156, ''MBMSUEContext''),
     (157, ''TemporaryMobileGroupIdentity''), (158, ''RIMRoutingAddress''),
     (159, ''MBMSProtocolConfigurationOptions''), (160, ''MBMSServiceArea''),
     (161, ''SourceRNCPDCPContextInfo''), (162, ''AdditionalTraceInfo''), (163, ''HopCounter''),
     (164, ''SelectedPLMNID''), (165, ''MBMSSessionIdentifier''), (166, ''MBMS2G3GIndicator''),
     (167, ''EnhancedNSAPI''), (168, ''MBMSSessionDuration''),
     (169, ''AdditionalMBMSTraceInfo''), (170, ''MBMSSessionRepetitionNumber''),
     (171, ''MBMSTimeToDataTransfer''), (173, ''BSSContainer''), (174, ''CellIdentification''),
     (175, ''PDUNumbers''), (176, ''BSSGPCause''), (177, ''RequiredMBMSBearerCapabilities''),
     (178, ''RIMRoutingAddressDiscriminator''), (179, ''ListOfSetupPFCs''),
     (180, ''PSHandoverXIDParameters''), (181, ''MSInfoChangeReportingAction''),
     (182, ''DirectTunnelFlags''), (183, ''CorrelationID''), (184, ''BearerControlMode''),
     (185, ''MBMSFlowIdentifier''), (186, ''MBMSIPMulticastDistribution''),
     (187, ''MBMSDistributionAcknowledgement''), (188, ''ReliableInterRATHandoverInfo''),
     (189, ''RFSPIndex''), (190, ''FullyQualifiedDomainName''),
     (191, ''EvolvedAllocationRetentionPriorityI''),
     (192, ''EvolvedAllocationRetentionPriorityII''), (193, ''ExtendedCommonFlags''),
     (194, ''UserCSGInformation''), (195, ''CSGInformationReportingAction''), (196, ''CSGID''),
     (197, ''CSGMembershipIndication''), (198, ''AggregateMaximumBitRate''),
     (199, ''UENetworkCapability''), (200, ''UEAMBR''), (201, ''APNAMBRWithNSAPI''),
     (202, ''GGSNBackOffTime''), (203, ''SignallingPriorityIndication''),
     (204, ''SignallingPriorityIndicationWithNSAPI''), (205, ''HigherBitratesThan16MbpsFlag''),
     (207, ''AdditionalMMContextForSRVCC''), (208, ''AdditionalFlagsForSRVCC''),
     (209, ''STNSR''), (210, ''CMSISDN''), (211, ''ExtendedRANAPCause''), (212, ''ENodeBID''),
     (213, ''SelectionModeWithNSAPI''), (214, ''ULITimestamp''), (215, ''LHNIDWithNSAPI''),
     (216, ''CNOperatorSelectionEntity''), (217, ''UEUsageType''),
     (218, ''ExtendedCommonFlagsII''), (219, ''NodeIdentifier''),
     (220, ''CIoTOptimizationsSupportIndication''), (221, ''SCEFPDNConnection''),
     (222, ''IOVUpdatesCounter''), (223, ''MappedUEUsageType''),
     (224, ''UPFunctionSelectionIndicationFlags''), (238, ''SpecialIETypeForIETypeExtension''),
     (251, ''ChargingGatewayAddress''), (255, ''PrivateExtension'')]"

definition v1_Name :: "tv_ie \<Rightarrow> string" where
  "v1_Name i = (case map_of v1_ieTypeNameMap (tv_Type i) of Some n \<Rightarrow> n | None \<Rightarrow> ''Undefined'')"

section \<open>Operations\<close>

definition v1_New :: "byte \<Rightarrow> bytes \<Rightarrow> tv_ie" where
  "v1_New = tv_New v1_tv"

definition v1_newUint8ValIE :: "byte \<Rightarrow> byte \<Rightarrow> tv_ie" where
  "v1_newUint8ValIE t v = v1_New t [v]"

definition v1_newUint32ValIE :: "byte \<Rightarrow> u32 \<Rightarrow> tv_ie" where
  "v1_newUint32ValIE t v = v1_New t (be32 v)"

definition v1_ie_MarshalLen :: "tv_ie \<Rightarrow> nat" where
  "v1_ie_MarshalLen = tv_MarshalLen v1_tv"

definition v1_ie_SetLength :: "tv_ie \<Rightarrow> tv_ie" where
  "v1_ie_SetLength = tv_SetLength v1_tv"

definition v1_ie_MarshalTo :: "tv_ie \<Rightarrow> bytes \<Rightarrow> bytes result" where
  "v1_ie_MarshalTo = tv_MarshalTo v1_tv"

definition v1_ie_Marshal :: "tv_ie \<Rightarrow> bytes result" where
  "v1_ie_Marshal = tv_Marshal v1_tv"

definition v1_ie_UnmarshalBinary :: "bytes \<Rightarrow> tv_ie result" where
  "v1_ie_UnmarshalBinary = tv_UnmarshalBinary v1_tv"

definition v1_ie_Parse :: "bytes \<Rightarrow> tv_ie result" where
  "v1_ie_Parse = tv_Parse v1_tv"

definition v1_ie_ParseMultiIEs :: "bytes \<Rightarrow> tv_ie list result" where
  "v1_ie_ParseMultiIEs = tv_ParseMultiIEs v1_tv"

lemma v1_table_ok: "tv_table_ok v1_tv"
  by (auto simp: tv_table_ok_def v1_tvLengthMap_def split: if_splits)

interpretation v1ies: ie_decoder v1_ie_Parse v1_ie_MarshalLen "tv_wire v1_tv" "tv_wf v1_tv" v1_ie_ParseMultiIEs
  unfolding v1_ie_Parse_def v1_ie_MarshalLen_def v1_ie_ParseMultiIEs_def
  by (rule tv_decoder [OF v1_table_ok])

lemma v1_New_sel [simp]: "tv_Type (v1_New t p) = t" "tv_Payload (v1_New t p) = p"
  by (simp_all add: v1_New_def tv_New_def tv_SetLength_def split: option.split)

section \<open>Properties\<close>

text \<open>
  C26. The element decoder of GTPv1: on any bytes it returns an element whose encoding is the front
  of the input, or one of two errors, and it never panics; an element of a known type whose
  payload has the length of its type, or one with a length field, is marshalled to \<open>MarshalLen\<close>
  bytes and read back, whatever bytes follow.
\<close>

theorem v1_ie_codec:
  "(case v1_ie_Parse b of
      Inr i \<Rightarrow> \<exists>rest. b = tv_wire v1_tv i @ rest \<and> v1_ie_Marshal i = Inr (tv_wire v1_tv i)
    | Inl e \<Rightarrow> e \<in> {Error IEErrTooShortToParse, Error IEErrInvalidLength}) \<and>
   (\<forall>i. tv_wf v1_tv i \<longrightarrow> (\<exists>w. v1_ie_Marshal i = Inr w \<and> length w = v1_ie_MarshalLen i \<and>
      v1_ie_Parse (w @ rest) = Inr i))"
proof -
  have "e \<in> {Error IEErrTooShortToParse, Error IEErrInvalidLength}" if "v1_ie_Parse b = Inl e" for e
    using that v1ies.parse_no_panic [of b] unfolding v1_ie_Parse_def by (rule tv_Parse_errors)
  moreover have "\<exists>rest. b = tv_wire v1_tv i @ rest" if "v1_ie_Parse b = Inr i" for i
    using v1ies.parse_sound [OF that] by blast
  ultimately show ?thesis
    using v1ies.parse_enc
    by (auto simp: v1_ie_Marshal_def v1_ie_MarshalLen_def tv_Marshal_wire v1_table_ok split: sum.split)
qed

theorem v1_ie_codec_witness:
  "v1_ie_Parse ([14, 7] @ [1]) = Inr (v1_newUint8ValIE v1_IE_Recovery 7)"
proof -
  have wf: "tv_wf v1_tv (v1_newUint8ValIE v1_IE_Recovery 7)" by code_simp
  have "v1_ie_Marshal (v1_newUint8ValIE v1_IE_Recovery 7) = Inr [14, 7]" by code_simp
  then show ?thesis using v1_ie_codec [of "[]" "[1]"] wf by fastforce
qed

end
