(* ===== verification/V1Header.thy ===== *)
theory V1Header
  imports GtpUtils V1IE TVMessage
begin

text \<open>
  The header of GTPv1 (\<open>src/gtpv1/message/header.go\<close>): encoder, decoder, accessors, and the
  interpretation of the contract of \<open>TVMessage\<close>. \<open>v1_header_wire\<close> specifies the bytes. The
  sequence number is there when the S flag is set, with two bytes that the encoder leaves as they
  are in the buffer.
\<close>

record v1_header =
  h1_Flags :: byte
  h1_Type :: byte
  h1_Length :: u16
  h1_TEID :: u32
  h1_SequenceNumber :: u16
  h1_Reserved :: u16
  h1_Payload :: bytes

definition HasSequence :: "v1_header \<Rightarrow> bool" where
  "HasSequence h = (drop_bit 1 (h1_Flags h) AND 0x1 = 1)"

definition h1_MarshalLen :: "v1_header \<Rightarrow> nat" where
  "h1_MarshalLen h = (let l = length (h1_Payload h) + 8 in if HasSequence h then l + 4 else l)"

definition h1_SetLength :: "v1_header \<Rightarrow> v1_header" where
  "h1_SetLength h = h\<lparr>h1_Length := of_nat (h1_MarshalLen h - 8)\<rparr>"

definition v1_NewHeader :: "byte \<Rightarrow> byte \<Rightarrow> u32 \<Rightarrow> u16 \<Rightarrow> bytes \<Rightarrow> v1_header" where
  "v1_NewHeader flags mtype teid seqnum payload =
     h1_SetLength \<lparr>h1_Flags = flags, h1_Type = mtype, h1_Length = 0, h1_TEID = teid,
       h1_SequenceNumber = seqnum, h1_Reserved = 0, h1_Payload = payload\<rparr>"

definition v1_NewHeaderFlags :: "int \<Rightarrow> int \<Rightarrow> int \<Rightarrow> int \<Rightarrow> int \<Rightarrow> byte" where
  "v1_NewHeaderFlags v p e s n =
     word_of_int (push_bit 5 (v AND 0x7) OR push_bit 4 (p AND 0x1) OR push_bit 2 (e AND 0x1) OR
       push_bit 1 (s AND 0x1) OR (n AND 0x1))"

definition h1_MarshalTo :: "v1_header \<Rightarrow> bytes \<Rightarrow> bytes result" where
  "h1_MarshalTo h b =
     (if length b < h1_MarshalLen h then Inl (Error MsgErrTooShortToMarshal)
      else
        andThen (write_at b 0 [h1_Flags h]) (\<lambda>b.
        andThen (write_at b 1 [h1_Type h]) (\<lambda>b.
        andThen (write_at b 2 (be16 (h1_Length h))) (\<lambda>b.
        andThen (write_at b 4 (be32 (h1_TEID h))) (\<lambda>b.
        if HasSequence h
        then andThen (write_at b 8 (be16 (h1_SequenceNumber h))) (\<lambda>b.
             copy_at b 12 (length b) (h1_Payload h))
        else copy_at b 8 (length b) (h1_Payload h))))))"

definition h1_Marshal :: "v1_header \<Rightarrow> bytes result" where
  "h1_Marshal h = h1_MarshalTo h (replicate (h1_MarshalLen h) 0)"

text \<open>The 16-bit addition \<open>fixedHeaderSize + h.Length\<close> wraps, as it does in the source.\<close>

definition h1_UnmarshalBinary :: "bytes \<Rightarrow> v1_header result" where
  "h1_UnmarshalBinary b =
     (let l = length b in
      if l < 11 then Inl (Error MsgErrTooShortToParse)
      else
        andThen (byte_at b 0) (\<lambda>flags.
        andThen (byte_at b 1) (\<lambda>typ.
        andThen (get16 b 2) (\<lambda>len.
        andThen (get32 b 4) (\<lambda>teid.
        let h = \<lparr>h1_Flags = flags, h1_Type = typ, h1_Length = len, h1_TEID = teid,
                 h1_SequenceNumber = 0, h1_Reserved = 0, h1_Payload = []\<rparr> in
        andThen (if HasSequence h
                 then (if len < 4 then Inl (Error MsgErrTooShortToParse)
                       else andThen (get16 b 8) (\<lambda>s. Inr (12, h\<lparr>h1_SequenceNumber := s\<rparr>)))
                 else Inr (8, h)) (\<lambda>(offset, h).
        if unat len + 8 > l
        then andThen (slice_from b offset) (\<lambda>p. Inr (h\<lparr>h1_Payload := p\<rparr>))
        else if 8 + len \<ge> of_nat offset
        then andThen (slice b offset (unat (8 + len))) (\<lambda>p. Inr (h\<lparr>h1_Payload := p\<rparr>))
        else Inl (Error MsgErrInvalidLength)))))))"

definition v1_ParseHeader :: "bytes \<Rightarrow> v1_header result" where
  "v1_ParseHeader b = h1_UnmarshalBinary b"

section \<open>Accessors of the header\<close>

text \<open>\<open>SetTEID\<close> also sets bit 3 of the flags, as in version 2; in version 1 the bit is reserved.\<close>

definition h1_SetTEID :: "u32 \<Rightarrow> v1_header \<Rightarrow> v1_header" where
  "h1_SetTEID teid h = h\<lparr>h1_Flags := h1_Flags h OR push_bit 3 1, h1_TEID := teid\<rparr>"

definition h1_Sequence :: "v1_header \<Rightarrow> u16" where
  "h1_Sequence h = h1_SequenceNumber h"

definition h1_SetSequenceNumber :: "u16 \<Rightarrow> v1_header \<Rightarrow> v1_header" where
  "h1_SetSequenceNumber seq h = h\<lparr>h1_SequenceNumber := seq\<rparr>"

definition h1_Version :: "v1_header \<Rightarrow> nat" where
  "h1_Version h = 1"

definition h1_MessageType :: "v1_header \<Rightarrow> byte" where
  "h1_MessageType h = h1_Type h"

section \<open>The encoding\<close>

definition v1_header_wire :: "v1_header \<Rightarrow> bytes" where
  "v1_header_wire h =
     [h1_Flags h, h1_Type h] @ be16 (h1_Length h) @ be32 (h1_TEID h) @
     (if HasSequence h then be16 (h1_SequenceNumber h) @ [0, 0] else []) @ h1_Payload h"

lemma v1_header_wire_length [simp]: "length (v1_header_wire h) = h1_MarshalLen h"
  by (simp add: v1_header_wire_def h1_MarshalLen_def Let_def)

lemma h1_Marshal_wire: "h1_MarshalTo h (replicate (h1_MarshalLen h) 0) = Inr (v1_header_wire h)"
proof (cases "HasSequence h")
  case True
  then have n: "h1_MarshalLen h = 12 + length (h1_Payload h)" by (simp add: h1_MarshalLen_def)
  show ?thesis
    unfolding h1_MarshalTo_def v1_header_wire_def n using True
    by (simp add: write_at_def copy_at_def be16_def be32_def numeral_eq_Suc)
next
  case False
  then have n: "h1_MarshalLen h = 8 + length (h1_Payload h)" by (simp add: h1_MarshalLen_def)
  show ?thesis
    unfolding h1_MarshalTo_def v1_header_wire_def n using False
    by (simp add: write_at_def copy_at_def be16_def be32_def numeral_eq_Suc)
qed

lemma h1_MarshalTo_short:
  "length b < h1_MarshalLen h \<Longrightarrow> h1_MarshalTo h b = Inl (Error MsgErrTooShortToMarshal)"
  by (simp add: h1_MarshalTo_def)

section \<open>The decoder\<close>

lemma u16_add8: "unat (8 + len :: u16) = (if unat len < 65528 then 8 + unat len else unat len - 65528)"
  using unat_u16_less [of len] by (auto simp: unat_word_ariths mod_if)

lemma h1_split:
  assumes "11 \<le> length b"
  obtains f t len teid r where "b = f # t # be16 len @ be32 teid @ r" "3 \<le> length r"
proof -
  have "8 \<le> length b" using assms by linarith
  then obtain x0 x1 x2 x3 x4 x5 x6 x7 r where b: "b = x0 # x1 # x2 # x3 # x4 # x5 # x6 # x7 # r"
    by (rule eight_cases)
  then have "b = x0 # x1 # be16 (join16 x2 x3) @ be32 (join32 x4 x5 x6 x7) @ r" by simp
  moreover have "3 \<le> length r" using assms b by simp
  ultimately show thesis by (rule that)
qed

definition v1_flag_S :: "byte \<Rightarrow> bool" where
  "v1_flag_S f = (drop_bit 1 f AND 0x1 = 1)"

text \<open>The decoder on bytes that are split at the end of the fixed part.\<close>

lemma h1_UnmarshalBinary_split:
  assumes "3 \<le> length r"
  shows "h1_UnmarshalBinary (f # t # be16 len @ be32 teid @ r) =
    (let h = \<lparr>h1_Flags = f, h1_Type = t, h1_Length = len, h1_TEID = teid,
              h1_SequenceNumber = 0, h1_Reserved = 0, h1_Payload = []\<rparr>;
         n = 8 + length r in
     if v1_flag_S f then
       (if len < 4 then Inl (Error MsgErrTooShortToParse)
        else
          let h = h\<lparr>h1_SequenceNumber := join16 (r ! 0) (r ! 1)\<rparr> in
          if unat len + 8 > n then andThen (slice_from r 4) (\<lambda>p. Inr (h\<lparr>h1_Payload := p\<rparr>))
          else if 65528 \<le> unat len then Inl (Error MsgErrInvalidLength)
          else Inr (h\<lparr>h1_Payload := take (unat len - 4) (drop 4 r)\<rparr>))
     else
       if unat len + 8 > n then Inr (h\<lparr>h1_Payload := r\<rparr>)
       else if 65528 \<le> unat len then Inl (Error MsgErrInvalidLength)
       else Inr (h\<lparr>h1_Payload := take (unat len) r\<rparr>))"
proof -
  have len: "len < 4 \<longleftrightarrow> unat len < 4" by (simp add: word_less_nat_alt)
  have ge: "12 \<le> 8 + len \<longleftrightarrow> 4 \<le> unat len \<and> unat len < 65528" "8 \<le> 8 + len \<longleftrightarrow> unat len < 65528"
    using unat_u16_less [of len] by (auto simp: word_le_nat_alt u16_add8)
  let ?b = "f # t # be16 len @ be32 teid @ r"
  have n: "length ?b = 8 + length r" by simp
  have fixed: "byte_at ?b 0 = Inr f" "byte_at ?b 1 = Inr t" "get16 ?b 2 = Inr len" "get32 ?b 4 = Inr teid"
    by (simp_all add: byte_at_def get16_def get32_def be16_def be32_def)
  have seq: "get16 ?b 8 = Inr (join16 (r ! 0) (r ! 1))"
    using assms by (simp add: get16_def be16_def be32_def)
  have cut: "slice ?b 8 (8 + m) = slice r 0 m" "slice ?b 12 (8 + m) = slice r 4 m"
    "slice_from ?b 8 = Inr r" "slice_from ?b 12 = slice_from r 4" for m
    by (simp_all add: slice_def slice_from_def be16_def be32_def)
  have not_short: "\<not> length ?b < 11" using assms by simp
  show ?thesis
  proof (cases "v1_flag_S f")
    case True
    then show ?thesis
      using assms ge(1) cut(2,4)
      by (simp only: h1_UnmarshalBinary_def Let_def not_short if_False fixed seq andThen_Inr HasSequence_def
          v1_flag_S_def v1_header.simps if_True n len)
         (auto simp: slice_def u16_add8)
  next
    case False
    then show ?thesis
      using assms ge(2) cut(1,3)
      by (simp only: h1_UnmarshalBinary_def Let_def not_short if_False fixed seq andThen_Inr HasSequence_def
          v1_flag_S_def v1_header.simps n len)
         (auto simp: slice_def u16_add8)
  qed
qed

text \<open>
  A header is right when its length field counts the bytes after the first eight and the count
  leaves room for them in 16 bits.
\<close>

definition v1_header_ok :: "v1_header \<Rightarrow> bool" where
  "v1_header_ok h \<longleftrightarrow> h1_MarshalLen h < 65536 \<and> h1_Length h = of_nat (h1_MarshalLen h - 8)"

definition v1_seen :: "v1_header \<Rightarrow> v1_header" where
  "v1_seen h = h\<lparr>h1_SequenceNumber := (if HasSequence h then h1_SequenceNumber h else 0), h1_Reserved := 0\<rparr>"

lemma v1_ParseHeader_wire:
  assumes "v1_header_ok h" "11 \<le> h1_MarshalLen h + length rest"
  shows "v1_ParseHeader (v1_header_wire h @ rest) = Inr (v1_seen h)"
proof -
  let ?r = "(if HasSequence h then be16 (h1_SequenceNumber h) @ [0, 0] else []) @ h1_Payload h @ rest"
  have wire: "v1_header_wire h @ rest = h1_Flags h # h1_Type h # be16 (h1_Length h) @ be32 (h1_TEID h) @ ?r"
    by (simp add: v1_header_wire_def)
  have len: "unat (h1_Length h) = h1_MarshalLen h - 8" "h1_MarshalLen h < 65536"
    using assms(1) by (simp_all add: v1_header_ok_def less_imp_diff_less)
  have r: "3 \<le> length ?r" using assms(2) by (auto simp: h1_MarshalLen_def Let_def split: if_splits)
  show ?thesis
    unfolding v1_ParseHeader_def wire h1_UnmarshalBinary_split [OF r]
    using len
    by (cases h)
       (auto simp: Let_def v1_seen_def HasSequence_def v1_flag_S_def
        h1_MarshalLen_def slice_from_def slice_def be16_def word_less_nat_alt split: if_splits)
qed

lemma v1_ParseHeader_panics:
  "no_panic (v1_ParseHeader b) \<longleftrightarrow>
     \<not> (length b = 11 \<and> v1_flag_S (b ! 0) \<and> 4 \<le> join16 (b ! 2) (b ! 3))"
proof (cases "11 \<le> length b")
  case False
  then show ?thesis by (simp add: v1_ParseHeader_def h1_UnmarshalBinary_def)
next
  case True
  then obtain f t len teid r where b: "b = f # t # be16 len @ be32 teid @ r" and r: "3 \<le> length r"
    by (rule h1_split)
  have n: "b ! 0 = f" "join16 (b ! 2) (b ! 3) = len" "length b = 8 + length r"
    by (simp_all add: b be16_def)
  have le: "4 \<le> len \<longleftrightarrow> \<not> len < 4" by auto
  show ?thesis
    using r unfolding v1_ParseHeader_def n le unfolding b h1_UnmarshalBinary_split [OF r]
    by (auto simp: Let_def slice_from_def slice_def word_less_nat_alt)
qed

section \<open>The contract of \<open>TVMessage\<close>\<close>

definition v1_codec :: "v1_header codec" where
  "v1_codec = \<lparr>cd_table = v1_tv, cd_fixed = 8, cd_MarshalLen = h1_MarshalLen, cd_Payload = h1_Payload,
     cd_SetPayload = (\<lambda>p h. h\<lparr>h1_Payload := p\<rparr>), cd_SetLength = h1_SetLength,
     cd_PutLength = (\<lambda>n h. h\<lparr>h1_Length := n\<rparr>), cd_MarshalTo = h1_MarshalTo, cd_Parse = v1_ParseHeader\<rparr>"

definition v1_base :: "v1_header \<Rightarrow> nat" where
  "v1_base h = (if HasSequence h then 12 else 8)"

definition v1_accepts :: "bytes \<Rightarrow> bytes \<Rightarrow> bool" where
  "v1_accepts w rest \<longleftrightarrow> 11 \<le> length w + length rest"

interpretation v1cd: tv_codec v1_codec v1_header_wire v1_header_ok v1_seen v1_accepts v1_base
proof unfold_locales
  show "cd_MarshalTo v1_codec h (replicate (cd_MarshalLen v1_codec h) 0) = Inr (v1_header_wire h)" for h
    by (simp add: v1_codec_def h1_Marshal_wire)
qed (simp_all add: v1_codec_def v1_table_ok h1_MarshalLen_def Let_def v1_base_def HasSequence_def
      h1_SetLength_def v1_seen_def v1_ParseHeader_wire v1_accepts_def)

section \<open>Properties\<close>

text \<open>
  A right GTPv1 header is marshalled and parsed back, whatever follows, as long as there are
  eleven bytes: the sequence number is kept when the S flag is set and is zero otherwise.
\<close>

lemma v1_header_roundtrip:
  assumes "v1_header_ok h" "11 \<le> h1_MarshalLen h + length rest"
  shows "\<exists>w. h1_Marshal h = Inr w \<and> length w = h1_MarshalLen h \<and> v1_ParseHeader (w @ rest) = Inr (v1_seen h)"
  using v1_ParseHeader_wire [OF assms] by (simp add: h1_Marshal_def h1_Marshal_wire)

lemma v1_header_roundtrip_witness:
  "\<exists>w. h1_Marshal (v1_NewHeader 0x32 255 7 9 [1, 2]) = Inr w \<and>
     v1_ParseHeader (w @ [3]) = Inr (v1_NewHeader 0x32 255 7 9 [1, 2])"
proof -
  let ?h = "v1_NewHeader 0x32 255 7 9 [1, 2]"
  have "v1_header_ok ?h" "h1_MarshalLen ?h = 14" "v1_seen ?h = ?h"
    by (simp_all add: v1_header_ok_def v1_NewHeader_def h1_SetLength_def h1_MarshalLen_def HasSequence_def
        v1_seen_def)
  with v1_header_roundtrip [of ?h "[3]"] show ?thesis by auto
qed

text \<open>
  Exactly which bytes make \<open>ParseHeader\<close> of GTPv1 panic: eleven of them with the S flag and a
  length field of at least four, where the payload would start one byte behind the end.
\<close>

lemma v1_ParseHeader_panics_iff:
  "no_panic (v1_ParseHeader b) =
     (\<not> (length b = 11 \<and> bit (b ! 0) 1 \<and> 4 \<le> join16 (b ! 2) (b ! 3)))"
proof -
  have "v1_flag_S f = bit f 1" for f
    by (auto simp: v1_flag_S_def bit_iff_odd_drop_bit and_one_eq odd_iff_mod_2_eq_one)
  then show ?thesis by (simp add: v1_ParseHeader_panics)
qed

end
