(* ===== verification/V1Messages.thy ===== *)
theory V1Messages
  imports V1Header
begin

text \<open>
  The GTPv1 message types of \<open>src/gtpv1/message\<close>: \<open>EchoRequest\<close>
  (\<open>echo-req.go\<close>), \<open>EchoResponse\<close> (\<open>echo-res.go\<close>),
  \<open>CreatePDPContextRequest\<close> (\<open>create-pdp-context-req.go\<close>),
  \<open>CreatePDPContextResponse\<close> (\<open>create-pdp-context-res.go\<close>),
  \<open>UpdatePDPContextRequest\<close> (\<open>update-pdp-context-req.go\<close>),
  \<open>UpdatePDPContextResponse\<close> (\<open>update-pdp-context-res.go\<close>),
  \<open>DeletePDPContextRequest\<close> (\<open>delete-pdp-context-req.go\<close>),
  \<open>DeletePDPContextResponse\<close> (\<open>delete-pdp-context-res.go\<close>),
  \<open>ErrorIndication\<close> (\<open>error-indication.go\<close>),
  \<open>VersionNotSupported\<close> (\<open>version-not-supported.go\<close>). For each of them:
  its fields, the switch of its constructor and its decoder (they are the same), the orders in
  which MarshalTo and MarshalLen visit the fields, the methods, and the interpretation of the
  contract of \<open>TVMessage\<close>.
\<close>

abbreviation v1_MsgTypeEchoRequest :: byte where "v1_MsgTypeEchoRequest \<equiv> 1"
abbreviation v1_MsgTypeEchoResponse :: byte where "v1_MsgTypeEchoResponse \<equiv> 2"
abbreviation v1_MsgTypeCreatePDPContextRequest :: byte where "v1_MsgTypeCreatePDPContextRequest \<equiv> 16"
abbreviation v1_MsgTypeCreatePDPContextResponse :: byte where "v1_MsgTypeCreatePDPContextResponse \<equiv> 17"
abbreviation v1_MsgTypeUpdatePDPContextRequest :: byte where "v1_MsgTypeUpdatePDPContextRequest \<equiv> 18"
abbreviation v1_MsgTypeUpdatePDPContextResponse :: byte where "v1_MsgTypeUpdatePDPContextResponse \<equiv> 19"
abbreviation v1_MsgTypeDeletePDPContextRequest :: byte where "v1_MsgTypeDeletePDPContextRequest \<equiv> 20"
abbreviation v1_MsgTypeDeletePDPContextResponse :: byte where "v1_MsgTypeDeletePDPContextResponse \<equiv> 21"
abbreviation v1_MsgTypeErrorIndication :: byte where "v1_MsgTypeErrorIndication \<equiv> 26"
abbreviation v1_MsgTypeVersionNotSupported :: byte where "v1_MsgTypeVersionNotSupported \<equiv> 3"
abbreviation v1_MsgTypeTPDU :: byte where "v1_MsgTypeTPDU \<equiv> 255"

section \<open>EchoRequest\<close>

datatype v1_EchoRequest_field =
    v1_EchoRequest_PrivateExtension

definition v1_EchoRequest_switch :: "v1_EchoRequest_field tv_switch" where
  "v1_EchoRequest_switch t = (
     if t = v1_IE_PrivateExtension then Slot1 v1_EchoRequest_PrivateExtension
     else Rest)"

definition v1_EchoRequest_order :: "v1_EchoRequest_field list" where
  "v1_EchoRequest_order = [
    v1_EchoRequest_PrivateExtension]"

definition v1_EchoRequest_lens :: "v1_EchoRequest_field list" where
  "v1_EchoRequest_lens = [
    v1_EchoRequest_PrivateExtension]"

definition v1_NewEchoRequest :: "u16 \<Rightarrow> tv_ie option list \<Rightarrow> (v1_header, v1_EchoRequest_field) tv_msg" where
  "v1_NewEchoRequest seq ies =
     tvm_New v1_codec v1_EchoRequest_switch v1_EchoRequest_lens (v1_NewHeader 0x32 v1_MsgTypeEchoRequest 0 seq []) ies"

definition v1_EchoRequest_MarshalLen :: "(v1_header, v1_EchoRequest_field) tv_msg \<Rightarrow> nat" where
  "v1_EchoRequest_MarshalLen m = tvm_MarshalLen v1_codec v1_EchoRequest_lens m"

definition v1_EchoRequest_SetLength :: "(v1_header, v1_EchoRequest_field) tv_msg \<Rightarrow> (v1_header, v1_EchoRequest_field) tv_msg" where
  "v1_EchoRequest_SetLength m = tvm_SetLength v1_codec v1_EchoRequest_lens m"

definition v1_EchoRequest_MarshalTo :: "(v1_header, v1_EchoRequest_field) tv_msg \<Rightarrow> bytes \<Rightarrow> (bytes \<times> (v1_header, v1_EchoRequest_field) tv_msg) result" where
  "v1_EchoRequest_MarshalTo m b = tvm_MarshalTo v1_codec False True v1_EchoRequest_order v1_EchoRequest_lens m b"

definition v1_EchoRequest_Marshal :: "(v1_header, v1_EchoRequest_field) tv_msg \<Rightarrow> (bytes \<times> (v1_header, v1_EchoRequest_field) tv_msg) result" where
  "v1_EchoRequest_Marshal m = v1_EchoRequest_MarshalTo m (replicate (v1_EchoRequest_MarshalLen m) 0)"

definition v1_EchoRequest_UnmarshalBinary :: "bytes \<Rightarrow> (v1_header, v1_EchoRequest_field) tv_msg result" where
  "v1_EchoRequest_UnmarshalBinary b = tvm_UnmarshalBinary v1_codec False v1_EchoRequest_switch b"

lemma v1_EchoRequest_all_fields: "s \<in> set v1_EchoRequest_order" "s \<in> set v1_EchoRequest_lens"
  by (cases s; simp add: v1_EchoRequest_order_def v1_EchoRequest_lens_def)+

interpretation v1EchoRequest: tv_layout v1_EchoRequest_switch v1_EchoRequest_order v1_EchoRequest_lens
proof unfold_locales
  show "distinct v1_EchoRequest_order" "distinct v1_EchoRequest_lens" by (simp_all add: v1_EchoRequest_order_def v1_EchoRequest_lens_def)
  show "set v1_EchoRequest_order = set v1_EchoRequest_lens" by (simp add: v1_EchoRequest_all_fields set_eq_iff)
  show "place_ok v1_EchoRequest_order (v1_EchoRequest_switch t)" for t
    unfolding v1_EchoRequest_switch_def
    by (simp add: v1_EchoRequest_all_fields)
qed

lemma v1_EchoRequest_Marshal_eq: "v1_EchoRequest_Marshal m = tvm_Marshal v1_codec False True v1_EchoRequest_order v1_EchoRequest_lens m"
  by (simp add: v1_EchoRequest_Marshal_def v1_EchoRequest_MarshalTo_def v1_EchoRequest_MarshalLen_def tvm_Marshal_def)

section \<open>EchoResponse\<close>

datatype v1_EchoResponse_field =
    v1_EchoResponse_Recovery | v1_EchoResponse_PrivateExtension

definition v1_EchoResponse_switch :: "v1_EchoResponse_field tv_switch" where
  "v1_EchoResponse_switch t = (
     if t = v1_IE_Recovery then Slot1 v1_EchoResponse_Recovery
     else if t = v1_IE_PrivateExtension then Slot1 v1_EchoResponse_PrivateExtension
     else Rest)"

definition v1_EchoResponse_order :: "v1_EchoResponse_field list" where
  "v1_EchoResponse_order = [
    v1_EchoResponse_Recovery, v1_EchoResponse_PrivateExtension]"

definition v1_EchoResponse_lens :: "v1_EchoResponse_field list" where
  "v1_EchoResponse_lens = [
    v1_EchoResponse_Recovery, v1_EchoResponse_PrivateExtension]"

definition v1_NewEchoResponse :: "u16 \<Rightarrow> tv_ie option list \<Rightarrow> (v1_header, v1_EchoResponse_field) tv_msg" where
  "v1_NewEchoResponse seq ies =
     tvm_New v1_codec v1_EchoResponse_switch v1_EchoResponse_lens (v1_NewHeader 0x32 v1_MsgTypeEchoResponse 0 seq []) ies"

definition v1_EchoResponse_MarshalLen :: "(v1_header, v1_EchoResponse_field) tv_msg \<Rightarrow> nat" where
  "v1_EchoResponse_MarshalLen m = tvm_MarshalLen v1_codec v1_EchoResponse_lens m"

definition v1_EchoResponse_SetLength :: "(v1_header, v1_EchoResponse_field) tv_msg \<Rightarrow> (v1_header, v1_EchoResponse_field) tv_msg" where
  "v1_EchoResponse_SetLength m = tvm_SetLength v1_codec v1_EchoResponse_lens m"

definition v1_EchoResponse_MarshalTo :: "(v1_header, v1_EchoResponse_field) tv_msg \<Rightarrow> bytes \<Rightarrow> (bytes \<times> (v1_header, v1_EchoResponse_field) tv_msg) result" where
  "v1_EchoResponse_MarshalTo m b = tvm_MarshalTo v1_codec False True v1_EchoResponse_order v1_EchoResponse_lens m b"

definition v1_EchoResponse_Marshal :: "(v1_header, v1_EchoResponse_field) tv_msg \<Rightarrow> (bytes \<times> (v1_header, v1_EchoResponse_field) tv_msg) result" where
  "v1_EchoResponse_Marshal m = v1_EchoResponse_MarshalTo m (replicate (v1_EchoResponse_MarshalLen m) 0)"

definition v1_EchoResponse_UnmarshalBinary :: "bytes \<Rightarrow> (v1_header, v1_EchoResponse_field) tv_msg result" where
  "v1_EchoResponse_UnmarshalBinary b = tvm_UnmarshalBinary v1_codec True v1_EchoResponse_switch b"

lemma v1_EchoResponse_all_fields: "s \<in> set v1_EchoResponse_order" "s \<in> set v1_EchoResponse_lens"
  by (cases s; simp add: v1_EchoResponse_order_def v1_EchoResponse_lens_def)+

interpretation v1EchoResponse: tv_layout v1_EchoResponse_switch v1_EchoResponse_order v1_EchoResponse_lens
proof unfold_locales
  show "distinct v1_EchoResponse_order" "distinct v1_EchoResponse_lens" by (simp_all add: v1_EchoResponse_order_def v1_EchoResponse_lens_def)
  show "set v1_EchoResponse_order = set v1_EchoResponse_lens" by (simp add: v1_EchoResponse_all_fields set_eq_iff)
  show "place_ok v1_EchoResponse_order (v1_EchoResponse_switch t)" for t
    unfolding v1_EchoResponse_switch_def
    by (simp add: v1_EchoResponse_all_fields)
qed

lemma v1_EchoResponse_Marshal_eq: "v1_EchoResponse_Marshal m = tvm_Marshal v1_codec False True v1_EchoResponse_order v1_EchoResponse_lens m"
  by (simp add: v1_EchoResponse_Marshal_def v1_EchoResponse_MarshalTo_def v1_EchoResponse_MarshalLen_def tvm_Marshal_def)

section \<open>CreatePDPContextRequest\<close>

datatype v1_CreatePDPContextRequest_field =
    v1_CreatePDPContextRequest_IMSI | v1_CreatePDPContextRequest_RAI
    | v1_CreatePDPContextRequest_Recovery | v1_CreatePDPContextRequest_SelectionMode
    | v1_CreatePDPContextRequest_TEIDDataI | v1_CreatePDPContextRequest_TEIDCPlane
    | v1_CreatePDPContextRequest_NSAPI | v1_CreatePDPContextRequest_LinkedNSAPI
    | v1_CreatePDPContextRequest_ChargingCharacteristics
    | v1_CreatePDPContextRequest_TraceReference | v1_CreatePDPContextRequest_TraceType
    | v1_CreatePDPContextRequest_EndUserAddress | v1_CreatePDPContextRequest_APN
    | v1_CreatePDPContextRequest_PCO | v1_CreatePDPContextRequest_SGSNAddressForSignalling
    | v1_CreatePDPContextRequest_SGSNAddressForUserTraffic | v1_CreatePDPContextRequest_MSISDN
    | v1_CreatePDPContextRequest_QoSProfile | v1_CreatePDPContextRequest_TFT
    | v1_CreatePDPContextRequest_TriggerID | v1_CreatePDPContextRequest_OMCIdentity
    | v1_CreatePDPContextRequest_CommonFlags | v1_CreatePDPContextRequest_APNRestriction
    | v1_CreatePDPContextRequest_RATType | v1_CreatePDPContextRequest_UserLocationInformation
    | v1_CreatePDPContextRequest_MSTimeZone | v1_CreatePDPContextRequest_IMEI
    | v1_CreatePDPContextRequest_CAMELChargingInformationContainer
    | v1_CreatePDPContextRequest_AdditionalTraceInfo | v1_CreatePDPContextRequest_CorrelationID
    | v1_CreatePDPContextRequest_EvolvedARPI | v1_CreatePDPContextRequest_ExtendedCommonFlags
    | v1_CreatePDPContextRequest_UCI | v1_CreatePDPContextRequest_APNAMBR
    | v1_CreatePDPContextRequest_SignallingPriorityIndication
    | v1_CreatePDPContextRequest_CNOperatorSelectionEntity
    | v1_CreatePDPContextRequest_MappedUEUsageType
    | v1_CreatePDPContextRequest_UPFunctionSelectionIndicationFlags
    | v1_CreatePDPContextRequest_PrivateExtension

definition v1_CreatePDPContextRequest_switch :: "v1_CreatePDPContextRequest_field tv_switch" where
  "v1_CreatePDPContextRequest_switch t = (
     if t = v1_IE_IMSI then Slot1 v1_CreatePDPContextRequest_IMSI
     else if t = v1_IE_RouteingAreaIdentity then Slot1 v1_CreatePDPContextRequest_RAI
     else if t = v1_IE_Recovery then Slot1 v1_CreatePDPContextRequest_Recovery
     else if t = v1_IE_SelectionMode then Slot1 v1_CreatePDPContextRequest_SelectionMode
     else if t = v1_IE_TEIDDataI then Slot1 v1_CreatePDPContextRequest_TEIDDataI
     else if t = v1_IE_TEIDCPlane then Slot1 v1_CreatePDPContextRequest_TEIDCPlane
     else if t = v1_IE_NSAPI then Place [v1_CreatePDPContextRequest_NSAPI, v1_CreatePDPContextRequest_LinkedNSAPI] Appended
     else if t = v1_IE_ChargingCharacteristics then Slot1 v1_CreatePDPContextRequest_ChargingCharacteristics
     else if t = v1_IE_TraceReference then Slot1 v1_CreatePDPContextRequest_TraceReference
     else if t = v1_IE_TraceType then Slot1 v1_CreatePDPContextRequest_TraceType
     else if t = v1_IE_EndUserAddress then Slot1 v1_CreatePDPContextRequest_EndUserAddress
     else if t = v1_IE_AccessPointName then Slot1 v1_CreatePDPContextRequest_APN
     else if t = v1_IE_ProtocolConfigurationOptions then Slot1 v1_CreatePDPContextRequest_PCO
     else if t = v1_IE_GSNAddress then Place [v1_CreatePDPContextRequest_SGSNAddressForSignalling, v1_CreatePDPContextRequest_SGSNAddressForUserTraffic] Appended
     else if t = v1_IE_MSISDN then Slot1 v1_CreatePDPContextRequest_MSISDN
     else if t = v1_IE_QoSProfile then Slot1 v1_CreatePDPContextRequest_QoSProfile
     else if t = v1_IE_TrafficFlowTemplate then Slot1 v1_CreatePDPContextRequest_TFT
     else if t = v1_IE_TriggerID then Slot1 v1_CreatePDPContextRequest_TriggerID
     else if t = v1_IE_OMCIdentity then Slot1 v1_CreatePDPContextRequest_OMCIdentity
     else if t = v1_IE_CommonFlags then Slot1 v1_CreatePDPContextRequest_CommonFlags
     else if t = v1_IE_APNRestriction then Slot1 v1_CreatePDPContextRequest_APNRestriction
     else if t = v1_IE_RATType then Slot1 v1_CreatePDPContextRequest_RATType
     else if t = v1_IE_UserLocationInformation then Slot1 v1_CreatePDPContextRequest_UserLocationInformation
     else if t = v1_IE_MSTimeZone then Slot1 v1_CreatePDPContextRequest_MSTimeZone
     else if t = v1_IE_IMEISV then Slot1 v1_CreatePDPContextRequest_IMEI
     else if t = v1_IE_CAMELChargingInformationContainer then Slot1 v1_CreatePDPContextRequest_CAMELChargingInformationContainer
     else if t = v1_IE_AdditionalTraceInfo then Slot1 v1_CreatePDPContextRequest_AdditionalTraceInfo
     else if t = v1_IE_CorrelationID then Slot1 v1_CreatePDPContextRequest_CorrelationID
     else if t = v1_IE_EvolvedAllocationRetentionPriorityI then Slot1 v1_CreatePDPContextRequest_EvolvedARPI
     else if t = v1_IE_ExtendedCommonFlags then Slot1 v1_CreatePDPContextRequest_ExtendedCommonFlags
     else if t = v1_IE_UserCSGInformation then Slot1 v1_CreatePDPContextRequest_UCI
     else if t = v1_IE_AggregateMaximumBitRate then Slot1 v1_CreatePDPContextRequest_APNAMBR
     else if t = v1_IE_SignallingPriorityIndication then Slot1 v1_CreatePDPContextRequest_SignallingPriorityIndication
     else if t = v1_IE_CNOperatorSelectionEntity then Slot1 v1_CreatePDPContextRequest_CNOperatorSelectionEntity
     else if t = v1_IE_MappedUEUsageType then Slot1 v1_CreatePDPContextRequest_MappedUEUsageType
     else if t = v1_IE_UPFunctionSelectionIndicationFlags then Slot1 v1_CreatePDPContextRequest_UPFunctionSelectionIndicationFlags
     else if t = v1_IE_PrivateExtension then Slot1 v1_CreatePDPContextRequest_PrivateExtension
     else Rest)"

definition v1_CreatePDPContextRequest_order :: "v1_CreatePDPContextRequest_field list" where
  "v1_CreatePDPContextRequest_order = [
    v1_CreatePDPContextRequest_IMSI, v1_CreatePDPContextRequest_RAI,
    v1_CreatePDPContextRequest_Recovery, v1_CreatePDPContextRequest_SelectionMode,
    v1_CreatePDPContextRequest_TEIDDataI, v1_CreatePDPContextRequest_TEIDCPlane,
    v1_CreatePDPContextRequest_NSAPI, v1_CreatePDPContextRequest_LinkedNSAPI,
    v1_CreatePDPContextRequest_ChargingCharacteristics,
    v1_CreatePDPContextRequest_TraceReference, v1_CreatePDPContextRequest_TraceType,
    v1_CreatePDPContextRequest_EndUserAddress, v1_CreatePDPContextRequest_APN,
    v1_CreatePDPContextRequest_PCO, v1_CreatePDPContextRequest_SGSNAddressForSignalling,
    v1_CreatePDPContextRequest_SGSNAddressForUserTraffic, v1_CreatePDPContextRequest_MSISDN,
    v1_CreatePDPContextRequest_QoSProfile, v1_CreatePDPContextRequest_TFT,
    v1_CreatePDPContextRequest_TriggerID, v1_CreatePDPContextRequest_OMCIdentity,
    v1_CreatePDPContextRequest_CommonFlags, v1_CreatePDPContextRequest_APNRestriction,
    v1_CreatePDPContextRequest_RATType, v1_CreatePDPContextRequest_UserLocationInformation,
    v1_CreatePDPContextRequest_MSTimeZone, v1_CreatePDPContextRequest_IMEI,
    v1_CreatePDPContextRequest_CAMELChargingInformationContainer,
    v1_CreatePDPContextRequest_AdditionalTraceInfo, v1_CreatePDPContextRequest_CorrelationID,
    v1_CreatePDPContextRequest_EvolvedARPI, v1_CreatePDPContextRequest_ExtendedCommonFlags,
    v1_CreatePDPContextRequest_UCI, v1_CreatePDPContextRequest_APNAMBR,
    v1_CreatePDPContextRequest_SignallingPriorityIndication,
    v1_CreatePDPContextRequest_CNOperatorSelectionEntity,
    v1_CreatePDPContextRequest_MappedUEUsageType,
    v1_CreatePDPContextRequest_UPFunctionSelectionIndicationFlags,
    v1_CreatePDPContextRequest_PrivateExtension]"

definition v1_CreatePDPContextRequest_lens :: "v1_CreatePDPContextRequest_field list" where
  "v1_CreatePDPContextRequest_lens = [
    v1_CreatePDPContextRequest_IMSI, v1_CreatePDPContextRequest_RAI,
    v1_CreatePDPContextRequest_Recovery, v1_CreatePDPContextRequest_SelectionMode,
    v1_CreatePDPContextRequest_TEIDDataI, v1_CreatePDPContextRequest_TEIDCPlane,
    v1_CreatePDPContextRequest_NSAPI, v1_CreatePDPContextRequest_LinkedNSAPI,
    v1_CreatePDPContextRequest_ChargingCharacteristics,
    v1_CreatePDPContextRequest_TraceReference, v1_CreatePDPContextRequest_TraceType,
    v1_CreatePDPContextRequest_EndUserAddress, v1_CreatePDPContextRequest_APN,
    v1_CreatePDPContextRequest_PCO, v1_CreatePDPContextRequest_SGSNAddressForSignalling,
    v1_CreatePDPContextRequest_SGSNAddressForUserTraffic, v1_CreatePDPContextRequest_MSISDN,
    v1_CreatePDPContextRequest_QoSProfile, v1_CreatePDPContextRequest_TFT,
    v1_CreatePDPContextRequest_TriggerID, v1_CreatePDPContextRequest_OMCIdentity,
    v1_CreatePDPContextRequest_CommonFlags, v1_CreatePDPContextRequest_APNRestriction,
    v1_CreatePDPContextRequest_RATType, v1_CreatePDPContextRequest_UserLocationInformation,
    v1_CreatePDPContextRequest_MSTimeZone, v1_CreatePDPContextRequest_IMEI,
    v1_CreatePDPContextRequest_CAMELChargingInformationContainer,
    v1_CreatePDPContextRequest_AdditionalTraceInfo, v1_CreatePDPContextRequest_CorrelationID,
    v1_CreatePDPContextRequest_EvolvedARPI, v1_CreatePDPContextRequest_ExtendedCommonFlags,
    v1_CreatePDPContextRequest_UCI, v1_CreatePDPContextRequest_APNAMBR,
    v1_CreatePDPContextRequest_SignallingPriorityIndication,
    v1_CreatePDPContextRequest_CNOperatorSelectionEntity,
    v1_CreatePDPContextRequest_MappedUEUsageType,
    v1_CreatePDPContextRequest_UPFunctionSelectionIndicationFlags,
    v1_CreatePDPContextRequest_PrivateExtension]"

definition v1_NewCreatePDPContextRequest :: "u32 \<Rightarrow> u16 \<Rightarrow> tv_ie option list \<Rightarrow> (v1_header, v1_CreatePDPContextRequest_field) tv_msg" where
  "v1_NewCreatePDPContextRequest teid seq ies =
     tvm_New v1_codec v1_CreatePDPContextRequest_switch v1_CreatePDPContextRequest_lens (v1_NewHeader 0x32 v1_MsgTypeCreatePDPContextRequest teid seq []) ies"

definition v1_CreatePDPContextRequest_MarshalLen :: "(v1_header, v1_CreatePDPContextRequest_field) tv_msg \<Rightarrow> nat" where
  "v1_CreatePDPContextRequest_MarshalLen m = tvm_MarshalLen v1_codec v1_CreatePDPContextRequest_lens m"

definition v1_CreatePDPContextRequest_SetLength :: "(v1_header, v1_CreatePDPContextRequest_field) tv_msg \<Rightarrow> (v1_header, v1_CreatePDPContextRequest_field) tv_msg" where
  "v1_CreatePDPContextRequest_SetLength m = tvm_SetLength v1_codec v1_CreatePDPContextRequest_lens m"

definition v1_CreatePDPContextRequest_MarshalTo :: "(v1_header, v1_CreatePDPContextRequest_field) tv_msg \<Rightarrow> bytes \<Rightarrow> (bytes \<times> (v1_header, v1_CreatePDPContextRequest_field) tv_msg) result" where
  "v1_CreatePDPContextRequest_MarshalTo m b = tvm_MarshalTo v1_codec True False v1_CreatePDPContextRequest_order v1_CreatePDPContextRequest_lens m b"

definition v1_CreatePDPContextRequest_Marshal :: "(v1_header, v1_CreatePDPContextRequest_field) tv_msg \<Rightarrow> (bytes \<times> (v1_header, v1_CreatePDPContextRequest_field) tv_msg) result" where
  "v1_CreatePDPContextRequest_Marshal m = v1_CreatePDPContextRequest_MarshalTo m (replicate (v1_CreatePDPContextRequest_MarshalLen m) 0)"

definition v1_CreatePDPContextRequest_UnmarshalBinary :: "bytes \<Rightarrow> (v1_header, v1_CreatePDPContextRequest_field) tv_msg result" where
  "v1_CreatePDPContextRequest_UnmarshalBinary b = tvm_UnmarshalBinary v1_codec True v1_CreatePDPContextRequest_switch b"

lemma v1_CreatePDPContextRequest_all_fields: "s \<in> set v1_CreatePDPContextRequest_order" "s \<in> set v1_CreatePDPContextRequest_lens"
  by (cases s; simp add: v1_CreatePDPContextRequest_order_def v1_CreatePDPContextRequest_lens_def)+

interpretation v1CreatePDPContextRequest: tv_layout v1_CreatePDPContextRequest_switch v1_CreatePDPContextRequest_order v1_CreatePDPContextRequest_lens
proof unfold_locales
  show "distinct v1_CreatePDPContextRequest_order" "distinct v1_CreatePDPContextRequest_lens" by (simp_all add: v1_CreatePDPContextRequest_order_def v1_CreatePDPContextRequest_lens_def)
  show "set v1_CreatePDPContextRequest_order = set v1_CreatePDPContextRequest_lens" by (simp add: v1_CreatePDPContextRequest_all_fields set_eq_iff)
  show "place_ok v1_CreatePDPContextRequest_order (v1_CreatePDPContextRequest_switch t)" for t
    unfolding v1_CreatePDPContextRequest_switch_def
    by (simp add: v1_CreatePDPContextRequest_all_fields) (simp add: place_ok_def v1_CreatePDPContextRequest_order_def)
qed

lemma v1_CreatePDPContextRequest_Marshal_eq: "v1_CreatePDPContextRequest_Marshal m = tvm_Marshal v1_codec True False v1_CreatePDPContextRequest_order v1_CreatePDPContextRequest_lens m"
  by (simp add: v1_CreatePDPContextRequest_Marshal_def v1_CreatePDPContextRequest_MarshalTo_def v1_CreatePDPContextRequest_MarshalLen_def tvm_Marshal_def)

section \<open>CreatePDPContextResponse\<close>

datatype v1_CreatePDPContextResponse_field =
    v1_CreatePDPContextResponse_Cause | v1_CreatePDPContextResponse_ReorderingRequired
    | v1_CreatePDPContextResponse_Recovery | v1_CreatePDPContextResponse_TEIDDataI
    | v1_CreatePDPContextResponse_TEIDCPlane | v1_CreatePDPContextResponse_NSAPI
    | v1_CreatePDPContextResponse_ChargingID | v1_CreatePDPContextResponse_EndUserAddress
    | v1_CreatePDPContextResponse_PCO | v1_CreatePDPContextResponse_GGSNAddressForCPlane
    | v1_CreatePDPContextResponse_GGSNAddressForUserTraffic
    | v1_CreatePDPContextResponse_AltGGSNAddressForCPlane
    | v1_CreatePDPContextResponse_AltGGSNAddressForUserTraffic
    | v1_CreatePDPContextResponse_QoSProfile
    | v1_CreatePDPContextResponse_ChargingGatewayAddress
    | v1_CreatePDPContextResponse_AltChargingGatewayAddress
    | v1_CreatePDPContextResponse_CommonFlags | v1_CreatePDPContextResponse_APNRestriction
    | v1_CreatePDPContextResponse_MSInfoChangeReportingAction
    | v1_CreatePDPContextResponse_BearerControlMode | v1_CreatePDPContextResponse_EvolvedARPI
    | v1_CreatePDPContextResponse_ExtendedCommonFlag
    | v1_CreatePDPContextResponse_CSGInformationReportingAction
    | v1_CreatePDPContextResponse_APNAMBR | v1_CreatePDPContextResponse_GGSNBackOffTime
    | v1_CreatePDPContextResponse_ExtendedCommonFlagsII
    | v1_CreatePDPContextResponse_PrivateExtension

definition v1_CreatePDPContextResponse_switch :: "v1_CreatePDPContextResponse_field tv_switch" where
  "v1_CreatePDPContextResponse_switch t = (
     if t = v1_IE_Cause then Slot1 v1_CreatePDPContextResponse_Cause
     else if t = v1_IE_ReorderingRequired then Slot1 v1_CreatePDPContextResponse_ReorderingRequired
     else if t = v1_IE_Recovery then Slot1 v1_CreatePDPContextResponse_Recovery
     else if t = v1_IE_TEIDDataI then Slot1 v1_CreatePDPContextResponse_TEIDDataI
     else if t = v1_IE_TEIDCPlane then Slot1 v1_CreatePDPContextResponse_TEIDCPlane
     else if t = v1_IE_NSAPI then Slot1 v1_CreatePDPContextResponse_NSAPI
     else if t = v1_IE_ChargingID then Slot1 v1_CreatePDPContextResponse_ChargingID
     else if t = v1_IE_EndUserAddress then Slot1 v1_CreatePDPContextResponse_EndUserAddress
     else if t = v1_IE_ProtocolConfigurationOptions then Slot1 v1_CreatePDPContextResponse_PCO
     else if t = v1_IE_GSNAddress then Place [v1_CreatePDPContextResponse_GGSNAddressForCPlane, v1_CreatePDPContextResponse_GGSNAddressForUserTraffic, v1_CreatePDPContextResponse_AltGGSNAddressForCPlane, v1_CreatePDPContextResponse_AltGGSNAddressForUserTraffic] Lost
     else if t = v1_IE_QoSProfile then Slot1 v1_CreatePDPContextResponse_QoSProfile
     else if t = v1_IE_ChargingGatewayAddress then Place [v1_CreatePDPContextResponse_ChargingGatewayAddress, v1_CreatePDPContextResponse_AltChargingGatewayAddress] Lost
     else if t = v1_IE_CommonFlags then Slot1 v1_CreatePDPContextResponse_CommonFlags
     else if t = v1_IE_APNRestriction then Slot1 v1_CreatePDPContextResponse_APNRestriction
     else if t = v1_IE_MSInfoChangeReportingAction then Slot1 v1_CreatePDPContextResponse_MSInfoChangeReportingAction
     else if t = v1_IE_BearerControlMode then Slot1 v1_CreatePDPContextResponse_BearerControlMode
     else if t = v1_IE_EvolvedAllocationRetentionPriorityI then Slot1 v1_CreatePDPContextResponse_EvolvedARPI
     else if t = v1_IE_ExtendedCommonFlags then Slot1 v1_CreatePDPContextResponse_ExtendedCommonFlag
     else if t = v1_IE_CSGInformationReportingAction then Slot1 v1_CreatePDPContextResponse_CSGInformationReportingAction
     else if t = v1_IE_AggregateMaximumBitRate then Slot1 v1_CreatePDPContextResponse_APNAMBR
     else if t = v1_IE_GGSNBackOffTime then Slot1 v1_CreatePDPContextResponse_GGSNBackOffTime
     else if t = v1_IE_ExtendedCommonFlagsII then Slot1 v1_CreatePDPContextResponse_ExtendedCommonFlagsII
     else if t = v1_IE_PrivateExtension then Slot1 v1_CreatePDPContextResponse_PrivateExtension
     else Rest)"

definition v1_CreatePDPContextResponse_order :: "v1_CreatePDPContextResponse_field list" where
  "v1_CreatePDPContextResponse_order = [
    v1_CreatePDPContextResponse_Cause, v1_CreatePDPContextResponse_ReorderingRequired,
    v1_CreatePDPContextResponse_Recovery, v1_CreatePDPContextResponse_TEIDDataI,
    v1_CreatePDPContextResponse_TEIDCPlane, v1_CreatePDPContextResponse_NSAPI,
    v1_CreatePDPContextResponse_ChargingID, v1_CreatePDPContextResponse_EndUserAddress,
    v1_CreatePDPContextResponse_PCO, v1_CreatePDPContextResponse_GGSNAddressForCPlane,
    v1_CreatePDPContextResponse_GGSNAddressForUserTraffic,
    v1_CreatePDPContextResponse_AltGGSNAddressForCPlane,
    v1_CreatePDPContextResponse_AltGGSNAddressForUserTraffic,
    v1_CreatePDPContextResponse_QoSProfile, v1_CreatePDPContextResponse_ChargingGatewayAddress,
    v1_CreatePDPContextResponse_AltChargingGatewayAddress,
    v1_CreatePDPContextResponse_CommonFlags, v1_CreatePDPContextResponse_APNRestriction,
    v1_CreatePDPContextResponse_MSInfoChangeReportingAction,
    v1_CreatePDPContextResponse_BearerControlMode, v1_CreatePDPContextResponse_EvolvedARPI,
    v1_CreatePDPContextResponse_ExtendedCommonFlag,
    v1_CreatePDPContextResponse_CSGInformationReportingAction,
    v1_CreatePDPContextResponse_APNAMBR, v1_CreatePDPContextResponse_GGSNBackOffTime,
    v1_CreatePDPContextResponse_ExtendedCommonFlagsII,
    v1_CreatePDPContextResponse_PrivateExtension]"

definition v1_CreatePDPContextResponse_lens :: "v1_CreatePDPContextResponse_field list" where
  "v1_CreatePDPContextResponse_lens = [
    v1_CreatePDPContextResponse_Cause, v1_CreatePDPContextResponse_ReorderingRequired,
    v1_CreatePDPContextResponse_Recovery, v1_CreatePDPContextResponse_TEIDDataI,
    v1_CreatePDPContextResponse_TEIDCPlane, v1_CreatePDPContextResponse_NSAPI,
    v1_CreatePDPContextResponse_ChargingID, v1_CreatePDPContextResponse_EndUserAddress,
    v1_CreatePDPContextResponse_PCO, v1_CreatePDPContextResponse_GGSNAddressForCPlane,
    v1_CreatePDPContextResponse_GGSNAddressForUserTraffic,
    v1_CreatePDPContextResponse_AltGGSNAddressForCPlane,
    v1_CreatePDPContextResponse_AltGGSNAddressForUserTraffic,
    v1_CreatePDPContextResponse_QoSProfile, v1_CreatePDPContextResponse_ChargingGatewayAddress,
    v1_CreatePDPContextResponse_AltChargingGatewayAddress,
    v1_CreatePDPContextResponse_CommonFlags, v1_CreatePDPContextResponse_APNRestriction,
    v1_CreatePDPContextResponse_MSInfoChangeReportingAction,
    v1_CreatePDPContextResponse_BearerControlMode, v1_CreatePDPContextResponse_EvolvedARPI,
    v1_CreatePDPContextResponse_ExtendedCommonFlag,
    v1_CreatePDPContextResponse_CSGInformationReportingAction,
    v1_CreatePDPContextResponse_APNAMBR, v1_CreatePDPContextResponse_GGSNBackOffTime,
    v1_CreatePDPContextResponse_ExtendedCommonFlagsII,
    v1_CreatePDPContextResponse_PrivateExtension]"

definition v1_NewCreatePDPContextResponse :: "u32 \<Rightarrow> u16 \<Rightarrow> tv_ie option list \<Rightarrow> (v1_header, v1_CreatePDPContextResponse_field) tv_msg" where
  "v1_NewCreatePDPContextResponse teid seq ies =
     tvm_New v1_codec v1_CreatePDPContextResponse_switch v1_CreatePDPContextResponse_lens (v1_NewHeader 0x32 v1_MsgTypeCreatePDPContextResponse teid seq []) ies"

definition v1_CreatePDPContextResponse_MarshalLen :: "(v1_header, v1_CreatePDPContextResponse_field) tv_msg \<Rightarrow> nat" where
  "v1_CreatePDPContextResponse_MarshalLen m = tvm_MarshalLen v1_codec v1_CreatePDPContextResponse_lens m"

definition v1_CreatePDPContextResponse_SetLength :: "(v1_header, v1_CreatePDPContextResponse_field) tv_msg \<Rightarrow> (v1_header, v1_CreatePDPContextResponse_field) tv_msg" where
  "v1_CreatePDPContextResponse_SetLength m = tvm_SetLength v1_codec v1_CreatePDPContextResponse_lens m"

definition v1_CreatePDPContextResponse_MarshalTo :: "(v1_header, v1_CreatePDPContextResponse_field) tv_msg \<Rightarrow> bytes \<Rightarrow> (bytes \<times> (v1_header, v1_CreatePDPContextResponse_field) tv_msg) result" where
  "v1_CreatePDPContextResponse_MarshalTo m b = tvm_MarshalTo v1_codec True False v1_CreatePDPContextResponse_order v1_CreatePDPContextResponse_lens m b"

definition v1_CreatePDPContextResponse_Marshal :: "(v1_header, v1_CreatePDPContextResponse_field) tv_msg \<Rightarrow> (bytes \<times> (v1_header, v1_CreatePDPContextResponse_field) tv_msg) result" where
  "v1_CreatePDPContextResponse_Marshal m = v1_CreatePDPContextResponse_MarshalTo m (replicate (v1_CreatePDPContextResponse_MarshalLen m) 0)"

definition v1_CreatePDPContextResponse_UnmarshalBinary :: "bytes \<Rightarrow> (v1_header, v1_CreatePDPContextResponse_field) tv_msg result" where
  "v1_CreatePDPContextResponse_UnmarshalBinary b = tvm_UnmarshalBinary v1_codec True v1_CreatePDPContextResponse_switch b"

lemma v1_CreatePDPContextResponse_all_fields: "s \<in> set v1_CreatePDPContextResponse_order" "s \<in> set v1_CreatePDPContextResponse_lens"
  by (cases s; simp add: v1_CreatePDPContextResponse_order_def v1_CreatePDPContextResponse_lens_def)+

interpretation v1CreatePDPContextResponse: tv_layout v1_CreatePDPContextResponse_switch v1_CreatePDPContextResponse_order v1_CreatePDPContextResponse_lens
proof unfold_locales
  show "distinct v1_CreatePDPContextResponse_order" "distinct v1_CreatePDPContextResponse_lens" by (simp_all add: v1_CreatePDPContextResponse_order_def v1_CreatePDPContextResponse_lens_def)
  show "set v1_CreatePDPContextResponse_order = set v1_CreatePDPContextResponse_lens" by (simp add: v1_CreatePDPContextResponse_all_fields set_eq_iff)
  show "place_ok v1_CreatePDPContextResponse_order (v1_CreatePDPContextResponse_switch t)" for t
    unfolding v1_CreatePDPContextResponse_switch_def
    by (simp add: v1_CreatePDPContextResponse_all_fields) (simp add: place_ok_def v1_CreatePDPContextResponse_order_def)
qed

lemma v1_CreatePDPContextResponse_Marshal_eq: "v1_CreatePDPContextResponse_Marshal m = tvm_Marshal v1_codec True False v1_CreatePDPContextResponse_order v1_CreatePDPContextResponse_lens m"
  by (simp add: v1_CreatePDPContextResponse_Marshal_def v1_CreatePDPContextResponse_MarshalTo_def v1_CreatePDPContextResponse_MarshalLen_def tvm_Marshal_def)

section \<open>UpdatePDPContextRequest\<close>

datatype v1_UpdatePDPContextRequest_field =
    v1_UpdatePDPContextRequest_IMSI | v1_UpdatePDPContextRequest_RAI
    | v1_UpdatePDPContextRequest_Recovery | v1_UpdatePDPContextRequest_TEIDDataI
    | v1_UpdatePDPContextRequest_TEIDCPlane | v1_UpdatePDPContextRequest_NSAPI
    | v1_UpdatePDPContextRequest_TraceReference | v1_UpdatePDPContextRequest_TraceType
    | v1_UpdatePDPContextRequest_PCO | v1_UpdatePDPContextRequest_SGSNAddressForCPlane
    | v1_UpdatePDPContextRequest_SGSNAddressForUserTraffic
    | v1_UpdatePDPContextRequest_AlternativeSGSNAddressForCPlane
    | v1_UpdatePDPContextRequest_AlternativeSGSNAddressForUserTraffic
    | v1_UpdatePDPContextRequest_QoSProfile | v1_UpdatePDPContextRequest_TFT
    | v1_UpdatePDPContextRequest_TriggerID | v1_UpdatePDPContextRequest_OMCIdentity
    | v1_UpdatePDPContextRequest_CommonFlags | v1_UpdatePDPContextRequest_RATType
    | v1_UpdatePDPContextRequest_ULI | v1_UpdatePDPContextRequest_MSTimeZone
    | v1_UpdatePDPContextRequest_AdditionalTraceInfo
    | v1_UpdatePDPContextRequest_DirectTunnelFlags | v1_UpdatePDPContextRequest_EvolvedARPI
    | v1_UpdatePDPContextRequest_ExtendedCommonFlags | v1_UpdatePDPContextRequest_UCI
    | v1_UpdatePDPContextRequest_APNAMBR
    | v1_UpdatePDPContextRequest_SignallingPriorityIndication
    | v1_UpdatePDPContextRequest_CNOperatorSelectionEntity | v1_UpdatePDPContextRequest_IMEI
    | v1_UpdatePDPContextRequest_PrivateExtension

definition v1_UpdatePDPContextRequest_switch :: "v1_UpdatePDPContextRequest_field tv_switch" where
  "v1_UpdatePDPContextRequest_switch t = (
     if t = v1_IE_IMSI then Slot1 v1_UpdatePDPContextRequest_IMSI
     else if t = v1_IE_RouteingAreaIdentity then Slot1 v1_UpdatePDPContextRequest_RAI
     else if t = v1_IE_Recovery then Slot1 v1_UpdatePDPContextRequest_Recovery
     else if t = v1_IE_TEIDDataI then Slot1 v1_UpdatePDPContextRequest_TEIDDataI
     else if t = v1_IE_TEIDCPlane then Slot1 v1_UpdatePDPContextRequest_TEIDCPlane
     else if t = v1_IE_NSAPI then Slot1 v1_UpdatePDPContextRequest_NSAPI
     else if t = v1_IE_TraceReference then Slot1 v1_UpdatePDPContextRequest_TraceReference
     else if t = v1_IE_TraceType then Slot1 v1_UpdatePDPContextRequest_TraceType
     else if t = v1_IE_ProtocolConfigurationOptions then Slot1 v1_UpdatePDPContextRequest_PCO
     else if t = v1_IE_GSNAddress then Place [v1_UpdatePDPContextRequest_SGSNAddressForCPlane, v1_UpdatePDPContextRequest_SGSNAddressForUserTraffic, v1_UpdatePDPContextRequest_AlternativeSGSNAddressForCPlane, v1_UpdatePDPContextRequest_AlternativeSGSNAddressForUserTraffic] Lost
     else if t = v1_IE_QoSProfile then Slot1 v1_UpdatePDPContextRequest_QoSProfile
     else if t = v1_IE_TrafficFlowTemplate then Slot1 v1_UpdatePDPContextRequest_TFT
     else if t = v1_IE_TriggerID then Slot1 v1_UpdatePDPContextRequest_TriggerID
     else if t = v1_IE_OMCIdentity then Slot1 v1_UpdatePDPContextRequest_OMCIdentity
     else if t = v1_IE_CommonFlags then Slot1 v1_UpdatePDPContextRequest_CommonFlags
     else if t = v1_IE_RATType then Slot1 v1_UpdatePDPContextRequest_RATType
     else if t = v1_IE_UserLocationInformation then Slot1 v1_UpdatePDPContextRequest_ULI
     else if t = v1_IE_MSTimeZone then Slot1 v1_UpdatePDPContextRequest_MSTimeZone
     else if t = v1_IE_AdditionalTraceInfo then Slot1 v1_UpdatePDPContextRequest_AdditionalTraceInfo
     else if t = v1_IE_DirectTunnelFlags then Slot1 v1_UpdatePDPContextRequest_DirectTunnelFlags
     else if t = v1_IE_EvolvedAllocationRetentionPriorityI then Slot1 v1_UpdatePDPContextRequest_EvolvedARPI
     else if t = v1_IE_ExtendedCommonFlags then Slot1 v1_UpdatePDPContextRequest_ExtendedCommonFlags
     else if t = v1_IE_UserCSGInformation then Slot1 v1_UpdatePDPContextRequest_UCI
     else if t = v1_IE_AggregateMaximumBitRate then Slot1 v1_UpdatePDPContextRequest_APNAMBR
     else if t = v1_IE_SignallingPriorityIndication then Slot1 v1_UpdatePDPContextRequest_SignallingPriorityIndication
     else if t = v1_IE_CNOperatorSelectionEntity then Slot1 v1_UpdatePDPContextRequest_CNOperatorSelectionEntity
     else if t = v1_IE_IMEISV then Slot1 v1_UpdatePDPContextRequest_IMEI
     else if t = v1_IE_PrivateExtension then Slot1 v1_UpdatePDPContextRequest_PrivateExtension
     else Rest)"

definition v1_UpdatePDPContextRequest_order :: "v1_UpdatePDPContextRequest_field list" where
  "v1_UpdatePDPContextRequest_order = [
    v1_UpdatePDPContextRequest_IMSI, v1_UpdatePDPContextRequest_RAI,
    v1_UpdatePDPContextRequest_Recovery, v1_UpdatePDPContextRequest_TEIDDataI,
    v1_UpdatePDPContextRequest_TEIDCPlane, v1_UpdatePDPContextRequest_NSAPI,
    v1_UpdatePDPContextRequest_TraceReference, v1_UpdatePDPContextRequest_TraceType,
    v1_UpdatePDPContextRequest_PCO, v1_UpdatePDPContextRequest_SGSNAddressForCPlane,
    v1_UpdatePDPContextRequest_SGSNAddressForUserTraffic,
    v1_UpdatePDPContextRequest_AlternativeSGSNAddressForCPlane,
    v1_UpdatePDPContextRequest_AlternativeSGSNAddressForUserTraffic,
    v1_UpdatePDPContextRequest_QoSProfile, v1_UpdatePDPContextRequest_TFT,
    v1_UpdatePDPContextRequest_TriggerID, v1_UpdatePDPContextRequest_OMCIdentity,
    v1_UpdatePDPContextRequest_CommonFlags, v1_UpdatePDPContextRequest_RATType,
    v1_UpdatePDPContextRequest_ULI, v1_UpdatePDPContextRequest_MSTimeZone,
    v1_UpdatePDPContextRequest_AdditionalTraceInfo,
    v1_UpdatePDPContextRequest_DirectTunnelFlags, v1_UpdatePDPContextRequest_EvolvedARPI,
    v1_UpdatePDPContextRequest_ExtendedCommonFlags, v1_UpdatePDPContextRequest_UCI,
    v1_UpdatePDPContextRequest_APNAMBR,
    v1_UpdatePDPContextRequest_SignallingPriorityIndication,
    v1_UpdatePDPContextRequest_CNOperatorSelectionEntity, v1_UpdatePDPContextRequest_IMEI,
    v1_UpdatePDPContextRequest_PrivateExtension]"

definition v1_UpdatePDPContextRequest_lens :: "v1_UpdatePDPContextRequest_field list" where
  "v1_UpdatePDPContextRequest_lens = [
    v1_UpdatePDPContextRequest_IMSI, v1_UpdatePDPContextRequest_RAI,
    v1_UpdatePDPContextRequest_Recovery, v1_UpdatePDPContextRequest_TEIDDataI,
    v1_UpdatePDPContextRequest_TEIDCPlane, v1_UpdatePDPContextRequest_NSAPI,
    v1_UpdatePDPContextRequest_TraceReference, v1_UpdatePDPContextRequest_TraceType,
    v1_UpdatePDPContextRequest_PCO, v1_UpdatePDPContextRequest_SGSNAddressForCPlane,
    v1_UpdatePDPContextRequest_SGSNAddressForUserTraffic,
    v1_UpdatePDPContextRequest_AlternativeSGSNAddressForCPlane,
    v1_UpdatePDPContextRequest_AlternativeSGSNAddressForUserTraffic,
    v1_UpdatePDPContextRequest_QoSProfile, v1_UpdatePDPContextRequest_TFT,
    v1_UpdatePDPContextRequest_TriggerID, v1_UpdatePDPContextRequest_OMCIdentity,
    v1_UpdatePDPContextRequest_CommonFlags, v1_UpdatePDPContextRequest_RATType,
    v1_UpdatePDPContextRequest_ULI, v1_UpdatePDPContextRequest_MSTimeZone,
    v1_UpdatePDPContextRequest_AdditionalTraceInfo,
    v1_UpdatePDPContextRequest_DirectTunnelFlags, v1_UpdatePDPContextRequest_EvolvedARPI,
    v1_UpdatePDPContextRequest_ExtendedCommonFlags, v1_UpdatePDPContextRequest_UCI,
    v1_UpdatePDPContextRequest_APNAMBR,
    v1_UpdatePDPContextRequest_SignallingPriorityIndication,
    v1_UpdatePDPContextRequest_CNOperatorSelectionEntity, v1_UpdatePDPContextRequest_IMEI,
    v1_UpdatePDPContextRequest_PrivateExtension]"

definition v1_NewUpdatePDPContextRequest :: "u32 \<Rightarrow> u16 \<Rightarrow> tv_ie option list \<Rightarrow> (v1_header, v1_UpdatePDPContextRequest_field) tv_msg" where
  "v1_NewUpdatePDPContextRequest teid seq ies =
     tvm_New v1_codec v1_UpdatePDPContextRequest_switch v1_UpdatePDPContextRequest_lens (v1_NewHeader 0x32 v1_MsgTypeUpdatePDPContextRequest teid seq []) ies"

definition v1_UpdatePDPContextRequest_MarshalLen :: "(v1_header, v1_UpdatePDPContextRequest_field) tv_msg \<Rightarrow> nat" where
  "v1_UpdatePDPContextRequest_MarshalLen m = tvm_MarshalLen v1_codec v1_UpdatePDPContextRequest_lens m"

definition v1_UpdatePDPContextRequest_SetLength :: "(v1_header, v1_UpdatePDPContextRequest_field) tv_msg \<Rightarrow> (v1_header, v1_UpdatePDPContextRequest_field) tv_msg" where
  "v1_UpdatePDPContextRequest_SetLength m = tvm_SetLength v1_codec v1_UpdatePDPContextRequest_lens m"

definition v1_UpdatePDPContextRequest_MarshalTo :: "(v1_header, v1_UpdatePDPContextRequest_field) tv_msg \<Rightarrow> bytes \<Rightarrow> (bytes \<times> (v1_header, v1_UpdatePDPContextRequest_field) tv_msg) result" where
  "v1_UpdatePDPContextRequest_MarshalTo m b = tvm_MarshalTo v1_codec True False v1_UpdatePDPContextRequest_order v1_UpdatePDPContextRequest_lens m b"

definition v1_UpdatePDPContextRequest_Marshal :: "(v1_header, v1_UpdatePDPContextRequest_field) tv_msg \<Rightarrow> (bytes \<times> (v1_header, v1_UpdatePDPContextRequest_field) tv_msg) result" where
  "v1_UpdatePDPContextRequest_Marshal m = v1_UpdatePDPContextRequest_MarshalTo m (replicate (v1_UpdatePDPContextRequest_MarshalLen m) 0)"

definition v1_UpdatePDPContextRequest_UnmarshalBinary :: "bytes \<Rightarrow> (v1_header, v1_UpdatePDPContextRequest_field) tv_msg result" where
  "v1_UpdatePDPContextRequest_UnmarshalBinary b = tvm_UnmarshalBinary v1_codec True v1_UpdatePDPContextRequest_switch b"

lemma v1_UpdatePDPContextRequest_all_fields: "s \<in> set v1_UpdatePDPContextRequest_order" "s \<in> set v1_UpdatePDPContextRequest_lens"
  by (cases s; simp add: v1_UpdatePDPContextRequest_order_def v1_UpdatePDPContextRequest_lens_def)+

interpretation v1UpdatePDPContextRequest: tv_layout v1_UpdatePDPContextRequest_switch v1_UpdatePDPContextRequest_order v1_UpdatePDPContextRequest_lens
proof unfold_locales
  show "distinct v1_UpdatePDPContextRequest_order" "distinct v1_UpdatePDPContextRequest_lens" by (simp_all add: v1_UpdatePDPContextRequest_order_def v1_UpdatePDPContextRequest_lens_def)
  show "set v1_UpdatePDPContextRequest_order = set v1_UpdatePDPContextRequest_lens" by (simp add: v1_UpdatePDPContextRequest_all_fields set_eq_iff)
  show "place_ok v1_UpdatePDPContextRequest_order (v1_UpdatePDPContextRequest_switch t)" for t
    unfolding v1_UpdatePDPContextRequest_switch_def
    by (simp add: v1_UpdatePDPContextRequest_all_fields) (simp add: place_ok_def v1_UpdatePDPContextRequest_order_def)
qed

lemma v1_UpdatePDPContextRequest_Marshal_eq: "v1_UpdatePDPContextRequest_Marshal m = tvm_Marshal v1_codec True False v1_UpdatePDPContextRequest_order v1_UpdatePDPContextRequest_lens m"
  by (simp add: v1_UpdatePDPContextRequest_Marshal_def v1_UpdatePDPContextRequest_MarshalTo_def v1_UpdatePDPContextRequest_MarshalLen_def tvm_Marshal_def)

section \<open>UpdatePDPContextResponse\<close>

datatype v1_UpdatePDPContextResponse_field =
    v1_UpdatePDPContextResponse_Cause | v1_UpdatePDPContextResponse_Recovery
    | v1_UpdatePDPContextResponse_TEIDDataI | v1_UpdatePDPContextResponse_TEIDCPlane
    | v1_UpdatePDPContextResponse_ChargingID | v1_UpdatePDPContextResponse_PCO
    | v1_UpdatePDPContextResponse_GGSNAddressForCPlane
    | v1_UpdatePDPContextResponse_GGSNAddressForUserTraffic
    | v1_UpdatePDPContextResponse_AltGGSNAddressForCPlane
    | v1_UpdatePDPContextResponse_AltGGSNAddressForUserTraffic
    | v1_UpdatePDPContextResponse_QoSProfile
    | v1_UpdatePDPContextResponse_ChargingGatewayAddress
    | v1_UpdatePDPContextResponse_AltChargingGatewayAddress
    | v1_UpdatePDPContextResponse_CommonFlags | v1_UpdatePDPContextResponse_APNRestriction
    | v1_UpdatePDPContextResponse_BearerControlMode
    | v1_UpdatePDPContextResponse_MSInfoChangeReportingAction
    | v1_UpdatePDPContextResponse_EvolvedARPI
    | v1_UpdatePDPContextResponse_CSGInformationReportingAction
    | v1_UpdatePDPContextResponse_APNAMBR | v1_UpdatePDPContextResponse_PrivateExtension

definition v1_UpdatePDPContextResponse_switch :: "v1_UpdatePDPContextResponse_field tv_switch" where
  "v1_UpdatePDPContextResponse_switch t = (
     if t = v1_IE_Cause then Slot1 v1_UpdatePDPContextResponse_Cause
     else if t = v1_IE_Recovery then Slot1 v1_UpdatePDPContextResponse_Recovery
     else if t = v1_IE_TEIDDataI then Slot1 v1_UpdatePDPContextResponse_TEIDDataI
     else if t = v1_IE_TEIDCPlane then Slot1 v1_UpdatePDPContextResponse_TEIDCPlane
     else if t = v1_IE_ChargingID then Slot1 v1_UpdatePDPContextResponse_ChargingID
     else if t = v1_IE_ProtocolConfigurationOptions then Slot1 v1_UpdatePDPContextResponse_PCO
     else if t = v1_IE_GSNAddress then Place [v1_UpdatePDPContextResponse_GGSNAddressForCPlane, v1_UpdatePDPContextResponse_GGSNAddressForUserTraffic, v1_UpdatePDPContextResponse_AltGGSNAddressForCPlane, v1_UpdatePDPContextResponse_AltGGSNAddressForUserTraffic] Lost
     else if t = v1_IE_QoSProfile then Slot1 v1_UpdatePDPContextResponse_QoSProfile
     else if t = v1_IE_ChargingGatewayAddress then Place [v1_UpdatePDPContextResponse_ChargingGatewayAddress, v1_UpdatePDPContextResponse_AltChargingGatewayAddress] Lost
     else if t = v1_IE_CommonFlags then Slot1 v1_UpdatePDPContextResponse_CommonFlags
     else if t = v1_IE_APNRestriction then Slot1 v1_UpdatePDPContextResponse_APNRestriction
     else if t = v1_IE_BearerControlMode then Slot1 v1_UpdatePDPContextResponse_BearerControlMode
     else if t = v1_IE_MSInfoChangeReportingAction then Slot1 v1_UpdatePDPContextResponse_MSInfoChangeReportingAction
     else if t = v1_IE_EvolvedAllocationRetentionPriorityI then Slot1 v1_UpdatePDPContextResponse_EvolvedARPI
     else if t = v1_IE_CSGInformationReportingAction then Slot1 v1_UpdatePDPContextResponse_CSGInformationReportingAction
     else if t = v1_IE_AggregateMaximumBitRate then Slot1 v1_UpdatePDPContextResponse_APNAMBR
     else if t = v1_IE_PrivateExtension then Slot1 v1_UpdatePDPContextResponse_PrivateExtension
     else Rest)"

definition v1_UpdatePDPContextResponse_order :: "v1_UpdatePDPContextResponse_field list" where
  "v1_UpdatePDPContextResponse_order = [
    v1_UpdatePDPContextResponse_Cause, v1_UpdatePDPContextResponse_Recovery,
    v1_UpdatePDPContextResponse_TEIDDataI, v1_UpdatePDPContextResponse_TEIDCPlane,
    v1_UpdatePDPContextResponse_ChargingID, v1_UpdatePDPContextResponse_PCO,
    v1_UpdatePDPContextResponse_GGSNAddressForCPlane,
    v1_UpdatePDPContextResponse_GGSNAddressForUserTraffic,
    v1_UpdatePDPContextResponse_AltGGSNAddressForCPlane,
    v1_UpdatePDPContextResponse_AltGGSNAddressForUserTraffic,
    v1_UpdatePDPContextResponse_QoSProfile, v1_UpdatePDPContextResponse_ChargingGatewayAddress,
    v1_UpdatePDPContextResponse_AltChargingGatewayAddress,
    v1_UpdatePDPContextResponse_CommonFlags, v1_UpdatePDPContextResponse_APNRestriction,
    v1_UpdatePDPContextResponse_BearerControlMode,
    v1_UpdatePDPContextResponse_MSInfoChangeReportingAction,
    v1_UpdatePDPContextResponse_EvolvedARPI,
    v1_UpdatePDPContextResponse_CSGInformationReportingAction,
    v1_UpdatePDPContextResponse_APNAMBR, v1_UpdatePDPContextResponse_PrivateExtension]"

definition v1_UpdatePDPContextResponse_lens :: "v1_UpdatePDPContextResponse_field list" where
  "v1_UpdatePDPContextResponse_lens = [
    v1_UpdatePDPContextResponse_Cause, v1_UpdatePDPContextResponse_Recovery,
    v1_UpdatePDPContextResponse_TEIDDataI, v1_UpdatePDPContextResponse_TEIDCPlane,
    v1_UpdatePDPContextResponse_ChargingID, v1_UpdatePDPContextResponse_PCO,
    v1_UpdatePDPContextResponse_GGSNAddressForCPlane,
    v1_UpdatePDPContextResponse_GGSNAddressForUserTraffic,
    v1_UpdatePDPContextResponse_AltGGSNAddressForCPlane,
    v1_UpdatePDPContextResponse_AltGGSNAddressForUserTraffic,
    v1_UpdatePDPContextResponse_QoSProfile, v1_UpdatePDPContextResponse_ChargingGatewayAddress,
    v1_UpdatePDPContextResponse_AltChargingGatewayAddress,
    v1_UpdatePDPContextResponse_CommonFlags, v1_UpdatePDPContextResponse_APNRestriction,
    v1_UpdatePDPContextResponse_BearerControlMode,
    v1_UpdatePDPContextResponse_MSInfoChangeReportingAction,
    v1_UpdatePDPContextResponse_EvolvedARPI,
    v1_UpdatePDPContextResponse_CSGInformationReportingAction,
    v1_UpdatePDPContextResponse_APNAMBR, v1_UpdatePDPContextResponse_PrivateExtension]"

definition v1_NewUpdatePDPContextResponse :: "u32 \<Rightarrow> u16 \<Rightarrow> tv_ie option list \<Rightarrow> (v1_header, v1_UpdatePDPContextResponse_field) tv_msg" where
  "v1_NewUpdatePDPContextResponse teid seq ies =
     tvm_New v1_codec v1_UpdatePDPContextResponse_switch v1_UpdatePDPContextResponse_lens (v1_NewHeader 0x32 v1_MsgTypeUpdatePDPContextResponse teid seq []) ies"

definition v1_UpdatePDPContextResponse_MarshalLen :: "(v1_header, v1_UpdatePDPContextResponse_field) tv_msg \<Rightarrow> nat" where
  "v1_UpdatePDPContextResponse_MarshalLen m = tvm_MarshalLen v1_codec v1_UpdatePDPContextResponse_lens m"

definition v1_UpdatePDPContextResponse_SetLength :: "(v1_header, v1_UpdatePDPContextResponse_field) tv_msg \<Rightarrow> (v1_header, v1_UpdatePDPContextResponse_field) tv_msg" where
  "v1_UpdatePDPContextResponse_SetLength m = tvm_SetLength v1_codec v1_UpdatePDPContextResponse_lens m"

definition v1_UpdatePDPContextResponse_MarshalTo :: "(v1_header, v1_UpdatePDPContextResponse_field) tv_msg \<Rightarrow> bytes \<Rightarrow> (bytes \<times> (v1_header, v1_UpdatePDPContextResponse_field) tv_msg) result" where
  "v1_UpdatePDPContextResponse_MarshalTo m b = tvm_MarshalTo v1_codec True False v1_UpdatePDPContextResponse_order v1_UpdatePDPContextResponse_lens m b"

definition v1_UpdatePDPContextResponse_Marshal :: "(v1_header, v1_UpdatePDPContextResponse_field) tv_msg \<Rightarrow> (bytes \<times> (v1_header, v1_UpdatePDPContextResponse_field) tv_msg) result" where
  "v1_UpdatePDPContextResponse_Marshal m = v1_UpdatePDPContextResponse_MarshalTo m (replicate (v1_UpdatePDPContextResponse_MarshalLen m) 0)"

definition v1_UpdatePDPContextResponse_UnmarshalBinary :: "bytes \<Rightarrow> (v1_header, v1_UpdatePDPContextResponse_field) tv_msg result" where
  "v1_UpdatePDPContextResponse_UnmarshalBinary b = tvm_UnmarshalBinary v1_codec True v1_UpdatePDPContextResponse_switch b"

lemma v1_UpdatePDPContextResponse_all_fields: "s \<in> set v1_UpdatePDPContextResponse_order" "s \<in> set v1_UpdatePDPContextResponse_lens"
  by (cases s; simp add: v1_UpdatePDPContextResponse_order_def v1_UpdatePDPContextResponse_lens_def)+

interpretation v1UpdatePDPContextResponse: tv_layout v1_UpdatePDPContextResponse_switch v1_UpdatePDPContextResponse_order v1_UpdatePDPContextResponse_lens
proof unfold_locales
  show "distinct v1_UpdatePDPContextResponse_order" "distinct v1_UpdatePDPContextResponse_lens" by (simp_all add: v1_UpdatePDPContextResponse_order_def v1_UpdatePDPContextResponse_lens_def)
  show "set v1_UpdatePDPContextResponse_order = set v1_UpdatePDPContextResponse_lens" by (simp add: v1_UpdatePDPContextResponse_all_fields set_eq_iff)
  show "place_ok v1_UpdatePDPContextResponse_order (v1_UpdatePDPContextResponse_switch t)" for t
    unfolding v1_UpdatePDPContextResponse_switch_def
    by (simp add: v1_UpdatePDPContextResponse_all_fields) (simp add: place_ok_def v1_UpdatePDPContextResponse_order_def)
qed

lemma v1_UpdatePDPContextResponse_Marshal_eq: "v1_UpdatePDPContextResponse_Marshal m = tvm_Marshal v1_codec True False v1_UpdatePDPContextResponse_order v1_UpdatePDPContextResponse_lens m"
  by (simp add: v1_UpdatePDPContextResponse_Marshal_def v1_UpdatePDPContextResponse_MarshalTo_def v1_UpdatePDPContextResponse_MarshalLen_def tvm_Marshal_def)

section \<open>DeletePDPContextRequest\<close>

datatype v1_DeletePDPContextRequest_field =
    v1_DeletePDPContextRequest_Cause | v1_DeletePDPContextRequest_TeardownInd
    | v1_DeletePDPContextRequest_NSAPI | v1_DeletePDPContextRequest_PCO
    | v1_DeletePDPContextRequest_ULI | v1_DeletePDPContextRequest_MSTimeZone
    | v1_DeletePDPContextRequest_ExtendedCommonFlags | v1_DeletePDPContextRequest_ULITimestamp
    | v1_DeletePDPContextRequest_PrivateExtension

definition v1_DeletePDPContextRequest_switch :: "v1_DeletePDPContextRequest_field tv_switch" where
  "v1_DeletePDPContextRequest_switch t = (
     if t = v1_IE_Cause then Slot1 v1_DeletePDPContextRequest_Cause
     else if t = v1_IE_TeardownInd then Slot1 v1_DeletePDPContextRequest_TeardownInd
     else if t = v1_IE_NSAPI then Slot1 v1_DeletePDPContextRequest_NSAPI
     else if t = v1_IE_ProtocolConfigurationOptions then Slot1 v1_DeletePDPContextRequest_PCO
     else if t = v1_IE_UserLocationInformation then Slot1 v1_DeletePDPContextRequest_ULI
     else if t = v1_IE_MSTimeZone then Slot1 v1_DeletePDPContextRequest_MSTimeZone
     else if t = v1_IE_ExtendedCommonFlags then Slot1 v1_DeletePDPContextRequest_ExtendedCommonFlags
     else if t = v1_IE_ULITimestamp then Slot1 v1_DeletePDPContextRequest_ULITimestamp
     else if t = v1_IE_PrivateExtension then Slot1 v1_DeletePDPContextRequest_PrivateExtension
     else Rest)"

definition v1_DeletePDPContextRequest_order :: "v1_DeletePDPContextRequest_field list" where
  "v1_DeletePDPContextRequest_order = [
    v1_DeletePDPContextRequest_Cause, v1_DeletePDPContextRequest_TeardownInd,
    v1_DeletePDPContextRequest_NSAPI, v1_DeletePDPContextRequest_PCO,
    v1_DeletePDPContextRequest_ULI, v1_DeletePDPContextRequest_MSTimeZone,
    v1_DeletePDPContextRequest_ExtendedCommonFlags, v1_DeletePDPContextRequest_ULITimestamp,
    v1_DeletePDPContextRequest_PrivateExtension]"

definition v1_DeletePDPContextRequest_lens :: "v1_DeletePDPContextRequest_field list" where
  "v1_DeletePDPContextRequest_lens = [
    v1_DeletePDPContextRequest_Cause, v1_DeletePDPContextRequest_TeardownInd,
    v1_DeletePDPContextRequest_NSAPI, v1_DeletePDPContextRequest_PCO,
    v1_DeletePDPContextRequest_ULI, v1_DeletePDPContextRequest_MSTimeZone,
    v1_DeletePDPContextRequest_ExtendedCommonFlags, v1_DeletePDPContextRequest_ULITimestamp,
    v1_DeletePDPContextRequest_PrivateExtension]"

definition v1_NewDeletePDPContextRequest :: "u32 \<Rightarrow> u16 \<Rightarrow> tv_ie option list \<Rightarrow> (v1_header, v1_DeletePDPContextRequest_field) tv_msg" where
  "v1_NewDeletePDPContextRequest teid seq ies =
     tvm_New v1_codec v1_DeletePDPContextRequest_switch v1_DeletePDPContextRequest_lens (v1_NewHeader 0x32 v1_MsgTypeDeletePDPContextRequest teid seq []) ies"

definition v1_DeletePDPContextRequest_MarshalLen :: "(v1_header, v1_DeletePDPContextRequest_field) tv_msg \<Rightarrow> nat" where
  "v1_DeletePDPContextRequest_MarshalLen m = tvm_MarshalLen v1_codec v1_DeletePDPContextRequest_lens m"

definition v1_DeletePDPContextRequest_SetLength :: "(v1_header, v1_DeletePDPContextRequest_field) tv_msg \<Rightarrow> (v1_header, v1_DeletePDPContextRequest_field) tv_msg" where
  "v1_DeletePDPContextRequest_SetLength m = tvm_SetLength v1_codec v1_DeletePDPContextRequest_lens m"

definition v1_DeletePDPContextRequest_MarshalTo :: "(v1_header, v1_DeletePDPContextRequest_field) tv_msg \<Rightarrow> bytes \<Rightarrow> (bytes \<times> (v1_header, v1_DeletePDPContextRequest_field) tv_msg) result" where
  "v1_DeletePDPContextRequest_MarshalTo m b = tvm_MarshalTo v1_codec True False v1_DeletePDPContextRequest_order v1_DeletePDPContextRequest_lens m b"

definition v1_DeletePDPContextRequest_Marshal :: "(v1_header, v1_DeletePDPContextRequest_field) tv_msg \<Rightarrow> (bytes \<times> (v1_header, v1_DeletePDPContextRequest_field) tv_msg) result" where
  "v1_DeletePDPContextRequest_Marshal m = v1_DeletePDPContextRequest_MarshalTo m (replicate (v1_DeletePDPContextRequest_MarshalLen m) 0)"

definition v1_DeletePDPContextRequest_UnmarshalBinary :: "bytes \<Rightarrow> (v1_header, v1_DeletePDPContextRequest_field) tv_msg result" where
  "v1_DeletePDPContextRequest_UnmarshalBinary b = tvm_UnmarshalBinary v1_codec True v1_DeletePDPContextRequest_switch b"

lemma v1_DeletePDPContextRequest_all_fields: "s \<in> set v1_DeletePDPContextRequest_order" "s \<in> set v1_DeletePDPContextRequest_lens"
  by (cases s; simp add: v1_DeletePDPContextRequest_order_def v1_DeletePDPContextRequest_lens_def)+

interpretation v1DeletePDPContextRequest: tv_layout v1_DeletePDPContextRequest_switch v1_DeletePDPContextRequest_order v1_DeletePDPContextRequest_lens
proof unfold_locales
  show "distinct v1_DeletePDPContextRequest_order" "distinct v1_DeletePDPContextRequest_lens" by (simp_all add: v1_DeletePDPContextRequest_order_def v1_DeletePDPContextRequest_lens_def)
  show "set v1_DeletePDPContextRequest_order = set v1_DeletePDPContextRequest_lens" by (simp add: v1_DeletePDPContextRequest_all_fields set_eq_iff)
  show "place_ok v1_DeletePDPContextRequest_order (v1_DeletePDPContextRequest_switch t)" for t
    unfolding v1_DeletePDPContextRequest_switch_def
    by (simp add: v1_DeletePDPContextRequest_all_fields)
qed

lemma v1_DeletePDPContextRequest_Marshal_eq: "v1_DeletePDPContextRequest_Marshal m = tvm_Marshal v1_codec True False v1_DeletePDPContextRequest_order v1_DeletePDPContextRequest_lens m"
  by (simp add: v1_DeletePDPContextRequest_Marshal_def v1_DeletePDPContextRequest_MarshalTo_def v1_DeletePDPContextRequest_MarshalLen_def tvm_Marshal_def)

section \<open>DeletePDPContextResponse\<close>

datatype v1_DeletePDPContextResponse_field =
    v1_DeletePDPContextResponse_Cause | v1_DeletePDPContextResponse_PCO
    | v1_DeletePDPContextResponse_ULI | v1_DeletePDPContextResponse_MSTimeZone
    | v1_DeletePDPContextResponse_ULITimestamp | v1_DeletePDPContextResponse_PrivateExtension

definition v1_DeletePDPContextResponse_switch :: "v1_DeletePDPContextResponse_field tv_switch" where
  "v1_DeletePDPContextResponse_switch t = (
     if t = v1_IE_Cause then Slot1 v1_DeletePDPContextResponse_Cause
     else if t = v1_IE_ProtocolConfigurationOptions then Slot1 v1_DeletePDPContextResponse_PCO
     else if t = v1_IE_UserLocationInformation then Slot1 v1_DeletePDPContextResponse_ULI
     else if t = v1_IE_MSTimeZone then Slot1 v1_DeletePDPContextResponse_MSTimeZone
     else if t = v1_IE_ULITimestamp then Slot1 v1_DeletePDPContextResponse_ULITimestamp
     else if t = v1_IE_PrivateExtension then Slot1 v1_DeletePDPContextResponse_PrivateExtension
     else Rest)"

definition v1_DeletePDPContextResponse_order :: "v1_DeletePDPContextResponse_field list" where
  "v1_DeletePDPContextResponse_order = [
    v1_DeletePDPContextResponse_Cause, v1_DeletePDPContextResponse_PCO,
    v1_DeletePDPContextResponse_ULI, v1_DeletePDPContextResponse_MSTimeZone,
    v1_DeletePDPContextResponse_ULITimestamp, v1_DeletePDPContextResponse_PrivateExtension]"

definition v1_DeletePDPContextResponse_lens :: "v1_DeletePDPContextResponse_field list" where
  "v1_DeletePDPContextResponse_lens = [
    v1_DeletePDPContextResponse_Cause, v1_DeletePDPContextResponse_PCO,
    v1_DeletePDPContextResponse_ULI, v1_DeletePDPContextResponse_MSTimeZone,
    v1_DeletePDPContextResponse_ULITimestamp, v1_DeletePDPContextResponse_PrivateExtension]"

definition v1_NewDeletePDPContextResponse :: "u32 \<Rightarrow> u16 \<Rightarrow> tv_ie option list \<Rightarrow> (v1_header, v1_DeletePDPContextResponse_field) tv_msg" where
  "v1_NewDeletePDPContextResponse teid seq ies =
     tvm_New v1_codec v1_DeletePDPContextResponse_switch v1_DeletePDPContextResponse_lens (v1_NewHeader 0x32 v1_MsgTypeDeletePDPContextResponse teid seq []) ies"

definition v1_DeletePDPContextResponse_MarshalLen :: "(v1_header, v1_DeletePDPContextResponse_field) tv_msg \<Rightarrow> nat" where
  "v1_DeletePDPContextResponse_MarshalLen m = tvm_MarshalLen v1_codec v1_DeletePDPContextResponse_lens m"

definition v1_DeletePDPContextResponse_SetLength :: "(v1_header, v1_DeletePDPContextResponse_field) tv_msg \<Rightarrow> (v1_header, v1_DeletePDPContextResponse_field) tv_msg" where
  "v1_DeletePDPContextResponse_SetLength m = tvm_SetLength v1_codec v1_DeletePDPContextResponse_lens m"

definition v1_DeletePDPContextResponse_MarshalTo :: "(v1_header, v1_DeletePDPContextResponse_field) tv_msg \<Rightarrow> bytes \<Rightarrow> (bytes \<times> (v1_header, v1_DeletePDPContextResponse_field) tv_msg) result" where
  "v1_DeletePDPContextResponse_MarshalTo m b = tvm_MarshalTo v1_codec True False v1_DeletePDPContextResponse_order v1_DeletePDPContextResponse_lens m b"

definition v1_DeletePDPContextResponse_Marshal :: "(v1_header, v1_DeletePDPContextResponse_field) tv_msg \<Rightarrow> (bytes \<times> (v1_header, v1_DeletePDPContextResponse_field) tv_msg) result" where
  "v1_DeletePDPContextResponse_Marshal m = v1_DeletePDPContextResponse_MarshalTo m (replicate (v1_DeletePDPContextResponse_MarshalLen m) 0)"

definition v1_DeletePDPContextResponse_UnmarshalBinary :: "bytes \<Rightarrow> (v1_header, v1_DeletePDPContextResponse_field) tv_msg result" where
  "v1_DeletePDPContextResponse_UnmarshalBinary b = tvm_UnmarshalBinary v1_codec True v1_DeletePDPContextResponse_switch b"

lemma v1_DeletePDPContextResponse_all_fields: "s \<in> set v1_DeletePDPContextResponse_order" "s \<in> set v1_DeletePDPContextResponse_lens"
  by (cases s; simp add: v1_DeletePDPContextResponse_order_def v1_DeletePDPContextResponse_lens_def)+

interpretation v1DeletePDPContextResponse: tv_layout v1_DeletePDPContextResponse_switch v1_DeletePDPContextResponse_order v1_DeletePDPContextResponse_lens
proof unfold_locales
  show "distinct v1_DeletePDPContextResponse_order" "distinct v1_DeletePDPContextResponse_lens" by (simp_all add: v1_DeletePDPContextResponse_order_def v1_DeletePDPContextResponse_lens_def)
  show "set v1_DeletePDPContextResponse_order = set v1_DeletePDPContextResponse_lens" by (simp add: v1_DeletePDPContextResponse_all_fields set_eq_iff)
  show "place_ok v1_DeletePDPContextResponse_order (v1_DeletePDPContextResponse_switch t)" for t
    unfolding v1_DeletePDPContextResponse_switch_def
    by (simp add: v1_DeletePDPContextResponse_all_fields)
qed

lemma v1_DeletePDPContextResponse_Marshal_eq: "v1_DeletePDPContextResponse_Marshal m = tvm_Marshal v1_codec True False v1_DeletePDPContextResponse_order v1_DeletePDPContextResponse_lens m"
  by (simp add: v1_DeletePDPContextResponse_Marshal_def v1_DeletePDPContextResponse_MarshalTo_def v1_DeletePDPContextResponse_MarshalLen_def tvm_Marshal_def)

section \<open>ErrorIndication\<close>

datatype v1_ErrorIndication_field =
    v1_ErrorIndication_TEIDDataI | v1_ErrorIndication_GTPUPeerAddress
    | v1_ErrorIndication_PrivateExtension

definition v1_ErrorIndication_switch :: "v1_ErrorIndication_field tv_switch" where
  "v1_ErrorIndication_switch t = (
     if t = v1_IE_TEIDDataI then Slot1 v1_ErrorIndication_TEIDDataI
     else if t = v1_IE_GSNAddress then Slot1 v1_ErrorIndication_GTPUPeerAddress
     else if t = v1_IE_PrivateExtension then Slot1 v1_ErrorIndication_PrivateExtension
     else Rest)"

definition v1_ErrorIndication_order :: "v1_ErrorIndication_field list" where
  "v1_ErrorIndication_order = [
    v1_ErrorIndication_TEIDDataI, v1_ErrorIndication_GTPUPeerAddress,
    v1_ErrorIndication_PrivateExtension]"

definition v1_ErrorIndication_lens :: "v1_ErrorIndication_field list" where
  "v1_ErrorIndication_lens = [
    v1_ErrorIndication_TEIDDataI, v1_ErrorIndication_GTPUPeerAddress,
    v1_ErrorIndication_PrivateExtension]"

definition v1_NewErrorIndication :: "u32 \<Rightarrow> u16 \<Rightarrow> tv_ie option list \<Rightarrow> (v1_header, v1_ErrorIndication_field) tv_msg" where
  "v1_NewErrorIndication teid seq ies =
     tvm_New v1_codec v1_ErrorIndication_switch v1_ErrorIndication_lens (v1_NewHeader 0x32 v1_MsgTypeErrorIndication teid seq []) ies"

definition v1_ErrorIndication_MarshalLen :: "(v1_header, v1_ErrorIndication_field) tv_msg \<Rightarrow> nat" where
  "v1_ErrorIndication_MarshalLen m = tvm_MarshalLen v1_codec v1_ErrorIndication_lens m"

definition v1_ErrorIndication_SetLength :: "(v1_header, v1_ErrorIndication_field) tv_msg \<Rightarrow> (v1_header, v1_ErrorIndication_field) tv_msg" where
  "v1_ErrorIndication_SetLength m = tvm_SetLength v1_codec v1_ErrorIndication_lens m"

definition v1_ErrorIndication_MarshalTo :: "(v1_header, v1_ErrorIndication_field) tv_msg \<Rightarrow> bytes \<Rightarrow> (bytes \<times> (v1_header, v1_ErrorIndication_field) tv_msg) result" where
  "v1_ErrorIndication_MarshalTo m b = tvm_MarshalTo v1_codec True False v1_ErrorIndication_order v1_ErrorIndication_lens m b"

definition v1_ErrorIndication_Marshal :: "(v1_header, v1_ErrorIndication_field) tv_msg \<Rightarrow> (bytes \<times> (v1_header, v1_ErrorIndication_field) tv_msg) result" where
  "v1_ErrorIndication_Marshal m = v1_ErrorIndication_MarshalTo m (replicate (v1_ErrorIndication_MarshalLen m) 0)"

definition v1_ErrorIndication_UnmarshalBinary :: "bytes \<Rightarrow> (v1_header, v1_ErrorIndication_field) tv_msg result" where
  "v1_ErrorIndication_UnmarshalBinary b = tvm_UnmarshalBinary v1_codec True v1_ErrorIndication_switch b"

lemma v1_ErrorIndication_all_fields: "s \<in> set v1_ErrorIndication_order" "s \<in> set v1_ErrorIndication_lens"
  by (cases s; simp add: v1_ErrorIndication_order_def v1_ErrorIndication_lens_def)+

interpretation v1ErrorIndication: tv_layout v1_ErrorIndication_switch v1_ErrorIndication_order v1_ErrorIndication_lens
proof unfold_locales
  show "distinct v1_ErrorIndication_order" "distinct v1_ErrorIndication_lens" by (simp_all add: v1_ErrorIndication_order_def v1_ErrorIndication_lens_def)
  show "set v1_ErrorIndication_order = set v1_ErrorIndication_lens" by (simp add: v1_ErrorIndication_all_fields set_eq_iff)
  show "place_ok v1_ErrorIndication_order (v1_ErrorIndication_switch t)" for t
    unfolding v1_ErrorIndication_switch_def
    by (simp add: v1_ErrorIndication_all_fields)
qed

lemma v1_ErrorIndication_Marshal_eq: "v1_ErrorIndication_Marshal m = tvm_Marshal v1_codec True False v1_ErrorIndication_order v1_ErrorIndication_lens m"
  by (simp add: v1_ErrorIndication_Marshal_def v1_ErrorIndication_MarshalTo_def v1_ErrorIndication_MarshalLen_def tvm_Marshal_def)

section \<open>VersionNotSupported\<close>

definition v1_VersionNotSupported_switch :: "unit tv_switch" where
  "v1_VersionNotSupported_switch t = Rest"

definition v1_VersionNotSupported_order :: "unit list" where
  "v1_VersionNotSupported_order = []"

definition v1_VersionNotSupported_lens :: "unit list" where
  "v1_VersionNotSupported_lens = []"

definition v1_NewVersionNotSupported :: "u32 \<Rightarrow> u16 \<Rightarrow> tv_ie option list \<Rightarrow> (v1_header, unit) tv_msg" where
  "v1_NewVersionNotSupported teid seq ies =
     tvm_New v1_codec v1_VersionNotSupported_switch v1_VersionNotSupported_lens (v1_NewHeader 0x32 v1_MsgTypeVersionNotSupported teid seq []) ies"

definition v1_VersionNotSupported_MarshalLen :: "(v1_header, unit) tv_msg \<Rightarrow> nat" where
  "v1_VersionNotSupported_MarshalLen m = tvm_MarshalLen v1_codec v1_VersionNotSupported_lens m"

definition v1_VersionNotSupported_SetLength :: "(v1_header, unit) tv_msg \<Rightarrow> (v1_header, unit) tv_msg" where
  "v1_VersionNotSupported_SetLength m = tvm_SetLength v1_codec v1_VersionNotSupported_lens m"

definition v1_VersionNotSupported_MarshalTo :: "(v1_header, unit) tv_msg \<Rightarrow> bytes \<Rightarrow> (bytes \<times> (v1_header, unit) tv_msg) result" where
  "v1_VersionNotSupported_MarshalTo m b = tvm_MarshalTo v1_codec True False v1_VersionNotSupported_order v1_VersionNotSupported_lens m b"

definition v1_VersionNotSupported_Marshal :: "(v1_header, unit) tv_msg \<Rightarrow> (bytes \<times> (v1_header, unit) tv_msg) result" where
  "v1_VersionNotSupported_Marshal m = v1_VersionNotSupported_MarshalTo m (replicate (v1_VersionNotSupported_MarshalLen m) 0)"

definition v1_VersionNotSupported_UnmarshalBinary :: "bytes \<Rightarrow> (v1_header, unit) tv_msg result" where
  "v1_VersionNotSupported_UnmarshalBinary b = tvm_UnmarshalBinary v1_codec True v1_VersionNotSupported_switch b"

interpretation v1VersionNotSupported: tv_layout v1_VersionNotSupported_switch v1_VersionNotSupported_order v1_VersionNotSupported_lens
  by unfold_locales (simp_all add: v1_VersionNotSupported_switch_def v1_VersionNotSupported_order_def v1_VersionNotSupported_lens_def)

lemma v1_VersionNotSupported_Marshal_eq: "v1_VersionNotSupported_Marshal m = tvm_Marshal v1_codec True False v1_VersionNotSupported_order v1_VersionNotSupported_lens m"
  by (simp add: v1_VersionNotSupported_Marshal_def v1_VersionNotSupported_MarshalTo_def v1_VersionNotSupported_MarshalLen_def tvm_Marshal_def)

end
