(* ===== verification/V1Parse.thy ===== *)
theory V1Parse
  imports V1Messages
begin

text \<open>
  T-PDUs and generic messages of GTPv1 (\<open>t-pdu.go\<close>, \<open>generic.go\<close>), and \<open>Marshal\<close> and \<open>Parse\<close> of
  \<open>message.go\<close> over all message types.
\<close>

section \<open>T-PDU\<close>

text \<open>A T-PDU is its header; the payload is the user's packet.\<close>

definition v1_NewTPDU :: "u32 \<Rightarrow> bytes \<Rightarrow> v1_header" where
  "v1_NewTPDU teid payload = h1_SetLength (v1_NewHeader 0x30 v1_MsgTypeTPDU teid 0 payload)"

definition v1_NewTPDUWithSequence :: "u32 \<Rightarrow> u16 \<Rightarrow> bytes \<Rightarrow> v1_header" where
  "v1_NewTPDUWithSequence teid seq payload =
     h1_SetLength (v1_NewHeader 0x32 v1_MsgTypeTPDU teid seq payload)"

definition v1_TPDU_MarshalLen :: "v1_header \<Rightarrow> nat" where
  "v1_TPDU_MarshalLen t = h1_MarshalLen t"

definition v1_TPDU_MarshalTo :: "v1_header \<Rightarrow> bytes \<Rightarrow> (bytes \<times> v1_header) result" where
  "v1_TPDU_MarshalTo t b =
     (if length b < v1_TPDU_MarshalLen t then Inl (Error MsgErrTooShortToMarshal)
      else let t = h1_SetLength t in andThen (h1_MarshalTo t b) (\<lambda>b. Inr (b, t)))"

definition v1_TPDU_UnmarshalBinary :: "bytes \<Rightarrow> v1_header result" where
  "v1_TPDU_UnmarshalBinary b = v1_ParseHeader b"

definition v1_Decapsulate :: "v1_header \<Rightarrow> bytes" where
  "v1_Decapsulate t = h1_Payload t"

section \<open>Generic messages\<close>

definition v1_NewGeneric :: "byte \<Rightarrow> u32 \<Rightarrow> u16 \<Rightarrow> tv_ie option list \<Rightarrow> v1_header tv_generic" where
  "v1_NewGeneric msgType teid seq ies =
     tvg_SetLength v1_codec \<lparr>tg_Header = v1_NewHeader 0x32 msgType teid seq [], tg_IEs = ies\<rparr>"

definition v1_Generic_MarshalLen :: "v1_header tv_generic \<Rightarrow> nat" where
  "v1_Generic_MarshalLen = tvg_MarshalLen v1_codec"

definition v1_Generic_SetLength :: "v1_header tv_generic \<Rightarrow> v1_header tv_generic" where
  "v1_Generic_SetLength = tvg_SetLength v1_codec"

definition v1_Generic_AddIE :: "tv_ie option list \<Rightarrow> v1_header tv_generic \<Rightarrow> v1_header tv_generic" where
  "v1_Generic_AddIE = tvg_AddIE v1_codec"

definition v1_Generic_MarshalTo :: "v1_header tv_generic \<Rightarrow> bytes \<Rightarrow> (bytes \<times> v1_header tv_generic) result" where
  "v1_Generic_MarshalTo = tvg_MarshalTo v1_codec"

definition v1_Generic_UnmarshalBinary :: "bytes \<Rightarrow> v1_header tv_generic result" where
  "v1_Generic_UnmarshalBinary = tvg_UnmarshalBinary v1_codec"

section \<open>All messages\<close>

datatype v1_message =
    Msg1_EchoRequest "(v1_header, v1_EchoRequest_field) tv_msg"
  | Msg1_EchoResponse "(v1_header, v1_EchoResponse_field) tv_msg"
  | Msg1_CreatePDPContextRequest "(v1_header, v1_CreatePDPContextRequest_field) tv_msg"
  | Msg1_CreatePDPContextResponse "(v1_header, v1_CreatePDPContextResponse_field) tv_msg"
  | Msg1_UpdatePDPContextRequest "(v1_header, v1_UpdatePDPContextRequest_field) tv_msg"
  | Msg1_UpdatePDPContextResponse "(v1_header, v1_UpdatePDPContextResponse_field) tv_msg"
  | Msg1_DeletePDPContextRequest "(v1_header, v1_DeletePDPContextRequest_field) tv_msg"
  | Msg1_DeletePDPContextResponse "(v1_header, v1_DeletePDPContextResponse_field) tv_msg"
  | Msg1_ErrorIndication "(v1_header, v1_ErrorIndication_field) tv_msg"
  | Msg1_VersionNotSupported "(v1_header, unit) tv_msg"
  | Msg1_TPDU v1_header
  | Msg1_Generic "v1_header tv_generic"

primrec v1_MarshalLen :: "v1_message \<Rightarrow> nat" where
  "v1_MarshalLen (Msg1_EchoRequest m) = v1_EchoRequest_MarshalLen m"
| "v1_MarshalLen (Msg1_EchoResponse m) = v1_EchoResponse_MarshalLen m"
| "v1_MarshalLen (Msg1_CreatePDPContextRequest m) = v1_CreatePDPContextRequest_MarshalLen m"
| "v1_MarshalLen (Msg1_CreatePDPContextResponse m) = v1_CreatePDPContextResponse_MarshalLen m"
| "v1_MarshalLen (Msg1_UpdatePDPContextRequest m) = v1_UpdatePDPContextRequest_MarshalLen m"
| "v1_MarshalLen (Msg1_UpdatePDPContextResponse m) = v1_UpdatePDPContextResponse_MarshalLen m"
| "v1_MarshalLen (Msg1_DeletePDPContextRequest m) = v1_DeletePDPContextRequest_MarshalLen m"
| "v1_MarshalLen (Msg1_DeletePDPContextResponse m) = v1_DeletePDPContextResponse_MarshalLen m"
| "v1_MarshalLen (Msg1_ErrorIndication m) = v1_ErrorIndication_MarshalLen m"
| "v1_MarshalLen (Msg1_VersionNotSupported m) = v1_VersionNotSupported_MarshalLen m"
| "v1_MarshalLen (Msg1_TPDU t) = v1_TPDU_MarshalLen t"
| "v1_MarshalLen (Msg1_Generic g) = v1_Generic_MarshalLen g"

primrec v1_MarshalTo :: "v1_message \<Rightarrow> bytes \<Rightarrow> (bytes \<times> v1_message) result" where
  "v1_MarshalTo (Msg1_EchoRequest m) = (\<lambda>b. written_as Msg1_EchoRequest (v1_EchoRequest_MarshalTo m b))"
| "v1_MarshalTo (Msg1_EchoResponse m) = (\<lambda>b. written_as Msg1_EchoResponse (v1_EchoResponse_MarshalTo m b))"
| "v1_MarshalTo (Msg1_CreatePDPContextRequest m) = (\<lambda>b. written_as Msg1_CreatePDPContextRequest (v1_CreatePDPContextRequest_MarshalTo m b))"
| "v1_MarshalTo (Msg1_CreatePDPContextResponse m) = (\<lambda>b. written_as Msg1_CreatePDPContextResponse (v1_CreatePDPContextResponse_MarshalTo m b))"
| "v1_MarshalTo (Msg1_UpdatePDPContextRequest m) = (\<lambda>b. written_as Msg1_UpdatePDPContextRequest (v1_UpdatePDPContextRequest_MarshalTo m b))"
| "v1_MarshalTo (Msg1_UpdatePDPContextResponse m) = (\<lambda>b. written_as Msg1_UpdatePDPContextResponse (v1_UpdatePDPContextResponse_MarshalTo m b))"
| "v1_MarshalTo (Msg1_DeletePDPContextRequest m) = (\<lambda>b. written_as Msg1_DeletePDPContextRequest (v1_DeletePDPContextRequest_MarshalTo m b))"
| "v1_MarshalTo (Msg1_DeletePDPContextResponse m) = (\<lambda>b. written_as Msg1_DeletePDPContextResponse (v1_DeletePDPContextResponse_MarshalTo m b))"
| "v1_MarshalTo (Msg1_ErrorIndication m) = (\<lambda>b. written_as Msg1_ErrorIndication (v1_ErrorIndication_MarshalTo m b))"
| "v1_MarshalTo (Msg1_VersionNotSupported m) = (\<lambda>b. written_as Msg1_VersionNotSupported (v1_VersionNotSupported_MarshalTo m b))"
| "v1_MarshalTo (Msg1_TPDU t) = (\<lambda>b. written_as Msg1_TPDU (v1_TPDU_MarshalTo t b))"
| "v1_MarshalTo (Msg1_Generic g) = (\<lambda>b. written_as Msg1_Generic (v1_Generic_MarshalTo g b))"

text \<open>The header a message embeds, and the methods it has from it.\<close>

primrec v1_msg_header :: "v1_message \<Rightarrow> v1_header" where
  "v1_msg_header (Msg1_EchoRequest m) = t_Header m"
| "v1_msg_header (Msg1_EchoResponse m) = t_Header m"
| "v1_msg_header (Msg1_CreatePDPContextRequest m) = t_Header m"
| "v1_msg_header (Msg1_CreatePDPContextResponse m) = t_Header m"
| "v1_msg_header (Msg1_UpdatePDPContextRequest m) = t_Header m"
| "v1_msg_header (Msg1_UpdatePDPContextResponse m) = t_Header m"
| "v1_msg_header (Msg1_DeletePDPContextRequest m) = t_Header m"
| "v1_msg_header (Msg1_DeletePDPContextResponse m) = t_Header m"
| "v1_msg_header (Msg1_ErrorIndication m) = t_Header m"
| "v1_msg_header (Msg1_VersionNotSupported m) = t_Header m"
| "v1_msg_header (Msg1_TPDU t) = t"
| "v1_msg_header (Msg1_Generic g) = tg_Header g"

primrec v1_map_header :: "v1_message \<Rightarrow> (v1_header \<Rightarrow> v1_header) \<Rightarrow> v1_message" where
  "v1_map_header (Msg1_EchoRequest m) = (\<lambda>f. Msg1_EchoRequest (m\<lparr>t_Header := f (t_Header m)\<rparr>))"
| "v1_map_header (Msg1_EchoResponse m) = (\<lambda>f. Msg1_EchoResponse (m\<lparr>t_Header := f (t_Header m)\<rparr>))"
| "v1_map_header (Msg1_CreatePDPContextRequest m) = (\<lambda>f. Msg1_CreatePDPContextRequest (m\<lparr>t_Header := f (t_Header m)\<rparr>))"
| "v1_map_header (Msg1_CreatePDPContextResponse m) = (\<lambda>f. Msg1_CreatePDPContextResponse (m\<lparr>t_Header := f (t_Header m)\<rparr>))"
| "v1_map_header (Msg1_UpdatePDPContextRequest m) = (\<lambda>f. Msg1_UpdatePDPContextRequest (m\<lparr>t_Header := f (t_Header m)\<rparr>))"
| "v1_map_header (Msg1_UpdatePDPContextResponse m) = (\<lambda>f. Msg1_UpdatePDPContextResponse (m\<lparr>t_Header := f (t_Header m)\<rparr>))"
| "v1_map_header (Msg1_DeletePDPContextRequest m) = (\<lambda>f. Msg1_DeletePDPContextRequest (m\<lparr>t_Header := f (t_Header m)\<rparr>))"
| "v1_map_header (Msg1_DeletePDPContextResponse m) = (\<lambda>f. Msg1_DeletePDPContextResponse (m\<lparr>t_Header := f (t_Header m)\<rparr>))"
| "v1_map_header (Msg1_ErrorIndication m) = (\<lambda>f. Msg1_ErrorIndication (m\<lparr>t_Header := f (t_Header m)\<rparr>))"
| "v1_map_header (Msg1_VersionNotSupported m) = (\<lambda>f. Msg1_VersionNotSupported (m\<lparr>t_Header := f (t_Header m)\<rparr>))"
| "v1_map_header (Msg1_TPDU t) = (\<lambda>f. Msg1_TPDU (f t))"
| "v1_map_header (Msg1_Generic g) = (\<lambda>f. Msg1_Generic (g\<lparr>tg_Header := f (tg_Header g)\<rparr>))"

definition v1_MessageType :: "v1_message \<Rightarrow> byte" where
  "v1_MessageType M = h1_MessageType (v1_msg_header M)"

definition v1_TEID :: "v1_message \<Rightarrow> u32" where
  "v1_TEID M = h1_TEID (v1_msg_header M)"

definition v1_SetTEID :: "u32 \<Rightarrow> v1_message \<Rightarrow> v1_message" where
  "v1_SetTEID teid M = v1_map_header M (h1_SetTEID teid)"

definition v1_Sequence :: "v1_message \<Rightarrow> u16" where
  "v1_Sequence M = h1_Sequence (v1_msg_header M)"

definition v1_SetSequenceNumber :: "u16 \<Rightarrow> v1_message \<Rightarrow> v1_message" where
  "v1_SetSequenceNumber seq M = v1_map_header M (h1_SetSequenceNumber seq)"

definition v1_Marshal :: "v1_message \<Rightarrow> (bytes \<times> v1_message) result" where
  "v1_Marshal M = v1_MarshalTo M (replicate (v1_MarshalLen M) 0)"

definition v1_Parse :: "bytes \<Rightarrow> v1_message result" where
  "v1_Parse b =
     andThen (byte_at b 1) (\<lambda>t.
     if t = v1_MsgTypeEchoRequest then parsed_as Msg1_EchoRequest (v1_EchoRequest_UnmarshalBinary b)
     else if t = v1_MsgTypeEchoResponse then parsed_as Msg1_EchoResponse (v1_EchoResponse_UnmarshalBinary b)
     else if t = v1_MsgTypeCreatePDPContextRequest then parsed_as Msg1_CreatePDPContextRequest (v1_CreatePDPContextRequest_UnmarshalBinary b)
     else if t = v1_MsgTypeCreatePDPContextResponse then parsed_as Msg1_CreatePDPContextResponse (v1_CreatePDPContextResponse_UnmarshalBinary b)
     else if t = v1_MsgTypeUpdatePDPContextRequest then parsed_as Msg1_UpdatePDPContextRequest (v1_UpdatePDPContextRequest_UnmarshalBinary b)
     else if t = v1_MsgTypeUpdatePDPContextResponse then parsed_as Msg1_UpdatePDPContextResponse (v1_UpdatePDPContextResponse_UnmarshalBinary b)
     else if t = v1_MsgTypeDeletePDPContextRequest then parsed_as Msg1_DeletePDPContextRequest (v1_DeletePDPContextRequest_UnmarshalBinary b)
     else if t = v1_MsgTypeDeletePDPContextResponse then parsed_as Msg1_DeletePDPContextResponse (v1_DeletePDPContextResponse_UnmarshalBinary b)
     else if t = v1_MsgTypeErrorIndication then parsed_as Msg1_ErrorIndication (v1_ErrorIndication_UnmarshalBinary b)
     else if t = v1_MsgTypeVersionNotSupported then parsed_as Msg1_VersionNotSupported (v1_VersionNotSupported_UnmarshalBinary b)
     else if t = v1_MsgTypeTPDU then parsed_as Msg1_TPDU (v1_TPDU_UnmarshalBinary b)
     else parsed_as Msg1_Generic (v1_Generic_UnmarshalBinary b))"

section \<open>Well-formed messages\<close>

definition v1_typed_ok :: "'s tv_switch \<Rightarrow> 's list \<Rightarrow> byte \<Rightarrow> (v1_header, 's) tv_msg \<Rightarrow> bool" where
  "v1_typed_ok D order t m \<longleftrightarrow>
     tvm_ok v1_tv D m \<and> h1_Type (t_Header m) = t \<and> tvm_MarshalLen v1_codec order m < 65536"

definition v1_specific_types :: "byte list" where
  "v1_specific_types = [v1_MsgTypeEchoRequest, v1_MsgTypeEchoResponse, v1_MsgTypeCreatePDPContextRequest, v1_MsgTypeCreatePDPContextResponse, v1_MsgTypeUpdatePDPContextRequest, v1_MsgTypeUpdatePDPContextResponse, v1_MsgTypeDeletePDPContextRequest, v1_MsgTypeDeletePDPContextResponse, v1_MsgTypeErrorIndication, v1_MsgTypeVersionNotSupported, v1_MsgTypeTPDU]"

primrec v1_message_ok :: "v1_message \<Rightarrow> bool" where
  "v1_message_ok (Msg1_EchoRequest m) = v1_typed_ok v1_EchoRequest_switch v1_EchoRequest_order v1_MsgTypeEchoRequest m"
| "v1_message_ok (Msg1_EchoResponse m) = v1_typed_ok v1_EchoResponse_switch v1_EchoResponse_order v1_MsgTypeEchoResponse m"
| "v1_message_ok (Msg1_CreatePDPContextRequest m) = v1_typed_ok v1_CreatePDPContextRequest_switch v1_CreatePDPContextRequest_order v1_MsgTypeCreatePDPContextRequest m"
| "v1_message_ok (Msg1_CreatePDPContextResponse m) = v1_typed_ok v1_CreatePDPContextResponse_switch v1_CreatePDPContextResponse_order v1_MsgTypeCreatePDPContextResponse m"
| "v1_message_ok (Msg1_UpdatePDPContextRequest m) = v1_typed_ok v1_UpdatePDPContextRequest_switch v1_UpdatePDPContextRequest_order v1_MsgTypeUpdatePDPContextRequest m"
| "v1_message_ok (Msg1_UpdatePDPContextResponse m) = v1_typed_ok v1_UpdatePDPContextResponse_switch v1_UpdatePDPContextResponse_order v1_MsgTypeUpdatePDPContextResponse m"
| "v1_message_ok (Msg1_DeletePDPContextRequest m) = v1_typed_ok v1_DeletePDPContextRequest_switch v1_DeletePDPContextRequest_order v1_MsgTypeDeletePDPContextRequest m"
| "v1_message_ok (Msg1_DeletePDPContextResponse m) = v1_typed_ok v1_DeletePDPContextResponse_switch v1_DeletePDPContextResponse_order v1_MsgTypeDeletePDPContextResponse m"
| "v1_message_ok (Msg1_ErrorIndication m) = v1_typed_ok v1_ErrorIndication_switch v1_ErrorIndication_order v1_MsgTypeErrorIndication m"
| "v1_message_ok (Msg1_VersionNotSupported m) = v1_typed_ok v1_VersionNotSupported_switch v1_VersionNotSupported_order v1_MsgTypeVersionNotSupported m"
| "v1_message_ok (Msg1_TPDU t) = (h1_Type t = v1_MsgTypeTPDU \<and> h1_MarshalLen t < 65536)"
| "v1_message_ok (Msg1_Generic g) =
     ((\<forall>i. Some i \<in> set (tg_IEs g) \<longrightarrow> tv_wf v1_tv i) \<and> h1_Type (tg_Header g) \<notin> set v1_specific_types \<and>
      tvg_MarshalLen v1_codec g < 65536)"

text \<open>
  The messages that cannot be marshalled: \<open>MarshalTo\<close> of most of the types does not clear
  the payload of the header before it computes the length of the new one.
\<close>

primrec v1_stale :: "v1_message \<Rightarrow> bool" where
  "v1_stale (Msg1_EchoRequest m) = False"
| "v1_stale (Msg1_EchoResponse m) = False"
| "v1_stale (Msg1_CreatePDPContextRequest m) = (h1_Payload (t_Header m) \<noteq> [])"
| "v1_stale (Msg1_CreatePDPContextResponse m) = (h1_Payload (t_Header m) \<noteq> [])"
| "v1_stale (Msg1_UpdatePDPContextRequest m) = (h1_Payload (t_Header m) \<noteq> [])"
| "v1_stale (Msg1_UpdatePDPContextResponse m) = (h1_Payload (t_Header m) \<noteq> [])"
| "v1_stale (Msg1_DeletePDPContextRequest m) = (h1_Payload (t_Header m) \<noteq> [])"
| "v1_stale (Msg1_DeletePDPContextResponse m) = (h1_Payload (t_Header m) \<noteq> [])"
| "v1_stale (Msg1_ErrorIndication m) = (h1_Payload (t_Header m) \<noteq> [])"
| "v1_stale (Msg1_VersionNotSupported m) = (h1_Payload (t_Header m) \<noteq> [])"
| "v1_stale (Msg1_TPDU t) = False"
| "v1_stale (Msg1_Generic g) = False"

text \<open>What the decoder makes of a message that has been marshalled.\<close>

primrec v1_parsed :: "v1_message \<Rightarrow> v1_message" where
  "v1_parsed (Msg1_EchoRequest m) = Msg1_EchoRequest (m\<lparr>t_Header := v1_seen (t_Header m)\<rparr>)"
| "v1_parsed (Msg1_EchoResponse m) = Msg1_EchoResponse (m\<lparr>t_Header := v1_seen (t_Header m)\<rparr>)"
| "v1_parsed (Msg1_CreatePDPContextRequest m) = Msg1_CreatePDPContextRequest (m\<lparr>t_Header := v1_seen (t_Header m)\<rparr>)"
| "v1_parsed (Msg1_CreatePDPContextResponse m) = Msg1_CreatePDPContextResponse (m\<lparr>t_Header := v1_seen (t_Header m)\<rparr>)"
| "v1_parsed (Msg1_UpdatePDPContextRequest m) = Msg1_UpdatePDPContextRequest (m\<lparr>t_Header := v1_seen (t_Header m)\<rparr>)"
| "v1_parsed (Msg1_UpdatePDPContextResponse m) = Msg1_UpdatePDPContextResponse (m\<lparr>t_Header := v1_seen (t_Header m)\<rparr>)"
| "v1_parsed (Msg1_DeletePDPContextRequest m) = Msg1_DeletePDPContextRequest (m\<lparr>t_Header := v1_seen (t_Header m)\<rparr>)"
| "v1_parsed (Msg1_DeletePDPContextResponse m) = Msg1_DeletePDPContextResponse (m\<lparr>t_Header := v1_seen (t_Header m)\<rparr>)"
| "v1_parsed (Msg1_ErrorIndication m) = Msg1_ErrorIndication (m\<lparr>t_Header := v1_seen (t_Header m)\<rparr>)"
| "v1_parsed (Msg1_VersionNotSupported m) = Msg1_VersionNotSupported (m\<lparr>t_Header := v1_seen (t_Header m)\<rparr>)"
| "v1_parsed (Msg1_TPDU t) = Msg1_TPDU (v1_seen t)"
| "v1_parsed (Msg1_Generic g) =
     Msg1_Generic \<lparr>tg_Header = v1_seen (tg_Header g), tg_IEs = filter (\<lambda>i. i \<noteq> None) (tg_IEs g)\<rparr>"

lemma v1_sound_SetLength: "v1_header_ok (h1_SetLength h) \<longleftrightarrow> h1_MarshalLen h < 65536"
  by (simp add: v1_header_ok_def h1_SetLength_def h1_MarshalLen_def HasSequence_def Let_def)

lemma v1_len_SetLength: "h1_MarshalLen (h1_SetLength h) = h1_MarshalLen h"
  by (simp add: h1_SetLength_def h1_MarshalLen_def HasSequence_def Let_def)

lemma v1_step:
  assumes layout: "tv_layout D order lens" and ok: "v1_typed_ok D order t m" and len: "11 \<le> tvm_MarshalLen v1_codec order m + length rest"
    and fresh: "clears \<or> h1_Payload (t_Header m) = []"
  shows "\<exists>w m'. tvm_Marshal v1_codec checked clears order lens m = Inr (w, m') \<and>
     length w = tvm_MarshalLen v1_codec lens m \<and>
     tvm_UnmarshalBinary v1_codec lenient D (w @ rest) = Inr (m'\<lparr>t_Header := v1_seen (t_Header m')\<rparr>) \<and>
     byte_at (w @ rest) 1 = Inr t \<and> byte_at (w @ rest) 0 = Inr (h1_Flags (t_Header m))"
proof -
  let ?m = "v1cd.marshalled order m"
  let ?w = "v1_header_wire (t_Header ?m)"
  have n: "h1_MarshalLen (t_Header ?m) = tvm_MarshalLen v1_codec order m"
    using v1cd.marshalled_length [of order m] by (simp add: v1_codec_def)
  have tab: "cd_table v1_codec = v1_tv" "cd_SetLength v1_codec = h1_SetLength" by (simp_all add: v1_codec_def)
  have "tvm_Marshal v1_codec checked clears order lens m = Inr (?w, ?m)"
    using fresh by (intro v1cd.Marshal_wire [OF layout]) (simp add: v1_codec_def)
  moreover have "length ?w = tvm_MarshalLen v1_codec lens m"
    by (simp add: n tv_layout.MarshalLen_lens [OF layout])
  moreover have "v1_header_ok (t_Header ?m)"
  proof -
    have eq: "t_Header ?m = h1_SetLength (cd_SetPayload v1_codec
        (concat (map (tv_wire v1_tv) (tvm_present order m))) (t_Header m))"
      by (simp add: v1cd.marshalled_def tab)
    show ?thesis
      using ok n unfolding eq by (simp add: v1_sound_SetLength v1_len_SetLength v1_typed_ok_def)
  qed
  then have "tvm_UnmarshalBinary v1_codec lenient D (?w @ rest) = Inr (v1cd.parsed ?m)"
    using v1cd.Unmarshal_wire [OF layout, of m rest lenient] ok len n
    by (simp add: v1_typed_ok_def tab v1_accepts_def)
  moreover have "byte_at (?w @ rest) 1 = Inr t \<and> byte_at (?w @ rest) 0 = Inr (h1_Flags (t_Header m))"
    using ok by (simp add: v1_header_wire_def byte_at_def v1cd.marshalled_def v1_typed_ok_def tab(2) h1_SetLength_def)
      (simp add: v1_codec_def)
  ultimately show ?thesis by (auto simp: v1cd.parsed_def)
qed

lemma v1_EchoRequest_step:
  assumes "v1_typed_ok v1_EchoRequest_switch v1_EchoRequest_order t m" "11 \<le> v1_EchoRequest_MarshalLen m + length rest"
  shows "\<exists>w m'. v1_EchoRequest_MarshalTo m (replicate (v1_EchoRequest_MarshalLen m) 0) = Inr (w, m') \<and>
     length w = v1_EchoRequest_MarshalLen m \<and>
     v1_EchoRequest_UnmarshalBinary (w @ rest) = Inr (m'\<lparr>t_Header := v1_seen (t_Header m')\<rparr>) \<and>
     byte_at (w @ rest) 1 = Inr t \<and> byte_at (w @ rest) 0 = Inr (h1_Flags (t_Header m))"
  using v1_step [OF v1EchoRequest.tv_layout_axioms assms(1), where checked = False and clears = True and lenient = False and rest = rest] assms
  by (simp add: v1_EchoRequest_MarshalTo_def v1_EchoRequest_MarshalLen_def v1_EchoRequest_UnmarshalBinary_def tvm_Marshal_def v1EchoRequest.MarshalLen_lens)

lemma v1_EchoResponse_step:
  assumes "v1_typed_ok v1_EchoResponse_switch v1_EchoResponse_order t m" "11 \<le> v1_EchoResponse_MarshalLen m + length rest"
  shows "\<exists>w m'. v1_EchoResponse_MarshalTo m (replicate (v1_EchoResponse_MarshalLen m) 0) = Inr (w, m') \<and>
     length w = v1_EchoResponse_MarshalLen m \<and>
     v1_EchoResponse_UnmarshalBinary (w @ rest) = Inr (m'\<lparr>t_Header := v1_seen (t_Header m')\<rparr>) \<and>
     byte_at (w @ rest) 1 = Inr t \<and> byte_at (w @ rest) 0 = Inr (h1_Flags (t_Header m))"
  using v1_step [OF v1EchoResponse.tv_layout_axioms assms(1), where checked = False and clears = True and lenient = True and rest = rest] assms
  by (simp add: v1_EchoResponse_MarshalTo_def v1_EchoResponse_MarshalLen_def v1_EchoResponse_UnmarshalBinary_def tvm_Marshal_def v1EchoResponse.MarshalLen_lens)

lemma v1_CreatePDPContextRequest_step:
  assumes "v1_typed_ok v1_CreatePDPContextRequest_switch v1_CreatePDPContextRequest_order t m" "11 \<le> v1_CreatePDPContextRequest_MarshalLen m + length rest"
    and "h1_Payload (t_Header m) = []"
  shows "\<exists>w m'. v1_CreatePDPContextRequest_MarshalTo m (replicate (v1_CreatePDPContextRequest_MarshalLen m) 0) = Inr (w, m') \<and>
     length w = v1_CreatePDPContextRequest_MarshalLen m \<and>
     v1_CreatePDPContextRequest_UnmarshalBinary (w @ rest) = Inr (m'\<lparr>t_Header := v1_seen (t_Header m')\<rparr>) \<and>
     byte_at (w @ rest) 1 = Inr t \<and> byte_at (w @ rest) 0 = Inr (h1_Flags (t_Header m))"
  using v1_step [OF v1CreatePDPContextRequest.tv_layout_axioms assms(1), where checked = True and clears = False and lenient = True and rest = rest] assms
  by (simp add: v1_CreatePDPContextRequest_MarshalTo_def v1_CreatePDPContextRequest_MarshalLen_def v1_CreatePDPContextRequest_UnmarshalBinary_def tvm_Marshal_def v1CreatePDPContextRequest.MarshalLen_lens)

lemma v1_CreatePDPContextResponse_step:
  assumes "v1_typed_ok v1_CreatePDPContextResponse_switch v1_CreatePDPContextResponse_order t m" "11 \<le> v1_CreatePDPContextResponse_MarshalLen m + length rest"
    and "h1_Payload (t_Header m) = []"
  shows "\<exists>w m'. v1_CreatePDPContextResponse_MarshalTo m (replicate (v1_CreatePDPContextResponse_MarshalLen m) 0) = Inr (w, m') \<and>
     length w = v1_CreatePDPContextResponse_MarshalLen m \<and>
     v1_CreatePDPContextResponse_UnmarshalBinary (w @ rest) = Inr (m'\<lparr>t_Header := v1_seen (t_Header m')\<rparr>) \<and>
     byte_at (w @ rest) 1 = Inr t \<and> byte_at (w @ rest) 0 = Inr (h1_Flags (t_Header m))"
  using v1_step [OF v1CreatePDPContextResponse.tv_layout_axioms assms(1), where checked = True and clears = False and lenient = True and rest = rest] assms
  by (simp add: v1_CreatePDPContextResponse_MarshalTo_def v1_CreatePDPContextResponse_MarshalLen_def v1_CreatePDPContextResponse_UnmarshalBinary_def tvm_Marshal_def v1CreatePDPContextResponse.MarshalLen_lens)

lemma v1_UpdatePDPContextRequest_step:
  assumes "v1_typed_ok v1_UpdatePDPContextRequest_switch v1_UpdatePDPContextRequest_order t m" "11 \<le> v1_UpdatePDPContextRequest_MarshalLen m + length rest"
    and "h1_Payload (t_Header m) = []"
  shows "\<exists>w m'. v1_UpdatePDPContextRequest_MarshalTo m (replicate (v1_UpdatePDPContextRequest_MarshalLen m) 0) = Inr (w, m') \<and>
     length w = v1_UpdatePDPContextRequest_MarshalLen m \<and>
     v1_UpdatePDPContextRequest_UnmarshalBinary (w @ rest) = Inr (m'\<lparr>t_Header := v1_seen (t_Header m')\<rparr>) \<and>
     byte_at (w @ rest) 1 = Inr t \<and> byte_at (w @ rest) 0 = Inr (h1_Flags (t_Header m))"
  using v1_step [OF v1UpdatePDPContextRequest.tv_layout_axioms assms(1), where checked = True and clears = False and lenient = True and rest = rest] assms
  by (simp add: v1_UpdatePDPContextRequest_MarshalTo_def v1_UpdatePDPContextRequest_MarshalLen_def v1_UpdatePDPContextRequest_UnmarshalBinary_def tvm_Marshal_def v1UpdatePDPContextRequest.MarshalLen_lens)

lemma v1_UpdatePDPContextResponse_step:
  assumes "v1_typed_ok v1_UpdatePDPContextResponse_switch v1_UpdatePDPContextResponse_order t m" "11 \<le> v1_UpdatePDPContextResponse_MarshalLen m + length rest"
    and "h1_Payload (t_Header m) = []"
  shows "\<exists>w m'. v1_UpdatePDPContextResponse_MarshalTo m (replicate (v1_UpdatePDPContextResponse_MarshalLen m) 0) = Inr (w, m') \<and>
     length w = v1_UpdatePDPContextResponse_MarshalLen m \<and>
     v1_UpdatePDPContextResponse_UnmarshalBinary (w @ rest) = Inr (m'\<lparr>t_Header := v1_seen (t_Header m')\<rparr>) \<and>
     byte_at (w @ rest) 1 = Inr t \<and> byte_at (w @ rest) 0 = Inr (h1_Flags (t_Header m))"
  using v1_step [OF v1UpdatePDPContextResponse.tv_layout_axioms assms(1), where checked = True and clears = False and lenient = True and rest = rest] assms
  by (simp add: v1_UpdatePDPContextResponse_MarshalTo_def v1_UpdatePDPContextResponse_MarshalLen_def v1_UpdatePDPContextResponse_UnmarshalBinary_def tvm_Marshal_def v1UpdatePDPContextResponse.MarshalLen_lens)

lemma v1_DeletePDPContextRequest_step:
  assumes "v1_typed_ok v1_DeletePDPContextRequest_switch v1_DeletePDPContextRequest_order t m" "11 \<le> v1_DeletePDPContextRequest_MarshalLen m + length rest"
    and "h1_Payload (t_Header m) = []"
  shows "\<exists>w m'. v1_DeletePDPContextRequest_MarshalTo m (replicate (v1_DeletePDPContextRequest_MarshalLen m) 0) = Inr (w, m') \<and>
     length w = v1_DeletePDPContextRequest_MarshalLen m \<and>
     v1_DeletePDPContextRequest_UnmarshalBinary (w @ rest) = Inr (m'\<lparr>t_Header := v1_seen (t_Header m')\<rparr>) \<and>
     byte_at (w @ rest) 1 = Inr t \<and> byte_at (w @ rest) 0 = Inr (h1_Flags (t_Header m))"
  using v1_step [OF v1DeletePDPContextRequest.tv_layout_axioms assms(1), where checked = True and clears = False and lenient = True and rest = rest] assms
  by (simp add: v1_DeletePDPContextRequest_MarshalTo_def v1_DeletePDPContextRequest_MarshalLen_def v1_DeletePDPContextRequest_UnmarshalBinary_def tvm_Marshal_def v1DeletePDPContextRequest.MarshalLen_lens)

lemma v1_DeletePDPContextResponse_step:
  assumes "v1_typed_ok v1_DeletePDPContextResponse_switch v1_DeletePDPContextResponse_order t m" "11 \<le> v1_DeletePDPContextResponse_MarshalLen m + length rest"
    and "h1_Payload (t_Header m) = []"
  shows "\<exists>w m'. v1_DeletePDPContextResponse_MarshalTo m (replicate (v1_DeletePDPContextResponse_MarshalLen m) 0) = Inr (w, m') \<and>
     length w = v1_DeletePDPContextResponse_MarshalLen m \<and>
     v1_DeletePDPContextResponse_UnmarshalBinary (w @ rest) = Inr (m'\<lparr>t_Header := v1_seen (t_Header m')\<rparr>) \<and>
     byte_at (w @ rest) 1 = Inr t \<and> byte_at (w @ rest) 0 = Inr (h1_Flags (t_Header m))"
  using v1_step [OF v1DeletePDPContextResponse.tv_layout_axioms assms(1), where checked = True and clears = False and lenient = True and rest = rest] assms
  by (simp add: v1_DeletePDPContextResponse_MarshalTo_def v1_DeletePDPContextResponse_MarshalLen_def v1_DeletePDPContextResponse_UnmarshalBinary_def tvm_Marshal_def v1DeletePDPContextResponse.MarshalLen_lens)

lemma v1_ErrorIndication_step:
  assumes "v1_typed_ok v1_ErrorIndication_switch v1_ErrorIndication_order t m" "11 \<le> v1_ErrorIndication_MarshalLen m + length rest"
    and "h1_Payload (t_Header m) = []"
  shows "\<exists>w m'. v1_ErrorIndication_MarshalTo m (replicate (v1_ErrorIndication_MarshalLen m) 0) = Inr (w, m') \<and>
     length w = v1_ErrorIndication_MarshalLen m \<and>
     v1_ErrorIndication_UnmarshalBinary (w @ rest) = Inr (m'\<lparr>t_Header := v1_seen (t_Header m')\<rparr>) \<and>
     byte_at (w @ rest) 1 = Inr t \<and> byte_at (w @ rest) 0 = Inr (h1_Flags (t_Header m))"
  using v1_step [OF v1ErrorIndication.tv_layout_axioms assms(1), where checked = True and clears = False and lenient = True and rest = rest] assms
  by (simp add: v1_ErrorIndication_MarshalTo_def v1_ErrorIndication_MarshalLen_def v1_ErrorIndication_UnmarshalBinary_def tvm_Marshal_def v1ErrorIndication.MarshalLen_lens)

lemma v1_VersionNotSupported_step:
  assumes "v1_typed_ok v1_VersionNotSupported_switch v1_VersionNotSupported_order t m" "11 \<le> v1_VersionNotSupported_MarshalLen m + length rest"
    and "h1_Payload (t_Header m) = []"
  shows "\<exists>w m'. v1_VersionNotSupported_MarshalTo m (replicate (v1_VersionNotSupported_MarshalLen m) 0) = Inr (w, m') \<and>
     length w = v1_VersionNotSupported_MarshalLen m \<and>
     v1_VersionNotSupported_UnmarshalBinary (w @ rest) = Inr (m'\<lparr>t_Header := v1_seen (t_Header m')\<rparr>) \<and>
     byte_at (w @ rest) 1 = Inr t \<and> byte_at (w @ rest) 0 = Inr (h1_Flags (t_Header m))"
  using v1_step [OF v1VersionNotSupported.tv_layout_axioms assms(1), where checked = True and clears = False and lenient = True and rest = rest] assms
  by (simp add: v1_VersionNotSupported_MarshalTo_def v1_VersionNotSupported_MarshalLen_def v1_VersionNotSupported_UnmarshalBinary_def tvm_Marshal_def v1VersionNotSupported.MarshalLen_lens)

lemmas v1_steps =
  v1_EchoRequest_step
  v1_EchoResponse_step
  v1_CreatePDPContextRequest_step
  v1_CreatePDPContextResponse_step
  v1_UpdatePDPContextRequest_step
  v1_UpdatePDPContextResponse_step
  v1_DeletePDPContextRequest_step
  v1_DeletePDPContextResponse_step
  v1_ErrorIndication_step
  v1_VersionNotSupported_step

lemma v1_TPDU_step:
  assumes "h1_Type t = k" "h1_MarshalLen t < 65536" "11 \<le> h1_MarshalLen t + length rest"
  shows "\<exists>w t'. v1_TPDU_MarshalTo t (replicate (v1_TPDU_MarshalLen t) 0) = Inr (w, t') \<and>
     length w = v1_TPDU_MarshalLen t \<and> v1_TPDU_UnmarshalBinary (w @ rest) = Inr (v1_seen t') \<and>
     byte_at (w @ rest) 1 = Inr k \<and> byte_at (w @ rest) 0 = Inr (h1_Flags t)"
proof -
  let ?t = "h1_SetLength t"
  have n: "v1_TPDU_MarshalLen t = h1_MarshalLen ?t" "h1_MarshalLen t = h1_MarshalLen ?t"
    by (simp_all add: v1_TPDU_MarshalLen_def h1_SetLength_def h1_MarshalLen_def HasSequence_def Let_def)
  have "v1_ParseHeader (v1_header_wire ?t @ rest) = Inr (v1_seen ?t)"
    using assms n by (intro v1_ParseHeader_wire) (simp_all add: v1_sound_SetLength)
  moreover have "byte_at (v1_header_wire ?t @ rest) 1 = Inr k \<and> byte_at (v1_header_wire ?t @ rest) 0 = Inr (h1_Flags t)"
    using assms(1) by (simp add: v1_header_wire_def byte_at_def h1_SetLength_def)
  ultimately show ?thesis
    by (simp add: v1_TPDU_MarshalTo_def v1_TPDU_UnmarshalBinary_def n(1) h1_Marshal_wire Let_def)
qed

lemma v1_Generic_step:
  assumes "\<And>i. Some i \<in> set (tg_IEs g) \<Longrightarrow> tv_wf v1_tv i" "h1_Type (tg_Header g) = k"
    "tvg_MarshalLen v1_codec g < 65536" "11 \<le> tvg_MarshalLen v1_codec g + length rest"
  shows "\<exists>w g'. v1_Generic_MarshalTo g (replicate (v1_Generic_MarshalLen g) 0) = Inr (w, g') \<and>
     length w = v1_Generic_MarshalLen g \<and>
     v1_Generic_UnmarshalBinary (w @ rest) =
       Inr \<lparr>tg_Header = v1_seen (tg_Header g'), tg_IEs = filter (\<lambda>i. i \<noteq> None) (tg_IEs g')\<rparr> \<and>
     byte_at (w @ rest) 1 = Inr k \<and> byte_at (w @ rest) 0 = Inr (h1_Flags (tg_Header g))"
proof -
  obtain w h where w: "tvg_Marshal v1_codec g = Inr (w, g\<lparr>tg_Header := h\<rparr>)" "length w = tvg_MarshalLen v1_codec g"
    "tvm_Marshal v1_codec False True [] [] (as_msg g) = Inr (w, (as_msg g)\<lparr>t_Header := h\<rparr>)"
    by (rule v1cd.generic_Marshal)
  have "tvm_ok v1_tv rest_switch (as_msg g)" using assms(1) by (simp add: v1cd.generic_ok)
  moreover have hdr: "t_Header (as_msg g) = tg_Header g" by (simp add: as_msg_def)
  ultimately have "v1_typed_ok rest_switch [] k (as_msg g)"
    using assms by (simp add: v1_typed_ok_def tvg_MarshalLen_msg)
  then have s: "\<exists>w m'. tvm_Marshal v1_codec False True [] [] (as_msg g) = Inr (w, m') \<and>
     length w = tvm_MarshalLen v1_codec [] (as_msg g) \<and>
     tvm_UnmarshalBinary v1_codec True rest_switch (w @ rest) = Inr (m'\<lparr>t_Header := v1_seen (t_Header m')\<rparr>) \<and>
     byte_at (w @ rest) 1 = Inr k \<and> byte_at (w @ rest) 0 = Inr (h1_Flags (t_Header (as_msg g)))"
    using assms by (intro v1_step [OF rest.tv_layout_axioms]) (simp_all add: tvg_MarshalLen_msg)
  then have "tvg_UnmarshalBinary v1_codec (w @ rest) =
      Inr \<lparr>tg_Header = v1_seen h, tg_IEs = filter (\<lambda>i. i \<noteq> None) (tg_IEs g)\<rparr>" "byte_at (w @ rest) 1 = Inr k"
    "byte_at (w @ rest) 0 = Inr (h1_Flags (tg_Header g))"
    using w(3) by (auto simp: tvg_Unmarshal_msg of_msg_def as_msg_def v1cd.present_elements)
  then show ?thesis
    using w(1,2) by (simp add: v1_Generic_MarshalTo_def v1_Generic_MarshalLen_def
        v1_Generic_UnmarshalBinary_def tvg_Marshal_def)
qed

lemma v1_Parse_types:
  "byte_at b 1 = Inr v1_MsgTypeEchoRequest \<Longrightarrow> v1_Parse b = parsed_as Msg1_EchoRequest (v1_EchoRequest_UnmarshalBinary b)"
  "byte_at b 1 = Inr v1_MsgTypeEchoResponse \<Longrightarrow> v1_Parse b = parsed_as Msg1_EchoResponse (v1_EchoResponse_UnmarshalBinary b)"
  "byte_at b 1 = Inr v1_MsgTypeCreatePDPContextRequest \<Longrightarrow> v1_Parse b = parsed_as Msg1_CreatePDPContextRequest (v1_CreatePDPContextRequest_UnmarshalBinary b)"
  "byte_at b 1 = Inr v1_MsgTypeCreatePDPContextResponse \<Longrightarrow> v1_Parse b = parsed_as Msg1_CreatePDPContextResponse (v1_CreatePDPContextResponse_UnmarshalBinary b)"
  "byte_at b 1 = Inr v1_MsgTypeUpdatePDPContextRequest \<Longrightarrow> v1_Parse b = parsed_as Msg1_UpdatePDPContextRequest (v1_UpdatePDPContextRequest_UnmarshalBinary b)"
  "byte_at b 1 = Inr v1_MsgTypeUpdatePDPContextResponse \<Longrightarrow> v1_Parse b = parsed_as Msg1_UpdatePDPContextResponse (v1_UpdatePDPContextResponse_UnmarshalBinary b)"
  "byte_at b 1 = Inr v1_MsgTypeDeletePDPContextRequest \<Longrightarrow> v1_Parse b = parsed_as Msg1_DeletePDPContextRequest (v1_DeletePDPContextRequest_UnmarshalBinary b)"
  "byte_at b 1 = Inr v1_MsgTypeDeletePDPContextResponse \<Longrightarrow> v1_Parse b = parsed_as Msg1_DeletePDPContextResponse (v1_DeletePDPContextResponse_UnmarshalBinary b)"
  "byte_at b 1 = Inr v1_MsgTypeErrorIndication \<Longrightarrow> v1_Parse b = parsed_as Msg1_ErrorIndication (v1_ErrorIndication_UnmarshalBinary b)"
  "byte_at b 1 = Inr v1_MsgTypeVersionNotSupported \<Longrightarrow> v1_Parse b = parsed_as Msg1_VersionNotSupported (v1_VersionNotSupported_UnmarshalBinary b)"
  "byte_at b 1 = Inr v1_MsgTypeTPDU \<Longrightarrow> v1_Parse b = parsed_as Msg1_TPDU (v1_TPDU_UnmarshalBinary b)"
  "byte_at b 1 = Inr t \<Longrightarrow> t \<notin> set v1_specific_types \<Longrightarrow>
     v1_Parse b = parsed_as Msg1_Generic (v1_Generic_UnmarshalBinary b)"
  by (simp_all add: v1_Parse_def v1_specific_types_def)

lemma v1_Marshal_simps:
  "v1_Marshal (Msg1_EchoRequest m0) = written_as Msg1_EchoRequest (v1_EchoRequest_MarshalTo m0 (replicate (v1_EchoRequest_MarshalLen m0) 0))"
  "v1_Marshal (Msg1_EchoResponse m1) = written_as Msg1_EchoResponse (v1_EchoResponse_MarshalTo m1 (replicate (v1_EchoResponse_MarshalLen m1) 0))"
  "v1_Marshal (Msg1_CreatePDPContextRequest m2) = written_as Msg1_CreatePDPContextRequest (v1_CreatePDPContextRequest_MarshalTo m2 (replicate (v1_CreatePDPContextRequest_MarshalLen m2) 0))"
  "v1_Marshal (Msg1_CreatePDPContextResponse m3) = written_as Msg1_CreatePDPContextResponse (v1_CreatePDPContextResponse_MarshalTo m3 (replicate (v1_CreatePDPContextResponse_MarshalLen m3) 0))"
  "v1_Marshal (Msg1_UpdatePDPContextRequest m4) = written_as Msg1_UpdatePDPContextRequest (v1_UpdatePDPContextRequest_MarshalTo m4 (replicate (v1_UpdatePDPContextRequest_MarshalLen m4) 0))"
  "v1_Marshal (Msg1_UpdatePDPContextResponse m5) = written_as Msg1_UpdatePDPContextResponse (v1_UpdatePDPContextResponse_MarshalTo m5 (replicate (v1_UpdatePDPContextResponse_MarshalLen m5) 0))"
  "v1_Marshal (Msg1_DeletePDPContextRequest m6) = written_as Msg1_DeletePDPContextRequest (v1_DeletePDPContextRequest_MarshalTo m6 (replicate (v1_DeletePDPContextRequest_MarshalLen m6) 0))"
  "v1_Marshal (Msg1_DeletePDPContextResponse m7) = written_as Msg1_DeletePDPContextResponse (v1_DeletePDPContextResponse_MarshalTo m7 (replicate (v1_DeletePDPContextResponse_MarshalLen m7) 0))"
  "v1_Marshal (Msg1_ErrorIndication m8) = written_as Msg1_ErrorIndication (v1_ErrorIndication_MarshalTo m8 (replicate (v1_ErrorIndication_MarshalLen m8) 0))"
  "v1_Marshal (Msg1_VersionNotSupported m9) = written_as Msg1_VersionNotSupported (v1_VersionNotSupported_MarshalTo m9 (replicate (v1_VersionNotSupported_MarshalLen m9) 0))"
  "v1_Marshal (Msg1_TPDU t) = written_as Msg1_TPDU (v1_TPDU_MarshalTo t (replicate (v1_TPDU_MarshalLen t) 0))"
  "v1_Marshal (Msg1_Generic g) =
     written_as Msg1_Generic (v1_Generic_MarshalTo g (replicate (v1_Generic_MarshalLen g) 0))"
  by (simp_all add: v1_Marshal_def)

lemma v1_step_message:
  assumes "v1_message_ok M" "\<not> v1_stale M" "11 \<le> v1_MarshalLen M + length rest"
  shows "\<exists>w M'. v1_Marshal M = Inr (w, M') \<and> length w = v1_MarshalLen M \<and> v1_Parse (w @ rest) = Inr (v1_parsed M') \<and>
     byte_at (w @ rest) 0 = Inr (h1_Flags (v1_msg_header M))"
proof (cases M)
  case (Msg1_EchoRequest m)
  then show ?thesis
    using v1_EchoRequest_step [of v1_MsgTypeEchoRequest m rest] assms by (auto simp: v1_Marshal_simps v1_Parse_types)
next
  case (Msg1_EchoResponse m)
  then show ?thesis
    using v1_EchoResponse_step [of v1_MsgTypeEchoResponse m rest] assms by (auto simp: v1_Marshal_simps v1_Parse_types)
next
  case (Msg1_CreatePDPContextRequest m)
  then show ?thesis
    using v1_CreatePDPContextRequest_step [of v1_MsgTypeCreatePDPContextRequest m rest] assms by (auto simp: v1_Marshal_simps v1_Parse_types)
next
  case (Msg1_CreatePDPContextResponse m)
  then show ?thesis
    using v1_CreatePDPContextResponse_step [of v1_MsgTypeCreatePDPContextResponse m rest] assms by (auto simp: v1_Marshal_simps v1_Parse_types)
next
  case (Msg1_UpdatePDPContextRequest m)
  then show ?thesis
    using v1_UpdatePDPContextRequest_step [of v1_MsgTypeUpdatePDPContextRequest m rest] assms by (auto simp: v1_Marshal_simps v1_Parse_types)
next
  case (Msg1_UpdatePDPContextResponse m)
  then show ?thesis
    using v1_UpdatePDPContextResponse_step [of v1_MsgTypeUpdatePDPContextResponse m rest] assms by (auto simp: v1_Marshal_simps v1_Parse_types)
next
  case (Msg1_DeletePDPContextRequest m)
  then show ?thesis
    using v1_DeletePDPContextRequest_step [of v1_MsgTypeDeletePDPContextRequest m rest] assms by (auto simp: v1_Marshal_simps v1_Parse_types)
next
  case (Msg1_DeletePDPContextResponse m)
  then show ?thesis
    using v1_DeletePDPContextResponse_step [of v1_MsgTypeDeletePDPContextResponse m rest] assms by (auto simp: v1_Marshal_simps v1_Parse_types)
next
  case (Msg1_ErrorIndication m)
  then show ?thesis
    using v1_ErrorIndication_step [of v1_MsgTypeErrorIndication m rest] assms by (auto simp: v1_Marshal_simps v1_Parse_types)
next
  case (Msg1_VersionNotSupported m)
  then show ?thesis
    using v1_VersionNotSupported_step [of v1_MsgTypeVersionNotSupported m rest] assms by (auto simp: v1_Marshal_simps v1_Parse_types)
next
  case (Msg1_TPDU t)
  then show ?thesis
    using v1_TPDU_step [of t v1_MsgTypeTPDU rest] assms
    by (auto simp: v1_Marshal_simps v1_Parse_types v1_TPDU_MarshalLen_def)
next
  case (Msg1_Generic g)
  then show ?thesis
    using v1_Generic_step [of g "h1_Type (tg_Header g)" rest] assms
    by (auto simp: v1_Marshal_simps v1_Parse_types v1_Generic_MarshalLen_def)
qed

lemma v1_Parse_panics:
  "no_panic (v1_Parse b) \<longleftrightarrow> 2 \<le> length b \<and> no_panic (v1_ParseHeader b)"
proof (cases "2 \<le> length b")
  case True
  then obtain t where "byte_at b 1 = Inr t" by (auto simp: byte_at_def)
  moreover have "cd_Parse v1_codec = v1_ParseHeader" by (simp add: v1_codec_def)
  ultimately show ?thesis
    using True
    by (simp add: v1_Parse_def v1cd.Unmarshal_panics_iff v1cd.generic_panics_iff
        v1_TPDU_UnmarshalBinary_def v1_Generic_UnmarshalBinary_def
        v1_EchoRequest_UnmarshalBinary_def v1_EchoResponse_UnmarshalBinary_def
        v1_CreatePDPContextRequest_UnmarshalBinary_def
        v1_CreatePDPContextResponse_UnmarshalBinary_def
        v1_UpdatePDPContextRequest_UnmarshalBinary_def
        v1_UpdatePDPContextResponse_UnmarshalBinary_def
        v1_DeletePDPContextRequest_UnmarshalBinary_def
        v1_DeletePDPContextResponse_UnmarshalBinary_def v1_ErrorIndication_UnmarshalBinary_def
        v1_VersionNotSupported_UnmarshalBinary_def)
next
  case False
  then show ?thesis by (simp add: v1_Parse_def byte_at_def)
qed

section \<open>Which messages can be marshalled\<close>

lemma v1_payload: "cd_Payload v1_codec = h1_Payload"
  by (simp add: v1_codec_def)

lemmas v1_succeeds =
  v1cd.Marshal_succeeds [OF v1EchoRequest.tv_layout_axioms, unfolded tvm_Marshal_def v1_payload]
  v1cd.Marshal_succeeds [OF v1EchoResponse.tv_layout_axioms, unfolded tvm_Marshal_def v1_payload]
  v1cd.Marshal_succeeds [OF v1CreatePDPContextRequest.tv_layout_axioms, unfolded tvm_Marshal_def v1_payload]
  v1cd.Marshal_succeeds [OF v1CreatePDPContextResponse.tv_layout_axioms, unfolded tvm_Marshal_def v1_payload]
  v1cd.Marshal_succeeds [OF v1UpdatePDPContextRequest.tv_layout_axioms, unfolded tvm_Marshal_def v1_payload]
  v1cd.Marshal_succeeds [OF v1UpdatePDPContextResponse.tv_layout_axioms, unfolded tvm_Marshal_def v1_payload]
  v1cd.Marshal_succeeds [OF v1DeletePDPContextRequest.tv_layout_axioms, unfolded tvm_Marshal_def v1_payload]
  v1cd.Marshal_succeeds [OF v1DeletePDPContextResponse.tv_layout_axioms, unfolded tvm_Marshal_def v1_payload]
  v1cd.Marshal_succeeds [OF v1ErrorIndication.tv_layout_axioms, unfolded tvm_Marshal_def v1_payload]
  v1cd.Marshal_succeeds [OF v1VersionNotSupported.tv_layout_axioms, unfolded tvm_Marshal_def v1_payload]

lemmas v1_fails =
  v1cd.Marshal_fails [OF v1CreatePDPContextRequest.tv_layout_axioms, unfolded tvm_Marshal_def v1_payload]
  v1cd.Marshal_fails [OF v1CreatePDPContextResponse.tv_layout_axioms, unfolded tvm_Marshal_def v1_payload]
  v1cd.Marshal_fails [OF v1UpdatePDPContextRequest.tv_layout_axioms, unfolded tvm_Marshal_def v1_payload]
  v1cd.Marshal_fails [OF v1UpdatePDPContextResponse.tv_layout_axioms, unfolded tvm_Marshal_def v1_payload]
  v1cd.Marshal_fails [OF v1DeletePDPContextRequest.tv_layout_axioms, unfolded tvm_Marshal_def v1_payload]
  v1cd.Marshal_fails [OF v1DeletePDPContextResponse.tv_layout_axioms, unfolded tvm_Marshal_def v1_payload]
  v1cd.Marshal_fails [OF v1ErrorIndication.tv_layout_axioms, unfolded tvm_Marshal_def v1_payload]
  v1cd.Marshal_fails [OF v1VersionNotSupported.tv_layout_axioms, unfolded tvm_Marshal_def v1_payload]

lemma v1_generic_total:
  "\<exists>w g'. tvg_MarshalTo v1_codec g (replicate (tvg_MarshalLen v1_codec g) 0) = Inr (w, g') \<and>
     length w = tvg_MarshalLen v1_codec g"
  by (rule v1cd.generic_Marshal [of g]) (auto simp: tvg_Marshal_def)

lemma v1_tpdu_total:
  "\<exists>w t'. v1_TPDU_MarshalTo t (replicate (v1_TPDU_MarshalLen t) 0) = Inr (w, t') \<and> length w = v1_TPDU_MarshalLen t"
  using h1_Marshal_wire [of "h1_SetLength t"]
  by (simp add: v1_TPDU_MarshalTo_def v1_TPDU_MarshalLen_def v1_len_SetLength Let_def)

lemmas v1_marshal_defs =
  v1_Generic_MarshalTo_def v1_Generic_MarshalLen_def v1_EchoRequest_MarshalTo_def
  v1_EchoRequest_MarshalLen_def v1_EchoResponse_MarshalTo_def v1_EchoResponse_MarshalLen_def
  v1_CreatePDPContextRequest_MarshalTo_def v1_CreatePDPContextRequest_MarshalLen_def
  v1_CreatePDPContextResponse_MarshalTo_def v1_CreatePDPContextResponse_MarshalLen_def
  v1_UpdatePDPContextRequest_MarshalTo_def v1_UpdatePDPContextRequest_MarshalLen_def
  v1_UpdatePDPContextResponse_MarshalTo_def v1_UpdatePDPContextResponse_MarshalLen_def
  v1_DeletePDPContextRequest_MarshalTo_def v1_DeletePDPContextRequest_MarshalLen_def
  v1_DeletePDPContextResponse_MarshalTo_def v1_DeletePDPContextResponse_MarshalLen_def
  v1_ErrorIndication_MarshalTo_def v1_ErrorIndication_MarshalLen_def
  v1_VersionNotSupported_MarshalTo_def v1_VersionNotSupported_MarshalLen_def

lemma v1_Marshal_total: "\<not> v1_stale M \<Longrightarrow> \<exists>w M'. v1_Marshal M = Inr (w, M') \<and> length w = v1_MarshalLen M"
  by (cases M)
     (simp_all only: v1_Marshal_simps v1_MarshalLen.simps v1_marshal_defs v1_stale.simps not_False_eq_True not_not,
      (intro written_as_total v1_succeeds v1_generic_total v1_tpdu_total; simp)+)

text \<open>
  The others fail on whatever elements they hold, as after \<open>Parse\<close>: \<open>make\<close> panics when the elements
  need less than the payload that is there, and otherwise an element finds too little room.
\<close>

lemma v1_Marshal_stale:
  "v1_stale M \<Longrightarrow>
     v1_Marshal M \<in> {Inl (Panic MakeSliceLenOutOfRange), Inl (Error IEErrTooShortToMarshal)}"
  by (cases M) (auto simp: v1_Marshal_simps v1_marshal_defs v1_fails)

lemma v1_Marshal_succeeds_iff: "(\<exists>w M'. v1_Marshal M = Inr (w, M')) \<longleftrightarrow> \<not> v1_stale M"
  using v1_Marshal_total [of M] v1_Marshal_stale [of M] by (cases "v1_stale M") auto

text \<open>A message a constructor makes can be marshalled, and setting the sequence number changes nothing in that.\<close>

lemma v1_New_payload [simp]: "h1_Payload (t_Header (tvm_New v1_codec D lens h ies)) = h1_Payload h"
  by (simp add: tvm_New_def tvm_SetLength_def tvm_empty_def) (simp add: v1_codec_def)

lemma v1_stale_SetSequenceNumber [simp]: "v1_stale (v1_SetSequenceNumber seq M) = v1_stale M"
  by (cases M) (simp_all add: v1_SetSequenceNumber_def h1_SetSequenceNumber_def)

section \<open>Properties\<close>

text \<open>
  C24. The round trip of every GTPv1 message: for a well-formed message of any of the ten types
  with fields, a T-PDU or a generic message, \<open>Marshal\<close> fills exactly \<open>MarshalLen\<close> bytes and
  \<open>Parse\<close> gives the message back as \<open>Marshal\<close> left it, whatever follows, as long as there are
  eleven bytes to read (a sequence number without the S flag and the nil elements of a generic
  message are lost). The eight types that do not clear the payload of their header must come with
  an empty one, as the constructors leave it.
\<close>

theorem v1_message_roundtrip:
  assumes "v1_message_ok M" "\<not> v1_stale M" "11 \<le> v1_MarshalLen M + length rest"
  shows "\<exists>w M'. v1_Marshal M = Inr (w, M') \<and> length w = v1_MarshalLen M \<and>
     v1_Parse (w @ rest) = Inr (v1_parsed M')"
  using v1_step_message [OF assms] by blast

definition v1_sample :: v1_message where
  "v1_sample = Msg1_CreatePDPContextRequest (v1_NewCreatePDPContextRequest 1 2
     [Some (v1_newUint8ValIE v1_IE_NSAPI 5), None, Some (v1_newUint8ValIE v1_IE_NSAPI 6),
      Some (v1_newUint8ValIE v1_IE_NSAPI 7), Some (v1_newUint8ValIE v1_IE_Recovery 9)])"

lemma v1_sample_ok: "v1_message_ok v1_sample" "v1_MarshalLen v1_sample = 20" "\<not> v1_stale v1_sample"
proof -
  let ?n = "\<lambda>v. v1_newUint8ValIE v1_IE_NSAPI v" and ?r = "v1_newUint8ValIE v1_IE_Recovery 9"
  have wf: "tv_wf v1_tv (?n 5)" "tv_wf v1_tv (?n 6)" "tv_wf v1_tv (?n 7)" "tv_wf v1_tv ?r" by code_simp+
  show len: "v1_MarshalLen v1_sample = 20" by code_simp
  show "\<not> v1_stale v1_sample" by code_simp
  show "v1_message_ok v1_sample"
    using wf len
    by (simp add: v1_sample_def v1_typed_ok_def v1_CreatePDPContextRequest_MarshalLen_def
        v1CreatePDPContextRequest.MarshalLen_lens)
       (auto simp: v1_NewCreatePDPContextRequest_def tvm_New_def tvm_SetLength_def tvm_ok_def
        tvm_store_def tvm_empty_def v1_codec_def v1_newUint8ValIE_def v1_NewHeader_def h1_SetLength_def
        v1_CreatePDPContextRequest_switch_def filled_before_def map_filter_simps)
qed

theorem v1_message_roundtrip_witness:
  "\<exists>w M'. v1_Marshal v1_sample = Inr (w, M') \<and> length w = 20 \<and> v1_Parse (w @ [0]) = Inr (v1_parsed M')"
  using v1_message_roundtrip [OF v1_sample_ok(1,3), of "[0]"] by (simp add: v1_sample_ok(2))

text \<open>
  Exactly which datagrams make \<open>Parse\<close> of GTPv1 panic: those of fewer than two bytes and those
  on which \<open>ParseHeader\<close> does, eleven bytes with the S flag and a length field of at least four.
\<close>

lemma v1_Parse_panics_iff:
  "no_panic (v1_Parse b) =
     (2 \<le> length b \<and> \<not> (length b = 11 \<and> v1_flag_S (b ! 0) \<and> 4 \<le> join16 (b ! 2) (b ! 3)))"
  by (simp add: v1_Parse_panics v1_ParseHeader_panics)

end
