(* ===== verification/GtpParse.thy ===== *)
theory GtpParse
  imports V0Parse V1Parse V2Parse
begin

text \<open>
  The package \<open>gtp\<close> (\<open>src/gtp.go\<close>): messages of all three versions, told apart by the first
  three bits of the datagram.
\<close>

datatype gtp_message =
    GTPv0 v0_message
  | GTPv1 v1_message
  | GTPv2 v2_message

primrec gtp_MarshalLen :: "gtp_message \<Rightarrow> nat" where
  "gtp_MarshalLen (GTPv0 m) = v0_MarshalLen m"
| "gtp_MarshalLen (GTPv1 m) = v1_MarshalLen m"
| "gtp_MarshalLen (GTPv2 m) = v2_MarshalLen m"

primrec gtp_MarshalTo :: "gtp_message \<Rightarrow> bytes \<Rightarrow> (bytes \<times> gtp_message) result" where
  "gtp_MarshalTo (GTPv0 m) = (\<lambda>b. written_as GTPv0 (v0_MarshalTo m b))"
| "gtp_MarshalTo (GTPv1 m) = (\<lambda>b. written_as GTPv1 (v1_MarshalTo m b))"
| "gtp_MarshalTo (GTPv2 m) = (\<lambda>b. written_as GTPv2 (v2_MarshalTo m b))"

definition gtp_Marshal :: "gtp_message \<Rightarrow> (bytes \<times> gtp_message) result" where
  "gtp_Marshal M = gtp_MarshalTo M (replicate (gtp_MarshalLen M) 0)"

primrec gtp_MessageType :: "gtp_message \<Rightarrow> byte" where
  "gtp_MessageType (GTPv0 m) = v0_MessageType m"
| "gtp_MessageType (GTPv1 m) = v1_MessageType m"
| "gtp_MessageType (GTPv2 m) = v2_MessageType m"

definition gtp_Parse :: "bytes \<Rightarrow> gtp_message result" where
  "gtp_Parse b =
     (if length b < 8 then Inl (Error GtpErrTooShortToParse)
      else andThen (byte_at b 0) (\<lambda>b0.
        let v = drop_bit 5 b0 in
        if v = 0 then parsed_as GTPv0 (v0_Parse b)
        else if v = 1 then parsed_as GTPv1 (v1_Parse b)
        else if v = 2 then parsed_as GTPv2 (v2_Parse b)
        else Inl (Error GtpErrInvalidVersion)))"

section \<open>The three versions behind one interface\<close>




text \<open>The messages that cannot be marshalled, and those that are not written in full.\<close>

primrec gtp_stale :: "gtp_message \<Rightarrow> bool" where
  "gtp_stale (GTPv0 m) = v0_stale m"
| "gtp_stale (GTPv1 m) = v1_stale m"
| "gtp_stale (GTPv2 m) = False"



lemma gtp_Marshal_simps:
  "gtp_Marshal (GTPv0 m) = written_as GTPv0 (v0_Marshal m)"
  "gtp_Marshal (GTPv1 m1) = written_as GTPv1 (v1_Marshal m1)"
  "gtp_Marshal (GTPv2 m2) = written_as GTPv2 (v2_Marshal m2)"
  by (simp_all add: gtp_Marshal_def v0_Marshal_def v1_Marshal_def v2_Marshal_def)






section \<open>Properties\<close>



text \<open>
  C9. Exactly which messages \<open>gtp.Marshal\<close> refuses, whatever their elements are: those of the nine
  types whose \<open>MarshalTo\<close> does not clear the payload of the header (eight of GTPv1, one of GTPv0)
  that come with such a payload, as after \<open>Parse\<close>. It panics on a negative length or finds the new
  payload too short. Every other message of the three versions is written in \<open>MarshalLen\<close> bytes.
\<close>

theorem gtp_Marshal_refuses:
  "if gtp_stale M
   then gtp_Marshal M \<in> {Inl (Panic MakeSliceLenOutOfRange), Inl (Error IEErrTooShortToMarshal)}
   else \<exists>w M'. gtp_Marshal M = Inr (w, M') \<and> length w = gtp_MarshalLen M"
proof (cases M)
  case (GTPv0 m)
  then show ?thesis
    using v0_Marshal_total [of m] v0_Marshal_stale [of m] by (auto simp: gtp_Marshal_simps)
next
  case (GTPv1 m)
  then show ?thesis
    using v1_Marshal_total [of m] v1_Marshal_stale [of m] by (auto simp: gtp_Marshal_simps)
next
  case (GTPv2 m)
  then show ?thesis using v2_Marshal_total [of m] by (auto simp: gtp_Marshal_simps)
qed

text \<open>
  C23. Exactly which datagrams make \<open>gtp.Parse\<close> panic: for GTPv0, eleven to nineteen bytes, or more
  than 65535 that the length field accounts for; for GTPv1, eleven bytes with the S flag and a
  length field of at least four. Fewer than eight bytes and unknown versions are errors.
\<close>

theorem gtp_Parse_panics_iff:
  "no_panic (gtp_Parse b) =
     (\<not> (drop_bit 5 (b ! 0) = 0 \<and> 11 \<le> length b \<and> length b < 20) \<and>
      \<not> (drop_bit 5 (b ! 0) = 0 \<and> 65536 \<le> length b \<and> unat (join16 (b ! 2) (b ! 3)) + 20 = length b) \<and>
      \<not> (drop_bit 5 (b ! 0) = 1 \<and> length b = 11 \<and> v1_flag_S (b ! 0) \<and> 4 \<le> join16 (b ! 2) (b ! 3)))"
proof (cases "length b < 8")
  case True
  then show ?thesis by (auto simp: gtp_Parse_def)
next
  case False
  moreover have "byte_at b 0 = Inr (b ! 0)" using False by (auto simp: byte_at_def)
  ultimately show ?thesis
    by (auto simp: gtp_Parse_def Let_def v0_Parse_panics v0_ParseHeader_panics v1_Parse_panics
        v1_ParseHeader_panics v2_Parse_no_panic)
qed

end
