(* ===== verification/V1IEValues.thy ===== *)
theory V1IEValues
  imports V1IE V2IEValues
begin

text \<open>
  The element types of GTPv1: a constructor and accessors for each of the files of
  \<open>src/gtpv1/ie\<close> named in the sections. An accessor checks the type of the element and the length
  of its payload and reads fields of it. A constructor that may return nil returns an option. The
  \<open>Must\<close> variants drop the error and return a zero value. \<open>MSTimeZone\<close> and \<open>ULITimestamp\<close> are in
  the theory \<open>TimeElements\<close>, the accessors that give an address as text in \<open>AddressText\<close>.
\<close>

section \<open>Helpers of the accessors\<close>

abbreviation tv_wrong_type :: "tv_ie \<Rightarrow> 'a result" where
  "tv_wrong_type i \<equiv> Inl (Error (IEInvalidTypeError (tv_Type i)))"

text \<open>The shape of most accessors: the type first, then the least length, then the value.\<close>

definition field_of :: "byte \<Rightarrow> nat \<Rightarrow> (bytes \<Rightarrow> 'a result) \<Rightarrow> tv_ie \<Rightarrow> 'a result" where
  "field_of t n f i =
     (if tv_Type i \<noteq> t then tv_wrong_type i
      else if length (tv_Payload i) < n then eof
      else f (tv_Payload i))"

definition must :: "'a \<Rightarrow> 'a result \<Rightarrow> 'a result" where
  "must zero r = (case r of Inl (Error e) \<Rightarrow> Inr zero | _ \<Rightarrow> r)"

definition set_payload :: "tv_ie \<Rightarrow> bytes result \<Rightarrow> tv_ie result" where
  "set_payload i r = andThen r (\<lambda>p. Inr (i\<lparr>tv_Payload := p\<rparr>))"

definition tv_or_nil :: "(bytes \<Rightarrow> tv_ie option result) \<Rightarrow> bytes result \<Rightarrow> tv_ie option result" where
  "tv_or_nil mk r = (case r of
     Inr b \<Rightarrow> mk b
   | Inl (Error e) \<Rightarrow> Inr None
   | Inl (Panic p) \<Rightarrow> Inl (Panic p))"

definition some_ie :: "tv_ie result \<Rightarrow> tv_ie option result" where
  "some_ie r = andThen r (\<lambda>i. Inr (Some i))"

section \<open>Single octets (cause.go, recovery.go, nsapi.go, map-cause.go, ranap-cause.go, rat-type.go, selection-mode.go, apn-restriction.go)\<close>

definition v1_NewCause :: "byte \<Rightarrow> tv_ie" where
  "v1_NewCause cause = v1_newUint8ValIE v1_IE_Cause cause"

definition i1_Cause :: "tv_ie \<Rightarrow> byte result" where
  "i1_Cause = field_of v1_IE_Cause 1 (\<lambda>p. byte_at p 0)"

definition v1_NewRecovery :: "byte \<Rightarrow> tv_ie" where
  "v1_NewRecovery recovery = v1_newUint8ValIE v1_IE_Recovery recovery"

definition i1_Recovery :: "tv_ie \<Rightarrow> byte result" where
  "i1_Recovery = field_of v1_IE_Recovery 1 (\<lambda>p. byte_at p 0)"

definition v1_NewNSAPI :: "byte \<Rightarrow> tv_ie" where
  "v1_NewNSAPI nsapi = v1_newUint8ValIE v1_IE_NSAPI nsapi"

definition i1_NSAPI :: "tv_ie \<Rightarrow> byte result" where
  "i1_NSAPI = field_of v1_IE_NSAPI 1 (\<lambda>p. byte_at p 0)"

definition v1_NewMAPCause :: "byte \<Rightarrow> tv_ie" where
  "v1_NewMAPCause cause = v1_newUint8ValIE v1_IE_MAPCause cause"

definition i1_MAPCause :: "tv_ie \<Rightarrow> byte result" where
  "i1_MAPCause = field_of v1_IE_MAPCause 1 (\<lambda>p. byte_at p 0)"

definition v1_NewRANAPCause :: "byte \<Rightarrow> tv_ie" where
  "v1_NewRANAPCause cause = v1_newUint8ValIE v1_IE_RANAPCause cause"

definition i1_RANAPCause :: "tv_ie \<Rightarrow> byte result" where
  "i1_RANAPCause = field_of v1_IE_RANAPCause 1 (\<lambda>p. byte_at p 0)"

definition v1_NewRATType :: "byte \<Rightarrow> tv_ie" where
  "v1_NewRATType ratType = v1_New v1_IE_RATType [ratType]"

definition i1_RATType :: "tv_ie \<Rightarrow> byte result" where
  "i1_RATType = field_of v1_IE_RATType 1 (\<lambda>p. byte_at p 0)"

definition v1_NewSelectionMode :: "byte \<Rightarrow> tv_ie" where
  "v1_NewSelectionMode mode = v1_newUint8ValIE v1_IE_SelectionMode mode"

definition i1_SelectionMode :: "tv_ie \<Rightarrow> byte result" where
  "i1_SelectionMode = field_of v1_IE_SelectionMode 1 (\<lambda>p. byte_at p 0)"

definition v1_NewAPNRestriction :: "byte \<Rightarrow> tv_ie" where
  "v1_NewAPNRestriction restriction = v1_newUint8ValIE v1_IE_APNRestriction restriction"

text \<open>The accessor asks for the type of another element.\<close>

definition i1_APNRestriction :: "tv_ie \<Rightarrow> byte result" where
  "i1_APNRestriction = field_of v1_IE_AuthenticationTriplet 1 (\<lambda>p. byte_at p 0)"

section \<open>Booleans (ms-validated.go, reordering-required.go, teardown-ind.go)\<close>

definition v1_NewMSValidated :: "bool \<Rightarrow> tv_ie" where
  "v1_NewMSValidated validated = v1_newUint8ValIE v1_IE_MSValidated (if validated then 0xff else 0xfe)"

definition i1_MSValidated :: "tv_ie \<Rightarrow> bool result" where
  "i1_MSValidated i =
     (if tv_Type i \<noteq> v1_IE_MSValidated then Inr False
      else if length (tv_Payload i) = 0 then Inr False
      else andThen (byte_at (tv_Payload i) 0) (\<lambda>v. Inr (v mod 2 = 1)))"

definition v1_NewReorderingRequired :: "bool \<Rightarrow> tv_ie" where
  "v1_NewReorderingRequired required =
     v1_newUint8ValIE v1_IE_ReorderingRequired (if required then 0xff else 0xfe)"

definition i1_ReorderingRequired :: "tv_ie \<Rightarrow> bool result" where
  "i1_ReorderingRequired i =
     (if tv_Type i \<noteq> v1_IE_ReorderingRequired then Inr False
      else if length (tv_Payload i) = 0 then Inr False
      else andThen (byte_at (tv_Payload i) 0) (\<lambda>v. Inr (v AND 0x01 = 1)))"

definition v1_NewTeardownInd :: "bool \<Rightarrow> tv_ie" where
  "v1_NewTeardownInd teardown = v1_newUint8ValIE v1_IE_TeardownInd (if teardown then 0xff else 0xfe)"

definition i1_TeardownInd :: "tv_ie \<Rightarrow> bool result" where
  "i1_TeardownInd i =
     (if tv_Type i \<noteq> v1_IE_TeardownInd then Inr False
      else if length (tv_Payload i) = 0 then Inr False
      else andThen (byte_at (tv_Payload i) 0) (\<lambda>v. Inr (v mod 2 = 1)))"

section \<open>Common Flags (common-flags.go)\<close>

text \<open>The flags are integers shifted and combined, and the low eight bits are kept.\<close>

definition v1_NewCommonFlags ::
  "int \<Rightarrow> int \<Rightarrow> int \<Rightarrow> int \<Rightarrow> int \<Rightarrow> int \<Rightarrow> int \<Rightarrow> int \<Rightarrow> tv_ie" where
  "v1_NewCommonFlags dualAddr upgradeQoS nrsn noQoS mbmsCount ranReady mbmsService prohibitComp =
     v1_New v1_IE_CommonFlags [of_int (push_bit 7 dualAddr OR push_bit 6 upgradeQoS OR push_bit 5 nrsn OR
       push_bit 4 noQoS OR push_bit 3 mbmsCount OR push_bit 2 ranReady OR push_bit 1 mbmsService OR
       prohibitComp)]"

definition i1_CommonFlags :: "tv_ie \<Rightarrow> byte result" where
  "i1_CommonFlags = field_of v1_IE_CommonFlags 1 (\<lambda>p. byte_at p 0)"

definition common_flag :: "nat \<Rightarrow> tv_ie \<Rightarrow> bool result" where
  "common_flag n i = andThen (must 0 (i1_CommonFlags i)) (\<lambda>f. Inr (drop_bit n f AND 0x01 \<noteq> 0))"

definition IsDualAddressBearer :: "tv_ie \<Rightarrow> bool result" where
  "IsDualAddressBearer = common_flag 7"

definition IsUpgradeQoSSupported :: "tv_ie \<Rightarrow> bool result" where
  "IsUpgradeQoSSupported = common_flag 6"

definition IsNRSN :: "tv_ie \<Rightarrow> bool result" where
  "IsNRSN = common_flag 5"

definition IsNoQoSNegotiation :: "tv_ie \<Rightarrow> bool result" where
  "IsNoQoSNegotiation = common_flag 4"

definition IsMBMSCountingInformation :: "tv_ie \<Rightarrow> bool result" where
  "IsMBMSCountingInformation = common_flag 3"

definition IsRANProceduresReady :: "tv_ie \<Rightarrow> bool result" where
  "IsRANProceduresReady = common_flag 2"

definition IsMBMSServiceType :: "tv_ie \<Rightarrow> bool result" where
  "IsMBMSServiceType = common_flag 1"

definition IsProhibitPayloadCompression :: "tv_ie \<Rightarrow> bool result" where
  "IsProhibitPayloadCompression i = andThen (must 0 (i1_CommonFlags i)) (\<lambda>f. Inr (f AND 0x01 \<noteq> 0))"

section \<open>Numbers (teid.go, charging-id.go, p-tmsi.go, p-tmsi-signature.go)\<close>

definition v1_NewTEIDDataI :: "u32 \<Rightarrow> tv_ie" where
  "v1_NewTEIDDataI teid = v1_newUint32ValIE v1_IE_TEIDDataI teid"

definition v1_NewTEIDCPlane :: "u32 \<Rightarrow> tv_ie" where
  "v1_NewTEIDCPlane teid = v1_newUint32ValIE v1_IE_TEIDCPlane teid"

definition v1_NewTEIDDataII :: "u32 \<Rightarrow> tv_ie" where
  "v1_NewTEIDDataII teid = v1_newUint32ValIE v1_IE_TEIDDataII teid"

definition i1_TEID :: "tv_ie \<Rightarrow> u32 result" where
  "i1_TEID i =
     (if length (tv_Payload i) < 4 then eof
      else if tv_Type i \<in> {v1_IE_TEIDCPlane, v1_IE_TEIDDataI, v1_IE_TEIDDataII}
      then get32 (tv_Payload i) 0
      else tv_wrong_type i)"

definition v1_NewChargingID :: "u32 \<Rightarrow> tv_ie" where
  "v1_NewChargingID cid = v1_newUint32ValIE v1_IE_ChargingID cid"

definition i1_ChargingID :: "tv_ie \<Rightarrow> u32 result" where
  "i1_ChargingID = field_of v1_IE_ChargingID 4 (\<lambda>p. get32 p 0)"

definition v1_NewPacketTMSI :: "u32 \<Rightarrow> tv_ie" where
  "v1_NewPacketTMSI ptmsi = v1_newUint32ValIE v1_IE_PacketTMSI ptmsi"

definition i1_PacketTMSI :: "tv_ie \<Rightarrow> u32 result" where
  "i1_PacketTMSI = field_of v1_IE_PacketTMSI 4 (\<lambda>p. get32 p 0)"

definition v1_NewPTMSISignature :: "u32 \<Rightarrow> tv_ie" where
  "v1_NewPTMSISignature sig = v1_New v1_IE_PTMSISignature (Uint32To24 sig)"

definition i1_PTMSISignature :: "tv_ie \<Rightarrow> u32 result" where
  "i1_PTMSISignature = field_of v1_IE_PTMSISignature 3 (\<lambda>p. Inr (Uint24To32 p))"

section \<open>Identities (imsi.go, imei.go, msisdn.go)\<close>

definition v1_NewIMSI :: "string \<Rightarrow> tv_ie option result" where
  "v1_NewIMSI imsi = tv_or_nil (\<lambda>b. Inr (Some (v1_New v1_IE_IMSI b))) (StrToSwappedBytes imsi ''f'')"

definition i1_IMSI :: "tv_ie \<Rightarrow> string result" where
  "i1_IMSI = field_of v1_IE_IMSI 1 (\<lambda>p. Inr (SwappedBytesToStr p True))"

definition v1_NewIMEISV :: "string \<Rightarrow> tv_ie option result" where
  "v1_NewIMEISV imei = tv_or_nil (\<lambda>b. Inr (Some (v1_New v1_IE_IMEISV b))) (StrToSwappedBytes imei ''f'')"

definition i1_IMEISV :: "tv_ie \<Rightarrow> string result" where
  "i1_IMEISV = field_of v1_IE_IMEISV 1 (\<lambda>p. Inr (TrimSuffix (CHR ''f'') (SwappedBytesToStr p False)))"

definition v1_NewMSISDN :: "string \<Rightarrow> tv_ie option result" where
  "v1_NewMSISDN msisdn =
     tv_or_nil (\<lambda>b. Inr (Some (v1_New v1_IE_MSISDN b))) (StrToSwappedBytes (''19'' @ msisdn) ''f'')"

definition i1_MSISDN :: "tv_ie \<Rightarrow> string result" where
  "i1_MSISDN = field_of v1_IE_MSISDN 2
     (\<lambda>p. andThen (slice_from p 1) (\<lambda>q. Inr (SwappedBytesToStr q False)))"

section \<open>Access Point Name (apn.go)\<close>

definition v1_NewAccessPointName :: "string \<Rightarrow> tv_ie result" where
  "v1_NewAccessPointName apn =
     (let i = v1_New v1_IE_AccessPointName (replicate (length apn + 1) 0) in
      set_payload i (put_labels (tv_Payload i) 0 (Split (CHR ''.'') apn)))"

text \<open>The loop over the labels, with an error when a label is cut off.\<close>

fun all_labels :: "bytes \<Rightarrow> string list result" where
  "all_labels [] = Inr []"
| "all_labels (l # r) =
     (if unat l > length r then eof
      else andThen (all_labels (drop (unat l) r)) (\<lambda>ls. Inr (bytes_string (take (unat l) r) # ls)))"

definition i1_AccessPointName :: "tv_ie \<Rightarrow> string result" where
  "i1_AccessPointName i =
     (if tv_Type i \<noteq> v1_IE_AccessPointName then tv_wrong_type i
      else andThen (all_labels (tv_Payload i)) (\<lambda>ls. Inr (Join (CHR ''.'') ls)))"

section \<open>Addresses (gsn-address.go, end-user-address.go, ip.go)\<close>

definition v1_NewGSNAddressByIP :: "ip \<Rightarrow> tv_ie option" where
  "v1_NewGSNAddressByIP ip =
     (if ip = [] then None
      else if To4 ip \<noteq> [] then Some (v1_New v1_IE_GSNAddress (To4 ip))
      else Some (v1_New v1_IE_GSNAddress ip))"

definition v1_NewGSNAddress :: "string \<Rightarrow> tv_ie option" where
  "v1_NewGSNAddress addr = v1_NewGSNAddressByIP (ParseIP addr)"

definition newEUAddrV4 :: "ip \<Rightarrow> tv_ie result" where
  "newEUAddrV4 v4 =
     (let e = v1_New v1_IE_EndUserAddress (replicate 6 0) in
      set_payload e
        (andThen (write_at (tv_Payload e) 0 [0xf1]) (\<lambda>p.
         andThen (write_at p 1 [0x21]) (\<lambda>p.
           copy_at p 2 (length p) v4))))"

text \<open>The organisation of an IPv6 address is left zero.\<close>

definition newEUAddrV6 :: "ip \<Rightarrow> tv_ie result" where
  "newEUAddrV6 v6 =
     (let e = v1_New v1_IE_EndUserAddress (replicate 18 0) in
      set_payload e
        (andThen (write_at (replicate 18 0) 1 [0x57]) (\<lambda>p.
           copy_at p 2 (length p) v6)))"

definition v1_NewEndUserAddressByIP :: "ip \<Rightarrow> tv_ie option result" where
  "v1_NewEndUserAddressByIP ip =
     (if ip = [] then Inr None
      else if To4 ip \<noteq> [] then some_ie (newEUAddrV4 (To4 ip))
      else some_ie (newEUAddrV6 ip))"

definition v1_NewEndUserAddressPPP :: tv_ie where
  "v1_NewEndUserAddressPPP =
     (let e = v1_New v1_IE_EndUserAddress (replicate 2 0) in
      v1_ie_SetLength (e\<lparr>tv_Payload := [0xf0, 0xf1]\<rparr>))"

definition v1_NewEndUserAddress :: "string \<Rightarrow> tv_ie option result" where
  "v1_NewEndUserAddress addr =
     (if addr = ''ppp'' then Inr (Some v1_NewEndUserAddressPPP)
      else v1_NewEndUserAddressByIP (ParseIP addr))"

definition v1_NewEndUserAddressIPv4 :: "string \<Rightarrow> tv_ie result" where
  "v1_NewEndUserAddressIPv4 addr =
     (let v4 = To4 (ParseIP addr) in
      if v4 = [] then Inr (v1_New v1_IE_EndUserAddress [0xf1, 0x21]) else newEUAddrV4 v4)"

definition v1_NewEndUserAddressIPv6 :: "string \<Rightarrow> tv_ie result" where
  "v1_NewEndUserAddressIPv6 addr =
     (let v6 = To16 (ParseIP addr) in
      if v6 = [] then Inr (v1_New v1_IE_EndUserAddress [0xf1, 0x57]) else newEUAddrV6 v6)"

definition i1_EndUserAddress :: "tv_ie \<Rightarrow> bytes result" where
  "i1_EndUserAddress i =
     (if tv_Type i \<noteq> v1_IE_EndUserAddress then tv_wrong_type i else Inr (tv_Payload i))"

definition i1_PDPTypeOrganization :: "tv_ie \<Rightarrow> byte result" where
  "i1_PDPTypeOrganization = field_of v1_IE_EndUserAddress 1 (\<lambda>p. byte_at p 0)"

definition i1_PDPTypeNumber :: "tv_ie \<Rightarrow> byte result" where
  "i1_PDPTypeNumber = field_of v1_IE_EndUserAddress 2 (\<lambda>p. byte_at p 1)"

definition i1_IP :: "tv_ie \<Rightarrow> ip result" where
  "i1_IP i =
     (if length (tv_Payload i) < 4 then eof
      else if tv_Type i = v1_IE_EndUserAddress
      then andThen (must 0 (i1_PDPTypeOrganization i)) (\<lambda>org.
           if org \<noteq> 0xf1 then Inl (Error IEErrMalformed) else slice_from (tv_Payload i) 2)
      else if tv_Type i = v1_IE_GSNAddress then Inr (tv_Payload i)
      else tv_wrong_type i)"

section \<open>Location (rai.go, uli.go, mcc-mnc.go, lac.go, rac.go)\<close>

text \<open>The digits of the network codes: \<open>k\<close> gets the bytes of MCC and MNC.\<close>

definition with_plmn :: "string \<Rightarrow> string \<Rightarrow> (bytes \<Rightarrow> bytes \<Rightarrow> tv_ie result) \<Rightarrow> tv_ie option result" where
  "with_plmn mcc mnc k =
     tv_or_nil (\<lambda>mc. tv_or_nil (\<lambda>mn. some_ie (k mc mn)) (StrToSwappedBytes mnc ''f''))
       (StrToSwappedBytes mcc ''f'')"

definition v1_NewRouteingAreaIdentity :: "string \<Rightarrow> string \<Rightarrow> u16 \<Rightarrow> byte \<Rightarrow> tv_ie option result" where
  "v1_NewRouteingAreaIdentity mcc mnc lac rac =
     with_plmn mcc mnc (\<lambda>mc mn.
       let rai = v1_New v1_IE_RouteingAreaIdentity (replicate 6 0) in
       set_payload rai
         (andThen (copy_at (tv_Payload rai) 0 2 mc) (\<lambda>p.
          andThen (byte_at mn 0) (\<lambda>m.
          andThen (write_at p 2 [m]) (\<lambda>p.
          andThen (write_at p 3 (be16 lac)) (\<lambda>p.
            write_at p 5 [rac]))))))"

definition i1_RouteingAreaIdentity :: "tv_ie \<Rightarrow> bytes result" where
  "i1_RouteingAreaIdentity i =
     (if tv_Type i \<noteq> v1_IE_RouteingAreaIdentity then tv_wrong_type i else Inr (tv_Payload i))"

text \<open>What the three constructors of User Location Information share: the type, MCC, MNC and LAC.\<close>

definition uli_head :: "byte \<Rightarrow> bytes \<Rightarrow> bytes \<Rightarrow> u16 \<Rightarrow> bytes \<Rightarrow> bytes result" where
  "uli_head locType mc mn lac p =
     andThen (write_at p 0 [locType]) (\<lambda>p.
     andThen (copy_at p 1 3 mc) (\<lambda>p.
     andThen (byte_at mn 0) (\<lambda>m.
     andThen (write_at p 3 [m]) (\<lambda>p.
       write_at p 4 (be16 lac)))))"

definition v1_NewUserLocationInformationWithCGI :: "string \<Rightarrow> string \<Rightarrow> u16 \<Rightarrow> u16 \<Rightarrow> tv_ie option result" where
  "v1_NewUserLocationInformationWithCGI mcc mnc lac cgi =
     with_plmn mcc mnc (\<lambda>mc mn.
       let uli = v1_New v1_IE_UserLocationInformation (replicate 8 0) in
       set_payload uli (andThen (uli_head 0 mc mn lac (tv_Payload uli)) (\<lambda>p. write_at p 6 (be16 cgi))))"

definition v1_NewUserLocationInformationWithSAI :: "string \<Rightarrow> string \<Rightarrow> u16 \<Rightarrow> u16 \<Rightarrow> tv_ie option result" where
  "v1_NewUserLocationInformationWithSAI mcc mnc lac sac =
     with_plmn mcc mnc (\<lambda>mc mn.
       let uli = v1_New v1_IE_UserLocationInformation (replicate 8 0) in
       set_payload uli (andThen (uli_head 1 mc mn lac (tv_Payload uli)) (\<lambda>p. write_at p 6 (be16 sac))))"

definition v1_NewUserLocationInformationWithRAI :: "string \<Rightarrow> string \<Rightarrow> u16 \<Rightarrow> byte \<Rightarrow> tv_ie option result" where
  "v1_NewUserLocationInformationWithRAI mcc mnc lac rac =
     with_plmn mcc mnc (\<lambda>mc mn.
       let uli = v1_New v1_IE_UserLocationInformation (replicate 7 0) in
       set_payload uli (andThen (uli_head 2 mc mn lac (tv_Payload uli)) (\<lambda>p. write_at p 6 [rac])))"

definition i1_UserLocationInformation :: "tv_ie \<Rightarrow> bytes result" where
  "i1_UserLocationInformation i =
     (if tv_Type i \<noteq> v1_IE_UserLocationInformation then tv_wrong_type i else Inr (tv_Payload i))"

definition uli_code :: "byte \<Rightarrow> tv_ie \<Rightarrow> u16 result" where
  "uli_code locType i =
     field_of v1_IE_UserLocationInformation 2 (\<lambda>p.
       andThen (byte_at p 0) (\<lambda>l.
       if l = locType then (if length p < 8 then eof else get16 p 6) else tv_wrong_type i)) i"

definition i1_CGI :: "tv_ie \<Rightarrow> u16 result" where
  "i1_CGI = uli_code 0"

definition i1_SAC :: "tv_ie \<Rightarrow> u16 result" where
  "i1_SAC = uli_code 1"

definition i1_MCC :: "tv_ie \<Rightarrow> string result" where
  "i1_MCC i =
     (if tv_Type i = v1_IE_RouteingAreaIdentity
      then (if length (tv_Payload i) < 2 then eof else andThen (slice (tv_Payload i) 0 2) DecodeMCC)
      else if tv_Type i = v1_IE_UserLocationInformation
      then (if length (tv_Payload i) < 3 then eof else andThen (slice (tv_Payload i) 1 3) DecodeMCC)
      else tv_wrong_type i)"

definition i1_MNC :: "tv_ie \<Rightarrow> string result" where
  "i1_MNC i =
     (if tv_Type i = v1_IE_RouteingAreaIdentity
      then (if length (tv_Payload i) < 3 then eof else andThen (slice (tv_Payload i) 1 3) DecodeMNC)
      else if tv_Type i = v1_IE_UserLocationInformation
      then (if length (tv_Payload i) < 4 then eof else andThen (slice (tv_Payload i) 2 4) DecodeMNC)
      else tv_wrong_type i)"

definition i1_LAC :: "tv_ie \<Rightarrow> u16 result" where
  "i1_LAC i =
     (if tv_Type i = v1_IE_RouteingAreaIdentity
      then (if length (tv_Payload i) < 5 then eof else get16 (tv_Payload i) 3)
      else if tv_Type i = v1_IE_UserLocationInformation
      then (if length (tv_Payload i) < 6 then eof else get16 (tv_Payload i) 4)
      else tv_wrong_type i)"

definition i1_RAC :: "tv_ie \<Rightarrow> byte result" where
  "i1_RAC i =
     (if tv_Type i = v1_IE_RouteingAreaIdentity
      then (if length (tv_Payload i) < 6 then eof else byte_at (tv_Payload i) 5)
      else if tv_Type i = v1_IE_UserLocationInformation
      then (if length (tv_Payload i) < 7 then eof
            else andThen (byte_at (tv_Payload i) 0) (\<lambda>l.
                 if l = 2 then byte_at (tv_Payload i) 6 else tv_wrong_type i))
      else tv_wrong_type i)"

section \<open>Authentication (authentication-triplet.go, authentication-quintuplet.go)\<close>

definition v1_NewAuthenticationTriplet :: "bytes \<Rightarrow> bytes \<Rightarrow> bytes \<Rightarrow> tv_ie result" where
  "v1_NewAuthenticationTriplet rand sres kc =
     (let i = v1_New v1_IE_AuthenticationTriplet (replicate 28 0) in
      set_payload i
        (andThen (copy_at (tv_Payload i) 0 16 rand) (\<lambda>p.
         andThen (copy_at p 16 20 sres) (\<lambda>p.
           copy_at p 20 28 kc))))"

definition i1_AuthenticationTriplet :: "tv_ie \<Rightarrow> bytes result" where
  "i1_AuthenticationTriplet i =
     (if tv_Type i \<noteq> v1_IE_AuthenticationTriplet then tv_wrong_type i else Inr (tv_Payload i))"

definition i1_RAND :: "tv_ie \<Rightarrow> bytes result" where
  "i1_RAND i =
     (if tv_Type i \<in> {v1_IE_AuthenticationTriplet, v1_IE_AuthenticationQuintuplet}
      then (if length (tv_Payload i) < 16 then eof else slice (tv_Payload i) 0 16)
      else tv_wrong_type i)"

definition i1_SRES :: "tv_ie \<Rightarrow> bytes result" where
  "i1_SRES = field_of v1_IE_AuthenticationTriplet 20 (\<lambda>p. slice p 16 20)"

definition i1_Kc :: "tv_ie \<Rightarrow> bytes result" where
  "i1_Kc = field_of v1_IE_AuthenticationTriplet 28 (\<lambda>p. slice p 20 28)"

definition v1_NewAuthenticationQuintuplet ::
  "bytes \<Rightarrow> bytes \<Rightarrow> bytes \<Rightarrow> bytes \<Rightarrow> bytes \<Rightarrow> tv_ie result" where
  "v1_NewAuthenticationQuintuplet rand xres ck ik autn =
     (let xresLen = length xres; autnLen = length autn;
          i = v1_New v1_IE_AuthenticationQuintuplet (replicate (16+1+xresLen+16+16+1+autnLen) 0) in
      set_payload i
        (andThen (copy_at (tv_Payload i) 0 16 rand) (\<lambda>p.
         andThen (write_at p 16 [of_nat xresLen]) (\<lambda>p.
         let offset = 17 in
         andThen (copy_at p offset (offset + xresLen) xres) (\<lambda>p.
         let offset = offset + xresLen in
         andThen (copy_at p offset (offset + 16) ck) (\<lambda>p.
         let offset = offset + 16 in
         andThen (copy_at p offset (offset + 16) ik) (\<lambda>p.
         let offset = offset + 16 in
         andThen (write_at p offset [of_nat autnLen]) (\<lambda>p.
         let offset = offset + 1 in
           copy_at p offset (offset + autnLen) autn))))))))"

definition i1_AuthenticationQuintuplet :: "tv_ie \<Rightarrow> bytes result" where
  "i1_AuthenticationQuintuplet = field_of v1_IE_AuthenticationQuintuplet 1 Inr"

text \<open>An empty payload gives nil without an error, whatever the type.\<close>

definition i1_XRES :: "tv_ie \<Rightarrow> bytes result" where
  "i1_XRES i =
     (if length (tv_Payload i) = 0 then Inr []
      else field_of v1_IE_AuthenticationQuintuplet 17 (\<lambda>p.
        andThen (byte_at p 16) (\<lambda>xresLen.
        if length p < 17 + unat xresLen then eof else slice p 17 (17 + unat xresLen))) i)"

definition i1_CK :: "tv_ie \<Rightarrow> bytes result" where
  "i1_CK = field_of v1_IE_AuthenticationQuintuplet 18 (\<lambda>p.
     andThen (byte_at p 16) (\<lambda>x. let offset = 17 + unat x in
     if length p < offset + 16 then eof else slice p offset (offset + 16)))"

definition i1_IK :: "tv_ie \<Rightarrow> bytes result" where
  "i1_IK = field_of v1_IE_AuthenticationQuintuplet 34 (\<lambda>p.
     andThen (byte_at p 16) (\<lambda>x. let offset = 33 + unat x in
     if length p < offset + 16 then eof else slice p offset (offset + 16)))"

definition i1_AUTN :: "tv_ie \<Rightarrow> bytes result" where
  "i1_AUTN = field_of v1_IE_AuthenticationQuintuplet 50 (\<lambda>p.
     andThen (byte_at p 16) (\<lambda>x. let offset = 49 + unat x in
     andThen (byte_at p 50) (\<lambda>autnLen.
     if length p < offset + unat autnLen then eof else slice p offset (offset + unat autnLen))))"

section \<open>Octet strings (private-extension.go, qos-profile.go)\<close>

definition v1_NewPrivateExtension :: "u16 \<Rightarrow> bytes \<Rightarrow> tv_ie result" where
  "v1_NewPrivateExtension eid val =
     (let i = v1_New v1_IE_PrivateExtension (replicate (2 + length val) 0) in
      set_payload i
        (andThen (write_at (tv_Payload i) 0 (be16 eid)) (\<lambda>p. copy_at p 2 (length p) val)))"

definition i1_PrivateExtension :: "tv_ie \<Rightarrow> bytes result" where
  "i1_PrivateExtension i =
     (if tv_Type i \<noteq> v1_IE_PrivateExtension then tv_wrong_type i else Inr (tv_Payload i))"

definition i1_ExtensionIdentifier :: "tv_ie \<Rightarrow> u16 result" where
  "i1_ExtensionIdentifier = field_of v1_IE_PrivateExtension 2 (\<lambda>p. get16 p 0)"

definition i1_ExtensionValue :: "tv_ie \<Rightarrow> bytes result" where
  "i1_ExtensionValue = field_of v1_IE_PrivateExtension 3 (\<lambda>p. slice_from p 2)"

definition v1_NewQoSProfile :: "bytes \<Rightarrow> tv_ie" where
  "v1_NewQoSProfile payload = v1_New v1_IE_QoSProfile payload"

definition i1_QoSProfile :: "tv_ie \<Rightarrow> bytes result" where
  "i1_QoSProfile i = (if tv_Type i \<noteq> v1_IE_QoSProfile then tv_wrong_type i else Inr (tv_Payload i))"

section \<open>Protocol Configuration Options (pco.go)\<close>

record pco_option =
  o_ProtocolID :: u16
  o_Length :: byte
  o_Contents :: bytes

definition v1_NewConfigurationProtocolOption :: "u16 \<Rightarrow> bytes \<Rightarrow> pco_option" where
  "v1_NewConfigurationProtocolOption pid contents =
     \<lparr>o_ProtocolID = pid, o_Length = of_nat (length contents), o_Contents = contents\<rparr>"

definition o_MarshalLen :: "pco_option \<Rightarrow> nat" where
  "o_MarshalLen c = 3 + length (o_Contents c)"

text \<open>Writing an option into the rest of the buffer, from \<open>offset\<close> on.\<close>

definition o_MarshalTo :: "pco_option \<Rightarrow> nat \<Rightarrow> bytes \<Rightarrow> bytes result" where
  "o_MarshalTo c offset b =
     andThen (write_at b offset (be16 (o_ProtocolID c))) (\<lambda>b.
     andThen (write_at b (offset + 2) [o_Length c]) (\<lambda>b.
     if o_Length c \<noteq> 0 then copy_at b (offset + 3) (length b) (o_Contents c) else Inr b))"

text \<open>The contents are copied into a nil slice, which keeps nothing of them.\<close>

definition o_UnmarshalBinary :: "bytes \<Rightarrow> pco_option result" where
  "o_UnmarshalBinary b =
     (if length b < 4 then Inl (Error IEErrTooShortToParse)
      else
        andThen (get16 b 0) (\<lambda>pid.
        andThen (byte_at b 2) (\<lambda>len.
        andThen (if len \<noteq> 0 then andThen (slice_from b 3) (\<lambda>r. copy_at [] 0 0 r) else Inr [])
          (\<lambda>contents. Inr \<lparr>o_ProtocolID = pid, o_Length = len, o_Contents = contents\<rparr>))))"

record pco_payload =
  ConfigurationProtocol :: byte
  ConfigurationProtocolOptions :: "pco_option list"

definition v1_NewPCOPayload :: "byte \<Rightarrow> pco_option list \<Rightarrow> pco_payload" where
  "v1_NewPCOPayload configProto opts =
     \<lparr>ConfigurationProtocol = configProto, ConfigurationProtocolOptions = opts\<rparr>"

definition pco_MarshalLen :: "pco_payload \<Rightarrow> nat" where
  "pco_MarshalLen p = 1 + sum_list (map o_MarshalLen (ConfigurationProtocolOptions p))"

fun pco_put :: "pco_option list \<Rightarrow> nat \<Rightarrow> bytes \<Rightarrow> bytes result" where
  "pco_put [] offset b = Inr b"
| "pco_put (opt # opts) offset b =
     andThen (o_MarshalTo opt offset b) (\<lambda>b. pco_put opts (offset + o_MarshalLen opt) b)"

definition pco_MarshalTo :: "pco_payload \<Rightarrow> bytes \<Rightarrow> bytes result" where
  "pco_MarshalTo p b =
     andThen (write_at b 0 [(ConfigurationProtocol p AND 0x07) OR 0x80]) (\<lambda>b.
       pco_put (ConfigurationProtocolOptions p) 1 b)"

lemma slice_from_smaller: "slice_from b n = Inr r \<Longrightarrow> 0 < n \<Longrightarrow> b \<noteq> [] \<Longrightarrow> length r < length b"
  by (auto simp: slice_from_def slice_def split: if_splits)

definition o_Marshal :: "pco_option \<Rightarrow> bytes result" where
  "o_Marshal c = o_MarshalTo c 0 (replicate (o_MarshalLen c) 0)"

definition v1_ParseConfigurationProtocolOption :: "bytes \<Rightarrow> pco_option result" where
  "v1_ParseConfigurationProtocolOption b = o_UnmarshalBinary b"

definition pco_Marshal :: "pco_payload \<Rightarrow> bytes result" where
  "pco_Marshal p = pco_MarshalTo p (replicate (pco_MarshalLen p) 0)"

function pco_get :: "bytes \<Rightarrow> pco_option list result" where
  "pco_get b =
     (if b = [] then Inr []
      else andThen (o_UnmarshalBinary b) (\<lambda>opt.
           andThen (slice_from b (o_MarshalLen opt)) (\<lambda>rest.
           andThen (pco_get rest) (\<lambda>opts. Inr (opt # opts)))))"
  by pat_completeness auto
termination
  by (relation "measure length") (auto simp: o_MarshalLen_def dest: slice_from_smaller)

declare pco_get.simps [simp del]

definition pco_UnmarshalBinary :: "bytes \<Rightarrow> pco_payload result" where
  "pco_UnmarshalBinary b =
     (if length b = 0 then Inl (Error IEErrTooShortToParse)
      else
        andThen (byte_at b 0) (\<lambda>b0.
        andThen (slice_from b 1) (\<lambda>rest.
        andThen (pco_get rest) (\<lambda>opts.
          Inr \<lparr>ConfigurationProtocol = b0 AND 0x07, ConfigurationProtocolOptions = opts\<rparr>))))"

definition v1_ParsePCOPayload :: "bytes \<Rightarrow> pco_payload result" where
  "v1_ParsePCOPayload b = pco_UnmarshalBinary b"

definition v1_NewProtocolConfigurationOptions :: "byte \<Rightarrow> pco_option list \<Rightarrow> tv_ie option result" where
  "v1_NewProtocolConfigurationOptions configProto options =
     (let pco = v1_NewPCOPayload configProto options;
          i = v1_New v1_IE_ProtocolConfigurationOptions (replicate (pco_MarshalLen pco) 0) in
      tv_or_nil (\<lambda>p. Inr (Some (i\<lparr>tv_Payload := p\<rparr>))) (pco_MarshalTo pco (tv_Payload i)))"

definition i1_ProtocolConfigurationOptions :: "tv_ie \<Rightarrow> pco_payload result" where
  "i1_ProtocolConfigurationOptions i =
     (if tv_Type i \<noteq> v1_IE_ProtocolConfigurationOptions then tv_wrong_type i
      else pco_UnmarshalBinary (tv_Payload i))"

section \<open>Writing fields one after the other\<close>

text \<open>A constructor fills a buffer of zeros from the front; each step leaves zeros behind it.\<close>

lemma copy_next:
  "length pre = i \<Longrightarrow> i + length xs = j \<Longrightarrow> length xs \<le> n \<Longrightarrow>
     copy_at (pre @ replicate n 0) i j xs = Inr (pre @ xs @ replicate (n - length xs) 0)"
  by (simp add: copy_at_def)

lemma write_next:
  "length pre = i \<Longrightarrow> length xs \<le> n \<Longrightarrow>
     write_at (pre @ replicate n 0) i xs = Inr (pre @ xs @ replicate (n - length xs) 0)"
  by (simp add: write_at_def)

lemmas fill_simps = copy_next [where pre = "[]", simplified] write_next [where pre = "[]", simplified]
  copy_next write_next

lemma value_simps [simp]:
  "tv_or_nil mk (Inr b) = mk b" "some_ie (Inr i) = Inr (Some i)"
  "set_payload i (Inr p) = Inr (i\<lparr>tv_Payload := p\<rparr>)" "must z (Inr v) = Inr v" "must z (Inl (Error e)) = Inr z"
  by (simp_all add: tv_or_nil_def some_ie_def set_payload_def must_def)

lemma field_of_ok [simp]:
  "tv_Type i = t \<Longrightarrow> n \<le> length (tv_Payload i) \<Longrightarrow> field_of t n f i = f (tv_Payload i)"
  by (simp add: field_of_def)

section \<open>Authentication vectors\<close>

definition quintuplet_wire :: "bytes \<Rightarrow> bytes \<Rightarrow> bytes \<Rightarrow> bytes \<Rightarrow> bytes \<Rightarrow> bytes" where
  "quintuplet_wire rand xres ck ik autn =
     rand @ [of_nat (length xres)] @ xres @ ck @ ik @ [of_nat (length autn)] @ autn"

lemma NewAuthenticationQuintuplet_wire:
  assumes "length rand = 16" "length ck = 16" "length ik = 16"
  shows "v1_NewAuthenticationQuintuplet rand xres ck ik autn = Inr (
    (v1_New v1_IE_AuthenticationQuintuplet (replicate (50 + length xres + length autn) 0))
      \<lparr>tv_Payload := quintuplet_wire rand xres ck ik autn\<rparr>)"
proof -
  let ?n = "length xres" and ?k = "length autn"
  have "copy_at (replicate (16 + 1 + ?n + 16 + 16 + 1 + ?k) 0) 0 16 rand = Inr (rand @ replicate (34 + ?n + ?k) 0)"
    using assms by (simp add: fill_simps)
  moreover have "write_at (rand @ replicate (34 + ?n + ?k) 0) 16 [of_nat ?n] =
      Inr ((rand @ [of_nat ?n]) @ replicate (33 + ?n + ?k) 0)"
    using assms by (subst write_next) simp_all
  moreover have "copy_at ((rand @ [of_nat ?n]) @ replicate (33 + ?n + ?k) 0) 17 (17 + ?n) xres =
      Inr ((rand @ [of_nat ?n] @ xres) @ replicate (33 + ?k) 0)"
    using assms by (subst copy_next) simp_all
  moreover have "copy_at ((rand @ [of_nat ?n] @ xres) @ replicate (33 + ?k) 0) (17 + ?n) (17 + ?n + 16) ck =
      Inr ((rand @ [of_nat ?n] @ xres @ ck) @ replicate (17 + ?k) 0)"
    using assms by (subst copy_next) simp_all
  moreover have "copy_at ((rand @ [of_nat ?n] @ xres @ ck) @ replicate (17 + ?k) 0) (17 + ?n + 16) (17 + ?n + 16 + 16) ik =
      Inr ((rand @ [of_nat ?n] @ xres @ ck @ ik) @ replicate (1 + ?k) 0)"
    using assms by (subst copy_next) simp_all
  moreover have "write_at ((rand @ [of_nat ?n] @ xres @ ck @ ik) @ replicate (1 + ?k) 0) (17 + ?n + 16 + 16) [of_nat ?k] =
      Inr ((rand @ [of_nat ?n] @ xres @ ck @ ik @ [of_nat ?k]) @ replicate ?k 0)"
    using assms by (subst write_next) simp_all
  moreover have "copy_at ((rand @ [of_nat ?n] @ xres @ ck @ ik @ [of_nat ?k]) @ replicate ?k 0)
      (17 + ?n + 16 + 16 + 1) (17 + ?n + 16 + 16 + 1 + ?k) autn = Inr (quintuplet_wire rand xres ck ik autn)"
    using assms by (subst copy_next) (simp_all add: quintuplet_wire_def)
  ultimately show ?thesis
    unfolding v1_NewAuthenticationQuintuplet_def Let_def v1_New_sel andThen_Inr
    by (simp only: andThen_Inr value_simps) (simp add: add.commute add.left_commute)
qed

section \<open>Network codes\<close>

lemma DecodeMCC_2: "DecodeMCC [x, y] = Inr [hex_char x, hex_char (drop_bit 4 x), hex_char y]"
  by (simp add: DecodeMCC_def str_at_def)

lemma DecodeMNC_2:
  "hex_char (drop_bit 4 x) = CHR ''f'' \<Longrightarrow> DecodeMNC [x, y] = Inr [hex_char y, hex_char (drop_bit 4 y)]"
  by (simp add: DecodeMNC_def str_at_def)

lemma plmn_digits:
  assumes "plmn_ok mcc mnc"
  obtains x y z zs where "StrToSwappedBytes mcc ''f'' = Inr [x, y]" "StrToSwappedBytes mnc ''f'' = Inr (z # zs)"
    "DecodeMCC [x, y] = Inr mcc" "DecodeMNC [y, z] = Inr (take 2 mnc)"
proof -
  from assms obtain a b c where mcc: "mcc = [a, b, c]"
    by (auto simp: plmn_ok_def numeral_eq_Suc length_Suc_conv)
  have hex: "list_all hex_digit mcc" "list_all hex_digit mnc"
    using assms by (auto simp: plmn_ok_def list_all_iff dec_digit_hex)
  have "hex_digit (CHR ''f'')" by (simp add: hex_digit_def)
  with hex mcc have c: "DecodeMCC [swap_byte (pack (nibble a) (nibble b)), swap_byte (pack (nibble c) (nibble (CHR ''f'')))] = Inr mcc"
    by (simp add: DecodeMCC_2 swapped_pair_chars)
  have n: "DecodeMNC [swap_byte (pack (nibble c) (nibble (CHR ''f''))), swap_byte (pack (nibble d) (nibble e))] = Inr [d, e]"
    if "hex_digit d" "hex_digit e" for d e
    using that hex mcc \<open>hex_digit (CHR ''f'')\<close> by (simp add: DecodeMNC_2 swapped_pair_chars)
  from assms consider d e where "mnc = [d, e]" | d e g where "mnc = [d, e, g]"
    by (auto simp: plmn_ok_def numeral_eq_Suc length_Suc_conv)
  then show thesis
  proof cases
    case 1
    with hex mcc c n [of d e] that show ?thesis
      using StrToSwappedBytes_3 [of a b c] StrToSwappedBytes_2 [of d e] by simp
  next
    case 2
    with hex mcc c n [of d e] that show ?thesis
      using StrToSwappedBytes_3 [of a b c] StrToSwappedBytes_3 [of d e g] by simp
  qed
qed

lemma rai_fields:
  assumes "tv_Type i = v1_IE_RouteingAreaIdentity" "tv_Payload i = [x, y, z] @ be16 lac @ [rac]"
  shows "i1_MCC i = DecodeMCC [x, y]" "i1_MNC i = DecodeMNC [y, z]" "i1_LAC i = Inr lac" "i1_RAC i = Inr rac"
  using assms join16_be16 [of lac]
  by (simp_all add: i1_MCC_def i1_MNC_def i1_LAC_def i1_RAC_def slice_def get16_def byte_at_def be16_def)

lemma uli_fields:
  assumes "tv_Type i = v1_IE_UserLocationInformation" "tv_Payload i = [l, x, y, z] @ be16 lac @ r"
  shows "i1_MCC i = DecodeMCC [x, y]" "i1_MNC i = DecodeMNC [y, z]" "i1_LAC i = Inr lac"
    "l = 2 \<Longrightarrow> r = [rac] \<Longrightarrow> i1_RAC i = Inr rac"
    "l = 0 \<Longrightarrow> r = be16 code \<Longrightarrow> i1_CGI i = Inr code"
    "l = 1 \<Longrightarrow> r = be16 code \<Longrightarrow> i1_SAC i = Inr code"
  using assms join16_be16 [of lac] join16_be16 [of code]
  by (simp_all add: i1_MCC_def i1_MNC_def i1_LAC_def i1_RAC_def i1_CGI_def i1_SAC_def uli_code_def
      slice_def get16_def byte_at_def be16_def)

lemma location_wires:
  assumes "StrToSwappedBytes mcc ''f'' = Inr [x, y]" "StrToSwappedBytes mnc ''f'' = Inr (z # zs)"
  shows "v1_NewRouteingAreaIdentity mcc mnc lac rac = Inr (Some
      ((v1_New v1_IE_RouteingAreaIdentity (replicate 6 0))\<lparr>tv_Payload := [x, y, z] @ be16 lac @ [rac]\<rparr>))"
    "v1_NewUserLocationInformationWithCGI mcc mnc lac cgi = Inr (Some
      ((v1_New v1_IE_UserLocationInformation (replicate 8 0))\<lparr>tv_Payload := [0, x, y, z] @ be16 lac @ be16 cgi\<rparr>))"
    "v1_NewUserLocationInformationWithSAI mcc mnc lac sac = Inr (Some
      ((v1_New v1_IE_UserLocationInformation (replicate 8 0))\<lparr>tv_Payload := [1, x, y, z] @ be16 lac @ be16 sac\<rparr>))"
    "v1_NewUserLocationInformationWithRAI mcc mnc lac rac = Inr (Some
      ((v1_New v1_IE_UserLocationInformation (replicate 7 0))\<lparr>tv_Payload := [2, x, y, z] @ be16 lac @ [rac]\<rparr>))"
  using assms
  by (simp_all add: v1_NewRouteingAreaIdentity_def v1_NewUserLocationInformationWithCGI_def
      v1_NewUserLocationInformationWithSAI_def v1_NewUserLocationInformationWithRAI_def
      with_plmn_def uli_head_def copy_at_def write_at_def byte_at_def be16_def numeral_eq_Suc del: v1_New_sel(1))

section \<open>Protocol Configuration Options\<close>

lemma pco_get_error: "b \<noteq> [] \<Longrightarrow> pco_get b = Inl (Error IEErrTooShortToParse)"
proof (induction b rule: pco_get.induct)
  case (1 b)
  show ?case
  proof (cases "length b < 4")
    case True
    then show ?thesis using 1(2) by (subst pco_get.simps) (simp add: o_UnmarshalBinary_def)
  next
    case False
    then have o: "o_UnmarshalBinary b =
        Inr \<lparr>o_ProtocolID = join16 (b ! 0) (b ! 1), o_Length = b ! 2, o_Contents = []\<rparr>" (is "_ = Inr ?o")
      by (simp add: o_UnmarshalBinary_def get16_def byte_at_def slice_from_def slice_def copy_at_def)
    have r: "slice_from b (o_MarshalLen ?o) = Inr (drop 3 b)"
      using False by (simp add: o_MarshalLen_def slice_from_def slice_def)
    have "drop 3 b \<noteq> []" using False by simp
    from 1(1) [OF 1(2) o r this] show ?thesis
      using 1(2) o r by (subst pco_get.simps) simp
  qed
qed

section \<open>Properties\<close>

text \<open>
  Location elements of GTPv1: for a network code of decimal digits, Routeing Area Identity and
  the three forms of User Location Information give back the MCC, the first two digits of the MNC
  (the constructors drop the third), the location area code, and the routing area code, cell or
  service area code they were built with.
\<close>

lemma v1_location_roundtrip:
  assumes "plmn_ok mcc mnc"
  shows "\<exists>r u v w. v1_NewRouteingAreaIdentity mcc mnc lac rac = Inr (Some r) \<and>
     v1_NewUserLocationInformationWithCGI mcc mnc lac cgi = Inr (Some u) \<and>
     v1_NewUserLocationInformationWithSAI mcc mnc lac sac = Inr (Some v) \<and>
     v1_NewUserLocationInformationWithRAI mcc mnc lac rac = Inr (Some w) \<and>
     i1_MCC ` {r, u, v, w} = {Inr mcc} \<and> i1_MNC ` {r, u, v, w} = {Inr (take 2 mnc)} \<and>
     i1_LAC ` {r, u, v, w} = {Inr lac} \<and> i1_RAC ` {r, w} = {Inr rac} \<and>
     i1_CGI u = Inr cgi \<and> i1_SAC v = Inr sac"
proof -
  obtain x y z zs where b: "StrToSwappedBytes mcc ''f'' = Inr [x, y]" "StrToSwappedBytes mnc ''f'' = Inr (z # zs)"
    "DecodeMCC [x, y] = Inr mcc" "DecodeMNC [y, z] = Inr (take 2 mnc)"
    by (rule plmn_digits [OF assms])
  show ?thesis
    unfolding location_wires [OF b(1,2)]
    by (rule exI, rule exI, rule exI, rule exI, intro conjI, (rule refl)+)
       (simp_all add: rai_fields [where x = x and y = y and z = z and lac = lac and rac = rac]
          uli_fields [where x = x and y = y and z = z and lac = lac] b(3,4))
qed

lemma v1_location_roundtrip_witness:
  "\<exists>u. v1_NewUserLocationInformationWithCGI ''440'' ''10'' 7 9 = Inr (Some u) \<and>
     i1_MCC u = Inr ''440'' \<and> i1_MNC u = Inr ''10'' \<and> i1_LAC u = Inr 7 \<and> i1_CGI u = Inr 9"
proof -
  have "plmn_ok ''440'' ''10''" by (simp add: plmn_ok_def dec_digit_def)
  from v1_location_roundtrip [OF this, of 7 1 9 2] show ?thesis by auto
qed

text \<open>
  An authentication quintuplet gives back the random challenge, the expected response (of up to
  255 bytes) and both keys it was built from.
\<close>

lemma v1_quintuplet_roundtrip:
  assumes "length rand = 16" "length xres < 256" "length ck = 16" "length ik = 16"
  shows "\<exists>i. v1_NewAuthenticationQuintuplet rand xres ck ik autn = Inr i \<and>
     i1_RAND i = Inr rand \<and> i1_XRES i = Inr xres \<and> i1_CK i = Inr ck \<and> i1_IK i = Inr ik"
proof -
  let ?p = "quintuplet_wire rand xres ck ik autn"
  let ?i = "(v1_New v1_IE_AuthenticationQuintuplet (replicate (50 + length xres + length autn) 0))\<lparr>tv_Payload := ?p\<rparr>"
  have len: "length ?p = 50 + length xres + length autn" using assms by (simp add: quintuplet_wire_def)
  have x: "?p ! 16 = of_nat (length xres)" "unat (of_nat (length xres) :: byte) = length xres"
    using assms by (simp_all add: quintuplet_wire_def nth_append unat_of_nat)
  have "take 16 ?p = rand" "take (length xres) (drop 17 ?p) = xres"
    "take 16 (drop (17 + length xres) ?p) = ck" "take 16 (drop (33 + length xres) ?p) = ik"
    using assms by (simp_all add: quintuplet_wire_def drop_Cons')
  then have "i1_RAND ?i = Inr rand" "i1_XRES ?i = Inr xres" "i1_CK ?i = Inr ck" "i1_IK ?i = Inr ik"
    using x len by (simp_all add: i1_RAND_def i1_XRES_def i1_CK_def i1_IK_def slice_def byte_at_def)
  then show ?thesis using NewAuthenticationQuintuplet_wire [OF assms(1,3,4), of xres autn] by blast
qed

lemma v1_quintuplet_roundtrip_witness:
  "\<exists>i. v1_NewAuthenticationQuintuplet (replicate 16 1) [2, 3] (replicate 16 4) (replicate 16 5) [6] = Inr i \<and>
     i1_XRES i = Inr [2, 3] \<and> i1_IK i = Inr (replicate 16 5)"
  using v1_quintuplet_roundtrip [of "replicate 16 1" "[2, 3]" "replicate 16 4" "replicate 16 5" "[6]"] by auto

text \<open>
  Protocol Configuration Options of GTPv1 are never read back: the decoder of an option copies
  the contents into a nil slice and then skips only the three bytes of the option's header, so it
  accepts a payload exactly when it is the single byte without any option, and answers "too short"
  to every other one.
\<close>

lemma v1_pco_rejected:
  "pco_UnmarshalBinary b =
     (if length b = 1 then Inr \<lparr>ConfigurationProtocol = b ! 0 AND 7, ConfigurationProtocolOptions = []\<rparr>
      else Inl (Error IEErrTooShortToParse))"
proof (cases b)
  case (Cons x r)
  have "pco_get [] = Inr []" by (subst pco_get.simps) simp
  then show ?thesis
    using Cons pco_get_error [of r]
    by (cases "r = []") (simp_all add: pco_UnmarshalBinary_def byte_at_def slice_from_def slice_def)
qed (simp add: pco_UnmarshalBinary_def)

text \<open>An IPv6 end user address is refused by the accessor: its organisation byte is left zero.\<close>

lemma end_user_address_IPv6:
  assumes "length v6 = 16"
  shows "\<exists>e. newEUAddrV6 v6 = Inr e \<and> i1_IP e = Inl (Error IEErrMalformed)"
proof -
  have "write_at (replicate 18 0) 1 [0x57] = Inr ([0, 0x57] @ replicate 16 0)"
    by (simp add: write_at_def numeral_eq_Suc)
  moreover have "copy_at ([0, 0x57] @ replicate 16 0) 2 18 v6 = Inr ([0, 0x57] @ v6)"
    using assms by (subst copy_next) simp_all
  ultimately show ?thesis
    using assms by (simp add: newEUAddrV6_def i1_IP_def i1_PDPTypeOrganization_def byte_at_def)
qed

lemma APNRestriction_rejected:
  "i1_APNRestriction (v1_NewAPNRestriction v) = Inl (Error (IEInvalidTypeError v1_IE_APNRestriction))"
  by (simp add: i1_APNRestriction_def v1_NewAPNRestriction_def v1_newUint8ValIE_def field_of_def)

end
