(* ===== verification/V1UPlane.thy ===== *)
theory V1UPlane
  imports V1Parse V1IEValues GoMap "HOL-Library.AList"
begin

text \<open>
  The GTPv1-U connection (\<open>src/gtpv1/u-conn.go\<close>, \<open>handlers.go\<close>, \<open>tunnel.go\<close>, \<open>utils.go\<close>):
  encapsulation of user packets, the dispatch of incoming datagrams, relaying of T-PDUs between
  connections, Error Indications and the channel of unhandled T-PDUs.

  Relaying makes one connection write to the socket of another, so the state \<open>uworld\<close> holds all
  connections; a pointer to a connection is its index. An operation maps a world to a result and
  the world afterwards; the mutexes are left out, each operation runs to its end. \<open>w_sent\<close> keeps
  the datagrams written, with the connection and the address. What the connection cannot know
  comes with \<open>uenv\<close>: whether the n-th write succeeds, and what the user's handlers do.

  \<open>u_tpduCh\<close> are the T-PDUs whose goroutines wait to hand them to \<open>ReadFromGTP\<close>: a reader takes any
  one of them, and each is given up after three seconds. The channel itself is never closed. The
  table of reserved TEIDs keeps the time of the reservation, a number here. Sockets, deadlines and
  kernel tunnels (\<open>tunnel_linux.go\<close>) are not modelled, nor is log output.
\<close>

section \<open>The state\<close>

datatype u_handler = UTPDU | UEchoRequest | UEchoResponse | UErrorIndication | UUser nat

record u_peer =
  peer_teid :: u32
  peer_addr :: addr
  peer_srcConn :: nat

record tpdu_set =
  ts_raddr :: addr
  ts_teid :: u32
  ts_seq :: u16
  ts_payload :: bytes

record uconn =
  u_laddr :: addr
  u_msgHandlerMap :: "byte \<rightharpoonup> u_handler"
  u_iteiMap :: "u32 \<rightharpoonup> nat"
  u_tpduCh :: "tpdu_set list"
  u_closed :: bool
  u_relayMap :: "(u32 \<times> u_peer) list"
  u_errIndEnabled :: bool
  u_kernel :: bool

record uworld =
  w_conns :: "uconn list"
  w_writes :: nat
  w_sent :: "(nat \<times> bytes \<times> addr) list"

type_synonym 'a uop = "uworld \<Rightarrow> 'a result \<times> uworld"

record uenv =
  ue_write :: "nat \<Rightarrow> bool"
  ue_user :: "nat \<Rightarrow> nat \<Rightarrow> addr \<Rightarrow> v1_message \<Rightarrow> unit uop"

text \<open>The relay table is a Go map used through lookups, insertions, deletions and its length.\<close>

definition relay_load :: "('k \<times> 'v) list \<Rightarrow> 'k \<Rightarrow> 'v option" where
  "relay_load m k = map_of m k"

definition relay_store :: "('k \<times> 'v) list \<Rightarrow> 'k \<Rightarrow> 'v \<Rightarrow> ('k \<times> 'v) list" where
  "relay_store m k v = AList.update k v m"

definition relay_delete :: "('k \<times> 'v) list \<Rightarrow> 'k \<Rightarrow> ('k \<times> 'v) list" where
  "relay_delete m k = AList.delete k m"

interpretation relay_map: go_map relay_load relay_store relay_delete
  by unfold_locales
     (simp_all add: relay_load_def relay_store_def relay_delete_def update_conv' delete_conv')

abbreviation uconn_at :: "uworld \<Rightarrow> nat \<Rightarrow> uconn" where
  "uconn_at w u \<equiv> w_conns w ! u"

definition upd_uconn :: "nat \<Rightarrow> (uconn \<Rightarrow> uconn) \<Rightarrow> uworld \<Rightarrow> uworld" where
  "upd_uconn u f w = w\<lparr>w_conns := (w_conns w)[u := f (w_conns w ! u)]\<rparr>"

definition u_defaultHandlers :: "byte \<rightharpoonup> u_handler" where
  "u_defaultHandlers =
     [v1_MsgTypeTPDU \<mapsto> UTPDU, v1_MsgTypeEchoRequest \<mapsto> UEchoRequest,
      v1_MsgTypeEchoResponse \<mapsto> UEchoResponse, v1_MsgTypeErrorIndication \<mapsto> UErrorIndication]"

definition NewUPlaneConn :: "addr \<Rightarrow> uconn" where
  "NewUPlaneConn laddr = \<lparr>u_laddr = laddr, u_msgHandlerMap = u_defaultHandlers, u_iteiMap = Map.empty,
     u_tpduCh = [], u_closed = False, u_relayMap = [], u_errIndEnabled = True, u_kernel = False\<rparr>"

definition u_AddHandler :: "byte \<Rightarrow> u_handler \<Rightarrow> uconn \<Rightarrow> uconn" where
  "u_AddHandler msgType fn c = c\<lparr>u_msgHandlerMap := map_store (u_msgHandlerMap c) msgType fn\<rparr>"

definition u_AddHandlers :: "(byte \<times> u_handler) list \<Rightarrow> uconn \<Rightarrow> uconn" where
  "u_AddHandlers funcs c = fold (\<lambda>(msgType, fn). u_AddHandler msgType fn) funcs c"

definition EnableErrorIndication :: "uconn \<Rightarrow> uconn" where
  "EnableErrorIndication c = c\<lparr>u_errIndEnabled := True\<rparr>"

definition DisableErrorIndication :: "uconn \<Rightarrow> uconn" where
  "DisableErrorIndication c = c\<lparr>u_errIndEnabled := False\<rparr>"

definition u_Close :: "nat \<Rightarrow> unit uop" where
  "u_Close u w =
     (if u_closed (uconn_at w u) then (Inl (Panic CloseOfClosedChannel), w)
      else (Inr (), upd_uconn u (\<lambda>c. c\<lparr>u_closed := True\<rparr>) w))"

section \<open>Encapsulation (utils.go)\<close>

definition v1_TPDU_Marshal :: "v1_header \<Rightarrow> (bytes \<times> v1_header) result" where
  "v1_TPDU_Marshal t = v1_TPDU_MarshalTo t (replicate (v1_TPDU_MarshalLen t) 0)"

definition Encapsulate :: "u32 \<Rightarrow> bytes \<Rightarrow> v1_header" where
  "Encapsulate teid payload = v1_NewTPDU teid payload"

definition Decapsulate :: "bytes \<Rightarrow> (u32 \<times> bytes) result" where
  "Decapsulate b =
     andThen (v1_ParseHeader b) (\<lambda>header.
       if h1_Type header \<noteq> v1_MsgTypeTPDU then Inl (Error MsgErrInvalidMessageType)
       else Inr (h1_TEID header, h1_Payload header))"

section \<open>Sending\<close>

definition u_WriteTo :: "uenv \<Rightarrow> nat \<Rightarrow> bytes \<Rightarrow> addr \<Rightarrow> unit uop" where
  "u_WriteTo env u p addr w =
     (if ue_write env (w_writes w)
      then (Inr (), w\<lparr>w_writes := w_writes w + 1, w_sent := w_sent w @ [(u, p, addr)]\<rparr>)
      else (Inl (Error NetError), w\<lparr>w_writes := w_writes w + 1\<rparr>))"

definition WriteToGTP :: "uenv \<Rightarrow> nat \<Rightarrow> u32 \<Rightarrow> bytes \<Rightarrow> addr \<Rightarrow> nat uop" where
  "WriteToGTP env u teid p addr w =
     (case v1_TPDU_Marshal (Encapsulate teid p) of
        Inl e \<Rightarrow> (Inl e, w)
      | Inr (b, _) \<Rightarrow>
          (case u_WriteTo env u b addr w of
             (Inl e, w) \<Rightarrow> (Inl e, w)
           | (Inr _, w) \<Rightarrow> (Inr (length b), w)))"

definition u_write_message :: "uenv \<Rightarrow> nat \<Rightarrow> addr \<Rightarrow> v1_message \<Rightarrow> unit uop" where
  "u_write_message env u raddr msg w =
     (case v1_Marshal msg of Inl e \<Rightarrow> (Inl e, w) | Inr (b, _) \<Rightarrow> u_WriteTo env u b raddr w)"

definition u_EchoRequest :: "uenv \<Rightarrow> nat \<Rightarrow> addr \<Rightarrow> unit uop" where
  "u_EchoRequest env u raddr =
     u_write_message env u raddr (Msg1_EchoRequest (v1_NewEchoRequest 0 [Some (v1_NewRecovery 0)]))"

definition u_EchoResponse :: "uenv \<Rightarrow> nat \<Rightarrow> addr \<Rightarrow> unit uop" where
  "u_EchoResponse env u raddr =
     u_write_message env u raddr (Msg1_EchoResponse (v1_NewEchoResponse 0 [Some (v1_NewRecovery 0)]))"

definition u_ErrorIndication :: "uenv \<Rightarrow> nat \<Rightarrow> addr \<Rightarrow> v1_message \<Rightarrow> unit uop" where
  "u_ErrorIndication env u raddr received w =
     (case SplitHostPort (u_laddr (uconn_at w u)) of
        None \<Rightarrow> (Inl (Error NetError), w)
      | Some (ip, _) \<Rightarrow>
          u_write_message env u raddr
            (Msg1_ErrorIndication (v1_NewErrorIndication 0 (v1_Sequence received)
               [Some (v1_NewTEIDDataI (v1_TEID received)), v1_NewGSNAddress ip])) w)"

definition u_RespondTo :: "uenv \<Rightarrow> nat \<Rightarrow> addr \<Rightarrow> v1_message \<Rightarrow> v1_message \<Rightarrow> unit uop" where
  "u_RespondTo env u raddr received toBeSent w =
     (let toBeSent = v1_SetSequenceNumber (v1_Sequence received) toBeSent in
      case v1_MarshalTo toBeSent (replicate (v1_MarshalLen toBeSent) 0) of
        Inl e \<Rightarrow> (Inl e, w)
      | Inr (b, _) \<Rightarrow> u_WriteTo env u b raddr w)"

definition u_Restarts :: "nat \<Rightarrow> byte" where
  "u_Restarts u = 0"

section \<open>Handlers (handlers.go)\<close>

text \<open>The connection a handler is given is always a \<open>UPlaneConn\<close>, so \<open>ErrInvalidConnection\<close> does not occur.\<close>

definition handleTPDU :: "uenv \<Rightarrow> nat \<Rightarrow> addr \<Rightarrow> v1_message \<Rightarrow> unit uop" where
  "handleTPDU env u senderAddr msg w =
     (case msg of
        Msg1_TPDU pdu \<Rightarrow>
          if u_errIndEnabled (uconn_at w u)
          then (case u_ErrorIndication env u senderAddr msg w of
                  (Inl (Panic p), w) \<Rightarrow> (Inl (Panic p), w)
                | (_, w) \<Rightarrow> (Inr (), w))
          else (Inr (), upd_uconn u (\<lambda>c. c\<lparr>u_tpduCh := u_tpduCh c @
                 [\<lparr>ts_raddr = senderAddr, ts_teid = h1_TEID pdu, ts_seq = h1_Sequence pdu,
                   ts_payload = h1_Payload pdu\<rparr>]\<rparr>) w)
      | _ \<Rightarrow> (Inl (Error V1ErrUnexpectedType), w))"

definition u_handleEchoRequest :: "uenv \<Rightarrow> nat \<Rightarrow> addr \<Rightarrow> v1_message \<Rightarrow> unit uop" where
  "u_handleEchoRequest env u senderAddr msg w =
     (case msg of
        Msg1_EchoRequest _ \<Rightarrow>
          u_RespondTo env u senderAddr msg
            (Msg1_EchoResponse (v1_NewEchoResponse 0 [Some (v1_NewRecovery (u_Restarts u))])) w
      | _ \<Rightarrow> (Inl (Error V1ErrUnexpectedType), w))"

definition u_handleEchoResponse :: "uenv \<Rightarrow> nat \<Rightarrow> addr \<Rightarrow> v1_message \<Rightarrow> unit uop" where
  "u_handleEchoResponse env u senderAddr msg w =
     (case msg of
        Msg1_EchoResponse _ \<Rightarrow> (Inr (), w)
      | _ \<Rightarrow> (Inl (Error V1ErrUnexpectedType), w))"

text \<open>
  Both elements are read for the log entry, whether logging is on or not: a message without one of
  them has a nil pointer there.
\<close>

definition deref :: "'a option \<Rightarrow> 'a result" where
  "deref p = (case p of None \<Rightarrow> Inl (Panic NilDereference) | Some x \<Rightarrow> Inr x)"

definition handleErrorIndication :: "uenv \<Rightarrow> nat \<Rightarrow> addr \<Rightarrow> v1_message \<Rightarrow> unit uop" where
  "handleErrorIndication env u senderAddr msg w =
     (case msg of
        Msg1_ErrorIndication ind \<Rightarrow>
          (andThen (andThen (deref (t_field ind v1_ErrorIndication_TEIDDataI)) (\<lambda>i. must 0 (i1_TEID i)))
             (\<lambda>teid. andThen (andThen (deref (t_field ind v1_ErrorIndication_GTPUPeerAddress)) (\<lambda>i. must [] (i1_IP i)))
             (\<lambda>peer. Inr ())), w)
      | _ \<Rightarrow> (Inl (Error V1ErrUnexpectedType), w))"

fun u_call_handler :: "uenv \<Rightarrow> u_handler \<Rightarrow> nat \<Rightarrow> addr \<Rightarrow> v1_message \<Rightarrow> unit uop" where
  "u_call_handler env UTPDU = handleTPDU env"
| "u_call_handler env UEchoRequest = u_handleEchoRequest env"
| "u_call_handler env UEchoResponse = u_handleEchoResponse env"
| "u_call_handler env UErrorIndication = handleErrorIndication env"
| "u_call_handler env (UUser n) = ue_user env n"

definition u_handleMessage :: "uenv \<Rightarrow> nat \<Rightarrow> addr \<Rightarrow> v1_message \<Rightarrow> unit uop" where
  "u_handleMessage env u senderAddr msg w =
     (case map_load (u_msgHandlerMap (uconn_at w u)) (v1_MessageType msg) of
        None \<Rightarrow> (Inl (Error (V1HandlerNotFound (v1_MessageType msg))), w)
      | Some handle \<Rightarrow> u_call_handler env handle u senderAddr msg w)"

section \<open>Serving\<close>

text \<open>Errors of parsing and handling are logged; a panic ends the process.\<close>

definition u_parse_and_handle :: "uenv \<Rightarrow> nat \<Rightarrow> addr \<Rightarrow> bytes \<Rightarrow> unit uop" where
  "u_parse_and_handle env u raddr raw w =
     (case v1_Parse raw of
        Inl (Panic p) \<Rightarrow> (Inl (Panic p), w)
      | Inl (Error e) \<Rightarrow> (Inr (), w)
      | Inr msg \<Rightarrow>
          (case u_handleMessage env u raddr msg w of
             (Inl (Panic p), w') \<Rightarrow> (Inl (Panic p), w')
           | (_, w') \<Rightarrow> (Inr (), w')))"

definition u_serve_packet :: "uenv \<Rightarrow> nat \<Rightarrow> addr \<Rightarrow> bytes \<Rightarrow> unit uop" where
  "u_serve_packet env u raddr raw w =
     (let relayMap = u_relayMap (uconn_at w u) in
      if length relayMap = 0 then u_parse_and_handle env u raddr raw w
      else case byte_at raw 1 of Inl e \<Rightarrow> (Inl e, w) | Inr t \<Rightarrow>
        if t \<noteq> v1_MsgTypeTPDU then u_parse_and_handle env u raddr raw w
        else if length raw < 11 then (Inr (), w)
        else case get32 raw 4 of Inl e \<Rightarrow> (Inl e, w) | Inr teid \<Rightarrow>
          (case relay_load relayMap teid of
             None \<Rightarrow> u_parse_and_handle env u raddr raw w
           | Some peer \<Rightarrow>
               (case write_at raw 4 (be32 (peer_teid peer)) of
                  Inl e \<Rightarrow> (Inl e, w)
                | Inr raw \<Rightarrow> (Inr (), snd (u_WriteTo env (peer_srcConn peer) raw (peer_addr peer) w)))))"

text \<open>The socket is read into a buffer of 1500 bytes, which cuts a longer datagram off.\<close>

definition u_serve :: "uenv \<Rightarrow> nat \<Rightarrow> addr \<Rightarrow> bytes \<Rightarrow> unit uop" where
  "u_serve env u raddr datagram = u_serve_packet env u raddr (take 1500 datagram)"

text \<open>
  What \<open>ReadFromGTP\<close> returns: it blocks (\<open>None\<close>) as long as no T-PDU waits and the connection is
  open. On a closed one it may answer zero values; \<open>choice\<close> is the branch of the \<open>select\<close>.
\<close>

definition ReadFromGTP :: "nat option \<Rightarrow> nat \<Rightarrow> nat \<Rightarrow> uworld \<Rightarrow> ((bytes \<times> addr \<times> u32) \<times> uworld) option" where
  "ReadFromGTP choice n u w =
     (case choice of
        None \<Rightarrow> if u_closed (uconn_at w u) then Some (([], [], 0), w) else None
      | Some k \<Rightarrow>
          if k < length (u_tpduCh (uconn_at w u))
          then let tpdu = u_tpduCh (uconn_at w u) ! k in
               Some ((take n (ts_payload tpdu), ts_raddr tpdu, ts_teid tpdu),
                 upd_uconn u (\<lambda>c. c\<lparr>u_tpduCh := take k (u_tpduCh c) @ drop (k + 1) (u_tpduCh c)\<rparr>) w)
          else None)"

section \<open>Relaying (tunnel.go)\<close>

definition RelayTo :: "nat \<Rightarrow> nat \<Rightarrow> u32 \<Rightarrow> u32 \<Rightarrow> addr \<Rightarrow> unit uop" where
  "RelayTo u c teidIn teidOut raddr w =
     (if u_kernel (uconn_at w u) then (Inl (Error V1KernelGTPInUse), w)
      else (Inr (), upd_uconn u (\<lambda>x. x\<lparr>u_relayMap := relay_store (u_relayMap x) teidIn
              \<lparr>peer_teid = teidOut, peer_addr = raddr, peer_srcConn = c\<rparr>\<rparr>) w))"

definition CloseRelay :: "nat \<Rightarrow> u32 \<Rightarrow> unit uop" where
  "CloseRelay u teidIn w =
     (if u_kernel (uconn_at w u) then (Inl (Error V1KernelGTPInUse), w)
      else (Inr (), upd_uconn u (\<lambda>x. x\<lparr>u_relayMap := relay_delete (u_relayMap x) teidIn,
              u_iteiMap := map_delete (u_iteiMap x) teidIn\<rparr>) w))"

section \<open>Reserving TEIDs\<close>

definition NewFTEID :: "(nat \<Rightarrow> u32) \<Rightarrow> nat \<Rightarrow> byte \<Rightarrow> string \<Rightarrow> string \<Rightarrow> nat \<Rightarrow> ie option uop" where
  "NewFTEID rnd now ifType v4 v6 u w =
     (case first_free 0xffff 0 rnd (u_iteiMap (uconn_at w u)) of
        None \<Rightarrow> (Inr None, w)
      | Some teid \<Rightarrow>
          (NewFullyQualifiedTEID ifType teid v4 v6,
           upd_uconn u (\<lambda>c. c\<lparr>u_iteiMap := map_store (u_iteiMap c) teid now\<rparr>) w))"

section \<open>Encapsulation\<close>

lemma Encapsulate_header: "Encapsulate teid p = h1_SetLength (h1_SetLength
    \<lparr>h1_Flags = 0x30, h1_Type = 255, h1_Length = 0, h1_TEID = teid, h1_SequenceNumber = 0, h1_Reserved = 0, h1_Payload = p\<rparr>)"
  by (simp add: Encapsulate_def v1_NewTPDU_def v1_NewHeader_def)

lemma no_sequence_0x30 [simp]: "HasSequence h = False" if "h1_Flags h = 0x30"
  using that by (simp add: HasSequence_def)

lemma Encapsulate_Marshal:
  assumes "length p < 65528"
  shows "\<exists>h. v1_TPDU_Marshal (Encapsulate teid p) = Inr (v1_header_wire h, h) \<and> v1_header_ok h \<and>
     h1_MarshalLen h = 8 + length p \<and> v1_seen h = h \<and> h1_Type h = 255 \<and> h1_TEID h = teid \<and> h1_Payload h = p"
proof -
  let ?h = "h1_SetLength (Encapsulate teid p)"
  have "v1_TPDU_Marshal (Encapsulate teid p) = Inr (v1_header_wire ?h, ?h)"
    using h1_Marshal_wire [of ?h]
    by (simp add: v1_TPDU_Marshal_def v1_TPDU_MarshalTo_def v1_TPDU_MarshalLen_def v1_len_SetLength Let_def)
  moreover have len: "h1_MarshalLen (Encapsulate teid p) = 8 + length p"
    by (simp add: Encapsulate_header v1_len_SetLength) (simp add: h1_MarshalLen_def)
  moreover have "v1_header_ok ?h" "h1_MarshalLen ?h = 8 + length p"
    using assms len by (simp_all add: v1_sound_SetLength v1_len_SetLength)
  moreover have "v1_seen ?h = ?h" "h1_Type ?h = 255" "h1_TEID ?h = teid" "h1_Payload ?h = p"
    by (simp_all add: Encapsulate_header h1_SetLength_def v1_seen_def)
  ultimately show ?thesis by blast
qed

text \<open>
  C27. Encapsulation: a user packet that fits in the 16-bit length is marshalled under its TEID as
  eight bytes of header and the packet, and \<open>Decapsulate\<close> returns that TEID and the packet,
  provided it has at least three bytes (or bytes follow it); smaller ones are refused.
\<close>

theorem encapsulation_roundtrip:
  assumes "length p < 65528"
  shows "\<exists>b t. v1_TPDU_Marshal (Encapsulate teid p) = Inr (b, t) \<and> length b = 8 + length p \<and>
     Decapsulate (b @ rest) = (if 3 \<le> length p + length rest then Inr (teid, p) else Inl (Error MsgErrTooShortToParse))"
proof -
  obtain h where h: "v1_TPDU_Marshal (Encapsulate teid p) = Inr (v1_header_wire h, h)" "v1_header_ok h"
    "h1_MarshalLen h = 8 + length p" "v1_seen h = h" "h1_Type h = 255" "h1_TEID h = teid" "h1_Payload h = p"
    using Encapsulate_Marshal [OF assms] by blast
  have "Decapsulate (v1_header_wire h @ rest) = (if 3 \<le> length p + length rest then Inr (teid, p) else Inl (Error MsgErrTooShortToParse))"
  proof (cases "3 \<le> length p + length rest")
    case True
    then show ?thesis using h v1_ParseHeader_wire [OF h(2), of rest] by (simp add: Decapsulate_def)
  next
    case False
    then show ?thesis using h by (simp add: Decapsulate_def v1_ParseHeader_def h1_UnmarshalBinary_def)
  qed
  with h show ?thesis by auto
qed

theorem encapsulation_roundtrip_witness:
  "\<exists>b t. v1_TPDU_Marshal (Encapsulate 5 [1, 2, 3]) = Inr (b, t) \<and> Decapsulate b = Inr (5, [1, 2, 3])"
  using encapsulation_roundtrip [of "[1, 2, 3]" 5 "[]"] by auto

section \<open>Relaying\<close>

lemma ParseHeader_TEID:
  assumes "8 \<le> length b"
  shows "v1_ParseHeader (take 4 b @ be32 teid @ drop 8 b) =
     andThen (v1_ParseHeader b) (\<lambda>h. Inr (h\<lparr>h1_TEID := teid\<rparr>))"
proof (cases "11 \<le> length b")
  case False
  then show ?thesis using assms by (simp add: v1_ParseHeader_def h1_UnmarshalBinary_def)
next
  case True
  then obtain f t len teid0 r where b: "b = f # t # be16 len @ be32 teid0 @ r" and r: "3 \<le> length r"
    by (rule h1_split)
  have b': "take 4 b @ be32 teid @ drop 8 b = f # t # be16 len @ be32 teid @ r"
    by (simp add: b be16_def be32_def)
  show ?thesis
    unfolding v1_ParseHeader_def b' unfolding b h1_UnmarshalBinary_split [OF r]
    by (simp add: Let_def HasSequence_def andThen_def split: sum.splits)
qed

text \<open>What a turn of \<open>serve\<close> does with a datagram whose TEID is in the relay table.\<close>

lemma u_serve_relayed:
  assumes "raw = take 1500 datagram" "11 \<le> length raw" "raw ! 1 = v1_MsgTypeTPDU"
    and "relay_load (u_relayMap (uconn_at w u)) (join32 (raw ! 4) (raw ! 5) (raw ! 6) (raw ! 7)) = Some peer"
    and "ue_write env (w_writes w)"
  shows "u_serve env u raddr datagram w =
       (Inr (), w\<lparr>w_writes := w_writes w + 1, w_sent := w_sent w @ [(peer_srcConn peer,
          take 4 raw @ be32 (peer_teid peer) @ drop 8 raw, peer_addr peer)]\<rparr>)"
proof -
  have n: "u_relayMap (uconn_at w u) \<noteq> []" using assms(4) by (auto simp: relay_load_def)
  have "byte_at raw 1 = Inr v1_MsgTypeTPDU"
    "write_at raw 4 (be32 (peer_teid peer)) = Inr (take 4 raw @ be32 (peer_teid peer) @ drop 8 raw)"
    "get32 raw 4 = Inr (join32 (raw ! 4) (raw ! 5) (raw ! 6) (raw ! 7))" "\<not> length raw < 11"
    using assms(2,3) by (auto simp: byte_at_def write_at_def get32_def)
  then show ?thesis
    using n assms(4,5) unfolding u_serve_def assms(1) [symmetric] by (simp add: u_serve_packet_def u_WriteTo_def)
qed

text \<open>
  C28. Relaying: a T-PDU of at least eleven bytes whose TEID is in the relay table, and nothing
  else of the world, is forwarded as exactly one datagram by the peer's connection to the peer's
  address. It is the datagram received (cut off at 1500 bytes) with the four bytes of the TEID
  replaced, so its header parses as the received one does, but for the TEID.
\<close>

theorem relay_forwards:
  assumes "raw = take 1500 datagram" "11 \<le> length raw" "raw ! 1 = v1_MsgTypeTPDU"
    and "relay_load (u_relayMap (uconn_at w u)) (join32 (raw ! 4) (raw ! 5) (raw ! 6) (raw ! 7)) = Some peer"
    and "ue_write env (w_writes w)"
  shows "\<exists>out. u_serve env u raddr datagram w =
       (Inr (), w\<lparr>w_writes := w_writes w + 1, w_sent := w_sent w @ [(peer_srcConn peer, out, peer_addr peer)]\<rparr>) \<and>
     out = take 4 raw @ be32 (peer_teid peer) @ drop 8 raw \<and>
     v1_ParseHeader out = andThen (v1_ParseHeader raw) (\<lambda>h. Inr (h\<lparr>h1_TEID := peer_teid peer\<rparr>))"
  using u_serve_relayed [OF assms] ParseHeader_TEID [of raw "peer_teid peer"] assms by simp

definition sample_relay :: uworld where
  "sample_relay = snd (RelayTo 0 1 7 9 ''b:1''
     \<lparr>w_conns = [NewUPlaneConn ''a:1'', NewUPlaneConn ''c:1''], w_writes = 0, w_sent = []\<rparr>)"

definition sample_uenv :: uenv where
  "sample_uenv = \<lparr>ue_write = (\<lambda>_. True), ue_user = (\<lambda>_ _ _ _ w. (Inr (), w))\<rparr>"

theorem relay_forwards_witness:
  "\<exists>w. u_serve sample_uenv 0 ''x:1'' [0x30, 255, 0, 3, 0, 0, 0, 7, 1, 2, 3] sample_relay = (Inr (), w) \<and>
     w_sent w = [(1, [0x30, 255, 0, 3, 0, 0, 0, 9, 1, 2, 3], ''b:1'')]"
proof -
  let ?raw = "[0x30, 255, 0, 3, 0, 0, 0, 7, 1, 2, 3] :: bytes"
  let ?peer = "\<lparr>peer_teid = 9, peer_addr = ''b:1'', peer_srcConn = 1\<rparr>"
  have t: "join32 0 0 0 7 = 7" by (simp add: join32_def)
  have "relay_load (u_relayMap (uconn_at sample_relay 0)) 7 = Some ?peer" "w_sent sample_relay = []"
    "ue_write sample_uenv (w_writes sample_relay)"
    by (simp_all add: sample_relay_def RelayTo_def NewUPlaneConn_def upd_uconn_def relay_load_def
        relay_store_def sample_uenv_def)
  then show ?thesis
    using relay_forwards [of ?raw ?raw sample_relay 0 ?peer sample_uenv "''x:1''"] t
    by (auto simp: be32_def)
qed

end
