(* ===== verification/V1UPlaneRun.thy ===== *)
theory V1UPlaneRun
  imports V1UPlane
begin

text \<open>
  Runs of GTPv1-U connections: which datagrams stop the process, what is answered to a T-PDU
  without a tunnel, and what \<open>ReadFromGTP\<close> hands out. \<open>u_reachable\<close> are the worlds that connections
  with the default handlers get into by serving datagrams and by calls of their methods, together
  with the datagrams served so far.
\<close>

section \<open>Parsing a given type\<close>

lemma v1_Parse_cases:
  "v1_Parse b = Inr (Msg1_ErrorIndication m) \<longleftrightarrow>
     byte_at b 1 = Inr v1_MsgTypeErrorIndication \<and> v1_ErrorIndication_UnmarshalBinary b = Inr m"
  "v1_Parse b = Inr (Msg1_TPDU t) \<longleftrightarrow> byte_at b 1 = Inr v1_MsgTypeTPDU \<and> v1_ParseHeader b = Inr t"
  by (cases "byte_at b 1"; auto simp: v1_Parse_def parsed_as_def andThen_eq_Inr v1_TPDU_UnmarshalBinary_def
      split: if_splits)+

lemma ParseHeader_type: "v1_ParseHeader b = Inr h \<Longrightarrow> byte_at b 1 = Inr (h1_Type h)"
  by (auto simp: v1_ParseHeader_def h1_UnmarshalBinary_def Let_def andThen_eq_Inr split: if_splits)

lemma tvm_Unmarshal_header:
  "tvm_UnmarshalBinary cd lenient D b = Inr m \<Longrightarrow> cd_Parse cd b = Inr (t_Header m)"
  by (auto simp: tvm_UnmarshalBinary_def andThen_eq_Inr tvm_empty_def tvm_fold_header split: if_splits sum.splits)

lemma ErrorIndication_type:
  "v1_Parse b = Inr (Msg1_ErrorIndication m) \<Longrightarrow> v1_MessageType (Msg1_ErrorIndication m) = v1_MsgTypeErrorIndication"
proof -
  assume "v1_Parse b = Inr (Msg1_ErrorIndication m)"
  then have b: "byte_at b 1 = Inr v1_MsgTypeErrorIndication" "v1_ErrorIndication_UnmarshalBinary b = Inr m"
    by (simp_all add: v1_Parse_cases)
  then have "v1_ParseHeader b = Inr (t_Header m)"
    using tvm_Unmarshal_header [of v1_codec] by (simp add: v1_ErrorIndication_UnmarshalBinary_def v1_codec_def)
  from ParseHeader_type [OF this] b(1) show ?thesis by (simp add: v1_MessageType_def h1_MessageType_def)
qed

section \<open>Which handlers can panic\<close>

lemma u_WriteTo_no_panic [simp]: "no_panic (fst (u_WriteTo env u p a w))"
  by (simp add: u_WriteTo_def)

lemma u_write_message_no_panic [simp]: "\<not> v1_stale msg \<Longrightarrow> no_panic (fst (u_write_message env u a msg w))"
  using v1_Marshal_total [of msg] by (auto simp: u_write_message_def)

lemma u_ErrorIndication_no_panic [simp]: "no_panic (fst (u_ErrorIndication env u a msg w))"
  by (auto simp: u_ErrorIndication_def v1_NewErrorIndication_def v1_NewHeader_def h1_SetLength_def split: option.splits)

lemma u_RespondTo_no_panic [simp]: "\<not> v1_stale msg \<Longrightarrow> no_panic (fst (u_RespondTo env u a r msg w))"
  using v1_Marshal_total [of "v1_SetSequenceNumber (v1_Sequence r) msg"]
  by (auto simp: u_RespondTo_def v1_Marshal_def Let_def)

text \<open>The elements \<open>handleErrorIndication\<close> dereferences.\<close>

definition complete_indication :: "v1_message \<Rightarrow> bool" where
  "complete_indication msg =
     (case msg of
        Msg1_ErrorIndication ind \<Rightarrow>
          t_field ind v1_ErrorIndication_TEIDDataI \<noteq> None \<and> t_field ind v1_ErrorIndication_GTPUPeerAddress \<noteq> None
      | _ \<Rightarrow> True)"

lemma no_panic_must: "no_panic r \<Longrightarrow> \<exists>v. must z r = Inr v"
  by (auto simp: must_def no_panic_def split: sum.splits failure.splits)

lemma accessors_no_panic: "no_panic (i1_TEID i)" "no_panic (i1_IP i)"
proof -
  show "no_panic (i1_TEID i)" by (simp add: i1_TEID_def get32_def)
  show "no_panic (i1_IP i)"
    by (auto simp: i1_IP_def i1_PDPTypeOrganization_def field_of_def byte_at_def slice_from_def slice_def)
qed

lemma handleErrorIndication_no_panic:
  "no_panic (fst (handleErrorIndication env u a msg w)) = complete_indication msg"
proof (cases msg)
  case (Msg1_ErrorIndication ind)
  have "\<exists>v. must (0 :: u32) (i1_TEID i) = Inr v" "\<exists>v. must [] (i1_IP i) = Inr v" for i
    by (intro no_panic_must accessors_no_panic)+
  then obtain f g where fg: "must (0 :: u32) (i1_TEID i) = Inr (f i)" "must [] (i1_IP i) = Inr (g i)" for i
    by metis
  show ?thesis
    by (simp add: Msg1_ErrorIndication handleErrorIndication_def complete_indication_def deref_def fg
        split: option.splits)
qed (simp_all add: handleErrorIndication_def complete_indication_def)

lemma handleTPDU_no_panic: "no_panic (fst (handleTPDU env u a msg w))"
  using u_ErrorIndication_no_panic [of env u a msg w]
  by (auto simp: handleTPDU_def no_panic_def split: v1_message.splits prod.splits sum.splits failure.splits)

lemma handleMessage_default:
  assumes "u_msgHandlerMap (uconn_at w u) = u_defaultHandlers" "v1_Parse b = Inr msg"
  shows "no_panic (fst (u_handleMessage env u a msg w)) = complete_indication msg"
proof (cases "v1_MessageType msg = v1_MsgTypeErrorIndication")
  case True
  then show ?thesis
    using assms(1) by (simp add: u_handleMessage_def u_defaultHandlers_def map_load_def handleErrorIndication_no_panic)
next
  case False
  then have "complete_indication msg"
    using assms(2) ErrorIndication_type [of b] by (auto simp: complete_indication_def split: v1_message.splits)
  moreover have "no_panic (fst (u_handleMessage env u a msg w))"
    using False assms(1) handleTPDU_no_panic
    by (auto simp: u_handleMessage_def u_defaultHandlers_def map_load_def u_handleEchoRequest_def
        u_handleEchoResponse_def split: v1_message.splits)
  ultimately show ?thesis by simp
qed

text \<open>Whether a datagram is relayed.\<close>

definition u_relayed :: "uworld \<Rightarrow> nat \<Rightarrow> bytes \<Rightarrow> bool" where
  "u_relayed w u raw \<longleftrightarrow> 11 \<le> length raw \<and> raw ! 1 = v1_MsgTypeTPDU \<and>
     relay_load (u_relayMap (uconn_at w u)) (join32 (raw ! 4) (raw ! 5) (raw ! 6) (raw ! 7)) \<noteq> None"

lemma v1_Parse_TPDU_short:
  "byte_at b 1 = Inr v1_MsgTypeTPDU \<Longrightarrow> length b < 11 \<Longrightarrow> v1_Parse b = Inl (Error MsgErrTooShortToParse)"
  by (simp add: v1_Parse_types v1_TPDU_UnmarshalBinary_def v1_ParseHeader_def h1_UnmarshalBinary_def)

lemma u_serve_packet_cases:
  "no_panic (fst (u_serve_packet env u a raw w)) =
     (u_relayed w u raw \<or> no_panic (fst (u_parse_and_handle env u a raw w)))"
proof (cases "u_relayMap (uconn_at w u) = []")
  case True
  then show ?thesis by (simp add: u_serve_packet_def u_relayed_def relay_load_def)
next
  case n: False
  show ?thesis
  proof (cases "byte_at raw 1")
    case (Inl e)
    then have "length raw < 2" "e = Panic IndexOutOfRange" by (auto simp: byte_at_def split: if_splits)
    then show ?thesis using n Inl by (simp add: u_serve_packet_def u_relayed_def u_parse_and_handle_def v1_Parse_def)
  next
    case (Inr t)
    then have t: "t = raw ! 1" by (auto simp: byte_at_def split: if_splits)
    show ?thesis
    proof (cases "t = v1_MsgTypeTPDU \<and> length raw < 11")
      case True
      then show ?thesis
        using n Inr v1_Parse_TPDU_short [of raw] by (simp add: u_serve_packet_def u_relayed_def u_parse_and_handle_def)
    next
      case False
      then show ?thesis
        using n Inr t
        by (auto simp: u_serve_packet_def u_relayed_def get32_def write_at_def split: option.splits)
    qed
  qed
qed

section \<open>Properties\<close>

text \<open>
  C29. Exactly which datagrams make a serving connection with the default handlers panic, which
  ends the process: those of fewer than two bytes; eleven bytes with the S flag and a length field
  of at least four; and every Error Indication without the TEID or without the address of the peer.
  A T-PDU that is relayed never does.
\<close>

theorem u_serve_panics_iff:
  assumes "u_msgHandlerMap (uconn_at w u) = u_defaultHandlers" "raw = take 1500 datagram"
  shows "no_panic (fst (u_serve env u a datagram w)) =
     (u_relayed w u raw \<or>
      2 \<le> length raw \<and> \<not> (length raw = 11 \<and> v1_flag_S (raw ! 0) \<and> 4 \<le> join16 (raw ! 2) (raw ! 3)) \<and>
      (case v1_Parse raw of Inr msg \<Rightarrow> complete_indication msg | Inl e \<Rightarrow> True))"
proof -
  have "no_panic (fst (u_parse_and_handle env u a raw w)) =
      (no_panic (v1_Parse raw) \<and> (case v1_Parse raw of Inr msg \<Rightarrow> complete_indication msg | Inl e \<Rightarrow> True))"
  proof (cases "v1_Parse raw")
    case (Inl e)
    then show ?thesis by (cases e) (simp_all add: u_parse_and_handle_def)
  next
    case (Inr msg)
    show ?thesis
      using handleMessage_default [OF assms(1) Inr, of env a] Inr
      by (auto simp: u_parse_and_handle_def no_panic_def split: prod.splits sum.splits failure.splits)
  qed
  then show ?thesis
    using u_serve_packet_cases [of env u a raw w]
    by (simp add: u_serve_def assms(2) v1_Parse_panics v1_ParseHeader_panics)
qed

theorem u_serve_panics_iff_witness:
  "\<not> no_panic (fst (u_serve sample_uenv 0 ''x:1'' [0x32, 26, 0, 4, 0, 0, 0, 0, 0, 0, 0, 0] sample_relay))"
proof -
  let ?raw = "[0x32, 26, 0, 4, 0, 0, 0, 0, 0, 0, 0, 0] :: bytes"
  have "(case v1_Parse ?raw of Inr msg \<Rightarrow> complete_indication msg | Inl e \<Rightarrow> True) = False" by code_simp
  moreover have "u_msgHandlerMap (uconn_at sample_relay 0) = u_defaultHandlers"
    by (simp add: sample_relay_def RelayTo_def NewUPlaneConn_def upd_uconn_def)
  moreover have "\<not> u_relayed sample_relay 0 ?raw" by (simp add: u_relayed_def)
  ultimately show ?thesis using u_serve_panics_iff [of sample_relay 0 ?raw ?raw sample_uenv "''x:1''"] by simp
qed

section \<open>Error Indications\<close>

lemma wf_TEIDDataI: "tv_wf v1_tv (v1_NewTEIDDataI teid)"
  by (simp add: tv_wf_def v1_NewTEIDDataI_def v1_newUint32ValIE_def v1_New_def tv_New_def tv_SetLength_def
      v1_tvLengthMap_def)

lemma wf_GSNAddress: "length p < 65536 \<Longrightarrow> tv_wf v1_tv (v1_New v1_IE_GSNAddress p)"
  by (simp add: tv_wf_def v1_New_def tv_New_def tv_SetLength_def v1_tvLengthMap_def)

lemma NewGSNAddress_v4: "To4 (ParseIP ip) \<noteq> [] \<Longrightarrow> v1_NewGSNAddress ip = Some (v1_New v1_IE_GSNAddress (To4 (ParseIP ip)))"
  by (auto simp: v1_NewGSNAddress_def v1_NewGSNAddressByIP_def)

lemma ErrorIndication_fields:
  fixes t g :: tv_ie and seq :: u16
  defines "m \<equiv> v1_NewErrorIndication 0 seq [Some t, Some g]"
  assumes "tv_Type t = v1_IE_TEIDDataI" "tv_Type g = v1_IE_GSNAddress"
  shows "t_field m v1_ErrorIndication_TEIDDataI = Some t" "t_field m v1_ErrorIndication_GTPUPeerAddress = Some g"
    "t_field m v1_ErrorIndication_PrivateExtension = None" "t_AdditionalIEs m = []"
    "h1_Flags (t_Header m) = 0x32" "h1_Type (t_Header m) = v1_MsgTypeErrorIndication"
    "h1_SequenceNumber (t_Header m) = seq" "h1_Payload (t_Header m) = []"
  using assms(2,3)
  by (simp_all add: m_def v1_NewErrorIndication_def tvm_New_def tvm_SetLength_def tvm_store_def tvm_empty_def
      v1_ErrorIndication_switch_def map_filter_simps v1_codec_def v1_NewHeader_def h1_SetLength_def)

lemma ErrorIndication_sent:
  fixes teid :: u32 and v4 :: bytes
  defines "t \<equiv> v1_NewTEIDDataI teid" and "g \<equiv> v1_New v1_IE_GSNAddress v4"
  assumes v4: "length v4 = 4"
  shows "\<exists>b M' m. v1_Marshal (Msg1_ErrorIndication (v1_NewErrorIndication 0 seq [Some t, Some g])) = Inr (b, M') \<and>
     v1_Parse b = Inr (Msg1_ErrorIndication m) \<and> h1_SequenceNumber (t_Header m) = seq \<and>
     t_field m v1_ErrorIndication_TEIDDataI = Some t \<and> t_field m v1_ErrorIndication_GTPUPeerAddress = Some g"
proof -
  let ?m = "v1_NewErrorIndication 0 seq [Some t, Some g]"
  have types: "tv_Type t = v1_IE_TEIDDataI" "tv_Type g = v1_IE_GSNAddress"
    by (simp_all add: t_def g_def v1_NewTEIDDataI_def v1_newUint32ValIE_def)
  have wf: "tv_wf v1_tv t" "tv_wf v1_tv g"
    using v4 by (simp_all add: t_def g_def wf_TEIDDataI wf_GSNAddress)
  note field = ErrorIndication_fields [OF types, of seq]
  have len: "tv_MarshalLen v1_tv t = 5" "tv_MarshalLen v1_tv g = 7"
    using v4 by (simp_all add: tv_MarshalLen_def types v1_tvLengthMap_def) (simp add: g_def)
  have fresh: "h1_Payload (t_Header ?m) = []" by (simp add: v1_NewErrorIndication_def v1_NewHeader_def h1_SetLength_def)
  have mlen: "v1_ErrorIndication_MarshalLen ?m = 24"
    by (simp add: v1_ErrorIndication_MarshalLen_def tvm_MarshalLen_def tvm_present_def
        v1_ErrorIndication_lens_def map_filter_simps field v1_codec_def len h1_MarshalLen_def HasSequence_def)
  have "tv_wf v1_tv i \<and> (case v1_ErrorIndication_switch (tv_Type i) of Place ss final \<Rightarrow>
      (s \<in> set ss \<or> final = Into s) \<and> filled_before (t_field ?m) ss s)" if "t_field ?m s = Some i" for s i
    using that wf types by (cases s) (auto simp: field filled_before_def v1_ErrorIndication_switch_def)
  then have ok: "v1_typed_ok v1_ErrorIndication_switch v1_ErrorIndication_order v1_MsgTypeErrorIndication ?m"
    using mlen by (simp add: v1_typed_ok_def tvm_ok_def field v1_ErrorIndication_MarshalLen_def
        v1ErrorIndication.MarshalLen_lens)
  obtain w m' where w: "v1_ErrorIndication_MarshalTo ?m (replicate (v1_ErrorIndication_MarshalLen ?m) 0) = Inr (w, m')"
    "v1_ErrorIndication_UnmarshalBinary w = Inr (m'\<lparr>t_Header := v1_seen (t_Header m')\<rparr>)"
    "byte_at w 1 = Inr v1_MsgTypeErrorIndication"
    using v1_ErrorIndication_step [OF ok, of "[]"] mlen fresh by auto
  have "m' = v1cd.marshalled v1_ErrorIndication_order ?m"
    using w(1) v1cd.Marshal_wire [OF v1ErrorIndication.tv_layout_axioms, where checked = True and clears = False and m = ?m] fresh
    by (simp add: v1_ErrorIndication_MarshalTo_def v1_ErrorIndication_MarshalLen_def tvm_Marshal_def v1_payload)
  then have m': "t_field m' = t_field ?m" "h1_SequenceNumber (t_Header m') = seq" "h1_Flags (t_Header m') = 0x32"
    by (simp_all add: v1cd.marshalled_def) (simp_all add: v1_codec_def h1_SetLength_def field)
  then have "h1_SequenceNumber (v1_seen (t_Header m')) = seq" by (simp add: v1_seen_def HasSequence_def)
  with w m'(1) show ?thesis
    by (intro exI [of _ w] exI [of _ "Msg1_ErrorIndication m'"] exI [of _ "m'\<lparr>t_Header := v1_seen (t_Header m')\<rparr>"])
       (simp add: v1_Marshal_simps v1_Parse_types field)
qed

lemma u_serve_not_relayed:
  assumes "11 \<le> length raw" "byte_at raw 1 = Inr v1_MsgTypeTPDU" "\<not> u_relayed w u raw"
  shows "u_serve_packet env u a raw w = u_parse_and_handle env u a raw w"
proof -
  have "raw ! 1 = v1_MsgTypeTPDU" using assms(2) by (auto simp: byte_at_def split: if_splits)
  then have "relay_load (u_relayMap (uconn_at w u)) (join32 (raw ! 4) (raw ! 5) (raw ! 6) (raw ! 7)) = None"
    using assms(1,3) by (simp add: u_relayed_def)
  moreover have "get32 raw 4 = Inr (join32 (raw ! 4) (raw ! 5) (raw ! 6) (raw ! 7))" "\<not> length raw < 11"
    using assms(1) by (simp_all add: get32_def)
  ultimately show ?thesis using assms(2) by (simp add: u_serve_packet_def Let_def)
qed

text \<open>
  C30. A T-PDU without a tunnel is answered: on a connection with the default handlers, a T-PDU
  that is not relayed is dropped and exactly one datagram is sent back, an Error Indication that
  repeats its sequence number and names its TEID and the connection's own IPv4 address.
\<close>

theorem error_indication_answer:
  assumes "u_msgHandlerMap (uconn_at w u) = u_defaultHandlers" "u_errIndEnabled (uconn_at w u)"
    and raw: "raw = take 1500 datagram" and tpdu: "v1_ParseHeader raw = Inr h" "h1_Type h = v1_MsgTypeTPDU"
    and "\<not> u_relayed w u raw"
    and ip: "SplitHostPort (u_laddr (uconn_at w u)) = Some (ip, port)" "To4 (ParseIP ip) \<noteq> []"
    and "ue_write env (w_writes w)"
  shows "\<exists>out m. u_serve env u raddr datagram w =
       (Inr (), w\<lparr>w_writes := w_writes w + 1, w_sent := w_sent w @ [(u, out, raddr)]\<rparr>) \<and>
     v1_Parse out = Inr (Msg1_ErrorIndication m) \<and> h1_SequenceNumber (t_Header m) = h1_SequenceNumber h \<and>
     andThen (deref (t_field m v1_ErrorIndication_TEIDDataI)) i1_TEID = Inr (h1_TEID h) \<and>
     andThen (deref (t_field m v1_ErrorIndication_GTPUPeerAddress)) i1_IP = Inr (To4 (ParseIP ip))"
proof -
  let ?v4 = "To4 (ParseIP ip)"
  have t: "byte_at raw 1 = Inr v1_MsgTypeTPDU" using ParseHeader_type [OF tpdu(1)] tpdu(2) by simp
  then have parse: "v1_Parse raw = Inr (Msg1_TPDU h)" using tpdu(1) by (simp add: v1_Parse_cases)
  have "11 \<le> length raw" using tpdu(1) by (auto simp: v1_ParseHeader_def h1_UnmarshalBinary_def Let_def split: if_splits)
  then have "u_serve env u raddr datagram w = u_parse_and_handle env u raddr raw w"
    using u_serve_not_relayed [OF _ t assms(6)] by (simp add: u_serve_def raw)
  also have "\<dots> = (case u_ErrorIndication env u raddr (Msg1_TPDU h) w of
      (Inl (Panic p), w) \<Rightarrow> (Inl (Panic p), w) | (_, w) \<Rightarrow> (Inr (), w))"
    using parse assms(1,2) tpdu(2)
    by (simp add: u_parse_and_handle_def u_handleMessage_def v1_MessageType_def h1_MessageType_def
        u_defaultHandlers_def map_load_def handleTPDU_def split: prod.splits sum.splits failure.splits)
  finally have run: "u_serve env u raddr datagram w = \<dots>" .
  have len: "length ?v4 = 4" using ip(2) To4_length by blast
  obtain b M' m where m: "v1_Marshal (Msg1_ErrorIndication (v1_NewErrorIndication 0 (h1_SequenceNumber h)
        [Some (v1_NewTEIDDataI (h1_TEID h)), Some (v1_New v1_IE_GSNAddress ?v4)])) = Inr (b, M')"
      "v1_Parse b = Inr (Msg1_ErrorIndication m)" "h1_SequenceNumber (t_Header m) = h1_SequenceNumber h"
      "t_field m v1_ErrorIndication_TEIDDataI = Some (v1_NewTEIDDataI (h1_TEID h))"
      "t_field m v1_ErrorIndication_GTPUPeerAddress = Some (v1_New v1_IE_GSNAddress ?v4)"
    using ErrorIndication_sent [OF len, of "h1_SequenceNumber h" "h1_TEID h"] by blast
  have "u_ErrorIndication env u raddr (Msg1_TPDU h) w =
      (Inr (), w\<lparr>w_writes := w_writes w + 1, w_sent := w_sent w @ [(u, b, raddr)]\<rparr>)"
    using m(1) ip assms(9) NewGSNAddress_v4 [OF ip(2)]
    by (simp add: u_ErrorIndication_def u_write_message_def u_WriteTo_def v1_Sequence_def v1_TEID_def h1_Sequence_def)
  then have "u_serve env u raddr datagram w =
      (Inr (), w\<lparr>w_writes := w_writes w + 1, w_sent := w_sent w @ [(u, b, raddr)]\<rparr>)"
    by (simp add: run)
  moreover have "i1_TEID (v1_NewTEIDDataI (h1_TEID h)) = Inr (h1_TEID h)"
    by (simp add: i1_TEID_def v1_NewTEIDDataI_def v1_newUint32ValIE_def get32_def be32_def)
  moreover have "i1_IP (v1_New v1_IE_GSNAddress ?v4) = Inr ?v4" using len by (simp add: i1_IP_def)
  ultimately show ?thesis using m by (auto simp: deref_def)
qed

definition sample_node :: uworld where
  "sample_node = \<lparr>w_conns = [NewUPlaneConn ''10.0.0.1:2152''], w_writes = 0, w_sent = []\<rparr>"

theorem error_indication_answer_witness:
  "\<exists>out m. w_sent (snd (u_serve sample_uenv 0 ''x:1'' [0x30, 255, 0, 3, 0, 0, 0, 7, 1, 2, 3] sample_node)) =
       [(0, out, ''x:1'')] \<and> v1_Parse out = Inr (Msg1_ErrorIndication m) \<and>
     andThen (deref (t_field m v1_ErrorIndication_TEIDDataI)) i1_TEID = Inr 7 \<and>
     andThen (deref (t_field m v1_ErrorIndication_GTPUPeerAddress)) i1_IP = Inr [10, 0, 0, 1]"
proof -
  let ?raw = "[0x30, 255, 0, 3, 0, 0, 0, 7, 1, 2, 3] :: bytes"
  have node: "uconn_at sample_node 0 = NewUPlaneConn ''10.0.0.1:2152''" "w_sent sample_node = []"
    "\<not> u_relayed sample_node 0 ?raw" "ue_write sample_uenv (w_writes sample_node)"
    by (simp_all add: sample_node_def u_relayed_def NewUPlaneConn_def relay_load_def sample_uenv_def)
  have "(case v1_ParseHeader ?raw of Inr h \<Rightarrow> h1_Type h = v1_MsgTypeTPDU \<and> h1_TEID h = 7 | Inl e \<Rightarrow> False)"
    by code_simp
  then obtain h where h: "v1_ParseHeader ?raw = Inr h" "h1_Type h = v1_MsgTypeTPDU" "h1_TEID h = 7"
    by (auto split: sum.splits)
  have ip: "SplitHostPort ''10.0.0.1:2152'' = Some (''10.0.0.1'', ''2152'')"
    by (simp add: SplitHostPort_def LastIndexByte_def)
  have v4: "To4 (ParseIP ''10.0.0.1'') = [10, 0, 0, 1]" by code_simp
  show ?thesis
    using error_indication_answer [of sample_node 0 ?raw ?raw h "''10.0.0.1''" "''2152''" sample_uenv "''x:1''"] node h ip v4
    by (auto simp: NewUPlaneConn_def)
qed

section \<open>Runs\<close>

text \<open>
  \<open>D\<close> lists the datagrams served: the connection, the sender and the bytes. Sending with
  \<open>WriteTo\<close>, \<open>WriteToGTP\<close>, Echo Request and Response only changes \<open>w_writes\<close> and \<open>w_sent\<close>.
\<close>

inductive u_reachable :: "uenv \<Rightarrow> uworld \<Rightarrow> (nat \<times> addr \<times> bytes) list \<Rightarrow> bool" for env where
  r_start: "u_reachable env \<lparr>w_conns = map NewUPlaneConn laddrs, w_writes = 0, w_sent = []\<rparr> []"
| r_serve: "u_reachable env w D \<Longrightarrow> u < length (w_conns w) \<Longrightarrow> \<not> u_closed (uconn_at w u) \<Longrightarrow>
    u_reachable env (snd (u_serve env u raddr datagram w)) (D @ [(u, raddr, datagram)])"
| r_write: "u_reachable env w D \<Longrightarrow> u_reachable env (snd (u_WriteTo env u p raddr w)) D"
| r_write_gtp: "u_reachable env w D \<Longrightarrow> u_reachable env (snd (WriteToGTP env u teid p raddr w)) D"
| r_read: "u_reachable env w D \<Longrightarrow> ReadFromGTP choice n u w = Some (r, w') \<Longrightarrow> u_reachable env w' D"
| r_discard: "u_reachable env w D \<Longrightarrow>
    u_reachable env (upd_uconn u (\<lambda>c. c\<lparr>u_tpduCh := take k (u_tpduCh c) @ drop (k + 1) (u_tpduCh c)\<rparr>) w) D"
| r_relay: "u_reachable env w D \<Longrightarrow> c < length (w_conns w) \<Longrightarrow>
    u_reachable env (snd (RelayTo u c teidIn teidOut raddr w)) D"
| r_close_relay: "u_reachable env w D \<Longrightarrow> u_reachable env (snd (CloseRelay u teidIn w)) D"
| r_enable: "u_reachable env w D \<Longrightarrow> u_reachable env (upd_uconn u EnableErrorIndication w) D"
| r_disable: "u_reachable env w D \<Longrightarrow> u_reachable env (upd_uconn u DisableErrorIndication w) D"
| r_reserve: "u_reachable env w D \<Longrightarrow> u_reachable env (snd (NewFTEID rnd now ifType v4 v6 u w)) D"
| r_closing: "u_reachable env w D \<Longrightarrow> u_reachable env (snd (u_Close u w)) D"

text \<open>Where a waiting T-PDU comes from, and the invariant of a connection.\<close>

definition received :: "(nat \<times> addr \<times> bytes) list \<Rightarrow> nat \<Rightarrow> tpdu_set \<Rightarrow> bool" where
  "received D u p \<longleftrightarrow> (\<exists>d h. (u, ts_raddr p, d) \<in> set D \<and> v1_ParseHeader (take 1500 d) = Inr h \<and>
     h1_Type h = v1_MsgTypeTPDU \<and> ts_teid p = h1_TEID h \<and> ts_seq p = h1_SequenceNumber h \<and>
     ts_payload p = h1_Payload h)"

definition uconn_ok :: "nat \<Rightarrow> (nat \<times> addr \<times> bytes) list \<Rightarrow> nat \<Rightarrow> uconn \<Rightarrow> bool" where
  "uconn_ok n D u c \<longleftrightarrow> u_msgHandlerMap c = u_defaultHandlers \<and> (\<forall>p \<in> set (u_tpduCh c). received D u p) \<and>
     relay_map.every (\<lambda>k p. peer_srcConn p < n) (u_relayMap c) \<and> u_iteiMap c 0 = None"

definition uworld_ok :: "uworld \<Rightarrow> (nat \<times> addr \<times> bytes) list \<Rightarrow> bool" where
  "uworld_ok w D \<longleftrightarrow> (\<forall>u < length (w_conns w). uconn_ok (length (w_conns w)) D u (uconn_at w u))"

lemma uworld_ok_frame: "uworld_ok w D \<Longrightarrow> w_conns w' = w_conns w \<Longrightarrow> uworld_ok w' D"
  by (simp add: uworld_ok_def)

lemma uworld_ok_mono: "uworld_ok w D \<Longrightarrow> uworld_ok w (D @ E)"
  by (force simp: uworld_ok_def uconn_ok_def received_def)

lemma uworld_ok_upd:
  assumes "uworld_ok w D" "\<And>c. uconn_ok (length (w_conns w)) D u c \<Longrightarrow> uconn_ok (length (w_conns w)) D u (f c)"
  shows "uworld_ok (upd_uconn u f w) D"
  using assms
  by (cases "u < length (w_conns w)") (auto simp: uworld_ok_def upd_uconn_def nth_list_update list_update_beyond)

lemma write_conns [simp]:
  "w_conns (snd (u_WriteTo env u p a w)) = w_conns w"
  "w_conns (snd (u_write_message env u a msg w)) = w_conns w"
  "w_conns (snd (WriteToGTP env u teid p a w)) = w_conns w"
  "w_conns (snd (u_RespondTo env u a r msg w)) = w_conns w"
  "w_conns (snd (u_ErrorIndication env u a msg w)) = w_conns w"
proof -
  show w: "w_conns (snd (u_WriteTo env u p a w)) = w_conns w" for p a w by (simp add: u_WriteTo_def)
  show m: "w_conns (snd (u_write_message env u a msg w)) = w_conns w" for msg
    by (auto simp: u_write_message_def w split: sum.split)
  show "w_conns (snd (WriteToGTP env u teid p a w)) = w_conns w"
    using w [of "fst (the_Inr r)" for r] by (auto simp: WriteToGTP_def u_WriteTo_def split: sum.split)
  show "w_conns (snd (u_RespondTo env u a r msg w)) = w_conns w"
    by (auto simp: u_RespondTo_def Let_def w split: sum.split)
  show "w_conns (snd (u_ErrorIndication env u a msg w)) = w_conns w"
    by (auto simp: u_ErrorIndication_def m split: option.split)
qed

lemma uworld_ok_handle:
  assumes ok: "uworld_ok w D" and u: "u < length (w_conns w)" and msg: "v1_Parse raw = Inr msg"
    and D: "(u, raddr, d) \<in> set D" "raw = take 1500 d"
  shows "uworld_ok (snd (u_handleMessage env u raddr msg w)) D"
proof -
  have handlers: "u_msgHandlerMap (uconn_at w u) = u_defaultHandlers"
    using ok u by (simp add: uworld_ok_def uconn_ok_def)
  have tpdu: "uworld_ok (snd (handleTPDU env u raddr msg w)) D"
  proof (cases msg)
    case (Msg1_TPDU h)
    then have h: "v1_ParseHeader raw = Inr h" "h1_Type h = v1_MsgTypeTPDU"
      using msg ParseHeader_type [of raw h] by (auto simp: v1_Parse_cases)
    let ?p = "\<lparr>ts_raddr = raddr, ts_teid = h1_TEID h, ts_seq = h1_Sequence h, ts_payload = h1_Payload h\<rparr>"
    have "received D u ?p" using h D unfolding received_def by (auto simp: h1_Sequence_def)
    then have "uworld_ok (upd_uconn u (\<lambda>c. c\<lparr>u_tpduCh := u_tpduCh c @ [?p]\<rparr>) w) D"
      using ok by (intro uworld_ok_upd) (auto simp: uconn_ok_def)
    moreover have "uworld_ok (snd (u_ErrorIndication env u raddr msg w)) D"
      by (rule uworld_ok_frame [OF ok]) simp
    ultimately show ?thesis
      by (auto simp: Msg1_TPDU handleTPDU_def split: prod.splits sum.splits failure.splits)
  qed (simp_all add: handleTPDU_def ok)
  moreover have "uworld_ok (snd (u_handleEchoRequest env u raddr msg w)) D"
    by (rule uworld_ok_frame [OF ok]) (simp add: u_handleEchoRequest_def split: v1_message.split)
  moreover have "uworld_ok (snd (u_handleEchoResponse env u raddr msg w)) D"
    by (rule uworld_ok_frame [OF ok]) (simp add: u_handleEchoResponse_def split: v1_message.split)
  moreover have "uworld_ok (snd (handleErrorIndication env u raddr msg w)) D"
    by (rule uworld_ok_frame [OF ok]) (simp add: handleErrorIndication_def split: v1_message.split)
  ultimately show ?thesis
    using ok by (auto simp: u_handleMessage_def handlers u_defaultHandlers_def map_load_def)
qed

lemma u_parse_and_handle_snd:
  "snd (u_parse_and_handle env u a raw w) =
     (case v1_Parse raw of Inr msg \<Rightarrow> snd (u_handleMessage env u a msg w) | Inl e \<Rightarrow> w)"
  by (auto simp: u_parse_and_handle_def split: sum.splits failure.splits prod.splits)

lemma u_serve_packet_snd:
  "snd (u_serve_packet env u a raw w) \<in>
     {w, snd (u_parse_and_handle env u a raw w)} \<union> range (\<lambda>(v, b, a). snd (u_WriteTo env v b a w))"
proof -
  have "snd (u_WriteTo env v b a w) \<in> range (\<lambda>(v, b, a). snd (u_WriteTo env v b a w))" for v b a
    by (rule range_eqI [of _ _ "(v, b, a)"]) simp
  then show ?thesis
    by (auto simp: u_serve_packet_def Let_def split: sum.split option.split)
qed

lemma uworld_ok_serve:
  assumes ok: "uworld_ok w D" and u: "u < length (w_conns w)" and d: "(u, raddr, d) \<in> set D"
  shows "uworld_ok (snd (u_serve env u raddr d w)) D"
proof -
  let ?raw = "take 1500 d"
  have "uworld_ok (snd (u_parse_and_handle env u raddr ?raw w)) D"
    using ok uworld_ok_handle [OF ok u _ d refl] by (auto simp: u_parse_and_handle_snd split: sum.split)
  moreover have "uworld_ok (snd (u_WriteTo env v b a w)) D" for v b a by (rule uworld_ok_frame [OF ok]) simp
  ultimately show ?thesis
    using ok u_serve_packet_snd [of env u raddr ?raw w] unfolding u_serve_def by auto
qed

lemma uworld_ok_take:
  "uworld_ok w D \<Longrightarrow>
     uworld_ok (upd_uconn u (\<lambda>c. c\<lparr>u_tpduCh := take k (u_tpduCh c) @ drop (k + 1) (u_tpduCh c)\<rparr>) w) D"
  by (erule uworld_ok_upd) (auto simp: uconn_ok_def dest: in_set_takeD in_set_dropD)

lemma upd_uconn_length [simp]: "length (w_conns (upd_uconn u f w)) = length (w_conns w)"
  by (simp add: upd_uconn_def)

lemma u_reachable_ok: "u_reachable env w D \<Longrightarrow> uworld_ok w D"
proof (induction rule: u_reachable.induct)
  case (r_start laddrs)
  show ?case
    by (simp add: uworld_ok_def uconn_ok_def NewUPlaneConn_def relay_map.every_def relay_load_def)
next
  case (r_serve w D u raddr datagram)
  show ?case by (rule uworld_ok_serve [OF uworld_ok_mono [OF r_serve.IH] r_serve.hyps(2)]) simp
next
  case (r_write w D u p raddr)
  show ?case by (rule uworld_ok_frame [OF r_write.IH]) simp
next
  case (r_write_gtp w D u teid p raddr)
  show ?case by (rule uworld_ok_frame [OF r_write_gtp.IH]) simp
next
  case (r_read w D choice n u r w')
  then show ?case
    using uworld_ok_take [OF r_read.IH] by (auto simp: ReadFromGTP_def Let_def split: option.splits if_splits)
next
  case (r_discard w D u k)
  show ?case by (rule uworld_ok_take [OF r_discard.IH])
next
  case (r_relay w D c u teidIn teidOut raddr)
  then show ?case
    by (auto simp: RelayTo_def uconn_ok_def intro!: uworld_ok_upd relay_map.every_store)
next
  case (r_close_relay w D u teidIn)
  then show ?case
    by (auto simp: CloseRelay_def uconn_ok_def map_delete_def intro!: uworld_ok_upd relay_map.every_delete)
next
  case (r_enable w D u)
  then show ?case by (auto simp: EnableErrorIndication_def uconn_ok_def intro!: uworld_ok_upd)
next
  case (r_disable w D u)
  then show ?case by (auto simp: DisableErrorIndication_def uconn_ok_def intro!: uworld_ok_upd)
next
  case (r_reserve w D rnd now ifType v4 v6 u)
  then show ?case
    by (auto simp: NewFTEID_def uconn_ok_def map_store_def dest: first_free_cases(1) split: option.splits
        intro!: uworld_ok_upd)
next
  case (r_closing w D u)
  then show ?case by (auto simp: u_Close_def uconn_ok_def intro!: uworld_ok_upd)
qed

text \<open>
  C31. What \<open>ReadFromGTP\<close> hands to the user has been received: in every reachable state, the TEID,
  the sender and the payload it returns are those of a T-PDU that arrived on this connection, cut
  to the reader's buffer; and no relay of a connection writes through one that does not exist.
\<close>

theorem gtpu_delivery:
  assumes "u_reachable env w D" "u < length (w_conns w)" "ReadFromGTP (Some k) n u w = Some ((p, raddr, teid), w')"
  shows "(\<exists>d h. (u, raddr, d) \<in> set D \<and> v1_ParseHeader (take 1500 d) = Inr h \<and> h1_Type h = v1_MsgTypeTPDU \<and>
       teid = h1_TEID h \<and> p = take n (h1_Payload h)) \<and>
     peer_srcConn ` ran (relay_load (u_relayMap (uconn_at w u))) \<subseteq> {..<length (w_conns w)}"
proof -
  have ok: "uconn_ok (length (w_conns w)) D u (uconn_at w u)"
    using u_reachable_ok [OF assms(1)] assms(2) by (simp add: uworld_ok_def)
  let ?q = "u_tpduCh (uconn_at w u)"
  have "k < length ?q" and q: "p = take n (ts_payload (?q ! k))" "raddr = ts_raddr (?q ! k)" "teid = ts_teid (?q ! k)"
    using assms(3) by (auto simp: ReadFromGTP_def Let_def split: if_splits)
  then have "received D u (?q ! k)" using ok by (simp add: uconn_ok_def)
  moreover have "peer_srcConn ` ran (relay_load (u_relayMap (uconn_at w u))) \<subseteq> {..<length (w_conns w)}"
    using ok by (auto simp: uconn_ok_def relay_map.every_def ran_def)
  ultimately show ?thesis using q by (auto simp: received_def)
qed

definition sample_served :: uworld where
  "sample_served = snd (u_serve sample_uenv 0 ''x:1'' [0x30, 255, 0, 3, 0, 0, 0, 7, 1, 2, 3]
     (upd_uconn 0 DisableErrorIndication sample_node))"

lemma sample_served_reachable:
  "u_reachable sample_uenv sample_served [(0, ''x:1'', [0x30, 255, 0, 3, 0, 0, 0, 7, 1, 2, 3])]"
proof -
  have "u_reachable sample_uenv sample_node []"
    using u_reachable.r_start [of sample_uenv "[''10.0.0.1:2152'']"] by (simp add: sample_node_def)
  then have "u_reachable sample_uenv (upd_uconn 0 DisableErrorIndication sample_node) []"
    by (rule u_reachable.r_disable)
  from u_reachable.r_serve [OF this, of 0] show ?thesis
    by (simp add: sample_served_def sample_node_def upd_uconn_def DisableErrorIndication_def NewUPlaneConn_def)
qed

theorem gtpu_delivery_witness:
  "\<exists>w'. ReadFromGTP (Some 0) 2 0 sample_served = Some (([1, 2], ''x:1'', 7), w') \<and>
     (\<exists>d h. d = [0x30, 255, 0, 3, 0, 0, 0, 7, 1, 2, 3] \<and> v1_ParseHeader (take 1500 d) = Inr h \<and>
        h1_TEID h = 7 \<and> take 2 (h1_Payload h) = [1, 2])"
proof -
  have "map_option fst (ReadFromGTP (Some 0) 2 0 sample_served) = Some ([1, 2], ''x:1'', 7)" by code_simp
  then obtain w' where w': "ReadFromGTP (Some 0) 2 0 sample_served = Some (([1, 2], ''x:1'', 7), w')" by auto
  moreover have "length (w_conns sample_served) = 1" by code_simp
  ultimately show ?thesis using gtpu_delivery [OF sample_served_reachable _ w'] by auto
qed

end
