(* ===== verification/V0IEValues.thy ===== *)
theory V0IEValues
  imports V0IE V1IEValues
begin

text \<open>
  The element types of GTPv0 (\<open>src/gtpv0/ie\<close>): constructors and accessors, with the helpers of
  \<open>V1IEValues\<close>. The accessors that give an address as text are in \<open>AddressText\<close>.
\<close>

section \<open>Single octets and booleans\<close>

definition v0_NewCause :: "byte \<Rightarrow> tv_ie" where
  "v0_NewCause cause = v0_newUint8ValIE v0_IE_Cause cause"

definition i0_Cause :: "tv_ie \<Rightarrow> byte result" where
  "i0_Cause = field_of v0_IE_Cause 1 (\<lambda>p. byte_at p 0)"

definition v0_NewRecovery :: "byte \<Rightarrow> tv_ie" where
  "v0_NewRecovery recovery = v0_newUint8ValIE v0_IE_Recovery recovery"

definition i0_Recovery :: "tv_ie \<Rightarrow> byte result" where
  "i0_Recovery = field_of v0_IE_Recovery 1 (\<lambda>p. byte_at p 0)"

definition v0_NewSelectionMode :: "byte \<Rightarrow> tv_ie" where
  "v0_NewSelectionMode mode = v0_newUint8ValIE v0_IE_SelectionMode mode"

definition i0_SelectionMode :: "tv_ie \<Rightarrow> byte result" where
  "i0_SelectionMode = field_of v0_IE_SelectionMode 1 (\<lambda>p. byte_at p 0)"

definition v0_NewMSNotReachableReason :: "byte \<Rightarrow> tv_ie" where
  "v0_NewMSNotReachableReason reason = v0_newUint8ValIE v0_IE_MSNotReachableReason reason"

definition i0_MSNotReachableReason :: "tv_ie \<Rightarrow> byte result" where
  "i0_MSNotReachableReason = field_of v0_IE_MSNotReachableReason 1 (\<lambda>p. byte_at p 0)"

definition v0_NewReorderingRequired :: "bool \<Rightarrow> tv_ie" where
  "v0_NewReorderingRequired required = v0_New v0_IE_ReorderingRequired (if required then [0xff] else [0xfe])"

definition i0_ReorderingRequired :: "tv_ie \<Rightarrow> bool result" where
  "i0_ReorderingRequired i =
     (if tv_Type i \<noteq> v0_IE_ReorderingRequired then Inr False
      else if length (tv_Payload i) = 0 then Inr False
      else andThen (byte_at (tv_Payload i) 0) (\<lambda>v. Inr (v AND 0x01 = 1)))"

section \<open>Numbers (charging-id.go, p-tmsi.go, p-tmsi-signature.go, tlli.go, flow-label.go)\<close>

definition v0_NewChargingID :: "u32 \<Rightarrow> tv_ie" where
  "v0_NewChargingID cid = v0_newUint32ValIE v0_IE_ChargingID cid"

definition i0_ChargingID :: "tv_ie \<Rightarrow> u32 result" where
  "i0_ChargingID = field_of v0_IE_ChargingID 4 (\<lambda>p. get32 p 0)"

definition v0_NewPacketTMSI :: "u32 \<Rightarrow> tv_ie" where
  "v0_NewPacketTMSI ptmsi = v0_newUint32ValIE v0_IE_PacketTMSI ptmsi"

definition i0_PacketTMSI :: "tv_ie \<Rightarrow> u32 result" where
  "i0_PacketTMSI = field_of v0_IE_PacketTMSI 4 (\<lambda>p. get32 p 0)"

definition v0_NewPTMSISignature :: "u32 \<Rightarrow> tv_ie" where
  "v0_NewPTMSISignature sig = v0_New v0_IE_PTMSISignature (Uint32To24 sig)"

definition i0_PTMSISignature :: "tv_ie \<Rightarrow> u32 result" where
  "i0_PTMSISignature = field_of v0_IE_PTMSISignature 3 (\<lambda>p. Inr (Uint24To32 p))"

definition v0_NewTemporaryLogicalLinkIdentity :: "u32 \<Rightarrow> tv_ie" where
  "v0_NewTemporaryLogicalLinkIdentity tlli = v0_newUint32ValIE v0_IE_TemporaryLogicalLinkIdentity tlli"

definition i0_TemporaryLogicalLinkIdentity :: "tv_ie \<Rightarrow> u32 result" where
  "i0_TemporaryLogicalLinkIdentity = field_of v0_IE_TemporaryLogicalLinkIdentity 4 (\<lambda>p. get32 p 0)"

definition v0_NewFlowLabelDataI :: "u16 \<Rightarrow> tv_ie" where
  "v0_NewFlowLabelDataI label = v0_newUint16ValIE v0_IE_FlowLabelDataI label"

definition i0_FlowLabelDataI :: "tv_ie \<Rightarrow> u16 result" where
  "i0_FlowLabelDataI = field_of v0_IE_FlowLabelDataI 2 (\<lambda>p. get16 p 0)"

definition v0_NewFlowLabelSignalling :: "u16 \<Rightarrow> tv_ie" where
  "v0_NewFlowLabelSignalling label = v0_newUint16ValIE v0_IE_FlowLabelSignalling label"

definition i0_FlowLabelSignalling :: "tv_ie \<Rightarrow> u16 result" where
  "i0_FlowLabelSignalling = field_of v0_IE_FlowLabelSignalling 2 (\<lambda>p. get16 p 0)"

definition v0_NewFlowLabelDataII :: "byte \<Rightarrow> u16 \<Rightarrow> tv_ie result" where
  "v0_NewFlowLabelDataII nsapi label =
     (let i = v0_New v0_IE_FlowLabelDataII (replicate 3 0) in
      set_payload i
        (andThen (write_at (tv_Payload i) 0 [nsapi OR 0xf0]) (\<lambda>p. write_at p 1 (be16 label))))"

definition i0_FlowLabelDataII :: "tv_ie \<Rightarrow> bytes result" where
  "i0_FlowLabelDataII i = (if tv_Type i \<noteq> v0_IE_FlowLabelDataII then tv_wrong_type i else Inr (tv_Payload i))"

definition i0_NSAPI :: "tv_ie \<Rightarrow> byte result" where
  "i0_NSAPI i =
     (if length (tv_Payload i) = 0 then eof
      else if tv_Type i = v0_IE_FlowLabelDataII
      then andThen (byte_at (tv_Payload i) 0) (\<lambda>b. Inr (b AND 0x0f))
      else tv_wrong_type i)"

definition i0_FlowLabelData :: "tv_ie \<Rightarrow> u16 result" where
  "i0_FlowLabelData i =
     (if length (tv_Payload i) < 2 then eof
      else if tv_Type i = v0_IE_FlowLabelDataI then i0_FlowLabelDataI i
      else if tv_Type i = v0_IE_FlowLabelSignalling then i0_FlowLabelSignalling i
      else if tv_Type i = v0_IE_FlowLabelDataII
      then (if length (tv_Payload i) < 3 then eof else get16 (tv_Payload i) 1)
      else tv_wrong_type i)"

section \<open>Identities (imsi.go, msisdn.go)\<close>

definition v0_NewIMSI :: "string \<Rightarrow> tv_ie result" where
  "v0_NewIMSI imsi =
     (case StrToSwappedBytes imsi ''f'' of
        Inr b \<Rightarrow> Inr (v0_New v0_IE_IMSI b)
      | Inl (Error e) \<Rightarrow> Inr (v0_New v0_IE_IMSI [])
      | Inl (Panic p) \<Rightarrow> Inl (Panic p))"

definition i0_IMSI :: "tv_ie \<Rightarrow> string result" where
  "i0_IMSI = field_of v0_IE_IMSI 1 (\<lambda>p. Inr (SwappedBytesToStr p True))"

definition v0_NewMSISDN :: "string \<Rightarrow> tv_ie option result" where
  "v0_NewMSISDN msisdn =
     tv_or_nil (\<lambda>b. Inr (Some (v0_New v0_IE_MSISDN b))) (StrToSwappedBytes (''19'' @ msisdn) ''f'')"

definition i0_MSISDN :: "tv_ie \<Rightarrow> string result" where
  "i0_MSISDN = field_of v0_IE_MSISDN 2
     (\<lambda>p. andThen (slice_from p 1) (\<lambda>q. Inr (SwappedBytesToStr q False)))"

section \<open>Access Point Name (apn.go)\<close>

definition v0_NewAccessPointName :: "string \<Rightarrow> tv_ie result" where
  "v0_NewAccessPointName apn =
     (let i = v0_New v0_IE_AccessPointName (replicate (length apn + 1) 0) in
      set_payload i (put_labels (tv_Payload i) 0 (Split (CHR ''.'') apn)))"

text \<open>The loop asks for a byte behind every label, also behind the last one.\<close>

fun followed_labels :: "bytes \<Rightarrow> string list result" where
  "followed_labels [] = Inr []"
| "followed_labels (l # r) =
     (if unat l \<ge> length r then eof
      else andThen (followed_labels (drop (unat l) r)) (\<lambda>ls. Inr (bytes_string (take (unat l) r) # ls)))"

definition i0_AccessPointName :: "tv_ie \<Rightarrow> string result" where
  "i0_AccessPointName = field_of v0_IE_AccessPointName 1
     (\<lambda>p. andThen (followed_labels p) (\<lambda>ls. Inr (Join (CHR ''.'') ls)))"

section \<open>Addresses (gsn-address.go, charging-gateway-address.go, end-user-address.go)\<close>

definition v0_NewGSNAddress :: "string \<Rightarrow> tv_ie" where
  "v0_NewGSNAddress addr =
     (let ip = ParseIP addr; v4 = To4 ip in
      if v4 \<noteq> [] then v0_New v0_IE_GSNAddress v4 else v0_New v0_IE_GSNAddress ip)"

definition v0_NewChargingGatewayAddress :: "string \<Rightarrow> tv_ie" where
  "v0_NewChargingGatewayAddress addr =
     (let ip = ParseIP addr; v4 = To4 ip in
      if v4 \<noteq> [] then v0_New v0_IE_ChargingGatewayAddress v4 else v0_New v0_IE_ChargingGatewayAddress ip)"

definition v0_newEUAddrV4 :: "ip \<Rightarrow> tv_ie result" where
  "v0_newEUAddrV4 v4 =
     (let e = v0_New v0_IE_EndUserAddress (replicate 6 0) in
      set_payload e
        (andThen (write_at (tv_Payload e) 0 [0xf1]) (\<lambda>p.
         andThen (write_at p 1 [0x21]) (\<lambda>p.
           copy_at p 2 (length p) v4))))"

definition v0_newEUAddrV6 :: "ip \<Rightarrow> tv_ie result" where
  "v0_newEUAddrV6 v6 =
     (let e = v0_New v0_IE_EndUserAddress (replicate 18 0) in
      set_payload e
        (andThen (write_at (replicate 18 0) 0 [0xf1]) (\<lambda>p.
         andThen (write_at p 1 [0x57]) (\<lambda>p.
           copy_at p 2 (length p) v6))))"

definition v0_NewEndUserAddressPPP :: tv_ie where
  "v0_NewEndUserAddressPPP =
     (let e = v0_New v0_IE_EndUserAddress (replicate 2 0) in
      v0_ie_SetLength (e\<lparr>tv_Payload := [0xf0, 0xf1]\<rparr>))"

definition v0_NewEndUserAddress :: "string \<Rightarrow> tv_ie result" where
  "v0_NewEndUserAddress addr =
     (if addr = ''ppp'' then Inr v0_NewEndUserAddressPPP
      else
        let ip = ParseIP addr; v4 = To4 ip in
        if v4 \<noteq> [] then v0_newEUAddrV4 v4 else v0_newEUAddrV6 ip)"

definition v0_NewEndUserAddressIPv4 :: "string \<Rightarrow> tv_ie result" where
  "v0_NewEndUserAddressIPv4 addr =
     (let v4 = To4 (ParseIP addr) in
      if v4 = [] then Inr (v0_New v0_IE_EndUserAddress [0xf1, 0x21]) else v0_newEUAddrV4 v4)"

definition v0_NewEndUserAddressIPv6 :: "string \<Rightarrow> tv_ie result" where
  "v0_NewEndUserAddressIPv6 addr =
     (let v6 = To16 (ParseIP addr) in
      if v6 = [] then Inr (v0_New v0_IE_EndUserAddress [0xf1, 0x57]) else v0_newEUAddrV6 v6)"

definition i0_EndUserAddress :: "tv_ie \<Rightarrow> bytes result" where
  "i0_EndUserAddress i =
     (if tv_Type i \<noteq> v0_IE_EndUserAddress then tv_wrong_type i else Inr (tv_Payload i))"

definition i0_PDPTypeOrganization :: "tv_ie \<Rightarrow> byte result" where
  "i0_PDPTypeOrganization = field_of v0_IE_EndUserAddress 1 (\<lambda>p. byte_at p 0)"

definition i0_PDPTypeNumber :: "tv_ie \<Rightarrow> byte result" where
  "i0_PDPTypeNumber = field_of v0_IE_EndUserAddress 2 (\<lambda>p. byte_at p 1)"

section \<open>Private Extension and Quality of Service (private-extension.go, qos-profile.go)\<close>

definition v0_NewPrivateExtension :: "u16 \<Rightarrow> bytes \<Rightarrow> tv_ie result" where
  "v0_NewPrivateExtension eid val =
     (let i = v0_New v0_IE_PrivateExtension (replicate (2 + length val) 0) in
      set_payload i
        (andThen (write_at (tv_Payload i) 0 (be16 eid)) (\<lambda>p. copy_at p 2 (length p) val)))"

definition i0_PrivateExtension :: "tv_ie \<Rightarrow> bytes result" where
  "i0_PrivateExtension i =
     (if tv_Type i \<noteq> v0_IE_PrivateExtension then tv_wrong_type i else Inr (tv_Payload i))"

definition i0_ExtensionIdentifier :: "tv_ie \<Rightarrow> u16 result" where
  "i0_ExtensionIdentifier = field_of v0_IE_PrivateExtension 2 (\<lambda>p. get16 p 0)"

definition i0_ExtensionValue :: "tv_ie \<Rightarrow> bytes result" where
  "i0_ExtensionValue = field_of v0_IE_PrivateExtension 3 (\<lambda>p. slice_from p 2)"

definition v0_NewQualityOfServiceProfile :: "byte \<Rightarrow> byte \<Rightarrow> byte \<Rightarrow> byte \<Rightarrow> byte \<Rightarrow> tv_ie" where
  "v0_NewQualityOfServiceProfile delay reliability peak precedence mean =
     (v0_New v0_IE_QualityOfServiceProfile (replicate 3 0))\<lparr>tv_Payload := [
        push_bit 3 (delay AND 0x07) OR (reliability AND 0x07),
        push_bit 4 (peak AND 0x0f) OR (precedence AND 0x07),
        mean AND 0x1f]\<rparr>"

definition i0_QualityOfServiceProfile :: "tv_ie \<Rightarrow> bytes result" where
  "i0_QualityOfServiceProfile i =
     (if tv_Type i \<noteq> v0_IE_QualityOfServiceProfile then tv_wrong_type i else Inr (tv_Payload i))"

definition i0_QoSDelay :: "tv_ie \<Rightarrow> byte result" where
  "i0_QoSDelay = field_of v0_IE_QualityOfServiceProfile 1 (\<lambda>p. andThen (byte_at p 0) (\<lambda>b. Inr (b AND 0x38)))"

definition i0_QoSReliability :: "tv_ie \<Rightarrow> byte result" where
  "i0_QoSReliability = field_of v0_IE_QualityOfServiceProfile 1 (\<lambda>p. andThen (byte_at p 0) (\<lambda>b. Inr (b AND 0x07)))"

definition i0_QoSPeak :: "tv_ie \<Rightarrow> byte result" where
  "i0_QoSPeak = field_of v0_IE_QualityOfServiceProfile 2 (\<lambda>p. andThen (byte_at p 1) (\<lambda>b. Inr (b AND 0xf0)))"

definition i0_QoSPrecedence :: "tv_ie \<Rightarrow> byte result" where
  "i0_QoSPrecedence = field_of v0_IE_QualityOfServiceProfile 2 (\<lambda>p. andThen (byte_at p 1) (\<lambda>b. Inr (b AND 0x07)))"

definition i0_QoSMean :: "tv_ie \<Rightarrow> byte result" where
  "i0_QoSMean = field_of v0_IE_QualityOfServiceProfile 3 (\<lambda>p. andThen (byte_at p 2) (\<lambda>b. Inr (b AND 0x0f)))"

section \<open>Routeing Area Identity (rai.go)\<close>

definition v0_NewRouteingAreaIdentity :: "string \<Rightarrow> string \<Rightarrow> u16 \<Rightarrow> byte \<Rightarrow> tv_ie option result" where
  "v0_NewRouteingAreaIdentity mcc mnc lac rac =
     tv_or_nil (\<lambda>plmn.
       let rai = v0_New v0_IE_RouteingAreaIdentity (replicate 6 0) in
       some_ie (set_payload rai
         (andThen (copy_at (tv_Payload rai) 0 3 plmn) (\<lambda>p.
          andThen (write_at p 3 (be16 lac)) (\<lambda>p.
            write_at p 5 [rac]))))) (EncodePLMN mcc mnc)"

definition i0_RouteingAreaIdentity :: "tv_ie \<Rightarrow> bytes result" where
  "i0_RouteingAreaIdentity i =
     (if tv_Type i \<noteq> v0_IE_RouteingAreaIdentity then tv_wrong_type i else Inr (tv_Payload i))"

definition i0_MCC :: "tv_ie \<Rightarrow> string result" where
  "i0_MCC = field_of v0_IE_RouteingAreaIdentity 2
     (\<lambda>p. andThen (slice p 0 2) (\<lambda>b. Inr (SwappedBytesToStr b False)))"

definition i0_MNC :: "tv_ie \<Rightarrow> string result" where
  "i0_MNC = field_of v0_IE_RouteingAreaIdentity 2
     (\<lambda>p. andThen (slice p 1 2) (\<lambda>b. Inr (SwappedBytesToStr b True)))"

definition i0_LAC :: "tv_ie \<Rightarrow> u16 result" where
  "i0_LAC = field_of v0_IE_RouteingAreaIdentity 5 (\<lambda>p. get16 p 3)"

definition i0_RAC :: "tv_ie \<Rightarrow> byte result" where
  "i0_RAC = field_of v0_IE_RouteingAreaIdentity 6 (\<lambda>p. byte_at p 5)"

section \<open>Lemmas\<close>

lemma followed_labels_error: "p \<noteq> [] \<Longrightarrow> followed_labels p = eof"
proof (induction p rule: followed_labels.induct)
  case (2 l r)
  then show ?case by (cases "length r \<le> unat l") simp_all
qed simp

lemma swapped_two: "SwappedBytesToStr [x, y] False =
    [hex_char x, hex_char (drop_bit 4 x), hex_char y, hex_char (drop_bit 4 y)]"
  and swapped_one: "SwappedBytesToStr [y] True = [hex_char y]"
proof -
  have swapped: "hex_pair (swap_byte x) = [hex_char x, hex_char (drop_bit 4 x)]" for x
  proof -
    have "hex_char (drop_bit 4 (swap_byte x)) = hex_char x"
      by (rule hex_char_eqI, rule byte_eqI) (auto simp: swap_byte_eq bit_simps byte_bit_high)
    moreover have "hex_char (swap_byte x) = hex_char (drop_bit 4 x)"
      by (rule hex_char_eqI, rule byte_eqI) (auto simp: swap_byte_eq bit_simps byte_bit_high)
    ultimately show ?thesis by (simp add: hex_pair_def)
  qed
  show "SwappedBytesToStr [x, y] False =
      [hex_char x, hex_char (drop_bit 4 x), hex_char y, hex_char (drop_bit 4 y)]"
    and "SwappedBytesToStr [y] True = [hex_char y]"
    by (simp_all add: SwappedBytesToStr_def swap_def hex_EncodeToString_def swapped del: hex_EncodeToString_2)
qed

section \<open>Properties\<close>

text \<open>
  No GTPv0 Access Point Name is ever read: the accessor asks for a byte behind every label, so
  it ends with an unexpected end of input on every payload.
\<close>

lemma v0_apn_rejected:
  "i0_AccessPointName i =
     (if tv_Type i = v0_IE_AccessPointName then Inl (Error IoErrUnexpectedEOF)
      else Inl (Error (IEInvalidTypeError (tv_Type i))))"
  using followed_labels_error [of "tv_Payload i"]
  by (cases "tv_Payload i") (simp_all add: i0_AccessPointName_def field_of_def)

text \<open>
  Routeing Area Identity of GTPv0: the codes of the location and routing areas come back, but
  the accessor of the MCC adds the filler or the third digit of the MNC behind its three digits,
  and the one of the MNC returns the last digit of the MCC.
\<close>

lemma v0_routeing_area:
  assumes "plmn_ok mcc mnc"
  shows "\<exists>r. v0_NewRouteingAreaIdentity mcc mnc lac rac = Inr (Some r) \<and>
     i0_LAC r = Inr lac \<and> i0_RAC r = Inr rac \<and>
     i0_MCC r = Inr (mcc @ (if length mnc = 2 then ''f'' else [mnc ! 2])) \<and>
     i0_MNC r = Inr [mcc ! 2]"
proof -
  obtain b where b: "EncodePLMN mcc mnc = Inr b" "length b = 3" "DecodePLMN b = Inr (mcc, mnc)"
    using PLMN_roundtrip_aux [OF assms] by blast
  obtain x y z where xyz: "b = [x, y, z]" using b(2) by (auto simp: numeral_eq_Suc length_Suc_conv)
  have mcc: "mcc = [hex_char x, hex_char (drop_bit 4 x), hex_char y]"
    and mnc: "mnc = (if hex_char (drop_bit 4 y) = CHR ''f'' then [hex_char z, hex_char (drop_bit 4 z)]
        else [hex_char z, hex_char (drop_bit 4 z), hex_char (drop_bit 4 y)])"
    using b(3) by (simp_all add: xyz DecodePLMN_3bytes)
  let ?r = "(v0_New v0_IE_RouteingAreaIdentity (replicate 6 0))\<lparr>tv_Payload := [x, y, z] @ be16 lac @ [rac]\<rparr>"
  have "v0_NewRouteingAreaIdentity mcc mnc lac rac = Inr (Some ?r)"
    using b(1) by (simp add: v0_NewRouteingAreaIdentity_def xyz copy_at_def write_at_def be16_def numeral_eq_Suc
        del: v0_New_sel(1))
  moreover have "i0_LAC ?r = Inr lac" "i0_RAC ?r = Inr rac"
    using join16_be16 [of lac] by (simp_all add: i0_LAC_def i0_RAC_def get16_def byte_at_def be16_def)
  moreover have "i0_MCC ?r = Inr (mcc @ (if length mnc = 2 then ''f'' else [mnc ! 2]))" "i0_MNC ?r = Inr [mcc ! 2]"
    using mnc by (simp_all add: i0_MCC_def i0_MNC_def slice_def swapped_two swapped_one mcc)
  ultimately show ?thesis by blast
qed

lemma v0_routeing_area_witness:
  "\<exists>r. v0_NewRouteingAreaIdentity ''440'' ''10'' 7 9 = Inr (Some r) \<and> i0_MCC r = Inr ''440f'' \<and> i0_MNC r = Inr ''0''"
proof -
  have "plmn_ok ''440'' ''10''" by (simp add: plmn_ok_def dec_digit_def)
  from v0_routeing_area [OF this, of 7 9] show ?thesis by auto
qed

text \<open>The mean throughput class is written in five bits and read in four; delay and peak stay shifted.\<close>

lemma v0_qos_fields:
  "i0_QoSMean (v0_NewQualityOfServiceProfile d r p c 16) = Inr 0"
  "i0_QoSDelay (v0_NewQualityOfServiceProfile 1 r p c m) = Inr 8"
  "i0_QoSPeak (v0_NewQualityOfServiceProfile d r 1 c m) = Inr 16"
proof -
  have bits: "(push_bit 3 (1 AND 7) OR (r AND 7)) AND 56 = (8 :: byte)"
    "(push_bit 4 (1 AND 15) OR (c AND 7)) AND 240 = (16 :: byte)"
  proof -
    show "(push_bit 3 (1 AND 7) OR (r AND 7)) AND 56 = (8 :: byte)"
      by (simp add: bit.conj_disj_distrib2 and.assoc)
    show "(push_bit 4 (1 AND 15) OR (c AND 7)) AND 240 = (16 :: byte)"
      by (simp add: bit.conj_disj_distrib2 and.assoc)
  qed
  show "i0_QoSMean (v0_NewQualityOfServiceProfile d r p c 16) = Inr 0"
    by (simp add: i0_QoSMean_def v0_NewQualityOfServiceProfile_def byte_at_def)
  show "i0_QoSDelay (v0_NewQualityOfServiceProfile 1 r p c m) = Inr 8"
    using bits(1) by (simp add: i0_QoSDelay_def v0_NewQualityOfServiceProfile_def byte_at_def)
  show "i0_QoSPeak (v0_NewQualityOfServiceProfile d r 1 c m) = Inr 16"
    using bits(2) by (simp add: i0_QoSPeak_def v0_NewQualityOfServiceProfile_def byte_at_def)
qed

end
