(* ===== verification/V2TFT.thy ===== *)
theory V2TFT
  imports V2IEValues
begin

text \<open>
  The traffic flow templates of GTPv2 (\<open>src/gtpv2/ie/tft.go\<close>, \<open>bearer-tft.go\<close>, \<open>tad.go\<close>): a template
  is an operation on packet filters, a filter a list of components, and parameters may follow.
  Components and parameters are decoded in loops of the kind of \<open>IEStream\<close>, whose contracts are
  interpreted here: the decoder of components meets \<open>ie_decoder\<close>, the one of parameters only
  \<open>ie_encoder\<close>, as it panics on the two largest lengths.

  The decoder slices the list of identifiers out of its input without a length check, so it may
  read behind its input into the buffer the input is part of: \<open>behind\<close> are the bytes there.
\<close>

section \<open>Components of a packet filter\<close>

record tft_component =
  comp_Type :: byte
  comp_Contents :: bytes

abbreviation PFCompIPv4RemoteAddress :: byte where "PFCompIPv4RemoteAddress \<equiv> 16"
abbreviation PFCompIPv4LocalAddress :: byte where "PFCompIPv4LocalAddress \<equiv> 17"
abbreviation PFCompIPv6RemoteAddress :: byte where "PFCompIPv6RemoteAddress \<equiv> 32"
abbreviation PFCompIPv6RemoteAddressPrefixLength :: byte where "PFCompIPv6RemoteAddressPrefixLength \<equiv> 33"
abbreviation PFCompIPv6LocalAddressPrefixLength :: byte where "PFCompIPv6LocalAddressPrefixLength \<equiv> 35"
abbreviation PFCompProtocolIdentifierNextHeader :: byte where "PFCompProtocolIdentifierNextHeader \<equiv> 48"
abbreviation PFCompSingleLocalPort :: byte where "PFCompSingleLocalPort \<equiv> 64"
abbreviation PFCompLocalPortRange :: byte where "PFCompLocalPortRange \<equiv> 65"
abbreviation PFCompSingleRemotePort :: byte where "PFCompSingleRemotePort \<equiv> 80"
abbreviation PFCompRemotePortRange :: byte where "PFCompRemotePortRange \<equiv> 81"
abbreviation PFCompSecurityParameterIndex :: byte where "PFCompSecurityParameterIndex \<equiv> 96"
abbreviation PFCompTypeOfServiceTrafficClass :: byte where "PFCompTypeOfServiceTrafficClass \<equiv> 112"
abbreviation PFCompFlowLabel :: byte where "PFCompFlowLabel \<equiv> 128"
abbreviation PFCompDestinationMACAddress :: byte where "PFCompDestinationMACAddress \<equiv> 129"
abbreviation PFCompSourceMACAddress :: byte where "PFCompSourceMACAddress \<equiv> 130"
abbreviation PFCompDot1QCTAGVID :: byte where "PFCompDot1QCTAGVID \<equiv> 131"
abbreviation PFCompDot1QSTAGVID :: byte where "PFCompDot1QSTAGVID \<equiv> 132"
abbreviation PFCompDot1QCTAGPCPDEI :: byte where "PFCompDot1QCTAGPCPDEI \<equiv> 133"
abbreviation PFCompDot1QSTAGPCPDEI :: byte where "PFCompDot1QSTAGPCPDEI \<equiv> 134"
abbreviation PFCompEthertype :: byte where "PFCompEthertype \<equiv> 135"

definition NewTFTPFComponent :: "byte \<Rightarrow> bytes \<Rightarrow> tft_component" where
  "NewTFTPFComponent t contents = \<lparr>comp_Type = t, comp_Contents = contents\<rparr>"

definition NewTFTPFComponentIPv4RemoteAddress :: "ip \<Rightarrow> bytes \<Rightarrow> tft_component" where
  "NewTFTPFComponentIPv4RemoteAddress ip msk = NewTFTPFComponent PFCompIPv4RemoteAddress (To4 ip @ msk)"

definition NewTFTPFComponentIPv4LocalAddress :: "ip \<Rightarrow> bytes \<Rightarrow> tft_component" where
  "NewTFTPFComponentIPv4LocalAddress ip msk = NewTFTPFComponent PFCompIPv4LocalAddress (To4 ip @ msk)"

definition NewTFTPFComponentIPv6RemoteAddress :: "ip \<Rightarrow> bytes \<Rightarrow> tft_component" where
  "NewTFTPFComponentIPv6RemoteAddress ip msk = NewTFTPFComponent PFCompIPv6RemoteAddress (To16 ip @ msk)"

definition NewTFTPFComponentIPv6RemoteAddressPrefixLength :: "ip \<Rightarrow> byte \<Rightarrow> tft_component" where
  "NewTFTPFComponentIPv6RemoteAddressPrefixLength ip prefix = NewTFTPFComponent PFCompIPv6RemoteAddressPrefixLength (To16 ip @ [prefix])"

definition NewTFTPFComponentIPv6LocalAddressPrefixLength :: "ip \<Rightarrow> byte \<Rightarrow> tft_component" where
  "NewTFTPFComponentIPv6LocalAddressPrefixLength ip prefix = NewTFTPFComponent PFCompIPv6LocalAddressPrefixLength (To16 ip @ [prefix])"

definition NewTFTPFComponentProtocolIdentifierNextHeader :: "byte \<Rightarrow> tft_component" where
  "NewTFTPFComponentProtocolIdentifierNextHeader pid = NewTFTPFComponent PFCompProtocolIdentifierNextHeader [pid]"

definition NewTFTPFComponentSingleLocalPort :: "u16 \<Rightarrow> tft_component" where
  "NewTFTPFComponentSingleLocalPort port = NewTFTPFComponent PFCompSingleLocalPort (be16 port)"

definition NewTFTPFComponentLocalPortRange :: "u16 \<Rightarrow> u16 \<Rightarrow> tft_component" where
  "NewTFTPFComponentLocalPortRange low high = NewTFTPFComponent PFCompLocalPortRange (be16 low @ be16 high)"

definition NewTFTPFComponentSingleRemotePort :: "u16 \<Rightarrow> tft_component" where
  "NewTFTPFComponentSingleRemotePort port = NewTFTPFComponent PFCompSingleRemotePort (be16 port)"

definition NewTFTPFComponentRemotePortRange :: "u16 \<Rightarrow> u16 \<Rightarrow> tft_component" where
  "NewTFTPFComponentRemotePortRange low high = NewTFTPFComponent PFCompRemotePortRange (be16 low @ be16 high)"

definition NewTFTPFComponentSecurityParameterIndex :: "u32 \<Rightarrow> tft_component" where
  "NewTFTPFComponentSecurityParameterIndex idx = NewTFTPFComponent PFCompSecurityParameterIndex (be32 idx)"

definition NewTFTPFComponentTypeOfServiceTrafficClass :: "byte \<Rightarrow> byte \<Rightarrow> tft_component" where
  "NewTFTPFComponentTypeOfServiceTrafficClass cls msk = NewTFTPFComponent PFCompTypeOfServiceTrafficClass [cls, msk]"

definition NewTFTPFComponentFlowLabel :: "u32 \<Rightarrow> tft_component" where
  "NewTFTPFComponentFlowLabel label = NewTFTPFComponent PFCompFlowLabel (Uint32To24 label)"

definition NewTFTPFComponentDestinationMACAddress :: "bytes \<Rightarrow> tft_component" where
  "NewTFTPFComponentDestinationMACAddress mac = NewTFTPFComponent PFCompDestinationMACAddress mac"

definition NewTFTPFComponentSourceMACAddress :: "bytes \<Rightarrow> tft_component" where
  "NewTFTPFComponentSourceMACAddress mac = NewTFTPFComponent PFCompSourceMACAddress mac"

definition NewTFTPFComponentDot1QCTAGVID :: "u16 \<Rightarrow> tft_component" where
  "NewTFTPFComponentDot1QCTAGVID vid = NewTFTPFComponent PFCompDot1QCTAGVID (be16 vid)"

definition NewTFTPFComponentDot1QSTAGVID :: "u16 \<Rightarrow> tft_component" where
  "NewTFTPFComponentDot1QSTAGVID vid = NewTFTPFComponent PFCompDot1QSTAGVID (be16 vid)"

definition NewTFTPFComponentDot1QCTAGPCPDEI :: "byte \<Rightarrow> tft_component" where
  "NewTFTPFComponentDot1QCTAGPCPDEI pcpdei = NewTFTPFComponent PFCompDot1QCTAGPCPDEI [pcpdei]"

definition NewTFTPFComponentDot1QSTAGPCPDEI :: "byte \<Rightarrow> tft_component" where
  "NewTFTPFComponentDot1QSTAGPCPDEI pcpdei = NewTFTPFComponent PFCompDot1QSTAGPCPDEI [pcpdei]"

definition NewTFTPFComponentEthertype :: "u16 \<Rightarrow> tft_component" where
  "NewTFTPFComponentEthertype etype = NewTFTPFComponent PFCompEthertype (be16 etype)"

text \<open>An accessor checks the type of the component and the length of its contents.\<close>

definition comp_field :: "byte \<Rightarrow> nat \<Rightarrow> (bytes \<Rightarrow> 'a result) \<Rightarrow> tft_component \<Rightarrow> 'a result" where
  "comp_field t n f c =
     (if comp_Type c \<noteq> t then Inl (Error IEErrInvalidType)
      else if length (comp_Contents c) < n then eof
      else f (comp_Contents c))"

definition net_at :: "nat \<Rightarrow> nat \<Rightarrow> nat \<Rightarrow> bytes \<Rightarrow> ip_net result" where
  "net_at n i j p =
     andThen (slice p 0 n) (\<lambda>ip. andThen (slice p i j) (\<lambda>mask. Inr \<lparr>net_IP = ip, net_Mask = mask\<rparr>))"

definition prefix_net :: "bytes \<Rightarrow> ip_net result" where
  "prefix_net p =
     andThen (slice p 0 16) (\<lambda>ip. andThen (byte_at p 17) (\<lambda>ones.
       Inr \<lparr>net_IP = ip, net_Mask = CIDRMask (unat ones) 128\<rparr>))"

definition c_IPv4RemoteAddress :: "tft_component \<Rightarrow> ip_net result" where
  "c_IPv4RemoteAddress = comp_field PFCompIPv4RemoteAddress 8 (net_at 4 4 8)"

definition c_IPv4LocalAddress :: "tft_component \<Rightarrow> ip_net result" where
  "c_IPv4LocalAddress = comp_field PFCompIPv4LocalAddress 8 (net_at 4 4 8)"

definition c_IPv6RemoteAddress :: "tft_component \<Rightarrow> ip_net result" where
  "c_IPv6RemoteAddress = comp_field PFCompIPv6RemoteAddress 32 (net_at 16 17 32)"

definition c_IPv6RemoteAddressPrefixLength :: "tft_component \<Rightarrow> ip_net result" where
  "c_IPv6RemoteAddressPrefixLength = comp_field PFCompIPv6RemoteAddressPrefixLength 17 prefix_net"

definition c_IPv6LocalAddressPrefixLength :: "tft_component \<Rightarrow> ip_net result" where
  "c_IPv6LocalAddressPrefixLength = comp_field PFCompIPv6LocalAddressPrefixLength 17 prefix_net"

definition c_ProtocolIdentifierNextHeader :: "tft_component \<Rightarrow> byte result" where
  "c_ProtocolIdentifierNextHeader = comp_field PFCompProtocolIdentifierNextHeader 1 (\<lambda>p. byte_at p 0)"

definition c_SingleLocalPort :: "tft_component \<Rightarrow> u16 result" where
  "c_SingleLocalPort = comp_field PFCompSingleLocalPort 2 (\<lambda>p. get16 p 0)"

definition c_LocalPortRange :: "tft_component \<Rightarrow> (u16 \<times> u16) result" where
  "c_LocalPortRange = comp_field PFCompLocalPortRange 4 
     (\<lambda>p. andThen (get16 p 0) (\<lambda>low. andThen (get16 p 2) (\<lambda>high. Inr (low, high))))"

definition c_SingleRemotePort :: "tft_component \<Rightarrow> u16 result" where
  "c_SingleRemotePort = comp_field PFCompSingleRemotePort 2 (\<lambda>p. get16 p 0)"

definition c_RemotePortRange :: "tft_component \<Rightarrow> (u16 \<times> u16) result" where
  "c_RemotePortRange = comp_field PFCompRemotePortRange 4 
     (\<lambda>p. andThen (get16 p 0) (\<lambda>low. andThen (get16 p 2) (\<lambda>high. Inr (low, high))))"

definition c_SecurityParameterIndex :: "tft_component \<Rightarrow> u32 result" where
  "c_SecurityParameterIndex = comp_field PFCompSecurityParameterIndex 4 (\<lambda>p. get32 p 0)"

definition c_TypeOfServiceTrafficClass :: "tft_component \<Rightarrow> (byte \<times> byte) result" where
  "c_TypeOfServiceTrafficClass = comp_field PFCompTypeOfServiceTrafficClass 2 
     (\<lambda>p. andThen (byte_at p 0) (\<lambda>class. andThen (byte_at p 1) (\<lambda>mask. Inr (class, mask))))"

definition c_FlowLabel :: "tft_component \<Rightarrow> u32 result" where
  "c_FlowLabel = comp_field PFCompFlowLabel 3 
     (\<lambda>p. andThen (slice p 0 3) (\<lambda>b. Inr (Uint24To32 b)))"

definition c_DestinationMACAddress :: "tft_component \<Rightarrow> bytes result" where
  "c_DestinationMACAddress = comp_field PFCompDestinationMACAddress 6 (\<lambda>p. slice p 0 6)"

definition c_SourceMACAddress :: "tft_component \<Rightarrow> bytes result" where
  "c_SourceMACAddress = comp_field PFCompSourceMACAddress 6 (\<lambda>p. slice p 0 6)"

definition c_Dot1QCTAGVID :: "tft_component \<Rightarrow> u16 result" where
  "c_Dot1QCTAGVID = comp_field PFCompDot1QCTAGVID 2 (\<lambda>p. get16 p 0)"

definition c_Dot1QSTAGVID :: "tft_component \<Rightarrow> u16 result" where
  "c_Dot1QSTAGVID = comp_field PFCompDot1QSTAGVID 2 (\<lambda>p. get16 p 0)"

definition c_Dot1QCTAGPCPDEI :: "tft_component \<Rightarrow> byte result" where
  "c_Dot1QCTAGPCPDEI = comp_field PFCompDot1QCTAGPCPDEI 1 (\<lambda>p. byte_at p 0)"

definition c_Dot1QSTAGPCPDEI :: "tft_component \<Rightarrow> byte result" where
  "c_Dot1QSTAGPCPDEI = comp_field PFCompDot1QSTAGPCPDEI 1 (\<lambda>p. byte_at p 0)"

definition c_Ethertype :: "tft_component \<Rightarrow> u16 result" where
  "c_Ethertype = comp_field PFCompEthertype 2 (\<lambda>p. get16 p 0)"

definition comp_MarshalLen :: "tft_component \<Rightarrow> nat" where
  "comp_MarshalLen c = 1 + length (comp_Contents c)"

definition comp_MarshalTo :: "tft_component \<Rightarrow> bytes \<Rightarrow> bytes result" where
  "comp_MarshalTo c b =
     (if length b < 1 + length (comp_Contents c) then eof
      else andThen (write_at b 0 [comp_Type c]) (\<lambda>b.
        copy_at b 1 (1 + length (comp_Contents c)) (comp_Contents c)))"

definition comp_Marshal :: "tft_component \<Rightarrow> bytes result" where
  "comp_Marshal c = comp_MarshalTo c (replicate (comp_MarshalLen c) 0)"

definition comp_size :: "byte \<Rightarrow> nat" where
  "comp_size t =
     (if t \<in> {PFCompIPv4RemoteAddress, PFCompIPv4LocalAddress} then 8
      else if t = PFCompIPv6RemoteAddress then 32
      else if t \<in> {PFCompIPv6RemoteAddressPrefixLength, PFCompIPv6LocalAddressPrefixLength} then 17
      else if t = PFCompProtocolIdentifierNextHeader then 1
      else if t \<in> {PFCompSingleLocalPort, PFCompSingleRemotePort} then 2
      else if t \<in> {PFCompLocalPortRange, PFCompRemotePortRange} then 4
      else if t = PFCompSecurityParameterIndex then 4
      else if t = PFCompTypeOfServiceTrafficClass then 2
      else if t = PFCompFlowLabel then 3
      else if t \<in> {PFCompDestinationMACAddress, PFCompSourceMACAddress} then 6
      else if t \<in> {PFCompDot1QCTAGVID, PFCompDot1QSTAGVID} then 2
      else if t \<in> {PFCompDot1QCTAGPCPDEI, PFCompDot1QSTAGPCPDEI} then 1
      else if t = PFCompEthertype then 2
      else 0)"

definition comp_UnmarshalBinary :: "bytes \<Rightarrow> tft_component result" where
  "comp_UnmarshalBinary b =
     (let l = length b in
      if l < 1 then eof
      else andThen (byte_at b 0) (\<lambda>t.
        let n = comp_size t in
        if l < 1 + n then eof
        else andThen (slice b 1 (1 + n)) (\<lambda>p. Inr \<lparr>comp_Type = t, comp_Contents = p\<rparr>)))"

function ParseMultiTFTPFComponent :: "bytes \<Rightarrow> tft_component list result" where
  "ParseMultiTFTPFComponent b =
     (if length b = 0 then Inr []
      else andThen (comp_UnmarshalBinary b) (\<lambda>i.
        andThen (slice_from b (comp_MarshalLen i)) (\<lambda>r.
        andThen (ParseMultiTFTPFComponent r) (\<lambda>comps. Inr (i # comps)))))"
  by pat_completeness auto
termination
  by (relation "measure length") (auto simp: slice_from_def slice_def comp_MarshalLen_def split: if_splits)

declare ParseMultiTFTPFComponent.simps [simp del]

section \<open>Packet filters\<close>

abbreviation TFTPFPreRel7TFTFilter :: byte where "TFTPFPreRel7TFTFilter \<equiv> 0"
abbreviation TFTPFDownlinkOnly :: byte where "TFTPFDownlinkOnly \<equiv> 1"
abbreviation TFTPFUplinkOnly :: byte where "TFTPFUplinkOnly \<equiv> 2"
abbreviation TFTPFBidirectional :: byte where "TFTPFBidirectional \<equiv> 3"

record tft_filter =
  pf_Direction :: byte
  pf_Identifier :: byte
  pf_EvaluationPrecedence :: byte
  pf_Length :: byte
  pf_Components :: "tft_component list"

definition pf_SetLength :: "tft_filter \<Rightarrow> tft_filter" where
  "pf_SetLength p = p\<lparr>pf_Length := of_nat (\<Sum>c \<leftarrow> pf_Components p. comp_MarshalLen c)\<rparr>"

definition NewTFTPacketFilter :: "byte \<Rightarrow> byte \<Rightarrow> byte \<Rightarrow> tft_component list \<Rightarrow> tft_filter" where
  "NewTFTPacketFilter dir pid precedence comps =
     pf_SetLength \<lparr>pf_Direction = dir, pf_Identifier = pid, pf_EvaluationPrecedence = precedence,
       pf_Length = 0, pf_Components = comps\<rparr>"

definition pf_MarshalLen :: "tft_filter \<Rightarrow> nat" where
  "pf_MarshalLen p = 3 + (\<Sum>c \<leftarrow> pf_Components p. comp_MarshalLen c)"

fun comps_MarshalTo :: "tft_component list \<Rightarrow> nat \<Rightarrow> bytes \<Rightarrow> bytes result" where
  "comps_MarshalTo [] offset b = Inr b"
| "comps_MarshalTo (c # comps) offset b =
     (let n = comp_MarshalLen c in
      if length b < offset + n then eof
      else andThen (within b offset (offset + n) (comp_MarshalTo c)) (\<lambda>b.
        comps_MarshalTo comps (offset + n) b))"

definition pf_MarshalTo :: "tft_filter \<Rightarrow> bytes \<Rightarrow> bytes result" where
  "pf_MarshalTo p b =
     (if length b < 3 then eof
      else andThen (write_at b 0 [push_bit 4 (pf_Direction p AND 0b11) OR (pf_Identifier p AND 0b1111)]) (\<lambda>b.
        andThen (write_at b 1 [pf_EvaluationPrecedence p]) (\<lambda>b.
        andThen (write_at b 2 [pf_Length p]) (\<lambda>b.
          comps_MarshalTo (pf_Components p) 3 b))))"

definition pf_Marshal :: "tft_filter \<Rightarrow> bytes result" where
  "pf_Marshal p = pf_MarshalTo p (replicate (pf_MarshalLen p) 0)"

definition pf_UnmarshalBinary :: "bytes \<Rightarrow> tft_filter result" where
  "pf_UnmarshalBinary b =
     (let l = length b in
      if l < 3 then eof
      else andThen (byte_at b 0) (\<lambda>b0. andThen (byte_at b 1) (\<lambda>b1. andThen (byte_at b 2) (\<lambda>b2.
        let n = 3 + unat b2 in
        if l < n then eof
        else andThen (andThen (slice b 3 n) ParseMultiTFTPFComponent) (\<lambda>comps.
          Inr \<lparr>pf_Direction = drop_bit 4 b0 AND 0b11, pf_Identifier = b0 AND 0b1111,
               pf_EvaluationPrecedence = b1, pf_Length = b2, pf_Components = comps\<rparr>)))))"

section \<open>Parameters\<close>

abbreviation TFTParamIDAuthorizationToken :: byte where "TFTParamIDAuthorizationToken \<equiv> 1"
abbreviation TFTParamIDFlowIdentifier :: byte where "TFTParamIDFlowIdentifier \<equiv> 2"
abbreviation TFTParamIDPacketFileterIdentifier :: byte where "TFTParamIDPacketFileterIdentifier \<equiv> 3"

record tft_parameter =
  par_Identifier :: byte
  par_Length :: byte
  par_Contents :: bytes

definition NewTFTParameter :: "byte \<Rightarrow> bytes \<Rightarrow> tft_parameter" where
  "NewTFTParameter pid contents =
     \<lparr>par_Identifier = pid, par_Length = of_nat (length contents), par_Contents = contents\<rparr>"

definition par_SetLength :: "tft_parameter \<Rightarrow> tft_parameter" where
  "par_SetLength p = p\<lparr>par_Length := of_nat (length (par_Contents p))\<rparr>"

definition par_MarshalLen :: "tft_parameter \<Rightarrow> nat" where
  "par_MarshalLen p = 2 + length (par_Contents p)"

definition par_MarshalTo :: "tft_parameter \<Rightarrow> bytes \<Rightarrow> bytes result" where
  "par_MarshalTo p b =
     (let l = length b in
      if l < 2 then eof
      else andThen (write_at b 0 [par_Identifier p]) (\<lambda>b. andThen (write_at b 1 [par_Length p]) (\<lambda>b.
        if l < 2 + length (par_Contents p) then eof
        else copy_at b 2 (2 + length (par_Contents p)) (par_Contents p))))"

definition par_Marshal :: "tft_parameter \<Rightarrow> bytes result" where
  "par_Marshal p = par_MarshalTo p (replicate (par_MarshalLen p) 0)"

text \<open>The end of the contents, \<open>2 + p.Length\<close>, is computed in eight bits.\<close>

definition par_UnmarshalBinary :: "bytes \<Rightarrow> tft_parameter result" where
  "par_UnmarshalBinary b =
     (let l = length b in
      if l < 2 then eof
      else andThen (byte_at b 0) (\<lambda>b0. andThen (byte_at b 1) (\<lambda>b1.
        if l < unat (2 + b1) then eof
        else andThen (slice b 2 (unat (2 + b1))) (\<lambda>p.
          Inr \<lparr>par_Identifier = b0, par_Length = b1, par_Contents = p\<rparr>))))"

function ParseMultiTFTParameters :: "bytes \<Rightarrow> tft_parameter list result" where
  "ParseMultiTFTParameters b =
     (if length b = 0 then Inr []
      else andThen (par_UnmarshalBinary b) (\<lambda>i.
        andThen (slice_from b (par_MarshalLen i)) (\<lambda>r.
        andThen (ParseMultiTFTParameters r) (\<lambda>params. Inr (i # params)))))"
  by pat_completeness auto
termination
  by (relation "measure length") (auto simp: slice_from_def slice_def par_MarshalLen_def split: if_splits)

declare ParseMultiTFTParameters.simps [simp del]

section \<open>Templates\<close>

abbreviation TFTOpIgnoreThisIE :: byte where "TFTOpIgnoreThisIE \<equiv> 0"
abbreviation TFTOpCreateNewTFT :: byte where "TFTOpCreateNewTFT \<equiv> 1"
abbreviation TFTOpDeleteExistingTFT :: byte where "TFTOpDeleteExistingTFT \<equiv> 2"
abbreviation TFTOpAddPacketFiltersToExistingTFT :: byte where "TFTOpAddPacketFiltersToExistingTFT \<equiv> 3"
abbreviation TFTOpReplacePacketFiltersInExistingTFT :: byte where "TFTOpReplacePacketFiltersInExistingTFT \<equiv> 4"
abbreviation TFTOpDeletePacketFiltersFromExistingTFT :: byte where "TFTOpDeletePacketFiltersFromExistingTFT \<equiv> 5"
abbreviation TFTOpNoTFTOperation :: byte where "TFTOpNoTFTOperation \<equiv> 6"

abbreviation TFTOpsWithFilters :: "byte set" where
  "TFTOpsWithFilters \<equiv> {TFTOpCreateNewTFT, TFTOpAddPacketFiltersToExistingTFT,
     TFTOpReplacePacketFiltersInExistingTFT}"

text \<open>Filters and parameters are pointers, nil ones are skipped.\<close>

record traffic_flow_template =
  tft_OperationCode :: byte
  tft_PacketFilters :: "tft_filter option list"
  tft_PacketFilterIdentifiers :: bytes
  tft_Parameters :: "tft_parameter option list"

definition NewTrafficFlowTemplate ::
  "byte \<Rightarrow> tft_filter option list \<Rightarrow> bytes \<Rightarrow> tft_parameter option list \<Rightarrow> traffic_flow_template" where
  "NewTrafficFlowTemplate op filters ids params =
     \<lparr>tft_OperationCode = op, tft_PacketFilters = filter (\<lambda>f. f \<noteq> None) filters,
      tft_PacketFilterIdentifiers = ids, tft_Parameters = filter (\<lambda>p. p \<noteq> None) params\<rparr>"

definition tft_MarshalLen :: "traffic_flow_template \<Rightarrow> nat" where
  "tft_MarshalLen f =
     1 + (\<Sum>p \<leftarrow> List.map_filter id (tft_PacketFilters f). pf_MarshalLen p)
       + length (tft_PacketFilterIdentifiers f)
       + (\<Sum>p \<leftarrow> List.map_filter id (tft_Parameters f). par_MarshalLen p)"

text \<open>The two loops of the encoder are the same for filters and parameters.\<close>

fun write_all :: "('a \<Rightarrow> bytes \<Rightarrow> bytes result) \<Rightarrow> ('a \<Rightarrow> nat) \<Rightarrow> 'a option list \<Rightarrow> nat \<Rightarrow> bytes \<Rightarrow>
    (nat \<times> bytes) result" where
  "write_all to len [] offset b = Inr (offset, b)"
| "write_all to len (None # xs) offset b = write_all to len xs offset b"
| "write_all to len (Some x # xs) offset b =
     andThen (within b offset (length b) (to x)) (\<lambda>b. write_all to len xs (offset + len x) b)"

definition tft_MarshalTo :: "traffic_flow_template \<Rightarrow> bytes \<Rightarrow> bytes result" where
  "tft_MarshalTo f b =
     (if length b < 1 then eof
      else
        let op = push_bit 5 (tft_OperationCode f AND 0b111);
            e = push_bit 4 (of_nat (length (tft_Parameters f) * 1 AND 0b1));
            pf = (if tft_OperationCode f = TFTOpDeletePacketFiltersFromExistingTFT
                  then length (tft_PacketFilterIdentifiers f) else length (tft_PacketFilters f)) in
        andThen (write_at b 0 [op OR e OR of_nat (pf AND 0b1111)]) (\<lambda>b.
        andThen
          (if tft_OperationCode f \<in> TFTOpsWithFilters
           then write_all pf_MarshalTo pf_MarshalLen (tft_PacketFilters f) 1 b
           else if tft_OperationCode f = TFTOpDeletePacketFiltersFromExistingTFT
           then andThen (copy_at b 1 (1 + pf) (tft_PacketFilterIdentifiers f)) (\<lambda>b. Inr (1 + pf, b))
           else Inr (1, b)) (\<lambda>(offset, b).
        andThen (write_all par_MarshalTo par_MarshalLen (tft_Parameters f) offset b) (\<lambda>(_, b).
          Inr b))))"

definition tft_Marshal :: "traffic_flow_template \<Rightarrow> bytes result" where
  "tft_Marshal f = tft_MarshalTo f (replicate (tft_MarshalLen f) 0)"

fun parse_filters :: "nat \<Rightarrow> nat \<Rightarrow> bytes \<Rightarrow> (tft_filter list \<times> nat) result" where
  "parse_filters 0 offset b = Inr ([], offset)"
| "parse_filters (Suc k) offset b =
     andThen (andThen (slice_from b offset) pf_UnmarshalBinary) (\<lambda>f.
     andThen (parse_filters k (offset + pf_MarshalLen f) b) (\<lambda>(fs, offset). Inr (f # fs, offset)))"

definition tft_UnmarshalBinary :: "bytes \<Rightarrow> bytes \<Rightarrow> traffic_flow_template result" where
  "tft_UnmarshalBinary behind b =
     (if length b < 1 then eof
      else andThen (byte_at b 0) (\<lambda>b0.
        let op = drop_bit 5 b0;
            hasParams = (drop_bit 4 b0 AND 0b1 = 1);
            filterLen = unat (b0 AND 0b1111) in
        andThen
          (if op \<in> TFTOpsWithFilters
           then andThen (parse_filters filterLen 1 b) (\<lambda>(fs, offset). Inr (fs, [], offset))
           else if op = TFTOpDeletePacketFiltersFromExistingTFT
           then andThen (slice (b @ behind) 1 (1 + filterLen)) (\<lambda>ids. Inr ([], ids, 1 + filterLen))
           else Inr ([], [], 1)) (\<lambda>(fs, ids, offset).
        andThen
          (if hasParams then andThen (slice_from b offset) ParseMultiTFTParameters else Inr [])
          (\<lambda>params.
            Inr \<lparr>tft_OperationCode = op, tft_PacketFilters = map Some fs,
                 tft_PacketFilterIdentifiers = ids, tft_Parameters = map Some params\<rparr>))))"

section \<open>The elements\<close>

text \<open>\<open>behind\<close> gives the bytes behind the payload of an element in its buffer.\<close>

definition ie_TrafficFlowTemplate :: "(ie \<Rightarrow> bytes) \<Rightarrow> ie \<Rightarrow> traffic_flow_template result" where
  "ie_TrafficFlowTemplate behind i =
     (if ie_Type i \<in> {IE_BearerTFT, IE_TrafficAggregateDescription}
      then tft_UnmarshalBinary (behind i) (ie_Payload i)
      else in_bearer_context IE_BearerTFT (\<lambda>child. tft_UnmarshalBinary (behind child) (ie_Payload child)) i)"

definition NewBearerTFT ::
  "byte \<Rightarrow> tft_filter option list \<Rightarrow> bytes \<Rightarrow> tft_parameter option list \<Rightarrow> ie option result" where
  "NewBearerTFT op filters ids params =
     or_nil (ie_New IE_BearerTFT 0x00) (tft_Marshal (NewTrafficFlowTemplate op filters ids params))"

definition NewBearerTFTCreateNewTFT :: "tft_filter option list \<Rightarrow> tft_parameter option list \<Rightarrow> ie option result" where
  "NewBearerTFTCreateNewTFT filters params = NewBearerTFT TFTOpCreateNewTFT filters [] params"

definition NewBearerTFTAddPacketFilters :: "tft_filter option list \<Rightarrow> tft_parameter option list \<Rightarrow> ie option result" where
  "NewBearerTFTAddPacketFilters filters params = NewBearerTFT TFTOpAddPacketFiltersToExistingTFT filters [] params"

definition NewBearerTFTReplacePacketFilters :: "tft_filter option list \<Rightarrow> tft_parameter option list \<Rightarrow> ie option result" where
  "NewBearerTFTReplacePacketFilters filters params = NewBearerTFT TFTOpReplacePacketFiltersInExistingTFT filters [] params"

definition NewBearerTFTDeletePacketFilters :: "bytes \<Rightarrow> tft_parameter option list \<Rightarrow> ie option result" where
  "NewBearerTFTDeletePacketFilters ids params = NewBearerTFT TFTOpDeletePacketFiltersFromExistingTFT [] ids params"

definition NewBearerTFTDeleteExistingTFT :: "tft_parameter option list \<Rightarrow> ie option result" where
  "NewBearerTFTDeleteExistingTFT params = NewBearerTFT TFTOpDeleteExistingTFT [] [] params"

definition NewBearerTFTNoTFTOperation :: "tft_parameter option list \<Rightarrow> ie option result" where
  "NewBearerTFTNoTFTOperation params = NewBearerTFT TFTOpNoTFTOperation [] [] params"

definition ie_BearerTFT :: "(ie \<Rightarrow> bytes) \<Rightarrow> ie \<Rightarrow> traffic_flow_template result" where
  "ie_BearerTFT = ie_TrafficFlowTemplate"

definition NewTrafficAggregateDescription ::
  "byte \<Rightarrow> tft_filter option list \<Rightarrow> bytes \<Rightarrow> tft_parameter option list \<Rightarrow> ie option result" where
  "NewTrafficAggregateDescription op filters ids params =
     or_nil (ie_New IE_TrafficAggregateDescription 0x00) (tft_Marshal (NewTrafficFlowTemplate op filters ids params))"

definition NewTrafficAggregateDescriptionCreateNewTFT :: "tft_filter option list \<Rightarrow> tft_parameter option list \<Rightarrow> ie option result" where
  "NewTrafficAggregateDescriptionCreateNewTFT filters params = NewTrafficAggregateDescription TFTOpCreateNewTFT filters [] params"

definition NewTrafficAggregateDescriptionAddPacketFilters :: "tft_filter option list \<Rightarrow> tft_parameter option list \<Rightarrow> ie option result" where
  "NewTrafficAggregateDescriptionAddPacketFilters filters params = NewTrafficAggregateDescription TFTOpAddPacketFiltersToExistingTFT filters [] params"

definition NewTrafficAggregateDescriptionReplacePacketFilters :: "tft_filter option list \<Rightarrow> tft_parameter option list \<Rightarrow> ie option result" where
  "NewTrafficAggregateDescriptionReplacePacketFilters filters params = NewTrafficAggregateDescription TFTOpReplacePacketFiltersInExistingTFT filters [] params"

definition NewTrafficAggregateDescriptionDeletePacketFilters :: "bytes \<Rightarrow> tft_parameter option list \<Rightarrow> ie option result" where
  "NewTrafficAggregateDescriptionDeletePacketFilters ids params = NewTrafficAggregateDescription TFTOpDeletePacketFiltersFromExistingTFT [] ids params"

definition NewTrafficAggregateDescriptionDeleteExistingTFT :: "tft_parameter option list \<Rightarrow> ie option result" where
  "NewTrafficAggregateDescriptionDeleteExistingTFT params = NewTrafficAggregateDescription TFTOpDeleteExistingTFT [] [] params"

definition NewTrafficAggregateDescriptionNoTFTOperation :: "tft_parameter option list \<Rightarrow> ie option result" where
  "NewTrafficAggregateDescriptionNoTFTOperation params = NewTrafficAggregateDescription TFTOpNoTFTOperation [] [] params"

definition ie_TrafficAggregateDescription :: "(ie \<Rightarrow> bytes) \<Rightarrow> ie \<Rightarrow> traffic_flow_template result" where
  "ie_TrafficAggregateDescription = ie_TrafficFlowTemplate"

section \<open>What the encoders write and the decoders read\<close>

definition comp_wire :: "tft_component \<Rightarrow> bytes" where
  "comp_wire c = comp_Type c # comp_Contents c"

definition comp_ok :: "tft_component \<Rightarrow> bool" where
  "comp_ok c \<longleftrightarrow> length (comp_Contents c) = comp_size (comp_Type c)"

lemma comp_wire_length [simp]: "length (comp_wire c) = comp_MarshalLen c"
  by (simp add: comp_wire_def comp_MarshalLen_def)

lemma comp_MarshalTo_wire: "length old = comp_MarshalLen c \<Longrightarrow> comp_MarshalTo c old = Inr (comp_wire c)"
  by (cases old) (simp_all add: comp_MarshalTo_def comp_MarshalLen_def comp_wire_def write_at_def copy_at_def)

lemma comp_Unmarshal_sound:
  assumes "comp_UnmarshalBinary b = Inr c"
  shows "comp_ok c" and "\<exists>rest. b = comp_wire c @ rest \<and> comp_MarshalLen c = length (comp_wire c)"
proof -
  from assms obtain t r where b: "b = t # r" and l: "comp_size t \<le> length r"
    and c: "c = \<lparr>comp_Type = t, comp_Contents = take (comp_size t) r\<rparr>"
    by (cases b) (auto simp: comp_UnmarshalBinary_def byte_at_def slice_def Let_def split: if_splits)
  show "comp_ok c" using l by (simp add: comp_ok_def c)
  have "b = comp_wire c @ drop (comp_size t) r" by (simp add: b c comp_wire_def)
  then show "\<exists>rest. b = comp_wire c @ rest \<and> comp_MarshalLen c = length (comp_wire c)" by auto
qed

interpretation tftc: ie_decoder comp_UnmarshalBinary comp_MarshalLen comp_wire comp_ok ParseMultiTFTPFComponent
proof unfold_locales
  show "comp_UnmarshalBinary (comp_wire c @ rest) = Inr c" if "comp_ok c" for c rest
    using that by (simp add: comp_UnmarshalBinary_def comp_wire_def comp_ok_def byte_at_def slice_def)
  show "ParseMultiTFTPFComponent b = (if b = [] then Inr []
      else andThen (comp_UnmarshalBinary b) (\<lambda>i. andThen (slice_from b (comp_MarshalLen i)) (\<lambda>r.
           andThen (ParseMultiTFTPFComponent r) (\<lambda>es. Inr (i # es)))))" for b
    by (subst ParseMultiTFTPFComponent.simps) simp
  show "no_panic (comp_UnmarshalBinary b)" for b
    by (simp add: comp_UnmarshalBinary_def byte_at_def slice_def Let_def)
  show "\<exists>rest. b = comp_wire c @ rest \<and> comp_MarshalLen c = length (comp_wire c)"
    if "comp_UnmarshalBinary b = Inr c" for b c
    using that by (rule comp_Unmarshal_sound(2))
qed (simp_all add: comp_wire_def comp_MarshalLen_def)

definition pf_wire :: "tft_filter \<Rightarrow> bytes" where
  "pf_wire p = [push_bit 4 (pf_Direction p AND 0b11) OR (pf_Identifier p AND 0b1111),
     pf_EvaluationPrecedence p, pf_Length p] @ concat (map comp_wire (pf_Components p))"

text \<open>A right filter: the fields fit, the components have the size of their type, the length is theirs.\<close>

definition pf_ok :: "tft_filter \<Rightarrow> bool" where
  "pf_ok p \<longleftrightarrow> pf_Direction p < 4 \<and> pf_Identifier p < 16 \<and> (\<forall>c \<in> set (pf_Components p). comp_ok c) \<and>
     unat (pf_Length p) = (\<Sum>c \<leftarrow> pf_Components p. comp_MarshalLen c)"

definition par_wire :: "tft_parameter \<Rightarrow> bytes" where
  "par_wire p = par_Identifier p # par_Length p # par_Contents p"

definition par_ok :: "tft_parameter \<Rightarrow> bool" where
  "par_ok p \<longleftrightarrow> length (par_Contents p) < 254 \<and> unat (par_Length p) = length (par_Contents p)"

lemma wire_lengths [simp]:
  "length (pf_wire p) = pf_MarshalLen p" "length (par_wire q) = par_MarshalLen q"
  by (simp_all add: pf_wire_def pf_MarshalLen_def length_concat comp_def par_wire_def par_MarshalLen_def)

lemma comps_MarshalTo_wire:
  "(\<Sum>c \<leftarrow> cs. comp_MarshalLen c) \<le> length old \<Longrightarrow>
     comps_MarshalTo cs (length pre) (pre @ old) =
       Inr (pre @ concat (map comp_wire cs) @ drop (\<Sum>c \<leftarrow> cs. comp_MarshalLen c) old)"
proof (induction cs arbitrary: pre old)
  case (Cons c cs)
  let ?n = "comp_MarshalLen c"
  obtain mid post where old: "old = mid @ post" "length mid = ?n"
    using take_drop_split [of ?n old] Cons.prems by auto
  have "within (pre @ mid @ post) (length pre) (length pre + ?n) (comp_MarshalTo c)
      = Inr (pre @ comp_wire c @ post)"
    by (rule within_append) (simp_all add: comp_MarshalTo_wire old(2))
  then have "within (pre @ old) (length pre) (length pre + ?n) (comp_MarshalTo c)
      = Inr (pre @ comp_wire c @ drop ?n old)"
    by (simp add: old(1) old(2) [symmetric])
  moreover have "comps_MarshalTo cs (length (pre @ comp_wire c)) ((pre @ comp_wire c) @ drop ?n old)
      = Inr ((pre @ comp_wire c) @ concat (map comp_wire cs) @
          drop (\<Sum>c \<leftarrow> cs. comp_MarshalLen c) (drop ?n old))"
    by (rule Cons.IH) (use Cons.prems in simp)
  ultimately show ?case using Cons.prems by (simp add: Let_def ac_simps)
qed simp

lemma pf_MarshalTo_wire:
  assumes "pf_MarshalLen p \<le> length old"
  shows "pf_MarshalTo p old = Inr (pf_wire p @ drop (pf_MarshalLen p) old)"
proof -
  from assms obtain x y z r where "old = x # y # z # r"
    by (auto simp: pf_MarshalLen_def Suc_le_length_iff numeral_eq_Suc)
  with assms comps_MarshalTo_wire [where pre = "[a, b, c]" for a b c, simplified] show ?thesis
    by (simp add: pf_MarshalTo_def write_at_def pf_wire_def pf_MarshalLen_def numeral_eq_Suc)
qed

lemma par_MarshalTo_wire:
  assumes "par_MarshalLen p \<le> length old"
  shows "par_MarshalTo p old = Inr (par_wire p @ drop (par_MarshalLen p) old)"
proof -
  from assms obtain x y r where "old = x # y # r"
    by (auto simp: par_MarshalLen_def Suc_le_length_iff numeral_eq_Suc)
  with assms show ?thesis
    by (simp add: par_MarshalTo_def write_at_def copy_at_def par_wire_def par_MarshalLen_def)
qed

lemma write_all_wire:
  assumes "\<And>x old. len x \<le> length old \<Longrightarrow> to x old = Inr (wire x @ drop (len x) old)"
    and "\<And>x. length (wire x) = len x"
  shows "(\<Sum>x \<leftarrow> xs. len x) \<le> length old \<Longrightarrow>
     write_all to len (map Some xs) (length pre) (pre @ old) =
       Inr (length pre + (\<Sum>x \<leftarrow> xs. len x), pre @ concat (map wire xs) @ drop (\<Sum>x \<leftarrow> xs. len x) old)"
proof (induction xs arbitrary: pre old)
  case (Cons x xs)
  have "within (pre @ old) (length pre) (length (pre @ old)) (to x) = Inr (pre @ (wire x @ drop (len x) old) @ [])"
    using within_append [of "length pre" pre "length (pre @ old)" old "to x" _ "[]"] assms(1) [of x old] Cons.prems
    by simp
  moreover have "write_all to len (map Some xs) (length (pre @ wire x)) ((pre @ wire x) @ drop (len x) old)
      = Inr (length (pre @ wire x) + (\<Sum>x \<leftarrow> xs. len x),
          (pre @ wire x) @ concat (map wire xs) @ drop (\<Sum>x \<leftarrow> xs. len x) (drop (len x) old))"
    by (rule Cons.IH) (use Cons.prems in simp)
  ultimately show ?case using assms(2) [of x] by (simp add: ac_simps)
qed simp

lemmas write_filters = write_all_wire [of pf_MarshalLen pf_MarshalTo pf_wire, OF pf_MarshalTo_wire wire_lengths(1)]
lemmas write_params = write_all_wire [of par_MarshalLen par_MarshalTo par_wire, OF par_MarshalTo_wire wire_lengths(2)]

lemma small_fields:
  fixes x :: byte
  shows "x < 4 \<Longrightarrow> x AND 0b11 = x" "x < 16 \<Longrightarrow> x AND 0b1111 = x" "x < 8 \<Longrightarrow> x AND 0b111 = x"
  using less_mask_eq [of x 2] less_mask_eq [of x 4] less_mask_eq [of x 3]
  by (simp_all add: mask_eq_exp_minus_1)

lemma two_fields:
  assumes "x < 4" "y < (16 :: byte)"
  shows "drop_bit 4 (push_bit 4 (x AND 0b11) OR (y AND 0b1111)) AND 0b11 = x"
    and "(push_bit 4 (x AND 0b11) OR (y AND 0b1111)) AND 0b1111 = y"
proof -
  have "drop_bit 4 (push_bit 4 (x AND 0b11) OR (y AND 0b1111)) AND 0b11 = x AND 0b11"
    "(push_bit 4 (x AND 0b11) OR (y AND 0b1111)) AND 0b1111 = y AND 0b1111"
    by (auto intro!: byte_eqI simp: bit_simps)
  then show "drop_bit 4 (push_bit 4 (x AND 0b11) OR (y AND 0b1111)) AND 0b11 = x"
    "(push_bit 4 (x AND 0b11) OR (y AND 0b1111)) AND 0b1111 = y"
    by (simp_all add: small_fields assms)
qed

lemma head_fields:
  fixes x :: byte
  assumes "x < 8" "e = 0 \<or> e = 1" "n < 16"
  defines "h \<equiv> push_bit 5 (x AND 0b111) OR push_bit 4 e OR of_nat (n AND 0b1111)"
  shows "drop_bit 5 h = x" "drop_bit 4 h AND 0b1 = e" "unat (h AND 0b1111) = n"
proof -
  have n: "n AND 15 = n"
    using take_bit_eq_mask [of 4 n] assms(3) by (simp add: take_bit_eq_mod mask_eq_exp_minus_1)
  define y :: byte where "y = of_nat n"
  have y: "y < 16" "unat y = n" using assms(3) by (simp_all add: y_def unat_of_nat word_less_nat_alt)
  have h: "h = push_bit 5 (x AND 0b111) OR push_bit 4 e OR (y AND 0b1111)"
    by (simp add: h_def n y_def [symmetric] small_fields y(1))
  have "drop_bit 5 h = x AND 0b111" "h AND 0b1111 = y AND 0b1111" "drop_bit 4 h AND 1 = e"
    using assms(2) unfolding h by (auto intro!: byte_eqI simp: bit_simps bit_1_iff)
  then show "drop_bit 5 h = x" "drop_bit 4 h AND 0b1 = e" "unat (h AND 0b1111) = n"
    using y by (simp_all add: small_fields assms)
qed

lemma pf_Unmarshal_wire:
  assumes "pf_ok p"
  shows "pf_UnmarshalBinary (pf_wire p @ rest) = Inr p"
proof -
  let ?b = "concat (map comp_wire (pf_Components p))"
  have "length ?b = unat (pf_Length p)"
    using assms by (simp add: pf_ok_def length_concat comp_def)
  moreover have "ParseMultiTFTPFComponent ?b = Inr (pf_Components p)"
    using assms by (intro tftc.multi_enc) (simp add: pf_ok_def)
  ultimately have "pf_UnmarshalBinary ([h, pf_EvaluationPrecedence p, pf_Length p] @ ?b @ rest) =
      Inr (p\<lparr>pf_Direction := drop_bit 4 h AND 0b11, pf_Identifier := h AND 0b1111\<rparr>)" for h
    by (simp add: pf_UnmarshalBinary_def byte_at_def slice_def Let_def)
  then show ?thesis
    using assms by (simp only: pf_wire_def append_assoc pf_ok_def two_fields) simp
qed

lemma parse_filters_wire:
  "\<forall>p \<in> set fs. pf_ok p \<Longrightarrow>
     parse_filters (length fs) (length pre) (pre @ concat (map pf_wire fs) @ rest) =
       Inr (fs, length pre + (\<Sum>p \<leftarrow> fs. pf_MarshalLen p))"
proof (induction fs arbitrary: pre)
  case (Cons p fs)
  then show ?case
    using Cons.IH [of "pre @ pf_wire p"]
    by (simp add: slice_from_append pf_Unmarshal_wire ac_simps)
qed simp

interpretation tftp: ie_encoder par_UnmarshalBinary par_MarshalLen par_wire par_ok ParseMultiTFTParameters
proof unfold_locales
  show "par_UnmarshalBinary (par_wire p @ rest) = Inr p" if "par_ok p" for p rest
  proof -
    have "unat (2 + par_Length p) = 2 + length (par_Contents p)"
      using that by (subst unat_add_lem [THEN iffD1]) (simp_all add: par_ok_def)
    then show ?thesis by (simp add: par_UnmarshalBinary_def par_wire_def byte_at_def slice_def)
  qed
  show "ParseMultiTFTParameters b = (if b = [] then Inr []
      else andThen (par_UnmarshalBinary b) (\<lambda>i. andThen (slice_from b (par_MarshalLen i)) (\<lambda>r.
           andThen (ParseMultiTFTParameters r) (\<lambda>es. Inr (i # es)))))" for b
    by (subst ParseMultiTFTParameters.simps) simp
qed (simp_all add: par_wire_def par_MarshalLen_def)

section \<open>Round trip\<close>

definition tft_ok :: "traffic_flow_template \<Rightarrow> bool" where
  "tft_ok f \<longleftrightarrow> tft_OperationCode f < 8 \<and>
     (\<forall>p \<in> set (tft_PacketFilters f). \<exists>q. p = Some q \<and> pf_ok q) \<and> length (tft_PacketFilters f) < 16 \<and>
     (\<forall>p \<in> set (tft_Parameters f). \<exists>q. p = Some q \<and> par_ok q) \<and>
     length (tft_PacketFilterIdentifiers f) < 16 \<and>
     (tft_OperationCode f \<notin> TFTOpsWithFilters \<longrightarrow> tft_PacketFilters f = []) \<and>
     (tft_OperationCode f \<noteq> TFTOpDeletePacketFiltersFromExistingTFT \<longrightarrow> tft_PacketFilterIdentifiers f = [])"

lemma all_Some: "\<forall>x \<in> set xs. \<exists>y. x = Some y \<and> P y \<Longrightarrow> \<exists>ys. xs = map Some ys \<and> (\<forall>y \<in> set ys. P y)"
  by (rule exI [of _ "map the xs"]) (auto intro!: map_idI [symmetric])

lemma map_filter_id_Some [simp]: "List.map_filter id (map Some xs) = xs"
  by (induction xs) (simp_all add: List.map_filter_simps)

definition tft_head :: "byte \<Rightarrow> byte \<Rightarrow> nat \<Rightarrow> byte" where
  "tft_head op e n = push_bit 5 (op AND 0b111) OR push_bit 4 e OR of_nat (n AND 0b1111)"

lemma odd_bit: "of_nat (n * 1 AND 0b1) = (if odd n then 1 else 0 :: byte)"
  by (simp add: and_one_eq odd_iff_mod_2_eq_one)

lemma tft_Unmarshal_Cons:
  "tft_UnmarshalBinary behind (h # b) =
     (let op = drop_bit 5 h; n = unat (h AND 0b1111) in
      andThen
        (if op \<in> TFTOpsWithFilters
         then andThen (parse_filters n 1 (h # b)) (\<lambda>(fs, offset). Inr (fs, [], offset))
         else if op = TFTOpDeletePacketFiltersFromExistingTFT
         then andThen (slice ((h # b) @ behind) 1 (1 + n)) (\<lambda>ids. Inr ([], ids, 1 + n))
         else Inr ([], [], 1)) (\<lambda>(fs, ids, offset).
      andThen (if drop_bit 4 h AND 0b1 = 1 then andThen (slice_from (h # b) offset) ParseMultiTFTParameters
               else Inr [])
      (\<lambda>params. Inr \<lparr>tft_OperationCode = op, tft_PacketFilters = map Some fs,
          tft_PacketFilterIdentifiers = ids, tft_Parameters = map Some params\<rparr>)))"
proof -
  have "byte_at (h # b) 0 = Inr h" "\<not> length (h # b) < 1" by (simp_all add: byte_at_def)
  then show ?thesis by (simp only: tft_UnmarshalBinary_def andThen_Inr if_False Let_def)
qed

text \<open>A template of which at most one of the two lists is in use, written and read.\<close>

lemma tft_roundtrip_aux:
  assumes ok: "op < 8" "\<forall>p \<in> set fs. pf_ok p" "length fs < 16" "\<forall>p \<in> set ps. par_ok p" "length ids < 16"
    and lists: "op \<notin> TFTOpsWithFilters \<longrightarrow> fs = []" "op \<noteq> TFTOpDeletePacketFiltersFromExistingTFT \<longrightarrow> ids = []"
  defines "f \<equiv> \<lparr>tft_OperationCode = op, tft_PacketFilters = map Some fs,
    tft_PacketFilterIdentifiers = ids, tft_Parameters = map Some ps\<rparr>"
  shows "\<exists>b. tft_Marshal f = Inr b \<and>
     tft_UnmarshalBinary behind b = Inr (if odd (length ps) then f else f\<lparr>tft_Parameters := []\<rparr>)"
proof -
  let ?n = "if op = TFTOpDeletePacketFiltersFromExistingTFT then length ids else length fs"
  let ?e = "if odd (length ps) then 1 else 0 :: byte"
  let ?h = "tft_head op ?e ?n"
  let ?F = "concat (map pf_wire fs)" and ?P = "concat (map par_wire ps)"
  let ?lF = "\<Sum>p \<leftarrow> fs. pf_MarshalLen p" and ?lP = "\<Sum>p \<leftarrow> ps. par_MarshalLen p"
  have lF: "length ?F = ?lF" by (simp add: length_concat comp_def)
  have wF: "write_all pf_MarshalTo pf_MarshalLen (map Some fs) 1 (?h # replicate (?lF + ?lP) 0) =
      Inr (1 + ?lF, ?h # ?F @ replicate ?lP 0)"
    using write_filters [of fs "replicate (?lF + ?lP) 0" "[?h]"] by simp
  have wP: "write_all par_MarshalTo par_MarshalLen (map Some ps) (length pre) (pre @ replicate ?lP 0) =
      Inr (length pre + ?lP, pre @ ?P)" for pre
    using write_params [of ps "replicate ?lP 0" pre] by simp
  define hd where "hd = ?h"
  define n where "n = ?n"
  have "push_bit 5 (op AND 0b111) OR push_bit 4 (of_nat (length (map Some ps) * 1 AND 0b1)) OR
      of_nat ((if op = TFTOpDeletePacketFiltersFromExistingTFT then length ids else length (map Some fs)) AND 0b1111) = hd"
    by (simp only: hd_def tft_head_def odd_bit length_map)
  then have steps: "tft_Marshal f = andThen
      (if op \<in> TFTOpsWithFilters
       then write_all pf_MarshalTo pf_MarshalLen (map Some fs) 1 (hd # replicate (?lF + length ids + ?lP) 0)
       else if op = TFTOpDeletePacketFiltersFromExistingTFT
       then andThen (copy_at (hd # replicate (?lF + length ids + ?lP) 0) 1 (1 + n) ids) (\<lambda>b. Inr (1 + n, b))
       else Inr (1, hd # replicate (?lF + length ids + ?lP) 0)) (\<lambda>(offset, b).
      andThen (write_all par_MarshalTo par_MarshalLen (map Some ps) offset b) (\<lambda>(_, b). Inr b))"
    by (simp only: tft_Marshal_def tft_MarshalTo_def Let_def f_def traffic_flow_template.select_convs n_def)
       (simp add: tft_MarshalLen_def write_at_def)
  have b: "tft_Marshal f = Inr (hd # ?F @ ids @ ?P)"
  proof -
    consider "op \<in> TFTOpsWithFilters" "ids = []"
      | "op \<notin> TFTOpsWithFilters" "op = TFTOpDeletePacketFiltersFromExistingTFT" "fs = []" "n = length ids"
      | "op \<notin> TFTOpsWithFilters" "op \<noteq> TFTOpDeletePacketFiltersFromExistingTFT" "fs = []" "ids = []"
      using lists by (cases "op = TFTOpDeletePacketFiltersFromExistingTFT") (auto simp: n_def)
    then show ?thesis
    proof cases
      case 1
      then show ?thesis using wF wP [of "hd # ?F"] lF unfolding steps by (simp add: hd_def)
    next
      case 2
      then show ?thesis using wP [of "hd # ids"] unfolding steps by (simp add: copy_at_def replicate_add)
    next
      case 3
      then show ?thesis using wP [of "[hd]"] unfolding steps by simp
    qed
  qed
  have h: "drop_bit 5 hd = op" "(drop_bit 4 hd AND 0b1 = 1) = odd (length ps)" "unat (hd AND 0b1111) = n"
    using head_fields [of op ?e ?n] ok unfolding tft_head_def hd_def n_def by auto
  have pF: "parse_filters (length fs) 1 (hd # ?F @ ?P) = Inr (fs, 1 + ?lF)"
    using parse_filters_wire [of fs "[hd]" ?P] ok(2) by simp
  have pP: "ParseMultiTFTParameters ?P = Inr ps" by (rule tftp.multi_enc) (rule ok(4))
  have steps: "tft_UnmarshalBinary behind (hd # b) = andThen
      (if op \<in> TFTOpsWithFilters
       then andThen (parse_filters n 1 (hd # b)) (\<lambda>(fs, offset). Inr (fs, [], offset))
       else if op = TFTOpDeletePacketFiltersFromExistingTFT
       then andThen (slice ((hd # b) @ behind) 1 (1 + n)) (\<lambda>ids. Inr ([], ids, 1 + n))
       else Inr ([], [], 1)) (\<lambda>(fs, ids, offset).
      andThen (if odd (length ps) then andThen (slice_from (hd # b) offset) ParseMultiTFTParameters else Inr [])
      (\<lambda>params. Inr \<lparr>tft_OperationCode = op, tft_PacketFilters = map Some fs,
          tft_PacketFilterIdentifiers = ids, tft_Parameters = map Some params\<rparr>))" for b
    by (simp only: tft_Unmarshal_Cons h Let_def)
  have "tft_UnmarshalBinary behind (hd # ?F @ ids @ ?P) =
      Inr (if odd (length ps) then f else f\<lparr>tft_Parameters := []\<rparr>)"
  proof -
    consider "op \<in> TFTOpsWithFilters" "ids = []" "n = length fs"
      | "op \<notin> TFTOpsWithFilters" "op = TFTOpDeletePacketFiltersFromExistingTFT" "fs = []" "n = length ids"
      | "op \<notin> TFTOpsWithFilters" "op \<noteq> TFTOpDeletePacketFiltersFromExistingTFT" "fs = []" "ids = []"
      using lists by (cases "op = TFTOpDeletePacketFiltersFromExistingTFT") (auto simp: n_def)
    then show ?thesis
    proof cases
      case 1
      then show ?thesis using pF pP slice_from_append [of "hd # ?F" ?P] lF unfolding steps by (simp add: f_def)
    next
      case 2
      then show ?thesis using pP slice_from_append [of "hd # ids" ?P] unfolding steps
        by (simp add: f_def slice_def)
    next
      case 3
      then show ?thesis using pP slice_from_append [of "[hd]" ?P] unfolding steps by (simp add: f_def)
    qed
  qed
  with b show ?thesis by blast
qed

text \<open>
  C32. Bearer TFT: for a traffic flow template whose fields fit their widths, with packet filters or
  identifiers as its operation has them, operation, filters and identifiers are read back from the
  element it was put into, nil filters and parameters left out. The whole template is read back
  exactly when it has no parameters or an odd number of them: the encoder sets the flag that
  announces the parameters to the last bit of their number, so an even number of them is lost.
\<close>

theorem tft_roundtrip:
  assumes "tft_ok (NewTrafficFlowTemplate op filters ids params)"
  shows "\<exists>i. NewBearerTFT op filters ids params = Inr (Some i) \<and>
     (let f = NewTrafficFlowTemplate op filters ids params in
      ie_BearerTFT behind i = Inr (if odd (length (tft_Parameters f)) then f else f\<lparr>tft_Parameters := []\<rparr>) \<and>
      (ie_BearerTFT behind i = Inr f \<longleftrightarrow> tft_Parameters f = [] \<or> odd (length (tft_Parameters f))))"
proof -
  define f where "f = NewTrafficFlowTemplate op filters ids params"
  obtain fs where fs: "tft_PacketFilters f = map Some fs" "\<forall>p \<in> set fs. pf_ok p"
    using all_Some [of "tft_PacketFilters f" pf_ok] assms by (auto simp: tft_ok_def f_def)
  obtain ps where ps: "tft_Parameters f = map Some ps" "\<forall>p \<in> set ps. par_ok p"
    using all_Some [of "tft_Parameters f" par_ok] assms by (auto simp: tft_ok_def f_def)
  have f: "f = \<lparr>tft_OperationCode = tft_OperationCode f, tft_PacketFilters = map Some fs,
      tft_PacketFilterIdentifiers = tft_PacketFilterIdentifiers f, tft_Parameters = map Some ps\<rparr>"
    using fs(1) ps(1) by (cases f) simp
  have "\<exists>b. tft_Marshal f = Inr b \<and> tft_UnmarshalBinary bh b =
      Inr (if odd (length ps) then f else f\<lparr>tft_Parameters := []\<rparr>)" for bh
    using tft_roundtrip_aux [of "tft_OperationCode f" fs ps "tft_PacketFilterIdentifiers f" bh] assms fs ps
    unfolding f_def [symmetric] f [symmetric] by (simp add: tft_ok_def)
  then obtain b where b: "tft_Marshal f = Inr b"
    "tft_UnmarshalBinary bh b = Inr (if odd (length ps) then f else f\<lparr>tft_Parameters := []\<rparr>)" for bh
    by (metis sum.inject(2))
  have kept: "f\<lparr>tft_Parameters := []\<rparr> = f \<longleftrightarrow> ps = []" using ps(1) by (cases f) auto
  show ?thesis
    by (rule exI [of _ "ie_New IE_BearerTFT 0 b"])
       (auto simp: NewBearerTFT_def f_def [symmetric] ie_BearerTFT_def ie_TrafficFlowTemplate_def b ps(1) kept Let_def)
qed

definition sample_filter :: tft_filter where
  "sample_filter = NewTFTPacketFilter TFTPFBidirectional 1 10
     [NewTFTPFComponentIPv4RemoteAddress [10, 0, 0, 1] [255, 255, 255, 0],
      NewTFTPFComponentRemotePortRange 1000 2000]"

theorem tft_roundtrip_witness:
  "\<exists>i. NewBearerTFT TFTOpCreateNewTFT [Some sample_filter, None] [] [Some (NewTFTParameter TFTParamIDFlowIdentifier [1, 2])] =
       Inr (Some i) \<and>
     ie_BearerTFT (\<lambda>_. []) i = Inr \<lparr>tft_OperationCode = TFTOpCreateNewTFT, tft_PacketFilters = [Some sample_filter],
       tft_PacketFilterIdentifiers = [], tft_Parameters = [Some (NewTFTParameter TFTParamIDFlowIdentifier [1, 2])]\<rparr>"
proof -
  have "pf_ok sample_filter" "par_ok (NewTFTParameter TFTParamIDFlowIdentifier [1, 2])"
    by (simp_all add: sample_filter_def NewTFTPacketFilter_def pf_SetLength_def pf_ok_def comp_ok_def comp_size_def
        NewTFTPFComponentIPv4RemoteAddress_def NewTFTPFComponentRemotePortRange_def NewTFTPFComponent_def To4_def
        comp_MarshalLen_def NewTFTParameter_def par_ok_def)
  then have "tft_ok (NewTrafficFlowTemplate TFTOpCreateNewTFT [Some sample_filter, None] []
      [Some (NewTFTParameter TFTParamIDFlowIdentifier [1, 2])])"
    by (simp add: tft_ok_def NewTrafficFlowTemplate_def)
  from tft_roundtrip [OF this, of "\<lambda>_. []"] show ?thesis
    by (simp add: NewTrafficFlowTemplate_def)
qed

section \<open>Inputs that make the decoder panic\<close>

text \<open>Parameters of which one, behind right ones, has a length of 254 or 255.\<close>

definition bad_parameters :: "bytes \<Rightarrow> bool" where
  "bad_parameters b \<longleftrightarrow> (\<exists>ps pid n r. b = concat (map par_wire ps) @ pid # n # r \<and>
     (\<forall>p \<in> set ps. par_ok p) \<and> 254 \<le> n)"

lemma unat_2_plus: "n < 254 \<Longrightarrow> unat (2 + n) = 2 + unat (n :: byte)"
  by (subst unat_add_lem [THEN iffD1]) (simp_all add: word_less_nat_alt)

lemma unat_2_wraps: "254 \<le> n \<Longrightarrow> unat (2 + n) < (2 :: nat)" for n :: byte
proof -
  assume "254 \<le> n"
  then have "n = 254 \<or> n = 255"
    using word_le_nat_alt [of 254 n] unsigned_less [of n, where 'a = nat] by (auto simp: word_unat_eq_iff)
  then show ?thesis by auto
qed

lemma par_wire_prefix:
  assumes "par_ok p" "par_ok q" "par_wire p @ x = par_wire q @ y"
  shows "p = q \<and> x = y"
  using tftp.parse_enc [OF assms(1), of x] tftp.parse_enc [OF assms(2), of y] assms(3) by simp

lemma bad_parameters_cons: "par_ok p \<Longrightarrow> bad_parameters (par_wire p @ rest) = bad_parameters rest"
proof
  assume p: "par_ok p" and "bad_parameters (par_wire p @ rest)"
  then obtain ps i n r where *: "par_wire p @ rest = concat (map par_wire ps) @ i # n # r"
    "\<forall>p \<in> set ps. par_ok p" "254 \<le> n" unfolding bad_parameters_def by blast
  show "bad_parameters rest"
  proof (cases ps)
    case Nil
    with * p show ?thesis by (simp add: par_wire_def par_ok_def word_le_nat_alt)
  next
    case (Cons q qs)
    with * p par_wire_prefix [of p q] have "rest = concat (map par_wire qs) @ i # n # r" by simp
    with *(2,3) Cons show ?thesis unfolding bad_parameters_def by auto
  qed
next
  assume p: "par_ok p" and "bad_parameters rest"
  then obtain ps i n r where "rest = concat (map par_wire ps) @ i # n # r"
    "\<forall>p \<in> set ps. par_ok p" "254 \<le> n" unfolding bad_parameters_def by blast
  with p show "bad_parameters (par_wire p @ rest)"
    unfolding bad_parameters_def by (intro exI [of _ "p # ps"]) auto
qed

lemma parameters_panic_iff: "no_panic (ParseMultiTFTParameters b) \<longleftrightarrow> \<not> bad_parameters b"
proof (induction "length b" arbitrary: b rule: less_induct)
  case less
  consider "length b < 2" | i n r where "b = i # n # r" "254 \<le> n"
    | i n r where "b = i # n # r" "n < 254" "length r < unat n"
    | p rest where "b = par_wire p @ rest" "par_ok p"
  proof (cases "length b < 2")
    case False
    then obtain i n r where b: "b = i # n # r" using two_cases [of b] by force
    show ?thesis
    proof (cases "n < 254 \<and> unat n \<le> length r")
      case True
      then have "b = par_wire \<lparr>par_Identifier = i, par_Length = n, par_Contents = take (unat n) r\<rparr> @ drop (unat n) r"
        by (simp add: b par_wire_def)
      moreover have "par_ok \<lparr>par_Identifier = i, par_Length = n, par_Contents = take (unat n) r\<rparr>"
        using True by (simp add: par_ok_def word_less_nat_alt)
      ultimately show ?thesis by (rule that(4))
    qed (use b that(2,3) in force)
  qed
  then show ?case
  proof cases
    case 1
    then have "b = [] \<or> (\<exists>x. b = [x])" by (cases b) auto
    moreover have "\<not> bad_parameters b" using 1 unfolding bad_parameters_def by auto
    ultimately show ?thesis by (auto simp: ParseMultiTFTParameters.simps [of b] par_UnmarshalBinary_def)
  next
    case 2
    then have "\<not> no_panic (ParseMultiTFTParameters b)"
      using unat_2_wraps [of n]
      by (subst ParseMultiTFTParameters.simps) (simp add: par_UnmarshalBinary_def byte_at_def slice_def)
    moreover have "bad_parameters b" unfolding bad_parameters_def using 2 by (intro exI [of _ "[]"]) auto
    ultimately show ?thesis by simp
  next
    case 3
    then have "no_panic (ParseMultiTFTParameters b)"
      by (subst ParseMultiTFTParameters.simps) (simp add: par_UnmarshalBinary_def byte_at_def unat_2_plus)
    moreover have "\<not> bad_parameters b"
    proof
      assume "bad_parameters b"
      then obtain ps i' n' r' where *: "b = concat (map par_wire ps) @ i' # n' # r'"
        "\<forall>p \<in> set ps. par_ok p" "254 \<le> n'" unfolding bad_parameters_def by blast
      then show False using 3 by (cases ps) (auto simp: par_wire_def par_ok_def)
    qed
    ultimately show ?thesis by simp
  next
    case 4
    then have "length rest < length b" by (simp add: par_MarshalLen_def)
    from less.hyps [OF this] 4 show ?thesis
      by (cases "ParseMultiTFTParameters rest") (simp_all add: tftp.multi_Cons bad_parameters_cons)
  qed
qed

lemma pf_Unmarshal_no_panic: "no_panic (pf_UnmarshalBinary b)"
  by (simp add: pf_UnmarshalBinary_def byte_at_def slice_def Let_def no_panic_andThen tftc.multi_no_panic)

lemma pf_Unmarshal_fits: "pf_UnmarshalBinary b = Inr p \<Longrightarrow> pf_MarshalLen p \<le> length b"
  by (auto simp: pf_UnmarshalBinary_def byte_at_def slice_def Let_def andThen_eq_Inr pf_MarshalLen_def
      dest!: tftc.multi_length split: if_splits)

lemma parse_filters_bounds:
  "offset \<le> length b \<Longrightarrow> no_panic (parse_filters k offset b)"
  "offset \<le> length b \<Longrightarrow> parse_filters k offset b = Inr (fs, offset') \<Longrightarrow> offset' \<le> length b"
proof (induction k arbitrary: offset fs)
  case (Suc k)
  {
    case 1
    show ?case
      using Suc.IH(1) 1 pf_Unmarshal_fits [of "drop offset b"]
      by (auto simp: slice_from_ok pf_Unmarshal_no_panic intro!: no_panic_andThen)
  next
    case 2
    then obtain p fs' where "pf_UnmarshalBinary (drop offset b) = Inr p"
      "parse_filters k (offset + pf_MarshalLen p) b = Inr (fs', offset')"
      by (auto simp: slice_from_ok andThen_eq_Inr)
    with 2(1) pf_Unmarshal_fits [of "drop offset b" p] Suc.IH(2) [of "offset + pf_MarshalLen p" fs'] show ?case
      by simp
  }
qed simp_all

text \<open>
  C33. Exactly which traffic flow templates make the decoder panic: those with the flag for
  parameters where a parameter of length 254 or 255 follows right ones, and, for the operation that
  deletes filters, those with fewer bytes than the announced identifiers, where bytes behind the
  payload in the same buffer count unless parameters are announced too.
\<close>

theorem tft_panics_iff:
  "no_panic (tft_UnmarshalBinary behind []) \<and>
   (no_panic (tft_UnmarshalBinary behind (h # r)) \<longleftrightarrow> \<not>
     (let op = drop_bit 5 h; n = unat (h AND 0b1111); e = (drop_bit 4 h AND 0b1 = 1) in
      if op \<in> TFTOpsWithFilters
      then e \<and> (\<exists>fs k. parse_filters n 1 (h # r) = Inr (fs, k) \<and> bad_parameters (drop k (h # r)))
      else if op = TFTOpDeletePacketFiltersFromExistingTFT
      then length r + length behind < n \<or> e \<and> (length r < n \<or> bad_parameters (drop n r))
      else e \<and> bad_parameters r))"
proof (intro conjI)
  show "no_panic (tft_UnmarshalBinary behind [])" by (simp add: tft_UnmarshalBinary_def)
  define n where "n = unat (h AND 0b1111)"
  define op where "op = drop_bit 5 h"
  define e where "e \<longleftrightarrow> drop_bit 4 h AND 0b1 = 1"
  have params: "no_panic (andThen (if e then andThen (slice_from (h # r) k) ParseMultiTFTParameters else Inr []) (\<lambda>ps. Inr (f ps)))
      \<longleftrightarrow> \<not> (e \<and> (Suc (length r) < k \<or> bad_parameters (drop k (h # r))))" for k and f :: "_ \<Rightarrow> traffic_flow_template"
  proof (cases "e \<and> k \<le> Suc (length r)")
    case True
    then show ?thesis
      using parameters_panic_iff [of "drop k (h # r)"]
      by (cases "ParseMultiTFTParameters (drop k (h # r))") (auto simp: slice_from_ok)
  qed (auto simp: slice_from_panics)
  define run where "run = andThen
      (if op \<in> TFTOpsWithFilters
       then andThen (parse_filters n 1 (h # r)) (\<lambda>(fs, offset). Inr (fs, [], offset))
       else if op = TFTOpDeletePacketFiltersFromExistingTFT
       then andThen (slice ((h # r) @ behind) 1 (1 + n)) (\<lambda>ids. Inr ([], ids, 1 + n))
       else Inr ([], [], 1)) (\<lambda>(fs, ids, offset).
     andThen (if e then andThen (slice_from (h # r) offset) ParseMultiTFTParameters else Inr [])
     (\<lambda>params. Inr \<lparr>tft_OperationCode = op, tft_PacketFilters = map Some fs,
          tft_PacketFilterIdentifiers = ids, tft_Parameters = map Some params\<rparr>))"
  have "no_panic run \<longleftrightarrow> \<not>
     (if op \<in> TFTOpsWithFilters
      then e \<and> (\<exists>fs k. parse_filters n 1 (h # r) = Inr (fs, k) \<and> bad_parameters (drop k (h # r)))
      else if op = TFTOpDeletePacketFiltersFromExistingTFT
      then length r + length behind < n \<or> e \<and> (length r < n \<or> bad_parameters (drop n r))
      else e \<and> bad_parameters r)"
  proof -
    consider "op \<in> TFTOpsWithFilters"
      | "op \<notin> TFTOpsWithFilters" "op = TFTOpDeletePacketFiltersFromExistingTFT"
      | "op \<notin> TFTOpsWithFilters" "op \<noteq> TFTOpDeletePacketFiltersFromExistingTFT"
      by blast
    then show ?thesis
    proof cases
      case 1
      show ?thesis
      proof (cases "parse_filters n 1 (h # r)")
        case (Inl x)
        then show ?thesis using 1 parse_filters_bounds(1) [of 1 "h # r" n] unfolding run_def by simp
      next
        case (Inr q)
        then show ?thesis
          using 1 parse_filters_bounds(2) [of 1 "h # r" n "fst q" "snd q"] params [of "snd q"]
          unfolding run_def by (cases q) auto
      qed
    next
      case 2
      then show ?thesis using params [of "1 + n"] unfolding run_def
        by (cases "n \<le> length r + length behind") (auto simp: slice_def)
    next
      case 3
      then show ?thesis using params [of "Suc 0"] unfolding run_def by simp
    qed
  qed
  then show "no_panic (tft_UnmarshalBinary behind (h # r)) \<longleftrightarrow> \<not>
     (let op = drop_bit 5 h; n = unat (h AND 0b1111); e = (drop_bit 4 h AND 0b1 = 1) in
      if op \<in> TFTOpsWithFilters
      then e \<and> (\<exists>fs k. parse_filters n 1 (h # r) = Inr (fs, k) \<and> bad_parameters (drop k (h # r)))
      else if op = TFTOpDeletePacketFiltersFromExistingTFT
      then length r + length behind < n \<or> e \<and> (length r < n \<or> bad_parameters (drop n r))
      else e \<and> bad_parameters r)"
    unfolding tft_Unmarshal_Cons Let_def op_def [symmetric] n_def [symmetric] e_def [symmetric] run_def .
qed

text \<open>
  The accessors of IPv6 prefixes read the prefix length behind the seventeen bytes the decoder
  stores: on each decoded component of their type they panic.
\<close>

lemma prefix_accessors_panic:
  assumes "comp_UnmarshalBinary b = Inr c"
  shows "comp_Type c = PFCompIPv6RemoteAddressPrefixLength \<Longrightarrow>
      c_IPv6RemoteAddressPrefixLength c = Inl (Panic IndexOutOfRange)"
    and "comp_Type c = PFCompIPv6LocalAddressPrefixLength \<Longrightarrow>
      c_IPv6LocalAddressPrefixLength c = Inl (Panic IndexOutOfRange)"
  using comp_Unmarshal_sound(1) [OF assms]
  by (simp_all add: comp_ok_def comp_size_def c_IPv6RemoteAddressPrefixLength_def
      c_IPv6LocalAddressPrefixLength_def comp_field_def prefix_net_def slice_def byte_at_def)

end
