(* ===== verification/V2ULI.thy ===== *)
theory V2ULI
  imports V2IEValues
begin

text \<open>
  User Location Information of GTPv2 (\<open>src/gtpv2/ie/uli.go\<close>): a flag octet and up to eight
  locations, each a network code with one or two numbers. A location is a pointer, nil when it is
  absent; \<open>MarshalTo\<close> goes by the flags and panics on a flag whose pointer is nil. The deprecated
  constructors and the deprecated getter are modelled too; the getter lets all locations it
  returns share one network code.
\<close>

section \<open>Locations\<close>

text \<open>The network code of a location is a pointer as well; the constructors below always set it.\<close>

record plmn =
  plmn_MCC :: string
  plmn_MNC :: string

record uli_cgi =
  cgi_PLMN :: plmn
  cgi_LAC :: u16
  cgi_CI :: u16

record uli_sai =
  sai_PLMN :: plmn
  sai_LAC :: u16
  sai_SAC :: u16

record uli_rai =
  rai_PLMN :: plmn
  rai_LAC :: u16
  rai_RAC :: u16

record uli_tai =
  tai_PLMN :: plmn
  tai_TAC :: u16

record uli_ecgi =
  ecgi_PLMN :: plmn
  ecgi_ECI :: u32

record uli_lai =
  lai_PLMN :: plmn
  lai_LAC :: u16

record uli_menbi =
  menbi_PLMN :: plmn
  menbi_MENBI :: u32

record uli_emenbi =
  emenbi_PLMN :: plmn
  emenbi_EMENBI :: u32

definition NewCGI :: "string \<Rightarrow> string \<Rightarrow> u16 \<Rightarrow> u16 \<Rightarrow> uli_cgi" where
  "NewCGI mcc mnc lac ci = \<lparr>cgi_PLMN = \<lparr>plmn_MCC = mcc, plmn_MNC = mnc\<rparr>, cgi_LAC = lac, cgi_CI = ci\<rparr>"

definition NewSAI :: "string \<Rightarrow> string \<Rightarrow> u16 \<Rightarrow> u16 \<Rightarrow> uli_sai" where
  "NewSAI mcc mnc lac sac = \<lparr>sai_PLMN = \<lparr>plmn_MCC = mcc, plmn_MNC = mnc\<rparr>, sai_LAC = lac, sai_SAC = sac\<rparr>"

definition NewRAI :: "string \<Rightarrow> string \<Rightarrow> u16 \<Rightarrow> u16 \<Rightarrow> uli_rai" where
  "NewRAI mcc mnc lac rac = \<lparr>rai_PLMN = \<lparr>plmn_MCC = mcc, plmn_MNC = mnc\<rparr>, rai_LAC = lac, rai_RAC = rac\<rparr>"

definition NewTAI :: "string \<Rightarrow> string \<Rightarrow> u16 \<Rightarrow> uli_tai" where
  "NewTAI mcc mnc tac = \<lparr>tai_PLMN = \<lparr>plmn_MCC = mcc, plmn_MNC = mnc\<rparr>, tai_TAC = tac\<rparr>"

definition NewECGI :: "string \<Rightarrow> string \<Rightarrow> u32 \<Rightarrow> uli_ecgi" where
  "NewECGI mcc mnc eci = \<lparr>ecgi_PLMN = \<lparr>plmn_MCC = mcc, plmn_MNC = mnc\<rparr>, ecgi_ECI = eci AND 0xfffffff\<rparr>"

definition NewLAI :: "string \<Rightarrow> string \<Rightarrow> u16 \<Rightarrow> uli_lai" where
  "NewLAI mcc mnc lac = \<lparr>lai_PLMN = \<lparr>plmn_MCC = mcc, plmn_MNC = mnc\<rparr>, lai_LAC = lac\<rparr>"

definition NewMENBI :: "string \<Rightarrow> string \<Rightarrow> u32 \<Rightarrow> uli_menbi" where
  "NewMENBI mcc mnc menbi = \<lparr>menbi_PLMN = \<lparr>plmn_MCC = mcc, plmn_MNC = mnc\<rparr>, menbi_MENBI = menbi\<rparr>"

definition NewEMENBI :: "string \<Rightarrow> string \<Rightarrow> u32 \<Rightarrow> uli_emenbi" where
  "NewEMENBI mcc mnc emenbi = \<lparr>emenbi_PLMN = \<lparr>plmn_MCC = mcc, plmn_MNC = mnc\<rparr>, emenbi_EMENBI = emenbi\<rparr>"

section \<open>The fields of the element\<close>

record uli_fields =
  uli_Flags :: byte
  uli_CGI :: "uli_cgi option"
  uli_SAI :: "uli_sai option"
  uli_RAI :: "uli_rai option"
  uli_TAI :: "uli_tai option"
  uli_ECGI :: "uli_ecgi option"
  uli_LAI :: "uli_lai option"
  uli_MENBI :: "uli_menbi option"
  uli_EMENBI :: "uli_emenbi option"

abbreviation no_locations :: uli_fields where
  "no_locations \<equiv> \<lparr>uli_Flags = 0, uli_CGI = None, uli_SAI = None, uli_RAI = None, uli_TAI = None, uli_ECGI = None, uli_LAI = None, uli_MENBI = None, uli_EMENBI = None\<rparr>"

definition with_location :: "byte \<Rightarrow> (uli_fields \<Rightarrow> uli_fields) \<Rightarrow> 'a option \<Rightarrow> uli_fields \<Rightarrow> uli_fields" where
  "with_location flag upd x f = (if x \<noteq> None then upd (f\<lparr>uli_Flags := uli_Flags f OR flag\<rparr>) else f)"

definition NewUserLocationInformationFields ::
  "uli_cgi option \<Rightarrow> uli_sai option \<Rightarrow> uli_rai option \<Rightarrow> uli_tai option \<Rightarrow> uli_ecgi option \<Rightarrow> uli_lai option \<Rightarrow> uli_menbi option \<Rightarrow> uli_emenbi option \<Rightarrow> uli_fields" where
  "NewUserLocationInformationFields cgi sai rai tai ecgi lai menbi emenbi =
     (let f = no_locations;
          f = with_location 0x01 (\<lambda>f. f\<lparr>uli_CGI := cgi\<rparr>) cgi f;
          f = with_location 0x02 (\<lambda>f. f\<lparr>uli_SAI := sai\<rparr>) sai f;
          f = with_location 0x04 (\<lambda>f. f\<lparr>uli_RAI := rai\<rparr>) rai f;
          f = with_location 0x08 (\<lambda>f. f\<lparr>uli_TAI := tai\<rparr>) tai f;
          f = with_location 0x10 (\<lambda>f. f\<lparr>uli_ECGI := ecgi\<rparr>) ecgi f;
          f = with_location 0x20 (\<lambda>f. f\<lparr>uli_LAI := lai\<rparr>) lai f;
          f = with_location 0x40 (\<lambda>f. f\<lparr>uli_MENBI := menbi\<rparr>) menbi f
      in with_location 0x80 (\<lambda>f. f\<lparr>uli_EMENBI := emenbi\<rparr>) emenbi f)"

abbreviation cgilen :: nat where "cgilen \<equiv> 7"
abbreviation sailen :: nat where "sailen \<equiv> 7"
abbreviation railen :: nat where "railen \<equiv> 7"
abbreviation tailen :: nat where "tailen \<equiv> 5"
abbreviation ecgilen :: nat where "ecgilen \<equiv> 7"
abbreviation lailen :: nat where "lailen \<equiv> 5"
abbreviation menbilen :: nat where "menbilen \<equiv> 6"
abbreviation emenbilen :: nat where "emenbilen \<equiv> 6"

definition uli_MarshalLen :: "uli_fields \<Rightarrow> nat" where
  "uli_MarshalLen f =
     1 + (if has1stBit (uli_Flags f) then cgilen else 0) + (if has2ndBit (uli_Flags f) then sailen else 0)
       + (if has3rdBit (uli_Flags f) then railen else 0) + (if has4thBit (uli_Flags f) then tailen else 0)
       + (if has5thBit (uli_Flags f) then ecgilen else 0) + (if has6thBit (uli_Flags f) then lailen else 0)
       + (if has7thBit (uli_Flags f) then menbilen else 0) + (if has8thBit (uli_Flags f) then emenbilen else 0)"

text \<open>
  One location of \<open>MarshalTo\<close>: \<open>x\<close> is its pointer, \<open>code\<close> the numbers as they are written. The
  buffer and the offset are threaded through the eight of them.
\<close>

definition put_location :: "bool \<Rightarrow> nat \<Rightarrow> 'a option \<Rightarrow> ('a \<Rightarrow> plmn) \<Rightarrow> ('a \<Rightarrow> bytes) \<Rightarrow>
    nat \<times> bytes \<Rightarrow> (nat \<times> bytes) result" where
  "put_location flag n x net_of code = (\<lambda>(offset, b).
     if \<not> flag then Inr (offset, b)
     else if length b < offset + n then eof
     else case x of
            None \<Rightarrow> Inl (Panic NilDereference)
          | Some v \<Rightarrow>
              andThen (EncodePLMN (plmn_MCC (net_of v)) (plmn_MNC (net_of v))) (\<lambda>plmn.
              andThen (copy_at b offset (offset + 3) plmn) (\<lambda>b.
              andThen (write_at b (offset + 3) (code v)) (\<lambda>b. Inr (offset + n, b)))))"

definition uli_MarshalTo :: "uli_fields \<Rightarrow> bytes \<Rightarrow> bytes result" where
  "uli_MarshalTo f b =
     (if length b < 1 then eof
      else andThen (write_at b 0 [uli_Flags f]) (\<lambda>b.
        andThen (put_location (has1stBit (uli_Flags f)) 7 (uli_CGI f) cgi_PLMN (\<lambda>v. be16 (cgi_LAC v) @ be16 (cgi_CI v)) (1, b)) (\<lambda>s.
        andThen (put_location (has2ndBit (uli_Flags f)) 7 (uli_SAI f) sai_PLMN (\<lambda>v. be16 (sai_LAC v) @ be16 (sai_SAC v)) s) (\<lambda>s.
        andThen (put_location (has3rdBit (uli_Flags f)) 7 (uli_RAI f) rai_PLMN (\<lambda>v. be16 (rai_LAC v) @ be16 (rai_RAC v)) s) (\<lambda>s.
        andThen (put_location (has4thBit (uli_Flags f)) 5 (uli_TAI f) tai_PLMN (\<lambda>v. be16 (tai_TAC v)) s) (\<lambda>s.
        andThen (put_location (has5thBit (uli_Flags f)) 7 (uli_ECGI f) ecgi_PLMN (\<lambda>v. be32 (ecgi_ECI v)) s) (\<lambda>s.
        andThen (put_location (has6thBit (uli_Flags f)) 5 (uli_LAI f) lai_PLMN (\<lambda>v. be16 (lai_LAC v)) s) (\<lambda>s.
        andThen (put_location (has7thBit (uli_Flags f)) 6 (uli_MENBI f) menbi_PLMN (\<lambda>v. Uint32To24 (menbi_MENBI v)) s) (\<lambda>s.
        andThen (put_location (has8thBit (uli_Flags f)) 6 (uli_EMENBI f) emenbi_PLMN (\<lambda>v. Uint32To24 (emenbi_EMENBI v)) s) (\<lambda>(_, b).
          Inr b))))))))))"

definition uli_Marshal :: "uli_fields \<Rightarrow> bytes result" where
  "uli_Marshal f = uli_MarshalTo f (replicate (uli_MarshalLen f) 0)"

text \<open>One location of \<open>UnmarshalBinary\<close>: \<open>mk\<close> reads the numbers at an offset and builds it.\<close>

definition get_location :: "bool \<Rightarrow> nat \<Rightarrow> (plmn \<Rightarrow> nat \<Rightarrow> 'a result) \<Rightarrow> bytes \<Rightarrow> nat \<Rightarrow> ('a option \<times> nat) result" where
  "get_location flag n mk b offset =
     (if \<not> flag then Inr (None, offset)
      else if length b < offset + n then eof
      else andThen (andThen (slice b offset (offset + 3)) DecodePLMN) (\<lambda>(mcc, mnc).
        andThen (mk \<lparr>plmn_MCC = mcc, plmn_MNC = mnc\<rparr> (offset + 3)) (\<lambda>v. Inr (Some v, offset + n))))"

definition cgi_at :: "bytes \<Rightarrow> plmn \<Rightarrow> nat \<Rightarrow> uli_cgi result" where
  "cgi_at b plmn i = andThen (get16 b i) (\<lambda>lac. andThen (get16 b (i + 2)) (\<lambda>ci. Inr \<lparr>cgi_PLMN = plmn, cgi_LAC = lac, cgi_CI = ci\<rparr>))"

definition sai_at :: "bytes \<Rightarrow> plmn \<Rightarrow> nat \<Rightarrow> uli_sai result" where
  "sai_at b plmn i = andThen (get16 b i) (\<lambda>lac. andThen (get16 b (i + 2)) (\<lambda>sac. Inr \<lparr>sai_PLMN = plmn, sai_LAC = lac, sai_SAC = sac\<rparr>))"

definition rai_at :: "bytes \<Rightarrow> plmn \<Rightarrow> nat \<Rightarrow> uli_rai result" where
  "rai_at b plmn i = andThen (get16 b i) (\<lambda>lac. andThen (get16 b (i + 2)) (\<lambda>rac. Inr \<lparr>rai_PLMN = plmn, rai_LAC = lac, rai_RAC = rac\<rparr>))"

definition tai_at :: "bytes \<Rightarrow> plmn \<Rightarrow> nat \<Rightarrow> uli_tai result" where
  "tai_at b plmn i = andThen (get16 b i) (\<lambda>tac. Inr \<lparr>tai_PLMN = plmn, tai_TAC = tac\<rparr>)"

definition ecgi_at :: "bytes \<Rightarrow> plmn \<Rightarrow> nat \<Rightarrow> uli_ecgi result" where
  "ecgi_at b plmn i = andThen (get32 b i) (\<lambda>eci. Inr \<lparr>ecgi_PLMN = plmn, ecgi_ECI = eci\<rparr>)"

definition lai_at :: "bytes \<Rightarrow> plmn \<Rightarrow> nat \<Rightarrow> uli_lai result" where
  "lai_at b plmn i = andThen (get16 b i) (\<lambda>lac. Inr \<lparr>lai_PLMN = plmn, lai_LAC = lac\<rparr>)"

definition menbi_at :: "bytes \<Rightarrow> plmn \<Rightarrow> nat \<Rightarrow> uli_menbi result" where
  "menbi_at b plmn i = andThen (slice b i (i + 3)) (\<lambda>x. Inr \<lparr>menbi_PLMN = plmn, menbi_MENBI = Uint24To32 x\<rparr>)"

definition emenbi_at :: "bytes \<Rightarrow> plmn \<Rightarrow> nat \<Rightarrow> uli_emenbi result" where
  "emenbi_at b plmn i = andThen (slice b i (i + 3)) (\<lambda>x. Inr \<lparr>emenbi_PLMN = plmn, emenbi_EMENBI = Uint24To32 x\<rparr>)"

definition uli_UnmarshalBinary :: "bytes \<Rightarrow> uli_fields result" where
  "uli_UnmarshalBinary b =
     (if length b < 1 then eof
      else andThen (byte_at b 0) (\<lambda>flags.
        andThen (get_location (has1stBit flags) 7 (cgi_at b) b 1) (\<lambda>(cgi, offset).
        andThen (get_location (has2ndBit flags) 7 (sai_at b) b offset) (\<lambda>(sai, offset).
        andThen (get_location (has3rdBit flags) 7 (rai_at b) b offset) (\<lambda>(rai, offset).
        andThen (get_location (has4thBit flags) 5 (tai_at b) b offset) (\<lambda>(tai, offset).
        andThen (get_location (has5thBit flags) 7 (ecgi_at b) b offset) (\<lambda>(ecgi, offset).
        andThen (get_location (has6thBit flags) 5 (lai_at b) b offset) (\<lambda>(lai, offset).
        andThen (get_location (has7thBit flags) 6 (menbi_at b) b offset) (\<lambda>(menbi, offset).
        andThen (get_location (has8thBit flags) 6 (emenbi_at b) b offset) (\<lambda>(emenbi, _).
          Inr \<lparr>uli_Flags = flags, uli_CGI = cgi, uli_SAI = sai, uli_RAI = rai, uli_TAI = tai, uli_ECGI = ecgi, uli_LAI = lai, uli_MENBI = menbi, uli_EMENBI = emenbi\<rparr>))))))))))"

definition NewUserLocationInformationStruct ::
  "uli_cgi option \<Rightarrow> uli_sai option \<Rightarrow> uli_rai option \<Rightarrow> uli_tai option \<Rightarrow> uli_ecgi option \<Rightarrow> uli_lai option \<Rightarrow> uli_menbi option \<Rightarrow> uli_emenbi option \<Rightarrow> ie option result" where
  "NewUserLocationInformationStruct cgi sai rai tai ecgi lai menbi emenbi =
     or_nil (ie_New IE_UserLocationInformation 0x00)
       (uli_Marshal (NewUserLocationInformationFields cgi sai rai tai ecgi lai menbi emenbi))"

definition ie_UserLocationInformation :: "ie \<Rightarrow> uli_fields result" where
  "ie_UserLocationInformation i =
     (if ie_Type i = IE_UserLocationInformation then uli_UnmarshalBinary (ie_Payload i) else wrong_type i)"

section \<open>The deprecated constructors and getter\<close>

definition uliPayloadLen :: "byte \<Rightarrow> nat" where
  "uliPayloadLen flags =
     1 + (if drop_bit 0 flags AND 0x01 = 1 then cgilen else 0) + (if drop_bit 1 flags AND 0x01 = 1 then sailen else 0)
       + (if drop_bit 2 flags AND 0x01 = 1 then railen else 0) + (if drop_bit 3 flags AND 0x01 = 1 then tailen else 0)
       + (if drop_bit 4 flags AND 0x01 = 1 then ecgilen else 0) + (if drop_bit 5 flags AND 0x01 = 1 then lailen else 0)
       + (if drop_bit 6 flags AND 0x01 = 1 then menbilen else 0) + (if drop_bit 7 flags AND 0x01 = 1 then emenbilen else 0)"

definition put_plain :: "byte \<Rightarrow> nat \<Rightarrow> nat \<Rightarrow> bytes \<Rightarrow> bytes \<Rightarrow> nat \<times> bytes \<Rightarrow> (nat \<times> bytes) result" where
  "put_plain flags k n plmn code = (\<lambda>(offset, b).
     if drop_bit k flags AND 0x01 \<noteq> 1 then Inr (offset, b)
     else andThen (copy_at b offset (offset + 3) plmn) (\<lambda>b.
       andThen (write_at b (offset + 3) code) (\<lambda>b. Inr (offset + n, b))))"

definition NewUserLocationInformation ::
  "byte \<Rightarrow> byte \<Rightarrow> byte \<Rightarrow> byte \<Rightarrow> byte \<Rightarrow> byte \<Rightarrow> byte \<Rightarrow> byte \<Rightarrow> string \<Rightarrow> string \<Rightarrow>
   u16 \<Rightarrow> u16 \<Rightarrow> u16 \<Rightarrow> u16 \<Rightarrow> u16 \<Rightarrow> u32 \<Rightarrow> u32 \<Rightarrow> u32 \<Rightarrow> ie option result" where
  "NewUserLocationInformation hasCGI hasSAI hasRAI hasTAI hasECGI hasLAI hasMENBI hasEMENBI
     mcc mnc lac ci sac rac tac eci menbi emenbi =
     (let flags = push_bit 7 (hasEMENBI AND 0x01) OR push_bit 6 (hasMENBI AND 0x01) OR
                  push_bit 5 (hasLAI AND 0x01) OR push_bit 4 (hasECGI AND 0x01) OR
                  push_bit 3 (hasTAI AND 0x01) OR push_bit 2 (hasRAI AND 0x01) OR
                  push_bit 1 (hasSAI AND 0x01) OR (hasCGI AND 0x01);
          i = ie_New IE_UserLocationInformation 0x00 (replicate (uliPayloadLen flags) 0) in
      andThen (write_at (ie_Payload i) 0 [flags]) (\<lambda>b.
      case EncodePLMN mcc mnc of
        Inl (Panic p) \<Rightarrow> Inl (Panic p)
      | Inl (Error e) \<Rightarrow> Inr None
      | Inr plmn \<Rightarrow>
          andThen (put_plain flags 0 cgilen plmn (be16 lac @ be16 ci) (1, b)) (\<lambda>s.
          andThen (put_plain flags 1 sailen plmn (be16 lac @ be16 sac) s) (\<lambda>s.
          andThen (put_plain flags 2 railen plmn (be16 lac @ be16 rac) s) (\<lambda>s.
          andThen (put_plain flags 3 tailen plmn (be16 tac) s) (\<lambda>s.
          andThen (put_plain flags 4 ecgilen plmn (be32 (eci AND 0xfffff)) s) (\<lambda>s.
          andThen (put_plain flags 5 lailen plmn (be16 lac) s) (\<lambda>s.
          andThen (put_plain flags 6 menbilen plmn (Uint32To24 menbi) s) (\<lambda>s.
          andThen (put_plain flags 7 emenbilen plmn (Uint32To24 emenbi) s) (\<lambda>(_, b).
            Inr (Some (case i of IE t len ins _ cs \<Rightarrow> IE t len ins b cs))))))))))))"

definition NewUserLocationInformationLazy ::
  "string \<Rightarrow> string \<Rightarrow> int \<Rightarrow> int \<Rightarrow> int \<Rightarrow> int \<Rightarrow> int \<Rightarrow> int \<Rightarrow> int \<Rightarrow> int \<Rightarrow> ie option result" where
  "NewUserLocationInformationLazy mcc mnc lac ci sac rac tac eci menbi emenbi =
     (let has = (\<lambda>x :: int. if 0 \<le> x then 1 else 0 :: byte) in
      NewUserLocationInformation (has ci) (has sac) (has rac) (has tac) (has eci) (has lac) (has menbi) (has emenbi)
        mcc mnc (word_of_int lac) (word_of_int ci) (word_of_int sac) (word_of_int rac) (word_of_int tac)
        (word_of_int eci) (word_of_int menbi) (word_of_int emenbi))"

text \<open>
  The getter keeps one network code for all locations: \<open>share\<close> is what the caller finds in them.
  It does not look at the type of the element, and what has been read stays in the result when
  an error ends it.
\<close>

definition share :: "plmn \<Rightarrow> uli_fields \<Rightarrow> uli_fields" where
  "share plmn f = f\<lparr>uli_CGI := map_option (\<lambda>v. v\<lparr>cgi_PLMN := plmn\<rparr>) (uli_CGI f),
     uli_SAI := map_option (\<lambda>v. v\<lparr>sai_PLMN := plmn\<rparr>) (uli_SAI f),
     uli_RAI := map_option (\<lambda>v. v\<lparr>rai_PLMN := plmn\<rparr>) (uli_RAI f),
     uli_TAI := map_option (\<lambda>v. v\<lparr>tai_PLMN := plmn\<rparr>) (uli_TAI f),
     uli_ECGI := map_option (\<lambda>v. v\<lparr>ecgi_PLMN := plmn\<rparr>) (uli_ECGI f),
     uli_LAI := map_option (\<lambda>v. v\<lparr>lai_PLMN := plmn\<rparr>) (uli_LAI f),
     uli_MENBI := map_option (\<lambda>v. v\<lparr>menbi_PLMN := plmn\<rparr>) (uli_MENBI f),
     uli_EMENBI := map_option (\<lambda>v. v\<lparr>emenbi_PLMN := plmn\<rparr>) (uli_EMENBI f)\<rparr>"

type_synonym legacy_state = "nat \<times> plmn \<times> uli_fields \<times> go_error option"

definition read_location :: "byte \<Rightarrow> nat \<Rightarrow> nat \<Rightarrow> (plmn \<Rightarrow> nat \<Rightarrow> uli_fields \<Rightarrow> uli_fields result) \<Rightarrow> bytes \<Rightarrow>
    legacy_state \<Rightarrow> legacy_state result" where
  "read_location flags k n upd b = (\<lambda>(offset, plmn, f, err).
     if err \<noteq> None \<or> drop_bit k flags AND 0x01 \<noteq> 1 then Inr (offset, plmn, f, err)
     else if length b < offset + n then Inr (offset, plmn, f, Some IoErrUnexpectedEOF)
     else andThen (andThen (slice b offset (offset + 3)) DecodePLMN) (\<lambda>(mcc, mnc).
       let plmn = \<lparr>plmn_MCC = mcc, plmn_MNC = mnc\<rparr> in
       andThen (upd plmn (offset + 3) f) (\<lambda>f. Inr (offset + n, plmn, f, None))))"

definition ie_UserLocationInfo :: "ie \<Rightarrow> (uli_fields \<times> go_error option) result" where
  "ie_UserLocationInfo i =
     (let b = ie_Payload i in
      if length b = 0 then Inr (no_locations, Some IoErrUnexpectedEOF)
      else andThen (byte_at b 0) (\<lambda>flags.
        andThen (read_location flags 0 cgilen (\<lambda>plmn i f. andThen (cgi_at b plmn i) (\<lambda>v. Inr (f\<lparr>uli_CGI := Some v\<rparr>))) b (1, \<lparr>plmn_MCC = [], plmn_MNC = []\<rparr>, no_locations, None)) (\<lambda>s.
        andThen (read_location flags 1 sailen (\<lambda>plmn i f. andThen (sai_at b plmn i) (\<lambda>v. Inr (f\<lparr>uli_SAI := Some v\<rparr>))) b s) (\<lambda>s.
        andThen (read_location flags 2 railen (\<lambda>plmn i f. andThen (rai_at b plmn i) (\<lambda>v. Inr (f\<lparr>uli_RAI := Some v\<rparr>))) b s) (\<lambda>s.
        andThen (read_location flags 3 tailen (\<lambda>plmn i f. andThen (tai_at b plmn i) (\<lambda>v. Inr (f\<lparr>uli_TAI := Some v\<rparr>))) b s) (\<lambda>s.
        andThen (read_location flags 4 ecgilen (\<lambda>plmn i f. andThen (ecgi_at b plmn i) (\<lambda>v. Inr (f\<lparr>uli_ECGI := Some v\<rparr>))) b s) (\<lambda>s.
        andThen (read_location flags 5 lailen (\<lambda>plmn i f. andThen (lai_at b plmn i) (\<lambda>v. Inr (f\<lparr>uli_LAI := Some v\<rparr>))) b s) (\<lambda>s.
        andThen (read_location flags 6 menbilen (\<lambda>plmn i f. andThen (menbi_at b plmn i) (\<lambda>v. Inr (f\<lparr>uli_MENBI := Some v\<rparr>))) b s) (\<lambda>s.
        andThen (read_location flags 7 emenbilen (\<lambda>plmn i f. andThen (emenbi_at b plmn i) (\<lambda>v. Inr (f\<lparr>uli_EMENBI := Some v\<rparr>))) b s) (\<lambda>(_, plmn, f, err).
          Inr (share plmn f, err)))))))))))"

section \<open>What is written and read\<close>

definition net_ok :: "plmn \<Rightarrow> bool" where
  "net_ok p \<longleftrightarrow> plmn_ok (plmn_MCC p) (plmn_MNC p)"

lemma plmn_eta [simp]: "\<lparr>plmn_MCC = plmn_MCC p, plmn_MNC = plmn_MNC p\<rparr> = p"
  by (cases p) simp

definition net_wire :: "plmn \<Rightarrow> bytes" where
  "net_wire p = (case EncodePLMN (plmn_MCC p) (plmn_MNC p) of Inr b \<Rightarrow> b | Inl _ \<Rightarrow> [])"

lemma net_ok_wire:
  assumes "net_ok p"
  shows "EncodePLMN (plmn_MCC p) (plmn_MNC p) = Inr (net_wire p)" "length (net_wire p) = 3"
    "DecodePLMN (net_wire p) = Inr (plmn_MCC p, plmn_MNC p)"
proof -
  obtain b where "EncodePLMN (plmn_MCC p) (plmn_MNC p) = Inr b" "length b = 3"
    "DecodePLMN b = Inr (plmn_MCC p, plmn_MNC p)"
    using PLMN_roundtrip_aux assms unfolding net_ok_def by blast
  then show "EncodePLMN (plmn_MCC p) (plmn_MNC p) = Inr (net_wire p)" "length (net_wire p) = 3"
    "DecodePLMN (net_wire p) = Inr (plmn_MCC p, plmn_MNC p)"
    by (simp_all add: net_wire_def)
qed

definition loc_wire :: "('a \<Rightarrow> plmn) \<Rightarrow> ('a \<Rightarrow> bytes) \<Rightarrow> 'a option \<Rightarrow> bytes" where
  "loc_wire net code x = (case x of None \<Rightarrow> [] | Some v \<Rightarrow> net_wire (net v) @ code v)"

text \<open>The state between two locations: \<open>pre\<close> is written, \<open>m\<close> bytes are left.\<close>

definition filled :: "bytes \<Rightarrow> nat \<Rightarrow> nat \<times> bytes" where
  "filled pre m = (length pre, pre @ replicate m 0)"

lemma put_location_filled:
  assumes "flag = (x \<noteq> None)" "\<And>v. x = Some v \<Longrightarrow> net_ok (net v)" "\<And>v. length (code v) + 3 = n"
  shows "put_location flag n x net code (filled pre (length (loc_wire net code x) + m)) =
     Inr (filled (pre @ loc_wire net code x) m)"
proof (cases x)
  case (Some v)
  with assms(2) have v: "net_ok (net v)" by simp
  have n: "n = 3 + length (code v)" using assms(3) [of v] by simp
  show ?thesis
    by (simp add: Some assms(1) put_location_def filled_def loc_wire_def n net_ok_wire [OF v]
        copy_at_def write_at_def replicate_add)
qed (simp add: assms(1) put_location_def filled_def loc_wire_def)

lemmas put_location_last = put_location_filled [where m = 0, simplified]

lemma get_location_read:
  assumes "flag = (x \<noteq> None)" "\<forall>v. x = Some v \<longrightarrow> net_ok (net v)" "\<And>v. length (code v) + 3 = n"
    and mk: "\<forall>v r. x = Some v \<longrightarrow> drop (k + 3) b = code v @ r \<longrightarrow> mk (net v) (k + 3) = Inr v"
    and b: "drop k b = loc_wire net code x @ rest"
  shows "get_location flag n mk b k = Inr (x, k + length (loc_wire net code x))"
    and "drop (k + length (loc_wire net code x)) b = rest"
proof -
  show "drop (k + length (loc_wire net code x)) b = rest"
    using b by (metis add.commute append_eq_conv_conj drop_drop)
  show "get_location flag n mk b k = Inr (x, k + length (loc_wire net code x))"
  proof (cases x)
    case (Some v)
    with assms(2) have v: "net_ok (net v)" by simp
    have n: "n = 3 + length (code v)" using assms(3) [of v] by simp
    have d: "drop k b = net_wire (net v) @ code v @ rest" using b by (simp add: Some loc_wire_def)
    from arg_cong [OF d, of length] have l: "k + (3 + length (code v)) \<le> length b"
      by (simp add: net_ok_wire [OF v])
    have "drop (k + 3) b = code v @ rest"
      using arg_cong [OF d, of "drop 3"] by (simp add: net_ok_wire [OF v] add.commute)
    with mk Some have "mk (net v) (k + 3) = Inr v" by simp
    moreover have "slice b k (k + 3) = Inr (net_wire (net v))"
      using l d by (simp add: slice_def net_ok_wire [OF v])
    ultimately show ?thesis
      using l by (simp add: Some assms(1) get_location_def n loc_wire_def net_ok_wire [OF v])
  qed (simp add: assms(1) get_location_def loc_wire_def)
qed

lemma get_drop:
  "drop i b = be16 v @ r \<Longrightarrow> get16 b i = Inr v"
  "drop i b = be32 w @ r \<Longrightarrow> get32 b i = Inr w"
  "drop i b = Uint32To24 u @ r \<Longrightarrow> slice b i (i + 3) = Inr (Uint32To24 u)"
proof -
  have l: "i + length x \<le> length b" if "drop i b = x @ r" "x \<noteq> []" for x r
    using arg_cong [OF that(1), of length] that(2) by (cases "i \<le> length b") auto
  have n: "b ! (i + k) = drop i b ! k" if "i \<le> length b" for k using that by simp
  show "drop i b = be16 v @ r \<Longrightarrow> get16 b i = Inr v"
    using l [of "be16 v" r] n [of 0] n [of 1] by (auto simp: get16_def be16_def)
  show "drop i b = be32 w @ r \<Longrightarrow> get32 b i = Inr w"
    using l [of "be32 w" r] n [of 0] n [of 1] n [of 2] n [of 3] by (simp add: get32_def be32_def)
  show "drop i b = Uint32To24 u @ r \<Longrightarrow> slice b i (i + 3) = Inr (Uint32To24 u)"
    using l [of "Uint32To24 u" r] by (simp add: slice_def Uint32To24_def)
qed

lemma drop_more: "drop i b = x @ r \<Longrightarrow> drop (i + length x) b = r"
  by (metis add.commute append_eq_conv_conj drop_drop)

definition flags_ok :: "uli_fields \<Rightarrow> bool" where
  "flags_ok f \<longleftrightarrow> bit (uli_Flags f) 0 = (uli_CGI f \<noteq> None) \<and>
     bit (uli_Flags f) 1 = (uli_SAI f \<noteq> None) \<and>
     bit (uli_Flags f) 2 = (uli_RAI f \<noteq> None) \<and>
     bit (uli_Flags f) 3 = (uli_TAI f \<noteq> None) \<and>
     bit (uli_Flags f) 4 = (uli_ECGI f \<noteq> None) \<and>
     bit (uli_Flags f) 5 = (uli_LAI f \<noteq> None) \<and>
     bit (uli_Flags f) 6 = (uli_MENBI f \<noteq> None) \<and>
     bit (uli_Flags f) 7 = (uli_EMENBI f \<noteq> None)"

text \<open>Decimal network codes, and numbers that fit into the three bytes two of the locations have.\<close>

definition locations_ok :: "uli_fields \<Rightarrow> bool" where
  "locations_ok f \<longleftrightarrow> (\<forall>v. uli_CGI f = Some v \<longrightarrow> net_ok (cgi_PLMN v)) \<and>
     (\<forall>v. uli_SAI f = Some v \<longrightarrow> net_ok (sai_PLMN v)) \<and>
     (\<forall>v. uli_RAI f = Some v \<longrightarrow> net_ok (rai_PLMN v)) \<and>
     (\<forall>v. uli_TAI f = Some v \<longrightarrow> net_ok (tai_PLMN v)) \<and>
     (\<forall>v. uli_ECGI f = Some v \<longrightarrow> net_ok (ecgi_PLMN v)) \<and>
     (\<forall>v. uli_LAI f = Some v \<longrightarrow> net_ok (lai_PLMN v)) \<and>
     (\<forall>v. uli_MENBI f = Some v \<longrightarrow> net_ok (menbi_PLMN v) \<and> menbi_MENBI v < 2 ^ 24) \<and>
     (\<forall>v. uli_EMENBI f = Some v \<longrightarrow> net_ok (emenbi_PLMN v) \<and> emenbi_EMENBI v < 2 ^ 24)"

abbreviation cgi_wire :: "uli_cgi option \<Rightarrow> bytes" where
  "cgi_wire \<equiv> loc_wire cgi_PLMN (\<lambda>v. be16 (cgi_LAC v) @ be16 (cgi_CI v))"

abbreviation sai_wire :: "uli_sai option \<Rightarrow> bytes" where
  "sai_wire \<equiv> loc_wire sai_PLMN (\<lambda>v. be16 (sai_LAC v) @ be16 (sai_SAC v))"

abbreviation rai_wire :: "uli_rai option \<Rightarrow> bytes" where
  "rai_wire \<equiv> loc_wire rai_PLMN (\<lambda>v. be16 (rai_LAC v) @ be16 (rai_RAC v))"

abbreviation tai_wire :: "uli_tai option \<Rightarrow> bytes" where
  "tai_wire \<equiv> loc_wire tai_PLMN (\<lambda>v. be16 (tai_TAC v))"

abbreviation ecgi_wire :: "uli_ecgi option \<Rightarrow> bytes" where
  "ecgi_wire \<equiv> loc_wire ecgi_PLMN (\<lambda>v. be32 (ecgi_ECI v))"

abbreviation lai_wire :: "uli_lai option \<Rightarrow> bytes" where
  "lai_wire \<equiv> loc_wire lai_PLMN (\<lambda>v. be16 (lai_LAC v))"

abbreviation menbi_wire :: "uli_menbi option \<Rightarrow> bytes" where
  "menbi_wire \<equiv> loc_wire menbi_PLMN (\<lambda>v. Uint32To24 (menbi_MENBI v))"

abbreviation emenbi_wire :: "uli_emenbi option \<Rightarrow> bytes" where
  "emenbi_wire \<equiv> loc_wire emenbi_PLMN (\<lambda>v. Uint32To24 (emenbi_EMENBI v))"

definition uli_wire :: "uli_fields \<Rightarrow> bytes" where
  "uli_wire f = uli_Flags f # cgi_wire (uli_CGI f) @ sai_wire (uli_SAI f) @ rai_wire (uli_RAI f) @ tai_wire (uli_TAI f) @ ecgi_wire (uli_ECGI f) @ lai_wire (uli_LAI f) @ menbi_wire (uli_MENBI f) @ emenbi_wire (uli_EMENBI f)"

lemma loc_wire_length:
  "(\<And>v. x = Some v \<Longrightarrow> net_ok (net v)) \<Longrightarrow> (\<And>v. length (code v) + 3 = n) \<Longrightarrow>
     length (loc_wire net code x) = (if x \<noteq> None then n else 0)"
  by (cases x) (simp_all add: loc_wire_def net_ok_wire(2) add.commute)

lemma uli_Marshal_wire:
  assumes "flags_ok f" "locations_ok f"
  shows "uli_Marshal f = Inr (uli_wire f)"
proof -
  have len: "uli_MarshalLen f = 1 + (length (cgi_wire (uli_CGI f)) + (length (sai_wire (uli_SAI f)) + (length (rai_wire (uli_RAI f)) + (length (tai_wire (uli_TAI f)) + (length (ecgi_wire (uli_ECGI f)) + (length (lai_wire (uli_LAI f)) + (length (menbi_wire (uli_MENBI f)) + (length (emenbi_wire (uli_EMENBI f)) + 0))))))))"
    using assms by (simp add: uli_MarshalLen_def flags_ok_def locations_ok_def loc_wire_length)
  have start: "write_at (replicate (1 + m) 0) 0 [x] = Inr (snd (filled [x] m))" "(1, snd (filled [x] m)) = filled [x] m" for x m
    by (simp_all add: write_at_def filled_def)
  have fin: "(case filled pre 0 of (_, b) \<Rightarrow> Inr b) = Inr pre" for pre by (simp add: filled_def)
  show ?thesis
    using assms unfolding uli_Marshal_def uli_MarshalTo_def len
    by (simp only: start andThen_Inr put_location_filled bit_tests flags_ok_def locations_ok_def fin
        length_replicate uli_wire_def append_assoc append_Cons append_Nil)
       (simp add: fin put_location_filled put_location_last)
qed

lemma take_24: "x < 2 ^ 24 \<Longrightarrow> take_bit 24 x = x" for x :: u32
  by (simp add: take_bit_eq_mask less_mask_eq)

lemma cgi_read:
  assumes "drop i b = (be16 (cgi_LAC v) @ be16 (cgi_CI v)) @ r"
  shows "cgi_at b (cgi_PLMN v) i = Inr v"
  using get_drop(1) [of i b "cgi_LAC v"] get_drop(1) [of "i + 2" b "cgi_CI v" r] drop_more [of i b "be16 (cgi_LAC v)"] assms
  by (simp add: cgi_at_def)

lemma sai_read:
  assumes "drop i b = (be16 (sai_LAC v) @ be16 (sai_SAC v)) @ r"
  shows "sai_at b (sai_PLMN v) i = Inr v"
  using get_drop(1) [of i b "sai_LAC v"] get_drop(1) [of "i + 2" b "sai_SAC v" r] drop_more [of i b "be16 (sai_LAC v)"] assms
  by (simp add: sai_at_def)

lemma rai_read:
  assumes "drop i b = (be16 (rai_LAC v) @ be16 (rai_RAC v)) @ r"
  shows "rai_at b (rai_PLMN v) i = Inr v"
  using get_drop(1) [of i b "rai_LAC v"] get_drop(1) [of "i + 2" b "rai_RAC v" r] drop_more [of i b "be16 (rai_LAC v)"] assms
  by (simp add: rai_at_def)

lemma tai_read:
  assumes "drop i b = be16 (tai_TAC v) @ r"
  shows "tai_at b (tai_PLMN v) i = Inr v"
  using get_drop(1) [OF assms] by (simp add: tai_at_def)

lemma ecgi_read:
  assumes "drop i b = be32 (ecgi_ECI v) @ r"
  shows "ecgi_at b (ecgi_PLMN v) i = Inr v"
  using get_drop(2) [OF assms] by (simp add: ecgi_at_def)

lemma lai_read:
  assumes "drop i b = be16 (lai_LAC v) @ r"
  shows "lai_at b (lai_PLMN v) i = Inr v"
  using get_drop(1) [OF assms] by (simp add: lai_at_def)

lemma menbi_read:
  assumes "drop i b = Uint32To24 (menbi_MENBI v) @ r" "menbi_MENBI v < 2 ^ 24"
  shows "menbi_at b (menbi_PLMN v) i = Inr v"
  using get_drop(3) [OF assms(1)] assms(2)
  by (simp add: menbi_at_def Uint24To32_Uint32To24 take_24)

lemma emenbi_read:
  assumes "drop i b = Uint32To24 (emenbi_EMENBI v) @ r" "emenbi_EMENBI v < 2 ^ 24"
  shows "emenbi_at b (emenbi_PLMN v) i = Inr v"
  using get_drop(3) [OF assms(1)] assms(2)
  by (simp add: emenbi_at_def Uint24To32_Uint32To24 take_24)

lemma uli_Unmarshal_wire:
  assumes "flags_ok f" "locations_ok f"
  shows "uli_UnmarshalBinary (uli_wire f @ rest) = Inr f"
proof -
  let ?b = "uli_wire f @ rest"
  have d0: "drop 1 ?b = cgi_wire (uli_CGI f) @ sai_wire (uli_SAI f) @ rai_wire (uli_RAI f) @ tai_wire (uli_TAI f) @ ecgi_wire (uli_ECGI f) @ lai_wire (uli_LAI f) @ menbi_wire (uli_MENBI f) @ emenbi_wire (uli_EMENBI f) @ rest" by (simp add: uli_wire_def)
  have fl1: "has1stBit (uli_Flags f) = (uli_CGI f \<noteq> None)"
    using assms(1) by (simp only: bit_tests flags_ok_def)
  have nt1: "\<forall>v. uli_CGI f = Some v \<longrightarrow> net_ok (cgi_PLMN v)"
    using assms(2) by (simp add: locations_ok_def)
  have rd1: "\<forall>v r. uli_CGI f = Some v \<longrightarrow> drop (1 + 3) ?b = (be16 (cgi_LAC v) @ be16 (cgi_CI v)) @ r \<longrightarrow> cgi_at ?b (cgi_PLMN v) (1 + 3) = Inr v"
    using assms(2) by (simp only: locations_ok_def) (blast intro: cgi_read)
  have ln1: "length (be16 (cgi_LAC v) @ be16 (cgi_CI v)) + 3 = 7" for v by simp
  note r1 = get_location_read [where flag = "has1stBit (uli_Flags f)" and x = "uli_CGI f" and net = cgi_PLMN and
      code = "\<lambda>v. be16 (cgi_LAC v) @ be16 (cgi_CI v)" and n = 7 and b = "?b" and mk = "cgi_at ?b" and k = "1",
      OF fl1 nt1 ln1 rd1 d0]
  have g1: "get_location (has1stBit (uli_Flags f)) 7 (cgi_at ?b) ?b 1 = Inr (uli_CGI f, 1 + length (cgi_wire (uli_CGI f)))"
    and d1: "drop (1 + length (cgi_wire (uli_CGI f))) ?b = sai_wire (uli_SAI f) @ rai_wire (uli_RAI f) @ tai_wire (uli_TAI f) @ ecgi_wire (uli_ECGI f) @ lai_wire (uli_LAI f) @ menbi_wire (uli_MENBI f) @ emenbi_wire (uli_EMENBI f) @ rest"
    using r1 by blast+
  have fl2: "has2ndBit (uli_Flags f) = (uli_SAI f \<noteq> None)"
    using assms(1) by (simp only: bit_tests flags_ok_def)
  have nt2: "\<forall>v. uli_SAI f = Some v \<longrightarrow> net_ok (sai_PLMN v)"
    using assms(2) by (simp add: locations_ok_def)
  have rd2: "\<forall>v r. uli_SAI f = Some v \<longrightarrow> drop ((1 + length (cgi_wire (uli_CGI f))) + 3) ?b = (be16 (sai_LAC v) @ be16 (sai_SAC v)) @ r \<longrightarrow> sai_at ?b (sai_PLMN v) ((1 + length (cgi_wire (uli_CGI f))) + 3) = Inr v"
    using assms(2) by (simp only: locations_ok_def) (blast intro: sai_read)
  have ln2: "length (be16 (sai_LAC v) @ be16 (sai_SAC v)) + 3 = 7" for v by simp
  note r2 = get_location_read [where flag = "has2ndBit (uli_Flags f)" and x = "uli_SAI f" and net = sai_PLMN and
      code = "\<lambda>v. be16 (sai_LAC v) @ be16 (sai_SAC v)" and n = 7 and b = "?b" and mk = "sai_at ?b" and k = "(1 + length (cgi_wire (uli_CGI f)))",
      OF fl2 nt2 ln2 rd2 d1]
  have g2: "get_location (has2ndBit (uli_Flags f)) 7 (sai_at ?b) ?b (1 + length (cgi_wire (uli_CGI f))) = Inr (uli_SAI f, (1 + length (cgi_wire (uli_CGI f))) + length (sai_wire (uli_SAI f)))"
    and d2: "drop ((1 + length (cgi_wire (uli_CGI f))) + length (sai_wire (uli_SAI f))) ?b = rai_wire (uli_RAI f) @ tai_wire (uli_TAI f) @ ecgi_wire (uli_ECGI f) @ lai_wire (uli_LAI f) @ menbi_wire (uli_MENBI f) @ emenbi_wire (uli_EMENBI f) @ rest"
    using r2 by blast+
  have fl3: "has3rdBit (uli_Flags f) = (uli_RAI f \<noteq> None)"
    using assms(1) by (simp only: bit_tests flags_ok_def)
  have nt3: "\<forall>v. uli_RAI f = Some v \<longrightarrow> net_ok (rai_PLMN v)"
    using assms(2) by (simp add: locations_ok_def)
  have rd3: "\<forall>v r. uli_RAI f = Some v \<longrightarrow> drop (((1 + length (cgi_wire (uli_CGI f))) + length (sai_wire (uli_SAI f))) + 3) ?b = (be16 (rai_LAC v) @ be16 (rai_RAC v)) @ r \<longrightarrow> rai_at ?b (rai_PLMN v) (((1 + length (cgi_wire (uli_CGI f))) + length (sai_wire (uli_SAI f))) + 3) = Inr v"
    using assms(2) by (simp only: locations_ok_def) (blast intro: rai_read)
  have ln3: "length (be16 (rai_LAC v) @ be16 (rai_RAC v)) + 3 = 7" for v by simp
  note r3 = get_location_read [where flag = "has3rdBit (uli_Flags f)" and x = "uli_RAI f" and net = rai_PLMN and
      code = "\<lambda>v. be16 (rai_LAC v) @ be16 (rai_RAC v)" and n = 7 and b = "?b" and mk = "rai_at ?b" and k = "((1 + length (cgi_wire (uli_CGI f))) + length (sai_wire (uli_SAI f)))",
      OF fl3 nt3 ln3 rd3 d2]
  have g3: "get_location (has3rdBit (uli_Flags f)) 7 (rai_at ?b) ?b ((1 + length (cgi_wire (uli_CGI f))) + length (sai_wire (uli_SAI f))) = Inr (uli_RAI f, ((1 + length (cgi_wire (uli_CGI f))) + length (sai_wire (uli_SAI f))) + length (rai_wire (uli_RAI f)))"
    and d3: "drop (((1 + length (cgi_wire (uli_CGI f))) + length (sai_wire (uli_SAI f))) + length (rai_wire (uli_RAI f))) ?b = tai_wire (uli_TAI f) @ ecgi_wire (uli_ECGI f) @ lai_wire (uli_LAI f) @ menbi_wire (uli_MENBI f) @ emenbi_wire (uli_EMENBI f) @ rest"
    using r3 by blast+
  have fl4: "has4thBit (uli_Flags f) = (uli_TAI f \<noteq> None)"
    using assms(1) by (simp only: bit_tests flags_ok_def)
  have nt4: "\<forall>v. uli_TAI f = Some v \<longrightarrow> net_ok (tai_PLMN v)"
    using assms(2) by (simp add: locations_ok_def)
  have rd4: "\<forall>v r. uli_TAI f = Some v \<longrightarrow> drop ((((1 + length (cgi_wire (uli_CGI f))) + length (sai_wire (uli_SAI f))) + length (rai_wire (uli_RAI f))) + 3) ?b = (be16 (tai_TAC v)) @ r \<longrightarrow> tai_at ?b (tai_PLMN v) ((((1 + length (cgi_wire (uli_CGI f))) + length (sai_wire (uli_SAI f))) + length (rai_wire (uli_RAI f))) + 3) = Inr v"
    using assms(2) by (simp only: locations_ok_def) (blast intro: tai_read)
  have ln4: "length (be16 (tai_TAC v)) + 3 = 5" for v by simp
  note r4 = get_location_read [where flag = "has4thBit (uli_Flags f)" and x = "uli_TAI f" and net = tai_PLMN and
      code = "\<lambda>v. be16 (tai_TAC v)" and n = 5 and b = "?b" and mk = "tai_at ?b" and k = "(((1 + length (cgi_wire (uli_CGI f))) + length (sai_wire (uli_SAI f))) + length (rai_wire (uli_RAI f)))",
      OF fl4 nt4 ln4 rd4 d3]
  have g4: "get_location (has4thBit (uli_Flags f)) 5 (tai_at ?b) ?b (((1 + length (cgi_wire (uli_CGI f))) + length (sai_wire (uli_SAI f))) + length (rai_wire (uli_RAI f))) = Inr (uli_TAI f, (((1 + length (cgi_wire (uli_CGI f))) + length (sai_wire (uli_SAI f))) + length (rai_wire (uli_RAI f))) + length (tai_wire (uli_TAI f)))"
    and d4: "drop ((((1 + length (cgi_wire (uli_CGI f))) + length (sai_wire (uli_SAI f))) + length (rai_wire (uli_RAI f))) + length (tai_wire (uli_TAI f))) ?b = ecgi_wire (uli_ECGI f) @ lai_wire (uli_LAI f) @ menbi_wire (uli_MENBI f) @ emenbi_wire (uli_EMENBI f) @ rest"
    using r4 by blast+
  have fl5: "has5thBit (uli_Flags f) = (uli_ECGI f \<noteq> None)"
    using assms(1) by (simp only: bit_tests flags_ok_def)
  have nt5: "\<forall>v. uli_ECGI f = Some v \<longrightarrow> net_ok (ecgi_PLMN v)"
    using assms(2) by (simp add: locations_ok_def)
  have rd5: "\<forall>v r. uli_ECGI f = Some v \<longrightarrow> drop (((((1 + length (cgi_wire (uli_CGI f))) + length (sai_wire (uli_SAI f))) + length (rai_wire (uli_RAI f))) + length (tai_wire (uli_TAI f))) + 3) ?b = (be32 (ecgi_ECI v)) @ r \<longrightarrow> ecgi_at ?b (ecgi_PLMN v) (((((1 + length (cgi_wire (uli_CGI f))) + length (sai_wire (uli_SAI f))) + length (rai_wire (uli_RAI f))) + length (tai_wire (uli_TAI f))) + 3) = Inr v"
    using assms(2) by (simp only: locations_ok_def) (blast intro: ecgi_read)
  have ln5: "length (be32 (ecgi_ECI v)) + 3 = 7" for v by simp
  note r5 = get_location_read [where flag = "has5thBit (uli_Flags f)" and x = "uli_ECGI f" and net = ecgi_PLMN and
      code = "\<lambda>v. be32 (ecgi_ECI v)" and n = 7 and b = "?b" and mk = "ecgi_at ?b" and k = "((((1 + length (cgi_wire (uli_CGI f))) + length (sai_wire (uli_SAI f))) + length (rai_wire (uli_RAI f))) + length (tai_wire (uli_TAI f)))",
      OF fl5 nt5 ln5 rd5 d4]
  have g5: "get_location (has5thBit (uli_Flags f)) 7 (ecgi_at ?b) ?b ((((1 + length (cgi_wire (uli_CGI f))) + length (sai_wire (uli_SAI f))) + length (rai_wire (uli_RAI f))) + length (tai_wire (uli_TAI f))) = Inr (uli_ECGI f, ((((1 + length (cgi_wire (uli_CGI f))) + length (sai_wire (uli_SAI f))) + length (rai_wire (uli_RAI f))) + length (tai_wire (uli_TAI f))) + length (ecgi_wire (uli_ECGI f)))"
    and d5: "drop (((((1 + length (cgi_wire (uli_CGI f))) + length (sai_wire (uli_SAI f))) + length (rai_wire (uli_RAI f))) + length (tai_wire (uli_TAI f))) + length (ecgi_wire (uli_ECGI f))) ?b = lai_wire (uli_LAI f) @ menbi_wire (uli_MENBI f) @ emenbi_wire (uli_EMENBI f) @ rest"
    using r5 by blast+
  have fl6: "has6thBit (uli_Flags f) = (uli_LAI f \<noteq> None)"
    using assms(1) by (simp only: bit_tests flags_ok_def)
  have nt6: "\<forall>v. uli_LAI f = Some v \<longrightarrow> net_ok (lai_PLMN v)"
    using assms(2) by (simp add: locations_ok_def)
  have rd6: "\<forall>v r. uli_LAI f = Some v \<longrightarrow> drop ((((((1 + length (cgi_wire (uli_CGI f))) + length (sai_wire (uli_SAI f))) + length (rai_wire (uli_RAI f))) + length (tai_wire (uli_TAI f))) + length (ecgi_wire (uli_ECGI f))) + 3) ?b = (be16 (lai_LAC v)) @ r \<longrightarrow> lai_at ?b (lai_PLMN v) ((((((1 + length (cgi_wire (uli_CGI f))) + length (sai_wire (uli_SAI f))) + length (rai_wire (uli_RAI f))) + length (tai_wire (uli_TAI f))) + length (ecgi_wire (uli_ECGI f))) + 3) = Inr v"
    using assms(2) by (simp only: locations_ok_def) (blast intro: lai_read)
  have ln6: "length (be16 (lai_LAC v)) + 3 = 5" for v by simp
  note r6 = get_location_read [where flag = "has6thBit (uli_Flags f)" and x = "uli_LAI f" and net = lai_PLMN and
      code = "\<lambda>v. be16 (lai_LAC v)" and n = 5 and b = "?b" and mk = "lai_at ?b" and k = "(((((1 + length (cgi_wire (uli_CGI f))) + length (sai_wire (uli_SAI f))) + length (rai_wire (uli_RAI f))) + length (tai_wire (uli_TAI f))) + length (ecgi_wire (uli_ECGI f)))",
      OF fl6 nt6 ln6 rd6 d5]
  have g6: "get_location (has6thBit (uli_Flags f)) 5 (lai_at ?b) ?b (((((1 + length (cgi_wire (uli_CGI f))) + length (sai_wire (uli_SAI f))) + length (rai_wire (uli_RAI f))) + length (tai_wire (uli_TAI f))) + length (ecgi_wire (uli_ECGI f))) = Inr (uli_LAI f, (((((1 + length (cgi_wire (uli_CGI f))) + length (sai_wire (uli_SAI f))) + length (rai_wire (uli_RAI f))) + length (tai_wire (uli_TAI f))) + length (ecgi_wire (uli_ECGI f))) + length (lai_wire (uli_LAI f)))"
    and d6: "drop ((((((1 + length (cgi_wire (uli_CGI f))) + length (sai_wire (uli_SAI f))) + length (rai_wire (uli_RAI f))) + length (tai_wire (uli_TAI f))) + length (ecgi_wire (uli_ECGI f))) + length (lai_wire (uli_LAI f))) ?b = menbi_wire (uli_MENBI f) @ emenbi_wire (uli_EMENBI f) @ rest"
    using r6 by blast+
  have fl7: "has7thBit (uli_Flags f) = (uli_MENBI f \<noteq> None)"
    using assms(1) by (simp only: bit_tests flags_ok_def)
  have nt7: "\<forall>v. uli_MENBI f = Some v \<longrightarrow> net_ok (menbi_PLMN v)"
    using assms(2) by (simp add: locations_ok_def)
  have rd7: "\<forall>v r. uli_MENBI f = Some v \<longrightarrow> drop (((((((1 + length (cgi_wire (uli_CGI f))) + length (sai_wire (uli_SAI f))) + length (rai_wire (uli_RAI f))) + length (tai_wire (uli_TAI f))) + length (ecgi_wire (uli_ECGI f))) + length (lai_wire (uli_LAI f))) + 3) ?b = (Uint32To24 (menbi_MENBI v)) @ r \<longrightarrow> menbi_at ?b (menbi_PLMN v) (((((((1 + length (cgi_wire (uli_CGI f))) + length (sai_wire (uli_SAI f))) + length (rai_wire (uli_RAI f))) + length (tai_wire (uli_TAI f))) + length (ecgi_wire (uli_ECGI f))) + length (lai_wire (uli_LAI f))) + 3) = Inr v"
    using assms(2) by (simp only: locations_ok_def) (blast intro: menbi_read)
  have ln7: "length (Uint32To24 (menbi_MENBI v)) + 3 = 6" for v by simp
  note r7 = get_location_read [where flag = "has7thBit (uli_Flags f)" and x = "uli_MENBI f" and net = menbi_PLMN and
      code = "\<lambda>v. Uint32To24 (menbi_MENBI v)" and n = 6 and b = "?b" and mk = "menbi_at ?b" and k = "((((((1 + length (cgi_wire (uli_CGI f))) + length (sai_wire (uli_SAI f))) + length (rai_wire (uli_RAI f))) + length (tai_wire (uli_TAI f))) + length (ecgi_wire (uli_ECGI f))) + length (lai_wire (uli_LAI f)))",
      OF fl7 nt7 ln7 rd7 d6]
  have g7: "get_location (has7thBit (uli_Flags f)) 6 (menbi_at ?b) ?b ((((((1 + length (cgi_wire (uli_CGI f))) + length (sai_wire (uli_SAI f))) + length (rai_wire (uli_RAI f))) + length (tai_wire (uli_TAI f))) + length (ecgi_wire (uli_ECGI f))) + length (lai_wire (uli_LAI f))) = Inr (uli_MENBI f, ((((((1 + length (cgi_wire (uli_CGI f))) + length (sai_wire (uli_SAI f))) + length (rai_wire (uli_RAI f))) + length (tai_wire (uli_TAI f))) + length (ecgi_wire (uli_ECGI f))) + length (lai_wire (uli_LAI f))) + length (menbi_wire (uli_MENBI f)))"
    and d7: "drop (((((((1 + length (cgi_wire (uli_CGI f))) + length (sai_wire (uli_SAI f))) + length (rai_wire (uli_RAI f))) + length (tai_wire (uli_TAI f))) + length (ecgi_wire (uli_ECGI f))) + length (lai_wire (uli_LAI f))) + length (menbi_wire (uli_MENBI f))) ?b = emenbi_wire (uli_EMENBI f) @ rest"
    using r7 by blast+
  have fl8: "has8thBit (uli_Flags f) = (uli_EMENBI f \<noteq> None)"
    using assms(1) by (simp only: bit_tests flags_ok_def)
  have nt8: "\<forall>v. uli_EMENBI f = Some v \<longrightarrow> net_ok (emenbi_PLMN v)"
    using assms(2) by (simp add: locations_ok_def)
  have rd8: "\<forall>v r. uli_EMENBI f = Some v \<longrightarrow> drop ((((((((1 + length (cgi_wire (uli_CGI f))) + length (sai_wire (uli_SAI f))) + length (rai_wire (uli_RAI f))) + length (tai_wire (uli_TAI f))) + length (ecgi_wire (uli_ECGI f))) + length (lai_wire (uli_LAI f))) + length (menbi_wire (uli_MENBI f))) + 3) ?b = (Uint32To24 (emenbi_EMENBI v)) @ r \<longrightarrow> emenbi_at ?b (emenbi_PLMN v) ((((((((1 + length (cgi_wire (uli_CGI f))) + length (sai_wire (uli_SAI f))) + length (rai_wire (uli_RAI f))) + length (tai_wire (uli_TAI f))) + length (ecgi_wire (uli_ECGI f))) + length (lai_wire (uli_LAI f))) + length (menbi_wire (uli_MENBI f))) + 3) = Inr v"
    using assms(2) by (simp only: locations_ok_def) (blast intro: emenbi_read)
  have ln8: "length (Uint32To24 (emenbi_EMENBI v)) + 3 = 6" for v by simp
  note r8 = get_location_read [where flag = "has8thBit (uli_Flags f)" and x = "uli_EMENBI f" and net = emenbi_PLMN and
      code = "\<lambda>v. Uint32To24 (emenbi_EMENBI v)" and n = 6 and b = "?b" and mk = "emenbi_at ?b" and k = "(((((((1 + length (cgi_wire (uli_CGI f))) + length (sai_wire (uli_SAI f))) + length (rai_wire (uli_RAI f))) + length (tai_wire (uli_TAI f))) + length (ecgi_wire (uli_ECGI f))) + length (lai_wire (uli_LAI f))) + length (menbi_wire (uli_MENBI f)))",
      OF fl8 nt8 ln8 rd8 d7]
  have g8: "get_location (has8thBit (uli_Flags f)) 6 (emenbi_at ?b) ?b (((((((1 + length (cgi_wire (uli_CGI f))) + length (sai_wire (uli_SAI f))) + length (rai_wire (uli_RAI f))) + length (tai_wire (uli_TAI f))) + length (ecgi_wire (uli_ECGI f))) + length (lai_wire (uli_LAI f))) + length (menbi_wire (uli_MENBI f))) = Inr (uli_EMENBI f, (((((((1 + length (cgi_wire (uli_CGI f))) + length (sai_wire (uli_SAI f))) + length (rai_wire (uli_RAI f))) + length (tai_wire (uli_TAI f))) + length (ecgi_wire (uli_ECGI f))) + length (lai_wire (uli_LAI f))) + length (menbi_wire (uli_MENBI f))) + length (emenbi_wire (uli_EMENBI f)))"
    and d8: "drop ((((((((1 + length (cgi_wire (uli_CGI f))) + length (sai_wire (uli_SAI f))) + length (rai_wire (uli_RAI f))) + length (tai_wire (uli_TAI f))) + length (ecgi_wire (uli_ECGI f))) + length (lai_wire (uli_LAI f))) + length (menbi_wire (uli_MENBI f))) + length (emenbi_wire (uli_EMENBI f))) ?b = rest"
    using r8 by blast+
  have "byte_at ?b 0 = Inr (uli_Flags f)" "\<not> length ?b < 1" by (simp_all add: uli_wire_def byte_at_def)
  then show ?thesis
    by (simp only: uli_UnmarshalBinary_def if_False andThen_Inr g1 g2 g3 g4 g5 g6 g7 g8 case_prod_conv) simp
qed

section \<open>Properties\<close>

lemma with_location_literal:
  "with_location flag (\<lambda>f. f\<lparr>uli_CGI := x0\<rparr>) x0
     \<lparr>uli_Flags = g, uli_CGI = None, uli_SAI = x1, uli_RAI = x2, uli_TAI = x3, uli_ECGI = x4, uli_LAI = x5, uli_MENBI = x6, uli_EMENBI = x7\<rparr> =
     \<lparr>uli_Flags = g OR (if x0 = None then 0 else flag), uli_CGI = x0, uli_SAI = x1, uli_RAI = x2, uli_TAI = x3, uli_ECGI = x4, uli_LAI = x5, uli_MENBI = x6, uli_EMENBI = x7\<rparr>"
  "with_location flag (\<lambda>f. f\<lparr>uli_SAI := x1\<rparr>) x1
     \<lparr>uli_Flags = g, uli_CGI = x0, uli_SAI = None, uli_RAI = x2, uli_TAI = x3, uli_ECGI = x4, uli_LAI = x5, uli_MENBI = x6, uli_EMENBI = x7\<rparr> =
     \<lparr>uli_Flags = g OR (if x1 = None then 0 else flag), uli_CGI = x0, uli_SAI = x1, uli_RAI = x2, uli_TAI = x3, uli_ECGI = x4, uli_LAI = x5, uli_MENBI = x6, uli_EMENBI = x7\<rparr>"
  "with_location flag (\<lambda>f. f\<lparr>uli_RAI := x2\<rparr>) x2
     \<lparr>uli_Flags = g, uli_CGI = x0, uli_SAI = x1, uli_RAI = None, uli_TAI = x3, uli_ECGI = x4, uli_LAI = x5, uli_MENBI = x6, uli_EMENBI = x7\<rparr> =
     \<lparr>uli_Flags = g OR (if x2 = None then 0 else flag), uli_CGI = x0, uli_SAI = x1, uli_RAI = x2, uli_TAI = x3, uli_ECGI = x4, uli_LAI = x5, uli_MENBI = x6, uli_EMENBI = x7\<rparr>"
  "with_location flag (\<lambda>f. f\<lparr>uli_TAI := x3\<rparr>) x3
     \<lparr>uli_Flags = g, uli_CGI = x0, uli_SAI = x1, uli_RAI = x2, uli_TAI = None, uli_ECGI = x4, uli_LAI = x5, uli_MENBI = x6, uli_EMENBI = x7\<rparr> =
     \<lparr>uli_Flags = g OR (if x3 = None then 0 else flag), uli_CGI = x0, uli_SAI = x1, uli_RAI = x2, uli_TAI = x3, uli_ECGI = x4, uli_LAI = x5, uli_MENBI = x6, uli_EMENBI = x7\<rparr>"
  "with_location flag (\<lambda>f. f\<lparr>uli_ECGI := x4\<rparr>) x4
     \<lparr>uli_Flags = g, uli_CGI = x0, uli_SAI = x1, uli_RAI = x2, uli_TAI = x3, uli_ECGI = None, uli_LAI = x5, uli_MENBI = x6, uli_EMENBI = x7\<rparr> =
     \<lparr>uli_Flags = g OR (if x4 = None then 0 else flag), uli_CGI = x0, uli_SAI = x1, uli_RAI = x2, uli_TAI = x3, uli_ECGI = x4, uli_LAI = x5, uli_MENBI = x6, uli_EMENBI = x7\<rparr>"
  "with_location flag (\<lambda>f. f\<lparr>uli_LAI := x5\<rparr>) x5
     \<lparr>uli_Flags = g, uli_CGI = x0, uli_SAI = x1, uli_RAI = x2, uli_TAI = x3, uli_ECGI = x4, uli_LAI = None, uli_MENBI = x6, uli_EMENBI = x7\<rparr> =
     \<lparr>uli_Flags = g OR (if x5 = None then 0 else flag), uli_CGI = x0, uli_SAI = x1, uli_RAI = x2, uli_TAI = x3, uli_ECGI = x4, uli_LAI = x5, uli_MENBI = x6, uli_EMENBI = x7\<rparr>"
  "with_location flag (\<lambda>f. f\<lparr>uli_MENBI := x6\<rparr>) x6
     \<lparr>uli_Flags = g, uli_CGI = x0, uli_SAI = x1, uli_RAI = x2, uli_TAI = x3, uli_ECGI = x4, uli_LAI = x5, uli_MENBI = None, uli_EMENBI = x7\<rparr> =
     \<lparr>uli_Flags = g OR (if x6 = None then 0 else flag), uli_CGI = x0, uli_SAI = x1, uli_RAI = x2, uli_TAI = x3, uli_ECGI = x4, uli_LAI = x5, uli_MENBI = x6, uli_EMENBI = x7\<rparr>"
  "with_location flag (\<lambda>f. f\<lparr>uli_EMENBI := x7\<rparr>) x7
     \<lparr>uli_Flags = g, uli_CGI = x0, uli_SAI = x1, uli_RAI = x2, uli_TAI = x3, uli_ECGI = x4, uli_LAI = x5, uli_MENBI = x6, uli_EMENBI = None\<rparr> =
     \<lparr>uli_Flags = g OR (if x7 = None then 0 else flag), uli_CGI = x0, uli_SAI = x1, uli_RAI = x2, uli_TAI = x3, uli_ECGI = x4, uli_LAI = x5, uli_MENBI = x6, uli_EMENBI = x7\<rparr>"
  by (simp_all add: with_location_def)

lemma bit_if: "bit (if c then 0 else w) k = (\<not> c \<and> bit (w :: byte) k)"
  by simp

lemma NewUserLocationInformationFields_eq:
  "NewUserLocationInformationFields cgi sai rai tai ecgi lai menbi emenbi =
     \<lparr>uli_Flags = ((((((((0 OR (if cgi = None then 0 else 0x01)) OR (if sai = None then 0 else 0x02)) OR (if rai = None then 0 else 0x04)) OR (if tai = None then 0 else 0x08)) OR (if ecgi = None then 0 else 0x10)) OR (if lai = None then 0 else 0x20)) OR (if menbi = None then 0 else 0x40)) OR (if emenbi = None then 0 else 0x80)), uli_CGI = cgi, uli_SAI = sai, uli_RAI = rai, uli_TAI = tai, uli_ECGI = ecgi, uli_LAI = lai, uli_MENBI = menbi, uli_EMENBI = emenbi\<rparr>"
  by (simp only: NewUserLocationInformationFields_def Let_def with_location_literal)

lemma NewUserLocationInformationFields_sel:
  "flags_ok (NewUserLocationInformationFields cgi sai rai tai ecgi lai menbi emenbi)"
  "uli_CGI (NewUserLocationInformationFields cgi sai rai tai ecgi lai menbi emenbi) = cgi"
  "uli_SAI (NewUserLocationInformationFields cgi sai rai tai ecgi lai menbi emenbi) = sai"
  "uli_RAI (NewUserLocationInformationFields cgi sai rai tai ecgi lai menbi emenbi) = rai"
  "uli_TAI (NewUserLocationInformationFields cgi sai rai tai ecgi lai menbi emenbi) = tai"
  "uli_ECGI (NewUserLocationInformationFields cgi sai rai tai ecgi lai menbi emenbi) = ecgi"
  "uli_LAI (NewUserLocationInformationFields cgi sai rai tai ecgi lai menbi emenbi) = lai"
  "uli_MENBI (NewUserLocationInformationFields cgi sai rai tai ecgi lai menbi emenbi) = menbi"
  "uli_EMENBI (NewUserLocationInformationFields cgi sai rai tai ecgi lai menbi emenbi) = emenbi"
  by (simp_all only: NewUserLocationInformationFields_eq flags_ok_def uli_fields.select_convs bit_or_iff bit_if)
     (simp_all add: bit_simps)

text \<open>
  C34. User Location Information: any selection of the eight locations, with decimal network codes
  and macro eNodeB identities of three bytes, comes back from the element it was put into, with the
  flags that say which ones are there.
\<close>

theorem uli_roundtrip:
  assumes "locations_ok (NewUserLocationInformationFields cgi sai rai tai ecgi lai menbi emenbi)"
  shows "\<exists>i. NewUserLocationInformationStruct cgi sai rai tai ecgi lai menbi emenbi = Inr (Some i) \<and>
     ie_UserLocationInformation i = Inr (NewUserLocationInformationFields cgi sai rai tai ecgi lai menbi emenbi)"
  using uli_Marshal_wire [OF NewUserLocationInformationFields_sel(1) assms]
    uli_Unmarshal_wire [OF NewUserLocationInformationFields_sel(1) assms, of "[]"]
  by (simp add: NewUserLocationInformationStruct_def ie_UserLocationInformation_def)

theorem uli_roundtrip_witness:
  "\<exists>i. NewUserLocationInformationStruct None None None (Some (NewTAI ''440'' ''10'' 7))
       (Some (NewECGI ''440'' ''10'' 0xfabcdef)) None None (Some (NewEMENBI ''310'' ''260'' 0xabcdef)) = Inr (Some i) \<and>
     ie_UserLocationInformation i = Inr (NewUserLocationInformationFields None None None (Some (NewTAI ''440'' ''10'' 7))
       (Some (NewECGI ''440'' ''10'' 0xfabcdef)) None None (Some (NewEMENBI ''310'' ''260'' 0xabcdef)))"
  by (rule uli_roundtrip)
     (simp add: locations_ok_def NewUserLocationInformationFields_sel net_ok_def plmn_ok_def dec_digit_def
       NewTAI_def NewECGI_def NewEMENBI_def)

lemma no_panic_pair: "(\<And>x y. p = (x, y) \<Longrightarrow> no_panic (f x y)) \<Longrightarrow> no_panic (case p of (x, y) \<Rightarrow> f x y)"
  by (cases p) simp

lemma get_location_no_panic:
  assumes "\<And>plmn. k + n \<le> length b \<Longrightarrow> no_panic (mk plmn (k + 3))" "3 \<le> n"
  shows "no_panic (get_location flag n mk b k)"
  unfolding get_location_def
  by (auto intro!: no_panic_andThen assms(1) simp: slice_def DecodePLMN_panics_iff split: prod.splits) (use assms(2) in auto)

text \<open>Whatever the payload, the decoder returns a value or an error.\<close>

lemma uli_Unmarshal_no_panic: "no_panic (uli_UnmarshalBinary b)"
proof -
  have at: "no_panic (cgi_at b plmn i)" "no_panic (sai_at b plmn i)" "no_panic (rai_at b plmn i)"
      "no_panic (ecgi_at b plmn i)" if "i + 4 \<le> length b" for plmn i
    using that by (simp_all add: cgi_at_def sai_at_def rai_at_def tai_at_def ecgi_at_def lai_at_def menbi_at_def emenbi_at_def get16_def get32_def)
  have at': "no_panic (tai_at b plmn i)" "no_panic (lai_at b plmn i)" if "i + 2 \<le> length b" for plmn i
    using that by (simp_all add: cgi_at_def sai_at_def rai_at_def tai_at_def ecgi_at_def lai_at_def menbi_at_def emenbi_at_def get16_def)
  have at'': "no_panic (menbi_at b plmn i)" "no_panic (emenbi_at b plmn i)" if "i + 3 \<le> length b" for plmn i
    using that by (simp_all add: cgi_at_def sai_at_def rai_at_def tai_at_def ecgi_at_def lai_at_def menbi_at_def emenbi_at_def slice_def)
  show ?thesis
  proof (cases "length b < 1")
    case False
    then show ?thesis
      unfolding uli_UnmarshalBinary_def
      by (simp only: if_False, intro no_panic_andThen no_panic_pair get_location_no_panic)
         (simp_all add: byte_at_def at at' at'')
  qed (simp add: uli_UnmarshalBinary_def)
qed

text \<open>A flag whose pointer is nil makes the encoder panic.\<close>

lemma uli_flag_without_location:
  "uli_Marshal (no_locations\<lparr>uli_Flags := 1\<rparr>) = Inl (Panic NilDereference)"
  by (simp add: uli_Marshal_def uli_MarshalTo_def uli_MarshalLen_def put_location_def write_at_def)

text \<open>
  The deprecated constructor cuts the E-UTRAN cell identity to 20 of its 28 bits, and the
  deprecated getter gives all locations the network code of the last one.
\<close>

lemma legacy_ECI_cut:
  "(case NewUserLocationInformation 0 0 0 0 1 0 0 0 ''440'' ''10'' 0 0 0 0 0 0xfabcdef 0 0 of
      Inr (Some i) \<Rightarrow> ie_UserLocationInformation i | _ \<Rightarrow> eof) =
   Inr (no_locations\<lparr>uli_Flags := 0x10, uli_ECGI := Some \<lparr>ecgi_PLMN = \<lparr>plmn_MCC = ''440'', plmn_MNC = ''10''\<rparr>, ecgi_ECI = 0xbcdef\<rparr>\<rparr>)"
  by code_simp

lemma legacy_network_code_shared:
  "(case NewUserLocationInformationStruct None None None (Some (NewTAI ''440'' ''10'' 7)) None None None
       (Some (NewEMENBI ''310'' ''260'' 1)) of
      Inr (Some i) \<Rightarrow> ie_UserLocationInfo i | _ \<Rightarrow> eof) =
   Inr (no_locations\<lparr>uli_TAI := Some (NewTAI ''310'' ''260'' 7), uli_EMENBI := Some (NewEMENBI ''310'' ''260'' 1)\<rparr>, None)"
  by code_simp

end
