(* ===== verification/V2PCO.thy ===== *)
theory V2PCO
  imports V2IEValues
begin

text \<open>
  Protocol Configuration Options of GTPv2 (\<open>src/gtpv2/ie/pco.go\<close>) and the PPP packets that go into
  its containers (\<open>pco-ppp.go\<close>): PPP itself, PAP, CHAP and IPCP options. The containers are decoded
  in a loop of the kind of \<open>IEStream\<close>, whose contract is interpreted here. The lemmas are the round
  trips, and exactly which inputs make the decoders panic.
\<close>

section \<open>Containers\<close>

record pco_container =
  pcoc_ID :: u16
  pcoc_Length :: byte
  pcoc_Contents :: bytes

definition NewPCOContainer :: "u16 \<Rightarrow> bytes \<Rightarrow> pco_container" where
  "NewPCOContainer pid contents =
     \<lparr>pcoc_ID = pid, pcoc_Length = of_nat (length contents), pcoc_Contents = contents\<rparr>"

definition pcoc_MarshalLen :: "pco_container \<Rightarrow> nat" where
  "pcoc_MarshalLen c = 3 + length (pcoc_Contents c)"

definition pcoc_MarshalTo :: "pco_container \<Rightarrow> bytes \<Rightarrow> bytes result" where
  "pcoc_MarshalTo c b =
     andThen (write_at b 0 (be16 (pcoc_ID c))) (\<lambda>b.
     andThen (write_at b 2 [pcoc_Length c]) (\<lambda>b.
       if pcoc_Length c \<noteq> 0 then copy_at b 3 (length b) (pcoc_Contents c) else Inr b))"

definition pcoc_Marshal :: "pco_container \<Rightarrow> bytes result" where
  "pcoc_Marshal c = pcoc_MarshalTo c (replicate (pcoc_MarshalLen c) 0)"

text \<open>Contents that are shorter than announced are left out, without an error.\<close>

definition pcoc_UnmarshalBinary :: "bytes \<Rightarrow> pco_container result" where
  "pcoc_UnmarshalBinary b =
     (let l = length b in
      if l < 3 then Inl (Error IEErrTooShortToParse)
      else andThen (get16 b 0) (\<lambda>pid. andThen (byte_at b 2) (\<lambda>n.
        andThen (if n \<noteq> 0 \<and> l \<ge> 3 + unat n then slice b 3 (3 + unat n) else Inr []) (\<lambda>contents.
          Inr \<lparr>pcoc_ID = pid, pcoc_Length = n, pcoc_Contents = contents\<rparr>))))"

section \<open>The element\<close>

record pco_fields =
  pco_Extension :: byte
  pco_ConfigurationProtocol :: byte
  pco_ProtocolOrContainers :: "pco_container list"

definition NewProtocolConfigurationOptionsFields :: "byte \<Rightarrow> pco_container list \<Rightarrow> pco_fields" where
  "NewProtocolConfigurationOptionsFields proto opts =
     \<lparr>pco_Extension = 0, pco_ConfigurationProtocol = proto, pco_ProtocolOrContainers = opts\<rparr>"

definition pcof_MarshalLen :: "pco_fields \<Rightarrow> nat" where
  "pcof_MarshalLen f = 1 + (\<Sum>c \<leftarrow> pco_ProtocolOrContainers f. pcoc_MarshalLen c)"

fun put_containers :: "pco_container list \<Rightarrow> nat \<Rightarrow> bytes \<Rightarrow> bytes result" where
  "put_containers [] offset b = Inr b"
| "put_containers (opt # opts) offset b =
     andThen (within b offset (length b) (pcoc_MarshalTo opt)) (\<lambda>b.
       put_containers opts (offset + pcoc_MarshalLen opt) b)"

definition pcof_MarshalTo :: "pco_fields \<Rightarrow> bytes \<Rightarrow> bytes result" where
  "pcof_MarshalTo f b =
     andThen (write_at b 0 [(pco_ConfigurationProtocol f AND 0x07) OR 0x80]) (\<lambda>b.
       put_containers (pco_ProtocolOrContainers f) 1 b)"

definition pcof_Marshal :: "pco_fields \<Rightarrow> bytes result" where
  "pcof_Marshal f = pcof_MarshalTo f (replicate (pcof_MarshalLen f) 0)"

text \<open>The loop of \<open>UnmarshalBinary\<close> over the bytes that are left.\<close>

function get_containers :: "bytes \<Rightarrow> pco_container list result" where
  "get_containers b =
     (if b = [] then Inr []
      else andThen (pcoc_UnmarshalBinary b) (\<lambda>opt.
        andThen (slice_from b (pcoc_MarshalLen opt)) (\<lambda>r.
        andThen (get_containers r) (\<lambda>opts. Inr (opt # opts)))))"
  by pat_completeness auto
termination
  by (relation "measure length") (auto simp: slice_from_def slice_def pcoc_MarshalLen_def split: if_splits)

declare get_containers.simps [simp del]

definition pcof_UnmarshalBinary :: "bytes \<Rightarrow> pco_fields result" where
  "pcof_UnmarshalBinary b =
     (if length b < 1 then Inl (Error IEErrTooShortToParse)
      else andThen (byte_at b 0) (\<lambda>b0. andThen (andThen (slice_from b 1) get_containers) (\<lambda>opts.
        Inr \<lparr>pco_Extension = drop_bit 7 b0 AND 0x01, pco_ConfigurationProtocol = b0 AND 0x07,
             pco_ProtocolOrContainers = opts\<rparr>)))"

definition NewProtocolConfigurationOptions :: "byte \<Rightarrow> pco_container list \<Rightarrow> ie option result" where
  "NewProtocolConfigurationOptions proto options =
     or_nil (ie_New IE_ProtocolConfigurationOptions 0x00)
       (pcof_Marshal (NewProtocolConfigurationOptionsFields proto options))"

definition ie_ProtocolConfigurationOptions :: "ie \<Rightarrow> pco_fields result" where
  "ie_ProtocolConfigurationOptions = in_bearer_context IE_ProtocolConfigurationOptions
     (\<lambda>i. if length (ie_Payload i) < 1 then eof else pcof_UnmarshalBinary (ie_Payload i))"

section \<open>PPP\<close>

record pco_ppp =
  ppp_Code :: byte
  ppp_Identifier :: byte
  ppp_Length :: u16
  ppp_Payload :: bytes

definition NewPCOPPP :: "byte \<Rightarrow> byte \<Rightarrow> bytes \<Rightarrow> pco_ppp" where
  "NewPCOPPP code pid payload =
     \<lparr>ppp_Code = code, ppp_Identifier = pid, ppp_Length = of_nat (4 + length payload), ppp_Payload = payload\<rparr>"

definition ppp_MarshalLen :: "pco_ppp \<Rightarrow> nat" where
  "ppp_MarshalLen p = 4 + length (ppp_Payload p)"

definition ppp_MarshalTo :: "pco_ppp \<Rightarrow> bytes \<Rightarrow> bytes result" where
  "ppp_MarshalTo p b =
     (if length b < 5 then eof
      else andThen (write_at b 0 [ppp_Code p]) (\<lambda>b. andThen (write_at b 1 [ppp_Identifier p]) (\<lambda>b.
        andThen (write_at b 2 (be16 (ppp_Length p))) (\<lambda>b. copy_at b 4 (length b) (ppp_Payload p)))))"

definition ppp_Marshal :: "pco_ppp \<Rightarrow> bytes result" where
  "ppp_Marshal p = ppp_MarshalTo p (replicate (ppp_MarshalLen p) 0)"

definition ppp_UnmarshalBinary :: "bytes \<Rightarrow> pco_ppp result" where
  "ppp_UnmarshalBinary b =
     (let l = length b in
      if l < 5 then Inl (Error IEErrTooShortToParse)
      else andThen (byte_at b 0) (\<lambda>c. andThen (byte_at b 1) (\<lambda>i. andThen (get16 b 2) (\<lambda>n.
        if l < unat n then eof
        else andThen (slice b 4 (unat n)) (\<lambda>p.
          Inr \<lparr>ppp_Code = c, ppp_Identifier = i, ppp_Length = n, ppp_Payload = p\<rparr>)))))"

subsection \<open>PAP\<close>

record pap_fields =
  pap_PeerIDLength :: byte
  pap_PeerID :: string
  pap_PasswordLength :: byte
  pap_Password :: string

definition NewPAPFields :: "string \<Rightarrow> string \<Rightarrow> pap_fields" where
  "NewPAPFields pid pass =
     \<lparr>pap_PeerIDLength = of_nat (length pid), pap_PeerID = pid,
      pap_PasswordLength = of_nat (length pass), pap_Password = pass\<rparr>"

definition pap_MarshalLen :: "pap_fields \<Rightarrow> nat" where
  "pap_MarshalLen p = 2 + length (pap_PeerID p) + length (pap_Password p)"

definition pap_MarshalTo :: "pap_fields \<Rightarrow> bytes \<Rightarrow> bytes result" where
  "pap_MarshalTo p b =
     (let l = length b; n = unat (pap_PeerIDLength p); m = unat (pap_PasswordLength p) in
      if l < 2 then eof
      else andThen (write_at b 0 [pap_PeerIDLength p]) (\<lambda>b.
        if l < 1 + n then eof
        else andThen (copy_at b 1 (1 + n) (string_bytes (pap_PeerID p))) (\<lambda>b.
          andThen (write_at b (1 + n) [pap_PasswordLength p]) (\<lambda>b.
            if l < 2 + n + m then eof
            else copy_at b (2 + n) (2 + n + m) (string_bytes (pap_Password p))))))"

definition pap_Marshal :: "pap_fields \<Rightarrow> bytes result" where
  "pap_Marshal p = pap_MarshalTo p (replicate (pap_MarshalLen p) 0)"

definition pap_UnmarshalBinary :: "bytes \<Rightarrow> pap_fields result" where
  "pap_UnmarshalBinary b =
     (let l = length b in
      if l < 2 then Inl (Error IEErrTooShortToParse)
      else andThen (byte_at b 0) (\<lambda>n.
        if l < 1 + unat n then eof
        else andThen (slice b 1 (1 + unat n)) (\<lambda>peer. andThen (byte_at b (1 + unat n)) (\<lambda>m.
          if l < 2 + unat n + unat m then eof
          else andThen (slice b (2 + unat n) (2 + unat n + unat m)) (\<lambda>pass.
            Inr \<lparr>pap_PeerIDLength = n, pap_PeerID = bytes_string peer,
                 pap_PasswordLength = m, pap_Password = bytes_string pass\<rparr>)))))"

subsection \<open>CHAP\<close>

record chap_fields =
  chap_ValueSize :: byte
  chap_Value :: bytes
  chap_Name :: string

definition NewCHAPFields :: "bytes \<Rightarrow> string \<Rightarrow> chap_fields" where
  "NewCHAPFields v name = \<lparr>chap_ValueSize = of_nat (length v), chap_Value = v, chap_Name = name\<rparr>"

definition chap_MarshalLen :: "chap_fields \<Rightarrow> nat" where
  "chap_MarshalLen c = 1 + length (chap_Value c) + length (chap_Name c)"

definition chap_MarshalTo :: "chap_fields \<Rightarrow> bytes \<Rightarrow> bytes result" where
  "chap_MarshalTo c b =
     (let l = length b; n = unat (chap_ValueSize c) in
      if l < 2 then eof
      else andThen (write_at b 0 [chap_ValueSize c]) (\<lambda>b.
        if l < 1 + n then eof
        else andThen (copy_at b 1 (1 + n) (chap_Value c)) (\<lambda>b.
          copy_at b (1 + n) (length b) (string_bytes (chap_Name c)))))"

definition chap_Marshal :: "chap_fields \<Rightarrow> bytes result" where
  "chap_Marshal c = chap_MarshalTo c (replicate (chap_MarshalLen c) 0)"

definition chap_UnmarshalBinary :: "bytes \<Rightarrow> chap_fields result" where
  "chap_UnmarshalBinary b =
     (let l = length b in
      if l < 2 then Inl (Error IEErrTooShortToParse)
      else andThen (byte_at b 0) (\<lambda>n.
        if l < 1 + unat n then eof
        else andThen (slice b 1 (1 + unat n)) (\<lambda>v. andThen (slice_from b (1 + unat n)) (\<lambda>name.
          Inr \<lparr>chap_ValueSize = n, chap_Value = v, chap_Name = bytes_string name\<rparr>))))"

subsection \<open>IPCP options\<close>

abbreviation IPCPOptionIPAddress :: byte where "IPCPOptionIPAddress \<equiv> 3"
abbreviation IPCPOptionMobileIPv4 :: byte where "IPCPOptionMobileIPv4 \<equiv> 4"
abbreviation IPCPOptionPrimaryDNS :: byte where "IPCPOptionPrimaryDNS \<equiv> 129"
abbreviation IPCPOptionSecondaryDNS :: byte where "IPCPOptionSecondaryDNS \<equiv> 131"

record ipcp_option =
  ipcp_Type :: byte
  ipcp_Length :: byte
  ipcp_Payload :: bytes

definition NewIPCPOption :: "byte \<Rightarrow> bytes \<Rightarrow> ipcp_option" where
  "NewIPCPOption t payload =
     \<lparr>ipcp_Type = t, ipcp_Length = of_nat (2 + length payload), ipcp_Payload = payload\<rparr>"

definition NewIPCPOptionIPAddress :: "ip \<Rightarrow> ipcp_option" where
  "NewIPCPOptionIPAddress a =
     (let v4 = To4 a in if v4 \<noteq> [] then NewIPCPOption IPCPOptionIPAddress v4
      else NewIPCPOption IPCPOptionIPAddress a)"

definition NewIPCPOptionMobileIPv4 :: "ip \<Rightarrow> ipcp_option" where
  "NewIPCPOptionMobileIPv4 a =
     (let v4 = To4 a in if v4 \<noteq> [] then NewIPCPOption IPCPOptionMobileIPv4 v4
      else NewIPCPOption IPCPOptionMobileIPv4 a)"

definition NewIPCPOptionPrimaryDNS :: "ip \<Rightarrow> ipcp_option" where
  "NewIPCPOptionPrimaryDNS a =
     (let v4 = To4 a in if v4 \<noteq> [] then NewIPCPOption IPCPOptionPrimaryDNS v4
      else NewIPCPOption IPCPOptionPrimaryDNS a)"

definition NewIPCPOptionSecondaryDNS :: "ip \<Rightarrow> ipcp_option" where
  "NewIPCPOptionSecondaryDNS a =
     (let v4 = To4 a in if v4 \<noteq> [] then NewIPCPOption IPCPOptionSecondaryDNS v4
      else NewIPCPOption IPCPOptionSecondaryDNS a)"

definition ipcp_MarshalLen :: "ipcp_option \<Rightarrow> nat" where
  "ipcp_MarshalLen p = 2 + length (ipcp_Payload p)"

definition ipcp_MarshalTo :: "ipcp_option \<Rightarrow> bytes \<Rightarrow> bytes result" where
  "ipcp_MarshalTo p b =
     (if length b < 3 then eof
      else andThen (write_at b 0 [ipcp_Type p]) (\<lambda>b. andThen (write_at b 1 [ipcp_Length p]) (\<lambda>b.
        copy_at b 2 (length b) (ipcp_Payload p))))"

definition ipcp_Marshal :: "ipcp_option \<Rightarrow> bytes result" where
  "ipcp_Marshal p = ipcp_MarshalTo p (replicate (ipcp_MarshalLen p) 0)"

definition ipcp_UnmarshalBinary :: "bytes \<Rightarrow> ipcp_option result" where
  "ipcp_UnmarshalBinary b =
     (let l = length b in
      if l < 3 then Inl (Error IEErrTooShortToParse)
      else andThen (byte_at b 0) (\<lambda>t. andThen (byte_at b 1) (\<lambda>n.
        if l < unat n then eof
        else andThen (slice b 2 (unat n)) (\<lambda>p.
          Inr \<lparr>ipcp_Type = t, ipcp_Length = n, ipcp_Payload = p\<rparr>))))"

section \<open>PPP packets with one of them as payload\<close>

text \<open>The constructors return nil when the payload cannot be encoded.\<close>

definition ppp_or_nil :: "byte \<Rightarrow> bytes result \<Rightarrow> pco_ppp option result" where
  "ppp_or_nil pid r = (case r of
     Inr b \<Rightarrow> Inr (Some (NewPCOPPP 1 pid b))
   | Inl (Error e) \<Rightarrow> Inr None
   | Inl (Panic p) \<Rightarrow> Inl (Panic p))"

definition NewPCOPPPWithPAP :: "byte \<Rightarrow> string \<Rightarrow> string \<Rightarrow> pco_ppp option result" where
  "NewPCOPPPWithPAP pid peer pass = ppp_or_nil pid (pap_Marshal (NewPAPFields peer pass))"

definition NewPCOPPPWithCHAP :: "byte \<Rightarrow> bytes \<Rightarrow> string \<Rightarrow> pco_ppp option result" where
  "NewPCOPPPWithCHAP pid v pass = ppp_or_nil pid (chap_Marshal (NewCHAPFields v pass))"

fun append_options :: "ipcp_option list \<Rightarrow> nat \<Rightarrow> bytes \<Rightarrow> bytes result" where
  "append_options [] offset b = Inr b"
| "append_options (opt # opts) offset b =
     (let l = ipcp_MarshalLen opt; b = b @ replicate l 0 in
      andThen (within b offset (offset + l) (ipcp_MarshalTo opt)) (\<lambda>b. append_options opts (offset + l) b))"

definition NewPCOPPPWithIPCPOptions :: "byte \<Rightarrow> ipcp_option list \<Rightarrow> pco_ppp option result" where
  "NewPCOPPPWithIPCPOptions pid opts = ppp_or_nil pid (append_options opts 0 [])"

section \<open>Round trips\<close>

definition pcoc_wire :: "pco_container \<Rightarrow> bytes" where
  "pcoc_wire c = be16 (pcoc_ID c) @ pcoc_Length c # pcoc_Contents c"

definition pcoc_ok :: "pco_container \<Rightarrow> bool" where
  "pcoc_ok c \<longleftrightarrow> unat (pcoc_Length c) = length (pcoc_Contents c)"

lemma pcoc_wire_length [simp]: "length (pcoc_wire c) = pcoc_MarshalLen c"
  by (simp add: pcoc_wire_def pcoc_MarshalLen_def)

lemma pcoc_MarshalTo_wire:
  assumes "pcoc_ok c" "pcoc_MarshalLen c \<le> length old"
  shows "pcoc_MarshalTo c old = Inr (pcoc_wire c @ drop (pcoc_MarshalLen c) old)"
proof -
  obtain x y z r where old: "old = x # y # z # r"
    using assms(2) by (auto simp: pcoc_MarshalLen_def Suc_le_length_iff numeral_eq_Suc)
  have "pcoc_Contents c = []" if "pcoc_Length c = 0" using assms(1) that by (simp add: pcoc_ok_def)
  with assms(2) show ?thesis
    by (auto simp: old pcoc_MarshalTo_def pcoc_wire_def pcoc_MarshalLen_def write_at_def copy_at_def be16_def drop_numeral_add)
qed

lemma pcoc_Unmarshal_sound:
  assumes "pcoc_UnmarshalBinary b = Inr c"
  shows "\<exists>rest. b = pcoc_wire c @ rest \<and> pcoc_MarshalLen c = length (pcoc_wire c)"
proof -
  have "3 \<le> length b" using assms by (simp add: pcoc_UnmarshalBinary_def Let_def split: if_splits)
  then obtain x y n r where b: "b = x # y # n # r" by (auto simp: Suc_le_length_iff numeral_eq_Suc)
  have "c = \<lparr>pcoc_ID = join16 x y, pcoc_Length = n, pcoc_Contents =
      (if n \<noteq> 0 \<and> unat n \<le> length r then take (unat n) r else [])\<rparr>"
    using assms by (auto simp: b pcoc_UnmarshalBinary_def get16_def byte_at_def slice_def split: if_splits)
  then have "b = pcoc_wire c @ (if n \<noteq> 0 \<and> unat n \<le> length r then drop (unat n) r else r)"
    by (simp add: b pcoc_wire_def)
  then show ?thesis by auto
qed

interpretation pcos: ie_decoder pcoc_UnmarshalBinary pcoc_MarshalLen pcoc_wire pcoc_ok get_containers
proof unfold_locales
  show "pcoc_UnmarshalBinary (pcoc_wire c @ rest) = Inr c" if "pcoc_ok c" for c rest
    using that join16_be16 [of "pcoc_ID c"]
    by (cases "pcoc_Length c = 0")
       (simp_all add: pcoc_UnmarshalBinary_def pcoc_wire_def pcoc_ok_def be16_def get16_def byte_at_def slice_def)
  show "get_containers b = (if b = [] then Inr []
      else andThen (pcoc_UnmarshalBinary b) (\<lambda>i. andThen (slice_from b (pcoc_MarshalLen i)) (\<lambda>r.
           andThen (get_containers r) (\<lambda>es. Inr (i # es)))))" for b
    by (subst get_containers.simps) simp
  show "\<exists>rest. b = pcoc_wire c @ rest \<and> pcoc_MarshalLen c = length (pcoc_wire c)"
    if "pcoc_UnmarshalBinary b = Inr c" for b c
    using that by (rule pcoc_Unmarshal_sound)
  show "no_panic (pcoc_UnmarshalBinary b)" for b
    by (auto simp: pcoc_UnmarshalBinary_def get16_def byte_at_def slice_def Let_def intro!: no_panic_andThen)
qed (simp_all add: pcoc_wire_def pcoc_MarshalLen_def)

lemma put_containers_wire:
  "\<forall>c \<in> set cs. pcoc_ok c \<Longrightarrow> (\<Sum>c \<leftarrow> cs. pcoc_MarshalLen c) \<le> length old \<Longrightarrow>
     put_containers cs (length pre) (pre @ old) =
       Inr (pre @ concat (map pcoc_wire cs) @ drop (\<Sum>c \<leftarrow> cs. pcoc_MarshalLen c) old)"
proof (induction cs arbitrary: pre old)
  case (Cons c cs)
  have "within (pre @ old) (length pre) (length (pre @ old)) (pcoc_MarshalTo c)
      = Inr (pre @ (pcoc_wire c @ drop (pcoc_MarshalLen c) old) @ [])"
    using within_append [of "length pre" pre "length (pre @ old)" old "pcoc_MarshalTo c" _ "[]"]
      pcoc_MarshalTo_wire [of c old] Cons.prems by simp
  moreover have "put_containers cs (length (pre @ pcoc_wire c)) ((pre @ pcoc_wire c) @ drop (pcoc_MarshalLen c) old)
      = Inr ((pre @ pcoc_wire c) @ concat (map pcoc_wire cs) @
          drop (\<Sum>c \<leftarrow> cs. pcoc_MarshalLen c) (drop (pcoc_MarshalLen c) old))"
    by (rule Cons.IH) (use Cons.prems in simp_all)
  ultimately show ?case by (simp add: ac_simps)
qed simp

lemma pco_head:
  fixes x :: byte
  assumes "x < 8"
  shows "drop_bit 7 ((x AND 7) OR 0x80) AND 0x01 = 1" "((x AND 7) OR 0x80) AND 7 = x"
proof -
  have "((x AND 7) OR 0x80) AND 7 = x AND 7" "drop_bit 7 ((x AND 7) OR 0x80) AND 0x01 = 1"
    by (auto intro!: byte_eqI simp: bit_simps)
  moreover have "x AND 7 = x" using less_mask_eq [of x 3] assms by (simp add: mask_eq_exp_minus_1)
  ultimately show "drop_bit 7 ((x AND 7) OR 0x80) AND 0x01 = 1" "((x AND 7) OR 0x80) AND 7 = x" by simp_all
qed

text \<open>
  Protocol Configuration Options: a configuration protocol of three bits and containers of up to
  255 bytes come back from the element; the extension bit, which the encoder always sets, is read
  as set whatever the field says.
\<close>

lemma pco_roundtrip:
  assumes "proto < 8" "\<forall>c \<in> set options. pcoc_ok c"
  shows "\<exists>i. NewProtocolConfigurationOptions proto options = Inr (Some i) \<and>
     ie_ProtocolConfigurationOptions i =
       Inr ((NewProtocolConfigurationOptionsFields proto options)\<lparr>pco_Extension := 1\<rparr>)"
proof -
  let ?h = "(proto AND 0x07) OR 0x80" and ?c = "concat (map pcoc_wire options)"
  have "put_containers options 1 (?h # replicate (\<Sum>c \<leftarrow> options. pcoc_MarshalLen c) 0) = Inr (?h # ?c)"
    using put_containers_wire [OF assms(2), of "replicate (\<Sum>c \<leftarrow> options. pcoc_MarshalLen c) 0" "[?h]"] by simp
  then have m: "pcof_Marshal (NewProtocolConfigurationOptionsFields proto options) = Inr (?h # ?c)"
    by (simp add: pcof_Marshal_def pcof_MarshalTo_def pcof_MarshalLen_def NewProtocolConfigurationOptionsFields_def
        write_at_def)
  have "pcof_UnmarshalBinary (h # ?c) = Inr \<lparr>pco_Extension = drop_bit 7 h AND 0x01,
      pco_ConfigurationProtocol = h AND 0x07, pco_ProtocolOrContainers = options\<rparr>" for h
    using pcos.multi_enc [OF assms(2)] by (simp add: pcof_UnmarshalBinary_def byte_at_def slice_from_def slice_def)
  then have "pcof_UnmarshalBinary (?h # ?c) = Inr ((NewProtocolConfigurationOptionsFields proto options)\<lparr>pco_Extension := 1\<rparr>)"
    by (simp only: pco_head [OF assms(1)] NewProtocolConfigurationOptionsFields_def pco_fields.simps)
  then show ?thesis
    by (simp add: NewProtocolConfigurationOptions_def m ie_ProtocolConfigurationOptions_def in_bearer_context_def)
qed

lemma pco_roundtrip_witness:
  "\<exists>i. NewProtocolConfigurationOptions 0 [NewPCOContainer 0x8021 [1, 2, 3], NewPCOContainer 13 []] = Inr (Some i) \<and>
     ie_ProtocolConfigurationOptions i = Inr \<lparr>pco_Extension = 1, pco_ConfigurationProtocol = 0,
       pco_ProtocolOrContainers = [NewPCOContainer 0x8021 [1, 2, 3], NewPCOContainer 13 []]\<rparr>"
proof -
  have "\<forall>c \<in> set [NewPCOContainer 0x8021 [1, 2, 3], NewPCOContainer 13 []]. pcoc_ok c"
    by (simp add: NewPCOContainer_def pcoc_ok_def)
  from pco_roundtrip [OF _ this, of 0] show ?thesis
    by (simp add: NewProtocolConfigurationOptionsFields_def)
qed

text \<open>The decoder of the element never panics.\<close>

lemma pcof_Unmarshal_no_panic: "no_panic (pcof_UnmarshalBinary b)"
  by (cases b) (auto simp: pcof_UnmarshalBinary_def byte_at_def slice_from_def slice_def
      intro!: no_panic_andThen pcos.multi_no_panic)

section \<open>PPP packets\<close>

text \<open>
  Exactly which inputs make the decoders of PPP and its payloads panic: a PPP packet of at least
  five bytes whose length field is below four, PAP fields that end behind the peer identity, an
  IPCP option of at least three bytes whose length field is below two; CHAP never does.
\<close>

lemma ppp_panics_iff:
  "(no_panic (ppp_UnmarshalBinary b) \<longleftrightarrow> \<not> (5 \<le> length b \<and> unat (join16 (b ! 2) (b ! 3)) < 4)) \<and>
   (no_panic (pap_UnmarshalBinary b) \<longleftrightarrow> \<not> (2 \<le> length b \<and> length b = 1 + unat (b ! 0))) \<and>
   no_panic (chap_UnmarshalBinary b) \<and>
   (no_panic (ipcp_UnmarshalBinary b) \<longleftrightarrow> \<not> (3 \<le> length b \<and> unat (b ! 1) < 2))"
proof (intro conjI)
  show "no_panic (ppp_UnmarshalBinary b) \<longleftrightarrow> \<not> (5 \<le> length b \<and> unat (join16 (b ! 2) (b ! 3)) < 4)"
    by (simp add: ppp_UnmarshalBinary_def byte_at_def get16_def slice_def Let_def)
  show "no_panic (pap_UnmarshalBinary b) \<longleftrightarrow> \<not> (2 \<le> length b \<and> length b = 1 + unat (b ! 0))"
    by (cases "1 + unat (b ! 0) < length b")
       (auto simp: pap_UnmarshalBinary_def byte_at_def slice_def Let_def)
  show "no_panic (chap_UnmarshalBinary b)"
    by (simp add: chap_UnmarshalBinary_def byte_at_def slice_def slice_from_def Let_def)
  show "no_panic (ipcp_UnmarshalBinary b) \<longleftrightarrow> \<not> (3 \<le> length b \<and> unat (b ! 1) < 2)"
    by (simp add: ipcp_UnmarshalBinary_def byte_at_def slice_def Let_def)
qed

definition pap_wire :: "string \<Rightarrow> string \<Rightarrow> bytes" where
  "pap_wire pid pass = of_nat (length pid) # string_bytes pid @ of_nat (length pass) # string_bytes pass"

lemma unat_byte_length [simp]: "n < 256 \<Longrightarrow> unat (of_nat n :: byte) = n"
  by (simp add: unat_of_nat)

lemma pap_Marshal_wire:
  assumes "length pid < 256" "length pass < 256"
  shows "pap_Marshal (NewPAPFields pid pass) = Inr (pap_wire pid pass)"
  using assms
  by (simp add: pap_Marshal_def pap_MarshalTo_def pap_MarshalLen_def NewPAPFields_def write_at_def copy_at_def
      pap_wire_def Let_def replicate_add)

lemma pap_Unmarshal_wire:
  assumes "length pid < 256" "length pass < 256"
  shows "pap_UnmarshalBinary (pap_wire pid pass) = Inr (NewPAPFields pid pass)"
  using assms
  by (simp add: pap_UnmarshalBinary_def pap_wire_def byte_at_def slice_def nth_append NewPAPFields_def Let_def)

lemma chap_Marshal_wire:
  assumes "length v < 256" "v \<noteq> [] \<or> name \<noteq> []"
  shows "chap_Marshal (NewCHAPFields v name) = Inr (of_nat (length v) # v @ string_bytes name)"
proof -
  have "length v + length name > 0" using assms(2) by auto
  with assms(1) show ?thesis
    by (simp add: chap_Marshal_def chap_MarshalTo_def chap_MarshalLen_def NewCHAPFields_def write_at_def copy_at_def
        Let_def replicate_add)
qed

lemma chap_Unmarshal_wire:
  assumes "length v < 256" "v \<noteq> [] \<or> name \<noteq> []"
  shows "chap_UnmarshalBinary (of_nat (length v) # v @ string_bytes name) = Inr (NewCHAPFields v name)"
proof -
  have "length v + length name > 0" using assms(2) by auto
  with assms(1) show ?thesis
    by (simp add: chap_UnmarshalBinary_def byte_at_def slice_def slice_from_def NewCHAPFields_def Let_def)
qed

lemma ppp_codec:
  assumes "payload \<noteq> []" "length payload < 65532"
  shows "\<exists>b. ppp_Marshal (NewPCOPPP code pid payload) = Inr b \<and> ppp_UnmarshalBinary b = Inr (NewPCOPPP code pid payload)"
proof -
  let ?n = "of_nat (4 + length payload) :: u16"
  have "0 < length payload" using assms(1) by simp
  then have "ppp_Marshal (NewPCOPPP code pid payload) = Inr ([code, pid] @ be16 ?n @ payload)"
    by (simp add: ppp_Marshal_def ppp_MarshalTo_def ppp_MarshalLen_def NewPCOPPP_def write_at_def copy_at_def be16_def
        numeral_eq_Suc)
  moreover have "unat ?n = 4 + length payload" using assms(2) by (subst unat_of_nat_u16) simp_all
  then have "ppp_UnmarshalBinary ([code, pid] @ be16 ?n @ payload) = Inr (NewPCOPPP code pid payload)"
    using \<open>0 < length payload\<close> join16_be16 [of ?n]
    by (simp add: ppp_UnmarshalBinary_def byte_at_def get16_def be16_def slice_def NewPCOPPP_def Let_def)
  ultimately show ?thesis by blast
qed

text \<open>
  Authentication in PPP: a PAP request with a peer identity and a password of up to 255 bytes, and
  a CHAP packet with a value of up to 255 bytes that is not wholly empty, are packed into a PPP
  packet, and from its bytes the packet and then the credentials are read back.
\<close>

lemma ppp_roundtrip:
  assumes "length pid < 256" "length pass < 256"
    and "length v < 256" "v \<noteq> [] \<or> name \<noteq> []" "length name < 65000"
  shows "(\<exists>p b. NewPCOPPPWithPAP n pid pass = Inr (Some p) \<and> ppp_Marshal p = Inr b \<and>
      ppp_UnmarshalBinary b = Inr p \<and> pap_UnmarshalBinary (ppp_Payload p) = Inr (NewPAPFields pid pass)) \<and>
    (\<exists>p b. NewPCOPPPWithCHAP n v name = Inr (Some p) \<and> ppp_Marshal p = Inr b \<and>
      ppp_UnmarshalBinary b = Inr p \<and> chap_UnmarshalBinary (ppp_Payload p) = Inr (NewCHAPFields v name))"
proof
  have "ppp_Payload (NewPCOPPP c i b) = b" for c i b by (simp add: NewPCOPPP_def)
  note [simp] = this
  have "pap_wire pid pass \<noteq> []" "length (pap_wire pid pass) < 65532"
    using assms(1,2) by (simp_all add: pap_wire_def)
  from ppp_codec [OF this, of 1 n]
  show "\<exists>p b. NewPCOPPPWithPAP n pid pass = Inr (Some p) \<and> ppp_Marshal p = Inr b \<and>
      ppp_UnmarshalBinary b = Inr p \<and> pap_UnmarshalBinary (ppp_Payload p) = Inr (NewPAPFields pid pass)"
    using assms(1,2) by (auto simp: NewPCOPPPWithPAP_def ppp_or_nil_def pap_Marshal_wire pap_Unmarshal_wire)
  show "\<exists>p b. NewPCOPPPWithCHAP n v name = Inr (Some p) \<and> ppp_Marshal p = Inr b \<and>
      ppp_UnmarshalBinary b = Inr p \<and> chap_UnmarshalBinary (ppp_Payload p) = Inr (NewCHAPFields v name)"
    using ppp_codec [of "of_nat (length v) # v @ string_bytes name" 1 n] assms(3,4,5)
    by (auto simp: NewPCOPPPWithCHAP_def ppp_or_nil_def chap_Marshal_wire chap_Unmarshal_wire)
qed

lemma ppp_roundtrip_witness:
  "(\<exists>p b. NewPCOPPPWithPAP 7 ''user'' ''secret'' = Inr (Some p) \<and> ppp_Marshal p = Inr b \<and>
      ppp_UnmarshalBinary b = Inr p \<and> pap_UnmarshalBinary (ppp_Payload p) = Inr (NewPAPFields ''user'' ''secret'')) \<and>
   (\<exists>p b. NewPCOPPPWithCHAP 7 [1, 2, 3] ''user'' = Inr (Some p) \<and> ppp_Marshal p = Inr b \<and>
      ppp_UnmarshalBinary b = Inr p \<and> chap_UnmarshalBinary (ppp_Payload p) = Inr (NewCHAPFields [1, 2, 3] ''user''))"
  by (rule ppp_roundtrip) simp_all

text \<open>An IPCP option round trips when its payload is neither empty nor too long for the length octet.\<close>

lemma ipcp_roundtrip:
  assumes "payload \<noteq> []" "length payload < 254"
  shows "\<exists>b. ipcp_Marshal (NewIPCPOption t payload) = Inr b \<and> ipcp_UnmarshalBinary b = Inr (NewIPCPOption t payload)"
proof -
  let ?n = "of_nat (2 + length payload) :: byte"
  have "0 < length payload" using assms(1) by simp
  then have "ipcp_Marshal (NewIPCPOption t payload) = Inr ([t, ?n] @ payload)"
    by (simp add: ipcp_Marshal_def ipcp_MarshalTo_def ipcp_MarshalLen_def NewIPCPOption_def write_at_def copy_at_def
        numeral_eq_Suc)
  moreover have "unat ?n = 2 + length payload" using assms(2) by (subst unat_byte_length) simp_all
  then have "ipcp_UnmarshalBinary ([t, ?n] @ payload) = Inr (NewIPCPOption t payload)"
    using \<open>0 < length payload\<close> by (simp add: ipcp_UnmarshalBinary_def byte_at_def slice_def NewIPCPOption_def Let_def)
  ultimately show ?thesis by blast
qed

text \<open>A PPP packet or an IPCP option without payload is not encoded.\<close>

lemma empty_payload_refused:
  "ppp_Marshal (NewPCOPPP code pid []) = eof" "ipcp_Marshal (NewIPCPOption t []) = eof"
  by (simp_all add: ppp_Marshal_def ppp_MarshalTo_def ppp_MarshalLen_def NewPCOPPP_def
      ipcp_Marshal_def ipcp_MarshalTo_def ipcp_MarshalLen_def NewIPCPOption_def)

end
