(* ===== verification/V2IEFlags.thy ===== *)
theory V2IEFlags
  imports V2IEValues
begin

text \<open>
  The elements of GTPv2 that are sets of flags: Indication with its 72 bits (\<open>indication.go\<close>), Bearer
  Flags, MBMS Flags and Node Features (the files named after them). A getter is \<open>True\<close> when the
  element has the type, is long enough and has the bit. The theorem on Indication says that every
  getter reads the bit its constructor argument sets, and that the two constructors agree.
\<close>

section \<open>Indication\<close>

text \<open>An octet from its eight arguments, the most significant one first; each is to be 0 or 1.\<close>

definition flag_octet :: "byte \<Rightarrow> byte \<Rightarrow> byte \<Rightarrow> byte \<Rightarrow> byte \<Rightarrow> byte \<Rightarrow> byte \<Rightarrow> byte \<Rightarrow> byte" where
  "flag_octet h g f e d c b a =
     a OR push_bit 1 b OR push_bit 2 c OR push_bit 3 d OR push_bit 4 e OR push_bit 5 f OR push_bit 6 g OR push_bit 7 h"

definition NewIndication ::
  "byte \<Rightarrow> byte \<Rightarrow> byte \<Rightarrow> byte \<Rightarrow> byte \<Rightarrow>
   byte \<Rightarrow> byte \<Rightarrow> byte \<Rightarrow> byte \<Rightarrow> byte \<Rightarrow>
   byte \<Rightarrow> byte \<Rightarrow> byte \<Rightarrow> byte \<Rightarrow> byte \<Rightarrow>
   byte \<Rightarrow> byte \<Rightarrow> byte \<Rightarrow> byte \<Rightarrow> byte \<Rightarrow>
   byte \<Rightarrow> byte \<Rightarrow> byte \<Rightarrow> byte \<Rightarrow> byte \<Rightarrow>
   byte \<Rightarrow> byte \<Rightarrow> byte \<Rightarrow> byte \<Rightarrow> byte \<Rightarrow>
   byte \<Rightarrow> byte \<Rightarrow> byte \<Rightarrow> byte \<Rightarrow> byte \<Rightarrow>
   byte \<Rightarrow> byte \<Rightarrow> byte \<Rightarrow> byte \<Rightarrow> byte \<Rightarrow>
   byte \<Rightarrow> byte \<Rightarrow> byte \<Rightarrow> byte \<Rightarrow> byte \<Rightarrow>
   byte \<Rightarrow> byte \<Rightarrow> byte \<Rightarrow> byte \<Rightarrow> byte \<Rightarrow>
   byte \<Rightarrow> byte \<Rightarrow> byte \<Rightarrow> byte \<Rightarrow> byte \<Rightarrow>
   byte \<Rightarrow> byte \<Rightarrow> byte \<Rightarrow> byte \<Rightarrow> byte \<Rightarrow>
   byte \<Rightarrow> byte \<Rightarrow> byte \<Rightarrow> byte \<Rightarrow> byte \<Rightarrow>
   byte \<Rightarrow> byte \<Rightarrow> byte \<Rightarrow> byte \<Rightarrow> byte \<Rightarrow>
   byte \<Rightarrow> byte \<Rightarrow> ie" where
  "NewIndication
     daf dtf hi dfi oi isrsi israi sgwci
     sqci uimsi cfsi crsi ps pt si msv
     retLoc pbic srni s6af s4af mbmdt israu ccrsi
     cprai arrl ppoff ppon ppsi csfbi clii cpsr
     nsi uasi dtci bdwi psci pcri aosi aopi
     roaai epcosi cpopci pmtmsi s11tf pnsi unaccsi wpmsi
     fgsnn26 reprefi fgsiwk eevrsi ltemui ltempi enbcrsi tspcmi
     csrmfi mtedtn mtedta n5gnmi fgcnrs fgcnri fsrhoi ethpdn
     sp98 sp97 sp96 sp95 sp94 sp93 sp92 emci =
   ie_New IE_Indication 0x00
     [flag_octet daf dtf hi dfi oi isrsi israi sgwci,
      flag_octet sqci uimsi cfsi crsi ps pt si msv,
      flag_octet retLoc pbic srni s6af s4af mbmdt israu ccrsi,
      flag_octet cprai arrl ppoff ppon ppsi csfbi clii cpsr,
      flag_octet nsi uasi dtci bdwi psci pcri aosi aopi,
      flag_octet roaai epcosi cpopci pmtmsi s11tf pnsi unaccsi wpmsi,
      flag_octet fgsnn26 reprefi fgsiwk eevrsi ltemui ltempi enbcrsi tspcmi,
      flag_octet csrmfi mtedtn mtedta n5gnmi fgcnrs fgcnri fsrhoi ethpdn,
      flag_octet sp98 sp97 sp96 sp95 sp94 sp93 sp92 emci]"

text \<open>
  The characters of a bit sequence go from the most significant bit of the first octet on. Every
  digit but 0 sets the bit, anything else gives nil.
\<close>

definition Atoi_digit :: "char \<Rightarrow> nat option" where
  "Atoi_digit r = (if dec_digit r then Some (char_code r - 48) else None)"

fun set_bits :: "nat \<Rightarrow> string \<Rightarrow> bytes \<Rightarrow> bytes option" where
  "set_bits i [] p = Some p"
| "set_bits i (r # rs) p =
     (case Atoi_digit r of
        None \<Rightarrow> None
      | Some n \<Rightarrow>
          let n = (if n > 1 then 1 else n) in
          set_bits (i + 1) rs (p[i div 8 := (p ! (i div 8)) OR of_nat (push_bit (8 * (i div 8 + 1) - i - 1) n)]))"

definition NewIndicationFromBitSequence :: "string \<Rightarrow> ie option" where
  "NewIndicationFromBitSequence bitSequence =
     (if length bitSequence \<noteq> 72 then None
      else map_option (ie_New IE_Indication 0x00) (set_bits 0 bitSequence (replicate 9 0)))"

definition NewIndicationFromOctets :: "bytes \<Rightarrow> ie" where
  "NewIndicationFromOctets octs =
     ie_SetLength (case ie_New IE_Indication 0x00 [] of IE t len ins p cs \<Rightarrow> IE t len ins (p @ take 9 octs) cs)"

definition ie_Indication :: "ie \<Rightarrow> bytes result" where
  "ie_Indication i = (if ie_Type i \<noteq> IE_Indication then wrong_type i else Inr (ie_Payload i))"

text \<open>What all getters do: octet \<open>k\<close>, when there is one, and a bit of it.\<close>

definition indication_flag :: "nat \<Rightarrow> (byte \<Rightarrow> bool) \<Rightarrow> ie \<Rightarrow> bool result" where
  "indication_flag k has i = (case ie_Indication i of
     Inl (Error e) \<Rightarrow> Inr False
   | Inl (Panic p) \<Rightarrow> Inl (Panic p)
   | Inr v \<Rightarrow> if length v < k + 1 then Inr False else andThen (byte_at v k) (\<lambda>b. Inr (has b)))"

definition HasSGWCI :: "ie \<Rightarrow> bool result" where "HasSGWCI = indication_flag 0 has1stBit"
definition HasISRAI :: "ie \<Rightarrow> bool result" where "HasISRAI = indication_flag 0 has2ndBit"
definition HasISRSI :: "ie \<Rightarrow> bool result" where "HasISRSI = indication_flag 0 has3rdBit"
definition HasOI :: "ie \<Rightarrow> bool result" where "HasOI = indication_flag 0 has4thBit"
definition HasDFI :: "ie \<Rightarrow> bool result" where "HasDFI = indication_flag 0 has5thBit"
definition HasHI :: "ie \<Rightarrow> bool result" where "HasHI = indication_flag 0 has6thBit"
definition HasDTF :: "ie \<Rightarrow> bool result" where "HasDTF = indication_flag 0 has7thBit"
definition HasDAF :: "ie \<Rightarrow> bool result" where "HasDAF = indication_flag 0 has8thBit"
definition HasMSV :: "ie \<Rightarrow> bool result" where "HasMSV = indication_flag 1 has1stBit"
definition HasSI :: "ie \<Rightarrow> bool result" where "HasSI = indication_flag 1 has2ndBit"
definition HasPT :: "ie \<Rightarrow> bool result" where "HasPT = indication_flag 1 has3rdBit"
definition HasPS :: "ie \<Rightarrow> bool result" where "HasPS = indication_flag 1 has4thBit"
definition HasCRSI :: "ie \<Rightarrow> bool result" where "HasCRSI = indication_flag 1 has5thBit"
definition HasCFSI :: "ie \<Rightarrow> bool result" where "HasCFSI = indication_flag 1 has6thBit"
definition HasUIMSI :: "ie \<Rightarrow> bool result" where "HasUIMSI = indication_flag 1 has7thBit"
definition HasSQCI :: "ie \<Rightarrow> bool result" where "HasSQCI = indication_flag 1 has8thBit"
definition HasCCRSI :: "ie \<Rightarrow> bool result" where "HasCCRSI = indication_flag 2 has1stBit"
definition HasISRAU :: "ie \<Rightarrow> bool result" where "HasISRAU = indication_flag 2 has2ndBit"
definition HasMBMDT :: "ie \<Rightarrow> bool result" where "HasMBMDT = indication_flag 2 has3rdBit"
definition HasS4AF :: "ie \<Rightarrow> bool result" where "HasS4AF = indication_flag 2 has4thBit"
definition HasS6AF :: "ie \<Rightarrow> bool result" where "HasS6AF = indication_flag 2 has5thBit"
definition HasSRNI :: "ie \<Rightarrow> bool result" where "HasSRNI = indication_flag 2 has6thBit"
definition HasPBIC :: "ie \<Rightarrow> bool result" where "HasPBIC = indication_flag 2 has7thBit"
definition HasRETLOC :: "ie \<Rightarrow> bool result" where "HasRETLOC = indication_flag 2 has8thBit"
definition HasCPSR :: "ie \<Rightarrow> bool result" where "HasCPSR = indication_flag 3 has1stBit"
definition HasCLII :: "ie \<Rightarrow> bool result" where "HasCLII = indication_flag 3 has2ndBit"
definition HasCSFBI :: "ie \<Rightarrow> bool result" where "HasCSFBI = indication_flag 3 has3rdBit"
definition HasPPSI :: "ie \<Rightarrow> bool result" where "HasPPSI = indication_flag 3 has4thBit"
definition HasPPON :: "ie \<Rightarrow> bool result" where "HasPPON = indication_flag 3 has5thBit"
definition HasPPOF :: "ie \<Rightarrow> bool result" where "HasPPOF = indication_flag 3 has6thBit"
definition HasARRL :: "ie \<Rightarrow> bool result" where "HasARRL = indication_flag 3 has7thBit"
definition HasCPRAI :: "ie \<Rightarrow> bool result" where "HasCPRAI = indication_flag 3 has8thBit"
definition HasAOPI :: "ie \<Rightarrow> bool result" where "HasAOPI = indication_flag 4 has1stBit"
definition HasAOSI :: "ie \<Rightarrow> bool result" where "HasAOSI = indication_flag 4 has2ndBit"
definition HasPCRI :: "ie \<Rightarrow> bool result" where "HasPCRI = indication_flag 4 has3rdBit"
definition HasPSCI :: "ie \<Rightarrow> bool result" where "HasPSCI = indication_flag 4 has4thBit"
definition HasBDWI :: "ie \<Rightarrow> bool result" where "HasBDWI = indication_flag 4 has5thBit"
definition HasDTCI :: "ie \<Rightarrow> bool result" where "HasDTCI = indication_flag 4 has6thBit"
definition HasUACI :: "ie \<Rightarrow> bool result" where "HasUACI = indication_flag 4 has7thBit"
definition HasNSI :: "ie \<Rightarrow> bool result" where "HasNSI = indication_flag 4 has8thBit"
definition HasWPMSI :: "ie \<Rightarrow> bool result" where "HasWPMSI = indication_flag 5 has1stBit"
definition HasUNACCSI :: "ie \<Rightarrow> bool result" where "HasUNACCSI = indication_flag 5 has2ndBit"
definition HasPNSI :: "ie \<Rightarrow> bool result" where "HasPNSI = indication_flag 5 has3rdBit"
definition HasS11TF :: "ie \<Rightarrow> bool result" where "HasS11TF = indication_flag 5 has4thBit"
definition HasPMTMSI :: "ie \<Rightarrow> bool result" where "HasPMTMSI = indication_flag 5 has5thBit"
definition HasCPOPCI :: "ie \<Rightarrow> bool result" where "HasCPOPCI = indication_flag 5 has6thBit"
definition HasEPCOSI :: "ie \<Rightarrow> bool result" where "HasEPCOSI = indication_flag 5 has7thBit"
definition HasROAAI :: "ie \<Rightarrow> bool result" where "HasROAAI = indication_flag 5 has8thBit"
definition HasTSPCMI :: "ie \<Rightarrow> bool result" where "HasTSPCMI = indication_flag 6 has1stBit"
definition HasENBCRSI :: "ie \<Rightarrow> bool result" where "HasENBCRSI = indication_flag 6 has2ndBit"
definition HasLTEMPI :: "ie \<Rightarrow> bool result" where "HasLTEMPI = indication_flag 6 has3rdBit"
definition HasLTEMUI :: "ie \<Rightarrow> bool result" where "HasLTEMUI = indication_flag 6 has4thBit"
definition HasEEVRSI :: "ie \<Rightarrow> bool result" where "HasEEVRSI = indication_flag 6 has5thBit"
definition Has5GSIWK :: "ie \<Rightarrow> bool result" where "Has5GSIWK = indication_flag 6 has6thBit"
definition HasREPREFI :: "ie \<Rightarrow> bool result" where "HasREPREFI = indication_flag 6 has7thBit"
definition Has5GSNN26 :: "ie \<Rightarrow> bool result" where "Has5GSNN26 = indication_flag 6 has8thBit"
definition HasETHPDN :: "ie \<Rightarrow> bool result" where "HasETHPDN = indication_flag 7 has1stBit"
definition Has5SRHOI :: "ie \<Rightarrow> bool result" where "Has5SRHOI = indication_flag 7 has2ndBit"
definition Has5GCNRI :: "ie \<Rightarrow> bool result" where "Has5GCNRI = indication_flag 7 has3rdBit"
definition Has5GCNRS :: "ie \<Rightarrow> bool result" where "Has5GCNRS = indication_flag 7 has4thBit"
definition HasN5GNMI :: "ie \<Rightarrow> bool result" where "HasN5GNMI = indication_flag 7 has5thBit"
definition HasMTEDTA :: "ie \<Rightarrow> bool result" where "HasMTEDTA = indication_flag 7 has6thBit"
definition HasMTEDTN :: "ie \<Rightarrow> bool result" where "HasMTEDTN = indication_flag 7 has7thBit"
definition HasCSRMFI :: "ie \<Rightarrow> bool result" where "HasCSRMFI = indication_flag 7 has8thBit"
definition HasEMCI :: "ie \<Rightarrow> bool result" where "HasEMCI = indication_flag 8 has1stBit"

text \<open>The getters in the order of the bits; seven bits of the last octet have none.\<close>

abbreviation indication_getters :: "(ie \<Rightarrow> bool result) list" where
  "indication_getters \<equiv>
    [HasDAF, HasDTF, HasHI, HasDFI, HasOI, HasISRSI, HasISRAI, HasSGWCI, HasSQCI, HasUIMSI,
      HasCFSI, HasCRSI, HasPS, HasPT, HasSI, HasMSV, HasRETLOC, HasPBIC, HasSRNI, HasS6AF, HasS4AF,
      HasMBMDT, HasISRAU, HasCCRSI, HasCPRAI, HasARRL, HasPPOF, HasPPON, HasPPSI, HasCSFBI,
      HasCLII, HasCPSR, HasNSI, HasUACI, HasDTCI, HasBDWI, HasPSCI, HasPCRI, HasAOSI, HasAOPI,
      HasROAAI, HasEPCOSI, HasCPOPCI, HasPMTMSI, HasS11TF, HasPNSI, HasUNACCSI, HasWPMSI,
      Has5GSNN26, HasREPREFI, Has5GSIWK, HasEEVRSI, HasLTEMUI, HasLTEMPI, HasENBCRSI, HasTSPCMI,
      HasCSRMFI, HasMTEDTN, HasMTEDTA, HasN5GNMI, Has5GCNRS, Has5GCNRI, Has5SRHOI, HasETHPDN,
      HasEMCI]"

definition bit_char :: "bool \<Rightarrow> char" where
  "bit_char b = (if b then CHR ''1'' else CHR ''0'')"

lemma Atoi_bit_char [simp]: "Atoi_digit (bit_char b) = Some (of_bool b)"
  by (simp add: bit_char_def Atoi_digit_def dec_digit_def char_code_def)

lemma indication_flags:
  "indication_flag 0 has (ie_New IE_Indication 0x00 [o0, o1, o2, o3, o4, o5, o6, o7, o8]) = Inr (has o0)"
  "indication_flag 1 has (ie_New IE_Indication 0x00 [o0, o1, o2, o3, o4, o5, o6, o7, o8]) = Inr (has o1)"
  "indication_flag 2 has (ie_New IE_Indication 0x00 [o0, o1, o2, o3, o4, o5, o6, o7, o8]) = Inr (has o2)"
  "indication_flag 3 has (ie_New IE_Indication 0x00 [o0, o1, o2, o3, o4, o5, o6, o7, o8]) = Inr (has o3)"
  "indication_flag 4 has (ie_New IE_Indication 0x00 [o0, o1, o2, o3, o4, o5, o6, o7, o8]) = Inr (has o4)"
  "indication_flag 5 has (ie_New IE_Indication 0x00 [o0, o1, o2, o3, o4, o5, o6, o7, o8]) = Inr (has o5)"
  "indication_flag 6 has (ie_New IE_Indication 0x00 [o0, o1, o2, o3, o4, o5, o6, o7, o8]) = Inr (has o6)"
  "indication_flag 7 has (ie_New IE_Indication 0x00 [o0, o1, o2, o3, o4, o5, o6, o7, o8]) = Inr (has o7)"
  "indication_flag 8 has (ie_New IE_Indication 0x00 [o0, o1, o2, o3, o4, o5, o6, o7, o8]) = Inr (has o8)"
  by (simp_all add: indication_flag_def ie_Indication_def byte_at_def)

lemma flag_octet_bits:
  fixes a b c d e f g h
  defines "x \<equiv> flag_octet (of_bool h) (of_bool g) (of_bool f) (of_bool e) (of_bool d) (of_bool c) (of_bool b) (of_bool a)"
  shows "bit x 0 = a" "bit x 1 = b" "bit x 2 = c" "bit x 3 = d" "bit x 4 = e" "bit x 5 = f" "bit x 6 = g" "bit x 7 = h"
  by (simp_all add: x_def flag_octet_def bit_simps)

lemmas getter_defs =
  HasSGWCI_def HasISRAI_def HasISRSI_def HasOI_def HasDFI_def HasHI_def HasDTF_def HasDAF_def
  HasMSV_def HasSI_def HasPT_def HasPS_def HasCRSI_def HasCFSI_def HasUIMSI_def HasSQCI_def
  HasCCRSI_def HasISRAU_def HasMBMDT_def HasS4AF_def HasS6AF_def HasSRNI_def HasPBIC_def
  HasRETLOC_def HasCPSR_def HasCLII_def HasCSFBI_def HasPPSI_def HasPPON_def HasPPOF_def
  HasARRL_def HasCPRAI_def HasAOPI_def HasAOSI_def HasPCRI_def HasPSCI_def HasBDWI_def HasDTCI_def
  HasUACI_def HasNSI_def HasWPMSI_def HasUNACCSI_def HasPNSI_def HasS11TF_def HasPMTMSI_def
  HasCPOPCI_def HasEPCOSI_def HasROAAI_def HasTSPCMI_def HasENBCRSI_def HasLTEMPI_def HasLTEMUI_def
  HasEEVRSI_def Has5GSIWK_def HasREPREFI_def Has5GSNN26_def HasETHPDN_def Has5SRHOI_def
  Has5GCNRI_def Has5GCNRS_def HasN5GNMI_def HasMTEDTA_def HasMTEDTN_def HasCSRMFI_def HasEMCI_def

lemma set_bits_step:
  assumes "j < 8"
  shows "set_bits (8 * k + j) (bit_char x # rs) p =
     set_bits (8 * k + (j + 1)) rs (p[k := p ! k OR push_bit (7 - j) (of_bool x)])"
  using assms by (simp add: of_nat_push_bit add.assoc)

text \<open>Eight characters fill one octet, so the sequence is read octet by octet.\<close>

lemma set_bits_octet:
  assumes "k < length p" "p ! k = 0"
  shows "set_bits (8 * k) (bit_char h # bit_char g # bit_char f # bit_char e # bit_char d # bit_char c #
       bit_char b # bit_char a # rs) p =
     set_bits (8 * (k + 1)) rs
       (p[k := flag_octet (of_bool h) (of_bool g) (of_bool f) (of_bool e) (of_bool d) (of_bool c) (of_bool b) (of_bool a)])"
proof -
  have step:
    "set_bits (8 * k) (bit_char x # rs) q = set_bits (8 * k + 1) rs (q[k := q ! k OR push_bit 7 (of_bool x)])"
    "set_bits (8 * k + 1) (bit_char x # rs) q = set_bits (8 * k + 2) rs (q[k := q ! k OR push_bit 6 (of_bool x)])"
    "set_bits (8 * k + 2) (bit_char x # rs) q = set_bits (8 * k + 3) rs (q[k := q ! k OR push_bit 5 (of_bool x)])"
    "set_bits (8 * k + 3) (bit_char x # rs) q = set_bits (8 * k + 4) rs (q[k := q ! k OR push_bit 4 (of_bool x)])"
    "set_bits (8 * k + 4) (bit_char x # rs) q = set_bits (8 * k + 5) rs (q[k := q ! k OR push_bit 3 (of_bool x)])"
    "set_bits (8 * k + 5) (bit_char x # rs) q = set_bits (8 * k + 6) rs (q[k := q ! k OR push_bit 2 (of_bool x)])"
    "set_bits (8 * k + 6) (bit_char x # rs) q = set_bits (8 * k + 7) rs (q[k := q ! k OR push_bit 1 (of_bool x)])"
    "set_bits (8 * k + 7) (bit_char x # rs) q = set_bits (8 * k + 8) rs (q[k := q ! k OR push_bit 0 (of_bool x)])"
    for x rs q
    using set_bits_step [of 0 k x rs q] set_bits_step [of 1 k x rs q] set_bits_step [of 2 k x rs q] set_bits_step [of 3 k x rs q]
      set_bits_step [of 4 k x rs q] set_bits_step [of 5 k x rs q] set_bits_step [of 6 k x rs q] set_bits_step [of 7 k x rs q]
    by (simp_all del: set_bits.simps)
  have "set_bits (8 * k) (bit_char h # bit_char g # bit_char f # bit_char e # bit_char d # bit_char c #
       bit_char b # bit_char a # rs) p = set_bits (8 * k + 8) rs
       (p[k := ((((((((0 :: byte) OR push_bit 7 (of_bool h)) OR push_bit 6 (of_bool g)) OR push_bit 5 (of_bool f))
          OR push_bit 4 (of_bool e)) OR push_bit 3 (of_bool d)) OR push_bit 2 (of_bool c)) OR push_bit 1 (of_bool b))
          OR push_bit 0 (of_bool a)])"
    by (simp only: step assms(2) list_update_overwrite length_list_update nth_list_update_eq assms(1))
  then show ?thesis by (simp add: flag_octet_def ac_simps del: set_bits.simps)
qed

lemma set_bits_octets:
  shows "set_bits 0 (bit_char h # bit_char g # bit_char f # bit_char e # bit_char d # bit_char c # bit_char b # bit_char a # rs)
       [0, 0, 0, 0, 0, 0, 0, 0, 0] = set_bits 8 rs
     [flag_octet (of_bool h) (of_bool g) (of_bool f) (of_bool e) (of_bool d) (of_bool c) (of_bool b) (of_bool a), 0, 0, 0, 0, 0, 0, 0, 0]"
    and "set_bits 8 (bit_char h # bit_char g # bit_char f # bit_char e # bit_char d # bit_char c # bit_char b # bit_char a # rs)
       [o0, 0, 0, 0, 0, 0, 0, 0, 0] = set_bits 16 rs
     [o0, flag_octet (of_bool h) (of_bool g) (of_bool f) (of_bool e) (of_bool d) (of_bool c) (of_bool b) (of_bool a), 0, 0, 0, 0, 0, 0, 0]"
    and "set_bits 16 (bit_char h # bit_char g # bit_char f # bit_char e # bit_char d # bit_char c # bit_char b # bit_char a # rs)
       [o0, o1, 0, 0, 0, 0, 0, 0, 0] = set_bits 24 rs
     [o0, o1, flag_octet (of_bool h) (of_bool g) (of_bool f) (of_bool e) (of_bool d) (of_bool c) (of_bool b) (of_bool a), 0, 0, 0, 0, 0, 0]"
    and "set_bits 24 (bit_char h # bit_char g # bit_char f # bit_char e # bit_char d # bit_char c # bit_char b # bit_char a # rs)
       [o0, o1, o2, 0, 0, 0, 0, 0, 0] = set_bits 32 rs
     [o0, o1, o2, flag_octet (of_bool h) (of_bool g) (of_bool f) (of_bool e) (of_bool d) (of_bool c) (of_bool b) (of_bool a), 0, 0, 0, 0, 0]"
    and "set_bits 32 (bit_char h # bit_char g # bit_char f # bit_char e # bit_char d # bit_char c # bit_char b # bit_char a # rs)
       [o0, o1, o2, o3, 0, 0, 0, 0, 0] = set_bits 40 rs
     [o0, o1, o2, o3, flag_octet (of_bool h) (of_bool g) (of_bool f) (of_bool e) (of_bool d) (of_bool c) (of_bool b) (of_bool a), 0, 0, 0, 0]"
    and "set_bits 40 (bit_char h # bit_char g # bit_char f # bit_char e # bit_char d # bit_char c # bit_char b # bit_char a # rs)
       [o0, o1, o2, o3, o4, 0, 0, 0, 0] = set_bits 48 rs
     [o0, o1, o2, o3, o4, flag_octet (of_bool h) (of_bool g) (of_bool f) (of_bool e) (of_bool d) (of_bool c) (of_bool b) (of_bool a), 0, 0, 0]"
    and "set_bits 48 (bit_char h # bit_char g # bit_char f # bit_char e # bit_char d # bit_char c # bit_char b # bit_char a # rs)
       [o0, o1, o2, o3, o4, o5, 0, 0, 0] = set_bits 56 rs
     [o0, o1, o2, o3, o4, o5, flag_octet (of_bool h) (of_bool g) (of_bool f) (of_bool e) (of_bool d) (of_bool c) (of_bool b) (of_bool a), 0, 0]"
    and "set_bits 56 (bit_char h # bit_char g # bit_char f # bit_char e # bit_char d # bit_char c # bit_char b # bit_char a # rs)
       [o0, o1, o2, o3, o4, o5, o6, 0, 0] = set_bits 64 rs
     [o0, o1, o2, o3, o4, o5, o6, flag_octet (of_bool h) (of_bool g) (of_bool f) (of_bool e) (of_bool d) (of_bool c) (of_bool b) (of_bool a), 0]"
    and "set_bits 64 (bit_char h # bit_char g # bit_char f # bit_char e # bit_char d # bit_char c # bit_char b # bit_char a # rs)
       [o0, o1, o2, o3, o4, o5, o6, o7, 0] = set_bits 72 rs
     [o0, o1, o2, o3, o4, o5, o6, o7, flag_octet (of_bool h) (of_bool g) (of_bool f) (of_bool e) (of_bool d) (of_bool c) (of_bool b) (of_bool a)]"
proof -
  show "set_bits 0 (bit_char h # bit_char g # bit_char f # bit_char e # bit_char d # bit_char c # bit_char b # bit_char a # rs)
       [0, 0, 0, 0, 0, 0, 0, 0, 0] = set_bits 8 rs
     [flag_octet (of_bool h) (of_bool g) (of_bool f) (of_bool e) (of_bool d) (of_bool c) (of_bool b) (of_bool a), 0, 0, 0, 0, 0, 0, 0, 0]"
    using set_bits_octet [of 0 "[0, 0, 0, 0, 0, 0, 0, 0, 0]"] by (simp del: set_bits.simps)
  show "set_bits 8 (bit_char h # bit_char g # bit_char f # bit_char e # bit_char d # bit_char c # bit_char b # bit_char a # rs)
       [o0, 0, 0, 0, 0, 0, 0, 0, 0] = set_bits 16 rs
     [o0, flag_octet (of_bool h) (of_bool g) (of_bool f) (of_bool e) (of_bool d) (of_bool c) (of_bool b) (of_bool a), 0, 0, 0, 0, 0, 0, 0]"
    using set_bits_octet [of 1 "[o0, 0, 0, 0, 0, 0, 0, 0, 0]"] by (simp del: set_bits.simps)
  show "set_bits 16 (bit_char h # bit_char g # bit_char f # bit_char e # bit_char d # bit_char c # bit_char b # bit_char a # rs)
       [o0, o1, 0, 0, 0, 0, 0, 0, 0] = set_bits 24 rs
     [o0, o1, flag_octet (of_bool h) (of_bool g) (of_bool f) (of_bool e) (of_bool d) (of_bool c) (of_bool b) (of_bool a), 0, 0, 0, 0, 0, 0]"
    using set_bits_octet [of 2 "[o0, o1, 0, 0, 0, 0, 0, 0, 0]"] by (simp del: set_bits.simps)
  show "set_bits 24 (bit_char h # bit_char g # bit_char f # bit_char e # bit_char d # bit_char c # bit_char b # bit_char a # rs)
       [o0, o1, o2, 0, 0, 0, 0, 0, 0] = set_bits 32 rs
     [o0, o1, o2, flag_octet (of_bool h) (of_bool g) (of_bool f) (of_bool e) (of_bool d) (of_bool c) (of_bool b) (of_bool a), 0, 0, 0, 0, 0]"
    using set_bits_octet [of 3 "[o0, o1, o2, 0, 0, 0, 0, 0, 0]"] by (simp del: set_bits.simps)
  show "set_bits 32 (bit_char h # bit_char g # bit_char f # bit_char e # bit_char d # bit_char c # bit_char b # bit_char a # rs)
       [o0, o1, o2, o3, 0, 0, 0, 0, 0] = set_bits 40 rs
     [o0, o1, o2, o3, flag_octet (of_bool h) (of_bool g) (of_bool f) (of_bool e) (of_bool d) (of_bool c) (of_bool b) (of_bool a), 0, 0, 0, 0]"
    using set_bits_octet [of 4 "[o0, o1, o2, o3, 0, 0, 0, 0, 0]"] by (simp del: set_bits.simps)
  show "set_bits 40 (bit_char h # bit_char g # bit_char f # bit_char e # bit_char d # bit_char c # bit_char b # bit_char a # rs)
       [o0, o1, o2, o3, o4, 0, 0, 0, 0] = set_bits 48 rs
     [o0, o1, o2, o3, o4, flag_octet (of_bool h) (of_bool g) (of_bool f) (of_bool e) (of_bool d) (of_bool c) (of_bool b) (of_bool a), 0, 0, 0]"
    using set_bits_octet [of 5 "[o0, o1, o2, o3, o4, 0, 0, 0, 0]"] by (simp del: set_bits.simps)
  show "set_bits 48 (bit_char h # bit_char g # bit_char f # bit_char e # bit_char d # bit_char c # bit_char b # bit_char a # rs)
       [o0, o1, o2, o3, o4, o5, 0, 0, 0] = set_bits 56 rs
     [o0, o1, o2, o3, o4, o5, flag_octet (of_bool h) (of_bool g) (of_bool f) (of_bool e) (of_bool d) (of_bool c) (of_bool b) (of_bool a), 0, 0]"
    using set_bits_octet [of 6 "[o0, o1, o2, o3, o4, o5, 0, 0, 0]"] by (simp del: set_bits.simps)
  show "set_bits 56 (bit_char h # bit_char g # bit_char f # bit_char e # bit_char d # bit_char c # bit_char b # bit_char a # rs)
       [o0, o1, o2, o3, o4, o5, o6, 0, 0] = set_bits 64 rs
     [o0, o1, o2, o3, o4, o5, o6, flag_octet (of_bool h) (of_bool g) (of_bool f) (of_bool e) (of_bool d) (of_bool c) (of_bool b) (of_bool a), 0]"
    using set_bits_octet [of 7 "[o0, o1, o2, o3, o4, o5, o6, 0, 0]"] by (simp del: set_bits.simps)
  show "set_bits 64 (bit_char h # bit_char g # bit_char f # bit_char e # bit_char d # bit_char c # bit_char b # bit_char a # rs)
       [o0, o1, o2, o3, o4, o5, o6, o7, 0] = set_bits 72 rs
     [o0, o1, o2, o3, o4, o5, o6, o7, flag_octet (of_bool h) (of_bool g) (of_bool f) (of_bool e) (of_bool d) (of_bool c) (of_bool b) (of_bool a)]"
    using set_bits_octet [of 8 "[o0, o1, o2, o3, o4, o5, o6, o7, 0]"] by (simp del: set_bits.simps)
qed

text \<open>
  The 72 indication flags: every getter of an Indication element returns the flag the
  constructor was given for it, and the element made from the string of its bits, most significant
  bit of the first octet first, is the same element.
\<close>

lemma indication_roundtrip:
  "map (\<lambda>get. get (NewIndication
       (of_bool daf) (of_bool dtf) (of_bool hi) (of_bool dfi) (of_bool oi) (of_bool isrsi) (of_bool israi) (of_bool sgwci)
       (of_bool sqci) (of_bool uimsi) (of_bool cfsi) (of_bool crsi) (of_bool ps) (of_bool pt) (of_bool si) (of_bool msv)
       (of_bool retLoc) (of_bool pbic) (of_bool srni) (of_bool s6af) (of_bool s4af) (of_bool mbmdt) (of_bool israu) (of_bool ccrsi)
       (of_bool cprai) (of_bool arrl) (of_bool ppoff) (of_bool ppon) (of_bool ppsi) (of_bool csfbi) (of_bool clii) (of_bool cpsr)
       (of_bool nsi) (of_bool uasi) (of_bool dtci) (of_bool bdwi) (of_bool psci) (of_bool pcri) (of_bool aosi) (of_bool aopi)
       (of_bool roaai) (of_bool epcosi) (of_bool cpopci) (of_bool pmtmsi) (of_bool s11tf) (of_bool pnsi) (of_bool unaccsi) (of_bool wpmsi)
       (of_bool fgsnn26) (of_bool reprefi) (of_bool fgsiwk) (of_bool eevrsi) (of_bool ltemui) (of_bool ltempi) (of_bool enbcrsi) (of_bool tspcmi)
       (of_bool csrmfi) (of_bool mtedtn) (of_bool mtedta) (of_bool n5gnmi) (of_bool fgcnrs) (of_bool fgcnri) (of_bool fsrhoi) (of_bool ethpdn)
       (of_bool sp98) (of_bool sp97) (of_bool sp96) (of_bool sp95) (of_bool sp94) (of_bool sp93) (of_bool sp92) (of_bool emci))) indication_getters =
     map Inr [daf, dtf, hi, dfi, oi, isrsi, israi, sgwci, sqci, uimsi, cfsi, crsi, ps, pt, si, msv,
       retLoc, pbic, srni, s6af, s4af, mbmdt, israu, ccrsi, cprai, arrl, ppoff, ppon, ppsi, csfbi,
       clii, cpsr, nsi, uasi, dtci, bdwi, psci, pcri, aosi, aopi, roaai, epcosi, cpopci, pmtmsi,
       s11tf, pnsi, unaccsi, wpmsi, fgsnn26, reprefi, fgsiwk, eevrsi, ltemui, ltempi, enbcrsi,
       tspcmi, csrmfi, mtedtn, mtedta, n5gnmi, fgcnrs, fgcnri, fsrhoi, ethpdn, emci] \<and>
   NewIndicationFromBitSequence (map bit_char [
       daf, dtf, hi, dfi, oi, isrsi, israi, sgwci,
       sqci, uimsi, cfsi, crsi, ps, pt, si, msv,
       retLoc, pbic, srni, s6af, s4af, mbmdt, israu, ccrsi,
       cprai, arrl, ppoff, ppon, ppsi, csfbi, clii, cpsr,
       nsi, uasi, dtci, bdwi, psci, pcri, aosi, aopi,
       roaai, epcosi, cpopci, pmtmsi, s11tf, pnsi, unaccsi, wpmsi,
       fgsnn26, reprefi, fgsiwk, eevrsi, ltemui, ltempi, enbcrsi, tspcmi,
       csrmfi, mtedtn, mtedta, n5gnmi, fgcnrs, fgcnri, fsrhoi, ethpdn,
       sp98, sp97, sp96, sp95, sp94, sp93, sp92, emci]) =
     Some (NewIndication
       (of_bool daf) (of_bool dtf) (of_bool hi) (of_bool dfi) (of_bool oi) (of_bool isrsi) (of_bool israi) (of_bool sgwci)
       (of_bool sqci) (of_bool uimsi) (of_bool cfsi) (of_bool crsi) (of_bool ps) (of_bool pt) (of_bool si) (of_bool msv)
       (of_bool retLoc) (of_bool pbic) (of_bool srni) (of_bool s6af) (of_bool s4af) (of_bool mbmdt) (of_bool israu) (of_bool ccrsi)
       (of_bool cprai) (of_bool arrl) (of_bool ppoff) (of_bool ppon) (of_bool ppsi) (of_bool csfbi) (of_bool clii) (of_bool cpsr)
       (of_bool nsi) (of_bool uasi) (of_bool dtci) (of_bool bdwi) (of_bool psci) (of_bool pcri) (of_bool aosi) (of_bool aopi)
       (of_bool roaai) (of_bool epcosi) (of_bool cpopci) (of_bool pmtmsi) (of_bool s11tf) (of_bool pnsi) (of_bool unaccsi) (of_bool wpmsi)
       (of_bool fgsnn26) (of_bool reprefi) (of_bool fgsiwk) (of_bool eevrsi) (of_bool ltemui) (of_bool ltempi) (of_bool enbcrsi) (of_bool tspcmi)
       (of_bool csrmfi) (of_bool mtedtn) (of_bool mtedta) (of_bool n5gnmi) (of_bool fgcnrs) (of_bool fgcnri) (of_bool fsrhoi) (of_bool ethpdn)
       (of_bool sp98) (of_bool sp97) (of_bool sp96) (of_bool sp95) (of_bool sp94) (of_bool sp93) (of_bool sp92) (of_bool emci))"
proof
  show "map (\<lambda>get. get (NewIndication
       (of_bool daf) (of_bool dtf) (of_bool hi) (of_bool dfi) (of_bool oi) (of_bool isrsi) (of_bool israi) (of_bool sgwci)
       (of_bool sqci) (of_bool uimsi) (of_bool cfsi) (of_bool crsi) (of_bool ps) (of_bool pt) (of_bool si) (of_bool msv)
       (of_bool retLoc) (of_bool pbic) (of_bool srni) (of_bool s6af) (of_bool s4af) (of_bool mbmdt) (of_bool israu) (of_bool ccrsi)
       (of_bool cprai) (of_bool arrl) (of_bool ppoff) (of_bool ppon) (of_bool ppsi) (of_bool csfbi) (of_bool clii) (of_bool cpsr)
       (of_bool nsi) (of_bool uasi) (of_bool dtci) (of_bool bdwi) (of_bool psci) (of_bool pcri) (of_bool aosi) (of_bool aopi)
       (of_bool roaai) (of_bool epcosi) (of_bool cpopci) (of_bool pmtmsi) (of_bool s11tf) (of_bool pnsi) (of_bool unaccsi) (of_bool wpmsi)
       (of_bool fgsnn26) (of_bool reprefi) (of_bool fgsiwk) (of_bool eevrsi) (of_bool ltemui) (of_bool ltempi) (of_bool enbcrsi) (of_bool tspcmi)
       (of_bool csrmfi) (of_bool mtedtn) (of_bool mtedta) (of_bool n5gnmi) (of_bool fgcnrs) (of_bool fgcnri) (of_bool fsrhoi) (of_bool ethpdn)
       (of_bool sp98) (of_bool sp97) (of_bool sp96) (of_bool sp95) (of_bool sp94) (of_bool sp93) (of_bool sp92) (of_bool emci))) indication_getters =
     map Inr [daf, dtf, hi, dfi, oi, isrsi, israi, sgwci, sqci, uimsi, cfsi, crsi, ps, pt, si, msv,
       retLoc, pbic, srni, s6af, s4af, mbmdt, israu, ccrsi, cprai, arrl, ppoff, ppon, ppsi, csfbi,
       clii, cpsr, nsi, uasi, dtci, bdwi, psci, pcri, aosi, aopi, roaai, epcosi, cpopci, pmtmsi,
       s11tf, pnsi, unaccsi, wpmsi, fgsnn26, reprefi, fgsiwk, eevrsi, ltemui, ltempi, enbcrsi,
       tspcmi, csrmfi, mtedtn, mtedta, n5gnmi, fgcnrs, fgcnri, fsrhoi, ethpdn, emci]"
    by (simp only: list.map NewIndication_def getter_defs indication_flags bit_tests flag_octet_bits)
  have len: "length (map bit_char [
       daf, dtf, hi, dfi, oi, isrsi, israi, sgwci,
       sqci, uimsi, cfsi, crsi, ps, pt, si, msv,
       retLoc, pbic, srni, s6af, s4af, mbmdt, israu, ccrsi,
       cprai, arrl, ppoff, ppon, ppsi, csfbi, clii, cpsr,
       nsi, uasi, dtci, bdwi, psci, pcri, aosi, aopi,
       roaai, epcosi, cpopci, pmtmsi, s11tf, pnsi, unaccsi, wpmsi,
       fgsnn26, reprefi, fgsiwk, eevrsi, ltemui, ltempi, enbcrsi, tspcmi,
       csrmfi, mtedtn, mtedta, n5gnmi, fgcnrs, fgcnri, fsrhoi, ethpdn,
       sp98, sp97, sp96, sp95, sp94, sp93, sp92, emci]) = 72"
    by simp
  have zeros: "replicate 9 (0 :: byte) = [0, 0, 0, 0, 0, 0, 0, 0, 0]" by (simp add: numeral_eq_Suc)
  show "NewIndicationFromBitSequence (map bit_char [
       daf, dtf, hi, dfi, oi, isrsi, israi, sgwci,
       sqci, uimsi, cfsi, crsi, ps, pt, si, msv,
       retLoc, pbic, srni, s6af, s4af, mbmdt, israu, ccrsi,
       cprai, arrl, ppoff, ppon, ppsi, csfbi, clii, cpsr,
       nsi, uasi, dtci, bdwi, psci, pcri, aosi, aopi,
       roaai, epcosi, cpopci, pmtmsi, s11tf, pnsi, unaccsi, wpmsi,
       fgsnn26, reprefi, fgsiwk, eevrsi, ltemui, ltempi, enbcrsi, tspcmi,
       csrmfi, mtedtn, mtedta, n5gnmi, fgcnrs, fgcnri, fsrhoi, ethpdn,
       sp98, sp97, sp96, sp95, sp94, sp93, sp92, emci]) =
     Some (NewIndication
       (of_bool daf) (of_bool dtf) (of_bool hi) (of_bool dfi) (of_bool oi) (of_bool isrsi) (of_bool israi) (of_bool sgwci)
       (of_bool sqci) (of_bool uimsi) (of_bool cfsi) (of_bool crsi) (of_bool ps) (of_bool pt) (of_bool si) (of_bool msv)
       (of_bool retLoc) (of_bool pbic) (of_bool srni) (of_bool s6af) (of_bool s4af) (of_bool mbmdt) (of_bool israu) (of_bool ccrsi)
       (of_bool cprai) (of_bool arrl) (of_bool ppoff) (of_bool ppon) (of_bool ppsi) (of_bool csfbi) (of_bool clii) (of_bool cpsr)
       (of_bool nsi) (of_bool uasi) (of_bool dtci) (of_bool bdwi) (of_bool psci) (of_bool pcri) (of_bool aosi) (of_bool aopi)
       (of_bool roaai) (of_bool epcosi) (of_bool cpopci) (of_bool pmtmsi) (of_bool s11tf) (of_bool pnsi) (of_bool unaccsi) (of_bool wpmsi)
       (of_bool fgsnn26) (of_bool reprefi) (of_bool fgsiwk) (of_bool eevrsi) (of_bool ltemui) (of_bool ltempi) (of_bool enbcrsi) (of_bool tspcmi)
       (of_bool csrmfi) (of_bool mtedtn) (of_bool mtedta) (of_bool n5gnmi) (of_bool fgcnrs) (of_bool fgcnri) (of_bool fsrhoi) (of_bool ethpdn)
       (of_bool sp98) (of_bool sp97) (of_bool sp96) (of_bool sp95) (of_bool sp94) (of_bool sp93) (of_bool sp92) (of_bool emci))"
    by (simp only: NewIndicationFromBitSequence_def NewIndication_def len simp_thms if_False zeros)
      (simp only: list.map set_bits_octets set_bits.simps(1) option.map)
qed

text \<open>
  No getter panics, whatever the element, and the constructor from octets keeps the first nine.
\<close>

lemma indication_getters_total:
  "\<forall>get \<in> set indication_getters. \<exists>v. get i = Inr v"
proof -
  have "\<exists>v. indication_flag k has i = Inr v" for k has
    by (auto simp: indication_flag_def ie_Indication_def byte_at_def)
  then show ?thesis by (simp only: list.set ball_simps getter_defs simp_thms)
qed

lemma indication_octets: "ie_Indication (NewIndicationFromOctets octs) = Inr (take 9 octs)"
  by (simp add: NewIndicationFromOctets_def ie_New_eq ie_SetLength_eq ie_Indication_def)

section \<open>Bearer Flags, MBMS Flags and Node Features\<close>

definition NewBearerFlags :: "byte \<Rightarrow> byte \<Rightarrow> byte \<Rightarrow> byte \<Rightarrow> ie" where
  "NewBearerFlags asi vInd vb ppc = ie_New IE_BearerFlags 0x00
     [(push_bit 3 asi AND 0x08) OR (push_bit 2 vInd AND 0x04) OR (push_bit 1 vb AND 0x2) OR (ppc AND 0x01)]"

definition ie_BearerFlags :: "ie \<Rightarrow> byte result" where
  "ie_BearerFlags = in_bearer_context IE_BearerFlags octet_of"

definition HasPPC :: "ie \<Rightarrow> bool result" where "HasPPC = ie_flag ie_BearerFlags has1stBit"
definition HasVB :: "ie \<Rightarrow> bool result" where "HasVB = ie_flag ie_BearerFlags has2ndBit"
definition HasVind :: "ie \<Rightarrow> bool result" where "HasVind = ie_flag ie_BearerFlags has3rdBit"
definition HasASI :: "ie \<Rightarrow> bool result" where "HasASI = ie_flag ie_BearerFlags has4thBit"

text \<open>The accessors that mask a bit compare the masked octet with one.\<close>

definition masked_is_one :: "byte \<Rightarrow> byte \<Rightarrow> ie \<Rightarrow> bool" where
  "masked_is_one t m i = (\<not> length (ie_Payload i) < 1 \<and> ie_Type i = t \<and> (ie_Payload i ! 0) AND m = 1)"

definition ActivityStatusIndicator :: "ie \<Rightarrow> bool" where
  "ActivityStatusIndicator = masked_is_one IE_BearerFlags 0x08"
definition VSRVCC :: "ie \<Rightarrow> bool" where "VSRVCC = masked_is_one IE_BearerFlags 0x04"
definition VoiceBearer :: "ie \<Rightarrow> bool" where "VoiceBearer = masked_is_one IE_BearerFlags 0x02"
definition ProhibitPayloadCompression :: "ie \<Rightarrow> bool" where
  "ProhibitPayloadCompression = masked_is_one IE_BearerFlags 0x01"

definition NewMBMSFlags :: "byte \<Rightarrow> byte \<Rightarrow> ie" where
  "NewMBMSFlags lmri msri = ie_New IE_MBMSFlags 0x00 [(push_bit 1 lmri AND 0x02) OR (msri AND 0x01)]"

definition ie_MBMSFlags :: "ie \<Rightarrow> byte result" where
  "ie_MBMSFlags i = (if ie_Type i \<noteq> IE_MBMSFlags then wrong_type i else octet_of i)"

definition HasMSRI :: "ie \<Rightarrow> bool result" where "HasMSRI = ie_flag ie_MBMSFlags has1stBit"
definition HasLMRI :: "ie \<Rightarrow> bool result" where "HasLMRI = ie_flag ie_MBMSFlags has2ndBit"
definition LocalMBMSBearerContextRelease :: "ie \<Rightarrow> bool" where
  "LocalMBMSBearerContextRelease = masked_is_one IE_MBMSFlags 0x02"
definition MBMSSessionReEstablishment :: "ie \<Rightarrow> bool" where
  "MBMSSessionReEstablishment = masked_is_one IE_MBMSFlags 0x01"

definition NewNodeFeatures :: "byte \<Rightarrow> ie" where
  "NewNodeFeatures flags = newUint8ValIE IE_NodeFeatures flags"

definition ie_NodeFeatures :: "ie \<Rightarrow> byte result" where
  "ie_NodeFeatures i = (if ie_Type i \<noteq> IE_NodeFeatures then wrong_type i else octet_of i)"

definition HasPRN :: "ie \<Rightarrow> bool result" where "HasPRN = ie_flag ie_NodeFeatures has1stBit"
definition HasMABR :: "ie \<Rightarrow> bool result" where "HasMABR = ie_flag ie_NodeFeatures has2ndBit"
definition HasNTSR :: "ie \<Rightarrow> bool result" where "HasNTSR = ie_flag ie_NodeFeatures has3rdBit"
definition HasCIOT :: "ie \<Rightarrow> bool result" where "HasCIOT = ie_flag ie_NodeFeatures has4thBit"
definition HasS1UN :: "ie \<Rightarrow> bool result" where "HasS1UN = ie_flag ie_NodeFeatures has5thBit"
definition HasETH :: "ie \<Rightarrow> bool result" where "HasETH = ie_flag ie_NodeFeatures has6thBit"
definition HasMTEDT :: "ie \<Rightarrow> bool result" where "HasMTEDT = ie_flag ie_NodeFeatures has7thBit"

lemma bit_doubled: "bit (x * 2 :: byte) (Suc 0) = bit x 0"
  using bit_push_bit_iff [of 1 x 1] by (simp add: mult.commute)

text \<open>The flags of the constructors are the flags the \<open>Has\<close> getters return, by their lowest bits.\<close>

lemma flags_roundtrip:
  "HasASI (NewBearerFlags asi vInd vb ppc) = Inr (bit asi 0)" "HasVind (NewBearerFlags asi vInd vb ppc) = Inr (bit vInd 0)"
  "HasVB (NewBearerFlags asi vInd vb ppc) = Inr (bit vb 0)" "HasPPC (NewBearerFlags asi vInd vb ppc) = Inr (bit ppc 0)"
  "HasLMRI (NewMBMSFlags lmri msri) = Inr (bit lmri 0)" "HasMSRI (NewMBMSFlags lmri msri) = Inr (bit msri 0)"
  by (simp_all add: NewBearerFlags_def HasASI_def HasVind_def HasVB_def HasPPC_def ie_flag_def ie_BearerFlags_def
      in_bearer_context_def octet_of_def byte_at_def NewMBMSFlags_def HasLMRI_def HasMSRI_def ie_MBMSFlags_def bit_simps bit_doubled)

lemma masked_bit_not_one: "n \<noteq> 0 \<Longrightarrow> (x :: byte) AND push_bit n 1 \<noteq> 1"
  by (auto dest: arg_cong [where f = "\<lambda>w. bit w 0"] simp: bit_simps)

text \<open>
  Four accessors answer False for every element, also for one that has their flag: they compare
  the octet masked with 2, 4 or 8 with one. The \<open>Has\<close> getter of the same flag answers True.
\<close>

lemma masked_accessors_never_true:
  "\<not> ActivityStatusIndicator i \<and> \<not> VSRVCC i \<and> \<not> VoiceBearer i \<and> \<not> LocalMBMSBearerContextRelease i \<and>
   HasASI (NewBearerFlags 1 0 0 0) = Inr True \<and> HasVind (NewBearerFlags 0 1 0 0) = Inr True \<and>
   HasVB (NewBearerFlags 0 0 1 0) = Inr True \<and> HasLMRI (NewMBMSFlags 1 0) = Inr True"
  using masked_bit_not_one [of 1] masked_bit_not_one [of 2] masked_bit_not_one [of 3]
  by (simp add: ActivityStatusIndicator_def VSRVCC_def VoiceBearer_def LocalMBMSBearerContextRelease_def
      masked_is_one_def flags_roundtrip)

end
