(* ===== verification/V2IESimple.thy ===== *)
theory V2IESimple
  imports V2IEValues
begin

text \<open>
  The elements of GTPv2 whose payload is one octet, one integer, a name or a network code (the files
  of \<open>src/gtpv2/ie\<close> named after them): a constructor and an accessor each, with the order of the type
  and the length check the source has. \<open>EPC Timer\<close> and \<open>Throttling\<close>, which encode a duration as a unit
  and a count, are at the end. The theorems are the round trips of all of them.
\<close>

section \<open>One octet\<close>

text \<open>The check of the type comes first in most accessors, then the one of the length.\<close>

definition octet_in :: "byte \<Rightarrow> ie \<Rightarrow> byte result" where
  "octet_in t i = (if ie_Type i \<noteq> t then wrong_type i else octet_of i)"

definition NewAPNRestriction :: "byte \<Rightarrow> ie" where
  "NewAPNRestriction restriction = newUint8ValIE IE_APNRestriction restriction"
definition ie_APNRestriction :: "ie \<Rightarrow> byte result" where
  "ie_APNRestriction = octet_in IE_APNRestriction"

definition NewDetachType :: "byte \<Rightarrow> ie" where
  "NewDetachType dtype = newUint8ValIE IE_DetachType dtype"
definition ie_DetachType :: "ie \<Rightarrow> byte result" where
  "ie_DetachType = octet_in IE_DetachType"

definition NewHopCounter :: "byte \<Rightarrow> ie" where
  "NewHopCounter hop = newUint8ValIE IE_HopCounter hop"
definition ie_HopCounter :: "ie \<Rightarrow> byte result" where
  "ie_HopCounter = octet_in IE_HopCounter"

definition NewNodeType :: "byte \<Rightarrow> ie" where
  "NewNodeType nodeType = newUint8ValIE IE_NodeType nodeType"
definition ie_NodeType :: "ie \<Rightarrow> byte result" where
  "ie_NodeType = octet_in IE_NodeType"

definition NewProcedureTransactionID :: "byte \<Rightarrow> ie" where
  "NewProcedureTransactionID pti = newUint8ValIE IE_ProcedureTransactionID pti"
definition ie_ProcedureTransactionID :: "ie \<Rightarrow> byte result" where
  "ie_ProcedureTransactionID = octet_in IE_ProcedureTransactionID"

definition NewRFSPIndex :: "byte \<Rightarrow> ie" where
  "NewRFSPIndex idx = newUint8ValIE IE_RFSPIndex idx"
definition ie_RFSPIndex :: "ie \<Rightarrow> byte result" where
  "ie_RFSPIndex = octet_in IE_RFSPIndex"

definition NewSelectionMode :: "byte \<Rightarrow> ie" where
  "NewSelectionMode mode = newUint8ValIE IE_SelectionMode mode"
definition ie_SelectionMode :: "ie \<Rightarrow> byte result" where
  "ie_SelectionMode = octet_in IE_SelectionMode"

definition NewServiceIndicator :: "byte \<Rightarrow> ie" where
  "NewServiceIndicator ind = newUint8ValIE IE_ServiceIndicator ind"
definition ie_ServiceIndicator :: "ie \<Rightarrow> byte result" where
  "ie_ServiceIndicator = octet_in IE_ServiceIndicator"

definition NewPDNType :: "byte \<Rightarrow> ie" where
  "NewPDNType pdn = newUint8ValIE IE_PDNType pdn"
definition ie_PDNType :: "ie \<Rightarrow> byte result" where
  "ie_PDNType i =
     (if length (ie_Payload i) < 1 then eof
      else if ie_Type i \<in> {IE_PDNType, IE_PDNAddressAllocation} then byte_at (ie_Payload i) 0
      else wrong_type i)"

definition NewCSGMembershipIndication :: "byte \<Rightarrow> ie" where
  "NewCSGMembershipIndication cmi = newUint8ValIE IE_CSGMembershipIndication cmi"
definition ie_CMI :: "ie \<Rightarrow> byte result" where
  "ie_CMI i =
     (if length (ie_Payload i) < 1 then eof
      else if ie_Type i = IE_CSGMembershipIndication
      then andThen (byte_at (ie_Payload i) 0) (\<lambda>b. Inr (b AND 0x01))
      else if ie_Type i = IE_UserCSGInformation
      then (if length (ie_Payload i) < 8 then eof
            else andThen (byte_at (ie_Payload i) 7) (\<lambda>b. Inr (b AND 0x01)))
      else wrong_type i)"

section \<open>Integers of two, three and four octets\<close>

definition u16_in :: "byte \<Rightarrow> ie \<Rightarrow> u16 result" where
  "u16_in t i =
     (if ie_Type i \<noteq> t then wrong_type i
      else if length (ie_Payload i) < 2 then eof
      else get16 (ie_Payload i) 0)"

text \<open>Two accessors look for an empty payload before they look at the type.\<close>

definition u16_nonempty_in :: "byte \<Rightarrow> ie \<Rightarrow> u16 result" where
  "u16_nonempty_in t i = (if length (ie_Payload i) < 1 then eof else u16_in t i)"

definition NewChargingCharacteristics :: "u16 \<Rightarrow> ie" where
  "NewChargingCharacteristics chr = newUint16ValIE IE_ChargingCharacteristics chr"
definition ie_ChargingCharacteristics :: "ie \<Rightarrow> u16 result" where
  "ie_ChargingCharacteristics = u16_in IE_ChargingCharacteristics"

definition NewIntegerNumber :: "u16 \<Rightarrow> ie" where
  "NewIntegerNumber port = newUint16ValIE IE_IntegerNumber port"
definition ie_IntegerNumber :: "ie \<Rightarrow> u16 result" where
  "ie_IntegerNumber = u16_nonempty_in IE_IntegerNumber"

definition NewPortNumber :: "u16 \<Rightarrow> ie" where
  "NewPortNumber port = newUint16ValIE IE_PortNumber port"
definition ie_PortNumber :: "ie \<Rightarrow> u16 result" where
  "ie_PortNumber = u16_nonempty_in IE_PortNumber"

definition NewChargingID :: "u32 \<Rightarrow> ie" where
  "NewChargingID chid = newUint32ValIE IE_ChargingID chid"
definition ie_ChargingID :: "ie \<Rightarrow> u32 result" where
  "ie_ChargingID = in_bearer_context IE_ChargingID
     (\<lambda>i. if length (ie_Payload i) < 4 then eof else get32 (ie_Payload i) 0)"

definition NewPacketTMSI :: "u32 \<Rightarrow> ie" where
  "NewPacketTMSI ptmsi = newUint32ValIE IE_PacketTMSI ptmsi"
definition ie_PacketTMSI :: "ie \<Rightarrow> u32 result" where
  "ie_PacketTMSI i =
     (if ie_Type i \<noteq> IE_PacketTMSI then wrong_type i
      else if length (ie_Payload i) < 4 then eof
      else get32 (ie_Payload i) 0)"

definition NewTMSI :: "u32 \<Rightarrow> ie" where
  "NewTMSI tmsi = newUint32ValIE IE_TMSI tmsi"
definition ie_TMSI :: "ie \<Rightarrow> u32 result" where
  "ie_TMSI i =
     (if length (ie_Payload i) < 4 then eof
      else if ie_Type i = IE_TMSI then get32 (ie_Payload i) 0
      else wrong_type i)"

definition NewCSGID :: "u32 \<Rightarrow> ie" where
  "NewCSGID csg = newUint32ValIE IE_CSGID (csg AND 0x7ffffff)"
definition ie_CSGID :: "ie \<Rightarrow> u32 result" where
  "ie_CSGID i =
     (if length (ie_Payload i) < 4 then eof
      else if ie_Type i = IE_CSGID then andThen (get32 (ie_Payload i) 0) (\<lambda>v. Inr (v AND 0x7ffffff))
      else if ie_Type i = IE_UserCSGInformation
      then (if length (ie_Payload i) < 7 then eof
            else andThen (get32 (ie_Payload i) 3) (\<lambda>v. Inr (v AND 0x7ffffff)))
      else wrong_type i)"

definition NewPTMSISignature :: "u32 \<Rightarrow> ie" where
  "NewPTMSISignature sig = ie_New IE_PTMSISignature 0x00 (Uint32To24 sig)"
definition ie_PTMSISignature :: "ie \<Rightarrow> u32 result" where
  "ie_PTMSISignature i =
     (if ie_Type i \<noteq> IE_PTMSISignature then wrong_type i
      else if length (ie_Payload i) < 1 then eof
      else Inr (Uint24To32 (ie_Payload i)))"

section \<open>Names\<close>

definition NewLocalDistinguishedName :: "string \<Rightarrow> ie" where
  "NewLocalDistinguishedName name = newStringIE IE_LocalDistinguishedName name"
definition ie_LocalDistinguishedName :: "ie \<Rightarrow> string result" where
  "ie_LocalDistinguishedName i =
     (if ie_Type i \<noteq> IE_LocalDistinguishedName then wrong_type i
      else if length (ie_Payload i) < 1 then eof
      else Inr (bytes_string (ie_Payload i)))"

definition NewFullyQualifiedDomainName :: "string \<Rightarrow> ie result" where
  "NewFullyQualifiedDomainName fqdn =
     (let i = ie_New IE_FullyQualifiedDomainName 0x00 (replicate (length fqdn + 1) 0) in
      andThen (put_labels (ie_Payload i) 0 (Split (CHR ''.'') fqdn)) (\<lambda>p.
        Inr (IE (ie_Type i) (ie_Length i) (ie_instance i) p (ie_ChildIEs i))))"
definition ie_FullyQualifiedDomainName :: "ie \<Rightarrow> string result" where
  "ie_FullyQualifiedDomainName i =
     (if ie_Type i \<noteq> IE_FullyQualifiedDomainName then wrong_type i
      else Inr (Join (CHR ''.'') (get_labels (ie_Payload i))))"

definition NewPrivateExtension :: "u16 \<Rightarrow> bytes \<Rightarrow> ie result" where
  "NewPrivateExtension eid v =
     (case ie_New IE_PrivateExtension 0x00 (replicate (2 + length v) 0) of IE t len ins p cs \<Rightarrow>
        andThen (write_at p 0 (be16 eid)) (\<lambda>p.
        andThen (copy_at p 2 (length p) v) (\<lambda>p. Inr (IE t len ins p cs))))"
definition ie_EnterpriseID :: "ie \<Rightarrow> u16 result" where
  "ie_EnterpriseID = u16_in IE_PrivateExtension"
definition ie_PrivateExtension :: "ie \<Rightarrow> bytes result" where
  "ie_PrivateExtension i =
     (if ie_Type i \<noteq> IE_PrivateExtension then wrong_type i
      else if length (ie_Payload i) < 3 then eof
      else slice_from (ie_Payload i) 2)"

section \<open>Network codes\<close>

definition NewPLMNID :: "string \<Rightarrow> string \<Rightarrow> ie option result" where
  "NewPLMNID mcc mnc = or_nil (ie_New IE_PLMNID 0x00) (EncodePLMN mcc mnc)"
definition ie_PLMNID :: "ie \<Rightarrow> string result" where
  "ie_PLMNID i =
     (if ie_Type i \<noteq> IE_PLMNID then wrong_type i
      else if length (ie_Payload i) < 3 then eof
      else andThen (DecodePLMN (ie_Payload i)) (\<lambda>(mcc, mnc). Inr (mcc @ mnc)))"

definition NewGlobalCNID :: "string \<Rightarrow> string \<Rightarrow> u16 \<Rightarrow> ie option result" where
  "NewGlobalCNID mcc mnc cnid =
     (case ie_New IE_GlobalCNID 0x00 (replicate 5 0) of IE t len ins p cs \<Rightarrow>
        (case EncodePLMN mcc mnc of
           Inl (Error e) \<Rightarrow> Inr None
         | Inl (Panic q) \<Rightarrow> Inl (Panic q)
         | Inr plmn \<Rightarrow>
             andThen (copy_at p 0 3 plmn) (\<lambda>p.
             andThen (write_at p 3 (be16 (cnid AND 0xfff))) (\<lambda>p. Inr (Some (IE t len ins p cs))))))"
definition ie_CNID :: "ie \<Rightarrow> u16 result" where
  "ie_CNID i =
     (if length (ie_Payload i) < 5 then eof
      else if ie_Type i = IE_GlobalCNID then get16 (ie_Payload i) 3
      else wrong_type i)"

section \<open>Durations\<close>

text \<open>
  A \<open>time.Duration\<close> is an \<open>int64\<close> of nanoseconds. It is an \<open>int\<close> here: the sources divide it and
  multiply counts below 32 by at most ten hours, so nothing overflows. Go's division truncates, a
  remainder is zero exactly when the unit divides the duration, and \<open>uint8\<close> keeps the lowest octet.
\<close>

abbreviation Second :: int where "Second \<equiv> 1000000000"
abbreviation Minute :: int where "Minute \<equiv> 60000000000"
abbreviation Hour :: int where "Hour \<equiv> 3600000000000"
abbreviation MaxInt64 :: int where "MaxInt64 \<equiv> 9223372036854775807"

definition quot :: "int \<Rightarrow> int \<Rightarrow> int" where
  "quot a b = sgn a * (\<bar>a\<bar> div b)"

definition NewEPCTimer :: "int \<Rightarrow> ie" where
  "NewEPCTimer duration =
     (let (u, v) =
        (if (10 * Hour) dvd duration then (0x80, word_of_int (quot duration (10 * Hour)))
         else if Hour dvd duration then (0x60, word_of_int (quot duration Hour))
         else if (10 * Minute) dvd duration then (0x40, word_of_int (quot duration (10 * Minute)))
         else if Minute dvd duration then (0x20, word_of_int (quot duration Minute))
         else if (2 * Second) dvd duration then (0x00, word_of_int (quot duration (2 * Second)))
         else (0xe0, 0 :: byte))
      in newUint8ValIE IE_EPCTimer (u + (v AND 0x1f)))"

text \<open>The unit a three-bit code stands for; the accessor of the timer also knows 7, infinite.\<close>

definition duration_of :: "byte \<Rightarrow> byte \<Rightarrow> int" where
  "duration_of u v =
     (if u = 0x04 then uint v * (10 * Hour)
      else if u = 0x03 then uint v * Hour
      else if u = 0x02 then uint v * (10 * Minute)
      else if u = 0x01 then uint v * Minute
      else if u = 0x00 then uint v * (2 * Second)
      else 0)"

definition ie_Timer :: "ie \<Rightarrow> int result" where
  "ie_Timer i =
     (if length (ie_Payload i) < 1 then eof
      else if ie_Type i = IE_EPCTimer then
        andThen (byte_at (ie_Payload i) 0) (\<lambda>b.
          let u = drop_bit 5 (b AND 0xe0) in
          Inr (if u = 0x07 then MaxInt64 else duration_of u (b AND 0x1f)))
      else if ie_Type i = IE_OverloadControlInformation then Inl (Error (UserError 0))
      else wrong_type i)"

definition ie_EPCTimer :: "ie \<Rightarrow> int result" where
  "ie_EPCTimer i = ie_Timer i"

record throttling_fields =
  th_DelayUnit :: byte
  th_DelayValue :: int
  th_Factor :: byte

definition NewThrottlingFields :: "int \<Rightarrow> byte \<Rightarrow> throttling_fields" where
  "NewThrottlingFields delay factor =
     \<lparr>th_DelayUnit =
        (if (10 * Hour) dvd delay then 0x04
         else if Hour dvd delay then 0x03
         else if (10 * Minute) dvd delay then 0x02
         else if Minute dvd delay then 0x01
         else if (2 * Second) dvd delay then 0x00
         else 0xe0),
      th_DelayValue = delay, th_Factor = factor\<rparr>"

definition th_MarshalTo :: "throttling_fields \<Rightarrow> bytes \<Rightarrow> bytes result" where
  "th_MarshalTo f b =
     (if length b < 2 then eof
      else
        let u = th_DelayUnit f; d = th_DelayValue f;
            v = (if u = 0x04 then word_of_int (quot d (10 * Hour))
                 else if u = 0x03 then word_of_int (quot d Hour)
                 else if u = 0x02 then word_of_int (quot d (10 * Minute))
                 else if u = 0x01 then word_of_int (quot d Minute)
                 else if u = 0x00 then word_of_int (quot d (2 * Second))
                 else 0 :: byte)
        in andThen (write_at b 0 [(push_bit 5 u AND 0xe0) OR (v AND 0x1f)]) (\<lambda>b.
             write_at b 1 [th_Factor f]))"

definition th_MarshalLen :: "throttling_fields \<Rightarrow> nat" where
  "th_MarshalLen f = 2"

definition th_Marshal :: "throttling_fields \<Rightarrow> bytes result" where
  "th_Marshal f = th_MarshalTo f (replicate (th_MarshalLen f) 0)"

definition th_UnmarshalBinary :: "bytes \<Rightarrow> throttling_fields result" where
  "th_UnmarshalBinary b =
     (if length b < 2 then eof
      else andThen (byte_at b 0) (\<lambda>b0. andThen (byte_at b 1) (\<lambda>b1.
        let u = drop_bit 5 (b0 AND 0xe0) in
        Inr \<lparr>th_DelayUnit = u, th_DelayValue = duration_of u (b0 AND 0x1f), th_Factor = b1\<rparr>)))"

definition NewThrottling :: "int \<Rightarrow> byte \<Rightarrow> ie option result" where
  "NewThrottling delay factor =
     or_nil (ie_New IE_Throttling 0x00) (th_Marshal (NewThrottlingFields delay factor))"

definition ie_Throttling :: "ie \<Rightarrow> throttling_fields result" where
  "ie_Throttling i =
     (if ie_Type i = IE_Throttling then th_UnmarshalBinary (ie_Payload i) else wrong_type i)"

section \<open>Round trips\<close>

lemmas scalar_defs =
  octet_in_def octet_of_def u16_in_def u16_nonempty_in_def in_bearer_context_def
  newUint8ValIE_def newUint16ValIE_def newUint32ValIE_def newStringIE_def
  byte_at_def get16_def get32_def be16_def be32_def

lemma octet_in_New [simp]: "octet_in t (newUint8ValIE t v) = Inr v"
  by (simp add: scalar_defs)

lemma csg_mask: "v AND 0x7ffffff = take_bit 27 (v :: u32)"
  by (simp add: take_bit_eq_mask mask_eq_exp_minus_1)

text \<open>
  Every element with a single octet or integer gives back the value it was made of: all of it,
  or the low 27 bits of a CSG identity, the low 24 of a P-TMSI signature, the lowest of a CSG
  membership indication.
\<close>

lemma scalar_elements_roundtrip:
  "ie_APNRestriction (NewAPNRestriction v) = Inr v \<and> ie_DetachType (NewDetachType v) = Inr v \<and>
   ie_HopCounter (NewHopCounter v) = Inr v \<and> ie_NodeType (NewNodeType v) = Inr v \<and>
   ie_ProcedureTransactionID (NewProcedureTransactionID v) = Inr v \<and> ie_RFSPIndex (NewRFSPIndex v) = Inr v \<and>
   ie_SelectionMode (NewSelectionMode v) = Inr v \<and> ie_ServiceIndicator (NewServiceIndicator v) = Inr v \<and>
   ie_PDNType (NewPDNType v) = Inr v \<and> ie_CMI (NewCSGMembershipIndication v) = Inr (v AND 0x01) \<and>
   ie_ChargingCharacteristics (NewChargingCharacteristics w) = Inr w \<and>
   ie_IntegerNumber (NewIntegerNumber w) = Inr w \<and> ie_PortNumber (NewPortNumber w) = Inr w \<and>
   ie_ChargingID (NewChargingID x) = Inr x \<and> ie_PacketTMSI (NewPacketTMSI x) = Inr x \<and>
   ie_TMSI (NewTMSI x) = Inr x \<and> ie_CSGID (NewCSGID x) = Inr (take_bit 27 x) \<and>
   ie_PTMSISignature (NewPTMSISignature x) = Inr (take_bit 24 x)"
proof (intro conjI)
  show "ie_PTMSISignature (NewPTMSISignature x) = Inr (take_bit 24 x)"
    using Uint24To32_Uint32To24 [of x] Uint32To24_length [of x]
    by (simp add: ie_PTMSISignature_def NewPTMSISignature_def del: Uint32To24_length)
  show "ie_CSGID (NewCSGID x) = Inr (take_bit 27 x)"
    using join32_be32 [of "take_bit 27 x"]
    by (simp add: ie_CSGID_def NewCSGID_def scalar_defs csg_mask)
qed (simp_all add: NewAPNRestriction_def ie_APNRestriction_def NewDetachType_def ie_DetachType_def
    NewHopCounter_def ie_HopCounter_def NewNodeType_def ie_NodeType_def NewProcedureTransactionID_def
    ie_ProcedureTransactionID_def NewRFSPIndex_def ie_RFSPIndex_def NewSelectionMode_def ie_SelectionMode_def
    NewServiceIndicator_def ie_ServiceIndicator_def NewPDNType_def ie_PDNType_def
    NewCSGMembershipIndication_def ie_CMI_def NewChargingCharacteristics_def ie_ChargingCharacteristics_def
    NewIntegerNumber_def ie_IntegerNumber_def NewPortNumber_def ie_PortNumber_def NewChargingID_def ie_ChargingID_def
    NewPacketTMSI_def ie_PacketTMSI_def NewTMSI_def ie_TMSI_def scalar_defs)

lemma ldn_roundtrip:
  "name \<noteq> [] \<Longrightarrow> ie_LocalDistinguishedName (NewLocalDistinguishedName name) = Inr name"
  by (cases name) (simp_all add: ie_LocalDistinguishedName_def NewLocalDistinguishedName_def newStringIE_def
      Suc_le_eq)

lemma fqdn_roundtrip:
  assumes "list_all (\<lambda>l. length l < 256) (Split (CHR ''.'') fqdn)"
  shows "\<exists>i. NewFullyQualifiedDomainName fqdn = Inr i \<and> ie_FullyQualifiedDomainName i = Inr fqdn"
proof -
  let ?ls = "Split (CHR ''.'') fqdn"
  have "put_labels (replicate (length fqdn + 1) 0) 0 ?ls = Inr (concat (map label_wire ?ls))"
    using put_labels_wire [of "replicate (length fqdn + 1) 0" 0 ?ls] Split_length [of "CHR ''.''" fqdn] by simp
  then show ?thesis
    using get_labels_wire [OF assms]
    by (simp add: NewFullyQualifiedDomainName_def ie_FullyQualifiedDomainName_def Let_def)
qed

lemma private_extension_roundtrip:
  "\<exists>i. NewPrivateExtension eid v = Inr i \<and> ie_EnterpriseID i = Inr eid \<and>
     ie_PrivateExtension i = (if v = [] then eof else Inr v)"
  by (cases v) (simp_all add: NewPrivateExtension_def ie_New_eq write_at_def copy_at_def ie_EnterpriseID_def
      ie_PrivateExtension_def slice_from_def slice_def scalar_defs)

lemma network_roundtrips:
  assumes "plmn_ok mcc mnc"
  shows "\<exists>i. NewPLMNID mcc mnc = Inr (Some i) \<and> ie_PLMNID i = Inr (mcc @ mnc)"
    and "\<exists>i. NewGlobalCNID mcc mnc cnid = Inr (Some i) \<and> ie_CNID i = Inr (cnid AND 0xfff) \<and>
      ie_MCC i = Inr mcc \<and> ie_MNC i = Inr mnc"
proof -
  obtain b where b: "EncodePLMN mcc mnc = Inr b" "length b = 3" "DecodePLMN b = Inr (mcc, mnc)"
    using PLMN_roundtrip_aux [OF assms] by blast
  then show "\<exists>i. NewPLMNID mcc mnc = Inr (Some i) \<and> ie_PLMNID i = Inr (mcc @ mnc)"
    by (simp add: NewPLMNID_def ie_PLMNID_def)
  obtain x y z where xyz: "b = [x, y, z]" using b(2) by (auto simp: numeral_eq_Suc length_Suc_conv)
  obtain p q where w: "be16 (cnid AND 0xfff) = [p, q]" "join16 p q = cnid AND 0xfff"
    using join16_be16 [of "cnid AND 0xfff"] by (metis be16_def)
  have "NewGlobalCNID mcc mnc cnid = Inr (Some (ie_New IE_GlobalCNID 0x00 [x, y, z, p, q]))"
    using b(1) by (simp add: NewGlobalCNID_def w(1) xyz ie_New_eq write_at_def copy_at_def eval_nat_numeral)
  moreover have "DecodePLMN [x, y, z] = Inr (mcc, mnc)" using b(3) by (simp only: xyz)
  ultimately show "\<exists>i. NewGlobalCNID mcc mnc cnid = Inr (Some i) \<and> ie_CNID i = Inr (cnid AND 0xfff) \<and>
      ie_MCC i = Inr mcc \<and> ie_MNC i = Inr mnc"
    by (simp add: ie_CNID_def ie_MCC_def ie_MNC_def plmn_of_def slice_def get16_def w(2))
qed

section \<open>What the timers can say\<close>

abbreviation timer_units :: "int set" where
  "timer_units \<equiv> {10 * Hour, Hour, 10 * Minute, Minute, 2 * Second}"

lemma timer_octet:
  assumes "drop_bit 5 u < (8 :: byte)" "u AND 0x1f = 0"
  shows "drop_bit 5 ((u + (v AND 0x1f)) AND 0xe0) = drop_bit 5 u" "(u + (v AND 0x1f)) AND 0x1f = v AND 0x1f"
    "u OR (v AND 0x1f) = u + (v AND 0x1f)"
proof -
  have "u AND (v AND 0x1f) = 0" using assms(2) by (metis and.left_commute and_zero_eq)
  then have or: "u + (v AND 0x1f) = u OR (v AND 0x1f)" by (rule disjunctive_add_eq_or)
  show "(u + (v AND 0x1f)) AND 0x1f = v AND 0x1f"
    unfolding or using assms(2) by (simp add: bit.conj_disj_distrib2 and.assoc)
  show "drop_bit 5 ((u + (v AND 0x1f)) AND 0xe0) = drop_bit 5 u"
    unfolding or by (rule byte_eqI) (auto simp: bit_simps byte_bit_high)
  show "u OR (v AND 0x1f) = u + (v AND 0x1f)" by (rule or [symmetric])
qed

lemma count_octet:
  assumes "0 \<le> k" "k < 32"
  shows "uint ((word_of_int k :: byte) AND 0x1f) = k"
proof -
  have "(word_of_int k :: byte) AND 0x1f = take_bit 5 (word_of_int k)"
    by (simp add: take_bit_eq_mask mask_eq_exp_minus_1)
  then show ?thesis using assms by (simp add: unsigned_take_bit_eq unsigned_of_int take_bit_int_eq_self)
qed

lemma replicate_two: "replicate 2 x = [x, x]"
  by (simp add: numeral_2_eq_2)

lemma quot_multiple: "0 < u \<Longrightarrow> quot (k * u) u = k"
  by (simp add: quot_def abs_mult sgn_mult sgn_mult_abs)

lemma duration_code:
  assumes "0 \<le> k" "k < 32" "(u, c) \<in> {(10 * Hour, 4), (Hour, 3), (10 * Minute, 2), (Minute, 1), (2 * Second, 0)}"
  shows "duration_of c (word_of_int k AND 0x1f) = k * u"
  using assms(3) by (auto simp: duration_of_def count_octet [OF assms(1,2)])

lemma largest_unit:
  assumes "u \<in> timer_units" "\<forall>w \<in> timer_units. u < w \<longrightarrow> \<not> w dvd k * u"
  shows "(if 10 * Hour dvd k * u then a4 else if Hour dvd k * u then a3 else if 10 * Minute dvd k * u then a2
      else if Minute dvd k * u then a1 else if 2 * Second dvd k * u then a0 else z) =
    (if u = 10 * Hour then a4 else if u = Hour then a3 else if u = 10 * Minute then a2 else if u = Minute then a1 else a0)"
proof -
  have "10 * Hour dvd k * u \<longrightarrow> u = 10 * Hour" using assms by auto
  moreover have "Hour dvd k * u \<longrightarrow> u = Hour \<or> u = 10 * Hour" using assms by auto
  moreover have "10 * Minute dvd k * u \<longrightarrow> u \<notin> {Minute, 2 * Second}" using assms by auto
  moreover have "Minute dvd k * u \<longrightarrow> u \<noteq> 2 * Second" using assms by auto
  moreover have "u dvd k * u" by simp
  ultimately show ?thesis using assms(1)
    by (elim insertE emptyE) simp_all
qed

text \<open>
  A timer holds the durations of up to 31 units of two seconds, one minute, ten minutes, one hour
  or ten hours, the unit being the largest that divides the duration: such a duration comes back
  from an EPC Timer and, with the throttling factor, from a Throttling element.
\<close>

lemma timer_roundtrip:
  assumes "u \<in> timer_units" "0 \<le> k" "k < 32" "\<forall>w \<in> timer_units. u < w \<longrightarrow> \<not> w dvd k * u"
  shows "ie_EPCTimer (NewEPCTimer (k * u)) = Inr (k * u) \<and>
     (\<exists>i f. NewThrottling (k * u) factor = Inr (Some i) \<and> ie_Throttling i = Inr f \<and>
        th_DelayValue f = k * u \<and> th_Factor f = factor)"
proof
  let ?k = "word_of_int k :: byte"
  obtain c where c: "(u, c) \<in> {(10 * Hour, 4), (Hour, 3), (10 * Minute, 2), (Minute, 1), (2 * Second, 0 :: byte)}"
    using assms(1) by auto
  note d = duration_code [OF assms(2,3) c]
  have n: "NewEPCTimer (k * u) = newUint8ValIE IE_EPCTimer (push_bit 5 c + (?k AND 0x1f))"
    using c quot_multiple [of u k]
    by (simp only: NewEPCTimer_def largest_unit [OF assms(1,4)]) auto
  have octet: "drop_bit 5 ((push_bit 5 c + (?k AND 0x1f)) AND 0xe0) = c"
      "(push_bit 5 c + (?k AND 0x1f)) AND 0x1f = ?k AND 0x1f" "c \<noteq> 7"
    using c timer_octet [of "push_bit 5 c" ?k] by auto
  then show "ie_EPCTimer (NewEPCTimer (k * u)) = Inr (k * u)"
    using d by (simp add: n ie_EPCTimer_def ie_Timer_def scalar_defs Let_def)
  have u: "th_DelayUnit (NewThrottlingFields (k * u) factor) = c"
    using c by (simp only: NewThrottlingFields_def largest_unit [OF assms(1,4)] throttling_fields.simps) auto
  have f: "th_DelayValue (NewThrottlingFields (k * u) factor) = k * u" "th_Factor (NewThrottlingFields (k * u) factor) = factor"
    by (simp_all add: NewThrottlingFields_def)
  have m: "th_Marshal (NewThrottlingFields (k * u) factor) = Inr [(push_bit 5 c AND 0xe0) OR (?k AND 0x1f), factor]"
    using c quot_multiple [of u k]
    by (auto simp: th_Marshal_def th_MarshalTo_def th_MarshalLen_def write_at_def Let_def u f replicate_two)
  have "(push_bit 5 c AND 0xe0) OR (?k AND 0x1f) = push_bit 5 c + (?k AND 0x1f)"
    using c timer_octet(3) [of "push_bit 5 c" ?k] by auto
  with m d octet show "\<exists>i f. NewThrottling (k * u) factor = Inr (Some i) \<and> ie_Throttling i = Inr f \<and>
        th_DelayValue f = k * u \<and> th_Factor f = factor"
    by (simp add: NewThrottling_def ie_Throttling_def th_UnmarshalBinary_def byte_at_def)
qed

lemma timer_roundtrip_witness:
  "ie_EPCTimer (NewEPCTimer (3 * Minute)) = Inr (3 * Minute) \<and>
     (\<exists>i f. NewThrottling (3 * Minute) 50 = Inr (Some i) \<and> ie_Throttling i = Inr f \<and>
        th_DelayValue f = 3 * Minute \<and> th_Factor f = 50)"
  by (rule timer_roundtrip) simp_all

text \<open>
  Every other duration comes back as another one: 64 seconds, which are no minutes, as zero; a
  fraction of two seconds as the longest duration from an EPC Timer, but as zero, which stands for a
  stopped timer, from a Throttling element, whose code 0xe0 for the unit is shifted away.
\<close>

lemma timer_cut:
  "ie_EPCTimer (NewEPCTimer (64 * Second)) = Inr 0"
  "ie_EPCTimer (NewEPCTimer Second) = Inr MaxInt64"
  "\<exists>i f. NewThrottling Second factor = Inr (Some i) \<and> ie_Throttling i = Inr f \<and>
     th_DelayUnit f = 0 \<and> th_DelayValue f = 0"
  by (simp_all add: NewEPCTimer_def ie_EPCTimer_def ie_Timer_def scalar_defs quot_def duration_of_def NewThrottling_def
      NewThrottlingFields_def th_Marshal_def th_MarshalTo_def th_MarshalLen_def ie_Throttling_def
      th_UnmarshalBinary_def write_at_def replicate_two Let_def)

end
