(* ===== verification/V2IEFields.thy ===== *)
theory V2IEFields
  imports V2IESimple
begin

text \<open>
  The structured elements of GTPv2 beside those of \<open>V2IEValues\<close>: PDN Address Allocation and the IP
  addresses of several types (\<open>paa.go\<close>, \<open>ip-addr.go\<close>), data forwarding (\<open>s103pdf.go\<close>, \<open>s1udf.go\<close>),
  GUTI, FQ-CSID, User CSG Information, Trace Reference, AMBR, RAN/NAS Cause and Paging and Service
  Information (the files named after them). Each has a record of its fields, the coder and decoder of the
  record, and accessors. The theorems are the round trips, and the inputs on which a decoder panics
  or reads something else than was written.
\<close>

section \<open>PDN Address Allocation (paa.go)\<close>

abbreviation pdnTypeIPv4 :: byte where "pdnTypeIPv4 \<equiv> 1"
abbreviation pdnTypeIPv6 :: byte where "pdnTypeIPv6 \<equiv> 2"
abbreviation pdnTypeIPv4v6 :: byte where "pdnTypeIPv4v6 \<equiv> 3"
abbreviation pdnTypeNonIP :: byte where "pdnTypeNonIP \<equiv> 4"

record paa_fields =
  paa_PDNType :: byte
  paa_IPv4Address :: ip
  paa_IPv6PrefixLength :: byte
  paa_IPv6Address :: ip

definition NewPDNAddressAllocationFields :: "byte \<Rightarrow> ip \<Rightarrow> ip \<Rightarrow> byte \<Rightarrow> paa_fields" where
  "NewPDNAddressAllocationFields pType v4 v6 prefix =
     \<lparr>paa_PDNType = pType, paa_IPv4Address = v4, paa_IPv6PrefixLength = prefix, paa_IPv6Address = v6\<rparr>"

definition paa_MarshalLen :: "paa_fields \<Rightarrow> nat" where
  "paa_MarshalLen f =
     1 + (if paa_PDNType f = pdnTypeIPv4 then 4
          else if paa_PDNType f = pdnTypeIPv6 then 17
          else if paa_PDNType f = pdnTypeIPv4v6 then 21
          else 0)"

definition paa_MarshalTo :: "paa_fields \<Rightarrow> bytes \<Rightarrow> bytes result" where
  "paa_MarshalTo f b =
     (let l = length b in
      if l < 1 then eof
      else andThen (write_at b 0 [paa_PDNType f AND 0x07]) (\<lambda>b.
        if paa_PDNType f = pdnTypeIPv4 then
          (if l < 1 + 4 then eof
           else if paa_IPv4Address f \<noteq> [] then copy_at b 1 5 (To4 (paa_IPv4Address f))
           else Inr b)
        else if paa_PDNType f = pdnTypeIPv6 then
          (if l < 1 + 17 then eof
           else andThen (write_at b 1 [paa_IPv6PrefixLength f]) (\<lambda>b.
             copy_at b 2 18 (To16 (paa_IPv6Address f))))
        else if paa_PDNType f = pdnTypeIPv4v6 then
          (if l < 1 + 21 then eof
           else andThen (write_at b 1 [paa_IPv6PrefixLength f]) (\<lambda>b.
             andThen (copy_at b 2 18 (To16 (paa_IPv6Address f))) (\<lambda>b.
             copy_at b 18 22 (To4 (paa_IPv4Address f)))))
        else Inr b))"

definition paa_Marshal :: "paa_fields \<Rightarrow> bytes result" where
  "paa_Marshal f = paa_MarshalTo f (replicate (paa_MarshalLen f) 0)"

definition paa_UnmarshalBinary :: "bytes \<Rightarrow> paa_fields result" where
  "paa_UnmarshalBinary b =
     (let l = length b in
      if l < 1 then eof
      else andThen (byte_at b 0) (\<lambda>b0.
        let t = b0 AND 0x07 in
        if t = pdnTypeIPv4 then
          (if l < 1 + 4 then eof
           else andThen (slice b 1 5) (\<lambda>v4. Inr (NewPDNAddressAllocationFields t v4 [] 0)))
        else if t = pdnTypeIPv6 then
          (if l < 1 + 17 then eof
           else andThen (byte_at b 1) (\<lambda>n. andThen (slice b 2 18) (\<lambda>v6.
             Inr (NewPDNAddressAllocationFields t [] v6 n))))
        else if t = pdnTypeIPv4v6 then
          (if l < 1 + 21 then eof
           else andThen (byte_at b 1) (\<lambda>n. andThen (slice b 2 18) (\<lambda>v6.
             andThen (slice b 18 22) (\<lambda>v4. Inr (NewPDNAddressAllocationFields t v4 v6 n)))))
        else Inr (NewPDNAddressAllocationFields t [] [] 0)))"

definition NewPDNAddressAllocationNetIP :: "ip \<Rightarrow> byte \<Rightarrow> ie option result" where
  "NewPDNAddressAllocationNetIP a v6prefix =
     (let v = (if To4 a \<noteq> [] then NewPDNAddressAllocationFields pdnTypeIPv4 (To4 a) [] 0
               else if To16 a \<noteq> [] then NewPDNAddressAllocationFields pdnTypeIPv6 [] (To16 a) v6prefix
               else NewPDNAddressAllocationFields pdnTypeNonIP [] [] 0)
      in or_nil (ie_New IE_PDNAddressAllocation 0x00) (paa_Marshal v))"

definition NewPDNAddressAllocationDualNetIP :: "ip \<Rightarrow> ip \<Rightarrow> byte \<Rightarrow> ie option result" where
  "NewPDNAddressAllocationDualNetIP v4 v6 v6prefix =
     or_nil (ie_New IE_PDNAddressAllocation 0x00)
       (paa_Marshal (NewPDNAddressAllocationFields pdnTypeIPv4v6 v4 v6 v6prefix))"

definition NewPDNAddressAllocation :: "string \<Rightarrow> ie option result" where
  "NewPDNAddressAllocation addr = NewPDNAddressAllocationNetIP (ParseIP addr) 0"

definition NewPDNAddressAllocationIPv6 :: "string \<Rightarrow> byte \<Rightarrow> ie option result" where
  "NewPDNAddressAllocationIPv6 addr prefix = NewPDNAddressAllocationNetIP (ParseIP addr) prefix"

definition NewPDNAddressAllocationDual :: "string \<Rightarrow> string \<Rightarrow> byte \<Rightarrow> ie option result" where
  "NewPDNAddressAllocationDual v4addr v6addr v6prefix =
     NewPDNAddressAllocationDualNetIP (ParseIP v4addr) (ParseIP v6addr) v6prefix"

section \<open>IP addresses (ip-addr.go)\<close>

definition NewIPAddress :: "string \<Rightarrow> ie" where
  "NewIPAddress addr =
     (let a = ParseIP addr; v4 = To4 a in
      if v4 \<noteq> [] then ie_New IE_IPAddress 0x00 v4 else ie_New IE_IPAddress 0x00 a)"

definition NewIPAddressNetIP :: "ip \<Rightarrow> ie" where
  "NewIPAddressNetIP a =
     (if To4 a \<noteq> [] then ie_New IE_IPAddress 0x00 (To4 a)
      else if To16 a \<noteq> [] then ie_New IE_IPAddress 0x00 (To16 a)
      else ie_New IE_IPAddress 0x00 a)"

text \<open>An address behind an octet with its length, which has to be 4 or 16.\<close>

definition sized_address :: "nat \<Rightarrow> bytes \<Rightarrow> ip result" where
  "sized_address k p =
     andThen (byte_at p k) (\<lambda>n.
       if n = 4 then (if length p < k + 5 then eof else slice p (k + 1) (k + 5))
       else if n = 16 then (if length p < k + 17 then eof else slice p (k + 1) (k + 17))
       else Inl (Error IEErrMalformed))"

definition ie_IP :: "ie \<Rightarrow> ip result" where
  "ie_IP i =
     (let p = ie_Payload i in
      if length p < 4 then eof
      else if ie_Type i = IE_IPAddress then Inr p
      else if ie_Type i = IE_PDNAddressAllocation then
        (if length p < 5 then eof
         else andThen (paa_UnmarshalBinary p) (\<lambda>paa.
           if paa_PDNType paa \<in> {pdnTypeIPv4, pdnTypeIPv4v6} then Inr (paa_IPv4Address paa)
           else if paa_PDNType paa = pdnTypeIPv6 then Inr (paa_IPv6Address paa)
           else Inl (Error IEErrIEValueNotFound)))
      else if ie_Type i = IE_S103PDNDataForwardingInfo then sized_address 0 p
      else if ie_Type i = IE_S1UDataForwarding then sized_address 1 p
      else if ie_Type i = IE_FullyQualifiedTEID then
        andThen (fteid_UnmarshalBinary p) (\<lambda>fteid.
          if HasIPv4 i then Inr (ft_IPv4Address fteid)
          else if HasIPv6 i then Inr (ft_IPv6Address fteid)
          else Inl (Error IEErrIEValueNotFound))
      else wrong_type i)"

definition ie_IPv4 :: "ie \<Rightarrow> ip result" where
  "ie_IPv4 i =
     andThen (ie_IP i) (\<lambda>a. if To4 a \<noteq> [] then Inr (To4 a) else Inl (Error IEErrIEValueNotFound))"

definition ie_IPv6 :: "ie \<Rightarrow> ip result" where
  "ie_IPv6 i =
     (if length (ie_Payload i) < 4 then eof
      else if ie_Type i \<in> {IE_IPAddress, IE_PDNAddressAllocation, IE_S103PDNDataForwardingInfo, IE_S1UDataForwarding}
      then andThen (ie_IP i) (\<lambda>a. if To16 a \<noteq> [] then Inr (To16 a) else Inl (Error IEErrIEValueNotFound))
      else if ie_Type i = IE_FullyQualifiedTEID then
        andThen (fteid_UnmarshalBinary (ie_Payload i)) (\<lambda>fteid.
          if HasIPv6 i then
            (if To16 (ft_IPv6Address fteid) \<noteq> [] then Inr (To16 (ft_IPv6Address fteid))
             else Inl (Error IEErrIEValueNotFound))
          else Inl (Error IEErrIEValueNotFound))
      else wrong_type i)"

section \<open>S103 and S1-U data forwarding (s103pdf.go, s1udf.go)\<close>

record s103_fields =
  s103_HSGWAddressForForwardingLength :: byte
  s103_HSGWAddressForForwarding :: ip
  s103_GREKey :: u32
  s103_EPSBearerIDNumber :: byte
  s103_EPSBearerIDs :: bytes

text \<open>Both constructors store an address in its shortest form, and its length.\<close>

definition stored_address :: "ip \<Rightarrow> byte \<times> ip" where
  "stored_address a =
     (if To4 a \<noteq> [] then (4, To4 a)
      else if To16 a \<noteq> [] then (16, To16 a)
      else (of_nat (length a), a))"

definition NewS103PDNDataForwardingInfoFields :: "ip \<Rightarrow> u32 \<Rightarrow> bytes \<Rightarrow> s103_fields" where
  "NewS103PDNDataForwardingInfoFields hsgwIP greKey ebis =
     (case stored_address hsgwIP of (n, a) \<Rightarrow>
       \<lparr>s103_HSGWAddressForForwardingLength = n, s103_HSGWAddressForForwarding = a, s103_GREKey = greKey,
        s103_EPSBearerIDNumber = of_nat (length ebis), s103_EPSBearerIDs = ebis\<rparr>)"

definition s103_MarshalLen :: "s103_fields \<Rightarrow> nat" where
  "s103_MarshalLen f = 1 + unat (s103_HSGWAddressForForwardingLength f) + 4 + 1 + unat (s103_EPSBearerIDNumber f)"

fun put_ebis :: "bytes \<Rightarrow> nat \<Rightarrow> bytes \<Rightarrow> bytes result" where
  "put_ebis [] offset b = Inr b"
| "put_ebis (ebi # ebis) offset b = andThen (write_at b offset [ebi AND 0x0f]) (put_ebis ebis (offset + 1))"

definition s103_MarshalTo :: "s103_fields \<Rightarrow> bytes \<Rightarrow> bytes result" where
  "s103_MarshalTo f b =
     (let l = length b; n = unat (s103_HSGWAddressForForwardingLength f) in
      if l < 2 then eof
      else andThen (write_at b 0 [s103_HSGWAddressForForwardingLength f]) (\<lambda>b.
        if l < 1 + n then eof
        else andThen (copy_at b 1 (1 + n) (s103_HSGWAddressForForwarding f)) (\<lambda>b.
          if l < 1 + n + 4 then eof
          else andThen (write_at b (1 + n) (be32 (s103_GREKey f))) (\<lambda>b.
            andThen (write_at b (1 + n + 4) [s103_EPSBearerIDNumber f]) (\<lambda>b.
              if l < 1 + n + 5 + unat (s103_EPSBearerIDNumber f) then eof
              else put_ebis (s103_EPSBearerIDs f) (1 + n + 5) b)))))"

definition s103_Marshal :: "s103_fields \<Rightarrow> bytes result" where
  "s103_Marshal f = s103_MarshalTo f (replicate (s103_MarshalLen f) 0)"

text \<open>The bearer identities are assigned to the elements of a slice nobody has made.\<close>

definition s103_UnmarshalBinary :: "bytes \<Rightarrow> s103_fields result" where
  "s103_UnmarshalBinary b =
     (let l = length b in
      if l < 2 then eof
      else andThen (byte_at b 0) (\<lambda>b0.
        let n = unat b0 in
        if l < 1 + n then eof
        else andThen (slice b 1 (1 + n)) (\<lambda>a.
          if l < 1 + n + 4 then eof
          else andThen (get32 b (1 + n)) (\<lambda>key.
            andThen (byte_at b (1 + n + 4)) (\<lambda>num.
              if l < 1 + n + 5 + unat num then eof
              else if 0 < unat num then Inl (Panic IndexOutOfRange)
              else Inr \<lparr>s103_HSGWAddressForForwardingLength = b0, s103_HSGWAddressForForwarding = a,
                        s103_GREKey = key, s103_EPSBearerIDNumber = num, s103_EPSBearerIDs = []\<rparr>)))))"

definition NewS103PDNDataForwardingInfoNetIP :: "ip \<Rightarrow> u32 \<Rightarrow> bytes \<Rightarrow> ie option result" where
  "NewS103PDNDataForwardingInfoNetIP hsgwIP greKey ebis =
     or_nil (ie_New IE_S103PDNDataForwardingInfo 0x00)
       (s103_Marshal (NewS103PDNDataForwardingInfoFields hsgwIP greKey ebis))"

definition NewS103PDNDataForwardingInfo :: "string \<Rightarrow> u32 \<Rightarrow> bytes \<Rightarrow> ie option result" where
  "NewS103PDNDataForwardingInfo hsgwAddr greKey ebis =
     or_nil (ie_New IE_S103PDNDataForwardingInfo 0x00)
       (s103_Marshal (NewS103PDNDataForwardingInfoFields (ParseIP hsgwAddr) greKey ebis))"

definition ie_S103PDNDataForwardingInfo :: "ie \<Rightarrow> s103_fields result" where
  "ie_S103PDNDataForwardingInfo i =
     (if ie_Type i = IE_S103PDNDataForwardingInfo then s103_UnmarshalBinary (ie_Payload i) else wrong_type i)"

definition ie_EBIs :: "ie \<Rightarrow> bytes result" where
  "ie_EBIs i =
     (let p = ie_Payload i in
      if ie_Type i \<noteq> IE_S103PDNDataForwardingInfo then wrong_type i
      else if length p < 1 then eof
      else andThen (byte_at p 0) (\<lambda>b0.
        andThen
          (if b0 = 4 then (if length p < 9 then eof else andThen (byte_at p 9) (\<lambda>n. Inr (n, 10)))
           else if b0 = 16 then (if length p < 21 then eof else andThen (byte_at p 21) (\<lambda>n. Inr (n, 22)))
           else Inl (Error IEErrMalformed))
          (\<lambda>(n, offset). Inr (take (unat n) (drop offset p)))))"

record s1u_fields =
  s1u_EPSBearerID :: byte
  s1u_ServingGWAddressLength :: byte
  s1u_ServingGWAddress :: ip
  s1u_ServingGWS1UTEID :: u32

definition NewS1UDataForwardingFields :: "byte \<Rightarrow> ip \<Rightarrow> u32 \<Rightarrow> s1u_fields" where
  "NewS1UDataForwardingFields ebi sgwAddr sgwTEID =
     (case stored_address sgwAddr of (n, a) \<Rightarrow>
       \<lparr>s1u_EPSBearerID = ebi, s1u_ServingGWAddressLength = n, s1u_ServingGWAddress = a,
        s1u_ServingGWS1UTEID = sgwTEID\<rparr>)"

definition s1u_MarshalLen :: "s1u_fields \<Rightarrow> nat" where
  "s1u_MarshalLen f = 2 + unat (s1u_ServingGWAddressLength f) + 4"

definition s1u_MarshalTo :: "s1u_fields \<Rightarrow> bytes \<Rightarrow> bytes result" where
  "s1u_MarshalTo f b =
     (let l = length b; n = unat (s1u_ServingGWAddressLength f) in
      if l < 2 then eof
      else andThen (write_at b 0 [s1u_EPSBearerID f AND 0x0f]) (\<lambda>b.
        andThen (write_at b 1 [s1u_ServingGWAddressLength f]) (\<lambda>b.
        if l < 2 + n then eof
        else andThen (copy_at b 2 (2 + n) (s1u_ServingGWAddress f)) (\<lambda>b.
          if l < 2 + n + 4 then eof
          else write_at b (2 + n) (be32 (s1u_ServingGWS1UTEID f))))))"

definition s1u_Marshal :: "s1u_fields \<Rightarrow> bytes result" where
  "s1u_Marshal f = s1u_MarshalTo f (replicate (s1u_MarshalLen f) 0)"

definition s1u_UnmarshalBinary :: "bytes \<Rightarrow> s1u_fields result" where
  "s1u_UnmarshalBinary b =
     (let l = length b in
      if l < 2 then eof
      else andThen (byte_at b 0) (\<lambda>b0. andThen (byte_at b 1) (\<lambda>b1.
        let n = unat b1 in
        if l < 2 + n then eof
        else andThen (slice b 2 (2 + n)) (\<lambda>a.
          if l < 2 + n + 4 then eof
          else andThen (get32 b (2 + n)) (\<lambda>teid.
            Inr \<lparr>s1u_EPSBearerID = b0 AND 0x0f, s1u_ServingGWAddressLength = b1,
                 s1u_ServingGWAddress = a, s1u_ServingGWS1UTEID = teid\<rparr>)))))"

definition NewS1UDataForwardingNetIP :: "byte \<Rightarrow> ip \<Rightarrow> u32 \<Rightarrow> ie option result" where
  "NewS1UDataForwardingNetIP ebi sgwIP sgwTEID =
     or_nil (ie_New IE_S1UDataForwarding 0x00) (s1u_Marshal (NewS1UDataForwardingFields ebi sgwIP sgwTEID))"

definition NewS1UDataForwarding :: "byte \<Rightarrow> string \<Rightarrow> u32 \<Rightarrow> ie option result" where
  "NewS1UDataForwarding ebi sgwAddr sgwTEID =
     or_nil (ie_New IE_S1UDataForwarding 0x00)
       (s1u_Marshal (NewS1UDataForwardingFields ebi (ParseIP sgwAddr) sgwTEID))"

definition ie_S1UDataForwarding :: "ie \<Rightarrow> s1u_fields result" where
  "ie_S1UDataForwarding i =
     (if ie_Type i = IE_S1UDataForwarding then s1u_UnmarshalBinary (ie_Payload i) else wrong_type i)"

section \<open>Round trips of addresses\<close>

lemma To4_nonempty: "To4 a \<noteq> [] \<Longrightarrow> length (To4 a) = 4" "To16 a \<noteq> [] \<Longrightarrow> length (To16 a) = 16"
  using To4_length [of a] To16_length [of a] by auto

lemma paa_Marshal_wire:
  "length v4 = 4 \<Longrightarrow> paa_Marshal (NewPDNAddressAllocationFields pdnTypeIPv4 v4 [] 0) = Inr (1 # v4)"
  "To16 v6 \<noteq> [] \<Longrightarrow> paa_Marshal (NewPDNAddressAllocationFields pdnTypeIPv6 [] v6 n) = Inr (2 # n # To16 v6)"
  "To16 v6 \<noteq> [] \<Longrightarrow> To4 v4 \<noteq> [] \<Longrightarrow>
     paa_Marshal (NewPDNAddressAllocationFields pdnTypeIPv4v6 v4 v6 n) = Inr (3 # n # To16 v6 @ To4 v4)"
proof -
  note d = paa_Marshal_def paa_MarshalTo_def paa_MarshalLen_def NewPDNAddressAllocationFields_def write_at_def copy_at_def
  show "length v4 = 4 \<Longrightarrow> paa_Marshal (NewPDNAddressAllocationFields pdnTypeIPv4 v4 [] 0) = Inr (1 # v4)"
    by (auto simp: d To4_4)
  show "To16 v6 \<noteq> [] \<Longrightarrow> paa_Marshal (NewPDNAddressAllocationFields pdnTypeIPv6 [] v6 n) = Inr (2 # n # To16 v6)"
    using To4_nonempty(2) [of v6] by (simp add: d)
  show "To16 v6 \<noteq> [] \<Longrightarrow> To4 v4 \<noteq> [] \<Longrightarrow>
     paa_Marshal (NewPDNAddressAllocationFields pdnTypeIPv4v6 v4 v6 n) = Inr (3 # n # To16 v6 @ To4 v4)"
    using To4_nonempty(2) [of v6] To4_nonempty(1) [of v4] by (simp add: d)
qed

lemma paa_Unmarshal_wire:
  "length v4 = 4 \<Longrightarrow> paa_UnmarshalBinary (1 # v4) = Inr (NewPDNAddressAllocationFields pdnTypeIPv4 v4 [] 0)"
  "length v6 = 16 \<Longrightarrow> paa_UnmarshalBinary (2 # n # v6) = Inr (NewPDNAddressAllocationFields pdnTypeIPv6 [] v6 n)"
  "length v6 = 16 \<Longrightarrow> length v4 = 4 \<Longrightarrow>
     paa_UnmarshalBinary (3 # n # v6 @ v4) = Inr (NewPDNAddressAllocationFields pdnTypeIPv4v6 v4 v6 n)"
  by (simp_all add: paa_UnmarshalBinary_def byte_at_def slice_def)

text \<open>
  PDN Address Allocation: an IPv4 address, an IPv6 address and its prefix length, and the pair of
  both come back from their elements. The accessor for the IPv6 address of such a pair, which its
  comment recommends, returns the IPv4 address in IPv6 form instead.
\<close>

lemma paa_roundtrip:
  assumes "To4 v4 \<noteq> []" "To4 v6 = []" "To16 v6 \<noteq> []"
  shows "(\<exists>i. NewPDNAddressAllocationNetIP v4 n = Inr (Some i) \<and> ie_IPv4 i = Inr (To4 v4)) \<and>
    (\<exists>i. NewPDNAddressAllocationNetIP v6 n = Inr (Some i) \<and> ie_IPv6 i = Inr (To16 v6) \<and>
       paa_UnmarshalBinary (ie_Payload i) = Inr (NewPDNAddressAllocationFields pdnTypeIPv6 [] (To16 v6) n)) \<and>
    (\<exists>i. NewPDNAddressAllocationDualNetIP v4 v6 n = Inr (Some i) \<and>
       paa_UnmarshalBinary (ie_Payload i) = Inr (NewPDNAddressAllocationFields pdnTypeIPv4v6 (To4 v4) (To16 v6) n) \<and>
       ie_IPv4 i = Inr (To4 v4) \<and> ie_IPv6 i = Inr (v4InV6Prefix @ To4 v4))"
proof (intro conjI)
  note len = To4_nonempty(1) [OF assms(1)] To4_nonempty(2) [OF assms(3)]
  note d = NewPDNAddressAllocationNetIP_def NewPDNAddressAllocationDualNetIP_def ie_IPv4_def ie_IPv6_def ie_IP_def
  have sel: "paa_PDNType (NewPDNAddressAllocationFields t a b p) = t"
      "paa_IPv4Address (NewPDNAddressAllocationFields t a b p) = a"
      "paa_IPv6Address (NewPDNAddressAllocationFields t a b p) = b" for t a b p
    by (simp_all add: NewPDNAddressAllocationFields_def)
  show "\<exists>i. NewPDNAddressAllocationNetIP v4 n = Inr (Some i) \<and> ie_IPv4 i = Inr (To4 v4)"
    using len assms by (simp add: d paa_Marshal_wire paa_Unmarshal_wire sel)
  show "\<exists>i. NewPDNAddressAllocationNetIP v6 n = Inr (Some i) \<and> ie_IPv6 i = Inr (To16 v6) \<and>
       paa_UnmarshalBinary (ie_Payload i) = Inr (NewPDNAddressAllocationFields pdnTypeIPv6 [] (To16 v6) n)"
    using len assms by (simp add: d paa_Marshal_wire paa_Unmarshal_wire sel)
  have "To16 (To4 v4) = v4InV6Prefix @ To4 v4" using len(1) by (simp add: To16_def)
  then show "\<exists>i. NewPDNAddressAllocationDualNetIP v4 v6 n = Inr (Some i) \<and>
       paa_UnmarshalBinary (ie_Payload i) = Inr (NewPDNAddressAllocationFields pdnTypeIPv4v6 (To4 v4) (To16 v6) n) \<and>
       ie_IPv4 i = Inr (To4 v4) \<and> ie_IPv6 i = Inr (v4InV6Prefix @ To4 v4)"
    using len assms by (simp add: d paa_Marshal_wire paa_Unmarshal_wire sel v4InV6Prefix_def)
qed

lemma paa_roundtrip_witness:
  "(\<exists>i. NewPDNAddressAllocationNetIP [10, 0, 0, 1] 64 = Inr (Some i) \<and> ie_IPv4 i = Inr [10, 0, 0, 1]) \<and>
   (\<exists>i. NewPDNAddressAllocationNetIP (0x20 # 1 # replicate 13 0 @ [1]) 64 = Inr (Some i) \<and>
       ie_IPv6 i = Inr (0x20 # 1 # replicate 13 0 @ [1]))"
proof -
  have "To4 [10, 0, 0, 1] = [10, 0, 0, 1]" "To16 (0x20 # 1 # replicate 13 0 @ [1]) = 0x20 # 1 # replicate 13 0 @ [1]"
    "To4 (0x20 # 1 # replicate 13 0 @ [1]) = []"
    by (simp_all add: To4_def To16_def v4InV6Prefix_def)
  with paa_roundtrip [of "[10, 0, 0, 1]" "0x20 # 1 # replicate 13 0 @ [1]" 64] show ?thesis by fastforce
qed

section \<open>Data forwarding\<close>

lemma stored_address_short:
  assumes "To16 a \<noteq> []"
  shows "\<exists>n x. stored_address a = (n, x) \<and> unat n = length x \<and> (n = 4 \<or> n = 16) \<and> x \<noteq> []"
  using To4_nonempty [of a] assms by (auto simp: stored_address_def)

lemma put_ebis_wire:
  "length old = length ebis \<Longrightarrow> put_ebis ebis (length pre) (pre @ old) = Inr (pre @ map (\<lambda>e. e AND 0x0f) ebis)"
proof (induction ebis arbitrary: pre old)
  case (Cons e ebis)
  then obtain x old' where old: "old = x # old'" "length old' = length ebis" by (cases old) auto
  have "put_ebis ebis (length (pre @ [e AND 0x0f])) ((pre @ [e AND 0x0f]) @ old') =
      Inr ((pre @ [e AND 0x0f]) @ map (\<lambda>e. e AND 0x0f) ebis)"
    using old(2) by (rule Cons.IH)
  then show ?case by (simp add: old(1) write_at_def)
qed simp

definition s103_wire :: "byte \<Rightarrow> ip \<Rightarrow> u32 \<Rightarrow> bytes \<Rightarrow> bytes" where
  "s103_wire n a key ebis = n # a @ be32 key @ of_nat (length ebis) # map (\<lambda>e. e AND 0x0f) ebis"

lemma s103_Marshal_wire:
  assumes "stored_address hsgw = (n, a)" "unat n = length a" "length ebis < 256"
  shows "s103_Marshal (NewS103PDNDataForwardingInfoFields hsgw key ebis) = Inr (s103_wire n a key ebis)"
proof -
  have m: "unat (of_nat (length ebis) :: byte) = length ebis" using assms(3) by (simp add: unat_of_nat)
  let ?m = "of_nat (length ebis) :: byte"
  let ?z = "\<lambda>k. replicate k (0 :: byte)"
  let ?b = "n # a @ be32 key @ [?m]"
  have room: "?z (6 + length a + length ebis) = 0 # ?z (length a) @ ?z 4 @ 0 # ?z (length ebis)"
    by (simp add: replicate_add [symmetric] replicate_app_Cons_same flip: replicate_Suc)
  have "copy_at (n # ?z (length a) @ r) 1 (1 + length a) a = Inr (n # a @ r)" for r by (simp add: copy_at_def)
  moreover have "write_at (n # a @ ?z 4 @ r) (1 + length a) (be32 key) = Inr (n # a @ be32 key @ r)" for r
    using write_at_append [of "?z 4" "be32 key" "n # a" r] by simp
  moreover have "write_at (n # a @ be32 key @ 0 # r) (1 + length a + 4) [?m] = Inr (?b @ r)" for r
    using write_at_append [of "[0]" "[?m]" "n # a @ be32 key" r] by (simp add: ac_simps)
  moreover have "put_ebis ebis (1 + length a + 5) (?b @ ?z (length ebis)) = Inr (?b @ map (\<lambda>e. e AND 0x0f) ebis)"
    using put_ebis_wire [of "?z (length ebis)" ebis ?b] by (simp add: ac_simps)
  moreover have "write_at (0 # r) 0 [n] = Inr (n # r)" for r by (simp add: write_at_def)
  ultimately have "s103_MarshalTo (NewS103PDNDataForwardingInfoFields hsgw key ebis)
      (0 # ?z (length a) @ ?z 4 @ 0 # ?z (length ebis)) = Inr (?b @ map (\<lambda>e. e AND 0x0f) ebis)"
    using assms(1,2) m
    by (simp add: s103_MarshalTo_def NewS103PDNDataForwardingInfoFields_def Let_def)
  then show ?thesis
    using assms m
    by (simp add: s103_Marshal_def s103_MarshalLen_def NewS103PDNDataForwardingInfoFields_def
        s103_wire_def room [symmetric] ac_simps)
qed

text \<open>
  S103 PDN Data Forwarding Info: from an element made of an address and of up to 255 bearers, at
  least one, the accessors read the address and the bearers, but the decoder of its fields panics:
  it assigns the bearers to the elements of an empty slice.
\<close>

lemma s103_own_output_panics:
  assumes "To16 hsgw \<noteq> []" "ebis \<noteq> []" "length ebis < 256"
  shows "\<exists>i. NewS103PDNDataForwardingInfoNetIP hsgw key ebis = Inr (Some i) \<and>
     ie_IP i = Inr (snd (stored_address hsgw)) \<and> ie_EBIs i = Inr (map (\<lambda>e. e AND 0x0f) ebis) \<and>
     ie_S103PDNDataForwardingInfo i = Inl (Panic IndexOutOfRange)"
proof -
  obtain n a where a: "stored_address hsgw = (n, a)" "unat n = length a" "n = 4 \<or> n = 16"
    using stored_address_short [OF assms(1)] by blast
  have m: "unat (of_nat (length ebis) :: byte) = length ebis" using assms(3) by (simp add: unat_of_nat)
  have "length ebis > 0" using assms(2) by simp
  let ?w = "s103_wire n a key ebis"
  have len: "length ?w = 6 + length a + length ebis" by (simp add: s103_wire_def)
  have at: "?w ! 0 = n" "?w ! Suc (length a + 4) = of_nat (length ebis)"
    "take (length a) (drop 1 ?w) = a" "drop (length a + 6) ?w = map (\<lambda>e. e AND 0x0f) ebis"
    using drop_append [of "length a + 6" "n # a @ be32 key @ [of_nat (length ebis)]"]
    by (simp_all add: s103_wire_def nth_append)
  have "s103_UnmarshalBinary ?w = Inl (Panic IndexOutOfRange)"
    using len at m a(2) \<open>length ebis > 0\<close>
    by (simp add: s103_UnmarshalBinary_def byte_at_def slice_def get32_def Let_def)
  moreover have "ie_EBIs (ie_New IE_S103PDNDataForwardingInfo 0x00 ?w) = Inr (map (\<lambda>e. e AND 0x0f) ebis)"
    using len at m a(2,3) by (auto simp: ie_EBIs_def byte_at_def Let_def)
  moreover have "ie_IP (ie_New IE_S103PDNDataForwardingInfo 0x00 ?w) = Inr a"
    using len at a(2,3) by (auto simp: ie_IP_def sized_address_def byte_at_def slice_def Let_def)
  ultimately show ?thesis
    using s103_Marshal_wire [OF a(1,2) assms(3)] a(1)
    by (simp add: NewS103PDNDataForwardingInfoNetIP_def ie_S103PDNDataForwardingInfo_def)
qed

lemma s103_own_output_panics_witness:
  "\<exists>i. NewS103PDNDataForwardingInfoNetIP [10, 0, 0, 1] 7 [5, 6] = Inr (Some i) \<and>
     ie_IP i = Inr [10, 0, 0, 1] \<and> ie_EBIs i = Inr [5, 6] \<and>
     ie_S103PDNDataForwardingInfo i = Inl (Panic IndexOutOfRange)"
  using s103_own_output_panics [of "[10, 0, 0, 1]" "[5, 6]" 7] by (simp add: To16_def stored_address_def To4_def)

text \<open>Exactly which bytes make the decoder panic: also those that end behind the GRE key.\<close>

lemma s103_panics_iff:
  "no_panic (s103_UnmarshalBinary b) \<longleftrightarrow>
     \<not> (2 \<le> length b \<and> (let n = unat (b ! 0) in length b = 5 + n \<or>
         (6 + n + unat (b ! (5 + n)) \<le> length b \<and> 0 < unat (b ! (5 + n)))))"
proof (cases "2 \<le> length b \<and> 5 + unat (b ! 0) < length b")
  case True
  then show ?thesis by (auto simp: s103_UnmarshalBinary_def byte_at_def slice_def get32_def Let_def)
next
  case False
  then show ?thesis
    by (cases "length b = 5 + unat (b ! 0)") (auto simp: s103_UnmarshalBinary_def byte_at_def slice_def get32_def Let_def)
qed

text \<open>The accessor for the bearers panics on an element that ends where their number should be.\<close>

lemma EBIs_panics_iff:
  "no_panic (ie_EBIs i) \<longleftrightarrow> \<not> (ie_Type i = IE_S103PDNDataForwardingInfo \<and>
     (ie_Payload i ! 0 = 4 \<and> length (ie_Payload i) = 9 \<or> ie_Payload i ! 0 = 16 \<and> length (ie_Payload i) = 21))"
  by (auto simp: ie_EBIs_def byte_at_def Let_def)

text \<open>S1-U Data Forwarding round trips, its bearer identity cut to four bits.\<close>

lemma s1u_roundtrip:
  assumes "To16 sgw \<noteq> []"
  shows "\<exists>i. NewS1UDataForwardingNetIP ebi sgw teid = Inr (Some i) \<and> ie_IP i = Inr (snd (stored_address sgw)) \<and>
     ie_S1UDataForwarding i = Inr (NewS1UDataForwardingFields (ebi AND 0x0f) sgw teid)"
proof -
  obtain n a where a: "stored_address sgw = (n, a)" "unat n = length a" "n = 4 \<or> n = 16"
    using stored_address_short [OF assms] by blast
  let ?w = "(ebi AND 0x0f) # n # a @ be32 teid"
  have "s1u_Marshal (NewS1UDataForwardingFields ebi sgw teid) = Inr ?w"
    using a by (simp add: s1u_Marshal_def s1u_MarshalTo_def s1u_MarshalLen_def NewS1UDataForwardingFields_def
        write_at_def copy_at_def Let_def)
  moreover have "s1u_UnmarshalBinary ?w = Inr (NewS1UDataForwardingFields (ebi AND 0x0f) sgw teid)"
    using a join32_be32 [of teid]
    by (simp add: s1u_UnmarshalBinary_def NewS1UDataForwardingFields_def byte_at_def slice_def get32_def nth_append
        be32_def Let_def)
  moreover have "ie_IP (ie_New IE_S1UDataForwarding 0x00 ?w) = Inr a"
    using a(2,3) by (auto simp: ie_IP_def sized_address_def byte_at_def slice_def Let_def)
  ultimately show ?thesis using a(1) by (simp add: NewS1UDataForwardingNetIP_def ie_S1UDataForwarding_def)
qed

end
