(* ===== verification/V2IEIdentities.thy ===== *)
theory V2IEIdentities
  imports V2IESimple
begin

text \<open>
  Identities and other structured elements of GTPv2: GUTI, FQ-CSID, User CSG Information and Trace
  Reference, which begin with a network code or a node, AMBR, RAN/NAS Cause and Paging and Service
  Information (\<open>guti.go\<close>, \<open>fq-csid.go\<close>, \<open>uci.go\<close>, \<open>trace-reference.go\<close>, \<open>ambr.go\<close>, \<open>ran-nas-cause.go\<close>,
  \<open>paging-and-service-information.go\<close>).
\<close>

section \<open>GUTI (guti.go)\<close>

record guti_fields =
  guti_MCC :: string
  guti_MNC :: string
  guti_MMEGroupID :: u16
  guti_MMECode :: byte
  guti_MTMSI :: u32

definition NewGUTIFields :: "string \<Rightarrow> string \<Rightarrow> u16 \<Rightarrow> byte \<Rightarrow> u32 \<Rightarrow> guti_fields" where
  "NewGUTIFields mcc mnc groupID code mTMSI =
     \<lparr>guti_MCC = mcc, guti_MNC = mnc, guti_MMEGroupID = groupID, guti_MMECode = code, guti_MTMSI = mTMSI\<rparr>"

definition guti_MarshalLen :: "guti_fields \<Rightarrow> nat" where
  "guti_MarshalLen f = 10"

text \<open>A network code that cannot be encoded ends the function without an error.\<close>

definition guti_MarshalTo :: "guti_fields \<Rightarrow> bytes \<Rightarrow> bytes result" where
  "guti_MarshalTo f b =
     (let l = length b in
      if l < 3 then eof
      else case EncodePLMN (guti_MCC f) (guti_MNC f) of
        Inl (Error e) \<Rightarrow> Inr b
      | Inl (Panic p) \<Rightarrow> Inl (Panic p)
      | Inr plmn \<Rightarrow>
          andThen (copy_at b 0 3 plmn) (\<lambda>b.
            if l < 10 then eof
            else andThen (write_at b 3 (be16 (guti_MMEGroupID f))) (\<lambda>b.
              andThen (write_at b 5 [guti_MMECode f]) (\<lambda>b. write_at b 6 (be32 (guti_MTMSI f))))))"

definition guti_Marshal :: "guti_fields \<Rightarrow> bytes result" where
  "guti_Marshal f = guti_MarshalTo f (replicate (guti_MarshalLen f) 0)"

text \<open>
  \<open>DecodePLMN\<close> gets the two bytes \<open>b[1:3]\<close> and slices them from 1 to 3, which Go allows up to the capacity: it
  reads the byte after them, which is one of \<open>b\<close> or, when \<open>b\<close> has three bytes, one behind them in
  the buffer they are a part of.
\<close>

definition guti_UnmarshalBinary :: "bytes \<Rightarrow> bytes \<Rightarrow> guti_fields result" where
  "guti_UnmarshalBinary behind b =
     (let l = length b in
      if l < 3 then eof
      else andThen (andThen (slice (b @ behind) 1 4) DecodePLMN) (\<lambda>(mcc, mnc).
        if l < 10 then eof
        else andThen (get16 b 3) (\<lambda>g. andThen (byte_at b 5) (\<lambda>c. andThen (get32 b 6) (\<lambda>t.
          Inr \<lparr>guti_MCC = mcc, guti_MNC = mnc, guti_MMEGroupID = g, guti_MMECode = c, guti_MTMSI = t\<rparr>)))))"

definition NewGUTI :: "string \<Rightarrow> string \<Rightarrow> u16 \<Rightarrow> byte \<Rightarrow> u32 \<Rightarrow> ie option result" where
  "NewGUTI mcc mnc groupID code mTMSI =
     or_nil (ie_New IE_GUTI 0x00) (guti_Marshal (NewGUTIFields mcc mnc groupID code mTMSI))"

definition ie_GUTI :: "bytes \<Rightarrow> ie \<Rightarrow> guti_fields result" where
  "ie_GUTI behind i =
     (if ie_Type i = IE_GUTI then guti_UnmarshalBinary behind (ie_Payload i) else wrong_type i)"

definition ie_MMEGroupID :: "ie \<Rightarrow> u16 result" where
  "ie_MMEGroupID i =
     (if ie_Type i = IE_GUTI
      then (if length (ie_Payload i) < 5 then eof else get16 (ie_Payload i) 3)
      else wrong_type i)"

definition ie_MMECode :: "ie \<Rightarrow> byte result" where
  "ie_MMECode i =
     (if ie_Type i = IE_GUTI
      then (if length (ie_Payload i) < 6 then eof else byte_at (ie_Payload i) 5)
      else wrong_type i)"

definition ie_MTMSI :: "ie \<Rightarrow> u32 result" where
  "ie_MTMSI i =
     (if ie_Type i = IE_GUTI
      then (if length (ie_Payload i) < 10 then eof else get32 (ie_Payload i) 6)
      else wrong_type i)"

section \<open>FQ-CSID (fq-csid.go)\<close>

abbreviation nodeIDIPv4 :: byte where "nodeIDIPv4 \<equiv> 0"
abbreviation nodeIDIPv6 :: byte where "nodeIDIPv6 \<equiv> 1"
abbreviation nodeIDOther :: byte where "nodeIDOther \<equiv> 2"

record fqcsid_fields =
  fq_NodeIDType :: byte
  fq_NumberOfCSIDs :: byte
  fq_NodeID :: bytes
  fq_CSIDs :: "u16 list"

text \<open>A node that is neither an address nor hexadecimal makes the constructor return nil.\<close>

definition NewFullyQualifiedCSIDFields :: "string \<Rightarrow> u16 list \<Rightarrow> fqcsid_fields option" where
  "NewFullyQualifiedCSIDFields nodeID csIDs =
     (let a = ParseIP nodeID;
          mk = (\<lambda>t node. Some \<lparr>fq_NodeIDType = t, fq_NumberOfCSIDs = of_nat (length csIDs),
                               fq_NodeID = node, fq_CSIDs = csIDs\<rparr>)
      in if a = [] then (case hex_DecodeString nodeID of Inr node \<Rightarrow> mk nodeIDOther node | Inl _ \<Rightarrow> None)
         else if To4 a \<noteq> [] then mk nodeIDIPv4 (To4 a)
         else mk nodeIDIPv6 a)"

definition fq_MarshalLen :: "fqcsid_fields \<Rightarrow> nat" where
  "fq_MarshalLen f =
     1 + (if fq_NodeIDType f \<in> {nodeIDIPv4, nodeIDOther} then 4 else if fq_NodeIDType f = nodeIDIPv6 then 16 else 0)
       + length (fq_CSIDs f) * 2"

text \<open>The loop over the identities stops, without an error, where the bytes end.\<close>

fun put_csids :: "u16 list \<Rightarrow> nat \<Rightarrow> bytes \<Rightarrow> bytes result" where
  "put_csids [] offset b = Inr b"
| "put_csids (csid # csids) offset b =
     (if length b < offset + 2 then Inr b
      else andThen (write_at b offset (be16 csid)) (put_csids csids (offset + 2)))"

definition fq_MarshalTo :: "fqcsid_fields \<Rightarrow> bytes \<Rightarrow> bytes result" where
  "fq_MarshalTo f b =
     (let l = length b; n = length (fq_NodeID f) in
      if l < 1 then eof
      else andThen (write_at b 0 [(push_bit 4 (fq_NodeIDType f) AND 0xf0) OR (fq_NumberOfCSIDs f AND 0x0f)]) (\<lambda>b.
        if l < 1 + n then eof
        else andThen (copy_at b 1 (1 + n) (fq_NodeID f)) (put_csids (fq_CSIDs f) (1 + n))))"

definition fq_Marshal :: "fqcsid_fields \<Rightarrow> bytes result" where
  "fq_Marshal f = fq_MarshalTo f (replicate (fq_MarshalLen f) 0)"

fun get_csids :: "bytes \<Rightarrow> u16 list" where
  "get_csids (x # y # r) = join16 x y # get_csids r"
| "get_csids _ = []"

definition fq_UnmarshalBinary :: "bytes \<Rightarrow> fqcsid_fields result" where
  "fq_UnmarshalBinary b =
     (let l = length b in
      if l < 1 then eof
      else andThen (byte_at b 0) (\<lambda>b0.
        let t = drop_bit 4 b0 AND 0x0f;
            mk = (\<lambda>n. if l < 1 + n then eof
              else andThen (slice b 1 (1 + n)) (\<lambda>node. andThen (slice_from b (1 + n)) (\<lambda>r.
                Inr \<lparr>fq_NodeIDType = t, fq_NumberOfCSIDs = b0 AND 0x0f, fq_NodeID = node, fq_CSIDs = get_csids r\<rparr>)))
        in if t \<in> {nodeIDIPv4, nodeIDOther} then mk 4
           else if t = nodeIDIPv6 then mk 16
           else Inl (Error IEErrMalformed)))"

text \<open>\<open>NewFullyQualifiedCSID\<close> marshals the fields without looking whether they are nil.\<close>

definition NewFullyQualifiedCSID :: "string \<Rightarrow> u16 list \<Rightarrow> ie option result" where
  "NewFullyQualifiedCSID nodeID csIDs =
     or_nil (ie_New IE_FullyQualifiedCSID 0x00)
       (case NewFullyQualifiedCSIDFields nodeID csIDs of
          Some v \<Rightarrow> fq_Marshal v
        | None \<Rightarrow> Inl (Panic NilDereference))"

definition ie_FullyQualifiedCSID :: "ie \<Rightarrow> fqcsid_fields result" where
  "ie_FullyQualifiedCSID i =
     (if ie_Type i = IE_FullyQualifiedCSID then fq_UnmarshalBinary (ie_Payload i) else wrong_type i)"

definition ie_NodeIDType :: "ie \<Rightarrow> byte result" where
  "ie_NodeIDType i =
     (if length (ie_Payload i) < 1 then eof
      else if ie_Type i = IE_FullyQualifiedCSID
      then andThen (byte_at (ie_Payload i) 0) (\<lambda>b. Inr (drop_bit 4 b AND 0x0f))
      else wrong_type i)"

definition ie_NodeID :: "ie \<Rightarrow> bytes result" where
  "ie_NodeID i =
     (let p = ie_Payload i in
      if length p < 1 then eof
      else if ie_Type i = IE_FullyQualifiedCSID then
        andThen (byte_at p 0) (\<lambda>b.
          let t = drop_bit 4 b AND 0x0f in
          if t \<in> {nodeIDIPv4, nodeIDOther} then (if length p < 6 then eof else slice p 1 5)
          else if t = nodeIDIPv6 then (if length p < 18 then eof else slice p 1 17)
          else Inl (Error IEErrMalformed))
      else wrong_type i)"

definition ie_CSIDs :: "ie \<Rightarrow> u16 list result" where
  "ie_CSIDs i =
     (let p = ie_Payload i in
      if length p < 1 then eof
      else if ie_Type i = IE_FullyQualifiedCSID then
        andThen (byte_at p 0) (\<lambda>b.
          let t = drop_bit 4 b AND 0x0f in
          if t \<in> {nodeIDIPv4, nodeIDOther} then Inr (get_csids (drop 5 p))
          else if t = nodeIDIPv6 then Inr (get_csids (drop 17 p))
          else Inl (Error IEErrMalformed))
      else wrong_type i)"

section \<open>User CSG Information (uci.go)\<close>

record uci_fields =
  uci_MCC :: string
  uci_MNC :: string
  uci_CSGID :: u32
  uci_AccessMode :: byte
  uci_Flags :: byte

definition NewUserCSGInformationFields ::
  "string \<Rightarrow> string \<Rightarrow> u32 \<Rightarrow> byte \<Rightarrow> byte \<Rightarrow> byte \<Rightarrow> uci_fields" where
  "NewUserCSGInformationFields mcc mnc csgID mode lcsg cmi =
     \<lparr>uci_MCC = mcc, uci_MNC = mnc, uci_CSGID = csgID, uci_AccessMode = mode,
      uci_Flags = (push_bit 1 lcsg AND 0x02) OR (cmi AND 0x01)\<rparr>"

definition uci_MarshalLen :: "uci_fields \<Rightarrow> nat" where
  "uci_MarshalLen f = 8"

definition uci_MarshalTo :: "uci_fields \<Rightarrow> bytes \<Rightarrow> bytes result" where
  "uci_MarshalTo f b =
     (let l = length b in
      if l < 3 then eof
      else andThen (EncodePLMN (uci_MCC f) (uci_MNC f)) (\<lambda>plmn.
        andThen (copy_at b 0 3 plmn) (\<lambda>b.
          if l < 8 then eof
          else andThen (write_at b 3 (be32 (uci_CSGID f AND 0x7ffffff))) (\<lambda>b.
            write_at b 7 [push_bit 6 (uci_AccessMode f AND 0x03) OR uci_Flags f]))))"

definition uci_Marshal :: "uci_fields \<Rightarrow> bytes result" where
  "uci_Marshal f = uci_MarshalTo f (replicate (uci_MarshalLen f) 0)"

definition uci_UnmarshalBinary :: "bytes \<Rightarrow> uci_fields result" where
  "uci_UnmarshalBinary b =
     (let l = length b in
      if l < 3 then eof
      else andThen (andThen (slice b 0 3) DecodePLMN) (\<lambda>(mcc, mnc).
        if l < 7 then eof
        else andThen (get32 b 3) (\<lambda>csg. andThen (byte_at b 7) (\<lambda>b7.
          Inr \<lparr>uci_MCC = mcc, uci_MNC = mnc, uci_CSGID = csg AND 0x7ffffff,
               uci_AccessMode = drop_bit 6 b7, uci_Flags = b7 AND 0x03\<rparr>))))"

definition NewUserCSGInformation :: "string \<Rightarrow> string \<Rightarrow> u32 \<Rightarrow> byte \<Rightarrow> byte \<Rightarrow> byte \<Rightarrow> ie option result" where
  "NewUserCSGInformation mcc mnc csgID mode lcsg cmi =
     or_nil (ie_New IE_UserCSGInformation 0x00)
       (uci_Marshal (NewUserCSGInformationFields mcc mnc csgID mode lcsg cmi))"

definition ie_UserCSGInformation :: "ie \<Rightarrow> uci_fields result" where
  "ie_UserCSGInformation i =
     (if ie_Type i = IE_UserCSGInformation then uci_UnmarshalBinary (ie_Payload i) else wrong_type i)"

definition ie_AccessMode :: "ie \<Rightarrow> byte result" where
  "ie_AccessMode i =
     (if ie_Type i = IE_UserCSGInformation then
        (if length (ie_Payload i) < 8 then eof
         else andThen (byte_at (ie_Payload i) 7) (\<lambda>b. Inr (drop_bit 6 b)))
      else wrong_type i)"

section \<open>Trace Reference (trace-reference.go)\<close>

record trace_fields =
  tr_MCC :: string
  tr_MNC :: string
  tr_TraceID :: u32

definition NewTraceReferenceFields :: "string \<Rightarrow> string \<Rightarrow> u32 \<Rightarrow> trace_fields" where
  "NewTraceReferenceFields mcc mnc traceID = \<lparr>tr_MCC = mcc, tr_MNC = mnc, tr_TraceID = traceID\<rparr>"

definition tr_MarshalLen :: "trace_fields \<Rightarrow> nat" where
  "tr_MarshalLen f = 6"

definition tr_MarshalTo :: "trace_fields \<Rightarrow> bytes \<Rightarrow> bytes result" where
  "tr_MarshalTo f b =
     (let l = length b in
      if l < 3 then eof
      else andThen (EncodePLMN (tr_MCC f) (tr_MNC f)) (\<lambda>plmn.
        andThen (copy_at b 0 3 plmn) (\<lambda>b.
          if l < 6 then eof else copy_at b 3 6 (Uint32To24 (tr_TraceID f)))))"

definition tr_Marshal :: "trace_fields \<Rightarrow> bytes result" where
  "tr_Marshal f = tr_MarshalTo f (replicate (tr_MarshalLen f) 0)"

definition tr_UnmarshalBinary :: "bytes \<Rightarrow> trace_fields result" where
  "tr_UnmarshalBinary b =
     (let l = length b in
      if l < 3 then eof
      else andThen (andThen (slice b 0 3) DecodePLMN) (\<lambda>(mcc, mnc).
        if l < 6 then eof
        else andThen (slice b 3 6) (\<lambda>t. Inr \<lparr>tr_MCC = mcc, tr_MNC = mnc, tr_TraceID = Uint24To32 t\<rparr>)))"

definition NewTraceReference :: "string \<Rightarrow> string \<Rightarrow> u32 \<Rightarrow> ie option result" where
  "NewTraceReference mcc mnc traceID =
     or_nil (ie_New IE_TraceReference 0x00) (tr_Marshal (NewTraceReferenceFields mcc mnc traceID))"

definition ie_TraceID :: "ie \<Rightarrow> u32 result" where
  "ie_TraceID i =
     (if ie_Type i \<in> {IE_TraceReference, IE_TraceInformation} then
        (if length (ie_Payload i) < 6 then eof
         else andThen (slice (ie_Payload i) 3 6) (\<lambda>t. Inr (Uint24To32 t)))
      else wrong_type i)"

section \<open>AMBR (ambr.go)\<close>

record ambr_fields =
  ambr_APNAMBRForUplink :: u32
  ambr_APNAMBRForDownlink :: u32

definition NewAggregateMaximumBitRateFields :: "u32 \<Rightarrow> u32 \<Rightarrow> ambr_fields" where
  "NewAggregateMaximumBitRateFields up down = \<lparr>ambr_APNAMBRForUplink = up, ambr_APNAMBRForDownlink = down\<rparr>"

definition ambr_MarshalLen :: "ambr_fields \<Rightarrow> nat" where
  "ambr_MarshalLen f = 8"

definition ambr_MarshalTo :: "ambr_fields \<Rightarrow> bytes \<Rightarrow> bytes result" where
  "ambr_MarshalTo f b =
     (if length b < 8 then eof
      else andThen (write_at b 0 (be32 (ambr_APNAMBRForUplink f))) (\<lambda>b.
        write_at b 4 (be32 (ambr_APNAMBRForDownlink f))))"

definition ambr_Marshal :: "ambr_fields \<Rightarrow> bytes result" where
  "ambr_Marshal f = ambr_MarshalTo f (replicate (ambr_MarshalLen f) 0)"

definition ambr_UnmarshalBinary :: "bytes \<Rightarrow> ambr_fields result" where
  "ambr_UnmarshalBinary b =
     (if length b < 8 then eof
      else andThen (get32 b 0) (\<lambda>up. andThen (get32 b 4) (\<lambda>down.
        Inr \<lparr>ambr_APNAMBRForUplink = up, ambr_APNAMBRForDownlink = down\<rparr>)))"

definition NewAggregateMaximumBitRate :: "u32 \<Rightarrow> u32 \<Rightarrow> ie option result" where
  "NewAggregateMaximumBitRate up down =
     or_nil (ie_New IE_AggregateMaximumBitRate 0x00) (ambr_Marshal (NewAggregateMaximumBitRateFields up down))"

definition ie_AggregateMaximumBitRate :: "ie \<Rightarrow> ambr_fields result" where
  "ie_AggregateMaximumBitRate i =
     (if ie_Type i = IE_AggregateMaximumBitRate then ambr_UnmarshalBinary (ie_Payload i) else wrong_type i)"

definition ie_AggregateMaximumBitRateUp :: "ie \<Rightarrow> u32 result" where
  "ie_AggregateMaximumBitRateUp i =
     (if ie_Type i \<noteq> IE_AggregateMaximumBitRate then wrong_type i
      else if length (ie_Payload i) < 4 then eof
      else get32 (ie_Payload i) 0)"

definition ie_AggregateMaximumBitRateDown :: "ie \<Rightarrow> u32 result" where
  "ie_AggregateMaximumBitRateDown i =
     (if ie_Type i \<noteq> IE_AggregateMaximumBitRate then wrong_type i
      else if length (ie_Payload i) < 8 then eof
      else get32 (ie_Payload i) 4)"

section \<open>RAN/NAS Cause (ran-nas-cause.go)\<close>

record ran_nas_fields =
  rn_ProtocolType :: byte
  rn_CauseType :: byte
  rn_Cause :: bytes

definition NewRANNASCauseFields :: "byte \<Rightarrow> byte \<Rightarrow> bytes \<Rightarrow> ran_nas_fields" where
  "NewRANNASCauseFields pType cType cause = \<lparr>rn_ProtocolType = pType, rn_CauseType = cType, rn_Cause = cause\<rparr>"

definition rn_MarshalLen :: "ran_nas_fields \<Rightarrow> nat" where
  "rn_MarshalLen f = 1 + length (rn_Cause f)"

definition rn_MarshalTo :: "ran_nas_fields \<Rightarrow> bytes \<Rightarrow> bytes result" where
  "rn_MarshalTo f b =
     (let l = length b in
      if l < 1 then eof
      else andThen (write_at b 0 [push_bit 4 (rn_ProtocolType f AND 0x0f) OR (rn_CauseType f AND 0x0f)]) (\<lambda>b.
        if l < 1 + length (rn_Cause f) then eof
        else copy_at b 1 (length b) (rn_Cause f)))"

definition rn_Marshal :: "ran_nas_fields \<Rightarrow> bytes result" where
  "rn_Marshal f = rn_MarshalTo f (replicate (rn_MarshalLen f) 0)"

definition rn_UnmarshalBinary :: "bytes \<Rightarrow> ran_nas_fields result" where
  "rn_UnmarshalBinary b =
     (if length b < 2 then eof
      else andThen (byte_at b 0) (\<lambda>b0. andThen (slice_from b 1) (\<lambda>cause.
        Inr \<lparr>rn_ProtocolType = drop_bit 4 (b0 AND 0xf0), rn_CauseType = b0 AND 0x0f, rn_Cause = cause\<rparr>)))"

definition NewRANNASCause :: "byte \<Rightarrow> byte \<Rightarrow> bytes \<Rightarrow> ie option result" where
  "NewRANNASCause pType cType cause =
     or_nil (ie_New IE_RANNASCause 0x00) (rn_Marshal (NewRANNASCauseFields pType cType cause))"

definition ie_RANNASCause :: "ie \<Rightarrow> ran_nas_fields result" where
  "ie_RANNASCause = in_bearer_context IE_RANNASCause (\<lambda>i. rn_UnmarshalBinary (ie_Payload i))"

section \<open>Paging and Service Information (paging-and-service-information.go)\<close>

record paging_fields =
  pg_EPSBearerID :: byte
  pg_Flags :: byte
  pg_PagingPolicyIndication :: byte

definition NewPagingAndServiceInformationFields :: "byte \<Rightarrow> byte \<Rightarrow> byte \<Rightarrow> paging_fields" where
  "NewPagingAndServiceInformationFields ebi flags ppi =
     \<lparr>pg_EPSBearerID = ebi AND 0x0f, pg_Flags = flags, pg_PagingPolicyIndication = ppi AND 0x7f\<rparr>"

definition pg_MarshalLen :: "paging_fields \<Rightarrow> nat" where
  "pg_MarshalLen f = 2 + (if has1stBit (pg_Flags f) then 1 else 0)"

definition pg_MarshalTo :: "paging_fields \<Rightarrow> bytes \<Rightarrow> bytes result" where
  "pg_MarshalTo f b =
     (let l = length b in
      if l < 2 then eof
      else andThen (write_at b 0 [pg_EPSBearerID f AND 0x0f]) (\<lambda>b. andThen (write_at b 1 [pg_Flags f]) (\<lambda>b.
        if has1stBit (pg_Flags f)
        then (if l < 3 then eof else write_at b 2 [pg_PagingPolicyIndication f AND 0x7f])
        else Inr b)))"

definition pg_Marshal :: "paging_fields \<Rightarrow> bytes result" where
  "pg_Marshal f = pg_MarshalTo f (replicate (pg_MarshalLen f) 0)"

text \<open>The decoder takes the flags from the first octet, which holds the bearer identity.\<close>

definition pg_UnmarshalBinary :: "bytes \<Rightarrow> paging_fields result" where
  "pg_UnmarshalBinary b =
     (let l = length b in
      if l < 2 then eof
      else andThen (byte_at b 0) (\<lambda>b0.
        if has1stBit b0 then
          (if l < 3 then eof
           else andThen (byte_at b 2) (\<lambda>b2.
             Inr \<lparr>pg_EPSBearerID = b0 AND 0x0f, pg_Flags = b0, pg_PagingPolicyIndication = b2 AND 0x7f\<rparr>))
        else Inr \<lparr>pg_EPSBearerID = b0 AND 0x0f, pg_Flags = b0, pg_PagingPolicyIndication = 0\<rparr>))"

definition NewPagingAndServiceInformation :: "byte \<Rightarrow> byte \<Rightarrow> byte \<Rightarrow> ie option result" where
  "NewPagingAndServiceInformation ebi flags ppi =
     or_nil (ie_New IE_PagingAndServiceInformation 0x00)
       (pg_Marshal (NewPagingAndServiceInformationFields ebi flags ppi))"

definition ie_PagingAndServiceInformation :: "ie \<Rightarrow> paging_fields result" where
  "ie_PagingAndServiceInformation i =
     (if ie_Type i = IE_PagingAndServiceInformation then pg_UnmarshalBinary (ie_Payload i) else wrong_type i)"

definition ie_PagingPolicyIndication :: "ie \<Rightarrow> byte result" where
  "ie_PagingPolicyIndication i =
     (if ie_Type i = IE_PagingAndServiceInformation then
        andThen (pg_UnmarshalBinary (ie_Payload i)) (\<lambda>f.
          if \<not> has1stBit (pg_Flags f) then Inl (Error IEErrIEValueNotFound)
          else Inr (pg_PagingPolicyIndication f))
      else wrong_type i)"

section \<open>Elements that begin with a network code\<close>

lemma network_bytes:
  assumes "plmn_ok mcc mnc"
  obtains x y z where "EncodePLMN mcc mnc = Inr [x, y, z]" "DecodePLMN [x, y, z] = Inr (mcc, mnc)"
proof -
  obtain b where b: "EncodePLMN mcc mnc = Inr b" "length b = 3" "DecodePLMN b = Inr (mcc, mnc)"
    using PLMN_roundtrip_aux [OF assms] by blast
  moreover obtain x y z where "b = [x, y, z]" using b(2) by (auto simp: numeral_eq_Suc length_Suc_conv)
  ultimately show thesis using that by blast
qed

lemma replicate_bytes:
  "replicate 6 (0 :: byte) = [0, 0, 0, 0, 0, 0]" "replicate 8 (0 :: byte) = [0, 0, 0, 0, 0, 0, 0, 0]"
  "replicate 10 (0 :: byte) = [0, 0, 0, 0, 0, 0, 0, 0, 0, 0]"
  by (simp_all add: eval_nat_numeral)

lemma guti_Marshal_wire:
  assumes "EncodePLMN mcc mnc = Inr [x, y, z]"
  shows "guti_Marshal (NewGUTIFields mcc mnc groupID code mTMSI) =
     Inr ([x, y, z] @ be16 groupID @ [code] @ be32 mTMSI)"
  using assms by (simp add: guti_Marshal_def guti_MarshalTo_def guti_MarshalLen_def NewGUTIFields_def
      replicate_bytes copy_at_def write_at_def be16_def be32_def)

text \<open>
  GUTI: the identity of the MME and the M-TMSI come back from a GUTI, and so does the network
  code from the accessors that read its first three bytes. The decoder of the fields reads it from one
  byte further on, so it takes the upper half of the group identity for a part of it.
\<close>

lemma guti_network_shifted:
  assumes "plmn_ok mcc mnc"
  shows "\<exists>i x y z. EncodePLMN mcc mnc = Inr [x, y, z] \<and>
     NewGUTI mcc mnc groupID code mTMSI = Inr (Some i) \<and>
     ie_MMEGroupID i = Inr groupID \<and> ie_MMECode i = Inr code \<and> ie_MTMSI i = Inr mTMSI \<and>
     ie_MCC i = Inr mcc \<and> ie_MNC i = Inr mnc \<and>
     ie_GUTI behind i = andThen (DecodePLMN [y, z, ucast (drop_bit 8 groupID)]) (\<lambda>(mcc', mnc').
       Inr (NewGUTIFields mcc' mnc' groupID code mTMSI))"
proof -
  obtain x y z where n: "EncodePLMN mcc mnc = Inr [x, y, z]" "DecodePLMN [x, y, z] = Inr (mcc, mnc)"
    using network_bytes [OF assms] .
  let ?i = "ie_New IE_GUTI 0x00 ([x, y, z] @ be16 groupID @ [code] @ be32 mTMSI)"
  have "ie_MMEGroupID ?i = Inr groupID" "ie_MMECode ?i = Inr code" "ie_MTMSI ?i = Inr mTMSI"
    by (simp_all add: ie_MMEGroupID_def ie_MMECode_def ie_MTMSI_def get16_def get32_def byte_at_def be16_def be32_def)
  moreover have "ie_MCC ?i = Inr mcc" "ie_MNC ?i = Inr mnc"
    using n(2) by (simp_all add: ie_MCC_def ie_MNC_def plmn_of_def slice_def)
  moreover have "ie_GUTI behind ?i = andThen (DecodePLMN [y, z, ucast (drop_bit 8 groupID)]) (\<lambda>(mcc', mnc').
       Inr (NewGUTIFields mcc' mnc' groupID code mTMSI))"
    by (simp add: ie_GUTI_def guti_UnmarshalBinary_def slice_def get16_def get32_def byte_at_def be16_def be32_def
        NewGUTIFields_def)
  ultimately show ?thesis
    using guti_Marshal_wire [OF n(1)] n(1) by (auto simp: NewGUTI_def)
qed

lemma guti_network_shifted_witness:
  "\<exists>i. NewGUTI ''440'' ''10'' 1 2 3 = Inr (Some i) \<and> ie_MCC i = Inr ''440'' \<and> ie_MNC i = Inr ''10'' \<and>
     ie_GUTI [] i = Inr (NewGUTIFields ''0f1'' ''000'' 1 2 3)"
proof -
  have "plmn_ok ''440'' ''10''" by (simp add: plmn_ok_def dec_digit_def)
  moreover have "EncodePLMN ''440'' ''10'' = Inr [68, 240, 1]" by code_simp
  moreover have "DecodePLMN [240, 1, 0] = Inr (''0f1'', ''000'')" by code_simp
  ultimately show ?thesis using guti_network_shifted [of "''440''" "''10''" 1 2 3 "[]"] by auto
qed

text \<open>A network code that is no hexadecimal number is replaced by ten zero bytes, without an error.\<close>

lemma guti_bad_network:
  "EncodePLMN mcc mnc = Inl (Error e) \<Longrightarrow>
     NewGUTI mcc mnc groupID code mTMSI = Inr (Some (ie_New IE_GUTI 0x00 (replicate 10 0)))"
  by (simp add: NewGUTI_def guti_Marshal_def guti_MarshalTo_def guti_MarshalLen_def NewGUTIFields_def)

text \<open>The decoder of a GUTI panics exactly for three bytes with nothing behind them.\<close>

lemma guti_panics_iff:
  "no_panic (guti_UnmarshalBinary behind b) \<longleftrightarrow> \<not> (length b = 3 \<and> behind = [])"
proof (cases "4 \<le> length b + length behind")
  case True
  then have "no_panic (andThen (slice (b @ behind) 1 4) DecodePLMN)"
    by (simp add: slice_def DecodePLMN_panics_iff)
  then show ?thesis using True
    by (auto simp: guti_UnmarshalBinary_def get16_def get32_def byte_at_def Let_def intro!: no_panic_andThen)
qed (auto simp: guti_UnmarshalBinary_def slice_def Let_def neq_Nil_conv)

text \<open>User CSG Information round trips but for the upper bits of its numbers; seven bytes make its decoder panic.\<close>

lemma uci_roundtrip:
  assumes "plmn_ok mcc mnc"
  shows "\<exists>i. NewUserCSGInformation mcc mnc csgID mode lcsg cmi = Inr (Some i) \<and>
     ie_UserCSGInformation i =
       Inr (NewUserCSGInformationFields mcc mnc (take_bit 27 csgID) (mode AND 0x03) lcsg cmi) \<and>
     ie_CSGID i = Inr (take_bit 27 csgID) \<and> ie_CMI i = Inr (cmi AND 0x01) \<and> ie_AccessMode i = Inr (mode AND 0x03)"
proof -
  obtain x y z where n: "EncodePLMN mcc mnc = Inr [x, y, z]" "DecodePLMN [x, y, z] = Inr (mcc, mnc)"
    using network_bytes [OF assms] .
  let ?fl = "(push_bit 1 lcsg AND 0x02) OR (cmi AND 0x01)"
  let ?o = "push_bit 6 (mode AND 0x03) OR ?fl"
  let ?w = "[x, y, z] @ be32 (take_bit 27 csgID) @ [?o]"
  have o: "drop_bit 6 ?o = mode AND 0x03" "?o AND 0x03 = ?fl" "?o AND 0x01 = cmi AND 0x01"
    by (rule byte_eqI; auto simp: bit_simps byte_bit_high)+
  have "uci_Marshal (NewUserCSGInformationFields mcc mnc csgID mode lcsg cmi) = Inr ?w"
    using n(1) by (simp add: uci_Marshal_def uci_MarshalTo_def uci_MarshalLen_def NewUserCSGInformationFields_def
        replicate_bytes copy_at_def write_at_def be32_def csg_mask)
  moreover have "uci_UnmarshalBinary ?w =
      Inr (NewUserCSGInformationFields mcc mnc (take_bit 27 csgID) (mode AND 0x03) lcsg cmi)"
    using n(2) o(1,2) join32_be32 [of "take_bit 27 csgID"]
    by (simp add: uci_UnmarshalBinary_def NewUserCSGInformationFields_def slice_def get32_def byte_at_def be32_def csg_mask)
  moreover have "ie_CSGID (ie_New IE_UserCSGInformation 0x00 ?w) = Inr (take_bit 27 csgID)"
    "ie_CMI (ie_New IE_UserCSGInformation 0x00 ?w) = Inr (cmi AND 0x01)"
    "ie_AccessMode (ie_New IE_UserCSGInformation 0x00 ?w) = Inr (mode AND 0x03)"
    using o(1,3) join32_be32 [of "take_bit 27 csgID"]
    by (simp_all add: ie_CSGID_def ie_CMI_def ie_AccessMode_def get32_def byte_at_def be32_def csg_mask)
  ultimately show ?thesis by (simp add: NewUserCSGInformation_def ie_UserCSGInformation_def)
qed

lemma uci_panics_iff: "no_panic (uci_UnmarshalBinary b) \<longleftrightarrow> length b \<noteq> 7"
proof (cases "3 \<le> length b")
  case True
  then have "\<exists>v. andThen (slice b 0 3) DecodePLMN = Inr v"
    by (auto simp: slice_def numeral_eq_Suc Suc_le_length_iff DecodePLMN_3bytes [simplified])
  then show ?thesis using True by (auto simp: uci_UnmarshalBinary_def get32_def byte_at_def Let_def)
qed (auto simp: uci_UnmarshalBinary_def)

text \<open>Trace Reference round trips, its identity cut to 24 bits.\<close>

lemma trace_roundtrip:
  assumes "plmn_ok mcc mnc"
  shows "\<exists>i. NewTraceReference mcc mnc traceID = Inr (Some i) \<and> ie_TraceID i = Inr (take_bit 24 traceID) \<and>
     tr_UnmarshalBinary (ie_Payload i) = Inr (NewTraceReferenceFields mcc mnc (take_bit 24 traceID))"
proof -
  obtain x y z where n: "EncodePLMN mcc mnc = Inr [x, y, z]" "DecodePLMN [x, y, z] = Inr (mcc, mnc)"
    using network_bytes [OF assms] .
  obtain p q r where t: "Uint32To24 traceID = [p, q, r]" by (simp add: Uint32To24_def)
  have u: "Uint24To32 [p, q, r] = take_bit 24 traceID" using Uint24To32_Uint32To24 [of traceID] by (simp only: t)
  have "tr_Marshal (NewTraceReferenceFields mcc mnc traceID) = Inr [x, y, z, p, q, r]"
    using n(1) by (simp add: tr_Marshal_def tr_MarshalTo_def tr_MarshalLen_def NewTraceReferenceFields_def
        replicate_bytes copy_at_def t)
  then show ?thesis
    using n(2) u by (simp add: NewTraceReference_def ie_TraceID_def tr_UnmarshalBinary_def slice_def NewTraceReferenceFields_def)
qed

section \<open>FQ-CSID\<close>

lemma put_csids_wire:
  "length old = 2 * length csids \<Longrightarrow>
     put_csids csids (length pre) (pre @ old) = Inr (pre @ concat (map be16 csids))"
proof (induction csids arbitrary: pre old)
  case (Cons c csids)
  then obtain x y old' where old: "old = x # y # old'" "length old' = 2 * length csids"
    by (auto simp: length_Suc_conv)
  have "put_csids csids (length (pre @ be16 c)) ((pre @ be16 c) @ old') =
      Inr ((pre @ be16 c) @ concat (map be16 csids))"
    using old(2) by (rule Cons.IH)
  moreover have "write_at (pre @ x # y # old') (length pre) (be16 c) = Inr (pre @ be16 c @ old')"
    using write_at_append [of "[x, y]" "be16 c" pre old'] by simp
  ultimately show ?case by (simp add: old(1))
qed simp

lemma get_csids_wire [simp]: "get_csids (concat (map be16 csids)) = csids"
proof (induction csids)
  case (Cons c csids)
  then show ?case using join16_be16 [of c] by (simp add: be16_def)
qed simp

lemma fq_head:
  fixes t n :: byte
  assumes "t < 16" "n < 16"
  defines "h \<equiv> (push_bit 4 t AND 0xf0) OR (n AND 0x0f)"
  shows "drop_bit 4 h AND 0x0f = t" "h AND 0x0f = n"
proof -
  have "drop_bit 4 h AND 0x0f = t AND 0x0f" "h AND 0x0f = n AND 0x0f"
    by (rule byte_eqI; auto simp: h_def bit_simps byte_bit_high)+
  moreover have "t AND 0x0f = t" "n AND 0x0f = n"
    using less_mask_eq [of t 4] less_mask_eq [of n 4] assms(1,2) by (simp_all add: mask_eq_exp_minus_1)
  ultimately show "drop_bit 4 h AND 0x0f = t" "h AND 0x0f = n" by simp_all
qed

text \<open>
  FQ-CSID: for a node that is an address, or four bytes in hexadecimal, the fields with up to 15
  identities come back from the element made of them; the accessor of the node alone refuses an
  element without identities.
\<close>

lemma fqcsid_roundtrip:
  assumes "NewFullyQualifiedCSIDFields nodeID csIDs = Some f" "length csIDs < 16"
    and "length (fq_NodeID f) = (if fq_NodeIDType f = nodeIDIPv6 then 16 else 4)"
  shows "\<exists>i. NewFullyQualifiedCSID nodeID csIDs = Inr (Some i) \<and> ie_FullyQualifiedCSID i = Inr f \<and>
     ie_NodeIDType i = Inr (fq_NodeIDType f) \<and> ie_CSIDs i = Inr csIDs \<and>
     ie_NodeID i = (if csIDs = [] then eof else Inr (fq_NodeID f))"
proof -
  obtain t node where f: "f = \<lparr>fq_NodeIDType = t, fq_NumberOfCSIDs = of_nat (length csIDs), fq_NodeID = node,
      fq_CSIDs = csIDs\<rparr>" and t: "t \<in> {nodeIDIPv4, nodeIDIPv6, nodeIDOther}"
    using assms(1) by (auto simp: NewFullyQualifiedCSIDFields_def Let_def split: if_splits sum.splits)
  have len: "length node = (if t = nodeIDIPv6 then 16 else 4)" using assms(3) by (simp add: f)
  let ?n = "of_nat (length csIDs) :: byte"
  define h where "h = (push_bit 4 t AND 0xf0) OR (?n AND 0x0f)"
  let ?w = "h # node @ concat (map be16 csIDs)"
  have "?n < 16" using assms(2) by (simp add: word_less_nat_alt unat_of_nat)
  moreover have "t < 16" using t by auto
  ultimately have h: "drop_bit 4 h AND 0x0f = t" "h AND 0x0f = ?n"
    unfolding h_def by (simp_all only: fq_head)
  have "length (concat (map be16 csIDs)) = 2 * length csIDs" by (induction csIDs) simp_all
  note len = len this
  have "fq_MarshalLen f = 1 + length node + 2 * length csIDs"
    using t len by (auto simp: fq_MarshalLen_def f)
  moreover have "put_csids csIDs (1 + length node) ((h # node) @ replicate (2 * length csIDs) 0) = Inr ?w"
    using put_csids_wire [of "replicate (2 * length csIDs) 0" csIDs "h # node"] by simp
  ultimately have "fq_Marshal f = Inr ?w"
    by (simp add: fq_Marshal_def fq_MarshalTo_def f write_at_def copy_at_def replicate_add Let_def flip: h_def)
  moreover have "fq_UnmarshalBinary ?w = Inr f"
    using t h len by (auto simp: fq_UnmarshalBinary_def f byte_at_def slice_def slice_from_def Let_def)
  moreover have "ie_NodeIDType (ie_New IE_FullyQualifiedCSID 0x00 ?w) = Inr t"
    "ie_CSIDs (ie_New IE_FullyQualifiedCSID 0x00 ?w) = Inr csIDs"
    "ie_NodeID (ie_New IE_FullyQualifiedCSID 0x00 ?w) = (if csIDs = [] then eof else Inr node)"
    using t h len
    by (auto simp: ie_NodeIDType_def ie_CSIDs_def ie_NodeID_def byte_at_def slice_def Let_def)
  ultimately show ?thesis
    using assms(1) by (simp add: NewFullyQualifiedCSID_def ie_FullyQualifiedCSID_def f)
qed

lemma fqcsid_roundtrip_witness:
  "\<exists>i f. NewFullyQualifiedCSID ''0a0b0c0d'' [1, 2] = Inr (Some i) \<and> ie_FullyQualifiedCSID i = Inr f \<and>
     fq_NodeID f = [10, 11, 12, 13] \<and> ie_CSIDs i = Inr [1, 2]"
proof -
  have f: "NewFullyQualifiedCSIDFields ''0a0b0c0d'' [1, 2] = Some \<lparr>fq_NodeIDType = 2, fq_NumberOfCSIDs = 2,
      fq_NodeID = [10, 11, 12, 13], fq_CSIDs = [1, 2]\<rparr>" by code_simp
  from fqcsid_roundtrip [OF f] show ?thesis by force
qed

text \<open>A node that is neither an address nor a hexadecimal number makes the constructor panic.\<close>

lemma fqcsid_bad_node_panics:
  assumes "ParseIP nodeID = []" "hex_DecodeString nodeID = Inl e"
  shows "NewFullyQualifiedCSID nodeID csIDs = Inl (Panic NilDereference)"
  using assms by (simp add: NewFullyQualifiedCSID_def NewFullyQualifiedCSIDFields_def or_nil_def)

section \<open>AMBR, RAN/NAS Cause\<close>

lemma ambr_roundtrip:
  "\<exists>i. NewAggregateMaximumBitRate up down = Inr (Some i) \<and>
     ie_AggregateMaximumBitRate i = Inr (NewAggregateMaximumBitRateFields up down) \<and>
     ie_AggregateMaximumBitRateUp i = Inr up \<and> ie_AggregateMaximumBitRateDown i = Inr down"
  by (simp add: NewAggregateMaximumBitRate_def ambr_Marshal_def ambr_MarshalTo_def ambr_MarshalLen_def replicate_bytes
      write_at_def be32_def NewAggregateMaximumBitRateFields_def ie_AggregateMaximumBitRate_def ambr_UnmarshalBinary_def
      get32_def ie_AggregateMaximumBitRateUp_def ie_AggregateMaximumBitRateDown_def)

lemma ran_nas_roundtrip:
  assumes "pType < 16" "cType < 16"
  shows "\<exists>i. NewRANNASCause pType cType cause = Inr (Some i) \<and>
     ie_RANNASCause i = (if cause = [] then eof else Inr (NewRANNASCauseFields pType cType cause))"
proof -
  define h where "h = push_bit 4 (pType AND 0x0f) OR (cType AND 0x0f)"
  have "drop_bit 4 (h AND 0xf0) = pType AND 0x0f" "h AND 0x0f = cType AND 0x0f"
    by (rule byte_eqI; auto simp: h_def bit_simps byte_bit_high)+
  moreover have "pType AND 0x0f = pType" "cType AND 0x0f = cType"
    using less_mask_eq [of pType 4] less_mask_eq [of cType 4] assms by (simp_all add: mask_eq_exp_minus_1)
  ultimately have h: "drop_bit 4 (h AND 0xf0) = pType" "h AND 0x0f = cType" by simp_all
  have "rn_Marshal (NewRANNASCauseFields pType cType cause) = Inr (h # cause)"
    by (simp add: rn_Marshal_def rn_MarshalTo_def rn_MarshalLen_def NewRANNASCauseFields_def write_at_def copy_at_def h_def)
  then show ?thesis
    by (cases cause) (simp_all add: NewRANNASCause_def ie_RANNASCause_def in_bearer_context_def
        NewRANNASCauseFields_def h h(1) [simplified] rn_UnmarshalBinary_def byte_at_def slice_from_def slice_def)
qed

section \<open>Paging and Service Information\<close>

lemma pg_Marshal_wire:
  "pg_Marshal (NewPagingAndServiceInformationFields ebi flags ppi) =
     Inr (if bit flags 0 then [ebi AND 0x0f, flags, ppi AND 0x7f] else [ebi AND 0x0f, flags])"
  by (simp add: pg_Marshal_def pg_MarshalTo_def pg_MarshalLen_def NewPagingAndServiceInformationFields_def write_at_def
      eval_nat_numeral Let_def)

text \<open>
  Paging and Service Information: whether the decoder finds a paging policy depends on the lowest
  bit of the bearer identity and not on the flag the element was made with. With an odd bearer
  an element without policy is refused, with an even one the policy of an element is not found.
\<close>

lemma paging_policy_depends_on_bearer:
  "(\<exists>i. NewPagingAndServiceInformation ebi flags ppi = Inr (Some i) \<and>
     ie_PagingPolicyIndication i =
       (if \<not> bit ebi 0 then Inl (Error IEErrIEValueNotFound)
        else if bit flags 0 then Inr (ppi AND 0x7f) else eof))"
proof -
  have "bit (ebi AND 0x0f) 0 = bit ebi 0" by (simp add: bit_simps)
  moreover have "ppi AND 0x7f AND 0x7f = ppi AND 0x7f" by simp
  ultimately show ?thesis
    by (auto simp: NewPagingAndServiceInformation_def pg_Marshal_wire ie_PagingPolicyIndication_def
        pg_UnmarshalBinary_def byte_at_def Let_def)
qed

end
