(* ===== verification/V1Relay.thy ===== *)
theory V1Relay
  imports V1UPlaneRun
begin

text \<open>
  The deprecated relay between two user plane connections (\<open>src/gtpv1/relay.go\<close>): two goroutines
  that read decapsulated packets from one connection and write them, under the TEID of the peer, to the
  other. \<open>relay_round\<close> is one turn of such a loop. The theorem compares it with the
  replacement the comments recommend, \<open>RelayTo\<close>, which forwards datagrams as they are.
\<close>

section \<open>The relay\<close>

text \<open>A peer has no connection of its own here, the one to write to is the other side.\<close>

record relay =
  rl_leftConn :: nat
  rl_rightConn :: nat
  rl_teidPair :: "(u32 \<times> u32 \<times> addr) list"
  rl_closed :: bool

definition NewRelay :: "nat \<Rightarrow> nat \<Rightarrow> relay" where
  "NewRelay leftConn rightConn =
     \<lparr>rl_leftConn = leftConn, rl_rightConn = rightConn, rl_teidPair = [], rl_closed = False\<rparr>"

definition AddPeer :: "u32 \<Rightarrow> u32 \<Rightarrow> addr \<Rightarrow> relay \<Rightarrow> relay" where
  "AddPeer teidIn teidOut raddr r = r\<lparr>rl_teidPair := relay_store (rl_teidPair r) teidIn (teidOut, raddr)\<rparr>"

definition getPeer :: "relay \<Rightarrow> u32 \<Rightarrow> (u32 \<times> addr) option" where
  "getPeer r teid = relay_load (rl_teidPair r) teid"

text \<open>
  Closing sets a deadline on both sockets first, which may fail (\<open>ok\<close> says which attempts do not), and
  then closes a channel, which panics the second time.
\<close>

definition relay_Close :: "bool \<times> bool \<Rightarrow> relay \<Rightarrow> unit result \<times> relay" where
  "relay_Close ok r =
     (if \<not> fst ok \<or> \<not> snd ok then (Inl (Error NetError), r)
      else if rl_closed r then (Inl (Panic CloseOfClosedChannel), r)
      else (Inr (), r\<lparr>rl_closed := True\<rparr>))"

text \<open>
  One turn of the loop from \<open>src\<close> to \<open>dst\<close>: \<open>None\<close> when it has ended or blocks in \<open>ReadFromGTP\<close>, whose
  choice among the waiting packets is \<open>choice\<close>. Packets of unknown TEIDs and failed writes are skipped.
\<close>

definition relay_turn :: "uenv \<Rightarrow> nat \<Rightarrow> nat \<Rightarrow> nat option \<Rightarrow> relay \<Rightarrow> uworld \<Rightarrow> (unit result \<times> uworld) option" where
  "relay_turn env src dst choice r w =
     (if rl_closed r then None
      else case ReadFromGTP choice 1600 src w of
        None \<Rightarrow> None
      | Some ((buf, _, teid), w) \<Rightarrow>
          (case getPeer r teid of
             None \<Rightarrow> Some (Inr (), w)
           | Some (teidOut, raddr) \<Rightarrow>
               (case WriteToGTP env dst teidOut buf raddr w of
                  (Inl (Panic p), w) \<Rightarrow> Some (Inl (Panic p), w)
                | (_, w) \<Rightarrow> Some (Inr (), w))))"

definition relay_round :: "uenv \<Rightarrow> bool \<Rightarrow> nat option \<Rightarrow> relay \<Rightarrow> uworld \<Rightarrow> (unit result \<times> uworld) option" where
  "relay_round env to_right choice r =
     (if to_right then relay_turn env (rl_leftConn r) (rl_rightConn r) choice r
      else relay_turn env (rl_rightConn r) (rl_leftConn r) choice r)"

section \<open>Lemmas\<close>

lemma relay_peers:
  "getPeer (AddPeer teidIn teidOut raddr r) teid = (if teid = teidIn then Some (teidOut, raddr) else getPeer r teid)"
  by (simp add: getPeer_def AddPeer_def relay_map.load_store)

text \<open>A turn never panics: the packets are marshalled.\<close>

lemma WriteToGTP_no_panic: "no_panic (fst (WriteToGTP env u teid p a w))"
  using v1_tpdu_total [of "Encapsulate teid p"]
  by (auto simp: WriteToGTP_def v1_TPDU_Marshal_def u_WriteTo_def)

lemma relay_round_no_panic: "relay_round env d choice r w = Some (res, w') \<Longrightarrow> no_panic res"
proof -
  have "WriteToGTP env u teid p a w1 \<noteq> (Inl (Panic q), w2)" for u teid p a w1 w2 q
    using WriteToGTP_no_panic [of env u teid p a w1] by auto
  then have "relay_turn env src dst choice r w = Some (res, w') \<Longrightarrow> no_panic res" for src dst
    by (auto simp: relay_turn_def split: if_splits option.splits prod.splits sum.splits failure.splits)
  then show "relay_round env d choice r w = Some (res, w') \<Longrightarrow> no_panic res"
    by (auto simp: relay_round_def split: if_splits)
qed

text \<open>
  On a connection with Error Indications, which is how connections are made, no packet
  reaches the relay: each is answered with an Error Indication instead.
\<close>

lemma relay_needs_no_error_indications:
  assumes "u_errIndEnabled (uconn_at w u)" "msg = Msg1_TPDU pdu"
  shows "w_conns (snd (handleTPDU env u raddr msg w)) = w_conns w"
  using assms by (auto simp: handleTPDU_def split: prod.splits sum.splits failure.splits
      dest!: arg_cong [where f = "\<lambda>x. w_conns (snd x)"])

text \<open>A closed connection makes the loop spin: every turn reads an empty packet with TEID zero.\<close>

lemma relay_spins_on_closed_connection:
  assumes "\<not> rl_closed r" "u_closed (uconn_at w (rl_leftConn r))" "getPeer r 0 = None"
  shows "relay_round env True None r w = Some (Inr (), w)"
  using assms by (simp add: relay_round_def relay_turn_def ReadFromGTP_def)

section \<open>The replacement\<close>

lemma Encapsulate_wire:
  assumes "length p < 65528"
  shows "\<exists>h. v1_TPDU_Marshal (Encapsulate teid p) = Inr ([0x30, 255] @ be16 (of_nat (length p)) @ be32 teid @ p, h)"
proof -
  let ?h = "h1_SetLength (Encapsulate teid p)"
  have "v1_TPDU_Marshal (Encapsulate teid p) = Inr (v1_header_wire ?h, ?h)"
    using h1_Marshal_wire [of ?h]
    by (simp add: v1_TPDU_Marshal_def v1_TPDU_MarshalTo_def v1_TPDU_MarshalLen_def v1_len_SetLength Let_def)
  moreover have "v1_header_wire ?h = [0x30, 255] @ be16 (of_nat (length p)) @ be32 teid @ p"
    by (simp add: Encapsulate_header v1_header_wire_def h1_SetLength_def h1_MarshalLen_def)
  ultimately show ?thesis by auto
qed

text \<open>A T-PDU the decoder accepts: where its TEID is, and how much of it the payload can be.\<close>

lemma ParseHeader_bytes:
  assumes "v1_ParseHeader b = Inr h"
  shows "11 \<le> length b" "join32 (b ! 4) (b ! 5) (b ! 6) (b ! 7) = h1_TEID h"
    "take 8 b = take 4 b @ be32 (h1_TEID h)" "8 + length (h1_Payload h) \<le> length b"
proof -
  show len: "11 \<le> length b"
    using assms by (cases "length b < 11") (simp_all add: v1_ParseHeader_def h1_UnmarshalBinary_def)
  obtain f t n teid r where b: "b = f # t # be16 n @ be32 teid @ r" and r: "3 \<le> length r"
    using len by (rule h1_split)
  have h: "h1_UnmarshalBinary (f # t # be16 n @ be32 teid @ r) = Inr h"
    using assms by (simp add: v1_ParseHeader_def b)
  then have teid: "h1_TEID h = teid" and "length (h1_Payload h) \<le> length r"
    unfolding h1_UnmarshalBinary_split [OF r]
    by (auto simp: Let_def andThen_eq_Inr slice_from_def slice_def split: if_splits)
  then show "8 + length (h1_Payload h) \<le> length b" by (simp add: b)
  show "join32 (b ! 4) (b ! 5) (b ! 6) (b ! 7) = h1_TEID h" "take 8 b = take 4 b @ be32 (h1_TEID h)"
    using join32_be32 [of teid] by (simp_all add: teid b be16_def be32_def)
qed

text \<open>The T-PDU as the handler sees it, and what is left waiting for a reader.\<close>

lemma serve_waiting:
  assumes b: "v1_ParseHeader b = Inr h" "b ! 1 = v1_MsgTypeTPDU" "length b \<le> 1500"
    and u: "u_msgHandlerMap (uconn_at w u) = u_defaultHandlers" "\<not> u_errIndEnabled (uconn_at w u)"
      "u_relayMap (uconn_at w u) = []"
  shows "u_serve env u a b w = (Inr (), upd_uconn u (\<lambda>c. c\<lparr>u_tpduCh := u_tpduCh c @
     [\<lparr>ts_raddr = a, ts_teid = h1_TEID h, ts_seq = h1_Sequence h, ts_payload = h1_Payload h\<rparr>]\<rparr>) w)"
proof -
  have t: "byte_at b 1 = Inr v1_MsgTypeTPDU"
    using b(2) ParseHeader_bytes(1) [OF b(1)] by (simp add: byte_at_def)
  then have "h1_Type h = v1_MsgTypeTPDU" using ParseHeader_type [OF b(1)] by simp
  moreover have "v1_Parse b = Inr (Msg1_TPDU h)"
    using t b(1) by (simp add: v1_Parse_types v1_TPDU_UnmarshalBinary_def)
  ultimately show ?thesis
    using u b(3) by (simp add: u_serve_def u_serve_packet_def u_parse_and_handle_def u_handleMessage_def v1_MessageType_def
        h1_MessageType_def u_defaultHandlers_def map_load_def handleTPDU_def)
qed

text \<open>The datagrams that \<open>Encapsulate\<close> makes, without sequence number.\<close>

definition plain :: "u32 \<Rightarrow> bytes \<Rightarrow> bytes" where
  "plain teid p = [0x30, 255] @ be16 (of_nat (length p)) @ be32 teid @ p"

lemma plain_TEID: "take 4 (plain teid p) = take 4 (plain teid' p)" "drop 8 (plain teid p) = p"
  by (simp_all add: plain_def be16_def be32_def)

lemma plain_rewrite:
  assumes "v1_ParseHeader b = Inr h"
  shows "plain teidOut (h1_Payload h) = take 4 b @ be32 teidOut @ drop 8 b \<longleftrightarrow> b = plain (h1_TEID h) (h1_Payload h)"
proof
  let ?p = "h1_Payload h"
  have len: "8 \<le> length b" using ParseHeader_bytes(1) [OF assms] by simp
  have split: "plain teid p = take 4 (plain 0 p) @ be32 teid @ p" for teid p
    by (simp add: plain_def be16_def)
  show "b = plain (h1_TEID h) ?p \<Longrightarrow> plain teidOut ?p = take 4 b @ be32 teidOut @ drop 8 b"
    by (metis plain_TEID split)
  assume eq: "plain teidOut ?p = take 4 b @ be32 teidOut @ drop 8 b"
  have "length (take 4 (plain 0 ?p)) = length (take 4 b)" using len by (simp add: plain_def)
  moreover have "take 4 (plain 0 ?p) @ be32 teidOut @ ?p = take 4 b @ be32 teidOut @ drop 8 b"
    using eq split [of teidOut ?p] by simp
  ultimately have "take 4 (plain 0 ?p) = take 4 b" "?p = drop 8 b" by (metis append_eq_append_conv same_append_eq)+
  then have "plain (h1_TEID h) ?p = take 8 b @ drop 8 b"
    using ParseHeader_bytes(3) [OF assms] split [of "h1_TEID h" ?p] by simp
  then show "b = plain (h1_TEID h) ?p" by simp
qed

text \<open>
  C40. The relay and its replacement, for any T-PDU of at most 1500 bytes that arrives under a TEID
  with a peer: the deprecated relay (on an idle connection without Error Indications, where it
  reads the packet) encapsulates the payload anew under the TEID of the peer, without a sequence
  number or extension headers; \<open>RelayTo\<close> sends the datagram as it came, but for the TEID. Each
  sends one datagram, over the same connection to the same address, and the two are equal exactly
  when the T-PDU is one that \<open>Encapsulate\<close> could have made of its payload.
\<close>

theorem relay_equivalence:
  assumes "u_msgHandlerMap (uconn_at w u) = u_defaultHandlers" "\<not> u_errIndEnabled (uconn_at w u)"
    and "u_relayMap (uconn_at w u) = []" "u_tpduCh (uconn_at w u) = []" "\<not> u_kernel (uconn_at w u)"
    and "u < length (w_conns w)" "ue_write env (w_writes w)"
    and "v1_ParseHeader b = Inr h" "b ! 1 = v1_MsgTypeTPDU" "length b \<le> 1500"
    and "\<not> rl_closed r" "rl_leftConn r = u"
  shows "\<exists>new kept t w1 w2.
     relay_round env True (Some 0) (AddPeer (h1_TEID h) teidOut raddr r) (snd (u_serve env u a b w)) = Some (Inr (), w1) \<and>
     u_serve env u a b (snd (RelayTo u (rl_rightConn r) (h1_TEID h) teidOut raddr w)) = (Inr (), w2) \<and>
     w_sent w1 = w_sent w @ [(rl_rightConn r, new, raddr)] \<and>
     v1_TPDU_Marshal (Encapsulate teidOut (h1_Payload h)) = Inr (new, t) \<and>
     w_sent w2 = w_sent w @ [(rl_rightConn r, kept, raddr)] \<and> kept = take 4 b @ be32 teidOut @ drop 8 b \<and>
     (new = kept \<longleftrightarrow> (\<exists>t. v1_TPDU_Marshal (Encapsulate (h1_TEID h) (h1_Payload h)) = Inr (b, t)))"
proof -
  let ?c = "rl_rightConn r" and ?teid = "h1_TEID h" and ?p = "h1_Payload h"
  let ?t = "\<lparr>ts_raddr = a, ts_teid = ?teid, ts_seq = h1_Sequence h, ts_payload = ?p\<rparr>"
  let ?w = "upd_uconn u (\<lambda>c. c\<lparr>u_tpduCh := u_tpduCh c @ [?t]\<rparr>) w"
  note bytes = ParseHeader_bytes [OF assms(8)]
  have p: "length ?p \<le> 1492" using bytes(4) assms(10) by simp
  have enc: "\<exists>t. v1_TPDU_Marshal (Encapsulate teid ?p) = Inr (plain teid ?p, t)" for teid
    using Encapsulate_wire [of ?p teid] p by (simp add: plain_def)
  obtain t where out: "v1_TPDU_Marshal (Encapsulate teidOut ?p) = Inr (plain teidOut ?p, t)" using enc by blast
  have "snd (u_serve env u a b w) = ?w" using serve_waiting [OF assms(8-10,1-3)] by simp
  moreover have "ReadFromGTP (Some 0) 1600 u ?w = Some ((?p, a, ?teid), upd_uconn u (\<lambda>c. c\<lparr>u_tpduCh := []\<rparr>) ?w)"
    using assms(4,6) p by (simp add: ReadFromGTP_def upd_uconn_def)
  moreover define r' where "r' = AddPeer ?teid teidOut raddr r"
  have "getPeer r' ?teid = Some (teidOut, raddr)" by (simp add: r'_def relay_peers)
  moreover have "rl_leftConn r' = u" "rl_rightConn r' = ?c" "\<not> rl_closed r'"
    using assms(11,12) by (simp_all add: r'_def AddPeer_def)
  ultimately obtain w1 where w1: "relay_round env True (Some 0) r' (snd (u_serve env u a b w)) = Some (Inr (), w1)"
    "w_sent w1 = w_sent w @ [(?c, plain teidOut ?p, raddr)]"
    using assms(7) out by (simp add: relay_round_def relay_turn_def WriteToGTP_def u_WriteTo_def) (simp add: upd_uconn_def)
  let ?peer = "\<lparr>peer_teid = teidOut, peer_addr = raddr, peer_srcConn = ?c\<rparr>"
  let ?w' = "snd (RelayTo u ?c ?teid teidOut raddr w)"
  have "relay_load (u_relayMap (uconn_at ?w' u)) ?teid = Some ?peer"
    using assms(5,6) by (simp add: RelayTo_def upd_uconn_def relay_map.load_store)
  moreover have "w_writes ?w' = w_writes w" "w_sent ?w' = w_sent w"
    using assms(5) by (simp_all add: RelayTo_def upd_uconn_def)
  ultimately obtain w2 where w2: "u_serve env u a b ?w' = (Inr (), w2)"
    "w_sent w2 = w_sent w @ [(?c, take 4 b @ be32 teidOut @ drop 8 b, raddr)]"
    using u_serve_relayed [of b b ?w' u ?peer env a] assms(7,9,10) bytes(1,2) by auto
  obtain t' where "v1_TPDU_Marshal (Encapsulate ?teid ?p) = Inr (plain ?teid ?p, t')" using enc by blast
  then have "(\<exists>t. v1_TPDU_Marshal (Encapsulate ?teid ?p) = Inr (b, t)) \<longleftrightarrow> b = plain ?teid ?p"
    by (simp only: sum.inject prod.inject) blast
  then have "plain teidOut ?p = take 4 b @ be32 teidOut @ drop 8 b \<longleftrightarrow>
      (\<exists>t. v1_TPDU_Marshal (Encapsulate ?teid ?p) = Inr (b, t))"
    using plain_rewrite [OF assms(8), of teidOut] by blast
  then show ?thesis
    using w1 w2 out unfolding r'_def
    by (intro exI [of _ "plain teidOut ?p"] exI [of _ "take 4 b @ be32 teidOut @ drop 8 b"] exI [of _ t]
        exI [of _ w1] exI [of _ w2] conjI refl)
qed

definition sample_pair :: uworld where
  "sample_pair = \<lparr>w_conns = [DisableErrorIndication (NewUPlaneConn ''a:1''), NewUPlaneConn ''c:1''],
     w_writes = 0, w_sent = []\<rparr>"

text \<open>The T-PDU of the example has a sequence number, which the old relay loses.\<close>

theorem relay_equivalence_witness:
  "\<exists>w1 w2. relay_round sample_uenv True (Some 0) (AddPeer 7 9 ''b:1'' (NewRelay 0 1))
        (snd (u_serve sample_uenv 0 ''x:1'' [0x32, 255, 0, 7, 0, 0, 0, 7, 0, 5, 0, 0, 1, 2, 3] sample_pair)) = Some (Inr (), w1) \<and>
     u_serve sample_uenv 0 ''x:1'' [0x32, 255, 0, 7, 0, 0, 0, 7, 0, 5, 0, 0, 1, 2, 3] (snd (RelayTo 0 1 7 9 ''b:1'' sample_pair)) =
        (Inr (), w2) \<and>
     w_sent w1 = [(1, [0x30, 255, 0, 3, 0, 0, 0, 9, 1, 2, 3], ''b:1'')] \<and>
     w_sent w2 = [(1, [0x32, 255, 0, 7, 0, 0, 0, 9, 0, 5, 0, 0, 1, 2, 3], ''b:1'')]"
proof -
  let ?b = "[0x32, 255, 0, 7, 0, 0, 0, 7, 0, 5, 0, 0, 1, 2, 3] :: bytes"
  have "(case v1_ParseHeader ?b of Inr h \<Rightarrow> h1_TEID h = 7 \<and> h1_Payload h = [1, 2, 3] | Inl e \<Rightarrow> False)" by code_simp
  then obtain h where h: "v1_ParseHeader ?b = Inr h" "h1_TEID h = 7" "h1_Payload h = [1, 2, 3]"
    by (auto split: sum.splits)
  have new: "v1_TPDU_Marshal (Encapsulate 9 [1, 2, 3]) = Inr (new, t) \<Longrightarrow> new = [0x30, 255, 0, 3, 0, 0, 0, 9, 1, 2, 3]" for new t
    using Encapsulate_wire [of "[1, 2, 3]" 9] by (auto simp: be16_def be32_def)
  have "u_msgHandlerMap (uconn_at sample_pair 0) = u_defaultHandlers" "\<not> u_errIndEnabled (uconn_at sample_pair 0)"
    "u_relayMap (uconn_at sample_pair 0) = []" "u_tpduCh (uconn_at sample_pair 0) = []"
    "\<not> u_kernel (uconn_at sample_pair 0)" "0 < length (w_conns sample_pair)" "w_sent sample_pair = []"
    "ue_write sample_uenv (w_writes sample_pair)" "\<not> rl_closed (NewRelay 0 1)" "rl_leftConn (NewRelay 0 1) = 0"
    "rl_rightConn (NewRelay 0 1) = 1" "be32 (9 :: u32) = [0, 0, 0, 9]"
    by (simp_all add: sample_pair_def DisableErrorIndication_def NewUPlaneConn_def sample_uenv_def NewRelay_def be32_def)
  with relay_equivalence [of sample_pair 0 sample_uenv ?b h "NewRelay 0 1" 9 "''b:1''" "''x:1''"] h new
  show ?thesis by auto
qed

end
