(* ===== verification/V2IEHelpers.thy ===== *)
theory V2IEHelpers
  imports V2TFT V2PCO V2ULI V2IEFields V2IEIdentities
begin

text \<open>
  What remains of the element types of GTPv2: the constructors of Bearer Contexts for each message
  (\<open>bearer-context.go\<close>), the predicates on causes and priorities (\<open>cause.go\<close>, \<open>arp.go\<close>), the structs of
  the QoS elements, and the functions \<open>Parse...\<close> of the other structs, which decode into a fresh one.
  The theorem is that the elements given to a Bearer Context come back from it.
\<close>

section \<open>Bearer Contexts\<close>

type_synonym opt_ie = "ie option"

definition NewBearerContextWithinCreateBearerRequest ::
  "opt_ie \<Rightarrow> opt_ie \<Rightarrow> opt_ie \<Rightarrow> opt_ie \<Rightarrow> opt_ie \<Rightarrow> opt_ie \<Rightarrow> opt_ie \<Rightarrow> opt_ie \<Rightarrow> opt_ie list \<Rightarrow> opt_ie result" where
  "NewBearerContextWithinCreateBearerRequest ebi tft qos chargeID flags pco epco mplr fTEIDs =
     NewBearerContext ([ebi, tft, qos, chargeID, flags, pco, epco, mplr] @ fTEIDs)"

definition NewBearerContextWithinCreateBearerResponse ::
  "opt_ie \<Rightarrow> opt_ie \<Rightarrow> opt_ie \<Rightarrow> opt_ie \<Rightarrow> opt_ie \<Rightarrow> opt_ie list \<Rightarrow> opt_ie result" where
  "NewBearerContextWithinCreateBearerResponse ebi cause pco rannasCause epco fTEIDs =
     NewBearerContext ([ebi, cause, pco, rannasCause, epco] @ fTEIDs)"

definition NewBearerContextWithinDeleteBearerRequest ::
  "opt_ie \<Rightarrow> opt_ie \<Rightarrow> opt_ie result" where
  "NewBearerContextWithinDeleteBearerRequest ebi cause =
     NewBearerContext ([ebi, cause])"

definition NewBearerContextWithinDeleteBearerResponse ::
  "opt_ie \<Rightarrow> opt_ie \<Rightarrow> opt_ie \<Rightarrow> opt_ie \<Rightarrow> opt_ie \<Rightarrow> opt_ie result" where
  "NewBearerContextWithinDeleteBearerResponse ebi cause pco rannasCause epco =
     NewBearerContext ([ebi, cause, pco, rannasCause, epco])"

definition NewBearerContextWithinModifyBearerCommand ::
  "opt_ie \<Rightarrow> opt_ie \<Rightarrow> opt_ie result" where
  "NewBearerContextWithinModifyBearerCommand ebi qos =
     NewBearerContext ([ebi, qos])"

definition NewBearerContextWithinUpdateBearerRequest ::
  "opt_ie \<Rightarrow> opt_ie \<Rightarrow> opt_ie \<Rightarrow> opt_ie \<Rightarrow> opt_ie \<Rightarrow> opt_ie \<Rightarrow> opt_ie \<Rightarrow> opt_ie \<Rightarrow> opt_ie result" where
  "NewBearerContextWithinUpdateBearerRequest ebi tft qos flags pco apco epco mplr =
     NewBearerContext ([ebi, tft, qos, flags, pco, apco, epco, mplr])"

definition NewBearerContextWithinUpdateBearerResponse ::
  "opt_ie \<Rightarrow> opt_ie \<Rightarrow> opt_ie \<Rightarrow> opt_ie \<Rightarrow> opt_ie \<Rightarrow> opt_ie list \<Rightarrow> opt_ie result" where
  "NewBearerContextWithinUpdateBearerResponse ebi cause pco rannasCause epco fTEIDs =
     NewBearerContext ([ebi, cause, pco, rannasCause, epco] @ fTEIDs)"

definition NewBearerContextWithinDeleteBearerCommand ::
  "opt_ie \<Rightarrow> opt_ie \<Rightarrow> opt_ie \<Rightarrow> opt_ie result" where
  "NewBearerContextWithinDeleteBearerCommand ebi flags rannasCause =
     NewBearerContext ([ebi, flags, rannasCause])"

definition NewBearerContextWithinDeleteBearerFailureIndication ::
  "opt_ie \<Rightarrow> opt_ie \<Rightarrow> opt_ie result" where
  "NewBearerContextWithinDeleteBearerFailureIndication ebi cause =
     NewBearerContext ([ebi, cause])"

definition NewBearerContextWithinCreateIndirectDataForwardingTunnelRequest ::
  "opt_ie \<Rightarrow> opt_ie list \<Rightarrow> opt_ie result" where
  "NewBearerContextWithinCreateIndirectDataForwardingTunnelRequest ebi fTEIDs =
     NewBearerContext ([ebi] @ fTEIDs)"

definition NewBearerContextWithinCreateIndirectDataForwardingTunnelResponse ::
  "opt_ie \<Rightarrow> opt_ie \<Rightarrow> opt_ie list \<Rightarrow> opt_ie result" where
  "NewBearerContextWithinCreateIndirectDataForwardingTunnelResponse ebi cause fTEIDs =
     NewBearerContext ([ebi, cause] @ fTEIDs)"

definition NewBearerContextWithinForwardRelocationRequest ::
  "opt_ie \<Rightarrow> opt_ie \<Rightarrow> opt_ie \<Rightarrow> opt_ie \<Rightarrow> opt_ie \<Rightarrow> opt_ie \<Rightarrow> opt_ie list \<Rightarrow> opt_ie result" where
  "NewBearerContextWithinForwardRelocationRequest ebi tft qos container ti flags fTEIDs =
     NewBearerContext ([ebi, tft, qos, container, ti, flags] @ fTEIDs)"

definition NewBearerContextWithinContextResponse ::
  "opt_ie \<Rightarrow> opt_ie \<Rightarrow> opt_ie \<Rightarrow> opt_ie \<Rightarrow> opt_ie \<Rightarrow> opt_ie list \<Rightarrow> opt_ie result" where
  "NewBearerContextWithinContextResponse ebi tft qos container ti fTEIDs =
     NewBearerContext ([ebi, tft, qos, container, ti] @ fTEIDs)"

definition NewBearerContextWithinContextAcknowledge ::
  "opt_ie \<Rightarrow> opt_ie \<Rightarrow> opt_ie result" where
  "NewBearerContextWithinContextAcknowledge ebi fwdFTEID =
     NewBearerContext ([ebi, fwdFTEID])"

section \<open>Causes and priorities\<close>

text \<open>
  The three predicates read the flags of a Cause only, not those in a Bearer Context, and test the
  bits the constructor sets; \<open>HasPCE\<close>, \<open>HasCS\<close> and \<open>HasBCE\<close> test two of them under each other's name.
\<close>

definition cause_bit :: "nat \<Rightarrow> ie \<Rightarrow> bool" where
  "cause_bit n i \<longleftrightarrow> ie_Type i = IE_Cause \<and> 2 \<le> length (ie_Payload i) \<and> drop_bit n (ie_Payload i ! 1) AND 0x01 = 1"

definition IsRemoteCause :: "ie \<Rightarrow> bool" where "IsRemoteCause = cause_bit 2"
definition IsBearerContextIEError :: "ie \<Rightarrow> bool" where "IsBearerContextIEError = cause_bit 1"
definition IsPDNConnectionIEError :: "ie \<Rightarrow> bool" where "IsPDNConnectionIEError = cause_bit 0"

definition PreemptionVulnerability :: "ie \<Rightarrow> bool result" where "PreemptionVulnerability i = HasPVI i"
definition PreemptionCapability :: "ie \<Rightarrow> bool result" where "PreemptionCapability i = HasPCI i"

section \<open>QoS structs\<close>

definition BearerQoSFields_MarshalLen :: nat where "BearerQoSFields_MarshalLen = 22"

definition BearerQoSFields_Marshal :: "qos_fields \<Rightarrow> bytes result" where
  "BearerQoSFields_Marshal f = BearerQoSFields_MarshalTo f (replicate BearerQoSFields_MarshalLen 0)"

definition ParseBearerQoSFields :: "bytes \<Rightarrow> qos_fields result" where
  "ParseBearerQoSFields b = BearerQoSFields_UnmarshalBinary b"

definition NewFlowQoSFields :: "byte \<Rightarrow> u64 \<Rightarrow> u64 \<Rightarrow> u64 \<Rightarrow> u64 \<Rightarrow> qos_fields" where
  "NewFlowQoSFields qci umbr dmbr ugbr dgbr =
     \<lparr>q_ARP = 0, q_QCI = qci, q_MBRUL = umbr, q_MBRDL = dmbr, q_GBRUL = ugbr, q_GBRDL = dgbr\<rparr>"

definition FlowQoSFields_MarshalLen :: nat where "FlowQoSFields_MarshalLen = 21"

definition FlowQoSFields_Marshal :: "qos_fields \<Rightarrow> bytes result" where
  "FlowQoSFields_Marshal f = FlowQoSFields_MarshalTo f (replicate FlowQoSFields_MarshalLen 0)"

definition ParseFlowQoSFields :: "bytes \<Rightarrow> qos_fields result" where
  "ParseFlowQoSFields b = FlowQoSFields_UnmarshalBinary b"

section \<open>Parsing structs\<close>

definition ParseFullyQualifiedTEIDFields :: "bytes \<Rightarrow> fteid_fields result" where
  "ParseFullyQualifiedTEIDFields b = fteid_UnmarshalBinary b"

definition ParseAggregateMaximumBitRateFields :: "bytes \<Rightarrow> ambr_fields result" where
  "ParseAggregateMaximumBitRateFields b = ambr_UnmarshalBinary b"

definition ParseFullyQualifiedCSIDFields :: "bytes \<Rightarrow> fqcsid_fields result" where
  "ParseFullyQualifiedCSIDFields b = fq_UnmarshalBinary b"

definition ParseGUTIFields :: "bytes \<Rightarrow> bytes \<Rightarrow> guti_fields result" where
  "ParseGUTIFields behind b = guti_UnmarshalBinary behind b"

definition ParsePDNAddressAllocationFields :: "bytes \<Rightarrow> paa_fields result" where
  "ParsePDNAddressAllocationFields b = paa_UnmarshalBinary b"

definition ParsePagingAndServiceInformationFields :: "bytes \<Rightarrow> paging_fields result" where
  "ParsePagingAndServiceInformationFields b = pg_UnmarshalBinary b"

definition ParsePCOPPP :: "bytes \<Rightarrow> pco_ppp result" where
  "ParsePCOPPP b = ppp_UnmarshalBinary b"

definition ParsePAPFields :: "bytes \<Rightarrow> pap_fields result" where
  "ParsePAPFields b = pap_UnmarshalBinary b"

definition ParseCHAPFields :: "bytes \<Rightarrow> chap_fields result" where
  "ParseCHAPFields b = chap_UnmarshalBinary b"

definition ParseIPCPOption :: "bytes \<Rightarrow> ipcp_option result" where
  "ParseIPCPOption b = ipcp_UnmarshalBinary b"

definition ParseProtocolConfigurationOptionsFields :: "bytes \<Rightarrow> pco_fields result" where
  "ParseProtocolConfigurationOptionsFields b = pcof_UnmarshalBinary b"

definition ParsePCOContainer :: "bytes \<Rightarrow> pco_container result" where
  "ParsePCOContainer b = pcoc_UnmarshalBinary b"

definition ParseRANNASCauseFields :: "bytes \<Rightarrow> ran_nas_fields result" where
  "ParseRANNASCauseFields b = rn_UnmarshalBinary b"

definition ParseS103PDNDataForwardingInfoFields :: "bytes \<Rightarrow> s103_fields result" where
  "ParseS103PDNDataForwardingInfoFields b = s103_UnmarshalBinary b"

definition ParseS1UDataForwardingFields :: "bytes \<Rightarrow> s1u_fields result" where
  "ParseS1UDataForwardingFields b = s1u_UnmarshalBinary b"

definition ParseTrafficFlowTemplate :: "bytes \<Rightarrow> bytes \<Rightarrow> traffic_flow_template result" where
  "ParseTrafficFlowTemplate behind b = tft_UnmarshalBinary behind b"

definition ParseTFTPacketFilter :: "bytes \<Rightarrow> tft_filter result" where
  "ParseTFTPacketFilter b = pf_UnmarshalBinary b"

definition ParseTFTPFComponent :: "bytes \<Rightarrow> tft_component result" where
  "ParseTFTPFComponent b = comp_UnmarshalBinary b"

definition ParseTFTParameter :: "bytes \<Rightarrow> tft_parameter result" where
  "ParseTFTParameter b = par_UnmarshalBinary b"

definition ParseThrottlingFields :: "bytes \<Rightarrow> throttling_fields result" where
  "ParseThrottlingFields b = th_UnmarshalBinary b"

definition ParseTraceReferenceFields :: "bytes \<Rightarrow> trace_fields result" where
  "ParseTraceReferenceFields b = tr_UnmarshalBinary b"

definition ParseUserCSGInformationFields :: "bytes \<Rightarrow> uci_fields result" where
  "ParseUserCSGInformationFields b = uci_UnmarshalBinary b"

definition ParseUserLocationInformationFields :: "bytes \<Rightarrow> uli_fields result" where
  "ParseUserLocationInformationFields b = uli_UnmarshalBinary b"

section \<open>What comes back\<close>

text \<open>
  The predicates of a Cause see the flags it was made with, in the order of the constructor.
\<close>

lemma cause_predicates:
  "IsRemoteCause (NewCause cause pce bce cs off) = bit pce 0 \<and>
   IsBearerContextIEError (NewCause cause pce bce cs off) = bit bce 0 \<and>
   IsPDNConnectionIEError (NewCause cause pce bce cs off) = bit cs 0"
proof -
  define b where "b = (push_bit 2 pce AND 0x04) OR (push_bit 1 bce AND 0x02) OR (cs AND 0x01)"
  have one: "drop_bit n b AND 1 = 1 \<longleftrightarrow> bit b n" for n :: nat and b :: byte
    by (simp add: and_one_eq bit_iff_odd_drop_bit odd_iff_mod_2_eq_one)
  have "ie_Type (NewCause cause pce bce cs off) = IE_Cause" "ie_Payload (NewCause cause pce bce cs off) ! 1 = b"
    "2 \<le> length (ie_Payload (NewCause cause pce bce cs off))"
    by (simp_all add: NewCause_def b_def Let_def ie_New_eq ie_SetLength_eq split: option.split)
  moreover have "bit b 2 = bit pce 0" "bit b 1 = bit bce 0" "bit b 0 = bit cs 0"
    unfolding b_def by (simp_all only: bit_or_iff bit_and_iff bit_push_bit_iff) (simp_all add: bit_simps)
  ultimately show ?thesis
    by (simp only: IsRemoteCause_def IsBearerContextIEError_def IsPDNConnectionIEError_def cause_bit_def one) simp
qed

text \<open>
  The elements given to a Bearer Context, nil ones skipped, come back from it in their order, also
  after it has been encoded and decoded, if they are well-formed and fit into the 16 bits of its
  length; an accessor of a type finds the first of them that has this type.
\<close>

lemma bearer_context_roundtrip:
  assumes "\<forall>i. Some i \<in> set ies \<longrightarrow> wf_ie i" "List.map_filter id ies \<noteq> []"
    and "(\<Sum>i \<leftarrow> List.map_filter id ies. ie_MarshalLen i) < 65536"
  shows "\<exists>g b. NewBearerContext ies = Inr (Some g) \<and> ie_Marshal g = Inr b \<and> ie_Parse b = Inr g \<and>
     ie_BearerContext g = Inr (List.map_filter id ies) \<and>
     (\<forall>t own. t \<noteq> IE_BearerContext \<longrightarrow> in_bearer_context t own g =
        (case find (\<lambda>i. ie_Type i = t) (List.map_filter id ies) of
           Some i \<Rightarrow> own i | None \<Rightarrow> Inl (Error IEErrIENotFound)))"
proof -
  let ?cs = "List.map_filter id ies"
  let ?p = "concat (map ie_wire ?cs)"
  let ?g = "IE IE_BearerContext (of_nat (length ?p)) 0 ?p ?cs"
  have wf: "\<forall>c \<in> set ?cs. wf_ie c" using assms(1) by (auto simp: map_filter_def)
  have "length ?p < 65536" using assms(3) by (simp add: length_concat comp_def)
  then have g: "wf_ie ?g" by (intro wf_ie_grouped) (use wf in \<open>simp_all add: grouped_def grouped_types_def\<close>)
  have "?p \<noteq> []" using assms(2) ie_wire_nonempty by (cases ?cs) auto
  then have children: "ie_BearerContext ?g = Inr ?cs"
    using v2ies.multi_enc [of ?cs] wf by (simp add: ie_BearerContext_def Suc_le_eq)
  have "ie_Marshal ?g = Inr (ie_wire ?g)" by (rule ie_Marshal_wire)
  moreover have "ie_Parse (ie_wire ?g) = Inr ?g"
    using ie_UnmarshalBinary_wire [OF g, of "[]"] by (simp add: ie_Parse_def)
  moreover have "NewBearerContext ies = Inr (Some ?g)" by (simp add: NewBearerContext_def newGroupedIE_eq)
  ultimately show ?thesis using children by (auto simp: in_bearer_context_def)
qed

lemma bearer_context_roundtrip_witness:
  "\<exists>g. NewBearerContextWithinDeleteBearerResponse (Some (NewEPSBearerID 5)) (Some (NewCause 16 0 0 0 None)) None None None =
     Inr (Some g) \<and> ie_EPSBearerID g = Inr 5 \<and> ie_Cause g = Inr 16"
proof -
  let ?ies = "[Some (NewEPSBearerID 5), Some (NewCause 16 0 0 0 None), None, None, None]"
  have e: "NewEPSBearerID 5 = IE IE_EPSBearerID 1 0 [5] []" "NewCause 16 0 0 0 None = IE IE_Cause 2 0 [16, 0] []"
    by (simp_all add: NewEPSBearerID_def newUint8ValIE_def NewCause_def ie_New_eq Let_def)
  have "\<forall>i. Some i \<in> set ?ies \<longrightarrow> wf_ie i" by (auto simp: e grouped_def grouped_types_def)
  from bearer_context_roundtrip [OF this] obtain g where g: "NewBearerContext ?ies = Inr (Some g)"
    "\<forall>t (own :: ie \<Rightarrow> byte result). t \<noteq> IE_BearerContext \<longrightarrow> in_bearer_context t own g =
        (case find (\<lambda>i. ie_Type i = t) [NewEPSBearerID 5, NewCause 16 0 0 0 None] of
           Some i \<Rightarrow> own i | None \<Rightarrow> Inl (Error IEErrIENotFound))"
    by (auto simp: e grouped_def grouped_types_def map_filter_simps)
  have "in_bearer_context IE_EPSBearerID octet_of g = Inr 5" "in_bearer_context IE_Cause octet_of g = Inr 16"
    using g(2) [rule_format, of IE_EPSBearerID octet_of] g(2) [rule_format, of IE_Cause octet_of]
    by (simp_all add: e octet_of_def byte_at_def)
  then show ?thesis
    using g(1) by (simp add: NewBearerContextWithinDeleteBearerResponse_def ie_EPSBearerID_def ie_Cause_def)
qed

end
