(* ===== verification/TimeElements.thy ===== *)
theory TimeElements
  imports V2IESimple V1IEValues
begin

text \<open>
  The elements that carry times: \<open>UE Time Zone\<close>, \<open>Delay Value\<close> and \<open>ULI Timestamp\<close> of GTPv2
  (\<open>ue-timezone.go\<close>, \<open>delay-value.go\<close>, \<open>uli-timestamp.go\<close> of \<open>src/gtpv2/ie\<close>), \<open>MS Time Zone\<close> and
  \<open>ULI Timestamp\<close> of GTPv1 (\<open>ms-timezone.go\<close> and \<open>uli-timestamp.go\<close> of \<open>src/gtpv1/ie\<close>).

  A \<open>time.Duration\<close> is an \<open>int\<close> of nanoseconds, as in \<open>V2IESimple\<close>, and a \<open>time.Time\<close> the nanoseconds
  since the Unix epoch. The sources divide durations in floating point and then cut the fraction off.
  The model divides exactly: the quotients of durations below a day are at least \<open>10\<^sup>-\<^sup>1\<^sup>2\<close> away
  from a whole number they do not reach, which is more than the rounding error.
\<close>

section \<open>Time zones\<close>

text \<open>
  The octet has the quarters of an hour as two decimal digits, the lower digit in the upper half, and
  the sign in the bit 0x08, which belongs to the other digit.
\<close>

definition timezone_octet :: "int \<Rightarrow> byte" where
  "timezone_octet tz =
     (let absMin = \<bar>tz\<bar> div (15 * Minute);
          hex = word_of_int ((absMin mod 10) * 16 OR (absMin div 10)) :: byte in
      if tz < 0 then hex OR 0x08 else hex)"

definition timezone_of :: "byte \<Rightarrow> int" where
  "timezone_of b =
     (let unsigned = b AND 0xf7;
          dec = uint (drop_bit 4 unsigned + (unsigned AND 0x0f) * 10);
          dec = (if drop_bit 3 (b AND 0x08) = 1 then dec * -1 else dec) in
      dec * 15 * Minute)"

definition NewUETimeZone :: "int \<Rightarrow> byte \<Rightarrow> ie" where
  "NewUETimeZone tz daylightSaving = ie_New IE_UETimeZone 0x00 [timezone_octet tz, daylightSaving AND 0x03]"

definition ie_TimeZone :: "ie \<Rightarrow> int result" where
  "ie_TimeZone i =
     (if ie_Type i \<noteq> IE_UETimeZone then wrong_type i
      else if length (ie_Payload i) < 1 then eof
      else andThen (byte_at (ie_Payload i) 0) (\<lambda>b. Inr (timezone_of b)))"

definition ie_DaylightSaving :: "ie \<Rightarrow> byte result" where
  "ie_DaylightSaving i =
     (if ie_Type i \<noteq> IE_UETimeZone then wrong_type i
      else if length (ie_Payload i) < 2 then eof
      else byte_at (ie_Payload i) 1)"

definition v1_NewMSTimeZone :: "int \<Rightarrow> byte \<Rightarrow> tv_ie" where
  "v1_NewMSTimeZone tz daylightSaving = v1_New v1_IE_MSTimeZone [timezone_octet tz, daylightSaving AND 0x03]"

definition i1_TimeZone :: "tv_ie \<Rightarrow> int result" where
  "i1_TimeZone = field_of v1_IE_MSTimeZone 1 (\<lambda>p. andThen (byte_at p 0) (\<lambda>b. Inr (timezone_of b)))"

definition i1_DaylightSaving :: "tv_ie \<Rightarrow> byte result" where
  "i1_DaylightSaving = field_of v1_IE_MSTimeZone 2 (\<lambda>p. byte_at p 1)"

section \<open>Delays\<close>

text \<open>
  The conversion of a float that does not fit into \<open>uint8\<close> depends on the implementation of Go; it
  is the argument \<open>other\<close>.
\<close>

definition NewDelayValue :: "(int \<Rightarrow> byte) \<Rightarrow> int \<Rightarrow> ie" where
  "NewDelayValue other delay =
     (let n = quot delay (50 * 1000000) in
      newUint8ValIE IE_DelayValue (if 0 \<le> n \<and> n < 256 then word_of_int n else other delay))"

definition ie_DelayValue :: "ie \<Rightarrow> int result" where
  "ie_DelayValue i =
     (if ie_Type i \<noteq> IE_DelayValue then wrong_type i
      else if length (ie_Payload i) < 1 then eof
      else andThen (byte_at (ie_Payload i) 0) (\<lambda>b. Inr (uint (b div 50) * 1000000)))"

section \<open>Timestamps\<close>

text \<open>
  Seconds since 1900, in 32 bits. \<open>ts.Sub\<close> saturates at the least and greatest duration, and
  the conversion to \<open>uint64\<close> wraps.
\<close>

abbreviation Year1900 :: int where "Year1900 \<equiv> -2208988800"

definition time_Sub :: "int \<Rightarrow> int \<Rightarrow> int" where
  "time_Sub t u = max (-9223372036854775808) (min MaxInt64 (t - u))"

definition ntp_seconds :: "int \<Rightarrow> u32" where
  "ntp_seconds ts = ucast ((word_of_int (time_Sub ts (Year1900 * Second)) :: u64) div 1000000000)"

definition unix_of :: "u32 \<Rightarrow> int" where
  "unix_of n = uint (n - 2208988800) * Second"

definition NewULITimestamp :: "int \<Rightarrow> ie" where
  "NewULITimestamp ts = newUint32ValIE IE_ULITimestamp (ntp_seconds ts)"

definition ie_Timestamp :: "ie \<Rightarrow> int result" where
  "ie_Timestamp i =
     (if length (ie_Payload i) < 4 then eof
      else if ie_Type i = IE_ULITimestamp \<or> ie_Type i = IE_TWANIdentifierTimestamp then
        andThen (get32 (ie_Payload i) 0) (\<lambda>n. Inr (unix_of n))
      else wrong_type i)"

definition v1_NewULITimestamp :: "int \<Rightarrow> tv_ie" where
  "v1_NewULITimestamp ts = v1_newUint32ValIE v1_IE_ULITimestamp (ntp_seconds ts)"

definition i1_Timestamp :: "tv_ie \<Rightarrow> int result" where
  "i1_Timestamp i =
     (if length (tv_Payload i) < 4 then eof
      else if tv_Type i = v1_IE_ULITimestamp then andThen (get32 (tv_Payload i) 0) (\<lambda>n. Inr (unix_of n))
      else tv_wrong_type i)"

section \<open>What comes back\<close>

text \<open>Up to 79 quarters of an hour, in either direction; a fraction of a quarter is cut off.\<close>

lemma timezone_digits:
  "\<forall>n \<in> set [0..79]. timezone_of (word_of_int ((n mod 10) * 16 OR (n div 10))) = n * (15 * Minute) \<and>
     timezone_of (word_of_int ((n mod 10) * 16 OR (n div 10)) OR 0x08) = - n * (15 * Minute)"
  by code_simp

lemma timezone_octet_inverse:
  assumes "\<bar>tz\<bar> < 80 * (15 * Minute)"
  shows "timezone_of (timezone_octet tz) = quot tz (15 * Minute) * (15 * Minute)"
proof -
  let ?q = "\<bar>tz\<bar> div (15 * Minute)"
  have "?q \<in> set [0..79]" using assms by (auto simp: div_less_iff_less_mult pos_imp_zdiv_nonneg_iff)
  then have "timezone_of (timezone_octet tz) = (if tz < 0 then - ?q else ?q) * (15 * Minute)"
    by (auto simp only: timezone_octet_def Let_def if_True if_False split: if_split dest!: bspec [OF timezone_digits])
  also have "\<dots> = quot tz (15 * Minute) * (15 * Minute)"
    by (auto simp: quot_def sgn_if)
  finally show ?thesis .
qed

text \<open>
  A time zone of less than twenty hours to either side of UTC comes back as the multiple of 15 minutes next
  to it on the side of zero, from the elements of both versions, and the adjustment for daylight
  saving time comes back as its two lowest bits.
\<close>

lemma timezone_roundtrip:
  assumes "\<bar>tz\<bar> < 20 * Hour"
  shows "ie_TimeZone (NewUETimeZone tz ds) = Inr (quot tz (15 * Minute) * (15 * Minute)) \<and>
     i1_TimeZone (v1_NewMSTimeZone tz ds) = Inr (quot tz (15 * Minute) * (15 * Minute)) \<and>
     ie_DaylightSaving (NewUETimeZone tz ds) = Inr (ds AND 0x03) \<and>
     i1_DaylightSaving (v1_NewMSTimeZone tz ds) = Inr (ds AND 0x03)"
  using timezone_octet_inverse [of tz] assms
  by (simp add: ie_TimeZone_def NewUETimeZone_def i1_TimeZone_def v1_NewMSTimeZone_def ie_DaylightSaving_def
      i1_DaylightSaving_def field_of_def byte_at_def ie_New_eq value_simps)

lemma timezone_roundtrip_witness:
  "ie_TimeZone (NewUETimeZone (-(5 * Hour + 45 * Minute)) 1) = Inr (-(5 * Hour + 45 * Minute)) \<and>
   i1_TimeZone (v1_NewMSTimeZone (-(5 * Hour + 45 * Minute)) 1) = Inr (-(5 * Hour + 45 * Minute))"
  using timezone_roundtrip [of "-(5 * Hour + 45 * Minute)" 1] by (simp add: quot_def)

text \<open>From twenty hours on the tens run into the bit of the sign.\<close>

lemma timezone_too_large: "timezone_of (timezone_octet (20 * Hour)) = 0"
  by code_simp

text \<open>The constructor counts units of 50 milliseconds, the accessor divides them by 50 once more.\<close>

lemma delay_value_wrong_unit:
  assumes "0 \<le> k" "k < 256"
  shows "ie_DelayValue (NewDelayValue other (k * (50 * 1000000))) = Inr ((k div 50) * 1000000)"
  using assms quot_multiple [of "50 * 1000000" k]
  by (simp add: NewDelayValue_def ie_DelayValue_def newUint8ValIE_def byte_at_def unsigned_of_int take_bit_int_eq_self uint_div)

text \<open>
  A whole second between 1970 and February 2106 comes back, also after the 32 bits have run over in
  2036. A second of the years from 1900 to 1969 comes back 136 years late.
\<close>

lemma timestamp_seconds:
  assumes "Year1900 \<le> s" "s < 2 ^ 32"
  shows "unix_of (ntp_seconds (s * Second)) = (s mod 2 ^ 32) * Second"
proof -
  let ?d = "(s - Year1900) * Second"
  have "time_Sub (s * Second) (Year1900 * Second) = ?d"
    using assms by (simp add: time_Sub_def algebra_simps)
  moreover have "(word_of_int ?d :: u64) div 1000000000 = word_of_int (s - Year1900)"
  proof -
    let ?n = "s - Year1900"
    have n: "0 \<le> ?n" "?n < 2 ^ 33" using assms by simp_all
    then have u: "uint (word_of_int ?d :: u64) = ?d" "uint (word_of_int ?n :: u64) = ?n"
      by (auto intro!: word_of_int_inverse)
    have "uint ((word_of_int ?d :: u64) div 1000000000) = ?n"
      unfolding uint_div u by simp
    then show ?thesis by (intro word_uint_eqI) (rule trans [OF _ u(2) [symmetric]])
  qed
  moreover have "ucast (word_of_int m :: u64) = (word_of_int m :: u32)" for m
    by transfer (simp add: min_def)
  ultimately have "ntp_seconds (s * Second) = word_of_int (s - Year1900)"
    by (simp only: ntp_seconds_def)
  then have "ntp_seconds (s * Second) - 2208988800 = word_of_int s" by (simp add: of_int_diff)
  then show ?thesis by (simp add: unix_of_def unsigned_of_int take_bit_eq_mod)
qed

lemma timestamp_roundtrip:
  assumes "Year1900 \<le> s" "s < 2 ^ 32"
  shows "ie_Timestamp (NewULITimestamp (s * Second)) = Inr ((s mod 2 ^ 32) * Second)"
    and "i1_Timestamp (v1_NewULITimestamp (s * Second)) = Inr ((s mod 2 ^ 32) * Second)"
  using timestamp_seconds [OF assms] join32_be32 [of "ntp_seconds (s * Second)"]
  by (simp_all add: ie_Timestamp_def NewULITimestamp_def i1_Timestamp_def v1_NewULITimestamp_def
      newUint32ValIE_def v1_newUint32ValIE_def value_simps ie_New_eq get32_def be32_def)

end
