(* ===== verification/AddressText.thy ===== *)
theory AddressText
  imports V2IEFields V0IEValues
begin

text \<open>
  The accessors that return an address as text, \<open>IPAddress\<close>, \<open>GSNAddress\<close> and the like of all
  versions, and \<open>net.IP.String\<close>, which they call. The theorem is that \<open>ParseIP\<close>, which the
  constructors call, reads every such text as the address it was made from.
\<close>

section \<open>net.IP.String\<close>

definition digit_char :: "nat \<Rightarrow> char" where
  "digit_char d = ''0123456789abcdef'' ! d"

text \<open>Decimal and hexadecimal numerals without leading zeros.\<close>

definition without_zeros :: "string \<Rightarrow> char \<Rightarrow> string" where
  "without_zeros ds d = dropWhile (\<lambda>c. c = CHR ''0'') ds @ [d]"

definition octet_text :: "byte \<Rightarrow> string" where
  "octet_text b = (let n = unat b in
     without_zeros (map digit_char [n div 100, n div 10 mod 10]) (digit_char (n mod 10)))"

definition group_text :: "u16 \<Rightarrow> string" where
  "group_text g = (let n = unat g in
     without_zeros (map digit_char [n div 4096, n div 256 mod 16, n div 16 mod 16]) (digit_char (n mod 16)))"

fun ip_groups :: "bytes \<Rightarrow> u16 list" where
  "ip_groups (a # b # r) = join16 a b # ip_groups r"
| "ip_groups _ = []"

text \<open>The first of the longest runs of zero groups, from the first place to the one behind the last.\<close>

function longest_zeros :: "nat \<Rightarrow> u16 list \<Rightarrow> nat \<times> nat \<Rightarrow> nat \<times> nat" where
  "longest_zeros i [] e = e"
| "longest_zeros i (g # gs) e =
     (let n = length (takeWhile (\<lambda>g. g = 0) (g # gs)) in
      if n > snd e - fst e then longest_zeros (i + n + 1) (drop n gs) (i, i + n)
      else longest_zeros (i + 1) gs e)"
  by pat_completeness auto
termination by (relation "measure (\<lambda>(i, gs, e). length gs)") auto

definition ip6_text :: "u16 list \<Rightarrow> string" where
  "ip6_text gs =
     (let (e0, e1) = longest_zeros 0 gs (0, 0) in
      if e1 - e0 \<le> 1 then Join CHR '':'' (map group_text gs)
      else Join CHR '':'' (map group_text (take e0 gs)) @ '':'' @ '':'' @
           Join CHR '':'' (map group_text (drop e1 gs)))"

definition ip_String :: "ip \<Rightarrow> string" where
  "ip_String a =
     (if a = [] then ''<nil>''
      else if length a \<noteq> 4 \<and> length a \<noteq> 16 then ''?'' @ hex_EncodeToString a
      else if To4 a \<noteq> [] then Join CHR ''.'' (map octet_text (To4 a))
      else ip6_text (ip_groups a))"

section \<open>The accessors\<close>

definition ie_IPAddress :: "ie \<Rightarrow> string result" where
  "ie_IPAddress i = andThen (ie_IP i) (\<lambda>a. Inr (ip_String a))"

definition ie_HSGWAddress :: "ie \<Rightarrow> string result" where
  "ie_HSGWAddress i = (if ie_Type i \<noteq> IE_S103PDNDataForwardingInfo then wrong_type i else ie_IPAddress i)"

definition ie_SGWAddress :: "ie \<Rightarrow> string result" where
  "ie_SGWAddress i = (if ie_Type i \<noteq> IE_S1UDataForwarding then wrong_type i else ie_IPAddress i)"

definition i1_IPAddress :: "tv_ie \<Rightarrow> string result" where
  "i1_IPAddress i = andThen (i1_IP i) (\<lambda>a. Inr (ip_String a))"

definition i1_GSNAddress :: "tv_ie \<Rightarrow> string result" where
  "i1_GSNAddress = field_of v1_IE_GSNAddress 4 (\<lambda>p. Inr (ip_String p))"

definition i0_GSNAddress :: "tv_ie \<Rightarrow> string result" where
  "i0_GSNAddress = field_of v0_IE_GSNAddress 4 (\<lambda>p. Inr (ip_String p))"

definition i0_ChargingGatewayAddress :: "tv_ie \<Rightarrow> string result" where
  "i0_ChargingGatewayAddress = field_of v0_IE_ChargingGatewayAddress 4 (\<lambda>p. Inr (ip_String p))"

text \<open>\<open>MustPDPTypeOrganization\<close> drops an error, and \<open>pdpTypeIETF\<close> is 0xf1.\<close>

definition i0_IPAddress :: "tv_ie \<Rightarrow> string result" where
  "i0_IPAddress i =
     (if length (tv_Payload i) < 4 then eof
      else if tv_Type i = v0_IE_EndUserAddress then
        andThen (must 0 (i0_PDPTypeOrganization i)) (\<lambda>org.
          if org \<noteq> 0xf1 then Inl (Error IEErrMalformed)
          else if length (tv_Payload i) < 3 then eof
          else andThen (slice_from (tv_Payload i) 2) (\<lambda>a. Inr (ip_String a)))
      else if tv_Type i = v0_IE_GSNAddress then Inr (ip_String (tv_Payload i))
      else tv_wrong_type i)"

section \<open>Reading numerals\<close>

lemma digit_char_table:
  "d < 16 \<Longrightarrow> hex_val (digit_char d) = Some (of_nat d) \<and> nibble (digit_char d) = of_nat d \<and>
     (dec_digit (digit_char d) \<longleftrightarrow> d < 10) \<and> (digit_char d = CHR ''0'' \<longleftrightarrow> d = 0)"
proof -
  have "\<forall>d \<in> set [0..<16]. hex_val (digit_char d) = Some (of_nat d) \<and> nibble (digit_char d) = of_nat d \<and>
     (dec_digit (digit_char d) \<longleftrightarrow> d < 10) \<and> (digit_char d = CHR ''0'' \<longleftrightarrow> d = 0)"
    by code_simp
  then show "d < 16 \<Longrightarrow> ?thesis" by simp
qed

lemma digits_value_snoc: "digits_value base (s @ [c]) = base * digits_value base s + uint (nibble c)"
  by (simp add: digits_value_def)

lemma digits_value_zeros: "digits_value base (dropWhile (\<lambda>c. c = CHR ''0'') s) = digits_value base s"
proof -
  have "nibble (CHR ''0'') = 0" by code_simp
  then show ?thesis by (induction s) (simp_all add: digits_value_def)
qed

lemma digits_value_text:
  "digits_value base (without_zeros ds d) = digits_value base (ds @ [d])"
  by (simp add: without_zeros_def digits_value_snoc digits_value_zeros)

lemma set_without_zeros: "set (without_zeros ds d) \<subseteq> set (ds @ [d])"
  by (auto simp: without_zeros_def dest: set_dropWhileD)

lemma without_zeros_nonempty [simp]: "without_zeros ds d \<noteq> []"
  by (simp add: without_zeros_def)

lemma without_zeros_hd: "1 < length (without_zeros ds d) \<Longrightarrow> hd (without_zeros ds d) \<noteq> CHR ''0''"
  using hd_dropWhile [of "\<lambda>c. c = CHR ''0''" ds]
  by (cases "dropWhile (\<lambda>c. c = CHR ''0'') ds") (auto simp: without_zeros_def)

lemma octet_group_bounds: "unat (b :: byte) < 256" "unat (g :: u16) < 65536"
  by (rule order_less_le_trans [OF unsigned_less]; simp)+

text \<open>The digits of a numeral are read as a whole, up to the character behind them.\<close>

lemma digits_prefix:
  assumes "\<forall>c \<in> set ds. P c" "rest = [] \<or> \<not> P (hd rest)"
  shows "takeWhile P (ds @ rest) = ds" "dropWhile P (ds @ rest) = rest"
proof -
  have "takeWhile P rest = []" "dropWhile P rest = rest" using assms(2) by (cases rest; simp)+
  then show "takeWhile P (ds @ rest) = ds" "dropWhile P (ds @ rest) = rest"
    using assms(1) by (simp_all add: takeWhile_append2 dropWhile_append2)
qed

lemma decimal_digits:
  "n < 256 \<Longrightarrow> n div 100 < 10" "n div 10 mod 10 < (10 :: nat)" "n mod 10 < (10 :: nat)"
  "10 * (10 * (n div 100) + n div 10 mod 10) + n mod 10 = n"
proof -
  have "n div 100 = n div 10 div 10" by (simp add: div_mult2_eq [symmetric])
  moreover have "10 * (m div 10) + m mod 10 = m" for m :: nat by simp
  ultimately show "10 * (10 * (n div 100) + n div 10 mod 10) + n mod 10 = n" by simp
qed simp_all

lemma hex_digits:
  "n < 65536 \<Longrightarrow> n div 4096 < 16" "n div 256 mod 16 < (16 :: nat)" "n div 16 mod 16 < (16 :: nat)" "n mod 16 < (16 :: nat)"
  "16 * (16 * (16 * (n div 4096) + n div 256 mod 16) + n div 16 mod 16) + n mod 16 = n"
proof -
  have "n div 4096 = n div 256 div 16" "n div 256 = n div 16 div 16" by (simp_all add: div_mult2_eq [symmetric])
  moreover have "16 * (m div 16) + m mod 16 = m" for m :: nat by simp
  ultimately show "16 * (16 * (16 * (n div 4096) + n div 256 mod 16) + n div 16 mod 16) + n mod 16 = n" by metis
qed simp_all

lemma digit_value: "d < 16 \<Longrightarrow> uint (nibble (digit_char d)) = int d"
  using digit_char_table [of d] by (simp add: unsigned_of_nat take_bit_nat_eq_self)

lemma octet_text_digits: "\<forall>c \<in> set (octet_text b). dec_digit c \<and> hex_val c \<noteq> None"
proof -
  have "dec_digit (digit_char n) \<and> hex_val (digit_char n) \<noteq> None"
    if "n \<in> {unat b div 100, unat b div 10 mod 10, unat b mod 10}" for n
    using digit_char_table [of n] that decimal_digits [of "unat b"] octet_group_bounds(1) [of b]
    by (elim insertE emptyE) simp_all
  then have "\<forall>c \<in> set (map digit_char [unat b div 100, unat b div 10 mod 10] @ [digit_char (unat b mod 10)]).
      dec_digit c \<and> hex_val c \<noteq> None"
    by (simp only: set_append set_map list.set ball_Un) blast
  then show ?thesis unfolding octet_text_def Let_def by (blast dest: set_without_zeros [THEN subsetD])
qed

lemma octet_text_value: "digits_value 10 (octet_text b) = uint b"
proof -
  define n where "n = unat b"
  have d: "n div 100 < 16" "n div 10 mod 10 < 16" "n mod 10 < 16"
    using decimal_digits [of n] octet_group_bounds(1) [of b] by (simp_all add: n_def)
  have "digits_value 10 (octet_text b) = 10 * (10 * int (n div 100) + int (n div 10 mod 10)) + int (n mod 10)"
    unfolding octet_text_def Let_def digits_value_text n_def [symmetric]
    using d by (simp only: digits_value_def list.map append.simps foldl.simps digit_value mult_zero_right add_0)
  also have "\<dots> = int (10 * (10 * (n div 100) + n div 10 mod 10) + n mod 10)" by (simp only: of_nat_add of_nat_mult) simp
  also have "\<dots> = uint b" by (simp only: decimal_digits n_def) simp
  finally show ?thesis .
qed

lemma dtoi_octet:
  "rest = [] \<or> \<not> dec_digit (hd rest) \<Longrightarrow> dtoi (octet_text b @ rest) = Some (uint b, octet_text b, rest)"
  using digits_prefix [of "octet_text b" dec_digit rest] octet_text_digits [of b] octet_text_value [of b]
  by (simp add: dtoi_def Let_def) (simp add: octet_text_def Let_def)

lemma group_text_digits: "\<forall>c \<in> set (group_text g). hex_val c \<noteq> None"
proof -
  have "hex_val (digit_char n) \<noteq> None"
    if "n \<in> {unat g div 4096, unat g div 256 mod 16, unat g div 16 mod 16, unat g mod 16}" for n
    using digit_char_table [of n] that hex_digits [of "unat g"] octet_group_bounds(2) [of g]
    by (elim insertE emptyE) simp_all
  then have "\<forall>c \<in> set (map digit_char [unat g div 4096, unat g div 256 mod 16, unat g div 16 mod 16] @
      [digit_char (unat g mod 16)]). hex_val c \<noteq> None"
    by (simp only: set_append set_map list.set ball_Un) blast
  then show ?thesis unfolding group_text_def Let_def by (blast dest: set_without_zeros [THEN subsetD])
qed

lemma group_text_value: "digits_value 16 (group_text g) = uint g"
proof -
  define n where "n = unat g"
  have d: "n div 4096 < 16" "n div 256 mod 16 < 16" "n div 16 mod 16 < 16" "n mod 16 < 16"
    using hex_digits [of n] octet_group_bounds(2) [of g] by (simp_all add: n_def)
  have "digits_value 16 (group_text g) =
      16 * (16 * (16 * int (n div 4096) + int (n div 256 mod 16)) + int (n div 16 mod 16)) + int (n mod 16)"
    unfolding group_text_def Let_def digits_value_text n_def [symmetric]
    using d by (simp only: digits_value_def list.map append.simps foldl.simps digit_value mult_zero_right add_0)
  also have "\<dots> = int (16 * (16 * (16 * (n div 4096) + n div 256 mod 16) + n div 16 mod 16) + n mod 16)"
    by (simp only: of_nat_add of_nat_mult) simp
  also have "\<dots> = uint g" by (simp only: hex_digits n_def) simp
  finally show ?thesis .
qed

lemma xtoi_group:
  "rest = [] \<or> hex_val (hd rest) = None \<Longrightarrow> xtoi (group_text g @ rest) = Some (uint g, rest)"
  using digits_prefix [of "group_text g" "\<lambda>c. hex_val c \<noteq> None" rest] group_text_digits [of g] group_text_value [of g]
  by (simp add: xtoi_def Let_def) (simp add: group_text_def Let_def)

section \<open>Reading addresses\<close>

lemma Join_Cons: "ws \<noteq> [] \<Longrightarrow> Join c (w # ws) = w @ c # Join c ws"
  by (cases ws) simp_all

lemma octet_text_no_zero: "\<not> (1 < length (octet_text b) \<and> hd (octet_text b) = CHR ''0'')"
  using without_zeros_hd by (simp add: octet_text_def Let_def)

lemma text_nonempty [simp]: "octet_text b \<noteq> []" "group_text g \<noteq> []"
  by (simp_all add: octet_text_def group_text_def Let_def)

lemma separators:
  "\<not> dec_digit CHR ''.''" "hex_val CHR ''.'' = None" "hex_val CHR '':'' = None"
  by code_simp+

lemma uint_bounds: "\<not> uint (b :: byte) > 0xff" "\<not> uint (g :: u16) > 0xffff"
proof -
  have "uint b < 256" "uint g < 65536"
    by (rule order_less_le_trans [OF unsigned_less]; simp)+
  then show "\<not> uint b > 0xff" "\<not> uint g > 0xffff" by simp_all
qed

lemma parse_octets_text:
  "length bs = n \<Longrightarrow> bs \<noteq> [] \<Longrightarrow> parse_octets n (Join CHR ''.'' (map octet_text bs)) = Some bs"
proof (induction bs arbitrary: n)
  case (Cons b bs)
  obtain m where m: "n = Suc m" "m = length bs" using Cons.prems(1) by auto
  show ?case
  proof (cases "bs = []")
    case True
    then show ?thesis using dtoi_octet [of "[]" b] m octet_text_no_zero [of b]
      by (simp add: uint_bounds del: One_nat_def)
  next
    case False
    let ?rest = "Join CHR ''.'' (map octet_text bs)"
    have "dtoi (octet_text b @ CHR ''.'' # ?rest) = Some (uint b, octet_text b, CHR ''.'' # ?rest)"
      by (rule dtoi_octet) (simp add: separators)
    moreover have "parse_octets m ?rest = Some bs" using Cons.IH [of m] m False by simp
    moreover have "m \<noteq> 0" using m False by simp
    ultimately show ?thesis using octet_text_no_zero [of b] False
      by (simp add: m(1) uint_bounds Join_Cons del: One_nat_def)
  qed
qed simp

lemma group_text_hd: "hd (group_text g @ s) \<noteq> CHR '':''" "hd (group_text g @ s) \<noteq> CHR ''.''"
proof -
  have "hd (group_text g @ s) \<in> set (group_text g)" by simp
  then have "hex_val (hd (group_text g @ s)) \<noteq> None" using group_text_digits by blast
  then show "hd (group_text g @ s) \<noteq> CHR '':''" "hd (group_text g @ s) \<noteq> CHR ''.''"
    using separators by metis+
qed

text \<open>A group with a colon behind it.\<close>

lemma parse_groups_step:
  assumes "r \<noteq> []" "hd r \<noteq> CHR '':''"
  shows "parse_groups (Suc k) (group_text g @ CHR '':'' # r) acc ell = parse_groups k r (acc @ be16 g) ell"
proof -
  have "xtoi (group_text g @ CHR '':'' # r) = Some (uint g, CHR '':'' # r)"
    by (rule xtoi_group) (simp add: separators)
  then show ?thesis using assms by (simp add: uint_bounds Let_def)
qed

lemma groups_hd: "gs \<noteq> [] \<Longrightarrow> Join CHR '':'' (map group_text gs) @ s \<noteq> [] \<and>
    hd (Join CHR '':'' (map group_text gs) @ s) \<noteq> CHR '':''"
  using group_text_hd(1) by (cases gs; cases "tl gs") (auto simp: Join_Cons)

lemma parse_groups_text:
  "gs \<noteq> [] \<Longrightarrow> length gs \<le> k \<Longrightarrow>
     parse_groups k (Join CHR '':'' (map group_text gs)) acc ell = Some ([], acc @ concat (map be16 gs), ell)"
proof (induction gs arbitrary: k acc)
  case (Cons g gs)
  obtain m where m: "k = Suc m" "length gs \<le> m" using Cons.prems(2) by (cases k) auto
  show ?case
  proof (cases "gs = []")
    case True
    then show ?thesis using xtoi_group [of "[]" g] m by (simp add: uint_bounds Let_def)
  next
    case False
    then show ?thesis using Cons.IH [of m "acc @ be16 g"] m groups_hd [of gs "[]"]
      by (simp add: Join_Cons parse_groups_step del: parse_groups.simps)
  qed
qed simp

text \<open>The groups before an ellipsis.\<close>

lemma parse_groups_ellipsis:
  "gs \<noteq> [] \<Longrightarrow> length gs \<le> k \<Longrightarrow>
     parse_groups k (Join CHR '':'' (map group_text gs) @ '':'' @ '':'' @ s) acc None =
       (let acc = acc @ concat (map be16 gs) in
        if s = [] then Some ([], acc, Some (length acc))
        else parse_groups (k - length gs) s acc (Some (length acc)))"
proof (induction gs arbitrary: k acc)
  case (Cons g gs)
  obtain m where m: "k = Suc m" "length gs \<le> m" using Cons.prems(2) by (cases k) auto
  show ?case
  proof (cases "gs = []")
    case True
    have "xtoi (group_text g @ CHR '':'' # CHR '':'' # s) = Some (uint g, CHR '':'' # CHR '':'' # s)"
      by (rule xtoi_group) (simp add: separators)
    then show ?thesis using True m by (simp add: uint_bounds Let_def)
  next
    case False
    then show ?thesis using Cons.IH [of m "acc @ be16 g"] m(2) groups_hd [of gs "'':'' @ '':'' @ s"]
      by (simp add: m(1) Join_Cons parse_groups_step Let_def del: parse_groups.simps)
  qed
qed simp

section \<open>The ellipsis stands for zeros\<close>

definition zero_run :: "u16 list \<Rightarrow> nat \<times> nat \<Rightarrow> bool" where
  "zero_run full e \<longleftrightarrow> fst e \<le> snd e \<and> snd e \<le> length full \<and>
     full = take (fst e) full @ replicate (snd e - fst e) 0 @ drop (snd e) full"

lemma zero_run_takeWhile:
  assumes "drop i full = gs" "n = length (takeWhile (\<lambda>g. g = 0) gs)" "gs \<noteq> []"
  shows "zero_run full (i, i + n)"
proof -
  have "i + n \<le> length full"
    using assms length_takeWhile_le [of "\<lambda>g. g = 0" gs] by (cases "length full \<le> i") auto
  moreover have "takeWhile (\<lambda>g. g = 0) gs = replicate n 0"
    using assms(2) by (auto simp: list_eq_iff_nth_eq dest: nth_mem set_takeWhileD)
  then have "gs = replicate n 0 @ drop n gs"
    using takeWhile_dropWhile_id [of "\<lambda>g. g = 0" gs] assms(2) by (simp add: dropWhile_eq_drop)
  then have "full = take i full @ replicate n 0 @ drop (i + n) full"
    using append_take_drop_id [of i full] assms(1) by (metis add.commute drop_drop)
  ultimately show ?thesis by (simp add: zero_run_def)
qed

lemma longest_zeros_run:
  "drop i full = gs \<Longrightarrow> zero_run full e \<Longrightarrow> zero_run full (longest_zeros i gs e)"
proof (induction i gs e rule: longest_zeros.induct)
  case (2 i g gs e)
  let ?n = "length (takeWhile (\<lambda>g. g = 0) (g # gs))"
  have "drop (i + k + 1) full = drop k gs" for k
    using 2(3) by (metis add.commute add.assoc drop_drop drop_Suc_Cons Suc_eq_plus1)
  from this [of ?n] this [of 0]
  have "drop (i + ?n + 1) full = drop ?n gs" "drop (i + 1) full = gs" by simp_all
  moreover have "zero_run full (i, i + ?n)" by (rule zero_run_takeWhile [OF 2(3)]) simp_all
  ultimately show ?case
    using 2(1) [OF refl] 2(2) [OF refl] 2(4) by (simp only: longest_zeros.simps Let_def split: if_split) blast
qed simp

lemma groups_bytes: "even (length b) \<Longrightarrow> concat (map be16 (ip_groups b)) = b \<and> length b = 2 * length (ip_groups b)"
  by (induction b rule: ip_groups.induct) (simp_all add: be16_join16)

lemma be16_zeros: "concat (map be16 (replicate n 0)) = replicate (2 * n) 0"
  by (induction n) (simp_all add: be16_def)

lemma concat_be16_length: "length (concat (map be16 gs)) = 2 * length gs"
  by (induction gs) simp_all

lemma parseIPv6_text:
  assumes "length gs = 8"
  shows "parseIPv6 (ip6_text gs) = Some (concat (map be16 gs))"
proof -
  obtain e0 e1 where e: "longest_zeros 0 gs (0, 0) = (e0, e1)" by fastforce
  let ?pre = "take e0 gs" and ?post = "drop e1 gs"
  have gs: "gs \<noteq> []" using assms by auto
  have "zero_run gs (e0, e1)" using longest_zeros_run [of 0 gs gs "(0, 0)"] e by (simp add: zero_run_def)
  then have run: "e0 \<le> e1" "e1 \<le> 8" "gs = ?pre @ replicate (e1 - e0) 0 @ ?post"
    using assms by (simp_all add: zero_run_def)
  have bytes: "concat (map be16 gs) = concat (map be16 ?pre) @ replicate (2 * (e1 - e0)) 0 @ concat (map be16 ?post)"
    by (subst run(3)) (simp only: map_append concat_append be16_zeros)
  show ?thesis
  proof (cases "e1 - e0 \<le> 1")
    case True
    have "take 2 (ip6_text gs) \<noteq> '':'' @ '':''"
      using groups_hd [of gs "[]"] e True gs
      by (cases "ip6_text gs") (simp_all add: ip6_text_def)
    then show ?thesis
      using parse_groups_text [OF gs, of 8 "[]" None] assms e True concat_be16_length [of gs]
      by (simp add: parseIPv6_def ip6_text_def Let_def del: parse_groups.simps)
  next
    case False
    let ?s = "Join CHR '':'' (map group_text ?post)"
    have s: "?s = [] \<longleftrightarrow> ?post = []" using groups_hd [of ?post "[]"] by auto
    have t: "ip6_text gs = Join CHR '':'' (map group_text ?pre) @ '':'' @ '':'' @ ?s"
      using e False by (simp add: ip6_text_def)
    have len: "length (concat (map be16 ?post)) = 2 * (8 - e1)" "length (concat (map be16 ?pre)) = 2 * e0"
      using run assms by (simp_all add: concat_be16_length)
    have "16 - 2 * e0 - 2 * (8 - e1) = 2 * (e1 - e0)" using run(1,2) by arith
    note fill = bytes len this
    show ?thesis
    proof (cases "e0 = 0")
      case True
      then show ?thesis
        using parse_groups_text [of ?post 8 "[]" "Some 0"] fill s False run(2) assms
        by (simp add: parseIPv6_def t Let_def del: parse_groups.simps)
    next
      case e0: False
      then have pre: "?pre \<noteq> []" "length ?pre = e0" using assms run by auto
      then have no_start: "take 2 (ip6_text gs) \<noteq> '':'' @ '':''"
        using groups_hd [of ?pre "'':'' @ '':'' @ ?s"] by (cases "ip6_text gs") (simp_all add: t)
      have "parse_groups 8 (ip6_text gs) [] None =
          Some ([], concat (map be16 ?pre) @ concat (map be16 ?post), Some (2 * e0))"
        using parse_groups_ellipsis [of ?pre 8 ?s "[]"] pre run(1,2) s len assms False
          parse_groups_text [of ?post "8 - e0" "concat (map be16 ?pre)" "Some (2 * e0)"]
        by (simp add: t Let_def del: parse_groups.simps)
      moreover have "length (concat (map be16 ?pre) @ concat (map be16 ?post)) < 16"
        using len False run(1,2) by simp
      moreover have "16 - length (concat (map be16 ?pre) @ concat (map be16 ?post)) = 2 * (e1 - e0)"
        using len run(1,2) by simp
      ultimately show ?thesis
        using no_start len(2) by (simp only: parseIPv6_def Let_def bytes) simp
    qed
  qed
qed

text \<open>\<open>ParseIP\<close> looks for the first dot or colon.\<close>

lemma find_separator:
  assumes "c \<in> set s" "d \<notin> set s" "c = CHR ''.'' \<and> d = CHR '':'' \<or> c = CHR '':'' \<and> d = CHR ''.''"
  shows "find (\<lambda>c. c = CHR ''.'' \<or> c = CHR '':'') s = Some c"
proof (cases "find (\<lambda>c. c = CHR ''.'' \<or> c = CHR '':'') s")
  case None
  then have "\<not> (c = CHR ''.'' \<or> c = CHR '':'')" using assms(1) by (auto simp only: find_None_iff)
  then show ?thesis using assms(3) by blast
next
  case (Some x)
  then have "x = CHR ''.'' \<or> x = CHR '':''" "x \<in> set s" using find_SomeD [OF Some] by simp_all
  then have "x = c" using assms(2,3) by blast
  then show ?thesis using Some by simp
qed

lemma set_Join: "set (Join c ws) \<subseteq> insert c (\<Union> (set ` set ws))"
  by (induction c ws rule: Join.induct) auto

lemma Join_separator: "1 < length ws \<Longrightarrow> c \<in> set (Join c ws)"
  by (induction c ws rule: Join.induct) auto

lemma ParseIP_v4:
  assumes "length a = 4"
  shows "ParseIP (Join CHR ''.'' (map octet_text a)) = v4InV6Prefix @ a"
proof -
  have "CHR '':'' \<notin> set (octet_text b)" for b
    using octet_text_digits [of b] separators by auto
  then have "find (\<lambda>c. c = CHR ''.'' \<or> c = CHR '':'') (Join CHR ''.'' (map octet_text a)) = Some CHR ''.''"
    using set_Join [of "CHR ''.''" "map octet_text a"] Join_separator [of "map octet_text a" "CHR ''.''"] assms
    by (intro find_separator [where d = "CHR '':''"]) auto
  moreover have "a \<noteq> []" using assms by auto
  ultimately show ?thesis
    using parse_octets_text [OF assms] by (simp add: ParseIP_def parseIPv4_def)
qed

lemma ParseIP_v6:
  assumes "length gs = 8"
  shows "ParseIP (ip6_text gs) = concat (map be16 gs)"
proof -
  obtain e0 e1 where e: "longest_zeros 0 gs (0, 0) = (e0, e1)" by fastforce
  have "CHR ''.'' \<notin> set (group_text g)" for g
    using group_text_digits [of g] separators by auto
  then have no_dot: "CHR ''.'' \<notin> set (Join CHR '':'' (map group_text hs))" for hs
    using set_Join [of "CHR '':''" "map group_text hs"] by auto
  have "CHR '':'' \<in> set (ip6_text gs)"
    using Join_separator [of "map group_text gs" "CHR '':''"] assms e by (simp add: ip6_text_def)
  moreover have "CHR ''.'' \<notin> set (ip6_text gs)"
    using no_dot e by (simp add: ip6_text_def)
  ultimately have "find (\<lambda>c. c = CHR ''.'' \<or> c = CHR '':'') (ip6_text gs) = Some CHR '':''"
    by (rule find_separator) simp
  then show ?thesis using parseIPv6_text [OF assms] by (simp add: ParseIP_def)
qed

text \<open>The text of an address of four or sixteen bytes is read as this address.\<close>

lemma ParseIP_String:
  assumes "length a = 4 \<or> length a = 16"
  shows "ParseIP (ip_String a) = To16 a"
proof (cases "To4 a = []")
  case True
  then have "length a = 16" "a \<noteq> []" using assms by (auto simp: To4_def)
  then have "concat (map be16 (ip_groups a)) = a" "length (ip_groups a) = 8"
    using groups_bytes [of a] by simp_all
  then show ?thesis using True \<open>length a = 16\<close> ParseIP_v6 [of "ip_groups a"] \<open>a \<noteq> []\<close>
    by (simp add: ip_String_def To16_def)
next
  case False
  then have "length (To4 a) = 4" "a \<noteq> []" using To4_length [of a] by (auto simp: To4_def)
  moreover have "v4InV6Prefix @ To4 a = To16 a"
    using False append_take_drop_id [of 12 a]
    by (auto simp: To4_def To16_def simp del: append_take_drop_id split: if_splits)
  ultimately show ?thesis using False assms ParseIP_v4 [of "To4 a"] by (auto simp: ip_String_def)
qed

text \<open>The form an address is stored in does not show in its text.\<close>

lemma ip_String_To4: "To4 a \<noteq> [] \<Longrightarrow> ip_String (To4 a) = ip_String a"
  using To4_length [of a] by (auto simp: ip_String_def To4_def split: if_splits)

lemma To4_To16: "To4 (To16 a) = To4 a"
  by (auto simp: To4_def To16_def v4InV6Prefix_def)

lemmas address_defs =
  NewIPAddress_def NewIPAddressNetIP_def ie_IPAddress_def ie_IP_def v1_NewGSNAddress_def
  v1_NewGSNAddressByIP_def i1_GSNAddress_def i1_IPAddress_def i1_IP_def v0_NewGSNAddress_def i0_GSNAddress_def
  i0_IPAddress_def v0_NewChargingGatewayAddress_def i0_ChargingGatewayAddress_def Let_def ie_New_eq

section \<open>Elements made from text\<close>

text \<open>
  C39. Addresses as text: for every address of 4 or 16 bytes, the accessors of the three versions
  return its text, and the constructors that take text make from it the same element as from the
  address. So the text an accessor returns can be given to any constructor, and comes back.
\<close>

theorem address_text_roundtrip:
  assumes "length a = 4 \<or> length a = 16"
  shows "NewIPAddress (ip_String a) = NewIPAddressNetIP a \<and>
     ie_IPAddress (NewIPAddressNetIP a) = Inr (ip_String a) \<and>
     v1_NewGSNAddress (ip_String a) = v1_NewGSNAddressByIP a \<and>
     (\<exists>i. v1_NewGSNAddressByIP a = Some i \<and> i1_GSNAddress i = Inr (ip_String a) \<and> i1_IPAddress i = Inr (ip_String a)) \<and>
     i0_GSNAddress (v0_NewGSNAddress (ip_String a)) = Inr (ip_String a) \<and>
     i0_IPAddress (v0_NewGSNAddress (ip_String a)) = Inr (ip_String a) \<and>
     i0_ChargingGatewayAddress (v0_NewChargingGatewayAddress (ip_String a)) = Inr (ip_String a)"
proof (cases "To4 a = []")
  case True
  then have "length a = 16" "To16 a = a" using assms by (auto simp: To4_def To16_def)
  then show ?thesis using True ParseIP_String [of a]
    by (auto simp: address_defs)
next
  case False
  have "length (To4 a) = 4" using False To4_length [of a] by simp
  then show ?thesis using False ParseIP_String [OF assms] To4_To16 [of a] ip_String_To4 [OF False]
    by (auto simp: address_defs)
qed

theorem address_text_roundtrip_witness:
  "ie_IPAddress (NewIPAddressNetIP [0x20, 0x01, 0x0d, 0xb8, 0, 0, 0, 0, 0, 0, 0, 0, 0, 0, 0, 1]) = Inr ''2001:db8::1''"
proof -
  have "ip_String [0x20, 0x01, 0x0d, 0xb8, 0, 0, 0, 0, 0, 0, 0, 0, 0, 0, 0, 1] = ''2001:db8::1''"
    by (simp add: ip_String_def To4_def v4InV6Prefix_def ip6_text_def longest_zeros.simps join16_def group_text_def
        without_zeros_def digit_char_def Let_def)
  then show ?thesis
    using address_text_roundtrip [of "[0x20, 0x01, 0x0d, 0xb8, 0, 0, 0, 0, 0, 0, 0, 0, 0, 0, 0, 1]"] by simp
qed

end
