(* ===== verification/V2MsgMethods.thy ===== *)
theory V2MsgMethods
  imports V2Parse
begin

text \<open>
  The methods of the GTPv2 message types that \<open>V2Msg...\<close> leave out: \<open>SetLength\<close>, \<open>MessageTypeName\<close>,
  \<open>TEID\<close> and the function \<open>Parse...\<close> of each type, and the ones of the interface made of them. The theorem
  is that \<open>SetLength\<close> sets the length field to what \<open>Marshal\<close> writes into it.
\<close>

section \<open>The methods of each type\<close>

definition EchoRequest_SetLength :: "EchoRequest_field v2_msg \<Rightarrow> EchoRequest_field v2_msg" where
  "EchoRequest_SetLength m = msg_SetLength EchoRequest_lens m"

definition EchoRequest_MessageTypeName :: string where
  "EchoRequest_MessageTypeName = ''Echo Request''"

definition EchoRequest_TEID :: "EchoRequest_field v2_msg \<Rightarrow> u32" where
  "EchoRequest_TEID m = msg_TEID m"

definition ParseEchoRequest :: "bytes \<Rightarrow> EchoRequest_field v2_msg result" where
  "ParseEchoRequest b = EchoRequest_UnmarshalBinary b"

definition EchoResponse_SetLength :: "EchoResponse_field v2_msg \<Rightarrow> EchoResponse_field v2_msg" where
  "EchoResponse_SetLength m = msg_SetLength EchoResponse_lens m"

definition EchoResponse_MessageTypeName :: string where
  "EchoResponse_MessageTypeName = ''Echo Response''"

definition EchoResponse_TEID :: "EchoResponse_field v2_msg \<Rightarrow> u32" where
  "EchoResponse_TEID m = msg_TEID m"

definition ParseEchoResponse :: "bytes \<Rightarrow> EchoResponse_field v2_msg result" where
  "ParseEchoResponse b = EchoResponse_UnmarshalBinary b"

definition VersionNotSupportedIndication_SetLength :: "unit v2_msg \<Rightarrow> unit v2_msg" where
  "VersionNotSupportedIndication_SetLength m = msg_SetLength VersionNotSupportedIndication_order m"

definition VersionNotSupportedIndication_MessageTypeName :: string where
  "VersionNotSupportedIndication_MessageTypeName = ''Version Not Supported Indication''"

definition VersionNotSupportedIndication_TEID :: "unit v2_msg \<Rightarrow> u32" where
  "VersionNotSupportedIndication_TEID m = msg_TEID m"

definition ParseVersionNotSupportedIndication :: "bytes \<Rightarrow> unit v2_msg result" where
  "ParseVersionNotSupportedIndication b = VersionNotSupportedIndication_UnmarshalBinary b"

definition CreateSessionRequest_SetLength :: "CreateSessionRequest_field v2_msg \<Rightarrow> CreateSessionRequest_field v2_msg" where
  "CreateSessionRequest_SetLength m = msg_SetLength CreateSessionRequest_lens m"

definition CreateSessionRequest_MessageTypeName :: string where
  "CreateSessionRequest_MessageTypeName = ''Create Session Request''"

definition CreateSessionRequest_TEID :: "CreateSessionRequest_field v2_msg \<Rightarrow> u32" where
  "CreateSessionRequest_TEID m = msg_TEID m"

definition ParseCreateSessionRequest :: "bytes \<Rightarrow> CreateSessionRequest_field v2_msg result" where
  "ParseCreateSessionRequest b = CreateSessionRequest_UnmarshalBinary b"

definition CreateSessionResponse_SetLength :: "CreateSessionResponse_field v2_msg \<Rightarrow> CreateSessionResponse_field v2_msg" where
  "CreateSessionResponse_SetLength m = msg_SetLength CreateSessionResponse_lens m"

definition CreateSessionResponse_MessageTypeName :: string where
  "CreateSessionResponse_MessageTypeName = ''Create Session Response''"

definition CreateSessionResponse_TEID :: "CreateSessionResponse_field v2_msg \<Rightarrow> u32" where
  "CreateSessionResponse_TEID m = msg_TEID m"

definition ParseCreateSessionResponse :: "bytes \<Rightarrow> CreateSessionResponse_field v2_msg result" where
  "ParseCreateSessionResponse b = CreateSessionResponse_UnmarshalBinary b"

definition DeleteSessionRequest_SetLength :: "DeleteSessionRequest_field v2_msg \<Rightarrow> DeleteSessionRequest_field v2_msg" where
  "DeleteSessionRequest_SetLength m = msg_SetLength DeleteSessionRequest_lens m"

definition DeleteSessionRequest_MessageTypeName :: string where
  "DeleteSessionRequest_MessageTypeName = ''Delete Session Request''"

definition DeleteSessionRequest_TEID :: "DeleteSessionRequest_field v2_msg \<Rightarrow> u32" where
  "DeleteSessionRequest_TEID m = msg_TEID m"

definition ParseDeleteSessionRequest :: "bytes \<Rightarrow> DeleteSessionRequest_field v2_msg result" where
  "ParseDeleteSessionRequest b = DeleteSessionRequest_UnmarshalBinary b"

definition DeleteSessionResponse_SetLength :: "DeleteSessionResponse_field v2_msg \<Rightarrow> DeleteSessionResponse_field v2_msg" where
  "DeleteSessionResponse_SetLength m = msg_SetLength DeleteSessionResponse_lens m"

definition DeleteSessionResponse_MessageTypeName :: string where
  "DeleteSessionResponse_MessageTypeName = ''Delete Session Response''"

definition DeleteSessionResponse_TEID :: "DeleteSessionResponse_field v2_msg \<Rightarrow> u32" where
  "DeleteSessionResponse_TEID m = msg_TEID m"

definition ParseDeleteSessionResponse :: "bytes \<Rightarrow> DeleteSessionResponse_field v2_msg result" where
  "ParseDeleteSessionResponse b = DeleteSessionResponse_UnmarshalBinary b"

definition ModifyBearerCommand_SetLength :: "ModifyBearerCommand_field v2_msg \<Rightarrow> ModifyBearerCommand_field v2_msg" where
  "ModifyBearerCommand_SetLength m = msg_SetLength ModifyBearerCommand_lens m"

definition ModifyBearerCommand_MessageTypeName :: string where
  "ModifyBearerCommand_MessageTypeName = ''Modify Bearer Command''"

definition ModifyBearerCommand_TEID :: "ModifyBearerCommand_field v2_msg \<Rightarrow> u32" where
  "ModifyBearerCommand_TEID m = msg_TEID m"

definition ParseModifyBearerCommand :: "bytes \<Rightarrow> ModifyBearerCommand_field v2_msg result" where
  "ParseModifyBearerCommand b = ModifyBearerCommand_UnmarshalBinary b"

definition ModifyBearerFailureIndication_SetLength :: "ModifyBearerFailureIndication_field v2_msg \<Rightarrow> ModifyBearerFailureIndication_field v2_msg" where
  "ModifyBearerFailureIndication_SetLength m = msg_SetLength ModifyBearerFailureIndication_lens m"

definition ModifyBearerFailureIndication_MessageTypeName :: string where
  "ModifyBearerFailureIndication_MessageTypeName = ''Modify Bearer Failure Indication''"

definition ModifyBearerFailureIndication_TEID :: "ModifyBearerFailureIndication_field v2_msg \<Rightarrow> u32" where
  "ModifyBearerFailureIndication_TEID m = msg_TEID m"

definition ParseModifyBearerFailureIndication :: "bytes \<Rightarrow> ModifyBearerFailureIndication_field v2_msg result" where
  "ParseModifyBearerFailureIndication b = ModifyBearerFailureIndication_UnmarshalBinary b"

definition DeleteBearerCommand_SetLength :: "DeleteBearerCommand_field v2_msg \<Rightarrow> DeleteBearerCommand_field v2_msg" where
  "DeleteBearerCommand_SetLength m = msg_SetLength DeleteBearerCommand_lens m"

definition DeleteBearerCommand_MessageTypeName :: string where
  "DeleteBearerCommand_MessageTypeName = ''Delete Bearer Command''"

definition DeleteBearerCommand_TEID :: "DeleteBearerCommand_field v2_msg \<Rightarrow> u32" where
  "DeleteBearerCommand_TEID m = msg_TEID m"

definition ParseDeleteBearerCommand :: "bytes \<Rightarrow> DeleteBearerCommand_field v2_msg result" where
  "ParseDeleteBearerCommand b = DeleteBearerCommand_UnmarshalBinary b"

definition DeleteBearerFailureIndication_SetLength :: "DeleteBearerFailureIndication_field v2_msg \<Rightarrow> DeleteBearerFailureIndication_field v2_msg" where
  "DeleteBearerFailureIndication_SetLength m = msg_SetLength DeleteBearerFailureIndication_lens m"

definition DeleteBearerFailureIndication_MessageTypeName :: string where
  "DeleteBearerFailureIndication_MessageTypeName = ''Delete Bearer Failure Indication''"

definition DeleteBearerFailureIndication_TEID :: "DeleteBearerFailureIndication_field v2_msg \<Rightarrow> u32" where
  "DeleteBearerFailureIndication_TEID m = msg_TEID m"

definition ParseDeleteBearerFailureIndication :: "bytes \<Rightarrow> DeleteBearerFailureIndication_field v2_msg result" where
  "ParseDeleteBearerFailureIndication b = DeleteBearerFailureIndication_UnmarshalBinary b"

definition DeleteBearerRequest_SetLength :: "DeleteBearerRequest_field v2_msg \<Rightarrow> DeleteBearerRequest_field v2_msg" where
  "DeleteBearerRequest_SetLength m = msg_SetLength DeleteBearerRequest_lens m"

definition DeleteBearerRequest_MessageTypeName :: string where
  "DeleteBearerRequest_MessageTypeName = ''Delete Bearer Request''"

definition DeleteBearerRequest_TEID :: "DeleteBearerRequest_field v2_msg \<Rightarrow> u32" where
  "DeleteBearerRequest_TEID m = msg_TEID m"

definition ParseDeleteBearerRequest :: "bytes \<Rightarrow> DeleteBearerRequest_field v2_msg result" where
  "ParseDeleteBearerRequest b = DeleteBearerRequest_UnmarshalBinary b"

definition CreateBearerRequest_SetLength :: "CreateBearerRequest_field v2_msg \<Rightarrow> CreateBearerRequest_field v2_msg" where
  "CreateBearerRequest_SetLength m = msg_SetLength CreateBearerRequest_lens m"

definition CreateBearerRequest_MessageTypeName :: string where
  "CreateBearerRequest_MessageTypeName = ''Create Bearer Request''"

definition CreateBearerRequest_TEID :: "CreateBearerRequest_field v2_msg \<Rightarrow> u32" where
  "CreateBearerRequest_TEID m = msg_TEID m"

definition ParseCreateBearerRequest :: "bytes \<Rightarrow> CreateBearerRequest_field v2_msg result" where
  "ParseCreateBearerRequest b = CreateBearerRequest_UnmarshalBinary b"

definition CreateBearerResponse_SetLength :: "CreateBearerResponse_field v2_msg \<Rightarrow> CreateBearerResponse_field v2_msg" where
  "CreateBearerResponse_SetLength m = msg_SetLength CreateBearerResponse_lens m"

definition CreateBearerResponse_MessageTypeName :: string where
  "CreateBearerResponse_MessageTypeName = ''Create Bearer Response''"

definition CreateBearerResponse_TEID :: "CreateBearerResponse_field v2_msg \<Rightarrow> u32" where
  "CreateBearerResponse_TEID m = msg_TEID m"

definition ParseCreateBearerResponse :: "bytes \<Rightarrow> CreateBearerResponse_field v2_msg result" where
  "ParseCreateBearerResponse b = CreateBearerResponse_UnmarshalBinary b"

definition DeleteBearerResponse_SetLength :: "DeleteBearerResponse_field v2_msg \<Rightarrow> DeleteBearerResponse_field v2_msg" where
  "DeleteBearerResponse_SetLength m = msg_SetLength DeleteBearerResponse_lens m"

definition DeleteBearerResponse_MessageTypeName :: string where
  "DeleteBearerResponse_MessageTypeName = ''Delete Bearer Response''"

definition DeleteBearerResponse_TEID :: "DeleteBearerResponse_field v2_msg \<Rightarrow> u32" where
  "DeleteBearerResponse_TEID m = msg_TEID m"

definition ParseDeleteBearerResponse :: "bytes \<Rightarrow> DeleteBearerResponse_field v2_msg result" where
  "ParseDeleteBearerResponse b = DeleteBearerResponse_UnmarshalBinary b"

definition ModifyBearerRequest_SetLength :: "ModifyBearerRequest_field v2_msg \<Rightarrow> ModifyBearerRequest_field v2_msg" where
  "ModifyBearerRequest_SetLength m = msg_SetLength ModifyBearerRequest_lens m"

definition ModifyBearerRequest_MessageTypeName :: string where
  "ModifyBearerRequest_MessageTypeName = ''Modify Bearer Request''"

definition ModifyBearerRequest_TEID :: "ModifyBearerRequest_field v2_msg \<Rightarrow> u32" where
  "ModifyBearerRequest_TEID m = msg_TEID m"

definition ParseModifyBearerRequest :: "bytes \<Rightarrow> ModifyBearerRequest_field v2_msg result" where
  "ParseModifyBearerRequest b = ModifyBearerRequest_UnmarshalBinary b"

definition ModifyBearerResponse_SetLength :: "ModifyBearerResponse_field v2_msg \<Rightarrow> ModifyBearerResponse_field v2_msg" where
  "ModifyBearerResponse_SetLength m = msg_SetLength ModifyBearerResponse_lens m"

definition ModifyBearerResponse_MessageTypeName :: string where
  "ModifyBearerResponse_MessageTypeName = ''Modify Bearer Response''"

definition ModifyBearerResponse_TEID :: "ModifyBearerResponse_field v2_msg \<Rightarrow> u32" where
  "ModifyBearerResponse_TEID m = msg_TEID m"

definition ParseModifyBearerResponse :: "bytes \<Rightarrow> ModifyBearerResponse_field v2_msg result" where
  "ParseModifyBearerResponse b = ModifyBearerResponse_UnmarshalBinary b"

definition UpdateBearerRequest_SetLength :: "UpdateBearerRequest_field v2_msg \<Rightarrow> UpdateBearerRequest_field v2_msg" where
  "UpdateBearerRequest_SetLength m = msg_SetLength UpdateBearerRequest_lens m"

definition UpdateBearerRequest_MessageTypeName :: string where
  "UpdateBearerRequest_MessageTypeName = ''Update Bearer Request''"

definition UpdateBearerRequest_TEID :: "UpdateBearerRequest_field v2_msg \<Rightarrow> u32" where
  "UpdateBearerRequest_TEID m = msg_TEID m"

definition ParseUpdateBearerRequest :: "bytes \<Rightarrow> UpdateBearerRequest_field v2_msg result" where
  "ParseUpdateBearerRequest b = UpdateBearerRequest_UnmarshalBinary b"

definition UpdateBearerResponse_SetLength :: "UpdateBearerResponse_field v2_msg \<Rightarrow> UpdateBearerResponse_field v2_msg" where
  "UpdateBearerResponse_SetLength m = msg_SetLength UpdateBearerResponse_lens m"

definition UpdateBearerResponse_MessageTypeName :: string where
  "UpdateBearerResponse_MessageTypeName = ''Update Bearer Response''"

definition UpdateBearerResponse_TEID :: "UpdateBearerResponse_field v2_msg \<Rightarrow> u32" where
  "UpdateBearerResponse_TEID m = msg_TEID m"

definition ParseUpdateBearerResponse :: "bytes \<Rightarrow> UpdateBearerResponse_field v2_msg result" where
  "ParseUpdateBearerResponse b = UpdateBearerResponse_UnmarshalBinary b"

definition ContextRequest_SetLength :: "ContextRequest_field v2_msg \<Rightarrow> ContextRequest_field v2_msg" where
  "ContextRequest_SetLength m = msg_SetLength ContextRequest_lens m"

definition ContextRequest_MessageTypeName :: string where
  "ContextRequest_MessageTypeName = ''Context Request''"

definition ContextRequest_TEID :: "ContextRequest_field v2_msg \<Rightarrow> u32" where
  "ContextRequest_TEID m = msg_TEID m"

definition ParseContextRequest :: "bytes \<Rightarrow> ContextRequest_field v2_msg result" where
  "ParseContextRequest b = ContextRequest_UnmarshalBinary b"

definition ContextResponse_SetLength :: "ContextResponse_field v2_msg \<Rightarrow> ContextResponse_field v2_msg" where
  "ContextResponse_SetLength m = msg_SetLength ContextResponse_lens m"

definition ContextResponse_MessageTypeName :: string where
  "ContextResponse_MessageTypeName = ''Context Response''"

definition ContextResponse_TEID :: "ContextResponse_field v2_msg \<Rightarrow> u32" where
  "ContextResponse_TEID m = msg_TEID m"

definition ParseContextResponse :: "bytes \<Rightarrow> ContextResponse_field v2_msg result" where
  "ParseContextResponse b = ContextResponse_UnmarshalBinary b"

definition ContextAcknowledge_SetLength :: "ContextAcknowledge_field v2_msg \<Rightarrow> ContextAcknowledge_field v2_msg" where
  "ContextAcknowledge_SetLength m = msg_SetLength ContextAcknowledge_lens m"

definition ContextAcknowledge_MessageTypeName :: string where
  "ContextAcknowledge_MessageTypeName = ''Context Acknowledge''"

definition ContextAcknowledge_TEID :: "ContextAcknowledge_field v2_msg \<Rightarrow> u32" where
  "ContextAcknowledge_TEID m = msg_TEID m"

definition ParseContextAcknowledge :: "bytes \<Rightarrow> ContextAcknowledge_field v2_msg result" where
  "ParseContextAcknowledge b = ContextAcknowledge_UnmarshalBinary b"

definition ReleaseAccessBearersRequest_SetLength :: "ReleaseAccessBearersRequest_field v2_msg \<Rightarrow> ReleaseAccessBearersRequest_field v2_msg" where
  "ReleaseAccessBearersRequest_SetLength m = msg_SetLength ReleaseAccessBearersRequest_lens m"

definition ReleaseAccessBearersRequest_MessageTypeName :: string where
  "ReleaseAccessBearersRequest_MessageTypeName = ''Release Access Bearers Request''"

definition ReleaseAccessBearersRequest_TEID :: "ReleaseAccessBearersRequest_field v2_msg \<Rightarrow> u32" where
  "ReleaseAccessBearersRequest_TEID m = msg_TEID m"

definition ParseReleaseAccessBearersRequest :: "bytes \<Rightarrow> ReleaseAccessBearersRequest_field v2_msg result" where
  "ParseReleaseAccessBearersRequest b = ReleaseAccessBearersRequest_UnmarshalBinary b"

definition ReleaseAccessBearersResponse_SetLength :: "ReleaseAccessBearersResponse_field v2_msg \<Rightarrow> ReleaseAccessBearersResponse_field v2_msg" where
  "ReleaseAccessBearersResponse_SetLength m = msg_SetLength ReleaseAccessBearersResponse_lens m"

definition ReleaseAccessBearersResponse_MessageTypeName :: string where
  "ReleaseAccessBearersResponse_MessageTypeName = ''Release Access Bearers Response''"

definition ReleaseAccessBearersResponse_TEID :: "ReleaseAccessBearersResponse_field v2_msg \<Rightarrow> u32" where
  "ReleaseAccessBearersResponse_TEID m = msg_TEID m"

definition ParseReleaseAccessBearersResponse :: "bytes \<Rightarrow> ReleaseAccessBearersResponse_field v2_msg result" where
  "ParseReleaseAccessBearersResponse b = ReleaseAccessBearersResponse_UnmarshalBinary b"

definition StopPagingIndication_SetLength :: "StopPagingIndication_field v2_msg \<Rightarrow> StopPagingIndication_field v2_msg" where
  "StopPagingIndication_SetLength m = msg_SetLength StopPagingIndication_lens m"

definition StopPagingIndication_MessageTypeName :: string where
  "StopPagingIndication_MessageTypeName = ''Stop Paging Indication''"

definition StopPagingIndication_TEID :: "StopPagingIndication_field v2_msg \<Rightarrow> u32" where
  "StopPagingIndication_TEID m = msg_TEID m"

definition ParseStopPagingIndication :: "bytes \<Rightarrow> StopPagingIndication_field v2_msg result" where
  "ParseStopPagingIndication b = StopPagingIndication_UnmarshalBinary b"

definition ModifyAccessBearersRequest_SetLength :: "ModifyAccessBearersRequest_field v2_msg \<Rightarrow> ModifyAccessBearersRequest_field v2_msg" where
  "ModifyAccessBearersRequest_SetLength m = msg_SetLength ModifyAccessBearersRequest_lens m"

definition ModifyAccessBearersRequest_MessageTypeName :: string where
  "ModifyAccessBearersRequest_MessageTypeName = ''Modify Access Bearers Request''"

definition ModifyAccessBearersRequest_TEID :: "ModifyAccessBearersRequest_field v2_msg \<Rightarrow> u32" where
  "ModifyAccessBearersRequest_TEID m = msg_TEID m"

definition ParseModifyAccessBearersRequest :: "bytes \<Rightarrow> ModifyAccessBearersRequest_field v2_msg result" where
  "ParseModifyAccessBearersRequest b = ModifyAccessBearersRequest_UnmarshalBinary b"

definition ModifyAccessBearersResponse_SetLength :: "ModifyAccessBearersResponse_field v2_msg \<Rightarrow> ModifyAccessBearersResponse_field v2_msg" where
  "ModifyAccessBearersResponse_SetLength m = msg_SetLength ModifyAccessBearersResponse_lens m"

definition ModifyAccessBearersResponse_MessageTypeName :: string where
  "ModifyAccessBearersResponse_MessageTypeName = ''Modify Access Bearers Response''"

definition ModifyAccessBearersResponse_TEID :: "ModifyAccessBearersResponse_field v2_msg \<Rightarrow> u32" where
  "ModifyAccessBearersResponse_TEID m = msg_TEID m"

definition ParseModifyAccessBearersResponse :: "bytes \<Rightarrow> ModifyAccessBearersResponse_field v2_msg result" where
  "ParseModifyAccessBearersResponse b = ModifyAccessBearersResponse_UnmarshalBinary b"

definition DeletePDNConnectionSetRequest_SetLength :: "DeletePDNConnectionSetRequest_field v2_msg \<Rightarrow> DeletePDNConnectionSetRequest_field v2_msg" where
  "DeletePDNConnectionSetRequest_SetLength m = msg_SetLength DeletePDNConnectionSetRequest_lens m"

definition DeletePDNConnectionSetRequest_MessageTypeName :: string where
  "DeletePDNConnectionSetRequest_MessageTypeName = ''Delete PDN Connection Set Request''"

definition DeletePDNConnectionSetRequest_TEID :: "DeletePDNConnectionSetRequest_field v2_msg \<Rightarrow> u32" where
  "DeletePDNConnectionSetRequest_TEID m = msg_TEID m"

definition ParseDeletePDNConnectionSetRequest :: "bytes \<Rightarrow> DeletePDNConnectionSetRequest_field v2_msg result" where
  "ParseDeletePDNConnectionSetRequest b = DeletePDNConnectionSetRequest_UnmarshalBinary b"

definition DeletePDNConnectionSetResponse_SetLength :: "DeletePDNConnectionSetResponse_field v2_msg \<Rightarrow> DeletePDNConnectionSetResponse_field v2_msg" where
  "DeletePDNConnectionSetResponse_SetLength m = msg_SetLength DeletePDNConnectionSetResponse_lens m"

definition DeletePDNConnectionSetResponse_MessageTypeName :: string where
  "DeletePDNConnectionSetResponse_MessageTypeName = ''Delete PDN Connection Set Response''"

definition DeletePDNConnectionSetResponse_TEID :: "DeletePDNConnectionSetResponse_field v2_msg \<Rightarrow> u32" where
  "DeletePDNConnectionSetResponse_TEID m = msg_TEID m"

definition ParseDeletePDNConnectionSetResponse :: "bytes \<Rightarrow> DeletePDNConnectionSetResponse_field v2_msg result" where
  "ParseDeletePDNConnectionSetResponse b = DeletePDNConnectionSetResponse_UnmarshalBinary b"

definition UpdatePDNConnectionSetRequest_SetLength :: "UpdatePDNConnectionSetRequest_field v2_msg \<Rightarrow> UpdatePDNConnectionSetRequest_field v2_msg" where
  "UpdatePDNConnectionSetRequest_SetLength m = msg_SetLength UpdatePDNConnectionSetRequest_lens m"

definition UpdatePDNConnectionSetRequest_MessageTypeName :: string where
  "UpdatePDNConnectionSetRequest_MessageTypeName = ''Update PDN Connection Set Request''"

definition UpdatePDNConnectionSetRequest_TEID :: "UpdatePDNConnectionSetRequest_field v2_msg \<Rightarrow> u32" where
  "UpdatePDNConnectionSetRequest_TEID m = msg_TEID m"

definition ParseUpdatePDNConnectionSetRequest :: "bytes \<Rightarrow> UpdatePDNConnectionSetRequest_field v2_msg result" where
  "ParseUpdatePDNConnectionSetRequest b = UpdatePDNConnectionSetRequest_UnmarshalBinary b"

definition UpdatePDNConnectionSetResponse_SetLength :: "UpdatePDNConnectionSetResponse_field v2_msg \<Rightarrow> UpdatePDNConnectionSetResponse_field v2_msg" where
  "UpdatePDNConnectionSetResponse_SetLength m = msg_SetLength UpdatePDNConnectionSetResponse_lens m"

definition UpdatePDNConnectionSetResponse_MessageTypeName :: string where
  "UpdatePDNConnectionSetResponse_MessageTypeName = ''Update PDN Connection Set Response''"

definition UpdatePDNConnectionSetResponse_TEID :: "UpdatePDNConnectionSetResponse_field v2_msg \<Rightarrow> u32" where
  "UpdatePDNConnectionSetResponse_TEID m = msg_TEID m"

definition ParseUpdatePDNConnectionSetResponse :: "bytes \<Rightarrow> UpdatePDNConnectionSetResponse_field v2_msg result" where
  "ParseUpdatePDNConnectionSetResponse b = UpdatePDNConnectionSetResponse_UnmarshalBinary b"

definition PGWRestartNotification_SetLength :: "PGWRestartNotification_field v2_msg \<Rightarrow> PGWRestartNotification_field v2_msg" where
  "PGWRestartNotification_SetLength m = msg_SetLength PGWRestartNotification_lens m"

definition PGWRestartNotification_MessageTypeName :: string where
  "PGWRestartNotification_MessageTypeName = ''PGW Restart Notification''"

definition PGWRestartNotification_TEID :: "PGWRestartNotification_field v2_msg \<Rightarrow> u32" where
  "PGWRestartNotification_TEID m = msg_TEID m"

definition ParsePGWRestartNotification :: "bytes \<Rightarrow> PGWRestartNotification_field v2_msg result" where
  "ParsePGWRestartNotification b = PGWRestartNotification_UnmarshalBinary b"

definition PGWRestartNotificationAcknowledge_SetLength :: "PGWRestartNotificationAcknowledge_field v2_msg \<Rightarrow> PGWRestartNotificationAcknowledge_field v2_msg" where
  "PGWRestartNotificationAcknowledge_SetLength m = msg_SetLength PGWRestartNotificationAcknowledge_lens m"

definition PGWRestartNotificationAcknowledge_MessageTypeName :: string where
  "PGWRestartNotificationAcknowledge_MessageTypeName = ''PGW Restart Notification Acknowledge''"

definition PGWRestartNotificationAcknowledge_TEID :: "PGWRestartNotificationAcknowledge_field v2_msg \<Rightarrow> u32" where
  "PGWRestartNotificationAcknowledge_TEID m = msg_TEID m"

definition ParsePGWRestartNotificationAcknowledge :: "bytes \<Rightarrow> PGWRestartNotificationAcknowledge_field v2_msg result" where
  "ParsePGWRestartNotificationAcknowledge b = PGWRestartNotificationAcknowledge_UnmarshalBinary b"

definition DetachNotification_SetLength :: "DetachNotification_field v2_msg \<Rightarrow> DetachNotification_field v2_msg" where
  "DetachNotification_SetLength m = msg_SetLength DetachNotification_lens m"

definition DetachNotification_MessageTypeName :: string where
  "DetachNotification_MessageTypeName = ''Detach Notification''"

definition DetachNotification_TEID :: "DetachNotification_field v2_msg \<Rightarrow> u32" where
  "DetachNotification_TEID m = msg_TEID m"

definition ParseDetachNotification :: "bytes \<Rightarrow> DetachNotification_field v2_msg result" where
  "ParseDetachNotification b = DetachNotification_UnmarshalBinary b"

definition DetachAcknowledge_SetLength :: "DetachAcknowledge_field v2_msg \<Rightarrow> DetachAcknowledge_field v2_msg" where
  "DetachAcknowledge_SetLength m = msg_SetLength DetachAcknowledge_lens m"

definition DetachAcknowledge_MessageTypeName :: string where
  "DetachAcknowledge_MessageTypeName = ''Detach Acknowledge''"

definition DetachAcknowledge_TEID :: "DetachAcknowledge_field v2_msg \<Rightarrow> u32" where
  "DetachAcknowledge_TEID m = msg_TEID m"

definition ParseDetachAcknowledge :: "bytes \<Rightarrow> DetachAcknowledge_field v2_msg result" where
  "ParseDetachAcknowledge b = DetachAcknowledge_UnmarshalBinary b"

definition DownlinkDataNotification_SetLength :: "DownlinkDataNotification_field v2_msg \<Rightarrow> DownlinkDataNotification_field v2_msg" where
  "DownlinkDataNotification_SetLength m = msg_SetLength DownlinkDataNotification_lens m"

definition DownlinkDataNotification_MessageTypeName :: string where
  "DownlinkDataNotification_MessageTypeName = ''Downlink Data Notification''"

definition DownlinkDataNotification_TEID :: "DownlinkDataNotification_field v2_msg \<Rightarrow> u32" where
  "DownlinkDataNotification_TEID m = msg_TEID m"

definition ParseDownlinkDataNotification :: "bytes \<Rightarrow> DownlinkDataNotification_field v2_msg result" where
  "ParseDownlinkDataNotification b = DownlinkDataNotification_UnmarshalBinary b"

definition DownlinkDataNotificationAcknowledge_SetLength :: "DownlinkDataNotificationAcknowledge_field v2_msg \<Rightarrow> DownlinkDataNotificationAcknowledge_field v2_msg" where
  "DownlinkDataNotificationAcknowledge_SetLength m = msg_SetLength DownlinkDataNotificationAcknowledge_lens m"

definition DownlinkDataNotificationAcknowledge_MessageTypeName :: string where
  "DownlinkDataNotificationAcknowledge_MessageTypeName = ''Downlink Data Notification Acknowledge''"

definition DownlinkDataNotificationAcknowledge_TEID :: "DownlinkDataNotificationAcknowledge_field v2_msg \<Rightarrow> u32" where
  "DownlinkDataNotificationAcknowledge_TEID m = msg_TEID m"

definition ParseDownlinkDataNotificationAcknowledge :: "bytes \<Rightarrow> DownlinkDataNotificationAcknowledge_field v2_msg result" where
  "ParseDownlinkDataNotificationAcknowledge b = DownlinkDataNotificationAcknowledge_UnmarshalBinary b"

definition DownlinkDataNotificationFailureIndication_SetLength :: "DownlinkDataNotificationFailureIndication_field v2_msg \<Rightarrow> DownlinkDataNotificationFailureIndication_field v2_msg" where
  "DownlinkDataNotificationFailureIndication_SetLength m = msg_SetLength DownlinkDataNotificationFailureIndication_lens m"

definition DownlinkDataNotificationFailureIndication_MessageTypeName :: string where
  "DownlinkDataNotificationFailureIndication_MessageTypeName = ''Downlink Data Notification Failure Indication''"

definition DownlinkDataNotificationFailureIndication_TEID :: "DownlinkDataNotificationFailureIndication_field v2_msg \<Rightarrow> u32" where
  "DownlinkDataNotificationFailureIndication_TEID m = msg_TEID m"

definition ParseDownlinkDataNotificationFailureIndication :: "bytes \<Rightarrow> DownlinkDataNotificationFailureIndication_field v2_msg result" where
  "ParseDownlinkDataNotificationFailureIndication b = DownlinkDataNotificationFailureIndication_UnmarshalBinary b"

definition ParseGeneric :: "bytes \<Rightarrow> v2_generic result" where
  "ParseGeneric b = g_UnmarshalBinary b"

text \<open>A type without a Go type of its own is named by its number.\<close>

definition digit_text :: "nat \<Rightarrow> char" where
  "digit_text d = ''0123456789'' ! d"

definition decimal_text :: "byte \<Rightarrow> string" where
  "decimal_text b = (let n = unat b in
     (if n < 100 then [] else [digit_text (n div 100)]) @
     (if n < 10 then [] else [digit_text (n div 10 mod 10)]) @ [digit_text (n mod 10)])"

definition g_MessageTypeName :: "v2_generic \<Rightarrow> string" where
  "g_MessageTypeName g = ''Unknown ('' @ decimal_text (h_Type (g_Header g)) @ '')''"

section \<open>The interface\<close>

primrec v2_SetLength :: "v2_message \<Rightarrow> v2_message result" where
    "v2_SetLength (Msg_EchoRequest m) = Inr (Msg_EchoRequest (EchoRequest_SetLength m))"
  | "v2_SetLength (Msg_EchoResponse m) = Inr (Msg_EchoResponse (EchoResponse_SetLength m))"
  | "v2_SetLength (Msg_VersionNotSupportedIndication m) = Inr (Msg_VersionNotSupportedIndication (VersionNotSupportedIndication_SetLength m))"
  | "v2_SetLength (Msg_CreateSessionRequest m) = Inr (Msg_CreateSessionRequest (CreateSessionRequest_SetLength m))"
  | "v2_SetLength (Msg_CreateSessionResponse m) = Inr (Msg_CreateSessionResponse (CreateSessionResponse_SetLength m))"
  | "v2_SetLength (Msg_DeleteSessionRequest m) = Inr (Msg_DeleteSessionRequest (DeleteSessionRequest_SetLength m))"
  | "v2_SetLength (Msg_DeleteSessionResponse m) = Inr (Msg_DeleteSessionResponse (DeleteSessionResponse_SetLength m))"
  | "v2_SetLength (Msg_ModifyBearerCommand m) = Inr (Msg_ModifyBearerCommand (ModifyBearerCommand_SetLength m))"
  | "v2_SetLength (Msg_ModifyBearerFailureIndication m) = Inr (Msg_ModifyBearerFailureIndication (ModifyBearerFailureIndication_SetLength m))"
  | "v2_SetLength (Msg_DeleteBearerCommand m) = Inr (Msg_DeleteBearerCommand (DeleteBearerCommand_SetLength m))"
  | "v2_SetLength (Msg_DeleteBearerFailureIndication m) = Inr (Msg_DeleteBearerFailureIndication (DeleteBearerFailureIndication_SetLength m))"
  | "v2_SetLength (Msg_DeleteBearerRequest m) = Inr (Msg_DeleteBearerRequest (DeleteBearerRequest_SetLength m))"
  | "v2_SetLength (Msg_CreateBearerRequest m) = Inr (Msg_CreateBearerRequest (CreateBearerRequest_SetLength m))"
  | "v2_SetLength (Msg_CreateBearerResponse m) = Inr (Msg_CreateBearerResponse (CreateBearerResponse_SetLength m))"
  | "v2_SetLength (Msg_DeleteBearerResponse m) = Inr (Msg_DeleteBearerResponse (DeleteBearerResponse_SetLength m))"
  | "v2_SetLength (Msg_ModifyBearerRequest m) = Inr (Msg_ModifyBearerRequest (ModifyBearerRequest_SetLength m))"
  | "v2_SetLength (Msg_ModifyBearerResponse m) = Inr (Msg_ModifyBearerResponse (ModifyBearerResponse_SetLength m))"
  | "v2_SetLength (Msg_UpdateBearerRequest m) = Inr (Msg_UpdateBearerRequest (UpdateBearerRequest_SetLength m))"
  | "v2_SetLength (Msg_UpdateBearerResponse m) = Inr (Msg_UpdateBearerResponse (UpdateBearerResponse_SetLength m))"
  | "v2_SetLength (Msg_ContextRequest m) = Inr (Msg_ContextRequest (ContextRequest_SetLength m))"
  | "v2_SetLength (Msg_ContextResponse m) = Inr (Msg_ContextResponse (ContextResponse_SetLength m))"
  | "v2_SetLength (Msg_ContextAcknowledge m) = Inr (Msg_ContextAcknowledge (ContextAcknowledge_SetLength m))"
  | "v2_SetLength (Msg_ReleaseAccessBearersRequest m) = Inr (Msg_ReleaseAccessBearersRequest (ReleaseAccessBearersRequest_SetLength m))"
  | "v2_SetLength (Msg_ReleaseAccessBearersResponse m) = Inr (Msg_ReleaseAccessBearersResponse (ReleaseAccessBearersResponse_SetLength m))"
  | "v2_SetLength (Msg_StopPagingIndication m) = Inr (Msg_StopPagingIndication (StopPagingIndication_SetLength m))"
  | "v2_SetLength (Msg_ModifyAccessBearersRequest m) = Inr (Msg_ModifyAccessBearersRequest (ModifyAccessBearersRequest_SetLength m))"
  | "v2_SetLength (Msg_ModifyAccessBearersResponse m) = Inr (Msg_ModifyAccessBearersResponse (ModifyAccessBearersResponse_SetLength m))"
  | "v2_SetLength (Msg_DeletePDNConnectionSetRequest m) = Inr (Msg_DeletePDNConnectionSetRequest (DeletePDNConnectionSetRequest_SetLength m))"
  | "v2_SetLength (Msg_DeletePDNConnectionSetResponse m) = Inr (Msg_DeletePDNConnectionSetResponse (DeletePDNConnectionSetResponse_SetLength m))"
  | "v2_SetLength (Msg_UpdatePDNConnectionSetRequest m) = Inr (Msg_UpdatePDNConnectionSetRequest (UpdatePDNConnectionSetRequest_SetLength m))"
  | "v2_SetLength (Msg_UpdatePDNConnectionSetResponse m) = Inr (Msg_UpdatePDNConnectionSetResponse (UpdatePDNConnectionSetResponse_SetLength m))"
  | "v2_SetLength (Msg_PGWRestartNotification m) = Inr (Msg_PGWRestartNotification (PGWRestartNotification_SetLength m))"
  | "v2_SetLength (Msg_PGWRestartNotificationAcknowledge m) = Inr (Msg_PGWRestartNotificationAcknowledge (PGWRestartNotificationAcknowledge_SetLength m))"
  | "v2_SetLength (Msg_DetachNotification m) = Inr (Msg_DetachNotification (DetachNotification_SetLength m))"
  | "v2_SetLength (Msg_DetachAcknowledge m) = Inr (Msg_DetachAcknowledge (DetachAcknowledge_SetLength m))"
  | "v2_SetLength (Msg_DownlinkDataNotification m) = Inr (Msg_DownlinkDataNotification (DownlinkDataNotification_SetLength m))"
  | "v2_SetLength (Msg_DownlinkDataNotificationAcknowledge m) = Inr (Msg_DownlinkDataNotificationAcknowledge (DownlinkDataNotificationAcknowledge_SetLength m))"
  | "v2_SetLength (Msg_DownlinkDataNotificationFailureIndication m) = Inr (Msg_DownlinkDataNotificationFailureIndication (DownlinkDataNotificationFailureIndication_SetLength m))"
  | "v2_SetLength (Msg_Generic g) = andThen (g_SetLength g) (\<lambda>g. Inr (Msg_Generic g))"

primrec v2_MessageTypeName :: "v2_message \<Rightarrow> string" where
    "v2_MessageTypeName (Msg_EchoRequest m) = EchoRequest_MessageTypeName"
  | "v2_MessageTypeName (Msg_EchoResponse m) = EchoResponse_MessageTypeName"
  | "v2_MessageTypeName (Msg_VersionNotSupportedIndication m) = VersionNotSupportedIndication_MessageTypeName"
  | "v2_MessageTypeName (Msg_CreateSessionRequest m) = CreateSessionRequest_MessageTypeName"
  | "v2_MessageTypeName (Msg_CreateSessionResponse m) = CreateSessionResponse_MessageTypeName"
  | "v2_MessageTypeName (Msg_DeleteSessionRequest m) = DeleteSessionRequest_MessageTypeName"
  | "v2_MessageTypeName (Msg_DeleteSessionResponse m) = DeleteSessionResponse_MessageTypeName"
  | "v2_MessageTypeName (Msg_ModifyBearerCommand m) = ModifyBearerCommand_MessageTypeName"
  | "v2_MessageTypeName (Msg_ModifyBearerFailureIndication m) = ModifyBearerFailureIndication_MessageTypeName"
  | "v2_MessageTypeName (Msg_DeleteBearerCommand m) = DeleteBearerCommand_MessageTypeName"
  | "v2_MessageTypeName (Msg_DeleteBearerFailureIndication m) = DeleteBearerFailureIndication_MessageTypeName"
  | "v2_MessageTypeName (Msg_DeleteBearerRequest m) = DeleteBearerRequest_MessageTypeName"
  | "v2_MessageTypeName (Msg_CreateBearerRequest m) = CreateBearerRequest_MessageTypeName"
  | "v2_MessageTypeName (Msg_CreateBearerResponse m) = CreateBearerResponse_MessageTypeName"
  | "v2_MessageTypeName (Msg_DeleteBearerResponse m) = DeleteBearerResponse_MessageTypeName"
  | "v2_MessageTypeName (Msg_ModifyBearerRequest m) = ModifyBearerRequest_MessageTypeName"
  | "v2_MessageTypeName (Msg_ModifyBearerResponse m) = ModifyBearerResponse_MessageTypeName"
  | "v2_MessageTypeName (Msg_UpdateBearerRequest m) = UpdateBearerRequest_MessageTypeName"
  | "v2_MessageTypeName (Msg_UpdateBearerResponse m) = UpdateBearerResponse_MessageTypeName"
  | "v2_MessageTypeName (Msg_ContextRequest m) = ContextRequest_MessageTypeName"
  | "v2_MessageTypeName (Msg_ContextResponse m) = ContextResponse_MessageTypeName"
  | "v2_MessageTypeName (Msg_ContextAcknowledge m) = ContextAcknowledge_MessageTypeName"
  | "v2_MessageTypeName (Msg_ReleaseAccessBearersRequest m) = ReleaseAccessBearersRequest_MessageTypeName"
  | "v2_MessageTypeName (Msg_ReleaseAccessBearersResponse m) = ReleaseAccessBearersResponse_MessageTypeName"
  | "v2_MessageTypeName (Msg_StopPagingIndication m) = StopPagingIndication_MessageTypeName"
  | "v2_MessageTypeName (Msg_ModifyAccessBearersRequest m) = ModifyAccessBearersRequest_MessageTypeName"
  | "v2_MessageTypeName (Msg_ModifyAccessBearersResponse m) = ModifyAccessBearersResponse_MessageTypeName"
  | "v2_MessageTypeName (Msg_DeletePDNConnectionSetRequest m) = DeletePDNConnectionSetRequest_MessageTypeName"
  | "v2_MessageTypeName (Msg_DeletePDNConnectionSetResponse m) = DeletePDNConnectionSetResponse_MessageTypeName"
  | "v2_MessageTypeName (Msg_UpdatePDNConnectionSetRequest m) = UpdatePDNConnectionSetRequest_MessageTypeName"
  | "v2_MessageTypeName (Msg_UpdatePDNConnectionSetResponse m) = UpdatePDNConnectionSetResponse_MessageTypeName"
  | "v2_MessageTypeName (Msg_PGWRestartNotification m) = PGWRestartNotification_MessageTypeName"
  | "v2_MessageTypeName (Msg_PGWRestartNotificationAcknowledge m) = PGWRestartNotificationAcknowledge_MessageTypeName"
  | "v2_MessageTypeName (Msg_DetachNotification m) = DetachNotification_MessageTypeName"
  | "v2_MessageTypeName (Msg_DetachAcknowledge m) = DetachAcknowledge_MessageTypeName"
  | "v2_MessageTypeName (Msg_DownlinkDataNotification m) = DownlinkDataNotification_MessageTypeName"
  | "v2_MessageTypeName (Msg_DownlinkDataNotificationAcknowledge m) = DownlinkDataNotificationAcknowledge_MessageTypeName"
  | "v2_MessageTypeName (Msg_DownlinkDataNotificationFailureIndication m) = DownlinkDataNotificationFailureIndication_MessageTypeName"
  | "v2_MessageTypeName (Msg_Generic g) = g_MessageTypeName g"

lemmas v2_SetLength_defs =
  EchoRequest_SetLength_def
  EchoResponse_SetLength_def
  VersionNotSupportedIndication_SetLength_def
  CreateSessionRequest_SetLength_def
  CreateSessionResponse_SetLength_def
  DeleteSessionRequest_SetLength_def
  DeleteSessionResponse_SetLength_def
  ModifyBearerCommand_SetLength_def
  ModifyBearerFailureIndication_SetLength_def
  DeleteBearerCommand_SetLength_def
  DeleteBearerFailureIndication_SetLength_def
  DeleteBearerRequest_SetLength_def
  CreateBearerRequest_SetLength_def
  CreateBearerResponse_SetLength_def
  DeleteBearerResponse_SetLength_def
  ModifyBearerRequest_SetLength_def
  ModifyBearerResponse_SetLength_def
  UpdateBearerRequest_SetLength_def
  UpdateBearerResponse_SetLength_def
  ContextRequest_SetLength_def
  ContextResponse_SetLength_def
  ContextAcknowledge_SetLength_def
  ReleaseAccessBearersRequest_SetLength_def
  ReleaseAccessBearersResponse_SetLength_def
  StopPagingIndication_SetLength_def
  ModifyAccessBearersRequest_SetLength_def
  ModifyAccessBearersResponse_SetLength_def
  DeletePDNConnectionSetRequest_SetLength_def
  DeletePDNConnectionSetResponse_SetLength_def
  UpdatePDNConnectionSetRequest_SetLength_def
  UpdatePDNConnectionSetResponse_SetLength_def
  PGWRestartNotification_SetLength_def
  PGWRestartNotificationAcknowledge_SetLength_def
  DetachNotification_SetLength_def
  DetachAcknowledge_SetLength_def
  DownlinkDataNotification_SetLength_def
  DownlinkDataNotificationAcknowledge_SetLength_def
  DownlinkDataNotificationFailureIndication_SetLength_def

lemmas v2_TEID_defs = g_TEID_def
  EchoRequest_TEID_def
  EchoResponse_TEID_def
  VersionNotSupportedIndication_TEID_def
  CreateSessionRequest_TEID_def
  CreateSessionResponse_TEID_def
  DeleteSessionRequest_TEID_def
  DeleteSessionResponse_TEID_def
  ModifyBearerCommand_TEID_def
  ModifyBearerFailureIndication_TEID_def
  DeleteBearerCommand_TEID_def
  DeleteBearerFailureIndication_TEID_def
  DeleteBearerRequest_TEID_def
  CreateBearerRequest_TEID_def
  CreateBearerResponse_TEID_def
  DeleteBearerResponse_TEID_def
  ModifyBearerRequest_TEID_def
  ModifyBearerResponse_TEID_def
  UpdateBearerRequest_TEID_def
  UpdateBearerResponse_TEID_def
  ContextRequest_TEID_def
  ContextResponse_TEID_def
  ContextAcknowledge_TEID_def
  ReleaseAccessBearersRequest_TEID_def
  ReleaseAccessBearersResponse_TEID_def
  StopPagingIndication_TEID_def
  ModifyAccessBearersRequest_TEID_def
  ModifyAccessBearersResponse_TEID_def
  DeletePDNConnectionSetRequest_TEID_def
  DeletePDNConnectionSetResponse_TEID_def
  UpdatePDNConnectionSetRequest_TEID_def
  UpdatePDNConnectionSetResponse_TEID_def
  PGWRestartNotification_TEID_def
  PGWRestartNotificationAcknowledge_TEID_def
  DetachNotification_TEID_def
  DetachAcknowledge_TEID_def
  DownlinkDataNotification_TEID_def
  DownlinkDataNotificationAcknowledge_TEID_def
  DownlinkDataNotificationFailureIndication_TEID_def

lemmas v2_name_defs =
  EchoRequest_MessageTypeName_def
  EchoResponse_MessageTypeName_def
  VersionNotSupportedIndication_MessageTypeName_def
  CreateSessionRequest_MessageTypeName_def
  CreateSessionResponse_MessageTypeName_def
  DeleteSessionRequest_MessageTypeName_def
  DeleteSessionResponse_MessageTypeName_def
  ModifyBearerCommand_MessageTypeName_def
  ModifyBearerFailureIndication_MessageTypeName_def
  DeleteBearerCommand_MessageTypeName_def
  DeleteBearerFailureIndication_MessageTypeName_def
  DeleteBearerRequest_MessageTypeName_def
  CreateBearerRequest_MessageTypeName_def
  CreateBearerResponse_MessageTypeName_def
  DeleteBearerResponse_MessageTypeName_def
  ModifyBearerRequest_MessageTypeName_def
  ModifyBearerResponse_MessageTypeName_def
  UpdateBearerRequest_MessageTypeName_def
  UpdateBearerResponse_MessageTypeName_def
  ContextRequest_MessageTypeName_def
  ContextResponse_MessageTypeName_def
  ContextAcknowledge_MessageTypeName_def
  ReleaseAccessBearersRequest_MessageTypeName_def
  ReleaseAccessBearersResponse_MessageTypeName_def
  StopPagingIndication_MessageTypeName_def
  ModifyAccessBearersRequest_MessageTypeName_def
  ModifyAccessBearersResponse_MessageTypeName_def
  DeletePDNConnectionSetRequest_MessageTypeName_def
  DeletePDNConnectionSetResponse_MessageTypeName_def
  UpdatePDNConnectionSetRequest_MessageTypeName_def
  UpdatePDNConnectionSetResponse_MessageTypeName_def
  PGWRestartNotification_MessageTypeName_def
  PGWRestartNotificationAcknowledge_MessageTypeName_def
  DetachNotification_MessageTypeName_def
  DetachAcknowledge_MessageTypeName_def
  DownlinkDataNotification_MessageTypeName_def
  DownlinkDataNotificationAcknowledge_MessageTypeName_def
  DownlinkDataNotificationFailureIndication_MessageTypeName_def

lemma v2_names_distinct: "distinct [
    EchoRequest_MessageTypeName,
    EchoResponse_MessageTypeName,
    VersionNotSupportedIndication_MessageTypeName,
    CreateSessionRequest_MessageTypeName,
    CreateSessionResponse_MessageTypeName,
    DeleteSessionRequest_MessageTypeName,
    DeleteSessionResponse_MessageTypeName,
    ModifyBearerCommand_MessageTypeName,
    ModifyBearerFailureIndication_MessageTypeName,
    DeleteBearerCommand_MessageTypeName,
    DeleteBearerFailureIndication_MessageTypeName,
    DeleteBearerRequest_MessageTypeName,
    CreateBearerRequest_MessageTypeName,
    CreateBearerResponse_MessageTypeName,
    DeleteBearerResponse_MessageTypeName,
    ModifyBearerRequest_MessageTypeName,
    ModifyBearerResponse_MessageTypeName,
    UpdateBearerRequest_MessageTypeName,
    UpdateBearerResponse_MessageTypeName,
    ContextRequest_MessageTypeName,
    ContextResponse_MessageTypeName,
    ContextAcknowledge_MessageTypeName,
    ReleaseAccessBearersRequest_MessageTypeName,
    ReleaseAccessBearersResponse_MessageTypeName,
    StopPagingIndication_MessageTypeName,
    ModifyAccessBearersRequest_MessageTypeName,
    ModifyAccessBearersResponse_MessageTypeName,
    DeletePDNConnectionSetRequest_MessageTypeName,
    DeletePDNConnectionSetResponse_MessageTypeName,
    UpdatePDNConnectionSetRequest_MessageTypeName,
    UpdatePDNConnectionSetResponse_MessageTypeName,
    PGWRestartNotification_MessageTypeName,
    PGWRestartNotificationAcknowledge_MessageTypeName,
    DetachNotification_MessageTypeName,
    DetachAcknowledge_MessageTypeName,
    DownlinkDataNotification_MessageTypeName,
    DownlinkDataNotificationAcknowledge_MessageTypeName,
    DownlinkDataNotificationFailureIndication_MessageTypeName]"
  by (simp add: v2_name_defs)

section \<open>SetLength and Marshal\<close>

context message_layout
begin

lemma Marshal_length: "msg_Marshal order lens m = Inr (w, m') \<Longrightarrow> h_Length (m_Header m') = of_nat (length w - 4)"
proof -
  assume "msg_Marshal order lens m = Inr (w, m')"
  then have w: "w = msg_wire order m" "m' = msg_marshalled order m" by (simp_all add: Marshal_wire)
  have "length w = h_MarshalLen (m_Header m')" by (simp add: w msg_wire_def)
  moreover have "\<exists>h. m_Header m' = h_SetLength h" by (auto simp: w msg_marshalled_def)
  ultimately show ?thesis by (auto simp: h_SetLength_length)
qed

lemma Marshal_over_length_field:
  assumes "order \<noteq> []" "msg_Marshal_over order lens m = Inr (w, m')"
  shows "h_Length (m_Header m') = of_nat (length w - 4)"
proof -
  have w: "w = header_wire (m_Header (msg_marshalled_over order m))" "m' = msg_marshalled_over order m"
    using assms(2) by (auto simp: Marshal_over_wire [OF assms(1)])
  have "length w = h_MarshalLen (m_Header m')" by (simp only: w header_wire_length)
  moreover have "\<exists>h. m_Header m' = h_SetLength h" by (auto simp: w(2) msg_marshalled_over_def)
  ultimately show ?thesis by (auto simp: h_SetLength_length)
qed

end

lemmas v2_marshalled_lengths =
  echoRequest.Marshal_length
  echoResponse.Marshal_length
  versionNotSupportedIndication.Marshal_length
  createSessionRequest.Marshal_over_length_field [OF CreateSessionRequest_order_last(1)]
  createSessionResponse.Marshal_length
  deleteSessionRequest.Marshal_length
  deleteSessionResponse.Marshal_length
  modifyBearerCommand.Marshal_length
  modifyBearerFailureIndication.Marshal_length
  deleteBearerCommand.Marshal_length
  deleteBearerFailureIndication.Marshal_length
  deleteBearerRequest.Marshal_length
  createBearerRequest.Marshal_length
  createBearerResponse.Marshal_length
  deleteBearerResponse.Marshal_length
  modifyBearerRequest.Marshal_length
  modifyBearerResponse.Marshal_length
  updateBearerRequest.Marshal_length
  updateBearerResponse.Marshal_length
  contextRequest.Marshal_length
  contextResponse.Marshal_length
  contextAcknowledge.Marshal_length
  releaseAccessBearersRequest.Marshal_length
  releaseAccessBearersResponse.Marshal_length
  stopPagingIndication.Marshal_length
  modifyAccessBearersRequest.Marshal_length
  modifyAccessBearersResponse.Marshal_length
  deletePDNConnectionSetRequest.Marshal_length
  deletePDNConnectionSetResponse.Marshal_length
  updatePDNConnectionSetRequest.Marshal_length
  updatePDNConnectionSetResponse.Marshal_length
  pGWRestartNotification.Marshal_length
  pGWRestartNotificationAcknowledge.Marshal_length
  detachNotification.Marshal_length
  detachAcknowledge.Marshal_length
  downlinkDataNotification.Marshal_length
  downlinkDataNotificationAcknowledge.Marshal_length
  downlinkDataNotificationFailureIndication.Marshal_length

text \<open>The length field a message comes with does not matter to \<open>Marshal\<close>.\<close>

lemma msg_Marshal_any_length:
  "msg_Marshal order lens (m\<lparr>m_Header := (m_Header m)\<lparr>h_Length := n\<rparr>\<rparr>) = msg_Marshal order lens m"
  by (simp add: msg_Marshal_def msg_MarshalTo_def msg_MarshalLen_def h_MarshalLen_def HasTEID_def h_SetLength_def Let_def)

lemma msg_Marshal_over_any_length:
  "msg_Marshal_over order lens (m\<lparr>m_Header := (m_Header m)\<lparr>h_Length := n\<rparr>\<rparr>) = msg_Marshal_over order lens m"
  by (simp add: msg_Marshal_over_def msg_MarshalTo_over_def msg_MarshalLen_def h_MarshalLen_def HasTEID_def
      h_SetLength_def Let_def)

lemma g_Marshal_any_length: "g_Marshal (g\<lparr>g_Header := (g_Header g)\<lparr>h_Length := n\<rparr>\<rparr>) = g_Marshal g"
  by (simp add: g_Marshal_def g_MarshalTo_def g_MarshalLen_def h_MarshalLen_def HasTEID_def h_SetLength_def Let_def)

lemma generic_lens_total: "generic_lens ies = Inr n \<Longrightarrow> n = sum_list (map ie_MarshalLen (List.map_filter id ies))"
  by (induction ies arbitrary: n rule: generic_lens.induct) (auto simp: andThen_eq_Inr map_filter_simps)

lemma generic_lens_fails: "generic_lens ies = Inl e \<Longrightarrow> e = Panic NilDereference \<and> None \<in> set ies"
  by (induction ies rule: generic_lens.induct) (auto simp: andThen_eq_Inl)

lemma g_SetLength_eq:
  "g_SetLength g = Inr g' \<Longrightarrow> g' = g\<lparr>g_Header := (g_Header g)\<lparr>h_Length := of_nat (g_MarshalLen g - 4)\<rparr>\<rparr>"
  by (auto simp: g_SetLength_def g_MarshalLen_def h_MarshalLen_def Let_def andThen_eq_Inr dest!: generic_lens_total)

lemma v2_SetLength_eq:
  "v2_SetLength M = Inr M' \<Longrightarrow> M' = v2_map_header M (\<lambda>h. h\<lparr>h_Length := of_nat (v2_MarshalLen M - 4)\<rparr>)"
  by (cases M) (auto simp: v2_SetLength_defs msg_SetLength_def v2_MarshalLen_defs andThen_eq_Inr dest: g_SetLength_eq)

lemma v2_Marshal_any_length: "v2_Marshal (v2_map_header M (\<lambda>h. h\<lparr>h_Length := n\<rparr>)) = v2_Marshal M"
  by (cases M) (simp_all add: v2_Marshal_simps v2_Marshal_eqs msg_Marshal_any_length msg_Marshal_over_any_length
      g_Marshal_any_length)

lemma v2_map_header_Length: "h_Length (v2_msg_header (v2_map_header M (\<lambda>h. h\<lparr>h_Length := n\<rparr>))) = n"
  by (cases M) simp_all

lemma g_Marshal_length:
  assumes "g_Marshal g = Inr (w, g')" shows "h_Length (g_Header g') = of_nat (length w - 4)"
  using g_Marshal_eq [of g] assms versionNotSupportedIndication.Marshal_length [of "generic_msg g" w "generic_msg g'"]
  by (simp add: VersionNotSupportedIndication_Marshal_eq generic_msg_def)

lemma v2_Marshal_Length:
  "v2_Marshal M = Inr (w, N) \<Longrightarrow> h_Length (v2_msg_header N) = of_nat (length w - 4)"
  by (cases M) (auto simp: v2_Marshal_simps v2_Marshal_eqs lift_message_Inr g_Marshal_length intro: v2_marshalled_lengths)

text \<open>
  C38. \<open>SetLength\<close> and \<open>Marshal\<close>, for every message type and for generic messages: setting the length
  changes nothing in what is written, and the length set is the one that \<open>Marshal\<close> computes itself
  and writes, the number of bytes behind the first four, in 16 bits. On a generic message \<open>SetLength\<close>
  panics when an element is nil, which \<open>Marshal\<close> never does; on the others neither fails.
\<close>

theorem SetLength_Marshal:
  "\<exists>w N. v2_Marshal M = Inr (w, N) \<and> h_Length (v2_msg_header N) = of_nat (length w - 4) \<and>
     (case v2_SetLength M of
        Inr M' \<Rightarrow> v2_Marshal M' = Inr (w, N) \<and> h_Length (v2_msg_header M') = h_Length (v2_msg_header N)
      | Inl e \<Rightarrow> e = Panic NilDereference \<and> (\<exists>g. M = Msg_Generic g \<and> None \<in> set (g_IEs g)))"
proof -
  obtain w N where w: "v2_Marshal M = Inr (w, N)" "length w = v2_MarshalLen M" using v2_Marshal_total by blast
  have len: "h_Length (v2_msg_header N) = of_nat (length w - 4)" by (rule v2_Marshal_Length [OF w(1)])
  show ?thesis
  proof (cases "v2_SetLength M")
    case (Inr M')
    from v2_SetLength_eq [OF this] show ?thesis
      using w len Inr by (simp add: v2_Marshal_any_length v2_map_header_Length)
  next
    case (Inl e)
    then obtain g where "M = Msg_Generic g" by (cases M) auto
    moreover from this Inl have "generic_lens (g_IEs g) = Inl e"
      by (simp add: g_SetLength_def andThen_eq_Inl)
    ultimately show ?thesis using w len Inl generic_lens_fails [of "g_IEs g" e] by simp
  qed
qed

end
