(* ===== verification/TVMsgMethods.thy ===== *)
theory TVMsgMethods
  imports V1Parse V0Parse V2MsgMethods
begin

text \<open>
  The remaining methods of the message types of GTPv1 and GTPv0 (\<open>src/gtpv1/message\<close>,
  \<open>src/gtpv0/message\<close>): \<open>MessageTypeName\<close>, \<open>TEID\<close> or \<open>TID\<close>, and the function \<open>Parse...\<close> of each type.
\<close>

section \<open>GTPv1\<close>

definition v1_EchoRequest_MessageTypeName :: string where
  "v1_EchoRequest_MessageTypeName = ''Echo Request''"

definition v1_EchoRequest_TEID :: "(v1_header, v1_EchoRequest_field) tv_msg \<Rightarrow> u32" where
  "v1_EchoRequest_TEID m = h1_TEID (t_Header m)"

definition v1_ParseEchoRequest :: "bytes \<Rightarrow> (v1_header, v1_EchoRequest_field) tv_msg result" where
  "v1_ParseEchoRequest b = v1_EchoRequest_UnmarshalBinary b"

definition v1_EchoResponse_MessageTypeName :: string where
  "v1_EchoResponse_MessageTypeName = ''Echo Response''"

definition v1_EchoResponse_TEID :: "(v1_header, v1_EchoResponse_field) tv_msg \<Rightarrow> u32" where
  "v1_EchoResponse_TEID m = h1_TEID (t_Header m)"

definition v1_ParseEchoResponse :: "bytes \<Rightarrow> (v1_header, v1_EchoResponse_field) tv_msg result" where
  "v1_ParseEchoResponse b = v1_EchoResponse_UnmarshalBinary b"

definition v1_CreatePDPContextRequest_MessageTypeName :: string where
  "v1_CreatePDPContextRequest_MessageTypeName = ''Create PDP Context Request''"

definition v1_CreatePDPContextRequest_TEID :: "(v1_header, v1_CreatePDPContextRequest_field) tv_msg \<Rightarrow> u32" where
  "v1_CreatePDPContextRequest_TEID m = h1_TEID (t_Header m)"

definition v1_ParseCreatePDPContextRequest :: "bytes \<Rightarrow> (v1_header, v1_CreatePDPContextRequest_field) tv_msg result" where
  "v1_ParseCreatePDPContextRequest b = v1_CreatePDPContextRequest_UnmarshalBinary b"

definition v1_CreatePDPContextResponse_MessageTypeName :: string where
  "v1_CreatePDPContextResponse_MessageTypeName = ''Create PDP Context Response''"

definition v1_CreatePDPContextResponse_TEID :: "(v1_header, v1_CreatePDPContextResponse_field) tv_msg \<Rightarrow> u32" where
  "v1_CreatePDPContextResponse_TEID m = h1_TEID (t_Header m)"

definition v1_ParseCreatePDPContextResponse :: "bytes \<Rightarrow> (v1_header, v1_CreatePDPContextResponse_field) tv_msg result" where
  "v1_ParseCreatePDPContextResponse b = v1_CreatePDPContextResponse_UnmarshalBinary b"

definition v1_UpdatePDPContextRequest_MessageTypeName :: string where
  "v1_UpdatePDPContextRequest_MessageTypeName = ''Update PDP Context Request''"

definition v1_UpdatePDPContextRequest_TEID :: "(v1_header, v1_UpdatePDPContextRequest_field) tv_msg \<Rightarrow> u32" where
  "v1_UpdatePDPContextRequest_TEID m = h1_TEID (t_Header m)"

definition v1_ParseUpdatePDPContextRequest :: "bytes \<Rightarrow> (v1_header, v1_UpdatePDPContextRequest_field) tv_msg result" where
  "v1_ParseUpdatePDPContextRequest b = v1_UpdatePDPContextRequest_UnmarshalBinary b"

definition v1_UpdatePDPContextResponse_MessageTypeName :: string where
  "v1_UpdatePDPContextResponse_MessageTypeName = ''Update PDP Context Response''"

definition v1_UpdatePDPContextResponse_TEID :: "(v1_header, v1_UpdatePDPContextResponse_field) tv_msg \<Rightarrow> u32" where
  "v1_UpdatePDPContextResponse_TEID m = h1_TEID (t_Header m)"

definition v1_ParseUpdatePDPContextResponse :: "bytes \<Rightarrow> (v1_header, v1_UpdatePDPContextResponse_field) tv_msg result" where
  "v1_ParseUpdatePDPContextResponse b = v1_UpdatePDPContextResponse_UnmarshalBinary b"

definition v1_DeletePDPContextRequest_MessageTypeName :: string where
  "v1_DeletePDPContextRequest_MessageTypeName = ''Delete PDP Context Request''"

definition v1_DeletePDPContextRequest_TEID :: "(v1_header, v1_DeletePDPContextRequest_field) tv_msg \<Rightarrow> u32" where
  "v1_DeletePDPContextRequest_TEID m = h1_TEID (t_Header m)"

definition v1_ParseDeletePDPContextRequest :: "bytes \<Rightarrow> (v1_header, v1_DeletePDPContextRequest_field) tv_msg result" where
  "v1_ParseDeletePDPContextRequest b = v1_DeletePDPContextRequest_UnmarshalBinary b"

definition v1_DeletePDPContextResponse_MessageTypeName :: string where
  "v1_DeletePDPContextResponse_MessageTypeName = ''Delete PDP Context Response''"

definition v1_DeletePDPContextResponse_TEID :: "(v1_header, v1_DeletePDPContextResponse_field) tv_msg \<Rightarrow> u32" where
  "v1_DeletePDPContextResponse_TEID m = h1_TEID (t_Header m)"

definition v1_ParseDeletePDPContextResponse :: "bytes \<Rightarrow> (v1_header, v1_DeletePDPContextResponse_field) tv_msg result" where
  "v1_ParseDeletePDPContextResponse b = v1_DeletePDPContextResponse_UnmarshalBinary b"

definition v1_ErrorIndication_MessageTypeName :: string where
  "v1_ErrorIndication_MessageTypeName = ''Errror Indication''"

definition v1_ErrorIndication_TEID :: "(v1_header, v1_ErrorIndication_field) tv_msg \<Rightarrow> u32" where
  "v1_ErrorIndication_TEID m = h1_TEID (t_Header m)"

definition v1_ParseErrorIndication :: "bytes \<Rightarrow> (v1_header, v1_ErrorIndication_field) tv_msg result" where
  "v1_ParseErrorIndication b = v1_ErrorIndication_UnmarshalBinary b"

definition v1_VersionNotSupported_MessageTypeName :: string where
  "v1_VersionNotSupported_MessageTypeName = ''Version Not Supported''"

definition v1_VersionNotSupported_TEID :: "(v1_header, unit) tv_msg \<Rightarrow> u32" where
  "v1_VersionNotSupported_TEID m = h1_TEID (t_Header m)"

definition v1_ParseVersionNotSupported :: "bytes \<Rightarrow> (v1_header, unit) tv_msg result" where
  "v1_ParseVersionNotSupported b = v1_VersionNotSupported_UnmarshalBinary b"

definition v1_TPDU_MessageTypeName :: string where
  "v1_TPDU_MessageTypeName = ''T-PDU''"

definition v1_TPDU_TEID :: "v1_header \<Rightarrow> u32" where
  "v1_TPDU_TEID m = h1_TEID m"

definition v1_ParseTPDU :: "bytes \<Rightarrow> v1_header result" where
  "v1_ParseTPDU b = v1_TPDU_UnmarshalBinary b"

definition v1_TPDU_SetLength :: "v1_header \<Rightarrow> v1_header" where
  "v1_TPDU_SetLength t = h1_SetLength t"

definition v1_Generic_MessageTypeName :: "v1_header tv_generic \<Rightarrow> string" where
  "v1_Generic_MessageTypeName m = ''Unknown ('' @ decimal_text (h1_Type (tg_Header m)) @ '')''"

definition v1_Generic_TEID :: "v1_header tv_generic \<Rightarrow> u32" where
  "v1_Generic_TEID m = h1_TEID (tg_Header m)"

definition v1_ParseGeneric :: "bytes \<Rightarrow> v1_header tv_generic result" where
  "v1_ParseGeneric b = v1_Generic_UnmarshalBinary b"

primrec v1_MessageTypeName :: "v1_message \<Rightarrow> string" where
  "v1_MessageTypeName (Msg1_EchoRequest m) = v1_EchoRequest_MessageTypeName"
| "v1_MessageTypeName (Msg1_EchoResponse m) = v1_EchoResponse_MessageTypeName"
| "v1_MessageTypeName (Msg1_CreatePDPContextRequest m) = v1_CreatePDPContextRequest_MessageTypeName"
| "v1_MessageTypeName (Msg1_CreatePDPContextResponse m) = v1_CreatePDPContextResponse_MessageTypeName"
| "v1_MessageTypeName (Msg1_UpdatePDPContextRequest m) = v1_UpdatePDPContextRequest_MessageTypeName"
| "v1_MessageTypeName (Msg1_UpdatePDPContextResponse m) = v1_UpdatePDPContextResponse_MessageTypeName"
| "v1_MessageTypeName (Msg1_DeletePDPContextRequest m) = v1_DeletePDPContextRequest_MessageTypeName"
| "v1_MessageTypeName (Msg1_DeletePDPContextResponse m) = v1_DeletePDPContextResponse_MessageTypeName"
| "v1_MessageTypeName (Msg1_ErrorIndication m) = v1_ErrorIndication_MessageTypeName"
| "v1_MessageTypeName (Msg1_VersionNotSupported m) = v1_VersionNotSupported_MessageTypeName"
| "v1_MessageTypeName (Msg1_TPDU m) = v1_TPDU_MessageTypeName"
| "v1_MessageTypeName (Msg1_Generic m) = v1_Generic_MessageTypeName m"

lemmas v1_name_defs =
  v1_EchoRequest_MessageTypeName_def
  v1_EchoResponse_MessageTypeName_def
  v1_CreatePDPContextRequest_MessageTypeName_def
  v1_CreatePDPContextResponse_MessageTypeName_def
  v1_UpdatePDPContextRequest_MessageTypeName_def
  v1_UpdatePDPContextResponse_MessageTypeName_def
  v1_DeletePDPContextRequest_MessageTypeName_def
  v1_DeletePDPContextResponse_MessageTypeName_def
  v1_ErrorIndication_MessageTypeName_def
  v1_VersionNotSupported_MessageTypeName_def
  v1_TPDU_MessageTypeName_def

section \<open>GTPv0\<close>

definition v0_EchoRequest_MessageTypeName :: string where
  "v0_EchoRequest_MessageTypeName = ''Echo Request''"

definition v0_EchoRequest_TID :: "(v0_header, v0_EchoRequest_field) tv_msg \<Rightarrow> string" where
  "v0_EchoRequest_TID m = h0_tid (t_Header m)"

definition v0_ParseEchoRequest :: "bytes \<Rightarrow> (v0_header, v0_EchoRequest_field) tv_msg result" where
  "v0_ParseEchoRequest b = v0_EchoRequest_UnmarshalBinary b"

definition v0_EchoResponse_MessageTypeName :: string where
  "v0_EchoResponse_MessageTypeName = ''Echo Response''"

definition v0_EchoResponse_TID :: "(v0_header, v0_EchoResponse_field) tv_msg \<Rightarrow> string" where
  "v0_EchoResponse_TID m = h0_tid (t_Header m)"

definition v0_ParseEchoResponse :: "bytes \<Rightarrow> (v0_header, v0_EchoResponse_field) tv_msg result" where
  "v0_ParseEchoResponse b = v0_EchoResponse_UnmarshalBinary b"

definition v0_CreatePDPContextRequest_MessageTypeName :: string where
  "v0_CreatePDPContextRequest_MessageTypeName = ''Create PDP Context Request''"

definition v0_CreatePDPContextRequest_TID :: "(v0_header, v0_CreatePDPContextRequest_field) tv_msg \<Rightarrow> string" where
  "v0_CreatePDPContextRequest_TID m = h0_tid (t_Header m)"

definition v0_ParseCreatePDPContextRequest :: "bytes \<Rightarrow> (v0_header, v0_CreatePDPContextRequest_field) tv_msg result" where
  "v0_ParseCreatePDPContextRequest b = v0_CreatePDPContextRequest_UnmarshalBinary b"

definition v0_CreatePDPContextResponse_MessageTypeName :: string where
  "v0_CreatePDPContextResponse_MessageTypeName = ''Create PDP Context Response''"

definition v0_CreatePDPContextResponse_TID :: "(v0_header, v0_CreatePDPContextResponse_field) tv_msg \<Rightarrow> string" where
  "v0_CreatePDPContextResponse_TID m = h0_tid (t_Header m)"

definition v0_ParseCreatePDPContextResponse :: "bytes \<Rightarrow> (v0_header, v0_CreatePDPContextResponse_field) tv_msg result" where
  "v0_ParseCreatePDPContextResponse b = v0_CreatePDPContextResponse_UnmarshalBinary b"

definition v0_UpdatePDPContextRequest_MessageTypeName :: string where
  "v0_UpdatePDPContextRequest_MessageTypeName = ''Update PDP Context Request''"

definition v0_UpdatePDPContextRequest_TID :: "(v0_header, v0_UpdatePDPContextRequest_field) tv_msg \<Rightarrow> string" where
  "v0_UpdatePDPContextRequest_TID m = h0_tid (t_Header m)"

definition v0_ParseUpdatePDPContextRequest :: "bytes \<Rightarrow> (v0_header, v0_UpdatePDPContextRequest_field) tv_msg result" where
  "v0_ParseUpdatePDPContextRequest b = v0_UpdatePDPContextRequest_UnmarshalBinary b"

definition v0_UpdatePDPContextResponse_MessageTypeName :: string where
  "v0_UpdatePDPContextResponse_MessageTypeName = ''Update PDP Context Response''"

definition v0_UpdatePDPContextResponse_TID :: "(v0_header, v0_UpdatePDPContextResponse_field) tv_msg \<Rightarrow> string" where
  "v0_UpdatePDPContextResponse_TID m = h0_tid (t_Header m)"

definition v0_ParseUpdatePDPContextResponse :: "bytes \<Rightarrow> (v0_header, v0_UpdatePDPContextResponse_field) tv_msg result" where
  "v0_ParseUpdatePDPContextResponse b = v0_UpdatePDPContextResponse_UnmarshalBinary b"

definition v0_DeletePDPContextRequest_MessageTypeName :: string where
  "v0_DeletePDPContextRequest_MessageTypeName = ''Delete PDP Context Request''"

definition v0_DeletePDPContextRequest_TID :: "(v0_header, v0_DeletePDPContextRequest_field) tv_msg \<Rightarrow> string" where
  "v0_DeletePDPContextRequest_TID m = h0_tid (t_Header m)"

definition v0_ParseDeletePDPContextRequest :: "bytes \<Rightarrow> (v0_header, v0_DeletePDPContextRequest_field) tv_msg result" where
  "v0_ParseDeletePDPContextRequest b = v0_DeletePDPContextRequest_UnmarshalBinary b"

definition v0_DeletePDPContextResponse_MessageTypeName :: string where
  "v0_DeletePDPContextResponse_MessageTypeName = ''Delete PDP Context Response''"

definition v0_DeletePDPContextResponse_TID :: "(v0_header, v0_DeletePDPContextResponse_field) tv_msg \<Rightarrow> string" where
  "v0_DeletePDPContextResponse_TID m = h0_tid (t_Header m)"

definition v0_ParseDeletePDPContextResponse :: "bytes \<Rightarrow> (v0_header, v0_DeletePDPContextResponse_field) tv_msg result" where
  "v0_ParseDeletePDPContextResponse b = v0_DeletePDPContextResponse_UnmarshalBinary b"

definition v0_TPDU_MessageTypeName :: string where
  "v0_TPDU_MessageTypeName = ''T-PDU''"

definition v0_TPDU_TID :: "v0_header \<Rightarrow> string" where
  "v0_TPDU_TID m = h0_tid m"

definition v0_ParseTPDU :: "bytes \<Rightarrow> v0_header result" where
  "v0_ParseTPDU b = v0_TPDU_UnmarshalBinary b"

definition v0_TPDU_SetLength :: "v0_header \<Rightarrow> v0_header" where
  "v0_TPDU_SetLength t = t\<lparr>h0_Length := of_nat (length (h0_Payload t))\<rparr>"

definition v0_Generic_MessageTypeName :: "v0_header tv_generic \<Rightarrow> string" where
  "v0_Generic_MessageTypeName m = ''Unknown ('' @ decimal_text (h0_Type (tg_Header m)) @ '')''"

definition v0_Generic_TID :: "v0_header tv_generic \<Rightarrow> string" where
  "v0_Generic_TID m = h0_tid (tg_Header m)"

definition v0_ParseGeneric :: "bytes \<Rightarrow> v0_header tv_generic result" where
  "v0_ParseGeneric b = v0_Generic_UnmarshalBinary b"

primrec v0_MessageTypeName :: "v0_message \<Rightarrow> string" where
  "v0_MessageTypeName (Msg0_EchoRequest m) = v0_EchoRequest_MessageTypeName"
| "v0_MessageTypeName (Msg0_EchoResponse m) = v0_EchoResponse_MessageTypeName"
| "v0_MessageTypeName (Msg0_CreatePDPContextRequest m) = v0_CreatePDPContextRequest_MessageTypeName"
| "v0_MessageTypeName (Msg0_CreatePDPContextResponse m) = v0_CreatePDPContextResponse_MessageTypeName"
| "v0_MessageTypeName (Msg0_UpdatePDPContextRequest m) = v0_UpdatePDPContextRequest_MessageTypeName"
| "v0_MessageTypeName (Msg0_UpdatePDPContextResponse m) = v0_UpdatePDPContextResponse_MessageTypeName"
| "v0_MessageTypeName (Msg0_DeletePDPContextRequest m) = v0_DeletePDPContextRequest_MessageTypeName"
| "v0_MessageTypeName (Msg0_DeletePDPContextResponse m) = v0_DeletePDPContextResponse_MessageTypeName"
| "v0_MessageTypeName (Msg0_TPDU m) = v0_TPDU_MessageTypeName"
| "v0_MessageTypeName (Msg0_Generic m) = v0_Generic_MessageTypeName m"

lemmas v0_name_defs =
  v0_EchoRequest_MessageTypeName_def
  v0_EchoResponse_MessageTypeName_def
  v0_CreatePDPContextRequest_MessageTypeName_def
  v0_CreatePDPContextResponse_MessageTypeName_def
  v0_UpdatePDPContextRequest_MessageTypeName_def
  v0_UpdatePDPContextResponse_MessageTypeName_def
  v0_DeletePDPContextRequest_MessageTypeName_def
  v0_DeletePDPContextResponse_MessageTypeName_def
  v0_TPDU_MessageTypeName_def

section \<open>Names\<close>

text \<open>The message types of a version have different names.\<close>

lemma v1_names_distinct: "distinct [
    v1_EchoRequest_MessageTypeName,
    v1_EchoResponse_MessageTypeName,
    v1_CreatePDPContextRequest_MessageTypeName,
    v1_CreatePDPContextResponse_MessageTypeName,
    v1_UpdatePDPContextRequest_MessageTypeName,
    v1_UpdatePDPContextResponse_MessageTypeName,
    v1_DeletePDPContextRequest_MessageTypeName,
    v1_DeletePDPContextResponse_MessageTypeName,
    v1_ErrorIndication_MessageTypeName,
    v1_VersionNotSupported_MessageTypeName,
    v1_TPDU_MessageTypeName]"
  by (simp add: v1_name_defs)

lemma v0_names_distinct: "distinct [
    v0_EchoRequest_MessageTypeName,
    v0_EchoResponse_MessageTypeName,
    v0_CreatePDPContextRequest_MessageTypeName,
    v0_CreatePDPContextResponse_MessageTypeName,
    v0_UpdatePDPContextRequest_MessageTypeName,
    v0_UpdatePDPContextResponse_MessageTypeName,
    v0_DeletePDPContextRequest_MessageTypeName,
    v0_DeletePDPContextResponse_MessageTypeName,
    v0_TPDU_MessageTypeName]"
  by (simp add: v0_name_defs)

end
