(* ===== verification/MessageTypes.thy ===== *)
theory MessageTypes
  imports TVMsgMethods
begin

text \<open>
  The constants of the message types (the first \<open>const\<close> block of \<open>message.go\<close> in the three versions) as they
  are written: one line per type, numbered by \<open>iota\<close>, blank lines for reserved numbers. The lemmas
  compute the numbers the rest of the library uses, and those of GTPv1 that differ from the comments.
\<close>

section \<open>Const blocks\<close>

text \<open>A line that follows \<open>uint8 = iota\<close> has its position as value, one with a value of its own has that.\<close>

datatype const_spec = Iota string | Fixed string nat

fun const_values :: "nat \<Rightarrow> const_spec list \<Rightarrow> (string \<times> nat) list" where
  "const_values n [] = []"
| "const_values n (Iota c # cs) = (if c = ''_'' then [] else [(c, n)]) @ const_values (n + 1) cs"
| "const_values n (Fixed c v # cs) = (c, v) # const_values (n + 1) cs"

definition v2_message_types :: "const_spec list" where
  "v2_message_types = [
    Iota ''_'', Iota ''MsgTypeEchoRequest'', Iota ''MsgTypeEchoResponse'',
    Iota ''MsgTypeVersionNotSupportedIndication'', Iota ''MsgTypeDirectTransferRequest'',
    Iota ''MsgTypeDirectTransferResponse'', Iota ''MsgTypeNotificationRequest'',
    Iota ''MsgTypeNotificationResponse'', Iota ''_'', Iota ''_'', Iota ''_'', Iota ''_'',
    Iota ''_'', Iota ''_'', Iota ''_'', Iota ''_'', Iota ''_'',
    Iota ''MsgTypeRIMInformationTransfer'', Iota ''_'', Iota ''_'', Iota ''_'', Iota ''_'',
    Iota ''_'', Iota ''_'', Iota ''_'', Iota ''MsgTypeSRVCCPsToCsRequest'',
    Iota ''MsgTypeSRVCCPsToCsResponse'', Iota ''MsgTypeSRVCCPsToCsCompleteNotification'',
    Iota ''MsgTypeSRVCCPsToCsCompleteAcknowledge'', Iota ''MsgTypeSRVCCPsToCsCancelNotification'',
    Iota ''MsgTypeSRVCCPsToCsCancelAcknowledge'', Iota ''MsgTypeSRVCCCsToPsRequest'',
    Iota ''MsgTypeCreateSessionRequest'', Iota ''MsgTypeCreateSessionResponse'',
    Iota ''MsgTypeModifyBearerRequest'', Iota ''MsgTypeModifyBearerResponse'',
    Iota ''MsgTypeDeleteSessionRequest'', Iota ''MsgTypeDeleteSessionResponse'',
    Iota ''MsgTypeChangeNotificationRequest'', Iota ''MsgTypeChangeNotificationResponse'',
    Iota ''MsgTypeRemoteUEReportNotification'', Iota ''MsgTypeRemoteUEReportAcknowledge'',
    Iota ''_'', Iota ''_'', Iota ''_'', Iota ''_'', Iota ''_'', Iota ''_'', Iota ''_'', Iota ''_'',
    Iota ''_'', Iota ''_'', Iota ''_'', Iota ''_'', Iota ''_'', Iota ''_'', Iota ''_'', Iota ''_'',
    Iota ''_'', Iota ''_'', Iota ''_'', Iota ''_'', Iota ''_'', Iota ''_'',
    Iota ''MsgTypeModifyBearerCommand'', Iota ''MsgTypeModifyBearerFailureIndication'',
    Iota ''MsgTypeDeleteBearerCommand'', Iota ''MsgTypeDeleteBearerFailureIndication'',
    Iota ''MsgTypeBearerResourceCommand'', Iota ''MsgTypeBearerResourceFailureIndication'',
    Iota ''MsgTypeDownlinkDataNotificationFailureIndication'',
    Iota ''MsgTypeTraceSessionActivation'', Iota ''MsgTypeTraceSessionDeactivation'',
    Iota ''MsgTypeStopPagingIndication'', Iota ''_'', Iota ''_'', Iota ''_'', Iota ''_'',
    Iota ''_'', Iota ''_'', Iota ''_'', Iota ''_'', Iota ''_'', Iota ''_'', Iota ''_'', Iota ''_'',
    Iota ''_'', Iota ''_'', Iota ''_'', Iota ''_'', Iota ''_'', Iota ''_'', Iota ''_'', Iota ''_'',
    Iota ''_'', Iota ''MsgTypeCreateBearerRequest'', Iota ''MsgTypeCreateBearerResponse'',
    Iota ''MsgTypeUpdateBearerRequest'', Iota ''MsgTypeUpdateBearerResponse'',
    Iota ''MsgTypeDeleteBearerRequest'', Iota ''MsgTypeDeleteBearerResponse'',
    Iota ''MsgTypeDeletePDNConnectionSetRequest'', Iota ''MsgTypeDeletePDNConnectionSetResponse'',
    Iota ''MsgTypePGWDownlinkTriggeringNotification'',
    Iota ''MsgTypePGWDownlinkTriggeringAcknowledge'', Iota ''_'', Iota ''_'', Iota ''_'',
    Iota ''_'', Iota ''_'', Iota ''_'', Iota ''_'', Iota ''_'', Iota ''_'', Iota ''_'', Iota ''_'',
    Iota ''_'', Iota ''_'', Iota ''_'', Iota ''_'', Iota ''_'', Iota ''_'', Iota ''_'', Iota ''_'',
    Iota ''_'', Iota ''_'', Iota ''_'', Iota ''_'', Iota ''MsgTypeIdentificationRequest'',
    Iota ''MsgTypeIdentificationResponse'', Iota ''MsgTypeContextRequest'',
    Iota ''MsgTypeContextResponse'', Iota ''MsgTypeContextAcknowledge'',
    Iota ''MsgTypeForwardRelocationRequest'', Iota ''MsgTypeForwardRelocationResponse'',
    Iota ''MsgTypeForwardRelocationCompleteNotification'',
    Iota ''MsgTypeForwardRelocationCompleteAcknowledge'',
    Iota ''MsgTypeForwardAccessContextNotification'',
    Iota ''MsgTypeForwardAccessContextAcknowledge'', Iota ''MsgTypeRelocationCancelRequest'',
    Iota ''MsgTypeRelocationCancelResponse'', Iota ''MsgTypeConfigurationTransferTunnel'',
    Iota ''_'', Iota ''_'', Iota ''_'', Iota ''_'', Iota ''_'', Iota ''_'', Iota ''_'',
    Iota ''MsgTypeDetachNotification'', Iota ''MsgTypeDetachAcknowledge'',
    Iota ''MsgTypeCSPagingIndication'', Iota ''MsgTypeRANInformationRelay'',
    Iota ''MsgTypeAlertMMENotification'', Iota ''MsgTypeAlertMMEAcknowledge'',
    Iota ''MsgTypeUEActivityNotification'', Iota ''MsgTypeUEActivityAcknowledge'',
    Iota ''MsgTypeISRStatusIndication'', Iota ''MsgTypeUERegistrationQueryRequest'',
    Iota ''MsgTypeUERegistrationQueryResponse'', Iota ''MsgTypeCreateForwardingTunnelRequest'',
    Iota ''MsgTypeCreateForwardingTunnelResponse'', Iota ''MsgTypeSuspendNotification'',
    Iota ''MsgTypeSuspendAcknowledge'', Iota ''MsgTypeResumeNotification'',
    Iota ''MsgTypeResumeAcknowledge'', Iota ''MsgTypeCreateIndirectDataForwardingTunnelRequest'',
    Iota ''MsgTypeCreateIndirectDataForwardingTunnelResponse'',
    Iota ''MsgTypeDeleteIndirectDataForwardingTunnelRequest'',
    Iota ''MsgTypeDeleteIndirectDataForwardingTunnelResponse'',
    Iota ''MsgTypeReleaseAccessBearersRequest'', Iota ''MsgTypeReleaseAccessBearersResponse'',
    Iota ''_'', Iota ''_'', Iota ''_'', Iota ''_'', Iota ''MsgTypeDownlinkDataNotification'',
    Iota ''MsgTypeDownlinkDataNotificationAcknowledge'', Iota ''_'',
    Iota ''MsgTypePGWRestartNotification'', Iota ''MsgTypePGWRestartNotificationAcknowledge'',
    Iota ''_'', Iota ''_'', Iota ''_'', Iota ''_'', Iota ''_'', Iota ''_'', Iota ''_'', Iota ''_'',
    Iota ''_'', Iota ''_'', Iota ''_'', Iota ''_'', Iota ''_'', Iota ''_'', Iota ''_'', Iota ''_'',
    Iota ''_'', Iota ''_'', Iota ''_'', Iota ''MsgTypeUpdatePDNConnectionSetRequest'',
    Iota ''MsgTypeUpdatePDNConnectionSetResponse'', Iota ''_'', Iota ''_'', Iota ''_'', Iota ''_'',
    Iota ''_'', Iota ''_'', Iota ''_'', Iota ''_'', Iota ''_'',
    Iota ''MsgTypeModifyAccessBearersRequest'', Iota ''MsgTypeModifyAccessBearersResponse'',
    Iota ''_'', Iota ''_'', Iota ''_'', Iota ''_'', Iota ''_'', Iota ''_'', Iota ''_'', Iota ''_'',
    Iota ''_'', Iota ''_'', Iota ''_'', Iota ''_'', Iota ''_'', Iota ''_'', Iota ''_'', Iota ''_'',
    Iota ''_'', Iota ''_'', Iota ''MsgTypeMBMSSessionStartRequest'',
    Iota ''MsgTypeMBMSSessionStartResponse'', Iota ''MsgTypeMBMSSessionUpdateRequest'',
    Iota ''MsgTypeMBMSSessionUpdateResponse'', Iota ''MsgTypeMBMSSessionStopRequest'',
    Iota ''MsgTypeMBMSSessionStopResponse'', Iota ''_'', Iota ''_'', Iota ''_'',
    Iota ''MsgTypeSRVCCCsToPsResponse'', Iota ''MsgTypeSRVCCCsToPsCompleteNotification'',
    Iota ''MsgTypeSRVCCCsToPsCompleteAcknowledge'', Iota ''MsgTypeSRVCCCsToPsCancelNotification'',
    Iota ''MsgTypeSRVCCCsToPsCancelAcknowledge'', Iota ''_'', Iota ''_'', Iota ''_'', Iota ''_'',
    Iota ''_'', Iota ''_'', Iota ''_'', Iota ''_'', Iota ''_'', Iota ''_'', Iota ''_'']"

definition v1_message_types :: "const_spec list" where
  "v1_message_types = [
    Iota ''_'', Iota ''MsgTypeEchoRequest'', Iota ''MsgTypeEchoResponse'',
    Iota ''MsgTypeVersionNotSupported'', Iota ''MsgTypeNodeAliveRequest'',
    Iota ''MsgTypeNodeAliveResponse'', Iota ''MsgTypeRedirectionRequest'',
    Iota ''MsgTypeRedirectionResponse'', Iota ''_'', Iota ''_'', Iota ''_'', Iota ''_'',
    Iota ''_'', Iota ''_'', Iota ''_'', Iota ''_'', Iota ''MsgTypeCreatePDPContextRequest'',
    Iota ''MsgTypeCreatePDPContextResponse'', Iota ''MsgTypeUpdatePDPContextRequest'',
    Iota ''MsgTypeUpdatePDPContextResponse'', Iota ''MsgTypeDeletePDPContextRequest'',
    Iota ''MsgTypeDeletePDPContextResponse'', Iota ''MsgTypeCreateAAPDPContextRequest'',
    Iota ''MsgTypeCreateAAPDPContextResponse'', Iota ''MsgTypeDeleteAAPDPContextRequest'',
    Iota ''MsgTypeDeleteAAPDPContextResponse'', Iota ''MsgTypeErrorIndication'',
    Iota ''MsgTypePDUNotificationRequest'', Iota ''MsgTypePDUNotificationResponse'',
    Iota ''MsgTypePDUNotificationRejectRequest'', Iota ''MsgTypePDUNotificationRejectResponse'',
    Iota ''_'', Iota ''MsgTypeSendRoutingInfoRequest'', Iota ''MsgTypeSendRoutingInfoResponse'',
    Iota ''MsgTypeFailureReportRequest'', Iota ''MsgTypeFailureReportResponse'',
    Iota ''MsgTypeNoteMSPresentRequest'', Iota ''MsgTypeNoteMSPresentResponse'', Iota ''_'',
    Iota ''_'', Iota ''_'', Iota ''_'', Iota ''_'', Iota ''_'', Iota ''_'', Iota ''_'', Iota ''_'',
    Iota ''_'', Iota ''_'', Iota ''_'', Iota ''_'', Iota ''_'', Iota ''_'', Iota ''_'', Iota ''_'',
    Iota ''_'', Iota ''MsgTypeIdentificationRequest'', Iota ''MsgTypeIdentificationResponse'',
    Iota ''MsgTypeSGSNContextRequest'', Iota ''MsgTypeSGSNContextResponse'',
    Iota ''MsgTypeSGSNContextAcknowledge'', Fixed ''MsgTypeDataRecordTransferRequest'' 240,
    Fixed ''MsgTypeDataRecordTransferResponse'' 241, Fixed ''MsgTypeTPDU'' 255]"

definition v0_message_types :: "const_spec list" where
  "v0_message_types = [
    Iota ''_'', Iota ''MsgTypeEchoRequest'', Iota ''MsgTypeEchoResponse'',
    Iota ''MsgTypeVersionNotSupported'', Iota ''MsgTypeNodeAliveRequest'',
    Iota ''MsgTypeNodeAliveResponse'', Iota ''MsgTypeRedirectionRequest'',
    Iota ''MsgTypeRedirectionResponse'', Iota ''_'', Iota ''_'', Iota ''_'', Iota ''_'',
    Iota ''_'', Iota ''_'', Iota ''_'', Iota ''_'', Iota ''MsgTypeCreatePDPContextRequest'',
    Iota ''MsgTypeCreatePDPContextResponse'', Iota ''MsgTypeUpdatePDPContextRequest'',
    Iota ''MsgTypeUpdatePDPContextResponse'', Iota ''MsgTypeDeletePDPContextRequest'',
    Iota ''MsgTypeDeletePDPContextResponse'', Iota ''MsgTypeCreateAAPDPContextRequest'',
    Iota ''MsgTypeCreateAAPDPContextResponse'', Iota ''MsgTypeDeleteAAPDPContextRequest'',
    Iota ''MsgTypeDeleteAAPDPContextResponse'', Iota ''MsgTypeErrorIndication'',
    Iota ''MsgTypePDUNotificationRequest'', Iota ''MsgTypePDUNotificationResponse'',
    Iota ''MsgTypePDUNotificationRejectRequest'', Iota ''MsgTypePDUNotificationRejectResponse'',
    Iota ''_'', Iota ''MsgTypeSendRouteingInformationforGPRSRequest'',
    Iota ''MsgTypeSendRouteingInformationforGPRSResponse'', Iota ''MsgTypeFailureReportRequest'',
    Iota ''MsgTypeFailureReportResponse'', Iota ''MsgTypeNoteMSGPRSPresentRequest'',
    Iota ''MsgTypeNoteMSGPRSPresentResponse'', Iota ''_'', Iota ''_'', Iota ''_'', Iota ''_'',
    Iota ''_'', Iota ''_'', Iota ''_'', Iota ''_'', Iota ''_'', Iota ''_'',
    Iota ''MsgTypeIdentificationRequest'', Iota ''MsgTypeIdentificationResponse'',
    Iota ''MsgTypeSGSNContextRequest'', Iota ''MsgTypeSGSNContextResponse'',
    Iota ''MsgTypeSGSNContextAcknowledge'', Fixed ''MsgTypeDataRecordTransferRequest'' 240,
    Fixed ''MsgTypeDataRecordTransferResponse'' 241, Fixed ''MsgTypeTPDU'' 255]"

section \<open>Their values\<close>

lemma const_values_append: "const_values n (cs @ ds) = const_values n cs @ const_values (n + length cs) ds"
  by (induction n cs rule: const_values.induct) (simp_all add: add.commute add.left_commute)

lemma const_values_iota:
  assumes "i < length cs" "cs ! i = Iota c" "c \<noteq> ''_''"
  shows "(c, i) \<in> set (const_values 0 cs)"
proof -
  have "cs = take i cs @ Iota c # drop (Suc i) cs" using id_take_nth_drop [OF assms(1)] assms(2) by simp
  then have "const_values 0 cs = const_values 0 (take i cs) @ const_values i (Iota c # drop (Suc i) cs)"
    using const_values_append [of 0 "take i cs"] assms(1) by (metis add_0 length_take min.absorb4)
  then show ?thesis using assms(3) by simp
qed

lemma const_values_fixed:
  assumes "i < length cs" "cs ! i = Fixed c v"
  shows "(c, v) \<in> set (const_values 0 cs)"
proof -
  have "cs = take i cs @ Fixed c v # drop (Suc i) cs" using id_take_nth_drop [OF assms(1)] assms(2) by simp
  then have "const_values 0 cs = const_values 0 (take i cs) @ const_values i (Fixed c v # drop (Suc i) cs)"
    using const_values_append [of 0 "take i cs"] assms(1) by (metis add_0 length_take min.absorb4)
  then show ?thesis by simp
qed

text \<open>The numbers by which \<open>Parse\<close> selects a type are those of the blocks.\<close>

lemma v2_message_types_length: "length v2_message_types = 256"
  by (simp add: v2_message_types_def)

lemma v2_nth:
  "v2_message_types ! 1 = Iota ''MsgTypeEchoRequest''"
  "v2_message_types ! 2 = Iota ''MsgTypeEchoResponse''"
  "v2_message_types ! 3 = Iota ''MsgTypeVersionNotSupportedIndication''"
  "v2_message_types ! 32 = Iota ''MsgTypeCreateSessionRequest''"
  "v2_message_types ! 33 = Iota ''MsgTypeCreateSessionResponse''"
  "v2_message_types ! 34 = Iota ''MsgTypeModifyBearerRequest''"
  "v2_message_types ! 35 = Iota ''MsgTypeModifyBearerResponse''"
  "v2_message_types ! 36 = Iota ''MsgTypeDeleteSessionRequest''"
  "v2_message_types ! 37 = Iota ''MsgTypeDeleteSessionResponse''"
  "v2_message_types ! 64 = Iota ''MsgTypeModifyBearerCommand''"
  "v2_message_types ! 65 = Iota ''MsgTypeModifyBearerFailureIndication''"
  "v2_message_types ! 66 = Iota ''MsgTypeDeleteBearerCommand''"
  "v2_message_types ! 67 = Iota ''MsgTypeDeleteBearerFailureIndication''"
  "v2_message_types ! 70 = Iota ''MsgTypeDownlinkDataNotificationFailureIndication''"
  "v2_message_types ! 73 = Iota ''MsgTypeStopPagingIndication''"
  "v2_message_types ! 95 = Iota ''MsgTypeCreateBearerRequest''"
  "v2_message_types ! 96 = Iota ''MsgTypeCreateBearerResponse''"
  "v2_message_types ! 97 = Iota ''MsgTypeUpdateBearerRequest''"
  "v2_message_types ! 98 = Iota ''MsgTypeUpdateBearerResponse''"
  "v2_message_types ! 99 = Iota ''MsgTypeDeleteBearerRequest''"
  "v2_message_types ! 100 = Iota ''MsgTypeDeleteBearerResponse''"
  "v2_message_types ! 101 = Iota ''MsgTypeDeletePDNConnectionSetRequest''"
  "v2_message_types ! 102 = Iota ''MsgTypeDeletePDNConnectionSetResponse''"
  "v2_message_types ! 130 = Iota ''MsgTypeContextRequest''"
  "v2_message_types ! 131 = Iota ''MsgTypeContextResponse''"
  "v2_message_types ! 132 = Iota ''MsgTypeContextAcknowledge''"
  "v2_message_types ! 149 = Iota ''MsgTypeDetachNotification''"
  "v2_message_types ! 150 = Iota ''MsgTypeDetachAcknowledge''"
  "v2_message_types ! 170 = Iota ''MsgTypeReleaseAccessBearersRequest''"
  "v2_message_types ! 171 = Iota ''MsgTypeReleaseAccessBearersResponse''"
  "v2_message_types ! 176 = Iota ''MsgTypeDownlinkDataNotification''"
  "v2_message_types ! 177 = Iota ''MsgTypeDownlinkDataNotificationAcknowledge''"
  "v2_message_types ! 179 = Iota ''MsgTypePGWRestartNotification''"
  "v2_message_types ! 180 = Iota ''MsgTypePGWRestartNotificationAcknowledge''"
  "v2_message_types ! 200 = Iota ''MsgTypeUpdatePDNConnectionSetRequest''"
  "v2_message_types ! 201 = Iota ''MsgTypeUpdatePDNConnectionSetResponse''"
  "v2_message_types ! 211 = Iota ''MsgTypeModifyAccessBearersRequest''"
  "v2_message_types ! 212 = Iota ''MsgTypeModifyAccessBearersResponse''"
  by (simp_all add: v2_message_types_def)

lemma v2_type_values:
  "(''MsgTypeEchoRequest'', unat MsgTypeEchoRequest) \<in> set (const_values 0 v2_message_types)"
  "(''MsgTypeEchoResponse'', unat MsgTypeEchoResponse) \<in> set (const_values 0 v2_message_types)"
  "(''MsgTypeVersionNotSupportedIndication'', unat MsgTypeVersionNotSupportedIndication) \<in> set (const_values 0 v2_message_types)"
  "(''MsgTypeCreateSessionRequest'', unat MsgTypeCreateSessionRequest) \<in> set (const_values 0 v2_message_types)"
  "(''MsgTypeCreateSessionResponse'', unat MsgTypeCreateSessionResponse) \<in> set (const_values 0 v2_message_types)"
  "(''MsgTypeModifyBearerRequest'', unat MsgTypeModifyBearerRequest) \<in> set (const_values 0 v2_message_types)"
  "(''MsgTypeModifyBearerResponse'', unat MsgTypeModifyBearerResponse) \<in> set (const_values 0 v2_message_types)"
  "(''MsgTypeDeleteSessionRequest'', unat MsgTypeDeleteSessionRequest) \<in> set (const_values 0 v2_message_types)"
  "(''MsgTypeDeleteSessionResponse'', unat MsgTypeDeleteSessionResponse) \<in> set (const_values 0 v2_message_types)"
  "(''MsgTypeModifyBearerCommand'', unat MsgTypeModifyBearerCommand) \<in> set (const_values 0 v2_message_types)"
  "(''MsgTypeModifyBearerFailureIndication'', unat MsgTypeModifyBearerFailureIndication) \<in> set (const_values 0 v2_message_types)"
  "(''MsgTypeDeleteBearerCommand'', unat MsgTypeDeleteBearerCommand) \<in> set (const_values 0 v2_message_types)"
  "(''MsgTypeDeleteBearerFailureIndication'', unat MsgTypeDeleteBearerFailureIndication) \<in> set (const_values 0 v2_message_types)"
  "(''MsgTypeDownlinkDataNotificationFailureIndication'', unat MsgTypeDownlinkDataNotificationFailureIndication) \<in> set (const_values 0 v2_message_types)"
  "(''MsgTypeStopPagingIndication'', unat MsgTypeStopPagingIndication) \<in> set (const_values 0 v2_message_types)"
  "(''MsgTypeCreateBearerRequest'', unat MsgTypeCreateBearerRequest) \<in> set (const_values 0 v2_message_types)"
  "(''MsgTypeCreateBearerResponse'', unat MsgTypeCreateBearerResponse) \<in> set (const_values 0 v2_message_types)"
  "(''MsgTypeUpdateBearerRequest'', unat MsgTypeUpdateBearerRequest) \<in> set (const_values 0 v2_message_types)"
  "(''MsgTypeUpdateBearerResponse'', unat MsgTypeUpdateBearerResponse) \<in> set (const_values 0 v2_message_types)"
  "(''MsgTypeDeleteBearerRequest'', unat MsgTypeDeleteBearerRequest) \<in> set (const_values 0 v2_message_types)"
  "(''MsgTypeDeleteBearerResponse'', unat MsgTypeDeleteBearerResponse) \<in> set (const_values 0 v2_message_types)"
  "(''MsgTypeDeletePDNConnectionSetRequest'', unat MsgTypeDeletePDNConnectionSetRequest) \<in> set (const_values 0 v2_message_types)"
  "(''MsgTypeDeletePDNConnectionSetResponse'', unat MsgTypeDeletePDNConnectionSetResponse) \<in> set (const_values 0 v2_message_types)"
  "(''MsgTypeContextRequest'', unat MsgTypeContextRequest) \<in> set (const_values 0 v2_message_types)"
  "(''MsgTypeContextResponse'', unat MsgTypeContextResponse) \<in> set (const_values 0 v2_message_types)"
  "(''MsgTypeContextAcknowledge'', unat MsgTypeContextAcknowledge) \<in> set (const_values 0 v2_message_types)"
  "(''MsgTypeDetachNotification'', unat MsgTypeDetachNotification) \<in> set (const_values 0 v2_message_types)"
  "(''MsgTypeDetachAcknowledge'', unat MsgTypeDetachAcknowledge) \<in> set (const_values 0 v2_message_types)"
  "(''MsgTypeReleaseAccessBearersRequest'', unat MsgTypeReleaseAccessBearersRequest) \<in> set (const_values 0 v2_message_types)"
  "(''MsgTypeReleaseAccessBearersResponse'', unat MsgTypeReleaseAccessBearersResponse) \<in> set (const_values 0 v2_message_types)"
  "(''MsgTypeDownlinkDataNotification'', unat MsgTypeDownlinkDataNotification) \<in> set (const_values 0 v2_message_types)"
  "(''MsgTypeDownlinkDataNotificationAcknowledge'', unat MsgTypeDownlinkDataNotificationAcknowledge) \<in> set (const_values 0 v2_message_types)"
  "(''MsgTypePGWRestartNotification'', unat MsgTypePGWRestartNotification) \<in> set (const_values 0 v2_message_types)"
  "(''MsgTypePGWRestartNotificationAcknowledge'', unat MsgTypePGWRestartNotificationAcknowledge) \<in> set (const_values 0 v2_message_types)"
  "(''MsgTypeUpdatePDNConnectionSetRequest'', unat MsgTypeUpdatePDNConnectionSetRequest) \<in> set (const_values 0 v2_message_types)"
  "(''MsgTypeUpdatePDNConnectionSetResponse'', unat MsgTypeUpdatePDNConnectionSetResponse) \<in> set (const_values 0 v2_message_types)"
  "(''MsgTypeModifyAccessBearersRequest'', unat MsgTypeModifyAccessBearersRequest) \<in> set (const_values 0 v2_message_types)"
  "(''MsgTypeModifyAccessBearersResponse'', unat MsgTypeModifyAccessBearersResponse) \<in> set (const_values 0 v2_message_types)"
proof -
  show "(''MsgTypeEchoRequest'', unat MsgTypeEchoRequest) \<in> set (const_values 0 v2_message_types)"
    using const_values_iota [of 1 v2_message_types] by (simp add: v2_message_types_length v2_nth del: One_nat_def)
  show "(''MsgTypeEchoResponse'', unat MsgTypeEchoResponse) \<in> set (const_values 0 v2_message_types)"
    using const_values_iota [of 2 v2_message_types] by (simp add: v2_message_types_length v2_nth)
  show "(''MsgTypeVersionNotSupportedIndication'', unat MsgTypeVersionNotSupportedIndication) \<in> set (const_values 0 v2_message_types)"
    using const_values_iota [of 3 v2_message_types] by (simp add: v2_message_types_length v2_nth)
  show "(''MsgTypeCreateSessionRequest'', unat MsgTypeCreateSessionRequest) \<in> set (const_values 0 v2_message_types)"
    using const_values_iota [of 32 v2_message_types] by (simp add: v2_message_types_length v2_nth)
  show "(''MsgTypeCreateSessionResponse'', unat MsgTypeCreateSessionResponse) \<in> set (const_values 0 v2_message_types)"
    using const_values_iota [of 33 v2_message_types] by (simp add: v2_message_types_length v2_nth)
  show "(''MsgTypeModifyBearerRequest'', unat MsgTypeModifyBearerRequest) \<in> set (const_values 0 v2_message_types)"
    using const_values_iota [of 34 v2_message_types] by (simp add: v2_message_types_length v2_nth)
  show "(''MsgTypeModifyBearerResponse'', unat MsgTypeModifyBearerResponse) \<in> set (const_values 0 v2_message_types)"
    using const_values_iota [of 35 v2_message_types] by (simp add: v2_message_types_length v2_nth)
  show "(''MsgTypeDeleteSessionRequest'', unat MsgTypeDeleteSessionRequest) \<in> set (const_values 0 v2_message_types)"
    using const_values_iota [of 36 v2_message_types] by (simp add: v2_message_types_length v2_nth)
  show "(''MsgTypeDeleteSessionResponse'', unat MsgTypeDeleteSessionResponse) \<in> set (const_values 0 v2_message_types)"
    using const_values_iota [of 37 v2_message_types] by (simp add: v2_message_types_length v2_nth)
  show "(''MsgTypeModifyBearerCommand'', unat MsgTypeModifyBearerCommand) \<in> set (const_values 0 v2_message_types)"
    using const_values_iota [of 64 v2_message_types] by (simp add: v2_message_types_length v2_nth)
  show "(''MsgTypeModifyBearerFailureIndication'', unat MsgTypeModifyBearerFailureIndication) \<in> set (const_values 0 v2_message_types)"
    using const_values_iota [of 65 v2_message_types] by (simp add: v2_message_types_length v2_nth)
  show "(''MsgTypeDeleteBearerCommand'', unat MsgTypeDeleteBearerCommand) \<in> set (const_values 0 v2_message_types)"
    using const_values_iota [of 66 v2_message_types] by (simp add: v2_message_types_length v2_nth)
  show "(''MsgTypeDeleteBearerFailureIndication'', unat MsgTypeDeleteBearerFailureIndication) \<in> set (const_values 0 v2_message_types)"
    using const_values_iota [of 67 v2_message_types] by (simp add: v2_message_types_length v2_nth)
  show "(''MsgTypeDownlinkDataNotificationFailureIndication'', unat MsgTypeDownlinkDataNotificationFailureIndication) \<in> set (const_values 0 v2_message_types)"
    using const_values_iota [of 70 v2_message_types] by (simp add: v2_message_types_length v2_nth)
  show "(''MsgTypeStopPagingIndication'', unat MsgTypeStopPagingIndication) \<in> set (const_values 0 v2_message_types)"
    using const_values_iota [of 73 v2_message_types] by (simp add: v2_message_types_length v2_nth)
  show "(''MsgTypeCreateBearerRequest'', unat MsgTypeCreateBearerRequest) \<in> set (const_values 0 v2_message_types)"
    using const_values_iota [of 95 v2_message_types] by (simp add: v2_message_types_length v2_nth)
  show "(''MsgTypeCreateBearerResponse'', unat MsgTypeCreateBearerResponse) \<in> set (const_values 0 v2_message_types)"
    using const_values_iota [of 96 v2_message_types] by (simp add: v2_message_types_length v2_nth)
  show "(''MsgTypeUpdateBearerRequest'', unat MsgTypeUpdateBearerRequest) \<in> set (const_values 0 v2_message_types)"
    using const_values_iota [of 97 v2_message_types] by (simp add: v2_message_types_length v2_nth)
  show "(''MsgTypeUpdateBearerResponse'', unat MsgTypeUpdateBearerResponse) \<in> set (const_values 0 v2_message_types)"
    using const_values_iota [of 98 v2_message_types] by (simp add: v2_message_types_length v2_nth)
  show "(''MsgTypeDeleteBearerRequest'', unat MsgTypeDeleteBearerRequest) \<in> set (const_values 0 v2_message_types)"
    using const_values_iota [of 99 v2_message_types] by (simp add: v2_message_types_length v2_nth)
  show "(''MsgTypeDeleteBearerResponse'', unat MsgTypeDeleteBearerResponse) \<in> set (const_values 0 v2_message_types)"
    using const_values_iota [of 100 v2_message_types] by (simp add: v2_message_types_length v2_nth)
  show "(''MsgTypeDeletePDNConnectionSetRequest'', unat MsgTypeDeletePDNConnectionSetRequest) \<in> set (const_values 0 v2_message_types)"
    using const_values_iota [of 101 v2_message_types] by (simp add: v2_message_types_length v2_nth)
  show "(''MsgTypeDeletePDNConnectionSetResponse'', unat MsgTypeDeletePDNConnectionSetResponse) \<in> set (const_values 0 v2_message_types)"
    using const_values_iota [of 102 v2_message_types] by (simp add: v2_message_types_length v2_nth)
  show "(''MsgTypeContextRequest'', unat MsgTypeContextRequest) \<in> set (const_values 0 v2_message_types)"
    using const_values_iota [of 130 v2_message_types] by (simp add: v2_message_types_length v2_nth)
  show "(''MsgTypeContextResponse'', unat MsgTypeContextResponse) \<in> set (const_values 0 v2_message_types)"
    using const_values_iota [of 131 v2_message_types] by (simp add: v2_message_types_length v2_nth)
  show "(''MsgTypeContextAcknowledge'', unat MsgTypeContextAcknowledge) \<in> set (const_values 0 v2_message_types)"
    using const_values_iota [of 132 v2_message_types] by (simp add: v2_message_types_length v2_nth)
  show "(''MsgTypeDetachNotification'', unat MsgTypeDetachNotification) \<in> set (const_values 0 v2_message_types)"
    using const_values_iota [of 149 v2_message_types] by (simp add: v2_message_types_length v2_nth)
  show "(''MsgTypeDetachAcknowledge'', unat MsgTypeDetachAcknowledge) \<in> set (const_values 0 v2_message_types)"
    using const_values_iota [of 150 v2_message_types] by (simp add: v2_message_types_length v2_nth)
  show "(''MsgTypeReleaseAccessBearersRequest'', unat MsgTypeReleaseAccessBearersRequest) \<in> set (const_values 0 v2_message_types)"
    using const_values_iota [of 170 v2_message_types] by (simp add: v2_message_types_length v2_nth)
  show "(''MsgTypeReleaseAccessBearersResponse'', unat MsgTypeReleaseAccessBearersResponse) \<in> set (const_values 0 v2_message_types)"
    using const_values_iota [of 171 v2_message_types] by (simp add: v2_message_types_length v2_nth)
  show "(''MsgTypeDownlinkDataNotification'', unat MsgTypeDownlinkDataNotification) \<in> set (const_values 0 v2_message_types)"
    using const_values_iota [of 176 v2_message_types] by (simp add: v2_message_types_length v2_nth)
  show "(''MsgTypeDownlinkDataNotificationAcknowledge'', unat MsgTypeDownlinkDataNotificationAcknowledge) \<in> set (const_values 0 v2_message_types)"
    using const_values_iota [of 177 v2_message_types] by (simp add: v2_message_types_length v2_nth)
  show "(''MsgTypePGWRestartNotification'', unat MsgTypePGWRestartNotification) \<in> set (const_values 0 v2_message_types)"
    using const_values_iota [of 179 v2_message_types] by (simp add: v2_message_types_length v2_nth)
  show "(''MsgTypePGWRestartNotificationAcknowledge'', unat MsgTypePGWRestartNotificationAcknowledge) \<in> set (const_values 0 v2_message_types)"
    using const_values_iota [of 180 v2_message_types] by (simp add: v2_message_types_length v2_nth)
  show "(''MsgTypeUpdatePDNConnectionSetRequest'', unat MsgTypeUpdatePDNConnectionSetRequest) \<in> set (const_values 0 v2_message_types)"
    using const_values_iota [of 200 v2_message_types] by (simp add: v2_message_types_length v2_nth)
  show "(''MsgTypeUpdatePDNConnectionSetResponse'', unat MsgTypeUpdatePDNConnectionSetResponse) \<in> set (const_values 0 v2_message_types)"
    using const_values_iota [of 201 v2_message_types] by (simp add: v2_message_types_length v2_nth)
  show "(''MsgTypeModifyAccessBearersRequest'', unat MsgTypeModifyAccessBearersRequest) \<in> set (const_values 0 v2_message_types)"
    using const_values_iota [of 211 v2_message_types] by (simp add: v2_message_types_length v2_nth)
  show "(''MsgTypeModifyAccessBearersResponse'', unat MsgTypeModifyAccessBearersResponse) \<in> set (const_values 0 v2_message_types)"
    using const_values_iota [of 212 v2_message_types] by (simp add: v2_message_types_length v2_nth)
qed

lemma v1_message_types_length: "length v1_message_types = 64"
  by (simp add: v1_message_types_def)

lemma v1_nth:
  "v1_message_types ! 1 = Iota ''MsgTypeEchoRequest''"
  "v1_message_types ! 2 = Iota ''MsgTypeEchoResponse''"
  "v1_message_types ! 3 = Iota ''MsgTypeVersionNotSupported''"
  "v1_message_types ! 16 = Iota ''MsgTypeCreatePDPContextRequest''"
  "v1_message_types ! 17 = Iota ''MsgTypeCreatePDPContextResponse''"
  "v1_message_types ! 18 = Iota ''MsgTypeUpdatePDPContextRequest''"
  "v1_message_types ! 19 = Iota ''MsgTypeUpdatePDPContextResponse''"
  "v1_message_types ! 20 = Iota ''MsgTypeDeletePDPContextRequest''"
  "v1_message_types ! 21 = Iota ''MsgTypeDeletePDPContextResponse''"
  "v1_message_types ! 26 = Iota ''MsgTypeErrorIndication''"
  "v1_message_types ! 63 = Fixed ''MsgTypeTPDU'' 255"
  by (simp_all add: v1_message_types_def)

lemma v1_type_values:
  "(''MsgTypeEchoRequest'', unat v1_MsgTypeEchoRequest) \<in> set (const_values 0 v1_message_types)"
  "(''MsgTypeEchoResponse'', unat v1_MsgTypeEchoResponse) \<in> set (const_values 0 v1_message_types)"
  "(''MsgTypeVersionNotSupported'', unat v1_MsgTypeVersionNotSupported) \<in> set (const_values 0 v1_message_types)"
  "(''MsgTypeCreatePDPContextRequest'', unat v1_MsgTypeCreatePDPContextRequest) \<in> set (const_values 0 v1_message_types)"
  "(''MsgTypeCreatePDPContextResponse'', unat v1_MsgTypeCreatePDPContextResponse) \<in> set (const_values 0 v1_message_types)"
  "(''MsgTypeUpdatePDPContextRequest'', unat v1_MsgTypeUpdatePDPContextRequest) \<in> set (const_values 0 v1_message_types)"
  "(''MsgTypeUpdatePDPContextResponse'', unat v1_MsgTypeUpdatePDPContextResponse) \<in> set (const_values 0 v1_message_types)"
  "(''MsgTypeDeletePDPContextRequest'', unat v1_MsgTypeDeletePDPContextRequest) \<in> set (const_values 0 v1_message_types)"
  "(''MsgTypeDeletePDPContextResponse'', unat v1_MsgTypeDeletePDPContextResponse) \<in> set (const_values 0 v1_message_types)"
  "(''MsgTypeErrorIndication'', unat v1_MsgTypeErrorIndication) \<in> set (const_values 0 v1_message_types)"
  "(''MsgTypeTPDU'', unat v1_MsgTypeTPDU) \<in> set (const_values 0 v1_message_types)"
proof -
  show "(''MsgTypeEchoRequest'', unat v1_MsgTypeEchoRequest) \<in> set (const_values 0 v1_message_types)"
    using const_values_iota [of 1 v1_message_types] by (simp add: v1_message_types_length v1_nth del: One_nat_def)
  show "(''MsgTypeEchoResponse'', unat v1_MsgTypeEchoResponse) \<in> set (const_values 0 v1_message_types)"
    using const_values_iota [of 2 v1_message_types] by (simp add: v1_message_types_length v1_nth)
  show "(''MsgTypeVersionNotSupported'', unat v1_MsgTypeVersionNotSupported) \<in> set (const_values 0 v1_message_types)"
    using const_values_iota [of 3 v1_message_types] by (simp add: v1_message_types_length v1_nth)
  show "(''MsgTypeCreatePDPContextRequest'', unat v1_MsgTypeCreatePDPContextRequest) \<in> set (const_values 0 v1_message_types)"
    using const_values_iota [of 16 v1_message_types] by (simp add: v1_message_types_length v1_nth)
  show "(''MsgTypeCreatePDPContextResponse'', unat v1_MsgTypeCreatePDPContextResponse) \<in> set (const_values 0 v1_message_types)"
    using const_values_iota [of 17 v1_message_types] by (simp add: v1_message_types_length v1_nth)
  show "(''MsgTypeUpdatePDPContextRequest'', unat v1_MsgTypeUpdatePDPContextRequest) \<in> set (const_values 0 v1_message_types)"
    using const_values_iota [of 18 v1_message_types] by (simp add: v1_message_types_length v1_nth)
  show "(''MsgTypeUpdatePDPContextResponse'', unat v1_MsgTypeUpdatePDPContextResponse) \<in> set (const_values 0 v1_message_types)"
    using const_values_iota [of 19 v1_message_types] by (simp add: v1_message_types_length v1_nth)
  show "(''MsgTypeDeletePDPContextRequest'', unat v1_MsgTypeDeletePDPContextRequest) \<in> set (const_values 0 v1_message_types)"
    using const_values_iota [of 20 v1_message_types] by (simp add: v1_message_types_length v1_nth)
  show "(''MsgTypeDeletePDPContextResponse'', unat v1_MsgTypeDeletePDPContextResponse) \<in> set (const_values 0 v1_message_types)"
    using const_values_iota [of 21 v1_message_types] by (simp add: v1_message_types_length v1_nth)
  show "(''MsgTypeErrorIndication'', unat v1_MsgTypeErrorIndication) \<in> set (const_values 0 v1_message_types)"
    using const_values_iota [of 26 v1_message_types] by (simp add: v1_message_types_length v1_nth)
  show "(''MsgTypeTPDU'', unat v1_MsgTypeTPDU) \<in> set (const_values 0 v1_message_types)"
    using const_values_fixed [of 63 v1_message_types] by (simp add: v1_message_types_length v1_nth)
qed

lemma v0_message_types_length: "length v0_message_types = 56"
  by (simp add: v0_message_types_def)

lemma v0_nth:
  "v0_message_types ! 1 = Iota ''MsgTypeEchoRequest''"
  "v0_message_types ! 2 = Iota ''MsgTypeEchoResponse''"
  "v0_message_types ! 16 = Iota ''MsgTypeCreatePDPContextRequest''"
  "v0_message_types ! 17 = Iota ''MsgTypeCreatePDPContextResponse''"
  "v0_message_types ! 18 = Iota ''MsgTypeUpdatePDPContextRequest''"
  "v0_message_types ! 19 = Iota ''MsgTypeUpdatePDPContextResponse''"
  "v0_message_types ! 20 = Iota ''MsgTypeDeletePDPContextRequest''"
  "v0_message_types ! 21 = Iota ''MsgTypeDeletePDPContextResponse''"
  "v0_message_types ! 55 = Fixed ''MsgTypeTPDU'' 255"
  by (simp_all add: v0_message_types_def)

lemma v0_type_values:
  "(''MsgTypeEchoRequest'', unat v0_MsgTypeEchoRequest) \<in> set (const_values 0 v0_message_types)"
  "(''MsgTypeEchoResponse'', unat v0_MsgTypeEchoResponse) \<in> set (const_values 0 v0_message_types)"
  "(''MsgTypeCreatePDPContextRequest'', unat v0_MsgTypeCreatePDPContextRequest) \<in> set (const_values 0 v0_message_types)"
  "(''MsgTypeCreatePDPContextResponse'', unat v0_MsgTypeCreatePDPContextResponse) \<in> set (const_values 0 v0_message_types)"
  "(''MsgTypeUpdatePDPContextRequest'', unat v0_MsgTypeUpdatePDPContextRequest) \<in> set (const_values 0 v0_message_types)"
  "(''MsgTypeUpdatePDPContextResponse'', unat v0_MsgTypeUpdatePDPContextResponse) \<in> set (const_values 0 v0_message_types)"
  "(''MsgTypeDeletePDPContextRequest'', unat v0_MsgTypeDeletePDPContextRequest) \<in> set (const_values 0 v0_message_types)"
  "(''MsgTypeDeletePDPContextResponse'', unat v0_MsgTypeDeletePDPContextResponse) \<in> set (const_values 0 v0_message_types)"
  "(''MsgTypeTPDU'', unat v0_MsgTypeTPDU) \<in> set (const_values 0 v0_message_types)"
proof -
  show "(''MsgTypeEchoRequest'', unat v0_MsgTypeEchoRequest) \<in> set (const_values 0 v0_message_types)"
    using const_values_iota [of 1 v0_message_types] by (simp add: v0_message_types_length v0_nth del: One_nat_def)
  show "(''MsgTypeEchoResponse'', unat v0_MsgTypeEchoResponse) \<in> set (const_values 0 v0_message_types)"
    using const_values_iota [of 2 v0_message_types] by (simp add: v0_message_types_length v0_nth)
  show "(''MsgTypeCreatePDPContextRequest'', unat v0_MsgTypeCreatePDPContextRequest) \<in> set (const_values 0 v0_message_types)"
    using const_values_iota [of 16 v0_message_types] by (simp add: v0_message_types_length v0_nth)
  show "(''MsgTypeCreatePDPContextResponse'', unat v0_MsgTypeCreatePDPContextResponse) \<in> set (const_values 0 v0_message_types)"
    using const_values_iota [of 17 v0_message_types] by (simp add: v0_message_types_length v0_nth)
  show "(''MsgTypeUpdatePDPContextRequest'', unat v0_MsgTypeUpdatePDPContextRequest) \<in> set (const_values 0 v0_message_types)"
    using const_values_iota [of 18 v0_message_types] by (simp add: v0_message_types_length v0_nth)
  show "(''MsgTypeUpdatePDPContextResponse'', unat v0_MsgTypeUpdatePDPContextResponse) \<in> set (const_values 0 v0_message_types)"
    using const_values_iota [of 19 v0_message_types] by (simp add: v0_message_types_length v0_nth)
  show "(''MsgTypeDeletePDPContextRequest'', unat v0_MsgTypeDeletePDPContextRequest) \<in> set (const_values 0 v0_message_types)"
    using const_values_iota [of 20 v0_message_types] by (simp add: v0_message_types_length v0_nth)
  show "(''MsgTypeDeletePDPContextResponse'', unat v0_MsgTypeDeletePDPContextResponse) \<in> set (const_values 0 v0_message_types)"
    using const_values_iota [of 21 v0_message_types] by (simp add: v0_message_types_length v0_nth)
  show "(''MsgTypeTPDU'', unat v0_MsgTypeTPDU) \<in> set (const_values 0 v0_message_types)"
    using const_values_fixed [of 55 v0_message_types] by (simp add: v0_message_types_length v0_nth)
qed

text \<open>
  In GTPv1 eight blank lines too many stand before Identification Request: the comment beside
  it, and the standard, say 48, which it is in GTPv0.
\<close>

lemma v1_identification_request:
  "(''MsgTypeIdentificationRequest'', 56) \<in> set (const_values 0 v1_message_types)"
  "(''MsgTypeIdentificationRequest'', 48) \<in> set (const_values 0 v0_message_types)"
  "(''MsgTypeSGSNContextAcknowledge'', 60) \<in> set (const_values 0 v1_message_types)"
  "(''MsgTypeSGSNContextAcknowledge'', 52) \<in> set (const_values 0 v0_message_types)"
  by (rule const_values_iota; simp add: v1_message_types_def v0_message_types_def)+

end
