(* ===== verification/V1Kernel.thy ===== *)
theory V1Kernel
  imports V1UPlaneRun
begin

text \<open>
  Two ways to bring up a user plane connection, and the tunnels of the Linux kernel:
  \<open>DialUPlane\<close> and \<open>ListenAndServe\<close> (\<open>src/gtpv1/u-conn.go\<close>), \<open>EnableKernelGTP\<close> and the operations on kernel
  tunnels (\<open>src/gtpv1/tunnel_linux.go\<close>).

  The package \<open>netlink\<close>, which talks to the kernel, is the argument \<open>nl\<close> of the operations, a record of
  the functions the source calls over an unknown state of the kernel \<open>'k\<close>. The property about tunnels
  states what it relies on of them as \<open>documented_driver\<close>. A step of \<open>tunnel_state\<close> is a call of
  one of the operations on one of the connections of a program.
\<close>

section \<open>Dialing\<close>

text \<open>
  What happens in a turn of the loop: the context is done, reading fails or times out, or a datagram
  arrives. The list holds the events in their order; when it is used up \<open>DialUPlane\<close> is still waiting,
  which is \<open>None\<close>. \<open>Inr False\<close> is the return of a nil connection without an error, after the context
  is done. Addresses of senders are not looked at.
\<close>

datatype dial_event = CtxDone | ReadFails | Datagram bytes

fun dial_loop :: "uenv \<Rightarrow> nat \<Rightarrow> addr \<Rightarrow> dial_event list \<Rightarrow> uworld \<Rightarrow> (bool result \<times> uworld) option" where
  "dial_loop env u raddr [] w = None"
| "dial_loop env u raddr (CtxDone # es) w = Some (Inr False, w)"
| "dial_loop env u raddr (ReadFails # es) w =
     (case u_EchoRequest env u raddr w of
        (Inl e, w) \<Rightarrow> Some (Inl e, w)
      | (Inr _, w) \<Rightarrow> Some (Inl (Error NetError), w))"
| "dial_loop env u raddr (Datagram b # es) w =
     (case u_EchoRequest env u raddr w of
        (Inl e, w) \<Rightarrow> Some (Inl e, w)
      | (Inr _, w) \<Rightarrow>
          (case v1_Parse (take 1600 b) of
             Inl e \<Rightarrow> Some (Inl e, w)
           | Inr (Msg1_EchoResponse _) \<Rightarrow> Some (Inr True, w)
           | Inr _ \<Rightarrow> dial_loop env u raddr es w))"

text \<open>The new connection is the last one of the world. \<open>listen\<close> says whether its socket can be opened.\<close>

definition DialUPlane :: "uenv \<Rightarrow> bool \<Rightarrow> addr \<Rightarrow> addr \<Rightarrow> dial_event list \<Rightarrow> uworld \<Rightarrow> (bool result \<times> uworld) option" where
  "DialUPlane env listen laddr raddr es w =
     (let w' = w\<lparr>w_conns := w_conns w @ [NewUPlaneConn laddr]\<rparr> in
      if \<not> listen then Some (Inl (Error NetError), w)
      else dial_loop env (length (w_conns w)) raddr es w')"

text \<open>
  \<open>ListenAndServe\<close> opens the socket if there is none yet; \<open>opened\<close> is \<open>u.pktConn != nil\<close> before and after.
  Then it serves: \<open>u_serve\<close> for each datagram.
\<close>

definition u_Listen :: "bool \<Rightarrow> bool \<Rightarrow> unit result \<times> bool" where
  "u_Listen listen opened =
     (if opened then (Inr (), True) else if listen then (Inr (), True) else (Inl (Error NetError), False))"

primrec serve_all :: "uenv \<Rightarrow> nat \<Rightarrow> (addr \<times> bytes) list \<Rightarrow> unit uop" where
  "serve_all env u [] w = (Inr (), w)"
| "serve_all env u (p # ps) w =
     (case u_serve env u (fst p) (snd p) w of
        (Inl e, w) \<Rightarrow> (Inl e, w)
      | (Inr _, w) \<Rightarrow> serve_all env u ps w)"

definition u_ListenAndServe :: "uenv \<Rightarrow> bool \<Rightarrow> bool \<Rightarrow> nat \<Rightarrow> (addr \<times> bytes) list \<Rightarrow> unit uop" where
  "u_ListenAndServe env listen opened u ps w =
     (case u_Listen listen opened of (Inl e, _) \<Rightarrow> (Inl e, w) | (Inr _, _) \<Rightarrow> serve_all env u ps w)"

section \<open>Kernel tunnels\<close>

record gtp_link =
  link_Name :: string
  link_FD1 :: nat
  link_Role :: nat

record pdp =
  pdp_Version :: nat
  pdp_PeerAddress :: ip
  pdp_MSAddress :: ip
  pdp_OTEI :: u32
  pdp_ITEI :: u32

text \<open>
  The functions of \<open>net\<close> and \<open>netlink\<close>, whether they succeed and the kernel afterwards. A lookup returns
  a pointer and whether there was no error.
\<close>

record 'k netlink =
  nl_ListenPacket :: "addr \<Rightarrow> 'k \<Rightarrow> bool \<times> 'k"
  nl_File :: "nat \<Rightarrow> 'k \<Rightarrow> bool \<times> 'k"
  nl_LinkAdd :: "gtp_link \<Rightarrow> 'k \<Rightarrow> bool \<times> 'k"
  nl_LinkSetUp :: "gtp_link \<Rightarrow> 'k \<Rightarrow> bool \<times> 'k"
  nl_LinkSetMTU :: "gtp_link \<Rightarrow> nat \<Rightarrow> 'k \<Rightarrow> bool \<times> 'k"
  nl_GTPPDPAdd :: "gtp_link option \<Rightarrow> pdp \<Rightarrow> 'k \<Rightarrow> bool \<times> 'k"
  nl_GTPPDPDel :: "gtp_link option \<Rightarrow> pdp option \<Rightarrow> 'k \<Rightarrow> bool \<times> 'k"
  nl_GTPPDPByITEI :: "gtp_link option \<Rightarrow> int \<Rightarrow> 'k \<Rightarrow> pdp option \<times> bool"
  nl_GTPPDPByMSAddress :: "gtp_link option \<Rightarrow> ip \<Rightarrow> 'k \<Rightarrow> pdp option \<times> bool"

text \<open>
  The connections, which of them have a socket, their field \<open>KernelGTP.Link\<close>, and the kernel.
\<close>

record 'k tstate =
  kn_world :: uworld
  kn_open :: "nat \<Rightarrow> bool"
  kn_Link :: "nat \<Rightarrow> gtp_link option"
  kn_kernel :: 'k

type_synonym 'k top = "'k tstate \<Rightarrow> unit result \<times> 'k tstate"

abbreviation kconn :: "'k tstate \<Rightarrow> nat \<Rightarrow> uconn" where
  "kconn s u \<equiv> uconn_at (kn_world s) u"

definition ask :: "('k \<Rightarrow> bool \<times> 'k) \<Rightarrow> 'k tstate \<Rightarrow> bool \<times> 'k tstate" where
  "ask f s = (let (ok, k) = f (kn_kernel s) in (ok, s\<lparr>kn_kernel := k\<rparr>))"

definition on_world :: "unit uop \<Rightarrow> 'k top" where
  "on_world f s = (let (r, w) = f (kn_world s) in (r, s\<lparr>kn_world := w\<rparr>))"

text \<open>Go on after a call that succeeded, return an error after one that failed.\<close>

definition unless :: "bool \<times> 'k tstate \<Rightarrow> 'k top \<Rightarrow> unit result \<times> 'k tstate" where
  "unless r f = (case r of (ok, s) \<Rightarrow> if ok then f s else (Inl (Error NetError), s))"

definition open_socket :: "'k netlink \<Rightarrow> nat \<Rightarrow> 'k tstate \<Rightarrow> bool \<times> 'k tstate" where
  "open_socket nl u s =
     (if kn_open s u then (True, s)
      else case ask (nl_ListenPacket nl (u_laddr (kconn s u))) s of
             (ok, s) \<Rightarrow> (ok, s\<lparr>kn_open := (kn_open s)(u := ok)\<rparr>))"

definition EnableKernelGTP :: "'k netlink \<Rightarrow> nat \<Rightarrow> string \<Rightarrow> nat \<Rightarrow> 'k top" where
  "EnableKernelGTP nl u devname role s =
     unless (open_socket nl u s) (\<lambda>s.
     unless (ask (nl_File nl u) s) (\<lambda>s.
       let link = \<lparr>link_Name = devname, link_FD1 = u, link_Role = role\<rparr>;
           s = s\<lparr>kn_Link := (kn_Link s)(u := Some link)\<rparr> in
     unless (ask (nl_LinkAdd nl link) s) (\<lambda>s.
     unless (ask (nl_LinkSetUp nl link) s) (\<lambda>s.
     unless (ask (nl_LinkSetMTU nl link 1500) s) (\<lambda>s.
       (Inr (), s\<lparr>kn_world := upd_uconn u (\<lambda>c. c\<lparr>u_kernel := True, u_relayMap := []\<rparr>) (kn_world s)\<rparr>))))))"

definition AddTunnel :: "'k netlink \<Rightarrow> nat \<Rightarrow> ip \<Rightarrow> ip \<Rightarrow> u32 \<Rightarrow> u32 \<Rightarrow> 'k top" where
  "AddTunnel nl u peerIP msIP otei itei s =
     (if \<not> u_kernel (kconn s u) then (Inl (Error V1KernelGTPNotInUse), s)
      else
        let pdp = \<lparr>pdp_Version = 1, pdp_PeerAddress = peerIP, pdp_MSAddress = msIP, pdp_OTEI = otei, pdp_ITEI = itei\<rparr>
        in unless (ask (nl_GTPPDPAdd nl (kn_Link s u) pdp) s) (\<lambda>s. (Inr (), s)))"

text \<open>Deleting what a lookup found, whether that succeeds or not.\<close>

definition drop_found :: "'k netlink \<Rightarrow> nat \<Rightarrow> pdp option \<Rightarrow> 'k tstate \<Rightarrow> 'k tstate" where
  "drop_found nl u found s =
     (if found = None then s else snd (ask (nl_GTPPDPDel nl (kn_Link s u) found) s))"

definition AddTunnelOverride :: "'k netlink \<Rightarrow> nat \<Rightarrow> ip \<Rightarrow> ip \<Rightarrow> u32 \<Rightarrow> u32 \<Rightarrow> 'k top" where
  "AddTunnelOverride nl u peerIP msIP otei itei s =
     (if \<not> u_kernel (kconn s u) then (Inl (Error V1KernelGTPNotInUse), s)
      else
        let s = drop_found nl u (fst (nl_GTPPDPByMSAddress nl (kn_Link s u) msIP (kn_kernel s))) s;
            s = drop_found nl u (fst (nl_GTPPDPByITEI nl (kn_Link s u) (uint itei) (kn_kernel s))) s
        in AddTunnel nl u peerIP msIP otei itei s)"

definition release_itei :: "nat \<Rightarrow> u32 \<Rightarrow> 'k tstate \<Rightarrow> 'k tstate" where
  "release_itei u itei s =
     s\<lparr>kn_world := upd_uconn u (\<lambda>c. c\<lparr>u_iteiMap := map_delete (u_iteiMap c) itei\<rparr>) (kn_world s)\<rparr>"

definition DelTunnelByITEI :: "'k netlink \<Rightarrow> nat \<Rightarrow> u32 \<Rightarrow> 'k top" where
  "DelTunnelByITEI nl u itei s =
     (if \<not> u_kernel (kconn s u) then (Inl (Error V1KernelGTPNotInUse), s)
      else case nl_GTPPDPByITEI nl (kn_Link s u) (uint itei) (kn_kernel s) of
        (pdp, ok) \<Rightarrow>
          if \<not> ok then (Inl (Error NetError), s)
          else unless (ask (nl_GTPPDPDel nl (kn_Link s u) pdp) s) (\<lambda>s. (Inr (), release_itei u itei s)))"

definition DelTunnelByMSAddress :: "'k netlink \<Rightarrow> nat \<Rightarrow> ip \<Rightarrow> 'k top" where
  "DelTunnelByMSAddress nl u msIP s =
     (if \<not> u_kernel (kconn s u) then (Inl (Error V1KernelGTPNotInUse), s)
      else case nl_GTPPDPByMSAddress nl (kn_Link s u) msIP (kn_kernel s) of
        (pdp, ok) \<Rightarrow>
          if \<not> ok then (Inl (Error NetError), s)
          else case pdp of
            None \<Rightarrow> (Inl (Panic NilDereference), s)
          | Some p \<Rightarrow>
              unless (ask (nl_GTPPDPDel nl (kn_Link s u) pdp) s) (\<lambda>s. (Inr (), release_itei u (pdp_ITEI p) s)))"

section \<open>What dialing waits for\<close>

definition echo_request :: v1_message where
  "echo_request = Msg1_EchoRequest (v1_NewEchoRequest 0 [Some (v1_NewRecovery 0)])"

definition echo_request_bytes :: bytes where
  "echo_request_bytes = (case v1_Marshal echo_request of Inr (b, _) \<Rightarrow> b | Inl _ \<Rightarrow> [])"

lemma u_EchoRequest_sends:
  "ue_write env (w_writes w) \<Longrightarrow> u_EchoRequest env u raddr w =
     (Inr (), w\<lparr>w_writes := w_writes w + 1, w_sent := w_sent w @ [(u, echo_request_bytes, raddr)]\<rparr>)"
  using v1_Marshal_total [of echo_request]
  by (auto simp: u_EchoRequest_def u_write_message_def echo_request_bytes_def u_WriteTo_def echo_request_def)

definition is_echo_response :: "bytes \<Rightarrow> bool" where
  "is_echo_response b = (case v1_Parse b of Inr (Msg1_EchoResponse _) \<Rightarrow> True | _ \<Rightarrow> False)"

definition is_message :: "bytes \<Rightarrow> bool" where
  "is_message b = (case v1_Parse b of Inr _ \<Rightarrow> True | Inl _ \<Rightarrow> False)"

definition sent_requests :: "nat \<Rightarrow> nat \<Rightarrow> addr \<Rightarrow> uworld \<Rightarrow> uworld" where
  "sent_requests n u raddr w =
     w\<lparr>w_writes := w_writes w + n, w_sent := w_sent w @ replicate n (u, echo_request_bytes, raddr)\<rparr>"

lemma dial_turn:
  assumes "ue_write env (w_writes w)" "is_message (take 1600 b)"
  shows "dial_loop env u raddr (Datagram b # es) w =
     (if is_echo_response (take 1600 b) then Some (Inr True, sent_requests 1 u raddr w)
      else dial_loop env u raddr es (sent_requests 1 u raddr w))"
  using assms u_EchoRequest_sends [of env w u raddr]
  by (auto simp: is_message_def is_echo_response_def sent_requests_def split: sum.splits v1_message.splits)

lemma sent_requests_Suc [simp]: "sent_requests n u raddr (sent_requests (Suc 0) u raddr w) = sent_requests (Suc n) u raddr w"
  by (simp add: sent_requests_def)

lemma dial_skips:
  "\<forall>n. ue_write env n \<Longrightarrow> \<forall>b \<in> set bs. is_message (take 1600 b) \<and> \<not> is_echo_response (take 1600 b) \<Longrightarrow>
     dial_loop env u raddr (map Datagram bs @ es) w = dial_loop env u raddr es (sent_requests (length bs) u raddr w)"
proof (induction bs arbitrary: w)
  case Nil
  then show ?case by (simp add: sent_requests_def)
next
  case (Cons b bs)
  then have "dial_loop env u raddr (map Datagram (b # bs) @ es) w =
      dial_loop env u raddr (map Datagram bs @ es) (sent_requests 1 u raddr w)"
    using dial_turn [of env w b u raddr "map Datagram bs @ es"] by simp
  with Cons show ?case by simp
qed

text \<open>
  C37. Dialing: as long as the datagrams that arrive are messages other than Echo Responses, one more
  Echo Request is sent for each of them, and \<open>DialUPlane\<close> does not return, however many they are; the
  first Echo Response, whoever sent it, ends the wait with a new connection.
\<close>

theorem dial_waits_for_echo_response:
  assumes "\<forall>n. ue_write env n" "\<forall>b \<in> set bs. is_message (take 1600 b) \<and> \<not> is_echo_response (take 1600 b)"
  shows "DialUPlane env True laddr raddr (map Datagram bs) w = None \<and>
     (is_echo_response (take 1600 b) \<longrightarrow>
        DialUPlane env True laddr raddr (map Datagram bs @ Datagram b # es) w =
          Some (Inr True, sent_requests (length bs + 1) (length (w_conns w)) raddr
            (w\<lparr>w_conns := w_conns w @ [NewUPlaneConn laddr]\<rparr>)))"
proof -
  let ?w = "w\<lparr>w_conns := w_conns w @ [NewUPlaneConn laddr]\<rparr>" and ?u = "length (w_conns w)"
  have skip: "dial_loop env ?u raddr (map Datagram bs @ es) ?w =
      dial_loop env ?u raddr es (sent_requests (length bs) ?u raddr ?w)" for es
    by (rule dial_skips [OF assms])
  have "is_echo_response c \<Longrightarrow> is_message c" for c
    by (auto simp: is_echo_response_def is_message_def split: sum.splits)
  moreover have "sent_requests 1 ?u raddr (sent_requests n ?u raddr ?w) = sent_requests (n + 1) ?u raddr ?w" for n
    by (simp add: sent_requests_def replicate_append_same)
  ultimately show ?thesis
    using skip [of "[]"] skip [of "Datagram b # es"] assms(1) dial_turn [of env _ b ?u raddr es]
    by (simp add: DialUPlane_def)
qed

theorem dial_waits_for_echo_response_witness:
  "DialUPlane sample_uenv True ''a:1'' ''b:1'' [Datagram [0x32, 1, 0, 4, 0, 0, 0, 0, 0, 0, 0, 0]] sample_relay = None"
proof -
  let ?b = "[0x32, 1, 0, 4, 0, 0, 0, 0, 0, 0, 0, 0] :: bytes"
  have "is_message ?b \<and> \<not> is_echo_response ?b" by code_simp
  then have "is_message (take 1600 ?b) \<and> \<not> is_echo_response (take 1600 ?b)" by simp
  then show ?thesis
    using dial_waits_for_echo_response [of sample_uenv "[?b]" "''a:1''" "''b:1''" sample_relay ?b "[]"]
    by (simp add: sample_uenv_def)
qed

section \<open>Kernel and relay exclude each other\<close>

text \<open>
  Runs of a program with calls of all operations that set the kernel flag, the relay table or the
  kernel tunnels, on any of its connections.
\<close>

inductive t_reachable :: "'k netlink \<Rightarrow> 'k tstate \<Rightarrow> bool" for nl where
  t_start: "t_reachable nl \<lparr>kn_world = \<lparr>w_conns = map NewUPlaneConn laddrs, w_writes = 0, w_sent = []\<rparr>,
     kn_open = (\<lambda>_. False), kn_Link = (\<lambda>_. None), kn_kernel = k\<rparr>"
| t_enable: "t_reachable nl s \<Longrightarrow> t_reachable nl (snd (EnableKernelGTP nl u devname role s))"
| t_add: "t_reachable nl s \<Longrightarrow> t_reachable nl (snd (AddTunnel nl u peerIP msIP otei itei s))"
| t_override: "t_reachable nl s \<Longrightarrow> t_reachable nl (snd (AddTunnelOverride nl u peerIP msIP otei itei s))"
| t_del_itei: "t_reachable nl s \<Longrightarrow> t_reachable nl (snd (DelTunnelByITEI nl u itei s))"
| t_del_ms: "t_reachable nl s \<Longrightarrow> t_reachable nl (snd (DelTunnelByMSAddress nl u msIP s))"
| t_relay: "t_reachable nl s \<Longrightarrow> t_reachable nl (snd (on_world (RelayTo u c teidIn teidOut raddr) s))"
| t_close_relay: "t_reachable nl s \<Longrightarrow> t_reachable nl (snd (on_world (CloseRelay u teidIn) s))"

definition exclusive :: "uworld \<Rightarrow> bool" where
  "exclusive w \<longleftrightarrow> (\<forall>c \<in> set (w_conns w). u_kernel c \<longrightarrow> u_relayMap c = [])"

lemma exclusive_upd:
  "exclusive w \<Longrightarrow> (u < length (w_conns w) \<Longrightarrow> u_kernel (f (uconn_at w u)) \<longrightarrow> u_relayMap (f (uconn_at w u)) = []) \<Longrightarrow>
     exclusive (upd_uconn u f w)"
  unfolding exclusive_def upd_uconn_def all_set_conv_all_nth
  by (intro allI impI, case_tac "i = u") simp_all

lemma ask_world [simp]: "kn_world (snd (ask f s)) = kn_world s"
  by (simp add: ask_def split: prod.split)

lemma unless_world:
  "kn_world (snd r) = w \<Longrightarrow> (\<And>s. kn_world s = w \<Longrightarrow> P (kn_world (snd (f s)))) \<Longrightarrow> P w \<Longrightarrow>
     P (kn_world (snd (unless r f)))"
  by (auto simp: unless_def split: prod.split)

lemma open_socket_world [simp]: "kn_world (snd (open_socket nl u s)) = kn_world s"
  by (auto simp: open_socket_def ask_def split: prod.splits)

lemma drop_found_world [simp]: "kn_world (drop_found nl u p s) = kn_world s"
  by (simp add: drop_found_def)

lemma EnableKernelGTP_world:
  "P (kn_world s) \<Longrightarrow> P (upd_uconn u (\<lambda>c. c\<lparr>u_kernel := True, u_relayMap := []\<rparr>) (kn_world s)) \<Longrightarrow>
     P (kn_world (snd (EnableKernelGTP nl u devname role s)))"
  unfolding EnableKernelGTP_def Let_def
  by (intro unless_world [where w = "kn_world s" and P = P]) simp_all

lemma AddTunnel_world [simp]: "kn_world (snd (AddTunnel nl u peerIP msIP otei itei s)) = kn_world s"
  by (auto simp: AddTunnel_def Let_def unless_def ask_def split: prod.split)

lemma AddTunnelOverride_world [simp]:
  "kn_world (snd (AddTunnelOverride nl u peerIP msIP otei itei s)) = kn_world s"
  by (simp add: AddTunnelOverride_def Let_def)

text \<open>A deletion at most releases a TEID.\<close>

lemma DelTunnel_world:
  assumes "P (kn_world s)" "\<And>itei. P (upd_uconn u (\<lambda>c. c\<lparr>u_iteiMap := map_delete (u_iteiMap c) itei\<rparr>) (kn_world s))"
  shows "P (kn_world (snd (DelTunnelByITEI nl u itei s)))" "P (kn_world (snd (DelTunnelByMSAddress nl u msIP s)))"
proof -
  have release: "P (kn_world (snd (unless (ask f s) (\<lambda>s. (Inr (), release_itei u i s)))))" for f i
    by (rule unless_world [where w = "kn_world s" and P = P]) (simp_all add: assms release_itei_def)
  show "P (kn_world (snd (DelTunnelByITEI nl u itei s)))"
    using assms release by (simp add: DelTunnelByITEI_def split: prod.split)
  show "P (kn_world (snd (DelTunnelByMSAddress nl u msIP s)))"
    using assms release by (simp add: DelTunnelByMSAddress_def split: prod.split option.split)
qed

lemma t_reachable_exclusive: "t_reachable nl s \<Longrightarrow> exclusive (kn_world s)"
proof (induction rule: t_reachable.induct)
  case (t_start laddrs k)
  then show ?case by (auto simp: exclusive_def NewUPlaneConn_def)
next
  case (t_enable s u devname role)
  then show ?case by (intro EnableKernelGTP_world [where P = exclusive] exclusive_upd) simp_all
next
  case (t_del_itei s u itei)
  then show ?case by (intro DelTunnel_world [where P = exclusive] exclusive_upd) (auto simp: exclusive_def)
next
  case (t_del_ms s u msIP)
  then show ?case by (intro DelTunnel_world [where P = exclusive] exclusive_upd) (auto simp: exclusive_def)
next
  case (t_relay s u c teidIn teidOut raddr)
  then show ?case
    by (auto simp: on_world_def RelayTo_def split: prod.splits intro!: exclusive_upd)
next
  case (t_close_relay s u teidIn)
  then show ?case
    by (auto simp: on_world_def CloseRelay_def split: prod.splits intro!: exclusive_upd)
qed simp_all

text \<open>
  C35. The kernel and the relay exclude each other: in every run of calls of these operations, on
  any number of connections and whatever the kernel answers, a connection with kernel tunnels enabled
  has no relayed tunnels; so it forwards nothing itself, and refuses \<open>RelayTo\<close> and \<open>CloseRelay\<close>,
  while the operations on kernel tunnels are refused by every other connection.
\<close>

theorem kernel_excludes_relay:
  assumes "t_reachable nl s" "u < length (w_conns (kn_world s))"
  shows "if u_kernel (kconn s u)
     then u_relayMap (kconn s u) = [] \<and>
       u_serve_packet env u raddr raw (kn_world s) = u_parse_and_handle env u raddr raw (kn_world s) \<and>
       RelayTo u c teidIn teidOut peer (kn_world s) = (Inl (Error V1KernelGTPInUse), kn_world s) \<and>
       CloseRelay u teidIn (kn_world s) = (Inl (Error V1KernelGTPInUse), kn_world s)
     else AddTunnel nl u peerIP msIP otei itei s = (Inl (Error V1KernelGTPNotInUse), s) \<and>
       AddTunnelOverride nl u peerIP msIP otei itei s = (Inl (Error V1KernelGTPNotInUse), s) \<and>
       DelTunnelByITEI nl u itei s = (Inl (Error V1KernelGTPNotInUse), s) \<and>
       DelTunnelByMSAddress nl u msIP s = (Inl (Error V1KernelGTPNotInUse), s)"
proof (cases "u_kernel (kconn s u)")
  case True
  have "u_relayMap (kconn s u) = []"
    using t_reachable_exclusive [OF assms(1)] assms(2) True by (simp add: exclusive_def)
  with True show ?thesis by (simp add: u_serve_packet_def RelayTo_def CloseRelay_def)
next
  case False
  then show ?thesis
    by (simp add: AddTunnel_def AddTunnelOverride_def DelTunnelByITEI_def DelTunnelByMSAddress_def)
qed

definition sample_driver :: "unit netlink" where
  "sample_driver = \<lparr>nl_ListenPacket = (\<lambda>a k. (True, k)), nl_File = (\<lambda>u k. (True, k)), nl_LinkAdd = (\<lambda>l k. (True, k)),
     nl_LinkSetUp = (\<lambda>l k. (True, k)), nl_LinkSetMTU = (\<lambda>l n k. (True, k)), nl_GTPPDPAdd = (\<lambda>l p k. (True, k)),
     nl_GTPPDPDel = (\<lambda>l p k. (True, k)), nl_GTPPDPByITEI = (\<lambda>l i k. (None, False)), nl_GTPPDPByMSAddress = (\<lambda>l a k. (None, False))\<rparr>"

definition sample_fresh :: "unit tstate" where
  "sample_fresh = \<lparr>kn_world = \<lparr>w_conns = map NewUPlaneConn [''a:1'', ''b:1''], w_writes = 0, w_sent = []\<rparr>,
     kn_open = (\<lambda>_. False), kn_Link = (\<lambda>_. None), kn_kernel = ()\<rparr>"

definition sample_enabled :: "unit tstate" where
  "sample_enabled = snd (EnableKernelGTP sample_driver 0 ''gtp0'' 0 (snd (on_world (RelayTo 0 1 7 8 ''c:1'') sample_fresh)))"

theorem kernel_excludes_relay_witness:
  "u_relayMap (kconn sample_enabled 0) = [] \<and>
   CloseRelay 0 7 (kn_world sample_enabled) = (Inl (Error V1KernelGTPInUse), kn_world sample_enabled)"
proof -
  have "t_reachable sample_driver sample_enabled"
    unfolding sample_enabled_def sample_fresh_def by (intro t_reachable.intros)
  moreover have "u_kernel (kconn sample_enabled 0)" "0 < length (w_conns (kn_world sample_enabled))" by code_simp+
  ultimately show ?thesis using kernel_excludes_relay [of sample_driver sample_enabled 0] by simp
qed

section \<open>The tunnels in the kernel\<close>

text \<open>
  What the documentation of the kernel module says of the calls, with \<open>pdps k l\<close> the tunnels of the
  device \<open>l\<close>: a lookup finds a tunnel by its incoming TEID or the address of the subscriber, adding one
  fails if one with the same TEID or address exists, and deleting removes the tunnel given.
\<close>

definition documented_driver :: "'k netlink \<Rightarrow> ('k \<Rightarrow> gtp_link option \<Rightarrow> pdp list) \<Rightarrow> bool" where
  "documented_driver nl pdps \<longleftrightarrow>
     (\<forall>l i k. let r = find (\<lambda>p. uint (pdp_ITEI p) = i) (pdps k l) in nl_GTPPDPByITEI nl l i k = (r, r \<noteq> None)) \<and>
     (\<forall>l a k. let r = find (\<lambda>p. pdp_MSAddress p = a) (pdps k l) in nl_GTPPDPByMSAddress nl l a k = (r, r \<noteq> None)) \<and>
     (\<forall>l p k. let (ok, k') = nl_GTPPDPAdd nl l p k in
        ok = (\<forall>q \<in> set (pdps k l). pdp_ITEI q \<noteq> pdp_ITEI p \<and> pdp_MSAddress q \<noteq> pdp_MSAddress p) \<and>
        pdps k' = (if ok then (pdps k)(l := p # pdps k l) else pdps k)) \<and>
     (\<forall>l p k. let (ok, k') = nl_GTPPDPDel nl l (Some p) k in
        ok = (p \<in> set (pdps k l)) \<and> pdps k' = (pdps k)(l := filter (\<lambda>q. q \<noteq> p) (pdps k l)))"

text \<open>No two tunnels of a device share a TEID or an address.\<close>

definition pdps_ok :: "pdp list \<Rightarrow> bool" where
  "pdps_ok ps \<longleftrightarrow> distinct (map pdp_ITEI ps) \<and> distinct (map pdp_MSAddress ps)"

lemma filter_found:
  "distinct (map f ps) \<Longrightarrow> find (\<lambda>p. f p = a) ps = Some p \<Longrightarrow> filter (\<lambda>q. q \<noteq> p) ps = filter (\<lambda>q. f q \<noteq> a) ps"
proof (induction ps)
  case (Cons x ps)
  show ?case
  proof (cases "f x = a")
    case True
    with Cons.prems have "x = p" "\<forall>q \<in> set ps. f q \<noteq> a" by (auto simp: image_iff)
    moreover have "filter (\<lambda>q. q \<noteq> p) ps = filter (\<lambda>q. f q \<noteq> a) ps"
      by (rule filter_cong) (use Cons.prems \<open>x = p\<close> calculation in auto)
    ultimately show ?thesis using True by simp
  next
    case False
    with Cons show ?thesis by (auto dest: find_SomeD)
  qed
qed simp

lemma filter_not_found: "find (\<lambda>p. P p) ps = None \<Longrightarrow> filter (\<lambda>q. \<not> P q) ps = ps"
  by (simp add: find_None_iff)

lemma pdps_ok_filter: "pdps_ok ps \<Longrightarrow> pdps_ok (filter P ps)"
  by (simp add: pdps_ok_def distinct_map_filter)

abbreviation table :: "('k \<Rightarrow> gtp_link option \<Rightarrow> pdp list) \<Rightarrow> 'k tstate \<Rightarrow> nat \<Rightarrow> pdp list" where
  "table pdps s u \<equiv> pdps (kn_kernel s) (kn_Link s u)"

lemma driver_lookup:
  assumes "documented_driver nl pdps"
  shows "nl_GTPPDPByITEI nl l (uint i) k =
      (find (\<lambda>p. pdp_ITEI p = i) (pdps k l), find (\<lambda>p. pdp_ITEI p = i) (pdps k l) \<noteq> None)"
    "nl_GTPPDPByMSAddress nl l a k =
      (find (\<lambda>p. pdp_MSAddress p = a) (pdps k l), find (\<lambda>p. pdp_MSAddress p = a) (pdps k l) \<noteq> None)"
proof -
  have "let r = find (\<lambda>p. uint (pdp_ITEI p) = uint i) (pdps k l) in nl_GTPPDPByITEI nl l (uint i) k = (r, r \<noteq> None)"
    using assms unfolding documented_driver_def by blast
  moreover have "(\<lambda>p :: pdp. uint (pdp_ITEI p) = uint i) = (\<lambda>p. pdp_ITEI p = i)" by (simp add: word_uint_eq_iff)
  ultimately show "nl_GTPPDPByITEI nl l (uint i) k =
      (find (\<lambda>p. pdp_ITEI p = i) (pdps k l), find (\<lambda>p. pdp_ITEI p = i) (pdps k l) \<noteq> None)"
    by (simp add: Let_def)
  show "nl_GTPPDPByMSAddress nl l a k =
      (find (\<lambda>p. pdp_MSAddress p = a) (pdps k l), find (\<lambda>p. pdp_MSAddress p = a) (pdps k l) \<noteq> None)"
    using assms [unfolded documented_driver_def Let_def, THEN conjunct2, THEN conjunct1] by blast
qed

lemma driver_change:
  assumes "documented_driver nl pdps"
  shows "nl_GTPPDPAdd nl l p k = (ok, k') \<Longrightarrow>
      ok = (\<forall>q \<in> set (pdps k l). pdp_ITEI q \<noteq> pdp_ITEI p \<and> pdp_MSAddress q \<noteq> pdp_MSAddress p) \<and>
      pdps k' = (if ok then (pdps k)(l := p # pdps k l) else pdps k)"
    "nl_GTPPDPDel nl l (Some p) k = (ok, k') \<Longrightarrow>
      ok = (p \<in> set (pdps k l)) \<and> pdps k' = (pdps k)(l := filter (\<lambda>q. q \<noteq> p) (pdps k l))"
proof -
  have "let (ok, k') = nl_GTPPDPAdd nl l p k in
      ok = (\<forall>q \<in> set (pdps k l). pdp_ITEI q \<noteq> pdp_ITEI p \<and> pdp_MSAddress q \<noteq> pdp_MSAddress p) \<and>
      pdps k' = (if ok then (pdps k)(l := p # pdps k l) else pdps k)"
    using assms unfolding documented_driver_def by blast
  then show "nl_GTPPDPAdd nl l p k = (ok, k') \<Longrightarrow>
      ok = (\<forall>q \<in> set (pdps k l). pdp_ITEI q \<noteq> pdp_ITEI p \<and> pdp_MSAddress q \<noteq> pdp_MSAddress p) \<and>
      pdps k' = (if ok then (pdps k)(l := p # pdps k l) else pdps k)" by simp
  have "let (ok, k') = nl_GTPPDPDel nl l (Some p) k in
      ok = (p \<in> set (pdps k l)) \<and> pdps k' = (pdps k)(l := filter (\<lambda>q. q \<noteq> p) (pdps k l))"
    using assms unfolding documented_driver_def by blast
  then show "nl_GTPPDPDel nl l (Some p) k = (ok, k') \<Longrightarrow>
      ok = (p \<in> set (pdps k l)) \<and> pdps k' = (pdps k)(l := filter (\<lambda>q. q \<noteq> p) (pdps k l))" by simp
qed

lemma driver_delete:
  assumes "documented_driver nl pdps"
  shows "pdps (kn_kernel (drop_found nl u (Some p) s)) =
     (pdps (kn_kernel s))(kn_Link s u := filter (\<lambda>q. q \<noteq> p) (table pdps s u))"
  using driver_change(2) [OF assms] by (simp add: drop_found_def ask_def split: prod.split)

lemma drop_found_Link [simp]: "kn_Link (drop_found nl u p s) = kn_Link s"
  by (simp add: drop_found_def ask_def split: prod.splits)

lemma driver_drop:
  assumes "documented_driver nl pdps" "distinct (map f (table pdps s u))"
  shows "pdps (kn_kernel (drop_found nl u (find (\<lambda>p. f p = a) (table pdps s u)) s)) =
     (pdps (kn_kernel s))(kn_Link s u := filter (\<lambda>q. f q \<noteq> a) (table pdps s u))"
proof (cases "find (\<lambda>p. f p = a) (table pdps s u)")
  case None
  then have "filter (\<lambda>q. f q \<noteq> a) (table pdps s u) = table pdps s u" by (rule filter_not_found)
  with None show ?thesis by (simp add: drop_found_def)
next
  case (Some p)
  then show ?thesis using driver_delete [OF assms(1)] filter_found [OF assms(2) Some] by simp
qed

lemma driver_add:
  assumes "documented_driver nl pdps" "u_kernel (kconn s u)"
    "\<forall>q \<in> set (table pdps s u). pdp_ITEI q \<noteq> itei \<and> pdp_MSAddress q \<noteq> msIP"
    "AddTunnel nl u peerIP msIP otei itei s = (r, s')"
  shows "r = Inr ()" "kn_Link s' = kn_Link s"
    "pdps (kn_kernel s') = (pdps (kn_kernel s))(kn_Link s u :=
       \<lparr>pdp_Version = 1, pdp_PeerAddress = peerIP, pdp_MSAddress = msIP, pdp_OTEI = otei, pdp_ITEI = itei\<rparr> # table pdps s u)"
proof -
  let ?p = "\<lparr>pdp_Version = 1, pdp_PeerAddress = peerIP, pdp_MSAddress = msIP, pdp_OTEI = otei, pdp_ITEI = itei\<rparr>"
  obtain ok k' where add: "nl_GTPPDPAdd nl (kn_Link s u) ?p (kn_kernel s) = (ok, k')"
    by (cases "nl_GTPPDPAdd nl (kn_Link s u) ?p (kn_kernel s)")
  then have "ok \<and> pdps k' = (pdps (kn_kernel s))(kn_Link s u := ?p # table pdps s u)"
    using driver_change(1) [OF assms(1) add] assms(3) by simp
  with add assms(2,4) show "r = Inr ()" "kn_Link s' = kn_Link s"
    "pdps (kn_kernel s') = (pdps (kn_kernel s))(kn_Link s u := ?p # table pdps s u)"
    by (auto simp: AddTunnel_def Let_def unless_def ask_def)
qed

text \<open>
  C36. Replacing a tunnel: with a driver that does what is documented, \<open>AddTunnelOverride\<close> succeeds
  whatever tunnels there are, where \<open>AddTunnel\<close> fails if the TEID or the address is in use. Afterwards
  the new tunnel is the only one with its TEID or its address, the others are as before, no two share
  a TEID or an address, and the other devices are untouched. The connections are as before, too: a TEID
  whose tunnel has been replaced stays reserved, unlike after a deletion.
\<close>

theorem override_replaces_tunnels:
  assumes driver: "documented_driver nl pdps" and ok: "pdps_ok (table pdps s u)" and kernel: "u_kernel (kconn s u)"
    and call: "AddTunnelOverride nl u peerIP msIP otei itei s = (r, s')"
  shows "r = Inr () \<and>
     pdps (kn_kernel s') (kn_Link s u) =
       \<lparr>pdp_Version = 1, pdp_PeerAddress = peerIP, pdp_MSAddress = msIP, pdp_OTEI = otei, pdp_ITEI = itei\<rparr> #
         filter (\<lambda>q. pdp_MSAddress q \<noteq> msIP \<and> pdp_ITEI q \<noteq> itei) (table pdps s u) \<and>
     pdps_ok (pdps (kn_kernel s') (kn_Link s u)) \<and> kn_Link s' = kn_Link s \<and>
     (\<forall>l. l \<noteq> kn_Link s u \<longrightarrow> pdps (kn_kernel s') l = pdps (kn_kernel s) l) \<and>
     kn_world s' = kn_world s"
proof -
  define s1 where "s1 = drop_found nl u (find (\<lambda>p. pdp_MSAddress p = msIP) (table pdps s u)) s"
  define s2 where "s2 = drop_found nl u (find (\<lambda>p. pdp_ITEI p = itei) (table pdps s1 u)) s1"
  have s1: "pdps (kn_kernel s1) =
      (pdps (kn_kernel s))(kn_Link s u := filter (\<lambda>q. pdp_MSAddress q \<noteq> msIP) (table pdps s u))"
    unfolding s1_def by (rule driver_drop [OF driver]) (use ok in \<open>simp add: pdps_ok_def\<close>)
  have link: "kn_Link s1 = kn_Link s" by (simp add: s1_def)
  have t1: "table pdps s1 u = filter (\<lambda>q. pdp_MSAddress q \<noteq> msIP) (table pdps s u)" by (simp add: link s1)
  have "pdps (kn_kernel s2) = (pdps (kn_kernel s1))(kn_Link s1 u := filter (\<lambda>q. pdp_ITEI q \<noteq> itei) (table pdps s1 u))"
    unfolding s2_def by (rule driver_drop [OF driver]) (use ok in \<open>simp add: t1 pdps_ok_def distinct_map_filter\<close>)
  then have s2: "pdps (kn_kernel s2) = (pdps (kn_kernel s))(kn_Link s u :=
      filter (\<lambda>q. pdp_MSAddress q \<noteq> msIP \<and> pdp_ITEI q \<noteq> itei) (table pdps s u))"
    by (simp add: link s1 conj_commute)
  have rest: "kn_world s2 = kn_world s" "kn_Link s2 = kn_Link s" by (simp_all add: s1_def s2_def)
  have add: "AddTunnel nl u peerIP msIP otei itei s2 = (r, s')"
    using call kernel by (simp add: AddTunnelOverride_def Let_def driver_lookup [OF driver] s1_def s2_def)
  have free: "\<forall>q \<in> set (table pdps s2 u). pdp_ITEI q \<noteq> itei \<and> pdp_MSAddress q \<noteq> msIP"
    using s2 rest by auto
  have world: "kn_world s' = kn_world s2" using AddTunnel_world [of nl u peerIP msIP otei itei s2] add by simp
  have "u_kernel (kconn s2 u)" using kernel rest by simp
  note new = driver_add [OF driver this free add]
  have "pdps_ok (filter (\<lambda>q. pdp_MSAddress q \<noteq> msIP \<and> pdp_ITEI q \<noteq> itei) (table pdps s u))"
    using ok by (rule pdps_ok_filter)
  then have "pdps_ok (\<lparr>pdp_Version = 1, pdp_PeerAddress = peerIP, pdp_MSAddress = msIP, pdp_OTEI = otei, pdp_ITEI = itei\<rparr> #
      filter (\<lambda>q. pdp_MSAddress q \<noteq> msIP \<and> pdp_ITEI q \<noteq> itei) (table pdps s u))"
    by (auto simp: pdps_ok_def)
  with new world show ?thesis by (simp add: rest s2)
qed

text \<open>A driver that keeps its tables as a function of the device.\<close>

definition table_driver :: "(gtp_link option \<Rightarrow> pdp list) netlink" where
  "table_driver = \<lparr>nl_ListenPacket = (\<lambda>a k. (True, k)), nl_File = (\<lambda>u k. (True, k)), nl_LinkAdd = (\<lambda>l k. (True, k)),
     nl_LinkSetUp = (\<lambda>l k. (True, k)), nl_LinkSetMTU = (\<lambda>l n k. (True, k)),
     nl_GTPPDPAdd = (\<lambda>l p k.
       if \<forall>q \<in> set (k l). pdp_ITEI q \<noteq> pdp_ITEI p \<and> pdp_MSAddress q \<noteq> pdp_MSAddress p then (True, k(l := p # k l)) else (False, k)),
     nl_GTPPDPDel = (\<lambda>l p k.
       case p of None \<Rightarrow> (False, k) | Some p \<Rightarrow> (p \<in> set (k l), k(l := filter (\<lambda>q. q \<noteq> p) (k l)))),
     nl_GTPPDPByITEI = (\<lambda>l i k. let r = find (\<lambda>p. uint (pdp_ITEI p) = i) (k l) in (r, r \<noteq> None)),
     nl_GTPPDPByMSAddress = (\<lambda>l a k. let r = find (\<lambda>p. pdp_MSAddress p = a) (k l) in (r, r \<noteq> None))\<rparr>"

lemma table_driver_documented: "documented_driver table_driver (\<lambda>k. k)"
  by (auto simp: documented_driver_def table_driver_def Let_def)

definition sample_tunnel :: "8 word \<Rightarrow> u32 \<Rightarrow> pdp" where
  "sample_tunnel a i = \<lparr>pdp_Version = 1, pdp_PeerAddress = [192, 0, 2, 1], pdp_MSAddress = [10, 0, 0, a], pdp_OTEI = 9, pdp_ITEI = i\<rparr>"

definition sample_tunnels :: "(gtp_link option \<Rightarrow> pdp list) tstate" where
  "sample_tunnels = \<lparr>kn_world = \<lparr>w_conns = [(NewUPlaneConn ''a:1'')\<lparr>u_kernel := True, u_iteiMap := [1 \<mapsto> 0, 2 \<mapsto> 0]\<rparr>],
       w_writes = 0, w_sent = []\<rparr>,
     kn_open = (\<lambda>_. True), kn_Link = (\<lambda>_. None), kn_kernel = (\<lambda>_. [sample_tunnel 1 1, sample_tunnel 2 2, sample_tunnel 3 3])\<rparr>"

theorem override_replaces_tunnels_witness:
  "fst (AddTunnelOverride table_driver 0 [192, 0, 2, 1] [10, 0, 0, 1] 9 2 sample_tunnels) = Inr () \<and>
   kn_kernel (snd (AddTunnelOverride table_driver 0 [192, 0, 2, 1] [10, 0, 0, 1] 9 2 sample_tunnels)) None =
     [sample_tunnel 1 2, sample_tunnel 3 3]"
proof -
  let ?r = "AddTunnelOverride table_driver 0 [192, 0, 2, 1] [10, 0, 0, 1] 9 2 sample_tunnels"
  have "u_kernel (kconn sample_tunnels 0)" "pdps_ok (table (\<lambda>k. k) sample_tunnels 0)"
    by (simp_all add: sample_tunnels_def pdps_ok_def sample_tunnel_def)
  moreover have "kn_Link sample_tunnels 0 = None"
    "kn_kernel sample_tunnels None = [sample_tunnel 1 1, sample_tunnel 2 2, sample_tunnel 3 3]"
    by (simp_all add: sample_tunnels_def)
  ultimately show ?thesis
    using override_replaces_tunnels [OF table_driver_documented, of sample_tunnels 0 "[192, 0, 2, 1]" "[10, 0, 0, 1]" 9 2 "fst ?r" "snd ?r"]
    by (simp add: sample_tunnel_def)
qed

text \<open>Deleting a tunnel by its TEID or by the address removes it and releases its TEID.\<close>

lemma DelTunnelByITEI_deletes:
  assumes driver: "documented_driver nl pdps" and ok: "pdps_ok (table pdps s u)" and kernel: "u_kernel (kconn s u)"
    and p: "p \<in> set (table pdps s u)"
  shows "fst (DelTunnelByITEI nl u (pdp_ITEI p) s) = Inr ()"
    "table pdps (snd (DelTunnelByITEI nl u (pdp_ITEI p) s)) u = filter (\<lambda>q. pdp_ITEI q \<noteq> pdp_ITEI p) (table pdps s u)"
    "kn_world (snd (DelTunnelByITEI nl u (pdp_ITEI p) s)) =
       upd_uconn u (\<lambda>c. c\<lparr>u_iteiMap := map_delete (u_iteiMap c) (pdp_ITEI p)\<rparr>) (kn_world s)"
proof -
  obtain q where q: "find (\<lambda>q. pdp_ITEI q = pdp_ITEI p) (table pdps s u) = Some q"
    using p by (cases "find (\<lambda>q. pdp_ITEI q = pdp_ITEI p) (table pdps s u)") (auto simp: find_None_iff)
  then have look: "nl_GTPPDPByITEI nl (kn_Link s u) (uint (pdp_ITEI p)) (kn_kernel s) = (Some q, True)"
    using driver_lookup(1) [OF driver] by simp
  obtain k' where del: "nl_GTPPDPDel nl (kn_Link s u) (Some q) (kn_kernel s) = (True, k')"
      "pdps k' = (pdps (kn_kernel s))(kn_Link s u := filter (\<lambda>r. r \<noteq> q) (table pdps s u))"
    using driver_change(2) [OF driver, of "kn_Link s u" q "kn_kernel s"] find_SomeD [OF q]
    by (cases "nl_GTPPDPDel nl (kn_Link s u) (Some q) (kn_kernel s)") auto
  have "filter (\<lambda>r. r \<noteq> q) (table pdps s u) = filter (\<lambda>r. pdp_ITEI r \<noteq> pdp_ITEI p) (table pdps s u)"
    using filter_found [OF _ q] ok by (simp add: pdps_ok_def)
  then show "fst (DelTunnelByITEI nl u (pdp_ITEI p) s) = Inr ()"
    "table pdps (snd (DelTunnelByITEI nl u (pdp_ITEI p) s)) u = filter (\<lambda>q. pdp_ITEI q \<noteq> pdp_ITEI p) (table pdps s u)"
    "kn_world (snd (DelTunnelByITEI nl u (pdp_ITEI p) s)) =
       upd_uconn u (\<lambda>c. c\<lparr>u_iteiMap := map_delete (u_iteiMap c) (pdp_ITEI p)\<rparr>) (kn_world s)"
    using look del kernel by (simp_all add: DelTunnelByITEI_def unless_def ask_def release_itei_def)
qed

end
