(* ===== verification/MustAccessors.thy ===== *)
theory MustAccessors
  imports TimeElements AddressText V2PCO V2IEIdentities V2IEFlags
begin

text \<open>
  The \<open>Must\<close> variants of the accessors of elements (\<open>src/gtpv0/ie\<close>, \<open>src/gtpv1/ie\<close>, \<open>src/gtpv2/ie\<close>), which
  return the value without the error. Where an accessor fails it returns the zero value of its
  type next to the error, and that is what its variant returns: the number 0, the empty string,
  slice or address, nil, the zero \<open>time.Time\<close>. A panic stays one.
\<close>

text \<open>The first of January of the year 1.\<close>

definition zero_time :: int where
  "zero_time = - 62135596800 * Second"

section \<open>Version 0\<close>

definition i0_MustAccessPointName :: "tv_ie \<Rightarrow> string result" where
  "i0_MustAccessPointName i = must '''' (i0_AccessPointName i)"

definition i0_MustCause :: "tv_ie \<Rightarrow> byte result" where
  "i0_MustCause i = must 0 (i0_Cause i)"

definition i0_MustChargingGatewayAddress :: "tv_ie \<Rightarrow> string result" where
  "i0_MustChargingGatewayAddress i = must '''' (i0_ChargingGatewayAddress i)"

definition i0_MustChargingID :: "tv_ie \<Rightarrow> u32 result" where
  "i0_MustChargingID i = must 0 (i0_ChargingID i)"

definition i0_MustEndUserAddress :: "tv_ie \<Rightarrow> bytes result" where
  "i0_MustEndUserAddress i = must [] (i0_EndUserAddress i)"

definition i0_MustPDPTypeOrganization :: "tv_ie \<Rightarrow> byte result" where
  "i0_MustPDPTypeOrganization i = must 0 (i0_PDPTypeOrganization i)"

definition i0_MustPDPTypeNumber :: "tv_ie \<Rightarrow> byte result" where
  "i0_MustPDPTypeNumber i = must 0 (i0_PDPTypeNumber i)"

definition i0_MustIPAddress :: "tv_ie \<Rightarrow> string result" where
  "i0_MustIPAddress i = must '''' (i0_IPAddress i)"

definition i0_MustFlowLabelDataI :: "tv_ie \<Rightarrow> u16 result" where
  "i0_MustFlowLabelDataI i = must 0 (i0_FlowLabelDataI i)"

definition i0_MustFlowLabelSignalling :: "tv_ie \<Rightarrow> u16 result" where
  "i0_MustFlowLabelSignalling i = must 0 (i0_FlowLabelSignalling i)"

definition i0_MustFlowLabelDataII :: "tv_ie \<Rightarrow> bytes result" where
  "i0_MustFlowLabelDataII i = must [] (i0_FlowLabelDataII i)"

definition i0_MustNSAPI :: "tv_ie \<Rightarrow> byte result" where
  "i0_MustNSAPI i = must 0 (i0_NSAPI i)"

definition i0_MustFlowLabelData :: "tv_ie \<Rightarrow> u16 result" where
  "i0_MustFlowLabelData i = must 0 (i0_FlowLabelData i)"

definition i0_MustGSNAddress :: "tv_ie \<Rightarrow> string result" where
  "i0_MustGSNAddress i = must '''' (i0_GSNAddress i)"

definition i0_MustIMSI :: "tv_ie \<Rightarrow> string result" where
  "i0_MustIMSI i = must '''' (i0_IMSI i)"

definition i0_MustMSNotReachableReason :: "tv_ie \<Rightarrow> byte result" where
  "i0_MustMSNotReachableReason i = must 0 (i0_MSNotReachableReason i)"

definition i0_MustMSISDN :: "tv_ie \<Rightarrow> string result" where
  "i0_MustMSISDN i = must '''' (i0_MSISDN i)"

definition i0_MustPTMSISignature :: "tv_ie \<Rightarrow> u32 result" where
  "i0_MustPTMSISignature i = must 0 (i0_PTMSISignature i)"

definition i0_MustPacketTMSI :: "tv_ie \<Rightarrow> u32 result" where
  "i0_MustPacketTMSI i = must 0 (i0_PacketTMSI i)"

definition i0_MustPrivateExtension :: "tv_ie \<Rightarrow> bytes result" where
  "i0_MustPrivateExtension i = must [] (i0_PrivateExtension i)"

definition i0_MustExtensionIdentifier :: "tv_ie \<Rightarrow> u16 result" where
  "i0_MustExtensionIdentifier i = must 0 (i0_ExtensionIdentifier i)"

definition i0_MustExtensionValue :: "tv_ie \<Rightarrow> bytes result" where
  "i0_MustExtensionValue i = must [] (i0_ExtensionValue i)"

definition i0_MustQualityOfServiceProfile :: "tv_ie \<Rightarrow> bytes result" where
  "i0_MustQualityOfServiceProfile i = must [] (i0_QualityOfServiceProfile i)"

definition i0_MustQoSDelay :: "tv_ie \<Rightarrow> byte result" where
  "i0_MustQoSDelay i = must 0 (i0_QoSDelay i)"

definition i0_MustQoSReliability :: "tv_ie \<Rightarrow> byte result" where
  "i0_MustQoSReliability i = must 0 (i0_QoSReliability i)"

definition i0_MustQoSPeak :: "tv_ie \<Rightarrow> byte result" where
  "i0_MustQoSPeak i = must 0 (i0_QoSPeak i)"

definition i0_MustQoSPrecedence :: "tv_ie \<Rightarrow> byte result" where
  "i0_MustQoSPrecedence i = must 0 (i0_QoSPrecedence i)"

definition i0_MustQoSMean :: "tv_ie \<Rightarrow> byte result" where
  "i0_MustQoSMean i = must 0 (i0_QoSMean i)"

definition i0_MustRouteingAreaIdentity :: "tv_ie \<Rightarrow> bytes result" where
  "i0_MustRouteingAreaIdentity i = must [] (i0_RouteingAreaIdentity i)"

definition i0_MustMCC :: "tv_ie \<Rightarrow> string result" where
  "i0_MustMCC i = must '''' (i0_MCC i)"

definition i0_MustMNC :: "tv_ie \<Rightarrow> string result" where
  "i0_MustMNC i = must '''' (i0_MNC i)"

definition i0_MustLAC :: "tv_ie \<Rightarrow> u16 result" where
  "i0_MustLAC i = must 0 (i0_LAC i)"

definition i0_MustRAC :: "tv_ie \<Rightarrow> byte result" where
  "i0_MustRAC i = must 0 (i0_RAC i)"

definition i0_MustRecovery :: "tv_ie \<Rightarrow> byte result" where
  "i0_MustRecovery i = must 0 (i0_Recovery i)"

definition i0_MustSelectionMode :: "tv_ie \<Rightarrow> byte result" where
  "i0_MustSelectionMode i = must 0 (i0_SelectionMode i)"

definition i0_MustTemporaryLogicalLinkIdentity :: "tv_ie \<Rightarrow> u32 result" where
  "i0_MustTemporaryLogicalLinkIdentity i = must 0 (i0_TemporaryLogicalLinkIdentity i)"


section \<open>Version 1\<close>

definition i1_MustAPNRestriction :: "tv_ie \<Rightarrow> byte result" where
  "i1_MustAPNRestriction i = must 0 (i1_APNRestriction i)"

definition i1_MustAccessPointName :: "tv_ie \<Rightarrow> string result" where
  "i1_MustAccessPointName i = must '''' (i1_AccessPointName i)"

definition i1_MustAuthenticationQuintuplet :: "tv_ie \<Rightarrow> bytes result" where
  "i1_MustAuthenticationQuintuplet i = must [] (i1_AuthenticationQuintuplet i)"

definition i1_MustXRES :: "tv_ie \<Rightarrow> bytes result" where
  "i1_MustXRES i = must [] (i1_XRES i)"

definition i1_MustCK :: "tv_ie \<Rightarrow> bytes result" where
  "i1_MustCK i = must [] (i1_CK i)"

definition i1_MustIK :: "tv_ie \<Rightarrow> bytes result" where
  "i1_MustIK i = must [] (i1_IK i)"

definition i1_MustAUTN :: "tv_ie \<Rightarrow> bytes result" where
  "i1_MustAUTN i = must [] (i1_AUTN i)"

definition i1_MustAuthenticationTriplet :: "tv_ie \<Rightarrow> bytes result" where
  "i1_MustAuthenticationTriplet i = must [] (i1_AuthenticationTriplet i)"

definition i1_MustRAND :: "tv_ie \<Rightarrow> bytes result" where
  "i1_MustRAND i = must [] (i1_RAND i)"

definition i1_MustSRES :: "tv_ie \<Rightarrow> bytes result" where
  "i1_MustSRES i = must [] (i1_SRES i)"

definition i1_MustKc :: "tv_ie \<Rightarrow> bytes result" where
  "i1_MustKc i = must [] (i1_Kc i)"

definition i1_MustCause :: "tv_ie \<Rightarrow> byte result" where
  "i1_MustCause i = must 0 (i1_Cause i)"

definition i1_MustChargingID :: "tv_ie \<Rightarrow> u32 result" where
  "i1_MustChargingID i = must 0 (i1_ChargingID i)"

definition i1_MustCommonFlags :: "tv_ie \<Rightarrow> byte result" where
  "i1_MustCommonFlags i = must 0 (i1_CommonFlags i)"

definition i1_MustEndUserAddress :: "tv_ie \<Rightarrow> bytes result" where
  "i1_MustEndUserAddress i = must [] (i1_EndUserAddress i)"

definition i1_MustPDPTypeOrganization :: "tv_ie \<Rightarrow> byte result" where
  "i1_MustPDPTypeOrganization i = must 0 (i1_PDPTypeOrganization i)"

definition i1_MustPDPTypeNumber :: "tv_ie \<Rightarrow> byte result" where
  "i1_MustPDPTypeNumber i = must 0 (i1_PDPTypeNumber i)"

definition i1_MustGSNAddress :: "tv_ie \<Rightarrow> string result" where
  "i1_MustGSNAddress i = must '''' (i1_GSNAddress i)"

definition i1_MustIMEISV :: "tv_ie \<Rightarrow> string result" where
  "i1_MustIMEISV i = must '''' (i1_IMEISV i)"

definition i1_MustIMSI :: "tv_ie \<Rightarrow> string result" where
  "i1_MustIMSI i = must '''' (i1_IMSI i)"

definition i1_MustIP :: "tv_ie \<Rightarrow> ip result" where
  "i1_MustIP i = must [] (i1_IP i)"

definition i1_MustIPAddress :: "tv_ie \<Rightarrow> string result" where
  "i1_MustIPAddress i = must '''' (i1_IPAddress i)"

definition i1_MustLAC :: "tv_ie \<Rightarrow> u16 result" where
  "i1_MustLAC i = must 0 (i1_LAC i)"

definition i1_MustMAPCause :: "tv_ie \<Rightarrow> byte result" where
  "i1_MustMAPCause i = must 0 (i1_MAPCause i)"

definition i1_MustMCC :: "tv_ie \<Rightarrow> string result" where
  "i1_MustMCC i = must '''' (i1_MCC i)"

definition i1_MustMNC :: "tv_ie \<Rightarrow> string result" where
  "i1_MustMNC i = must '''' (i1_MNC i)"

definition i1_MustTimeZone :: "tv_ie \<Rightarrow> int result" where
  "i1_MustTimeZone i = must 0 (i1_TimeZone i)"

definition i1_MustDaylightSaving :: "tv_ie \<Rightarrow> byte result" where
  "i1_MustDaylightSaving i = must 0 (i1_DaylightSaving i)"

definition i1_MustMSISDN :: "tv_ie \<Rightarrow> string result" where
  "i1_MustMSISDN i = must '''' (i1_MSISDN i)"

definition i1_MustNSAPI :: "tv_ie \<Rightarrow> byte result" where
  "i1_MustNSAPI i = must 0 (i1_NSAPI i)"

definition i1_MustPTMSISignature :: "tv_ie \<Rightarrow> u32 result" where
  "i1_MustPTMSISignature i = must 0 (i1_PTMSISignature i)"

definition i1_MustPacketTMSI :: "tv_ie \<Rightarrow> u32 result" where
  "i1_MustPacketTMSI i = must 0 (i1_PacketTMSI i)"

definition i1_MustProtocolConfigurationOptions :: "tv_ie \<Rightarrow> pco_payload option result" where
  "i1_MustProtocolConfigurationOptions i = must None (andThen (i1_ProtocolConfigurationOptions i) (\<lambda>x. Inr (Some x)))"

definition i1_MustPrivateExtension :: "tv_ie \<Rightarrow> bytes result" where
  "i1_MustPrivateExtension i = must [] (i1_PrivateExtension i)"

definition i1_MustExtensionIdentifier :: "tv_ie \<Rightarrow> u16 result" where
  "i1_MustExtensionIdentifier i = must 0 (i1_ExtensionIdentifier i)"

definition i1_MustExtensionValue :: "tv_ie \<Rightarrow> bytes result" where
  "i1_MustExtensionValue i = must [] (i1_ExtensionValue i)"

definition i1_MustQoSProfile :: "tv_ie \<Rightarrow> bytes result" where
  "i1_MustQoSProfile i = must [] (i1_QoSProfile i)"

definition i1_MustRAC :: "tv_ie \<Rightarrow> byte result" where
  "i1_MustRAC i = must 0 (i1_RAC i)"

definition i1_MustRouteingAreaIdentity :: "tv_ie \<Rightarrow> bytes result" where
  "i1_MustRouteingAreaIdentity i = must [] (i1_RouteingAreaIdentity i)"

definition i1_MustRANAPCause :: "tv_ie \<Rightarrow> byte result" where
  "i1_MustRANAPCause i = must 0 (i1_RANAPCause i)"

definition i1_MustRATType :: "tv_ie \<Rightarrow> byte result" where
  "i1_MustRATType i = must 0 (i1_RATType i)"

definition i1_MustRecovery :: "tv_ie \<Rightarrow> byte result" where
  "i1_MustRecovery i = must 0 (i1_Recovery i)"

definition i1_MustSelectionMode :: "tv_ie \<Rightarrow> byte result" where
  "i1_MustSelectionMode i = must 0 (i1_SelectionMode i)"

definition i1_MustTEID :: "tv_ie \<Rightarrow> u32 result" where
  "i1_MustTEID i = must 0 (i1_TEID i)"

definition i1_MustTimestamp :: "tv_ie \<Rightarrow> int result" where
  "i1_MustTimestamp i = must zero_time (i1_Timestamp i)"

definition i1_MustUserLocationInformation :: "tv_ie \<Rightarrow> bytes result" where
  "i1_MustUserLocationInformation i = must [] (i1_UserLocationInformation i)"

definition i1_MustCGI :: "tv_ie \<Rightarrow> u16 result" where
  "i1_MustCGI i = must 0 (i1_CGI i)"

definition i1_MustSAC :: "tv_ie \<Rightarrow> u16 result" where
  "i1_MustSAC i = must 0 (i1_SAC i)"


section \<open>Version 2\<close>

definition ie_MustAggregateMaximumBitRateUp :: "ie \<Rightarrow> u32 result" where
  "ie_MustAggregateMaximumBitRateUp i = must 0 (ie_AggregateMaximumBitRateUp i)"

definition ie_MustAggregateMaximumBitRateDown :: "ie \<Rightarrow> u32 result" where
  "ie_MustAggregateMaximumBitRateDown i = must 0 (ie_AggregateMaximumBitRateDown i)"

definition ie_MustAPNRestriction :: "ie \<Rightarrow> byte result" where
  "ie_MustAPNRestriction i = must 0 (ie_APNRestriction i)"

definition ie_MustAccessPointName :: "ie \<Rightarrow> string result" where
  "ie_MustAccessPointName i = must '''' (ie_AccessPointName i)"

definition ie_MustBearerFlags :: "ie \<Rightarrow> byte result" where
  "ie_MustBearerFlags i = must 0 (ie_BearerFlags i)"

definition ie_MustMBRForUplink :: "ie \<Rightarrow> u64 result" where
  "ie_MustMBRForUplink i = must 0 (ie_MBRForUplink i)"

definition ie_MustMBRForDownlink :: "ie \<Rightarrow> u64 result" where
  "ie_MustMBRForDownlink i = must 0 (ie_MBRForDownlink i)"

definition ie_MustGBRForUplink :: "ie \<Rightarrow> u64 result" where
  "ie_MustGBRForUplink i = must 0 (ie_GBRForUplink i)"

definition ie_MustGBRForDownlink :: "ie \<Rightarrow> u64 result" where
  "ie_MustGBRForDownlink i = must 0 (ie_GBRForDownlink i)"

definition ie_MustCause :: "ie \<Rightarrow> byte result" where
  "ie_MustCause i = must 0 (ie_Cause i)"

definition ie_MustCauseFlags :: "ie \<Rightarrow> byte result" where
  "ie_MustCauseFlags i = must 0 (ie_CauseFlags i)"

definition ie_MustOffendingIE :: "ie \<Rightarrow> ie option result" where
  "ie_MustOffendingIE i = must None (andThen (OffendingIE i) (\<lambda>x. Inr (Some x)))"

definition ie_MustChargingCharacteristics :: "ie \<Rightarrow> u16 result" where
  "ie_MustChargingCharacteristics i = must 0 (ie_ChargingCharacteristics i)"

definition ie_MustChargingID :: "ie \<Rightarrow> u32 result" where
  "ie_MustChargingID i = must 0 (ie_ChargingID i)"

definition ie_MustCMI :: "ie \<Rightarrow> byte result" where
  "ie_MustCMI i = must 0 (ie_CMI i)"

definition ie_MustCSGID :: "ie \<Rightarrow> u32 result" where
  "ie_MustCSGID i = must 0 (ie_CSGID i)"

definition ie_MustDelayValue :: "ie \<Rightarrow> int result" where
  "ie_MustDelayValue i = must 0 (ie_DelayValue i)"

definition ie_MustDetachType :: "ie \<Rightarrow> byte result" where
  "ie_MustDetachType i = must 0 (ie_DetachType i)"

definition ie_MustEPSBearerID :: "ie \<Rightarrow> byte result" where
  "ie_MustEPSBearerID i = must 0 (ie_EPSBearerID i)"

definition ie_MustEPCTimer :: "ie \<Rightarrow> int result" where
  "ie_MustEPCTimer i = must 0 (ie_EPCTimer i)"

definition ie_MustInterfaceType :: "ie \<Rightarrow> byte result" where
  "ie_MustInterfaceType i = must 0 (ie_InterfaceType i)"

definition ie_MustGREKey :: "ie \<Rightarrow> u32 result" where
  "ie_MustGREKey i = must 0 (ie_GREKey i)"

definition ie_MustTEID :: "ie \<Rightarrow> u32 result" where
  "ie_MustTEID i = must 0 (ie_TEID i)"

definition ie_MustNodeIDType :: "ie \<Rightarrow> byte result" where
  "ie_MustNodeIDType i = must 0 (ie_NodeIDType i)"

definition ie_MustNodeID :: "ie \<Rightarrow> bytes result" where
  "ie_MustNodeID i = must [] (ie_NodeID i)"

definition ie_MustCSIDs :: "ie \<Rightarrow> u16 list result" where
  "ie_MustCSIDs i = must [] (ie_CSIDs i)"

definition ie_MustFullyQualifiedDomainName :: "ie \<Rightarrow> string result" where
  "ie_MustFullyQualifiedDomainName i = must '''' (ie_FullyQualifiedDomainName i)"

definition ie_MustCNID :: "ie \<Rightarrow> u16 result" where
  "ie_MustCNID i = must 0 (ie_CNID i)"

definition ie_MustMMEGroupID :: "ie \<Rightarrow> u16 result" where
  "ie_MustMMEGroupID i = must 0 (ie_MMEGroupID i)"

definition ie_MustMMECode :: "ie \<Rightarrow> byte result" where
  "ie_MustMMECode i = must 0 (ie_MMECode i)"

definition ie_MustMTMSI :: "ie \<Rightarrow> u32 result" where
  "ie_MustMTMSI i = must 0 (ie_MTMSI i)"

definition ie_MustHopCounter :: "ie \<Rightarrow> byte result" where
  "ie_MustHopCounter i = must 0 (ie_HopCounter i)"

definition ie_MustIMSI :: "ie \<Rightarrow> string result" where
  "ie_MustIMSI i = must '''' (ie_IMSI i)"

definition ie_MustIntegerNumber :: "ie \<Rightarrow> u16 result" where
  "ie_MustIntegerNumber i = must 0 (ie_IntegerNumber i)"

definition ie_MustIPAddress :: "ie \<Rightarrow> string result" where
  "ie_MustIPAddress i = must '''' (ie_IPAddress i)"

definition ie_MustIP :: "ie \<Rightarrow> ip result" where
  "ie_MustIP i = must [] (ie_IP i)"

definition ie_MustIPv4 :: "ie \<Rightarrow> ip result" where
  "ie_MustIPv4 i = must [] (ie_IPv4 i)"

definition ie_MustIPv6 :: "ie \<Rightarrow> ip result" where
  "ie_MustIPv6 i = must [] (ie_IPv6 i)"

definition ie_MustLocalDistinguishedName :: "ie \<Rightarrow> string result" where
  "ie_MustLocalDistinguishedName i = must '''' (ie_LocalDistinguishedName i)"

definition ie_MustMBMSFlags :: "ie \<Rightarrow> byte result" where
  "ie_MustMBMSFlags i = must 0 (ie_MBMSFlags i)"

definition ie_MustMobileEquipmentIdentity :: "ie \<Rightarrow> string result" where
  "ie_MustMobileEquipmentIdentity i = must '''' (ie_MobileEquipmentIdentity i)"

definition ie_MustMSISDN :: "ie \<Rightarrow> string result" where
  "ie_MustMSISDN i = must '''' (ie_MSISDN i)"

definition ie_MustNodeFeatures :: "ie \<Rightarrow> byte result" where
  "ie_MustNodeFeatures i = must 0 (ie_NodeFeatures i)"

definition ie_MustNodeType :: "ie \<Rightarrow> byte result" where
  "ie_MustNodeType i = must 0 (ie_NodeType i)"

definition ie_MustPTMSISignature :: "ie \<Rightarrow> u32 result" where
  "ie_MustPTMSISignature i = must 0 (ie_PTMSISignature i)"

definition ie_MustPacketTMSI :: "ie \<Rightarrow> u32 result" where
  "ie_MustPacketTMSI i = must 0 (ie_PacketTMSI i)"

definition ie_MustPagingPolicyIndication :: "ie \<Rightarrow> byte result" where
  "ie_MustPagingPolicyIndication i = must 0 (ie_PagingPolicyIndication i)"

definition ie_MustProtocolConfigurationOptions :: "ie \<Rightarrow> pco_fields option result" where
  "ie_MustProtocolConfigurationOptions i = must None (andThen (ie_ProtocolConfigurationOptions i) (\<lambda>x. Inr (Some x)))"

definition ie_MustPDNType :: "ie \<Rightarrow> byte result" where
  "ie_MustPDNType i = must 0 (ie_PDNType i)"

definition ie_MustPLMNID :: "ie \<Rightarrow> string result" where
  "ie_MustPLMNID i = must '''' (ie_PLMNID i)"

definition ie_MustPortNumber :: "ie \<Rightarrow> u16 result" where
  "ie_MustPortNumber i = must 0 (ie_PortNumber i)"

definition ie_MustEnterpriseID :: "ie \<Rightarrow> u16 result" where
  "ie_MustEnterpriseID i = must 0 (ie_EnterpriseID i)"

definition ie_MustPrivateExtension :: "ie \<Rightarrow> bytes result" where
  "ie_MustPrivateExtension i = must [] (ie_PrivateExtension i)"

definition ie_MustProcedureTransactionID :: "ie \<Rightarrow> byte result" where
  "ie_MustProcedureTransactionID i = must 0 (ie_ProcedureTransactionID i)"

definition ie_MustRATType :: "ie \<Rightarrow> byte result" where
  "ie_MustRATType i = must 0 (ie_RATType i)"

definition ie_MustRecovery :: "ie \<Rightarrow> byte result" where
  "ie_MustRecovery i = must 0 (ie_Recovery i)"

definition ie_MustRFSPIndex :: "ie \<Rightarrow> byte result" where
  "ie_MustRFSPIndex i = must 0 (ie_RFSPIndex i)"

definition ie_MustHSGWAddress :: "ie \<Rightarrow> string result" where
  "ie_MustHSGWAddress i = must '''' (ie_HSGWAddress i)"

definition ie_MustEBIs :: "ie \<Rightarrow> bytes result" where
  "ie_MustEBIs i = must [] (ie_EBIs i)"

definition ie_MustSGWAddress :: "ie \<Rightarrow> string result" where
  "ie_MustSGWAddress i = must '''' (ie_SGWAddress i)"

definition ie_MustSelectionMode :: "ie \<Rightarrow> byte result" where
  "ie_MustSelectionMode i = must 0 (ie_SelectionMode i)"

definition ie_MustServiceIndicator :: "ie \<Rightarrow> byte result" where
  "ie_MustServiceIndicator i = must 0 (ie_ServiceIndicator i)"

definition ie_MustServingNetwork :: "ie \<Rightarrow> string result" where
  "ie_MustServingNetwork i = must '''' (ie_ServingNetwork i)"

definition ie_MustMCC :: "ie \<Rightarrow> string result" where
  "ie_MustMCC i = must '''' (ie_MCC i)"

definition ie_MustMNC :: "ie \<Rightarrow> string result" where
  "ie_MustMNC i = must '''' (ie_MNC i)"

definition ie_MustTMSI :: "ie \<Rightarrow> u32 result" where
  "ie_MustTMSI i = must 0 (ie_TMSI i)"

definition ie_MustTraceID :: "ie \<Rightarrow> u32 result" where
  "ie_MustTraceID i = must 0 (ie_TraceID i)"

definition ie_MustAccessMode :: "ie \<Rightarrow> byte result" where
  "ie_MustAccessMode i = must 0 (ie_AccessMode i)"

definition ie_MustTimeZone :: "ie \<Rightarrow> int result" where
  "ie_MustTimeZone i = must 0 (ie_TimeZone i)"

definition ie_MustDaylightSaving :: "ie \<Rightarrow> byte result" where
  "ie_MustDaylightSaving i = must 0 (ie_DaylightSaving i)"

definition ie_MustTimestamp :: "ie \<Rightarrow> int result" where
  "ie_MustTimestamp i = must zero_time (ie_Timestamp i)"

section \<open>What they return\<close>

lemma must_iff: "must z r = Inr x \<longleftrightarrow> r = Inr x \<or> (x = z \<and> (\<exists>e. r = Inl (Error e)))"
  by (auto simp: must_def split: sum.split failure.split)

lemma must_fails_iff: "must z r = Inl f \<longleftrightarrow> (\<exists>p. f = Panic p \<and> r = Inl (Panic p))"
  by (auto simp: must_def split: sum.split failure.split)

end
