(* ===== verification/TesterPgw.thy ===== *)
theory TesterPgw
  imports V2CreateRun V1Kernel MustAccessors V2IEHelpers
begin

text \<open>
  A program on top of the library: the P-GW of \<open>src/examples/gw-tester/pgw\<close> (\<open>handlers.go\<close>, \<open>pgw.go\<close>).
  It keeps a connection of the control plane, one of the user plane with its tunnels in the kernel,
  and the routes and rules it has added. The handlers for Create Session Requests and Delete Session
  Requests use everything below: messages, elements, the session tables and the tunnels.

  A session that has not been registered yet is only known to the handler that fills it, so it is a
  value until then. The functions of \<open>netlink\<close> about routes are an argument, like those about
  tunnels. Metrics and logs are left out, and so is the configuration file.
\<close>

section \<open>The state\<close>

abbreviation IFTypeS5S8SGWGTPU :: byte where "IFTypeS5S8SGWGTPU \<equiv> 4"
abbreviation IFTypeS5S8PGWGTPU :: byte where "IFTypeS5S8PGWGTPU \<equiv> 5"
abbreviation IFTypeS5S8SGWGTPC :: byte where "IFTypeS5S8SGWGTPC \<equiv> 6"
abbreviation IFTypeS5S8PGWGTPC :: byte where "IFTypeS5S8PGWGTPC \<equiv> 7"
abbreviation CauseRequestAccepted :: byte where "CauseRequestAccepted \<equiv> 16"
abbreviation CauseIMSIIMEINotKnown :: byte where "CauseIMSIIMEINotKnown \<equiv> 96"
abbreviation APNRestrictionPublic2 :: byte where "APNRestrictionPublic2 \<equiv> 2"

type_synonym ipnet = "ip \<times> bytes"

record route =
  rt_Dst :: ipnet
  rt_LinkIndex :: nat
  rt_Protocol :: nat
  rt_Priority :: nat
  rt_Table :: nat

record rule =
  rl_IifName :: string
  rl_Dst :: ipnet
  rl_Table :: nat

text \<open>
  The scope of a route is the same for all and left out. \<open>rk_Index\<close> is \<open>Attrs().Index\<close> of the GTP device; a link
  is its name and its index.
\<close>

record 'k routing =
  rk_Index :: "gtp_link \<Rightarrow> 'k \<Rightarrow> nat"
  rk_RouteReplace :: "route \<Rightarrow> 'k \<Rightarrow> bool \<times> 'k"
  rk_LinkByName :: "string \<Rightarrow> 'k \<Rightarrow> (string \<times> nat) option"
  rk_RuleList :: "'k \<Rightarrow> bool"
  rk_RuleAdd :: "rule \<Rightarrow> 'k \<Rightarrow> bool \<times> 'k"

record 'k pgw =
  p_cConn :: conn
  p_tunnels :: "'k tstate"
  p_uConn :: nat
  p_s5u :: string
  p_sgiIF :: string
  p_useKernelGTP :: bool
  p_routeSubnet :: ipnet
  p_addedRoutes :: "route list"
  p_addedRules :: "rule list"

type_synonym ('s, 'a) sop = "'s \<Rightarrow> 'a result \<times> 's"
type_synonym ('k, 'a) pop = "('k pgw, 'a) sop"

text \<open>
  What the environment decides while a handler runs: writes, the order of \<open>Range\<close>, the random TEIDs
  of the two connections, the clock.
\<close>

record pgw_env =
  pe_env :: env
  pe_order :: "u32 list"
  pe_rndC :: "nat \<Rightarrow> u32"
  pe_rndU :: "nat \<Rightarrow> u32"
  pe_now :: nat

definition on_cConn :: "'a op \<Rightarrow> ('k, 'a) pop" where
  "on_cConn f p = (let (r, c) = f (p_cConn p) in (r, p\<lparr>p_cConn := c\<rparr>))"

definition on_tunnels :: "('k tstate \<Rightarrow> 'a result \<times> 'k tstate) \<Rightarrow> ('k, 'a) pop" where
  "on_tunnels f p = (let (r, t) = f (p_tunnels p) in (r, p\<lparr>p_tunnels := t\<rparr>))"

definition on_uConn :: "(nat \<Rightarrow> 'a uop) \<Rightarrow> ('k, 'a) pop" where
  "on_uConn f p =
     on_tunnels (\<lambda>s. let (r, w) = f (p_uConn p) (kn_world s) in (r, s\<lparr>kn_world := w\<rparr>)) p"

definition pbind :: "('s, 'a) sop \<Rightarrow> ('a \<Rightarrow> ('s, 'b) sop) \<Rightarrow> ('s, 'b) sop" where
  "pbind m f p = (case m p of (Inl e, p') \<Rightarrow> (Inl e, p') | (Inr x, p') \<Rightarrow> f x p')"

definition ppure :: "'a result \<Rightarrow> ('s, 'a) sop" where
  "ppure r p = (r, p)"

section \<open>Routes (setupUPlane)\<close>

text \<open>
  The rules that exist are compared with the address of a variable of the function, which none of
  them holds, so a rule is added each time.
\<close>

definition kernel_call :: "('k \<Rightarrow> bool \<times> 'k) \<Rightarrow> ('k, unit) pop" where
  "kernel_call f = on_tunnels (\<lambda>s. let (ok, s) = ask f s in (if ok then Inr () else Inl (Error NetError), s))"

definition set_link_index :: "'k routing \<Rightarrow> ('k, nat) pop" where
  "set_link_index rk p =
     (case kn_Link (p_tunnels p) (p_uConn p) of
        None \<Rightarrow> (Inl (Panic NilDereference), p)
      | Some l \<Rightarrow> (Inr (rk_Index rk l (kn_kernel (p_tunnels p))), p))"

definition setupUPlane ::
  "'k netlink \<Rightarrow> 'k routing \<Rightarrow> ip \<Rightarrow> ip \<Rightarrow> u32 \<Rightarrow> u32 \<Rightarrow> ('k, unit) pop" where
  "setupUPlane nl rk peerIP msIP otei itei =
     pbind (\<lambda>p. on_tunnels (AddTunnelOverride nl (p_uConn p) peerIP msIP otei itei) p) (\<lambda>_.
     let ms32 = (msIP, [255, 255, 255, 255]) in
     pbind (set_link_index rk) (\<lambda>index.
     let dlroute = \<lparr>rt_Dst = ms32, rt_LinkIndex = index, rt_Protocol = 4, rt_Priority = 1, rt_Table = 3001\<rparr> in
     pbind (kernel_call (rk_RouteReplace rk dlroute)) (\<lambda>_.
     pbind (\<lambda>p. (Inr (), p\<lparr>p_addedRoutes := p_addedRoutes p @ [dlroute]\<rparr>)) (\<lambda>_.
     pbind (\<lambda>p. (case rk_LinkByName rk (p_sgiIF p) (kn_kernel (p_tunnels p)) of
                   None \<Rightarrow> Inl (Error NetError) | Some l \<Rightarrow> Inr l, p)) (\<lambda>link.
     pbind (\<lambda>p.
       let ulroute = \<lparr>rt_Dst = p_routeSubnet p, rt_LinkIndex = snd link, rt_Protocol = 4, rt_Priority = 1, rt_Table = 0\<rparr>
       in pbind (kernel_call (rk_RouteReplace rk ulroute))
            (\<lambda>_ p. (Inr (), p\<lparr>p_addedRoutes := p_addedRoutes p @ [ulroute]\<rparr>)) p) (\<lambda>_.
     pbind (\<lambda>p. (if rk_RuleList rk (kn_kernel (p_tunnels p)) then Inr () else Inl (Error NetError), p)) (\<lambda>_.
     let new = \<lparr>rl_IifName = fst link, rl_Dst = ms32, rl_Table = 3001\<rparr> in
     pbind (kernel_call (rk_RuleAdd rk new))
       (\<lambda>_ p. (Inr (), p\<lparr>p_addedRules := p_addedRules p @ [new]\<rparr>)))))))))"

section \<open>Create Session Request\<close>

text \<open>The pattern \<open>if i := req.Field; i != nil { ... } else { return &RequiredIEMissingError{...} }\<close>.\<close>

definition required :: "byte \<Rightarrow> ie option \<Rightarrow> (ie \<Rightarrow> 'a result) \<Rightarrow> 'a result" where
  "required t field get =
     (case field of None \<Rightarrow> Inl (Error (V2RequiredIEMissing t)) | Some i \<Rightarrow> get i)"

definition forget_previous :: "u32 list \<Rightarrow> string \<Rightarrow> unit op" where
  "forget_previous order imsi c =
     (case GetSessionByIMSI imsi c of
        Inr r \<Rightarrow> RemoveSession order r c
      | Inl (Error (V2UnknownIMSI _)) \<Rightarrow> (Inr (), c)
      | Inl e \<Rightarrow> (Inl e, c))"

text \<open>The children of the Bearer Context: the session, the address of the S-GW and its TEID.\<close>

fun read_children :: "ie list \<Rightarrow> session \<times> string \<times> u32 \<Rightarrow> (session \<times> string \<times> u32) result" where
  "read_children [] x = Inr x"
| "read_children (i # is) (s, sgwIP, otei) =
     (if ie_Type i = IE_EPSBearerID then
        andThen (ie_EPSBearerID i) (\<lambda>v. read_children is (upd_default (\<lambda>b. b\<lparr>br_EBI := v\<rparr>) s, sgwIP, otei))
      else if ie_Type i = IE_FullyQualifiedTEID then
        andThen (ie_InterfaceType i) (\<lambda>it.
        andThen (ie_TEID i) (\<lambda>teid.
        andThen (ie_IPAddress i) (\<lambda>a. read_children is (AddTEID it teid s, a, teid))))
      else read_children is (s, sgwIP, otei))"

definition read_session ::
  "addr \<Rightarrow> string \<Rightarrow> CreateSessionRequest_field v2_msg \<Rightarrow> (session \<times> string \<times> u32) result" where
  "read_session sgwAddr imsi req =
     (let s = set_IMSI imsi (NewSession sgwAddr no_subscriber) in
      andThen (required IE_MSISDN (m_field req CreateSessionRequest_MSISDN) ie_MSISDN) (\<lambda>v.
      let s = set_MSISDN v s in
      andThen (required IE_MobileEquipmentIdentity (m_field req CreateSessionRequest_MEI) ie_MobileEquipmentIdentity) (\<lambda>v.
      let s = set_IMEI v s in
      andThen (required IE_AccessPointName (m_field req CreateSessionRequest_APN) ie_AccessPointName) (\<lambda>v.
      let s = upd_default (\<lambda>b. b\<lparr>br_APN := v\<rparr>) s in
      andThen (required IE_ServingNetwork (m_field req CreateSessionRequest_ServingNetwork)
        (\<lambda>i. andThen (ie_MCC i) (\<lambda>mcc. andThen (ie_MNC i) (\<lambda>mnc. Inr (mcc, mnc))))) (\<lambda>(mcc, mnc).
      let s = upd_location (\<lambda>l. l\<lparr>loc_MCC := mcc, loc_MNC := mnc\<rparr>) s in
      andThen (required IE_RATType (m_field req CreateSessionRequest_RATType) ie_RATType) (\<lambda>v.
      let s = upd_location (\<lambda>l. l\<lparr>loc_RATType := v\<rparr>) s in
      andThen (required IE_FullyQualifiedTEID (m_field req CreateSessionRequest_SenderFTEIDC) ie_TEID) (\<lambda>v.
      let s = AddTEID IFTypeS5S8SGWGTPC v s in
      andThen (required IE_BearerContext (m_field req CreateSessionRequest_BearerContextsToBeCreated)
        (\<lambda>i. read_children (ie_ChildIEs i) (s, [], 0))) (\<lambda>(s, sgwIP, otei).
      andThen (required IE_PDNAddressAllocation (m_field req CreateSessionRequest_PAA) ie_IPAddress) (\<lambda>v.
      Inr (upd_default (\<lambda>b. b\<lparr>br_SubscriberIP := v\<rparr>) s, sgwIP, otei))))))))))"

definition with_instance :: "byte \<Rightarrow> ie option \<Rightarrow> ie result" where
  "with_instance n i = (case i of None \<Rightarrow> Inl (Panic NilDereference) | Some i \<Rightarrow> Inr (WithInstance n i))"

definition default_bearer :: "session \<Rightarrow> bearer result" where
  "default_bearer s = (case GetDefaultBearer s of None \<Rightarrow> Inl (Panic NilDereference) | Some b \<Rightarrow> Inr b)"

definition create_response ::
  "CreateSessionRequest_field v2_msg \<Rightarrow> string \<Rightarrow> session \<Rightarrow> u32 \<Rightarrow> ie \<Rightarrow> ie \<Rightarrow> CreateSessionResponse_field v2_msg result" where
  "create_response req cIP s teid cF uF =
     andThen (default_bearer s) (\<lambda>b.
     andThen (NewPDNAddressAllocation (br_SubscriberIP b)) (\<lambda>paa.
     andThen (NewBearerContext
       [Some (NewCause CauseRequestAccepted 0 0 0 None), Some (NewEPSBearerID (br_EBI b)), Some uF,
        Some (NewChargingID (br_ChargingID b))]) (\<lambda>ctx.
     let m = NewCreateSessionResponse teid 0
       [Some (NewCause CauseRequestAccepted 0 0 0 None), Some cF, paa,
        Some (NewAPNRestriction APNRestrictionPublic2), ctx] in
     if m_field req CreateSessionRequest_SGWFQCSID = None then Inr m
     else andThen (NewFullyQualifiedCSID cIP [1]) (\<lambda>f.
       Inr (m\<lparr>m_field := (m_field m)(CreateSessionResponse_PGWFQCSID := f)\<rparr>)))))"

definition register_new :: "u32 \<Rightarrow> session \<Rightarrow> unit op" where
  "register_new itei s c =
     (Inr (), RegisterSession itei (length (c_heap c)) (c\<lparr>c_heap := c_heap c @ [s]\<rparr>))"

definition host_of :: "addr \<Rightarrow> string" where
  "host_of a = hd (Split CHR '':'' a)"

text \<open>The end of the handler, from the response on.\<close>

definition answer_and_register ::
  "'k netlink \<Rightarrow> 'k routing \<Rightarrow> pgw_env \<Rightarrow> addr \<Rightarrow> CreateSessionRequest_field v2_msg \<Rightarrow>
     CreateSessionResponse_field v2_msg \<Rightarrow> session \<Rightarrow> string \<Rightarrow> u32 \<Rightarrow> u32 \<Rightarrow> ('k, unit) pop" where
  "answer_and_register nl rk pe sgwAddr req rsp s sgwIP oteiU teidU =
      pbind (on_cConn (RespondTo (pe_env pe) sgwAddr (Msg_CreateSessionRequest req) (Msg_CreateSessionResponse rsp))) (\<lambda>_.
      pbind (ppure (GetTEID IFTypeS5S8PGWGTPC s)) (\<lambda>pgwTEID.
      pbind (ppure (Activate s)) (\<lambda>s.
      pbind (on_cConn (register_new pgwTEID s)) (\<lambda>_.
      pbind (ppure (default_bearer s)) (\<lambda>b p.
        if p_useKernelGTP p
        then setupUPlane nl rk (ParseIP sgwIP) (ParseIP (br_SubscriberIP b)) oteiU teidU p
        else (Inr (), p))))))"

text \<open>From the reservation of the TEIDs on, with the hosts of the two local addresses.\<close>

definition accept_with ::
  "'k netlink \<Rightarrow> 'k routing \<Rightarrow> pgw_env \<Rightarrow> addr \<Rightarrow> CreateSessionRequest_field v2_msg \<Rightarrow> string \<Rightarrow> string \<Rightarrow>
     session \<Rightarrow> string \<Rightarrow> u32 \<Rightarrow> ('k, unit) pop" where
  "accept_with nl rk pe sgwAddr req cIP uIP s sgwIP oteiU =
      pbind (on_cConn (NewSenderFTEID (pe_rndC pe) cIP [])) (\<lambda>cF.
      pbind (ppure (with_instance 1 cF)) (\<lambda>cF.
      pbind (on_uConn (NewFTEID (pe_rndU pe) (pe_now pe) IFTypeS5S8PGWGTPU uIP [])) (\<lambda>uF.
      pbind (ppure (with_instance 2 uF)) (\<lambda>uF.
      pbind (ppure (GetTEID IFTypeS5S8SGWGTPC s)) (\<lambda>sgwTEID.
      pbind (ppure (create_response req cIP s sgwTEID cF uF)) (\<lambda>rsp.
      pbind (ppure (ie_MustTEID cF)) (\<lambda>teidC.
      pbind (ppure (ie_MustTEID uF)) (\<lambda>teidU.
        answer_and_register nl rk pe sgwAddr req rsp
          (AddTEID IFTypeS5S8PGWGTPU teidU (AddTEID IFTypeS5S8PGWGTPC teidC s)) sgwIP oteiU teidU))))))))"

definition accept_session ::
  "'k netlink \<Rightarrow> 'k routing \<Rightarrow> pgw_env \<Rightarrow> addr \<Rightarrow> CreateSessionRequest_field v2_msg \<Rightarrow> session \<times> string \<times> u32 \<Rightarrow>
     ('k, unit) pop" where
  "accept_session nl rk pe sgwAddr req x p =
     (case x of (s, sgwIP, oteiU) \<Rightarrow>
        accept_with nl rk pe sgwAddr req (host_of (c_laddr (p_cConn p))) (host_of (p_s5u p)) s sgwIP oteiU p)"

definition handleCreateSessionRequest ::
  "'k netlink \<Rightarrow> 'k routing \<Rightarrow> pgw_env \<Rightarrow> addr \<Rightarrow> CreateSessionRequest_field v2_msg \<Rightarrow> ('k, unit) pop" where
  "handleCreateSessionRequest nl rk pe sgwAddr req =
     pbind (ppure (required IE_IMSI (m_field req CreateSessionRequest_IMSI) ie_IMSI)) (\<lambda>imsi.
     pbind (on_cConn (forget_previous (pe_order pe) imsi)) (\<lambda>_.
     pbind (ppure (read_session sgwAddr imsi req)) (accept_session nl rk pe sgwAddr req)))"

section \<open>Delete Session Request\<close>

definition delete_response :: "u32 \<Rightarrow> byte \<Rightarrow> v2_message" where
  "delete_response teid cause =
     Msg_DeleteSessionResponse (NewDeleteSessionResponse teid 0 [Some (NewCause cause 0 0 0 None)])"

definition handleDeleteSessionRequest :: "pgw_env \<Rightarrow> addr \<Rightarrow> v2_message \<Rightarrow> unit op" where
  "handleDeleteSessionRequest pe sgwAddr msg c =
     (case GetSessionByTEID (v2_TEID msg) sgwAddr c of
        Inl (Panic p) \<Rightarrow> (Inl (Panic p), c)
      | Inl (Error e) \<Rightarrow>
          bind_op (RespondTo (pe_env pe) sgwAddr msg (delete_response 0 CauseIMSIIMEINotKnown)) (\<lambda>_. fail_op e) c
      | Inr r \<Rightarrow>
          (case GetTEID IFTypeS5S8SGWGTPC (session_at c r) of
             Inl e \<Rightarrow> (Inr (), c)
           | Inr teid \<Rightarrow>
               bind_op (RespondTo (pe_env pe) sgwAddr msg (delete_response teid CauseRequestAccepted)) (\<lambda>_.
               RemoveSession (pe_order pe) r) c))"

section \<open>Serving\<close>

text \<open>
  The connections as \<open>run\<close> sets them up, and a datagram on the one of the control plane: \<open>Serve\<close> and
  \<open>handleMessage\<close> with the handlers above as the user's handlers 0 and 1.
\<close>

definition new_cConn :: "addr \<Rightarrow> conn" where
  "new_cConn s5c = AddHandlers [(MsgTypeCreateSessionRequest, User 0), (MsgTypeDeleteSessionRequest, User 1)]
     (NewConn s5c IFTypeS5S8PGWGTPC 0)"

definition dispatch :: "'k netlink \<Rightarrow> 'k routing \<Rightarrow> pgw_env \<Rightarrow> addr \<Rightarrow> v2_message \<Rightarrow> ('k, unit) pop" where
  "dispatch nl rk pe a msg p =
     (case map_load (c_msgHandlerMap (p_cConn p)) (v2_MessageType msg) of
        None \<Rightarrow> (Inl (Error (V2HandlerNotFound (v2_MessageType msg))), p)
      | Some (User 0) \<Rightarrow>
          (case msg of
             Msg_CreateSessionRequest req \<Rightarrow> handleCreateSessionRequest nl rk pe a req p
           | _ \<Rightarrow> (Inl (Panic FailedTypeAssertion), p))
      | Some (User (Suc n)) \<Rightarrow> on_cConn (handleDeleteSessionRequest pe a msg) p
      | Some h \<Rightarrow> on_cConn (call_handler (pe_env pe) h a msg) p)"

definition pgw_serve :: "'k netlink \<Rightarrow> 'k routing \<Rightarrow> pgw_env \<Rightarrow> addr \<Rightarrow> bytes \<Rightarrow> ('k, unit) pop" where
  "pgw_serve nl rk pe a raw p =
     (case v2_Parse raw of
        Inl (Panic e) \<Rightarrow> (Inl (Panic e), p)
      | Inl (Error e) \<Rightarrow> (Inr (), p)
      | Inr msg \<Rightarrow>
          (case pbind (on_cConn (\<lambda>c. if c_validationEnabled c then validate (pe_env pe) a msg c else (Inr (), c)))
                  (\<lambda>_. dispatch nl rk pe a msg) p of
             (Inl (Panic e), p') \<Rightarrow> (Inl (Panic e), p')
           | (_, p') \<Rightarrow> (Inr (), p')))"

end
