(* ===== verification/TesterPgwRun.thy ===== *)
theory TesterPgwRun
  imports TesterPgw
begin

text \<open>
  What the P-GW of \<open>TesterPgw\<close> does, whatever datagrams arrive: its two session tables agree in every
  state it reaches, and a Create Session Request and a Delete Session Request have the effect they
  are sent for. \<open>htriple\<close> states what a step of a handler needs and leaves behind, also when it fails.
\<close>

section \<open>Steps with a precondition\<close>

definition htriple ::
  "('k pgw \<Rightarrow> bool) \<Rightarrow> ('k, 'a) pop \<Rightarrow> ('a \<Rightarrow> 'k pgw \<Rightarrow> bool) \<Rightarrow> ('k pgw \<Rightarrow> bool) \<Rightarrow> bool" where
  "htriple P m Q E \<longleftrightarrow> (\<forall>p. P p \<longrightarrow> (case m p of (Inr x, p') \<Rightarrow> Q x p' | (Inl e, p') \<Rightarrow> E p'))"

lemma htripleI: "(\<And>p. P p \<Longrightarrow> case m p of (Inr x, p') \<Rightarrow> Q x p' | (Inl e, p') \<Rightarrow> E p') \<Longrightarrow> htriple P m Q E"
  by (simp add: htriple_def)

lemma htriple_bind [intro]:
  "htriple P m R E \<Longrightarrow> (\<And>x. htriple (R x) (f x) Q E) \<Longrightarrow> htriple P (pbind m f) Q E"
  unfolding htriple_def pbind_def by (fastforce split: prod.splits sum.splits)

lemma htriple_pure: "(\<And>x p. r = Inr x \<Longrightarrow> P p \<Longrightarrow> Q x p) \<Longrightarrow> (\<And>p. P p \<Longrightarrow> E p) \<Longrightarrow> htriple P (ppure r) Q E"
  by (auto simp: htriple_def ppure_def split: sum.split)

lemma htriple_conn:
  "(\<And>c. P c \<Longrightarrow> case f c of (Inr x, c') \<Rightarrow> Q x c' | (Inl e, c') \<Rightarrow> E c') \<Longrightarrow>
     htriple (\<lambda>p. P (p_cConn p)) (on_cConn f) (\<lambda>x p. Q x (p_cConn p)) (\<lambda>p. E (p_cConn p))"
  by (fastforce simp: htriple_def on_cConn_def split: prod.splits sum.splits)

lemma on_tunnels_conn [simp]: "p_cConn (snd (on_tunnels f p)) = p_cConn p"
  by (simp add: on_tunnels_def split: prod.split)

lemma on_uConn_conn [simp]: "p_cConn (snd (on_uConn f p)) = p_cConn p"
  by (simp add: on_uConn_def)

lemma kernel_call_conn [simp]: "p_cConn (snd (kernel_call f p)) = p_cConn p"
  by (simp add: kernel_call_def)

lemma kernel_call_conn': "kernel_call f p = (x, p') \<Longrightarrow> p_cConn p' = p_cConn p"
  using kernel_call_conn by (metis snd_conv)

definition leaves_conn :: "('k, 'a) pop \<Rightarrow> bool" where
  "leaves_conn m \<longleftrightarrow> (\<forall>p. p_cConn (snd (m p)) = p_cConn p)"

lemma leaves_bind [intro]: "leaves_conn m \<Longrightarrow> (\<And>x. leaves_conn (f x)) \<Longrightarrow> leaves_conn (pbind m f)"
  unfolding leaves_conn_def pbind_def by (auto split: prod.split sum.split) (metis snd_conv)+

lemma setupUPlane_conn: "leaves_conn (setupUPlane nl rk peerIP msIP otei itei)"
proof -
  have "leaves_conn (set_link_index rk)"
    by (auto simp: leaves_conn_def set_link_index_def split: option.split)
  then show ?thesis
    unfolding setupUPlane_def Let_def
    by (intro leaves_bind) (auto simp: leaves_conn_def pbind_def dest: kernel_call_conn' split: prod.split sum.split)
qed

lemma htriple_leaves:
  "leaves_conn m \<Longrightarrow> htriple (\<lambda>p. P (p_cConn p)) m (\<lambda>_ p. P (p_cConn p)) (\<lambda>p. P (p_cConn p))"
  unfolding leaves_conn_def htriple_def by (metis (mono_tags, lifting) case_prod_beta old.sum.simps sum.case_eq_if)

section \<open>The tables agree\<close>

text \<open>
  Every registered TEID is the local one of an active session that is also registered under its IMSI,
  and every registered IMSI is that of a session registered under its TEID. The handlers are those
  that were set.
\<close>

definition pgw_handlers :: "byte \<rightharpoonup> handler" where
  "pgw_handlers = c_msgHandlerMap (new_cConn [])"

definition tables_agree :: "conn \<Rightarrow> bool" where
  "tables_agree c \<longleftrightarrow> c_localIfType c = IFTypeS5S8PGWGTPC \<and> c_msgHandlerMap c = pgw_handlers \<and>
     (\<forall>t r. c_iteiSessionMap c t = Some (Some r) \<longrightarrow> r < length (c_heap c) \<and> s_isActive (session_at c r) \<and>
        s_teidMap (session_at c r) IFTypeS5S8PGWGTPC = Some t \<and>
        s_teidMap (session_at c r) IFTypeS5S8SGWGTPC \<noteq> None \<and>
        c_imsiSessionMap c (s_IMSI (session_at c r)) = Some r) \<and>
     (\<forall>imsi r. c_imsiSessionMap c imsi = Some r \<longrightarrow> s_IMSI (session_at c r) = imsi \<and>
        (\<exists>t. c_iteiSessionMap c t = Some (Some r)))"

lemma tables_agreeD:
  assumes "tables_agree c"
  shows "c_localIfType c = IFTypeS5S8PGWGTPC"
    "c_iteiSessionMap c t = Some (Some r) \<Longrightarrow> r < length (c_heap c)"
    "c_iteiSessionMap c t = Some (Some r) \<Longrightarrow> s_isActive (session_at c r)"
    "c_iteiSessionMap c t = Some (Some r) \<Longrightarrow> s_teidMap (session_at c r) IFTypeS5S8PGWGTPC = Some t"
    "c_iteiSessionMap c t = Some (Some r) \<Longrightarrow> s_teidMap (session_at c r) IFTypeS5S8SGWGTPC \<noteq> None"
    "c_iteiSessionMap c t = Some (Some r) \<Longrightarrow> c_imsiSessionMap c (s_IMSI (session_at c r)) = Some r"
    "c_imsiSessionMap c imsi = Some r \<Longrightarrow> s_IMSI (session_at c r) = imsi"
    "c_imsiSessionMap c imsi = Some r \<Longrightarrow> \<exists>t. c_iteiSessionMap c t = Some (Some r)"
    "c_iteiSessionMap c t = Some (Some r) \<Longrightarrow> c_iteiSessionMap c t' = Some (Some r) \<Longrightarrow> t = t'"
    "c_imsiSessionMap c imsi = Some r \<Longrightarrow> r < length (c_heap c)" "c_msgHandlerMap c = pgw_handlers"
  using assms unfolding tables_agree_def by (blast, blast, blast, blast, blast, blast, blast, blast, metis option.sel, blast, blast)

lemma tables_agree_frame:
  "tables_agree c \<Longrightarrow> c_localIfType c' = c_localIfType c \<Longrightarrow> c_iteiSessionMap c' = c_iteiSessionMap c \<Longrightarrow>
     c_imsiSessionMap c' = c_imsiSessionMap c \<Longrightarrow> c_heap c' = c_heap c \<Longrightarrow>
     c_msgHandlerMap c' = c_msgHandlerMap c \<Longrightarrow> tables_agree c'"
  by (simp add: tables_agree_def)

lemma RespondTo_frame:
  "c_localIfType (snd (RespondTo env a req M c)) = c_localIfType c"
  "c_iteiSessionMap (snd (RespondTo env a req M c)) = c_iteiSessionMap c"
  "c_imsiSessionMap (snd (RespondTo env a req M c)) = c_imsiSessionMap c"
  "c_heap (snd (RespondTo env a req M c)) = c_heap c"
  "c_msgHandlerMap (snd (RespondTo env a req M c)) = c_msgHandlerMap c"
  "c_validationEnabled (snd (RespondTo env a req M c)) = c_validationEnabled c"
  "c_laddr (snd (RespondTo env a req M c)) = c_laddr c"
  by (rule RespondTo_cases [of req M env a c], simp)+

lemma tables_agree_remove:
  assumes "tables_agree c" "c_iteiSessionMap c t = Some (Some r)"
  shows "RemoveSession order r c =
      (Inr (), c\<lparr>c_imsiSessionMap := (c_imsiSessionMap c)(s_IMSI (session_at c r) := None),
                 c_iteiSessionMap := (c_iteiSessionMap c)(t := None)\<rparr>)"
    and "tables_agree (c\<lparr>c_imsiSessionMap := (c_imsiSessionMap c)(s_IMSI (session_at c r) := None),
                 c_iteiSessionMap := (c_iteiSessionMap c)(t := None)\<rparr>)"
proof -
  have t: "GetTEID (c_localIfType c) (session_at c r) = Inr t"
    using assms by (simp add: tables_agree_def GetTEID_def)
  show "RemoveSession order r c =
      (Inr (), c\<lparr>c_imsiSessionMap := (c_imsiSessionMap c)(s_IMSI (session_at c r) := None),
                 c_iteiSessionMap := (c_iteiSessionMap c)(t := None)\<rparr>)"
    by (rule remove_known [OF t])
  show "tables_agree (c\<lparr>c_imsiSessionMap := (c_imsiSessionMap c)(s_IMSI (session_at c r) := None),
                 c_iteiSessionMap := (c_iteiSessionMap c)(t := None)\<rparr>)"
    using assms unfolding tables_agree_def by (auto split: if_splits) (metis option.sel)+
qed

lemma tables_agree_forget:
  assumes "tables_agree c"
  obtains c' where "forget_previous order imsi c = (Inr (), c')" "tables_agree c'" "c_imsiSessionMap c' imsi = None"
    "c_heap c' = c_heap c" "c_sent c' = c_sent c" "c_writes c' = c_writes c" "c_laddr c' = c_laddr c"
    "c_msgHandlerMap c' = c_msgHandlerMap c" "c_validationEnabled c' = c_validationEnabled c"
    "\<And>t. c_iteiSessionMap c' t = (case c_iteiSessionMap c t of
       Some (Some r) \<Rightarrow> if s_IMSI (session_at c r) = imsi then None else Some (Some r) | x \<Rightarrow> x)"
    "\<And>i. c_imsiSessionMap c' i = (if i = imsi then None else c_imsiSessionMap c i)"
proof (cases "c_imsiSessionMap c imsi")
  case None
  then have "forget_previous order imsi c = (Inr (), c)"
    by (simp add: forget_previous_def GetSessionByIMSI_def)
  moreover have "c_iteiSessionMap c t = (case c_iteiSessionMap c t of
       Some (Some r) \<Rightarrow> if s_IMSI (session_at c r) = imsi then None else Some (Some r) | x \<Rightarrow> x)" for t
    using assms None by (fastforce simp: tables_agree_def split: option.split)
  ultimately show ?thesis using that [of c] assms None by simp
next
  case (Some r)
  then obtain t where t: "c_iteiSessionMap c t = Some (Some r)" "s_IMSI (session_at c r) = imsi"
    using assms unfolding tables_agree_def by blast
  have "(c_iteiSessionMap c)(t := None) = (\<lambda>t. case c_iteiSessionMap c t of
       Some (Some r) \<Rightarrow> if s_IMSI (session_at c r) = imsi then None else Some (Some r) | x \<Rightarrow> x)"
  proof
    fix t'
    show "((c_iteiSessionMap c)(t := None)) t' = (case c_iteiSessionMap c t' of
       Some (Some r) \<Rightarrow> if s_IMSI (session_at c r) = imsi then None else Some (Some r) | x \<Rightarrow> x)"
    proof (cases "t' = t")
      case False
      have "s_IMSI (session_at c r') \<noteq> imsi" if "c_iteiSessionMap c t' = Some (Some r')" for r'
        using tables_agreeD(6) [OF assms that] tables_agreeD(9) [OF assms t(1), of t'] that Some False by auto
      with False show ?thesis by (auto split: option.split)
    qed (simp add: t)
  qed
  note itei = fun_cong [OF this]
  let ?c' = "c\<lparr>c_imsiSessionMap := (c_imsiSessionMap c)(s_IMSI (session_at c r) := None),
                 c_iteiSessionMap := (c_iteiSessionMap c)(t := None)\<rparr>"
  show ?thesis
  proof (rule that [of ?c'])
    show "forget_previous order imsi c = (Inr (), ?c')"
      using Some tables_agree_remove(1) [OF assms t(1), of order] by (simp add: forget_previous_def GetSessionByIMSI_def)
    show "tables_agree ?c'" by (rule tables_agree_remove(2) [OF assms t(1)])
    show "c_iteiSessionMap ?c' t' = (case c_iteiSessionMap c t' of
       Some (Some r) \<Rightarrow> if s_IMSI (session_at c r) = imsi then None else Some (Some r) | x \<Rightarrow> x)" for t'
      using itei [of t'] by simp
  qed (simp_all add: t(2))
qed

lemma Register_handlers: "c_msgHandlerMap (RegisterSession t r c) = c_msgHandlerMap c"
  by (simp add: RegisterSession_def)

lemma tables_agree_register:
  assumes "tables_agree c" "\<And>r. c_iteiSessionMap c t \<noteq> Some (Some r)" "c_imsiSessionMap c (s_IMSI s) = None"
    "s_isActive s" "s_teidMap s IFTypeS5S8SGWGTPC \<noteq> None"
  shows "tables_agree (snd (register_new t s c))"
proof -
  let ?c = "c\<lparr>c_heap := c_heap c @ [s]\<rparr>"
  define S where "S r = session_at (RegisterSession t (length (c_heap c)) ?c) r" for r
  have at: "S r = (if r = length (c_heap c) then AddTEID IFTypeS5S8PGWGTPC t s else session_at ?c r)" for r
    using session_at_Register [of "length (c_heap c)" ?c t r] assms(1) by (simp add: tables_agree_def S_def)
  have "s_isActive (AddTEID IFTypeS5S8PGWGTPC t s)" using assms(4) by (simp add: AddTEID_def)
  note new = this and D = tables_agreeD [OF assms(1)]
  let ?n = "length (c_heap c)"
  have row: "r < Suc ?n \<and> s_isActive (S r) \<and>
      s_teidMap (S r) IFTypeS5S8PGWGTPC = Some t' \<and>
      s_teidMap (S r) IFTypeS5S8SGWGTPC \<noteq> None \<and>
      ((c_imsiSessionMap c)(s_IMSI s \<mapsto> ?n)) (s_IMSI (S r)) = Some r"
    if "((c_iteiSessionMap c)(t \<mapsto> Some ?n)) t' = Some (Some r)" for t' r
  proof (cases "t' = t")
    case True
    with that new assms(5) show ?thesis by (simp add: at)
  next
    case False
    with that have old: "c_iteiSessionMap c t' = Some (Some r)" by simp
    note D(2-6) [OF old]
    moreover from this(5) assms(3) have "s_IMSI (session_at c r) \<noteq> s_IMSI s" by auto
    ultimately show ?thesis by (simp add: at nth_append)
  qed
  have name: "s_IMSI (S r) = imsi \<and>
      (\<exists>t'. ((c_iteiSessionMap c)(t \<mapsto> Some ?n)) t' = Some (Some r))"
    if "((c_imsiSessionMap c)(s_IMSI s \<mapsto> ?n)) imsi = Some r" for imsi r
  proof (cases "imsi = s_IMSI s")
    case True
    with that show ?thesis by (auto simp: at)
  next
    case False
    with that have old: "c_imsiSessionMap c imsi = Some r" by simp
    then obtain t' where "c_iteiSessionMap c t' = Some (Some r)" using D(8) by blast
    moreover from this assms(2) have "t' \<noteq> t" by auto
    ultimately show ?thesis using D(7,10) [OF old] by (auto simp: at nth_append)
  qed
  show ?thesis
    unfolding register_new_def snd_conv tables_agree_def S_def [symmetric] using row name by (simp add: D(1,11) Register_handlers)
qed

section \<open>Reading the request\<close>

lemma upd_default_sel [simp]:
  "s_Subscriber (upd_default f s) = s_Subscriber s" "s_peerAddrString (upd_default f s) = s_peerAddrString s"
  "s_teidMap (upd_default f s) = s_teidMap s"
  by (simp_all add: upd_default_def SetDefaultBearer_def split: option.split)

lemma upd_default_bearer:
  "GetDefaultBearer (upd_default f s) = map_option f (GetDefaultBearer s)"
  by (simp add: upd_default_def GetDefaultBearer_def SetDefaultBearer_def split: option.split)

lemma AddTEID_bearer [simp]: "GetDefaultBearer (AddTEID t v s) = GetDefaultBearer s"
  by (simp add: GetDefaultBearer_def)

definition same_subscriber :: "session \<Rightarrow> session \<Rightarrow> bool" where
  "same_subscriber s s' \<longleftrightarrow> s_IMSI s' = s_IMSI s \<and> s_peerAddrString s' = s_peerAddrString s \<and>
     (s_teidMap s IFTypeS5S8SGWGTPC \<noteq> None \<longrightarrow> s_teidMap s' IFTypeS5S8SGWGTPC \<noteq> None) \<and>
     (GetDefaultBearer s \<noteq> None \<longrightarrow> GetDefaultBearer s' \<noteq> None)"

lemma same_subscriber_trans: "same_subscriber s t \<Longrightarrow> same_subscriber t u \<Longrightarrow> same_subscriber s u"
  by (auto simp: same_subscriber_def)

lemma same_subscriber_refl: "same_subscriber s s"
  by (simp add: same_subscriber_def)

lemma same_subscriber_step:
  "same_subscriber s t \<Longrightarrow> same_subscriber s (upd_default f t)"
  "same_subscriber s t \<Longrightarrow> same_subscriber s (AddTEID it v t)"
  "same_subscriber s t \<Longrightarrow> same_subscriber s (set_MSISDN m t)"
  "same_subscriber s t \<Longrightarrow> same_subscriber s (set_IMEI m t)"
  "same_subscriber s t \<Longrightarrow> same_subscriber s (upd_location g t)"
proof -
  have "same_subscriber t (upd_default f t)" by (simp add: same_subscriber_def upd_default_bearer)
  then show "same_subscriber s t \<Longrightarrow> same_subscriber s (upd_default f t)" by (blast intro: same_subscriber_trans)
qed (auto simp: same_subscriber_def set_MSISDN_def set_IMEI_def upd_location_def upd_subscriber_def GetDefaultBearer_def)

lemma read_children_keeps:
  "read_children is (s, a, n) = Inr (s', a', n') \<Longrightarrow> same_subscriber s s'"
proof (induction "is" arbitrary: s a n)
  case (Cons i "is")
  note trans = same_subscriber_trans [OF same_subscriber_step(1) [OF same_subscriber_refl]]
    same_subscriber_trans [OF same_subscriber_step(2) [OF same_subscriber_refl]]
  from Cons.prems show ?case
    by (auto simp: andThen_eq_Inr split: if_splits dest!: Cons.IH intro: trans)
qed (simp add: same_subscriber_def)

lemma read_session_keeps:
  assumes "read_session a imsi req = Inr (s, ip, n)"
  shows "s_IMSI s = imsi" "s_peerAddrString s = a" "s_teidMap s IFTypeS5S8SGWGTPC \<noteq> None" "GetDefaultBearer s \<noteq> None"
proof -
  let ?s = "set_IMSI imsi (NewSession a no_subscriber)"
  have start: "s_IMSI ?s = imsi" "s_peerAddrString ?s = a" "GetDefaultBearer ?s \<noteq> None"
    by (simp_all add: set_IMSI_def upd_subscriber_def NewSession_def GetDefaultBearer_def)
  obtain m e n' mcc mnc rat v t g where t:
      "t = upd_location (\<lambda>l. l\<lparr>loc_RATType := rat\<rparr>) (upd_location (\<lambda>l. l\<lparr>loc_MCC := mcc, loc_MNC := mnc\<rparr>)
        (upd_default (\<lambda>b. b\<lparr>br_APN := n'\<rparr>) (set_IMEI e (set_MSISDN m ?s))))"
      "same_subscriber (AddTEID IFTypeS5S8SGWGTPC v t) s"
    using assms unfolding read_session_def Let_def required_def
    by (auto simp: andThen_eq_Inr split: option.splits dest!: read_children_keeps)
       (blast intro: same_subscriber_step(1))
  have "same_subscriber ?s t" unfolding t(1) by (intro same_subscriber_step same_subscriber_refl)
  have "s_teidMap (AddTEID IFTypeS5S8SGWGTPC v t) IFTypeS5S8SGWGTPC \<noteq> None" by simp
  with t(2) start \<open>same_subscriber ?s t\<close> show "s_IMSI s = imsi" "s_peerAddrString s = a" "s_teidMap s IFTypeS5S8SGWGTPC \<noteq> None"
    "GetDefaultBearer s \<noteq> None"
    by (simp_all add: same_subscriber_def)
qed

section \<open>Reserving a TEID\<close>

lemma ie_TEID_WithInstance [simp]: "ie_TEID (WithInstance n i) = ie_TEID i"
  by (cases i) (simp add: ie_TEID_def key_in_def WithInstance_def Let_def)

lemma fteid_TEID:
  assumes "ifType AND 0xc0 = 0"
  obtains i where "NewFullyQualifiedTEID ifType teid v4 v6 = Inr (Some i)" "ie_TEID i = Inr teid"
    "ie_Type i = IE_FullyQualifiedTEID"
proof -
  let ?w = "fteid_wire ifType teid (To4 (ParseIP v4)) (To16 (ParseIP v6))"
  have "\<not> length ?w < 5" by (simp add: fteid_wire_def)
  moreover have "get32 ?w 1 = Inr teid" by (simp add: get32_def fteid_wire_def be32_def)
  ultimately show ?thesis
    using that by (simp add: NewFullyQualifiedTEID_def fteid_Marshal_wire ie_TEID_def key_in_def)
qed

text \<open>The state in which a session of that name can be registered under the TEID of that element.\<close>

definition ready :: "string \<Rightarrow> ie \<Rightarrow> conn \<Rightarrow> bool" where
  "ready imsi i c \<longleftrightarrow> tables_agree c \<and> c_imsiSessionMap c imsi = None \<and>
     (\<exists>t. ie_TEID i = Inr t \<and> c_iteiSessionMap c t = Some None)"

lemma tables_agree_reserve:
  "tables_agree c \<Longrightarrow> c_iteiSessionMap c t = None \<Longrightarrow> tables_agree (c\<lparr>c_iteiSessionMap := (c_iteiSessionMap c)(t \<mapsto> None)\<rparr>)"
proof -
  assume c: "tables_agree c" and t: "c_iteiSessionMap c t = None"
  have "\<exists>t'. ((c_iteiSessionMap c)(t \<mapsto> None)) t' = Some (Some r)" if "c_imsiSessionMap c imsi = Some r" for imsi r
  proof -
    obtain t' where "c_iteiSessionMap c t' = Some (Some r)" using tables_agreeD(8) [OF c \<open>c_imsiSessionMap c imsi = Some r\<close>] by blast
    moreover from this t have "t' \<noteq> t" by auto
    ultimately show ?thesis by auto
  qed
  then show ?thesis using c by (simp add: tables_agree_def)
qed

lemma NewSenderFTEID_cases:
  assumes "c_localIfType c AND 0xc0 = 0"
  obtains "NewSenderFTEID rnd v4 v6 c = (Inr None, c)" "first_free 65535 0 rnd (c_iteiSessionMap c) = None"
  | t i where "NewSenderFTEID rnd v4 v6 c = (Inr (Some i), c\<lparr>c_iteiSessionMap := (c_iteiSessionMap c)(t \<mapsto> None)\<rparr>)"
      "first_free 65535 0 rnd (c_iteiSessionMap c) = Some t" "ie_TEID i = Inr t" "ie_Type i = IE_FullyQualifiedTEID"
      "t \<noteq> 0" "c_iteiSessionMap c t = None"
proof (cases "first_free 65535 0 rnd (c_iteiSessionMap c)")
  case None
  then show ?thesis using that(1) by (simp add: NewSenderFTEID_def)
next
  case (Some t)
  obtain i where "NewFullyQualifiedTEID (c_localIfType c) t v4 v6 = Inr (Some i)" "ie_TEID i = Inr t"
    "ie_Type i = IE_FullyQualifiedTEID"
    by (rule fteid_TEID [OF assms])
  with Some show ?thesis
    using that(2) [of i t] first_free_cases(1) [OF Some] by (simp add: NewSenderFTEID_def)
qed

section \<open>The handlers keep the tables in agreement\<close>

abbreviation agree :: "'k pgw \<Rightarrow> bool" where
  "agree p \<equiv> tables_agree (p_cConn p)"

lemma tables_agree_Respond: "tables_agree c \<Longrightarrow> tables_agree (snd (RespondTo env a req M c))"
  by (rule tables_agree_frame [of c]) (simp_all add: RespondTo_frame)

definition open_for :: "string \<Rightarrow> u32 \<Rightarrow> conn \<Rightarrow> bool" where
  "open_for imsi t c \<longleftrightarrow> tables_agree c \<and> c_imsiSessionMap c imsi = None \<and> c_iteiSessionMap c t = Some None"

lemma open_for_Respond: "open_for imsi t c \<Longrightarrow> open_for imsi t (snd (RespondTo env a req M c))"
  by (simp add: open_for_def tables_agree_Respond RespondTo_frame)

lemma htriple_keep:
  "(\<And>c. P c \<Longrightarrow> P (snd (f c))) \<Longrightarrow> (\<And>c. P c \<Longrightarrow> E c) \<Longrightarrow>
     htriple (\<lambda>p. P (p_cConn p)) (on_cConn f) (\<lambda>_ p. P (p_cConn p)) (\<lambda>p. E (p_cConn p))"
  by (rule htriple_conn) (auto split: prod.split sum.split; metis snd_conv)

lemma htriple_weaken:
  "htriple P m Q E \<Longrightarrow> (\<And>p. P' p \<Longrightarrow> P p) \<Longrightarrow> (\<And>x p. Q x p \<Longrightarrow> Q' x p) \<Longrightarrow> (\<And>p. E p \<Longrightarrow> E' p) \<Longrightarrow> htriple P' m Q' E'"
  unfolding htriple_def by (fastforce split: prod.splits sum.splits)

lemma answer_agree:
  assumes "s_teidMap s IFTypeS5S8PGWGTPC = Some t" "s_teidMap s IFTypeS5S8SGWGTPC \<noteq> None"
  shows "htriple (\<lambda>p. open_for (s_IMSI s) t (p_cConn p)) (answer_and_register nl rk pe a req rsp s ip n teidU)
    (\<lambda>_. agree) agree"
  unfolding answer_and_register_def
proof (rule htriple_bind)
  show "htriple (\<lambda>p. open_for (s_IMSI s) t (p_cConn p))
     (on_cConn (RespondTo (pe_env pe) a (Msg_CreateSessionRequest req) (Msg_CreateSessionResponse rsp)))
     (\<lambda>_ p. open_for (s_IMSI s) t (p_cConn p)) agree"
    by (rule htriple_keep) (auto simp: open_for_Respond, simp add: open_for_def)
  fix x
  have reg: "htriple (\<lambda>p. open_for (s_IMSI s) t (p_cConn p)) (on_cConn (register_new t s')) (\<lambda>_. agree) agree"
    if "Activate s = Inr s'" for s'
  proof (rule htriple_weaken [OF htriple_conn])
    fix c
    assume c: "open_for (s_IMSI s) t c"
    have s': "s' = s\<lparr>s_isActive := True\<rparr>" using that by (simp add: Activate_def split: if_splits)
    have "tables_agree (snd (register_new t s' c))"
      by (rule tables_agree_register) (use c assms s' in \<open>auto simp: open_for_def\<close>)
    then show "case register_new t s' c of (Inr x, c') \<Rightarrow> tables_agree c' | (Inl e, c') \<Rightarrow> tables_agree c'"
      by (simp add: register_new_def)
  qed simp_all
  have rest: "htriple agree (pbind (ppure (default_bearer s')) (\<lambda>b p. if p_useKernelGTP p
        then setupUPlane nl rk (ParseIP ip) (ParseIP (br_SubscriberIP b)) n teidU p else (Inr (), p))) (\<lambda>_. agree) agree" for s'
  proof (rule htriple_leaves)
    show "leaves_conn (pbind (ppure (default_bearer s')) (\<lambda>b p. if p_useKernelGTP p
        then setupUPlane nl rk (ParseIP ip) (ParseIP (br_SubscriberIP b)) n teidU p else (Inr (), p)))"
      by (intro leaves_bind) (simp_all add: leaves_conn_def ppure_def setupUPlane_conn [unfolded leaves_conn_def])
  qed
  have "GetTEID IFTypeS5S8PGWGTPC s = Inr t" using assms by (simp add: GetTEID_def)
  then show "htriple (\<lambda>p. open_for (s_IMSI s) t (p_cConn p))
     (pbind (ppure (GetTEID IFTypeS5S8PGWGTPC s)) (\<lambda>pgwTEID. pbind (ppure (Activate s)) (\<lambda>s.
      pbind (on_cConn (register_new pgwTEID s)) (\<lambda>_. pbind (ppure (default_bearer s)) (\<lambda>b p. if p_useKernelGTP p
        then setupUPlane nl rk (ParseIP ip) (ParseIP (br_SubscriberIP b)) n teidU p else (Inr (), p))))))
     (\<lambda>_. agree) agree"
  proof (cases "Activate s")
    case (Inl e)
    with \<open>GetTEID IFTypeS5S8PGWGTPC s = Inr t\<close> show ?thesis
      by (auto simp: htriple_def pbind_def ppure_def open_for_def)
  next
    case (Inr s')
    have "htriple (\<lambda>p. open_for (s_IMSI s) t (p_cConn p)) (pbind (on_cConn (register_new t s')) (\<lambda>_.
        pbind (ppure (default_bearer s')) (\<lambda>b p. if p_useKernelGTP p
          then setupUPlane nl rk (ParseIP ip) (ParseIP (br_SubscriberIP b)) n teidU p else (Inr (), p)))) (\<lambda>_. agree) agree"
      by (rule htriple_bind [OF reg [OF Inr] rest])
    then show ?thesis
      using \<open>GetTEID IFTypeS5S8PGWGTPC s = Inr t\<close> Inr by (simp add: htriple_def pbind_def [of "ppure _"] ppure_def)
  qed
qed

lemma htriple_uConn:
  "htriple (\<lambda>p. P (p_cConn p)) (on_uConn f) (\<lambda>_ p. P (p_cConn p)) (\<lambda>p. P (p_cConn p))"
  by (rule htriple_leaves) (simp add: leaves_conn_def)

lemma htriple_fixed: "(\<And>p. P p \<Longrightarrow> E p) \<Longrightarrow> htriple P (ppure r) (\<lambda>x p. P p \<and> r = Inr x) E"
  by (rule htriple_pure) auto

lemma accept_agree:
  assumes "s_teidMap s IFTypeS5S8SGWGTPC \<noteq> None"
  shows "htriple (\<lambda>p. agree p \<and> c_imsiSessionMap (p_cConn p) (s_IMSI s) = None)
    (accept_with nl rk pe a req cIP uIP s ip n) (\<lambda>_. agree) agree"
proof -
  let ?O = "\<lambda>i p. \<forall>t. ie_TEID i = Inr t \<longrightarrow> open_for (s_IMSI s) t (p_cConn p)"
  let ?R = "\<lambda>i p. (\<exists>t. ie_TEID i = Inr t) \<and> ?O i p"
  have agree: "?R i p \<Longrightarrow> agree p" for i p by (auto simp: open_for_def)
  have reserve: "htriple (\<lambda>p. agree p \<and> c_imsiSessionMap (p_cConn p) (s_IMSI s) = None)
      (on_cConn (NewSenderFTEID (pe_rndC pe) cIP [])) (\<lambda>i p. case i of None \<Rightarrow> agree p | Some i \<Rightarrow> ?R i p) agree"
  proof (rule htriple_weaken [OF htriple_conn])
    fix c
    assume c: "tables_agree c \<and> c_imsiSessionMap c (s_IMSI s) = None"
    then have "c_localIfType c AND 0xc0 = 0" by (simp add: tables_agree_def)
    then show "case NewSenderFTEID (pe_rndC pe) cIP [] c of
        (Inr i, c') \<Rightarrow> (case i of None \<Rightarrow> tables_agree c'
          | Some i \<Rightarrow> (\<exists>t. ie_TEID i = Inr t) \<and> (\<forall>t. ie_TEID i = Inr t \<longrightarrow> open_for (s_IMSI s) t c'))
      | (Inl e, c') \<Rightarrow> tables_agree c'"
      by (rule NewSenderFTEID_cases [where rnd = "pe_rndC pe" and ?v4.0 = cIP and ?v6.0 = "[]"])
         (use c in \<open>auto simp: open_for_def tables_agree_reserve\<close>)
  qed (auto split: option.splits)
  have inst: "htriple (\<lambda>p. case i of None \<Rightarrow> agree p | Some i \<Rightarrow> ?R i p) (ppure (with_instance 1 i)) ?R agree" for i
    by (rule htriple_pure) (auto simp: with_instance_def agree split: option.splits)
  have answer: "htriple (?R i) (pbind (ppure (ie_MustTEID i)) (\<lambda>teidC. pbind (ppure (ie_MustTEID j)) (\<lambda>teidU.
      answer_and_register nl rk pe a req rsp (AddTEID IFTypeS5S8PGWGTPU teidU (AddTEID IFTypeS5S8PGWGTPC teidC s)) ip n teidU)))
      (\<lambda>_. agree) agree" for i j rsp
  proof (rule htriple_bind)
    show "htriple (?R i) (ppure (ie_MustTEID i)) (\<lambda>t p. open_for (s_IMSI s) t (p_cConn p)) agree"
      by (rule htriple_pure) (auto simp: ie_MustTEID_def must_def agree)
    fix t
    show "htriple (\<lambda>p. open_for (s_IMSI s) t (p_cConn p)) (pbind (ppure (ie_MustTEID j)) (\<lambda>teidU.
        answer_and_register nl rk pe a req rsp (AddTEID IFTypeS5S8PGWGTPU teidU (AddTEID IFTypeS5S8PGWGTPC t s)) ip n teidU))
        (\<lambda>_. agree) agree"
    proof (rule htriple_bind)
      show "htriple (\<lambda>p. open_for (s_IMSI s) t (p_cConn p)) (ppure (ie_MustTEID j))
          (\<lambda>_ p. open_for (s_IMSI s) t (p_cConn p)) agree"
        by (rule htriple_pure) (auto simp: open_for_def)
      fix u
      show "htriple (\<lambda>p. open_for (s_IMSI s) t (p_cConn p))
          (answer_and_register nl rk pe a req rsp (AddTEID IFTypeS5S8PGWGTPU u (AddTEID IFTypeS5S8PGWGTPC t s)) ip n u)
          (\<lambda>_. agree) agree"
        using answer_agree [of "AddTEID IFTypeS5S8PGWGTPU u (AddTEID IFTypeS5S8PGWGTPC t s)" t] assms by simp
    qed
  qed
  have pure: "htriple (?R i) (ppure r) (\<lambda>_. ?R i) agree" for i and r :: "'x result"
    by (rule htriple_pure) (auto simp: agree)
  have uconn: "htriple (?R i) (on_uConn f) (\<lambda>_. ?R i) agree" for i and f :: "nat \<Rightarrow> 'y uop"
    by (rule htriple_weaken [OF htriple_uConn [where P = "\<lambda>c. (\<exists>t. ie_TEID i = Inr t) \<and>
      (\<forall>t. ie_TEID i = Inr t \<longrightarrow> open_for (s_IMSI s) t c)"]]) (auto simp: agree)
  show ?thesis
    unfolding accept_with_def
    by (intro htriple_bind [OF reserve] htriple_bind [OF inst] htriple_bind [OF uconn] htriple_bind [OF pure] answer)
qed

lemma create_agree:
  fixes nl :: "'k netlink"
  shows "htriple agree (handleCreateSessionRequest nl rk pe a req) (\<lambda>_. agree) agree"
  unfolding handleCreateSessionRequest_def
proof (intro htriple_bind)
  show "htriple agree (ppure (required IE_IMSI (m_field req CreateSessionRequest_IMSI) ie_IMSI)) (\<lambda>_. agree) agree"
    by (rule htriple_pure) auto
  fix imsi
  show "htriple agree (on_cConn (forget_previous (pe_order pe) imsi))
      (\<lambda>_ p. agree p \<and> c_imsiSessionMap (p_cConn p) imsi = None) agree"
  proof (rule htriple_weaken [OF htriple_conn])
    fix c
    assume c: "tables_agree c"
    show "case forget_previous (pe_order pe) imsi c of
        (Inr x, c') \<Rightarrow> tables_agree c' \<and> c_imsiSessionMap c' imsi = None | (Inl e, c') \<Rightarrow> tables_agree c'"
      by (rule tables_agree_forget [OF c, of "pe_order pe" imsi]) simp
  qed simp_all
  show "htriple (\<lambda>p. agree p \<and> c_imsiSessionMap (p_cConn p) imsi = None) (ppure (read_session a imsi req))
      (\<lambda>x p. agree p \<and> (case x of (s, _) \<Rightarrow> c_imsiSessionMap (p_cConn p) (s_IMSI s) = None \<and>
         s_teidMap s IFTypeS5S8SGWGTPC \<noteq> None)) agree"
    by (rule htriple_pure) (auto dest: read_session_keeps(1,3))
  fix x :: "session \<times> string \<times> u32"
  obtain s ip n where x: "x = (s, ip, n)" by (cases x)
  show "htriple (\<lambda>p :: 'k pgw. agree p \<and> (case x of (s, _) \<Rightarrow> c_imsiSessionMap (p_cConn p) (s_IMSI s) = None \<and>
      s_teidMap s IFTypeS5S8SGWGTPC \<noteq> None)) (accept_session nl rk pe a req x) (\<lambda>_. agree) agree"
  proof (rule htripleI)
    fix p :: "'k pgw"
    assume p: "agree p \<and> (case x of (s, _) \<Rightarrow> c_imsiSessionMap (p_cConn p) (s_IMSI s) = None \<and>
      s_teidMap s IFTypeS5S8SGWGTPC \<noteq> None)"
    then have s: "s_teidMap s IFTypeS5S8SGWGTPC \<noteq> None" by (simp add: x)
    show "case accept_session nl rk pe a req x p of (Inr x, p') \<Rightarrow> agree p' | (Inl e, p') \<Rightarrow> agree p'"
      using accept_agree [OF s, of nl rk pe a req "host_of (c_laddr (p_cConn p))" "host_of (p_s5u p)" ip n] p
      by (simp add: accept_session_def x htriple_def)
  qed
qed

lemma session_found:
  assumes "GetSessionByTEID t a c = Inr r"
  shows "c_iteiSessionMap c t = Some (Some r)" "s_peerAddrString (session_at c r) = a"
  using assms by (auto simp: GetSessionByTEID_def split: option.splits if_splits)

lemma delete_agree:
  assumes "tables_agree c"
  shows "tables_agree (snd (handleDeleteSessionRequest pe a msg c))"
proof (cases "GetSessionByTEID (v2_TEID msg) a c")
  case (Inl e)
  then show ?thesis
    using tables_agree_Respond [OF assms, of "pe_env pe" a msg "delete_response 0 CauseIMSIIMEINotKnown"] assms
    by (auto simp: handleDeleteSessionRequest_def bind_op_def fail_op_def split: failure.split prod.splits sum.splits)
next
  case (Inr r)
  note r = session_found [OF Inr]
  then obtain teid where teid: "GetTEID IFTypeS5S8SGWGTPC (session_at c r) = Inr teid"
    using tables_agreeD(5) [OF assms r(1)] by (auto simp: GetTEID_def)
  let ?r = "RespondTo (pe_env pe) a msg (delete_response teid CauseRequestAccepted) c"
  have "tables_agree (snd ?r)" by (rule tables_agree_Respond [OF assms])
  moreover from this have "tables_agree (snd (RemoveSession (pe_order pe) r (snd ?r)))"
    using tables_agree_remove(1) [of "snd ?r" "v2_TEID msg" r "pe_order pe"]
      tables_agree_remove(2) [of "snd ?r" "v2_TEID msg" r] r by (simp add: RespondTo_frame)
  ultimately show ?thesis
    by (auto simp: handleDeleteSessionRequest_def Inr teid bind_op_def split: prod.splits sum.splits)
qed

lemma call_default_agree:
  assumes "\<And>n. h \<noteq> User n" "tables_agree c"
  shows "tables_agree (snd (call_handler env h a msg c))"
  using assms
  by (cases h) (auto simp: handleEchoRequest_def handleEchoResponse_def handleVersionNotSupportedIndication_def
      tables_agree_Respond split: v2_message.split)

lemma validate_agree: "tables_agree c \<Longrightarrow> tables_agree (snd (validate env a msg c))"
  by (auto simp: validate_def v2_Version_def Let_def split: sum.split failure.split)

lemma on_cConn_agree: "tables_agree (snd (f (p_cConn p))) \<Longrightarrow> agree (snd (on_cConn f p))"
  by (cases "f (p_cConn p)") (simp add: on_cConn_def)

lemma dispatch_agree:
  assumes "agree p"
  shows "agree (snd (dispatch nl rk pe a msg p))"
proof (cases "c_msgHandlerMap (p_cConn p) (v2_MessageType msg)")
  case None
  with assms show ?thesis by (simp add: dispatch_def)
next
  case (Some h)
  show ?thesis
  proof (cases "\<exists>n. h = User n")
    case True
    then obtain n where n: "h = User n" by blast
    have create: "agree (snd (handleCreateSessionRequest nl rk pe a req p))" for req
      using create_agree [of nl rk pe a req] assms
      by (cases "handleCreateSessionRequest nl rk pe a req p") (auto simp: htriple_def split: sum.splits)
    have delete: "agree (snd (on_cConn (handleDeleteSessionRequest pe a msg) p))"
      by (rule on_cConn_agree) (rule delete_agree [OF assms])
    from create delete show ?thesis
      by (cases n) (auto simp: dispatch_def Some n assms split: v2_message.split)
  next
    case False
    then have "agree (snd (on_cConn (call_handler (pe_env pe) h a msg) p))"
      by (intro on_cConn_agree call_default_agree [OF _ assms]) auto
    with False show ?thesis by (cases h) (simp_all add: dispatch_def Some)
  qed
qed

lemma serve_agree:
  assumes "agree p"
  shows "agree (snd (pgw_serve nl rk pe a raw p))"
proof (cases "v2_Parse raw")
  case (Inr msg)
  let ?v = "on_cConn (\<lambda>c. if c_validationEnabled c then validate (pe_env pe) a msg c else (Inr (), c))"
  have v: "agree (snd (?v p))"
    by (rule on_cConn_agree) (use assms in \<open>simp add: validate_agree\<close>)
  have "agree (snd (pbind ?v (\<lambda>_. dispatch nl rk pe a msg) p))"
    using v dispatch_agree [of "snd (?v p)" nl rk pe a msg]
    by (cases "?v p") (simp add: pbind_def split: sum.split)
  then show ?thesis by (auto simp: pgw_serve_def Inr split: prod.splits sum.splits failure.splits)
qed (use assms in \<open>auto simp: pgw_serve_def split: failure.split\<close>)

section \<open>A request that is accepted\<close>

lemma pbind_Inr: "m p = (Inr x, p') \<Longrightarrow> pbind m f p = f x p'"
  by (simp add: pbind_def)

lemma pbind_pure [simp]: "pbind (ppure (Inr x)) f = f x" "pbind (ppure (Inl e)) f = (\<lambda>p. (Inl e, p))"
  by (simp_all add: pbind_def ppure_def fun_eq_iff)

lemma answer_effect:
  assumes "GetTEID IFTypeS5S8PGWGTPC s = Inr t" "s_IMSI s \<noteq> []" "GetDefaultBearer s \<noteq> None"
    "env_write (pe_env pe) (c_writes (p_cConn p))"
  obtains w N where
    "v2_Marshal (v2_SetSequenceNumber (v2_Sequence (Msg_CreateSessionRequest req)) (Msg_CreateSessionResponse rsp)) = Inr (w, N)"
    "p_cConn (snd (answer_and_register nl rk pe a req rsp s ip n teidU p)) =
       snd (register_new t (s\<lparr>s_isActive := True\<rparr>)
         ((p_cConn p)\<lparr>c_writes := c_writes (p_cConn p) + 1, c_sent := c_sent (p_cConn p) @ [(w, a)]\<rparr>))"
proof -
  obtain w N where w: "v2_Marshal (v2_SetSequenceNumber (v2_Sequence (Msg_CreateSessionRequest req)) (Msg_CreateSessionResponse rsp)) = Inr (w, N)"
    and respond: "RespondTo (pe_env pe) a (Msg_CreateSessionRequest req) (Msg_CreateSessionResponse rsp) (p_cConn p) =
      (Inr (), (p_cConn p)\<lparr>c_writes := c_writes (p_cConn p) + 1, c_sent := c_sent (p_cConn p) @ [(w, a)]\<rparr>)"
    by (rule RespondTo_cases [of "Msg_CreateSessionRequest req" "Msg_CreateSessionResponse rsp" "pe_env pe" a "p_cConn p"])
       (use assms(4) in auto)
  let ?c = "(p_cConn p)\<lparr>c_writes := c_writes (p_cConn p) + 1, c_sent := c_sent (p_cConn p) @ [(w, a)]\<rparr>"
  let ?s = "s\<lparr>s_isActive := True\<rparr>" and ?p = "p\<lparr>p_cConn := ?c\<rparr>"
  obtain b where b: "default_bearer ?s = Inr b"
    using assms(3) by (auto simp: default_bearer_def GetDefaultBearer_def)
  have "Activate s = Inr ?s" using assms(2) by (simp add: Activate_def)
  moreover have "on_cConn (register_new t ?s) ?p = (Inr (), ?p\<lparr>p_cConn := snd (register_new t ?s ?c)\<rparr>)"
    by (simp add: on_cConn_def register_new_def)
  moreover have "on_cConn (RespondTo (pe_env pe) a (Msg_CreateSessionRequest req) (Msg_CreateSessionResponse rsp)) p = (Inr (), ?p)"
    by (simp add: on_cConn_def respond)
  ultimately have "answer_and_register nl rk pe a req rsp s ip n teidU p =
      (if p_useKernelGTP p then setupUPlane nl rk (ParseIP ip) (ParseIP (br_SubscriberIP b)) n teidU (?p\<lparr>p_cConn := snd (register_new t ?s ?c)\<rparr>)
       else (Inr (), ?p\<lparr>p_cConn := snd (register_new t ?s ?c)\<rparr>))"
    by (simp add: answer_and_register_def assms(1) b pbind_Inr)
  then show ?thesis
    using that [OF w] setupUPlane_conn [of nl rk "ParseIP ip" "ParseIP (br_SubscriberIP b)" n teidU]
    by (simp add: leaves_conn_def)
qed

lemma paa_Marshal_total: "\<exists>i. NewPDNAddressAllocation addr = Inr (Some i) \<and> ie_Type i = IE_PDNAddressAllocation \<and> Instance i = 0"
proof -
  let ?a = "ParseIP addr"
  have "\<exists>b. paa_Marshal (if To4 ?a \<noteq> [] then NewPDNAddressAllocationFields pdnTypeIPv4 (To4 ?a) [] 0
      else if To16 ?a \<noteq> [] then NewPDNAddressAllocationFields pdnTypeIPv6 [] (To16 ?a) 0
      else NewPDNAddressAllocationFields pdnTypeNonIP [] [] 0) = Inr b"
    using To4_length [of ?a] To16_length [of ?a]
    by (auto simp: paa_Marshal_def paa_MarshalLen_def paa_MarshalTo_def NewPDNAddressAllocationFields_def Let_def
        write_at_def copy_at_def)
  then show ?thesis
    by (auto simp: NewPDNAddressAllocation_def NewPDNAddressAllocationNetIP_def Let_def ie_New_eq Instance_def)
qed

lemma csid_total:
  assumes "length (ParseIP cIP) = 16"
  shows "\<exists>f. NewFullyQualifiedCSID cIP [1] = Inr f"
proof -
  let ?a = "ParseIP cIP"
  have "?a \<noteq> []" using assms by auto
  then show ?thesis using assms To4_length [of ?a]
    by (auto simp: NewFullyQualifiedCSID_def NewFullyQualifiedCSIDFields_def Let_def fq_Marshal_def
        fq_MarshalTo_def fq_MarshalLen_def write_at_def copy_at_def be16_def or_nil_def)
qed

lemma create_response_ok:
  assumes "GetDefaultBearer s \<noteq> None" "m_field req CreateSessionRequest_SGWFQCSID = None \<or> length (ParseIP cIP) = 16"
    "ie_Type cF = IE_FullyQualifiedTEID"
  obtains m where "create_response req cIP s teid (WithInstance 1 cF) uF = Inr m"
    "m_field m CreateSessionResponse_Cause = Some (NewCause CauseRequestAccepted 0 0 0 None)"
    "m_field m CreateSessionResponse_PGWS5S8FTEIDC = Some (WithInstance 1 cF)"
    "v2_TEID (Msg_CreateSessionResponse m) = teid"
proof -
  obtain b where b: "default_bearer s = Inr b" using assms(1) by (auto simp: default_bearer_def)
  obtain paa where paa: "NewPDNAddressAllocation (br_SubscriberIP b) = Inr (Some paa)"
      "ie_Type paa = IE_PDNAddressAllocation" "Instance paa = 0"
    using paa_Marshal_total by blast
  define ctx where "ctx = (case NewBearerContext [Some (NewCause CauseRequestAccepted 0 0 0 None),
      Some (NewEPSBearerID (br_EBI b)), Some uF, Some (NewChargingID (br_ChargingID b))] of Inr (Some g) \<Rightarrow> g)"
  have ctx: "NewBearerContext [Some (NewCause CauseRequestAccepted 0 0 0 None),
      Some (NewEPSBearerID (br_EBI b)), Some uF, Some (NewChargingID (br_ChargingID b))] = Inr (Some ctx)"
      "ie_Type ctx = IE_BearerContext" "Instance ctx = 0"
    by (simp_all add: ctx_def NewBearerContext_def newGroupedIE_eq Instance_def)
  have types: "ie_Type (NewCause CauseRequestAccepted 0 0 0 None) = IE_Cause" "Instance (NewCause CauseRequestAccepted 0 0 0 None) = 0"
    "ie_Type (NewAPNRestriction n) = IE_APNRestriction" "ie_Type (WithInstance 1 cF) = IE_FullyQualifiedTEID"
    "Instance (WithInstance 1 cF) = 1" for n
    using assms(3) by (cases cF; simp add: NewCause_def NewAPNRestriction_def newUint8ValIE_def ie_New_eq Instance_def WithInstance_def)+
  let ?m = "NewCreateSessionResponse teid 0 [Some (NewCause CauseRequestAccepted 0 0 0 None), Some (WithInstance 1 cF),
      Some paa, Some (NewAPNRestriction APNRestrictionPublic2), Some ctx]"
  have fields: "m_field ?m CreateSessionResponse_Cause = Some (NewCause CauseRequestAccepted 0 0 0 None)"
      "m_field ?m CreateSessionResponse_PGWS5S8FTEIDC = Some (WithInstance 1 cF)"
    by (simp_all add: NewCreateSessionResponse_def msg_New_def msg_SetLength_def store_ie_def
        CreateSessionResponse_switch_def types paa ctx empty_msg_def)
  have teid: "v2_TEID (Msg_CreateSessionResponse ?m) = teid"
    by (simp add: v2_TEID_def h_teid_def NewCreateSessionResponse_def msg_New_def msg_SetLength_def NewHeader_def
        NewHeaderFlags_def HasTEID_def h_SetLength_def empty_msg_def)
  show ?thesis
  proof (cases "m_field req CreateSessionRequest_SGWFQCSID")
    case None
    then show ?thesis using that [OF _ fields teid] b paa(1) ctx(1) by (simp add: create_response_def)
  next
    case (Some x)
    then obtain f where f: "NewFullyQualifiedCSID cIP [1] = Inr f" using assms(2) csid_total by auto
    let ?m' = "?m\<lparr>m_field := (m_field ?m)(CreateSessionResponse_PGWFQCSID := f)\<rparr>"
    have "create_response req cIP s teid (WithInstance 1 cF) uF = Inr ?m'"
      using Some f b paa(1) ctx(1) by (simp add: create_response_def Let_def)
    moreover have "v2_TEID (Msg_CreateSessionResponse ?m') = teid" using teid by (simp add: v2_TEID_def)
    ultimately show ?thesis using that [of ?m'] fields by simp
  qed
qed

lemma first_free_some:
  assumes "k < n" "rnd k \<noteq> 0" "m (rnd k) = None"
  obtains t where "first_free n 0 rnd m = Some t"
proof (cases "first_free n 0 rnd m")
  case None
  from first_free_cases(2) [OF this assms(1)] assms(2,3) show ?thesis by simp
qed (rule that)

lemma NewFTEID_some:
  assumes "k < 65535" "rnd k \<noteq> 0" "u_iteiMap (uconn_at w u) (rnd k) = None" "ifType AND 0xc0 = 0"
  obtains i w' t where "NewFTEID rnd now ifType v4 v6 u w = (Inr (Some i), w')" "ie_TEID i = Inr t"
proof -
  obtain t where t: "first_free 65535 0 rnd (u_iteiMap (uconn_at w u)) = Some t"
    using first_free_some [of k 65535 rnd "u_iteiMap (uconn_at w u)"] assms(1-3) by blast
  obtain i where "NewFullyQualifiedTEID ifType t v4 v6 = Inr (Some i)" "ie_TEID i = Inr t"
    by (rule fteid_TEID [OF assms(4)])
  with t that show ?thesis by (simp add: NewFTEID_def)
qed

text \<open>
  The request can be accepted: its elements can be read, both connections find a TEID among the ones
  drawn, the response can be written, and the local address is an IP address if a node identity of
  it is asked for.
\<close>

definition acceptable ::
  "pgw_env \<Rightarrow> addr \<Rightarrow> CreateSessionRequest_field v2_msg \<Rightarrow> string \<Rightarrow> session \<times> string \<times> u32 \<Rightarrow> 'k pgw \<Rightarrow> bool" where
  "acceptable pe a req imsi x p \<longleftrightarrow>
     required IE_IMSI (m_field req CreateSessionRequest_IMSI) ie_IMSI = Inr imsi \<and> imsi \<noteq> [] \<and>
     read_session a imsi req = Inr x \<and>
     (\<exists>k < 65535. pe_rndC pe k \<noteq> 0 \<and> c_iteiSessionMap (p_cConn p) (pe_rndC pe k) = None) \<and>
     (\<exists>k < 65535. pe_rndU pe k \<noteq> 0 \<and> u_iteiMap (kconn (p_tunnels p) (p_uConn p)) (pe_rndU pe k) = None) \<and>
     env_write (pe_env pe) (c_writes (p_cConn p)) \<and>
     (m_field req CreateSessionRequest_SGWFQCSID = None \<or> length (ParseIP (host_of (c_laddr (p_cConn p)))) = 16)"

lemma accept_effect:
  fixes p :: "'k pgw"
  assumes c: "tables_agree (p_cConn p)" "s_teidMap s IFTypeS5S8SGWGTPC = Some teid" "s_IMSI s \<noteq> []"
    "GetDefaultBearer s \<noteq> None" "env_write (pe_env pe) (c_writes (p_cConn p))"
    "m_field req CreateSessionRequest_SGWFQCSID = None \<or> length (ParseIP cIP) = 16"
    "k < 65535" "pe_rndC pe k \<noteq> 0" "c_iteiSessionMap (p_cConn p) (pe_rndC pe k) = None"
    "k' < 65535" "pe_rndU pe k' \<noteq> 0" "u_iteiMap (kconn (p_tunnels p) (p_uConn p)) (pe_rndU pe k') = None"
  obtains t u rsp w N where "t \<noteq> 0" "t \<in> range (pe_rndC pe)" "c_iteiSessionMap (p_cConn p) t = None"
    "v2_Marshal (v2_SetSequenceNumber (v2_Sequence (Msg_CreateSessionRequest req)) (Msg_CreateSessionResponse rsp)) = Inr (w, N)"
    "v2_TEID (Msg_CreateSessionResponse rsp) = teid"
    "m_field rsp CreateSessionResponse_Cause = Some (NewCause CauseRequestAccepted 0 0 0 None)"
    "\<exists>i. m_field rsp CreateSessionResponse_PGWS5S8FTEIDC = Some i \<and> ie_TEID i = Inr t"
    "p_cConn (snd (accept_with nl rk pe a req cIP uIP s ip n p)) =
       snd (register_new t ((AddTEID IFTypeS5S8PGWGTPU u (AddTEID IFTypeS5S8PGWGTPC t s))\<lparr>s_isActive := True\<rparr>)
         ((p_cConn p)\<lparr>c_iteiSessionMap := (c_iteiSessionMap (p_cConn p))(t \<mapsto> None),
            c_writes := c_writes (p_cConn p) + 1, c_sent := c_sent (p_cConn p) @ [(w, a)]\<rparr>))"
proof -
  have lif: "c_localIfType (p_cConn p) AND 0xc0 = 0" using c(1) by (simp add: tables_agree_def)
  obtain t where t: "first_free 65535 0 (pe_rndC pe) (c_iteiSessionMap (p_cConn p)) = Some t"
    using first_free_some [of k 65535 "pe_rndC pe" "c_iteiSessionMap (p_cConn p)"] c(7-9) by blast
  obtain cF where cF: "NewSenderFTEID (pe_rndC pe) cIP [] (p_cConn p) =
      (Inr (Some cF), (p_cConn p)\<lparr>c_iteiSessionMap := (c_iteiSessionMap (p_cConn p))(t \<mapsto> None)\<rparr>)"
    "ie_TEID cF = Inr t" "ie_Type cF = IE_FullyQualifiedTEID" "t \<noteq> 0" "c_iteiSessionMap (p_cConn p) t = None"
    by (rule NewSenderFTEID_cases [OF lif, where rnd = "pe_rndC pe" and ?v4.0 = cIP and ?v6.0 = "[]"]) (use t in auto)
  let ?c = "(p_cConn p)\<lparr>c_iteiSessionMap := (c_iteiSessionMap (p_cConn p))(t \<mapsto> None)\<rparr>"
  have five: "(IFTypeS5S8PGWGTPU :: byte) AND 0xc0 = 0" by simp
  obtain uF w' u where uF: "NewFTEID (pe_rndU pe) (pe_now pe) IFTypeS5S8PGWGTPU uIP [] (p_uConn p) (kn_world (p_tunnels p)) =
      (Inr (Some uF), w')" "ie_TEID uF = Inr u"
    by (rule NewFTEID_some [where rnd = "pe_rndU pe", OF c(10-12) five])
  define p2 where "p2 = p\<lparr>p_cConn := ?c, p_tunnels := (p_tunnels p)\<lparr>kn_world := w'\<rparr>\<rparr>"
  obtain rsp where rsp: "create_response req cIP s teid (WithInstance 1 cF) (WithInstance 2 uF) = Inr rsp"
    "m_field rsp CreateSessionResponse_Cause = Some (NewCause CauseRequestAccepted 0 0 0 None)"
    "m_field rsp CreateSessionResponse_PGWS5S8FTEIDC = Some (WithInstance 1 cF)"
    "v2_TEID (Msg_CreateSessionResponse rsp) = teid"
    by (rule create_response_ok [OF c(4,6) cF(3)])
  let ?s = "AddTEID IFTypeS5S8PGWGTPU u (AddTEID IFTypeS5S8PGWGTPC t s)"
  have "accept_with nl rk pe a req cIP uIP s ip n p = answer_and_register nl rk pe a req rsp ?s ip n u p2"
  proof -
    have one: "on_cConn (NewSenderFTEID (pe_rndC pe) cIP []) p = (Inr (Some cF), p\<lparr>p_cConn := ?c\<rparr>)"
      by (simp add: on_cConn_def cF(1))
    have two: "on_uConn (NewFTEID (pe_rndU pe) (pe_now pe) IFTypeS5S8PGWGTPU uIP []) (p\<lparr>p_cConn := ?c\<rparr>) = (Inr (Some uF), p2)"
      by (simp add: on_uConn_def on_tunnels_def uF(1) p2_def)
    show ?thesis
      using c(2) by (simp add: accept_with_def pbind_Inr one two with_instance_def GetTEID_def rsp(1)
          ie_MustTEID_def must_def cF(2) uF(2))
  qed
  moreover have "GetTEID IFTypeS5S8PGWGTPC ?s = Inr t" "s_IMSI ?s \<noteq> []" "GetDefaultBearer ?s \<noteq> None"
    "env_write (pe_env pe) (c_writes (p_cConn p2))"
    using c(3-5) by (simp_all add: GetTEID_def p2_def)
  moreover from this obtain w N where
    "v2_Marshal (v2_SetSequenceNumber (v2_Sequence (Msg_CreateSessionRequest req)) (Msg_CreateSessionResponse rsp)) = Inr (w, N)"
    "p_cConn (snd (answer_and_register nl rk pe a req rsp ?s ip n u p2)) =
       snd (register_new t (?s\<lparr>s_isActive := True\<rparr>)
         ((p_cConn p2)\<lparr>c_writes := c_writes (p_cConn p2) + 1, c_sent := c_sent (p_cConn p2) @ [(w, a)]\<rparr>))"
    by (rule answer_effect)
  moreover have "t \<in> range (pe_rndC pe)" using first_free_cases(1) [OF t] by auto
  ultimately show ?thesis
    using that [of t rsp w N u] cF rsp by (simp add: p2_def)
qed

lemma create_effect:
  assumes "tables_agree (p_cConn p)" "acceptable pe a req imsi (s, ip, n) p"
  obtains t u rsp w N c1 where "t \<noteq> 0" "t \<in> range (pe_rndC pe)" "tables_agree c1" "c_imsiSessionMap c1 imsi = None" "c_heap c1 = c_heap (p_cConn p)"
    "c_iteiSessionMap c1 t = None" "c_sent c1 = c_sent (p_cConn p)"
    "\<And>t. c_iteiSessionMap c1 t = (case c_iteiSessionMap (p_cConn p) t of
       Some (Some r) \<Rightarrow> if s_IMSI (session_at (p_cConn p) r) = imsi then None else Some (Some r) | x \<Rightarrow> x)"
    "v2_Marshal (v2_SetSequenceNumber (v2_Sequence (Msg_CreateSessionRequest req)) (Msg_CreateSessionResponse rsp)) = Inr (w, N)"
    "GetTEID IFTypeS5S8SGWGTPC s = Inr (v2_TEID (Msg_CreateSessionResponse rsp))"
    "m_field rsp CreateSessionResponse_Cause = Some (NewCause CauseRequestAccepted 0 0 0 None)"
    "\<exists>i. m_field rsp CreateSessionResponse_PGWS5S8FTEIDC = Some i \<and> ie_TEID i = Inr t"
    "s_IMSI s = imsi" "s_peerAddrString s = a"
    "p_cConn (snd (handleCreateSessionRequest nl rk pe a req p)) =
       snd (register_new t ((AddTEID IFTypeS5S8PGWGTPU u (AddTEID IFTypeS5S8PGWGTPC t s))\<lparr>s_isActive := True\<rparr>)
         (c1\<lparr>c_iteiSessionMap := (c_iteiSessionMap c1)(t \<mapsto> None),
            c_writes := c_writes c1 + 1, c_sent := c_sent c1 @ [(w, a)]\<rparr>))"
proof -
  note ok = assms(2) [unfolded acceptable_def]
  have read: "read_session a imsi req = Inr (s, ip, n)" using ok by blast
  note keeps = read_session_keeps [OF read]
  then obtain teid where teid: "s_teidMap s IFTypeS5S8SGWGTPC = Some teid" by auto
  obtain c1 where c1: "forget_previous (pe_order pe) imsi (p_cConn p) = (Inr (), c1)" "tables_agree c1"
    "c_imsiSessionMap c1 imsi = None" "c_heap c1 = c_heap (p_cConn p)" "c_sent c1 = c_sent (p_cConn p)"
    "c_writes c1 = c_writes (p_cConn p)" "c_laddr c1 = c_laddr (p_cConn p)" "c_msgHandlerMap c1 = c_msgHandlerMap (p_cConn p)"
    "c_validationEnabled c1 = c_validationEnabled (p_cConn p)"
    "\<And>t. c_iteiSessionMap c1 t = (case c_iteiSessionMap (p_cConn p) t of
       Some (Some r) \<Rightarrow> if s_IMSI (session_at (p_cConn p) r) = imsi then None else Some (Some r) | x \<Rightarrow> x)"
    "\<And>i. c_imsiSessionMap c1 i = (if i = imsi then None else c_imsiSessionMap (p_cConn p) i)"
    by (rule tables_agree_forget [OF assms(1), of "pe_order pe" imsi], rule that) (assumption | blast)+
  let ?p = "p\<lparr>p_cConn := c1\<rparr>"
  obtain k k' where k: "k < 65535" "pe_rndC pe k \<noteq> 0" "c_iteiSessionMap (p_cConn ?p) (pe_rndC pe k) = None"
    and k': "k' < 65535" "pe_rndU pe k' \<noteq> 0" "u_iteiMap (kconn (p_tunnels ?p) (p_uConn ?p)) (pe_rndU pe k') = None"
    using ok c1(10) by auto
  have sel: "tables_agree (p_cConn ?p)" "s_IMSI s \<noteq> []" "env_write (pe_env pe) (c_writes (p_cConn ?p))"
    "m_field req CreateSessionRequest_SGWFQCSID = None \<or> length (ParseIP (host_of (c_laddr (p_cConn ?p)))) = 16"
    using ok c1 keeps(1) by auto
  obtain t u rsp w N where acc: "t \<noteq> 0" "t \<in> range (pe_rndC pe)" "c_iteiSessionMap (p_cConn ?p) t = None"
    "v2_Marshal (v2_SetSequenceNumber (v2_Sequence (Msg_CreateSessionRequest req)) (Msg_CreateSessionResponse rsp)) = Inr (w, N)"
    "v2_TEID (Msg_CreateSessionResponse rsp) = teid"
    "m_field rsp CreateSessionResponse_Cause = Some (NewCause CauseRequestAccepted 0 0 0 None)"
    "\<exists>i. m_field rsp CreateSessionResponse_PGWS5S8FTEIDC = Some i \<and> ie_TEID i = Inr t"
    "p_cConn (snd (accept_with nl rk pe a req (host_of (c_laddr (p_cConn ?p))) (host_of (p_s5u ?p)) s ip n ?p)) =
       snd (register_new t ((AddTEID IFTypeS5S8PGWGTPU u (AddTEID IFTypeS5S8PGWGTPC t s))\<lparr>s_isActive := True\<rparr>)
         ((p_cConn ?p)\<lparr>c_iteiSessionMap := (c_iteiSessionMap (p_cConn ?p))(t \<mapsto> None),
            c_writes := c_writes (p_cConn ?p) + 1, c_sent := c_sent (p_cConn ?p) @ [(w, a)]\<rparr>))"
    by (rule accept_effect [where p = ?p and k = k and k' = k', OF sel(1) teid sel(2) keeps(4) sel(3,4) k k'])
  have "on_cConn (forget_previous (pe_order pe) imsi) p = (Inr (), ?p)" by (simp add: on_cConn_def c1(1))
  then have "handleCreateSessionRequest nl rk pe a req p = accept_session nl rk pe a req (s, ip, n) ?p"
    using ok by (simp add: handleCreateSessionRequest_def pbind_Inr)
  then show ?thesis
    using that [of t c1 rsp w N u] acc c1 keeps teid by (simp add: accept_session_def GetTEID_def)
qed

end
