(* ===== verification/TesterPgwSessions.thy ===== *)
theory TesterPgwSessions
  imports TesterPgwRun
begin

text \<open>
  The P-GW as a program: the states it reaches from the start, one datagram after the other, and
  what they promise its peers. Three properties of \<open>TesterPgw\<close>: the tables agree, a request for a
  session is answered and the session found, a deleted session is found no more.
\<close>

section \<open>The program\<close>

text \<open>
  The states of the program: the connection as \<open>run\<close> makes it, then one datagram after the other. A
  state in which a handler panicked ends the program; it is counted as well, and so are its successors.
\<close>

inductive pgw_reachable :: "'k netlink \<Rightarrow> 'k routing \<Rightarrow> 'k pgw \<Rightarrow> bool" for nl rk where
  start: "p_cConn p = new_cConn s5c \<Longrightarrow> pgw_reachable nl rk p"
| serve: "pgw_reachable nl rk p \<Longrightarrow> pgw_reachable nl rk (snd (pgw_serve nl rk pe a raw p))"

lemma new_cConn_agree: "tables_agree (new_cConn s5c)"
  by (simp add: tables_agree_def pgw_handlers_def new_cConn_def AddHandlers_def AddHandler_def NewConn_def)

lemma reachable_agree: "pgw_reachable nl rk p \<Longrightarrow> agree p"
  by (induction rule: pgw_reachable.induct) (simp_all add: new_cConn_agree serve_agree)

lemma pgw_handlers_at:
  "pgw_handlers MsgTypeCreateSessionRequest = Some (User 0)" "pgw_handlers MsgTypeDeleteSessionRequest = Some (User 1)"
  by (simp_all add: pgw_handlers_def new_cConn_def AddHandlers_def AddHandler_def)

lemma session_request_type:
  "v2_Parse raw = Inr (Msg_CreateSessionRequest m) \<Longrightarrow> v2_MessageType (Msg_CreateSessionRequest m) = MsgTypeCreateSessionRequest"
  "v2_Parse raw = Inr (Msg_DeleteSessionRequest d) \<Longrightarrow> v2_MessageType (Msg_DeleteSessionRequest d) = MsgTypeDeleteSessionRequest"
  using v2_Parse_header [of raw]
  by (auto dest!: v2_Parse_inv dest: h_Parse_fields(1) simp: v2_MessageType_def h_MessageType_def)

lemma serve_valid:
  assumes "v2_Parse raw = Inr msg" "v2_TEID msg = 0 \<or> GetSessionByTEID (v2_TEID msg) a (p_cConn p) = Inr r"
  shows "snd (pgw_serve nl rk pe a raw p) = snd (dispatch nl rk pe a msg p)"
proof -
  have "(if c_validationEnabled c then validate (pe_env pe) a msg c else (Inr (), c)) = (Inr (), c)"
    if "c = p_cConn p" for c
    using assms(2) that by (auto simp: validate_cases session_table_def reserved_def GetSessionByTEID_def split: option.splits if_splits)
  then have "on_cConn (\<lambda>c. if c_validationEnabled c then validate (pe_env pe) a msg c else (Inr (), c)) p = (Inr (), p)"
    by (simp add: on_cConn_def)
  then show ?thesis
    using assms(1) by (cases "dispatch nl rk pe a msg p")
      (auto simp: pgw_serve_def pbind_Inr split: sum.splits failure.splits)
qed

lemma serve_create:
  assumes "pgw_reachable nl rk p" "v2_Parse raw = Inr (Msg_CreateSessionRequest req)" "v2_TEID (Msg_CreateSessionRequest req) = 0"
  shows "snd (pgw_serve nl rk pe a raw p) = snd (handleCreateSessionRequest nl rk pe a req p)"
  using serve_valid [where a = a and p = p and nl = nl and rk = rk and pe = pe, OF assms(2)] assms(3) tables_agreeD(11) [OF reachable_agree [OF assms(1)]]
  by (simp add: dispatch_def session_request_type(1) [OF assms(2)] pgw_handlers_at)

lemma serve_delete:
  assumes "pgw_reachable nl rk p" "v2_Parse raw = Inr (Msg_DeleteSessionRequest req)"
    "GetSessionByTEID (v2_TEID (Msg_DeleteSessionRequest req)) a (p_cConn p) = Inr r"
  shows "p_cConn (snd (pgw_serve nl rk pe a raw p)) =
    snd (handleDeleteSessionRequest pe a (Msg_DeleteSessionRequest req) (p_cConn p))"
  using serve_valid [where a = a and p = p and r = r and nl = nl and rk = rk and pe = pe, OF assms(2)] assms(3) tables_agreeD(11) [OF reachable_agree [OF assms(1)]]
  by (simp add: dispatch_def session_request_type(2) [OF assms(2)] pgw_handlers_at on_cConn_def split: prod.split)

text \<open>What a Create Session Request that can be accepted does to the connection.\<close>

lemma serve_create_effect:
  assumes "pgw_reachable nl rk p" "v2_Parse raw = Inr (Msg_CreateSessionRequest req)"
    "v2_TEID (Msg_CreateSessionRequest req) = 0" "acceptable pe a req imsi (s, ip, n) p"
  defines "c \<equiv> p_cConn p" and "c' \<equiv> p_cConn (snd (pgw_serve nl rk pe a raw p))"
  obtains rsp w N i t r where "c_sent c' = c_sent c @ [(w, a)]"
    "v2_Marshal (v2_SetSequenceNumber (v2_Sequence (Msg_CreateSessionRequest req)) (Msg_CreateSessionResponse rsp)) = Inr (w, N)"
    "GetTEID IFTypeS5S8SGWGTPC s = Inr (v2_TEID (Msg_CreateSessionResponse rsp))"
    "m_field rsp CreateSessionResponse_Cause = Some (NewCause CauseRequestAccepted 0 0 0 None)"
    "m_field rsp CreateSessionResponse_PGWS5S8FTEIDC = Some i" "ie_TEID i = Inr t" "t \<noteq> 0" "t \<in> range (pe_rndC pe)"
    "GetSessionByTEID t a c' = Inr r" "GetSessionByIMSI imsi c' = Inr r"
    "IsActive (session_at c' r)" "s_IMSI (session_at c' r) = imsi"
    "\<And>t' b r'. t' \<noteq> t \<Longrightarrow> (session_table c' t' b = Some r') =
       (session_table c t' b = Some r' \<and> s_IMSI (session_at c r') \<noteq> imsi)"
proof -
  note agree = reachable_agree [OF assms(1)]
  obtain t u rsp w N c1 where e: "t \<noteq> 0" "t \<in> range (pe_rndC pe)" "tables_agree c1" "c_imsiSessionMap c1 imsi = None" "c_heap c1 = c_heap c"
    "c_iteiSessionMap c1 t = None" "c_sent c1 = c_sent c"
    "\<And>t. c_iteiSessionMap c1 t = (case c_iteiSessionMap c t of
       Some (Some r) \<Rightarrow> if s_IMSI (session_at c r) = imsi then None else Some (Some r) | x \<Rightarrow> x)"
    "v2_Marshal (v2_SetSequenceNumber (v2_Sequence (Msg_CreateSessionRequest req)) (Msg_CreateSessionResponse rsp)) = Inr (w, N)"
    "GetTEID IFTypeS5S8SGWGTPC s = Inr (v2_TEID (Msg_CreateSessionResponse rsp))"
    "m_field rsp CreateSessionResponse_Cause = Some (NewCause CauseRequestAccepted 0 0 0 None)"
    "\<exists>i. m_field rsp CreateSessionResponse_PGWS5S8FTEIDC = Some i \<and> ie_TEID i = Inr t"
    "s_IMSI s = imsi" "s_peerAddrString s = a"
    "p_cConn (snd (handleCreateSessionRequest nl rk pe a req p)) =
       snd (register_new t ((AddTEID IFTypeS5S8PGWGTPU u (AddTEID IFTypeS5S8PGWGTPC t s))\<lparr>s_isActive := True\<rparr>)
         (c1\<lparr>c_iteiSessionMap := (c_iteiSessionMap c1)(t \<mapsto> None),
            c_writes := c_writes c1 + 1, c_sent := c_sent c1 @ [(w, a)]\<rparr>))"
    by (rule create_effect [where nl = nl and rk = rk, OF agree assms(4), folded c_def], rule that) (assumption | blast)+
  let ?r = "length (c_heap c)"
  let ?s = "AddTEID IFTypeS5S8PGWGTPC t ((AddTEID IFTypeS5S8PGWGTPU u (AddTEID IFTypeS5S8PGWGTPC t s))\<lparr>s_isActive := True\<rparr>)"
  have heap: "c_heap c' = c_heap c @ [?s]" and itei: "c_iteiSessionMap c' = (c_iteiSessionMap c1)(t \<mapsto> Some ?r)"
    and imsi: "c_imsiSessionMap c' imsi = Some ?r" and sent: "c_sent c' = c_sent c @ [(w, a)]"
    using e(5,7,13) tables_agreeD(1) [OF e(3)]
    by (simp_all add: c'_def serve_create [OF assms(1-3)] e(15) register_new_def RegisterSession_def upd_session_def)
  have new: "session_at c' ?r = ?s" by (simp add: heap)
  have s: "s_peerAddrString ?s = a" "s_IMSI ?s = imsi" "s_isActive ?s" using e(13,14) by (simp_all add: AddTEID_def)
  have rows: "(session_table c' t' b = Some r') = (session_table c t' b = Some r' \<and> s_IMSI (session_at c r') \<noteq> imsi)"
    if "t' \<noteq> t" for t' b r'
  proof (cases "\<exists>r. c_iteiSessionMap c t' = Some (Some r)")
    case True
    then obtain r where r: "c_iteiSessionMap c t' = Some (Some r)" by blast
    then have "r < ?r" using tables_agreeD(2) [OF agree] by (simp add: c_def)
    then have "session_at c' r = session_at c r" by (simp add: heap nth_append)
    with r that show ?thesis by (auto simp: session_table_alt itei e(8))
  next
    case False
    then show ?thesis using that e(8) [of t'] by (auto simp: session_table_alt itei split: option.splits)
  qed
  have "GetSessionByTEID t a c' = Inr ?r" "GetSessionByIMSI imsi c' = Inr ?r"
    using s by (simp_all add: GetSessionByTEID_def GetSessionByIMSI_def itei imsi new)
  moreover obtain i where "m_field rsp CreateSessionResponse_PGWS5S8FTEIDC = Some i" "ie_TEID i = Inr t" using e(12) by blast
  moreover have "IsActive (session_at c' ?r)" "s_IMSI (session_at c' ?r) = imsi" using s by (simp_all only: new IsActive_def)
  ultimately show ?thesis using that [OF sent e(9-11)] e(1,2) rows by blast
qed

section \<open>A sample\<close>

text \<open>A subscriber with IMSI 123, whose session gets TEID 7.\<close>

definition sample_routing :: "'k routing" where
  "sample_routing = \<lparr>rk_Index = (\<lambda>_ _. 1), rk_RouteReplace = (\<lambda>_ k. (True, k)), rk_LinkByName = (\<lambda>n _. Some (n, 2)),
     rk_RuleList = (\<lambda>_. True), rk_RuleAdd = (\<lambda>_ k. (True, k))\<rparr>"

definition sample_pgw :: "(gtp_link option \<Rightarrow> pdp list) pgw" where
  "sample_pgw = \<lparr>p_cConn = new_cConn ''10.0.0.9:2123'', p_tunnels = sample_tunnels, p_uConn = 0, p_s5u = ''10.0.0.9:2152'',
     p_sgiIF = ''eth0'', p_useKernelGTP = False, p_routeSubnet = ([10, 0, 0, 0], [255, 0, 0, 0]),
     p_addedRoutes = [], p_addedRules = []\<rparr>"

definition sample_pgw_env :: pgw_env where
  "sample_pgw_env = \<lparr>pe_env = sample_env, pe_order = [], pe_rndC = (\<lambda>_. 7), pe_rndU = (\<lambda>_. 8), pe_now = 0\<rparr>"

definition sample_create :: bytes where
  "sample_create = [0x48, 32, 0, 86, 0, 0, 0, 0, 0, 0, 5, 0] @
     [1, 0, 2, 0, 0x21, 0xf3] @ [76, 0, 1, 0, 0x18] @ [75, 0, 1, 0, 0x21] @ [71, 0, 2, 0, 1, 97] @
     [83, 0, 3, 0, 0, 0xf1, 0x10] @ [82, 0, 1, 0, 6] @ [87, 0, 9, 0, 0x86, 0, 0, 0, 9, 10, 0, 0, 1] @
     [79, 0, 5, 0, 1, 10, 1, 0, 1] @ [93, 0, 18, 0, 73, 0, 1, 0, 5, 87, 0, 9, 2, 0x84, 0, 0, 0, 8, 10, 0, 0, 1]"

definition sample_delete :: bytes where
  "sample_delete = [0x48, 36, 0, 8, 0, 0, 0, 7, 0, 0, 6, 0]"

abbreviation sample_sgw :: addr where "sample_sgw \<equiv> ''10.0.0.1:2123''"

abbreviation sample_created :: "(gtp_link option \<Rightarrow> pdp list) pgw" where
  "sample_created \<equiv> snd (pgw_serve table_driver sample_routing sample_pgw_env sample_sgw sample_create sample_pgw)"

lemma sample_create_parse:
  "case v2_Parse sample_create of
     Inr (Msg_CreateSessionRequest m) \<Rightarrow> v2_TEID (Msg_CreateSessionRequest m) = 0 \<and>
       required IE_IMSI (m_field m CreateSessionRequest_IMSI) ie_IMSI = Inr ''123'' \<and>
       m_field m CreateSessionRequest_SGWFQCSID = None \<and>
       (case read_session sample_sgw ''123'' m of Inr (s, _) \<Rightarrow> GetTEID IFTypeS5S8SGWGTPC s = Inr 9 | _ \<Rightarrow> False)
   | _ \<Rightarrow> False"
  by code_simp

lemma parsed_request:
  "(case x of Inr (Msg_CreateSessionRequest m) \<Rightarrow> Q m | _ \<Rightarrow> False) \<Longrightarrow> \<exists>m. x = Inr (Msg_CreateSessionRequest m) \<and> Q m"
  by (auto split: sum.splits v2_message.splits)

lemma sample_acceptable:
  obtains req s ip n where "v2_Parse sample_create = Inr (Msg_CreateSessionRequest req)"
    "v2_TEID (Msg_CreateSessionRequest req) = 0" "GetTEID IFTypeS5S8SGWGTPC s = Inr 9"
    "acceptable sample_pgw_env sample_sgw req ''123'' (s, ip, n) sample_pgw"
proof -
  obtain req where r: "v2_Parse sample_create = Inr (Msg_CreateSessionRequest req)"
    "v2_TEID (Msg_CreateSessionRequest req) = 0" "required IE_IMSI (m_field req CreateSessionRequest_IMSI) ie_IMSI = Inr ''123''"
    "m_field req CreateSessionRequest_SGWFQCSID = None"
    "case read_session sample_sgw ''123'' req of Inr (s, _) \<Rightarrow> GetTEID IFTypeS5S8SGWGTPC s = Inr 9 | _ \<Rightarrow> False"
    using parsed_request [OF sample_create_parse] by blast
  from r(5) obtain s ip n where s: "read_session sample_sgw ''123'' req = Inr (s, ip, n)" "GetTEID IFTypeS5S8SGWGTPC s = Inr 9"
    by (cases "read_session sample_sgw ''123'' req") auto
  have "acceptable sample_pgw_env sample_sgw req ''123'' (s, ip, n) sample_pgw"
    unfolding acceptable_def
    by (intro conjI exI [of _ 0])
       (simp_all add: r s(1) sample_pgw_env_def sample_pgw_def sample_env_def sample_tunnels_def new_cConn_def AddHandlers_def
          AddHandler_def NewConn_def)
  with r s that show ?thesis by blast
qed

lemma sample_reachable:
  "pgw_reachable table_driver sample_routing sample_pgw"
  by (rule pgw_reachable.start [of _ "''10.0.0.9:2123''"]) (simp add: sample_pgw_def)

lemma sample_created_reachable: "pgw_reachable table_driver sample_routing sample_created"
  by (intro pgw_reachable.serve sample_reachable)

lemma sample_created_session:
  obtains r where "GetSessionByTEID 7 sample_sgw (p_cConn sample_created) = Inr r"
    "s_IMSI (session_at (p_cConn sample_created) r) = ''123''"
proof -
  obtain req s ip n where r: "v2_Parse sample_create = Inr (Msg_CreateSessionRequest req)"
    "v2_TEID (Msg_CreateSessionRequest req) = 0" "acceptable sample_pgw_env sample_sgw req ''123'' (s, ip, n) sample_pgw"
    by (rule sample_acceptable)
  show ?thesis
    by (rule serve_create_effect [OF sample_reachable r]) (rule that, auto simp: sample_pgw_env_def)
qed

section \<open>Properties\<close>

text \<open>
  C16. The two session tables of the P-GW agree in every state it reaches, whatever datagrams arrive,
  writes fail, TEIDs are drawn and routes cannot be set: a session found by TEID is active, has that
  TEID as its local one, and is the one found by its IMSI; a session found by an IMSI has that IMSI
  and is found by a TEID.
\<close>

theorem pgw_tables_agree:
  assumes "pgw_reachable nl rk p"
  shows "(\<forall>t a r. GetSessionByTEID t a (p_cConn p) = Inr r \<longrightarrow> IsActive (session_at (p_cConn p) r) \<and>
      GetTEID IFTypeS5S8PGWGTPC (session_at (p_cConn p) r) = Inr t \<and>
      GetSessionByIMSI (s_IMSI (session_at (p_cConn p) r)) (p_cConn p) = Inr r) \<and>
    (\<forall>imsi r. GetSessionByIMSI imsi (p_cConn p) = Inr r \<longrightarrow> s_IMSI (session_at (p_cConn p) r) = imsi \<and>
      (\<exists>t. GetSessionByTEID t (s_peerAddrString (session_at (p_cConn p) r)) (p_cConn p) = Inr r))"
proof -
  note D = tables_agreeD [OF reachable_agree [OF assms]]
  have "IsActive (session_at (p_cConn p) r) \<and> GetTEID IFTypeS5S8PGWGTPC (session_at (p_cConn p) r) = Inr t \<and>
      GetSessionByIMSI (s_IMSI (session_at (p_cConn p) r)) (p_cConn p) = Inr r"
    if "GetSessionByTEID t a (p_cConn p) = Inr r" for t a r
    using D(3,4,6) [OF session_found(1) [OF that]] by (simp add: IsActive_def GetTEID_def GetSessionByIMSI_def)
  moreover have "s_IMSI (session_at (p_cConn p) r) = imsi \<and>
      (\<exists>t. GetSessionByTEID t (s_peerAddrString (session_at (p_cConn p) r)) (p_cConn p) = Inr r)"
    if "GetSessionByIMSI imsi (p_cConn p) = Inr r" for imsi r
  proof -
    have imsi: "c_imsiSessionMap (p_cConn p) imsi = Some r" using that by (simp add: GetSessionByIMSI_def split: option.splits)
    obtain t where "c_iteiSessionMap (p_cConn p) t = Some (Some r)" using D(8) [OF imsi] by blast
    then have "GetSessionByTEID t (s_peerAddrString (session_at (p_cConn p) r)) (p_cConn p) = Inr r"
      by (simp add: GetSessionByTEID_def)
    then show ?thesis using D(7) [OF imsi] by blast
  qed
  ultimately show ?thesis by blast
qed

theorem pgw_tables_agree_witness:
  "\<exists>r. GetSessionByTEID 7 sample_sgw (p_cConn sample_created) = Inr r \<and>
     GetSessionByIMSI ''123'' (p_cConn sample_created) = Inr r"
proof -
  obtain r where "GetSessionByTEID 7 sample_sgw (p_cConn sample_created) = Inr r"
    "s_IMSI (session_at (p_cConn sample_created) r) = ''123''"
    by (rule sample_created_session)
  then show ?thesis using pgw_tables_agree [OF sample_created_reachable] by metis
qed

text \<open>
  C17. A Create Session Request that can be accepted: one response is sent, to the sender, with the
  sequence number of the request, the TEID of the S-GW, the cause "request accepted" and an F-TEID;
  the session is active and is found by the TEID of that F-TEID and the sender, and by the IMSI. The
  rows of the table for other TEIDs are what they were, less the session the subscriber had before.
\<close>

theorem pgw_creates_session:
  assumes "pgw_reachable nl rk p" "v2_Parse raw = Inr (Msg_CreateSessionRequest req)"
    "v2_TEID (Msg_CreateSessionRequest req) = 0" "acceptable pe a req imsi (s, ip, n) p"
  defines "c \<equiv> p_cConn p" and "c' \<equiv> p_cConn (snd (pgw_serve nl rk pe a raw p))"
  shows "\<exists>rsp w N i t r. c_sent c' = c_sent c @ [(w, a)] \<and>
    v2_Marshal (v2_SetSequenceNumber (v2_Sequence (Msg_CreateSessionRequest req)) (Msg_CreateSessionResponse rsp)) = Inr (w, N) \<and>
    GetTEID IFTypeS5S8SGWGTPC s = Inr (v2_TEID (Msg_CreateSessionResponse rsp)) \<and>
    m_field rsp CreateSessionResponse_Cause = Some (NewCause CauseRequestAccepted 0 0 0 None) \<and>
    m_field rsp CreateSessionResponse_PGWS5S8FTEIDC = Some i \<and> ie_TEID i = Inr t \<and> t \<noteq> 0 \<and>
    GetSessionByTEID t a c' = Inr r \<and> GetSessionByIMSI imsi c' = Inr r \<and>
    IsActive (session_at c' r) \<and> s_IMSI (session_at c' r) = imsi \<and>
    (\<forall>t' b r'. t' \<noteq> t \<longrightarrow> (session_table c' t' b = Some r') =
       (session_table c t' b = Some r' \<and> s_IMSI (session_at c r') \<noteq> imsi))"
  unfolding c_def c'_def
  by (rule serve_create_effect [OF assms(1-4)]) (intro exI conjI allI impI, (assumption | blast)+)

theorem pgw_creates_session_witness:
  "\<exists>w r. c_sent (p_cConn sample_created) = [(w, sample_sgw)] \<and> GetSessionByIMSI ''123'' (p_cConn sample_created) = Inr r \<and>
     IsActive (session_at (p_cConn sample_created) r)"
proof -
  obtain req s ip n where r: "v2_Parse sample_create = Inr (Msg_CreateSessionRequest req)"
    "v2_TEID (Msg_CreateSessionRequest req) = 0" "acceptable sample_pgw_env sample_sgw req ''123'' (s, ip, n) sample_pgw"
    by (rule sample_acceptable)
  moreover have "c_sent (p_cConn sample_pgw) = []"
    by (simp add: sample_pgw_def new_cConn_def AddHandlers_def AddHandler_def NewConn_def)
  ultimately show ?thesis using pgw_creates_session [OF sample_reachable r] by auto
qed

text \<open>
  C18. A Delete Session Request for a session of its sender: the response has the sequence number of
  the request, the TEID of the S-GW and the cause "request accepted"; then the session is found
  neither by its TEID nor by its IMSI, and every other row of both tables is as before.
\<close>

theorem pgw_deletes_session:
  assumes "pgw_reachable nl rk p" "v2_Parse raw = Inr (Msg_DeleteSessionRequest req)"
    "GetSessionByTEID (v2_TEID (Msg_DeleteSessionRequest req)) a (p_cConn p) = Inr r"
    "env_write (pe_env pe) (c_writes (p_cConn p))"
  defines "c \<equiv> p_cConn p" and "c' \<equiv> p_cConn (snd (pgw_serve nl rk pe a raw p))"
  shows "\<exists>teid w N. GetTEID IFTypeS5S8SGWGTPC (session_at c r) = Inr teid \<and> c_sent c' = c_sent c @ [(w, a)] \<and>
    v2_Marshal (v2_SetSequenceNumber (v2_Sequence (Msg_DeleteSessionRequest req)) (delete_response teid CauseRequestAccepted)) = Inr (w, N) \<and>
    session_table c' = delete_row (v2_TEID (Msg_DeleteSessionRequest req)) (session_table c) \<and>
    (\<forall>i. GetSessionByIMSI i c' =
       (if i = s_IMSI (session_at c r) then Inl (Error (V2UnknownIMSI i)) else GetSessionByIMSI i c))"
proof -
  let ?M = "Msg_DeleteSessionRequest req" let ?t = "v2_TEID ?M"
  note agree = reachable_agree [OF assms(1), folded c_def] and r = session_found [OF assms(3), folded c_def]
  obtain teid where teid: "GetTEID IFTypeS5S8SGWGTPC (session_at c r) = Inr teid"
    using tables_agreeD(5) [OF agree r(1)] by (auto simp: GetTEID_def)
  obtain w N where w: "v2_Marshal (v2_SetSequenceNumber (v2_Sequence ?M) (delete_response teid CauseRequestAccepted)) = Inr (w, N)"
    and respond: "RespondTo (pe_env pe) a ?M (delete_response teid CauseRequestAccepted) c =
      (Inr (), c\<lparr>c_writes := c_writes c + 1, c_sent := c_sent c @ [(w, a)]\<rparr>)"
    by (rule RespondTo_cases [of ?M "delete_response teid CauseRequestAccepted" "pe_env pe" a c])
       (use assms(4) in \<open>auto simp: c_def\<close>)
  let ?c = "c\<lparr>c_writes := c_writes c + 1, c_sent := c_sent c @ [(w, a)]\<rparr>"
  have "tables_agree ?c" by (rule tables_agree_frame [OF agree]) simp_all
  then have "c' = ?c\<lparr>c_imsiSessionMap := (c_imsiSessionMap c)(s_IMSI (session_at c r) := None),
      c_iteiSessionMap := (c_iteiSessionMap c)(?t := None)\<rparr>"
    using assms(3) tables_agree_remove(1) [of ?c ?t r "pe_order pe"] r
    by (simp add: c'_def serve_delete [OF assms(1-3)] handleDeleteSessionRequest_def c_def [symmetric] teid respond bind_op_def)
  then show ?thesis
    using teid w by (auto simp: session_table_alt delete_row_def GetSessionByIMSI_def fun_eq_iff split: option.split)
qed

theorem pgw_deletes_session_witness:
  "\<exists>p'. p' = snd (pgw_serve table_driver sample_routing sample_pgw_env sample_sgw sample_delete sample_created) \<and>
     GetSessionByIMSI ''123'' (p_cConn p') = Inl (Error (V2UnknownIMSI ''123'')) \<and>
     session_table (p_cConn p') 7 sample_sgw = None"
proof -
  obtain r where r: "GetSessionByTEID 7 sample_sgw (p_cConn sample_created) = Inr r"
    "s_IMSI (session_at (p_cConn sample_created) r) = ''123''"
    by (rule sample_created_session)
  have "case v2_Parse sample_delete of Inr (Msg_DeleteSessionRequest m) \<Rightarrow> v2_TEID (Msg_DeleteSessionRequest m) = 7 | _ \<Rightarrow> False"
    by code_simp
  then obtain m where m: "v2_Parse sample_delete = Inr (Msg_DeleteSessionRequest m)" "v2_TEID (Msg_DeleteSessionRequest m) = 7"
    by (auto split: sum.splits v2_message.splits)
  have "env_write (pe_env sample_pgw_env) (c_writes (p_cConn sample_created))"
    by (simp add: sample_pgw_env_def sample_env_def)
  with pgw_deletes_session [OF sample_created_reachable m(1), of sample_sgw r sample_pgw_env] r m(2)
  show ?thesis by (auto simp: delete_row_def)
qed

end
