(* ===== verification/TesterSgw.thy ===== *)
theory TesterSgw
  imports TesterPgw V2MsgMethods
begin

text \<open>
  The S-GW of \<open>src/examples/gw-tester/sgw\<close> (\<open>s11_handlers.go\<close>, \<open>s5_handlers.go\<close>, \<open>sgw.go\<close>): a connection of
  the control plane to the MME (S11), one to the P-GW (S5-C), and two of the user plane (S1-U, S5-U),
  between which it relays.

  A handler that waits for the answer of the other side is two functions: the first runs up to
  \<open>WaitMessage\<close> and returns the values the rest needs, the second goes on from \<open>WaitMessage\<close>, in the
  state that other handlers have left by then. An empty queue is the timeout. The local bearers of
  the handlers are the default bearers of their sessions. Metrics and logs are left out.
\<close>

section \<open>The state\<close>

abbreviation IFTypeS1USGWGTPU :: byte where "IFTypeS1USGWGTPU \<equiv> 1"
abbreviation IFTypeS11MMEGTPC :: byte where "IFTypeS11MMEGTPC \<equiv> 10"
abbreviation IFTypeS11S4SGWGTPC :: byte where "IFTypeS11S4SGWGTPC \<equiv> 11"
abbreviation CausePGWNotResponding :: byte where "CausePGWNotResponding \<equiv> 12"
abbreviation CauseContextNotFound :: byte where "CauseContextNotFound \<equiv> 64"
abbreviation CauseMandatoryIEMissing :: byte where "CauseMandatoryIEMissing \<equiv> 70"
abbreviation CauseNoResourcesAvailable :: byte where "CauseNoResourcesAvailable \<equiv> 73"

record 'k sgw =
  g_s11Conn :: conn
  g_s5cConn :: conn
  g_tunnels :: "'k tstate"
  g_s1uConn :: nat
  g_s5uConn :: nat
  g_s11IP :: string
  g_s5cIP :: string
  g_s1uIP :: string
  g_s5uIP :: string
  g_useKernelGTP :: bool

type_synonym ('k, 'a) gop = "('k sgw, 'a) sop"

text \<open>
  What the environment decides: writes, the orders of \<open>Range\<close> over the tables and the bearers, the
  random TEIDs, the clock, names (\<open>ge_dns\<close>, the empty address for a name that is not known).
\<close>

record sgw_env =
  ge_s11 :: env
  ge_s5c :: env
  ge_order11 :: "u32 list"
  ge_order5 :: "u32 list"
  ge_bearers :: "string list"
  ge_rnd11 :: "nat \<Rightarrow> u32"
  ge_rnd5 :: "nat \<Rightarrow> u32"
  ge_rnd1u :: "nat \<Rightarrow> u32"
  ge_rnd5u :: "nat \<Rightarrow> u32"
  ge_now :: nat
  ge_dns :: "string \<Rightarrow> ip"

definition on_s11 :: "'a op \<Rightarrow> ('k, 'a) gop" where
  "on_s11 f g = (let (r, c) = f (g_s11Conn g) in (r, g\<lparr>g_s11Conn := c\<rparr>))"

definition on_s5c :: "'a op \<Rightarrow> ('k, 'a) gop" where
  "on_s5c f g = (let (r, c) = f (g_s5cConn g) in (r, g\<lparr>g_s5cConn := c\<rparr>))"

definition on_tunnels_of :: "('k tstate \<Rightarrow> 'a result \<times> 'k tstate) \<Rightarrow> ('k, 'a) gop" where
  "on_tunnels_of f g = (let (r, t) = f (g_tunnels g) in (r, g\<lparr>g_tunnels := t\<rparr>))"

definition on_uplane :: "'a uop \<Rightarrow> ('k, 'a) gop" where
  "on_uplane f = on_tunnels_of (\<lambda>s. let (r, w) = f (kn_world s) in (r, s\<lparr>kn_world := w\<rparr>))"

text \<open>Reading and changing a session of a connection, and its default bearer, which may be nil.\<close>

definition look :: "(conn \<Rightarrow> 'a result) \<Rightarrow> 'a op" where
  "look f c = (f c, c)"

definition edit :: "nat \<Rightarrow> (session \<Rightarrow> session) \<Rightarrow> unit op" where
  "edit r f c = (Inr (), upd_session r f c)"

definition edit_default :: "nat \<Rightarrow> (bearer \<Rightarrow> bearer) \<Rightarrow> unit op" where
  "edit_default r f c =
     (case GetDefaultBearer (session_at c r) of
        None \<Rightarrow> (Inl (Panic NilDereference), c)
      | Some b \<Rightarrow> edit r (upd_default f) c)"

definition or_remove :: "u32 list \<Rightarrow> nat \<Rightarrow> 'a result \<Rightarrow> 'a op" where
  "or_remove order r res =
     (case res of
        Inr x \<Rightarrow> ret_op x
      | Inl (Panic p) \<Rightarrow> look (\<lambda>_. Inl (Panic p))
      | Inl (Error e) \<Rightarrow> bind_op (RemoveSession order r) (\<lambda>_. fail_op e))"

definition not_nil :: "ie option \<Rightarrow> ie result" where
  "not_nil i = (case i of None \<Rightarrow> Inl (Panic NilDereference) | Some i \<Rightarrow> Inr i)"

section \<open>Addresses\<close>

text \<open>
  \<open>net.ResolveUDPAddr\<close> and \<open>String\<close> of its result, for the numeric ports used here. An empty host is no
  address; a host that is not an address is looked up.
\<close>

definition JoinHostPort :: "string \<Rightarrow> string \<Rightarrow> addr" where
  "JoinHostPort host port =
     (if CHR '':'' \<in> set host then ''['' @ host @ '']:'' @ port else host @ '':'' @ port)"

definition ResolveUDPAddr :: "(string \<Rightarrow> ip) \<Rightarrow> string \<Rightarrow> addr result" where
  "ResolveUDPAddr dns address =
     (case SplitHostPort address of
        None \<Rightarrow> Inl (Error NetError)
      | Some (host, port) \<Rightarrow>
          if host = [] then Inr (JoinHostPort [] port)
          else let a = (if ParseIP host = [] then dns host else ParseIP host) in
            if a = [] then Inl (Error NetError) else Inr (JoinHostPort (ip_String a) port))"

abbreviation GTPCPort :: string where "GTPCPort \<equiv> '':2123''"
abbreviation GTPUPort :: string where "GTPUPort \<equiv> '':2152''"

text \<open>The F-TEID of the user plane of the other side becomes the remote end of the bearer.\<close>

definition handleFTEIDU :: "(string \<Rightarrow> ip) \<Rightarrow> ie \<Rightarrow> nat \<Rightarrow> unit op" where
  "handleFTEIDU dns i r =
     (if ie_Type i \<noteq> IE_FullyQualifiedTEID then fail_op (V2UnexpectedIE (ie_Type i))
      else
        bind_op (look (\<lambda>_. ie_IPAddress i)) (\<lambda>a.
        bind_op (look (\<lambda>_. ResolveUDPAddr dns (a @ GTPUPort))) (\<lambda>raddr.
        bind_op (edit_default r (SetRemoteAddress raddr)) (\<lambda>_.
        bind_op (look (\<lambda>_. ie_TEID i)) (\<lambda>teid.
        bind_op (edit_default r (SetOutgoingTEID teid)) (\<lambda>_.
        bind_op (look (\<lambda>_. ie_InterfaceType i)) (\<lambda>it.
          edit r (AddTEID it teid))))))))"

section \<open>Create Session Request (S11)\<close>

text \<open>The address of the P-GW and the session with the TEIDs of the P-GW and the MME.\<close>

definition read_peers :: "(string \<Rightarrow> ip) \<Rightarrow> addr \<Rightarrow> CreateSessionRequest_field v2_msg \<Rightarrow> (addr \<times> session) result" where
  "read_peers dns mmeAddr req =
     (let s = NewSession mmeAddr no_subscriber in
      andThen (required IE_FullyQualifiedTEID (m_field req CreateSessionRequest_PGWS5S8FTEIDC)
        (\<lambda>i. andThen (ie_IPAddress i) (\<lambda>a. andThen (ie_TEID i) (\<lambda>t. Inr (a @ GTPCPort, t))))) (\<lambda>(pgw, t).
      let s = AddTEID IFTypeS5S8PGWGTPC t s in
      andThen (required IE_FullyQualifiedTEID (m_field req CreateSessionRequest_SenderFTEIDC) ie_TEID) (\<lambda>t.
      let s = AddTEID IFTypeS11MMEGTPC t s in
      andThen (ResolveUDPAddr dns pgw) (\<lambda>raddr. Inr (raddr, s)))))"

definition read_subscriber :: "CreateSessionRequest_field v2_msg \<Rightarrow> session \<Rightarrow> session result" where
  "read_subscriber req s =
      andThen (required IE_MSISDN (m_field req CreateSessionRequest_MSISDN) ie_MSISDN) (\<lambda>v.
      let s = set_MSISDN v s in
      andThen (required IE_MobileEquipmentIdentity (m_field req CreateSessionRequest_MEI) ie_MobileEquipmentIdentity) (\<lambda>v.
      let s = set_IMEI v s in
      andThen (required IE_AccessPointName (m_field req CreateSessionRequest_APN) ie_AccessPointName) (\<lambda>v.
      let s = upd_default (\<lambda>b. b\<lparr>br_APN := v\<rparr>) s in
      andThen (required IE_ServingNetwork (m_field req CreateSessionRequest_ServingNetwork)
        (\<lambda>i. andThen (ie_MCC i) (\<lambda>mcc. andThen (ie_MNC i) (\<lambda>mnc. Inr (mcc, mnc))))) (\<lambda>(mcc, mnc).
      let s = upd_location (\<lambda>l. l\<lparr>loc_MCC := mcc, loc_MNC := mnc\<rparr>) s in
      andThen (required IE_RATType (m_field req CreateSessionRequest_RATType) ie_RATType) (\<lambda>v.
      Inr (upd_location (\<lambda>l. l\<lparr>loc_RATType := v\<rparr>) s))))))"

text \<open>The elements of the request to the P-GW.\<close>

definition forwarded_ies ::
  "CreateSessionRequest_field v2_msg \<Rightarrow> string \<Rightarrow> ie option \<Rightarrow> ie \<Rightarrow> ie option list result" where
  "forwarded_ies req s5uIP s5cFTEID s5uFTEID =
     andThen (NewBearerQoS 1 2 1 0xff 0 0 0 0) (\<lambda>qos.
     andThen (NewBearerContext [Some (NewEPSBearerID 5), Some s5uFTEID, qos]) (\<lambda>ctx.
     andThen (NewFullyQualifiedCSID s5uIP [1]) (\<lambda>csid.
     andThen (with_instance 1 csid) (\<lambda>csid.
     Inr [m_field req CreateSessionRequest_IMSI, m_field req CreateSessionRequest_MSISDN,
          m_field req CreateSessionRequest_MEI, m_field req CreateSessionRequest_ServingNetwork,
          m_field req CreateSessionRequest_RATType, m_field req CreateSessionRequest_IndicationFlags,
          s5cFTEID, m_field req CreateSessionRequest_PGWS5S8FTEIDC, m_field req CreateSessionRequest_APN,
          m_field req CreateSessionRequest_SelectionMode, m_field req CreateSessionRequest_PDNType,
          m_field req CreateSessionRequest_PAA, m_field req CreateSessionRequest_APNRestriction,
          m_field req CreateSessionRequest_AMBR, m_field req CreateSessionRequest_ULI, ctx,
          m_field req CreateSessionRequest_MMEFQCSID, Some csid]))))"

record create_wait =
  cw_s11Session :: nat
  cw_s11FTEID :: ie
  cw_s11TEID :: u32
  cw_s5Session :: nat
  cw_mmeTEID :: u32
  cw_seq :: u32

definition register_session :: "u32 \<Rightarrow> session \<Rightarrow> nat op" where
  "register_session t s = bind_op (\<lambda>c. (Inr (length (c_heap c)), c)) (\<lambda>r. bind_op (register_new t s) (\<lambda>_. ret_op r))"

definition sgw_handleCreateSessionRequest ::
  "sgw_env \<Rightarrow> addr \<Rightarrow> CreateSessionRequest_field v2_msg \<Rightarrow> ('k, create_wait) gop" where
  "sgw_handleCreateSessionRequest ge mmeAddr req =
     pbind (ppure (read_peers (ge_dns ge) mmeAddr req)) (\<lambda>(raddr, s).
     pbind (ppure (required IE_IMSI (m_field req CreateSessionRequest_IMSI) ie_IMSI)) (\<lambda>imsi.
     pbind (on_s11 (forget_previous (ge_order11 ge) imsi)) (\<lambda>_.
     pbind (ppure (read_subscriber req (set_IMSI imsi s))) (\<lambda>s g.
       (pbind (on_s11 (NewSenderFTEID (ge_rnd11 ge) (g_s11IP g) [])) (\<lambda>f11.
        pbind (ppure (not_nil f11)) (\<lambda>f11.
        pbind (ppure (ie_MustTEID f11)) (\<lambda>t11.
        pbind (on_s11 (register_session t11 s)) (\<lambda>r11.
        pbind (on_s5c (NewSenderFTEID (ge_rnd5 ge) (g_s5cIP g) [])) (\<lambda>f5c.
        pbind (on_uplane (NewFTEID (ge_rnd5u ge) (ge_now ge) IFTypeS5S8SGWGTPU (g_s5uIP g) [] (g_s5uConn g))) (\<lambda>f5u.
        pbind (ppure (with_instance 2 f5u)) (\<lambda>f5u.
        pbind (ppure (forwarded_ies req (g_s5uIP g) f5c f5u)) (\<lambda>ies.
        pbind (on_s5c (CreateSession (ge_s5c ge) raddr ies)) (\<lambda>(r5, seq).
        pbind (ppure (ie_MustInterfaceType f5u)) (\<lambda>it.
        pbind (ppure (ie_MustTEID f5u)) (\<lambda>t5u.
        pbind (on_s5c (edit r5 (AddTEID it t5u))) (\<lambda>_.
        pbind (on_s11 (look (\<lambda>c. Inr (GetTEID IFTypeS11MMEGTPC (session_at c r11))))) (\<lambda>mme.
        pbind (on_s11 (or_remove (ge_order11 ge) r11 mme)) (\<lambda>mme.
        ppure (Inr \<lparr>cw_s11Session = r11, cw_s11FTEID = f11, cw_s11TEID = t11, cw_s5Session = r5,
          cw_mmeTEID = mme, cw_seq = seq\<rparr>)))))))))))))))) g))))"

text \<open>\<open>WaitMessage\<close> on a session of a connection; its error is a value, as the handlers look at it.\<close>

definition wait_on :: "nat \<Rightarrow> u32 \<Rightarrow> v2_message result op" where
  "wait_on r seq c =
     (let (res, s) = WaitMessage seq (session_at c r) in (Inr res, upd_session r (\<lambda>_. s) c))"

text \<open>What is answered to the MME: the response of the P-GW with the elements of the S-GW.\<close>

definition relayed_response ::
  "CreateSessionResponse_field v2_msg \<Rightarrow> string \<Rightarrow> ie \<Rightarrow> ie option \<Rightarrow> u32 \<Rightarrow> CreateSessionResponse_field v2_msg result" where
  "relayed_response rsp s1uIP f11 f1u mme =
     andThen (NewFullyQualifiedCSID s1uIP [1]) (\<lambda>csid.
     andThen (with_instance 1 csid) (\<lambda>csid.
     andThen (not_nil (m_field rsp CreateSessionResponse_BearerContextsCreated)) (\<lambda>ctx.
     andThen (not_nil f1u) (\<lambda>f1u.
     andThen (Add ctx [f1u]) (\<lambda>ctx.
     andThen (Remove IE_ChargingID 0 ctx) (\<lambda>ctx.
     Inr (CreateSessionResponse_SetLength (rsp\<lparr>
       m_Header := SetTEID mme (m_Header rsp),
       m_field := (m_field rsp)(CreateSessionResponse_SenderFTEIDC := Some f11,
         CreateSessionResponse_SGWFQCSID := Some csid,
         CreateSessionResponse_BearerContextsCreated := Some ctx)\<rparr>))))))))"

definition refuse_create :: "u32 \<Rightarrow> v2_message" where
  "refuse_create teid = Msg_CreateSessionResponse
     (NewCreateSessionResponse teid 0 [Some (NewCause CauseNoResourcesAvailable 0 0 0 None)])"

definition sgw_create_resumed ::
  "sgw_env \<Rightarrow> addr \<Rightarrow> CreateSessionRequest_field v2_msg \<Rightarrow> create_wait \<Rightarrow> ('k, unit) gop" where
  "sgw_create_resumed ge mmeAddr req cw g =
     (let r11 = cw_s11Session cw; respond = (\<lambda>m. RespondTo (ge_s11 ge) mmeAddr (Msg_CreateSessionRequest req) m);
          remove = RemoveSession (ge_order11 ge) r11;
          answer = (\<lambda>m. \<lambda>c. case respond m c of (res, c) \<Rightarrow> or_remove (ge_order11 ge) r11 res c) in
      pbind (on_s11 (wait_on r11 (cw_seq cw))) (\<lambda>res.
        case res of
          Inl (Panic p) \<Rightarrow> ppure (Inl (Panic p))
        | Inl (Error e) \<Rightarrow>
            on_s11 (bind_op (answer (refuse_create (cw_mmeTEID cw))) (\<lambda>_. bind_op remove (\<lambda>_. fail_op e)))
        | Inr (Msg_CreateSessionResponse rsp) \<Rightarrow>
            pbind (case m_field rsp CreateSessionResponse_PAA of
                     None \<Rightarrow> ppure (Inr ())
                   | Some i \<Rightarrow> pbind (ppure (ie_MustIPAddress i)) (\<lambda>a. pbind (on_s11 (edit_default r11 (\<lambda>b. b\<lparr>br_SubscriberIP := a\<rparr>)))
                     (\<lambda>_. ppure (andThen (ie_IPAddress i) (\<lambda>_. Inr ()))))) (\<lambda>_.
            pbind (on_uplane (NewFTEID (ge_rnd1u ge) (ge_now ge) IFTypeS1USGWGTPU (g_s1uIP g) [] (g_s1uConn g))) (\<lambda>f1u.
            pbind (ppure (relayed_response rsp (g_s1uIP g) (cw_s11FTEID cw) f1u (cw_mmeTEID cw))) (\<lambda>m.
            pbind (ppure (ie_MustInterfaceType (cw_s11FTEID cw))) (\<lambda>it.
            pbind (on_s11 (edit r11 (AddTEID it (cw_s11TEID cw)))) (\<lambda>_.
            pbind (ppure (not_nil f1u)) (\<lambda>f1u.
            pbind (ppure (ie_MustInterfaceType f1u)) (\<lambda>it.
            pbind (ppure (ie_MustTEID f1u)) (\<lambda>t1u.
            pbind (on_s11 (edit r11 (AddTEID it t1u))) (\<lambda>_.
            pbind (on_s11 (answer (Msg_CreateSessionResponse m))) (\<lambda>_.
            pbind (on_s5c (look (\<lambda>c. Inr (GetTEID IFTypeS5S8PGWGTPC (session_at c (cw_s5Session cw)))))) (\<lambda>t.
            pbind (on_s11 (or_remove (ge_order11 ge) r11 t)) (\<lambda>_.
            pbind (on_s5c (look (\<lambda>c. Inr (GetTEID IFTypeS5S8SGWGTPC (session_at c (cw_s5Session cw)))))) (\<lambda>t.
            pbind (on_s11 (or_remove (ge_order11 ge) r11 t)) (\<lambda>_.
            pbind (on_s11 (look (\<lambda>c. Inr (Activate (session_at c r11))))) (\<lambda>s.
            pbind (on_s11 (or_remove (ge_order11 ge) r11 s)) (\<lambda>s.
            on_s11 (edit r11 (\<lambda>_. s))))))))))))))))))
        | Inr _ \<Rightarrow> on_s11 (bind_op remove (\<lambda>_. fail_op V2UnexpectedType))) g)"

section \<open>Modify Bearer Request (S11)\<close>

text \<open>The address of the last F-TEID among the children, after each has been taken over.\<close>

fun modify_children :: "(string \<Rightarrow> ip) \<Rightarrow> nat \<Rightarrow> ie list \<Rightarrow> string \<Rightarrow> string op" where
  "modify_children dns r [] enbIP = ret_op enbIP"
| "modify_children dns r (i # is) enbIP =
     (if ie_Type i = IE_FullyQualifiedTEID then
        bind_op (handleFTEIDU dns i r) (\<lambda>_.
        bind_op (look (\<lambda>_. ie_IPAddress i)) (\<lambda>a. modify_children dns r is a))
      else modify_children dns r is enbIP)"

text \<open>\<open>RemoteAddress().String()\<close> of a bearer that has no remote address yet is a nil dereference.\<close>

definition remote_host :: "bearer \<Rightarrow> string result" where
  "remote_host b =
     (case RemoteAddress b of
        None \<Rightarrow> Inl (Panic NilDereference)
      | Some a \<Rightarrow> (case SplitHostPort a of None \<Rightarrow> Inl (Error NetError) | Some (host, _) \<Rightarrow> Inr host))"

text \<open>The nil address of a bearer without a remote end, in a relay: the empty text.\<close>

definition addr_or_nil :: "addr option \<Rightarrow> addr" where
  "addr_or_nil a = (case a of None \<Rightarrow> [] | Some a \<Rightarrow> a)"

abbreviation bearer_of :: "nat \<Rightarrow> conn \<Rightarrow> bearer result" where
  "bearer_of r \<equiv> \<lambda>c. default_bearer (session_at c r)"

definition connect_uplanes ::
  "'k netlink \<Rightarrow> string \<Rightarrow> string \<Rightarrow> nat \<Rightarrow> nat \<Rightarrow> u32 \<Rightarrow> u32 \<Rightarrow> ('k, unit) gop" where
  "connect_uplanes nl enbIP pgwIP r11 r5 t1u t5u g =
     (if g_useKernelGTP g then
        (pbind (on_s11 (look (bearer_of r11))) (\<lambda>b1.
         pbind (on_tunnels_of (AddTunnelOverride nl (g_s1uConn g) (ParseIP enbIP) (ParseIP (br_SubscriberIP b1))
           (OutgoingTEID b1) t1u)) (\<lambda>_.
         pbind (on_s5c (look (bearer_of r5))) (\<lambda>b5.
         on_tunnels_of (AddTunnelOverride nl (g_s5uConn g) (ParseIP pgwIP) (ParseIP (br_SubscriberIP b5))
           (OutgoingTEID b5) t5u))))) g
      else
        (pbind (on_s5c (look (bearer_of r5))) (\<lambda>b5.
         pbind (on_uplane (RelayTo (g_s1uConn g) (g_s5uConn g) t1u (OutgoingTEID b5) (addr_or_nil (RemoteAddress b5)))) (\<lambda>_.
         pbind (on_s11 (look (bearer_of r11))) (\<lambda>b1.
         on_uplane (RelayTo (g_s5uConn g) (g_s1uConn g) t5u (OutgoingTEID b1) (addr_or_nil (RemoteAddress b1))))))) g)"

definition modify_response :: "u32 \<Rightarrow> byte \<Rightarrow> u32 \<Rightarrow> string \<Rightarrow> v2_message result" where
  "modify_response mme ebi t1u s1uIP =
     andThen (NewFullyQualifiedTEID IFTypeS1USGWGTPU t1u s1uIP []) (\<lambda>f.
     andThen (NewBearerContext [Some (NewCause CauseRequestAccepted 0 0 0 None), Some (NewEPSBearerID ebi), f]) (\<lambda>ctx.
     Inr (Msg_ModifyBearerResponse
       (NewModifyBearerResponse mme 0 [Some (NewCause CauseRequestAccepted 0 0 0 None), ctx]))))"

text \<open>The two sessions of a subscriber, by the TEID on S11.\<close>

definition sessions_of :: "u32 \<Rightarrow> addr \<Rightarrow> ('k, nat \<times> nat) gop" where
  "sessions_of teid mmeAddr =
     pbind (on_s11 (look (GetSessionByTEID teid mmeAddr))) (\<lambda>r11.
     pbind (on_s11 (look (\<lambda>c. Inr (s_IMSI (session_at c r11))))) (\<lambda>imsi.
     pbind (on_s5c (look (GetSessionByIMSI imsi))) (\<lambda>r5.
     ppure (Inr (r11, r5)))))"

definition handleModifyBearerRequest ::
  "'k netlink \<Rightarrow> sgw_env \<Rightarrow> addr \<Rightarrow> ModifyBearerRequest_field v2_msg \<Rightarrow> ('k, unit) gop" where
  "handleModifyBearerRequest nl ge mmeAddr req =
     pbind (sessions_of (v2_TEID (Msg_ModifyBearerRequest req)) mmeAddr) (\<lambda>(r11, r5).
     pbind (ppure (required IE_BearerContext (m_field req ModifyBearerRequest_BearerContextsToBeModified) Inr)) (\<lambda>ctx.
     pbind (on_s11 (modify_children (ge_dns ge) r11 (ie_ChildIEs ctx) [])) (\<lambda>enbIP.
     pbind (on_s11 (look (\<lambda>c. GetTEID IFTypeS11MMEGTPC (session_at c r11)))) (\<lambda>mme.
     pbind (on_s11 (look (\<lambda>c. GetTEID IFTypeS1USGWGTPU (session_at c r11)))) (\<lambda>t1u.
     pbind (on_s5c (look (\<lambda>c. GetTEID IFTypeS5S8SGWGTPU (session_at c r5)))) (\<lambda>t5u.
     pbind (on_s5c (look (bearer_of r5))) (\<lambda>b5.
     pbind (ppure (remote_host b5)) (\<lambda>pgwIP.
     pbind (connect_uplanes nl enbIP pgwIP r11 r5 t1u t5u) (\<lambda>_.
     pbind (on_s11 (look (bearer_of r11))) (\<lambda>b1 g.
       pbind (ppure (modify_response mme (br_EBI b1) t1u (g_s1uIP g)))
         (\<lambda>m. on_s11 (RespondTo (ge_s11 ge) mmeAddr (Msg_ModifyBearerRequest req) m)) g))))))))))"

section \<open>Delete Session Request and Delete Bearer Response (S11)\<close>

record delete_wait =
  dw_s11Session :: nat
  dw_mmeTEID :: u32
  dw_seq :: u32

definition sgw_handleDeleteSessionRequest ::
  "sgw_env \<Rightarrow> addr \<Rightarrow> DeleteSessionRequest_field v2_msg \<Rightarrow> ('k, delete_wait) gop" where
  "sgw_handleDeleteSessionRequest ge mmeAddr req =
     pbind (sessions_of (v2_TEID (Msg_DeleteSessionRequest req)) mmeAddr) (\<lambda>(r11, r5).
     pbind (on_s5c (look (\<lambda>c. GetTEID IFTypeS5S8PGWGTPC (session_at c r5)))) (\<lambda>t.
     pbind (on_s5c (look (bearer_of r5))) (\<lambda>b.
     pbind (on_s5c (DeleteSession (ge_s5c ge) t r5 [Some (NewEPSBearerID (br_EBI b))])) (\<lambda>seq.
     pbind (on_s11 (look (\<lambda>c. GetTEID IFTypeS11MMEGTPC (session_at c r11)))) (\<lambda>mme.
     ppure (Inr \<lparr>dw_s11Session = r11, dw_mmeTEID = mme, dw_seq = seq\<rparr>))))))"

definition sgw_delete_resumed ::
  "sgw_env \<Rightarrow> addr \<Rightarrow> DeleteSessionRequest_field v2_msg \<Rightarrow> delete_wait \<Rightarrow> unit op" where
  "sgw_delete_resumed ge mmeAddr req dw =
     bind_op (wait_on (dw_s11Session dw) (dw_seq dw)) (\<lambda>res.
       case res of
         Inl (Panic p) \<Rightarrow> look (\<lambda>_. Inl (Panic p))
       | Inl (Error e) \<Rightarrow>
           bind_op (RespondTo (ge_s11 ge) mmeAddr (Msg_DeleteSessionRequest req)
             (delete_response (dw_mmeTEID dw) CausePGWNotResponding)) (\<lambda>_. fail_op e)
       | Inr (Msg_DeleteSessionResponse rsp) \<Rightarrow>
           bind_op (RespondTo (ge_s11 ge) mmeAddr (Msg_DeleteSessionRequest req)
             (v2_SetTEID (dw_mmeTEID dw) (Msg_DeleteSessionResponse rsp))) (\<lambda>_.
           RemoveSession (ge_order11 ge) (dw_s11Session dw))
       | Inr _ \<Rightarrow> fail_op V2UnexpectedType)"

definition pass_to :: "v2_message \<Rightarrow> nat \<Rightarrow> unit op" where
  "pass_to msg r c =
     (case PassMessageTo msg (session_at c r) of
        Inl e \<Rightarrow> (Inl e, c) | Inr s \<Rightarrow> edit r (\<lambda>_. s) c)"

definition handleDeleteBearerResponse :: "addr \<Rightarrow> v2_message \<Rightarrow> ('k, unit) gop" where
  "handleDeleteBearerResponse mmeAddr msg =
     pbind (sessions_of (v2_TEID msg) mmeAddr) (\<lambda>(r11, r5). on_s5c (pass_to msg r5))"

section \<open>Create Session Response (S5)\<close>

definition accepted_or_remove :: "u32 list \<Rightarrow> nat \<Rightarrow> byte \<Rightarrow> unit op" where
  "accepted_or_remove order r cause =
     (if cause \<noteq> CauseRequestAccepted
      then bind_op (RemoveSession order r) (\<lambda>_. fail_op (V2CauseNotOK cause)) else ret_op ())"

text \<open>An element that must be there: without it the session is removed.\<close>

definition required_or_remove :: "u32 list \<Rightarrow> nat \<Rightarrow> byte \<Rightarrow> ie option \<Rightarrow> (ie \<Rightarrow> 'a op) \<Rightarrow> 'a op" where
  "required_or_remove order r t field get =
     (case field of
        None \<Rightarrow> bind_op (RemoveSession order r) (\<lambda>_. fail_op (V2RequiredIEMissing t))
      | Some i \<Rightarrow> get i)"

definition created_child :: "(string \<Rightarrow> ip) \<Rightarrow> u32 list \<Rightarrow> nat \<Rightarrow> ie \<Rightarrow> unit op" where
  "created_child dns order r i =
     (if ie_Type i = IE_Cause then bind_op (look (\<lambda>_. ie_Cause i)) (accepted_or_remove order r)
      else if ie_Type i = IE_EPSBearerID then
        bind_op (look (\<lambda>_. ie_EPSBearerID i)) (\<lambda>v. edit_default r (\<lambda>b. b\<lparr>br_EBI := v\<rparr>))
      else if ie_Type i = IE_FullyQualifiedTEID then handleFTEIDU dns i r
      else if ie_Type i = IE_ChargingID then
        bind_op (look (\<lambda>_. ie_ChargingID i)) (\<lambda>v. edit_default r (\<lambda>b. b\<lparr>br_ChargingID := v\<rparr>))
      else ret_op ())"

text \<open>What the response says of the session on S5, up to its activation.\<close>

definition take_over ::
  "(string \<Rightarrow> ip) \<Rightarrow> u32 list \<Rightarrow> nat \<Rightarrow> CreateSessionResponse_field v2_msg \<Rightarrow> unit op" where
  "take_over dns order r rsp =
     bind_op (required_or_remove order r IE_Cause (m_field rsp CreateSessionResponse_Cause)
       (\<lambda>i. bind_op (look (\<lambda>_. ie_Cause i)) (accepted_or_remove order r))) (\<lambda>_.
     bind_op (required_or_remove order r IE_PDNAddressAllocation (m_field rsp CreateSessionResponse_PAA)
       (\<lambda>i. bind_op (look (\<lambda>_. ie_IPAddress i)) (\<lambda>a. edit_default r (\<lambda>b. b\<lparr>br_SubscriberIP := a\<rparr>)))) (\<lambda>_.
     bind_op (required_or_remove order r IE_FullyQualifiedTEID (m_field rsp CreateSessionResponse_PGWS5S8FTEIDC)
       (\<lambda>i. bind_op (look (\<lambda>_. ie_InterfaceType i)) (\<lambda>it. bind_op (look (\<lambda>_. ie_TEID i)) (\<lambda>t. edit r (AddTEID it t))))) (\<lambda>_.
     bind_op (required_or_remove order r IE_BearerContext (m_field rsp CreateSessionResponse_BearerContextsCreated)
       (\<lambda>i. run_ops (created_child dns order r) (ie_ChildIEs i))) (\<lambda>_.
     bind_op (look (\<lambda>c. Inr (Activate (session_at c r)))) (\<lambda>s.
     bind_op (or_remove order r s) (\<lambda>s. edit r (\<lambda>_. s)))))))"

text \<open>Handing a message over to the session of the same subscriber on S11.\<close>

definition pass_to_s11 :: "v2_message \<Rightarrow> nat \<Rightarrow> ('k, unit) gop" where
  "pass_to_s11 msg r5 =
     pbind (on_s5c (look (\<lambda>c. Inr (s_IMSI (session_at c r5))))) (\<lambda>imsi.
     pbind (on_s11 (look (GetSessionByIMSI imsi))) (\<lambda>r11. on_s11 (pass_to msg r11)))"

definition handleCreateSessionResponse ::
  "sgw_env \<Rightarrow> addr \<Rightarrow> CreateSessionResponse_field v2_msg \<Rightarrow> ('k, unit) gop" where
  "handleCreateSessionResponse ge pgwAddr rsp =
     pbind (on_s5c (look (GetSessionByTEID (v2_TEID (Msg_CreateSessionResponse rsp)) pgwAddr))) (\<lambda>r5.
     pbind (on_s5c (take_over (ge_dns ge) (ge_order5 ge) r5 rsp)) (\<lambda>_.
     pass_to_s11 (Msg_CreateSessionResponse rsp) r5))"

section \<open>Delete Session Response and Delete Bearer Request (S5)\<close>

definition handleDeleteSessionResponse :: "sgw_env \<Rightarrow> addr \<Rightarrow> v2_message \<Rightarrow> ('k, unit) gop" where
  "handleDeleteSessionResponse ge pgwAddr msg =
     pbind (on_s5c (look (GetSessionByTEID (v2_TEID msg) pgwAddr))) (\<lambda>r5.
     pbind (pass_to_s11 msg r5) (\<lambda>_. on_s5c (RemoveSession (ge_order5 ge) r5)))"

definition delete_bearer_response :: "u32 \<Rightarrow> byte \<Rightarrow> ie option \<Rightarrow> v2_message" where
  "delete_bearer_response teid cause offending =
     Msg_DeleteBearerResponse (NewDeleteBearerResponse teid 0 [Some (NewCause cause 0 0 0 offending)])"

record bearer_wait =
  bw_s5Session :: nat
  bw_s11Session :: nat
  bw_pgwTEID :: u32
  bw_ebi :: ie
  bw_seq :: u32

text \<open>
  The bearer named by exactly one of the two elements; \<open>None\<close> when the request has been answered. With
  neither, the handler returns the error of an earlier call, which is nil. The error of a request
  with both is made by the handler.
\<close>

definition handleDeleteBearerRequest ::
  "sgw_env \<Rightarrow> addr \<Rightarrow> DeleteBearerRequest_field v2_msg \<Rightarrow> ('k, bearer_wait option) gop" where
  "handleDeleteBearerRequest ge pgwAddr req =
     (let respond = (\<lambda>m. on_s5c (RespondTo (ge_s5c ge) pgwAddr (Msg_DeleteBearerRequest req) m)) in
      pbind (on_s5c (look (GetSessionByTEID (v2_TEID (Msg_DeleteBearerRequest req)) pgwAddr))) (\<lambda>r5.
      pbind (on_s5c (look (\<lambda>c. Inr (s_IMSI (session_at c r5))))) (\<lambda>imsi.
      pbind (on_s11 (look (GetSessionByIMSI imsi))) (\<lambda>r11.
      pbind (on_s5c (look (\<lambda>c. GetTEID IFTypeS5S8PGWGTPC (session_at c r5)))) (\<lambda>t.
      pbind (on_s11 (look (\<lambda>c. GetTEID IFTypeS11MMEGTPC (session_at c r11)))) (\<lambda>mme.
        case (m_field req DeleteBearerRequest_LinkedEBI, m_field req DeleteBearerRequest_EBI) of
          (Some _, Some i) \<Rightarrow>
            pbind (respond (delete_bearer_response t CauseContextNotFound (Some i))) (\<lambda>_. ppure (Inl (Error (UserError 0))))
        | (None, None) \<Rightarrow>
            pbind (respond (delete_bearer_response t CauseMandatoryIEMissing (Some (NewEPSBearerID 0)))) (\<lambda>_. ppure (Inr None))
        | (linked, own) \<Rightarrow>
            pbind (ppure (not_nil (if own = None then linked else own))) (\<lambda>ebi.
            pbind (ppure (ie_MustEPSBearerID ebi)) (\<lambda>v.
            pbind (on_s5c (look (\<lambda>c. Inr (LookupBearerByEBI (ge_bearers ge) v (session_at c r5))))) (\<lambda>found.
              case found of
                Inl e \<Rightarrow> pbind (respond (delete_bearer_response t CauseContextNotFound None)) (\<lambda>_. ppure (Inl e))
              | Inr _ \<Rightarrow>
                  pbind (on_s11 (DeleteBearer (ge_s11 ge) mme r11 [Some ebi])) (\<lambda>seq.
                  ppure (Inr (Some \<lparr>bw_s5Session = r5, bw_s11Session = r11, bw_pgwTEID = t, bw_ebi = ebi, bw_seq = seq\<rparr>))))))))))))"

definition drop_bearers :: "sgw_env \<Rightarrow> bearer_wait \<Rightarrow> ('k, unit) gop" where
  "drop_bearers ge bw =
     pbind (ppure (ie_MustEPSBearerID (bw_ebi bw))) (\<lambda>v.
     pbind (on_s5c (edit (bw_s5Session bw) (RemoveBearerByEBI (ge_bearers ge) v))) (\<lambda>_.
     on_s11 (edit (bw_s11Session bw) (RemoveBearerByEBI (ge_bearers ge) v))))"

definition delete_bearer_resumed ::
  "sgw_env \<Rightarrow> addr \<Rightarrow> DeleteBearerRequest_field v2_msg \<Rightarrow> bearer_wait \<Rightarrow> ('k, unit) gop" where
  "delete_bearer_resumed ge pgwAddr req bw =
     (let respond = (\<lambda>m. on_s5c (RespondTo (ge_s5c ge) pgwAddr (Msg_DeleteBearerRequest req) m)) in
      pbind (on_s5c (wait_on (bw_s5Session bw) (bw_seq bw))) (\<lambda>res.
        case res of
          Inl (Panic p) \<Rightarrow> ppure (Inl (Panic p))
        | Inl (Error e) \<Rightarrow>
            pbind (respond (delete_bearer_response (bw_pgwTEID bw) CauseNoResourcesAvailable None)) (\<lambda>_.
            pbind (drop_bearers ge bw) (\<lambda>_. ppure (Inl (Error e))))
        | Inr (Msg_DeleteBearerResponse rsp) \<Rightarrow>
            pbind (respond (v2_SetTEID (bw_pgwTEID bw) (Msg_DeleteBearerResponse rsp))) (\<lambda>_. drop_bearers ge bw)
        | Inr _ \<Rightarrow> ppure (Inl (Error V2UnexpectedType))))"

section \<open>The connections (run)\<close>

definition new_s11Conn :: "addr \<Rightarrow> conn" where
  "new_s11Conn s11Addr = AddHandlers
     [(MsgTypeCreateSessionRequest, User 0), (MsgTypeModifyBearerRequest, User 1),
      (MsgTypeDeleteSessionRequest, User 2), (MsgTypeDeleteBearerResponse, User 3)]
     (NewConn s11Addr IFTypeS11S4SGWGTPC 0)"

definition new_s5cConn :: "addr \<Rightarrow> conn" where
  "new_s5cConn s5cAddr = AddHandlers
     [(MsgTypeCreateSessionResponse, User 0), (MsgTypeDeleteSessionResponse, User 1),
      (MsgTypeDeleteBearerRequest, User 2)]
     (NewConn s5cAddr IFTypeS5S8SGWGTPC 0)"

end
