(* ===== verification/TesterSgwRun.thy ===== *)
theory TesterSgwRun
  imports TesterSgw TesterPgwRun V1UPlaneRun
begin

text \<open>
  What the handlers of the S-GW do: a Modify Bearer Request joins the two connections of the user
  plane, so that the packets of the subscriber get from the base station to the P-GW and back.
\<close>

section \<open>Steps\<close>

lemma pbind_look [simp]:
  "pbind (on_s11 (look f)) k g = (case f (g_s11Conn g) of Inr x \<Rightarrow> k x g | Inl e \<Rightarrow> (Inl e, g))"
  "pbind (on_s5c (look f)) k g = (case f (g_s5cConn g) of Inr x \<Rightarrow> k x g | Inl e \<Rightarrow> (Inl e, g))"
  by (simp_all add: pbind_def on_s11_def on_s5c_def look_def split: sum.split)

lemma bind_look [simp]:
  "bind_op (look f) k c = (case f c of Inr x \<Rightarrow> k x c | Inl e \<Rightarrow> (Inl e, c))"
  by (simp add: bind_op_def look_def)

lemma bind_done: "m c = (Inr x, c') \<Longrightarrow> bind_op m f c = f x c'"
  by (simp add: bind_op_def)

lemma bind_fail: "m c = (Inl e, c') \<Longrightarrow> bind_op m f c = (Inl e, c')"
  by (simp add: bind_op_def)

lemma on_uplane_eq:
  "on_uplane f g = (fst (f (kn_world (g_tunnels g))), g\<lparr>g_tunnels := (g_tunnels g)\<lparr>kn_world := snd (f (kn_world (g_tunnels g)))\<rparr>\<rparr>)"
  by (simp add: on_uplane_def on_tunnels_of_def split: prod.split)

lemma sessions_of_found:
  assumes "GetSessionByTEID teid a (g_s11Conn g) = Inr r11"
    "GetSessionByIMSI (s_IMSI (session_at (g_s11Conn g) r11)) (g_s5cConn g) = Inr r5"
  shows "sessions_of teid a g = (Inr (r11, r5), g)"
  using assms by (simp add: sessions_of_def ppure_def)

definition taken_over :: "byte \<Rightarrow> u32 \<Rightarrow> addr \<Rightarrow> session \<Rightarrow> session" where
  "taken_over it t raddr s = AddTEID it t (upd_default (\<lambda>b. SetOutgoingTEID t (SetRemoteAddress raddr b)) s)"

lemma taken_over_sel:
  "GetDefaultBearer (taken_over it t raddr s) =
     map_option (\<lambda>b. b\<lparr>br_raddr := Some raddr, br_teidOut := t\<rparr>) (GetDefaultBearer s)"
  "it \<noteq> j \<Longrightarrow> GetTEID j (taken_over it t raddr s) = GetTEID j s"
  by (auto simp: taken_over_def upd_default_bearer SetOutgoingTEID_def SetRemoteAddress_def GetTEID_def
      intro!: arg_cong [where f = "\<lambda>f. map_option f _"])

lemma upd_default_twice: "upd_default f (upd_default h s) = upd_default (\<lambda>b. f (h b)) s"
  by (auto simp: upd_default_def GetDefaultBearer_def SetDefaultBearer_def split: option.split)

lemma handleFTEIDU_effect:
  assumes "ie_Type i = IE_FullyQualifiedTEID" "ie_IPAddress i = Inr a" "ResolveUDPAddr dns (a @ GTPUPort) = Inr raddr"
    "ie_TEID i = Inr t" "ie_InterfaceType i = Inr it" "r < length (c_heap c)" "GetDefaultBearer (session_at c r) \<noteq> None"
  shows "handleFTEIDU dns i r c = (Inr (), upd_session r (taken_over it t raddr) c)"
proof -
  have upd: "upd_session r f (upd_session r h c) = upd_session r (\<lambda>s. f (h s)) c" for f h
    using assms(6) by (simp add: upd_session_def)
  have at: "session_at (upd_session r f c) r = f (session_at c r)" for f
    using assms(6) by (simp add: upd_session_def)
  obtain b where b: "GetDefaultBearer (session_at c r) = Some b" using assms(7) by auto
  have one: "edit_default r f c = (Inr (), upd_session r (upd_default f) c)" for f
    by (simp add: edit_default_def b edit_def)
  have two: "edit_default r f (upd_session r (upd_default h) c) = (Inr (), upd_session r (\<lambda>s. upd_default f (upd_default h s)) c)" for f h
    by (simp add: edit_default_def at upd_default_bearer b edit_def upd)
  show ?thesis
    using assms(1-5) by (simp add: handleFTEIDU_def bind_done one two edit_def upd upd_default_twice taken_over_def [abs_def])
qed

lemma modify_children_none:
  "filter (\<lambda>i. ie_Type i = IE_FullyQualifiedTEID) is = [] \<Longrightarrow> modify_children dns r is a c = (Inr a, c)"
  by (induction "is") (auto simp: ret_op_def split: if_splits)

lemma modify_children_one:
  assumes "filter (\<lambda>i. ie_Type i = IE_FullyQualifiedTEID) is = [f]" "ie_IPAddress f = Inr enb"
    "ResolveUDPAddr dns (enb @ GTPUPort) = Inr raddr" "ie_TEID f = Inr t" "ie_InterfaceType f = Inr it"
    "r < length (c_heap c)" "GetDefaultBearer (session_at c r) \<noteq> None"
  shows "modify_children dns r is a c = (Inr enb, upd_session r (taken_over it t raddr) c)"
  using assms(1)
proof (induction "is" arbitrary: a)
  case (Cons i "is")
  show ?case
  proof (cases "ie_Type i = IE_FullyQualifiedTEID")
    case True
    with Cons.prems have "i = f" "filter (\<lambda>i. ie_Type i = IE_FullyQualifiedTEID) is = []" by auto
    with True show ?thesis
      by (simp add: bind_done handleFTEIDU_effect [OF _ assms(2-7)] assms(2) modify_children_none)
  next
    case False
    with Cons show ?thesis by simp
  qed
qed simp

section \<open>Joining the user planes\<close>

text \<open>
  A request that is in order: both sessions are found, the request names one F-TEID \<open>f\<close> of the base
  station, with the address \<open>raddr\<close> and the TEID \<open>t\<close>, and the TEIDs and the bearer to the P-GW are known.
\<close>

definition modify_ok ::
  "sgw_env \<Rightarrow> addr \<Rightarrow> ModifyBearerRequest_field v2_msg \<Rightarrow> ie \<Rightarrow> nat \<times> nat \<Rightarrow> addr \<times> u32 \<Rightarrow> u32 \<times> u32 \<Rightarrow> bearer \<times> addr \<Rightarrow> 'k sgw \<Rightarrow> bool" where
  "modify_ok ge a req f rs remote ts pgw g \<longleftrightarrow>
     (case (rs, remote, ts, pgw) of ((r11, r5), (raddr, t), (t1u, t5u), (b5, praddr)) \<Rightarrow>
     (let c11 = g_s11Conn g; c5 = g_s5cConn g; w = kn_world (g_tunnels g) in
       GetSessionByTEID (v2_TEID (Msg_ModifyBearerRequest req)) a c11 = Inr r11 \<and> r11 < length (c_heap c11) \<and>
       GetSessionByIMSI (s_IMSI (session_at c11 r11)) c5 = Inr r5 \<and>
       (\<exists>ctx. m_field req ModifyBearerRequest_BearerContextsToBeModified = Some ctx \<and>
          filter (\<lambda>i. ie_Type i = IE_FullyQualifiedTEID) (ie_ChildIEs ctx) = [f]) \<and>
       (\<exists>enb it. ie_IPAddress f = Inr enb \<and> ResolveUDPAddr (ge_dns ge) (enb @ GTPUPort) = Inr raddr \<and>
          ie_InterfaceType f = Inr it \<and> it \<noteq> IFTypeS11MMEGTPC \<and> it \<noteq> IFTypeS1USGWGTPU) \<and>
       ie_TEID f = Inr t \<and>
       (\<exists>mme. GetTEID IFTypeS11MMEGTPC (session_at c11 r11) = Inr mme) \<and>
       GetTEID IFTypeS1USGWGTPU (session_at c11 r11) = Inr t1u \<and> GetTEID IFTypeS5S8SGWGTPU (session_at c5 r5) = Inr t5u \<and>
       GetDefaultBearer (session_at c11 r11) \<noteq> None \<and> GetDefaultBearer (session_at c5 r5) = Some b5 \<and>
       RemoteAddress b5 = Some praddr \<and> SplitHostPort praddr \<noteq> None \<and>
       \<not> g_useKernelGTP g \<and> \<not> u_kernel (uconn_at w (g_s1uConn g)) \<and> \<not> u_kernel (uconn_at w (g_s5uConn g)) \<and>
       g_s1uConn g \<noteq> g_s5uConn g \<and> g_s1uConn g < length (w_conns w) \<and> g_s5uConn g < length (w_conns w) \<and>
       env_write (ge_s11 ge) (c_writes c11)))"

lemma connect_relays:
  assumes "\<not> g_useKernelGTP g" "GetDefaultBearer (session_at (g_s5cConn g) r5) = Some b5"
    "GetDefaultBearer (session_at (g_s11Conn g) r11) = Some b1"
    "\<not> u_kernel (uconn_at w (g_s1uConn g))" "\<not> u_kernel (uconn_at w (g_s5uConn g))" "g_s1uConn g \<noteq> g_s5uConn g"
    "g_s1uConn g < length (w_conns w)" "g_s5uConn g < length (w_conns w)"
    "w = kn_world (g_tunnels g)"
  obtains w' where "connect_uplanes nl enb pgw r11 r5 t1u t5u g = (Inr (), g\<lparr>g_tunnels := (g_tunnels g)\<lparr>kn_world := w'\<rparr>\<rparr>)"
    "relay_load (u_relayMap (uconn_at w' (g_s1uConn g))) t1u =
       Some \<lparr>peer_teid = OutgoingTEID b5, peer_addr = addr_or_nil (RemoteAddress b5), peer_srcConn = g_s5uConn g\<rparr>"
    "relay_load (u_relayMap (uconn_at w' (g_s5uConn g))) t5u =
       Some \<lparr>peer_teid = OutgoingTEID b1, peer_addr = addr_or_nil (RemoteAddress b1), peer_srcConn = g_s1uConn g\<rparr>"
proof -
  let ?w1 = "snd (RelayTo (g_s1uConn g) (g_s5uConn g) t1u (OutgoingTEID b5) (addr_or_nil (RemoteAddress b5)) w)"
  let ?w2 = "snd (RelayTo (g_s5uConn g) (g_s1uConn g) t5u (OutgoingTEID b1) (addr_or_nil (RemoteAddress b1)) ?w1)"
  let ?g = "\<lambda>w. g\<lparr>g_tunnels := (g_tunnels g)\<lparr>kn_world := w\<rparr>\<rparr>"
  have one: "on_uplane (RelayTo (g_s1uConn g) (g_s5uConn g) t1u (OutgoingTEID b5) (addr_or_nil (RemoteAddress b5))) g = (Inr (), ?g ?w1)"
    using assms(4,9) by (simp add: on_uplane_eq RelayTo_def)
  have two: "on_uplane (RelayTo (g_s5uConn g) (g_s1uConn g) t5u (OutgoingTEID b1) (addr_or_nil (RemoteAddress b1))) (?g ?w1) = (Inr (), ?g ?w2)"
    using assms(4-6) by (simp add: on_uplane_eq RelayTo_def upd_uconn_def)
  have "connect_uplanes nl enb pgw r11 r5 t1u t5u g = (Inr (), ?g ?w2)"
    using assms(1-3) by (simp add: connect_uplanes_def default_bearer_def pbind_Inr one two)
  moreover have "relay_load (u_relayMap (uconn_at ?w2 (g_s1uConn g))) t1u =
      Some \<lparr>peer_teid = OutgoingTEID b5, peer_addr = addr_or_nil (RemoteAddress b5), peer_srcConn = g_s5uConn g\<rparr>"
    "relay_load (u_relayMap (uconn_at ?w2 (g_s5uConn g))) t5u =
      Some \<lparr>peer_teid = OutgoingTEID b1, peer_addr = addr_or_nil (RemoteAddress b1), peer_srcConn = g_s1uConn g\<rparr>"
    using assms(4-8) by (simp_all add: RelayTo_def upd_uconn_def relay_load_def relay_store_def update_conv')
  ultimately show ?thesis by (rule that)
qed

text \<open>
  \<open>drop_bearers\<close> also removes the default bearer, when it is the one that is named. A Delete Session
  Request for such a session dereferences nil.
\<close>

lemma default_bearer_dropped:
  assumes "s_bearerMap s = [''default'' \<mapsto> b]" "br_EBI b = ebi"
  shows "GetDefaultBearer (RemoveBearerByEBI [''default''] ebi s) = None"
  using assms by (simp add: RemoveBearerByEBI_def LookupBearerNameByEBI_def range_map_def RemoveBearer_def GetDefaultBearer_def)

lemma delete_without_bearer_panics:
  assumes "GetSessionByTEID (v2_TEID (Msg_DeleteSessionRequest req)) a (g_s11Conn g) = Inr r11"
    "GetSessionByIMSI (s_IMSI (session_at (g_s11Conn g) r11)) (g_s5cConn g) = Inr r5"
    "GetTEID IFTypeS5S8PGWGTPC (session_at (g_s5cConn g) r5) = Inr t" "GetDefaultBearer (session_at (g_s5cConn g) r5) = None"
  shows "sgw_handleDeleteSessionRequest ge a req g = (Inl (Panic NilDereference), g)"
  using assms by (simp add: sgw_handleDeleteSessionRequest_def pbind_Inr sessions_of_found default_bearer_def)

section \<open>A sample\<close>

text \<open>
  A subscriber with IMSI 123: TEID 7 on S11 and 21 on S1-U, 22 on S5-U, TEID 8 of the P-GW. The request
  names the TEID 99 at 10.0.0.5.
\<close>

definition sample_sgw_env :: sgw_env where
  "sample_sgw_env = \<lparr>ge_s11 = sample_env, ge_s5c = sample_env, ge_order11 = [], ge_order5 = [], ge_bearers = [''default''],
     ge_rnd11 = (\<lambda>_. 7), ge_rnd5 = (\<lambda>_. 7), ge_rnd1u = (\<lambda>_. 7), ge_rnd5u = (\<lambda>_. 7), ge_now = 0, ge_dns = (\<lambda>_. [])\<rparr>"

definition sample_s11Session :: session where
  "sample_s11Session = AddTEID IFTypeS1USGWGTPU 21 (AddTEID IFTypeS11MMEGTPC 5
     (set_IMSI ''123'' (NewSession ''10.0.0.3:2123'' no_subscriber)))"

definition sample_s5Session :: session where
  "sample_s5Session = upd_default (\<lambda>b. SetOutgoingTEID 8 (SetRemoteAddress ''10.0.0.9:2152'' b))
     (AddTEID IFTypeS5S8SGWGTPU 22 (set_IMSI ''123'' (NewSession ''10.0.0.9:2123'' no_subscriber)))"

definition sample_sgw :: "(gtp_link option \<Rightarrow> pdp list) sgw" where
  "sample_sgw = \<lparr>
     g_s11Conn = RegisterSession 7 0 ((new_s11Conn ''10.0.0.1:2123'')\<lparr>c_heap := [sample_s11Session]\<rparr>),
     g_s5cConn = RegisterSession 17 0 ((new_s5cConn ''10.0.1.1:2123'')\<lparr>c_heap := [sample_s5Session]\<rparr>),
     g_tunnels = \<lparr>kn_world = \<lparr>w_conns = [NewUPlaneConn ''10.0.0.1:2152'', NewUPlaneConn ''10.0.1.1:2152''], w_writes = 0, w_sent = []\<rparr>,
       kn_open = (\<lambda>_. True), kn_Link = (\<lambda>_. None), kn_kernel = (\<lambda>_. [])\<rparr>,
     g_s1uConn = 0, g_s5uConn = 1, g_s11IP = ''10.0.0.1'', g_s5cIP = ''10.0.1.1'', g_s1uIP = ''10.0.0.1'', g_s5uIP = ''10.0.1.1'',
     g_useKernelGTP = False\<rparr>"

definition sample_modify :: bytes where
  "sample_modify = [0x48, 34, 0, 30, 0, 0, 0, 7, 0, 0, 5, 0,
     93, 0, 18, 0, 73, 0, 1, 0, 5, 87, 0, 9, 0, 0x80, 0, 0, 0, 99, 10, 0, 0, 5]"

lemma sample_modify_parse:
  "case v2_Parse sample_modify of
     Inr (Msg_ModifyBearerRequest m) \<Rightarrow> v2_TEID (Msg_ModifyBearerRequest m) = 7 \<and>
       (case m_field m ModifyBearerRequest_BearerContextsToBeModified of
          Some ctx \<Rightarrow> (case filter (\<lambda>i. ie_Type i = IE_FullyQualifiedTEID) (ie_ChildIEs ctx) of
             [f] \<Rightarrow> ie_IPAddress f = Inr ''10.0.0.5'' \<and> ie_InterfaceType f = Inr 0 \<and> ie_TEID f = Inr 99 | _ \<Rightarrow> False)
        | None \<Rightarrow> False)
   | _ \<Rightarrow> False"
  by code_simp

lemma sample_resolve: "ResolveUDPAddr dns (''10.0.0.5'' @ GTPUPort) = Inr ''10.0.0.5:2152''"
  by code_simp

lemma sample_sgw_facts:
  "session_at (g_s11Conn sample_sgw) 0 = AddTEID 11 7 sample_s11Session" "session_at (g_s5cConn sample_sgw) 0 = AddTEID 6 17 sample_s5Session"
  "length (c_heap (g_s11Conn sample_sgw)) = 1" "c_iteiSessionMap (g_s11Conn sample_sgw) = [7 \<mapsto> Some 0]"
  "c_imsiSessionMap (g_s5cConn sample_sgw) = [''123'' \<mapsto> 0]"
  by (simp_all add: sample_sgw_def RegisterSession_def new_s11Conn_def new_s5cConn_def AddHandlers_def AddHandler_def NewConn_def
      upd_session_def) (simp_all add: sample_s5Session_def set_IMSI_def upd_subscriber_def)

lemma sample_sessions:
  "GetDefaultBearer sample_s5Session = Some (SetOutgoingTEID 8 (SetRemoteAddress ''10.0.0.9:2152'' (NewBearer 0 [] no_qos)))"
  "GetDefaultBearer sample_s11Session = Some (NewBearer 0 [] no_qos)"
  "s_IMSI sample_s11Session = ''123''" "s_peerAddrString sample_s11Session = ''10.0.0.3:2123''"
  "s_teidMap sample_s11Session 10 = Some 5" "s_teidMap sample_s11Session 1 = Some 21" "s_teidMap sample_s5Session 4 = Some 22"
  by (simp_all add: sample_s5Session_def sample_s11Session_def upd_default_def GetDefaultBearer_def SetDefaultBearer_def
      NewSession_def set_IMSI_def upd_subscriber_def AddTEID_def)

lemma sample_modify_ok:
  obtains req f where "v2_Parse sample_modify = Inr (Msg_ModifyBearerRequest req)"
    "modify_ok sample_sgw_env ''10.0.0.3:2123'' req f (0, 0) (''10.0.0.5:2152'', 99) (21, 22)
       (SetOutgoingTEID 8 (SetRemoteAddress ''10.0.0.9:2152'' (NewBearer 0 [] no_qos)), ''10.0.0.9:2152'') sample_sgw"
proof -
  obtain req ctx f where r: "v2_Parse sample_modify = Inr (Msg_ModifyBearerRequest req)" "v2_TEID (Msg_ModifyBearerRequest req) = 7"
    "m_field req ModifyBearerRequest_BearerContextsToBeModified = Some ctx"
    "filter (\<lambda>i. ie_Type i = IE_FullyQualifiedTEID) (ie_ChildIEs ctx) = [f]"
    "ie_IPAddress f = Inr ''10.0.0.5''" "ie_InterfaceType f = Inr 0" "ie_TEID f = Inr 99"
    using sample_modify_parse
    by (cases "v2_Parse sample_modify") (auto split: v2_message.splits option.splits list.splits)
  have split: "SplitHostPort ''10.0.0.9:2152'' = Some (''10.0.0.9'', ''2152'')" by code_simp
  have "ResolveUDPAddr (ge_dns sample_sgw_env) (''10.0.0.5'' @ GTPUPort) = Inr ''10.0.0.5:2152''" by (rule sample_resolve)
  with r(1) show ?thesis
    by (intro that [OF r(1)], unfold modify_ok_def Let_def prod.case, intro conjI exI [of _ ctx] exI [of _ "''10.0.0.5''"]
        exI [of _ "0 :: byte"] exI [of _ "5 :: u32"])
       (simp_all add: r split sample_sgw_facts sample_sessions GetSessionByTEID_def GetSessionByIMSI_def GetTEID_def
          SetRemoteAddress_def SetOutgoingTEID_def RemoteAddress_def, simp_all add: sample_sgw_def sample_sgw_env_def sample_env_def NewUPlaneConn_def, rule r(5), rule r(6), rule r(7))
qed

section \<open>Properties\<close>

lemma modify_response_total: "\<exists>m. modify_response mme ebi t1u ip = Inr m"
proof -
  obtain f where "NewFullyQualifiedTEID IFTypeS1USGWGTPU t1u ip [] = Inr (Some f)"
    by (rule fteid_TEID [of IFTypeS1USGWGTPU]) auto
  then show ?thesis by (simp add: modify_response_def NewBearerContext_def newGroupedIE_eq)
qed

text \<open>
  C19. A Modify Bearer Request that is in order is answered once, to the sender, with its sequence number,
  and joins the user planes: from then on a T-PDU of the base station that arrives on S1-U under
  the S-GW's TEID goes out on S5-U to the P-GW, under the P-GW's TEID and otherwise unchanged, and
  one of the P-GW that arrives on S5-U goes out on S1-U to the address and under the TEID that
  the request named.
\<close>

theorem modify_bearer_joins:
  assumes "modify_ok ge a req f (r11, r5) (raddr, t) (t1u, t5u) (b5, praddr) g"
  shows "\<exists>g' w m bytes N. handleModifyBearerRequest nl ge a req g = (Inr (), g') \<and> w = kn_world (g_tunnels g') \<and>
    c_sent (g_s11Conn g') = c_sent (g_s11Conn g) @ [(bytes, a)] \<and>
    v2_Marshal (v2_SetSequenceNumber (v2_Sequence (Msg_ModifyBearerRequest req)) (Msg_ModifyBearerResponse m)) = Inr (bytes, N) \<and>
    (\<forall>ue src raw. 11 \<le> length raw \<and> length raw \<le> 1500 \<and> raw ! 1 = v1_MsgTypeTPDU \<and> ue_write ue (w_writes w) \<longrightarrow>
      (join32 (raw ! 4) (raw ! 5) (raw ! 6) (raw ! 7) = t1u \<longrightarrow>
        u_serve ue (g_s1uConn g) src raw w = (Inr (), w\<lparr>w_writes := w_writes w + 1, w_sent := w_sent w @
          [(g_s5uConn g, take 4 raw @ be32 (OutgoingTEID b5) @ drop 8 raw, praddr)]\<rparr>)) \<and>
      (join32 (raw ! 4) (raw ! 5) (raw ! 6) (raw ! 7) = t5u \<longrightarrow>
        u_serve ue (g_s5uConn g) src raw w = (Inr (), w\<lparr>w_writes := w_writes w + 1, w_sent := w_sent w @
          [(g_s1uConn g, take 4 raw @ be32 t @ drop 8 raw, raddr)]\<rparr>)))"
proof -
  note ok = assms [unfolded modify_ok_def Let_def prod.case]
  let ?c = "g_s11Conn g"
  obtain ctx enb it mme where x: "m_field req ModifyBearerRequest_BearerContextsToBeModified = Some ctx"
    "filter (\<lambda>i. ie_Type i = IE_FullyQualifiedTEID) (ie_ChildIEs ctx) = [f]" "ie_IPAddress f = Inr enb"
    "ResolveUDPAddr (ge_dns ge) (enb @ GTPUPort) = Inr raddr" "ie_InterfaceType f = Inr it"
    "it \<noteq> IFTypeS11MMEGTPC" "it \<noteq> IFTypeS1USGWGTPU" "GetTEID IFTypeS11MMEGTPC (session_at ?c r11) = Inr mme"
    using ok by blast
  obtain b where b: "GetDefaultBearer (session_at ?c r11) = Some b" using ok by blast
  obtain host port where host: "SplitHostPort praddr = Some (host, port)" using ok by (metis not_None_eq surj_pair)
  let ?c' = "upd_session r11 (taken_over it t raddr) ?c"
  let ?g = "g\<lparr>g_s11Conn := ?c'\<rparr>" and ?b = "b\<lparr>br_raddr := Some raddr, br_teidOut := t\<rparr>"
  have at: "session_at ?c' r11 = taken_over it t raddr (session_at ?c r11)" using ok by (simp add: upd_session_def)
  have sess: "sessions_of (v2_TEID (Msg_ModifyBearerRequest req)) a g = (Inr (r11, r5), g)"
    by (rule sessions_of_found) (use ok in simp_all)
  have kids: "on_s11 (modify_children (ge_dns ge) r11 (ie_ChildIEs ctx) []) g = (Inr enb, ?g)"
    using modify_children_one [OF x(2-4) _ x(5), of t r11 ?c] ok by (simp add: on_s11_def)
  obtain w where w: "connect_uplanes nl enb host r11 r5 t1u t5u ?g = (Inr (), ?g\<lparr>g_tunnels := (g_tunnels g)\<lparr>kn_world := w\<rparr>\<rparr>)"
    "relay_load (u_relayMap (uconn_at w (g_s1uConn g))) t1u =
       Some \<lparr>peer_teid = OutgoingTEID b5, peer_addr = praddr, peer_srcConn = g_s5uConn g\<rparr>"
    "relay_load (u_relayMap (uconn_at w (g_s5uConn g))) t5u =
       Some \<lparr>peer_teid = t, peer_addr = raddr, peer_srcConn = g_s1uConn g\<rparr>"
    by (rule connect_relays [of ?g r5 b5 r11 ?b "kn_world (g_tunnels g)" nl enb host t1u t5u])
       (use ok b in \<open>auto simp: at taken_over_sel addr_or_nil_def RemoteAddress_def OutgoingTEID_def\<close>)
  obtain m where m: "modify_response mme (br_EBI ?b) t1u (g_s1uIP g) = Inr (Msg_ModifyBearerResponse m)"
    using modify_response_total [of mme "br_EBI ?b" t1u "g_s1uIP g"] by (auto simp: modify_response_def andThen_eq_Inr)
  let ?req = "Msg_ModifyBearerRequest req" and ?g2 = "?g\<lparr>g_tunnels := (g_tunnels g)\<lparr>kn_world := w\<rparr>\<rparr>"
  obtain bytes N where n: "v2_Marshal (v2_SetSequenceNumber (v2_Sequence ?req) (Msg_ModifyBearerResponse m)) = Inr (bytes, N)"
    and respond: "RespondTo (ge_s11 ge) a ?req (Msg_ModifyBearerResponse m) ?c' =
      (Inr (), ?c'\<lparr>c_writes := c_writes ?c' + 1, c_sent := c_sent ?c' @ [(bytes, a)]\<rparr>)"
    by (rule RespondTo_cases [of ?req "Msg_ModifyBearerResponse m" "ge_s11 ge" a ?c']) (use ok in \<open>auto simp: upd_session_def\<close>)
  have "handleModifyBearerRequest nl ge a req g = on_s11 (RespondTo (ge_s11 ge) a ?req (Msg_ModifyBearerResponse m)) ?g2"
    using ok x b host w(1) m
    by (simp add: handleModifyBearerRequest_def pbind_Inr sess required_def kids at taken_over_sel default_bearer_def remote_host_def)
  then have "handleModifyBearerRequest nl ge a req g =
      (Inr (), ?g2\<lparr>g_s11Conn := ?c'\<lparr>c_writes := c_writes ?c' + 1, c_sent := c_sent ?c' @ [(bytes, a)]\<rparr>\<rparr>)"
    by (simp add: on_s11_def respond)
  moreover have "c_sent ?c' = c_sent ?c" by (simp add: upd_session_def)
  moreover have "u_serve ue u src raw w = (Inr (), w\<lparr>w_writes := w_writes w + 1, w_sent := w_sent w @
      [(peer_srcConn peer, take 4 raw @ be32 (peer_teid peer) @ drop 8 raw, peer_addr peer)]\<rparr>)"
    if "relay_load (u_relayMap (uconn_at w u)) (join32 (raw ! 4) (raw ! 5) (raw ! 6) (raw ! 7)) = Some peer" "11 \<le> length raw"
      "length raw \<le> 1500" "raw ! 1 = v1_MsgTypeTPDU" "ue_write ue (w_writes w)" for ue u src raw peer
    by (rule u_serve_relayed) (use that in auto)
  ultimately show ?thesis
    using n w(2,3)
    by (intro exI [of _ "?g2\<lparr>g_s11Conn := ?c'\<lparr>c_writes := c_writes ?c' + 1, c_sent := c_sent ?c' @ [(bytes, a)]\<rparr>\<rparr>"]
        exI [of _ w] exI [of _ m] exI [of _ bytes] exI [of _ N]) auto
qed

theorem modify_bearer_joins_witness:
  "\<exists>req w. v2_Parse sample_modify = Inr (Msg_ModifyBearerRequest req) \<and>
     w = kn_world (g_tunnels (snd (handleModifyBearerRequest table_driver sample_sgw_env ''10.0.0.3:2123'' req sample_sgw))) \<and>
     w_sent (snd (u_serve sample_uenv 0 ''10.0.0.5:2152'' [0x30, 255, 0, 3, 0, 0, 0, 21, 1, 2, 3] w)) =
       w_sent w @ [(1, [0x30, 255, 0, 3, 0, 0, 0, 8, 1, 2, 3], ''10.0.0.9:2152'')]"
proof -
  obtain req f where r: "v2_Parse sample_modify = Inr (Msg_ModifyBearerRequest req)"
    "modify_ok sample_sgw_env ''10.0.0.3:2123'' req f (0, 0) (''10.0.0.5:2152'', 99) (21, 22)
       (SetOutgoingTEID 8 (SetRemoteAddress ''10.0.0.9:2152'' (NewBearer 0 [] no_qos)), ''10.0.0.9:2152'') sample_sgw"
    by (rule sample_modify_ok)
  let ?raw = "[0x30, 255, 0, 3, 0, 0, 0, 21, 1, 2, 3] :: bytes"
  have "join32 0 0 0 21 = 21" "be32 8 = [0, 0, 0, 8]" "g_s1uConn sample_sgw = 0" "g_s5uConn sample_sgw = 1"
    by (simp_all add: join32_def be32_def sample_sgw_def)
  moreover have "ue_write sample_uenv n" for n by (simp add: sample_uenv_def)
  ultimately show ?thesis
    using modify_bearer_joins [OF r(2), of table_driver] r(1)
    by (auto simp: OutgoingTEID_def SetOutgoingTEID_def dest!: spec [of _ sample_uenv] spec [of _ "''10.0.0.5:2152''"] spec [of _ ?raw])
qed

text \<open>
  C20. A Create Session Response that refuses the session, for a session known under its TEID: the
  handler fails with the cause, and the state it leaves differs from the one before in two table
  rows of the S5 connection only, the one of the session's IMSI and the one of its TEID. So the
  session is found neither by its TEID nor by its IMSI any more, every other lookup finds what it
  found, nothing is sent and nothing reaches the MME's side or the user plane.
\<close>

theorem refused_session_removed:
  fixes g :: "'k sgw" and ge :: sgw_env
  assumes "GetSessionByTEID (v2_TEID (Msg_CreateSessionResponse rsp)) a (g_s5cConn g) = Inr r"
    "s_teidMap (session_at (g_s5cConn g) r) (c_localIfType (g_s5cConn g)) = Some (v2_TEID (Msg_CreateSessionResponse rsp))"
    "m_field rsp CreateSessionResponse_Cause = Some i" "ie_Cause i = Inr cause" "cause \<noteq> CauseRequestAccepted"
  defines "c \<equiv> g_s5cConn g" and "g' \<equiv> snd (handleCreateSessionResponse ge a rsp g)"
  shows "fst (handleCreateSessionResponse ge a rsp g) = Inl (Error (V2CauseNotOK cause)) \<and>
    session_table (g_s5cConn g') = delete_row (v2_TEID (Msg_CreateSessionResponse rsp)) (session_table c) \<and>
    (\<forall>imsi. GetSessionByIMSI imsi (g_s5cConn g') =
       (if imsi = s_IMSI (session_at c r) then Inl (Error (V2UnknownIMSI imsi)) else GetSessionByIMSI imsi c)) \<and>
    g' = g\<lparr>g_s5cConn := c\<lparr>c_imsiSessionMap := (c_imsiSessionMap c)(s_IMSI (session_at c r) := None),
      c_iteiSessionMap := (c_iteiSessionMap c)(v2_TEID (Msg_CreateSessionResponse rsp) := None)\<rparr>\<rparr>"
proof -
  let ?t = "v2_TEID (Msg_CreateSessionResponse rsp)"
  let ?c = "c\<lparr>c_imsiSessionMap := (c_imsiSessionMap c)(s_IMSI (session_at c r) := None),
      c_iteiSessionMap := (c_iteiSessionMap c)(?t := None)\<rparr>"
  have t: "GetTEID (c_localIfType c) (session_at c r) = Inr ?t" using assms(2) by (simp add: GetTEID_def c_def)
  have refused: "accepted_or_remove order r cause c = (Inl (Error (V2CauseNotOK cause)), ?c)" for order
    using assms(5) remove_known [OF t, of order] by (simp add: accepted_or_remove_def bind_done fail_op_def)
  have "take_over dns order r rsp c = (Inl (Error (V2CauseNotOK cause)), ?c)" for dns order
    unfolding take_over_def by (rule bind_fail) (simp add: required_or_remove_def assms(3,4) refused)
  then have "handleCreateSessionResponse ge a rsp g = (Inl (Error (V2CauseNotOK cause)), g\<lparr>g_s5cConn := ?c\<rparr>)"
    using assms(1) by (simp add: handleCreateSessionResponse_def pbind_def [of "on_s5c (take_over _ _ _ _)"] on_s5c_def [of "take_over _ _ _ _"] c_def)
  then show ?thesis
    by (auto simp: g'_def session_table_alt delete_row_def GetSessionByIMSI_def fun_eq_iff split: option.split)
qed

definition sample_refusal :: bytes where
  "sample_refusal = [0x48, 33, 0, 14, 0, 0, 0, 17, 0, 0, 5, 0, 2, 0, 2, 0, 73, 0]"

theorem refused_session_removed_witness:
  "\<exists>rsp. v2_Parse sample_refusal = Inr (Msg_CreateSessionResponse rsp) \<and>
     fst (handleCreateSessionResponse sample_sgw_env ''10.0.0.9:2123'' rsp sample_sgw) = Inl (Error (V2CauseNotOK 73)) \<and>
     GetSessionByIMSI ''123'' (g_s5cConn (snd (handleCreateSessionResponse sample_sgw_env ''10.0.0.9:2123'' rsp sample_sgw))) =
       Inl (Error (V2UnknownIMSI ''123''))"
proof -
  have "case v2_Parse sample_refusal of Inr (Msg_CreateSessionResponse m) \<Rightarrow> v2_TEID (Msg_CreateSessionResponse m) = 17 \<and>
      (case m_field m CreateSessionResponse_Cause of Some i \<Rightarrow> ie_Cause i = Inr 73 | None \<Rightarrow> False) | _ \<Rightarrow> False"
    by code_simp
  then obtain rsp i where r: "v2_Parse sample_refusal = Inr (Msg_CreateSessionResponse rsp)" "v2_TEID (Msg_CreateSessionResponse rsp) = 17"
    "m_field rsp CreateSessionResponse_Cause = Some i" "ie_Cause i = Inr 73"
    by (auto split: sum.splits v2_message.splits option.splits)
  have "c_iteiSessionMap (g_s5cConn sample_sgw) = [17 \<mapsto> Some 0]" "c_localIfType (g_s5cConn sample_sgw) = 6"
    "s_peerAddrString (session_at (g_s5cConn sample_sgw) 0) = ''10.0.0.9:2123''" "s_IMSI (session_at (g_s5cConn sample_sgw) 0) = ''123''"
    by (simp_all add: sample_sgw_def RegisterSession_def new_s5cConn_def AddHandlers_def AddHandler_def NewConn_def upd_session_def)
       (simp_all add: sample_s5Session_def set_IMSI_def upd_subscriber_def NewSession_def)
  then show ?thesis
    using refused_session_removed [of rsp "''10.0.0.9:2123''" sample_sgw 0 i 73 sample_sgw_env] r
    by (simp add: GetSessionByTEID_def GetSessionByIMSI_def sample_sgw_facts)
qed

end
