(* ===== verification/ExamplePgw.thy ===== *)
theory ExamplePgw
  imports TesterSgw
begin

text \<open>
  The minimal P-GW of \<open>src/examples/pgw/pgw.go\<close>. It differs from the one of the tester in the address of
  the subscriber, which is looked up in a table, in the order of registration and activation, and
  in its user plane: a loop that answers packets as if they were ICMP Echo Requests. The state is
  that of \<open>TesterPgw\<close>, of which the fields about routes are not used.
\<close>

section \<open>Sessions\<close>

text \<open>An unknown subscriber is an error the program makes itself.\<close>

definition getSubscriberIP :: "subscriber \<Rightarrow> string result" where
  "getSubscriberIP sub =
     (case map_of [(''123451234567891'', ''10.10.10.1''), (''123451234567892'', ''10.10.10.2''),
         (''123451234567893'', ''10.10.10.3''), (''123451234567894'', ''10.10.10.4''),
         (''123451234567895'', ''10.10.10.5'')] (sub_IMSI sub) of
        Some a \<Rightarrow> Inr a | None \<Rightarrow> Inl (Error (UserError 0)))"

text \<open>The TEID is assigned to a variable of the loop body, so the one outside stays 0.\<close>

fun simple_children :: "ie list \<Rightarrow> session \<Rightarrow> session result" where
  "simple_children [] s = Inr s"
| "simple_children (i # is) s =
     (if ie_Type i = IE_EPSBearerID then
        andThen (ie_EPSBearerID i) (\<lambda>v. simple_children is (upd_default (\<lambda>b. b\<lparr>br_EBI := v\<rparr>) s))
      else if ie_Type i = IE_FullyQualifiedTEID then
        andThen (ie_InterfaceType i) (\<lambda>it. andThen (ie_TEID i) (\<lambda>teid. simple_children is (AddTEID it teid s)))
      else simple_children is s)"

definition simple_session :: "addr \<Rightarrow> string \<Rightarrow> CreateSessionRequest_field v2_msg \<Rightarrow> session result" where
  "simple_session sgwAddr imsi req =
     (let s = set_IMSI imsi (NewSession sgwAddr no_subscriber) in
      andThen (required IE_MSISDN (m_field req CreateSessionRequest_MSISDN) ie_MSISDN) (\<lambda>v.
      let s = set_MSISDN v s in
      andThen (required IE_MobileEquipmentIdentity (m_field req CreateSessionRequest_MEI) ie_MobileEquipmentIdentity) (\<lambda>v.
      let s = set_IMEI v s in
      andThen (required IE_AccessPointName (m_field req CreateSessionRequest_APN) ie_AccessPointName) (\<lambda>v.
      let s = upd_default (\<lambda>b. b\<lparr>br_APN := v\<rparr>) s in
      andThen (required IE_ServingNetwork (m_field req CreateSessionRequest_ServingNetwork) ie_MNC) (\<lambda>v.
      let s = upd_location (\<lambda>l. l\<lparr>loc_MNC := v\<rparr>) s in
      andThen (required IE_RATType (m_field req CreateSessionRequest_RATType) ie_RATType) (\<lambda>v.
      let s = upd_location (\<lambda>l. l\<lparr>loc_RATType := v\<rparr>) s in
      andThen (required IE_FullyQualifiedTEID (m_field req CreateSessionRequest_SenderFTEIDC) ie_TEID) (\<lambda>v.
      let s = AddTEID IFTypeS5S8SGWGTPC v s in
      andThen (required IE_BearerContext (m_field req CreateSessionRequest_BearerContextsToBeCreated)
        (\<lambda>i. simple_children (ie_ChildIEs i) s)) (\<lambda>s.
      andThen (getSubscriberIP (s_Subscriber s)) (\<lambda>v.
      Inr (upd_default (\<lambda>b. b\<lparr>br_SubscriberIP := v\<rparr>) s))))))))))"

definition register_and_activate :: "u32 \<Rightarrow> session \<Rightarrow> unit op" where
  "register_and_activate t s =
     bind_op (register_session t s) (\<lambda>r.
     bind_op (look (\<lambda>c. Activate (session_at c r))) (\<lambda>s. edit r (\<lambda>_. s)))"

definition simple_accept ::
  "pgw_env \<Rightarrow> addr \<Rightarrow> CreateSessionRequest_field v2_msg \<Rightarrow> string \<Rightarrow> string \<Rightarrow> session \<Rightarrow> ('k, unit) pop" where
  "simple_accept pe sgwAddr req cIP uIP s =
      pbind (on_cConn (NewSenderFTEID (pe_rndC pe) cIP [])) (\<lambda>cF.
      pbind (ppure (with_instance 1 cF)) (\<lambda>cF.
      pbind (on_uConn (NewFTEID (pe_rndU pe) (pe_now pe) IFTypeS5S8PGWGTPU uIP [])) (\<lambda>uF.
      pbind (ppure (with_instance 2 uF)) (\<lambda>uF.
      pbind (ppure (GetTEID IFTypeS5S8SGWGTPC s)) (\<lambda>sgwTEID.
      pbind (ppure (create_response req cIP s sgwTEID cF uF)) (\<lambda>rsp.
      pbind (ppure (ie_MustTEID cF)) (\<lambda>teidC.
      pbind (ppure (ie_MustTEID uF)) (\<lambda>teidU.
      let s = AddTEID IFTypeS5S8PGWGTPU teidU (AddTEID IFTypeS5S8PGWGTPC teidC s) in
      pbind (on_cConn (RespondTo (pe_env pe) sgwAddr (Msg_CreateSessionRequest req) (Msg_CreateSessionResponse rsp))) (\<lambda>_.
      pbind (ppure (GetTEID IFTypeS5S8PGWGTPC s)) (\<lambda>pgwTEID.
      on_cConn (register_and_activate pgwTEID s)))))))))))"

definition simple_handleCreateSessionRequest ::
  "pgw_env \<Rightarrow> addr \<Rightarrow> CreateSessionRequest_field v2_msg \<Rightarrow> ('k, unit) pop" where
  "simple_handleCreateSessionRequest pe sgwAddr req =
     pbind (ppure (required IE_IMSI (m_field req CreateSessionRequest_IMSI) ie_IMSI)) (\<lambda>imsi.
     pbind (on_cConn (forget_previous (pe_order pe) imsi)) (\<lambda>_.
     pbind (ppure (simple_session sgwAddr imsi req)) (\<lambda>s p.
       simple_accept pe sgwAddr req (host_of (c_laddr (p_cConn p))) (host_of (p_s5u p)) s p)))"

text \<open>But for the log, the same statements as in the tester.\<close>

definition simple_handleDeleteSessionRequest :: "pgw_env \<Rightarrow> addr \<Rightarrow> v2_message \<Rightarrow> unit op" where
  "simple_handleDeleteSessionRequest = handleDeleteSessionRequest"

section \<open>The user plane\<close>

text \<open>
  The reply to a packet: the type is cleared, the low octet of the checksum set, and source and destination exchanged.
\<close>

definition icmp_reply :: "bytes \<Rightarrow> bytes result" where
  "icmp_reply buf =
     andThen (write_at buf 20 [0]) (\<lambda>rsp.
     andThen (write_at rsp 22 [0x9b]) (\<lambda>rsp.
     andThen (slice buf 16 20) (\<lambda>dst.
     andThen (copy_at rsp 12 16 dst) (\<lambda>rsp.
     andThen (slice buf 12 16) (\<lambda>src. copy_at rsp 16 20 src)))))"

text \<open>
  One turn of the loop each session starts; \<open>None\<close> while no packet waits. The TEID of the reply is the
  variable outside of the loop over the children. An error ends the loop, a panic the program.
\<close>

definition reply_turn :: "uenv \<Rightarrow> nat \<Rightarrow> nat option \<Rightarrow> uworld \<Rightarrow> (unit result \<times> uworld) option" where
  "reply_turn env u choice w =
     (case ReadFromGTP choice 1500 u w of
        None \<Rightarrow> None
      | Some ((buf, raddr, _), w) \<Rightarrow>
          (case icmp_reply buf of
             Inl e \<Rightarrow> Some (Inl e, w)
           | Inr rsp \<Rightarrow>
               (case WriteToGTP env u 0 rsp raddr w of
                  (Inl e, w) \<Rightarrow> Some (Inl e, w)
                | (Inr _, w) \<Rightarrow> Some (Inr (), w))))"

text \<open>The reply exists for packets of at least 23 bytes; it panics on the others, also on the empty one.\<close>

lemma icmp_reply_eq:
  "icmp_reply p =
     (if length p < 23 then Inl (Panic IndexOutOfRange)
      else Inr (take 12 p @ take 4 (drop 16 p) @ take 4 (drop 12 p) @ [0, p ! 21, 0x9b] @ drop 23 p))"
proof (cases "length p < 23")
  case False
  have 1: "drop 20 p = p ! 20 # p ! 21 # p ! 22 # drop 23 p"
    using False Cons_nth_drop_Suc [of 20 p] Cons_nth_drop_Suc [of 21 p] Cons_nth_drop_Suc [of 22 p] by simp
  have p: "p = take 12 p @ take 4 (drop 12 p) @ take 4 (drop 16 p) @ drop 20 p"
    using append_take_drop_id [of 4 "drop 12 p"] append_take_drop_id [of 4 "drop 16 p"] by (simp add: add.commute)
  define a b c where abc: "a = take 12 p" "b = take 4 (drop 12 p)" "c = take 4 (drop 16 p)"
  have len: "length a = 12" "length b = 4" "length c = 4" using False by (simp_all add: abc)
  have p': "p = a @ b @ c @ p ! 20 # p ! 21 # p ! 22 # drop 23 p" using p by (simp only: abc 1)
  define x y z r where xyz: "x = p ! 20" "y = p ! 21" "z = p ! 22" "r = drop 23 p"
  have q: "p = a @ b @ c @ x # y # z # r" using p' by (simp only: xyz)
  have "icmp_reply (a @ b @ c @ x # y # z # r) = Inr (a @ c @ b @ [0, y, 0x9b] @ r)"
    by (simp add: icmp_reply_def write_at_def slice_def copy_at_def len)
  then show ?thesis using False by (simp only: q [symmetric] if_False) (simp add: abc xyz)
qed (auto simp: icmp_reply_def write_at_def)

text \<open>Every reply goes out under TEID 0, whatever TEIDs the sessions have.\<close>

lemma reply_TEID_zero:
  assumes "ReadFromGTP choice 1500 u w = Some ((buf, raddr, teid), w')" "23 \<le> length buf"
  shows "\<exists>rsp. icmp_reply buf = Inr rsp \<and>
    reply_turn env u choice w = (case WriteToGTP env u 0 rsp raddr w' of
      (Inl e, w) \<Rightarrow> Some (Inl e, w) | (Inr _, w) \<Rightarrow> Some (Inr (), w))"
  using assms by (simp add: reply_turn_def icmp_reply_eq)

text \<open>A shorter packet ends the program.\<close>

lemma short_packet_panics:
  assumes "ReadFromGTP choice 1500 u w = Some ((buf, raddr, teid), w')" "length buf < 23"
  shows "reply_turn env u choice w = Some (Inl (Panic IndexOutOfRange), w')"
  using assms by (simp add: reply_turn_def icmp_reply_eq)

end
