(* ===== verification/DeprecatedAliases.thy ===== *)
theory DeprecatedAliases
  imports GtpParse V2MsgMethods TVMsgMethods V1UPlane
begin

text \<open>
  The names that are kept for compatibility (the files \<open>*_deprecated.go\<close>): \<open>Serialize\<close>, \<open>SerializeTo\<close>,
  \<open>Decode\<close>, \<open>DecodeFromBytes\<close> and \<open>Len\<close> of each element, header and message type write a line to the log,
  which is left out, and call \<open>Marshal\<close>, \<open>MarshalTo\<close>, \<open>Parse\<close>, \<open>UnmarshalBinary\<close> and \<open>MarshalLen\<close>. Before them,
  \<open>Marshal\<close> of the messages without fields of their own, which only they and \<open>Parse\<close> of a whole message need.
\<close>

definition v0_TPDU_Marshal :: "v0_header \<Rightarrow> (bytes \<times> v0_header) result" where
  "v0_TPDU_Marshal t = v0_TPDU_MarshalTo t (replicate (v0_TPDU_MarshalLen t) 0)"

definition v0_Generic_Marshal :: "v0_header tv_generic \<Rightarrow> (bytes \<times> v0_header tv_generic) result" where
  "v0_Generic_Marshal g = v0_Generic_MarshalTo g (replicate (v0_Generic_MarshalLen g) 0)"

definition v1_Generic_Marshal :: "v1_header tv_generic \<Rightarrow> (bytes \<times> v1_header tv_generic) result" where
  "v1_Generic_Marshal g = v1_Generic_MarshalTo g (replicate (v1_Generic_MarshalLen g) 0)"

section \<open>Version 2\<close>

definition ie_Serialize where
  "ie_Serialize = ie_Marshal"

definition ie_SerializeTo where
  "ie_SerializeTo = ie_MarshalTo"

definition ie_Decode where
  "ie_Decode = ie_Parse"

definition ie_DecodeFromBytes where
  "ie_DecodeFromBytes = ie_UnmarshalBinary"

definition ie_Len where
  "ie_Len = ie_MarshalLen"

definition ContextAcknowledge_Serialize where
  "ContextAcknowledge_Serialize = ContextAcknowledge_Marshal"

definition ContextAcknowledge_SerializeTo where
  "ContextAcknowledge_SerializeTo = ContextAcknowledge_MarshalTo"

definition DecodeContextAcknowledge where
  "DecodeContextAcknowledge = ParseContextAcknowledge"

definition ContextAcknowledge_DecodeFromBytes where
  "ContextAcknowledge_DecodeFromBytes = ContextAcknowledge_UnmarshalBinary"

definition ContextAcknowledge_Len where
  "ContextAcknowledge_Len = ContextAcknowledge_MarshalLen"

definition ContextRequest_Serialize where
  "ContextRequest_Serialize = ContextRequest_Marshal"

definition ContextRequest_SerializeTo where
  "ContextRequest_SerializeTo = ContextRequest_MarshalTo"

definition DecodeContextRequest where
  "DecodeContextRequest = ParseContextRequest"

definition ContextRequest_DecodeFromBytes where
  "ContextRequest_DecodeFromBytes = ContextRequest_UnmarshalBinary"

definition ContextRequest_Len where
  "ContextRequest_Len = ContextRequest_MarshalLen"

definition ContextResponse_Serialize where
  "ContextResponse_Serialize = ContextResponse_Marshal"

definition ContextResponse_SerializeTo where
  "ContextResponse_SerializeTo = ContextResponse_MarshalTo"

definition DecodeContextResponse where
  "DecodeContextResponse = ParseContextResponse"

definition ContextResponse_DecodeFromBytes where
  "ContextResponse_DecodeFromBytes = ContextResponse_UnmarshalBinary"

definition ContextResponse_Len where
  "ContextResponse_Len = ContextResponse_MarshalLen"

definition CreateBearerRequest_Serialize where
  "CreateBearerRequest_Serialize = CreateBearerRequest_Marshal"

definition CreateBearerRequest_SerializeTo where
  "CreateBearerRequest_SerializeTo = CreateBearerRequest_MarshalTo"

definition DecodeCreateBearerRequest where
  "DecodeCreateBearerRequest = ParseCreateBearerRequest"

definition CreateBearerRequest_DecodeFromBytes where
  "CreateBearerRequest_DecodeFromBytes = CreateBearerRequest_UnmarshalBinary"

definition CreateBearerRequest_Len where
  "CreateBearerRequest_Len = CreateBearerRequest_MarshalLen"

definition CreateBearerResponse_Serialize where
  "CreateBearerResponse_Serialize = CreateBearerResponse_Marshal"

definition CreateBearerResponse_SerializeTo where
  "CreateBearerResponse_SerializeTo = CreateBearerResponse_MarshalTo"

definition DecodeCreateBearerResponse where
  "DecodeCreateBearerResponse = ParseCreateBearerResponse"

definition CreateBearerResponse_DecodeFromBytes where
  "CreateBearerResponse_DecodeFromBytes = CreateBearerResponse_UnmarshalBinary"

definition CreateBearerResponse_Len where
  "CreateBearerResponse_Len = CreateBearerResponse_MarshalLen"

definition CreateSessionRequest_Serialize where
  "CreateSessionRequest_Serialize = CreateSessionRequest_Marshal"

definition CreateSessionRequest_SerializeTo where
  "CreateSessionRequest_SerializeTo = CreateSessionRequest_MarshalTo"

definition DecodeCreateSessionRequest where
  "DecodeCreateSessionRequest = ParseCreateSessionRequest"

definition CreateSessionRequest_DecodeFromBytes where
  "CreateSessionRequest_DecodeFromBytes = CreateSessionRequest_UnmarshalBinary"

definition CreateSessionRequest_Len where
  "CreateSessionRequest_Len = CreateSessionRequest_MarshalLen"

definition CreateSessionResponse_Serialize where
  "CreateSessionResponse_Serialize = CreateSessionResponse_Marshal"

definition CreateSessionResponse_SerializeTo where
  "CreateSessionResponse_SerializeTo = CreateSessionResponse_MarshalTo"

definition DecodeCreateSessionResponse where
  "DecodeCreateSessionResponse = ParseCreateSessionResponse"

definition CreateSessionResponse_DecodeFromBytes where
  "CreateSessionResponse_DecodeFromBytes = CreateSessionResponse_UnmarshalBinary"

definition CreateSessionResponse_Len where
  "CreateSessionResponse_Len = CreateSessionResponse_MarshalLen"

definition DeleteBearerRequest_Serialize where
  "DeleteBearerRequest_Serialize = DeleteBearerRequest_Marshal"

definition DeleteBearerRequest_SerializeTo where
  "DeleteBearerRequest_SerializeTo = DeleteBearerRequest_MarshalTo"

definition DecodeDeleteBearerRequest where
  "DecodeDeleteBearerRequest = ParseDeleteBearerRequest"

definition DeleteBearerRequest_DecodeFromBytes where
  "DeleteBearerRequest_DecodeFromBytes = DeleteBearerRequest_UnmarshalBinary"

definition DeleteBearerRequest_Len where
  "DeleteBearerRequest_Len = DeleteBearerRequest_MarshalLen"

definition DeleteBearerResponse_Serialize where
  "DeleteBearerResponse_Serialize = DeleteBearerResponse_Marshal"

definition DeleteBearerResponse_SerializeTo where
  "DeleteBearerResponse_SerializeTo = DeleteBearerResponse_MarshalTo"

definition DecodeDeleteBearerResponse where
  "DecodeDeleteBearerResponse = ParseDeleteBearerResponse"

definition DeleteBearerResponse_DecodeFromBytes where
  "DeleteBearerResponse_DecodeFromBytes = DeleteBearerResponse_UnmarshalBinary"

definition DeleteBearerResponse_Len where
  "DeleteBearerResponse_Len = DeleteBearerResponse_MarshalLen"

definition DeleteSessionRequest_Serialize where
  "DeleteSessionRequest_Serialize = DeleteSessionRequest_Marshal"

definition DeleteSessionRequest_SerializeTo where
  "DeleteSessionRequest_SerializeTo = DeleteSessionRequest_MarshalTo"

definition DecodeDeleteSessionRequest where
  "DecodeDeleteSessionRequest = ParseDeleteSessionRequest"

definition DeleteSessionRequest_DecodeFromBytes where
  "DeleteSessionRequest_DecodeFromBytes = DeleteSessionRequest_UnmarshalBinary"

definition DeleteSessionRequest_Len where
  "DeleteSessionRequest_Len = DeleteSessionRequest_MarshalLen"

definition DeleteSessionResponse_Serialize where
  "DeleteSessionResponse_Serialize = DeleteSessionResponse_Marshal"

definition DeleteSessionResponse_SerializeTo where
  "DeleteSessionResponse_SerializeTo = DeleteSessionResponse_MarshalTo"

definition DecodeDeleteSessionResponse where
  "DecodeDeleteSessionResponse = ParseDeleteSessionResponse"

definition DeleteSessionResponse_DecodeFromBytes where
  "DeleteSessionResponse_DecodeFromBytes = DeleteSessionResponse_UnmarshalBinary"

definition DeleteSessionResponse_Len where
  "DeleteSessionResponse_Len = DeleteSessionResponse_MarshalLen"

definition EchoRequest_Serialize where
  "EchoRequest_Serialize = EchoRequest_Marshal"

definition EchoRequest_SerializeTo where
  "EchoRequest_SerializeTo = EchoRequest_MarshalTo"

definition DecodeEchoRequest where
  "DecodeEchoRequest = ParseEchoRequest"

definition EchoRequest_DecodeFromBytes where
  "EchoRequest_DecodeFromBytes = EchoRequest_UnmarshalBinary"

definition EchoRequest_Len where
  "EchoRequest_Len = EchoRequest_MarshalLen"

definition EchoResponse_Serialize where
  "EchoResponse_Serialize = EchoResponse_Marshal"

definition EchoResponse_SerializeTo where
  "EchoResponse_SerializeTo = EchoResponse_MarshalTo"

definition DecodeEchoResponse where
  "DecodeEchoResponse = ParseEchoResponse"

definition EchoResponse_DecodeFromBytes where
  "EchoResponse_DecodeFromBytes = EchoResponse_UnmarshalBinary"

definition EchoResponse_Len where
  "EchoResponse_Len = EchoResponse_MarshalLen"

definition Generic_Serialize where
  "Generic_Serialize = g_Marshal"

definition Generic_SerializeTo where
  "Generic_SerializeTo = g_MarshalTo"

definition DecodeGeneric where
  "DecodeGeneric = ParseGeneric"

definition Generic_DecodeFromBytes where
  "Generic_DecodeFromBytes = g_UnmarshalBinary"

definition Generic_Len where
  "Generic_Len = g_MarshalLen"

definition Header_Serialize where
  "Header_Serialize = h_Marshal"

definition Header_SerializeTo where
  "Header_SerializeTo = h_MarshalTo"

definition DecodeHeader where
  "DecodeHeader = h_ParseHeader"

definition Header_DecodeFromBytes where
  "Header_DecodeFromBytes = h_UnmarshalBinary"

definition Header_Len where
  "Header_Len = h_MarshalLen"

definition v2_Serialize where
  "v2_Serialize = v2_Marshal"

definition v2_Decode where
  "v2_Decode = v2_Parse"

definition ModifyAccessBearersRequest_Serialize where
  "ModifyAccessBearersRequest_Serialize = ModifyAccessBearersRequest_Marshal"

definition ModifyAccessBearersRequest_SerializeTo where
  "ModifyAccessBearersRequest_SerializeTo = ModifyAccessBearersRequest_MarshalTo"

definition DecodeModifyAccessBearersRequest where
  "DecodeModifyAccessBearersRequest = ParseModifyAccessBearersRequest"

definition ModifyAccessBearersRequest_DecodeFromBytes where
  "ModifyAccessBearersRequest_DecodeFromBytes = ModifyAccessBearersRequest_UnmarshalBinary"

definition ModifyAccessBearersRequest_Len where
  "ModifyAccessBearersRequest_Len = ModifyAccessBearersRequest_MarshalLen"

definition ModifyAccessBearersResponse_Serialize where
  "ModifyAccessBearersResponse_Serialize = ModifyAccessBearersResponse_Marshal"

definition ModifyAccessBearersResponse_SerializeTo where
  "ModifyAccessBearersResponse_SerializeTo = ModifyAccessBearersResponse_MarshalTo"

definition DecodeModifyAccessBearersResponse where
  "DecodeModifyAccessBearersResponse = ParseModifyAccessBearersResponse"

definition ModifyAccessBearersResponse_DecodeFromBytes where
  "ModifyAccessBearersResponse_DecodeFromBytes = ModifyAccessBearersResponse_UnmarshalBinary"

definition ModifyAccessBearersResponse_Len where
  "ModifyAccessBearersResponse_Len = ModifyAccessBearersResponse_MarshalLen"

definition ModifyBearerRequest_Serialize where
  "ModifyBearerRequest_Serialize = ModifyBearerRequest_Marshal"

definition ModifyBearerRequest_SerializeTo where
  "ModifyBearerRequest_SerializeTo = ModifyBearerRequest_MarshalTo"

definition DecodeModifyBearerRequest where
  "DecodeModifyBearerRequest = ParseModifyBearerRequest"

definition ModifyBearerRequest_DecodeFromBytes where
  "ModifyBearerRequest_DecodeFromBytes = ModifyBearerRequest_UnmarshalBinary"

definition ModifyBearerRequest_Len where
  "ModifyBearerRequest_Len = ModifyBearerRequest_MarshalLen"

definition ModifyBearerResponse_Serialize where
  "ModifyBearerResponse_Serialize = ModifyBearerResponse_Marshal"

definition ModifyBearerResponse_SerializeTo where
  "ModifyBearerResponse_SerializeTo = ModifyBearerResponse_MarshalTo"

definition DecodeModifyBearerResponse where
  "DecodeModifyBearerResponse = ParseModifyBearerResponse"

definition ModifyBearerResponse_DecodeFromBytes where
  "ModifyBearerResponse_DecodeFromBytes = ModifyBearerResponse_UnmarshalBinary"

definition ModifyBearerResponse_Len where
  "ModifyBearerResponse_Len = ModifyBearerResponse_MarshalLen"

definition ReleaseAccessBearersRequest_Serialize where
  "ReleaseAccessBearersRequest_Serialize = ReleaseAccessBearersRequest_Marshal"

definition ReleaseAccessBearersRequest_SerializeTo where
  "ReleaseAccessBearersRequest_SerializeTo = ReleaseAccessBearersRequest_MarshalTo"

definition DecodeReleaseAccessBearersRequest where
  "DecodeReleaseAccessBearersRequest = ParseReleaseAccessBearersRequest"

definition ReleaseAccessBearersRequest_DecodeFromBytes where
  "ReleaseAccessBearersRequest_DecodeFromBytes = ReleaseAccessBearersRequest_UnmarshalBinary"

definition ReleaseAccessBearersRequest_Len where
  "ReleaseAccessBearersRequest_Len = ReleaseAccessBearersRequest_MarshalLen"

definition ReleaseAccessBearersResponse_Serialize where
  "ReleaseAccessBearersResponse_Serialize = ReleaseAccessBearersResponse_Marshal"

definition ReleaseAccessBearersResponse_SerializeTo where
  "ReleaseAccessBearersResponse_SerializeTo = ReleaseAccessBearersResponse_MarshalTo"

definition DecodeReleaseAccessBearersResponse where
  "DecodeReleaseAccessBearersResponse = ParseReleaseAccessBearersResponse"

definition ReleaseAccessBearersResponse_DecodeFromBytes where
  "ReleaseAccessBearersResponse_DecodeFromBytes = ReleaseAccessBearersResponse_UnmarshalBinary"

definition ReleaseAccessBearersResponse_Len where
  "ReleaseAccessBearersResponse_Len = ReleaseAccessBearersResponse_MarshalLen"

definition StopPagingIndication_Serialize where
  "StopPagingIndication_Serialize = StopPagingIndication_Marshal"

definition StopPagingIndication_SerializeTo where
  "StopPagingIndication_SerializeTo = StopPagingIndication_MarshalTo"

definition DecodeStopPagingIndication where
  "DecodeStopPagingIndication = ParseStopPagingIndication"

definition StopPagingIndication_DecodeFromBytes where
  "StopPagingIndication_DecodeFromBytes = StopPagingIndication_UnmarshalBinary"

definition StopPagingIndication_Len where
  "StopPagingIndication_Len = StopPagingIndication_MarshalLen"

definition VersionNotSupportedIndication_Serialize where
  "VersionNotSupportedIndication_Serialize = VersionNotSupportedIndication_Marshal"

definition VersionNotSupportedIndication_SerializeTo where
  "VersionNotSupportedIndication_SerializeTo = VersionNotSupportedIndication_MarshalTo"

definition DecodeVersionNotSupportedIndication where
  "DecodeVersionNotSupportedIndication = ParseVersionNotSupportedIndication"

definition VersionNotSupportedIndication_DecodeFromBytes where
  "VersionNotSupportedIndication_DecodeFromBytes = VersionNotSupportedIndication_UnmarshalBinary"

definition VersionNotSupportedIndication_Len where
  "VersionNotSupportedIndication_Len = VersionNotSupportedIndication_MarshalLen"

section \<open>Version 1\<close>

definition v1_ie_Serialize where
  "v1_ie_Serialize = v1_ie_Marshal"

definition v1_ie_SerializeTo where
  "v1_ie_SerializeTo = v1_ie_MarshalTo"

definition v1_ie_Decode where
  "v1_ie_Decode = v1_ie_Parse"

definition v1_ie_DecodeFromBytes where
  "v1_ie_DecodeFromBytes = v1_ie_UnmarshalBinary"

definition v1_ie_Len where
  "v1_ie_Len = v1_ie_MarshalLen"

definition v1_CreatePDPContextRequest_Serialize where
  "v1_CreatePDPContextRequest_Serialize = v1_CreatePDPContextRequest_Marshal"

definition v1_CreatePDPContextRequest_SerializeTo where
  "v1_CreatePDPContextRequest_SerializeTo = v1_CreatePDPContextRequest_MarshalTo"

definition v1_DecodeCreatePDPContextRequest where
  "v1_DecodeCreatePDPContextRequest = v1_ParseCreatePDPContextRequest"

definition v1_CreatePDPContextRequest_DecodeFromBytes where
  "v1_CreatePDPContextRequest_DecodeFromBytes = v1_CreatePDPContextRequest_UnmarshalBinary"

definition v1_CreatePDPContextRequest_Len where
  "v1_CreatePDPContextRequest_Len = v1_CreatePDPContextRequest_MarshalLen"

definition v1_CreatePDPContextResponse_Serialize where
  "v1_CreatePDPContextResponse_Serialize = v1_CreatePDPContextResponse_Marshal"

definition v1_CreatePDPContextResponse_SerializeTo where
  "v1_CreatePDPContextResponse_SerializeTo = v1_CreatePDPContextResponse_MarshalTo"

definition v1_DecodeCreatePDPContextResponse where
  "v1_DecodeCreatePDPContextResponse = v1_ParseCreatePDPContextResponse"

definition v1_CreatePDPContextResponse_DecodeFromBytes where
  "v1_CreatePDPContextResponse_DecodeFromBytes = v1_CreatePDPContextResponse_UnmarshalBinary"

definition v1_CreatePDPContextResponse_Len where
  "v1_CreatePDPContextResponse_Len = v1_CreatePDPContextResponse_MarshalLen"

definition v1_DeletePDPContextRequest_Serialize where
  "v1_DeletePDPContextRequest_Serialize = v1_DeletePDPContextRequest_Marshal"

definition v1_DeletePDPContextRequest_SerializeTo where
  "v1_DeletePDPContextRequest_SerializeTo = v1_DeletePDPContextRequest_MarshalTo"

definition v1_DecodeDeletePDPContextRequest where
  "v1_DecodeDeletePDPContextRequest = v1_ParseDeletePDPContextRequest"

definition v1_DeletePDPContextRequest_DecodeFromBytes where
  "v1_DeletePDPContextRequest_DecodeFromBytes = v1_DeletePDPContextRequest_UnmarshalBinary"

definition v1_DeletePDPContextRequest_Len where
  "v1_DeletePDPContextRequest_Len = v1_DeletePDPContextRequest_MarshalLen"

definition v1_DeletePDPContextResponse_Serialize where
  "v1_DeletePDPContextResponse_Serialize = v1_DeletePDPContextResponse_Marshal"

definition v1_DeletePDPContextResponse_SerializeTo where
  "v1_DeletePDPContextResponse_SerializeTo = v1_DeletePDPContextResponse_MarshalTo"

definition v1_DecodeDeletePDPContextResponse where
  "v1_DecodeDeletePDPContextResponse = v1_ParseDeletePDPContextResponse"

definition v1_DeletePDPContextResponse_DecodeFromBytes where
  "v1_DeletePDPContextResponse_DecodeFromBytes = v1_DeletePDPContextResponse_UnmarshalBinary"

definition v1_DeletePDPContextResponse_Len where
  "v1_DeletePDPContextResponse_Len = v1_DeletePDPContextResponse_MarshalLen"

definition v1_EchoRequest_Serialize where
  "v1_EchoRequest_Serialize = v1_EchoRequest_Marshal"

definition v1_EchoRequest_SerializeTo where
  "v1_EchoRequest_SerializeTo = v1_EchoRequest_MarshalTo"

definition v1_DecodeEchoRequest where
  "v1_DecodeEchoRequest = v1_ParseEchoRequest"

definition v1_EchoRequest_DecodeFromBytes where
  "v1_EchoRequest_DecodeFromBytes = v1_EchoRequest_UnmarshalBinary"

definition v1_EchoRequest_Len where
  "v1_EchoRequest_Len = v1_EchoRequest_MarshalLen"

definition v1_EchoResponse_Serialize where
  "v1_EchoResponse_Serialize = v1_EchoResponse_Marshal"

definition v1_EchoResponse_SerializeTo where
  "v1_EchoResponse_SerializeTo = v1_EchoResponse_MarshalTo"

definition v1_DecodeEchoResponse where
  "v1_DecodeEchoResponse = v1_ParseEchoResponse"

definition v1_EchoResponse_DecodeFromBytes where
  "v1_EchoResponse_DecodeFromBytes = v1_EchoResponse_UnmarshalBinary"

definition v1_EchoResponse_Len where
  "v1_EchoResponse_Len = v1_EchoResponse_MarshalLen"

definition v1_ErrorIndication_Serialize where
  "v1_ErrorIndication_Serialize = v1_ErrorIndication_Marshal"

definition v1_ErrorIndication_SerializeTo where
  "v1_ErrorIndication_SerializeTo = v1_ErrorIndication_MarshalTo"

definition v1_DecodeErrorIndication where
  "v1_DecodeErrorIndication = v1_ParseErrorIndication"

definition v1_ErrorIndication_DecodeFromBytes where
  "v1_ErrorIndication_DecodeFromBytes = v1_ErrorIndication_UnmarshalBinary"

definition v1_ErrorIndication_Len where
  "v1_ErrorIndication_Len = v1_ErrorIndication_MarshalLen"

definition v1_Generic_Serialize where
  "v1_Generic_Serialize = v1_Generic_Marshal"

definition v1_Generic_SerializeTo where
  "v1_Generic_SerializeTo = v1_Generic_MarshalTo"

definition v1_DecodeGeneric where
  "v1_DecodeGeneric = v1_ParseGeneric"

definition v1_Generic_DecodeFromBytes where
  "v1_Generic_DecodeFromBytes = v1_Generic_UnmarshalBinary"

definition v1_Generic_Len where
  "v1_Generic_Len = v1_Generic_MarshalLen"

definition v1_Header_Serialize where
  "v1_Header_Serialize = h1_Marshal"

definition v1_Header_SerializeTo where
  "v1_Header_SerializeTo = h1_MarshalTo"

definition v1_DecodeHeader where
  "v1_DecodeHeader = v1_ParseHeader"

definition v1_Header_DecodeFromBytes where
  "v1_Header_DecodeFromBytes = h1_UnmarshalBinary"

definition v1_Header_Len where
  "v1_Header_Len = h1_MarshalLen"

definition v1_Serialize where
  "v1_Serialize = v1_Marshal"

definition v1_Decode where
  "v1_Decode = v1_Parse"

definition v1_TPDU_Serialize where
  "v1_TPDU_Serialize = v1_TPDU_Marshal"

definition v1_TPDU_SerializeTo where
  "v1_TPDU_SerializeTo = v1_TPDU_MarshalTo"

definition v1_DecodeTPDU where
  "v1_DecodeTPDU = v1_ParseTPDU"

definition v1_TPDU_DecodeFromBytes where
  "v1_TPDU_DecodeFromBytes = v1_TPDU_UnmarshalBinary"

definition v1_TPDU_Len where
  "v1_TPDU_Len = v1_TPDU_MarshalLen"

definition v1_UpdatePDPContextRequest_Serialize where
  "v1_UpdatePDPContextRequest_Serialize = v1_UpdatePDPContextRequest_Marshal"

definition v1_UpdatePDPContextRequest_SerializeTo where
  "v1_UpdatePDPContextRequest_SerializeTo = v1_UpdatePDPContextRequest_MarshalTo"

definition v1_DecodeUpdatePDPContextRequest where
  "v1_DecodeUpdatePDPContextRequest = v1_ParseUpdatePDPContextRequest"

definition v1_UpdatePDPContextRequest_DecodeFromBytes where
  "v1_UpdatePDPContextRequest_DecodeFromBytes = v1_UpdatePDPContextRequest_UnmarshalBinary"

definition v1_UpdatePDPContextRequest_Len where
  "v1_UpdatePDPContextRequest_Len = v1_UpdatePDPContextRequest_MarshalLen"

definition v1_UpdatePDPContextResponse_Serialize where
  "v1_UpdatePDPContextResponse_Serialize = v1_UpdatePDPContextResponse_Marshal"

definition v1_UpdatePDPContextResponse_SerializeTo where
  "v1_UpdatePDPContextResponse_SerializeTo = v1_UpdatePDPContextResponse_MarshalTo"

definition v1_DecodeUpdatePDPContextResponse where
  "v1_DecodeUpdatePDPContextResponse = v1_ParseUpdatePDPContextResponse"

definition v1_UpdatePDPContextResponse_DecodeFromBytes where
  "v1_UpdatePDPContextResponse_DecodeFromBytes = v1_UpdatePDPContextResponse_UnmarshalBinary"

definition v1_UpdatePDPContextResponse_Len where
  "v1_UpdatePDPContextResponse_Len = v1_UpdatePDPContextResponse_MarshalLen"

definition v1_VersionNotSupported_Serialize where
  "v1_VersionNotSupported_Serialize = v1_VersionNotSupported_Marshal"

definition v1_VersionNotSupported_SerializeTo where
  "v1_VersionNotSupported_SerializeTo = v1_VersionNotSupported_MarshalTo"

definition v1_DecodeVersionNotSupported where
  "v1_DecodeVersionNotSupported = v1_ParseVersionNotSupported"

definition v1_VersionNotSupported_DecodeFromBytes where
  "v1_VersionNotSupported_DecodeFromBytes = v1_VersionNotSupported_UnmarshalBinary"

definition v1_VersionNotSupported_Len where
  "v1_VersionNotSupported_Len = v1_VersionNotSupported_MarshalLen"

section \<open>Version 0\<close>

definition v0_ie_Serialize where
  "v0_ie_Serialize = v0_ie_Marshal"

definition v0_ie_SerializeTo where
  "v0_ie_SerializeTo = v0_ie_MarshalTo"

definition v0_ie_Decode where
  "v0_ie_Decode = v0_ie_Parse"

definition v0_ie_DecodeFromBytes where
  "v0_ie_DecodeFromBytes = v0_ie_UnmarshalBinary"

definition v0_ie_Len where
  "v0_ie_Len = v0_ie_MarshalLen"

definition v0_CreatePDPContextRequest_Serialize where
  "v0_CreatePDPContextRequest_Serialize = v0_CreatePDPContextRequest_Marshal"

definition v0_CreatePDPContextRequest_SerializeTo where
  "v0_CreatePDPContextRequest_SerializeTo = v0_CreatePDPContextRequest_MarshalTo"

definition v0_DecodeCreatePDPContextRequest where
  "v0_DecodeCreatePDPContextRequest = v0_ParseCreatePDPContextRequest"

definition v0_CreatePDPContextRequest_DecodeFromBytes where
  "v0_CreatePDPContextRequest_DecodeFromBytes = v0_CreatePDPContextRequest_UnmarshalBinary"

definition v0_CreatePDPContextRequest_Len where
  "v0_CreatePDPContextRequest_Len = v0_CreatePDPContextRequest_MarshalLen"

definition v0_CreatePDPContextResponse_Serialize where
  "v0_CreatePDPContextResponse_Serialize = v0_CreatePDPContextResponse_Marshal"

definition v0_CreatePDPContextResponse_SerializeTo where
  "v0_CreatePDPContextResponse_SerializeTo = v0_CreatePDPContextResponse_MarshalTo"

definition v0_DecodeCreatePDPContextResponse where
  "v0_DecodeCreatePDPContextResponse = v0_ParseCreatePDPContextResponse"

definition v0_CreatePDPContextResponse_DecodeFromBytes where
  "v0_CreatePDPContextResponse_DecodeFromBytes = v0_CreatePDPContextResponse_UnmarshalBinary"

definition v0_CreatePDPContextResponse_Len where
  "v0_CreatePDPContextResponse_Len = v0_CreatePDPContextResponse_MarshalLen"

definition v0_DeletePDPContextRequest_Serialize where
  "v0_DeletePDPContextRequest_Serialize = v0_DeletePDPContextRequest_Marshal"

definition v0_DeletePDPContextRequest_SerializeTo where
  "v0_DeletePDPContextRequest_SerializeTo = v0_DeletePDPContextRequest_MarshalTo"

definition v0_DecodeDeletePDPContextRequest where
  "v0_DecodeDeletePDPContextRequest = v0_ParseDeletePDPContextRequest"

definition v0_DeletePDPContextRequest_DecodeFromBytes where
  "v0_DeletePDPContextRequest_DecodeFromBytes = v0_DeletePDPContextRequest_UnmarshalBinary"

definition v0_DeletePDPContextRequest_Len where
  "v0_DeletePDPContextRequest_Len = v0_DeletePDPContextRequest_MarshalLen"

definition v0_DeletePDPContextResponse_Serialize where
  "v0_DeletePDPContextResponse_Serialize = v0_DeletePDPContextResponse_Marshal"

definition v0_DeletePDPContextResponse_SerializeTo where
  "v0_DeletePDPContextResponse_SerializeTo = v0_DeletePDPContextResponse_MarshalTo"

definition v0_DecodeDeletePDPContextResponse where
  "v0_DecodeDeletePDPContextResponse = v0_ParseDeletePDPContextResponse"

definition v0_DeletePDPContextResponse_DecodeFromBytes where
  "v0_DeletePDPContextResponse_DecodeFromBytes = v0_DeletePDPContextResponse_UnmarshalBinary"

definition v0_DeletePDPContextResponse_Len where
  "v0_DeletePDPContextResponse_Len = v0_DeletePDPContextResponse_MarshalLen"

definition v0_EchoRequest_Serialize where
  "v0_EchoRequest_Serialize = v0_EchoRequest_Marshal"

definition v0_EchoRequest_SerializeTo where
  "v0_EchoRequest_SerializeTo = v0_EchoRequest_MarshalTo"

definition v0_DecodeEchoRequest where
  "v0_DecodeEchoRequest = v0_ParseEchoRequest"

definition v0_EchoRequest_DecodeFromBytes where
  "v0_EchoRequest_DecodeFromBytes = v0_EchoRequest_UnmarshalBinary"

definition v0_EchoRequest_Len where
  "v0_EchoRequest_Len = v0_EchoRequest_MarshalLen"

definition v0_EchoResponse_Serialize where
  "v0_EchoResponse_Serialize = v0_EchoResponse_Marshal"

definition v0_EchoResponse_SerializeTo where
  "v0_EchoResponse_SerializeTo = v0_EchoResponse_MarshalTo"

definition v0_DecodeEchoResponse where
  "v0_DecodeEchoResponse = v0_ParseEchoResponse"

definition v0_EchoResponse_DecodeFromBytes where
  "v0_EchoResponse_DecodeFromBytes = v0_EchoResponse_UnmarshalBinary"

definition v0_EchoResponse_Len where
  "v0_EchoResponse_Len = v0_EchoResponse_MarshalLen"

definition v0_Generic_Serialize where
  "v0_Generic_Serialize = v0_Generic_Marshal"

definition v0_Generic_SerializeTo where
  "v0_Generic_SerializeTo = v0_Generic_MarshalTo"

definition v0_DecodeGeneric where
  "v0_DecodeGeneric = v0_ParseGeneric"

definition v0_Generic_DecodeFromBytes where
  "v0_Generic_DecodeFromBytes = v0_Generic_UnmarshalBinary"

definition v0_Generic_Len where
  "v0_Generic_Len = v0_Generic_MarshalLen"

definition v0_Header_Serialize where
  "v0_Header_Serialize = h0_Marshal"

definition v0_Header_SerializeTo where
  "v0_Header_SerializeTo = h0_MarshalTo"

definition v0_DecodeHeader where
  "v0_DecodeHeader = v0_ParseHeader"

definition v0_Header_DecodeFromBytes where
  "v0_Header_DecodeFromBytes = h0_UnmarshalBinary"

definition v0_Header_Len where
  "v0_Header_Len = h0_MarshalLen"

definition v0_Serialize where
  "v0_Serialize = v0_Marshal"

definition v0_Decode where
  "v0_Decode = v0_Parse"

definition v0_TPDU_Serialize where
  "v0_TPDU_Serialize = v0_TPDU_Marshal"

definition v0_TPDU_SerializeTo where
  "v0_TPDU_SerializeTo = v0_TPDU_MarshalTo"

definition v0_DecodeTPDU where
  "v0_DecodeTPDU = v0_ParseTPDU"

definition v0_TPDU_DecodeFromBytes where
  "v0_TPDU_DecodeFromBytes = v0_TPDU_UnmarshalBinary"

definition v0_TPDU_Len where
  "v0_TPDU_Len = v0_TPDU_MarshalLen"

definition v0_UpdatePDPContextRequest_Serialize where
  "v0_UpdatePDPContextRequest_Serialize = v0_UpdatePDPContextRequest_Marshal"

definition v0_UpdatePDPContextRequest_SerializeTo where
  "v0_UpdatePDPContextRequest_SerializeTo = v0_UpdatePDPContextRequest_MarshalTo"

definition v0_DecodeUpdatePDPContextRequest where
  "v0_DecodeUpdatePDPContextRequest = v0_ParseUpdatePDPContextRequest"

definition v0_UpdatePDPContextRequest_DecodeFromBytes where
  "v0_UpdatePDPContextRequest_DecodeFromBytes = v0_UpdatePDPContextRequest_UnmarshalBinary"

definition v0_UpdatePDPContextRequest_Len where
  "v0_UpdatePDPContextRequest_Len = v0_UpdatePDPContextRequest_MarshalLen"

definition v0_UpdatePDPContextResponse_Serialize where
  "v0_UpdatePDPContextResponse_Serialize = v0_UpdatePDPContextResponse_Marshal"

definition v0_UpdatePDPContextResponse_SerializeTo where
  "v0_UpdatePDPContextResponse_SerializeTo = v0_UpdatePDPContextResponse_MarshalTo"

definition v0_DecodeUpdatePDPContextResponse where
  "v0_DecodeUpdatePDPContextResponse = v0_ParseUpdatePDPContextResponse"

definition v0_UpdatePDPContextResponse_DecodeFromBytes where
  "v0_UpdatePDPContextResponse_DecodeFromBytes = v0_UpdatePDPContextResponse_UnmarshalBinary"

definition v0_UpdatePDPContextResponse_Len where
  "v0_UpdatePDPContextResponse_Len = v0_UpdatePDPContextResponse_MarshalLen"

end
