(* ===== verification/Constants.thy ===== *)
theory Constants
  imports MessageTypes
begin

text \<open>
  The constants of the three versions (\<open>constants.go\<close>), one table per \<open>const\<close> block, with the values Go
  gives them: causes, interface types, containers and so on. The lemmas check the numbers that the
  library itself writes down against the tables.
\<close>

text \<open>A block counts \<open>iota\<close>, \<open>iota + k\<close> or \<open>iota | k\<close>.\<close>

datatype const_base = Plain | Shifted nat | Disjoined nat

definition base_value :: "const_base \<Rightarrow> nat \<Rightarrow> nat" where
  "base_value b n = (case b of Plain \<Rightarrow> n | Shifted k \<Rightarrow> n + k | Disjoined k \<Rightarrow> n OR k)"

fun block_values :: "const_base \<Rightarrow> nat \<Rightarrow> const_spec list \<Rightarrow> (string \<times> nat) list" where
  "block_values b n [] = []"
| "block_values b n (Iota c # cs) = (if c = ''_'' then [] else [(c, base_value b n)]) @ block_values b (n + 1) cs"
| "block_values b n (Fixed c v # cs) = (if c = ''_'' then [] else [(c, v)]) @ block_values b (n + 1) cs"

section \<open>Version 2\<close>

definition v2_renamed_constants :: "(string \<times> nat) list" where
  "v2_renamed_constants = block_values Plain 0 [
    Fixed ''ContIDMSSupportOfNetworkRequestedBearerControlIndicator'' 5,
    Fixed ''ContIDIPAddressAllocationViaNASSignalling'' 10,
    Fixed ''ContIDIPv4AddressAllocationViaDHCPv4'' 11, Fixed ''ContID3GPPPSDataOffUEStatus'' 23,
    Fixed ''SelectionModeMSOrNetworkProvidedAPNSubscribedVerified'' 0]"

definition v2_registered_udp_ports :: "(string \<times> string) list" where
  "v2_registered_udp_ports = [(''GTPCPort'', '':2123''), (''GTPUPort'', '':2152'')]"

definition v2_interfacetype :: "(string \<times> nat) list" where
  "v2_interfacetype = block_values Plain 0 [
    Iota ''IFTypeS1UeNodeBGTPU'', Iota ''IFTypeS1USGWGTPU'', Iota ''IFTypeS12RNCGTPU'',
    Iota ''IFTypeS12SGWGTPU'', Iota ''IFTypeS5S8SGWGTPU'', Iota ''IFTypeS5S8PGWGTPU'',
    Iota ''IFTypeS5S8SGWGTPC'', Iota ''IFTypeS5S8PGWGTPC'', Iota ''IFTypeS5S8SGWPMIPv6'',
    Iota ''IFTypeS5S8PGWPMIPv6'', Iota ''IFTypeS11MMEGTPC'', Iota ''IFTypeS11S4SGWGTPC'',
    Iota ''IFTypeS10MMEGTPC'', Iota ''IFTypeS3MMEGTPC'', Iota ''IFTypeS3SGSNGTPC'',
    Iota ''IFTypeS4SGSNGTPU'', Iota ''IFTypeS4SGWGTPU'', Iota ''IFTypeS4SGSNGTPC'',
    Iota ''IFTypeS16SGSNGTPC'', Iota ''IFTypeeNodeBGTPUForDL'', Iota ''IFTypeeNodeBGTPUForUL'',
    Iota ''IFTypeRNCGTPUForData'', Iota ''IFTypeSGSNGTPUForData'', Iota ''IFTypeSGWUPFGTPUForDL'',
    Iota ''IFTypeSmMBMSGWGTPC'', Iota ''IFTypeSnMBMSGWGTPC'', Iota ''IFTypeSmMMEGTPC'',
    Iota ''IFTypeSnSGSNGTPC'', Iota ''IFTypeSGWGTPUForUL'', Iota ''IFTypeSnSGSNGTPU'',
    Iota ''IFTypeS2bePDGGTPC'', Iota ''IFTypeS2bUePDGGTPU'', Iota ''IFTypeS2bPGWGTPC'',
    Iota ''IFTypeS2bUPGWGTPU'', Iota ''IFTypeS2aTWANGTPU'', Iota ''IFTypeS2aTWANGTPC'',
    Iota ''IFTypeS2aPGWGTPC'', Iota ''IFTypeS2aPGWGTPU'', Iota ''IFTypeS11MMEGTPU'',
    Iota ''IFTypeS11SGWGTPU'']"

definition v2_apn_restriction :: "(string \<times> nat) list" where
  "v2_apn_restriction = block_values Plain 0 [
    Iota ''APNRestrictionNoExistingContextsorRestriction'', Iota ''APNRestrictionPublic1'',
    Iota ''APNRestrictionPublic2'', Iota ''APNRestrictionPrivate1'', Iota ''APNRestrictionPrivate2'']"

definition v2_cause :: "(string \<times> nat) list" where
  "v2_cause = block_values Plain 0 [
    Fixed ''_'' 0, Fixed ''_'' 1, Fixed ''CauseLocalDetach'' 2, Fixed ''CauseCompleteDetach'' 3,
    Fixed ''CauseRATChangedFrom3GPPToNon3GPP'' 4, Fixed ''CauseISRDeactivation'' 5,
    Fixed ''CauseErrorIndicationReceivedFromRNCeNodeBS4SGSNMME'' 6, Fixed ''CauseIMSIDetachOnly'' 7,
    Fixed ''CauseReactivationRequested'' 8, Fixed ''CausePDNReconnectionToThisAPNDisallowed'' 9,
    Fixed ''CauseAccessChangedFromNon3GPPTo3GPP'' 10, Fixed ''CausePDNConnectionInactivityTimerExpires'' 11,
    Fixed ''CausePGWNotResponding'' 12, Fixed ''CauseNetworkFailure'' 13,
    Fixed ''CauseQoSParameterMismatch'' 14, Fixed ''_'' 15, Fixed ''CauseRequestAccepted'' 16,
    Fixed ''CauseRequestAcceptedPartially'' 17, Fixed ''CauseNewPDNTypeDueToNetworkPreference'' 18,
    Fixed ''CauseNewPDNTypeDueToSingleAddressBearerOnly'' 19, Fixed ''CauseContextNotFound'' 64,
    Fixed ''CauseInvalidMessageFormat'' 65, Fixed ''CauseVersionNotSupportedByNextPeer'' 66,
    Fixed ''CauseInvalidLength'' 67, Fixed ''CauseServiceNotSupported'' 68,
    Fixed ''CauseMandatoryIEIncorrect'' 69, Fixed ''CauseMandatoryIEMissing'' 70, Fixed ''_'' 71,
    Fixed ''CauseSystemFailure'' 72, Fixed ''CauseNoResourcesAvailable'' 73,
    Fixed ''CauseSemanticErrorInTheTFTOperation'' 74, Fixed ''CauseSyntacticErrorInTheTFTOperation'' 75,
    Fixed ''CauseSemanticErrorsInPacketFilters'' 76, Fixed ''CauseSyntacticErrorsInPacketFilters'' 77,
    Fixed ''CauseMissingOrUnknownAPN'' 78, Fixed ''_'' 79, Fixed ''CauseGREKeyNotFound'' 80,
    Fixed ''CauseRelocationFailure'' 81, Fixed ''CauseDeniedInRAT'' 82,
    Fixed ''CausePreferredPDNTypeNotSupported'' 83, Fixed ''CauseAllDynamicAddressesAreOccupied'' 84,
    Fixed ''CauseUEContextWithoutTFTAlreadyActivated'' 85, Fixed ''CauseProtocolTypeNotSupported'' 86,
    Fixed ''CauseUENotResponding'' 87, Fixed ''CauseUERefuses'' 88, Fixed ''CauseServiceDenied'' 89,
    Fixed ''CauseUnableToPageUE'' 90, Fixed ''CauseNoMemoryAvailable'' 91,
    Fixed ''CauseUserAuthenticationFailed'' 92, Fixed ''CauseAPNAccessDeniedNoSubscription'' 93,
    Fixed ''CauseRequestRejectedReasonNotSpecified'' 94, Fixed ''CausePTMSISignatureMismatch'' 95,
    Fixed ''CauseIMSIIMEINotKnown'' 96, Fixed ''CauseSemanticErrorInTheTADOperation'' 97,
    Fixed ''CauseSyntacticErrorInTheTADOperation'' 98, Fixed ''_'' 99,
    Fixed ''CauseRemotePeerNotResponding'' 100, Fixed ''CauseCollisionWithNetworkInitiatedRequest'' 101,
    Fixed ''CauseUnableToPageUEDueToSuspension'' 102, Fixed ''CauseConditionalIEMissing'' 103,
    Fixed ''CauseAPNRestrictionTypeIncompatibleWithCurrentlyActivePDNConnection'' 104,
    Fixed ''CauseInvalidOverallLengthOfTheTriggeredResponseMessageAndAPiggybackedInitialMessage'' 105,
    Fixed ''CauseDataForwardingNotSupported'' 106, Fixed ''CauseInvalidReplyFromRemotePeer'' 107,
    Fixed ''CauseFallbackToGTPv1'' 108, Fixed ''CauseInvalidPeer'' 109,
    Fixed ''CauseTemporarilyRejectedDueToHandoverTAURAUProcedureInProgress'' 110,
    Fixed ''CauseModificationsNotLimitedToS1UBearers'' 111,
    Fixed ''CauseRequestRejectedForAPMIPv6Reason'' 112, Fixed ''CauseAPNCongestion'' 113,
    Fixed ''CauseBearerHandlingNotSupported'' 114, Fixed ''CauseUEAlreadyReattached'' 115,
    Fixed ''CauseMultiplePDNConnectionsForAGivenAPNNotAllowed'' 116,
    Fixed ''CauseTargetAccessRestrictedForTheSubscriber'' 117, Fixed ''_'' 118,
    Fixed ''CauseMMESGSNRefusesDueToVPLMNPolicy'' 119, Fixed ''CauseGTPCEntityCongestion'' 120,
    Fixed ''CauseLateOverlappingRequest'' 121, Fixed ''CauseTimedOutRequest'' 122,
    Fixed ''CauseUEIsTemporarilyNotReachableDueToPowerSaving'' 123,
    Fixed ''CauseRelocationFailureDueToNASMessageRedirection'' 124,
    Fixed ''CauseUENotAuthorisedByOCSOrExternalAAAServer'' 125,
    Fixed ''CauseMultipleAccessesToAPDNConnectionNotAllowed'' 126,
    Fixed ''CauseRequestRejectedDueToUECapability'' 127, Fixed ''CauseS1UPathFailure'' 128]"

definition v2_csg_membership_indication :: "(string \<times> nat) list" where
  "v2_csg_membership_indication = block_values Plain 0 [
    Iota ''CMINonCSG'', Iota ''CMICSG'']"

definition v2_detach_type :: "(string \<times> nat) list" where
  "v2_detach_type = block_values Plain 0 [
    Iota ''_'', Iota ''DetachTypePS'', Iota ''DetachTypeCombinedPSCS'']"

definition v2_node_id_type :: "(string \<times> nat) list" where
  "v2_node_id_type = block_values Plain 0 [
    Iota ''NodeIDIPv4'', Iota ''NodeIDIPv6'', Iota ''NodeIDOther'']"

definition v2_node_type :: "(string \<times> nat) list" where
  "v2_node_type = block_values Plain 0 [
    Iota ''NodeTypeSGSN'', Iota ''NodeTypeMME'']"

definition v2_protocol_id :: "(string \<times> nat) list" where
  "v2_protocol_id = block_values Plain 0 [
    Fixed ''ProtoIDLCP'' 0xc021, Fixed ''ProtoIDPAP'' 0xc023, Fixed ''ProtoIDCHAP'' 0xc223,
    Fixed ''ProtoIDIPCP'' 0x8021]"

definition v2_container_id :: "(string \<times> nat) list" where
  "v2_container_id = block_values Plain 0 [
    Iota ''_'', Iota ''ContIDPCSCFIPv6AddressRequest'', Iota ''ContIDIMCNSubsystemSignalingFlag'',
    Iota ''ContIDDNSServerIPv6AddressRequest'', Iota ''ContIDNotSupported'',
    Iota ''ContIDMSSupportofNetworkRequestedBearerControlIndicator'', Iota ''_'',
    Iota ''ContIDDSMIPv6HomeAgentAddressRequest'', Iota ''ContIDDSMIPv6HomeNetworkPrefixRequest'',
    Iota ''ContIDDSMIPv6IPv4HomeAgentAddressRequest'', Iota ''ContIDIPaddressAllocationViaNASSignalling'',
    Iota ''ContIDIPv4addressAllocationViaDHCPv4'', Iota ''ContIDPCSCFIPv4AddressRequest'',
    Iota ''ContIDDNSServerIPv4AddressRequest'', Iota ''ContIDMSISDNRequest'',
    Iota ''ContIDIFOMSupportRequest'', Iota ''ContIDIPv4LinkMTURequest'',
    Iota ''ContIDMSSupportOfLocalAddressInTFTIndicator'', Iota ''ContIDPCSCFReselectionSupport'',
    Iota ''ContIDNBIFOMRequestIndicator'', Iota ''ContIDNBIFOMMode'', Iota ''ContIDNonIPLinkMTURequest'',
    Iota ''ContIDAPNRateControlSupportIndicator'', Iota ''ContID3GPPPSDataOffUEstatus'',
    Iota ''ContIDReliableDataServiceRequestIndicator'',
    Iota ''ContIDAdditionalAPNRateControlForExceptionDataSupportIndicator'', Iota ''ContIDPDUSessionID'',
    Iota ''_'', Iota ''_'', Iota ''_'', Iota ''_'', Iota ''_'',
    Iota ''ContIDEthernetFramePayloadMTURequest'', Iota ''ContIDUnstructuredLinkMTURequest'',
    Iota ''ContID5GSMCauseValue'']"

definition v2_configuration_protocol :: "(string \<times> nat) list" where
  "v2_configuration_protocol = block_values Plain 0 [
    Fixed ''ConfigProtocolPPPWithIP'' 0]"

definition v2_pdn_type :: "(string \<times> nat) list" where
  "v2_pdn_type = block_values Plain 0 [
    Iota ''_'', Iota ''PDNTypeIPv4'', Iota ''PDNTypeIPv6'', Iota ''PDNTypeIPv4v6'', Iota ''PDNTypeNonIP'']"

definition v2_protocol_type :: "(string \<times> nat) list" where
  "v2_protocol_type = block_values Plain 0 [
    Iota ''_'', Iota ''ProtoTypeS1APCause'', Iota ''ProtoTypeEMMCause'', Iota ''ProtoTypeESMCause'',
    Iota ''ProtoTypeDiameterCause'', Iota ''ProtoTypeIKEv2Cause'']"

definition v2_cause_type :: "(string \<times> nat) list" where
  "v2_cause_type = block_values Plain 0 [
    Iota ''CauseTypeRadioNetworkLayer'', Iota ''CauseTypeTransportLayer'', Iota ''CauseTypeNAS'',
    Iota ''CauseTypeProtocol'', Iota ''CauseTypeMiscellaneous'']"

definition v2_rat_type :: "(string \<times> nat) list" where
  "v2_rat_type = block_values Plain 0 [
    Iota ''_'', Iota ''RATTypeUTRAN'', Iota ''RATTypeGERAN'', Iota ''RATTypeWLAN'', Iota ''RATTypeGAN'',
    Iota ''RATTypeHSPAEvolution'', Iota ''RATTypeEUTRAN'', Iota ''RATTypeVirtual'',
    Iota ''RATTypeEUTRANNBIoT'', Iota ''RATTypeLTEM'', Iota ''RATTypeNR'']"

definition v2_selectionmode :: "(string \<times> nat) list" where
  "v2_selectionmode = block_values Plain 0 [
    Iota ''SelectionModeMSorNetworkProvidedAPNSubscribedVerified'',
    Iota ''SelectionModeMSProvidedAPNSubscriptionNotVerified'',
    Iota ''SelectionModeNetworkProvidedAPNSubscriptionNotVerified'']"

definition v2_service_indicator :: "(string \<times> nat) list" where
  "v2_service_indicator = block_values Plain 0 [
    Iota ''_'', Iota ''ServiceIndCSCall'', Iota ''ServiceIndSMS'']"

definition v2_access_mode :: "(string \<times> nat) list" where
  "v2_access_mode = block_values Plain 0 [
    Iota ''AccessModeClosed'', Iota ''AccessModeHybrid'']"

definition v2_daylight_saving_time :: "(string \<times> nat) list" where
  "v2_daylight_saving_time = block_values Plain 0 [
    Iota ''DaylightSavingNoAdjustment'', Iota ''DaylightSavingPlusOneHour'',
    Iota ''DaylightSavingPlusTwoHours'']"

section \<open>Version 1\<close>

definition v1_registered_udp_ports :: "(string \<times> string) list" where
  "v1_registered_udp_ports = [(''GTPCPort'', '':2123''), (''GTPUPort'', '':2152'')]"

definition v1_cause :: "(string \<times> nat) list" where
  "v1_cause = block_values Plain 0 [
    Iota ''ReqCauseRequestIMSI'', Iota ''ReqCauseRequestIMEI'', Iota ''ReqCauseRequestIMSIAndIMEI'',
    Iota ''ReqCauseNoIdentityNeeded'', Iota ''ReqCauseMSRefuses'', Iota ''ReqCauseMSIsNotGPRSResponding'',
    Iota ''ReqCauseReactivationRequested'', Iota ''ReqCausePDPAddressInactivityTimerExpires'',
    Iota ''ReqCauseNetworkFailure'', Iota ''ReqCauseQoSParameterMismatch'']"

definition v1_cause_2 :: "(string \<times> nat) list" where
  "v1_cause_2 = block_values (Shifted 128) 0 [
    Iota ''ResCauseRequestAccepted'', Iota ''ResCauseNewPDPTypeDueToNetworkPreference'',
    Iota ''ResCauseNewPDPTypeDueToSingleAddressBearerOnly'']"

definition v1_cause_3 :: "(string \<times> nat) list" where
  "v1_cause_3 = block_values (Shifted 192) 0 [
    Iota ''ResCauseNonExistent'', Iota ''ResCauseInvalidMessageFormat'', Iota ''ResCauseIMSIIMEINotKnown'',
    Iota ''ResCauseMSIsGPRSDetached'', Iota ''ResCauseMSIsNotGPRSResponding'', Iota ''ResCauseMSRefuses'',
    Iota ''ResCauseVersionNotSupported'', Iota ''ResCauseNoResourcesAvailable'',
    Iota ''ResCauseServiceNotSupported'', Iota ''ResCauseMandatoryIEIncorrect'',
    Iota ''ResCauseMandatoryIEMissing'', Iota ''ResCauseOptionalIEIncorrect'',
    Iota ''ResCauseSystemFailure'', Iota ''ResCauseRoamingRestriction'',
    Iota ''ResCausePTMSISignatureMismatch'', Iota ''ResCauseGPRSConnectionSuspended'',
    Iota ''ResCauseAuthenticationFailure'', Iota ''ResCauseUserAuthenticationFailed'',
    Iota ''ResCauseContextNotFound'', Iota ''ResCauseAllDynamicPDPAddressesAreOccupied'',
    Iota ''ResCauseNoMemoryIsAvailable'', Iota ''ResCauseRelocationFailure'',
    Iota ''ResCauseUnknownMandatoryExtensionHeader'', Iota ''ResCauseSemanticErrorInTheTFTOperation'',
    Iota ''ResCauseSyntacticErrorInTheTFTOperation'', Iota ''ResCauseSemanticErrorsInPacketFilter'',
    Iota ''ResCauseSyntacticErrorsInPacketFilter'', Iota ''ResCauseMissingOrUnknownAPN'',
    Iota ''ResCauseUnknownPDPAddressOrPDPType'', Iota ''ResCausePDPContextWithoutTFTAlreadyActivated'',
    Iota ''ResCauseAPNAccessDeniedNoSubscription'',
    Iota ''ResCauseAPNRestrictionTypeIncompatibilityWithCurrentlyActivePDPContexts'',
    Iota ''ResCauseMSMBMSCapabilitiesInsufficient'', Iota ''ResCauseInvalidCorrelationID'',
    Iota ''ResCauseMBMSBearerContextSuperseded'', Iota ''ResCauseBearerControlModeViolation'',
    Iota ''ResCauseCollisionWithNetworkInitiatedRequest'', Iota ''ResCauseAPNCongestion'',
    Iota ''ResCauseBearerHandlingNotSupported'', Iota ''ResCauseTargetAccessRestrictedForTheSubscriber'',
    Iota ''ResCauseUEIsTemporarilyNotReachableDueToPowerSaving'',
    Iota ''ResCauseRelocationFailureDueToNASMessageRedirection'']"

definition v1_selectionmode :: "(string \<times> nat) list" where
  "v1_selectionmode = block_values (Disjoined 0xf0) 0 [
    Iota ''SelectionModeMSorNetworkProvidedAPNSubscribedVerified'',
    Iota ''SelectionModeMSProvidedAPNSubscriptionNotVerified'',
    Iota ''SelectionModeNetworkProvidedAPNSubscriptionNotVerified'']"

definition v1_pdp_type_organization :: "(string \<times> nat) list" where
  "v1_pdp_type_organization = block_values (Disjoined 0xf0) 0 [
    Iota ''PDPTypeETSI'', Iota ''PDPTypeIETF'']"

definition v1_protocol_id :: "(string \<times> nat) list" where
  "v1_protocol_id = block_values Plain 0 [
    Fixed ''ProtoIDLCP'' 0xc021, Fixed ''ProtoIDPAP'' 0xc023, Fixed ''ProtoIDCHAP'' 0xc223,
    Fixed ''ProtoIDIPCP'' 0x8021]"

definition v1_container_id :: "(string \<times> nat) list" where
  "v1_container_id = block_values Plain 0 [
    Iota ''_'', Iota ''ContIDPCSCFIPv6AddressRequest'', Iota ''ContIDIMCNSubsystemSignalingFlag'',
    Iota ''ContIDDNSServerIPv6AddressRequest'', Iota ''ContIDNotSupported'',
    Iota ''ContIDMSSupportofNetworkRequestedBearerControlIndicator'', Iota ''_'',
    Iota ''ContIDDSMIPv6HomeAgentAddressRequest'', Iota ''ContIDDSMIPv6HomeNetworkPrefixRequest'',
    Iota ''ContIDDSMIPv6IPv4HomeAgentAddressRequest'', Iota ''ContIDIPaddressAllocationViaNASSignalling'',
    Iota ''ContIDIPv4addressAllocationViaDHCPv4'', Iota ''ContIDPCSCFIPv4AddressRequest'',
    Iota ''ContIDDNSServerIPv4AddressRequest'', Iota ''ContIDMSISDNRequest'',
    Iota ''ContIDIFOMSupportRequest'', Iota ''ContIDIPv4LinkMTURequest'',
    Iota ''ContIDMSSupportOfLocalAddressInTFTIndicator'', Iota ''ContIDPCSCFReselectionSupport'',
    Iota ''ContIDNBIFOMRequestIndicator'', Iota ''ContIDNBIFOMMode'', Iota ''ContIDNonIPLinkMTURequest'',
    Iota ''ContIDAPNRateControlSupportIndicator'', Iota ''ContID3GPPPSDataOffUEStatus'',
    Iota ''ContIDReliableDataServiceRequestIndicator'',
    Iota ''ContIDAdditionalAPNRateControlForExceptionDataSupportIndicator'', Iota ''ContIDPDUSessionID'',
    Iota ''_'', Iota ''_'', Iota ''_'', Iota ''_'', Iota ''_'',
    Iota ''ContIDEthernetFramePayloadMTURequest'', Iota ''ContIDUnstructuredLinkMTURequest'',
    Iota ''ContID5GSMCauseValue'']"

definition v1_configuration_protocol :: "(string \<times> nat) list" where
  "v1_configuration_protocol = block_values Plain 0 [
    Fixed ''ConfigProtocolPPPWithIP'' 0]"

definition v1_rattype :: "(string \<times> nat) list" where
  "v1_rattype = block_values Plain 0 [
    Iota ''_'', Iota ''RatTypeUTRAN'', Iota ''RatTypeGERAN'', Iota ''RatTypeWLAN'', Iota ''RatTypeGAN'',
    Iota ''RatTypeHSPAEvolution'', Iota ''RatTypeEUTRAN'']"

definition v1_userlocationinformation_geographiclocationtype :: "(string \<times> nat) list" where
  "v1_userlocationinformation_geographiclocationtype = block_values Plain 0 [
    Iota ''LocTypeCGI'', Iota ''LocTypeSAI'', Iota ''LocTypeRAI'']"

definition v1_apn_restriction :: "(string \<times> nat) list" where
  "v1_apn_restriction = block_values Plain 0 [
    Iota ''APNRestrictionNoExistingContextsorRestriction'', Iota ''APNRestrictionPublic1'',
    Iota ''APNRestrictionPublic2'', Iota ''APNRestrictionPrivate1'', Iota ''APNRestrictionPrivate2'']"

definition v1_map_cause :: "(string \<times> nat) list" where
  "v1_map_cause = block_values Plain 0 [
    Iota ''_'', Iota ''MAPCauseUnknownSubscriber'', Iota ''MAPCauseUnknownBaseStation'',
    Iota ''MAPCauseUnknownMSC'', Iota ''MAPCauseSecureTransportError'',
    Iota ''MAPCauseUnidentifiedSubscriber'', Iota ''MAPCauseAbsentSubscriberSM'',
    Iota ''MAPCauseUnknownEquipment'', Iota ''MAPCauseRoamingNotAllowed'',
    Iota ''MAPCauseIllegalSubscriber'', Iota ''MAPCauseBearerServiceNotProvisioned'',
    Iota ''MAPCauseTeleserviceNotProvisioned'', Iota ''MAPCauseIllegalEquipment'',
    Iota ''MAPCauseCallBarred'', Iota ''MAPCauseForwardingViolation'', Iota ''MAPCauseCUGReject'',
    Iota ''MAPCauseIllegalSSOperation'', Iota ''MAPCauseSSErrorStatus'', Iota ''MAPCauseSSNotAvailable'',
    Iota ''MAPCauseSSSubscriptionViolatio'', Iota ''MAPCauseSSIncompatibility'',
    Iota ''MAPCauseFacilityNotSupported'', Iota ''MAPCauseOngoingGroupCall'',
    Iota ''MAPCauseInvalidTargetBaseStation'', Iota ''MAPCauseNoRadioResourceAvailable'',
    Iota ''MAPCauseNoHandoverNumberAvailable'', Iota ''MAPCauseSubsequentHandoverFailure'',
    Iota ''MAPCauseAbsentSubscriber'', Iota ''MAPCauseIncompatibleTerminal'',
    Iota ''MAPCauseShortTermDenial'', Iota ''MAPCauseLongTermDenial'',
    Iota ''MAPCauseSubscriberBusyForMTSMS'', Iota ''MAPCauseSMDeliveryFailure'',
    Iota ''MAPCauseMessageWaitingListFull'', Iota ''MAPCauseSystemFailure'', Iota ''MAPCauseDataMissing'',
    Iota ''MAPCauseUnexpectedDataValue'', Iota ''MAPCausePWRegistrationFailure'',
    Iota ''MAPCauseNegativePWCheck'', Iota ''MAPCauseNoRoamingNumberAvailable'',
    Iota ''MAPCauseTracingBufferFull'', Iota ''_'', Iota ''MAPCauseTargetCellOutsideGroupCallArea'',
    Iota ''MAPCauseNumberOfPWAttemptsViolation'', Iota ''MAPCauseNumberChanged'',
    Iota ''MAPCauseBusySubscriber'', Iota ''MAPCauseNoSubscriberReply'', Iota ''MAPCauseForwardingFailed'',
    Iota ''MAPCauseORNotAllowed'', Iota ''MAPCauseATINotAllowed'',
    Iota ''MAPCauseNoGroupCallNumberAvailable'', Iota ''MAPCauseResourceLimitation'',
    Iota ''MAPCauseUnauthorizedRequestingNetwork'', Iota ''MAPCauseUnauthorizedLCSClient'',
    Iota ''MAPCausePositionMethodFailure'', Iota ''_'', Iota ''_'', Iota ''_'',
    Iota ''MAPCauseUnknownOrUnreachableLCSClient'', Iota ''MAPCauseMMEventNotSupported'',
    Iota ''MAPCauseATSINotAllowed'', Iota ''MAPCauseATMNotAllowed'',
    Iota ''MAPCauseInformationNotAvailabl'', Iota ''_'', Iota ''_'', Iota ''_'', Iota ''_'', Iota ''_'',
    Iota ''_'', Iota ''_'', Iota ''_'', Iota ''MAPCauseUnknownAlphabe'', Iota ''MAPCauseUSSDBusy'']"

definition v1_ranap_cause :: "(string \<times> nat) list" where
  "v1_ranap_cause = block_values Plain 0 [
    Iota ''_'', Iota ''RABPreempted'', Iota ''RANAPCauseTrelocoverallExpiry'',
    Iota ''RANAPCauseTrelocprepExpiry'', Iota ''RANAPCauseTreloccompleteExpiry'',
    Iota ''RANAPCauseTqueuingExpiry'', Iota ''RANAPCauseRelocationTriggered'',
    Iota ''RANAPCauseTRELOCallocExpiry'', Iota ''RANAPCauseUnableToEstablishDuringRelocation'',
    Iota ''RANAPCauseUnknownTargetRNC'', Iota ''RANAPCauseRelocationCancelled'',
    Iota ''RANAPCauseSuccessfulRelocation'',
    Iota ''RANAPCauseRequestedCipheringIntegrityProtectionAlgorithmsNotSupported'',
    Iota ''RANAPCauseChangeOfCipheringIntegrityProtectionIsNotSupported'',
    Iota ''RANAPCauseFailureInTheRadioInterfaceProcedure'',
    Iota ''RANAPCauseReleaseDueToUTRANGeneratedReason'', Iota ''RANAPCauseUserInactivity'',
    Iota ''RANAPCauseTimeCriticalRelocation'', Iota ''RANAPCauseRequestedTrafficClassNotAvailable'',
    Iota ''RANAPCauseInvalidRABParametersValue'', Iota ''RANAPCauseRequestedMaximumBitRateNotAvailable'',
    Iota ''RANAPCauseRequestedGuaranteedBitRateNotAvailable'',
    Iota ''RANAPCauseRequestedTransferDelayNotAchievable'',
    Iota ''RANAPCauseInvalidRABParametersCombination'',
    Iota ''RANAPCauseConditionViolationForSDUParameters'',
    Iota ''RANAPCauseConditionViolationForTrafficHandlingPriority'',
    Iota ''RANAPCauseConditionViolationForGuaranteedBitRate'',
    Iota ''RANAPCauseUserPlaneVersionsNotSupported'', Iota ''RANAPCauseIuUPFailure'',
    Iota ''RANAPCauseRelocationFailureInTargetCNRNCOrTargetSystem'', Iota ''RANAPCauseInvalidRABID'',
    Iota ''RANAPCauseNoRemainingRAB'', Iota ''RANAPCauseInteractionWithOtherProcedure'',
    Iota ''RANAPCauseRequestedMaximumBitRateForDLNotAvailable'',
    Iota ''RANAPCauseRequestedMaximumBitRateForULNotAvailable'',
    Iota ''RANAPCauseRequestedGuaranteedBitRateForDLNotAvailable'',
    Iota ''RANAPCauseRequestedGuaranteedBitRateForULNotAvailable'',
    Iota ''RANAPCauseRepeatedIntegrityCheckingFailure'', Iota ''RANAPCauseRequestedReportTypeNotSupported'',
    Iota ''RANAPCauseRequestSuperseded'',
    Iota ''RANAPCauseReleaseDueToUEWenRatedSignallingConnectionRelease'',
    Iota ''RANAPCauseResourceOptimisationRelocation'', Iota ''RANAPCauseRequestedInformationNotAvailable'',
    Iota ''RANAPCauseRelocationDesirableForRadioReasons'',
    Iota ''RANAPCauseRelocationNotSupportedInTargetRNCOrTargetSystem'', Iota ''RANAPCauseDirectedRetry'',
    Iota ''RANAPCauseRadioConnectionWithUELost'', Iota ''RANAPCauseRNCUnableToEstablishAllRFCs'',
    Iota ''RANAPCauseDecipheringKeysNotAvailable'', Iota ''RANAPCauseDedicatedAssistanceDataNotAvailable'',
    Iota ''RANAPCauseRelocationTargetNotAllowed'', Iota ''RANAPCauseLocationReportingCongestion'',
    Iota ''RANAPCauseReduceLoadInServingCell'', Iota ''RANAPCauseNoRadioResourcesAvailableInTargetCell'',
    Iota ''RANAPCauseGERANIuModeFailure'', Iota ''RANAPCauseAccessRestrictedDueToSharedNetworks'',
    Iota ''RANAPCauseIncomingRelocationNotSupportedDueTodPUESBINEFeature'',
    Iota ''RANAPCauseTrafficLoadInTheTargetCellHigherThanInTheSourceCell'',
    Iota ''RANAPCauseMBMSNoMulticastServiceForThisUE'', Iota ''RANAPCauseMBMSUnknownUEID'',
    Iota ''RANAPCauseSuccessfulMBMSSessionStartNoDataBearerNecessary'',
    Iota ''RANAPCauseMBMSSupersededDueToNNSF'', Iota ''RANAPCauseMBMSUELinkingAlreadyDone'',
    Iota ''RANAPCauseMBMSUEDeLinkingFailureNoExistingUELinking'', Iota ''RANAPCauseTMGIUnknown'',
    Iota ''RANAPCauseSignallingTransportResourceFailure'',
    Iota ''RANAPCauseIuTransportConnectionFailedToEstablish'', Iota ''_'', Iota ''_'', Iota ''_'',
    Iota ''_'', Iota ''_'', Iota ''_'', Iota ''_'', Iota ''_'', Iota ''_'', Iota ''_'', Iota ''_'',
    Iota ''_'', Iota ''_'', Iota ''_'', Iota ''RANAPCauseUserRestrictionStartIndication'',
    Iota ''RANAPCauseUserRestrictionEndIndication'', Iota ''RANAPCauseNormalRelease'', Iota ''_'',
    Iota ''_'', Iota ''_'', Iota ''_'', Iota ''_'', Iota ''_'', Iota ''_'', Iota ''_'', Iota ''_'',
    Iota ''_'', Iota ''_'', Iota ''_'', Iota ''_'', Iota ''RANAPCauseTransferSyntaxError'',
    Iota ''RANAPCauseSemanticError'', Iota ''RANAPCauseMessageNotCompatibleWithReceiverState'',
    Iota ''RANAPCauseAbstractSyntaxErrorReject'', Iota ''RANAPCauseAbstractSyntaxErrorIgnoreAndNotify'',
    Iota ''RANAPCauseAbstractSyntaxErrorFalselyConstructedMessage'', Iota ''_'', Iota ''_'', Iota ''_'',
    Iota ''_'', Iota ''_'', Iota ''_'', Iota ''_'', Iota ''_'', Iota ''_'', Iota ''_'',
    Iota ''RANAPCauseOAMIntervention'', Iota ''RANAPCauseNoResourceAvailable'',
    Iota ''RANAPCauseUnspecifiedFailure'', Iota ''RANAPCauseNetworkOptimisation'']"

section \<open>Version 0\<close>

definition v0_cause :: "(string \<times> nat) list" where
  "v0_cause = block_values Plain 0 [
    Fixed ''CauseRequestIMSI'' 0, Fixed ''CauseRequestIMEI'' 1, Fixed ''CauseRequestIMSIandIMEI'' 2,
    Fixed ''CauseNoIdentityNeeded'' 3, Fixed ''CauseRequestAccepted'' 128, Fixed ''CauseNonExistent'' 192,
    Fixed ''CauseInvalidMessageFormat'' 193, Fixed ''CauseIMSINotKnown'' 194,
    Fixed ''CauseMSIsGPRSDetached'' 195, Fixed ''CauseMSIsNotGPRSResponding'' 196,
    Fixed ''CauseMSRefuses'' 197, Fixed ''CauseVersionNotSupported'' 198,
    Fixed ''CauseNoResourcesAvailable'' 199, Fixed ''CauseServiceNotSupported'' 200,
    Fixed ''CauseMandatoryIEIncorrect'' 201, Fixed ''CauseMandatoryIEMissing'' 202,
    Fixed ''CauseOptionalIEIncorrect'' 203, Fixed ''CauseSystemFailure'' 204,
    Fixed ''CauseRoamingRestriction'' 205, Fixed ''CausePTMSISignatureMismatch'' 206,
    Fixed ''CauseGPRSConnectionSuspended'' 207, Fixed ''CauseAuthenticationFailure'' 208,
    Fixed ''CauseUserAuthenticationFailed'' 209]"

definition v0_pdp_type_organization :: "(string \<times> nat) list" where
  "v0_pdp_type_organization = block_values (Disjoined 0xf0) 0 [
    Iota ''PDPTypeETSI'', Iota ''PDPTypeIETF'']"

definition v0_selectionmode :: "(string \<times> nat) list" where
  "v0_selectionmode = block_values (Disjoined 0xf0) 0 [
    Iota ''SelectionModeMSorNetworkProvidedAPNSubscribedVerified'',
    Iota ''SelectionModeMSProvidedAPNSubscriptionNotVerified'',
    Iota ''SelectionModeNetworkProvidedAPNSubscriptionNotVerified'']"

section \<open>Numbers used by the library\<close>

lemma interface_types_used:
  "map_of v2_interfacetype ''IFTypeS1USGWGTPU'' = Some 1" "map_of v2_interfacetype ''IFTypeS5S8SGWGTPU'' = Some 4"
  "map_of v2_interfacetype ''IFTypeS5S8PGWGTPU'' = Some 5" "map_of v2_interfacetype ''IFTypeS5S8SGWGTPC'' = Some 6"
  "map_of v2_interfacetype ''IFTypeS5S8PGWGTPC'' = Some 7" "map_of v2_interfacetype ''IFTypeS11MMEGTPC'' = Some 10"
  "map_of v2_interfacetype ''IFTypeS11S4SGWGTPC'' = Some 11"
  by code_simp+

lemma causes_used:
  "map_of v2_cause ''CausePGWNotResponding'' = Some 12" "map_of v2_cause ''CauseRequestAccepted'' = Some 16"
  "map_of v2_cause ''CauseContextNotFound'' = Some 64" "map_of v2_cause ''CauseMandatoryIEMissing'' = Some 70"
  "map_of v2_cause ''CauseNoResourcesAvailable'' = Some 73" "map_of v2_cause ''CauseIMSIIMEINotKnown'' = Some 96"
  by code_simp+

text \<open>The constants of a block have values of their own, which fit in the octet or the two octets of their type.\<close>

lemma causes_distinct:
  "distinct (map snd v2_cause)" "distinct (map snd (v1_cause @ v1_cause_2 @ v1_cause_3))" "distinct (map snd v0_cause)"
  "list_all (\<lambda>(c, v). v < 256) (v2_cause @ v1_cause @ v1_cause_2 @ v1_cause_3 @ v0_cause)"
  by code_simp+

lemma container_ids_distinct:
  "distinct (map snd v2_container_id)" "distinct (map snd v1_container_id)" "map snd v2_container_id = map snd v1_container_id"
  by code_simp+

text \<open>The constants that replace misspelt ones have their values.\<close>

lemma renamed_constants_agree:
  "map_of v2_renamed_constants ''ContIDIPAddressAllocationViaNASSignalling'' = map_of v2_container_id ''ContIDIPaddressAllocationViaNASSignalling''"
  "map_of v2_renamed_constants ''ContIDIPv4AddressAllocationViaDHCPv4'' = map_of v2_container_id ''ContIDIPv4addressAllocationViaDHCPv4''"
  "map_of v2_renamed_constants ''ContID3GPPPSDataOffUEStatus'' = map_of v2_container_id ''ContID3GPPPSDataOffUEstatus''"
  by code_simp+

end
